(* ===== verification/Prelude.thy ===== *)
theory Prelude
  imports Main "HOL-Library.List_Lexorder" "HOL-Library.Product_Lexorder"
begin

text \<open>
  What the components share: Python strings as lists of code points with the methods the
  sources call on them, points in time, JSON values, the exceptions the sources raise, and
  database tables as lists of rows with the queries and updates the services issue.
\<close>

named_theorems table_simps \<open>how the table operations act on keys, rows and look-ups\<close>

section \<open>Strings\<close>

text \<open>
  A Python \<open>str\<close> is a sequence of code points; \<open>len\<close> and slices count code points. ASCII
  literals are written with \<open>asc\<close>, other literals as lists of code points. The order on
  strings is the lexicographic one on code points, as in Python.
\<close>

type_synonym pystr = "nat list"

definition asc :: "string \<Rightarrow> pystr" where
  "asc s = map of_char s"

text \<open>\<open>str.isspace\<close> on one character: the code points \<open>str.strip\<close> removes.\<close>

definition py_isspace :: "nat \<Rightarrow> bool" where
  "py_isspace c \<longleftrightarrow>
     9 \<le> c \<and> c \<le> 13 \<or> 28 \<le> c \<and> c \<le> 32 \<or> c = 0x85 \<or> c = 0xA0 \<or> c = 0x1680 \<or>
     0x2000 \<le> c \<and> c \<le> 0x200A \<or> c = 0x2028 \<or> c = 0x2029 \<or> c = 0x202F \<or> c = 0x205F \<or>
     c = 0x3000"

definition py_strip :: "pystr \<Rightarrow> pystr" where
  "py_strip s = rev (dropWhile py_isspace (rev (dropWhile py_isspace s)))"

text \<open>\<open>a or b\<close> on strings, and \<open>s[-n:]\<close> for a positive \<open>n\<close>.\<close>

definition py_or :: "pystr \<Rightarrow> pystr \<Rightarrow> pystr" where
  "py_or a b = (if a = [] then b else a)"

definition py_last :: "nat \<Rightarrow> pystr \<Rightarrow> pystr" where
  "py_last n s = drop (length s - n) s"

text \<open>\<open>s or None\<close>: the empty string becomes None.\<close>

definition str_or_none :: "pystr \<Rightarrow> pystr option" where
  "str_or_none s = (if s = [] then None else Some s)"

lemma dropWhile_idem [simp]: "dropWhile P (dropWhile P xs) = dropWhile P xs"
  by (induction xs) auto

lemma py_strip_Nil [simp]: "py_strip [] = []"
  by (simp add: py_strip_def)

lemma hd_dropWhile_rev_aux:
  assumes "xs \<noteq> []" and "\<not> P (hd xs)"
  shows "\<not> P (hd (rev (dropWhile P (rev xs)))) \<and> rev (dropWhile P (rev xs)) \<noteq> []"
proof -
  from assms(1) obtain a ys where xs: "xs = a # ys" by (cases xs) auto
  with assms(2) have a: "\<not> P a" by simp
  have eq: "dropWhile P (rev ys @ [a]) = dropWhile P (rev ys) @ [a]"
    using a by (induction "rev ys") (auto simp: dropWhile_append)
  then show ?thesis using a by (simp add: xs)
qed

lemma py_strip_idem [simp]: "py_strip (py_strip s) = py_strip s"
proof (cases "dropWhile py_isspace s = []")
  case True
  then have "py_strip s = []" by (simp only: py_strip_def) simp
  then show ?thesis by simp
next
  case False
  let ?d = "dropWhile py_isspace s"
  let ?t = "rev (dropWhile py_isspace (rev ?d))"
  have "\<not> py_isspace (hd ?d)" using False by (rule hd_dropWhile)
  then have t: "\<not> py_isspace (hd ?t)" "?t \<noteq> []"
    using hd_dropWhile_rev_aux[OF False] by blast+
  then have "dropWhile py_isspace ?t = ?t" by (cases ?t) auto
  then show ?thesis by (simp add: py_strip_def)
qed

lemma py_or_Nil [simp]: "py_or [] b = b"
  by (simp add: py_or_def)

lemma py_or_nonempty [simp]: "b \<noteq> [] \<Longrightarrow> py_or a b \<noteq> []"
  by (simp add: py_or_def)

lemma length_py_last [simp]: "length (py_last n s) = min n (length s)"
  by (simp add: py_last_def)

lemma asc_Nil_iff [simp]: "asc s = [] \<longleftrightarrow> s = []" "[] = asc s \<longleftrightarrow> s = []"
  by (auto simp: asc_def)

lemma asc_inject [simp]: "asc s = asc t \<longleftrightarrow> s = t"
proof
  assume "asc s = asc t"
  then show "s = t"
    unfolding asc_def by (rule map_inj_on) (auto simp: inj_on_def)
qed simp

lemma set_asc: "set (asc s) = of_char ` set s"
  by (simp add: asc_def)

text \<open>\<open>dict.fromkeys\<close>: the first occurrences, in order.\<close>

fun fromkeys :: "'a list \<Rightarrow> 'a list" where
  "fromkeys [] = []"
| "fromkeys (x # xs) = x # filter (\<lambda>y. y \<noteq> x) (fromkeys xs)"

lemma set_fromkeys [simp]: "set (fromkeys xs) = set xs"
  by (induction xs) auto

lemma distinct_fromkeys [simp]: "distinct (fromkeys xs)"
  by (induction xs) auto

lemma fromkeys_distinct: "distinct xs \<Longrightarrow> fromkeys xs = xs"
  by (induction xs) (auto simp: filter_id_conv)

lemma length_fromkeys: "length (fromkeys xs) \<le> length xs"
  by (induction xs) (auto intro: order_trans[OF length_filter_le])

lemma length_fromkeys_distinct: "length (fromkeys xs) = length xs \<Longrightarrow> distinct xs"
  by (metis card_distinct distinct_card distinct_fromkeys set_fromkeys)

section \<open>Time\<close>

text \<open>
  A naive UTC \<open>datetime\<close> is its number of microseconds since 1970-01-01, a \<open>timedelta\<close> a
  number of microseconds. An operation reads \<open>utcnow()\<close> one or more times: the readings
  are \<open>utc c 0\<close>, \<open>utc c 1\<close>, and so on; \<open>sqlnow c\<close> is what the database server's \<open>NOW()\<close>
  yields in the operation's statements.
\<close>

type_synonym time = int

definition seconds :: "int \<Rightarrow> time" where
  "seconds n = 1000000 * n"

record clock =
  utc :: "nat \<Rightarrow> time"
  sqlnow :: time

definition at_time :: "time \<Rightarrow> clock" where
  "at_time t = \<lparr>utc = (\<lambda>_. t), sqlnow = t\<rparr>"

lemma at_time_simps [simp]: "utc (at_time t) i = t" "sqlnow (at_time t) = t"
  by (simp_all add: at_time_def)

section \<open>Exceptions\<close>

text \<open>The exceptions of the modelled code; \<open>BizError\<close> carries its message and HTTP code.\<close>

datatype pyerr =
    ValueError pystr
  | LookupError pystr
  | TypeError
  | OverflowError
  | IntegrityError
  | NoResultFound
  | BizError pystr int
  | HandlerError pystr
  | KeyError pystr
  | RuntimeError pystr

type_synonym 'a res = "pyerr + 'a"

end
