(* ===== verification/Tables.thy ===== *)
theory Tables
  imports Prelude
begin

text \<open>
  Database tables. A table is the list of its rows in insertion order, a session's view of
  it a list of the same kind. \<open>get_row\<close> is the look-up by primary key that the handlers
  start with, \<open>put_row\<close> the UPDATE that a commit issues for the one object they changed,
  \<open>first_by\<close> is \<open>ORDER BY ... LIMIT 1\<close>, \<open>page_rows\<close> is \<open>OFFSET ... LIMIT ...\<close>.
\<close>

definition get_row :: "('r \<Rightarrow> 'k) \<Rightarrow> 'k \<Rightarrow> 'r list \<Rightarrow> 'r option" where
  "get_row key k tbl = find (\<lambda>r. key r = k) tbl"

definition put_row :: "('r \<Rightarrow> 'k) \<Rightarrow> 'r \<Rightarrow> 'r list \<Rightarrow> 'r list" where
  "put_row key r' tbl = map (\<lambda>r. if key r = key r' then r' else r) tbl"

definition first_by :: "('r \<Rightarrow> 'o::linorder) \<Rightarrow> 'r list \<Rightarrow> 'r option" where
  "first_by f rows = (case sort_key f rows of [] \<Rightarrow> None | r # _ \<Rightarrow> Some r)"

definition page_rows :: "nat \<Rightarrow> nat \<Rightarrow> 'r list \<Rightarrow> 'r list" where
  "page_rows off lim rows = take lim (drop off rows)"

section \<open>Look-ups and updates by primary key\<close>

lemma get_row_code [simp]:
  "get_row key k [] = None"
  "get_row key k (r # rs) = (if key r = k then Some r else get_row key k rs)"
  by (simp_all add: get_row_def)

lemma put_row_code [simp]:
  "put_row key r' [] = []"
  "put_row key r' (r # rs) = (if key r = key r' then r' else r) # put_row key r' rs"
  by (simp_all add: put_row_def)

lemma get_row_SomeD: "get_row key k tbl = Some r \<Longrightarrow> r \<in> set tbl \<and> key r = k"
  by (induction tbl) (auto split: if_splits)

lemma get_row_key: "get_row key k tbl = Some r \<Longrightarrow> key r = k"
  using get_row_SomeD[of key k tbl r] by blast

lemma get_row_in: "get_row key k tbl = Some r \<Longrightarrow> r \<in> set tbl"
  using get_row_SomeD[of key k tbl r] by blast

lemma get_row_None_iff: "get_row key k tbl = None \<longleftrightarrow> k \<notin> key ` set tbl"
  by (induction tbl) auto

lemma get_row_distinct:
  "distinct (map key tbl) \<Longrightarrow> r \<in> set tbl \<Longrightarrow> get_row key (key r) tbl = Some r"
  by (induction tbl) (auto simp: image_iff)

lemma map_key_put_row [table_simps]: "map key (put_row key r tbl) = map key tbl"
  by (induction tbl) auto

lemma length_put_row [table_simps]: "length (put_row key r tbl) = length tbl"
  by (simp add: put_row_def)

lemma get_row_put_row [table_simps]:
  "get_row key k (put_row key r tbl) =
     (if k = key r \<and> get_row key k tbl \<noteq> None then Some r else get_row key k tbl)"
  by (induction tbl) auto

lemma set_put_row_subset: "set (put_row key r tbl) \<subseteq> insert r (set tbl)"
  by (induction tbl) auto

lemma put_row_set:
  "x \<in> set (put_row key r tbl) \<Longrightarrow> x = r \<or> x \<in> set tbl \<and> key x \<noteq> key r"
  by (induction tbl) (auto split: if_splits)

lemma put_row_keeps: "x \<in> set tbl \<Longrightarrow> key x \<noteq> key r \<Longrightarrow> x \<in> set (put_row key r tbl)"
  by (induction tbl) auto

lemma put_row_same:
  "distinct (map key tbl) \<Longrightarrow> r \<in> set tbl \<Longrightarrow> put_row key r tbl = tbl"
  by (auto simp: put_row_def distinct_map intro!: map_idI dest: inj_onD)

lemma ball_put_row:
  "(\<And>x. x \<in> set tbl \<Longrightarrow> P x) \<Longrightarrow> P r \<Longrightarrow> x \<in> set (put_row key r tbl) \<Longrightarrow> P x"
  using put_row_set[of x key r tbl] by auto

text \<open>A quantity summed over a table changes by the change of the row that was written.\<close>

lemma put_row_absent: "key r \<notin> key ` set tbl \<Longrightarrow> put_row key r tbl = tbl"
  by (induction tbl) auto

lemma sum_put_row:
  fixes f :: "'r \<Rightarrow> nat"
  assumes "distinct (map key tbl)" and "get_row key (key r) tbl = Some old"
  shows "sum_list (map f (put_row key r tbl)) + f old = sum_list (map f tbl) + f r"
  using assms
proof (induction tbl)
  case Nil
  then show ?case by simp
next
  case (Cons a tbl)
  show ?case
  proof (cases "key a = key r")
    case True
    with Cons.prems have "key r \<notin> key ` set tbl" and "a = old" by auto
    with True show ?thesis by (simp add: put_row_absent)
  next
    case False
    with Cons show ?thesis by simp
  qed
qed

section \<open>Rows that change by a relation\<close>

text \<open>
  The components describe what a step does to the rows it finds by a relation between each
  row and its successor, row by row.
\<close>

lemma list_all2_put_row:
  assumes refl: "\<And>x. R x x" and "distinct (map key tbl)"
    and "get_row key (key r) tbl = Some t" and "R t r"
  shows "list_all2 R tbl (put_row key r tbl)"
  using assms(2,3)
proof (induction tbl)
  case Nil
  then show ?case by simp
next
  case (Cons a tbl)
  show ?case
  proof (cases "key a = key r")
    case True
    with Cons.prems have "key r \<notin> key ` set tbl" and "a = t" by auto
    then show ?thesis using True assms(4) refl by (simp add: put_row_absent list.rel_refl)
  next
    case False
    with Cons refl show ?thesis by simp
  qed
qed

lemma moves_map:
  assumes "list_all2 R xs ys" and "\<And>x y. R x y \<Longrightarrow> f y = f x"
  shows "map f ys = map f xs"
  using assms by (induction rule: list_all2_induct) auto

lemma moves_list_all:
  assumes "list_all2 R xs ys" and "\<And>x y. R x y \<Longrightarrow> P x \<Longrightarrow> P y" and "list_all P xs"
  shows "list_all P ys"
  using assms(1,3) by (induction rule: list_all2_induct) (auto dest: assms(2))

lemma get_row_moves:
  assumes "list_all2 R xs ys" and "\<And>x y. R x y \<Longrightarrow> key y = key x" and "get_row key k xs = Some t"
  shows "\<exists>t'. get_row key k ys = Some t' \<and> R t t'"
  using assms(1,3) by (induction rule: list_all2_induct) (auto simp: assms(2) split: if_splits)

lemma get_row_take:
  "get_row key k (take n xs) = Some t \<Longrightarrow> get_row key k xs = Some t"
  by (induction xs arbitrary: n) (auto simp: take_Cons split: if_splits nat.splits)

lemma sum_list_moves:
  fixes f :: "'r \<Rightarrow> nat"
  assumes "list_all2 R xs ys" and "\<And>x y. R x y \<Longrightarrow> f y \<le> f x"
  shows "sum_list (map f ys) \<le> sum_list (map f xs)"
  using assms(1) by (induction rule: list_all2_induct) (auto intro: add_mono assms(2))

lemma find_append: "find P (xs @ ys) = (case find P xs of None \<Rightarrow> find P ys | Some x \<Rightarrow> Some x)"
  by (induction xs) auto

section \<open>ORDER BY with a limit\<close>

lemma first_by_None_iff [simp]: "first_by f rows = None \<longleftrightarrow> rows = []"
  by (auto simp: first_by_def split: list.splits dest: arg_cong[of _ _ set])

lemma first_by_Nil [simp]: "first_by f [] = None"
  by (simp add: first_by_def)

lemma first_by_SomeD:
  assumes "first_by f rows = Some r"
  shows "r \<in> set rows \<and> (\<forall>x \<in> set rows. f r \<le> f x)"
proof -
  from assms obtain rs where rs: "sort_key f rows = r # rs"
    by (auto simp: first_by_def split: list.splits)
  have "sorted (map f (sort_key f rows))" by simp
  then have "\<forall>x \<in> set (r # rs). f r \<le> f x" by (auto simp: rs)
  moreover have "set rows = set (r # rs)" using arg_cong[OF rs, of set] by simp
  ultimately show ?thesis by simp
qed

section \<open>Pages\<close>

lemma page_rows_subset: "set (page_rows off lim rows) \<subseteq> set rows"
  unfolding page_rows_def by (meson set_drop_subset set_take_subset subset_trans)

lemma length_page_rows: "length (page_rows off lim rows) \<le> lim"
  by (simp add: page_rows_def)

text \<open>Consecutive pages of one size tile the rows.\<close>

lemma pages_tile:
  "concat (map (\<lambda>i. page_rows (i * n) n rows) [0..<k]) = take (k * n) rows"
proof (induction k)
  case 0
  then show ?case by simp
next
  case (Suc k)
  have "take (Suc k * n) rows = take (k * n) rows @ take n (drop (k * n) rows)"
    by (metis add.commute mult_Suc take_add)
  with Suc show ?case by (simp add: page_rows_def)
qed

end
