(* ===== verification/Json.thy ===== *)
theory Json
  imports Prelude "HOL-Library.AList"
begin

text \<open>
  The values handlers return and payloads carry, JSON documents, and \<open>json_safe\<close> of
  \<open>task_queue_service.py\<close>, the function every JSON column is written through.
\<close>

text \<open>
  \<open>PFloat\<close> carries the \<open>repr\<close> of the float, which is also its JSON text. \<open>PObj\<close> is an object
  \<open>json.dumps\<close> does not know, with its \<open>str\<close>; \<open>PModel\<close> one that has \<open>model_dump\<close>, with its \<open>str\<close>
  and its dump. A dict is the list of its items in insertion order.
\<close>

datatype pyval =
    PNone
  | PBool bool
  | PInt int
  | PFloat pystr
  | PStr pystr
  | PList "pyval list"
  | PTuple "pyval list"
  | PDict "(pyval \<times> pyval) list"
  | PModel pystr pyval
  | PObj pystr

datatype json =
    JNull
  | JBool bool
  | JInt int
  | JFloat pystr
  | JStr pystr
  | JList "json list"
  | JObj "(pystr \<times> json) list"

section \<open>Decimal text\<close>

fun dec_nat :: "nat \<Rightarrow> pystr" where
  "dec_nat n = (if n < 10 then [48 + n] else dec_nat (n div 10) @ [48 + n mod 10])"

declare dec_nat.simps [simp del]

definition py_str_int :: "int \<Rightarrow> pystr" where
  "py_str_int i = (if i < 0 then 45 # dec_nat (nat (- i)) else dec_nat (nat i))"

lemma dec_nat_digits: "c \<in> set (dec_nat n) \<Longrightarrow> 48 \<le> c \<and> c \<le> 57"
proof (induction n rule: dec_nat.induct)
  case (1 n)
  show ?case
  proof (cases "n < 10")
    case True
    with "1.prems" show ?thesis by (simp add: dec_nat.simps[of n])
  next
    case False
    with "1.prems" consider "c \<in> set (dec_nat (n div 10))" | "c = 48 + n mod 10"
      by (auto simp: dec_nat.simps[of n])
    then show ?thesis
    proof cases
      case 1
      with False "1.IH" show ?thesis by blast
    next
      case 2
      have "n mod 10 < 10" by simp
      with 2 show ?thesis by linarith
    qed
  qed
qed

lemma dec_nat_nonempty [simp]: "dec_nat n \<noteq> []"
  by (subst dec_nat.simps) simp

lemma py_str_int_chars: "c \<in> set (py_str_int i) \<Longrightarrow> c = 45 \<or> 48 \<le> c \<and> c \<le> 57"
  by (auto simp: py_str_int_def dest: dec_nat_digits split: if_splits)

section \<open>json.loads of json.dumps\<close>

text \<open>
  \<open>json.dumps\<close> turns the keys of a dict into strings and raises \<open>TypeError\<close> for a key of any
  other type, \<open>default=str\<close> or not; two keys may become the same string, and then \<open>json.loads\<close>
  keeps the later value at the place of the first.
\<close>

fun json_key :: "pyval \<Rightarrow> pystr option" where
  "json_key (PStr s) = Some s"
| "json_key (PInt i) = Some (py_str_int i)"
| "json_key (PFloat s) = Some s"
| "json_key (PBool b) = Some (if b then asc ''true'' else asc ''false'')"
| "json_key PNone = Some (asc ''null'')"
| "json_key _ = None"

fun dumps_loads :: "pyval \<Rightarrow> json option"
and dumps_loads_list :: "pyval list \<Rightarrow> json list option"
and dumps_loads_items ::
  "(pyval \<times> pyval) list \<Rightarrow> (pystr \<times> json) list \<Rightarrow> (pystr \<times> json) list option" where
  "dumps_loads PNone = Some JNull"
| "dumps_loads (PBool b) = Some (JBool b)"
| "dumps_loads (PInt i) = Some (JInt i)"
| "dumps_loads (PFloat s) = Some (JFloat s)"
| "dumps_loads (PStr s) = Some (JStr s)"
| "dumps_loads (PList vs) = map_option JList (dumps_loads_list vs)"
| "dumps_loads (PTuple vs) = map_option JList (dumps_loads_list vs)"
| "dumps_loads (PDict kvs) = map_option JObj (dumps_loads_items kvs [])"
| "dumps_loads (PModel s d) = Some (JStr s)"
| "dumps_loads (PObj s) = Some (JStr s)"
| "dumps_loads_list [] = Some []"
| "dumps_loads_list (v # vs) =
     (case dumps_loads v of None \<Rightarrow> None
      | Some j \<Rightarrow> map_option ((#) j) (dumps_loads_list vs))"
| "dumps_loads_items [] acc = Some acc"
| "dumps_loads_items ((k, v) # kvs) acc =
     (case json_key k of None \<Rightarrow> None
      | Some ks \<Rightarrow> (case dumps_loads v of None \<Rightarrow> None
         | Some j \<Rightarrow> dumps_loads_items kvs (AList.update ks j acc)))"

text \<open>\<open>json_safe\<close>: only a top-level \<open>model_dump\<close> is called, nested ones fall to \<open>str\<close>.\<close>

fun model_dump :: "pyval \<Rightarrow> pyval" where
  "model_dump (PModel s d) = d"
| "model_dump v = v"

definition json_safe :: "pyval \<Rightarrow> json res" where
  "json_safe value =
     (if value = PNone then Inr JNull
      else (case dumps_loads (model_dump value) of None \<Rightarrow> Inl TypeError | Some j \<Rightarrow> Inr j))"

text \<open>A JSON document read back into Python, and the documents whose keys are all distinct.\<close>

fun of_json :: "json \<Rightarrow> pyval" where
  "of_json JNull = PNone"
| "of_json (JBool b) = PBool b"
| "of_json (JInt i) = PInt i"
| "of_json (JFloat s) = PFloat s"
| "of_json (JStr s) = PStr s"
| "of_json (JList js) = PList (map of_json js)"
| "of_json (JObj kvs) = PDict (map (\<lambda>(k, j). (PStr k, of_json j)) kvs)"

fun wf_json :: "json \<Rightarrow> bool" where
  "wf_json (JList js) = list_all wf_json js"
| "wf_json (JObj kvs) = (distinct (map fst kvs) \<and> list_all (\<lambda>(k, j). wf_json j) kvs)"
| "wf_json _ = True"

lemma wf_json_update:
  "list_all (\<lambda>(k, j). wf_json j) acc \<Longrightarrow> wf_json j \<Longrightarrow>
   list_all (\<lambda>(k, j). wf_json j) (AList.update ks j acc)"
  by (induction acc) auto

lemma dumps_loads_wf:
  "dumps_loads v = Some j \<Longrightarrow> wf_json j"
  "dumps_loads_list vs = Some js \<Longrightarrow> list_all wf_json js"
  "dumps_loads_items kvs acc = Some out \<Longrightarrow>
     distinct (map fst acc) \<Longrightarrow> list_all (\<lambda>(k, j). wf_json j) acc \<Longrightarrow>
     distinct (map fst out) \<and> list_all (\<lambda>(k, j). wf_json j) out"
proof (induction v and vs and kvs acc arbitrary: j and js and out
    rule: dumps_loads_dumps_loads_list_dumps_loads_items.induct)
  case (14 k v kvs acc)
  then show ?case
    by (auto split: option.splits simp: wf_json_update distinct_update)
qed (auto split: option.splits)

lemma update_append_new:
  "ks \<notin> fst ` set acc \<Longrightarrow> AList.update ks j acc = acc @ [(ks, j)]"
  by (induction acc) auto

lemma dumps_loads_of_json_aux:
  "(wf_json j \<longrightarrow> dumps_loads (of_json j) = Some j)"
proof (induction j)
  case (JList js)
  have "list_all wf_json js \<Longrightarrow> dumps_loads_list (map of_json js) = Some js"
    using JList by (induction js) auto
  then show ?case by simp
next
  case (JObj kvs)
  have "\<And>acc. list_all (\<lambda>(k, j). wf_json j) kvs \<Longrightarrow> distinct (map fst (acc @ kvs)) \<Longrightarrow>
     dumps_loads_items (map (\<lambda>(k, j). (PStr k, of_json j)) kvs) acc = Some (acc @ kvs)"
    using JObj
  proof (induction kvs)
    case Nil
    then show ?case by simp
  next
    case (Cons p kvs)
    obtain k j where p: "p = (k, j)" by (cases p)
    have j: "dumps_loads (of_json j) = Some j"
      using Cons.prems(1) Cons.prems(3)[of "(k, j)" j] by (simp add: p)
    have IH: "dumps_loads_items (map (\<lambda>(k, j). (PStr k, of_json j)) kvs) (acc @ [(k, j)]) =
        Some ((acc @ [(k, j)]) @ kvs)"
      by (rule Cons.IH) (use Cons.prems in \<open>auto simp: p\<close>)
    then show ?case using Cons.prems(2) by (simp add: p j update_append_new)
  qed
  from this[of "[]"] show ?case by simp
qed auto

lemma dumps_loads_of_json [simp]: "wf_json j \<Longrightarrow> dumps_loads (of_json j) = Some j"
  using dumps_loads_of_json_aux by blast

lemma json_safe_dumps: "json_safe v = Inr j \<Longrightarrow> dumps_loads (model_dump v) = Some j"
  by (auto simp: json_safe_def split: if_splits option.splits)

lemma json_safe_wf: "json_safe v = Inr j \<Longrightarrow> wf_json j"
  by (rule dumps_loads_wf(1)[OF json_safe_dumps])

lemma json_safe_of_json [simp]: "wf_json j \<Longrightarrow> json_safe (of_json j) = Inr j"
  using dumps_loads_of_json[of j] by (cases j) (auto simp: json_safe_def)

lemma json_safe_error: "json_safe v = Inl e \<Longrightarrow> e = TypeError"
  by (auto simp: json_safe_def split: if_splits option.splits)

end
