(* ===== verification/TaskQueue.thy ===== *)
theory TaskQueue
  imports Tables Json
begin

text \<open>
  The persistent task queue: \<open>models/persistent_task.py\<close> (the row) and
  \<open>services/task_queue_service.py\<close> (every operation on it). A table is the list of rows; an
  operation returns the new table. Rows that another transaction holds locked are the ids
  \<open>busy\<close>: \<open>SKIP LOCKED\<close> passes over them.
\<close>

section \<open>The row\<close>

datatype task_status = TQueued | TRunning | TSucceeded | TFailed | TDead

definition task_status_str :: "task_status \<Rightarrow> pystr" where
  "task_status_str s = asc (case s of TQueued \<Rightarrow> ''queued'' | TRunning \<Rightarrow> ''running''
     | TSucceeded \<Rightarrow> ''succeeded'' | TFailed \<Rightarrow> ''failed'' | TDead \<Rightarrow> ''dead'')"

record ptask =
  pt_id :: pystr
  pt_tenant_id :: pystr
  pt_queue_name :: pystr
  pt_task_type :: pystr
  pt_payload :: json
  pt_status :: task_status
  pt_priority :: int
  pt_attempts :: int
  pt_max_attempts :: int
  pt_run_after :: time
  pt_idempotency_key :: "pystr option"
  pt_correlation_id :: pystr
  pt_causation_id :: pystr
  pt_locked_by :: pystr
  pt_locked_at :: "time option"
  pt_heartbeat_at :: "time option"
  pt_result :: json
  pt_last_error :: pystr
  pt_created_at :: time
  pt_updated_at :: time
  pt_finished_at :: "time option"

type_synonym task_table = "ptask list"

definition CLAIMABLE_STATUSES :: "task_status list" where
  "CLAIMABLE_STATUSES = [TQueued, TFailed]"

definition FINAL_STATUSES :: "task_status list" where
  "FINAL_STATUSES = [TSucceeded, TDead]"

text \<open>
  The commit of a changed row: an UPDATE is issued only for a row that changed, and then the
  \<open>onupdate=func.now()\<close> of the model sets \<open>updated_at\<close>.
\<close>

definition commit_task :: "clock \<Rightarrow> ptask \<Rightarrow> ptask \<Rightarrow> task_table \<Rightarrow> task_table" where
  "commit_task c old new tbl =
     (if new = old then tbl else put_row pt_id (new\<lparr>pt_updated_at := sqlnow c\<rparr>) tbl)"

section \<open>Enqueueing\<close>

record enqueue_args =
  ea_task_type :: pystr
  ea_payload :: "pyval option"
  ea_queue :: pystr
  ea_idempotency_key :: pystr
  ea_tenant_id :: pystr
  ea_priority :: int
  ea_max_attempts :: int
  ea_run_after :: "time option"
  ea_correlation_id :: pystr
  ea_causation_id :: pystr

definition default_enqueue_args :: "pystr \<Rightarrow> enqueue_args" where
  "default_enqueue_args ty = \<lparr>ea_task_type = ty, ea_payload = None, ea_queue = asc ''default'',
     ea_idempotency_key = [], ea_tenant_id = asc ''default'', ea_priority = 0,
     ea_max_attempts = 3, ea_run_after = None, ea_correlation_id = [], ea_causation_id = []\<rparr>"

definition msg_task_type_empty :: pystr where
  "msg_task_type_empty = asc ''task_type '' @ [0x4e0d, 0x80fd, 0x4e3a, 0x7a7a]"

definition norm_tenant :: "pystr \<Rightarrow> pystr" where
  "norm_tenant t = py_or (py_strip t) (asc ''default'')"

definition has_task_key :: "pystr \<Rightarrow> pystr \<Rightarrow> pystr \<Rightarrow> ptask \<Rightarrow> bool" where
  "has_task_key tenant ty idem t \<longleftrightarrow> pt_tenant_id t = tenant \<and> pt_task_type t = ty \<and>
     pt_idempotency_key t = Some idem"

text \<open>The dictionary \<open>payload or {}\<close>: None and the empty dict both become the empty dict.\<close>

definition payload_or_empty :: "pyval option \<Rightarrow> pyval" where
  "payload_or_empty p = (case p of None \<Rightarrow> PDict [] | Some v \<Rightarrow> v)"

definition new_task :: "clock \<Rightarrow> pystr \<Rightarrow> json \<Rightarrow> enqueue_args \<Rightarrow> ptask" where
  "new_task c uuid payload a = \<lparr>
     pt_id = uuid,
     pt_tenant_id = norm_tenant (ea_tenant_id a),
     pt_queue_name = py_or (py_strip (ea_queue a)) (asc ''default''),
     pt_task_type = py_strip (ea_task_type a),
     pt_payload = payload,
     pt_status = TQueued,
     pt_priority = max (-100) (min 100 (ea_priority a)),
     pt_attempts = 0,
     pt_max_attempts = max 1 (min 100 (ea_max_attempts a)),
     pt_run_after = (case ea_run_after a of Some t \<Rightarrow> t | None \<Rightarrow> utc c 0),
     pt_idempotency_key = str_or_none (py_strip (ea_idempotency_key a)),
     pt_correlation_id = ea_correlation_id a,
     pt_causation_id = ea_causation_id a,
     pt_locked_by = [],
     pt_locked_at = None,
     pt_heartbeat_at = None,
     pt_result = JNull,
     pt_last_error = [],
     pt_created_at = sqlnow c,
     pt_updated_at = sqlnow c,
     pt_finished_at = None\<rparr>"

text \<open>
  The INSERT of the savepoint: the primary key and the constraint \<open>uq_pt_idem\<close> (a NULL key
  violates nothing).
\<close>

definition insert_task :: "ptask \<Rightarrow> task_table \<Rightarrow> task_table res" where
  "insert_task t tbl =
     (if pt_id t \<in> set (map pt_id tbl) then Inl IntegrityError
      else (case pt_idempotency_key t of
          None \<Rightarrow> Inr (tbl @ [t])
        | Some k \<Rightarrow> if list_ex (has_task_key (pt_tenant_id t) (pt_task_type t) k) tbl
                    then Inl IntegrityError else Inr (tbl @ [t])))"

text \<open>
  \<open>view\<close> is what the pre-check's SELECT reads, \<open>tbl\<close> the table the INSERT meets (another
  request may have committed in between), \<open>reread\<close> what the SELECT after an integrity error
  reads. The pair returned is the task and the table.
\<close>

definition enqueue_task_record ::
  "clock \<Rightarrow> pystr \<Rightarrow> task_table \<Rightarrow> task_table \<Rightarrow> enqueue_args \<Rightarrow> task_table \<Rightarrow> (ptask \<times> task_table) res"
where
  "enqueue_task_record c uuid view reread a tbl =
     (let task_type = py_strip (ea_task_type a);
          tenant_id = norm_tenant (ea_tenant_id a);
          idem = str_or_none (py_strip (ea_idempotency_key a));
          lookup = (\<lambda>v. case idem of None \<Rightarrow> None
                        | Some k \<Rightarrow> find (has_task_key tenant_id task_type k) v)
      in if task_type = [] then Inl (ValueError msg_task_type_empty)
         else (case lookup view of
             Some existing \<Rightarrow> Inr (existing, tbl)
           | None \<Rightarrow>
             (case json_safe (payload_or_empty (ea_payload a)) of
                Inl e \<Rightarrow> Inl e
              | Inr payload \<Rightarrow>
                let task = new_task c uuid payload a
                in (case insert_task task tbl of
                      Inr tbl' \<Rightarrow> Inr (task, tbl')
                    | Inl e \<Rightarrow>
                      if idem = None then Inl e
                      else (case lookup reread of
                          Some existing \<Rightarrow> Inr (existing, tbl)
                        | None \<Rightarrow> Inl NoResultFound)))))"

section \<open>Claiming\<close>

definition claimable :: "time \<Rightarrow> pystr \<Rightarrow> ptask \<Rightarrow> bool" where
  "claimable now queue t \<longleftrightarrow> pt_queue_name t = queue \<and> pt_status t \<in> set CLAIMABLE_STATUSES \<and>
     pt_run_after t \<le> now \<and> pt_attempts t < pt_max_attempts t"

text \<open>\<open>ORDER BY priority DESC, created_at ASC\<close>; ties keep the table's order.\<close>

definition claim_order :: "ptask \<Rightarrow> int \<times> time" where
  "claim_order t = (- pt_priority t, pt_created_at t)"

definition start_task :: "time \<Rightarrow> pystr \<Rightarrow> ptask \<Rightarrow> ptask" where
  "start_task now worker_id t = t\<lparr>
     pt_status := TRunning,
     pt_attempts := pt_attempts t + 1,
     pt_locked_by := worker_id,
     pt_locked_at := Some now,
     pt_heartbeat_at := Some now,
     pt_last_error := []\<rparr>"

definition claim_next_task ::
  "clock \<Rightarrow> pystr list \<Rightarrow> pystr \<Rightarrow> pystr \<Rightarrow> task_table \<Rightarrow> ptask option \<times> task_table" where
  "claim_next_task c busy queue worker_id tbl =
     (let now = utc c 0
      in case first_by claim_order
               (filter (\<lambda>t. claimable now queue t \<and> pt_id t \<notin> set busy) tbl) of
           None \<Rightarrow> (None, tbl)
         | Some task \<Rightarrow>
             let tbl' = commit_task c task (start_task now worker_id task) tbl
             in (get_row pt_id (pt_id task) tbl', tbl'))"

section \<open>Heartbeat, completion and failure\<close>

definition holds_task :: "pystr \<Rightarrow> ptask \<Rightarrow> bool" where
  "holds_task worker_id t \<longleftrightarrow> pt_status t = TRunning \<and> pt_locked_by t = worker_id"

definition heartbeat_task :: "clock \<Rightarrow> pystr \<Rightarrow> pystr \<Rightarrow> task_table \<Rightarrow> bool \<times> task_table" where
  "heartbeat_task c task_id worker_id tbl =
     (case get_row pt_id task_id tbl of
        None \<Rightarrow> (False, tbl)
      | Some task \<Rightarrow>
          if \<not> holds_task worker_id task then (False, tbl)
          else (True, commit_task c task (task\<lparr>pt_heartbeat_at := Some (utc c 0)\<rparr>) tbl))"

definition complete_task ::
  "clock \<Rightarrow> pystr \<Rightarrow> pystr \<Rightarrow> pyval \<Rightarrow> task_table \<Rightarrow> (bool \<times> task_table) res" where
  "complete_task c task_id worker_id result tbl =
     (case get_row pt_id task_id tbl of
        None \<Rightarrow> Inr (False, tbl)
      | Some task \<Rightarrow>
          if \<not> holds_task worker_id task then Inr (False, tbl)
          else (case json_safe result of
              Inl e \<Rightarrow> Inl e
            | Inr j \<Rightarrow> Inr (True, commit_task c task
                (task\<lparr>pt_status := TSucceeded, pt_result := j, pt_finished_at := Some (utc c 0),
                  pt_locked_by := [], pt_locked_at := None, pt_heartbeat_at := None\<rparr>) tbl)))"

text \<open>
  The delay \<open>min(300.0, float(2 ** max(0, attempts - 1)))\<close> in microseconds; \<open>float\<close> of a power
  of two is exact up to \<open>2 ** 1023\<close> and raises \<open>OverflowError\<close> from \<open>2 ** 1024\<close> on.
\<close>

definition backoff :: "int \<Rightarrow> time res" where
  "backoff attempts =
     (let n = nat (max 0 (attempts - 1))
      in if 1024 \<le> n then Inl OverflowError else Inr (seconds (min 300 (2 ^ n))))"

definition released :: "ptask \<Rightarrow> ptask" where
  "released t = t\<lparr>pt_locked_by := [], pt_locked_at := None, pt_heartbeat_at := None\<rparr>"

text \<open>\<open>retry_delay_seconds\<close> is given in microseconds, the resolution of a timedelta.\<close>

definition fail_task ::
  "clock \<Rightarrow> pystr \<Rightarrow> pystr \<Rightarrow> pystr \<Rightarrow> time option \<Rightarrow> task_table \<Rightarrow>
     (task_status option \<times> task_table) res" where
  "fail_task c task_id worker_id err retry_delay tbl =
     (case get_row pt_id task_id tbl of
        None \<Rightarrow> Inr (None, tbl)
      | Some task \<Rightarrow>
          if \<not> holds_task worker_id task then Inr (None, tbl)
          else
            let t1 = released (task\<lparr>pt_last_error := py_last 8000 err\<rparr>)
            in if pt_max_attempts t1 \<le> pt_attempts t1
               then Inr (Some TDead, commit_task c task
                      (t1\<lparr>pt_status := TDead, pt_finished_at := Some (utc c 0)\<rparr>) tbl)
               else (case (case retry_delay of Some d \<Rightarrow> Inr d | None \<Rightarrow> backoff (pt_attempts t1)) of
                   Inl e \<Rightarrow> Inl e
                 | Inr delay \<Rightarrow> Inr (Some TFailed, commit_task c task
                      (t1\<lparr>pt_status := TFailed, pt_run_after := utc c 0 + max 0 delay\<rparr>) tbl)))"

section \<open>Manual retry and termination, recovery of stale tasks\<close>

definition get_task :: "pystr \<Rightarrow> pystr \<Rightarrow> task_table \<Rightarrow> ptask option" where
  "get_task task_id tenant_id tbl =
     find (\<lambda>t. pt_id t = task_id \<and> pt_tenant_id t = tenant_id) tbl"

definition retry_task ::
  "clock \<Rightarrow> pystr \<Rightarrow> pystr \<Rightarrow> task_table \<Rightarrow> ptask option \<times> task_table" where
  "retry_task c task_id tenant_id tbl =
     (case get_task task_id tenant_id tbl of
        None \<Rightarrow> (None, tbl)
      | Some task \<Rightarrow>
          if pt_status task \<notin> {TFailed, TDead} then (None, tbl)
          else
            let tbl' = commit_task c task
              (task\<lparr>pt_status := TQueued,
                pt_max_attempts := max (pt_max_attempts task) (pt_attempts task + 1),
                pt_run_after := utc c 0, pt_finished_at := None, pt_last_error := [],
                pt_locked_by := [], pt_locked_at := None\<rparr>) tbl
            in (get_row pt_id task_id tbl', tbl'))"

definition msg_terminated :: pystr where
  "msg_terminated = [0x4eba, 0x5de5, 0x7ec8, 0x6b62]"

definition move_task_to_dead ::
  "clock \<Rightarrow> pystr \<Rightarrow> pystr \<Rightarrow> pystr \<Rightarrow> task_table \<Rightarrow> ptask option \<times> task_table" where
  "move_task_to_dead c task_id tenant_id reason tbl =
     (case get_task task_id tenant_id tbl of
        None \<Rightarrow> (None, tbl)
      | Some task \<Rightarrow>
          if pt_status task \<in> set FINAL_STATUSES \<or> pt_status task = TRunning then (None, tbl)
          else
            let tbl' = commit_task c task
              (released (task\<lparr>pt_status := TDead,
                pt_last_error := py_last 8000 (py_or reason msg_terminated),
                pt_finished_at := Some (utc c 0)\<rparr>)) tbl
            in (get_row pt_id task_id tbl', tbl'))"

definition msg_stale_task :: pystr where
  "msg_stale_task = asc ''worker '' @ [0x5fc3, 0x8df3, 0x8d85, 0x65f6, 0xff0c, 0x4efb, 0x52a1,
     0x5df2, 0x56de, 0x6536]"

definition is_stale :: "time \<Rightarrow> ptask \<Rightarrow> bool" where
  "is_stale cutoff t \<longleftrightarrow> pt_status t = TRunning \<and>
     (case pt_heartbeat_at t of None \<Rightarrow> True | Some h \<Rightarrow> h < cutoff)"

text \<open>One turn of the loop over the stale rows, with the reading of the clock it makes.\<close>

definition recover_task :: "time \<Rightarrow> ptask \<Rightarrow> ptask" where
  "recover_task now t =
     (let t1 = (released t)\<lparr>pt_last_error := msg_stale_task\<rparr>
      in if pt_max_attempts t1 \<le> pt_attempts t1
         then t1\<lparr>pt_status := TDead, pt_finished_at := Some now\<rparr>
         else t1\<lparr>pt_status := TFailed, pt_run_after := now\<rparr>)"

fun recover_rows ::
  "clock \<Rightarrow> pystr list \<Rightarrow> time \<Rightarrow> nat \<Rightarrow> task_table \<Rightarrow> nat \<times> task_table" where
  "recover_rows c busy cutoff i [] = (0, [])"
| "recover_rows c busy cutoff i (t # ts) =
     (if is_stale cutoff t \<and> pt_id t \<notin> set busy
      then (let (n, ts') = recover_rows c busy cutoff (Suc i) ts
            in (Suc n, (recover_task (utc c i) t)\<lparr>pt_updated_at := sqlnow c\<rparr> # ts'))
      else (let (n, ts') = recover_rows c busy cutoff i ts in (n, t # ts')))"

definition recover_stale_tasks ::
  "clock \<Rightarrow> pystr list \<Rightarrow> int \<Rightarrow> task_table \<Rightarrow> nat \<times> task_table" where
  "recover_stale_tasks c busy stale_after_seconds tbl =
     recover_rows c busy (utc c 0 - seconds (max 1 stale_after_seconds)) 1 tbl"

section \<open>Queries\<close>

definition list_tasks ::
  "pystr \<Rightarrow> pystr \<Rightarrow> pystr \<Rightarrow> pystr \<Rightarrow> int \<Rightarrow> nat \<Rightarrow> task_table \<Rightarrow> nat \<times> ptask list" where
  "list_tasks tenant_id status task_type queue page psize tbl =
     (let rows = filter (\<lambda>t. pt_tenant_id t = tenant_id \<and>
             (status = [] \<or> task_status_str (pt_status t) = status) \<and>
             (task_type = [] \<or> pt_task_type t = task_type) \<and>
             (queue = [] \<or> pt_queue_name t = queue)) tbl
      in (length rows,
          page_rows (nat (max 1 page - 1) * psize) psize (sort_key (\<lambda>t. - pt_created_at t) rows)))"

definition TASK_STATES :: "task_status list" where
  "TASK_STATES = [TQueued, TRunning, TSucceeded, TFailed, TDead]"

text \<open>The counts per status, zero where the query has no group, and their total.\<close>

definition task_stats :: "pystr \<Rightarrow> task_table \<Rightarrow> (task_status \<times> nat) list \<times> nat" where
  "task_stats tenant_id tbl =
     (let data = map (\<lambda>s. (s, length (filter (\<lambda>t. pt_tenant_id t = tenant_id \<and> pt_status t = s) tbl)))
                   TASK_STATES
      in (data, sum_list (map snd data)))"

end
