(* ===== verification/Interfaces.thy ===== *)
theory Interfaces
  imports Tables
begin

text \<open>
  The contracts several components share, each a locale whose laws a component proves of its
  own definitions when it interprets the locale. Runs are folds of a step function over a
  list of operations.
\<close>

section \<open>Operations that keep an invariant\<close>

locale invariant_ops =
  fixes step :: "'op \<Rightarrow> 'db \<Rightarrow> 'db"
    and inv :: "'db \<Rightarrow> bool"
  assumes step_inv: "inv db \<Longrightarrow> inv (step op db)"
begin

lemma run_inv: "inv db \<Longrightarrow> inv (fold step ops db)"
  by (induction ops arbitrary: db) (auto intro: step_inv)

end

text \<open>\<open>runs_to step db db'\<close>: some sequence of operations leads from \<open>db\<close> to \<open>db'\<close>.\<close>

definition runs_to :: "('op \<Rightarrow> 'db \<Rightarrow> 'db) \<Rightarrow> 'db \<Rightarrow> 'db \<Rightarrow> bool" where
  "runs_to step db db' \<longleftrightarrow> (\<exists>ops. db' = fold step ops db)"

lemma runs_refl [simp, intro]: "runs_to step db db"
  unfolding runs_to_def by (rule exI[of _ "[]"]) simp

lemma runs_fold [intro]: "runs_to step db (fold step ops db)"
  unfolding runs_to_def by blast

lemma runs_step [intro]: "runs_to step db (step op db)"
  unfolding runs_to_def by (rule exI[of _ "[op]"]) simp

lemma runs_trans [trans]: "runs_to step db db' \<Longrightarrow> runs_to step db' db'' \<Longrightarrow> runs_to step db db''"
  unfolding runs_to_def by (metis fold_append comp_apply)

section \<open>A budget of attempts\<close>

text \<open>
  Every start of work spends one unit of the budget; an operation may grant more. The number
  of starts in a run is then bounded by what the run began with and was granted.
\<close>

fun count_starts :: "('op \<Rightarrow> 'db \<Rightarrow> 'db) \<Rightarrow> ('op \<Rightarrow> 'db \<Rightarrow> bool) \<Rightarrow> 'op list \<Rightarrow> 'db \<Rightarrow> nat" where
  "count_starts step starts [] db = 0"
| "count_starts step starts (op # ops) db =
     (if starts op db then 1 else 0) + count_starts step starts ops (step op db)"

fun total_grant :: "('op \<Rightarrow> 'db \<Rightarrow> 'db) \<Rightarrow> ('op \<Rightarrow> 'db \<Rightarrow> nat) \<Rightarrow> 'op list \<Rightarrow> 'db \<Rightarrow> nat" where
  "total_grant step grants [] db = 0"
| "total_grant step grants (op # ops) db = grants op db + total_grant step grants ops (step op db)"

locale budgeted_ops = invariant_ops +
  fixes starts :: "'a \<Rightarrow> 'b \<Rightarrow> bool"
    and grants :: "'a \<Rightarrow> 'b \<Rightarrow> nat"
    and budget :: "'b \<Rightarrow> nat"
  assumes step_budget:
    "inv db \<Longrightarrow> budget (step op db) + (if starts op db then 1 else 0) \<le> budget db + grants op db"
begin

lemma run_budget:
  "inv db \<Longrightarrow>
   budget (fold step ops db) + count_starts step starts ops db
     \<le> budget db + total_grant step grants ops db"
proof (induction ops arbitrary: db)
  case Nil
  then show ?case by simp
next
  case (Cons op ops)
  from Cons.IH[OF step_inv[OF Cons.prems, of op]] step_budget[OF Cons.prems, of op]
  show ?case by simp
qed

lemma starts_bounded:
  "inv db \<Longrightarrow>
   count_starts step starts ops db \<le> budget db + total_grant step grants ops db"
  using run_budget[of db ops] by simp

end

section \<open>Leases held by workers\<close>

text \<open>
  \<open>acts w k op\<close>: the operation is issued by worker \<open>w\<close> in the belief that it holds \<open>k\<close>.
  The fencing law: such an operation does nothing unless \<open>w\<close> is the holder. \<open>takes\<close> are the
  operations that may move the lease of \<open>k\<close> to another worker.
\<close>

locale fenced_leases = invariant_ops +
  fixes holder :: "'b \<Rightarrow> 'k \<Rightarrow> 'w option"
    and acts :: "'w \<Rightarrow> 'k \<Rightarrow> 'a \<Rightarrow> bool"
    and takes :: "'k \<Rightarrow> 'a \<Rightarrow> bool"
  assumes fence: "inv db \<Longrightarrow> acts w k op \<Longrightarrow> holder db k \<noteq> Some w \<Longrightarrow> step op db = db"
    and keeps: "inv db \<Longrightarrow> holder db k = Some w \<Longrightarrow> \<not> takes k op \<Longrightarrow> \<not> acts w k op \<Longrightarrow>
          holder (step op db) k = Some w"
begin

text \<open>
  A holder keeps its lease through any run in which nobody may take it and it does not act
  itself, however many other workers act on it.
\<close>

lemma lease_stable:
  "inv db \<Longrightarrow> holder db k = Some w \<Longrightarrow> (\<And>op. op \<in> set ops \<Longrightarrow> \<not> takes k op \<and> \<not> acts w k op) \<Longrightarrow>
   holder (fold step ops db) k = Some w"
proof (induction ops arbitrary: db)
  case Nil
  then show ?case by simp
next
  case (Cons op ops)
  then have "holder (step op db) k = Some w" using keeps by simp
  with Cons step_inv show ?case by simp
qed

lemma rival_is_noop:
  assumes "inv db" and "holder db k = Some w" and "w' \<noteq> w" and "acts w' k op"
  shows "step op db = db"
  using assms fence[of db w' k op] by simp

end

section \<open>Claiming the best eligible row\<close>

text \<open>Claiming up to \<open>n\<close> times: the rows claimed and the state left.\<close>

fun drain :: "('db \<Rightarrow> ('r \<times> 'db) option) \<Rightarrow> nat \<Rightarrow> 'db \<Rightarrow> 'r list \<times> 'db" where
  "drain claim 0 db = ([], db)"
| "drain claim (Suc n) db = (case claim db of
     None \<Rightarrow> ([], db)
   | Some (r, db') \<Rightarrow> (let (rs, last_db) = drain claim n db' in (r # rs, last_db)))"

locale best_claim =
  fixes claim :: "'db \<Rightarrow> ('r \<times> 'db) option"
    and rows :: "'db \<Rightarrow> 'r list"
    and eligible :: "'r \<Rightarrow> bool"
    and rank :: "'r \<Rightarrow> 'o::linorder"
    and take_row :: "'r \<Rightarrow> 'r"
    and key :: "'r \<Rightarrow> 'k"
    and inv :: "'db \<Rightarrow> bool"
  assumes claim_None: "claim db = None \<Longrightarrow> r \<in> set (rows db) \<Longrightarrow> \<not> eligible r"
    and claim_Some: "inv db \<Longrightarrow> claim db = Some (r', db') \<Longrightarrow>
      \<exists>r \<in> set (rows db). eligible r \<and> r' = take_row r \<and>
        (\<forall>x \<in> set (rows db). eligible x \<longrightarrow> rank r \<le> rank x) \<and>
        rows db' = put_row key r' (rows db)"
    and take_ineligible: "eligible r \<Longrightarrow> \<not> eligible (take_row r)"
    and take_key: "key (take_row r) = key r"
    and take_rank: "rank (take_row r) = rank r"
    and claim_inv: "inv db \<Longrightarrow> claim db = Some (r', db') \<Longrightarrow> inv db'"
    and keys_distinct: "inv db \<Longrightarrow> distinct (map key (rows db))"
begin

lemma claim_iff: "inv db \<Longrightarrow> (claim db \<noteq> None) \<longleftrightarrow> (\<exists>r \<in> set (rows db). eligible r)"
  using claim_None claim_Some by fastforce

lemma claimed_not_eligible:
  assumes "inv db" and "claim db = Some (r', db')" and "r \<in> set (rows db')" and "eligible r"
  shows "key r \<noteq> key r' \<and> r \<in> set (rows db)"
proof -
  from claim_Some[OF assms(1,2)] obtain o' where o': "eligible o'" "r' = take_row o'"
    "rows db' = put_row key r' (rows db)" by blast
  from assms(3) have "r = r' \<or> r \<in> set (rows db) \<and> key r \<noteq> key r'"
    unfolding o'(3) by (rule put_row_set)
  then show ?thesis using o'(1,2) assms(4) take_ineligible by blast
qed

text \<open>Two claims in a row never return the same row.\<close>

lemma claims_differ:
  assumes "inv db" and "claim db = Some (r1, db1)" and "inv db1" and "claim db1 = Some (r2, db2)"
  shows "key r1 \<noteq> key r2"
proof -
  from claim_Some[OF assms(3,4)] obtain r where r: "r \<in> set (rows db1)" "eligible r"
    "r2 = take_row r" by blast
  from claimed_not_eligible[OF assms(1,2) r(1,2)] have "key r \<noteq> key r1" by blast
  then show ?thesis by (simp add: r(3) take_key eq_commute)
qed

lemma eligible_after_claim:
  assumes "inv db" and "claim db = Some (r', db')"
  shows "{x \<in> set (rows db'). eligible x} = {x \<in> set (rows db). eligible x \<and> key x \<noteq> key r'}"
proof -
  from claim_Some[OF assms] have rows': "rows db' = put_row key r' (rows db)" by blast
  show ?thesis
    using claimed_not_eligible[OF assms] put_row_keeps[of _ "rows db" key r'] by (auto simp: rows')
qed

text \<open>Every claim leaves one eligible row fewer, so claiming again and again comes to an end.\<close>

lemma claim_shrinks:
  assumes "inv db" and "claim db = Some (r', db')"
  shows "Suc (length (filter eligible (rows db'))) = length (filter eligible (rows db))"
proof -
  from claim_Some[OF assms] obtain r where r: "r \<in> set (rows db)" "eligible r" "r' = take_row r"
    "rows db' = put_row key r' (rows db)" by blast
  have get: "get_row key (key r') (rows db) = Some r"
    using get_row_distinct[OF keys_distinct[OF assms(1)] r(1)] by (simp add: r(3) take_key)
  have len: "length (filter eligible xs) = sum_list (map (\<lambda>x. if eligible x then 1 else 0) xs)" for xs
    by (induction xs) auto
  from sum_put_row[OF keys_distinct[OF assms(1)] get, of "\<lambda>x. if eligible x then 1 else 0"]
  show ?thesis
    using r take_ineligible[OF r(2)] by (simp add: len)
qed

lemma drain_ranks:
  "inv db \<Longrightarrow> y \<in> set (fst (drain claim n db)) \<Longrightarrow>
   \<exists>x \<in> set (rows db). eligible x \<and> rank y = rank x"
proof (induction n arbitrary: db)
  case 0
  then show ?case by simp
next
  case (Suc n)
  show ?case
  proof (cases "claim db")
    case None
    with Suc.prems show ?thesis by simp
  next
    case (Some p)
    obtain r' db' where p: "p = (r', db')" by (cases p)
    note c = Some[unfolded p]
    from Suc.prems(2) have "y = r' \<or> y \<in> set (fst (drain claim n db'))"
      by (auto simp: c split: prod.splits)
    then show ?thesis
    proof
      assume "y = r'"
      with claim_Some[OF Suc.prems(1) c] take_rank show ?thesis by auto
    next
      assume "y \<in> set (fst (drain claim n db'))"
      from Suc.IH[OF claim_inv[OF Suc.prems(1) c] this]
      show ?thesis using eligible_after_claim[OF Suc.prems(1) c] by auto
    qed
  qed
qed

text \<open>
  Draining claims exactly the eligible rows, each once, best first, and leaves none.
\<close>

lemma drain_complete:
  assumes "inv db" and "length (filter eligible (rows db)) \<le> n"
  shows "inv (snd (drain claim n db)) \<and> (\<forall>x \<in> set (rows (snd (drain claim n db))). \<not> eligible x) \<and>
    key ` set (fst (drain claim n db)) = key ` {x \<in> set (rows db). eligible x} \<and>
    distinct (map key (fst (drain claim n db))) \<and> sorted (map rank (fst (drain claim n db)))"
  using assms
proof (induction n arbitrary: db)
  case 0
  then show ?case by (auto simp: filter_empty_conv)
next
  case (Suc n)
  show ?case
  proof (cases "claim db")
    case None
    with Suc.prems(1) claim_None[OF None] show ?thesis by auto
  next
    case (Some p)
    obtain r' db' where p: "p = (r', db')" by (cases p)
    note c = Some[unfolded p]
    from claim_Some[OF Suc.prems(1) c] obtain r where r: "r \<in> set (rows db)" "eligible r"
      "r' = take_row r" "\<forall>x \<in> set (rows db). eligible x \<longrightarrow> rank r \<le> rank x" by blast
    obtain rs d where d: "drain claim n db' = (rs, d)" by (cases "drain claim n db'")
    have "length (filter eligible (rows db')) \<le> n"
      using claim_shrinks[OF Suc.prems(1) c] Suc.prems(2) by simp
    from Suc.IH[OF claim_inv[OF Suc.prems(1) c] this] have IH:
      "inv d" "\<forall>x \<in> set (rows d). \<not> eligible x" "key ` set rs = key ` {x \<in> set (rows db'). eligible x}"
      "distinct (map key rs)" "sorted (map rank rs)" by (simp_all add: d)
    have keys: "key ` set rs = key ` {x \<in> set (rows db). eligible x} - {key r'}"
      unfolding IH(3) eligible_after_claim[OF Suc.prems(1) c] by auto
    have "rank r' \<le> rank y" if y: "y \<in> set rs" for y
    proof -
      have "\<exists>x \<in> set (rows db). eligible x \<and> rank y = rank x"
        using y drain_ranks[where n = n and db = db' and y = y] claim_inv[OF Suc.prems(1) c] d
          eligible_after_claim[OF Suc.prems(1) c] by fastforce
      then show ?thesis using r(3,4) take_rank by auto
    qed
    moreover have "key r' \<in> key ` {x \<in> set (rows db). eligible x}"
      using r(1,2) by (auto simp: r(3) take_key)
    ultimately show ?thesis
      using IH keys by (auto simp: c d)
  qed
qed

end

section \<open>Idempotent insertion\<close>

text \<open>
  \<open>key a\<close> is the idempotency key of a request. A request whose key is taken returns the row
  that has it and changes nothing; otherwise the row it creates has the key from then on.
\<close>

locale idempotent_insert =
  fixes ins :: "'a \<Rightarrow> 'db \<Rightarrow> ('r \<times> 'db) res"
    and key :: "'a \<Rightarrow> 'k option"
    and lookup :: "'k \<Rightarrow> 'db \<Rightarrow> 'r option"
    and valid :: "'a \<Rightarrow> bool"
  assumes hit: "valid a \<Longrightarrow> key a = Some k \<Longrightarrow> lookup k db = Some r \<Longrightarrow> ins a db = Inr (r, db)"
    and found: "ins a db = Inr (r, db') \<Longrightarrow> key a = Some k \<Longrightarrow> lookup k db' = Some r"
    and kept: "ins a db = Inr (r, db') \<Longrightarrow> lookup k db = Some x \<Longrightarrow> lookup k db' = Some x"
begin

fun ins_all :: "'a list \<Rightarrow> 'db \<Rightarrow> 'db" where
  "ins_all [] db = db"
| "ins_all (a # as) db = (case ins a db of Inl e \<Rightarrow> ins_all as db | Inr (r, db') \<Rightarrow> ins_all as db')"

lemma ins_all_kept: "lookup k db = Some x \<Longrightarrow> lookup k (ins_all as db) = Some x"
  by (induction as arbitrary: db) (auto split: sum.splits dest: kept)

text \<open>
  A request replayed after any other requests returns the row it created the first time, and
  the replay changes nothing.
\<close>

lemma replay:
  assumes "ins a db = Inr (r, db')" and "key a = Some k" and "valid b" and "key b = Some k"
  shows "ins b (ins_all as db') = Inr (r, ins_all as db')"
  using hit[OF assms(3,4)] ins_all_kept[OF found[OF assms(1,2)]] by blast

end

section \<open>State machines with terminal states\<close>

text \<open>
  \<open>edge\<close> is the documented transition diagram; every operation that succeeds follows an edge
  or leaves the state. \<open>level\<close> grows along the edges.
\<close>

locale status_machine =
  fixes apply_op :: "'op \<Rightarrow> 'r \<Rightarrow> 'r res"
    and status :: "'r \<Rightarrow> 's"
    and edge :: "'s \<Rightarrow> 's \<Rightarrow> bool"
  assumes follows: "apply_op op r = Inr r' \<Longrightarrow> status r' = status r \<or> edge (status r) (status r')"
begin

fun run_ops :: "'op list \<Rightarrow> 'r \<Rightarrow> 'r" where
  "run_ops [] r = r"
| "run_ops (op # ops) r = (case apply_op op r of Inl e \<Rightarrow> run_ops ops r | Inr r' \<Rightarrow> run_ops ops r')"

lemma run_path: "edge\<^sup>*\<^sup>* (status r) (status (run_ops ops r))"
proof (induction ops arbitrary: r)
  case Nil
  then show ?case by simp
next
  case (Cons op ops)
  show ?case
  proof (cases "apply_op op r")
    case (Inl e)
    with Cons show ?thesis by simp
  next
    case (Inr r')
    then have "edge\<^sup>*\<^sup>* (status r) (status r')" using follows[OF Inr] by auto
    with Inr Cons[of r'] show ?thesis by (auto intro: rtranclp_trans)
  qed
qed

lemma path_closed:
  "edge\<^sup>*\<^sup>* s s' \<Longrightarrow> (\<And>x y. edge x y \<Longrightarrow> x \<in> S \<Longrightarrow> y \<in> S) \<Longrightarrow> s \<in> S \<Longrightarrow> s' \<in> S"
  by (induction rule: rtranclp_induct) auto

lemma closed_set:
  assumes "\<And>s s'. edge s s' \<Longrightarrow> s \<in> S \<Longrightarrow> s' \<in> S" and "status r \<in> S"
  shows "status (run_ops ops r) \<in> S"
  using run_path assms by (rule path_closed)

end

end
