(* ===== verification/TaskQueueInv.thy ===== *)
theory TaskQueueInv
  imports TaskQueue Interfaces
begin

text \<open>
  The queue as a transition system: the operations as steps on the table, the abstract
  per-row transition relation \<open>task_move\<close> they implement, the invariant of the table, and
  the interpretations of the shared contracts.
\<close>

section \<open>Steps\<close>

text \<open>
  One operation of any session. The views of \<open>Enqueue\<close> are arbitrary: whatever a concurrent
  request makes the session read, the effect on the table is the one shown. An exception
  leaves the session without a commit, so the table is unchanged.
\<close>

datatype task_op =
    Enqueue clock pystr task_table task_table enqueue_args
  | Claim clock "pystr list" pystr pystr
  | Heartbeat clock pystr pystr
  | Complete clock pystr pystr pyval
  | Fail clock pystr pystr pystr "time option"
  | Retry clock pystr pystr
  | Terminate clock pystr pystr pystr
  | Recover clock "pystr list" int

definition ok_db :: "('a \<times> 'db) res \<Rightarrow> 'db \<Rightarrow> 'db" where
  "ok_db r db = (case r of Inl _ \<Rightarrow> db | Inr (_, db') \<Rightarrow> db')"

fun task_step :: "task_op \<Rightarrow> task_table \<Rightarrow> task_table" where
  "task_step (Enqueue c uuid view reread a) db = ok_db (enqueue_task_record c uuid view reread a db) db"
| "task_step (Claim c busy queue w) db = snd (claim_next_task c busy queue w db)"
| "task_step (Heartbeat c i w) db = snd (heartbeat_task c i w db)"
| "task_step (Complete c i w result) db = ok_db (complete_task c i w result db) db"
| "task_step (Fail c i w err delay) db = ok_db (fail_task c i w err delay db) db"
| "task_step (Retry c i tenant) db = snd (retry_task c i tenant db)"
| "task_step (Terminate c i tenant reason) db = snd (move_task_to_dead c i tenant reason db)"
| "task_step (Recover c busy stale) db = snd (recover_stale_tasks c busy stale db)"

section \<open>The abstract transitions of one row\<close>

text \<open>
  What each operation may do to a row, apart from the column \<open>updated_at\<close>: one rule per
  transition with its guard.
\<close>

definition stamped :: "clock \<Rightarrow> ptask \<Rightarrow> ptask" where
  "stamped c t = t\<lparr>pt_updated_at := sqlnow c\<rparr>"

inductive task_move :: "task_op \<Rightarrow> ptask \<Rightarrow> ptask \<Rightarrow> bool" where
  move_stay: "task_move op t t"
| move_claim: "claimable (utc c 0) queue t \<Longrightarrow> pt_id t \<notin> set busy \<Longrightarrow>
    task_move (Claim c busy queue w) t (stamped c (start_task (utc c 0) w t))"
| move_heartbeat: "holds_task w t \<Longrightarrow> pt_id t = i \<Longrightarrow>
    task_move (Heartbeat c i w) t (stamped c (t\<lparr>pt_heartbeat_at := Some (utc c 0)\<rparr>))"
| move_complete: "holds_task w t \<Longrightarrow> pt_id t = i \<Longrightarrow> json_safe result = Inr j \<Longrightarrow>
    task_move (Complete c i w result) t (stamped c (released
      (t\<lparr>pt_status := TSucceeded, pt_result := j, pt_finished_at := Some (utc c 0)\<rparr>)))"
| move_fail_dead: "holds_task w t \<Longrightarrow> pt_id t = i \<Longrightarrow> pt_max_attempts t \<le> pt_attempts t \<Longrightarrow>
    task_move (Fail c i w err delay) t (stamped c ((released (t\<lparr>pt_last_error := e\<rparr>))
      \<lparr>pt_status := TDead, pt_finished_at := Some (utc c 0)\<rparr>))"
| move_fail_retry: "holds_task w t \<Longrightarrow> pt_id t = i \<Longrightarrow> pt_attempts t < pt_max_attempts t \<Longrightarrow>
    utc c 0 \<le> later \<Longrightarrow>
    task_move (Fail c i w err delay) t (stamped c ((released (t\<lparr>pt_last_error := e\<rparr>))
      \<lparr>pt_status := TFailed, pt_run_after := later\<rparr>))"
| move_retry: "pt_status t \<in> {TFailed, TDead} \<Longrightarrow> pt_id t = i \<Longrightarrow> pt_tenant_id t = tenant \<Longrightarrow>
    task_move (Retry c i tenant) t (stamped c (t\<lparr>pt_status := TQueued,
      pt_max_attempts := max (pt_max_attempts t) (pt_attempts t + 1), pt_run_after := utc c 0,
      pt_finished_at := None, pt_last_error := [], pt_locked_by := [], pt_locked_at := None\<rparr>))"
| move_terminate: "pt_status t \<in> {TQueued, TFailed} \<Longrightarrow> pt_id t = i \<Longrightarrow> pt_tenant_id t = tenant \<Longrightarrow>
    task_move (Terminate c i tenant reason) t (stamped c (released
      (t\<lparr>pt_status := TDead, pt_last_error := e, pt_finished_at := Some (utc c 0)\<rparr>)))"
| move_recover: "is_stale (utc c 0 - seconds (max 1 stale)) t \<Longrightarrow> pt_id t \<notin> set busy \<Longrightarrow>
    task_move (Recover c busy stale) t (stamped c (recover_task now t))"

lemmas task_row_defs = stamped_def released_def start_task_def recover_task_def holds_task_def

lemma task_move_frame:
  assumes "task_move op t t'"
  shows "pt_id t' = pt_id t" "pt_tenant_id t' = pt_tenant_id t" "pt_task_type t' = pt_task_type t"
    "pt_queue_name t' = pt_queue_name t" "pt_idempotency_key t' = pt_idempotency_key t"
    "pt_payload t' = pt_payload t" "pt_priority t' = pt_priority t" "pt_created_at t' = pt_created_at t"
  using assms by (induction rule: task_move.induct) (simp_all add: task_row_defs Let_def)

section \<open>Every operation is a sequence of such transitions\<close>

lemma commit_task_moves:
  assumes "distinct (map pt_id tbl)" and "get_row pt_id (pt_id t) tbl = Some t"
    and "pt_id new = pt_id t" and "task_move op t (stamped c new)"
  shows "list_all2 (task_move op) tbl (commit_task c t new tbl)"
proof (cases "new = t")
  case True
  then show ?thesis by (simp add: commit_task_def list.rel_refl move_stay)
next
  case False
  have "list_all2 (task_move op) tbl (put_row pt_id (stamped c new) tbl)"
    using assms by (intro list_all2_put_row[where t = t]) (auto simp: move_stay stamped_def)
  with False show ?thesis by (simp add: commit_task_def stamped_def)
qed

lemma moves_refl: "list_all2 (task_move op) tbl tbl"
  by (simp add: list.rel_refl move_stay)

lemma get_row_self: "get_row pt_id i tbl = Some t \<Longrightarrow> get_row pt_id (pt_id t) tbl = Some t"
  by (metis get_row_key)

lemma get_task_row:
  assumes "distinct (map pt_id tbl)" and "get_task i tenant tbl = Some t"
  shows "get_row pt_id i tbl = Some t" and "pt_id t = i" and "pt_tenant_id t = tenant"
  using assms get_row_distinct[of pt_id tbl t] by (auto simp: get_task_def find_Some_iff in_set_conv_nth)

lemma recover_rows_moves:
  "list_all2 (task_move (Recover c busy stale)) tbl
     (snd (recover_rows c busy (utc c 0 - seconds (max 1 stale)) i tbl))"
proof (induction tbl arbitrary: i)
  case Nil
  then show ?case by simp
next
  case (Cons t tbl)
  show ?case
    using Cons[of i] Cons[of "Suc i"]
      move_recover[of c stale t busy "utc c i"] move_stay
    by (auto simp: stamped_def split: prod.splits)
qed

lemma insert_task_SomeD:
  "insert_task t tbl = Inr tbl' \<Longrightarrow> tbl' = tbl @ [t] \<and> pt_id t \<notin> set (map pt_id tbl) \<and>
     (\<forall>k. pt_idempotency_key t = Some k \<longrightarrow>
        (\<forall>u \<in> set tbl. \<not> has_task_key (pt_tenant_id t) (pt_task_type t) k u))"
  by (auto simp: insert_task_def list_ex_iff split: if_splits option.splits)

text \<open>What an enqueue does to the table: nothing, or it appends the new task.\<close>

lemma enqueue_cases:
  assumes "enqueue_task_record c uuid view reread a tbl = Inr (t, tbl')"
  obtains (existing) "tbl' = tbl"
  | (created) payload where "json_safe (payload_or_empty (ea_payload a)) = Inr payload"
      "py_strip (ea_task_type a) \<noteq> []" "t = new_task c uuid payload a" "insert_task t tbl = Inr tbl'"
  using assms
  by (auto simp: enqueue_task_record_def Let_def split: if_splits option.splits sum.splits)

lemma claim_moves:
  assumes "distinct (map pt_id tbl)"
  shows "list_all2 (task_move (Claim c busy queue w)) tbl (snd (claim_next_task c busy queue w tbl))"
proof (cases "first_by claim_order
    (filter (\<lambda>t. claimable (utc c 0) queue t \<and> pt_id t \<notin> set busy) tbl)")
  case None
  then show ?thesis by (simp add: claim_next_task_def Let_def moves_refl)
next
  case (Some t)
  then have t: "t \<in> set tbl" "claimable (utc c 0) queue t" "pt_id t \<notin> set busy"
    using first_by_SomeD[OF Some] by auto
  have "list_all2 (task_move (Claim c busy queue w)) tbl
      (commit_task c t (start_task (utc c 0) w t) tbl)"
    by (rule commit_task_moves[OF assms get_row_distinct[OF assms t(1)]])
      (simp add: start_task_def, rule move_claim[OF t(2,3)])
  with Some show ?thesis by (simp add: claim_next_task_def Let_def)
qed

lemma heartbeat_moves:
  assumes "distinct (map pt_id tbl)"
  shows "list_all2 (task_move (Heartbeat c i w)) tbl (snd (heartbeat_task c i w tbl))"
proof (cases "get_row pt_id i tbl")
  case None
  then show ?thesis by (simp add: heartbeat_task_def moves_refl)
next
  case (Some t)
  then show ?thesis
    using commit_task_moves[OF assms get_row_self[OF Some], of "t\<lparr>pt_heartbeat_at := Some (utc c 0)\<rparr>"]
      move_heartbeat[of w t i c] get_row_key[OF Some]
    by (auto simp: heartbeat_task_def moves_refl)
qed

lemma complete_moves:
  assumes "distinct (map pt_id tbl)"
  shows "list_all2 (task_move (Complete c i w r)) tbl (ok_db (complete_task c i w r tbl) tbl)"
proof (cases "get_row pt_id i tbl")
  case None
  then show ?thesis by (simp add: complete_task_def moves_refl ok_db_def)
next
  case (Some t)
  have "list_all2 (task_move (Complete c i w r)) tbl (commit_task c t (released
      (t\<lparr>pt_status := TSucceeded, pt_result := j, pt_finished_at := Some (utc c 0)\<rparr>)) tbl)"
    if "holds_task w t" "json_safe r = Inr j" for j
    by (rule commit_task_moves[OF assms get_row_self[OF Some]])
      (use move_complete[OF that(1) get_row_key[OF Some] that(2)] in \<open>simp_all add: released_def\<close>)
  with Some show ?thesis
    by (auto simp: complete_task_def moves_refl ok_db_def released_def split: sum.splits)
qed

lemma backoff_nonneg: "backoff n = Inr d \<Longrightarrow> 0 \<le> d"
  by (auto simp: backoff_def Let_def seconds_def split: if_splits)

lemma fail_moves:
  assumes "distinct (map pt_id tbl)"
  shows "list_all2 (task_move (Fail c i w err delay)) tbl (ok_db (fail_task c i w err delay tbl) tbl)"
proof (cases "get_row pt_id i tbl")
  case None
  then show ?thesis by (simp add: fail_task_def moves_refl ok_db_def)
next
  case (Some t)
  note key = get_row_key[OF Some]
  have dead: "list_all2 (task_move (Fail c i w err delay)) tbl (commit_task c t
      ((released (t\<lparr>pt_last_error := e\<rparr>))\<lparr>pt_status := TDead, pt_finished_at := Some (utc c 0)\<rparr>) tbl)"
    if "holds_task w t" "pt_max_attempts t \<le> pt_attempts t" for e
    by (rule commit_task_moves[OF assms get_row_self[OF Some]])
      (use move_fail_dead[OF that(1) key that(2)] in \<open>simp_all add: released_def\<close>)
  have retry: "list_all2 (task_move (Fail c i w err delay)) tbl (commit_task c t
      ((released (t\<lparr>pt_last_error := e\<rparr>))\<lparr>pt_status := TFailed, pt_run_after := later\<rparr>) tbl)"
    if "holds_task w t" "pt_attempts t < pt_max_attempts t" "utc c 0 \<le> later" for e later
    by (rule commit_task_moves[OF assms get_row_self[OF Some]])
      (use move_fail_retry[OF that(1) key that(2,3)] in \<open>simp_all add: released_def\<close>)
  show ?thesis
    using dead[of "py_last 8000 err"] retry[of "utc c 0 + max 0 _" "py_last 8000 err"] Some
    by (auto simp: fail_task_def moves_refl ok_db_def released_def Let_def not_le
        split: sum.splits option.splits)
qed

lemma retry_moves:
  assumes "distinct (map pt_id tbl)"
  shows "list_all2 (task_move (Retry c i tenant)) tbl (snd (retry_task c i tenant tbl))"
proof (cases "get_task i tenant tbl")
  case None
  then show ?thesis by (simp add: retry_task_def moves_refl)
next
  case (Some t)
  note row = get_task_row[OF assms Some]
  have "list_all2 (task_move (Retry c i tenant)) tbl (commit_task c t
      (t\<lparr>pt_status := TQueued,
        pt_max_attempts := max (pt_max_attempts t) (pt_attempts t + 1),
        pt_run_after := utc c 0, pt_finished_at := None, pt_last_error := [],
        pt_locked_by := [], pt_locked_at := None\<rparr>) tbl)"
    if "pt_status t \<in> {TFailed, TDead}"
    by (rule commit_task_moves[OF assms get_row_self[OF row(1)]])
      (use move_retry[OF that row(2,3)] in simp_all)
  with Some show ?thesis by (auto simp: retry_task_def moves_refl Let_def)
qed

lemma terminate_moves:
  assumes "distinct (map pt_id tbl)"
  shows "list_all2 (task_move (Terminate c i tenant reason)) tbl
    (snd (move_task_to_dead c i tenant reason tbl))"
proof (cases "get_task i tenant tbl")
  case None
  then show ?thesis by (simp add: move_task_to_dead_def moves_refl)
next
  case (Some t)
  note row = get_task_row[OF assms Some]
  have "list_all2 (task_move (Terminate c i tenant reason)) tbl (commit_task c t (released
      (t\<lparr>pt_status := TDead, pt_last_error := e, pt_finished_at := Some (utc c 0)\<rparr>)) tbl)"
    if "pt_status t \<in> {TQueued, TFailed}" for e
    by (rule commit_task_moves[OF assms get_row_self[OF row(1)]])
      (use move_terminate[OF that row(2,3)] in \<open>simp_all add: released_def\<close>)
  moreover have "pt_status t \<in> {TQueued, TFailed}"
    if "pt_status t \<notin> set FINAL_STATUSES" "pt_status t \<noteq> TRunning"
    using that by (cases "pt_status t") (auto simp: FINAL_STATUSES_def)
  ultimately show ?thesis using Some by (auto simp: move_task_to_dead_def moves_refl Let_def)
qed

text \<open>The refinement: the rows a step finds change by the abstract transitions only, \<dots>\<close>

lemma length_ok_enqueue:
  "length tbl \<le> length (ok_db (enqueue_task_record c uuid view reread a tbl) tbl)"
  by (auto simp: ok_db_def split: sum.splits elim!: enqueue_cases dest: insert_task_SomeD)

lemma enqueue_moves:
  "list_all2 (task_move op) tbl
     (take (length tbl) (ok_db (enqueue_task_record c uuid view reread a tbl) tbl))"
  by (auto simp: ok_db_def moves_refl split: sum.splits elim!: enqueue_cases dest!: insert_task_SomeD)

lemma update_op_moves:
  assumes "distinct (map pt_id tbl)" and "\<not> (\<exists>c u v r a. op = Enqueue c u v r a)"
  shows "list_all2 (task_move op) tbl (task_step op tbl)"
  using assms
  by (cases op) (auto simp: claim_moves heartbeat_moves complete_moves fail_moves retry_moves
      terminate_moves recover_stale_tasks_def recover_rows_moves)

lemma task_step_moves:
  assumes "distinct (map pt_id tbl)"
  shows "list_all2 (task_move op) tbl (take (length tbl) (task_step op tbl))"
proof (cases "\<exists>c u v r a. op = Enqueue c u v r a")
  case True
  then show ?thesis by (auto simp: enqueue_moves)
next
  case False
  from update_op_moves[OF assms this] show ?thesis
    by (metis list_all2_lengthD take_all_iff order_refl)
qed

text \<open>\<dots> and the rows it adds are new tasks.\<close>

lemma task_step_created:
  assumes "distinct (map pt_id tbl)" and "t \<in> set (drop (length tbl) (task_step op tbl))"
  shows "\<exists>c uuid view reread a payload. op = Enqueue c uuid view reread a \<and>
    json_safe (payload_or_empty (ea_payload a)) = Inr payload \<and> py_strip (ea_task_type a) \<noteq> [] \<and>
    t = new_task c uuid payload a \<and> insert_task t tbl = Inr (task_step op tbl)"
proof -
  have "length (task_step op tbl) = length tbl" if "\<not> (\<exists>c u v r a. op = Enqueue c u v r a)"
    using list_all2_lengthD[OF update_op_moves[OF assms(1) that]] by simp
  with assms(2) obtain c u v r a where op: "op = Enqueue c u v r a" by fastforce
  show ?thesis
  proof (cases "enqueue_task_record c u v r a tbl")
    case (Inl e)
    with assms(2) show ?thesis by (simp add: op ok_db_def)
  next
    case (Inr p)
    then obtain t' tbl' where p: "enqueue_task_record c u v r a tbl = Inr (t', tbl')"
      by (cases p) auto
    then show ?thesis
    proof (cases rule: enqueue_cases)
      case existing
      with assms(2) p show ?thesis by (simp add: op ok_db_def)
    next
      case (created payload)
      with assms(2) p have "t = t'"
        using insert_task_SomeD[OF created(4)] by (simp add: op ok_db_def)
      with created p show ?thesis by (simp add: op ok_db_def)
    qed
  qed
qed

section \<open>The invariant\<close>

text \<open>
  A running task has a holder's lease and no other task has one; the finished ones have their
  time of end; a task that waits has attempts left, so it can be claimed once it is due.
\<close>

definition wf_task :: "ptask \<Rightarrow> bool" where
  "wf_task t \<longleftrightarrow>
     0 \<le> pt_attempts t \<and> pt_attempts t \<le> pt_max_attempts t \<and> 1 \<le> pt_max_attempts t \<and>
     (pt_status t = TRunning \<longrightarrow> 1 \<le> pt_attempts t \<and> pt_locked_at t \<noteq> None \<and> pt_heartbeat_at t \<noteq> None) \<and>
     (pt_status t \<noteq> TRunning \<longrightarrow> pt_locked_by t = [] \<and> pt_locked_at t = None \<and> pt_heartbeat_at t = None) \<and>
     (pt_status t \<in> {TQueued, TFailed} \<longrightarrow> pt_attempts t < pt_max_attempts t) \<and>
     (pt_status t \<in> {TSucceeded, TDead} \<longleftrightarrow> pt_finished_at t \<noteq> None) \<and>
     (pt_status t \<noteq> TSucceeded \<longrightarrow> pt_result t = JNull) \<and>
     wf_json (pt_payload t) \<and> wf_json (pt_result t) \<and>
     -100 \<le> pt_priority t \<and> pt_priority t \<le> 100 \<and>
     pt_tenant_id t \<noteq> [] \<and> pt_queue_name t \<noteq> [] \<and> pt_task_type t \<noteq> [] \<and>
     pt_idempotency_key t \<noteq> Some []"

definition task_key :: "ptask \<Rightarrow> pystr \<times> pystr \<times> pystr option" where
  "task_key t = (pt_tenant_id t, pt_task_type t, pt_idempotency_key t)"

definition task_keys :: "task_table \<Rightarrow> (pystr \<times> pystr \<times> pystr option) list" where
  "task_keys tbl = filter (\<lambda>(_, _, k). k \<noteq> None) (map task_key tbl)"

definition task_inv :: "task_table \<Rightarrow> bool" where
  "task_inv tbl \<longleftrightarrow> distinct (map pt_id tbl) \<and> distinct (task_keys tbl) \<and> list_all wf_task tbl"

lemma task_move_wf:
  assumes "task_move op t t'" and "wf_task t"
  shows "wf_task t'"
  using assms
  by (induction rule: task_move.induct)
    (auto simp: wf_task_def task_row_defs claimable_def is_stale_def Let_def CLAIMABLE_STATUSES_def
      dest: json_safe_wf)

lemma new_task_wf:
  assumes "json_safe (payload_or_empty (ea_payload a)) = Inr payload" "py_strip (ea_task_type a) \<noteq> []"
  shows "wf_task (new_task c uuid payload a)"
  using assms json_safe_wf[OF assms(1)]
  by (simp add: wf_task_def new_task_def norm_tenant_def str_or_none_def max_def)

lemma insert_task_inv:
  assumes "task_inv tbl" and "insert_task t tbl = Inr tbl'" and "wf_task t"
  shows "task_inv tbl'"
  using assms(1,3) insert_task_SomeD[OF assms(2)]
  by (auto simp: task_inv_def task_keys_def task_key_def has_task_key_def image_iff)

lemma task_step_inv:
  assumes "task_inv tbl"
  shows "task_inv (task_step op tbl)"
proof (cases "\<exists>c u v r a. op = Enqueue c u v r a")
  case True
  then obtain c u v r a where op: "op = Enqueue c u v r a" by blast
  show ?thesis
    unfolding op using assms
    by (auto simp: ok_db_def split: sum.splits elim!: enqueue_cases intro: insert_task_inv new_task_wf)
next
  case False
  have d: "distinct (map pt_id tbl)" using assms by (simp add: task_inv_def)
  note moves = update_op_moves[OF d False]
  have "map pt_id (task_step op tbl) = map pt_id tbl"
    by (rule moves_map[OF moves]) (rule task_move_frame)
  moreover have "map task_key (task_step op tbl) = map task_key tbl"
    by (rule moves_map[OF moves]) (simp add: task_key_def task_move_frame)
  moreover have "list_all wf_task (task_step op tbl)"
    by (rule moves_list_all[OF moves task_move_wf]) (use assms in \<open>auto simp: task_inv_def\<close>)
  ultimately show ?thesis using assms by (simp add: task_inv_def task_keys_def)
qed

interpretation tq: invariant_ops task_step task_inv
  by unfold_locales (rule task_step_inv)

end
