(* ===== verification/TaskQueueProps.thy ===== *)
theory TaskQueueProps
  imports TaskQueueInv
begin

text \<open>
  What the queue promises: rows persist and follow the status diagram, leases are fenced,
  claims take the best due task, attempts are bounded, enqueueing is idempotent. Each promise
  is an interpretation of a shared contract on the definitions of the queue.
\<close>

section \<open>The fate of one row\<close>

lemma task_step_row:
  assumes "task_inv db" and "get_row pt_id k db = Some t"
  shows "\<exists>t'. get_row pt_id k (task_step op db) = Some t' \<and> task_move op t t'"
proof -
  have "distinct (map pt_id db)" using assms(1) by (simp add: task_inv_def)
  from task_step_moves[OF this, of op]
  have "\<exists>t'. get_row pt_id k (take (length db) (task_step op db)) = Some t' \<and> task_move op t t'"
    by (rule get_row_moves[OF _ _ assms(2)]) (rule task_move_frame)
  then show ?thesis by (blast dest: get_row_take)
qed

inductive_cases move_from_claim: "task_move (Claim c busy queue w) t t'"
inductive_cases move_from_heartbeat: "task_move (Heartbeat c i w) t t'"
inductive_cases move_from_complete: "task_move (Complete c i w r) t t'"
inductive_cases move_from_fail: "task_move (Fail c i w err delay) t t'"
inductive_cases move_from_retry: "task_move (Retry c i tenant) t t'"
inductive_cases move_from_terminate: "task_move (Terminate c i tenant reason) t t'"
inductive_cases move_from_recover: "task_move (Recover c busy stale) t t'"
inductive_cases move_from_enqueue: "task_move (Enqueue c u v r a) t t'"

lemmas task_move_elims = move_from_claim move_from_heartbeat move_from_complete move_from_fail
  move_from_retry move_from_terminate move_from_recover move_from_enqueue

text \<open>The status diagram in the comment of the model.\<close>

inductive task_edge :: "task_status \<Rightarrow> task_status \<Rightarrow> bool" where
  claim_queued: "task_edge TQueued TRunning"
| claim_failed: "task_edge TFailed TRunning"
| succeed: "task_edge TRunning TSucceeded"
| retry_later: "task_edge TRunning TFailed"
| give_up: "task_edge TRunning TDead"
| kill_queued: "task_edge TQueued TDead"
| kill_failed: "task_edge TFailed TDead"
| requeue_failed: "task_edge TFailed TQueued"
| requeue_dead: "task_edge TDead TQueued"

inductive_simps task_edge_from [simp]:
  "task_edge TQueued s" "task_edge TRunning s" "task_edge TSucceeded s" "task_edge TFailed s"
  "task_edge TDead s"

lemma task_move_edge:
  assumes "task_move op t t'"
  shows "pt_status t' = pt_status t \<or> task_edge (pt_status t) (pt_status t')"
  using assms
  by (induction rule: task_move.induct)
    (auto simp: task_row_defs claimable_def CLAIMABLE_STATUSES_def is_stale_def Let_def)

lemma task_move_succeeded: "task_move op t t' \<Longrightarrow> pt_status t = TSucceeded \<Longrightarrow> t' = t"
  by (induction rule: task_move.induct)
    (auto simp: task_row_defs claimable_def CLAIMABLE_STATUSES_def is_stale_def)

lemma run_row:
  assumes "task_inv db" and "get_row pt_id k db = Some t"
  shows "\<exists>t'. get_row pt_id k (fold task_step ops db) = Some t' \<and>
    task_edge\<^sup>*\<^sup>* (pt_status t) (pt_status t') \<and>
    pt_tenant_id t' = pt_tenant_id t \<and> pt_task_type t' = pt_task_type t \<and>
    pt_idempotency_key t' = pt_idempotency_key t \<and> pt_payload t' = pt_payload t \<and>
    (pt_status t = TSucceeded \<longrightarrow> t' = t)"
  using assms
proof (induction ops arbitrary: db t)
  case Nil
  then show ?case by auto
next
  case (Cons op ops)
  from task_step_row[OF Cons.prems] obtain t1 where
    t1: "get_row pt_id k (task_step op db) = Some t1" "task_move op t t1" by blast
  from Cons.IH[OF task_step_inv[OF Cons.prems(1)] t1(1)] obtain t' where t':
    "get_row pt_id k (fold task_step ops (task_step op db)) = Some t'"
    "task_edge\<^sup>*\<^sup>* (pt_status t1) (pt_status t')"
    "pt_tenant_id t' = pt_tenant_id t1 \<and> pt_task_type t' = pt_task_type t1 \<and>
     pt_idempotency_key t' = pt_idempotency_key t1 \<and> pt_payload t' = pt_payload t1"
    "pt_status t1 = TSucceeded \<longrightarrow> t' = t1" by blast
  have "task_edge\<^sup>*\<^sup>* (pt_status t) (pt_status t')"
    using task_move_edge[OF t1(2)] t'(2) by (auto intro: converse_rtranclp_into_rtranclp)
  moreover have "pt_status t = TSucceeded \<longrightarrow> t' = t"
    using task_move_succeeded[OF t1(2)] t'(4) by auto
  ultimately show ?case using t'(1,3) task_move_frame[OF t1(2)] by auto
qed

section \<open>Leases\<close>

definition task_holder :: "task_table \<Rightarrow> pystr \<Rightarrow> pystr option" where
  "task_holder db k = (case get_row pt_id k db of
     Some t \<Rightarrow> if pt_status t = TRunning then Some (pt_locked_by t) else None
   | None \<Rightarrow> None)"

fun task_acts :: "pystr \<Rightarrow> pystr \<Rightarrow> task_op \<Rightarrow> bool" where
  "task_acts w k (Heartbeat c i w') = (i = k \<and> w' = w)"
| "task_acts w k (Complete c i w' r) = (i = k \<and> w' = w)"
| "task_acts w k (Fail c i w' err delay) = (i = k \<and> w' = w)"
| "task_acts w k _ = False"

fun task_takes :: "pystr \<Rightarrow> task_op \<Rightarrow> bool" where
  "task_takes k (Recover c busy stale) = (k \<notin> set busy)"
| "task_takes k _ = False"

lemma task_holder_iff:
  "task_holder db k = Some w \<longleftrightarrow> (\<exists>t. get_row pt_id k db = Some t \<and> holds_task w t)"
  by (auto simp: task_holder_def holds_task_def split: option.splits)

lemma task_fence:
  assumes "task_acts w k op" and "task_holder db k \<noteq> Some w"
  shows "task_step op db = db"
  using assms
  by (cases op) (auto simp: task_holder_iff heartbeat_task_def complete_task_def fail_task_def
      ok_db_def split: option.splits)

lemma task_keeps_lease:
  assumes "task_inv db" and "task_holder db k = Some w" and "\<not> task_takes k op" and "\<not> task_acts w k op"
  shows "task_holder (task_step op db) k = Some w"
proof -
  from assms(2) obtain t where t: "get_row pt_id k db = Some t" "holds_task w t"
    by (auto simp: task_holder_iff)
  from task_step_row[OF assms(1) t(1)] obtain t' where t':
    "get_row pt_id k (task_step op db) = Some t'" "task_move op t t'" by blast
  have "holds_task w t'"
    using t'(2) t(2) assms(3,4) get_row_key[OF t(1)]
    by (cases op) (auto elim!: task_move_elims
        simp: task_row_defs claimable_def CLAIMABLE_STATUSES_def split: if_splits)
  with t'(1) show ?thesis by (auto simp: task_holder_iff)
qed

interpretation tq_lease: fenced_leases task_step task_inv task_holder task_acts task_takes
  by unfold_locales (auto intro: task_fence task_keeps_lease)

text \<open>Recovery spares the holders whose heartbeat is recent.\<close>

lemma recover_spares_fresh:
  assumes "task_inv db" and "get_row pt_id k db = Some t" and "pt_status t = TRunning"
    and "pt_heartbeat_at t = Some h" and "utc c 0 - seconds (max 1 stale) \<le> h"
  shows "get_row pt_id k (task_step (Recover c busy stale) db) = Some t"
proof -
  from task_step_row[OF assms(1,2)] obtain t' where t':
    "get_row pt_id k (task_step (Recover c busy stale) db) = Some t'"
    "task_move (Recover c busy stale) t t'" by blast
  have "t' = t" using t'(2) assms(3-5) by (auto elim!: move_from_recover simp: is_stale_def)
  with t'(1) show ?thesis by simp
qed

section \<open>Claims\<close>

definition claim_opt ::
  "clock \<Rightarrow> pystr list \<Rightarrow> pystr \<Rightarrow> pystr \<Rightarrow> task_table \<Rightarrow> (ptask \<times> task_table) option" where
  "claim_opt c busy queue w db = (case claim_next_task c busy queue w db of
     (None, _) \<Rightarrow> None | (Some t, db') \<Rightarrow> Some (t, db'))"

definition due :: "clock \<Rightarrow> pystr list \<Rightarrow> pystr \<Rightarrow> ptask \<Rightarrow> bool" where
  "due c busy queue t \<longleftrightarrow> claimable (utc c 0) queue t \<and> pt_id t \<notin> set busy"

definition claimed :: "clock \<Rightarrow> pystr \<Rightarrow> ptask \<Rightarrow> ptask" where
  "claimed c w t = stamped c (start_task (utc c 0) w t)"

lemma claimed_differs: "claimable now queue t \<Longrightarrow> start_task now' w t \<noteq> t"
  by (auto simp: start_task_def claimable_def CLAIMABLE_STATUSES_def dest: arg_cong[of _ _ pt_status])

lemma claim_next_task_Some:
  assumes "distinct (map pt_id db)" and "first_by claim_order (filter (due c busy queue) db) = Some t"
  shows "claim_next_task c busy queue w db = (Some (claimed c w t), put_row pt_id (claimed c w t) db)"
proof -
  have t: "t \<in> set db" "claimable (utc c 0) queue t"
    using first_by_SomeD[OF assms(2)] by (auto simp: due_def)
  have "commit_task c t (start_task (utc c 0) w t) db = put_row pt_id (claimed c w t) db"
    using claimed_differs[OF t(2)] by (simp add: commit_task_def claimed_def stamped_def)
  moreover have "get_row pt_id (pt_id t) (put_row pt_id (claimed c w t) db) = Some (claimed c w t)"
    using get_row_distinct[OF assms(1) t(1)]
    by (simp add: table_simps claimed_def stamped_def start_task_def)
  ultimately show ?thesis
    using assms(2) by (simp add: claim_next_task_def Let_def due_def[abs_def])
qed

lemma claim_next_task_None:
  "filter (due c busy queue) db = [] \<Longrightarrow> claim_next_task c busy queue w db = (None, db)"
  by (simp add: claim_next_task_def Let_def due_def[abs_def])

lemma claim_opt_Some:
  assumes "task_inv db" and "claim_opt c busy queue w db = Some (t', db')"
  shows "\<exists>t \<in> set db. due c busy queue t \<and> t' = claimed c w t \<and>
    (\<forall>x \<in> set db. due c busy queue x \<longrightarrow> claim_order t \<le> claim_order x) \<and> db' = put_row pt_id t' db"
proof (cases "first_by claim_order (filter (due c busy queue) db)")
  case None
  then show ?thesis using assms(2) by (simp add: claim_opt_def claim_next_task_None)
next
  case (Some t)
  have "distinct (map pt_id db)" using assms(1) by (simp add: task_inv_def)
  from claim_next_task_Some[OF this Some] assms(2) first_by_SomeD[OF Some]
  show ?thesis by (auto simp: claim_opt_def)
qed

lemma claim_opt_None:
  assumes "claim_opt c busy queue w db = None" and "t \<in> set db"
  shows "\<not> due c busy queue t"
proof
  assume "due c busy queue t"
  with assms(2) obtain t0 where t0: "first_by claim_order (filter (due c busy queue) db) = Some t0"
    by (cases "first_by claim_order (filter (due c busy queue) db)") (auto simp: filter_empty_conv)
  then have "claimable (utc c 0) queue t0" by (auto dest: first_by_SomeD simp: due_def)
  with t0 assms(1) first_by_SomeD[OF t0] show False
    using claimed_differs
    by (auto simp: claim_opt_def claim_next_task_def Let_def due_def[abs_def] commit_task_def
        table_simps get_row_None_iff start_task_def image_iff split: option.splits if_splits)
qed

lemma claim_opt_step:
  "claim_opt c busy queue w db = Some (t, db') \<Longrightarrow> db' = task_step (Claim c busy queue w) db"
  by (auto simp: claim_opt_def split: prod.splits option.splits)

interpretation tq_claim: best_claim "claim_opt c busy queue w" "\<lambda>db. db" "due c busy queue"
    claim_order "claimed c w" pt_id task_inv for c busy queue w
proof (unfold_locales, goal_cases)
  case (1 db r)
  then show ?case by (rule claim_opt_None)
next
  case (2 db r' db')
  then show ?case by (rule claim_opt_Some)
next
  case (6 db r' db')
  then show ?case using claim_opt_step task_step_inv by blast
qed (auto simp: due_def claimed_def stamped_def start_task_def claimable_def CLAIMABLE_STATUSES_def
    task_inv_def claim_order_def)

section \<open>The budget of attempts\<close>

definition attempts_left :: "ptask \<Rightarrow> nat" where
  "attempts_left t = nat (pt_max_attempts t - pt_attempts t)"

definition task_budget :: "task_table \<Rightarrow> nat" where
  "task_budget db = sum_list (map attempts_left db)"

text \<open>A claim that returns a task starts an attempt.\<close>

fun task_starts :: "task_op \<Rightarrow> task_table \<Rightarrow> bool" where
  "task_starts (Claim c busy queue w) db = (fst (claim_next_task c busy queue w db) \<noteq> None)"
| "task_starts _ db = False"

text \<open>A new task may bring its clamped \<open>max_attempts\<close>, a manual retry one more attempt.\<close>

fun task_grants :: "task_op \<Rightarrow> task_table \<Rightarrow> nat" where
  "task_grants (Enqueue c uuid view reread a) db = nat (max 1 (min 100 (ea_max_attempts a)))"
| "task_grants (Retry c i tenant) db = 1"
| "task_grants _ db = 0"

lemma budget_claim:
  assumes "task_inv db"
  shows "task_budget (task_step (Claim c busy queue w) db) +
    (if task_starts (Claim c busy queue w) db then 1 else 0) = task_budget db"
proof (cases "first_by claim_order (filter (due c busy queue) db)")
  case None
  then show ?thesis by (simp add: claim_next_task_None)
next
  case (Some t)
  have d: "distinct (map pt_id db)" using assms by (simp add: task_inv_def)
  have t: "t \<in> set db" "pt_attempts t < pt_max_attempts t"
    using first_by_SomeD[OF Some] by (auto simp: due_def claimable_def)
  have "get_row pt_id (pt_id (claimed c w t)) db = Some t"
    using get_row_distinct[OF d t(1)] by (simp add: claimed_def stamped_def start_task_def)
  from sum_put_row[OF d this, of attempts_left] t(2)
  show ?thesis
    by (simp add: claim_next_task_Some[OF d Some] task_budget_def attempts_left_def claimed_def
        stamped_def start_task_def)
qed

lemma budget_retry:
  assumes "task_inv db"
  shows "task_budget (task_step (Retry c i tenant) db) \<le> task_budget db + 1"
proof (cases "get_task i tenant db")
  case None
  then show ?thesis by (simp add: retry_task_def)
next
  case (Some t)
  have d: "distinct (map pt_id db)" using assms by (simp add: task_inv_def)
  note row = get_row_self[OF get_task_row(1)[OF d Some]]
  let ?u = "t\<lparr>pt_status := TQueued, pt_max_attempts := max (pt_max_attempts t) (pt_attempts t + 1),
      pt_run_after := utc c 0, pt_finished_at := None, pt_last_error := [],
      pt_locked_by := [], pt_locked_at := None\<rparr>"
  have "get_row pt_id (pt_id (stamped c ?u)) db = Some t" using row by (simp add: stamped_def)
  from sum_put_row[OF d this, of attempts_left]
  have "task_budget (put_row pt_id (stamped c ?u) db) \<le> task_budget db + 1"
    by (simp add: task_budget_def attempts_left_def stamped_def)
  with Some show ?thesis
    by (auto simp: retry_task_def Let_def commit_task_def stamped_def)
qed

lemma budget_enqueue:
  "task_budget (task_step (Enqueue c uuid view reread a) db)
     \<le> task_budget db + nat (max 1 (min 100 (ea_max_attempts a)))"
  by (auto simp: ok_db_def task_budget_def attempts_left_def new_task_def
      split: sum.splits elim!: enqueue_cases dest!: insert_task_SomeD)

lemma task_move_budget:
  assumes "task_move op t t'" and "\<And>c i tenant. op \<noteq> Retry c i tenant"
  shows "attempts_left t' \<le> attempts_left t"
  using assms
  by (induction rule: task_move.induct) (auto simp: attempts_left_def task_row_defs Let_def)

lemma budget_other:
  assumes "task_inv db" and "\<And>c i tenant. op \<noteq> Retry c i tenant"
    and "\<not> (\<exists>c u v r a. op = Enqueue c u v r a)"
  shows "task_budget (task_step op db) \<le> task_budget db"
proof -
  have "distinct (map pt_id db)" using assms(1) by (simp add: task_inv_def)
  from sum_list_moves[OF update_op_moves[OF this assms(3)] task_move_budget[OF _ assms(2)]]
  show ?thesis by (simp add: task_budget_def)
qed

interpretation tq_budget: budgeted_ops task_step task_inv task_starts task_grants task_budget
proof unfold_locales
  fix db op
  assume inv: "task_inv db"
  show "task_budget (task_step op db) + (if task_starts op db then 1 else 0)
      \<le> task_budget db + task_grants op db"
  proof (cases op)
    case Enqueue
    then show ?thesis using budget_enqueue by simp
  next
    case (Claim c busy queue w)
    then show ?thesis using budget_claim[OF inv, of c busy queue w] by simp
  next
    case Retry
    then show ?thesis using budget_retry[OF inv] by simp
  qed (use budget_other[OF inv, of op] in simp_all)
qed

section \<open>Idempotent enqueueing\<close>

definition request_key :: "enqueue_args \<Rightarrow> (pystr \<times> pystr \<times> pystr) option" where
  "request_key a = map_option (\<lambda>k. (norm_tenant (ea_tenant_id a), py_strip (ea_task_type a), k))
     (str_or_none (py_strip (ea_idempotency_key a)))"

definition task_by_key :: "pystr \<times> pystr \<times> pystr \<Rightarrow> task_table \<Rightarrow> ptask option" where
  "task_by_key = (\<lambda>(tenant, ty, k) db. find (has_task_key tenant ty k) db)"

text \<open>Without an interleaved request the views are the table itself.\<close>

definition enqueue_now ::
  "clock \<times> pystr \<times> enqueue_args \<Rightarrow> task_table \<Rightarrow> (ptask \<times> task_table) res" where
  "enqueue_now = (\<lambda>(c, uuid, a) db. enqueue_task_record c uuid db db a db)"

lemma has_new_task_key [simp]:
  "has_task_key (norm_tenant (ea_tenant_id a)) (py_strip (ea_task_type a)) k
     (new_task c uuid payload a) \<longleftrightarrow> str_or_none (py_strip (ea_idempotency_key a)) = Some k"
  by (simp add: has_task_key_def new_task_def)

interpretation tq_idem: idempotent_insert enqueue_now "\<lambda>(c, uuid, a). request_key a" task_by_key
    "\<lambda>(c, uuid, a). py_strip (ea_task_type a) \<noteq> []"
proof (unfold_locales, goal_cases)
  case (1 a k db r)
  then show ?case
    by (auto simp: enqueue_now_def request_key_def task_by_key_def enqueue_task_record_def Let_def
        split: prod.splits)
next
  case (2 a db r db' k)
  obtain c uuid ar where a: "a = (c, uuid, ar)" by (cases a)
  obtain tenant ty ky where k: "k = (tenant, ty, ky)" by (cases k)
  from 2(2) have key: "request_key ar = Some (tenant, ty, ky)" by (simp add: a k)
  show ?case
  proof (cases "find (has_task_key tenant ty ky) db")
    case None
    with 2(1) key show ?thesis
      by (auto simp: a k enqueue_now_def task_by_key_def request_key_def enqueue_task_record_def
          Let_def find_append dest!: insert_task_SomeD split: if_splits sum.splits)
  next
    case (Some t)
    with 2(1) key show ?thesis
      by (auto simp: a k enqueue_now_def task_by_key_def request_key_def enqueue_task_record_def
          Let_def split: if_splits)
  qed
next
  case (3 a db r db' k x)
  obtain c uuid ar where a: "a = (c, uuid, ar)" by (cases a)
  from 3(1) have "enqueue_task_record c uuid db db ar db = Inr (r, db')"
    by (simp add: a enqueue_now_def)
  then show ?case
    using 3(2)
    by (auto simp: task_by_key_def find_append elim!: enqueue_cases dest!: insert_task_SomeD
        split: prod.splits)
qed

end
