(* ===== verification/TaskWorker.thy ===== *)
theory TaskWorker
  imports TaskQueueProps
begin

text \<open>
  The handler registry and enqueue entry points (\<open>tasks/registry.py\<close>), the worker that
  claims, runs and settles one task at a time (\<open>tasks/worker.py\<close>), and the start and stop of
  the background workers (\<open>tasks/lifecycle.py\<close>). While a handler runs, other sessions and the
  worker's own heartbeat act on the table: they are an arbitrary list of queue operations.
\<close>

section \<open>The registry\<close>

record task_context =
  tc_task_id :: pystr
  tc_task_type :: pystr
  tc_tenant_id :: pystr
  tc_queue :: pystr
  tc_attempt :: int
  tc_max_attempts :: int
  tc_correlation_id :: pystr
  tc_causation_id :: pystr
  tc_worker_id :: pystr

text \<open>
  What a call of a handler comes to: a value, an exception with the text
  \<open>traceback.format_exception\<close> gives it, or a cancellation.
\<close>

datatype outcome = Returned pyval | Raised pystr | Cancelled

text \<open>
  A handler is an object (\<open>h_ident\<close> is its identity), the number of parameters its signature
  shows, None where \<open>inspect.signature\<close> fails, and its behaviour on one and on two arguments.
\<close>

record task_handler =
  h_ident :: nat
  h_parameters :: "nat option"
  h_call1 :: "json \<Rightarrow> outcome"
  h_call2 :: "json \<Rightarrow> task_context \<Rightarrow> outcome"

type_synonym handlers = "(pystr \<times> task_handler) list"

definition msg_duplicate_handler :: pystr where
  "msg_duplicate_handler = [0x4efb, 0x52a1] @ asc '' handler '' @ [0x91cd, 0x590d, 0x6ce8, 0x518c, 0x3a, 0x20]"

definition register_task_handler :: "pystr \<Rightarrow> task_handler \<Rightarrow> handlers \<Rightarrow> handlers res" where
  "register_task_handler task_type handler hs =
     (let task_type = py_strip task_type
      in if task_type = [] then Inl (ValueError msg_task_type_empty)
         else (case map_of hs task_type of
             Some current \<Rightarrow>
               if h_ident current \<noteq> h_ident handler
               then Inl (ValueError (msg_duplicate_handler @ task_type))
               else Inr (AList.update task_type handler hs)
           | None \<Rightarrow> Inr (AList.update task_type handler hs)))"

definition get_task_handler :: "pystr \<Rightarrow> handlers \<Rightarrow> task_handler option" where
  "get_task_handler task_type hs = map_of hs task_type"

definition registered_task_types :: "handlers \<Rightarrow> pystr list" where
  "registered_task_types hs = sort (map fst hs)"

text \<open>The entry points: \<open>enqueue_task\<close> returns the id, \<open>enqueue\<close> names the queue first.\<close>

definition enqueue_task ::
  "clock \<Rightarrow> pystr \<Rightarrow> task_table \<Rightarrow> task_table \<Rightarrow> enqueue_args \<Rightarrow> task_table \<Rightarrow> (pystr \<times> task_table) res"
where
  "enqueue_task c uuid view reread a tbl =
     (case enqueue_task_record c uuid view reread a tbl of
        Inl e \<Rightarrow> Inl e | Inr (task, tbl') \<Rightarrow> Inr (pt_id task, tbl'))"

definition enqueue ::
  "clock \<Rightarrow> pystr \<Rightarrow> task_table \<Rightarrow> task_table \<Rightarrow> pystr \<Rightarrow> pystr \<Rightarrow> pyval option \<Rightarrow> enqueue_args \<Rightarrow>
     task_table \<Rightarrow> (pystr \<times> task_table) res" where
  "enqueue c uuid view reread queue task_name payload kwargs tbl =
     enqueue_task c uuid view reread
       (kwargs\<lparr>ea_task_type := task_name, ea_payload := payload, ea_queue := queue\<rparr>) tbl"

section \<open>One task\<close>

definition invoke_handler :: "task_handler \<Rightarrow> json \<Rightarrow> task_context \<Rightarrow> outcome" where
  "invoke_handler h payload ctx =
     (let parameter_count = (case h_parameters h of None \<Rightarrow> 2 | Some n \<Rightarrow> n)
      in if parameter_count = 1 then h_call1 h payload else h_call2 h payload ctx)"

definition context_of :: "pystr \<Rightarrow> ptask \<Rightarrow> task_context" where
  "context_of worker_id task = \<lparr>
     tc_task_id = pt_id task, tc_task_type = pt_task_type task, tc_tenant_id = pt_tenant_id task,
     tc_queue = pt_queue_name task, tc_attempt = pt_attempts task,
     tc_max_attempts = pt_max_attempts task, tc_correlation_id = pt_correlation_id task,
     tc_causation_id = pt_causation_id task, tc_worker_id = worker_id\<rparr>"

definition msg_no_handler :: pystr where
  "msg_no_handler = [0x672a, 0x6ce8, 0x518c, 0x4efb, 0x52a1] @ asc '' handler: ''"

text \<open>\<open>task.payload or {}\<close> on the stored document.\<close>

definition json_or_empty :: "json \<Rightarrow> json" where
  "json_or_empty j = (if j = JNull then JObj [] else j)"

definition run_handler :: "(pyerr \<Rightarrow> pystr) \<Rightarrow> handlers \<Rightarrow> pystr \<Rightarrow> ptask \<Rightarrow> outcome" where
  "run_handler fmt hs worker_id task =
     (case get_task_handler (pt_task_type task) hs of
        None \<Rightarrow> Raised (fmt (LookupError (msg_no_handler @ pt_task_type task)))
      | Some h \<Rightarrow> invoke_handler h (json_or_empty (pt_payload task)) (context_of worker_id task))"

datatype run_result = Ran bool | CancelledOut | Raises pyerr

text \<open>
  \<open>fmt\<close> is \<open>traceback.format_exception\<close> for the exceptions raised by the worker's own code;
  \<open>between\<close> are the operations on the table while the handler runs; \<open>c1\<close>, \<open>c2\<close>, \<open>c3\<close> the
  clocks of the claim, of the completion and of the recording of a failure.
\<close>

definition settle_failure ::
  "clock \<Rightarrow> pystr \<Rightarrow> pystr \<Rightarrow> pystr \<Rightarrow> task_table \<Rightarrow> run_result \<times> task_table" where
  "settle_failure c3 task_id worker_id detail db =
     (case fail_task c3 task_id worker_id detail None db of
        Inl e \<Rightarrow> (Raises e, db)
      | Inr (_, db') \<Rightarrow> (Ran True, db'))"

definition run_task_once ::
  "(pyerr \<Rightarrow> pystr) \<Rightarrow> clock \<Rightarrow> clock \<Rightarrow> clock \<Rightarrow> pystr list \<Rightarrow> handlers \<Rightarrow> task_op list \<Rightarrow>
     pystr \<Rightarrow> pystr \<Rightarrow> task_table \<Rightarrow> run_result \<times> task_table" where
  "run_task_once fmt c1 c2 c3 busy hs between queue worker_id db =
     (case claim_next_task c1 busy queue worker_id db of
        (None, db1) \<Rightarrow> (Ran False, db1)
      | (Some task, db1) \<Rightarrow>
          let db2 = fold task_step between db1
          in (case run_handler fmt hs worker_id task of
                Cancelled \<Rightarrow> (CancelledOut, db2)
              | Raised detail \<Rightarrow> settle_failure c3 (pt_id task) worker_id detail db2
              | Returned result \<Rightarrow>
                  (case complete_task c2 (pt_id task) worker_id result db2 of
                     Inr (_, db3) \<Rightarrow> (Ran True, db3)
                   | Inl e \<Rightarrow> settle_failure c3 (pt_id task) worker_id (fmt e) db2)))"

section \<open>The heartbeat and the worker loop\<close>

text \<open>
  The heartbeat loop wakes at each timeout of its wait, or stops at the stop event. A tick
  is a heartbeat that reaches the database, or one whose session fails.
\<close>

datatype hb_wake = HbStop | HbTick clock | HbFault

fun heartbeat_loop :: "pystr \<Rightarrow> pystr \<Rightarrow> hb_wake list \<Rightarrow> task_table \<Rightarrow> task_table" where
  "heartbeat_loop task_id worker_id [] db = db"
| "heartbeat_loop task_id worker_id (HbStop # ws) db = db"
| "heartbeat_loop task_id worker_id (HbFault # ws) db = heartbeat_loop task_id worker_id ws db"
| "heartbeat_loop task_id worker_id (HbTick c # ws) db =
     (let (alive, db') = heartbeat_task c task_id worker_id db
      in if alive then heartbeat_loop task_id worker_id ws db' else db')"

text \<open>
  One round of the worker loop: the loop's clock, a recovery when one is due, then one task.
  \<open>wr_recover_fault\<close> and \<open>wr_run_fault\<close> say that the session fails there; the round then
  ends without work, and the worker goes on.
\<close>

record worker_round =
  wr_now :: time
  wr_recover_fault :: bool
  wr_recover_clock :: clock
  wr_recover_busy :: "pystr list"
  wr_run_fault :: bool
  wr_claim_clock :: clock
  wr_complete_clock :: clock
  wr_fail_clock :: clock
  wr_claim_busy :: "pystr list"
  wr_between :: "task_op list"

datatype round_end = Worked | Idle | LoopCancelled

definition recovery_due :: "int \<Rightarrow> time \<Rightarrow> time \<Rightarrow> bool" where
  "recovery_due stale_after_seconds last_recovery now \<longleftrightarrow>
     max (seconds 30) (500000 * stale_after_seconds) \<le> now - last_recovery"

definition worker_round_step ::
  "(pyerr \<Rightarrow> pystr) \<Rightarrow> handlers \<Rightarrow> pystr \<Rightarrow> pystr \<Rightarrow> int \<Rightarrow> worker_round \<Rightarrow> time \<times> task_table \<Rightarrow>
     round_end \<times> time \<times> task_table" where
  "worker_round_step fmt hs queue worker_id stale r = (\<lambda>(last_recovery, db).
     let due = recovery_due stale last_recovery (wr_now r)
     in if due \<and> wr_recover_fault r then (Idle, last_recovery, db)
        else
          let db1 = (if due then snd (recover_stale_tasks (wr_recover_clock r) (wr_recover_busy r) stale db)
                     else db);
              last1 = (if due then wr_now r else last_recovery)
          in if wr_run_fault r then (Idle, last1, db1)
             else (case run_task_once fmt (wr_claim_clock r) (wr_complete_clock r) (wr_fail_clock r)
                       (wr_claim_busy r) hs (wr_between r) queue worker_id db1 of
                 (Ran worked, db2) \<Rightarrow> (if worked then Worked else Idle, last1, db2)
               | (Raises e, db2) \<Rightarrow> (Idle, last1, db2)
               | (CancelledOut, db2) \<Rightarrow> (LoopCancelled, last1, db2)))"

text \<open>The loop runs until the stop event is set (no further rounds) or it is cancelled.\<close>

fun task_worker_loop ::
  "(pyerr \<Rightarrow> pystr) \<Rightarrow> handlers \<Rightarrow> pystr \<Rightarrow> pystr \<Rightarrow> int \<Rightarrow> worker_round list \<Rightarrow> time \<times> task_table \<Rightarrow>
     time \<times> task_table" where
  "task_worker_loop fmt hs queue worker_id stale [] s = s"
| "task_worker_loop fmt hs queue worker_id stale (r # rs) s =
     (case worker_round_step fmt hs queue worker_id stale r s of
        (LoopCancelled, s') \<Rightarrow> s'
      | (_, s') \<Rightarrow> task_worker_loop fmt hs queue worker_id stale rs s')"

section \<open>Starting and stopping the workers of the process\<close>

record app_state =
  task_event_workers :: "pystr list"
  task_event_stop :: "bool option"

definition worker_names :: "pystr list \<Rightarrow> pystr list" where
  "worker_names queues =
     map (\<lambda>q. asc ''persistent-task-'' @ q)
       (fromkeys (map py_strip (filter (\<lambda>q. py_strip q \<noteq> []) queues))) @
     [asc ''domain-event-dispatcher'']"

definition start_background_workers :: "pystr list \<Rightarrow> app_state \<Rightarrow> pystr list \<times> app_state" where
  "start_background_workers queues app =
     (if task_event_workers app \<noteq> [] then (task_event_workers app, app)
      else
        let workers = worker_names queues
        in (workers, app\<lparr>task_event_stop := Some False, task_event_workers := workers\<rparr>))"

definition stop_background_workers :: "app_state \<Rightarrow> app_state" where
  "stop_background_workers app = app\<lparr>task_event_workers := [], task_event_stop := None\<rparr>"

section \<open>Lemmas\<close>

lemma register_lookup:
  "register_task_handler ty h hs = Inr hs' \<Longrightarrow>
   get_task_handler x hs' = (if x = py_strip ty then Some h else get_task_handler x hs)"
  by (auto simp: register_task_handler_def get_task_handler_def Let_def update_conv'
      split: if_splits option.splits)

lemma register_keeps_ident:
  assumes "register_task_handler ty h hs = Inr hs'" and "get_task_handler x hs = Some h0"
  shows "\<exists>h1. get_task_handler x hs' = Some h1 \<and> h_ident h1 = h_ident h0"
  using assms
  by (auto simp: register_task_handler_def get_task_handler_def Let_def update_conv'
      split: if_splits option.splits)

lemma distinct_update_keys: "distinct (map fst hs) \<Longrightarrow> register_task_handler ty h hs = Inr hs' \<Longrightarrow>
   distinct (map fst hs')"
  by (auto simp: register_task_handler_def Let_def distinct_update split: if_splits option.splits)

text \<open>A run of the worker is a run of the queue.\<close>

lemma settle_failure_steps:
  "\<exists>ops. snd (settle_failure c i w detail db) = fold task_step ops db"
proof -
  have "snd (settle_failure c i w detail db) = task_step (Fail c i w detail None) db"
    by (auto simp: settle_failure_def ok_db_def split: sum.splits)
  then show ?thesis by (intro exI[of _ "[Fail c i w detail None]"]) simp
qed

lemma run_task_once_steps:
  "\<exists>ops. snd (run_task_once fmt c1 c2 c3 busy hs between queue w db) = fold task_step ops db"
proof -
  let ?db1 = "task_step (Claim c1 busy queue w) db"
  let ?db2 = "fold task_step between ?db1"
  show ?thesis
  proof (cases "claim_next_task c1 busy queue w db")
    case (Pair r db1)
    then have db1: "?db1 = db1" by simp
    show ?thesis
    proof (cases r)
      case None
      then show ?thesis
        using Pair by (intro exI[of _ "[Claim c1 busy queue w]"]) (simp add: run_task_once_def)
    next
      case (Some t)
      note claimed = Pair[unfolded Some]
      have tail: "\<exists>ops. db' = fold task_step ops db" if "\<exists>ops. db' = fold task_step ops ?db2" for db'
        using that by (metis fold.simps(2) fold_append comp_apply)
      show ?thesis
      proof (cases "run_handler fmt hs w t")
        case (Returned v)
        show ?thesis
        proof (cases "complete_task c2 (pt_id t) w v ?db2")
          case (Inl e)
          with claimed Returned db1 settle_failure_steps[of c3 "pt_id t" w "fmt e" ?db2]
          show ?thesis by (intro tail) (simp add: run_task_once_def Let_def)
        next
          case (Inr p)
          then have "task_step (Complete c2 (pt_id t) w v) ?db2 = snd p"
            by (simp add: ok_db_def split: prod.splits)
          with Inr claimed Returned db1 show ?thesis
            by (intro tail exI[of _ "[Complete c2 (pt_id t) w v]"])
              (simp add: run_task_once_def Let_def split: prod.splits)
        qed
      next
        case (Raised d)
        with claimed db1 settle_failure_steps[of c3 "pt_id t" w d ?db2]
        show ?thesis by (intro tail) (simp add: run_task_once_def Let_def)
      next
        case Cancelled
        with claimed db1 show ?thesis
          by (intro tail exI[of _ "[]"]) (simp add: run_task_once_def Let_def)
      qed
    qed
  qed
qed

lemma run_task_once_inv:
  "task_inv db \<Longrightarrow> task_inv (snd (run_task_once fmt c1 c2 c3 busy hs between queue w db))"
  using run_task_once_steps[of fmt c1 c2 c3 busy hs between queue w db] tq.run_inv by metis

lemma worker_round_inv:
  assumes "task_inv db"
  shows "task_inv (snd (snd (worker_round_step fmt hs queue w stale r (lr, db))))"
proof -
  have db1: "task_inv (snd (recover_stale_tasks c busy stale db))" for c busy
    using task_step_inv[OF assms, of "Recover c busy stale"] by simp
  have run: "task_inv db2"
    if "run_task_once fmt c1 c2 c3 busy hs between queue w db' = (res, db2)" "task_inv db'"
    for c1 c2 c3 busy between db' res db2
    using run_task_once_inv[OF that(2), of fmt c1 c2 c3 busy hs between queue w] that(1) by simp
  show ?thesis
    using assms db1 by (auto simp: worker_round_step_def Let_def dest: run
        split: prod.splits run_result.splits)
qed

lemma worker_loop_inv:
  "task_inv (snd s) \<Longrightarrow> task_inv (snd (task_worker_loop fmt hs queue w stale rs s))"
proof (induction rs arbitrary: s)
  case Nil
  then show ?case by simp
next
  case (Cons r rs)
  obtain lr db where s: "s = (lr, db)" by (cases s)
  obtain e s' where e: "worker_round_step fmt hs queue w stale r s = (e, s')"
    by (cases "worker_round_step fmt hs queue w stale r s")
  have "task_inv (snd s')"
    using worker_round_inv[of db fmt hs queue w stale r lr] Cons.prems e by (simp add: s)
  with Cons.IH[of s'] e show ?case by (cases e) simp_all
qed

end
