(* ===== verification/TaskQueueClaims.thy ===== *)
theory TaskQueueClaims
  imports TaskWorker
begin

text \<open>The properties of the task queue and its worker, with concrete instances.\<close>

section \<open>A small table\<close>

text \<open>Two queued tasks of one queue, the second more urgent; the first row claimed at time 5.\<close>

definition ex_args :: enqueue_args where
  "ex_args = (default_enqueue_args (asc ''scan''))\<lparr>ea_idempotency_key := asc ''k''\<rparr>"

definition ex_task1 :: ptask where
  "ex_task1 = new_task (at_time 0) (asc ''t1'') (JObj []) ex_args"

definition ex_task2 :: ptask where
  "ex_task2 = new_task (at_time 1) (asc ''t2'') (JObj [])
     ((default_enqueue_args (asc ''scan''))\<lparr>ea_priority := 7\<rparr>)"

definition ex_db :: task_table where
  "ex_db = [ex_task1, ex_task2]"

definition ex_running :: ptask where
  "ex_running = start_task 5 (asc ''w1'') ex_task1"

lemma strip_asc_simps [simp]:
  "py_strip (asc ''scan'') = asc ''scan''" "py_strip (asc ''default'') = asc ''default''"
  "py_strip (asc ''k'') = asc ''k''" "py_strip (asc ''t1'') = asc ''t1''"
  by (simp_all add: asc_def py_strip_def py_isspace_def)

lemmas ex_task_defs = ex_task1_def ex_task2_def ex_args_def ex_running_def new_task_def
  default_enqueue_args_def norm_tenant_def str_or_none_def py_or_def start_task_def

lemma ex_inv: "task_inv ex_db" "task_inv [ex_running]"
  by (simp_all add: ex_db_def task_inv_def ex_task_defs wf_task_def task_keys_def task_key_def)

section \<open>The queue\<close>

text \<open>C2: Any sequence of queue operations, with any interleaving of sessions, any clock readings
  and any stale views read by concurrent enqueues, keeps the table well formed: primary keys and
  idempotency keys stay unique, exactly the running tasks carry a lease, finished tasks have an end
  time, attempts never exceed max_attempts, and every waiting task has an attempt left.\<close>

theorem queue_invariant:
  assumes "task_inv db"
  shows "task_inv (fold task_step ops db)"
  by (rule tq.run_inv[OF assms])

theorem queue_invariant_witness:
  "task_inv (fold task_step [Claim (at_time 5) [] (asc ''default'') (asc ''w1'')] ex_db)"
  by (rule queue_invariant[OF ex_inv(1)])

text \<open>C37: The operations implement the status diagram of the model: whatever happens, a task
  found in the table stays in it under the same tenant, type, key and payload, its status moves only
  along the edges of the diagram, and a succeeded task is never touched again.\<close>

theorem task_follows_diagram:
  assumes "task_inv db" and "get_row pt_id k db = Some t"
  shows "\<exists>t'. get_row pt_id k (fold task_step ops db) = Some t' \<and>
    task_edge\<^sup>*\<^sup>* (pt_status t) (pt_status t') \<and>
    pt_tenant_id t' = pt_tenant_id t \<and> pt_task_type t' = pt_task_type t \<and>
    pt_idempotency_key t' = pt_idempotency_key t \<and> pt_payload t' = pt_payload t \<and>
    (pt_status t = TSucceeded \<longrightarrow> t' = t)"
  by (rule run_row[OF assms])

theorem task_follows_diagram_witness:
  "\<exists>t'. get_row pt_id (asc ''t1'') (fold task_step [Recover (at_time 9) [] 1] ex_db) = Some t' \<and>
    task_edge\<^sup>*\<^sup>* TQueued (pt_status t')"
proof -
  have get: "get_row pt_id (asc ''t1'') ex_db = Some ex_task1" by (simp add: ex_db_def ex_task_defs)
  have "pt_status ex_task1 = TQueued" by (simp add: ex_task_defs)
  with task_follows_diagram[OF ex_inv(1) get, of "[Recover (at_time 9) [] 1]"] show ?thesis
    by fastforce
qed

text \<open>C36: A claim returns a task exactly when some task of the queue is due and not locked by
  another transaction; the task is one of highest priority and, among those, of earliest creation; it
  becomes running with the worker's lease and one more attempt; no other row changes.\<close>

theorem claim_takes_best:
  assumes "task_inv db"
  shows "case claim_next_task c busy queue w db of
      (None, db') \<Rightarrow> db' = db \<and> (\<forall>t \<in> set db. \<not> due c busy queue t)
    | (Some t', db') \<Rightarrow> \<exists>t \<in> set db. due c busy queue t \<and>
        t' = t\<lparr>pt_status := TRunning, pt_attempts := pt_attempts t + 1, pt_locked_by := w,
               pt_locked_at := Some (utc c 0), pt_heartbeat_at := Some (utc c 0), pt_last_error := [],
               pt_updated_at := sqlnow c\<rparr> \<and>
        (\<forall>x \<in> set db. due c busy queue x \<longrightarrow> pt_priority x < pt_priority t \<or>
           pt_priority x = pt_priority t \<and> pt_created_at t \<le> pt_created_at x) \<and>
        db' = put_row pt_id t' db"
proof (cases "first_by claim_order (filter (due c busy queue) db)")
  case None
  then have "filter (due c busy queue) db = []" by simp
  then show ?thesis by (simp add: claim_next_task_None filter_empty_conv)
next
  case (Some t)
  have "distinct (map pt_id db)" using assms by (simp add: task_inv_def)
  from claim_next_task_Some[OF this Some, of w] first_by_SomeD[OF Some] show ?thesis
    by (auto simp: claimed_def stamped_def start_task_def claim_order_def less_eq_prod_def
        intro!: bexI[of _ t])
qed

theorem claim_takes_best_witness:
  "\<exists>t'. fst (claim_next_task (at_time 9) [] (asc ''default'') (asc ''w1'') ex_db) = Some t' \<and>
    pt_priority t' = 7 \<and> pt_attempts t' = 1"
proof -
  have "due (at_time 9) [] (asc ''default'') ex_task2"
    by (simp add: due_def claimable_def CLAIMABLE_STATUSES_def ex_task_defs)
  moreover have "ex_task2 \<in> set ex_db" by (simp add: ex_db_def)
  ultimately show ?thesis
    using claim_takes_best[OF ex_inv(1), of "at_time 9" "[]" "asc ''default''" "asc ''w1''"]
    by (fastforce simp: ex_db_def ex_task_defs split: prod.splits option.splits)
qed

text \<open>Draining a queue with one worker claims exactly the tasks that were due, each once, in
  the order of priority and age, and leaves none due: no due task is starved or run twice.\<close>

theorem drain_runs_every_due_task:
  assumes "task_inv db" and "length (filter (due c busy queue) db) \<le> n"
  shows "let (ts, db') = drain (claim_opt c busy queue w) n db
    in pt_id ` set ts = pt_id ` {t \<in> set db. due c busy queue t} \<and> distinct (map pt_id ts) \<and>
       sorted (map claim_order ts) \<and> (\<forall>t \<in> set db'. \<not> due c busy queue t)"
  using tq_claim.drain_complete[OF assms, of w] by (auto simp: Let_def split: prod.splits)

theorem drain_runs_every_due_task_witness:
  "\<exists>ts db'. drain (claim_opt (at_time 9) [] (asc ''default'') (asc ''w1'')) 2 ex_db = (ts, db') \<and>
    map pt_id ts = [asc ''t2'', asc ''t1''] \<and> (\<forall>t \<in> set db'. \<not> due (at_time 9) [] (asc ''default'') t)"
proof -
  let ?d = "drain (claim_opt (at_time 9) [] (asc ''default'') (asc ''w1'')) 2 ex_db"
  have "length (filter (due (at_time 9) [] (asc ''default'')) ex_db) \<le> 2"
    by (rule order_trans[OF length_filter_le]) (simp add: ex_db_def)
  from drain_runs_every_due_task[OF ex_inv(1) this, of "asc ''w1''"]
  have ndue: "\<forall>t \<in> set (snd ?d). \<not> due (at_time 9) [] (asc ''default'') t" by (simp add: split_beta)
  have "map pt_id (fst ?d) = [asc ''t2'', asc ''t1'']"
    by (simp add: numeral_2_eq_2 ex_db_def claim_opt_def claim_next_task_def first_by_def claim_order_def
        claimable_def CLAIMABLE_STATUSES_def ex_task_defs commit_task_def insort_key.simps
        Let_def less_eq_prod_def)
  then show ?thesis using ndue by (metis prod.collapse)
qed

end
