(* ===== verification/TaskRuns.thy ===== *)
theory TaskRuns
  imports TaskQueueClaims
begin

text \<open>
  Runs of the queue over time: the number of attempts, leases and zombie workers, recovery
  after a crash, idempotent enqueueing and its race, and what a worker's run leaves behind.
\<close>

section \<open>Attempts and leases\<close>

text \<open>C38: In any run, the number of times tasks are started is at most the attempts left at the
  beginning plus what the run adds: the clamped max_attempts of each task enqueued and one for each
  manual retry. No interleaving of claims, failures and recoveries runs a task more often.\<close>

theorem attempts_are_bounded:
  assumes "task_inv db"
  shows "count_starts task_step task_starts ops db
    \<le> (\<Sum>t \<leftarrow> db. nat (pt_max_attempts t - pt_attempts t)) + total_grant task_step task_grants ops db"
  using tq_budget.starts_bounded[OF assms, of ops]
  by (simp add: task_budget_def attempts_left_def[abs_def])

theorem attempts_are_bounded_witness:
  "count_starts task_step task_starts [Claim (at_time 9) [] (asc ''default'') (asc ''w1'')] ex_db \<le> 6"
  using attempts_are_bounded[OF ex_inv(1), of "[Claim (at_time 9) [] (asc ''default'') (asc ''w1'')]"]
  by (simp add: ex_db_def ex_task_defs)

text \<open>While the holder works, others leave its row alone and its heartbeats only refresh the lease.\<close>

lemma held_row_while_working:
  assumes "task_inv db" and "get_row pt_id k db = Some t" and "holds_task w t"
    and "\<And>op. op \<in> set ops \<Longrightarrow> \<not> task_takes k op \<and> (\<not> task_acts w k op \<or> (\<exists>c. op = Heartbeat c k w))"
  shows "\<exists>t'. get_row pt_id k (fold task_step ops db) = Some t' \<and> holds_task w t' \<and>
    pt_attempts t' = pt_attempts t \<and> pt_max_attempts t' = pt_max_attempts t"
  using assms
proof (induction ops arbitrary: db t)
  case Nil
  then show ?case by auto
next
  case (Cons op ops)
  have op: "\<not> task_takes k op" "\<not> task_acts w k op \<or> (\<exists>c. op = Heartbeat c k w)"
    using Cons.prems(4)[of op] by auto
  from task_step_row[OF Cons.prems(1,2)] obtain t1 where
    t1: "get_row pt_id k (task_step op db) = Some t1" "task_move op t t1" by blast
  have "holds_task w t1 \<and> pt_attempts t1 = pt_attempts t \<and> pt_max_attempts t1 = pt_max_attempts t"
    using t1(2) Cons.prems(3) op get_row_key[OF Cons.prems(2)]
    by (cases op) (auto elim!: task_move_elims
        simp: task_row_defs claimable_def CLAIMABLE_STATUSES_def split: if_splits)
  with Cons.IH[OF task_step_inv[OF Cons.prems(1)] t1(1)] Cons.prems(4) show ?case by fastforce
qed

lemma lease_while_working:
  assumes "task_inv db" and "task_holder db k = Some w"
    and "\<And>op. op \<in> set ops \<Longrightarrow> \<not> task_takes k op \<and> (\<not> task_acts w k op \<or> (\<exists>c. op = Heartbeat c k w))"
  shows "task_holder (fold task_step ops db) k = Some w"
proof -
  from assms(2) obtain t where "get_row pt_id k db = Some t" "holds_task w t"
    by (auto simp: task_holder_iff)
  from held_row_while_working[OF assms(1) this, of ops] assms(3) show ?thesis
    by (auto simp: task_holder_iff)
qed

text \<open>C29: Leases are exclusive and fenced: while no recovery takes the task and the holder only sends
  heartbeats, it stays the holder whatever the other sessions do, and a heartbeat, completion or failure
  reported by any other worker is refused and changes nothing.\<close>

theorem zombies_are_fenced:
  assumes "task_inv db" and "task_holder db k = Some w"
    and "\<And>op. op \<in> set ops \<Longrightarrow> \<not> task_takes k op \<and> (\<not> task_acts w k op \<or> (\<exists>c. op = Heartbeat c k w))"
    and "w' \<noteq> w"
  shows "let db' = fold task_step ops db in task_holder db' k = Some w \<and>
    heartbeat_task c k w' db' = (False, db') \<and> complete_task c k w' result db' = Inr (False, db') \<and>
    fail_task c k w' err delay db' = Inr (None, db')"
proof -
  have held: "task_holder (fold task_step ops db) k = Some w"
    by (rule lease_while_working[OF assms(1,2)]) (use assms(3) in blast)
  have no: "\<not> holds_task w' t" if "get_row pt_id k (fold task_step ops db) = Some t" for t
    using that held assms(4) by (auto simp: task_holder_def holds_task_def split: if_splits)
  show ?thesis
    using held no
    by (auto simp: Let_def heartbeat_task_def complete_task_def fail_task_def split: option.splits)
qed

theorem zombies_are_fenced_witness:
  "complete_task (at_time 8) (asc ''t1'') (asc ''w2'') PNone
     (fold task_step [Heartbeat (at_time 7) (asc ''t1'') (asc ''w1'')] [ex_running]) =
   Inr (False, fold task_step [Heartbeat (at_time 7) (asc ''t1'') (asc ''w1'')] [ex_running])"
proof -
  have "task_holder [ex_running] (asc ''t1'') = Some (asc ''w1'')"
    by (simp add: task_holder_def ex_task_defs)
  from zombies_are_fenced[OF ex_inv(2) this, of "[Heartbeat (at_time 7) (asc ''t1'') (asc ''w1'')]"
      "asc ''w2''" "at_time 8" PNone]
  show ?thesis by (simp add: Let_def asc_def)
qed

section \<open>Recovery\<close>

lemma recover_rows_spec:
  "recover_rows c busy cutoff i tbl = (n, tbl') \<Longrightarrow>
   n = length (filter (\<lambda>t. is_stale cutoff t \<and> pt_id t \<notin> set busy) tbl) \<and>
   list_all2 (\<lambda>t t'. if is_stale cutoff t \<and> pt_id t \<notin> set busy
     then \<exists>j < i + n. i \<le> j \<and> t' = stamped c (recover_task (utc c j) t) else t' = t) tbl tbl'"
proof (induction tbl arbitrary: i n tbl')
  case Nil
  then show ?case by simp
next
  case (Cons t ts)
  show ?case
  proof (cases "is_stale cutoff t \<and> pt_id t \<notin> set busy")
    case True
    obtain m ts' where r: "recover_rows c busy cutoff (Suc i) ts = (m, ts')"
      by (cases "recover_rows c busy cutoff (Suc i) ts")
    from Cons.prems True r have eq: "n = Suc m" "tbl' = stamped c (recover_task (utc c i) t) # ts'"
      by (auto simp: stamped_def)
    let ?R = "\<lambda>i n t t'. if is_stale cutoff t \<and> pt_id t \<notin> set busy
      then \<exists>j < i + n. i \<le> j \<and> t' = stamped c (recover_task (utc c j) t) else t' = t"
    have weaken: "?R i (Suc m) x y" if "?R (Suc i) m x y" for x y
      using that by (auto split: if_splits intro: Suc_leD)
    have "list_all2 (?R (Suc i) m) ts ts'" using Cons.IH[OF r] by blast
    then have "list_all2 (?R i (Suc m)) ts ts'" by (rule list.rel_mono_strong) (rule weaken)
    moreover have "?R i (Suc m) t (stamped c (recover_task (utc c i) t))" using True by (auto intro!: exI[of _ i])
    ultimately show ?thesis using Cons.IH[OF r] True unfolding eq by simp
  next
    case False
    obtain m ts' where r: "recover_rows c busy cutoff i ts = (m, ts')"
      by (cases "recover_rows c busy cutoff i ts")
    from Cons.prems False r have eq: "n = m" "tbl' = t # ts'" by auto
    from Cons.IH[OF r] False show ?thesis unfolding eq by auto
  qed
qed

text \<open>Recovery touches exactly the running tasks whose heartbeat is older than the limit (or
  missing) and that no other transaction holds: each loses its lease and is failed for an immediate
  retry, or declared dead when its attempts are used up; the count returned is their number, and every
  other row, in particular that of a worker that still sends heartbeats, is left as it was.\<close>

theorem recovery_takes_exactly_the_stale:
  "let (n, db') = recover_stale_tasks c busy stale db;
       taken = (\<lambda>t. pt_status t = TRunning \<and> pt_id t \<notin> set busy \<and>
         (case pt_heartbeat_at t of None \<Rightarrow> True | Some h \<Rightarrow> h < utc c 0 - seconds (max 1 stale)))
   in n = length (filter taken db) \<and>
      list_all2 (\<lambda>t t'. if taken t
        then pt_locked_by t' = [] \<and> pt_locked_at t' = None \<and> pt_heartbeat_at t' = None \<and>
          pt_attempts t' = pt_attempts t \<and> pt_last_error t' = msg_stale_task \<and>
          pt_status t' = (if pt_attempts t < pt_max_attempts t then TFailed else TDead)
        else t' = t) db db'"
proof -
  obtain n db' where r: "recover_stale_tasks c busy stale db = (n, db')"
    by (cases "recover_stale_tasks c busy stale db")
  from recover_rows_spec[OF r[unfolded recover_stale_tasks_def]]
  show ?thesis
    unfolding r Let_def prod.case
    by (auto simp: is_stale_def conj_ac cong: filter_cong
        elim!: list.rel_mono_strong)
      (auto simp: stamped_def recover_task_def released_def Let_def split: if_splits)
qed

text \<open>A crash loses no task: once the holder has been silent longer than the limit, a recovery that
  finds the row unlocked makes a task with an attempt left due again, for any worker of its queue whose
  clock is not behind the recovery's.\<close>

theorem crashed_task_is_due_again:
  assumes "get_row pt_id k db = Some t" and "pt_status t = TRunning" and "pt_attempts t < pt_max_attempts t"
    and "pt_heartbeat_at t = Some h" and "h < utc c 0 - seconds (max 1 stale)" and "k \<notin> set busy"
    and "\<And>j. utc c j \<le> utc c' 0" and "distinct (map pt_id db)"
  shows "\<exists>t'. get_row pt_id k (snd (recover_stale_tasks c busy stale db)) = Some t' \<and>
    due c' [] (pt_queue_name t) t' \<and> pt_attempts t' = pt_attempts t"
proof -
  obtain n db' where r: "recover_stale_tasks c busy stale db = (n, db')"
    by (cases "recover_stale_tasks c busy stale db")
  let ?R = "\<lambda>t t'. if is_stale (utc c 0 - seconds (max 1 stale)) t \<and> pt_id t \<notin> set busy
     then \<exists>j < 1 + n. 1 \<le> j \<and> t' = stamped c (recover_task (utc c j) t) else t' = t"
  have all: "list_all2 ?R db db'"
    using recover_rows_spec[OF r[unfolded recover_stale_tasks_def]] by blast
  have frame: "pt_id y = pt_id x" if "?R x y" for x y
    using that by (auto simp: stamped_def recover_task_def released_def Let_def split: if_splits)
  from get_row_moves[OF all frame assms(1)] obtain t' where
    t': "get_row pt_id k db' = Some t'" "?R t t'" by blast
  have "is_stale (utc c 0 - seconds (max 1 stale)) t \<and> pt_id t \<notin> set busy"
    using assms get_row_key[OF assms(1)] by (simp add: is_stale_def)
  with t'(2) obtain j where "t' = stamped c (recover_task (utc c j) t)" by auto
  then have "due c' [] (pt_queue_name t) t' \<and> pt_attempts t' = pt_attempts t"
    using assms(3) assms(7)[of j]
    by (simp add: due_def claimable_def CLAIMABLE_STATUSES_def stamped_def recover_task_def released_def)
  with t'(1) r show ?thesis by auto
qed

theorem crashed_task_is_due_again_witness:
  "\<exists>t'. get_row pt_id (asc ''t1'') (snd (recover_stale_tasks (at_time 3000000) [] 1 [ex_running])) = Some t' \<and>
    due (at_time 3000000) [] (asc ''default'') t'"
proof -
  have "get_row pt_id (asc ''t1'') [ex_running] = Some ex_running" by (simp add: ex_task_defs)
  from crashed_task_is_due_again[OF this, of 5 "at_time 3000000" 1 "[]" "at_time 3000000"]
  show ?thesis by (auto simp: ex_task_defs at_time_def seconds_def)
qed

section \<open>Enqueueing\<close>

text \<open>Enqueueing is idempotent: a request replayed with the same tenant, type and idempotency key
  (up to surrounding blanks) after any further requests returns the task the first one created and
  leaves the table unchanged, whatever its payload.\<close>

theorem enqueue_is_idempotent:
  assumes "enqueue_task_record c uuid db db a db = Inr (t, db')"
    and "request_key a = Some k" and "request_key b = Some k" and "py_strip (ea_task_type b) \<noteq> []"
  shows "let db'' = tq_idem.ins_all requests db'
    in enqueue_task_record c' uuid' db'' db'' b db'' = Inr (t, db'')"
proof -
  have "enqueue_now (c, uuid, a) db = Inr (t, db')" using assms(1) by (simp add: enqueue_now_def)
  from tq_idem.replay[OF this, of k "(c', uuid', b)" requests] assms(2-4)
  show ?thesis by (simp add: enqueue_now_def Let_def)
qed

theorem enqueue_is_idempotent_witness:
  "let db'' = tq_idem.ins_all [(at_time 3, asc ''t9'', default_enqueue_args (asc ''scan''))] [ex_task1]
   in enqueue_task_record (at_time 4) (asc ''t3'') db'' db'' ex_args db'' = Inr (ex_task1, db'')"
proof -
  have first: "enqueue_task_record (at_time 0) (asc ''t1'') [] [] ex_args [] = Inr (ex_task1, [ex_task1])"
    by (simp add: enqueue_task_record_def ex_args_def default_enqueue_args_def ex_task1_def
        payload_or_empty_def json_safe_def insert_task_def new_task_def str_or_none_def Let_def)
  have key: "request_key ex_args = Some (asc ''default'', asc ''scan'', asc ''k'')"
    by (simp add: request_key_def ex_task_defs)
  have ne: "py_strip (ea_task_type ex_args) \<noteq> []" by (simp add: ex_task_defs)
  show ?thesis by (rule enqueue_is_idempotent[OF first key key ne])
qed

text \<open>When two requests with one idempotency key pass the pre-check at the same time, the unique
  constraint stops the loser: if its last SELECT sees the committed row it returns the winner's task,
  and otherwise it ends with NoResultFound; in both cases no second task is created.\<close>

theorem enqueue_race:
  assumes "request_key a = Some k" and "task_by_key k view = None" and "task_by_key k db = Some winner"
    and "py_strip (ea_task_type a) \<noteq> []" and "json_safe (payload_or_empty (ea_payload a)) = Inr payload"
  shows "enqueue_task_record c uuid view reread a db =
    (case task_by_key k reread of Some t \<Rightarrow> Inr (t, db) | None \<Rightarrow> Inl NoResultFound)"
proof -
  obtain tenant ty ky where k: "k = (tenant, ty, ky)" by (cases k)
  from assms(1) have key: "tenant = norm_tenant (ea_tenant_id a)" "ty = py_strip (ea_task_type a)"
    "str_or_none (py_strip (ea_idempotency_key a)) = Some ky"
    by (auto simp: request_key_def k)
  from assms(3) have "winner \<in> set db \<and> has_task_key tenant ty ky winner"
    by (simp add: k task_by_key_def find_Some_iff) (metis nth_mem)
  then have "list_ex (has_task_key tenant ty ky) db" by (auto simp: list_ex_iff)
  then have "insert_task (new_task c uuid payload a) db = Inl IntegrityError"
    using key by (simp add: insert_task_def new_task_def)
  with assms(2,4,5) key show ?thesis
    by (simp add: enqueue_task_record_def Let_def k task_by_key_def split: option.splits)
qed

theorem enqueue_race_witness:
  "enqueue_task_record (at_time 1) (asc ''t3'') [] [ex_task1] ex_args [ex_task1] =
     Inr (ex_task1, [ex_task1]) \<and>
   enqueue_task_record (at_time 1) (asc ''t3'') [] [] ex_args [ex_task1] = Inl NoResultFound"
proof -
  have key: "request_key ex_args = Some (asc ''default'', asc ''scan'', asc ''k'')"
    by (simp add: request_key_def ex_task_defs)
  have none: "task_by_key (asc ''default'', asc ''scan'', asc ''k'') [] = None"
    by (simp add: task_by_key_def)
  have some: "task_by_key (asc ''default'', asc ''scan'', asc ''k'') [ex_task1] = Some ex_task1"
    by (simp add: task_by_key_def has_task_key_def ex_task_defs)
  have ne: "py_strip (ea_task_type ex_args) \<noteq> []" by (simp add: ex_task_defs)
  have js: "json_safe (payload_or_empty (ea_payload ex_args)) = Inr (JObj [])"
    by (simp add: ex_task_defs payload_or_empty_def json_safe_def)
  from enqueue_race[OF key none some ne js, of "at_time 1" "asc ''t3''" "[ex_task1]"]
    enqueue_race[OF key none some ne js, of "at_time 1" "asc ''t3''" "[]"]
  show ?thesis by (simp add: some none)
qed

section \<open>Failures and the worker's run\<close>

text \<open>A failure reported by the holder keeps the last 8000 characters of the error and releases
  the lease; with attempts left the task waits min(300, 2 ** (attempts - 1)) seconds, between 1 and 300,
  before it is due again, otherwise it is dead.\<close>

theorem failure_backs_off:
  assumes "distinct (map pt_id db)" and "get_row pt_id k db = Some t" and "holds_task w t"
    and "1 \<le> pt_attempts t" and "pt_attempts t \<le> 1024"
  shows "\<exists>s db' t'. fail_task c k w err None db = Inr (Some s, db') \<and> get_row pt_id k db' = Some t' \<and>
    pt_status t' = s \<and> pt_last_error t' = py_last 8000 err \<and> pt_locked_by t' = [] \<and>
    (if pt_max_attempts t \<le> pt_attempts t then s = TDead \<and> pt_finished_at t' = Some (utc c 0)
     else s = TFailed \<and> pt_run_after t' = utc c 0 + seconds (min 300 (2 ^ nat (pt_attempts t - 1))) \<and>
       utc c 0 + seconds 1 \<le> pt_run_after t' \<and> pt_run_after t' \<le> utc c 0 + seconds 300)"
proof -
  let ?d = "seconds (min 300 (2 ^ nat (pt_attempts t - 1)))"
  have delay: "backoff (pt_attempts t) = Inr ?d"
    using assms(4,5) by (simp add: backoff_def Let_def max_def nat_less_iff)
  have p: "1 \<le> (2::int) ^ n" for n by simp
  have bounds: "seconds 1 \<le> ?d" "?d \<le> seconds 300" "max 0 ?d = ?d"
    using p[of "nat (pt_attempts t - 1)"] by (auto simp: seconds_def min_def max_def)
  have id: "pt_id t = k" by (rule get_row_key[OF assms(2)])
  have st: "pt_status t = TRunning" using assms(3) by (simp add: holds_task_def)
  note sel = fail_task_def Let_def commit_task_def released_def table_simps
  show ?thesis
  proof (cases "pt_max_attempts t \<le> pt_attempts t")
    case True
    let ?new = "(released (t\<lparr>pt_last_error := py_last 8000 err\<rparr>))
      \<lparr>pt_status := TDead, pt_finished_at := Some (utc c 0)\<rparr>"
    have "?new \<noteq> t" using st by (auto dest: arg_cong[of _ _ pt_status])
    then have "fail_task c k w err None db = Inr (Some TDead, put_row pt_id (stamped c ?new) db)"
      using assms(2,3) True by (simp add: sel stamped_def)
    moreover have "get_row pt_id k (put_row pt_id (stamped c ?new) db) = Some (stamped c ?new)"
      using assms(2) id by (simp add: table_simps stamped_def released_def)
    ultimately show ?thesis using True by (simp add: stamped_def released_def)
  next
    case False
    let ?new = "(released (t\<lparr>pt_last_error := py_last 8000 err\<rparr>))
      \<lparr>pt_status := TFailed, pt_run_after := utc c 0 + ?d\<rparr>"
    have "?new \<noteq> t" using st by (auto dest: arg_cong[of _ _ pt_status])
    then have "fail_task c k w err None db = Inr (Some TFailed, put_row pt_id (stamped c ?new) db)"
      using assms(2,3) False delay bounds(3) by (simp add: sel stamped_def)
    moreover have "get_row pt_id k (put_row pt_id (stamped c ?new) db) = Some (stamped c ?new)"
      using assms(2) id by (simp add: table_simps stamped_def released_def)
    ultimately show ?thesis using False bounds by (simp add: stamped_def released_def)
  qed
qed

theorem failure_backs_off_witness:
  "\<exists>s db' t'. fail_task (at_time 7) (asc ''t1'') (asc ''w1'') (asc ''boom'') None [ex_running] = Inr (Some s, db') \<and>
    get_row pt_id (asc ''t1'') db' = Some t' \<and> s = TFailed \<and> pt_run_after t' = 7 + seconds 1"
proof -
  have "distinct (map pt_id [ex_running])" by simp
  moreover have "get_row pt_id (asc ''t1'') [ex_running] = Some ex_running" by (simp add: ex_task_defs)
  moreover have "holds_task (asc ''w1'') ex_running" by (simp add: holds_task_def ex_task_defs)
  moreover have "1 \<le> pt_attempts ex_running" "pt_attempts ex_running \<le> 1024"
    by (simp_all add: ex_task_defs)
  ultimately show ?thesis
    using failure_backs_off[of "[ex_running]" "asc ''t1''" ex_running "asc ''w1''" "at_time 7" "asc ''boom''"]
    by (fastforce simp: ex_task_defs at_time_def)
qed

lemma claim_next_task_held:
  assumes "task_inv db" and "claim_next_task c busy queue w db = (Some t, db1)"
  shows "task_holder db1 (pt_id t) = Some w \<and> task_inv db1 \<and>
    pt_attempts t \<le> pt_max_attempts t \<and> get_row pt_id (pt_id t) db1 = Some t"
proof -
  have "claim_opt c busy queue w db = Some (t, db1)" using assms(2) by (simp add: claim_opt_def)
  from claim_opt_Some[OF assms(1) this] obtain t0 where t0: "t0 \<in> set db" "due c busy queue t0"
    "t = claimed c w t0" "db1 = put_row pt_id t db" by blast
  have "get_row pt_id (pt_id t) db1 = Some t"
    using get_row_distinct[of pt_id db t0] assms(1) t0
    by (simp add: table_simps task_inv_def claimed_def stamped_def start_task_def)
  moreover have "task_inv db1" using task_step_inv[OF assms(1), of "Claim c busy queue w"] assms(2) by simp
  ultimately show ?thesis
    using t0(2,3) by (simp add: task_holder_iff holds_task_def claimed_def stamped_def start_task_def
        due_def claimable_def)
qed

lemma row_after_handler:
  assumes "task_inv db" and "claim_next_task c busy queue w db = (Some t, db1)"
    and "\<And>op. op \<in> set between \<Longrightarrow> \<not> task_takes (pt_id t) op \<and>
      (\<not> task_acts w (pt_id t) op \<or> (\<exists>c. op = Heartbeat c (pt_id t) w))"
  obtains t2 where "get_row pt_id (pt_id t) (fold task_step between db1) = Some t2" "holds_task w t2"
    "task_inv (fold task_step between db1)" "pt_attempts t2 = pt_attempts t"
    "pt_max_attempts t2 = pt_max_attempts t"
proof -
  note cl = claim_next_task_held[OF assms(1,2)]
  have "holds_task w t" using cl by (auto simp: task_holder_iff)
  with held_row_while_working[of db1 "pt_id t" t w between] cl assms(3) that tq.run_inv[of db1 between]
  show thesis by blast
qed

text \<open>C28: One run of the worker that claims a task settles it according to its handler, whatever the
  other sessions do meanwhile short of taking the lease: a returned value that can be stored makes the
  task succeeded with that result; an exception makes it failed or dead with the end of the traceback.\<close>

theorem worker_settles_its_task:
  assumes "task_inv db" and "claim_next_task c1 busy queue w db = (Some t, db1)"
    and "\<And>op. op \<in> set between \<Longrightarrow> \<not> task_takes (pt_id t) op \<and>
      (\<not> task_acts w (pt_id t) op \<or> (\<exists>c. op = Heartbeat c (pt_id t) w))"
    and "pt_attempts t \<le> 1024"
  shows "case run_handler fmt hs w t of
      Returned v \<Rightarrow> \<forall>j. json_safe v = Inr j \<longrightarrow>
        (\<exists>db' t'. run_task_once fmt c1 c2 c3 busy hs between queue w db = (Ran True, db') \<and>
           get_row pt_id (pt_id t) db' = Some t' \<and> pt_status t' = TSucceeded \<and> pt_result t' = j \<and>
           pt_finished_at t' = Some (utc c2 0) \<and> pt_locked_by t' = [])
    | Raised detail \<Rightarrow>
        (\<exists>db' t'. run_task_once fmt c1 c2 c3 busy hs between queue w db = (Ran True, db') \<and>
           get_row pt_id (pt_id t) db' = Some t' \<and>
           pt_status t' = (if pt_attempts t < pt_max_attempts t then TFailed else TDead) \<and>
           pt_last_error t' = py_last 8000 detail \<and> pt_locked_by t' = [])
    | Cancelled \<Rightarrow> run_task_once fmt c1 c2 c3 busy hs between queue w db =
        (CancelledOut, fold task_step between db1)"
proof -
  let ?db2 = "fold task_step between db1"
  obtain t2 where t2: "get_row pt_id (pt_id t) ?db2 = Some t2" "holds_task w t2" "task_inv ?db2"
    "pt_attempts t2 = pt_attempts t" "pt_max_attempts t2 = pt_max_attempts t"
    by (rule row_after_handler[OF assms(1,2)]) (use assms(3) in blast)+
  have id: "pt_id t2 = pt_id t" by (rule get_row_key[OF t2(1)])
  show ?thesis
  proof (cases "run_handler fmt hs w t")
    case (Returned v)
    have "\<exists>db' t'. run_task_once fmt c1 c2 c3 busy hs between queue w db = (Ran True, db') \<and>
        get_row pt_id (pt_id t) db' = Some t' \<and> pt_status t' = TSucceeded \<and> pt_result t' = j \<and>
        pt_finished_at t' = Some (utc c2 0) \<and> pt_locked_by t' = []" if j: "json_safe v = Inr j" for j
    proof -
      let ?new = "t2\<lparr>pt_status := TSucceeded, pt_result := j, pt_finished_at := Some (utc c2 0),
        pt_locked_by := [], pt_locked_at := None, pt_heartbeat_at := None\<rparr>"
      have "?new \<noteq> t2" using t2(2) by (auto simp: holds_task_def dest: arg_cong[of _ _ pt_status])
      then have c: "complete_task c2 (pt_id t) w v ?db2 = Inr (True, put_row pt_id (stamped c2 ?new) ?db2)"
        using t2(1,2) j by (simp add: complete_task_def commit_task_def stamped_def)
      have "get_row pt_id (pt_id t) (put_row pt_id (stamped c2 ?new) ?db2) = Some (stamped c2 ?new)"
        using t2(1) id by (simp add: table_simps stamped_def)
      with c show ?thesis
        using assms(2) Returned by (simp add: run_task_once_def Let_def stamped_def)
    qed
    with Returned show ?thesis by simp
  next
    case (Raised detail)
    have d: "distinct (map pt_id ?db2)" using t2(3) by (simp add: task_inv_def)
    have "1 \<le> pt_attempts t2"
      using t2(1-3) get_row_in[OF t2(1)] by (auto simp: task_inv_def wf_task_def holds_task_def list_all_iff)
    from failure_backs_off[OF d t2(1,2) this, of c3 detail] t2(4,5) assms(4) obtain s db' t' where
      f: "fail_task c3 (pt_id t) w detail None ?db2 = Inr (Some s, db')"
        "get_row pt_id (pt_id t) db' = Some t'" "pt_status t' = s" "pt_last_error t' = py_last 8000 detail"
        "pt_locked_by t' = []" "s = (if pt_attempts t < pt_max_attempts t then TFailed else TDead)"
      by (auto split: if_splits)
    then show ?thesis
      using assms(2) Raised by (simp add: run_task_once_def Let_def settle_failure_def)
  next
    case Cancelled
    with assms(2) show ?thesis by (simp add: run_task_once_def Let_def)
  qed
qed

theorem worker_settles_its_task_witness:
  "\<exists>db' t'. run_task_once (\<lambda>_. []) (at_time 9) (at_time 10) (at_time 10) []
      [(asc ''scan'', \<lparr>h_ident = 1, h_parameters = Some 1, h_call1 = (\<lambda>j. Returned (of_json j)),
        h_call2 = (\<lambda>_ _. Cancelled)\<rparr>)]
      [Enqueue (at_time 9) (asc ''t7'') [] [] (default_enqueue_args (asc ''scan''))]
      (asc ''default'') (asc ''w1'') [ex_task1] = (Ran True, db') \<and>
    get_row pt_id (asc ''t1'') db' = Some t' \<and> pt_status t' = TSucceeded \<and> pt_result t' = JObj []"
proof -
  let ?hs = "[(asc ''scan'', \<lparr>h_ident = 1, h_parameters = Some 1, h_call1 = (\<lambda>j. Returned (of_json j)),
        h_call2 = (\<lambda>_ _. Cancelled)\<rparr>)]"
  let ?t = "(start_task 9 (asc ''w1'') ex_task1)\<lparr>pt_updated_at := 9\<rparr>"
  have cl: "claim_next_task (at_time 9) [] (asc ''default'') (asc ''w1'') [ex_task1] = (Some ?t, [?t])"
    by (simp add: claim_next_task_def first_by_def claimable_def CLAIMABLE_STATUSES_def ex_task_defs
        commit_task_def Let_def at_time_def)
  have inv: "task_inv [ex_task1]" using ex_inv(1) by (simp add: ex_db_def task_inv_def task_keys_def)
  have run: "run_handler (\<lambda>_. []) ?hs (asc ''w1'') ?t = Returned (of_json (JObj []))"
    by (simp add: run_handler_def get_task_handler_def invoke_handler_def json_or_empty_def ex_task_defs)
  have js: "json_safe (of_json (JObj [])) = Inr (JObj [])" by (simp add: json_safe_def)
  have ops: "\<not> task_takes k op \<and> (\<not> task_acts w k op \<or> (\<exists>c. op = Heartbeat c k w))"
    if "op \<in> set [Enqueue (at_time 9) (asc ''t7'') [] [] (default_enqueue_args (asc ''scan''))]" for op k w
    using that by simp
  have att: "pt_attempts ?t \<le> 1024" "pt_id ?t = asc ''t1''" by (simp_all add: ex_task_defs)
  from worker_settles_its_task[where fmt = "\<lambda>_. []" and hs = ?hs and ?c2.0 = "at_time 10" and
      ?c3.0 = "at_time 10", OF inv cl ops att(1)] js
  show ?thesis unfolding run outcome.case att(2) by blast
qed

text \<open>A worker that lost its lease while its handler ran leaves no trace: whatever the handler
  returns or raises, the run ends with the table as the other sessions left it.\<close>

theorem zombie_run_changes_nothing:
  assumes "claim_next_task c1 busy queue w db = (Some t, db1)"
    and "task_holder (fold task_step between db1) (pt_id t) \<noteq> Some w"
  shows "snd (run_task_once fmt c1 c2 c3 busy hs between queue w db) = fold task_step between db1"
proof -
  let ?db2 = "fold task_step between db1"
  have no: "\<not> holds_task w x" if "get_row pt_id (pt_id t) ?db2 = Some x" for x
    using that assms(2) by (auto simp: task_holder_iff)
  have "complete_task c2 (pt_id t) w v ?db2 = Inr (False, ?db2)" for v
    using no by (auto simp: complete_task_def split: option.splits)
  moreover have "settle_failure c3 (pt_id t) w d ?db2 = (Ran True, ?db2)" for d
    using no by (auto simp: settle_failure_def fail_task_def split: option.splits)
  ultimately show ?thesis
    using assms(1) by (cases "run_handler fmt hs w t") (simp_all add: run_task_once_def Let_def)
qed

theorem zombie_run_changes_nothing_witness:
  "let db1 = snd (claim_next_task (at_time 9) [] (asc ''default'') (asc ''w1'') [ex_task1]);
       ops = [Recover (at_time 3000000) [] 1]
   in snd (run_task_once (\<lambda>_. []) (at_time 9) (at_time 4000000) (at_time 4000000) [] [] ops
        (asc ''default'') (asc ''w1'') [ex_task1]) = fold task_step ops db1"
proof -
  let ?t = "(start_task 9 (asc ''w1'') ex_task1)\<lparr>pt_updated_at := 9\<rparr>"
  let ?ops = "[Recover (at_time 3000000) [] 1]"
  have cl: "claim_next_task (at_time 9) [] (asc ''default'') (asc ''w1'') [ex_task1] = (Some ?t, [?t])"
    by (simp add: claim_next_task_def first_by_def claimable_def CLAIMABLE_STATUSES_def ex_task_defs
        commit_task_def Let_def at_time_def)
  have "task_holder (fold task_step ?ops [?t]) (pt_id ?t) \<noteq> Some (asc ''w1'')"
    by (simp add: recover_stale_tasks_def is_stale_def ex_task_defs at_time_def seconds_def
        recover_task_def released_def task_holder_def)
  from zombie_run_changes_nothing[OF cl this, of "\<lambda>_. []" "at_time 4000000" "at_time 4000000" "[]"] cl
  show ?thesis by (simp add: Let_def)
qed

section \<open>Starting the workers\<close>

lemma worker_name_not_dispatcher:
  "asc ''persistent-task-'' @ q \<noteq> asc ''domain-event-dispatcher''"
  by (simp add: asc_def)

text \<open>The background workers are started once: a second start returns the running ones and changes
  nothing until they are stopped; the workers have distinct names, one per distinct non-blank queue and
  one event dispatcher.\<close>

theorem workers_start_once:
  "let (ws, app1) = start_background_workers queues app
   in start_background_workers queues' app1 = (ws, app1) \<and> task_event_workers app1 = ws \<and>
      (task_event_workers app = [] \<longrightarrow> distinct ws \<and> task_event_stop app1 = Some False \<and>
         set ws = {asc ''domain-event-dispatcher''} \<union>
           (\<lambda>q. asc ''persistent-task-'' @ py_strip q) ` {q \<in> set queues. py_strip q \<noteq> []}) \<and>
      task_event_workers (stop_background_workers app1) = []"
  by (auto simp: start_background_workers_def stop_background_workers_def worker_names_def Let_def
      distinct_map inj_on_def worker_name_not_dispatcher worker_name_not_dispatcher[symmetric])

theorem workers_start_once_witness:
  "fst (start_background_workers [asc ''a'', asc ''b'']
      (snd (start_background_workers [asc ''default''] \<lparr>task_event_workers = [], task_event_stop = None\<rparr>))) =
   fst (start_background_workers [asc ''default''] \<lparr>task_event_workers = [], task_event_stop = None\<rparr>)"
  using workers_start_once[of "[asc ''default'']" "\<lparr>task_event_workers = [], task_event_stop = None\<rparr>"
      "[asc ''a'', asc ''b'']"]
  by (simp add: split_beta Let_def)

end
