(* ===== verification/PyStd.thy ===== *)
theory PyStd
  imports Json
begin

text \<open>
  The parts of Python's standard library that the sources format and match text with:
  \<open>datetime.isoformat\<close> of a naive datetime and \<open>fnmatch.fnmatchcase\<close>.
\<close>

section \<open>datetime.isoformat\<close>

definition zero_pad :: "nat \<Rightarrow> int \<Rightarrow> pystr" where
  "zero_pad w n = (let d = dec_nat (nat n) in replicate (w - length d) 48 @ d)"

text \<open>Year, month and day of a day number counted from 1970-01-01, proleptic Gregorian.\<close>

definition civil_of_days :: "int \<Rightarrow> int \<times> int \<times> int" where
  "civil_of_days days =
     (let z = days + 719468;
          era = z div 146097;
          doe = z - era * 146097;
          yoe = (doe - doe div 1460 + doe div 36524 - doe div 146096) div 365;
          doy = doe - (365 * yoe + yoe div 4 - yoe div 100);
          mp = (5 * doy + 2) div 153;
          d = doy - (153 * mp + 2) div 5 + 1;
          m = (if mp < 10 then mp + 3 else mp - 9)
      in (yoe + era * 400 + (if m \<le> 2 then 1 else 0), m, d))"

definition isoformat :: "time \<Rightarrow> pystr" where
  "isoformat t =
     (let (y, m, d) = civil_of_days (t div seconds 86400);
          us = t mod seconds 86400;
          s = us div 1000000;
          frac = us mod 1000000
      in zero_pad 4 y @ [45] @ zero_pad 2 m @ [45] @ zero_pad 2 d @ [84] @
         zero_pad 2 (s div 3600) @ [58] @ zero_pad 2 (s div 60 mod 60) @ [58] @ zero_pad 2 (s mod 60) @
         (if frac = 0 then [] else [46] @ zero_pad 6 frac))"

text \<open>\<open>strftime("%Y-%m-%d %H:%M")\<close> and the same with seconds.\<close>

definition strftime_minute :: "time \<Rightarrow> pystr" where
  "strftime_minute t =
     (let (y, m, d) = civil_of_days (t div seconds 86400);
          s = t mod seconds 86400 div 1000000
      in zero_pad 4 y @ [45] @ zero_pad 2 m @ [45] @ zero_pad 2 d @ [32] @
         zero_pad 2 (s div 3600) @ [58] @ zero_pad 2 (s div 60 mod 60))"

definition strftime_second :: "time \<Rightarrow> pystr" where
  "strftime_second t = strftime_minute t @ [58] @ zero_pad 2 (t mod seconds 86400 div 1000000 mod 60)"

definition iso_option :: "time option \<Rightarrow> json" where
  "iso_option v = (case v of None \<Rightarrow> JNull | Some t \<Rightarrow> JStr (isoformat t))"

lemma zero_pad_digits: "c \<in> set (zero_pad w n) \<Longrightarrow> 48 \<le> c \<and> c \<le> 57"
  by (auto simp: zero_pad_def Let_def dest: dec_nat_digits split: if_splits)

text \<open>Digits, hyphens, colons, the letter T and a dot are all that occurs in the text.\<close>

lemma isoformat_chars: "c \<in> set (isoformat t) \<Longrightarrow> c \<in> {45, 46, 84} \<or> 48 \<le> c \<and> c \<le> 58"
  by (auto simp: isoformat_def Let_def split: prod.splits if_splits dest!: zero_pad_digits)

lemma isoformat_nonempty [simp]: "isoformat t \<noteq> []"
  by (simp add: isoformat_def Let_def split: prod.splits)

section \<open>fnmatch.fnmatchcase\<close>

text \<open>
  The tokens of a pattern: \<open>*\<close>, \<open>?\<close>, a literal, and a bracket set of ranges. In a set an
  unclosed bracket is a literal, a leading \<open>!\<close> complements, a leading \<open>]\<close> is a member, and a
  descending range has no members.
\<close>

datatype glob = AnySeq | AnyOne | Lit nat | CharSet bool "(nat \<times> nat) list"

fun set_ranges :: "pystr \<Rightarrow> (nat \<times> nat) list" where
  "set_ranges (a # b # c # s) = (if b = 45 then (a, c) # set_ranges s else (a, a) # set_ranges (b # c # s))"
| "set_ranges (a # s) = (a, a) # set_ranges s"
| "set_ranges [] = []"

definition split_set :: "pystr \<Rightarrow> (bool \<times> pystr \<times> pystr) option" where
  "split_set ps =
     (let neg = (case ps of c # _ \<Rightarrow> c = 33 | [] \<Rightarrow> False);
          q = (if neg then tl ps else ps);
          lead = (case q of c # _ \<Rightarrow> c = 93 | [] \<Rightarrow> False);
          q' = (if lead then tl q else q);
          body = takeWhile (\<lambda>c. c \<noteq> 93) q'
      in (case dropWhile (\<lambda>c. c \<noteq> 93) q' of
            [] \<Rightarrow> None
          | _ # rest \<Rightarrow> Some (neg, (if lead then [93] else []) @ body, rest)))"

lemma dropWhile_Cons_shorter: "dropWhile P q = x # r \<Longrightarrow> length r < length q"
  using length_dropWhile_le[of P q] by simp

lemma split_set_shorter:
  assumes "split_set ps = Some (neg, body, rest)"
  shows "length rest < length ps"
proof -
  let ?q = "if (case ps of c # _ \<Rightarrow> c = 33 | [] \<Rightarrow> False) then tl ps else ps"
  let ?q' = "if (case ?q of c # _ \<Rightarrow> c = 93 | [] \<Rightarrow> False) then tl ?q else ?q"
  have "length ?q' \<le> length ps" by simp
  moreover obtain x where "dropWhile (\<lambda>c. c \<noteq> 93) ?q' = x # rest"
    using assms by (simp only: split_set_def Let_def) (cases "dropWhile (\<lambda>c. c \<noteq> 93) ?q'"; simp)
  ultimately show ?thesis using dropWhile_Cons_shorter by fastforce
qed

function parse_glob :: "pystr \<Rightarrow> glob list" where
  "parse_glob [] = []"
| "parse_glob (c # ps) =
     (if c = 42 then AnySeq # parse_glob ps
      else if c = 63 then AnyOne # parse_glob ps
      else if c = 91 then
        (case split_set ps of
           None \<Rightarrow> Lit 91 # parse_glob ps
         | Some (neg, body, rest) \<Rightarrow> CharSet neg (set_ranges body) # parse_glob rest)
      else Lit c # parse_glob ps)"
  by pat_completeness auto
termination
  by (relation "measure length") (auto dest: split_set_shorter)

fun glob_char :: "glob \<Rightarrow> nat \<Rightarrow> bool" where
  "glob_char (Lit a) c = (a = c)"
| "glob_char (CharSet neg rs) c = (list_ex (\<lambda>(a, b). a \<le> c \<and> c \<le> b) rs \<noteq> neg)"
| "glob_char _ c = True"

fun match_globs :: "glob list \<Rightarrow> pystr \<Rightarrow> bool" where
  "match_globs [] s = (s = [])"
| "match_globs (AnySeq # gs) [] = match_globs gs []"
| "match_globs (AnySeq # gs) (c # s) = (match_globs gs (c # s) \<or> match_globs (AnySeq # gs) s)"
| "match_globs (g # gs) [] = False"
| "match_globs (g # gs) (c # s) = (glob_char g c \<and> match_globs gs s)"

definition fnmatchcase :: "pystr \<Rightarrow> pystr \<Rightarrow> bool" where
  "fnmatchcase name pat = match_globs (parse_glob pat) name"

lemma match_star [simp]: "match_globs [AnySeq] s"
  by (induction s) auto

lemma fnmatchcase_star: "fnmatchcase name [42]"
  by (simp add: fnmatchcase_def)

definition plain_char :: "nat \<Rightarrow> bool" where
  "plain_char c \<longleftrightarrow> c \<notin> {42, 63, 91}"

lemma parse_glob_plain: "list_all plain_char ps \<Longrightarrow> parse_glob (ps @ qs) = map Lit ps @ parse_glob qs"
  by (induction ps) (auto simp: plain_char_def)

lemma match_lits: "match_globs (map Lit ps @ gs) s \<longleftrightarrow> (\<exists>r. s = ps @ r \<and> match_globs gs r)"
proof (induction ps arbitrary: s)
  case Nil
  then show ?case by simp
next
  case (Cons p ps)
  then show ?case by (cases s) auto
qed

text \<open>A pattern without wildcards matches itself only; \<open>prefix*\<close> matches what starts with the prefix.\<close>

lemma fnmatchcase_plain: "list_all plain_char pat \<Longrightarrow> fnmatchcase name pat \<longleftrightarrow> name = pat"
  using parse_glob_plain[of pat "[]"] match_lits[of pat "[]" name] by (simp add: fnmatchcase_def)

lemma fnmatchcase_prefix:
  "list_all plain_char pat \<Longrightarrow> fnmatchcase name (pat @ [42]) \<longleftrightarrow> (\<exists>r. name = pat @ r)"
  using parse_glob_plain[of pat "[42]"] match_lits[of pat "[AnySeq]" name] by (simp add: fnmatchcase_def)

end
