(* ===== verification/EventCenter.thy ===== *)
theory EventCenter
  imports TaskQueue PyStd Interfaces
begin

text \<open>
  The domain-event outbox: \<open>models/domain_event.py\<close> (events and their per-subscriber
  deliveries), \<open>events/registry.py\<close> (subscriptions) and \<open>services/event_center_service.py\<close>
  (every operation on the two tables).
\<close>

section \<open>Rows\<close>

datatype event_status = EPending | EDispatching | EPublished | EFailed | EDead

datatype delivery_status = DPending | DRunning | DSucceeded | DFailed | DDead

definition event_status_str :: "event_status \<Rightarrow> pystr" where
  "event_status_str s = asc (case s of EPending \<Rightarrow> ''pending'' | EDispatching \<Rightarrow> ''dispatching''
     | EPublished \<Rightarrow> ''published'' | EFailed \<Rightarrow> ''failed'' | EDead \<Rightarrow> ''dead'')"

record domain_event =
  de_id :: pystr
  de_tenant_id :: pystr
  de_event_type :: pystr
  de_source :: pystr
  de_aggregate_type :: pystr
  de_aggregate_id :: pystr
  de_payload :: json
  de_headers :: json
  de_schema_version :: int
  de_status :: event_status
  de_attempts :: int
  de_max_attempts :: int
  de_available_at :: time
  de_idempotency_key :: "pystr option"
  de_correlation_id :: pystr
  de_causation_id :: pystr
  de_locked_by :: pystr
  de_locked_at :: "time option"
  de_last_error :: pystr
  de_occurred_at :: time
  de_published_at :: "time option"

record event_delivery =
  ed_id :: pystr
  ed_event_id :: pystr
  ed_tenant_id :: pystr
  ed_subscriber :: pystr
  ed_pattern :: pystr
  ed_status :: delivery_status
  ed_attempts :: int
  ed_max_attempts :: int
  ed_next_attempt_at :: time
  ed_last_error :: pystr
  ed_created_at :: time
  ed_finished_at :: "time option"

record event_db =
  events :: "domain_event list"
  deliveries :: "event_delivery list"

definition put_event :: "domain_event \<Rightarrow> event_db \<Rightarrow> event_db" where
  "put_event e db = db\<lparr>events := put_row de_id e (events db)\<rparr>"

definition put_delivery :: "event_delivery \<Rightarrow> event_db \<Rightarrow> event_db" where
  "put_delivery d db = db\<lparr>deliveries := put_row ed_id d (deliveries db)\<rparr>"

section \<open>Subscriptions\<close>

record event_context =
  ec_event_id :: pystr
  ec_event_type :: pystr
  ec_tenant_id :: pystr
  ec_source :: pystr
  ec_aggregate_type :: pystr
  ec_aggregate_id :: pystr
  ec_correlation_id :: pystr
  ec_causation_id :: pystr
  ec_occurred_at :: time
  ec_delivery_attempt :: int

text \<open>What a subscriber's handler comes to, as for the task handlers.\<close>

datatype handler_outcome = HReturned | HRaised pystr | HCancelled

record event_handler =
  eh_ident :: nat
  eh_parameters :: "nat option"
  eh_call1 :: "json \<Rightarrow> handler_outcome"
  eh_call2 :: "json \<Rightarrow> event_context \<Rightarrow> handler_outcome"

record subscription =
  sub_pattern :: pystr
  sub_subscriber :: pystr
  sub_handler :: event_handler
  sub_max_attempts :: int

type_synonym subscriptions = "(pystr \<times> subscription) list"

definition msg_sub_empty :: pystr where
  "msg_sub_empty = [0x4e8b, 0x4ef6] @ asc '' pattern '' @ [0x548c] @ asc '' subscriber '' @
     [0x4e0d, 0x80fd, 0x4e3a, 0x7a7a]"

definition msg_sub_duplicate :: pystr where
  "msg_sub_duplicate = [0x4e8b, 0x4ef6, 0x8ba2, 0x9605, 0x8005, 0x91cd, 0x590d, 0x6ce8, 0x518c, 0x3a, 0x20]"

definition register_event_handler ::
  "pystr \<Rightarrow> pystr \<Rightarrow> event_handler \<Rightarrow> int \<Rightarrow> subscriptions \<Rightarrow> subscriptions res" where
  "register_event_handler pattern subscriber handler max_attempts subs =
     (let pattern = py_strip pattern; subscriber = py_strip subscriber;
          s = \<lparr>sub_pattern = pattern, sub_subscriber = subscriber, sub_handler = handler,
               sub_max_attempts = max 1 (min 100 max_attempts)\<rparr>
      in if pattern = [] \<or> subscriber = [] then Inl (ValueError msg_sub_empty)
         else (case map_of subs subscriber of
             Some current \<Rightarrow>
               if eh_ident (sub_handler current) \<noteq> eh_ident handler
               then Inl (ValueError (msg_sub_duplicate @ subscriber))
               else Inr (AList.update subscriber s subs)
           | None \<Rightarrow> Inr (AList.update subscriber s subs)))"

text \<open>The decorator: the name defaults to the handler's module and qualified name.\<close>

definition subscribe_event ::
  "pystr \<Rightarrow> pystr \<Rightarrow> int \<Rightarrow> pystr \<Rightarrow> pystr \<Rightarrow> event_handler \<Rightarrow> subscriptions \<Rightarrow> subscriptions res" where
  "subscribe_event pattern subscriber max_attempts h_module h_qualname handler subs =
     register_event_handler pattern (py_or subscriber (h_module @ [46] @ h_qualname)) handler max_attempts subs"

definition matching_subscriptions :: "subscriptions \<Rightarrow> pystr \<Rightarrow> subscription list" where
  "matching_subscriptions subs event_type =
     sort_key sub_subscriber (filter (\<lambda>s. fnmatchcase event_type (sub_pattern s)) (map snd subs))"

definition registered_subscriptions :: "subscriptions \<Rightarrow> (pystr \<times> pystr \<times> int) list" where
  "registered_subscriptions subs =
     map (\<lambda>s. (sub_subscriber s, sub_pattern s, sub_max_attempts s)) (sort_key sub_subscriber (map snd subs))"

section \<open>Publishing\<close>

record publish_args =
  pa_event_type :: pystr
  pa_payload :: pyval
  pa_source :: pystr
  pa_aggregate_type :: pystr
  pa_aggregate_id :: pystr
  pa_tenant_id :: pystr
  pa_idempotency_key :: pystr
  pa_headers :: "pyval option"
  pa_correlation_id :: pystr
  pa_causation_id :: pystr
  pa_schema_version :: int
  pa_max_attempts :: int
  pa_available_at :: "time option"

definition msg_event_type_empty :: pystr where
  "msg_event_type_empty = asc ''event_type '' @ [0x4e0d, 0x80fd, 0x4e3a, 0x7a7a]"

definition has_event_key :: "pystr \<Rightarrow> pystr \<Rightarrow> pystr \<Rightarrow> pystr \<Rightarrow> domain_event \<Rightarrow> bool" where
  "has_event_key tenant source ty idem e \<longleftrightarrow> de_tenant_id e = tenant \<and> de_source e = source \<and>
     de_event_type e = ty \<and> de_idempotency_key e = Some idem"

definition new_event :: "clock \<Rightarrow> pystr \<Rightarrow> json \<Rightarrow> json \<Rightarrow> publish_args \<Rightarrow> domain_event" where
  "new_event c uuid payload headers a = \<lparr>
     de_id = uuid,
     de_tenant_id = norm_tenant (pa_tenant_id a),
     de_event_type = py_strip (pa_event_type a),
     de_source = py_or (py_strip (pa_source a)) (asc ''internal''),
     de_aggregate_type = pa_aggregate_type a,
     de_aggregate_id = pa_aggregate_id a,
     de_payload = payload,
     de_headers = headers,
     de_schema_version = max 1 (pa_schema_version a),
     de_status = EPending,
     de_attempts = 0,
     de_max_attempts = max 1 (min 100 (pa_max_attempts a)),
     de_available_at = (case pa_available_at a of Some t \<Rightarrow> t | None \<Rightarrow> utc c 0),
     de_idempotency_key = str_or_none (py_strip (pa_idempotency_key a)),
     de_correlation_id = pa_correlation_id a,
     de_causation_id = pa_causation_id a,
     de_locked_by = [],
     de_locked_at = None,
     de_last_error = [],
     de_occurred_at = sqlnow c,
     de_published_at = None\<rparr>"

definition insert_event :: "domain_event \<Rightarrow> domain_event list \<Rightarrow> domain_event list res" where
  "insert_event e tbl =
     (if de_id e \<in> set (map de_id tbl) then Inl IntegrityError
      else (case de_idempotency_key e of
          None \<Rightarrow> Inr (tbl @ [e])
        | Some k \<Rightarrow> if list_ex (has_event_key (de_tenant_id e) (de_source e) (de_event_type e) k) tbl
                    then Inl IntegrityError else Inr (tbl @ [e])))"

text \<open>\<open>payload or {}\<close>: a falsy payload (None or the empty dict) becomes the empty dict.\<close>

definition pyval_or_empty :: "pyval \<Rightarrow> pyval" where
  "pyval_or_empty v = (if v = PNone then PDict [] else v)"

definition lookup_event ::
  "pystr \<Rightarrow> pystr \<Rightarrow> pystr \<Rightarrow> pystr option \<Rightarrow> domain_event list \<Rightarrow> domain_event option" where
  "lookup_event tenant source ty idem v =
     (case idem of None \<Rightarrow> None | Some k \<Rightarrow> find (has_event_key tenant source ty k) v)"

text \<open>As for the tasks, \<open>view\<close> is what the pre-check reads and \<open>reread\<close> what the last SELECT reads.\<close>

definition publish_event_record ::
  "clock \<Rightarrow> pystr \<Rightarrow> domain_event list \<Rightarrow> domain_event list \<Rightarrow> publish_args \<Rightarrow> event_db \<Rightarrow>
     (domain_event \<times> event_db) res" where
  "publish_event_record c uuid view reread a db =
     (let event_type = py_strip (pa_event_type a);
          tenant_id = norm_tenant (pa_tenant_id a);
          source = py_or (py_strip (pa_source a)) (asc ''internal'');
          idem = str_or_none (py_strip (pa_idempotency_key a));
          lookup = lookup_event tenant_id source event_type idem
      in if event_type = [] then Inl (ValueError msg_event_type_empty)
         else (case lookup view of
             Some existing \<Rightarrow> Inr (existing, db)
           | None \<Rightarrow>
             (case json_safe (pyval_or_empty (pa_payload a)) of
                Inl e \<Rightarrow> Inl e
              | Inr payload \<Rightarrow>
             (case json_safe (payload_or_empty (pa_headers a)) of
                Inl e \<Rightarrow> Inl e
              | Inr headers \<Rightarrow>
                let event = new_event c uuid payload headers a
                in (case insert_event event (events db) of
                      Inr tbl' \<Rightarrow> Inr (event, db\<lparr>events := tbl'\<rparr>)
                    | Inl e \<Rightarrow>
                      if idem = None then Inl e
                      else (case lookup reread of
                          Some existing \<Rightarrow> Inr (existing, db)
                        | None \<Rightarrow> Inl NoResultFound))))))"

section \<open>Claiming and recovering events\<close>

definition event_claimable :: "time \<Rightarrow> domain_event \<Rightarrow> bool" where
  "event_claimable now e \<longleftrightarrow> de_status e \<in> {EPending, EFailed} \<and> de_available_at e \<le> now \<and>
     de_attempts e < de_max_attempts e"

definition start_event :: "time \<Rightarrow> pystr \<Rightarrow> domain_event \<Rightarrow> domain_event" where
  "start_event now worker_id e = e\<lparr>de_status := EDispatching, de_attempts := de_attempts e + 1,
     de_locked_by := worker_id, de_locked_at := Some now, de_last_error := []\<rparr>"

definition claim_next_event ::
  "clock \<Rightarrow> pystr list \<Rightarrow> pystr \<Rightarrow> event_db \<Rightarrow> domain_event option \<times> event_db" where
  "claim_next_event c busy worker_id db =
     (let now = utc c 0
      in case first_by de_occurred_at
               (filter (\<lambda>e. event_claimable now e \<and> de_id e \<notin> set busy) (events db)) of
           None \<Rightarrow> (None, db)
         | Some event \<Rightarrow>
             let event' = start_event now worker_id event
             in (Some event', put_event event' db))"

definition msg_stale_delivery :: pystr where
  "msg_stale_delivery = asc ''dispatcher '' @ [0x5fc3, 0x8df3, 0x8d85, 0x65f6, 0xff0c, 0x6295, 0x9012,
     0x5df2, 0x56de, 0x6536]"

definition msg_stale_event :: pystr where
  "msg_stale_event = asc ''dispatcher '' @ [0x5fc3, 0x8df3, 0x8d85, 0x65f6, 0xff0c, 0x4e8b, 0x4ef6,
     0x5df2, 0x56de, 0x6536]"

definition event_stale :: "time \<Rightarrow> domain_event \<Rightarrow> bool" where
  "event_stale cutoff e \<longleftrightarrow> de_status e = EDispatching \<and>
     (case de_locked_at e of None \<Rightarrow> True | Some t \<Rightarrow> t < cutoff)"

definition recover_delivery :: "time \<Rightarrow> event_delivery \<Rightarrow> event_delivery" where
  "recover_delivery now d =
     (let d1 = d\<lparr>ed_last_error := msg_stale_delivery\<rparr>
      in if ed_max_attempts d1 \<le> ed_attempts d1
         then d1\<lparr>ed_status := DDead, ed_finished_at := Some now\<rparr>
         else d1\<lparr>ed_status := DFailed, ed_next_attempt_at := now\<rparr>)"

definition recover_event :: "time \<Rightarrow> domain_event \<Rightarrow> domain_event" where
  "recover_event now e =
     (let e1 = e\<lparr>de_locked_by := [], de_locked_at := None, de_last_error := msg_stale_event\<rparr>
      in if de_max_attempts e1 \<le> de_attempts e1
         then e1\<lparr>de_status := EDead\<rparr>
         else e1\<lparr>de_status := EFailed, de_available_at := now\<rparr>)"

text \<open>
  The two loops read the clock once per running delivery, and once per event that goes back
  to waiting; \<open>i\<close> counts the readings.
\<close>

fun recover_deliveries ::
  "clock \<Rightarrow> pystr list \<Rightarrow> nat \<Rightarrow> event_delivery list \<Rightarrow> nat \<times> event_delivery list" where
  "recover_deliveries c ids i [] = (i, [])"
| "recover_deliveries c ids i (d # ds) =
     (if ed_event_id d \<in> set ids \<and> ed_status d = DRunning
      then (let (j, ds') = recover_deliveries c ids (Suc i) ds in (j, recover_delivery (utc c i) d # ds'))
      else (let (j, ds') = recover_deliveries c ids i ds in (j, d # ds')))"

fun recover_events :: "clock \<Rightarrow> pystr list \<Rightarrow> nat \<Rightarrow> domain_event list \<Rightarrow> domain_event list" where
  "recover_events c ids i [] = []"
| "recover_events c ids i (e # es) =
     (if de_id e \<in> set ids
      then recover_event (utc c i) e #
           recover_events c ids (if de_max_attempts e \<le> de_attempts e then i else Suc i) es
      else e # recover_events c ids i es)"

definition recover_stale_events ::
  "clock \<Rightarrow> pystr list \<Rightarrow> int \<Rightarrow> event_db \<Rightarrow> nat \<times> event_db" where
  "recover_stale_events c busy stale_after_seconds db =
     (let cutoff = utc c 0 - seconds (max 1 stale_after_seconds);
          stale = filter (\<lambda>e. event_stale cutoff e \<and> de_id e \<notin> set busy) (events db);
          ids = map de_id stale
      in if stale = [] then (0, db)
         else
           let (i, ds) = recover_deliveries c ids 1 (deliveries db)
           in (length stale, db\<lparr>deliveries := ds, events := recover_events c ids i (events db)\<rparr>))"

text \<open>The dispatcher's heartbeat: an UPDATE conditioned on the lease; the row count it returns.\<close>

definition heartbeat_event :: "clock \<Rightarrow> pystr \<Rightarrow> pystr \<Rightarrow> event_db \<Rightarrow> nat \<times> event_db" where
  "heartbeat_event c event_id worker_id db =
     (case get_row de_id event_id (events db) of
        None \<Rightarrow> (0, db)
      | Some e \<Rightarrow>
          if de_status e = EDispatching \<and> de_locked_by e = worker_id
          then (1, put_event (e\<lparr>de_locked_at := Some (utc c 0)\<rparr>) db)
          else (0, db))"

section \<open>Deliveries\<close>

text \<open>
  \<open>uuids\<close> supplies the ids of the rows to create. The dictionary returned is the association
  list from subscriber to row.
\<close>

definition new_delivery :: "clock \<Rightarrow> time \<Rightarrow> pystr \<Rightarrow> domain_event \<Rightarrow> subscription \<Rightarrow> event_delivery" where
  "new_delivery c now uuid event sub = \<lparr>
     ed_id = uuid, ed_event_id = de_id event, ed_tenant_id = de_tenant_id event,
     ed_subscriber = sub_subscriber sub, ed_pattern = sub_pattern sub, ed_status = DPending,
     ed_attempts = 0, ed_max_attempts = sub_max_attempts sub, ed_next_attempt_at = now,
     ed_last_error = [], ed_created_at = sqlnow c, ed_finished_at = None\<rparr>"

fun add_missing ::
  "clock \<Rightarrow> (nat \<Rightarrow> pystr) \<Rightarrow> nat \<Rightarrow> domain_event \<Rightarrow> subscription list \<Rightarrow> pystr list \<Rightarrow> event_delivery list" where
  "add_missing c uuids i event [] existing = []"
| "add_missing c uuids i event (sub # subs) existing =
     (if sub_subscriber sub \<in> set existing then add_missing c uuids i event subs existing
      else new_delivery c (utc c i) (uuids i) event sub #
           add_missing c uuids (Suc i) event subs (sub_subscriber sub # existing))"

text \<open>The commit checks the primary key and the foreign key of the new rows.\<close>

definition ensure_deliveries ::
  "clock \<Rightarrow> (nat \<Rightarrow> pystr) \<Rightarrow> domain_event \<Rightarrow> subscription list \<Rightarrow> event_db \<Rightarrow>
     ((pystr \<times> event_delivery) list \<times> event_db) res" where
  "ensure_deliveries c uuids event subs db =
     (let existing = filter (\<lambda>d. ed_event_id d = de_id event) (deliveries db);
          added = add_missing c uuids 0 event subs (map ed_subscriber existing)
      in if distinct (map ed_id (deliveries db @ added)) \<and>
            (added = [] \<or> de_id event \<in> set (map de_id (events db)))
         then Inr (map (\<lambda>d. (ed_subscriber d, d)) (existing @ added),
                   db\<lparr>deliveries := deliveries db @ added\<rparr>)
         else Inl IntegrityError)"

definition find_delivery :: "pystr \<Rightarrow> pystr \<Rightarrow> event_delivery list \<Rightarrow> event_delivery option" where
  "find_delivery event_id subscriber ds =
     find (\<lambda>d. ed_event_id d = event_id \<and> ed_subscriber d = subscriber) ds"

definition start_delivery ::
  "clock \<Rightarrow> pystr \<Rightarrow> pystr \<Rightarrow> event_db \<Rightarrow> event_delivery option \<times> event_db" where
  "start_delivery c event_id subscriber db =
     (case find_delivery event_id subscriber (deliveries db) of
        None \<Rightarrow> (None, db)
      | Some row \<Rightarrow>
          if ed_status row \<in> {DSucceeded, DDead} then (Some row, db)
          else if utc c 0 < ed_next_attempt_at row then (None, db)
          else
            let row' = row\<lparr>ed_status := DRunning, ed_attempts := ed_attempts row + 1\<rparr>
            in (Some row', put_delivery row' db))"

definition complete_delivery :: "clock \<Rightarrow> pystr \<Rightarrow> event_db \<Rightarrow> event_db" where
  "complete_delivery c delivery_id db =
     (case get_row ed_id delivery_id (deliveries db) of
        None \<Rightarrow> db
      | Some row \<Rightarrow>
          if ed_status row = DRunning
          then put_delivery (row\<lparr>ed_status := DSucceeded, ed_finished_at := Some (utc c 0),
                 ed_last_error := []\<rparr>) db
          else db)"

text \<open>\<open>min(300, 2 ** max(0, attempts - 1))\<close> seconds, on integers.\<close>

definition event_backoff :: "int \<Rightarrow> time" where
  "event_backoff attempts = seconds (min 300 (2 ^ nat (max 0 (attempts - 1))))"

definition fail_delivery ::
  "clock \<Rightarrow> pystr \<Rightarrow> pystr \<Rightarrow> event_db \<Rightarrow> delivery_status option \<times> event_db" where
  "fail_delivery c delivery_id err db =
     (case get_row ed_id delivery_id (deliveries db) of
        None \<Rightarrow> (None, db)
      | Some row \<Rightarrow>
          if ed_status row \<noteq> DRunning then (None, db)
          else
            let r1 = row\<lparr>ed_last_error := py_last 8000 err\<rparr>;
                r2 = (if ed_max_attempts r1 \<le> ed_attempts r1
                      then r1\<lparr>ed_status := DDead, ed_finished_at := Some (utc c 0)\<rparr>
                      else r1\<lparr>ed_status := DFailed,
                             ed_next_attempt_at := utc c 0 + event_backoff (ed_attempts r1)\<rparr>)
            in (Some (ed_status r2), put_delivery r2 db))"

section \<open>Finalizing and retrying events\<close>

definition finalize_row ::
  "clock \<Rightarrow> delivery_status list \<Rightarrow> pystr \<Rightarrow> domain_event \<Rightarrow> domain_event" where
  "finalize_row c statuses err event =
     (let e1 = event\<lparr>de_locked_by := [], de_locked_at := None, de_last_error := py_last 8000 err\<rparr>
      in if statuses = [] \<or> list_all (\<lambda>s. s = DSucceeded) statuses
         then e1\<lparr>de_status := EPublished, de_published_at := Some (utc c 0), de_last_error := []\<rparr>
         else if DDead \<in> set statuses \<or> de_max_attempts e1 \<le> de_attempts e1
         then e1\<lparr>de_status := EDead\<rparr>
         else e1\<lparr>de_status := EFailed, de_available_at := utc c 0 + event_backoff (de_attempts e1)\<rparr>)"

definition delivery_statuses :: "pystr \<Rightarrow> event_db \<Rightarrow> delivery_status list" where
  "delivery_statuses event_id db =
     map ed_status (filter (\<lambda>d. ed_event_id d = event_id) (deliveries db))"

definition finalize_event ::
  "clock \<Rightarrow> pystr \<Rightarrow> pystr \<Rightarrow> event_db \<Rightarrow> event_status option \<times> event_db" where
  "finalize_event c event_id err db =
     (case get_row de_id event_id (events db) of
        None \<Rightarrow> (None, db)
      | Some event \<Rightarrow>
          if de_status event \<noteq> EDispatching then (None, db)
          else
            let e' = finalize_row c (delivery_statuses event_id db) err event
            in (Some (de_status e'), put_event e' db))"

definition get_event :: "pystr \<Rightarrow> pystr \<Rightarrow> event_db \<Rightarrow> domain_event option" where
  "get_event event_id tenant_id db =
     find (\<lambda>e. de_id e = event_id \<and> de_tenant_id e = tenant_id) (events db)"

fun retry_deliveries :: "clock \<Rightarrow> pystr \<Rightarrow> nat \<Rightarrow> event_delivery list \<Rightarrow> event_delivery list" where
  "retry_deliveries c event_id i [] = []"
| "retry_deliveries c event_id i (d # ds) =
     (if ed_event_id d = event_id \<and> ed_status d \<in> {DFailed, DDead}
      then d\<lparr>ed_status := DPending, ed_max_attempts := max (ed_max_attempts d) (ed_attempts d + 1),
              ed_next_attempt_at := utc c i, ed_finished_at := None, ed_last_error := []\<rparr> #
           retry_deliveries c event_id (Suc i) ds
      else d # retry_deliveries c event_id i ds)"

definition retry_event ::
  "clock \<Rightarrow> pystr \<Rightarrow> pystr \<Rightarrow> event_db \<Rightarrow> domain_event option \<times> event_db" where
  "retry_event c event_id tenant_id db =
     (case get_event event_id tenant_id db of
        None \<Rightarrow> (None, db)
      | Some event \<Rightarrow>
          if de_status event \<notin> {EFailed, EDead} then (None, db)
          else
            let e' = event\<lparr>de_status := EPending,
                  de_max_attempts := max (de_max_attempts event) (de_attempts event + 1),
                  de_available_at := utc c 0, de_last_error := []\<rparr>
            in (Some e', put_event e'
                  (db\<lparr>deliveries := retry_deliveries c event_id 1 (deliveries db)\<rparr>)))"

section \<open>Queries\<close>

definition get_event_deliveries :: "pystr \<Rightarrow> pystr \<Rightarrow> event_db \<Rightarrow> event_delivery list" where
  "get_event_deliveries event_id tenant_id db =
     sort_key ed_subscriber
       (filter (\<lambda>d. ed_event_id d = event_id \<and> ed_tenant_id d = tenant_id) (deliveries db))"

definition list_events ::
  "pystr \<Rightarrow> pystr \<Rightarrow> pystr \<Rightarrow> pystr \<Rightarrow> pystr \<Rightarrow> int \<Rightarrow> nat \<Rightarrow> event_db \<Rightarrow> nat \<times> domain_event list" where
  "list_events tenant_id status event_type aggregate_type aggregate_id page psize db =
     (let rows = filter (\<lambda>e. de_tenant_id e = tenant_id \<and>
             (status = [] \<or> event_status_str (de_status e) = status) \<and>
             (event_type = [] \<or> de_event_type e = event_type) \<and>
             (aggregate_type = [] \<or> de_aggregate_type e = aggregate_type) \<and>
             (aggregate_id = [] \<or> de_aggregate_id e = aggregate_id)) (events db)
      in (length rows,
          page_rows (nat (max 1 page - 1) * psize) psize (sort_key (\<lambda>e. - de_occurred_at e) rows)))"

definition EVENT_STATES :: "event_status list" where
  "EVENT_STATES = [EPending, EDispatching, EPublished, EFailed, EDead]"

definition event_stats :: "pystr \<Rightarrow> event_db \<Rightarrow> (event_status \<times> nat) list \<times> nat" where
  "event_stats tenant_id db =
     (let data = map (\<lambda>s. (s, length (filter (\<lambda>e. de_tenant_id e = tenant_id \<and> de_status e = s) (events db))))
                   EVENT_STATES
      in (data, sum_list (map snd data)))"

end
