(* ===== verification/EventInv.thy ===== *)
theory EventInv
  imports EventCenter TaskQueueInv
begin

text \<open>
  The outbox as a transition system: the operations as steps on the two tables, the abstract
  transitions of events and of deliveries that they implement, and the invariant.
\<close>

section \<open>Steps\<close>

datatype event_op =
    Publish clock pystr "domain_event list" "domain_event list" publish_args
  | ClaimEvent clock "pystr list" pystr
  | BeatEvent clock pystr pystr
  | RecoverEvents clock "pystr list" int
  | EnsureDeliveries clock "nat \<Rightarrow> pystr" domain_event "subscription list"
  | StartDelivery clock pystr pystr
  | CompleteDelivery clock pystr
  | FailDelivery clock pystr pystr
  | FinalizeEvent clock pystr pystr
  | RetryEvent clock pystr pystr

fun event_step :: "event_op \<Rightarrow> event_db \<Rightarrow> event_db" where
  "event_step (Publish c uuid view reread a) db = ok_db (publish_event_record c uuid view reread a db) db"
| "event_step (ClaimEvent c busy w) db = snd (claim_next_event c busy w db)"
| "event_step (BeatEvent c i w) db = snd (heartbeat_event c i w db)"
| "event_step (RecoverEvents c busy stale) db = snd (recover_stale_events c busy stale db)"
| "event_step (EnsureDeliveries c uuids e subs) db = ok_db (ensure_deliveries c uuids e subs db) db"
| "event_step (StartDelivery c i s) db = snd (start_delivery c i s db)"
| "event_step (CompleteDelivery c d) db = complete_delivery c d db"
| "event_step (FailDelivery c d err) db = snd (fail_delivery c d err db)"
| "event_step (FinalizeEvent c i err) db = snd (finalize_event c i err db)"
| "event_step (RetryEvent c i tenant) db = snd (retry_event c i tenant db)"

section \<open>The abstract transitions\<close>

inductive event_move :: "domain_event \<Rightarrow> domain_event \<Rightarrow> bool" where
  ev_stay: "event_move e e"
| ev_claim: "event_claimable now e \<Longrightarrow> event_move e (start_event now w e)"
| ev_beat: "de_status e = EDispatching \<Longrightarrow> event_move e (e\<lparr>de_locked_at := Some t\<rparr>)"
| ev_recover: "de_status e = EDispatching \<Longrightarrow> event_move e (recover_event t e)"
| ev_finalize: "de_status e = EDispatching \<Longrightarrow> event_move e (finalize_row c statuses err e)"
| ev_retry: "de_status e \<in> {EFailed, EDead} \<Longrightarrow> event_move e (e\<lparr>de_status := EPending,
    de_max_attempts := max (de_max_attempts e) (de_attempts e + 1), de_available_at := t,
    de_last_error := []\<rparr>)"

inductive delivery_move :: "event_delivery \<Rightarrow> event_delivery \<Rightarrow> bool" where
  dl_stay: "delivery_move d d"
| dl_start: "ed_status d \<notin> {DSucceeded, DDead} \<Longrightarrow>
    delivery_move d (d\<lparr>ed_status := DRunning, ed_attempts := ed_attempts d + 1\<rparr>)"
| dl_complete: "ed_status d = DRunning \<Longrightarrow>
    delivery_move d (d\<lparr>ed_status := DSucceeded, ed_finished_at := Some t, ed_last_error := []\<rparr>)"
| dl_dead: "ed_status d = DRunning \<Longrightarrow> ed_max_attempts d \<le> ed_attempts d \<Longrightarrow>
    delivery_move d (d\<lparr>ed_last_error := err, ed_status := DDead, ed_finished_at := Some t\<rparr>)"
| dl_fail: "ed_status d = DRunning \<Longrightarrow> ed_attempts d < ed_max_attempts d \<Longrightarrow>
    delivery_move d (d\<lparr>ed_last_error := err, ed_status := DFailed, ed_next_attempt_at := t\<rparr>)"
| dl_retry: "ed_status d \<in> {DFailed, DDead} \<Longrightarrow>
    delivery_move d (d\<lparr>ed_status := DPending, ed_max_attempts := max (ed_max_attempts d) (ed_attempts d + 1),
      ed_next_attempt_at := t, ed_finished_at := None, ed_last_error := []\<rparr>)"

lemma event_move_frame:
  assumes "event_move e e'"
  shows "de_id e' = de_id e" "de_tenant_id e' = de_tenant_id e" "de_event_type e' = de_event_type e"
    "de_source e' = de_source e" "de_idempotency_key e' = de_idempotency_key e"
    "de_payload e' = de_payload e" "de_headers e' = de_headers e" "de_occurred_at e' = de_occurred_at e"
  using assms
  by (induction rule: event_move.induct)
    (simp_all add: start_event_def recover_event_def finalize_row_def Let_def)

lemma delivery_move_frame:
  assumes "delivery_move d d'"
  shows "ed_id d' = ed_id d" "ed_event_id d' = ed_event_id d" "ed_subscriber d' = ed_subscriber d"
    "ed_tenant_id d' = ed_tenant_id d"
  using assms by (induction rule: delivery_move.induct) simp_all

lemma delivery_move_succeeded: "delivery_move d d' \<Longrightarrow> ed_status d = DSucceeded \<Longrightarrow> d' = d"
  by (induction rule: delivery_move.induct) auto

lemma event_move_published: "event_move e e' \<Longrightarrow> de_status e = EPublished \<Longrightarrow> e' = e"
  by (induction rule: event_move.induct) (auto simp: event_claimable_def)

section \<open>Every operation is a sequence of such transitions\<close>

lemma events_refl [simp]: "list_all2 event_move es es"
  by (simp add: list.rel_refl ev_stay)

lemma deliveries_refl [simp]: "list_all2 delivery_move ds ds"
  by (simp add: list.rel_refl dl_stay)

lemma put_event_moves:
  assumes "distinct (map de_id (events db))" and "e \<in> set (events db)" and "event_move e e'"
  shows "list_all2 event_move (events db) (events (put_event e' db))"
  using list_all2_put_row[of event_move de_id "events db" e' e] assms
    get_row_distinct[of de_id "events db" e] event_move_frame(1)[OF assms(3)]
  by (simp add: put_event_def ev_stay)

lemma put_delivery_moves:
  assumes "distinct (map ed_id (deliveries db))" and "d \<in> set (deliveries db)" and "delivery_move d d'"
  shows "list_all2 delivery_move (deliveries db) (deliveries (put_delivery d' db))"
  using list_all2_put_row[of delivery_move ed_id "deliveries db" d' d] assms
    get_row_distinct[of ed_id "deliveries db" d] delivery_move_frame(1)[OF assms(3)]
  by (simp add: put_delivery_def dl_stay)

lemma put_other [simp]:
  "deliveries (put_event e db) = deliveries db" "events (put_delivery d db) = events db"
  by (simp_all add: put_event_def put_delivery_def)

lemma recover_deliveries_moves:
  "list_all2 delivery_move ds (snd (recover_deliveries c ids i ds))"
proof (induction ds arbitrary: i)
  case Nil
  then show ?case by simp
next
  case (Cons d ds)
  have "delivery_move d (recover_delivery t d)" if "ed_status d = DRunning" for t
    using that dl_dead[where err = msg_stale_delivery] dl_fail[where err = msg_stale_delivery]
    by (auto simp: recover_delivery_def Let_def not_le)
  with Cons[of i] Cons[of "Suc i"] show ?case
    by (auto simp: dl_stay split: prod.splits)
qed

lemma recover_events_moves:
  assumes "\<And>e. e \<in> set es \<Longrightarrow> de_id e \<in> set ids \<Longrightarrow> de_status e = EDispatching"
  shows "list_all2 event_move es (recover_events c ids i es)"
  using assms
proof (induction es arbitrary: i)
  case Nil
  then show ?case by simp
next
  case (Cons e es)
  then show ?case by (auto simp: ev_stay intro: ev_recover)
qed

lemma retry_deliveries_moves: "list_all2 delivery_move ds (retry_deliveries c eid i ds)"
proof (induction ds arbitrary: i)
  case Nil
  then show ?case by simp
next
  case (Cons d ds)
  then show ?case by (auto intro: dl_stay dl_retry)
qed

lemma stale_ids_dispatching:
  assumes "distinct (map de_id es)" and "e \<in> set es"
    and "de_id e \<in> set (map de_id (filter (\<lambda>e. event_stale cutoff e \<and> de_id e \<notin> set busy) es))"
  shows "de_status e = EDispatching"
  using assms by (auto simp: event_stale_def distinct_map dest!: inj_onD)

definition ids_distinct :: "event_db \<Rightarrow> bool" where
  "ids_distinct db \<longleftrightarrow> distinct (map de_id (events db)) \<and> distinct (map ed_id (deliveries db))"

definition moves_to :: "event_db \<Rightarrow> event_db \<Rightarrow> bool" where
  "moves_to db db' \<longleftrightarrow> list_all2 event_move (events db) (events db') \<and>
     list_all2 delivery_move (deliveries db) (deliveries db')"

lemma moves_to_refl [simp]: "moves_to db db"
  by (simp add: moves_to_def)

lemma claim_event_moves:
  assumes "ids_distinct db"
  shows "moves_to db (snd (claim_next_event c busy w db))"
proof (cases "first_by de_occurred_at
    (filter (\<lambda>e. event_claimable (utc c 0) e \<and> de_id e \<notin> set busy) (events db))")
  case None
  then show ?thesis by (simp add: claim_next_event_def Let_def del: first_by_None_iff)
next
  case (Some e)
  with first_by_SomeD[OF Some] assms show ?thesis
    by (auto simp: claim_next_event_def Let_def moves_to_def ids_distinct_def
        intro!: put_event_moves ev_claim)
qed

lemma heartbeat_event_moves:
  "ids_distinct db \<Longrightarrow> moves_to db (snd (heartbeat_event c i w db))"
  by (auto simp: heartbeat_event_def moves_to_def ids_distinct_def split: option.splits
      intro!: put_event_moves ev_beat dest: get_row_in)

lemma recover_stale_events_moves:
  assumes "ids_distinct db"
  shows "moves_to db (snd (recover_stale_events c busy stale db))"
proof -
  let ?ids = "map de_id (filter (\<lambda>e. event_stale (utc c 0 - seconds (max 1 stale)) e \<and>
      de_id e \<notin> set busy) (events db))"
  have "list_all2 event_move (events db) (recover_events c ?ids i (events db))" for i
    using assms stale_ids_dispatching[of "events db"]
    by (intro recover_events_moves) (auto simp: ids_distinct_def)
  moreover have "list_all2 delivery_move (deliveries db) (snd (recover_deliveries c ?ids 1 (deliveries db)))"
    by (rule recover_deliveries_moves)
  ultimately show ?thesis
    by (auto simp: recover_stale_events_def Let_def moves_to_def split: prod.splits)
qed

lemma find_delivery_SomeD:
  "find_delivery eid s ds = Some d \<Longrightarrow> d \<in> set ds \<and> ed_event_id d = eid \<and> ed_subscriber d = s"
  by (auto simp: find_delivery_def find_Some_iff)

lemma start_delivery_moves:
  "ids_distinct db \<Longrightarrow> moves_to db (snd (start_delivery c i s db))"
  by (auto simp: start_delivery_def Let_def moves_to_def ids_distinct_def split: option.splits
      intro!: put_delivery_moves dl_start dest: find_delivery_SomeD)

lemma complete_delivery_moves:
  "ids_distinct db \<Longrightarrow> moves_to db (complete_delivery c d db)"
  by (auto simp: complete_delivery_def moves_to_def ids_distinct_def split: option.splits
      intro!: put_delivery_moves dl_complete dest: get_row_in)

lemma fail_delivery_moves:
  "ids_distinct db \<Longrightarrow> moves_to db (snd (fail_delivery c d err db))"
  by (auto simp: fail_delivery_def Let_def moves_to_def ids_distinct_def not_le split: option.splits
      intro!: put_delivery_moves dl_dead dl_fail dest: get_row_in)

lemma finalize_event_moves:
  "ids_distinct db \<Longrightarrow> moves_to db (snd (finalize_event c i err db))"
  by (auto simp: finalize_event_def Let_def moves_to_def ids_distinct_def split: option.splits
      intro!: put_event_moves ev_finalize dest: get_row_in)

lemma retry_event_moves:
  assumes "ids_distinct db"
  shows "moves_to db (snd (retry_event c i tenant db))"
proof (cases "get_event i tenant db")
  case None
  then show ?thesis by (simp add: retry_event_def)
next
  case (Some e)
  then have "e \<in> set (events db)" by (auto simp: get_event_def find_Some_iff)
  then show ?thesis
    using Some assms put_event_moves[of "db\<lparr>deliveries := ds\<rparr>" for ds]
    by (auto simp: retry_event_def Let_def moves_to_def ids_distinct_def retry_deliveries_moves
        intro!: ev_retry)
qed

definition adds_event :: "event_op \<Rightarrow> bool" where
  "adds_event op \<longleftrightarrow> (\<exists>c u v r a. op = Publish c u v r a)"

definition adds_delivery :: "event_op \<Rightarrow> bool" where
  "adds_delivery op \<longleftrightarrow> (\<exists>c us e subs. op = EnsureDeliveries c us e subs)"

lemma update_step_moves:
  assumes "ids_distinct db" and "\<not> adds_event op" and "\<not> adds_delivery op"
  shows "moves_to db (event_step op db)"
  using assms
  by (cases op) (auto simp: claim_event_moves heartbeat_event_moves recover_stale_events_moves
    start_delivery_moves complete_delivery_moves fail_delivery_moves finalize_event_moves
    retry_event_moves adds_event_def adds_delivery_def)

text \<open>Publishing appends at most the new event, ensuring appends new deliveries.\<close>

lemma insert_event_SomeD:
  "insert_event e tbl = Inr tbl' \<Longrightarrow> tbl' = tbl @ [e] \<and> de_id e \<notin> set (map de_id tbl) \<and>
     (\<forall>k. de_idempotency_key e = Some k \<longrightarrow>
        (\<forall>u \<in> set tbl. \<not> has_event_key (de_tenant_id e) (de_source e) (de_event_type e) k u))"
  by (auto simp: insert_event_def list_ex_iff split: if_splits option.splits)

lemma publish_cases:
  assumes pub: "publish_event_record c uuid view reread a db = Inr (e, db')"
  obtains (existing) "db' = db"
  | (created) payload headers es where "json_safe (pyval_or_empty (pa_payload a)) = Inr payload"
      "json_safe (payload_or_empty (pa_headers a)) = Inr headers"
      "py_strip (pa_event_type a) \<noteq> []" "e = new_event c uuid payload headers a"
      "insert_event e (events db) = Inr es" "db' = db\<lparr>events := es\<rparr>"
proof -
  let ?look = "lookup_event (norm_tenant (pa_tenant_id a)) (py_or (py_strip (pa_source a)) (asc ''internal''))
      (py_strip (pa_event_type a)) (str_or_none (py_strip (pa_idempotency_key a)))"
  note pub' = pub[unfolded publish_event_record_def Let_def]
  from pub' have ty: "py_strip (pa_event_type a) \<noteq> []" by (simp split: if_splits)
  show thesis
  proof (cases "?look view")
    case (Some x)
    with pub' ty show thesis by (intro existing) simp
  next
    case None
    from pub' ty None obtain payload where payload:
      "json_safe (pyval_or_empty (pa_payload a)) = Inr payload"
      by (cases "json_safe (pyval_or_empty (pa_payload a))") simp_all
    from pub' ty None payload obtain headers where headers:
      "json_safe (payload_or_empty (pa_headers a)) = Inr headers"
      by (cases "json_safe (payload_or_empty (pa_headers a))") simp_all
    let ?new = "new_event c uuid payload headers a"
    show thesis
    proof (cases "insert_event ?new (events db)")
      case (Inr es)
      with pub' ty None payload headers show thesis
        by (intro created[OF payload headers ty, of es]) simp_all
    next
      case (Inl err)
      with pub' ty None payload headers show thesis
        by (intro existing) (simp split: if_splits option.splits)
    qed
  qed
qed

lemma ensure_cases:
  assumes "ensure_deliveries c uuids e subs db = Inr (m, db')"
  obtains added where "db' = db\<lparr>deliveries := deliveries db @ added\<rparr>"
    "added = add_missing c uuids 0 e subs (map ed_subscriber (filter (\<lambda>d. ed_event_id d = de_id e) (deliveries db)))"
    "distinct (map ed_id (deliveries db @ added))"
    "added = [] \<or> de_id e \<in> set (map de_id (events db))"
  using assms by (auto simp: ensure_deliveries_def Let_def split: if_splits)

lemma new_delivery_sel [simp]:
  "ed_event_id (new_delivery c now uuid e sub) = de_id e"
  "ed_subscriber (new_delivery c now uuid e sub) = sub_subscriber sub"
  by (simp_all add: new_delivery_def)

lemma add_missing_row:
  "d \<in> set (add_missing c uuids i e subs existing) \<Longrightarrow>
   \<exists>j sub. sub \<in> set subs \<and> d = new_delivery c (utc c j) (uuids j) e sub \<and> sub_subscriber sub \<notin> set existing"
  by (induction subs arbitrary: i existing) (fastforce split: if_splits)+

lemma add_missing_subscribers:
  "distinct (map ed_subscriber (add_missing c uuids i e subs existing)) \<and>
   set (map ed_subscriber (add_missing c uuids i e subs existing)) \<inter> set existing = {} \<and>
   set (map sub_subscriber subs) \<subseteq> set existing \<union> set (map ed_subscriber (add_missing c uuids i e subs existing))"
proof (induction subs arbitrary: i existing)
  case Nil
  then show ?case by simp
next
  case (Cons sub subs)
  from Cons[of i existing] Cons[of "Suc i" "sub_subscriber sub # existing"]
  show ?case by auto
qed

section \<open>The invariant\<close>

definition wf_event :: "domain_event \<Rightarrow> bool" where
  "wf_event e \<longleftrightarrow>
     0 \<le> de_attempts e \<and> de_attempts e \<le> de_max_attempts e \<and> 1 \<le> de_max_attempts e \<and>
     (de_status e = EDispatching \<longrightarrow> 1 \<le> de_attempts e \<and> de_locked_at e \<noteq> None) \<and>
     (de_status e \<noteq> EDispatching \<longrightarrow> de_locked_by e = [] \<and> de_locked_at e = None) \<and>
     (de_status e \<in> {EPending, EFailed} \<longrightarrow> de_attempts e < de_max_attempts e) \<and>
     (de_status e = EPublished \<longleftrightarrow> de_published_at e \<noteq> None) \<and>
     wf_json (de_payload e) \<and> wf_json (de_headers e) \<and> 1 \<le> de_schema_version e \<and>
     de_tenant_id e \<noteq> [] \<and> de_source e \<noteq> [] \<and> de_event_type e \<noteq> [] \<and>
     de_idempotency_key e \<noteq> Some []"

definition wf_delivery :: "event_delivery \<Rightarrow> bool" where
  "wf_delivery d \<longleftrightarrow>
     0 \<le> ed_attempts d \<and>
     (ed_status d \<notin> {DPending, DRunning} \<longrightarrow> 1 \<le> ed_attempts d) \<and>
     (ed_status d = DRunning \<longrightarrow> 1 \<le> ed_attempts d) \<and>
     (ed_status d = DFailed \<longrightarrow> ed_attempts d < ed_max_attempts d) \<and>
     (ed_status d = DDead \<longrightarrow> ed_max_attempts d \<le> ed_attempts d) \<and>
     (ed_status d \<in> {DSucceeded, DDead} \<longleftrightarrow> ed_finished_at d \<noteq> None)"

definition event_key :: "domain_event \<Rightarrow> pystr \<times> pystr \<times> pystr \<times> pystr option" where
  "event_key e = (de_tenant_id e, de_source e, de_event_type e, de_idempotency_key e)"

definition event_keys :: "domain_event list \<Rightarrow> (pystr \<times> pystr \<times> pystr \<times> pystr option) list" where
  "event_keys es = filter (\<lambda>(_, _, _, k). k \<noteq> None) (map event_key es)"

definition delivery_keys :: "event_db \<Rightarrow> (pystr \<times> pystr) list" where
  "delivery_keys db = map (\<lambda>d. (ed_event_id d, ed_subscriber d)) (deliveries db)"

definition event_inv :: "event_db \<Rightarrow> bool" where
  "event_inv db \<longleftrightarrow> ids_distinct db \<and> distinct (event_keys (events db)) \<and> distinct (delivery_keys db) \<and>
     list_all wf_event (events db) \<and> list_all wf_delivery (deliveries db)"

lemma event_move_wf:
  assumes "event_move e e'" and "wf_event e"
  shows "wf_event e'"
  using assms
  by (induction rule: event_move.induct)
    (auto simp: wf_event_def event_claimable_def start_event_def recover_event_def finalize_row_def Let_def)

lemma delivery_move_wf:
  assumes "delivery_move d d'" and "wf_delivery d"
  shows "wf_delivery d'"
  using assms by (induction rule: delivery_move.induct) (auto simp: wf_delivery_def)

lemma new_event_wf:
  assumes "json_safe (pyval_or_empty (pa_payload a)) = Inr payload"
    and "json_safe (payload_or_empty (pa_headers a)) = Inr headers" and "py_strip (pa_event_type a) \<noteq> []"
  shows "wf_event (new_event c uuid payload headers a)"
  using assms json_safe_wf[OF assms(1)] json_safe_wf[OF assms(2)]
  by (simp add: wf_event_def new_event_def norm_tenant_def str_or_none_def max_def)

lemma new_delivery_wf: "wf_delivery (new_delivery c now uuid e sub)"
  by (simp add: wf_delivery_def new_delivery_def)

lemma moves_to_inv:
  assumes "event_inv db" and "moves_to db db'"
  shows "event_inv db'"
proof -
  note e = assms(2)[unfolded moves_to_def, THEN conjunct1]
  note d = assms(2)[unfolded moves_to_def, THEN conjunct2]
  have "map de_id (events db') = map de_id (events db)"
    by (rule moves_map[OF e]) (rule event_move_frame)
  moreover have "map ed_id (deliveries db') = map ed_id (deliveries db)"
    by (rule moves_map[OF d]) (rule delivery_move_frame)
  moreover have "map event_key (events db') = map event_key (events db)"
    by (rule moves_map[OF e]) (simp add: event_key_def event_move_frame)
  moreover have "delivery_keys db' = delivery_keys db"
    unfolding delivery_keys_def by (rule moves_map[OF d]) (simp add: delivery_move_frame)
  moreover have "list_all wf_event (events db')"
    by (rule moves_list_all[OF e event_move_wf]) (use assms(1) in \<open>auto simp: event_inv_def\<close>)
  moreover have "list_all wf_delivery (deliveries db')"
    by (rule moves_list_all[OF d delivery_move_wf]) (use assms(1) in \<open>auto simp: event_inv_def\<close>)
  ultimately show ?thesis using assms(1) by (simp add: event_inv_def ids_distinct_def event_keys_def)
qed

lemma insert_event_inv:
  assumes "event_inv db" and "insert_event e (events db) = Inr es" and "wf_event e"
  shows "event_inv (db\<lparr>events := es\<rparr>)"
  using assms(1,3) insert_event_SomeD[OF assms(2)]
  by (auto simp: event_inv_def ids_distinct_def event_keys_def event_key_def has_event_key_def
      delivery_keys_def image_iff)

lemma ensure_inv:
  assumes "event_inv db" and "ensure_deliveries c uuids e subs db = Inr (m, db')"
  shows "event_inv db'"
  using assms(2)
proof (cases rule: ensure_cases)
  case (1 added)
  let ?existing = "filter (\<lambda>d. ed_event_id d = de_id e) (deliveries db)"
  have rows: "wf_delivery d \<and> ed_event_id d = de_id e" if "d \<in> set added" for d
    using add_missing_row[OF that[unfolded 1(2)]] by (auto simp: new_delivery_wf)
  have subs: "distinct (map ed_subscriber added)" "set (map ed_subscriber added) \<inter> set (map ed_subscriber ?existing) = {}"
    using add_missing_subscribers[of c uuids 0 e subs "map ed_subscriber ?existing"] by (auto simp: 1(2))
  have "distinct (map (\<lambda>d. (ed_event_id d, ed_subscriber d)) added)"
    using subs(1) by (auto simp: distinct_map inj_on_def)
  moreover have "(\<lambda>d. (ed_event_id d, ed_subscriber d)) ` set (deliveries db) \<inter>
      (\<lambda>d. (ed_event_id d, ed_subscriber d)) ` set added = {}"
    using rows subs(2) by (fastforce simp: image_iff disjoint_iff)
  ultimately have "distinct (delivery_keys db')"
    using assms(1) by (simp add: 1(1) delivery_keys_def event_inv_def)
  then show ?thesis
    using assms(1) 1(1,3) rows by (auto simp: event_inv_def ids_distinct_def list_all_iff)
qed

lemma event_step_inv:
  assumes "event_inv db"
  shows "event_inv (event_step op db)"
proof -
  consider (pub) c u v r a where "op = Publish c u v r a"
    | (ens) c us e subs where "op = EnsureDeliveries c us e subs"
    | (upd) "\<not> adds_event op" "\<not> adds_delivery op"
    unfolding adds_event_def adds_delivery_def by blast
  then show ?thesis
  proof cases
    case pub
    then show ?thesis
      using assms by (auto simp: ok_db_def split: sum.splits elim!: publish_cases
          intro: insert_event_inv new_event_wf)
  next
    case ens
    then show ?thesis using assms by (auto simp: ok_db_def split: sum.splits intro: ensure_inv)
  next
    case upd
    show ?thesis
      by (rule moves_to_inv[OF assms update_step_moves[OF _ upd]])
        (use assms in \<open>simp add: event_inv_def\<close>)
  qed
qed

interpretation ev: invariant_ops event_step event_inv
  by unfold_locales (rule event_step_inv)

section \<open>The fate of one row\<close>

lemma list_all2_append_get:
  assumes "list_all2 R xs ys" and "\<And>x y. R x y \<Longrightarrow> key y = key x" and "get_row key k xs = Some t"
  shows "\<exists>t'. get_row key k (ys @ zs) = Some t' \<and> R t t'"
  using assms by (induction rule: list_all2_induct) (auto split: if_splits)

lemma event_step_delivery:
  assumes "event_inv db" and "get_row ed_id k (deliveries db) = Some d"
  shows "\<exists>d'. get_row ed_id k (deliveries (event_step op db)) = Some d' \<and> delivery_move d d'"
proof -
  obtain ds zs where ds: "deliveries (event_step op db) = ds @ zs"
    "list_all2 delivery_move (deliveries db) ds"
  proof (cases "adds_event op \<or> adds_delivery op")
    case True
    then have "\<exists>zs. deliveries (event_step op db) = deliveries db @ zs"
      by (auto simp: adds_event_def adds_delivery_def ok_db_def split: sum.splits
          elim!: publish_cases ensure_cases)
    then show ?thesis using that by (metis deliveries_refl)
  next
    case False
    with assms(1) have "moves_to db (event_step op db)"
      by (intro update_step_moves) (auto simp: event_inv_def)
    then show ?thesis using that[of _ "[]"] by (auto simp: moves_to_def)
  qed
  show ?thesis unfolding ds(1) by (rule list_all2_append_get[OF ds(2) _ assms(2)]) (rule delivery_move_frame)
qed

lemma event_step_event:
  assumes "event_inv db" and "get_row de_id k (events db) = Some e"
  shows "\<exists>e'. get_row de_id k (events (event_step op db)) = Some e' \<and> event_move e e'"
proof -
  obtain es zs where es: "events (event_step op db) = es @ zs"
    "list_all2 event_move (events db) es"
  proof (cases "adds_event op \<or> adds_delivery op")
    case True
    then have "\<exists>zs. events (event_step op db) = events db @ zs"
      by (auto simp: adds_event_def adds_delivery_def ok_db_def split: sum.splits
          elim!: publish_cases ensure_cases dest!: insert_event_SomeD)
    then show ?thesis using that by (metis events_refl)
  next
    case False
    with assms(1) have "moves_to db (event_step op db)"
      by (intro update_step_moves) (auto simp: event_inv_def)
    then show ?thesis using that[of _ "[]"] by (auto simp: moves_to_def)
  qed
  show ?thesis unfolding es(1) by (rule list_all2_append_get[OF es(2) _ assms(2)]) (rule event_move_frame)
qed

lemma find_delivery_get:
  assumes "event_inv db"
  shows "find_delivery eid s (deliveries db) = Some d \<longleftrightarrow>
    get_row ed_id (ed_id d) (deliveries db) = Some d \<and> ed_event_id d = eid \<and> ed_subscriber d = s"
proof
  assume "find_delivery eid s (deliveries db) = Some d"
  from find_delivery_SomeD[OF this] assms show
    "get_row ed_id (ed_id d) (deliveries db) = Some d \<and> ed_event_id d = eid \<and> ed_subscriber d = s"
    by (auto simp: event_inv_def ids_distinct_def intro: get_row_distinct)
next
  assume r: "get_row ed_id (ed_id d) (deliveries db) = Some d \<and> ed_event_id d = eid \<and> ed_subscriber d = s"
  have "find (\<lambda>d. f d = f x) xs = Some x" if "distinct (map f xs)" "x \<in> set xs" for f x and xs :: "event_delivery list"
    using get_row_distinct[OF that] by (simp add: get_row_def)
  from this[of "\<lambda>d. (ed_event_id d, ed_subscriber d)" "deliveries db" d] r assms
  show "find_delivery eid s (deliveries db) = Some d"
    by (auto simp: find_delivery_def event_inv_def delivery_keys_def dest: get_row_in)
qed

lemma succeeded_delivery_kept:
  assumes "event_inv db" and "find_delivery eid s (deliveries db) = Some d" and "ed_status d = DSucceeded"
  shows "find_delivery eid s (deliveries (fold event_step ops db)) = Some d"
  using assms
proof (induction ops arbitrary: db)
  case Nil
  then show ?case by simp
next
  case (Cons op ops)
  note inv' = event_step_inv[OF Cons.prems(1), of op]
  from Cons.prems(1,2) have row: "get_row ed_id (ed_id d) (deliveries db) = Some d"
    "ed_event_id d = eid" "ed_subscriber d = s" by (auto simp: find_delivery_get)
  from event_step_delivery[OF Cons.prems(1) row(1), of op] delivery_move_succeeded Cons.prems(3)
  have "get_row ed_id (ed_id d) (deliveries (event_step op db)) = Some d" by blast
  with row have "find_delivery eid s (deliveries (event_step op db)) = Some d"
    by (simp add: find_delivery_get[OF inv'])
  from Cons.IH[OF inv' this Cons.prems(3)] show ?case by simp
qed

lemma published_event_kept:
  assumes "event_inv db" and "get_row de_id k (events db) = Some e" and "de_status e = EPublished"
  shows "get_row de_id k (events (fold event_step ops db)) = Some e"
  using assms
proof (induction ops arbitrary: db)
  case Nil
  then show ?case by simp
next
  case (Cons op ops)
  from event_step_event[OF Cons.prems(1,2), of op] event_move_published Cons.prems(3)
  have "get_row de_id k (events (event_step op db)) = Some e" by blast
  from Cons.IH[OF event_step_inv[OF Cons.prems(1)] this Cons.prems(3)] show ?case by simp
qed

end
