(* ===== verification/EventDispatch.thy ===== *)
theory EventDispatch
  imports EventInv TaskWorker
begin

text \<open>
  The dispatcher of the outbox (\<open>events/worker.py\<close>) and the publish entry points of
  \<open>events/registry.py\<close> and \<open>services/event_center_service.py\<close>. The handlers' calls are
  recorded in order, as pairs of subscriber and attempt. While the i-th handler runs, other
  sessions act on the tables: \<open>env i\<close> lists their operations, the dispatcher's own heartbeats
  among them.
\<close>

definition publish_event ::
  "clock \<Rightarrow> pystr \<Rightarrow> domain_event list \<Rightarrow> domain_event list \<Rightarrow> publish_args \<Rightarrow> event_db \<Rightarrow>
     (pystr \<times> event_db) res" where
  "publish_event c uuid view reread a db =
     (case publish_event_record c uuid view reread a db of
        Inl e \<Rightarrow> Inl e | Inr (event, db') \<Rightarrow> Inr (de_id event, db'))"

definition invoke_event_handler :: "event_handler \<Rightarrow> json \<Rightarrow> event_context \<Rightarrow> handler_outcome" where
  "invoke_event_handler h payload ctx =
     (let parameter_count = (case eh_parameters h of None \<Rightarrow> 2 | Some n \<Rightarrow> n)
      in if parameter_count = 1 then eh_call1 h payload else eh_call2 h payload ctx)"

definition event_context_of :: "domain_event \<Rightarrow> event_delivery \<Rightarrow> event_context" where
  "event_context_of event delivery = \<lparr>
     ec_event_id = de_id event, ec_event_type = de_event_type event, ec_tenant_id = de_tenant_id event,
     ec_source = de_source event, ec_aggregate_type = de_aggregate_type event,
     ec_aggregate_id = de_aggregate_id event, ec_correlation_id = de_correlation_id event,
     ec_causation_id = de_causation_id event, ec_occurred_at = de_occurred_at event,
     ec_delivery_attempt = ed_attempts delivery\<rparr>"

type_synonym call_log = "(pystr \<times> int) list"

text \<open>
  The loop over the subscriptions; \<open>ck (2 * i)\<close> is the clock when the i-th delivery starts,
  \<open>ck (2 * i + 1)\<close> when it is settled. The result is the calls made, the error texts (None
  when a handler was cancelled) and the tables.
\<close>

fun dispatch_subs ::
  "(nat \<Rightarrow> clock) \<Rightarrow> (nat \<Rightarrow> event_op list) \<Rightarrow> domain_event \<Rightarrow> subscription list \<Rightarrow> nat \<Rightarrow> pystr list \<Rightarrow>
     event_db \<Rightarrow> call_log \<times> pystr list option \<times> event_db" where
  "dispatch_subs ck env event [] i errors db = ([], Some errors, db)"
| "dispatch_subs ck env event (sub # subs) i errors db =
     (case start_delivery (ck (2 * i)) (de_id event) (sub_subscriber sub) db of
        (None, db1) \<Rightarrow> dispatch_subs ck env event subs (Suc i) errors db1
      | (Some delivery, db1) \<Rightarrow>
          if ed_status delivery \<in> {DSucceeded, DDead}
          then dispatch_subs ck env event subs (Suc i) errors db1
          else
            let db2 = fold event_step (env i) db1;
                call = (sub_subscriber sub, ed_attempts delivery)
            in (case invoke_event_handler (sub_handler sub) (json_or_empty (de_payload event))
                       (event_context_of event delivery) of
                  HCancelled \<Rightarrow> ([call], None, db2)
                | HReturned \<Rightarrow>
                    (let rest = dispatch_subs ck env event subs (Suc i) errors
                           (complete_delivery (ck (2 * i + 1)) (ed_id delivery) db2)
                     in (call # fst rest, snd rest))
                | HRaised detail \<Rightarrow>
                    (let rest = dispatch_subs ck env event subs (Suc i)
                           (errors @ [sub_subscriber sub @ [58, 32] @ detail])
                           (snd (fail_delivery (ck (2 * i + 1)) (ed_id delivery) detail db2))
                     in (call # fst rest, snd rest))))"

fun join_lines :: "pystr list \<Rightarrow> pystr" where
  "join_lines [] = []"
| "join_lines [s] = s"
| "join_lines (s # ss) = s @ [10] @ join_lines ss"

definition dispatch_event_once ::
  "clock \<Rightarrow> clock \<Rightarrow> (nat \<Rightarrow> pystr) \<Rightarrow> (nat \<Rightarrow> clock) \<Rightarrow> clock \<Rightarrow> (nat \<Rightarrow> event_op list) \<Rightarrow>
     pystr list \<Rightarrow> subscriptions \<Rightarrow> pystr \<Rightarrow> event_db \<Rightarrow> call_log \<times> run_result \<times> event_db" where
  "dispatch_event_once c0 c1 uuids ck cf env busy reg worker_id db =
     (case claim_next_event c0 busy worker_id db of
        (None, db1) \<Rightarrow> ([], Ran False, db1)
      | (Some event, db1) \<Rightarrow>
          let subs = matching_subscriptions reg (de_event_type event)
          in (case ensure_deliveries c1 uuids event subs db1 of
                Inl e \<Rightarrow> ([], Raises e, db1)
              | Inr (_, db2) \<Rightarrow>
                  (case dispatch_subs ck env event subs 0 [] db2 of
                     (calls, None, db3) \<Rightarrow> (calls, CancelledOut, db3)
                   | (calls, Some errors, db3) \<Rightarrow>
                       (calls, Ran True, snd (finalize_event cf (de_id event) (join_lines errors) db3)))))"

section \<open>The heartbeat and the dispatcher loop\<close>

fun event_heartbeat_loop :: "pystr \<Rightarrow> pystr \<Rightarrow> hb_wake list \<Rightarrow> event_db \<Rightarrow> event_db" where
  "event_heartbeat_loop event_id worker_id [] db = db"
| "event_heartbeat_loop event_id worker_id (HbStop # ws) db = db"
| "event_heartbeat_loop event_id worker_id (HbFault # ws) db = event_heartbeat_loop event_id worker_id ws db"
| "event_heartbeat_loop event_id worker_id (HbTick c # ws) db =
     (let (rowcount, db') = heartbeat_event c event_id worker_id db
      in if rowcount \<noteq> 1 then db' else event_heartbeat_loop event_id worker_id ws db')"

record dispatch_round =
  dr_now :: time
  dr_recover_fault :: bool
  dr_recover_clock :: clock
  dr_recover_busy :: "pystr list"
  dr_run_fault :: bool
  dr_claim_clock :: clock
  dr_ensure_clock :: clock
  dr_uuids :: "nat \<Rightarrow> pystr"
  dr_clocks :: "nat \<Rightarrow> clock"
  dr_finalize_clock :: clock
  dr_env :: "nat \<Rightarrow> event_op list"
  dr_busy :: "pystr list"

definition dispatch_round_step ::
  "subscriptions \<Rightarrow> pystr \<Rightarrow> int \<Rightarrow> dispatch_round \<Rightarrow> time \<times> event_db \<Rightarrow>
     call_log \<times> round_end \<times> time \<times> event_db" where
  "dispatch_round_step reg worker_id stale r = (\<lambda>(last_recovery, db).
     let due = recovery_due stale last_recovery (dr_now r)
     in if due \<and> dr_recover_fault r then ([], Idle, last_recovery, db)
        else
          let db1 = (if due then snd (recover_stale_events (dr_recover_clock r) (dr_recover_busy r) stale db)
                     else db);
              last1 = (if due then dr_now r else last_recovery)
          in if dr_run_fault r then ([], Idle, last1, db1)
             else (case dispatch_event_once (dr_claim_clock r) (dr_ensure_clock r) (dr_uuids r)
                       (dr_clocks r) (dr_finalize_clock r) (dr_env r) (dr_busy r) reg worker_id db1 of
                 (calls, Ran worked, db2) \<Rightarrow> (calls, if worked then Worked else Idle, last1, db2)
               | (calls, Raises e, db2) \<Rightarrow> (calls, Idle, last1, db2)
               | (calls, CancelledOut, db2) \<Rightarrow> (calls, LoopCancelled, last1, db2)))"

fun event_dispatcher_loop ::
  "subscriptions \<Rightarrow> pystr \<Rightarrow> int \<Rightarrow> dispatch_round list \<Rightarrow> time \<times> event_db \<Rightarrow>
     call_log \<times> time \<times> event_db" where
  "event_dispatcher_loop reg worker_id stale [] s = ([], s)"
| "event_dispatcher_loop reg worker_id stale (r # rs) s =
     (case dispatch_round_step reg worker_id stale r s of
        (calls, LoopCancelled, s') \<Rightarrow> (calls, s')
      | (calls, _, s') \<Rightarrow>
          (let (calls', s'') = event_dispatcher_loop reg worker_id stale rs s' in (calls @ calls', s'')))"

section \<open>A dispatch is a run of the outbox\<close>

lemma dispatch_op_runs:
  "runs_to event_step db (snd (start_delivery c i s db))"
  "runs_to event_step db (complete_delivery c d db)"
  "runs_to event_step db (snd (fail_delivery c d err db))"
  "runs_to event_step db (snd (finalize_event c i err db))"
  "runs_to event_step db (snd (claim_next_event c busy w db))"
  "runs_to event_step db (snd (recover_stale_events c busy stale db))"
  "ensure_deliveries c uuids e subs db = Inr (m, db') \<Longrightarrow> runs_to event_step db db'"
  using runs_step[of event_step db "StartDelivery c i s"] runs_step[of event_step db "CompleteDelivery c d"]
    runs_step[of event_step db "FailDelivery c d err"] runs_step[of event_step db "FinalizeEvent c i err"]
    runs_step[of event_step db "ClaimEvent c busy w"] runs_step[of event_step db "RecoverEvents c busy stale"]
    runs_step[of event_step db "EnsureDeliveries c uuids e subs"]
  by (simp_all add: ok_db_def)

text \<open>The loop's step, one equation per way the delivery and its handler can end.\<close>

lemma dispatch_subs_step:
  assumes "start_delivery (ck (2 * i)) (de_id event) (sub_subscriber sub) db = (dl, db1)"
  defines "out \<equiv> \<lambda>d. invoke_event_handler (sub_handler sub) (json_or_empty (de_payload event))
      (event_context_of event d)"
  shows "dl = None \<Longrightarrow> dispatch_subs ck env event (sub # subs) i errors db =
      dispatch_subs ck env event subs (Suc i) errors db1"
    and "dl = Some d \<Longrightarrow> ed_status d \<in> {DSucceeded, DDead} \<Longrightarrow>
      dispatch_subs ck env event (sub # subs) i errors db = dispatch_subs ck env event subs (Suc i) errors db1"
    and "dl = Some d \<Longrightarrow> ed_status d \<notin> {DSucceeded, DDead} \<Longrightarrow> out d = HCancelled \<Longrightarrow>
      dispatch_subs ck env event (sub # subs) i errors db =
        ([(sub_subscriber sub, ed_attempts d)], None, fold event_step (env i) db1)"
    and "dl = Some d \<Longrightarrow> ed_status d \<notin> {DSucceeded, DDead} \<Longrightarrow> out d = HReturned \<Longrightarrow>
      dispatch_subs ck env event (sub # subs) i errors db =
        apfst ((#) (sub_subscriber sub, ed_attempts d)) (dispatch_subs ck env event subs (Suc i) errors
          (complete_delivery (ck (2 * i + 1)) (ed_id d) (fold event_step (env i) db1)))"
    and "dl = Some d \<Longrightarrow> ed_status d \<notin> {DSucceeded, DDead} \<Longrightarrow> out d = HRaised detail \<Longrightarrow>
      dispatch_subs ck env event (sub # subs) i errors db =
        apfst ((#) (sub_subscriber sub, ed_attempts d)) (dispatch_subs ck env event subs (Suc i)
          (errors @ [sub_subscriber sub @ [58, 32] @ detail])
          (snd (fail_delivery (ck (2 * i + 1)) (ed_id d) detail (fold event_step (env i) db1))))"
  using assms(1) by (simp_all add: out_def Let_def apfst_def map_prod_def split_beta)

declare dispatch_subs.simps(2) [simp del]

lemma dispatch_subs_runs:
  "runs_to event_step db (snd (snd (dispatch_subs ck env event subs i errors db)))"
proof (induction subs arbitrary: i errors db)
  case Nil
  show ?case by simp
next
  case (Cons sub subs)
  obtain dl db1 where st: "start_delivery (ck (2 * i)) (de_id event) (sub_subscriber sub) db = (dl, db1)"
    by (cases "start_delivery (ck (2 * i)) (de_id event) (sub_subscriber sub) db")
  note step = dispatch_subs_step[where ck = ck and env = env, OF st]
  have db1: "runs_to event_step db db1"
    using dispatch_op_runs(1)[of db "ck (2 * i)" "de_id event" "sub_subscriber sub"] st by simp
  have db2: "runs_to event_step db (fold event_step (env i) db1)"
    by (rule runs_trans[OF db1 runs_fold])
  show ?case
  proof (cases dl)
    case None
    show ?thesis unfolding step(1)[OF None] by (rule runs_trans[OF db1 Cons])
  next
    case (Some d)
    show ?thesis
    proof (cases "ed_status d \<in> {DSucceeded, DDead}")
      case True
      show ?thesis unfolding step(2)[OF Some True] by (rule runs_trans[OF db1 Cons])
    next
      case False
      show ?thesis
      proof (cases "invoke_event_handler (sub_handler sub) (json_or_empty (de_payload event))
          (event_context_of event d)")
        case HCancelled
        show ?thesis unfolding step(3)[OF Some False HCancelled] by (simp add: db2)
      next
        case HReturned
        show ?thesis unfolding step(4)[OF Some False HReturned] snd_apfst
          by (rule runs_trans[OF runs_trans[OF db2 dispatch_op_runs(2)] Cons])
      next
        case (HRaised detail)
        show ?thesis unfolding step(5)[OF Some False HRaised] snd_apfst
          by (rule runs_trans[OF runs_trans[OF db2 dispatch_op_runs(3)] Cons])
      qed
    qed
  qed
qed

lemma dispatch_runs:
  "runs_to event_step db (snd (snd (dispatch_event_once c0 c1 uuids ck cf env busy reg w db)))"
proof -
  obtain ev db1 where cl: "claim_next_event c0 busy w db = (ev, db1)"
    by (cases "claim_next_event c0 busy w db")
  then have db1: "runs_to event_step db db1"
    using dispatch_op_runs(5)[of db c0 busy w] by simp
  show ?thesis
  proof (cases ev)
    case None
    with cl db1 show ?thesis by (simp add: dispatch_event_once_def)
  next
    case (Some e)
    let ?subs = "matching_subscriptions reg (de_event_type e)"
    show ?thesis
    proof (cases "ensure_deliveries c1 uuids e ?subs db1")
      case (Inl err)
      with cl Some db1 show ?thesis by (simp add: dispatch_event_once_def Let_def)
    next
      case (Inr p)
      obtain m db2 where p: "p = (m, db2)" by (cases p)
      have db2: "runs_to event_step db db2"
        using runs_trans[OF db1 dispatch_op_runs(7)[OF Inr[unfolded p]]] .
      obtain calls r db3 where ds: "dispatch_subs ck env e ?subs 0 [] db2 = (calls, r, db3)"
        by (cases "dispatch_subs ck env e ?subs 0 [] db2") auto
      then have "runs_to event_step db db3"
        using runs_trans[OF db2 dispatch_subs_runs[of db2 ck env e ?subs 0 "[]"]] by simp
      then show ?thesis
        using runs_trans[OF _ dispatch_op_runs(4)] cl Some Inr p ds
        by (auto simp: dispatch_event_once_def Let_def split: option.splits)
    qed
  qed
qed

lemma runs_to_inv: "event_inv db \<Longrightarrow> runs_to event_step db db' \<Longrightarrow> event_inv db'"
  using ev.run_inv by (auto simp: runs_to_def)

lemma runs_to_succeeded:
  "event_inv db \<Longrightarrow> runs_to event_step db db' \<Longrightarrow> find_delivery eid s (deliveries db) = Some d \<Longrightarrow>
   ed_status d = DSucceeded \<Longrightarrow> find_delivery eid s (deliveries db') = Some d"
  using succeeded_delivery_kept by (auto simp: runs_to_def)

section \<open>No subscriber is called again after it succeeded\<close>

lemma start_delivery_succeeded:
  "find_delivery eid s (deliveries db) = Some d \<Longrightarrow> ed_status d = DSucceeded \<Longrightarrow>
   start_delivery c eid s db = (Some d, db)"
  by (simp add: start_delivery_def)

lemma dispatch_subs_skips:
  assumes "event_inv db" and "find_delivery (de_id event) s (deliveries db) = Some d"
    and "ed_status d = DSucceeded"
  shows "s \<notin> fst ` set (fst (dispatch_subs ck env event subs i errors db))"
  using assms(1,2)
proof (induction subs arbitrary: i errors db)
  case Nil
  then show ?case by simp
next
  case (Cons sub subs)
  have IH: "s \<notin> fst ` set (fst (dispatch_subs ck env event subs (Suc i) errs db'))"
    if "runs_to event_step db db'" for errs db'
    using Cons.IH runs_to_inv[OF Cons.prems(1) that]
      runs_to_succeeded[OF Cons.prems(1) that Cons.prems(2) assms(3)] by blast
  obtain dl db1 where st: "start_delivery (ck (2 * i)) (de_id event) (sub_subscriber sub) db = (dl, db1)"
    by (cases "start_delivery (ck (2 * i)) (de_id event) (sub_subscriber sub) db")
  note step = dispatch_subs_step[where ck = ck and env = env, OF st]
  have db1: "runs_to event_step db db1"
    using dispatch_op_runs(1)[of db "ck (2 * i)" "de_id event" "sub_subscriber sub"] st by simp
  have db2: "runs_to event_step db (fold event_step (env i) db1)"
    by (rule runs_trans[OF db1 runs_fold])
  show ?case
  proof (cases dl)
    case None
    show ?thesis unfolding step(1)[OF None] by (rule IH[OF db1])
  next
    case (Some dl')
    show ?thesis
    proof (cases "ed_status dl' \<in> {DSucceeded, DDead}")
      case True
      show ?thesis unfolding step(2)[OF Some True] by (rule IH[OF db1])
    next
      case False
      have other: "sub_subscriber sub \<noteq> s"
        using start_delivery_succeeded[OF Cons.prems(2) assms(3)] st Some False assms(3) by auto
      show ?thesis
      proof (cases "invoke_event_handler (sub_handler sub) (json_or_empty (de_payload event))
          (event_context_of event dl')")
        case HCancelled
        show ?thesis unfolding step(3)[OF Some False HCancelled] using other by simp
      next
        case HReturned
        show ?thesis
          unfolding step(4)[OF Some False HReturned] fst_apfst
          using other IH[OF runs_trans[OF db2 dispatch_op_runs(2)]] by auto
      next
        case (HRaised detail)
        show ?thesis
          unfolding step(5)[OF Some False HRaised] fst_apfst
          using other IH[OF runs_trans[OF db2 dispatch_op_runs(3)]] by auto
      qed
    qed
  qed
qed

lemma event_id_of_claim:
  "claim_next_event c busy w db = (Some e, db') \<Longrightarrow>
   \<exists>e0 \<in> set (events db). event_claimable (utc c 0) e0 \<and> e = start_event (utc c 0) w e0 \<and>
     db' = put_event e db \<and> de_id e0 \<notin> set busy \<and>
     (\<forall>x \<in> set (events db). event_claimable (utc c 0) x \<and> de_id x \<notin> set busy \<longrightarrow> de_occurred_at e0 \<le> de_occurred_at x)"
  by (auto simp: claim_next_event_def Let_def split: option.splits dest!: first_by_SomeD)

end
