(* ===== verification/EventClaims.thy ===== *)
theory EventClaims
  imports EventDispatch
begin

text \<open>
  What the outbox promises: its invariant, the lifecycle of an event, idempotent publishing,
  claims in order of occurrence, and how the dispatcher delivers.
\<close>

section \<open>A small outbox\<close>

definition ex_pub :: publish_args where
  "ex_pub = \<lparr>pa_event_type = asc ''a.b'', pa_payload = PDict [], pa_source = [],
     pa_aggregate_type = [], pa_aggregate_id = [], pa_tenant_id = [], pa_idempotency_key = asc ''k'',
     pa_headers = None, pa_correlation_id = [], pa_causation_id = [], pa_schema_version = 1,
     pa_max_attempts = 5, pa_available_at = None\<rparr>"

definition ex_event :: domain_event where
  "ex_event = new_event (at_time 0) (asc ''e1'') (JObj []) (JObj []) ex_pub"

definition ex_outbox :: event_db where
  "ex_outbox = \<lparr>events = [ex_event], deliveries = []\<rparr>"

definition ex_sub :: subscription where
  "ex_sub = \<lparr>sub_pattern = asc ''a.b'', sub_subscriber = asc ''s1'',
     sub_handler = \<lparr>eh_ident = 1, eh_parameters = Some 1, eh_call1 = (\<lambda>_. HReturned), eh_call2 = (\<lambda>_ _. HCancelled)\<rparr>,
     sub_max_attempts = 2\<rparr>"

lemma strip_asc_event [simp]:
  "py_strip (asc ''a.b'') = asc ''a.b''" "py_strip (asc ''k'') = asc ''k''" "py_strip [] = []"
  by (simp_all add: asc_def py_strip_def py_isspace_def)

lemma asc_consts [simp]: "asc ''default'' \<noteq> []" "asc ''internal'' \<noteq> []" "asc ''a.b'' \<noteq> []" "asc ''k'' \<noteq> []"
  by (simp_all add: asc_def)

lemmas ex_event_defs = ex_event_def ex_pub_def new_event_def norm_tenant_def str_or_none_def py_or_def

lemma ex_outbox_inv: "event_inv ex_outbox"
  by (simp add: event_inv_def ids_distinct_def ex_outbox_def event_keys_def event_key_def
      delivery_keys_def wf_event_def ex_event_defs)

section \<open>The tables\<close>

text \<open>C39: Any run of the outbox, with any interleaving of publishers, dispatchers, heartbeats,
  recoveries and manual retries, keeps it well formed: unique keys, at most one delivery per event and
  subscriber, a lease exactly on the events being dispatched, attempts within max_attempts, and a
  publication time exactly on published events.\<close>

theorem outbox_invariant:
  assumes "event_inv db"
  shows "event_inv (fold event_step ops db)"
  by (rule ev.run_inv[OF assms])

theorem outbox_invariant_witness:
  "event_inv (fold event_step [ClaimEvent (at_time 3) [] (asc ''d1'')] ex_outbox)"
  by (rule outbox_invariant[OF ex_outbox_inv])

inductive event_edge :: "event_status \<Rightarrow> event_status \<Rightarrow> bool" where
  dispatch_pending: "event_edge EPending EDispatching"
| dispatch_failed: "event_edge EFailed EDispatching"
| publish: "event_edge EDispatching EPublished"
| event_retry_later: "event_edge EDispatching EFailed"
| event_give_up: "event_edge EDispatching EDead"
| retry_failed_event: "event_edge EFailed EPending"
| retry_dead_event: "event_edge EDead EPending"

inductive_simps event_edge_from [simp]:
  "event_edge EPending s" "event_edge EDispatching s" "event_edge EPublished s" "event_edge EFailed s"
  "event_edge EDead s"

lemma event_move_edge:
  "event_move e e' \<Longrightarrow> de_status e' = de_status e \<or> event_edge (de_status e) (de_status e')"
  by (induction rule: event_move.induct)
    (auto simp: event_claimable_def start_event_def recover_event_def finalize_row_def Let_def)

text \<open>Events are never lost or rewritten: in any run an event of the outbox keeps its tenant, type,
  source, key, payload and headers, its status moves only along the edges of the diagram, and once
  published it never changes again.\<close>

theorem event_follows_diagram:
  assumes "event_inv db" and "get_row de_id k (events db) = Some e"
  shows "\<exists>e'. get_row de_id k (events (fold event_step ops db)) = Some e' \<and>
    event_edge\<^sup>*\<^sup>* (de_status e) (de_status e') \<and>
    de_tenant_id e' = de_tenant_id e \<and> de_event_type e' = de_event_type e \<and> de_source e' = de_source e \<and>
    de_idempotency_key e' = de_idempotency_key e \<and> de_payload e' = de_payload e \<and>
    de_headers e' = de_headers e \<and> (de_status e = EPublished \<longrightarrow> e' = e)"
  using assms
proof (induction ops arbitrary: db e)
  case Nil
  then show ?case by auto
next
  case (Cons op ops)
  from event_step_event[OF Cons.prems, of op] obtain e1 where
    e1: "get_row de_id k (events (event_step op db)) = Some e1" "event_move e e1" by blast
  from Cons.IH[OF event_step_inv[OF Cons.prems(1)] e1(1)] obtain e' where e':
    "get_row de_id k (events (fold event_step ops (event_step op db))) = Some e'"
    "event_edge\<^sup>*\<^sup>* (de_status e1) (de_status e')"
    "de_tenant_id e' = de_tenant_id e1 \<and> de_event_type e' = de_event_type e1 \<and>
     de_source e' = de_source e1 \<and> de_idempotency_key e' = de_idempotency_key e1 \<and>
     de_payload e' = de_payload e1 \<and> de_headers e' = de_headers e1"
    "de_status e1 = EPublished \<longrightarrow> e' = e1" by blast
  have "event_edge\<^sup>*\<^sup>* (de_status e) (de_status e')"
    using event_move_edge[OF e1(2)] e'(2) by (auto intro: converse_rtranclp_into_rtranclp)
  moreover have "de_status e = EPublished \<longrightarrow> e' = e"
    using event_move_published[OF e1(2)] e'(4) by auto
  ultimately show ?case using e'(1,3) event_move_frame[OF e1(2)] by auto
qed

theorem event_follows_diagram_witness:
  "\<exists>e'. get_row de_id (asc ''e1'') (events (fold event_step [ClaimEvent (at_time 3) [] (asc ''d1'')] ex_outbox)) = Some e' \<and>
    event_edge\<^sup>*\<^sup>* EPending (de_status e') \<and> de_event_type e' = asc ''a.b''"
proof -
  have "get_row de_id (asc ''e1'') (events ex_outbox) = Some ex_event"
    by (simp add: ex_outbox_def ex_event_defs)
  moreover have "de_status ex_event = EPending" "de_event_type ex_event = asc ''a.b''"
    by (simp_all add: ex_event_defs)
  ultimately show ?thesis
    using event_follows_diagram[OF ex_outbox_inv, of "asc ''e1''" ex_event
        "[ClaimEvent (at_time 3) [] (asc ''d1'')]"] by fastforce
qed

section \<open>Claims and idempotent publishing\<close>

definition event_claim_opt ::
  "clock \<Rightarrow> pystr list \<Rightarrow> pystr \<Rightarrow> event_db \<Rightarrow> (domain_event \<times> event_db) option" where
  "event_claim_opt c busy w db = (case claim_next_event c busy w db of
     (None, _) \<Rightarrow> None | (Some e, db') \<Rightarrow> Some (e, db'))"

definition event_due :: "clock \<Rightarrow> pystr list \<Rightarrow> domain_event \<Rightarrow> bool" where
  "event_due c busy e \<longleftrightarrow> event_claimable (utc c 0) e \<and> de_id e \<notin> set busy"

lemma event_claim_None:
  "event_claim_opt c busy w db = None \<Longrightarrow> e \<in> set (events db) \<Longrightarrow> \<not> event_due c busy e"
  by (auto simp: event_claim_opt_def claim_next_event_def Let_def event_due_def filter_empty_conv
      split: option.splits)

lemma event_claim_step:
  "event_claim_opt c busy w db = Some (e, db') \<Longrightarrow> db' = event_step (ClaimEvent c busy w) db"
  by (auto simp: event_claim_opt_def split: prod.splits option.splits)

interpretation ev_claim: best_claim "event_claim_opt c busy w" events "event_due c busy"
    de_occurred_at "start_event (utc c 0) w" de_id event_inv for c busy w
proof (unfold_locales, goal_cases)
  case (1 db r)
  then show ?case by (rule event_claim_None)
next
  case (2 db r' db')
  then have "claim_next_event c busy w db = (Some r', db')"
    by (auto simp: event_claim_opt_def split: prod.splits option.splits)
  from event_id_of_claim[OF this] show ?case by (auto simp: event_due_def put_event_def)
next
  case (6 db r' db')
  then show ?case using event_claim_step event_step_inv by blast
qed (auto simp: event_due_def event_claimable_def start_event_def event_inv_def ids_distinct_def)

text \<open>Dispatchers take the due events in the order of occurrence: draining the outbox claims exactly
  the events that were due, each once, oldest first, and leaves none due.\<close>

theorem outbox_drains_in_order:
  assumes "event_inv db" and "length (filter (event_due c busy) (events db)) \<le> n"
  shows "let (es, db') = drain (event_claim_opt c busy w) n db
    in de_id ` set es = de_id ` {e \<in> set (events db). event_due c busy e} \<and> distinct (map de_id es) \<and>
       sorted (map de_occurred_at es) \<and> (\<forall>e \<in> set (events db'). \<not> event_due c busy e)"
  using ev_claim.drain_complete[OF assms, of w] by (auto simp: Let_def split: prod.splits)

theorem outbox_drains_in_order_witness:
  "let (es, db') = drain (event_claim_opt (at_time 3) [] (asc ''d1'')) 1 ex_outbox
   in de_id ` set es = {asc ''e1''} \<and> (\<forall>e \<in> set (events db'). \<not> event_due (at_time 3) [] e)"
proof -
  have "length (filter (event_due (at_time 3) []) (events ex_outbox)) \<le> 1"
    by (rule order_trans[OF length_filter_le]) (simp add: ex_outbox_def)
  moreover have "{e \<in> set (events ex_outbox). event_due (at_time 3) [] e} = {ex_event}"
    by (auto simp: ex_outbox_def event_due_def event_claimable_def ex_event_defs at_time_def)
  moreover have "de_id ex_event = asc ''e1''" by (simp add: ex_event_defs)
  ultimately show ?thesis
    using outbox_drains_in_order[OF ex_outbox_inv, of "at_time 3" "[]" 1 "asc ''d1''"]
    by (auto simp: Let_def split: prod.splits)
qed

definition publish_key :: "publish_args \<Rightarrow> (pystr \<times> pystr \<times> pystr \<times> pystr) option" where
  "publish_key a = map_option (\<lambda>k. (norm_tenant (pa_tenant_id a),
       py_or (py_strip (pa_source a)) (asc ''internal''), py_strip (pa_event_type a), k))
     (str_or_none (py_strip (pa_idempotency_key a)))"

definition event_by_key :: "pystr \<times> pystr \<times> pystr \<times> pystr \<Rightarrow> event_db \<Rightarrow> domain_event option" where
  "event_by_key = (\<lambda>(tenant, source, ty, k) db. find (has_event_key tenant source ty k) (events db))"

definition publish_now ::
  "clock \<times> pystr \<times> publish_args \<Rightarrow> event_db \<Rightarrow> (domain_event \<times> event_db) res" where
  "publish_now = (\<lambda>(c, uuid, a) db. publish_event_record c uuid (events db) (events db) a db)"

lemma has_new_event_key [simp]:
  "has_event_key (norm_tenant (pa_tenant_id a)) (py_or (py_strip (pa_source a)) (asc ''internal''))
     (py_strip (pa_event_type a)) k (new_event c uuid payload headers a) \<longleftrightarrow>
   str_or_none (py_strip (pa_idempotency_key a)) = Some k"
  by (simp add: has_event_key_def new_event_def)

interpretation ev_idem: idempotent_insert publish_now "\<lambda>(c, uuid, a). publish_key a" event_by_key
    "\<lambda>(c, uuid, a). py_strip (pa_event_type a) \<noteq> []"
proof (unfold_locales, goal_cases)
  case (1 a k db r)
  then show ?case
    by (auto simp: publish_now_def publish_key_def event_by_key_def publish_event_record_def
        lookup_event_def Let_def split: prod.splits)
next
  case (2 a db r db' k)
  obtain c uuid ar where a: "a = (c, uuid, ar)" by (cases a)
  obtain tenant src ty ky where k: "k = (tenant, src, ty, ky)" by (cases k)
  from 2(2) have key: "publish_key ar = Some (tenant, src, ty, ky)" by (simp add: a k)
  show ?case
  proof (cases "find (has_event_key tenant src ty ky) (events db)")
    case None
    with 2(1) key show ?thesis
      by (auto simp: a k publish_now_def event_by_key_def publish_key_def publish_event_record_def
          lookup_event_def Let_def find_append dest!: insert_event_SomeD split: if_splits sum.splits)
  next
    case (Some t)
    with 2(1) key show ?thesis
      by (auto simp: a k publish_now_def event_by_key_def publish_key_def publish_event_record_def
          lookup_event_def Let_def split: if_splits)
  qed
next
  case (3 a db r db' k x)
  obtain c uuid ar where a: "a = (c, uuid, ar)" by (cases a)
  from 3(1) have "publish_event_record c uuid (events db) (events db) ar db = Inr (r, db')"
    by (simp add: a publish_now_def)
  then show ?case
    using 3(2)
    by (auto simp: event_by_key_def find_append elim!: publish_cases dest!: insert_event_SomeD
        split: prod.splits)
qed

text \<open>Publishing is idempotent per tenant, source, type and key: a repeated publication after any
  further ones returns the first event and leaves the outbox unchanged.\<close>

theorem publish_is_idempotent:
  assumes "publish_event_record c uuid (events db) (events db) a db = Inr (e, db')"
    and "publish_key a = Some k" and "publish_key b = Some k" and "py_strip (pa_event_type b) \<noteq> []"
  shows "let db'' = ev_idem.ins_all requests db'
    in publish_event_record c' uuid' (events db'') (events db'') b db'' = Inr (e, db'')"
proof -
  have "publish_now (c, uuid, a) db = Inr (e, db')" using assms(1) by (simp add: publish_now_def)
  from ev_idem.replay[OF this, of k "(c', uuid', b)" requests] assms(2-4)
  show ?thesis by (simp add: publish_now_def Let_def)
qed

theorem publish_is_idempotent_witness:
  "publish_event_record (at_time 4) (asc ''e2'') [ex_event] [ex_event] ex_pub ex_outbox =
     Inr (ex_event, ex_outbox)"
proof -
  have first: "publish_event_record (at_time 0) (asc ''e1'') (events \<lparr>events = [], deliveries = []\<rparr>)
      (events \<lparr>events = [], deliveries = []\<rparr>) ex_pub \<lparr>events = [], deliveries = []\<rparr> = Inr (ex_event, ex_outbox)"
    by (simp add: publish_event_record_def lookup_event_def ex_outbox_def ex_event_defs pyval_or_empty_def
        payload_or_empty_def json_safe_def insert_event_def Let_def)
  have key: "publish_key ex_pub = Some (asc ''default'', asc ''internal'', asc ''a.b'', asc ''k'')"
    by (simp add: publish_key_def ex_event_defs)
  have ne: "py_strip (pa_event_type ex_pub) \<noteq> []" by (simp add: ex_pub_def)
  from publish_is_idempotent[OF first key key ne, of "[]" "at_time 4" "asc ''e2''"]
  show ?thesis by (simp add: Let_def ex_outbox_def)
qed

section \<open>Dispatching\<close>

lemma dispatch_calls_subset:
  assumes "claim_next_event c0 busy w db = (Some e, db1)"
    and "(pystr, n) \<in> set (fst (dispatch_event_once c0 c1 uuids ck cf env busy reg w db))"
  shows "\<exists>m db2. ensure_deliveries c1 uuids e (matching_subscriptions reg (de_event_type e)) db1 = Inr (m, db2) \<and>
    (pystr, n) \<in> set (fst (dispatch_subs ck env e (matching_subscriptions reg (de_event_type e)) 0 [] db2))"
  using assms
  by (auto simp: dispatch_event_once_def Let_def split: sum.splits prod.splits option.splits)

text \<open>C31: A subscriber that succeeded is never called again for that event: whatever happened to the
  outbox since, and whichever dispatcher claims the event again (after a failure of another subscriber, a
  crash or a manual retry), the dispatch makes no call of it.\<close>

theorem succeeded_subscriber_not_called_again:
  assumes "event_inv db0" and "find_delivery eid s (deliveries db0) = Some d" and "ed_status d = DSucceeded"
    and "claim_next_event c0 busy w (fold event_step ops db0) = (Some e, db1)" and "de_id e = eid"
  shows "s \<notin> fst ` set (fst (dispatch_event_once c0 c1 uuids ck cf env busy reg w (fold event_step ops db0)))"
proof
  let ?db = "fold event_step ops db0" and ?subs = "matching_subscriptions reg (de_event_type e)"
  assume "s \<in> fst ` set (fst (dispatch_event_once c0 c1 uuids ck cf env busy reg w ?db))"
  then obtain n where "(s, n) \<in> set (fst (dispatch_event_once c0 c1 uuids ck cf env busy reg w ?db))"
    by auto
  from dispatch_calls_subset[OF assms(4) this] obtain m db2 where
    en: "ensure_deliveries c1 uuids e ?subs db1 = Inr (m, db2)"
    and call: "(s, n) \<in> set (fst (dispatch_subs ck env e ?subs 0 [] db2))" by blast
  have run: "runs_to event_step db0 db2"
    using dispatch_op_runs(5)[of ?db c0 busy w] dispatch_op_runs(7)[OF en] assms(4)
      runs_trans[OF runs_fold[of event_step db0 ops]] runs_trans by fastforce
  from runs_to_succeeded[OF assms(1) run assms(2,3)]
  have "find_delivery (de_id e) s (deliveries db2) = Some d" by (simp add: assms(5))
  from dispatch_subs_skips[OF runs_to_inv[OF assms(1) run] this assms(3)] call
  show False by force
qed

definition ex_outbox2 :: event_db where
  "ex_outbox2 = \<lparr>events = [ex_event\<lparr>de_status := EFailed, de_attempts := 1\<rparr>],
     deliveries = [(new_delivery (at_time 0) 0 (asc ''d1'') ex_event ex_sub)
       \<lparr>ed_status := DSucceeded, ed_attempts := 1, ed_finished_at := Some 1\<rparr>]\<rparr>"

theorem succeeded_subscriber_not_called_again_witness:
  "asc ''s1'' \<notin> fst ` set (fst (dispatch_event_once (at_time 9) (at_time 9) (\<lambda>_. asc ''d2'') (\<lambda>_. at_time 9)
     (at_time 9) (\<lambda>_. []) [] [(asc ''s1'', ex_sub)] (asc ''w1'') ex_outbox2))"
proof -
  let ?e = "start_event 9 (asc ''w1'') (ex_event\<lparr>de_status := EFailed, de_attempts := 1\<rparr>)"
  let ?d = "(new_delivery (at_time 0) 0 (asc ''d1'') ex_event ex_sub)
       \<lparr>ed_status := DSucceeded, ed_attempts := 1, ed_finished_at := Some 1\<rparr>"
  have inv: "event_inv ex_outbox2"
    by (simp add: event_inv_def ids_distinct_def ex_outbox2_def event_keys_def event_key_def
      delivery_keys_def wf_event_def wf_delivery_def ex_event_defs new_delivery_def)
  have fd: "find_delivery (asc ''e1'') (asc ''s1'') (deliveries ex_outbox2) = Some ?d"
    by (simp add: find_delivery_def ex_outbox2_def new_delivery_def ex_event_defs ex_sub_def)
  have cl: "claim_next_event (at_time 9) [] (asc ''w1'') (fold event_step [] ex_outbox2) =
      (Some ?e, put_event ?e ex_outbox2)"
    by (simp add: claim_next_event_def first_by_def ex_outbox2_def event_claimable_def ex_event_defs
        at_time_def Let_def)
  have id: "de_id ?e = asc ''e1''" by (simp add: start_event_def ex_event_defs)
  from succeeded_subscriber_not_called_again[OF inv fd _ cl id] show ?thesis by simp
qed

text \<open>Finalizing decides the fate of a dispatched event by its deliveries: it is published exactly
  when all of them succeeded (or there are none); otherwise it is dead when one is dead or its attempts
  are used up, and else waits between 1 and 300 seconds for the next dispatch; the lease ends in every
  case, and an event that is not being dispatched is left alone.\<close>

theorem finalize_by_deliveries:
  assumes "event_inv db" and "get_row de_id k (events db) = Some e" and "de_status e = EDispatching"
  shows "let ss = {ed_status d |d. d \<in> set (deliveries db) \<and> ed_event_id d = k};
      (s, db') = finalize_event c k err db
    in \<exists>e'. s = Some (de_status e') \<and> get_row de_id k (events db') = Some e' \<and>
      (de_status e' = EPublished \<longleftrightarrow> ss \<subseteq> {DSucceeded}) \<and>
      (de_status e' = EDead \<longleftrightarrow> \<not> ss \<subseteq> {DSucceeded} \<and>
         (DDead \<in> ss \<or> de_max_attempts e \<le> de_attempts e)) \<and>
      (de_status e' \<notin> {EPublished, EDead} \<longrightarrow> de_status e' = EFailed \<and>
         utc c 0 + seconds 1 \<le> de_available_at e' \<and> de_available_at e' \<le> utc c 0 + seconds 300) \<and>
      de_locked_by e' = [] \<and> de_locked_at e' = None \<and> deliveries db' = deliveries db"
proof -
  let ?ss = "delivery_statuses k db"
  let ?e' = "finalize_row c ?ss err e"
  have ss: "set ?ss = {ed_status d |d. d \<in> set (deliveries db) \<and> ed_event_id d = k}"
    by (auto simp: delivery_statuses_def)
  have fin: "finalize_event c k err db = (Some (de_status ?e'), put_event ?e' db)"
    using assms(2,3) by (simp add: finalize_event_def Let_def)
  have id: "de_id ?e' = k"
    using get_row_key[OF assms(2)] by (simp add: finalize_row_def Let_def)
  have get: "get_row de_id k (events (put_event ?e' db)) = Some ?e'"
    using assms(2) id by (simp add: put_event_def table_simps)
  have all: "(?ss = [] \<or> list_all (\<lambda>s. s = DSucceeded) ?ss) \<longleftrightarrow> set ?ss \<subseteq> {DSucceeded}"
    by (auto simp: list_all_iff)
  have p: "1 \<le> (2::int) ^ n" for n by simp
  have b: "seconds 1 \<le> event_backoff n \<and> event_backoff n \<le> seconds 300" for n
    using p by (simp add: event_backoff_def seconds_def min_def)
  show ?thesis
    unfolding fin ss[symmetric] Let_def prod.case
    by (rule exI[of _ ?e'], use get b in \<open>simp add: finalize_row_def Let_def all\<close>)
qed

theorem finalize_by_deliveries_witness:
  "let (s, db') = finalize_event (at_time 9) (asc ''e1'') []
      \<lparr>events = [start_event 3 (asc ''w1'') ex_event], deliveries = []\<rparr>
   in s = Some EPublished"
proof -
  let ?e = "start_event 3 (asc ''w1'') ex_event"
  let ?db = "\<lparr>events = [?e], deliveries = []\<rparr>"
  have inv: "event_inv ?db"
    by (simp add: event_inv_def ids_distinct_def event_keys_def event_key_def
      delivery_keys_def wf_event_def ex_event_defs start_event_def)
  have get: "get_row de_id (asc ''e1'') (events ?db) = Some ?e"
    by (simp add: ex_event_defs start_event_def)
  have st: "de_status ?e = EDispatching" by (simp add: start_event_def)
  from finalize_by_deliveries[OF inv get st, of "at_time 9" "[]"] show ?thesis
    by (auto simp: Let_def split: prod.splits)
qed

section \<open>A dispatch in which every handler returns\<close>

lemma find_put_row:
  assumes "distinct (map key tbl)" and "d \<in> set tbl" and "key d1 = key d" and "P d1 \<longleftrightarrow> P d"
  shows "find P (put_row key d1 tbl) = map_option (\<lambda>x. if key x = key d1 then d1 else x) (find P tbl)"
  using assms(1,2)
proof (induction tbl)
  case Nil
  then show ?case by (simp add: put_row_def)
next
  case (Cons x tbl)
  show ?case
  proof (cases "x = d")
    case True
    have other: "key y \<noteq> key d1" if "y \<in> set tbl" for y
      using that Cons.prems(1) True assms(3) by (force simp: image_iff)
    then have "put_row key d1 tbl = tbl" by (simp add: put_row_def map_idI)
    moreover have "key y \<noteq> key d1" if "find P tbl = Some y" for y
      using that other by (auto simp: find_Some_iff)
    ultimately show ?thesis
      using True assms(3,4) by (cases "find P tbl") (auto simp: put_row_def)
  next
    case False
    with Cons.prems have "key x \<noteq> key d1" using assms(3) by force
    with Cons False show ?thesis by (simp add: put_row_def)
  qed
qed

lemma find_put_delivery:
  assumes "event_inv db" and "find_delivery eid s (deliveries db) = Some d"
    and "ed_id d1 = ed_id d" "ed_event_id d1 = eid" "ed_subscriber d1 = s"
  shows "find_delivery eid s' (deliveries (put_delivery d1 db)) =
    (if s' = s then Some d1 else find_delivery eid s' (deliveries db))"
proof -
  have d: "distinct (map ed_id (deliveries db))" using assms(1) by (simp add: event_inv_def ids_distinct_def)
  note row = find_delivery_SomeD[OF assms(2)]
  have put: "find_delivery eid s' (deliveries (put_delivery d1 db)) =
      map_option (\<lambda>x. if ed_id x = ed_id d1 then d1 else x) (find_delivery eid s' (deliveries db))"
    unfolding find_delivery_def put_delivery_def event_db.select_convs event_db.update_convs
    using find_put_row[OF d, of d d1] row assms(3-5) by simp
  have "ed_id x \<noteq> ed_id d" if "find_delivery eid s' (deliveries db) = Some x" "s' \<noteq> s" for x
    using that find_delivery_get[OF assms(1), of eid s' x] find_delivery_get[OF assms(1), of eid s d]
      assms(2) row by auto
  then show ?thesis using put assms(2,3) by (cases "find_delivery eid s' (deliveries db)") auto
qed

lemma beats_keep:
  assumes "\<And>op. op \<in> set ops \<Longrightarrow> \<exists>c. op = BeatEvent c eid w"
    and "get_row de_id eid (events db) = Some e" and "de_status e = EDispatching"
  shows "deliveries (fold event_step ops db) = deliveries db \<and>
    (\<exists>e'. get_row de_id eid (events (fold event_step ops db)) = Some e' \<and> de_status e' = EDispatching)"
  using assms
proof (induction ops arbitrary: db e)
  case Nil
  then show ?case by simp
next
  case (Cons op ops)
  from Cons.prems(1)[of op] obtain c where op: "op = BeatEvent c eid w" by auto
  have "\<exists>e'. get_row de_id eid (events (event_step op db)) = Some e' \<and> de_status e' = EDispatching"
    using Cons.prems(2,3) get_row_key[OF Cons.prems(2)]
    by (simp add: op heartbeat_event_def put_event_def table_simps)
  moreover have "deliveries (event_step op db) = deliveries db"
    by (simp add: op heartbeat_event_def put_event_def split: option.splits)
  ultimately show ?case using Cons.IH[of "event_step op db"] Cons.prems(1) by auto
qed

definition fresh_delivery :: "(nat \<Rightarrow> clock) \<Rightarrow> event_delivery \<Rightarrow> bool" where
  "fresh_delivery ck d \<longleftrightarrow> ed_status d = DPending \<and> ed_attempts d = 0 \<and> (\<forall>j. ed_next_attempt_at d \<le> utc (ck j) 0)"

lemma put_delivery_keys:
  assumes "event_inv db" and "find_delivery eid s (deliveries db) = Some d"
    and "ed_id d1 = ed_id d" "ed_event_id d1 = eid" "ed_subscriber d1 = s"
  shows "delivery_keys (put_delivery d1 db) = delivery_keys db"
proof -
  have "distinct (map ed_id (deliveries db))" using assms(1) by (simp add: event_inv_def ids_distinct_def)
  moreover note find_delivery_SomeD[OF assms(2)]
  ultimately have same: "x = d" if "x \<in> set (deliveries db)" "ed_id x = ed_id d" for x
    using that by (metis get_row_distinct option.inject)
  show ?thesis
    unfolding delivery_keys_def put_delivery_def put_row_def
    using same find_delivery_SomeD[OF assms(2)] assms(3-5) by (fastforce simp: o_def)
qed

text \<open>The loop over subscribers that all return, with only the dispatcher's heartbeats in between.\<close>

lemma dispatch_all_return:
  assumes "event_inv db" and "distinct (map sub_subscriber subs)"
    and "\<And>sub. sub \<in> set subs \<Longrightarrow> \<exists>d. find_delivery (de_id event) (sub_subscriber sub) (deliveries db) = Some d \<and>
          fresh_delivery ck d"
    and "\<And>sub d. sub \<in> set subs \<Longrightarrow> invoke_event_handler (sub_handler sub) (json_or_empty (de_payload event))
          (event_context_of event d) = HReturned"
    and "\<And>i op. op \<in> set (env i) \<Longrightarrow> \<exists>c. op = BeatEvent c (de_id event) w"
    and "\<exists>e. get_row de_id (de_id event) (events db) = Some e \<and> de_status e = EDispatching"
  shows "\<exists>db'. dispatch_subs ck env event subs i errors db =
      (map (\<lambda>s. (sub_subscriber s, 1)) subs, Some errors, db') \<and> event_inv db' \<and>
    delivery_keys db' = delivery_keys db \<and>
    (\<forall>s. find_delivery (de_id event) s (deliveries db') = find_delivery (de_id event) s (deliveries db) \<or>
         s \<in> sub_subscriber ` set subs) \<and>
    (\<forall>s \<in> sub_subscriber ` set subs. \<exists>d. find_delivery (de_id event) s (deliveries db') = Some d \<and>
         ed_status d = DSucceeded) \<and>
    (\<exists>e. get_row de_id (de_id event) (events db') = Some e \<and> de_status e = EDispatching)"
  using assms(1,2,3,4,6)
proof (induction subs arbitrary: i db)
  case Nil
  then show ?case by auto
next
  case (Cons sub subs)
  let ?eid = "de_id event" and ?s = "sub_subscriber sub"
  obtain d where d: "find_delivery ?eid ?s (deliveries db) = Some d" "fresh_delivery ck d"
    using Cons.prems(3)[of sub] by auto
  note row = find_delivery_SomeD[OF d(1)]
  let ?d1 = "d\<lparr>ed_status := DRunning, ed_attempts := ed_attempts d + 1\<rparr>"
  let ?db1 = "put_delivery ?d1 db"
  have start: "start_delivery (ck (2 * i)) ?eid ?s db = (Some ?d1, ?db1)"
    using d by (simp add: start_delivery_def fresh_delivery_def not_less Let_def)
  have inv1: "event_inv ?db1"
    using event_step_inv[OF Cons.prems(1), of "StartDelivery (ck (2 * i)) ?eid ?s"] start by simp
  obtain e where e: "get_row de_id ?eid (events db) = Some e" "de_status e = EDispatching"
    using Cons.prems(5) by blast
  let ?db2 = "fold event_step (env i) ?db1"
  have "get_row de_id ?eid (events ?db1) = Some e" using e(1) by simp
  from beats_keep[OF assms(5)[where i = i] this e(2)] obtain e2 where
    db2: "deliveries ?db2 = deliveries ?db1" "get_row de_id ?eid (events ?db2) = Some e2"
      "de_status e2 = EDispatching" by auto
  have inv2: "event_inv ?db2" by (rule ev.run_inv[OF inv1])
  have find1: "find_delivery ?eid s' (deliveries ?db2) =
      (if s' = ?s then Some ?d1 else find_delivery ?eid s' (deliveries db))" for s'
    unfolding db2(1) by (rule find_put_delivery[OF Cons.prems(1) d(1)]) (simp_all add: row)
  have get: "get_row ed_id (ed_id d) (deliveries ?db2) = Some ?d1"
    using find_delivery_get[OF inv2, of ?eid ?s ?d1] find1[of ?s] by simp
  let ?c = "ck (2 * i + 1)"
  let ?d2 = "?d1\<lparr>ed_status := DSucceeded, ed_finished_at := Some (utc ?c 0), ed_last_error := []\<rparr>"
  let ?db3 = "put_delivery ?d2 ?db2"
  have compl: "complete_delivery ?c (ed_id d) ?db2 = ?db3"
    using get by (simp add: complete_delivery_def)
  have inv3: "event_inv ?db3"
    using event_step_inv[OF inv2, of "CompleteDelivery ?c (ed_id d)"] compl by simp
  have f1: "find_delivery ?eid ?s (deliveries ?db2) = Some ?d1" using find1 by simp
  have find3: "find_delivery ?eid s' (deliveries ?db3) =
      (if s' = ?s then Some ?d2 else find_delivery ?eid s' (deliveries db))" for s'
    using find_put_delivery[OF inv2 f1, of ?d2 s'] find1[of s'] row by simp
  have keys: "delivery_keys ?db3 = delivery_keys db"
    using put_delivery_keys[OF inv2 f1, of ?d2] put_delivery_keys[OF Cons.prems(1) d(1), of ?d1] row db2(1)
    by (simp add: delivery_keys_def)
  have "\<exists>db'. dispatch_subs ck env event subs (Suc i) errors ?db3 =
      (map (\<lambda>s. (sub_subscriber s, 1)) subs, Some errors, db') \<and> event_inv db' \<and>
    delivery_keys db' = delivery_keys ?db3 \<and>
    (\<forall>s. find_delivery ?eid s (deliveries db') = find_delivery ?eid s (deliveries ?db3) \<or>
         s \<in> sub_subscriber ` set subs) \<and>
    (\<forall>s \<in> sub_subscriber ` set subs. \<exists>d. find_delivery ?eid s (deliveries db') = Some d \<and>
         ed_status d = DSucceeded) \<and>
    (\<exists>e. get_row de_id ?eid (events db') = Some e \<and> de_status e = EDispatching)"
  proof (rule Cons.IH[OF inv3])
    show "distinct (map sub_subscriber subs)" using Cons.prems(2) by simp
    show "\<exists>d. find_delivery ?eid (sub_subscriber x) (deliveries ?db3) = Some d \<and> fresh_delivery ck d"
      if "x \<in> set subs" for x
    proof -
      have "sub_subscriber x \<noteq> ?s" using that Cons.prems(2) by (simp add: image_iff) metis
      with find3[of "sub_subscriber x"] Cons.prems(3)[of x] that show ?thesis by simp
    qed
    show "invoke_event_handler (sub_handler x) (json_or_empty (de_payload event))
          (event_context_of event d) = HReturned" if "x \<in> set subs" for x d
      using that Cons.prems(4) by simp
    show "\<exists>e. get_row de_id ?eid (events ?db3) = Some e \<and> de_status e = EDispatching"
      using db2(2,3) by simp
  qed
  then obtain db' where IH: "dispatch_subs ck env event subs (Suc i) errors ?db3 =
      (map (\<lambda>s. (sub_subscriber s, 1)) subs, Some errors, db')" "event_inv db'"
    "delivery_keys db' = delivery_keys ?db3"
    "\<forall>s. find_delivery ?eid s (deliveries db') = find_delivery ?eid s (deliveries ?db3) \<or>
         s \<in> sub_subscriber ` set subs"
    "\<forall>s \<in> sub_subscriber ` set subs. \<exists>d. find_delivery ?eid s (deliveries db') = Some d \<and>
         ed_status d = DSucceeded"
    "\<exists>e. get_row de_id ?eid (events db') = Some e \<and> de_status e = EDispatching" by blast
  have out: "invoke_event_handler (sub_handler sub) (json_or_empty (de_payload event))
      (event_context_of event ?d1) = HReturned" using Cons.prems(4) by simp
  have run: "dispatch_subs ck env event (sub # subs) i errors db =
      (map (\<lambda>s. (sub_subscriber s, 1)) (sub # subs), Some errors, db')"
    using dispatch_subs_step(4)[where ck = ck and env = env and subs = subs and errors = errors,
        OF start refl] out compl IH(1) d(2)
    by (simp add: fresh_delivery_def)
  have "find_delivery ?eid ?s (deliveries db') = Some ?d2"
    using IH(4)[rule_format, of ?s] Cons.prems(2) find3[of ?s] by simp
  then have here: "\<exists>d. find_delivery ?eid ?s (deliveries db') = Some d \<and> ed_status d = DSucceeded" by simp
  have rest: "find_delivery ?eid s (deliveries db') = find_delivery ?eid s (deliveries db) \<or>
      s \<in> sub_subscriber ` set (sub # subs)" for s
    using IH(4)[rule_format, of s] find3[of s] by (cases "s = ?s") auto
  from run IH(2,3,5,6) keys here rest show ?case by (intro exI[of _ db']) auto
qed

lemma add_missing_fresh:
  "distinct (existing @ map sub_subscriber subs) \<Longrightarrow>
   add_missing c uuids i e subs existing =
     map (\<lambda>(j, sub). new_delivery c (utc c j) (uuids j) e sub) (zip [i..<i + length subs] subs)"
proof (induction subs arbitrary: i existing)
  case Nil
  then show ?case by simp
next
  case (Cons sub subs)
  have "distinct ((sub_subscriber sub # existing) @ map sub_subscriber subs)" using Cons.prems by auto
  from Cons.IH[OF this, of "Suc i"] Cons.prems show ?case by (simp add: upt_rec)
qed

lemma matching_distinct:
  "distinct (map fst reg) \<Longrightarrow> \<forall>(s, sub) \<in> set reg. sub_subscriber sub = s \<Longrightarrow>
   distinct (map sub_subscriber (matching_subscriptions reg ty))"
proof -
  assume d: "distinct (map fst reg)" and k: "\<forall>(s, sub) \<in> set reg. sub_subscriber sub = s"
  have "map sub_subscriber (map snd reg) = map fst reg" using k by (auto simp: split_beta)
  with d have "distinct (map sub_subscriber (map snd reg))" by metis
  then have "distinct (map sub_subscriber (filter p (map snd reg)))" for p by (rule distinct_map_filter)
  then show ?thesis
    by (simp add: matching_subscriptions_def distinct_map inj_on_def)
qed

text \<open>The registry maps each subscriber to its own subscription.\<close>

definition registry_ok :: "subscriptions \<Rightarrow> bool" where
  "registry_ok reg \<longleftrightarrow> distinct (map fst reg) \<and> (\<forall>(s, sub) \<in> set reg. sub_subscriber sub = s)"

lemma register_event_ok:
  "registry_ok reg \<Longrightarrow> register_event_handler p s h m reg = Inr reg' \<Longrightarrow> registry_ok reg'"
proof -
  assume ok: "registry_ok reg" and reg: "register_event_handler p s h m reg = Inr reg'"
  let ?s = "\<lparr>sub_pattern = py_strip p, sub_subscriber = py_strip s, sub_handler = h,
      sub_max_attempts = max 1 (min 100 m)\<rparr>"
  have reg': "reg' = AList.update (py_strip s) ?s reg"
    using reg by (auto simp: register_event_handler_def Let_def split: if_splits option.splits)
  have d: "distinct (map fst reg')" using ok by (simp add: reg' registry_ok_def distinct_update)
  have "sub_subscriber v = k" if "(k, v) \<in> set reg'" for k v
  proof -
    have "map_of reg' k = Some v" using d that by simp
    then show ?thesis
      using ok by (auto simp: reg' update_conv' registry_ok_def dest!: map_of_SomeD split: if_splits)
  qed
  with d show ?thesis by (auto simp: registry_ok_def)
qed

lemma find_by_key:
  assumes "event_inv db" and "d \<in> set (deliveries db)"
  shows "find_delivery (ed_event_id d) (ed_subscriber d) (deliveries db) = Some d"
proof -
  have "distinct (map ed_id (deliveries db))" using assms(1) by (simp add: event_inv_def ids_distinct_def)
  from get_row_distinct[OF this assms(2)] find_delivery_get[OF assms(1), of _ _ d] show ?thesis by simp
qed

lemma ensure_fresh:
  assumes "registry_ok reg" and "\<And>d. d \<in> set (deliveries db) \<Longrightarrow> ed_event_id d \<noteq> de_id e"
    and "de_id e \<in> set (map de_id (events db))"
    and "distinct (map ed_id (deliveries db) @ map uuids [0..<length (matching_subscriptions reg ty)])"
    and "\<And>i j. utc c i \<le> utc (ck j) 0" and "event_inv db"
  shows "\<exists>m db2. ensure_deliveries c uuids e (matching_subscriptions reg ty) db = Inr (m, db2) \<and>
    event_inv db2 \<and> events db2 = events db \<and>
    {ed_subscriber d |d. d \<in> set (deliveries db2) \<and> ed_event_id d = de_id e} =
      sub_subscriber ` set (matching_subscriptions reg ty) \<and>
    (\<forall>sub \<in> set (matching_subscriptions reg ty). \<exists>d. find_delivery (de_id e) (sub_subscriber sub) (deliveries db2) = Some d \<and>
       fresh_delivery ck d)"
proof -
  let ?subs = "matching_subscriptions reg ty"
  have none: "filter (\<lambda>d. ed_event_id d = de_id e) (deliveries db) = []"
    using assms(2) by (simp add: filter_empty_conv)
  have dist: "distinct (map sub_subscriber ?subs)"
    using matching_distinct assms(1) by (simp add: registry_ok_def)
  define added where "added = add_missing c uuids 0 e ?subs []"
  have added: "added = map (\<lambda>(j, sub). new_delivery c (utc c j) (uuids j) e sub) (zip [0..<length ?subs] ?subs)"
    using add_missing_fresh[of "[]" ?subs c uuids 0 e] dist by (simp add: added_def)
  have "map ed_id added = map uuids [0..<length ?subs]"
    unfolding added by (rule nth_equalityI) (simp_all add: new_delivery_def)
  with assms(4) have ids: "distinct (map ed_id (deliveries db @ added))" by simp
  let ?db2 = "db\<lparr>deliveries := deliveries db @ added\<rparr>"
  have en: "ensure_deliveries c uuids e ?subs db = Inr (map (\<lambda>d. (ed_subscriber d, d)) added, ?db2)"
    using ids assms(3) none unfolding ensure_deliveries_def Let_def added_def[symmetric] none
    by (simp add: none added_def)
  have inv: "event_inv ?db2" by (rule ensure_inv[OF assms(6) en])
  have subs: "map ed_subscriber added = map sub_subscriber ?subs"
    unfolding added by (rule nth_equalityI) simp_all
  have row: "ed_event_id d = de_id e \<and> fresh_delivery ck d" if "d \<in> set added" for d
    using that assms(5) by (auto simp: added fresh_delivery_def new_delivery_def)
  have "{ed_subscriber d |d. d \<in> set (deliveries ?db2) \<and> ed_event_id d = de_id e} = set (map ed_subscriber added)"
    using assms(2) row by auto
  then have names: "{ed_subscriber d |d. d \<in> set (deliveries ?db2) \<and> ed_event_id d = de_id e} =
      sub_subscriber ` set ?subs" unfolding subs by simp
  have "\<exists>d. find_delivery (de_id e) (sub_subscriber sub) (deliveries ?db2) = Some d \<and> fresh_delivery ck d"
    if "sub \<in> set ?subs" for sub
  proof -
    have "sub_subscriber sub \<in> set (map ed_subscriber added)" unfolding subs using that by simp
    then obtain d where d: "d \<in> set added" "ed_subscriber d = sub_subscriber sub" by auto
    from find_by_key[OF inv, of d] d row[OF d(1)] show ?thesis by auto
  qed
  with en inv names show ?thesis
    by (intro exI[of _ "map (\<lambda>d. (ed_subscriber d, d)) added"] exI[of _ ?db2] conjI ballI) simp_all
qed

text \<open>C32: Delivery is complete: a due event none of whose subscribers was tried yet is published by a
  single dispatch when every handler returns; each matching subscriber is called exactly once, in the
  order of their names and on its first attempt, and each gets a delivery that is marked succeeded.\<close>

theorem fresh_event_is_published:
  assumes "event_inv db" and "registry_ok reg" and "claim_next_event c0 busy w db = (Some e, db1)"
    and "\<And>d. d \<in> set (deliveries db) \<Longrightarrow> ed_event_id d \<noteq> de_id e"
    and "distinct (map ed_id (deliveries db) @
          map uuids [0..<length (matching_subscriptions reg (de_event_type e))])"
    and "\<And>i j. utc c1 i \<le> utc (ck j) 0"
    and "\<And>s sub payload ctx. (s, sub) \<in> set reg \<Longrightarrow>
          invoke_event_handler (sub_handler sub) payload ctx = HReturned"
    and "\<And>i op. op \<in> set (env i) \<Longrightarrow> \<exists>c. op = BeatEvent c (de_id e) w"
  shows "\<exists>db' e'. dispatch_event_once c0 c1 uuids ck cf env busy reg w db =
      (map (\<lambda>s. (sub_subscriber s, 1)) (matching_subscriptions reg (de_event_type e)), Ran True, db') \<and>
    get_row de_id (de_id e) (events db') = Some e' \<and> de_status e' = EPublished \<and>
    (\<forall>s. s \<in> sub_subscriber ` set (matching_subscriptions reg (de_event_type e)) \<longleftrightarrow>
       (\<exists>d. find_delivery (de_id e) s (deliveries db') = Some d \<and> ed_status d = DSucceeded))"
proof -
  let ?subs = "matching_subscriptions reg (de_event_type e)" and ?eid = "de_id e"
  from event_id_of_claim[OF assms(3)] obtain e0 where e0: "e0 \<in> set (events db)"
    "e = start_event (utc c0 0) w e0" "db1 = put_event e db" by blast
  have inv1: "event_inv db1"
    using event_step_inv[OF assms(1), of "ClaimEvent c0 busy w"] assms(3) by simp
  have "get_row de_id ?eid (events db) = Some e0"
    using get_row_distinct[OF _ e0(1), of de_id] assms(1)
    by (simp add: e0(2) start_event_def event_inv_def ids_distinct_def)
  then have row1: "get_row de_id ?eid (events db1) = Some e"
    by (simp add: e0(3) put_event_def table_simps)
  have st1: "de_status e = EDispatching" by (simp add: e0(2) start_event_def)
  have dl1: "deliveries db1 = deliveries db" by (simp add: e0(3))
  have mem: "?eid \<in> set (map de_id (events db1))" using get_row_in[OF row1] by simp
  obtain m db2 where en: "ensure_deliveries c1 uuids e ?subs db1 = Inr (m, db2)" "event_inv db2"
    "events db2 = events db1"
    "{ed_subscriber d |d. d \<in> set (deliveries db2) \<and> ed_event_id d = ?eid} = sub_subscriber ` set ?subs"
    "\<forall>sub \<in> set ?subs. \<exists>d. find_delivery ?eid (sub_subscriber sub) (deliveries db2) = Some d \<and> fresh_delivery ck d"
    using ensure_fresh[where ck = ck and uuids = uuids and ty = "de_event_type e", OF assms(2) _ mem _ assms(6) inv1]
      assms(4,5) unfolding dl1 by blast
  have inreg: "sub \<in> set ?subs \<Longrightarrow> \<exists>s. (s, sub) \<in> set reg" for sub
    by (auto simp: matching_subscriptions_def)
  have dist: "distinct (map sub_subscriber ?subs)"
    using matching_distinct assms(2) by (simp add: registry_ok_def)
  have "\<exists>e. get_row de_id ?eid (events db2) = Some e \<and> de_status e = EDispatching"
    using row1 st1 en(3) by simp
  moreover have "invoke_event_handler (sub_handler sub) (json_or_empty (de_payload e)) (event_context_of e d) = HReturned"
    if "sub \<in> set ?subs" for sub d using assms(7) inreg[OF that] by blast
  ultimately obtain db3 where run: "dispatch_subs ck env e ?subs 0 [] db2 =
      (map (\<lambda>s. (sub_subscriber s, 1)) ?subs, Some [], db3)" "event_inv db3"
    "delivery_keys db3 = delivery_keys db2"
    "\<forall>s \<in> sub_subscriber ` set ?subs. \<exists>d. find_delivery ?eid s (deliveries db3) = Some d \<and> ed_status d = DSucceeded"
    "\<exists>e'. get_row de_id ?eid (events db3) = Some e' \<and> de_status e' = EDispatching"
    using dispatch_all_return[OF en(2) dist, of e ck env w 0 "[]"] en(5) assms(8) by blast
  from run(5) obtain e3 where e3: "get_row de_id ?eid (events db3) = Some e3" "de_status e3 = EDispatching"
    by blast
  have keyed: "{ed_subscriber d |d. d \<in> set (deliveries x) \<and> ed_event_id d = ?eid} =
      {s. (?eid, s) \<in> set (delivery_keys x)}" for x
    by (force simp: delivery_keys_def)
  have names: "{ed_subscriber d |d. d \<in> set (deliveries db3) \<and> ed_event_id d = ?eid} =
      sub_subscriber ` set ?subs"
    unfolding en(4)[symmetric] keyed run(3) ..
  have succ: "ed_status d = DSucceeded" if "d \<in> set (deliveries db3)" "ed_event_id d = ?eid" for d
  proof -
    have "ed_subscriber d \<in> {ed_subscriber d |d. d \<in> set (deliveries db3) \<and> ed_event_id d = ?eid}"
      using that by blast
    then have "ed_subscriber d \<in> sub_subscriber ` set ?subs" unfolding names .
    from run(4)[rule_format, OF this] find_by_key[OF run(2) that(1)] that(2) show ?thesis by auto
  qed
  obtain s' db4 where fin: "finalize_event cf ?eid [] db3 = (s', db4)" by (cases "finalize_event cf ?eid [] db3")
  let ?e' = "finalize_row cf (delivery_statuses ?eid db3) [] e3"
  have "list_all (\<lambda>s. s = DSucceeded) (delivery_statuses ?eid db3)"
    using succ by (auto simp: delivery_statuses_def list_all_iff)
  then have pub: "de_status ?e' = EPublished" by (simp add: finalize_row_def Let_def)
  have db4: "db4 = put_event ?e' db3"
    using fin e3 by (simp add: finalize_event_def Let_def)
  have get4: "get_row de_id ?eid (events db4) = Some ?e'"
    using e3(1) get_row_key[OF e3(1)] by (simp add: db4 put_event_def table_simps finalize_row_def Let_def)
  have "s \<in> sub_subscriber ` set ?subs \<longleftrightarrow>
      (\<exists>d. find_delivery ?eid s (deliveries db4) = Some d \<and> ed_status d = DSucceeded)" for s
  proof
    assume "s \<in> sub_subscriber ` set ?subs"
    from run(4)[rule_format, OF this]
    show "\<exists>d. find_delivery ?eid s (deliveries db4) = Some d \<and> ed_status d = DSucceeded"
      by (simp add: db4)
  next
    assume "\<exists>d. find_delivery ?eid s (deliveries db4) = Some d \<and> ed_status d = DSucceeded"
    then obtain d where "find_delivery ?eid s (deliveries db3) = Some d" by (auto simp: db4)
    from find_delivery_SomeD[OF this] show "s \<in> sub_subscriber ` set ?subs"
      unfolding names[symmetric] by blast
  qed
  moreover have "dispatch_event_once c0 c1 uuids ck cf env busy reg w db =
      (map (\<lambda>s. (sub_subscriber s, 1)) ?subs, Ran True, db4)"
    using assms(3) en(1) run(1) fin by (simp add: dispatch_event_once_def Let_def)
  ultimately show ?thesis using get4 pub by blast
qed

lemma ex_matching: "matching_subscriptions [(asc ''s1'', ex_sub)] (asc ''a.b'') = [ex_sub]"
proof -
  have "fnmatchcase (asc ''a.b'') (asc ''a.b'')" by (subst fnmatchcase_plain) (simp_all add: asc_def plain_char_def)
  then show ?thesis by (simp add: matching_subscriptions_def ex_sub_def)
qed

theorem fresh_event_is_published_witness:
  "\<exists>db' e'. dispatch_event_once (at_time 9) (at_time 9) (\<lambda>_. asc ''d1'') (\<lambda>_. at_time 9) (at_time 9)
      (\<lambda>_. [BeatEvent (at_time 9) (asc ''e1'') (asc ''w1'')]) [] [(asc ''s1'', ex_sub)] (asc ''w1'') ex_outbox =
    ([(asc ''s1'', 1)], Ran True, db') \<and>
    get_row de_id (asc ''e1'') (events db') = Some e' \<and> de_status e' = EPublished"
proof -
  let ?reg = "[(asc ''s1'', ex_sub)]"
  let ?e = "start_event 9 (asc ''w1'') ex_event"
  have reg: "registry_ok ?reg" by (simp add: registry_ok_def ex_sub_def)
  have cl: "claim_next_event (at_time 9) [] (asc ''w1'') ex_outbox = (Some ?e, put_event ?e ex_outbox)"
    by (simp add: claim_next_event_def first_by_def ex_outbox_def event_claimable_def ex_event_defs
        at_time_def Let_def)
  have no: "ed_event_id d \<noteq> de_id ?e" if "d \<in> set (deliveries ex_outbox)" for d
    using that by (simp add: ex_outbox_def)
  have ty: "de_event_type ?e = asc ''a.b''" "de_id ?e = asc ''e1''"
    by (simp_all add: start_event_def ex_event_defs)
  have ids: "distinct (map ed_id (deliveries ex_outbox) @ map (\<lambda>_. asc ''d1'')
      [0..<length (matching_subscriptions ?reg (de_event_type ?e))])"
    by (simp add: ty ex_matching ex_outbox_def)
  have t: "utc (at_time 9) i \<le> utc ((\<lambda>_. at_time 9) j) 0" for i j by (simp add: at_time_def)
  have h: "invoke_event_handler (sub_handler sub) payload ctx = HReturned"
    if "(s, sub) \<in> set ?reg" for s sub payload ctx
    using that by (simp add: ex_sub_def invoke_event_handler_def)
  have env: "\<exists>c. op = BeatEvent c (de_id ?e) (asc ''w1'')"
    if "op \<in> set ((\<lambda>_. [BeatEvent (at_time 9) (asc ''e1'') (asc ''w1'')]) i)" for i op
    using that ty by simp
  note pub = fresh_event_is_published[where ck = "\<lambda>_. at_time 9" and uuids = "\<lambda>_. asc ''d1''" and
      cf = "at_time 9" and env = "\<lambda>_. [BeatEvent (at_time 9) (asc ''e1'') (asc ''w1'')]",
      OF ex_outbox_inv reg cl no ids t h env]
  have calls: "map (\<lambda>s. (sub_subscriber s, 1::int)) [ex_sub] = [(asc ''s1'', 1)]" by (simp add: ex_sub_def)
  have "\<exists>db' e'. dispatch_event_once (at_time 9) (at_time 9) (\<lambda>_. asc ''d1'') (\<lambda>_. at_time 9) (at_time 9)
      (\<lambda>_. [BeatEvent (at_time 9) (asc ''e1'') (asc ''w1'')]) [] ?reg (asc ''w1'') ex_outbox =
      ([(asc ''s1'', 1)], Ran True, db') \<and>
    get_row de_id (asc ''e1'') (events db') = Some e' \<and> de_status e' = EPublished \<and>
    (\<forall>s. (s \<in> sub_subscriber ` set [ex_sub]) =
      (\<exists>d. find_delivery (asc ''e1'') s (deliveries db') = Some d \<and> ed_status d = DSucceeded))"
    by (rule pub[unfolded ty ex_matching calls]) assumption+
  then show ?thesis by (elim exE conjE) (intro exI conjI)
qed

section \<open>Settling is not fenced\<close>

text \<open>The heartbeat of a dispatcher is fenced by its lease, but settling is not: once a recovered
  event was claimed by another dispatcher, the finalization of the first one is accepted, ends the
  other's lease and decides the event's status while the other is still delivering, after which the
  other's own finalization is ignored.\<close>

theorem stale_dispatcher_finalizes:
  assumes "event_inv db" and "get_row de_id k (events db) = Some e" and "de_status e = EDispatching"
    and "de_locked_by e = w" and "w' \<noteq> w"
  shows "heartbeat_event c k w' db = (0, db) \<and>
    (let (s, db') = finalize_event c k err db
     in s \<noteq> None \<and> heartbeat_event c' k w db' = (0, db') \<and> finalize_event c' k err' db' = (None, db'))"
proof -
  let ?e' = "finalize_row c (delivery_statuses k db) err e"
  have fin: "finalize_event c k err db = (Some (de_status ?e'), put_event ?e' db)"
    using assms(2,3) by (simp add: finalize_event_def Let_def)
  have "get_row de_id k (events (put_event ?e' db)) = Some ?e'"
    using assms(2) get_row_key[OF assms(2)]
    by (simp add: put_event_def table_simps finalize_row_def Let_def)
  moreover have "de_status ?e' \<noteq> EDispatching" by (simp add: finalize_row_def Let_def)
  ultimately show ?thesis
    using assms by (auto simp: fin heartbeat_event_def finalize_event_def[of c'])
qed

theorem stale_dispatcher_finalizes_witness:
  "let db = \<lparr>events = [start_event 3 (asc ''w1'') ex_event], deliveries = []\<rparr>
   in heartbeat_event (at_time 4) (asc ''e1'') (asc ''w2'') db = (0, db) \<and>
      fst (finalize_event (at_time 4) (asc ''e1'') [] db) \<noteq> None"
proof -
  let ?e = "start_event 3 (asc ''w1'') ex_event"
  let ?db = "\<lparr>events = [?e], deliveries = []\<rparr>"
  have inv: "event_inv ?db"
    by (simp add: event_inv_def ids_distinct_def event_keys_def event_key_def
      delivery_keys_def wf_event_def ex_event_defs start_event_def)
  have get: "get_row de_id (asc ''e1'') (events ?db) = Some ?e"
    by (simp add: ex_event_defs start_event_def)
  have st: "de_status ?e = EDispatching" "de_locked_by ?e = asc ''w1''" "asc ''w2'' \<noteq> asc ''w1''"
    by (simp_all add: start_event_def asc_def)
  from stale_dispatcher_finalizes[OF inv get st, of "at_time 4" "[]" "at_time 5" "[]"] show ?thesis
    by (auto simp: Let_def split: prod.splits)
qed

end
