(* ===== verification/PyText.thy ===== *)
theory PyText
  imports PyStd
begin

text \<open>
  More of Python's text operations: \<open>json.dumps(v, ensure_ascii=False)\<close>, the truth value of a
  JSON value, the substring test \<open>in\<close>, \<open>str.join\<close>, and the look-up of a key in a dict.
\<close>

section \<open>json.dumps\<close>

definition hex_digit :: "nat \<Rightarrow> nat" where
  "hex_digit n = (if n < 10 then 48 + n else 87 + n)"

definition json_char :: "nat \<Rightarrow> pystr" where
  "json_char c =
     (if c = 34 then [92, 34] else if c = 92 then [92, 92]
      else if c = 10 then asc [CHR 0x5C, CHR ''n''] else if c = 13 then asc [CHR 0x5C, CHR ''r'']
      else if c = 9 then asc [CHR 0x5C, CHR ''t''] else if c = 8 then asc [CHR 0x5C, CHR ''b'']
      else if c = 12 then asc [CHR 0x5C, CHR ''f'']
      else if c < 32 then asc [CHR 0x5C, CHR ''u'', CHR ''0'', CHR ''0''] @ [hex_digit (c div 16), hex_digit (c mod 16)]
      else [c])"

definition json_string :: "pystr \<Rightarrow> pystr" where
  "json_string s = [34] @ concat (map json_char s) @ [34]"

fun py_join :: "pystr \<Rightarrow> pystr list \<Rightarrow> pystr" where
  "py_join sep [] = []"
| "py_join sep [s] = s"
| "py_join sep (s # ss) = s @ sep @ py_join sep ss"

fun json_text :: "json \<Rightarrow> pystr" and json_items :: "(pystr \<times> json) list \<Rightarrow> pystr list" where
  "json_text JNull = asc ''null''"
| "json_text (JBool b) = (if b then asc ''true'' else asc ''false'')"
| "json_text (JInt i) = py_str_int i"
| "json_text (JFloat s) = s"
| "json_text (JStr s) = json_string s"
| "json_text (JList js) = [91] @ py_join (asc '', '') (map json_text js) @ [93]"
| "json_text (JObj kvs) = [123] @ py_join (asc '', '') (json_items kvs) @ [125]"
| "json_items [] = []"
| "json_items ((k, v) # kvs) = (json_string k @ asc '': '' @ json_text v) # json_items kvs"

text \<open>\<open>v if isinstance(v, str) else json.dumps(v, ensure_ascii=False)\<close>.\<close>

definition as_text :: "json \<Rightarrow> pystr" where
  "as_text v = (case v of JStr s \<Rightarrow> s | _ \<Rightarrow> json_text v)"

fun truthy :: "json \<Rightarrow> bool" where
  "truthy JNull = False"
| "truthy (JBool b) = b"
| "truthy (JInt i) = (i \<noteq> 0)"
| "truthy (JFloat s) = (s \<notin> {asc ''0.0'', asc ''-0.0''})"
| "truthy (JStr s) = (s \<noteq> [])"
| "truthy (JList js) = (js \<noteq> [])"
| "truthy (JObj kvs) = (kvs \<noteq> [])"

section \<open>Substrings\<close>

fun py_in :: "pystr \<Rightarrow> pystr \<Rightarrow> bool" where
  "py_in needle [] = (needle = [])"
| "py_in needle (c # cs) = (take (length needle) (c # cs) = needle \<or> py_in needle cs)"

lemma py_in_iff: "py_in needle s \<longleftrightarrow> (\<exists>pre post. s = pre @ needle @ post)"
proof (induction s)
  case Nil
  then show ?case by auto
next
  case (Cons c cs)
  show ?case
  proof
    assume "py_in needle (c # cs)"
    then consider "take (length needle) (c # cs) = needle" | "py_in needle cs" by auto
    then show "\<exists>pre post. c # cs = pre @ needle @ post"
    proof cases
      case 1
      then have "c # cs = [] @ needle @ drop (length needle) (c # cs)" by (metis append_Nil append_take_drop_id)
      then show ?thesis by blast
    next
      case 2
      with Cons obtain pre post where "cs = pre @ needle @ post" by blast
      then have "c # cs = (c # pre) @ needle @ post" by simp
      then show ?thesis by blast
    qed
  next
    assume "\<exists>pre post. c # cs = pre @ needle @ post"
    then obtain pre post where eq: "c # cs = pre @ needle @ post" by blast
    show "py_in needle (c # cs)"
    proof (cases pre)
      case Nil
      with eq have "take (length needle) (c # cs) = needle" by (metis append_Nil append_eq_conv_conj)
      then show ?thesis by simp
    next
      case (Cons p ps)
      with eq have "cs = ps @ needle @ post" by simp
      with \<open>py_in needle cs \<longleftrightarrow> _\<close> show ?thesis by auto
    qed
  qed
qed

lemma py_join_Cons: "py_join sep (s # ss) = s @ (if ss = [] then [] else sep @ py_join sep ss)"
  by (cases ss) simp_all

section \<open>Splitting, and keys of a dict\<close>

text \<open>\<open>split\<close> at a separating character.\<close>

fun py_split :: "nat \<Rightarrow> pystr \<Rightarrow> pystr list" where
  "py_split sep [] = [[]]"
| "py_split sep (c # cs) =
     (if c = sep then [] # py_split sep cs
      else (case py_split sep cs of [] \<Rightarrow> [[c]] | p # ps \<Rightarrow> (c # p) # ps))"

text \<open>\<open>d.get(k, default)\<close>.\<close>

definition json_get :: "(pystr \<times> json) list \<Rightarrow> pystr \<Rightarrow> json \<Rightarrow> json" where
  "json_get kvs k d = (case map_of kvs k of Some v \<Rightarrow> v | None \<Rightarrow> d)"

end
