(* ===== verification/Workflow.thy ===== *)
theory Workflow
  imports PyText
begin

text \<open>
  The workflow graphs of \<open>services/workflow_engine.py\<close>: nodes, edges, \<open>validate_graph\<close> and
  \<open>topo_order\<close> (Kahn's algorithm).
\<close>

section \<open>Graphs\<close>

text \<open>
  The parameters the engine reads from a node. It reads each through \<open>or\<close>, so the empty string
  (or 0) stands for a missing one. A node without a \<open>type\<close> has None there; a missing id or key
  is the empty string; a float is its text. The endpoints of an edge are None when the key is missing or null.
\<close>

record wparams =
  wp_vars :: "(pystr \<times> json) list"
  wp_query :: pystr
  wp_topk :: int
  wp_model_type :: pystr
  wp_entity :: pystr
  wp_prompt :: pystr
  wp_system :: pystr
  wp_persona :: pystr
  wp_message :: pystr
  wp_op :: pystr
  wp_keyword :: pystr
  wp_template :: pystr
  wp_temperature :: pystr
  wp_max_tokens :: int

definition no_params :: wparams where
  "no_params = \<lparr>wp_vars = [], wp_query = [], wp_topk = 0, wp_model_type = [], wp_entity = [],
     wp_prompt = [], wp_system = [], wp_persona = [], wp_message = [], wp_op = [], wp_keyword = [],
     wp_template = [], wp_temperature = [], wp_max_tokens = 0\<rparr>"

record wnode =
  wn_id :: pystr
  wn_type :: "pystr option"
  wn_key :: pystr
  wn_params :: wparams

record wedge =
  we_source :: "pystr option"
  we_target :: "pystr option"
  we_branch :: pystr

record wgraph =
  wg_nodes :: "wnode list"
  wg_edges :: "wedge list"

definition NODE_TYPES :: "pystr list" where
  "NODE_TYPES = [asc ''input'', asc ''retrieval'', asc ''kg'', asc ''llm'', asc ''agent'',
     asc ''condition'', asc ''output'']"

definition has_type :: "wnode \<Rightarrow> string \<Rightarrow> bool" where
  "has_type n ty \<longleftrightarrow> wn_type n = Some (asc ty)"

definition var_name :: "wnode \<Rightarrow> pystr" where
  "var_name n = (if has_type n ''input'' then asc ''input'' else py_or (wn_key n) (wn_id n))"

text \<open>\<open>{n["id"]: n for n in nodes}\<close>: the last node with an id wins.\<close>

definition by_id :: "wnode list \<Rightarrow> pystr \<Rightarrow> wnode option" where
  "by_id nodes i = map_of (rev (map (\<lambda>n. (wn_id n, n)) nodes)) i"

text \<open>An endpoint inside an f-string.\<close>

definition show_end :: "pystr option \<Rightarrow> pystr" where
  "show_end x = (case x of None \<Rightarrow> asc ''None'' | Some s \<Rightarrow> s)"

section \<open>Topological order\<close>

definition adj :: "(pystr \<times> pystr) list \<Rightarrow> pystr \<Rightarrow> pystr list" where
  "adj es s = map snd (filter (\<lambda>e. fst e = s) es)"

text \<open>The edges with both ends in the graph; the others take no part in the sorting.\<close>

definition known_edges :: "pystr list \<Rightarrow> wedge list \<Rightarrow> (pystr \<times> pystr) list" where
  "known_edges ids edges = concat (map (\<lambda>e. case (we_source e, we_target e) of
     (Some s, Some t) \<Rightarrow> if s \<in> set ids \<and> t \<in> set ids then [(s, t)] else [] | _ \<Rightarrow> []) edges)"

definition decr :: "pystr \<Rightarrow> (pystr \<times> int) list \<Rightarrow> (pystr \<times> int) list" where
  "decr t indeg = map (\<lambda>(i, d). if i = t then (i, d - 1) else (i, d)) indeg"

fun relax :: "pystr list \<Rightarrow> (pystr \<times> int) list \<Rightarrow> pystr list \<Rightarrow> (pystr \<times> int) list \<times> pystr list" where
  "relax [] indeg queue = (indeg, queue)"
| "relax (t # ts) indeg queue =
     (let indeg' = decr t indeg
      in relax ts indeg' (if map_of indeg' t = Some 0 then queue @ [t] else queue))"

definition indeg_sum :: "(pystr \<times> int) list \<Rightarrow> nat" where
  "indeg_sum indeg = sum_list (map (\<lambda>(i, d). nat d) indeg)"

lemma indeg_sum_decr:
  "indeg_sum (decr t indeg) + (if map_of (decr t indeg) t = Some 0 then 1 else 0) \<le> indeg_sum indeg"
proof (induction indeg)
  case Nil
  then show ?case by (simp add: indeg_sum_def decr_def)
next
  case (Cons p indeg)
  obtain i d where p: "p = (i, d)" by (cases p)
  have mono: "indeg_sum (decr t xs) \<le> indeg_sum xs" for xs
    by (induction xs) (auto simp: indeg_sum_def decr_def)
  from Cons mono[of indeg] show ?case
    by (auto simp: p indeg_sum_def decr_def split: if_splits)
qed

lemma relax_measure:
  "relax ts indeg queue = (indeg', queue') \<Longrightarrow>
   indeg_sum indeg' + length queue' \<le> indeg_sum indeg + length queue"
proof (induction ts arbitrary: indeg queue)
  case Nil
  then show ?case by simp
next
  case (Cons t ts)
  from Cons.IH[OF Cons.prems[unfolded relax.simps Let_def]] indeg_sum_decr[of t indeg]
  show ?case by (auto split: if_splits)
qed

function kahn ::
  "(pystr \<times> pystr) list \<Rightarrow> (pystr \<times> int) list \<Rightarrow> pystr list \<Rightarrow> pystr list \<Rightarrow> pystr list" where
  "kahn es indeg [] order = order"
| "kahn es indeg (cur # queue) order =
     (let (indeg', queue') = relax (adj es cur) indeg queue in kahn es indeg' queue' (order @ [cur]))"
  by pat_completeness auto
termination
proof (relation "measure (\<lambda>(es, indeg, queue, order). indeg_sum indeg + length queue)", goal_cases)
  case 1
  then show ?case by simp
next
  case (2 es indeg cur queue order x indeg' queue')
  from relax_measure[of "adj es cur" indeg queue indeg' queue'] 2 show ?case by simp
qed

definition in_degrees :: "pystr list \<Rightarrow> (pystr \<times> pystr) list \<Rightarrow> (pystr \<times> int) list" where
  "in_degrees ids es = map (\<lambda>i. (i, int (length (filter (\<lambda>e. snd e = i) es)))) (fromkeys ids)"

definition topo_order :: "wnode list \<Rightarrow> wedge list \<Rightarrow> pystr list" where
  "topo_order nodes edges =
     (let ids = map wn_id nodes;
          es = known_edges ids edges;
          indeg = in_degrees ids es
      in kahn es indeg (sort (map fst (filter (\<lambda>(i, d). d = 0) indeg))) [])"

section \<open>Reachability\<close>

fun visit :: "pystr list \<Rightarrow> pystr list \<Rightarrow> pystr list \<Rightarrow> pystr list \<times> pystr list" where
  "visit [] reachable queue = (reachable, queue)"
| "visit (t # ts) reachable queue =
     (if t \<in> set reachable then visit ts reachable queue else visit ts (reachable @ [t]) (queue @ [t]))"

lemma visit_measure:
  "visit ts reachable queue = (reachable', queue') \<Longrightarrow> finite A \<Longrightarrow> set ts \<subseteq> A \<Longrightarrow>
   card (A - set reachable') + length queue' = card (A - set reachable) + length queue"
proof (induction ts arbitrary: reachable queue)
  case Nil
  then show ?case by simp
next
  case (Cons t ts)
  show ?case
  proof (cases "t \<in> set reachable")
    case True
    with Cons show ?thesis by simp
  next
    case False
    with Cons.prems have "visit ts (reachable @ [t]) (queue @ [t]) = (reachable', queue')" by simp
    from Cons.IH[OF this Cons.prems(2)] Cons.prems(3)
    have "card (A - set reachable') + length queue' = card (A - set (reachable @ [t])) + Suc (length queue)"
      by simp
    moreover have "A - set (reachable @ [t]) = A - set reachable - {t}" by auto
    moreover have "t \<in> A - set reachable" using False Cons.prems(3) by simp
    moreover have "finite (A - set reachable)" using Cons.prems(2) by simp
    ultimately show ?thesis by (metis add_Suc_right add_Suc card_Suc_Diff1)
  qed
qed

function bfs :: "(pystr \<times> pystr) list \<Rightarrow> pystr list \<Rightarrow> pystr list \<Rightarrow> pystr list" where
  "bfs es [] reachable = reachable"
| "bfs es (cur # queue) reachable =
     (let (reachable', queue') = visit (adj es cur) reachable queue in bfs es queue' reachable')"
  by pat_completeness auto
termination
proof (relation "measure (\<lambda>(es, queue, reachable). card (snd ` set es - set reachable) + length queue)", goal_cases)
  case 1
  then show ?case by simp
next
  case (2 es cur queue reachable x reachable' queue')
  have "set (adj es cur) \<subseteq> snd ` set es" by (auto simp: adj_def)
  from visit_measure[of "adj es cur" reachable queue reachable' queue', OF _ _ this] 2
  show ?case by simp
qed

section \<open>Validation\<close>

definition node_errors :: "wnode \<Rightarrow> pystr list" where
  "node_errors n =
     (let p = wn_params n
      in if (case wn_type n of None \<Rightarrow> True | Some ty \<Rightarrow> ty \<notin> set NODE_TYPES)
         then [([0x8282, 0x70b9] @ asc '' '') @ wn_id n @ (asc '' '' @ [0x7c7b, 0x578b, 0x975e, 0x6cd5, 0xff1a]) @ show_end (wn_type n)]
         else
           (if has_type n ''llm'' \<and> py_strip (wp_prompt p) = []
            then [(asc ''LLM '' @ [0x8282, 0x70b9] @ asc '' '') @ wn_id n @ (asc '' '' @ [0x7f3a] @ asc '' prompt'')] else []) @
           (if has_type n ''agent'' \<and> py_strip (wp_persona p) = []
            then [(asc ''Agent '' @ [0x8282, 0x70b9] @ asc '' '') @ wn_id n @ (asc '' '' @ [0x7f3a] @ asc '' persona'')] else []) @
           (if has_type n ''condition'' \<and> py_or (wp_op p) (asc ''contains'') \<notin>
                 {asc ''contains'', asc ''not_contains'', asc ''is_empty''}
            then [([0x6761, 0x4ef6, 0x8282, 0x70b9] @ asc '' '') @ wn_id n @ (asc '' op '' @ [0x975e, 0x6cd5])] else []))"

text \<open>
  The loop over the edges. \<open>seen\<close> are the edges accepted so far, in order: the set of pairs met
  and the adjacency lists in one.
\<close>

fun check_edges ::
  "wnode list \<Rightarrow> wedge list \<Rightarrow> pystr list \<Rightarrow> (pystr \<times> pystr) list \<Rightarrow> pystr list \<times> (pystr \<times> pystr) list" where
  "check_edges nodes [] errs seen = (errs, seen)"
| "check_edges nodes (e # edges) errs seen =
     (case (we_source e, we_target e) of
        (Some s, Some t) \<Rightarrow>
          (case (by_id nodes s, by_id nodes t) of
             (Some src, Some tgt) \<Rightarrow>
               if s = t then check_edges nodes edges (errs @ [[0x81ea, 0x73af, 0x8fb9, 0xff1a] @ s @ [0x2192] @ t]) seen
               else if (s, t) \<in> set seen
               then check_edges nodes edges (errs @ [[0x91cd, 0x590d, 0x8fb9, 0xff1a] @ s @ [0x2192] @ t]) seen
               else
                 let err = (if has_type src ''condition''
                      then (if we_branch e \<notin> {asc ''true'', asc ''false''}
                            then [([0x6761, 0x4ef6, 0x8282, 0x70b9] @ asc '' '') @ s @ (asc '' '' @ [0x7684, 0x51fa, 0x8fb9, 0x5fc5, 0x987b, 0x6807, 0x6ce8] @ asc '' branch(true/false)'')] else [])
                      else if we_branch e \<noteq> [] then [([0x975e, 0x6761, 0x4ef6, 0x8282, 0x70b9] @ asc '' '') @ s @ (asc '' '' @ [0x7684, 0x51fa, 0x8fb9, 0x4e0d, 0x5e94, 0x5e26] @ asc '' branch'')] else [])
                 in check_edges nodes edges (errs @ err) (seen @ [(s, t)])
           | _ \<Rightarrow> check_edges nodes edges
               (errs @ [[0x8fb9, 0x5f15, 0x7528, 0x4e0d, 0x5b58, 0x5728, 0x7684, 0x8282, 0x70b9, 0xff1a] @ show_end (we_source e) @ [0x2192] @ show_end (we_target e)]) seen)
      | _ \<Rightarrow> check_edges nodes edges
          (errs @ [[0x8fb9, 0x5f15, 0x7528, 0x4e0d, 0x5b58, 0x5728, 0x7684, 0x8282, 0x70b9, 0xff1a] @ show_end (we_source e) @ [0x2192] @ show_end (we_target e)]) seen)"

text \<open>\<open>n["type"]\<close> raises \<open>KeyError\<close> on a node without a type, after the loop over the nodes.\<close>

definition validate_graph :: "wgraph \<Rightarrow> pystr list res" where
  "validate_graph g =
     (let nodes = wg_nodes g; edges = wg_edges g; ids = map wn_id nodes
      in if nodes = [] then Inr [[0x56fe, 0x4e2d, 0x6ca1, 0x6709, 0x8282, 0x70b9]]
         else if [] \<in> set ids then Inr [([0x5b58, 0x5728, 0x7f3a] @ asc '' id '' @ [0x7684, 0x8282, 0x70b9])]
         else if \<not> distinct ids then Inr [([0x8282, 0x70b9] @ asc '' id '' @ [0x91cd, 0x590d])]
         else if list_ex (\<lambda>n. wn_type n = None) nodes then Inl (KeyError (asc ''type''))
         else
           let errs1 = (if distinct (map var_name nodes) then [] else [([0x8282, 0x70b9, 0x53d8, 0x91cf, 0x540d] @ asc ''(key)'' @ [0x91cd, 0x590d])]);
               errs2 = concat (map node_errors nodes);
               input_nodes = filter (\<lambda>n. has_type n ''input'') nodes;
               errs3 = (if length input_nodes = 1 then []
                 else [([0x5fc5, 0x987b, 0x6709, 0x4e14, 0x4ec5, 0x6709] @ asc '' 1 '' @ [0x4e2a, 0x8f93, 0x5165, 0x8282, 0x70b9, 0xff0c, 0x5f53, 0x524d] @ asc '' '') @ dec_nat (length input_nodes)]);
               errs4 = (if list_ex (\<lambda>n. has_type n ''output'') nodes then [] else [[0x7f3a, 0x5c11, 0x8f93, 0x51fa, 0x8282, 0x70b9]]);
               (errs5, accepted) = check_edges nodes edges [] [];
               errs6 = (case input_nodes of
                   [n] \<Rightarrow>
                     let reachable = bfs accepted [wn_id n] [wn_id n];
                         unreachable = filter (\<lambda>i. i \<notin> set reachable) ids
                     in if unreachable = [] then []
                        else [[0x5b58, 0x5728, 0x73af, 0x6216, 0x4e0d, 0x53ef, 0x8fbe, 0x8282, 0x70b9, 0xff1a] @ py_join (asc '', '') (take 5 unreachable)]
                 | _ \<Rightarrow> []);
               order = topo_order nodes edges;
               errs7 = (if length order = length ids then []
                 else [[0x5b58, 0x5728, 0x73af, 0x6216, 0x4e0d, 0x53ef, 0x8fbe, 0x8282, 0x70b9, 0xff08, 0x73af, 0x6210, 0x5458, 0xff09, 0xff1a] @
                   py_join (asc '', '') (take 5 (filter (\<lambda>i. i \<notin> set order) ids))])
           in Inr (errs1 @ errs2 @ errs3 @ errs4 @ errs5 @ errs6 @ errs7))"

end
