(* ===== verification/WorkflowGraph.thy ===== *)
theory WorkflowGraph
  imports Workflow
begin

text \<open>
  What the graph algorithms compute: the order of Kahn's algorithm respects the edges and is
  complete exactly on acyclic graphs, the search finds exactly the reachable nodes, and the
  validator accepts exactly the well-formed graphs.
\<close>

section \<open>Kahn's algorithm\<close>

lemma map_of_decr:
  "map_of (decr t indeg) u = (if u = t then map_option (\<lambda>d. d - 1) (map_of indeg u) else map_of indeg u)"
  by (induction indeg) (auto simp: decr_def)

lemma relax_spec:
  assumes "relax ts indeg queue = (indeg', queue')"
    and "\<And>u. u \<in> set ts \<Longrightarrow> \<exists>d. map_of indeg u = Some d \<and> int (count_list ts u) \<le> d"
  shows "(\<forall>u. map_of indeg' u = map_option (\<lambda>d. d - int (count_list ts u)) (map_of indeg u)) \<and>
    (\<exists>new. queue' = queue @ new \<and> distinct new \<and>
       set new = {u \<in> set ts. map_of indeg u = Some (int (count_list ts u))})"
  using assms
proof (induction ts arbitrary: indeg queue)
  case Nil
  then show ?case by (simp add: option.map_ident)
next
  case (Cons t ts)
  let ?i = "decr t indeg"
  obtain d where d: "map_of indeg t = Some d" "int (count_list (t # ts) t) \<le> d"
    using Cons.prems(2)[of t] by auto
  have pre: "\<exists>d. map_of ?i u = Some d \<and> int (count_list ts u) \<le> d" if "u \<in> set ts" for u
    using Cons.prems(2)[of u] that by (auto simp: map_of_decr split: if_splits)
  let ?q = "if map_of ?i t = Some 0 then queue @ [t] else queue"
  have "relax ts ?i ?q = (indeg', queue')" using Cons.prems(1) by (simp add: Let_def)
  from Cons.IH[OF this pre] obtain new where IH:
    "\<forall>u. map_of indeg' u = map_option (\<lambda>d. d - int (count_list ts u)) (map_of ?i u)"
    "queue' = ?q @ new" "distinct new"
    "set new = {u \<in> set ts. map_of ?i u = Some (int (count_list ts u))}" by blast
  have deg: "map_of indeg' u = map_option (\<lambda>d. d - int (count_list (t # ts) u)) (map_of indeg u)" for u
    using IH(1) by (cases "map_of indeg u") (auto simp: map_of_decr)
  show ?case
  proof (cases "map_of ?i t = Some 0")
    case True
    then have d1: "d = 1" using d(1) by (simp add: map_of_decr)
    then have "t \<notin> set ts" using d(2) count_notin[of t ts] count_list_0_iff[of ts t] by auto
    have ds: "distinct (t # new)" using IH(3,4) \<open>t \<notin> set ts\<close> by simp
    have "u \<in> set (t # new) \<longleftrightarrow> u \<in> set (t # ts) \<and> map_of indeg u = Some (int (count_list (t # ts) u))" for u
      using IH(4) d(1) d1 \<open>t \<notin> set ts\<close> by (cases "u = t") (simp_all add: map_of_decr)
    then have "set (t # new) = {u \<in> set (t # ts). map_of indeg u = Some (int (count_list (t # ts) u))}"
      by blast
    moreover have "queue' = queue @ (t # new)" using IH(2) True by simp
    ultimately show ?thesis using ds deg by blast
  next
    case False
    have tn: "t \<in> set new \<longleftrightarrow> t \<in> set ts \<and> d - 1 = int (count_list ts t)"
      using IH(4) d(1) by (simp add: map_of_decr)
    have "d \<noteq> 1" using False d(1) by (simp add: map_of_decr)
    then have "t \<in> set new \<longleftrightarrow> d = int (count_list (t # ts) t)"
      unfolding tn by (cases "t \<in> set ts") (simp_all add: count_notin algebra_simps)
    then have "u \<in> set new \<longleftrightarrow> u \<in> set (t # ts) \<and> map_of indeg u = Some (int (count_list (t # ts) u))" for u
      using IH(4) d(1) by (cases "u = t") (simp_all add: map_of_decr)
    then have "set new = {u \<in> set (t # ts). map_of indeg u = Some (int (count_list (t # ts) u))}"
      by blast
    moreover have "queue' = queue @ new" using IH(2) False by simp
    ultimately show ?thesis using IH(3) deg by blast
  qed
qed

text \<open>Each node of a list comes after all its predecessors.\<close>

definition in_order :: "(pystr \<times> pystr) list \<Rightarrow> pystr list \<Rightarrow> bool" where
  "in_order es order \<longleftrightarrow> (\<forall>xs t ys. order = xs @ t # ys \<longrightarrow> (\<forall>s. (s, t) \<in> set es \<longrightarrow> s \<in> set xs))"

lemma in_order_snoc:
  assumes "in_order es order" and "\<And>s. (s, cur) \<in> set es \<Longrightarrow> s \<in> set order"
  shows "in_order es (order @ [cur])"
  unfolding in_order_def
proof (intro allI impI)
  fix xs t ys s
  assume eq: "order @ [cur] = xs @ t # ys" and e: "(s, t) \<in> set es"
  show "s \<in> set xs"
  proof (cases ys rule: rev_cases)
    case Nil
    with eq e assms(2) show ?thesis by simp
  next
    case (snoc zs z)
    with eq have "order = xs @ t # zs" by simp
    with assms(1) e show ?thesis unfolding in_order_def by blast
  qed
qed

definition open_edges :: "(pystr \<times> pystr) list \<Rightarrow> pystr list \<Rightarrow> pystr \<Rightarrow> (pystr \<times> pystr) list" where
  "open_edges es order t = filter (\<lambda>e. snd e = t \<and> fst e \<notin> set order) es"

definition kahn_inv ::
  "pystr list \<Rightarrow> (pystr \<times> pystr) list \<Rightarrow> (pystr \<times> int) list \<Rightarrow> pystr list \<Rightarrow> pystr list \<Rightarrow> bool" where
  "kahn_inv ids es indeg queue order \<longleftrightarrow>
     distinct (order @ queue) \<and> set (order @ queue) \<subseteq> set ids \<and>
     (\<forall>t. map_of indeg t = (if t \<in> set ids then Some (int (length (open_edges es order t))) else None)) \<and>
     (\<forall>t \<in> set ids. t \<in> set (order @ queue) \<longleftrightarrow> open_edges es order t = []) \<and>
     in_order es order"

lemma count_adj: "count_list (adj es s) t = length (filter (\<lambda>e. fst e = s \<and> snd e = t) es)"
  by (induction es) (auto simp: adj_def)

lemma open_edges_snoc:
  "cur \<notin> set order \<Longrightarrow>
   length (open_edges es (order @ [cur]) t) + count_list (adj es cur) t = length (open_edges es order t)"
  unfolding count_adj open_edges_def by (induction es) auto

lemma open_edges_Nil: "open_edges es order t = [] \<longleftrightarrow> (\<forall>s. (s, t) \<in> set es \<longrightarrow> s \<in> set order)"
  by (auto simp: open_edges_def filter_empty_conv)

lemma kahn_step:
  assumes inv: "kahn_inv ids es indeg (cur # queue) order"
    and known: "\<And>s t. (s, t) \<in> set es \<Longrightarrow> s \<in> set ids \<and> t \<in> set ids"
    and rel: "relax (adj es cur) indeg queue = (indeg', queue')"
  shows "kahn_inv ids es indeg' queue' (order @ [cur])"
proof -
  note K = inv[unfolded kahn_inv_def]
  have cur: "cur \<notin> set order" "cur \<in> set ids" using K by auto
  have tin: "u \<in> set ids" if "u \<in> set (adj es cur)" for u
    using that known by (auto simp: adj_def)
  have deg: "map_of indeg u = Some (int (length (open_edges es order u)))" if "u \<in> set ids" for u
    using K that by simp
  have pre: "\<exists>d. map_of indeg u = Some d \<and> int (count_list (adj es cur) u) \<le> d" if "u \<in> set (adj es cur)" for u
    using deg[OF tin[OF that]] open_edges_snoc[OF cur(1), of es u] by auto
  from relax_spec[OF rel pre] obtain new where new:
    "\<forall>u. map_of indeg' u = map_option (\<lambda>d. d - int (count_list (adj es cur) u)) (map_of indeg u)"
    "queue' = queue @ new" "distinct new"
    "set new = {u \<in> set (adj es cur). map_of indeg u = Some (int (count_list (adj es cur) u))}" by blast
  have newin: "u \<in> set new \<longleftrightarrow> (cur, u) \<in> set es \<and> open_edges es (order @ [cur]) u = []" for u
  proof -
    have "u \<in> set (adj es cur) \<longleftrightarrow> (cur, u) \<in> set es" by (force simp: adj_def)
    then show ?thesis
      using deg[of u] tin[of u] open_edges_snoc[OF cur(1), of es u] by (auto simp: new(4))
  qed
  have old: "u \<notin> set (order @ cur # queue)" if "(cur, u) \<in> set es" for u
  proof
    assume "u \<in> set (order @ cur # queue)"
    moreover have "u \<in> set ids" using known[OF that] by simp
    ultimately have "open_edges es order u = []" using K by blast
    with that cur(1) show False by (simp add: open_edges_Nil)
  qed
  have "distinct ((order @ [cur]) @ queue')"
    using K new(2,3) newin old by auto
  moreover have "set ((order @ [cur]) @ queue') \<subseteq> set ids"
    using K new(2) newin known by auto
  moreover have "map_of indeg' t = (if t \<in> set ids then Some (int (length (open_edges es (order @ [cur]) t))) else None)" for t
    using new(1) K open_edges_snoc[OF cur(1), of es t] by auto
  moreover have "t \<in> set ((order @ [cur]) @ queue') \<longleftrightarrow> open_edges es (order @ [cur]) t = []"
    if "t \<in> set ids" for t
  proof
    assume "t \<in> set ((order @ [cur]) @ queue')"
    then have "t \<in> set (order @ cur # queue) \<or> t \<in> set new" using new(2) by auto
    then show "open_edges es (order @ [cur]) t = []"
    proof
      assume "t \<in> set (order @ cur # queue)"
      then have "open_edges es order t = []" using K that by blast
      then show ?thesis by (auto simp: open_edges_Nil)
    next
      assume "t \<in> set new"
      then show ?thesis using newin by simp
    qed
  next
    assume o: "open_edges es (order @ [cur]) t = []"
    show "t \<in> set ((order @ [cur]) @ queue')"
    proof (cases "(cur, t) \<in> set es")
      case True
      with o newin have "t \<in> set new" by simp
      then show ?thesis using new(2) by simp
    next
      case False
      with o have "open_edges es order t = []" by (auto simp: open_edges_Nil)
      then have "t \<in> set (order @ cur # queue)" using K that by blast
      then show ?thesis using new(2) by auto
    qed
  qed
  moreover have "in_order es (order @ [cur])"
  proof (rule in_order_snoc)
    show "in_order es order" using K by blast
    have "cur \<in> set (order @ cur # queue)" by simp
    then have "open_edges es order cur = []" using K cur(2) by blast
    then show "s \<in> set order" if "(s, cur) \<in> set es" for s using that by (simp add: open_edges_Nil)
  qed
  ultimately show ?thesis unfolding kahn_inv_def by blast
qed

lemma kahn_result:
  assumes "kahn_inv ids es indeg queue order"
    and "\<And>s t. (s, t) \<in> set es \<Longrightarrow> s \<in> set ids \<and> t \<in> set ids"
  shows "\<exists>indeg'. kahn_inv ids es indeg' [] (kahn es indeg queue order)"
  using assms
proof (induction es indeg queue order rule: kahn.induct)
  case (1 es indeg order)
  then show ?case by auto
next
  case (2 es indeg cur queue order)
  obtain indeg' queue' where rel: "relax (adj es cur) indeg queue = (indeg', queue')"
    by (cases "relax (adj es cur) indeg queue")
  have "kahn_inv ids es indeg' queue' (order @ [cur])"
    by (rule kahn_step[OF 2(2) 2(3) rel])
  from 2(1)[OF rel[symmetric] refl this 2(3)] rel show ?case by simp
qed

lemma known_edges_in:
  "(s, t) \<in> set (known_edges ids edges) \<longleftrightarrow>
   s \<in> set ids \<and> t \<in> set ids \<and> (\<exists>e \<in> set edges. we_source e = Some s \<and> we_target e = Some t)"
  by (auto simp: known_edges_def split: option.splits if_splits) force

lemma map_of_in_degrees:
  "map_of (in_degrees ids es) t = (if t \<in> set ids then Some (int (length (open_edges es [] t))) else None)"
proof -
  have "map_of (map (\<lambda>i. (i, f i)) xs) t = (if t \<in> set xs then Some (f t) else None)"
    for f :: "pystr \<Rightarrow> int" and xs by (induction xs) auto
  then show ?thesis by (simp add: in_degrees_def open_edges_def)
qed

lemma kahn_start:
  assumes "\<And>s t. (s, t) \<in> set es \<Longrightarrow> s \<in> set ids \<and> t \<in> set ids"
  shows "kahn_inv ids es (in_degrees ids es) (sort (map fst (filter (\<lambda>(i, d). d = 0) (in_degrees ids es)))) []"
proof -
  let ?q = "map fst (filter (\<lambda>(i, d). d = 0) (in_degrees ids es))"
  have q: "?q = filter (\<lambda>t. open_edges es [] t = []) (fromkeys ids)"
    unfolding in_degrees_def by (induction "fromkeys ids") (auto simp: open_edges_def filter_map o_def)
  have "distinct ?q" "set ?q = {t \<in> set ids. open_edges es [] t = []}" unfolding q by auto
  then show ?thesis
    unfolding kahn_inv_def by (simp add: map_of_in_degrees in_order_def)
qed

section \<open>The topological order\<close>

lemma topo_inv:
  "\<exists>indeg. kahn_inv (map wn_id nodes) (known_edges (map wn_id nodes) edges) indeg [] (topo_order nodes edges)"
  unfolding topo_order_def Let_def
  by (rule kahn_result[OF kahn_start]) (auto simp: known_edges_in)

lemma topo_facts:
  fixes nodes :: "wnode list" and edges :: "wedge list"
  defines "es \<equiv> known_edges (map wn_id nodes) edges"
  shows "distinct (topo_order nodes edges)" "set (topo_order nodes edges) \<subseteq> wn_id ` set nodes"
    "in_order es (topo_order nodes edges)"
    "\<And>t. t \<in> wn_id ` set nodes \<Longrightarrow>
       t \<in> set (topo_order nodes edges) \<longleftrightarrow> (\<forall>s. (s, t) \<in> set es \<longrightarrow> s \<in> set (topo_order nodes edges))"
  using topo_inv[of nodes edges] by (auto simp: kahn_inv_def es_def open_edges_Nil)

lemma in_order_trancl:
  assumes "in_order es order" and "(s, t) \<in> (set es)\<^sup>+" and "order = xs @ t # ys"
  shows "s \<in> set xs"
  using assms(2,3)
proof (induction arbitrary: xs ys rule: trancl_induct)
  case (base t)
  then show ?case using assms(1) unfolding in_order_def by blast
next
  case (step u t)
  have "u \<in> set xs" using assms(1) step.hyps(2) step.prems unfolding in_order_def by blast
  then obtain x1 x2 where xs: "xs = x1 @ u # x2" by (meson split_list)
  have "order = x1 @ u # (x2 @ t # ys)" using step.prems xs by simp
  from step.IH[OF this] xs show ?case by simp
qed

lemma topo_complete_iff:
  fixes nodes :: "wnode list" and edges :: "wedge list"
  defines "es \<equiv> known_edges (map wn_id nodes) edges"
  shows "set (topo_order nodes edges) = wn_id ` set nodes \<longleftrightarrow> acyclic (set es)"
proof
  assume all: "set (topo_order nodes edges) = wn_id ` set nodes"
  show "acyclic (set es)"
    unfolding acyclic_def
  proof (intro allI notI)
    fix t assume t: "(t, t) \<in> (set es)\<^sup>+"
    then obtain u where "(t, u) \<in> set es" by (meson converse_tranclE)
    then have "t \<in> set (topo_order nodes edges)" by (auto simp: es_def known_edges_in all)
    then obtain xs ys where xs: "topo_order nodes edges = xs @ t # ys" by (meson split_list)
    from in_order_trancl[OF topo_facts(3)[of nodes edges, folded es_def] t xs]
      topo_facts(1)[of nodes edges] xs show False by simp
  qed
next
  assume "acyclic (set es)"
  then have wf: "wf (set es)" by (intro finite_acyclic_wf) simp_all
  have "t \<in> wn_id ` set nodes \<longrightarrow> t \<in> set (topo_order nodes edges)" for t
    using wf
  proof (induction t rule: wf_induct_rule)
    case (less t)
    have "s \<in> wn_id ` set nodes" if "(s, t) \<in> set es" for s using that by (auto simp: es_def known_edges_in)
    with less topo_facts(4)[of t nodes edges, folded es_def] show ?case by blast
  qed
  with topo_facts(2)[of nodes edges] show "set (topo_order nodes edges) = wn_id ` set nodes" by blast
qed

lemma topo_length:
  "length (topo_order nodes edges) = length nodes \<longleftrightarrow>
   distinct (map wn_id nodes) \<and> set (topo_order nodes edges) = wn_id ` set nodes"
proof -
  let ?o = "topo_order nodes edges"
  note o = topo_facts(1,2)[of nodes edges]
  have len: "length ?o = card (set ?o)" using o(1) by (simp add: distinct_card)
  have le: "card (set ?o) \<le> card (wn_id ` set nodes)" by (rule card_mono) (use o in auto)
  have le2: "card (wn_id ` set nodes) \<le> length nodes"
    using card_length[of "map wn_id nodes"] by simp
  show ?thesis
  proof
    assume eq: "length ?o = length nodes"
    with len le le2 have "card (wn_id ` set nodes) = length (map wn_id nodes)" "card (set ?o) = card (wn_id ` set nodes)" by simp_all
    then show "distinct (map wn_id nodes) \<and> set ?o = wn_id ` set nodes"
      using card_distinct[of "map wn_id nodes"] card_subset_eq[OF _ o(2)] by simp
  next
    assume d: "distinct (map wn_id nodes) \<and> set ?o = wn_id ` set nodes"
    then show "length ?o = length nodes"
      using len distinct_card[of "map wn_id nodes"] by simp
  qed
qed

section \<open>The search\<close>

lemma visit_spec:
  "visit ts reachable queue = (reachable', queue') \<Longrightarrow>
   set reachable' = set reachable \<union> set ts \<and> set queue' = set queue \<union> (set ts - set reachable)"
  by (induction ts arbitrary: reachable queue) (auto split: if_splits)

lemma set_adj: "set (adj es s) = {t. (s, t) \<in> set es}"
  by (force simp: adj_def)

lemma bfs_spec:
  assumes "set queue \<subseteq> set reachable"
    and "\<And>s t. s \<in> set reachable - set queue \<Longrightarrow> (s, t) \<in> set es \<Longrightarrow> t \<in> set reachable"
  shows "set (bfs es queue reachable) = (set es)\<^sup>* `` set reachable"
  using assms
proof (induction es queue reachable rule: bfs.induct)
  case (1 es reachable)
  have "t \<in> set reachable" if "(s, t) \<in> (set es)\<^sup>*" "s \<in> set reachable" for s t
    using that 1(2) by (induction rule: rtrancl_induct) auto
  then show ?case by auto
next
  case (2 es cur queue reachable)
  obtain r q where v: "visit (adj es cur) reachable queue = (r, q)" by (cases "visit (adj es cur) reachable queue")
  note spec = visit_spec[OF v, unfolded set_adj]
  have "set (bfs es q r) = (set es)\<^sup>* `` set r"
  proof (rule 2(1)[OF v[symmetric] refl])
    show "set q \<subseteq> set r" using spec 2(2) by auto
    show "t \<in> set r" if "s \<in> set r - set q" "(s, t) \<in> set es" for s t
      using that spec 2(2) 2(3)[of s t] by (cases "s = cur") auto
  qed
  moreover have "(set es)\<^sup>* `` set r = (set es)\<^sup>* `` set reachable"
  proof -
    have "(set es)\<^sup>* `` {t. (cur, t) \<in> set es} \<subseteq> (set es)\<^sup>* `` set reachable"
      using 2(2) by (auto intro: converse_rtrancl_into_rtrancl)
    then show ?thesis using spec by auto
  qed
  ultimately show ?case using v by simp
qed

section \<open>The validator\<close>

definition edge_pair :: "wedge \<Rightarrow> pystr \<times> pystr" where
  "edge_pair e = (show_end (we_source e), show_end (we_target e))"

definition edge_ok :: "wnode list \<Rightarrow> wedge \<Rightarrow> bool" where
  "edge_ok nodes e \<longleftrightarrow>
     (case (we_source e, we_target e) of
        (Some s, Some t) \<Rightarrow> s \<noteq> t \<and> by_id nodes t \<noteq> None \<and>
          (case by_id nodes s of None \<Rightarrow> False
           | Some src \<Rightarrow> if has_type src ''condition'' then we_branch e \<in> {asc ''true'', asc ''false''}
                        else we_branch e = [])
      | _ \<Rightarrow> False)"

definition node_ok :: "wnode \<Rightarrow> bool" where
  "node_ok n \<longleftrightarrow> (\<exists>ty \<in> set NODE_TYPES. wn_type n = Some ty) \<and>
     (has_type n ''llm'' \<longrightarrow> py_strip (wp_prompt (wn_params n)) \<noteq> []) \<and>
     (has_type n ''agent'' \<longrightarrow> py_strip (wp_persona (wn_params n)) \<noteq> []) \<and>
     (has_type n ''condition'' \<longrightarrow> wp_op (wn_params n) \<in>
        {[], asc ''contains'', asc ''not_contains'', asc ''is_empty''})"

definition edge_rel :: "wgraph \<Rightarrow> (pystr \<times> pystr) set" where
  "edge_rel g = set (map edge_pair (wg_edges g))"

text \<open>The graphs the editor may save, stated without any algorithm.\<close>

definition valid_graph :: "wgraph \<Rightarrow> bool" where
  "valid_graph g \<longleftrightarrow>
     wg_nodes g \<noteq> [] \<and> [] \<notin> wn_id ` set (wg_nodes g) \<and> distinct (map wn_id (wg_nodes g)) \<and>
     distinct (map var_name (wg_nodes g)) \<and> (\<forall>n \<in> set (wg_nodes g). node_ok n) \<and>
     (\<exists>n \<in> set (wg_nodes g). has_type n ''output'') \<and>
     (\<forall>e \<in> set (wg_edges g). edge_ok (wg_nodes g) e) \<and> distinct (map edge_pair (wg_edges g)) \<and>
     (\<exists>n. filter (\<lambda>n. has_type n ''input'') (wg_nodes g) = [n] \<and>
        (\<forall>m \<in> set (wg_nodes g). (wn_id n, wn_id m) \<in> (edge_rel g)\<^sup>*)) \<and>
     acyclic (edge_rel g)"

lemma node_errors_Nil: "node_errors n = [] \<longleftrightarrow> node_ok n"
  by (auto simp: node_errors_def node_ok_def Let_def py_or_def split: option.splits)

lemma by_id_None: "by_id nodes i = None \<longleftrightarrow> i \<notin> wn_id ` set nodes"
  by (auto simp: by_id_def map_of_eq_None_iff image_iff)

lemma check_edges_Nil:
  "check_edges nodes edges errs seen = (errs', accepted) \<Longrightarrow>
   (errs' = [] \<longleftrightarrow> errs = [] \<and> (\<forall>e \<in> set edges. edge_ok nodes e) \<and> distinct (map edge_pair edges) \<and>
      set (map edge_pair edges) \<inter> set seen = {}) \<and>
   (errs' = [] \<longrightarrow> accepted = seen @ map edge_pair edges)"
proof (induction edges arbitrary: errs seen)
  case Nil
  then show ?case by auto
next
  case (Cons e edges)
  show ?case
  proof (cases "edge_ok nodes e \<and> edge_pair e \<notin> set seen")
    case True
    then obtain s t where st: "we_source e = Some s" "we_target e = Some t"
      by (auto simp: edge_ok_def split: option.splits)
    then have p: "edge_pair e = (s, t)" by (simp add: edge_pair_def show_end_def)
    have "check_edges nodes edges errs (seen @ [(s, t)]) = (errs', accepted)"
      using Cons.prems True st p by (auto simp: edge_ok_def split: option.splits if_splits)
    from Cons.IH[OF this] True p show ?thesis by auto
  next
    case False
    have "\<exists>errs1 seen1. errs1 \<noteq> [] \<and> check_edges nodes edges errs1 seen1 = (errs', accepted)"
      using Cons.prems False
      by (auto simp: edge_ok_def edge_pair_def show_end_def Let_def split: option.splits if_splits)
    then obtain errs1 seen1 where "errs1 \<noteq> []" "check_edges nodes edges errs1 seen1 = (errs', accepted)" by blast
    from Cons.IH[OF this(2)] this(1) False show ?thesis by auto
  qed
qed

lemma edge_ok_ends:
  assumes "edge_ok nodes e"
  obtains s t where "we_source e = Some s" "we_target e = Some t" "s \<in> wn_id ` set nodes"
    "t \<in> wn_id ` set nodes" "s \<noteq> t" "edge_pair e = (s, t)"
proof -
  from assms obtain s t where st: "we_source e = Some s" "we_target e = Some t"
    by (auto simp: edge_ok_def split: option.splits)
  with assms have "by_id nodes s \<noteq> None" "by_id nodes t \<noteq> None" "s \<noteq> t"
    by (auto simp: edge_ok_def split: option.splits)
  with st that show thesis by (simp add: by_id_None edge_pair_def show_end_def)
qed

lemma valid_edges:
  assumes "\<And>e. e \<in> set (wg_edges g) \<Longrightarrow> edge_ok (wg_nodes g) e"
  shows "set (known_edges (map wn_id (wg_nodes g)) (wg_edges g)) = edge_rel g"
proof -
  have "(s, t) \<in> set (known_edges (map wn_id (wg_nodes g)) (wg_edges g)) \<longleftrightarrow> (s, t) \<in> edge_rel g" for s t
  proof
    assume "(s, t) \<in> set (known_edges (map wn_id (wg_nodes g)) (wg_edges g))"
    then show "(s, t) \<in> edge_rel g"
      by (force simp: known_edges_in edge_rel_def edge_pair_def show_end_def)
  next
    assume "(s, t) \<in> edge_rel g"
    then obtain e where e: "e \<in> set (wg_edges g)" "edge_pair e = (s, t)" by (auto simp: edge_rel_def)
    from edge_ok_ends[OF assms[OF e(1)]] obtain s' t' where "we_source e = Some s'"
      "we_target e = Some t'" "s' \<in> wn_id ` set (wg_nodes g)" "t' \<in> wn_id ` set (wg_nodes g)"
      "edge_pair e = (s', t')" .
    with e show "(s, t) \<in> set (known_edges (map wn_id (wg_nodes g)) (wg_edges g))"
      by (auto simp: known_edges_in)
  qed
  then show ?thesis by auto
qed

lemma concat_Nil: "concat (map f xs) = [] \<longleftrightarrow> (\<forall>x \<in> set xs. f x = [])"
  by (induction xs) auto

lemma validate_reach:
  "(\<forall>i \<in> set ids. i \<in> set (bfs es [s] [s])) \<longleftrightarrow> (\<forall>i \<in> set ids. (s, i) \<in> (set es)\<^sup>*)"
  using bfs_spec[of "[s]" "[s]" es] by auto

lemma validate_iff:
  "validate_graph g = Inr [] \<longleftrightarrow> valid_graph g"
proof -
  let ?nodes = "wg_nodes g" and ?edges = "wg_edges g"
  obtain errs5 acc where ch: "check_edges ?nodes ?edges [] [] = (errs5, acc)"
    by (cases "check_edges ?nodes ?edges [] []")
  note ce = check_edges_Nil[OF ch]
  let ?ins = "filter (\<lambda>n. has_type n ''input'') ?nodes"
  show ?thesis
  proof (cases "?nodes = [] \<or> [] \<in> set (map wn_id ?nodes) \<or> \<not> distinct (map wn_id ?nodes) \<or>
      list_ex (\<lambda>n. wn_type n = None) ?nodes")
    case True
    moreover have "\<not> list_ex (\<lambda>n. wn_type n = None) ?nodes" if "valid_graph g"
    proof -
      have "\<forall>n \<in> set ?nodes. node_ok n" using that by (simp add: valid_graph_def)
      then show ?thesis by (auto simp: list_ex_iff node_ok_def)
    qed
    moreover have "?nodes \<noteq> [] \<and> [] \<notin> set (map wn_id ?nodes) \<and> distinct (map wn_id ?nodes)"
      if "valid_graph g" using that by (simp add: valid_graph_def)
    ultimately have "\<not> valid_graph g" by blast
    moreover consider "?nodes = []" | "?nodes \<noteq> []" "[] \<in> set (map wn_id ?nodes)"
      | "?nodes \<noteq> []" "[] \<notin> set (map wn_id ?nodes)" "\<not> distinct (map wn_id ?nodes)"
      | "?nodes \<noteq> []" "[] \<notin> set (map wn_id ?nodes)" "distinct (map wn_id ?nodes)"
        "list_ex (\<lambda>n. wn_type n = None) ?nodes" using True by blast
    then have "validate_graph g \<noteq> Inr []"
      by cases (simp_all only: validate_graph_def Let_def if_True if_False refl not_False_eq_True
          sum.inject list.distinct not_Cons_self2 simp_thms sum.distinct)
    ultimately show ?thesis by blast
  next
    case False
    note pre = False
    show ?thesis
    proof (cases "(\<forall>e \<in> set ?edges. edge_ok ?nodes e) \<and> distinct (map edge_pair ?edges) \<and> (\<exists>n. ?ins = [n])")
      case False
      then have "errs5 \<noteq> [] \<or> length ?ins \<noteq> 1" using ce by (auto simp: length_Suc_conv)
      then have "validate_graph g \<noteq> Inr []"
        using pre ch by (auto simp: validate_graph_def Let_def split: prod.splits)
      with False show ?thesis by (auto simp: valid_graph_def)
    next
      case True
      then obtain n where n: "?ins = [n]" by blast
      have acc: "errs5 = []" "acc = map edge_pair ?edges" using True ce by auto
      have rel: "set acc = edge_rel g" by (simp add: acc edge_rel_def)
      have topo: "length (topo_order ?nodes ?edges) = length ?nodes \<longleftrightarrow> acyclic (edge_rel g)"
        using topo_length[of ?nodes ?edges] topo_complete_iff[of ?nodes ?edges] valid_edges[of g] True pre by auto
      have reach: "filter (\<lambda>i. i \<notin> set (bfs acc [wn_id n] [wn_id n])) (map wn_id ?nodes) = [] \<longleftrightarrow>
          (\<forall>m \<in> set ?nodes. (wn_id n, wn_id m) \<in> (edge_rel g)\<^sup>*)"
        using validate_reach[of "map wn_id ?nodes" acc "wn_id n"] by (simp add: rel filter_empty_conv)
      have "validate_graph g = Inr [] \<longleftrightarrow>
          distinct (map var_name ?nodes) \<and> (\<forall>n \<in> set ?nodes. node_errors n = []) \<and>
          list_ex (\<lambda>n. has_type n ''output'') ?nodes \<and>
          filter (\<lambda>i. i \<notin> set (bfs acc [wn_id n] [wn_id n])) (map wn_id ?nodes) = [] \<and>
          length (topo_order ?nodes ?edges) = length ?nodes"
        using pre n ch acc(1) unfolding validate_graph_def Let_def
        by (simp add: concat_Nil del: bfs.simps)
      then show ?thesis
        using pre True n unfolding topo reach node_errors_Nil valid_graph_def list_ex_iff by auto
    qed
  qed
qed

lemma validate_raises:
  "validate_graph g = Inl e \<longleftrightarrow> e = KeyError (asc ''type'') \<and> wg_nodes g \<noteq> [] \<and>
     [] \<notin> wn_id ` set (wg_nodes g) \<and> distinct (map wn_id (wg_nodes g)) \<and>
     (\<exists>n \<in> set (wg_nodes g). wn_type n = None)"
  by (auto simp: validate_graph_def Let_def list_ex_iff split: prod.splits if_splits)

end
