(* ===== verification/WorkflowEngine.thy ===== *)
theory WorkflowEngine
  imports WorkflowGraph Tables
begin

text \<open>
  The execution of a workflow graph (\<open>services/workflow_engine.py\<close>): interpolation, the node
  executors and the loop of \<open>execute_graph\<close>. The services a node calls (retrieval, knowledge
  graph, model provider, agent runtime) are the functions of a record; an exception is the text
  \<open>str(e)\<close> gives it.
\<close>

section \<open>Records and interpolation\<close>

type_synonym wrecord = "(pystr \<times> json) list"

type_synonym wctx = "(pystr \<times> wrecord) list"

definition NODE_TIMEOUT_S :: int where "NODE_TIMEOUT_S = 120"

definition RUN_BUDGET_S :: int where "RUN_BUDGET_S = 240"

definition STORE_MAX :: nat where "STORE_MAX = 4000"

definition name_char :: "nat \<Rightarrow> bool" where
  "name_char c \<longleftrightarrow> 65 \<le> c \<and> c \<le> 90 \<or> 97 \<le> c \<and> c \<le> 122 \<or> 48 \<le> c \<and> c \<le> 57 \<or> c = 95 \<or> c = 45"

text \<open>
  The pattern \<open>_TMPL\<close> at the beginning of a text: key, field and the text after the match. No
  two of its repetitions share a character, so matching greedily is matching.
\<close>

definition match_var :: "pystr \<Rightarrow> (pystr \<times> pystr \<times> pystr) option" where
  "match_var s =
     (if take 2 s \<noteq> [123, 123] then None
      else
        let r1 = dropWhile py_isspace (drop 2 s);
            key = takeWhile name_char r1;
            r2 = dropWhile name_char r1;
            r3 = drop 1 r2;
            field = takeWhile name_char r3;
            r4 = dropWhile py_isspace (dropWhile name_char r3)
        in if key \<noteq> [] \<and> take 1 r2 = [46] \<and> field \<noteq> [] \<and> take 2 r4 = [125, 125]
           then Some (key, field, drop 2 r4) else None)"

definition sub_var :: "wctx \<Rightarrow> pystr \<Rightarrow> pystr \<Rightarrow> pystr \<Rightarrow> pystr \<times> pystr list" where
  "sub_var ctx key field matched =
     (case map_of ctx key of
        None \<Rightarrow> ([], [[0x53d8, 0x91cf, 0x672a, 0x627e, 0x5230, 0xff1a] @ matched])
      | Some rec \<Rightarrow>
          (case map_of rec field of
             None \<Rightarrow> ([], [[0x53d8, 0x91cf, 0x672a, 0x627e, 0x5230, 0xff1a] @ matched])
           | Some v \<Rightarrow> (if v = JNull then [] else as_text v, [])))"

lemma match_var_shorter: "match_var s = Some (k, f, rest) \<Longrightarrow> length rest < length s"
proof -
  assume m: "match_var s = Some (k, f, rest)"
  let ?r1 = "dropWhile py_isspace (drop 2 s)"
  let ?r2 = "dropWhile name_char ?r1"
  let ?r4 = "dropWhile py_isspace (dropWhile name_char (drop 1 ?r2))"
  from m have "rest = drop 2 ?r4" "take 2 s = [123, 123]"
    by (auto simp: match_var_def Let_def split: if_splits)
  moreover have "length ?r4 \<le> length s"
    using length_dropWhile_le[of py_isspace "dropWhile name_char (drop 1 ?r2)"]
      length_dropWhile_le[of name_char "drop 1 ?r2"] length_dropWhile_le[of name_char ?r1]
      length_dropWhile_le[of py_isspace "drop 2 s"] by simp
  moreover have "0 < length s" using \<open>take 2 s = [123, 123]\<close> by auto
  moreover have "length rest = length ?r4 - 2" using \<open>rest = drop 2 ?r4\<close> by simp
  ultimately show ?thesis by linarith
qed

function interp :: "wctx \<Rightarrow> pystr \<Rightarrow> pystr \<times> pystr list" where
  "interp ctx [] = ([], [])"
| "interp ctx (c # cs) =
     (case match_var (c # cs) of
        Some (key, field, rest) \<Rightarrow>
          (let (t, w) = sub_var ctx key field (take (length (c # cs) - length rest) (c # cs));
               (t', w') = interp ctx rest
           in (t @ t', w @ w'))
      | None \<Rightarrow> (let (t', w') = interp ctx cs in (c # t', w')))"
  by pat_completeness auto
termination
  by (relation "measure (\<lambda>(ctx, s). length s)") (auto dest: match_var_shorter)

declare interp.simps(2) [simp del]

definition interpolate :: "pystr \<Rightarrow> wctx \<Rightarrow> pystr \<times> pystr list" where
  "interpolate template ctx = interp ctx template"

definition stringify :: "wrecord option \<Rightarrow> pystr" where
  "stringify record =
     (case record of None \<Rightarrow> []
      | Some rec \<Rightarrow>
          (case filter truthy (concat (map (\<lambda>f. case map_of rec f of None \<Rightarrow> [] | Some v \<Rightarrow> [v])
                  [asc ''text'', asc ''answer'', asc ''context'', asc ''query'', asc ''value''])) of
             [] \<Rightarrow> [] | v # _ \<Rightarrow> as_text v))"

definition cap_value :: "json \<Rightarrow> json" where
  "cap_value v =
     (case v of
        JStr s \<Rightarrow> if STORE_MAX < length s
          then JStr (take STORE_MAX s @ ([0x2026] @ asc ''('' @ [0x622a, 0x65ad] @ asc '','' @ [0x5171]) @ dec_nat (length s) @ [41]) else v
      | JList js \<Rightarrow> if STORE_MAX < length (json_text v) then JStr (take STORE_MAX (json_text v)) else v
      | _ \<Rightarrow> v)"

definition capped :: "wrecord \<Rightarrow> wrecord" where
  "capped record = map (\<lambda>(k, v). (k, cap_value v)) record"

section \<open>The executors\<close>

record wuser =
  wu_username :: pystr
  wu_tenant :: pystr
  wu_role :: pystr
  wu_dept :: pystr

record agent_result =
  ar_answer :: json
  ar_iterations :: int
  ar_degraded :: bool
  ar_tools_used :: json

record services =
  sv_search :: "wuser \<Rightarrow> pystr \<Rightarrow> int \<Rightarrow> pystr \<Rightarrow> pystr + wrecord list"
  sv_graph_context :: "pystr \<Rightarrow> int \<Rightarrow> pystr \<Rightarrow> pystr + pystr list"
  sv_chat :: "pystr \<Rightarrow> pystr \<Rightarrow> pystr \<Rightarrow> pystr \<Rightarrow> int \<Rightarrow> pystr + pystr"
  sv_persona :: "pystr \<Rightarrow> bool"
  sv_agent :: "pystr \<Rightarrow> pystr \<Rightarrow> pystr \<Rightarrow> wuser \<Rightarrow> pystr + agent_result"

definition warn_json :: "pystr list \<Rightarrow> json" where
  "warn_json ws = (if ws = [] then JNull else JList (map JStr ws))"

text \<open>The input of a run: its query and the variables given with it.\<close>

record run_input =
  ri_query :: pystr
  ri_vars :: "(pystr \<times> json) list"

definition exec_input :: "wparams \<Rightarrow> run_input \<Rightarrow> wrecord" where
  "exec_input params run_input =
     fold (\<lambda>(k, v) rec. AList.update k v rec) (wp_vars params)
       [(asc ''query'', JStr (ri_query run_input))]"

text \<open>The text of a field of a retrieved chunk; its fields are texts or missing.\<close>

definition chunk_text :: "pystr \<Rightarrow> wrecord \<Rightarrow> pystr" where
  "chunk_text k c = (case map_of c k of Some (JStr s) \<Rightarrow> s | _ \<Rightarrow> [])"

definition exec_retrieval :: "services \<Rightarrow> wparams \<Rightarrow> wctx \<Rightarrow> wuser \<Rightarrow> pystr + wrecord" where
  "exec_retrieval sv params ctx user =
     (let (query, warns) = interpolate (py_or (wp_query params) (asc ''{{input.query}}'')) ctx;
          topk = (if wp_topk params = 0 then 5 else wp_topk params)
      in case sv_search sv user query topk (wp_model_type params) of
           Inl e \<Rightarrow> Inl e
         | Inr chunks \<Rightarrow> Inr
             [(asc ''query'', JStr query), (asc ''count'', JInt (int (length chunks))),
              (asc ''chunks'', JList (map JObj chunks)),
              (asc ''context'', JStr (py_join [10] (map (\<lambda>(i, c).
                 [91] @ dec_nat i @ asc ''] '' @ chunk_text (asc ''docName'') c @ asc '': '' @
                 take 300 (chunk_text (asc ''chunk'') c)) (zip [1..<Suc (length chunks)] chunks)))),
              (asc ''warnings'', warn_json warns)])"

definition exec_kg :: "services \<Rightarrow> wparams \<Rightarrow> wctx \<Rightarrow> wuser \<Rightarrow> pystr + wrecord" where
  "exec_kg sv params ctx user =
     (let (entity, warns) = interpolate (wp_entity params) ctx;
          k = (if wp_topk params = 0 then 8 else wp_topk params)
      in case sv_graph_context sv entity k (wu_tenant user) of
           Inl e \<Rightarrow> Inl e
         | Inr rows \<Rightarrow> Inr
             [(asc ''entity'', JStr entity), (asc ''rows'', JList (map JStr rows)),
              (asc ''context'', JStr (py_join [10] rows)), (asc ''warnings'', warn_json warns)])"

definition exec_llm :: "services \<Rightarrow> wparams \<Rightarrow> wctx \<Rightarrow> pystr + wrecord" where
  "exec_llm sv params ctx =
     (let (prompt, warns) = interpolate (wp_prompt params) ctx;
          (system, w2) = interpolate (wp_system params) ctx
      in case sv_chat sv (wp_model_type params)
               (py_or system [0x4f60, 0x662f, 0x7535, 0x7f51, 0x8fd0, 0x7ef4, 0x52a9, 0x624b, 0xff0c, 0x57fa, 0x4e8e, 0x5df2, 0x77e5, 0x4fe1, 0x606f, 0x56de, 0x7b54, 0x3002]) prompt
               (py_or (wp_temperature params) (asc ''0.2''))
               (if wp_max_tokens params = 0 then 1500 else wp_max_tokens params) of
           Inl e \<Rightarrow> Inl e
         | Inr text \<Rightarrow> Inr [(asc ''text'', JStr text), (asc ''warnings'', warn_json (warns @ w2))])"

definition exec_agent :: "services \<Rightarrow> wparams \<Rightarrow> wctx \<Rightarrow> wuser \<Rightarrow> pystr + wrecord" where
  "exec_agent sv params ctx user =
     (if \<not> sv_persona sv (wp_persona params)
      then Inl ((asc ''persona '' @ [0x4e0d, 0x5b58, 0x5728, 0xff1a]) @ wp_persona params)
      else
        let (message, warns) = interpolate (py_or (wp_message params) (asc ''{{input.query}}'')) ctx
        in case sv_agent sv (wp_persona params) message (wp_model_type params)
                 (user\<lparr>wu_tenant := py_or (wu_tenant user) (asc ''default'')\<rparr>) of
             Inl e \<Rightarrow> Inl e
           | Inr r \<Rightarrow> Inr
               [(asc ''answer'', JStr (as_text (ar_answer r))),
                (asc ''answer_raw'', case ar_answer r of JStr s \<Rightarrow> JNull | v \<Rightarrow> v),
                (asc ''iterations'', JInt (ar_iterations r)), (asc ''degraded'', JBool (ar_degraded r)),
                (asc ''tools_used'', ar_tools_used r), (asc ''warnings'', warn_json warns)])"

definition exec_condition :: "wparams \<Rightarrow> wctx \<Rightarrow> pystr \<Rightarrow> wrecord" where
  "exec_condition params ctx upstream =
     (let op = py_or (wp_op params) (asc ''contains'');
          (keyword, warns) = interpolate (wp_keyword params) ctx;
          hit = keyword \<noteq> [] \<and> py_in keyword upstream;
          branch = (if op = asc ''is_empty'' then py_strip upstream = []
            else if op = asc ''not_contains'' then \<not> hit else hit)
      in [(asc ''op'', JStr op), (asc ''keyword'', JStr keyword), (asc ''value'', JStr upstream),
          (asc ''branch'', JStr (if branch then asc ''true'' else asc ''false'')),
          (asc ''warnings'', warn_json warns)])"

definition exec_output :: "wparams \<Rightarrow> wctx \<Rightarrow> pystr \<Rightarrow> wrecord" where
  "exec_output params ctx upstream =
     (let (text, warns) = (if py_strip (wp_template params) \<noteq> []
            then interpolate (wp_template params) ctx else (upstream, []))
      in [(asc ''text'', JStr text), (asc ''warnings'', warn_json warns)])"

text \<open>The executor of a type; an unknown type is a failed look-up of the table of executors.\<close>

definition exec_node ::
  "services \<Rightarrow> pystr \<Rightarrow> wparams \<Rightarrow> run_input \<Rightarrow> wctx \<Rightarrow> wuser \<Rightarrow> pystr \<Rightarrow> pystr + wrecord" where
  "exec_node sv ty params run_input ctx user upstream =
     (if ty = asc ''condition'' then Inr (exec_condition params ctx upstream)
      else if ty = asc ''output'' then Inr (exec_output params ctx upstream)
      else if ty = asc ''input'' then Inr (exec_input params run_input)
      else if ty = asc ''retrieval'' then exec_retrieval sv params ctx user
      else if ty = asc ''kg'' then exec_kg sv params ctx user
      else if ty = asc ''llm'' then exec_llm sv params ctx
      else if ty = asc ''agent'' then exec_agent sv params ctx user
      else Inl ([39] @ ty @ [39]))"

section \<open>The run\<close>

datatype node_status = NPending | NRunning | NDone | NError | NSkipped

record node_state =
  ns_id :: pystr
  ns_type :: pystr
  ns_key :: pystr
  ns_status :: node_status
  ns_output :: "wrecord option"
  ns_error :: pystr
  ns_ms :: int

record run_state =
  rs_active :: "pystr list"
  rs_ctx :: wctx
  rs_states :: "node_state list"
  rs_warnings :: "pystr list"
  rs_output_reached :: bool
  rs_error :: pystr

record run_result =
  rr_status :: pystr
  rr_output :: pystr
  rr_states :: "node_state list"
  rr_error :: pystr
  rr_warnings :: "pystr list"

text \<open>
  What the run meets: the readings of \<open>perf_counter\<close> (at the start, and per node when the
  budget is checked, when the node starts and when it ends), and per node the text of an
  exception that is not the executor's own, above all a time-out of \<open>wait_for\<close>.
\<close>

record run_env =
  re_t0 :: time
  re_check :: "pystr \<Rightarrow> time"
  re_begin :: "pystr \<Rightarrow> time"
  re_end :: "pystr \<Rightarrow> time"
  re_fault :: "pystr \<Rightarrow> pystr option"

definition node_type :: "wnode \<Rightarrow> pystr" where
  "node_type n = (case wn_type n of None \<Rightarrow> [] | Some ty \<Rightarrow> ty)"

definition initial_state :: "wnode \<Rightarrow> node_state" where
  "initial_state n = \<lparr>ns_id = wn_id n, ns_type = node_type n, ns_key = var_name n,
     ns_status = NPending, ns_output = None, ns_error = [], ns_ms = 0\<rparr>"

definition set_state :: "pystr \<Rightarrow> (node_state \<Rightarrow> node_state) \<Rightarrow> run_state \<Rightarrow> run_state" where
  "set_state nid f rs = rs\<lparr>rs_states :=
     (case get_row ns_id nid (rs_states rs) of None \<Rightarrow> rs_states rs
      | Some st \<Rightarrow> put_row ns_id (f st) (rs_states rs))\<rparr>"

definition over_budget :: "run_env \<Rightarrow> pystr \<Rightarrow> bool" where
  "over_budget env nid \<longleftrightarrow> seconds RUN_BUDGET_S < re_check env nid - re_t0 env"

definition node_ms :: "run_env \<Rightarrow> pystr \<Rightarrow> int" where
  "node_ms env nid = (re_end env nid - re_begin env nid) div 1000"

text \<open>\<open>_stringify\<close> of the record of the source of the first incoming edge.\<close>

definition upstream_value :: "wgraph \<Rightarrow> pystr \<Rightarrow> wctx \<Rightarrow> pystr res" where
  "upstream_value g nid ctx =
     (case filter (\<lambda>e. we_target e = Some nid) (wg_edges g) of
        [] \<Rightarrow> Inr []
      | e # _ \<Rightarrow>
          (case we_source e of
             None \<Rightarrow> Inr []
           | Some s \<Rightarrow>
               if s = [] then Inr []
               else (case by_id (wg_nodes g) s of
                   None \<Rightarrow> Inl (KeyError s)
                 | Some m \<Rightarrow> Inr (stringify (map_of ctx (var_name m))))))"

definition node_outcome ::
  "services \<Rightarrow> run_env \<Rightarrow> wnode \<Rightarrow> run_input \<Rightarrow> wctx \<Rightarrow> wuser \<Rightarrow> pystr \<Rightarrow> pystr + wrecord" where
  "node_outcome sv env node run_input ctx user upstream =
     (case re_fault env (wn_id node) of
        Some msg \<Rightarrow> Inl msg
      | None \<Rightarrow> exec_node sv (node_type node) (wn_params node) run_input ctx user upstream)"

text \<open>
  The warnings the executors record; what an input variable that happens to be named
  \<open>warnings\<close> would contribute is left out.
\<close>

definition record_warnings :: "pystr \<Rightarrow> wrecord \<Rightarrow> pystr list" where
  "record_warnings key rec =
     (case map_of rec (asc ''warnings'') of
        Some (JList ws) \<Rightarrow> map (\<lambda>w. key @ asc '': '' @ as_text w) ws
      | _ \<Rightarrow> [])"

text \<open>The targets of the outgoing edges that a finished node activates.\<close>

definition activated :: "wgraph \<Rightarrow> wnode \<Rightarrow> wrecord \<Rightarrow> pystr list" where
  "activated g node rec = concat (map (\<lambda>e.
     if has_type node ''condition'' \<and> map_of rec (asc ''branch'') \<noteq> Some (JStr (we_branch e)) then []
     else (case we_target e of None \<Rightarrow> [] | Some t \<Rightarrow> [t]))
     (filter (\<lambda>e. we_source e = Some (wn_id node)) (wg_edges g)))"

definition finish_node :: "wgraph \<Rightarrow> run_env \<Rightarrow> wnode \<Rightarrow> wrecord \<Rightarrow> run_state \<Rightarrow> run_state" where
  "finish_node g env node rec0 rs =
     (let rec = AList.delete (asc ''answer_raw'') rec0;
          key = var_name node;
          rs1 = set_state (wn_id node) (\<lambda>st. st\<lparr>ns_status := NDone, ns_output := Some (capped rec),
                  ns_ms := node_ms env (wn_id node)\<rparr>) rs
      in rs1\<lparr>rs_active := rs_active rs @ activated g node rec,
             rs_ctx := AList.update key rec (rs_ctx rs),
             rs_warnings := rs_warnings rs @ record_warnings key rec,
             rs_output_reached := (rs_output_reached rs \<or> has_type node ''output'')\<rparr>)"

definition fail_node :: "run_env \<Rightarrow> wnode \<Rightarrow> pystr \<Rightarrow> run_state \<Rightarrow> run_state" where
  "fail_node env node err rs =
     (set_state (wn_id node) (\<lambda>st. st\<lparr>ns_status := NError, ns_error := take 500 err,
         ns_ms := node_ms env (wn_id node)\<rparr>) rs)
     \<lparr>rs_error := py_or (rs_error rs)
        (([0x8282, 0x70b9] @ asc '' '') @ var_name node @ [40] @ node_type node @ (asc '') '' @ [0x5931, 0x8d25, 0xff1a]) @ err)\<rparr>"

definition run_node ::
  "services \<Rightarrow> wgraph \<Rightarrow> run_input \<Rightarrow> wuser \<Rightarrow> run_env \<Rightarrow> pystr \<Rightarrow> run_state \<Rightarrow> run_state res" where
  "run_node sv g run_input user env nid rs =
     (case by_id (wg_nodes g) nid of
        None \<Rightarrow> Inl (KeyError nid)
      | Some node \<Rightarrow>
          if nid \<notin> set (rs_active rs)
          then Inr (set_state nid (\<lambda>st. st\<lparr>ns_status := NSkipped\<rparr>) rs)
          else if over_budget env nid
          then Inr ((set_state nid (\<lambda>st. st\<lparr>ns_status := NError, ns_error := [0x8d85, 0x51fa, 0x6574, 0x6b21, 0x6267, 0x884c, 0x603b, 0x9884, 0x7b97]\<rparr>) rs)
                 \<lparr>rs_error := py_or (rs_error rs)
                    (([0x8282, 0x70b9] @ asc '' '') @ nid @ (asc '' '' @ [0x6267, 0x884c, 0x8d85, 0x51fa, 0x603b, 0x9884, 0x7b97] @ asc '' '') @ py_str_int RUN_BUDGET_S @ asc ''s'')\<rparr>)
          else
            (case upstream_value g nid (rs_ctx rs) of
               Inl e \<Rightarrow> Inl e
             | Inr upstream \<Rightarrow>
                 (case node_outcome sv env node run_input (rs_ctx rs) user upstream of
                    Inl err \<Rightarrow> Inr (fail_node env node err rs)
                  | Inr rec \<Rightarrow> Inr (finish_node g env node rec rs))))"

fun run_nodes ::
  "services \<Rightarrow> wgraph \<Rightarrow> run_input \<Rightarrow> wuser \<Rightarrow> run_env \<Rightarrow> pystr list \<Rightarrow> run_state \<Rightarrow> run_state res" where
  "run_nodes sv g run_input user env [] rs = Inr rs"
| "run_nodes sv g run_input user env (nid # nids) rs =
     (case run_node sv g run_input user env nid rs of
        Inl e \<Rightarrow> Inl e
      | Inr rs' \<Rightarrow> run_nodes sv g run_input user env nids rs')"

text \<open>The text of the output node that was executed last.\<close>

definition output_text :: "pystr list \<Rightarrow> node_state list \<Rightarrow> pystr" where
  "output_text order states = fold (\<lambda>nid text.
     case get_row ns_id nid states of
       Some st \<Rightarrow> if ns_type st = asc ''output'' \<and> ns_status st = NDone
         then (case ns_output st of None \<Rightarrow> []
               | Some rec \<Rightarrow> (case map_of rec (asc ''text'') of Some (JStr s) \<Rightarrow> s | _ \<Rightarrow> []))
         else text
     | None \<Rightarrow> text) order []"

definition execute_graph ::
  "services \<Rightarrow> wgraph \<Rightarrow> run_input \<Rightarrow> wuser \<Rightarrow> run_env \<Rightarrow> run_result res" where
  "execute_graph sv g run_input user env =
     (let nodes = wg_nodes g;
          order = topo_order nodes (wg_edges g)
      in if length order \<noteq> length nodes
         then Inr \<lparr>rr_status = asc ''failed'', rr_output = [], rr_states = [],
                rr_error = [0x56fe, 0x4e2d, 0x5b58, 0x5728, 0x73af, 0xff08, 0x5f15, 0x64ce, 0x9632, 0x5fa1, 0x62e6, 0x622a, 0xff09], rr_warnings = []\<rparr>
         else if list_ex (\<lambda>n. wn_type n = None) nodes then Inl (KeyError (asc ''type''))
         else (case find (\<lambda>n. has_type n ''input'') nodes of
             None \<Rightarrow> Inl (RuntimeError (asc ''coroutine raised StopIteration''))
           | Some input \<Rightarrow>
               (case run_nodes sv g run_input user env order
                    \<lparr>rs_active = [wn_id input], rs_ctx = [], rs_states = map initial_state nodes,
                     rs_warnings = [], rs_output_reached = False, rs_error = []\<rparr> of
                  Inl e \<Rightarrow> Inl e
                | Inr rs \<Rightarrow> Inr
                    \<lparr>rr_status = (if rs_output_reached rs then asc ''done'' else asc ''failed''),
                     rr_output = output_text order (rs_states rs), rr_states = rs_states rs,
                     rr_error = rs_error rs, rr_warnings = rs_warnings rs\<rparr>)))"

end
