(* ===== verification/WorkflowRun.thy ===== *)
theory WorkflowRun
  imports WorkflowEngine
begin

text \<open>
  The execution of a valid graph: the loop's invariant, which nodes are activated, and why the
  engine neither raises nor rejects.
\<close>

section \<open>States of the nodes\<close>

lemma get_row_set_state:
  assumes "\<And>st. ns_id (f st) = ns_id st"
  shows "get_row ns_id k (rs_states (set_state nid f rs)) =
    (if k = nid then map_option f (get_row ns_id nid (rs_states rs)) else get_row ns_id k (rs_states rs))"
proof (cases "get_row ns_id nid (rs_states rs)")
  case None
  then show ?thesis by (simp add: set_state_def)
next
  case (Some st)
  then show ?thesis
    using get_row_key[OF Some] by (auto simp: set_state_def get_row_put_row assms)
qed

lemma set_state_frame [simp]:
  "rs_active (set_state nid f rs) = rs_active rs" "rs_ctx (set_state nid f rs) = rs_ctx rs"
  "rs_output_reached (set_state nid f rs) = rs_output_reached rs" "rs_error (set_state nid f rs) = rs_error rs"
  by (simp_all add: set_state_def)

lemma set_state_ids:
  assumes "\<And>st. ns_id (f st) = ns_id st"
  shows "map ns_id (rs_states (set_state nid f rs)) = map ns_id (rs_states rs)"
  by (auto simp: set_state_def map_key_put_row split: option.splits)

lemma by_id_node:
  assumes "distinct (map wn_id nodes)" and "n \<in> set nodes"
  shows "by_id nodes (wn_id n) = Some n"
proof -
  have "distinct (map fst (map (\<lambda>n. (wn_id n, n)) nodes))" using assms(1) by (simp add: o_def)
  then have "distinct (map fst (rev (map (\<lambda>n. (wn_id n, n)) nodes)))"
    unfolding rev_map[symmetric] by simp
  moreover have "(wn_id n, n) \<in> set (rev (map (\<lambda>n. (wn_id n, n)) nodes))" using assms(2) by auto
  ultimately show ?thesis unfolding by_id_def by (rule map_of_is_SomeI)
qed

text \<open>An edge fires when its source is done and, from a condition, when its branch was taken.\<close>

definition fires :: "wgraph \<Rightarrow> node_state list \<Rightarrow> wedge \<Rightarrow> bool" where
  "fires g states e = (case we_source e of None \<Rightarrow> False
   | Some s \<Rightarrow>
     (case get_row ns_id s states of None \<Rightarrow> False
      | Some st \<Rightarrow> ns_status st = NDone \<and>
          (ns_type st = asc ''condition'' \<longrightarrow>
             (case ns_output st of None \<Rightarrow> False
              | Some rec \<Rightarrow> map_of rec (asc ''branch'') = Some (JStr (we_branch e))))))"

definition settled :: "node_state \<Rightarrow> bool" where
  "settled st \<longleftrightarrow> ns_status st \<in> {NDone, NError, NSkipped}"

definition run_inv :: "wgraph \<Rightarrow> pystr \<Rightarrow> pystr list \<Rightarrow> run_state \<Rightarrow> bool" where
  "run_inv g input ids rs \<longleftrightarrow>
     map ns_id (rs_states rs) = map wn_id (wg_nodes g) \<and>
     (\<forall>n \<in> set (wg_nodes g). \<exists>st. get_row ns_id (wn_id n) (rs_states rs) = Some st \<and>
        ns_type st = node_type n \<and>
        (if wn_id n \<in> set ids then settled st \<and> (ns_status st = NSkipped \<longleftrightarrow> wn_id n \<notin> set (rs_active rs))
         else ns_status st = NPending)) \<and>
     (\<forall>t. t \<in> set (rs_active rs) \<longleftrightarrow> t = input \<or>
        (\<exists>e \<in> set (wg_edges g). we_target e = Some t \<and> fires g (rs_states rs) e)) \<and>
     (rs_output_reached rs \<longleftrightarrow>
        (\<exists>st \<in> set (rs_states rs). ns_type st = asc ''output'' \<and> ns_status st = NDone))"

lemma map_of_capped: "map_of (capped rec) k = map_option cap_value (map_of rec k)"
  by (induction rec) (auto simp: capped_def)

lemma exec_condition_branch:
  "\<exists>b. map_of (exec_condition params ctx up) (asc ''branch'') = Some (JStr b) \<and> b \<in> {asc ''true'', asc ''false''}"
proof -
  obtain keyword warns where i: "interpolate (wp_keyword params) ctx = (keyword, warns)"
    by (cases "interpolate (wp_keyword params) ctx")
  have "\<exists>branch. map_of (exec_condition params ctx up) (asc ''branch'') =
      Some (JStr (if branch then asc ''true'' else asc ''false''))"
    unfolding exec_condition_def i Let_def prod.case by (rule exI) simp
  then show ?thesis by auto
qed

lemma cap_branch: "b \<in> {asc ''true'', asc ''false''} \<Longrightarrow> cap_value (JStr b) = JStr b"
  by (auto simp: cap_value_def STORE_MAX_def asc_def)

lemma outcome_branch:
  assumes "node_outcome sv env node run_input ctx user up = Inr rec" and "has_type node ''condition''"
  shows "\<exists>b. map_of (AList.delete (asc ''answer_raw'') rec) (asc ''branch'') = Some (JStr b) \<and>
    map_of (capped (AList.delete (asc ''answer_raw'') rec)) (asc ''branch'') = Some (JStr b)"
proof -
  from assms have "rec = exec_condition (wn_params node) ctx up"
    by (auto simp: node_outcome_def exec_node_def has_type_def node_type_def split: option.splits)
  with exec_condition_branch[of "wn_params node" ctx up] obtain b where
    b: "map_of rec (asc ''branch'') = Some (JStr b)" "b \<in> {asc ''true'', asc ''false''}" by blast
  then have "map_of (AList.delete (asc ''answer_raw'') rec) (asc ''branch'') = Some (JStr b)"
    by (simp add: map_of_delete)
  with cap_branch[OF b(2)] show ?thesis by (simp add: map_of_capped)
qed

lemma activated_iff:
  "t \<in> set (activated g node rec) \<longleftrightarrow> (\<exists>e \<in> set (wg_edges g). we_source e = Some (wn_id node) \<and>
     we_target e = Some t \<and>
     (has_type node ''condition'' \<longrightarrow> map_of rec (asc ''branch'') = Some (JStr (we_branch e))))"
proof -
  have one: "t \<in> set (if C then [] else (case x of None \<Rightarrow> [] | Some t \<Rightarrow> [t])) \<longleftrightarrow> \<not> C \<and> x = Some t"
    for C and x :: "pystr option"
    by (cases x) auto
  have "t \<in> set (activated g node rec) \<longleftrightarrow>
      (\<exists>e. (e \<in> set (wg_edges g) \<and> we_source e = Some (wn_id node)) \<and>
         \<not> (has_type node ''condition'' \<and> map_of rec (asc ''branch'') \<noteq> Some (JStr (we_branch e))) \<and>
         we_target e = Some t)"
    unfolding activated_def set_concat set_map set_filter UN_iff image_iff bex_simps(7)
    by (simp only: one[symmetric]) blast
  then show ?thesis by blast
qed

lemma type_condition: "node_ok n \<Longrightarrow> node_type n = asc ty \<longleftrightarrow> has_type n ty"
  by (auto simp: node_ok_def node_type_def has_type_def)

text \<open>Updating the state of one node that was pending.\<close>

lemma states_after:
  assumes "map ns_id (rs_states rs) = map wn_id (wg_nodes g)" and "distinct (map wn_id (wg_nodes g))"
    and "get_row ns_id nid (rs_states rs) = Some st" and "ns_status st = NPending"
    and "\<And>st. ns_id (f st) = ns_id st \<and> ns_type (f st) = ns_type st"
  defines "rs' \<equiv> set_state nid f rs"
  shows "map ns_id (rs_states rs') = map wn_id (wg_nodes g)"
    and "\<And>k. get_row ns_id k (rs_states rs') = (if k = nid then Some (f st) else get_row ns_id k (rs_states rs))"
    and "\<And>e. fires g (rs_states rs') e \<longleftrightarrow> fires g (rs_states rs) e \<or>
      we_source e = Some nid \<and> ns_status (f st) = NDone \<and> (ns_type st = asc ''condition'' \<longrightarrow>
        (case ns_output (f st) of None \<Rightarrow> False
         | Some rec \<Rightarrow> map_of rec (asc ''branch'') = Some (JStr (we_branch e))))"
    and "(\<exists>x \<in> set (rs_states rs'). ns_type x = asc ''output'' \<and> ns_status x = NDone) \<longleftrightarrow>
      (\<exists>x \<in> set (rs_states rs). ns_type x = asc ''output'' \<and> ns_status x = NDone) \<or>
      ns_type st = asc ''output'' \<and> ns_status (f st) = NDone"
proof -
  have f: "\<And>st. ns_id (f st) = ns_id st" "\<And>st. ns_type (f st) = ns_type st" using assms(5) by auto
  show ids: "map ns_id (rs_states rs') = map wn_id (wg_nodes g)"
    unfolding rs'_def using set_state_ids[OF f(1)] assms(1) by simp
  show get: "get_row ns_id k (rs_states rs') = (if k = nid then Some (f st) else get_row ns_id k (rs_states rs))" for k
    unfolding rs'_def get_row_set_state[OF f(1)] using assms(3) by simp
  show "fires g (rs_states rs') e \<longleftrightarrow> fires g (rs_states rs) e \<or>
      we_source e = Some nid \<and> ns_status (f st) = NDone \<and> (ns_type st = asc ''condition'' \<longrightarrow>
        (case ns_output (f st) of None \<Rightarrow> False
         | Some rec \<Rightarrow> map_of rec (asc ''branch'') = Some (JStr (we_branch e))))" for e
    using assms(3,4) f(2) by (auto simp: fires_def get split: option.splits)
  have d: "distinct (map ns_id (rs_states rs))" "distinct (map ns_id (rs_states rs'))"
    using assms(1,2) ids by simp_all
  have mem: "x \<in> set (rs_states r) \<longleftrightarrow> get_row ns_id (ns_id x) (rs_states r) = Some x"
    if "distinct (map ns_id (rs_states r))" for x r
    using get_row_distinct[OF that] get_row_in by metis
  have id: "ns_id st = nid" by (rule get_row_key[OF assms(3)])
  show "(\<exists>x \<in> set (rs_states rs'). ns_type x = asc ''output'' \<and> ns_status x = NDone) \<longleftrightarrow>
      (\<exists>x \<in> set (rs_states rs). ns_type x = asc ''output'' \<and> ns_status x = NDone) \<or>
      ns_type st = asc ''output'' \<and> ns_status (f st) = NDone" (is "?L \<longleftrightarrow> ?R \<or> ?N")
  proof
    assume ?L
    then obtain x where x: "x \<in> set (rs_states rs')" "ns_type x = asc ''output''" "ns_status x = NDone" by blast
    show "?R \<or> ?N"
    proof (cases "ns_id x = nid")
      case True
      then have "x = f st" using x(1) mem[OF d(2)] get[of nid] by simp
      with x f(2)[of st] show ?thesis by simp
    next
      case False
      then have "x \<in> set (rs_states rs)" using x(1) mem[OF d(2)] mem[OF d(1)] get[of "ns_id x"] by simp
      with x show ?thesis by blast
    qed
  next
    assume "?R \<or> ?N"
    then show ?L
    proof
      assume ?R
      then obtain x where x: "x \<in> set (rs_states rs)" "ns_type x = asc ''output''" "ns_status x = NDone" by blast
      have "ns_id x \<noteq> nid" using x mem[OF d(1)] assms(3,4) by auto
      then have "x \<in> set (rs_states rs')" using x(1) mem[OF d(2)] mem[OF d(1)] get[of "ns_id x"] by simp
      with x show ?thesis by blast
    next
      assume n: ?N
      have "f st \<in> set (rs_states rs')" using mem[OF d(2), of "f st"] get[of nid] f(1)[of st] id by simp
      with n f(2)[of st] show ?thesis by metis
    qed
  qed
qed

lemma upstream_ok:
  assumes "valid_graph g"
  shows "\<exists>up. upstream_value g nid ctx = Inr up"
proof (cases "filter (\<lambda>e. we_target e = Some nid) (wg_edges g)")
  case Nil
  then show ?thesis by (simp add: upstream_value_def)
next
  case (Cons e es)
  then have "e \<in> set (filter (\<lambda>e. we_target e = Some nid) (wg_edges g))" by simp
  then have "edge_ok (wg_nodes g) e" using assms by (auto simp: valid_graph_def)
  then obtain s m where "we_source e = Some s" "by_id (wg_nodes g) s = Some m"
    by (auto simp: edge_ok_def split: option.splits)
  with Cons show ?thesis by (simp add: upstream_value_def)
qed

section \<open>One node\<close>

text \<open>
  Every way a node can end changes only its own state, activates the targets of the edges that
  fire from it, and marks an output.
\<close>

lemma run_inv_step:
  assumes inv: "run_inv g input ids rs" and g: "valid_graph g" and n: "n \<in> set (wg_nodes g)"
    and new: "wn_id n \<notin> set ids"
    and closed: "\<And>e s t. e \<in> set (wg_edges g) \<Longrightarrow> we_source e = Some s \<Longrightarrow> we_target e = Some t \<Longrightarrow>
      t \<in> set ids \<or> t = wn_id n \<Longrightarrow> s \<in> set ids"
    and f: "\<And>st. ns_id (f st) = ns_id st \<and> ns_type (f st) = ns_type st"
    and sett: "\<And>st. settled (f st)"
    and skip: "\<And>st. ns_status (f st) = NSkipped \<longleftrightarrow> wn_id n \<notin> set (rs_active rs)"
    and states: "rs_states rs' = rs_states (set_state (wn_id n) f rs)"
    and act: "\<And>t. t \<in> set (rs_active rs') \<longleftrightarrow> t \<in> set (rs_active rs) \<or>
      (\<exists>st. ns_status (f st) = NDone \<and> (\<exists>e \<in> set (wg_edges g). we_source e = Some (wn_id n) \<and> we_target e = Some t \<and>
        (has_type n ''condition'' \<longrightarrow> (case ns_output (f st) of None \<Rightarrow> False
          | Some rec \<Rightarrow> map_of rec (asc ''branch'') = Some (JStr (we_branch e))))))"
    and const: "\<And>st st'. ns_status (f st) = ns_status (f st') \<and>
      (ns_status (f st) = NDone \<longrightarrow> ns_output (f st) = ns_output (f st'))"
    and out: "\<And>st. rs_output_reached rs' \<longleftrightarrow> rs_output_reached rs \<or> has_type n ''output'' \<and> ns_status (f st) = NDone"
  shows "run_inv g input (ids @ [wn_id n]) rs'"
proof -
  note I = inv[unfolded run_inv_def]
  have dist: "distinct (map wn_id (wg_nodes g))" using g by (simp add: valid_graph_def)
  have nok: "node_ok n" using g n by (simp add: valid_graph_def)
  from I n new obtain st where st: "get_row ns_id (wn_id n) (rs_states rs) = Some st"
    "ns_type st = node_type n" "ns_status st = NPending" by auto
  note A = states_after[where f = f, OF conjunct1[OF I] dist st(1,3) f, folded states]
  have ty: "ns_type st = asc ty \<longleftrightarrow> has_type n ty" for ty using type_condition[OF nok] st(2) by simp
  have actst: "t \<in> set (rs_active rs') \<longleftrightarrow> t \<in> set (rs_active rs) \<or>
      (\<exists>e \<in> set (wg_edges g). we_target e = Some t \<and> we_source e = Some (wn_id n) \<and> ns_status (f st) = NDone \<and>
        (ns_type st = asc ''condition'' \<longrightarrow> (case ns_output (f st) of None \<Rightarrow> False
          | Some rec \<Rightarrow> map_of rec (asc ''branch'') = Some (JStr (we_branch e)))))" for t
    unfolding act ty using const[of st] by metis
  have active: "t \<in> set (rs_active rs') \<longleftrightarrow> t = input \<or>
      (\<exists>e \<in> set (wg_edges g). we_target e = Some t \<and> fires g (rs_states rs') e)" for t
    unfolding actst A(3) using I by blast
  have stable: "t \<in> set (rs_active rs') \<longleftrightarrow> t \<in> set (rs_active rs)" if "t \<in> set ids \<or> t = wn_id n" for t
    unfolding actst using closed[of _ "wn_id n" t] that new by blast
  have row: "\<exists>x. get_row ns_id (wn_id m) (rs_states rs') = Some x \<and> ns_type x = node_type m \<and>
      (if wn_id m \<in> set (ids @ [wn_id n])
       then settled x \<and> (ns_status x = NSkipped \<longleftrightarrow> wn_id m \<notin> set (rs_active rs'))
       else ns_status x = NPending)" if m: "m \<in> set (wg_nodes g)" for m
  proof (cases "wn_id m = wn_id n")
    case True
    with dist n m have mn: "m = n" by (simp add: distinct_map inj_on_def)
    show ?thesis
      unfolding mn using A(2)[of "wn_id n"] f[of st] st(2) sett[of st] skip[of st] stable[of "wn_id n"] by simp
  next
    case False
    from I m obtain x where x: "get_row ns_id (wn_id m) (rs_states rs) = Some x" "ns_type x = node_type m"
      "if wn_id m \<in> set ids then settled x \<and> (ns_status x = NSkipped \<longleftrightarrow> wn_id m \<notin> set (rs_active rs))
       else ns_status x = NPending" by blast
    show ?thesis using A(2)[of "wn_id m"] x False stable[of "wn_id m"] by auto
  qed
  have "rs_output_reached rs' \<longleftrightarrow>
      (\<exists>x \<in> set (rs_states rs'). ns_type x = asc ''output'' \<and> ns_status x = NDone)"
    unfolding A(4) out[of st] ty using I by blast
  with A(1) row active show ?thesis unfolding run_inv_def by blast
qed

lemma run_node_step:
  assumes inv: "run_inv g input ids rs" and g: "valid_graph g" and n: "n \<in> set (wg_nodes g)"
    and new: "wn_id n \<notin> set ids"
    and closed: "\<And>e s t. e \<in> set (wg_edges g) \<Longrightarrow> we_source e = Some s \<Longrightarrow> we_target e = Some t \<Longrightarrow>
      t \<in> set ids \<or> t = wn_id n \<Longrightarrow> s \<in> set ids"
  shows "\<exists>rs'. run_node sv g run_input user env (wn_id n) rs = Inr rs' \<and> run_inv g input (ids @ [wn_id n]) rs'"
proof -
  have dist: "distinct (map wn_id (wg_nodes g))" using g by (simp add: valid_graph_def)
  have id: "by_id (wg_nodes g) (wn_id n) = Some n" by (rule by_id_node[OF dist n])
  note step = run_inv_step[OF inv g n new closed]
  obtain up where up: "upstream_value g (wn_id n) (rs_ctx rs) = Inr up" using upstream_ok[OF g] by blast
  consider (skip) "wn_id n \<notin> set (rs_active rs)"
    | (budget) "wn_id n \<in> set (rs_active rs)" "over_budget env (wn_id n)"
    | (fail) err where "wn_id n \<in> set (rs_active rs)" "\<not> over_budget env (wn_id n)"
        "node_outcome sv env n run_input (rs_ctx rs) user up = Inl err"
    | (finish) rec where "wn_id n \<in> set (rs_active rs)" "\<not> over_budget env (wn_id n)"
        "node_outcome sv env n run_input (rs_ctx rs) user up = Inr rec"
    by (cases "node_outcome sv env n run_input (rs_ctx rs) user up") blast+
  then show ?thesis
  proof cases
    case skip
    let ?f = "\<lambda>st. st\<lparr>ns_status := NSkipped\<rparr>"
    have "run_inv g input (ids @ [wn_id n]) (set_state (wn_id n) ?f rs)"
      by (rule step[where f = ?f]) (simp_all add: settled_def skip)
    with skip id show ?thesis by (simp add: run_node_def)
  next
    case budget
    let ?f = "\<lambda>st. st\<lparr>ns_status := NError, ns_error := [0x8d85, 0x51fa, 0x6574, 0x6b21, 0x6267, 0x884c, 0x603b, 0x9884, 0x7b97]\<rparr>"
    let ?rs = "(set_state (wn_id n) ?f rs)\<lparr>rs_error := py_or (rs_error rs)
       (([0x8282, 0x70b9] @ asc '' '') @ wn_id n @ (asc '' '' @ [0x6267, 0x884c, 0x8d85, 0x51fa, 0x603b, 0x9884, 0x7b97] @ asc '' '') @ py_str_int RUN_BUDGET_S @ asc ''s'')\<rparr>"
    have "run_inv g input (ids @ [wn_id n]) ?rs"
      by (rule step[where f = ?f]) (simp_all add: settled_def budget)
    with budget id show ?thesis by (simp add: run_node_def)
  next
    case fail
    let ?f = "\<lambda>st. st\<lparr>ns_status := NError, ns_error := take 500 err, ns_ms := node_ms env (wn_id n)\<rparr>"
    have "run_inv g input (ids @ [wn_id n]) (fail_node env n err rs)"
      by (rule step[where f = ?f]) (simp_all add: settled_def fail fail_node_def)
    with fail id up show ?thesis by (simp add: run_node_def)
  next
    case finish
    let ?rec = "AList.delete (asc ''answer_raw'') rec"
    let ?f = "\<lambda>st. st\<lparr>ns_status := NDone, ns_output := Some (capped ?rec), ns_ms := node_ms env (wn_id n)\<rparr>"
    have br: "map_of ?rec (asc ''branch'') = Some (JStr b) \<longleftrightarrow> map_of (capped ?rec) (asc ''branch'') = Some (JStr b)"
      if "has_type n ''condition''" for b
      using outcome_branch[OF finish(3) that] by auto
    have "run_inv g input (ids @ [wn_id n]) (finish_node g env n rec rs)"
      by (rule step[where f = ?f])
        (use br in \<open>auto simp: settled_def finish finish_node_def Let_def activated_iff\<close>)
    with finish id up show ?thesis by (simp add: run_node_def)
  qed
qed

lemma run_nodes_inv:
  assumes "run_inv g input ids rs" and "valid_graph g"
    and "distinct (ids @ nids)" and "set nids \<subseteq> wn_id ` set (wg_nodes g)"
    and "\<And>e s t. e \<in> set (wg_edges g) \<Longrightarrow> we_source e = Some s \<Longrightarrow> we_target e = Some t \<Longrightarrow>
      t \<in> set ids \<Longrightarrow> s \<in> set ids"
    and "\<And>xs t ys e s. nids = xs @ t # ys \<Longrightarrow> e \<in> set (wg_edges g) \<Longrightarrow> we_source e = Some s \<Longrightarrow>
      we_target e = Some t \<Longrightarrow> s \<in> set ids \<union> set xs"
  shows "\<exists>rs'. run_nodes sv g run_input user env nids rs = Inr rs' \<and> run_inv g input (ids @ nids) rs'"
  using assms
proof (induction nids arbitrary: ids rs)
  case Nil
  then show ?case by simp
next
  case (Cons nid nids)
  from Cons.prems(4) obtain n where n: "n \<in> set (wg_nodes g)" "nid = wn_id n" by auto
  have pred: "s \<in> set ids" if "e \<in> set (wg_edges g)" "we_source e = Some s" "we_target e = Some nid" for e s
    using Cons.prems(6)[of "[]" nid nids e s] that by simp
  have closed: "s \<in> set ids" if "e \<in> set (wg_edges g)" "we_source e = Some s" "we_target e = Some t"
    "t \<in> set ids \<or> t = wn_id n" for e s t
    using that Cons.prems(5) pred n(2) by blast
  have new: "wn_id n \<notin> set ids" using Cons.prems(3) n(2) by simp
  obtain rs1 where rs1: "run_node sv g run_input user env nid rs = Inr rs1" "run_inv g input (ids @ [nid]) rs1"
    using run_node_step[where sv = sv and run_input = run_input and user = user and env = env,
        OF Cons.prems(1,2) n(1) new] closed unfolding n(2) by blast
  have "\<exists>rs'. run_nodes sv g run_input user env nids rs1 = Inr rs' \<and> run_inv g input ((ids @ [nid]) @ nids) rs'"
  proof (rule Cons.IH[OF rs1(2) Cons.prems(2)])
    show "distinct ((ids @ [nid]) @ nids)" using Cons.prems(3) by auto
    show "set nids \<subseteq> wn_id ` set (wg_nodes g)" using Cons.prems(4) by simp
    show "s \<in> set (ids @ [nid])" if "e \<in> set (wg_edges g)" "we_source e = Some s" "we_target e = Some t"
      "t \<in> set (ids @ [nid])" for e s t
      using that Cons.prems(5)[OF that(1-3)] pred[OF that(1,2)] by auto
    show "s \<in> set (ids @ [nid]) \<union> set xs" if "nids = xs @ t # ys" "e \<in> set (wg_edges g)"
      "we_source e = Some s" "we_target e = Some t" for xs t ys e s
      using Cons.prems(6)[of "nid # xs" t ys e s] that by auto
  qed
  with rs1(1) show ?case by simp
qed

end
