(* ===== verification/WorkflowClaims.thy ===== *)
theory WorkflowClaims
  imports WorkflowRun
begin

text \<open>The properties of the workflow engine, with concrete graphs.\<close>

section \<open>Graphs\<close>

definition mk_node :: "string \<Rightarrow> string \<Rightarrow> wparams \<Rightarrow> wnode" where
  "mk_node i ty p = \<lparr>wn_id = asc i, wn_type = Some (asc ty), wn_key = [], wn_params = p\<rparr>"

definition mk_edge :: "string \<Rightarrow> string \<Rightarrow> string \<Rightarrow> wedge" where
  "mk_edge s t b = \<lparr>we_source = Some (asc s), we_target = Some (asc t), we_branch = asc b\<rparr>"

definition echo_graph :: wgraph where
  "echo_graph = \<lparr>wg_nodes = [mk_node ''i'' ''input'' no_params, mk_node ''o'' ''output'' no_params],
     wg_edges = [mk_edge ''i'' ''o'' []]\<rparr>"

text \<open>A condition on the query: its true branch goes through a model node, its false branch does not.\<close>

definition join_graph :: wgraph where
  "join_graph = \<lparr>wg_nodes =
       [mk_node ''i'' ''input'' no_params,
        mk_node ''c'' ''condition'' (no_params\<lparr>wp_keyword := asc ''x''\<rparr>),
        mk_node ''m'' ''llm'' (no_params\<lparr>wp_prompt := asc ''p''\<rparr>),
        mk_node ''o'' ''output'' no_params],
     wg_edges = [mk_edge ''i'' ''c'' [], mk_edge ''c'' ''m'' ''true'', mk_edge ''m'' ''o'' [],
        mk_edge ''c'' ''o'' ''false'']\<rparr>"

definition null_services :: services where
  "null_services = \<lparr>sv_search = (\<lambda>_ _ _ _. Inl []), sv_graph_context = (\<lambda>_ _ _. Inl []),
     sv_chat = (\<lambda>_ _ _ _ _. Inl []), sv_persona = (\<lambda>_. False), sv_agent = (\<lambda>_ _ _ _. Inl [])\<rparr>"

definition quiet_env :: run_env where
  "quiet_env = \<lparr>re_t0 = 0, re_check = (\<lambda>_. 0), re_begin = (\<lambda>_. 0), re_end = (\<lambda>_. 0), re_fault = (\<lambda>_. None)\<rparr>"

definition no_user :: wuser where
  "no_user = \<lparr>wu_username = [], wu_tenant = [], wu_role = [], wu_dept = []\<rparr>"

lemmas graph_eval = mk_node_def mk_edge_def no_params_def has_type_def var_name_def node_errors_def
  NODE_TYPES_def by_id_def known_edges_def in_degrees_def adj_def decr_def topo_order_def py_or_def

lemma strip_p [simp]: "py_strip (asc ''p'') = asc ''p''"
  by (simp add: asc_def py_strip_def py_isspace_def)

lemma echo_order: "topo_order (wg_nodes echo_graph) (wg_edges echo_graph) = [asc ''i'', asc ''o'']"
  by (simp add: echo_graph_def graph_eval)

lemma join_order:
  "topo_order (wg_nodes join_graph) (wg_edges join_graph) = [asc ''i'', asc ''c'', asc ''m'', asc ''o'']"
  by (simp add: join_graph_def graph_eval)

lemma echo_valid: "validate_graph echo_graph = Inr []"
  using echo_order by (simp add: validate_graph_def echo_graph_def graph_eval)

lemma join_valid: "validate_graph join_graph = Inr []"
  using join_order by (simp add: validate_graph_def join_graph_def graph_eval)

section \<open>Validation and order\<close>

text \<open>C3: The validator is exact: it accepts a graph precisely when the graph has nodes with distinct
  non-empty ids and distinct variable names, complete parameters, one input and some output, edges
  between existing distinct nodes without repetition and labelled exactly behind conditions, every node
  reachable from the input, and no cycle.\<close>

theorem validator_is_exact: "validate_graph g = Inr [] \<longleftrightarrow> valid_graph g"
  by (rule validate_iff)

text \<open>The validator reports a node without a type by raising KeyError instead of listing an error,
  exactly when the checks before it pass; it raises nothing else.\<close>

theorem validator_raises_on_missing_type:
  "validate_graph g = Inl e \<longleftrightarrow> e = KeyError (asc ''type'') \<and> wg_nodes g \<noteq> [] \<and>
     [] \<notin> wn_id ` set (wg_nodes g) \<and> distinct (map wn_id (wg_nodes g)) \<and>
     (\<exists>n \<in> set (wg_nodes g). wn_type n = None)"
  by (rule validate_raises)

text \<open>The execution order lists nodes of the graph without repetition, each after all the nodes it
  depends on, directly or indirectly; it contains all of them exactly when the graph has no cycle.\<close>

theorem topological_order:
  "let order = topo_order nodes edges;
       rel = {(s, t). s \<in> wn_id ` set nodes \<and> t \<in> wn_id ` set nodes \<and>
               (\<exists>e \<in> set edges. we_source e = Some s \<and> we_target e = Some t)}
   in distinct order \<and> set order \<subseteq> wn_id ` set nodes \<and>
      (\<forall>xs t ys s. order = xs @ t # ys \<and> (s, t) \<in> rel\<^sup>+ \<longrightarrow> s \<in> set xs) \<and>
      (set order = wn_id ` set nodes \<longleftrightarrow> acyclic rel)"
proof -
  let ?es = "known_edges (map wn_id nodes) edges"
  have rel: "{(s, t). s \<in> wn_id ` set nodes \<and> t \<in> wn_id ` set nodes \<and>
      (\<exists>e \<in> set edges. we_source e = Some s \<and> we_target e = Some t)} = set ?es"
    by (auto simp: known_edges_in)
  show ?thesis
    unfolding Let_def rel
    using topo_facts(1-3)[of nodes edges] topo_complete_iff[of nodes edges]
      in_order_trancl[of ?es "topo_order nodes edges"] by blast
qed

theorem topological_order_witness:
  "asc ''c'' \<in> set [asc ''i'', asc ''c''] \<and>
   topo_order (wg_nodes join_graph) (wg_edges join_graph) = [asc ''i'', asc ''c''] @ asc ''m'' # [asc ''o'']"
proof -
  have "(asc ''c'', asc ''m'') \<in> {(s, t). s \<in> wn_id ` set (wg_nodes join_graph) \<and>
      t \<in> wn_id ` set (wg_nodes join_graph) \<and>
      (\<exists>e \<in> set (wg_edges join_graph). we_source e = Some s \<and> we_target e = Some t)}"
    by (simp add: join_graph_def mk_node_def mk_edge_def)
  then have "(asc ''c'', asc ''m'') \<in> {(s, t). s \<in> wn_id ` set (wg_nodes join_graph) \<and>
      t \<in> wn_id ` set (wg_nodes join_graph) \<and>
      (\<exists>e \<in> set (wg_edges join_graph). we_source e = Some s \<and> we_target e = Some t)}\<^sup>+" by (rule r_into_trancl)
  moreover have eq: "topo_order (wg_nodes join_graph) (wg_edges join_graph) =
      [asc ''i'', asc ''c''] @ asc ''m'' # [asc ''o'']" by (simp add: join_order)
  ultimately show ?thesis
    using topological_order[of "wg_nodes join_graph" "wg_edges join_graph"] unfolding Let_def by blast
qed

section \<open>Execution\<close>

lemma find_filter: "filter P xs = [x] \<Longrightarrow> find P xs = Some x"
  by (induction xs) (auto split: if_splits)

lemma valid_input:
  assumes "valid_graph g"
  obtains n where "find (\<lambda>n. has_type n ''input'') (wg_nodes g) = Some n" "n \<in> set (wg_nodes g)"
    "has_type n ''input''" "\<And>m. m \<in> set (wg_nodes g) \<Longrightarrow> has_type m ''input'' \<Longrightarrow> m = n"
    "\<And>m. m \<in> set (wg_nodes g) \<Longrightarrow> (wn_id n, wn_id m) \<in> (edge_rel g)\<^sup>*"
proof -
  from assms obtain n where n: "filter (\<lambda>n. has_type n ''input'') (wg_nodes g) = [n]"
    "\<forall>m \<in> set (wg_nodes g). (wn_id n, wn_id m) \<in> (edge_rel g)\<^sup>*" by (auto simp: valid_graph_def)
  have mem: "m \<in> set (wg_nodes g) \<and> has_type m ''input'' \<longleftrightarrow> m = n" for m
    using arg_cong[OF n(1), of set] by auto
  have "find (\<lambda>n. has_type n ''input'') (wg_nodes g) = Some n"
    by (rule find_filter[OF n(1)])
  with that mem n(2) show thesis by blast
qed

lemma edge_rel_iff:
  assumes "valid_graph g"
  shows "(s, t) \<in> edge_rel g \<longleftrightarrow> (\<exists>e \<in> set (wg_edges g). we_source e = Some s \<and> we_target e = Some t)"
proof
  assume "(s, t) \<in> edge_rel g"
  then obtain e where e: "e \<in> set (wg_edges g)" "edge_pair e = (s, t)" by (auto simp: edge_rel_def)
  have "edge_ok (wg_nodes g) e" using assms e(1) by (simp add: valid_graph_def)
  from edge_ok_ends[OF this] e show "\<exists>e \<in> set (wg_edges g). we_source e = Some s \<and> we_target e = Some t"
    by (metis prod.inject)
next
  assume "\<exists>e \<in> set (wg_edges g). we_source e = Some s \<and> we_target e = Some t"
  then show "(s, t) \<in> edge_rel g" by (force simp: edge_rel_def edge_pair_def show_end_def)
qed

lemma valid_runs:
  assumes "valid_graph g"
  obtains n rs where "find (\<lambda>n. has_type n ''input'') (wg_nodes g) = Some n" "n \<in> set (wg_nodes g)"
    "\<And>m. m \<in> set (wg_nodes g) \<Longrightarrow> has_type m ''input'' \<longleftrightarrow> m = n"
    "run_inv g (wn_id n) (topo_order (wg_nodes g) (wg_edges g)) rs"
    "set (topo_order (wg_nodes g) (wg_edges g)) = wn_id ` set (wg_nodes g)"
    "execute_graph sv g run_input user env = Inr
       \<lparr>rr_status = (if rs_output_reached rs then asc ''done'' else asc ''failed''),
        rr_output = output_text (topo_order (wg_nodes g) (wg_edges g)) (rs_states rs),
        rr_states = rs_states rs, rr_error = rs_error rs, rr_warnings = rs_warnings rs\<rparr>"
proof -
  let ?nodes = "wg_nodes g"
  let ?order = "topo_order ?nodes (wg_edges g)"
  note V = assms[unfolded valid_graph_def]
  obtain n where n: "find (\<lambda>n. has_type n ''input'') ?nodes = Some n" "n \<in> set ?nodes"
    "has_type n ''input''" "\<And>m. m \<in> set ?nodes \<Longrightarrow> has_type m ''input'' \<Longrightarrow> m = n"
    by (rule valid_input[OF assms]) blast
  have es: "set (known_edges (map wn_id ?nodes) (wg_edges g)) = edge_rel g"
    by (rule valid_edges) (use V in blast)
  have all: "set ?order = wn_id ` set ?nodes"
    using topo_complete_iff[of ?nodes "wg_edges g"] V by (simp add: es)
  have len: "length ?order = length ?nodes"
    using topo_length[of ?nodes "wg_edges g"] all V by simp
  have typed: "\<not> list_ex (\<lambda>n. wn_type n = None) ?nodes"
    using V by (auto simp: list_ex_iff node_ok_def)
  have dist: "distinct (map wn_id ?nodes)" using V by blast
  let ?rs0 = "\<lparr>rs_active = [wn_id n], rs_ctx = [], rs_states = map initial_state ?nodes,
     rs_warnings = [], rs_output_reached = False, rs_error = []\<rparr>"
  have ids0: "map ns_id (map initial_state ?nodes) = map wn_id ?nodes" by (simp add: initial_state_def)
  have get0: "get_row ns_id (wn_id m) (map initial_state ?nodes) = Some (initial_state m)" if "m \<in> set ?nodes" for m
  proof -
    have "distinct (map ns_id (map initial_state ?nodes))" unfolding ids0 by (rule dist)
    moreover have "initial_state m \<in> set (map initial_state ?nodes)" using that by simp
    moreover have "ns_id (initial_state m) = wn_id m" by (simp add: initial_state_def)
    ultimately show ?thesis by (metis get_row_distinct)
  qed
  have pend: "ns_status st = NPending" if "get_row ns_id k (map initial_state ?nodes) = Some st" for k st
    using get_row_in[OF that] by (auto simp: initial_state_def)
  have inv0: "run_inv g (wn_id n) [] ?rs0"
    unfolding run_inv_def run_state.select_convs
    using get0 pend ids0
    by (auto simp: fires_def initial_state_def[of m for m] split: option.splits)
  have "\<exists>rs. run_nodes sv g run_input user env ?order ?rs0 = Inr rs \<and> run_inv g (wn_id n) ([] @ ?order) rs"
  proof (rule run_nodes_inv[OF inv0 assms])
    show "distinct ([] @ ?order)" using topo_facts(1) by simp
    show "set ?order \<subseteq> wn_id ` set ?nodes" using all by simp
    show "s \<in> set [] \<union> set xs" if "?order = xs @ t # ys" "e \<in> set (wg_edges g)" "we_source e = Some s"
      "we_target e = Some t" for xs t ys e s
    proof -
      have "(s, t) \<in> set (known_edges (map wn_id ?nodes) (wg_edges g))"
        unfolding es edge_rel_iff[OF assms] using that by blast
      with topo_facts(3)[of ?nodes "wg_edges g"] that(1) show ?thesis unfolding in_order_def by blast
    qed
  qed simp
  then obtain rs where rs: "run_nodes sv g run_input user env ?order ?rs0 = Inr rs"
    "run_inv g (wn_id n) ?order rs" by auto
  have "execute_graph sv g run_input user env = Inr
       \<lparr>rr_status = (if rs_output_reached rs then asc ''done'' else asc ''failed''),
        rr_output = output_text ?order (rs_states rs),
        rr_states = rs_states rs, rr_error = rs_error rs, rr_warnings = rs_warnings rs\<rparr>"
    using len typed n(1) rs(1) by (simp add: execute_graph_def Let_def)
  from that[OF n(1,2) _ rs(2) all this] n(3,4) show thesis by blast
qed

text \<open>C4: Running a valid graph never raises and is never rejected, whatever the services return, fail
  with or time out at: every node ends as done, error or skipped; a node is skipped exactly when it is
  not the input and no edge into it fires, where an edge fires when its source is done and, behind a
  condition, its label is the branch taken; the run is done exactly when some output node is.\<close>

theorem run_of_valid_graph:
  assumes "valid_graph g"
  shows "\<exists>r. execute_graph sv g run_input user env = Inr r \<and>
    map ns_id (rr_states r) = map wn_id (wg_nodes g) \<and>
    (\<forall>n \<in> set (wg_nodes g). \<exists>st. get_row ns_id (wn_id n) (rr_states r) = Some st \<and>
       ns_type st = node_type n \<and> ns_status st \<in> {NDone, NError, NSkipped} \<and>
       (ns_status st = NSkipped \<longleftrightarrow> \<not> has_type n ''input'' \<and>
          \<not> (\<exists>e \<in> set (wg_edges g). we_target e = Some (wn_id n) \<and> fires g (rr_states r) e))) \<and>
    rr_status r = (if \<exists>st \<in> set (rr_states r). ns_type st = asc ''output'' \<and> ns_status st = NDone
                   then asc ''done'' else asc ''failed'')"
proof -
  obtain n rs where n: "n \<in> set (wg_nodes g)"
    "\<And>m. m \<in> set (wg_nodes g) \<Longrightarrow> has_type m ''input'' \<longleftrightarrow> m = n"
    "run_inv g (wn_id n) (topo_order (wg_nodes g) (wg_edges g)) rs"
    "set (topo_order (wg_nodes g) (wg_edges g)) = wn_id ` set (wg_nodes g)"
    "execute_graph sv g run_input user env = Inr
       \<lparr>rr_status = (if rs_output_reached rs then asc ''done'' else asc ''failed''),
        rr_output = output_text (topo_order (wg_nodes g) (wg_edges g)) (rs_states rs),
        rr_states = rs_states rs, rr_error = rs_error rs, rr_warnings = rs_warnings rs\<rparr>"
    by (rule valid_runs[OF assms, of sv run_input user env]) blast
  note I = n(3)[unfolded run_inv_def]
  have dist: "distinct (map wn_id (wg_nodes g))" using assms by (simp add: valid_graph_def)
  have eq: "wn_id m = wn_id n \<longleftrightarrow> has_type m ''input''" if "m \<in> set (wg_nodes g)" for m
    using n(1,2) that dist by (auto simp: distinct_map inj_on_def)
  have row: "\<exists>st. get_row ns_id (wn_id m) (rs_states rs) = Some st \<and>
       ns_type st = node_type m \<and> ns_status st \<in> {NDone, NError, NSkipped} \<and>
       (ns_status st = NSkipped \<longleftrightarrow> \<not> has_type m ''input'' \<and>
          \<not> (\<exists>e \<in> set (wg_edges g). we_target e = Some (wn_id m) \<and> fires g (rs_states rs) e))"
    if m: "m \<in> set (wg_nodes g)" for m
  proof -
    have "wn_id m \<in> set (topo_order (wg_nodes g) (wg_edges g))" using n(4) m by simp
    with I m obtain st where "get_row ns_id (wn_id m) (rs_states rs) = Some st" "ns_type st = node_type m"
      "settled st" "ns_status st = NSkipped \<longleftrightarrow> wn_id m \<notin> set (rs_active rs)" by auto
    then show ?thesis using I eq[OF m] by (auto simp: settled_def)
  qed
  obtain r where r: "execute_graph sv g run_input user env = Inr r" "rr_states r = rs_states rs"
    "rr_status r = (if rs_output_reached rs then asc ''done'' else asc ''failed'')"
    using n(5) by simp
  show ?thesis
  proof (intro exI[of _ r] conjI)
    show "execute_graph sv g run_input user env = Inr r" by (rule r(1))
    show "map ns_id (rr_states r) = map wn_id (wg_nodes g)" unfolding r using I by blast
    show "rr_status r = (if \<exists>st \<in> set (rr_states r). ns_type st = asc ''output'' \<and> ns_status st = NDone
                   then asc ''done'' else asc ''failed'')" unfolding r using I by presburger
  qed (use row in \<open>unfold r, blast\<close>)
qed

theorem run_of_valid_graph_witness:
  "\<exists>r. execute_graph null_services join_graph \<lparr>ri_query = [], ri_vars = []\<rparr> no_user quiet_env = Inr r \<and>
    map ns_id (rr_states r) = [asc ''i'', asc ''c'', asc ''m'', asc ''o'']"
proof -
  have "valid_graph join_graph" using join_valid by (simp add: validate_iff)
  from run_of_valid_graph[OF this, of null_services "\<lparr>ri_query = [], ri_vars = []\<rparr>" no_user quiet_env] obtain r where
    "execute_graph null_services join_graph \<lparr>ri_query = [], ri_vars = []\<rparr> no_user quiet_env = Inr r"
    "map ns_id (rr_states r) = map wn_id (wg_nodes join_graph)" by blast
  moreover have "map wn_id (wg_nodes join_graph) = [asc ''i'', asc ''c'', asc ''m'', asc ''o'']"
    by (simp add: join_graph_def mk_node_def)
  ultimately show ?thesis by metis
qed

section \<open>What a node sees and what a run returns\<close>

lemmas run_eval = execute_graph_def run_node_def initial_state_def node_type_def set_state_def
  over_budget_def quiet_env_def upstream_value_def node_outcome_def exec_node_def fail_node_def
  finish_node_def node_ms_def activated_def exec_input_def exec_condition_def exec_output_def
  interpolate_def stringify_def record_warnings_def capped_def cap_value_def warn_json_def as_text_def
  STORE_MAX_def RUN_BUDGET_S_def seconds_def

lemma interp_x: "interp ctx (asc ''x'') = (asc ''x'', [])"
  by (simp add: asc_def interp.simps(2) match_var_def)

text \<open>The engine hands a node the output of the source of its first incoming edge, whether or not
  that source ran: where two branches of a condition join in an output node and the branch drawn second
  is taken, the run is done with an empty answer, although the condition that activated the output
  produced the query as its value.\<close>

theorem joined_branch_loses_answer:
  assumes "\<not> py_in (asc ''x'') q" and "q \<noteq> []" and "length q \<le> 4000"
  shows "\<exists>r st. execute_graph null_services join_graph \<lparr>ri_query = q, ri_vars = []\<rparr> no_user quiet_env = Inr r \<and>
    rr_status r = asc ''done'' \<and> rr_output r = [] \<and>
    get_row ns_id (asc ''c'') (rr_states r) = Some st \<and> ns_status st = NDone \<and>
    map_option (\<lambda>rec. map_of rec (asc ''value'')) (ns_output st) = Some (Some (JStr q))"
  using assms join_order
  by (simp add: run_eval join_graph_def graph_eval interp_x Let_def output_text_def)

theorem joined_branch_loses_answer_witness:
  "\<exists>r. execute_graph null_services join_graph \<lparr>ri_query = asc ''hello'', ri_vars = []\<rparr> no_user quiet_env = Inr r \<and>
    rr_status r = asc ''done'' \<and> rr_output r = []"
proof -
  have "\<not> py_in (asc ''x'') (asc ''hello'')" "asc ''hello'' \<noteq> []" "length (asc ''hello'') \<le> 4000"
    by (simp_all add: asc_def)
  from joined_branch_loses_answer[OF this] show ?thesis by blast
qed

text \<open>The answer of a run is cut like the stored node states: a graph that echoes its query returns
  queries up to 4000 characters as they are, and of a longer one the first 4000 characters followed by a
  remark about the cut.\<close>

theorem answer_is_cut:
  "\<exists>r. execute_graph null_services echo_graph \<lparr>ri_query = q, ri_vars = []\<rparr> no_user quiet_env = Inr r \<and>
    rr_status r = asc ''done'' \<and>
    rr_output r = (if 4000 < length q then take 4000 q @ ([0x2026] @ asc ''('' @ [0x622a, 0x65ad] @ asc '','' @ [0x5171]) @ dec_nat (length q) @ [41] else q)"
  using echo_order
  by (cases "q = []") (simp_all add: run_eval echo_graph_def graph_eval Let_def output_text_def)

lemma match_var_brace: "c \<noteq> 123 \<Longrightarrow> match_var (c # cs) = None"
  by (simp add: match_var_def)

lemma interp_plain:
  "123 \<notin> set pre \<Longrightarrow> interp ctx (pre @ s) = (let (t, w) = interp ctx s in (pre @ t, w))"
  by (induction pre) (auto simp: interp.simps(2) match_var_brace split: prod.splits)

lemma name_char_props: "name_char c \<Longrightarrow> \<not> py_isspace c \<and> c \<noteq> 46 \<and> c \<noteq> 125"
  by (auto simp: name_char_def py_isspace_def)

lemma match_var_ref:
  assumes "key \<noteq> []" "field \<noteq> []" "list_all name_char key" "list_all name_char field"
  shows "match_var ([123, 123] @ key @ [46] @ field @ [125, 125] @ post) = Some (key, field, post)"
proof -
  have nospace: "dropWhile py_isspace (xs @ ys) = xs @ ys" if "xs \<noteq> []" "list_all name_char xs" for xs ys
    using that name_char_props by (cases xs) auto
  have tw: "takeWhile name_char (xs @ c # ys) = xs" "dropWhile name_char (xs @ c # ys) = c # ys"
    if "list_all name_char xs" "\<not> name_char c" for xs c ys
    using that by (induction xs) auto
  have nc: "\<not> name_char 46" "\<not> name_char 125" "\<not> py_isspace 125"
    by (simp_all add: name_char_def py_isspace_def)
  show ?thesis
    using assms nospace[OF assms(1,3), of "46 # field @ 125 # 125 # post"]
      tw[OF assms(3) nc(1), of "field @ 125 # 125 # post"] tw[OF assms(4) nc(2), of "125 # post"] nc
    by (simp add: match_var_def Let_def)
qed

text \<open>Interpolation inserts a value verbatim and does not look at it again: a reference in double
  braces, after a text without braces, is replaced by the text of the field it names, even when that text
  contains references itself, and the rest of the template is interpolated independently.\<close>

theorem interpolation_is_not_repeated:
  assumes "123 \<notin> set pre" and "key \<noteq> []" "field \<noteq> []" "list_all name_char key" "list_all name_char field"
    and "map_of ctx key = Some rec" and "map_of rec field = Some (JStr v)"
  shows "interpolate (pre @ asc ''{{'' @ key @ asc ''.'' @ field @ asc ''}}'' @ post) ctx =
    (pre @ v @ fst (interpolate post ctx), snd (interpolate post ctx))"
proof -
  have lits: "asc ''{{'' = [123, 123]" "asc ''.'' = [46]" "asc ''}}'' = [125, 125]" by (simp_all add: asc_def)
  have "interp ctx ([123, 123] @ key @ [46] @ field @ [125, 125] @ post) =
      (v @ fst (interp ctx post), snd (interp ctx post))"
    using match_var_ref[OF assms(2-5), of post] assms(6,7)
    by (simp add: interp.simps(2) sub_var_def as_text_def split_beta)
  then show ?thesis unfolding interpolate_def lits interp_plain[OF assms(1)] by simp
qed

theorem interpolation_is_not_repeated_witness:
  "fst (interpolate (asc ''a '' @ asc ''{{'' @ asc ''n'' @ asc ''.'' @ asc ''t'' @ asc ''}}'' @ [])
     [(asc ''n'', [(asc ''t'', JStr (asc ''{{n.t}}''))])]) = asc ''a '' @ asc ''{{n.t}}''"
proof -
  have "123 \<notin> set (asc ''a '')" "asc ''n'' \<noteq> []" "asc ''t'' \<noteq> []" "list_all name_char (asc ''n'')"
    "list_all name_char (asc ''t'')" by (simp_all add: asc_def name_char_def)
  from interpolation_is_not_repeated[OF this, of "[(asc ''n'', [(asc ''t'', JStr (asc ''{{n.t}}''))])]"
      "[(asc ''t'', JStr (asc ''{{n.t}}''))]" "asc ''{{n.t}}''" "[]"]
  show ?thesis by (simp add: interpolate_def)
qed

lemma node_outcome_vars:
  "node_outcome sv env node (ri\<lparr>ri_vars := vs\<rparr>) ctx user up = node_outcome sv env node ri ctx user up"
  by (simp add: node_outcome_def exec_node_def exec_input_def split: option.splits)

lemma run_node_vars:
  "run_node sv g (ri\<lparr>ri_vars := vs\<rparr>) user env nid rs = run_node sv g ri user env nid rs"
  by (simp add: run_node_def node_outcome_vars split: option.splits sum.splits)

lemma run_nodes_vars:
  "run_nodes sv g (ri\<lparr>ri_vars := vs\<rparr>) user env nids rs = run_nodes sv g ri user env nids rs"
  by (induction nids arbitrary: rs) (simp_all add: run_node_vars split: sum.splits)

text \<open>The variables given with a run have no effect on it: runs that differ only in them have the
  same result for every graph, because the input node takes its variables from its own parameters.\<close>

theorem run_variables_are_ignored:
  "execute_graph sv g \<lparr>ri_query = q, ri_vars = vs\<rparr> user env = execute_graph sv g \<lparr>ri_query = q, ri_vars = ws\<rparr> user env"
proof -
  have eq: "run_nodes sv g \<lparr>ri_query = q, ri_vars = vs\<rparr> = run_nodes sv g \<lparr>ri_query = q, ri_vars = ws\<rparr>"
    using run_nodes_vars[where ri = "\<lparr>ri_query = q, ri_vars = ws\<rparr>" and vs = vs] by (intro ext) simp
  show ?thesis unfolding execute_graph_def eq ..
qed

end
