(* ===== verification/PyJson.thy ===== *)
theory PyJson
  imports PyText
begin

text \<open>
  \<open>json.loads\<close>: the decoder of the standard library on text, with the order of its tests: white
  space, strings with escapes and surrogate pairs, numbers, literals, arrays and objects, of
  which a repeated key keeps the last value. None stands for \<open>JSONDecodeError\<close>. A float is
  represented by its text. The nesting depth the interpreter's stack allows is not modelled.
\<close>

section \<open>Scanners\<close>

definition ws :: "pystr \<Rightarrow> pystr" where
  "ws s = dropWhile (\<lambda>c. c = 32 \<or> c = 9 \<or> c = 10 \<or> c = 13) s"

definition is_digit :: "nat \<Rightarrow> bool" where
  "is_digit c \<longleftrightarrow> 48 \<le> c \<and> c \<le> 57"

definition digits_value :: "pystr \<Rightarrow> int" where
  "digits_value ds = foldl (\<lambda>acc c. acc * 10 + (int c - 48)) 0 ds"

text \<open>The fraction and the exponent a number may go on with; the exponent's sign is optional.\<close>

definition frac_part :: "pystr \<Rightarrow> pystr" where
  "frac_part s = (case s of
     [] \<Rightarrow> []
   | c # cs \<Rightarrow> let ds = takeWhile is_digit cs in if c = 46 \<and> ds \<noteq> [] then 46 # ds else [])"

definition exp_part :: "pystr \<Rightarrow> pystr" where
  "exp_part s = (case s of
     [] \<Rightarrow> []
   | c # cs \<Rightarrow>
       let sign = (case cs of d # _ \<Rightarrow> if d = 43 \<or> d = 45 then [d] else [] | [] \<Rightarrow> []);
           ds = takeWhile is_digit (drop (length sign) cs)
       in if (c = 101 \<or> c = 69) \<and> ds \<noteq> [] then c # sign @ ds else [])"

definition jnumber :: "pystr \<Rightarrow> (json \<times> pystr) option" where
  "jnumber s =
     (let sign = (case s of c # _ \<Rightarrow> if c = 45 then [45] else [] | [] \<Rightarrow> []);
          s1 = drop (length sign) s;
          ds = takeWhile is_digit s1
      in case ds of
           [] \<Rightarrow> None
         | d # _ \<Rightarrow>
             let whole = (if d = 48 then [48] else ds);
                 s2 = drop (length whole) s1;
                 fr = frac_part s2;
                 ex = exp_part (drop (length fr) s2);
                 rest = drop (length fr + length ex) s2;
                 v = digits_value whole
             in if fr = [] \<and> ex = [] then Some (JInt (if sign = [] then v else - v), rest)
                else Some (JFloat (sign @ whole @ fr @ ex), rest))"

definition hex_value :: "nat \<Rightarrow> nat option" where
  "hex_value c =
     (if is_digit c then Some (c - 48)
      else if 97 \<le> c \<and> c \<le> 102 then Some (c - 87)
      else if 65 \<le> c \<and> c \<le> 70 then Some (c - 55) else None)"

definition hex4 :: "nat \<Rightarrow> nat \<Rightarrow> nat \<Rightarrow> nat \<Rightarrow> nat option" where
  "hex4 a b c d = (case (hex_value a, hex_value b, hex_value c, hex_value d) of
     (Some w, Some x, Some y, Some z) \<Rightarrow> Some (((w * 16 + x) * 16 + y) * 16 + z) | _ \<Rightarrow> None)"

definition escape_char :: "nat \<Rightarrow> nat option" where
  "escape_char e = map_of [(34, 34), (92, 92), (47, 47), (98, 8), (102, 12), (110, 10), (114, 13), (116, 9)] e"

text \<open>A low surrogate that follows a high one as a second escape.\<close>

definition low_surrogate :: "pystr \<Rightarrow> nat option" where
  "low_surrogate s = (case s of
     b # u # e # f # g # h # _ \<Rightarrow>
       if b = 92 \<and> u = 117 then
         (case hex4 e f g h of Some lo \<Rightarrow> if 0xDC00 \<le> lo \<and> lo \<le> 0xDFFF then Some lo else None | None \<Rightarrow> None)
       else None
   | _ \<Rightarrow> None)"

text \<open>The rest of a string after its opening quote.\<close>

function jstring :: "pystr \<Rightarrow> (pystr \<times> pystr) option" where
  "jstring [] = None"
| "jstring (c # cs) =
     (if c = 34 then Some ([], cs)
      else if c = 92 then
        (case cs of
           [] \<Rightarrow> None
         | e # cs1 \<Rightarrow>
             if e = 117 then
               (case cs1 of
                  w # x # y # z # cs2 \<Rightarrow>
                    (case hex4 w x y z of
                       None \<Rightarrow> None
                     | Some u \<Rightarrow>
                         (case (if 0xD800 \<le> u \<and> u \<le> 0xDBFF then low_surrogate cs2 else None) of
                            Some lo \<Rightarrow>
                              map_option (map_prod ((#) (0x10000 + (u - 0xD800) * 1024 + (lo - 0xDC00))) id)
                                (jstring (drop 6 cs2))
                          | None \<Rightarrow> map_option (map_prod ((#) u) id) (jstring cs2)))
                | _ \<Rightarrow> None)
             else
               (case escape_char e of
                  None \<Rightarrow> None
                | Some v \<Rightarrow> map_option (map_prod ((#) v) id) (jstring cs1)))
      else if c < 32 then None
      else map_option (map_prod ((#) c) id) (jstring cs))"
  by pat_completeness auto
termination
  by (relation "measure length") auto

fun starts :: "pystr \<Rightarrow> pystr \<Rightarrow> bool" where
  "starts [] s = True"
| "starts (p # ps) [] = False"
| "starts (p # ps) (c # cs) = (p = c \<and> starts ps cs)"

section \<open>Values\<close>

text \<open>The fuel bounds the number of values and members still to be read; the length of the text is enough.\<close>

fun jvalue :: "nat \<Rightarrow> pystr \<Rightarrow> (json \<times> pystr) option"
and jarray :: "nat \<Rightarrow> pystr \<Rightarrow> (json list \<times> pystr) option"
and jmembers :: "nat \<Rightarrow> pystr \<Rightarrow> (pystr \<times> json) list \<Rightarrow> ((pystr \<times> json) list \<times> pystr) option" where
  "jvalue 0 s = None"
| "jvalue (Suc n) s =
     (case s of
        [] \<Rightarrow> None
      | c # cs \<Rightarrow>
          if c = 34 then map_option (map_prod JStr id) (jstring cs)
          else if c = 91 then
            (case ws cs of
               [] \<Rightarrow> None
             | d # ds \<Rightarrow> if d = 93 then Some (JList [], ds) else map_option (map_prod JList id) (jarray n (d # ds)))
          else if c = 123 then
            (case ws cs of
               [] \<Rightarrow> None
             | d # ds \<Rightarrow> if d = 125 then Some (JObj [], ds) else map_option (map_prod JObj id) (jmembers n (d # ds) []))
          else if starts (asc ''null'') s then Some (JNull, drop 4 s)
          else if starts (asc ''true'') s then Some (JBool True, drop 4 s)
          else if starts (asc ''false'') s then Some (JBool False, drop 5 s)
          else if starts (asc ''NaN'') s then Some (JFloat (asc ''nan''), drop 3 s)
          else if starts (asc ''Infinity'') s then Some (JFloat (asc ''inf''), drop 8 s)
          else if starts (asc ''-Infinity'') s then Some (JFloat (asc ''-inf''), drop 9 s)
          else jnumber s)"
| "jarray 0 s = None"
| "jarray (Suc n) s =
     (case jvalue n s of
        None \<Rightarrow> None
      | Some (j, r) \<Rightarrow>
          (case ws r of
             [] \<Rightarrow> None
           | d # ds \<Rightarrow>
               if d = 93 then Some ([j], ds)
               else if d = 44 then map_option (map_prod ((#) j) id) (jarray n (ws ds))
               else None))"
| "jmembers 0 s acc = None"
| "jmembers (Suc n) s acc =
     (case s of
        [] \<Rightarrow> None
      | q # cs \<Rightarrow>
          if q \<noteq> 34 then None
          else (case jstring cs of
             None \<Rightarrow> None
           | Some (k, r) \<Rightarrow>
               (case ws r of
                  [] \<Rightarrow> None
                | d # ds \<Rightarrow>
                    if d \<noteq> 58 then None
                    else (case jvalue n (ws ds) of
                       None \<Rightarrow> None
                     | Some (j, r') \<Rightarrow>
                         (case ws r' of
                            [] \<Rightarrow> None
                          | e # es \<Rightarrow>
                              if e = 125 then Some (AList.update k j acc, es)
                              else if e = 44 then jmembers n (ws es) (AList.update k j acc)
                              else None)))))"

definition json_loads :: "pystr \<Rightarrow> json option" where
  "json_loads s = (case jvalue (Suc (length s)) (ws s) of
     Some (j, r) \<Rightarrow> if ws r = [] then Some j else None | None \<Rightarrow> None)"

section \<open>str of a value that was read\<close>

text \<open>
  \<open>repr\<close> and \<open>str\<close> of the Python value of a document; of the characters that are not printable
  only the common controls are escaped.
\<close>

definition repr_str :: "pystr \<Rightarrow> pystr" where
  "repr_str s =
     (let q = (if 39 \<in> set s \<and> 34 \<notin> set s then 34 else 39)
      in [q] @ concat (map (\<lambda>c.
           if c = q \<or> c = 92 then [92, c] else if c = 10 then [92, 110] else if c = 13 then [92, 114]
           else if c = 9 then [92, 116] else [c]) s) @ [q])"

fun py_repr :: "json \<Rightarrow> pystr" and repr_items :: "(pystr \<times> json) list \<Rightarrow> pystr list" where
  "py_repr JNull = asc ''None''"
| "py_repr (JBool b) = (if b then asc ''True'' else asc ''False'')"
| "py_repr (JInt i) = py_str_int i"
| "py_repr (JFloat s) = s"
| "py_repr (JStr s) = repr_str s"
| "py_repr (JList js) = [91] @ py_join (asc '', '') (map py_repr js) @ [93]"
| "py_repr (JObj kvs) = [123] @ py_join (asc '', '') (repr_items kvs) @ [125]"
| "repr_items [] = []"
| "repr_items ((k, v) # kvs) = (repr_str k @ asc '': '' @ py_repr v) # repr_items kvs"

definition py_str :: "json \<Rightarrow> pystr" where
  "py_str v = (case v of JStr s \<Rightarrow> s | _ \<Rightarrow> py_repr v)"

section \<open>Reading back what json.dumps wrote\<close>

lemma hex_digit_value: "n < 16 \<Longrightarrow> hex_value (hex_digit n) = Some n"
  by (auto simp: hex_value_def hex_digit_def is_digit_def)

lemma hex_value_zero: "hex_value 48 = Some 0"
  by (simp add: hex_value_def is_digit_def)

lemma jstring_char:
  "jstring (json_char c @ r) = map_option (map_prod ((#) c) id) (jstring r)"
proof (cases "c < 32 \<and> c \<notin> {8, 9, 10, 12, 13}")
  case True
  then have c: "json_char c = [92, 117, 48, 48, hex_digit (c div 16), hex_digit (c mod 16)]"
    by (simp add: json_char_def asc_def)
  have "hex4 48 48 (hex_digit (c div 16)) (hex_digit (c mod 16)) = Some c"
  proof -
    have "c div 16 < 16" using True by auto
    then show ?thesis by (simp add: hex4_def hex_digit_value hex_value_zero)
  qed
  with True show ?thesis by (simp add: c low_surrogate_def)
next
  case False
  then show ?thesis by (auto simp: json_char_def escape_char_def asc_def)
qed

lemma jstring_text: "jstring (concat (map json_char s) @ 34 # r) = Some (s, r)"
proof (induction s)
  case (Cons c s)
  then show ?case by (simp only: list.map concat.simps append_assoc jstring_char) simp
qed simp

definition ends_number :: "pystr \<Rightarrow> bool" where
  "ends_number r \<longleftrightarrow> (case r of [] \<Rightarrow> True | c # _ \<Rightarrow> \<not> is_digit c \<and> c \<notin> {46, 69, 101})"

lemma digits_value_snoc: "digits_value (ds @ [c]) = digits_value ds * 10 + (int c - 48)"
  by (simp add: digits_value_def)

lemma dec_nat_value: "digits_value (dec_nat n) = int n"
proof (induction n rule: dec_nat.induct)
  case (1 n)
  show ?case
  proof (cases "n < 10")
    case True
    then show ?thesis by (simp add: dec_nat.simps[of n] digits_value_def)
  next
    case False
    with 1 have "digits_value (dec_nat n) = int (n div 10) * 10 + (int (48 + n mod 10) - 48)"
      by (simp add: dec_nat.simps[of n] digits_value_snoc)
    also have "\<dots> = int (n div 10 * 10 + n mod 10)" by (simp only: of_nat_add of_nat_mult of_nat_numeral)
    finally show ?thesis by (simp only: div_mult_mod_eq)
  qed
qed

lemma dec_nat_is_digit: "c \<in> set (dec_nat n) \<Longrightarrow> is_digit c"
  by (auto simp: is_digit_def dest: dec_nat_digits)

lemma dec_nat_hd: "hd (dec_nat n) = 48 \<Longrightarrow> dec_nat n = [48]"
proof (induction n rule: dec_nat.induct)
  case (1 n)
  show ?case
  proof (cases "n < 10")
    case True
    with "1.prems" show ?thesis by (simp add: dec_nat.simps[of n] dec_nat.simps[of 0])
  next
    case False
    with "1.prems" have hd: "hd (dec_nat (n div 10)) = 48" by (simp add: dec_nat.simps[of n])
    from "1.IH"[OF False hd] have "digits_value [48] = int (n div 10)" by (metis dec_nat_value)
    then have "n div 10 = 0" by (simp add: digits_value_def)
    with False have False by simp
    then show ?thesis ..
  qed
qed

lemma take_digits:
  "ends_number r \<Longrightarrow> (\<And>c. c \<in> set ds \<Longrightarrow> is_digit c) \<Longrightarrow> takeWhile is_digit (ds @ r) = ds"
  by (induction ds) (auto simp: ends_number_def takeWhile_eq_Nil_iff split: list.splits)

lemma jnumber_int:
  assumes "ends_number r"
  shows "jnumber (py_str_int i @ r) = Some (JInt i, r)"
proof -
  define m where "m = (if i < 0 then nat (- i) else nat i)"
  define sign where "sign = (if i < 0 then [45::nat] else [])"
  obtain d ds where m: "dec_nat m = d # ds" by (cases "dec_nat m") simp_all
  have shape: "py_str_int i @ r = sign @ dec_nat m @ r" by (simp add: py_str_int_def m_def sign_def)
  have dig: "is_digit d" using dec_nat_is_digit[of d m] by (simp add: m)
  then have d45: "d \<noteq> 45" by (auto simp: is_digit_def)
  have sign': "(case py_str_int i @ r of c # _ \<Rightarrow> if c = 45 then [45] else [] | [] \<Rightarrow> []) = sign"
    using d45 by (simp add: shape sign_def m)
  have whole: "(if d = 48 then [48] else dec_nat m) = dec_nat m"
    using dec_nat_hd[of m] by (auto simp: m)
  have tw: "takeWhile is_digit (dec_nat m @ r) = dec_nat m"
    by (rule take_digits[OF assms]) (rule dec_nat_is_digit)
  have fr: "frac_part r = []" "exp_part r = []"
    using assms by (auto simp: ends_number_def frac_part_def exp_part_def Let_def split: list.splits)
  have drop: "drop (length sign) (py_str_int i @ r) = dec_nat m @ r" by (simp add: shape)
  have "jnumber (py_str_int i @ r) =
      Some (JInt (if sign = [] then digits_value (dec_nat m) else - digits_value (dec_nat m)), r)"
    unfolding jnumber_def Let_def sign' drop tw using whole fr by (simp add: m)
  then show ?thesis by (simp add: dec_nat_value sign_def m_def)
qed

fun no_floats :: "json \<Rightarrow> bool" where
  "no_floats (JFloat s) = False"
| "no_floats (JList js) = list_all no_floats js"
| "no_floats (JObj kvs) = list_all (\<lambda>(k, j). no_floats j) kvs"
| "no_floats _ = True"

fun jfuel :: "json \<Rightarrow> nat" where
  "jfuel (JList js) = Suc (sum_list (map (\<lambda>j. Suc (jfuel j)) js))"
| "jfuel (JObj kvs) = Suc (sum_list (map (\<lambda>(k, j). Suc (jfuel j)) kvs))"
| "jfuel _ = 1"

lemma ws_head: "\<not> (c = 32 \<or> c = 9 \<or> c = 10 \<or> c = 13) \<Longrightarrow> ws (c # s) = c # s"
  by (simp add: ws_def)

lemma ws_space: "ws (32 # s) = ws s"
  by (simp add: ws_def)

definition opens_value :: "nat \<Rightarrow> bool" where
  "opens_value c \<longleftrightarrow> c \<notin> {9, 10, 13, 32, 93, 125}"

lemma json_text_opens:
  "no_floats j \<Longrightarrow> \<exists>c cs. json_text j = c # cs \<and> opens_value c"
proof (cases j)
  case (JInt i)
  obtain d ds where d: "dec_nat (nat i) = d # ds" by (cases "dec_nat (nat i)") simp_all
  have "is_digit d" using dec_nat_is_digit[of d "nat i"] by (simp add: d)
  with d JInt show ?thesis by (auto simp: py_str_int_def opens_value_def is_digit_def)
qed (auto simp: opens_value_def json_string_def asc_def)

lemma ws_json_text: "no_floats j \<Longrightarrow> ws (json_text j @ r) = json_text j @ r"
  using json_text_opens[of j] by (auto simp: ws_head opens_value_def)

lemma json_sep: "asc '', '' = [44, 32]" "asc '': '' = [58, 32]"
  by (simp_all add: asc_def)

lemma jarray_items:
  assumes "\<And>j n r. j \<in> set js \<Longrightarrow> jfuel j \<le> n \<Longrightarrow> ends_number r \<Longrightarrow> jvalue n (json_text j @ r) = Some (j, r)"
    and "list_all no_floats js" and "js \<noteq> []" and "sum_list (map (\<lambda>j. Suc (jfuel j)) js) \<le> n"
  shows "jarray n (py_join (asc '', '') (map json_text js) @ 93 # r) = Some (js, r)"
  using assms
proof (induction js arbitrary: n)
  case (Cons j js)
  obtain m where n: "n = Suc m" "jfuel j \<le> m" "sum_list (map (\<lambda>j. Suc (jfuel j)) js) \<le> m"
    using Cons.prems(4) by (cases n) auto
  have val: "jvalue m (json_text j @ x) = Some (j, x)" if "ends_number x" for x
    using Cons.prems(1)[OF _ n(2) that] by simp
  show ?case
  proof (cases js)
    case Nil
    then show ?thesis using val[of "93 # r"] by (simp add: n(1) ends_number_def is_digit_def ws_head)
  next
    case (Cons j' js')
    have "jarray m (py_join (asc '', '') (map json_text js) @ 93 # r) = Some (js, r)"
      using Cons.IH[of m] Cons.prems n(3) Cons by simp
    moreover have "ws (py_join (asc '', '') (map json_text js) @ 93 # r) = py_join (asc '', '') (map json_text js) @ 93 # r"
      using Cons Cons.prems(2) by (simp add: py_join_Cons ws_json_text)
    ultimately show ?thesis
      using val[of "44 # 32 # py_join (asc '', '') (map json_text js) @ 93 # r"] Cons
      by (simp add: n(1) py_join_Cons json_sep ends_number_def is_digit_def ws_head ws_space)
  qed
qed simp

lemma jmembers_items:
  assumes "\<And>k j n r. (k, j) \<in> set kvs \<Longrightarrow> jfuel j \<le> n \<Longrightarrow> ends_number r \<Longrightarrow> jvalue n (json_text j @ r) = Some (j, r)"
    and "list_all (\<lambda>(k, j). no_floats j) kvs" and "kvs \<noteq> []"
    and "sum_list (map (\<lambda>(k, j). Suc (jfuel j)) kvs) \<le> n" and "distinct (map fst (acc @ kvs))"
  shows "jmembers n (py_join (asc '', '') (json_items kvs) @ 125 # r) acc = Some (acc @ kvs, r)"
  using assms
proof (induction kvs arbitrary: n acc)
  case (Cons p kvs)
  obtain k j where p: "p = (k, j)" by (cases p)
  obtain m where n: "n = Suc m" "jfuel j \<le> m" "sum_list (map (\<lambda>(k, j). Suc (jfuel j)) kvs) \<le> m"
    using Cons.prems(4) by (cases n) (auto simp: p)
  have j: "no_floats j" using Cons.prems(2) by (simp add: p)
  have val: "jvalue m (json_text j @ x) = Some (j, x)" if "ends_number x" for x
    using Cons.prems(1)[of k j, OF _ n(2) that] by (simp add: p)
  have acc: "AList.update k j acc = acc @ [(k, j)]"
    using Cons.prems(5) by (intro update_append_new) (auto simp: p)
  have str: "json_string k @ x = 34 # concat (map json_char k) @ 34 # x" for x
    by (simp add: json_string_def)
  show ?case
  proof (cases kvs)
    case Nil
    then show ?thesis using val[of "125 # r"] ws_json_text[OF j, of "125 # r"]
      by (simp add: n(1) p str jstring_text json_sep acc ends_number_def is_digit_def ws_head ws_space)
  next
    case (Cons q kvs')
    obtain k' j' where q: "q = (k', j')" by (cases q)
    have "jmembers m (py_join (asc '', '') (json_items kvs) @ 125 # r) (acc @ [(k, j)]) = Some ((acc @ [(k, j)]) @ kvs, r)"
    proof (rule Cons.IH)
      show "jvalue n (json_text j @ r) = Some (j, r)"
        if "(k, j) \<in> set kvs" "jfuel j \<le> n" "ends_number r" for k j n r
        using Cons.prems(1)[of k j n r] that by simp
    qed (use Cons.prems n(3) Cons in \<open>auto simp: p\<close>)
    moreover have "ws (py_join (asc '', '') (json_items kvs) @ 125 # r) = py_join (asc '', '') (json_items kvs) @ 125 # r"
      by (simp add: Cons q py_join_Cons json_string_def ws_head)
    moreover have "json_items kvs \<noteq> []" by (simp add: Cons q)
    ultimately show ?thesis
      using val[of "44 # 32 # py_join (asc '', '') (json_items kvs) @ 125 # r"]
        ws_json_text[OF j, of "44 # 32 # py_join (asc '', '') (json_items kvs) @ 125 # r"]
      by (simp add: n(1) p str py_join_Cons jstring_text json_sep acc ends_number_def is_digit_def ws_head ws_space)
  qed
qed simp

lemma jvalue_int: "ends_number r \<Longrightarrow> jvalue (Suc n) (py_str_int i @ r) = Some (JInt i, r)"
proof -
  assume r: "ends_number r"
  obtain d ds where d: "dec_nat (if i < 0 then nat (- i) else nat i) = d # ds"
    by (cases "dec_nat (if i < 0 then nat (- i) else nat i)") simp_all
  have dig: "is_digit d" using dec_nat_is_digit[of d "if i < 0 then nat (- i) else nat i"] by (simp add: d)
  show ?thesis
  proof (cases "i < 0")
    case True
    then have "py_str_int i = 45 # d # ds" using d by (simp add: py_str_int_def)
    with jnumber_int[OF r, of i] dig show ?thesis by (auto simp: asc_def is_digit_def)
  next
    case False
    then have "py_str_int i = d # ds" using d by (simp add: py_str_int_def)
    with jnumber_int[OF r, of i] dig show ?thesis by (auto simp: asc_def is_digit_def)
  qed
qed

lemma jvalue_text:
  "no_floats j \<Longrightarrow> wf_json j \<Longrightarrow> jfuel j \<le> n \<Longrightarrow> ends_number r \<Longrightarrow> jvalue n (json_text j @ r) = Some (j, r)"
proof (induction j arbitrary: n r)
  case JNull
  then show ?case by (cases n) (auto simp: asc_def)
next
  case (JBool b)
  then show ?case by (cases n) (auto simp: asc_def)
next
  case (JInt i)
  then show ?case by (cases n) (simp_all add: jvalue_int del: jvalue.simps(2))
next
  case (JStr s)
  then show ?case by (cases n) (simp_all add: json_string_def jstring_text)
next
  case (JList js)
  then obtain m where n: "n = Suc m" "sum_list (map (\<lambda>j. Suc (jfuel j)) js) \<le> m" by (cases n) auto
  show ?case
  proof (cases js)
    case Nil
    then show ?thesis by (simp add: n(1) ws_head)
  next
    case (Cons j js')
    have "jarray m (py_join (asc '', '') (map json_text js) @ 93 # r) = Some (js, r)"
      using JList n(2) Cons by (intro jarray_items) (auto simp: list_all_iff)
    moreover obtain c cs where "json_text j = c # cs" "opens_value c"
      using json_text_opens[of j] JList.prems(1) Cons by auto
    ultimately show ?thesis by (simp add: n(1) Cons py_join_Cons ws_head opens_value_def)
  qed
next
  case (JObj kvs)
  then obtain m where n: "n = Suc m" "sum_list (map (\<lambda>(k, j). Suc (jfuel j)) kvs) \<le> m" by (cases n) auto
  show ?case
  proof (cases kvs)
    case Nil
    then show ?thesis by (simp add: n(1) ws_head)
  next
    case (Cons q kvs')
    obtain k j where q: "q = (k, j)" by (cases q)
    have "jmembers m (py_join (asc '', '') (json_items kvs) @ 125 # r) [] = Some ([] @ kvs, r)"
    proof (rule jmembers_items)
      show "jvalue n (json_text j @ r) = Some (j, r)"
        if "(k, j) \<in> set kvs" "jfuel j \<le> n" "ends_number r" for k j n r
        using JObj.IH[of "(k, j)" j n r] JObj.prems that by (auto simp: list_all_iff)
    qed (use JObj.prems n(2) Cons in auto)
    moreover have "py_join (asc '', '') (json_items kvs) = 34 # concat (map json_char k) @ 34 # 58 # 32 # json_text j @
        (if json_items kvs' = [] then [] else asc '', '' @ py_join (asc '', '') (json_items kvs'))"
      by (simp add: Cons q py_join_Cons json_string_def json_sep)
    ultimately show ?thesis by (simp add: n(1) ws_head)
  qed
qed simp

lemma length_py_join: "ss \<noteq> [] \<Longrightarrow> length (py_join sep ss) + length sep = sum_list (map (\<lambda>s. length s + length sep) ss)"
  by (induction ss) (auto simp: py_join_Cons)

lemma items_length:
  assumes "\<And>x. x \<in> set xs \<Longrightarrow> f x \<le> length (g x)"
  shows "Suc (sum_list (map (\<lambda>x. Suc (f x)) xs)) \<le> Suc (Suc (length (py_join (asc '', '') (map g xs))))"
proof (cases xs)
  case (Cons x ys)
  have "sum_list (map (\<lambda>x. Suc (f x)) xs) \<le> sum_list (map (\<lambda>x. Suc (length (g x))) xs)"
    using assms by (intro sum_list_mono) auto
  also have "\<dots> + length xs = length (py_join (asc '', '') (map g xs)) + 2"
    using length_py_join[of "map g xs" "asc '', ''"] Cons
    by (simp add: json_sep comp_def sum_list_Suc)
  finally show ?thesis using Cons by simp
qed simp

lemma jfuel_length: "no_floats j \<Longrightarrow> jfuel j \<le> length (json_text j)"
proof (induction j)
  case (JList js)
  then show ?case using items_length[of js jfuel json_text] by (auto simp: list_all_iff)
next
  case (JObj kvs)
  have items: "json_items kvs = map (\<lambda>p. json_string (fst p) @ asc '': '' @ json_text (snd p)) kvs"
    by (induction kvs) auto
  have "jfuel (snd p) \<le> length (json_string (fst p) @ asc '': '' @ json_text (snd p))" if "p \<in> set kvs" for p
    using JObj.IH[OF that, of "snd p"] JObj.prems that by (cases p) (force simp: list_all_iff)
  from items_length[of kvs "\<lambda>p. jfuel (snd p)" "\<lambda>p. json_string (fst p) @ asc '': '' @ json_text (snd p)", OF this]
  show ?case by (simp add: items split_def)
qed (auto simp: asc_def json_string_def py_str_int_def Suc_le_eq)

lemma json_loads_text: "no_floats j \<Longrightarrow> wf_json j \<Longrightarrow> json_loads (json_text j) = Some j"
  using jvalue_text[of j "Suc (length (json_text j))" "[]"] jfuel_length[of j] ws_json_text[of j "[]"]
  by (simp add: json_loads_def ends_number_def ws_def)

end
