(* ===== verification/PyRe.thy ===== *)
theory PyRe
  imports PyJson
begin

text \<open>
  The regular expressions of the sources. A pattern is matched by backtracking: \<open>re_match r s\<close>
  lists what may be left of \<open>s\<close> after \<open>r\<close>, in the order in which Python's engine tries it, so
  that the first element is what \<open>re.match\<close> leaves. The sources repeat character classes only.
\<close>

section \<open>Patterns\<close>

type_synonym char_class = "(nat \<times> nat) list"

definition in_class :: "char_class \<Rightarrow> nat \<Rightarrow> bool" where
  "in_class rs c \<longleftrightarrow> list_ex (\<lambda>(a, b). a \<le> c \<and> c \<le> b) rs"

datatype re = Eps | Cls char_class | Cat re re | Alt re re | Star char_class | Opt re

fun re_star :: "char_class \<Rightarrow> pystr \<Rightarrow> pystr list" where
  "re_star rs [] = [[]]"
| "re_star rs (c # cs) = (if in_class rs c then re_star rs cs @ [c # cs] else [c # cs])"

fun re_match :: "re \<Rightarrow> pystr \<Rightarrow> pystr list" where
  "re_match Eps s = [s]"
| "re_match (Cls rs) s = (case s of [] \<Rightarrow> [] | c # cs \<Rightarrow> if in_class rs c then [cs] else [])"
| "re_match (Cat a b) s = concat (map (re_match b) (re_match a s))"
| "re_match (Alt a b) s = re_match a s @ re_match b s"
| "re_match (Star rs) s = re_star rs s"
| "re_match (Opt a) s = re_match a s @ [s]"

definition chr :: "nat \<Rightarrow> re" where
  "chr c = Cls [(c, c)]"

definition one_of :: "nat list \<Rightarrow> re" where
  "one_of cs = Cls (map (\<lambda>c. (c, c)) cs)"

definition lit :: "pystr \<Rightarrow> re" where
  "lit s = foldr (\<lambda>c. Cat (chr c)) s Eps"

text \<open>One of several words; the list is not empty.\<close>

fun words :: "pystr list \<Rightarrow> re" where
  "words [] = Cls []"
| "words [w] = lit w"
| "words (w # v # vs) = Alt (lit w) (words (v # vs))"

definition plus :: "char_class \<Rightarrow> re" where
  "plus rs = Cat (Cls rs) (Star rs)"

text \<open>\<open>\s\<close> and \<open>\d\<close> on text: white space, and the decimal digits of Unicode in blocks of ten.\<close>

definition SPACE :: char_class where
  "SPACE = [(9, 13), (28, 32), (0x85, 0x85), (0xA0, 0xA0), (0x1680, 0x1680), (0x2000, 0x200A),
     (0x2028, 0x2029), (0x202F, 0x202F), (0x205F, 0x205F), (0x3000, 0x3000)]"

definition DIGIT :: char_class where
  "DIGIT = map (\<lambda>c. (c, c + 9)) [0x30, 0x660, 0x6f0, 0x7c0, 0x966, 0x9e6, 0xa66, 0xae6, 0xb66, 0xbe6,
     0xc66, 0xce6, 0xd66, 0xde6, 0xe50, 0xed0, 0xf20, 0x1040, 0x1090, 0x17e0, 0x1810, 0x1946,
     0x19d0, 0x1a80, 0x1a90, 0x1b50, 0x1bb0, 0x1c40, 0x1c50, 0xa620, 0xa8d0, 0xa900, 0xa9d0,
     0xa9f0, 0xaa50, 0xabf0, 0xff10, 0x104a0, 0x10d30, 0x11066, 0x110f0, 0x11136, 0x111d0,
     0x112f0, 0x11450, 0x114d0, 0x11650, 0x116c0, 0x11730, 0x118e0, 0x11950, 0x11c50, 0x11d50,
     0x11da0, 0x16a60, 0x16ac0, 0x16b50, 0x1d7ce, 0x1d7d8, 0x1d7e2, 0x1d7ec, 0x1d7f6, 0x1e140,
     0x1e2f0, 0x1e950, 0x1fbf0]"

definition spaces :: re where
  "spaces = Star SPACE"

section \<open>The functions of the module re\<close>

text \<open>\<open>re.match(r, s)\<close> as a test, and \<open>re.match(r + "$", s)\<close>, which also stops before a final newline.\<close>

definition re_matches :: "re \<Rightarrow> pystr \<Rightarrow> bool" where
  "re_matches r s \<longleftrightarrow> re_match r s \<noteq> []"

definition re_matches_end :: "re \<Rightarrow> pystr \<Rightarrow> bool" where
  "re_matches_end r s \<longleftrightarrow> list_ex (\<lambda>rest. rest = [] \<or> rest = [10]) (re_match r s)"

text \<open>\<open>re.sub(r"^" + r, "", s)\<close>.\<close>

definition re_drop :: "re \<Rightarrow> pystr \<Rightarrow> pystr" where
  "re_drop r s = (case re_match r s of [] \<Rightarrow> s | rest # _ \<Rightarrow> rest)"

text \<open>\<open>re.search(r + r"(.+)", s)\<close>: the text of the group at the leftmost place.\<close>

fun first_line :: "pystr list \<Rightarrow> pystr option" where
  "first_line [] = None"
| "first_line (rest # rests) =
     (let g = takeWhile (\<lambda>c. c \<noteq> 10) rest in if g = [] then first_line rests else Some g)"

fun re_search_line :: "re \<Rightarrow> pystr \<Rightarrow> pystr option" where
  "re_search_line r [] = first_line (re_match r [])"
| "re_search_line r (c # cs) =
     (case first_line (re_match r (c # cs)) of Some g \<Rightarrow> Some g | None \<Rightarrow> re_search_line r cs)"

section \<open>str.splitlines\<close>

definition line_break :: "nat \<Rightarrow> bool" where
  "line_break c \<longleftrightarrow> c \<in> {10, 11, 12, 13, 28, 29, 30, 0x85, 0x2028, 0x2029}"

function py_splitlines :: "pystr \<Rightarrow> pystr list" where
  "py_splitlines [] = []"
| "py_splitlines (x # xs) =
     (let s = x # xs; line = takeWhile (\<lambda>c. \<not> line_break c) s in
      case dropWhile (\<lambda>c. \<not> line_break c) s of
        [] \<Rightarrow> [line]
      | b # r \<Rightarrow> line # py_splitlines (if b = 13 then (case r of y # ys \<Rightarrow> if y = 10 then ys else r | [] \<Rightarrow> []) else r))"
  by pat_completeness auto
termination
proof (relation "measure length", goal_cases)
  case (2 x xs xa xb b r)
  then have "length r < length (x # xs)" by (metis dropWhile_Cons_shorter)
  then show ?case by (auto split: list.splits)
qed simp

text \<open>\<open>s.rstrip(chars)\<close>.\<close>

definition py_rstrip :: "nat list \<Rightarrow> pystr \<Rightarrow> pystr" where
  "py_rstrip cs s = rev (dropWhile (\<lambda>c. c \<in> set cs) (rev s))"

section \<open>The JSON document inside an answer\<close>

text \<open>
  \<open>re.search(r"(\{.*\}|\[.*\])", s, re.S)\<close>: from the first opening bracket that has a closing one
  somewhere behind it, to the last such.
\<close>

definition upto_last :: "nat \<Rightarrow> pystr \<Rightarrow> pystr option" where
  "upto_last c s = (case dropWhile (\<lambda>x. x \<noteq> c) (rev s) of [] \<Rightarrow> None | r \<Rightarrow> Some (rev r))"

fun bracketed :: "pystr \<Rightarrow> pystr option" where
  "bracketed [] = None"
| "bracketed (c # cs) =
     (case (if c = 123 then upto_last 125 cs else if c = 91 then upto_last 93 cs else None) of
        Some t \<Rightarrow> Some (c # t) | None \<Rightarrow> bracketed cs)"

definition extract_json :: "pystr \<Rightarrow> json option" where
  "extract_json ans = Option.bind (bracketed ans) json_loads"

section \<open>What a match consumes\<close>

lemma re_star_split: "rest \<in> set (re_star rs s) \<Longrightarrow> \<exists>w. s = w @ rest \<and> list_all (in_class rs) w"
proof (induction s)
  case (Cons c cs)
  show ?case
  proof (cases "rest = c # cs")
    case True
    then show ?thesis by (intro exI[of _ "[]"]) simp
  next
    case False
    with Cons obtain w where "cs = w @ rest" "list_all (in_class rs) w" "in_class rs c"
      by (auto split: if_splits)
    then show ?thesis by (intro exI[of _ "c # w"]) simp
  qed
qed simp

lemma re_match_split: "rest \<in> set (re_match r s) \<Longrightarrow> \<exists>w. s = w @ rest"
  by (induction r arbitrary: s rest)
    (fastforce split: list.splits if_splits dest: re_star_split)+

lemma re_match_lit: "rest \<in> set (re_match (lit w) s) \<longleftrightarrow> s = w @ rest"
  by (induction w arbitrary: s) (auto simp: lit_def chr_def in_class_def split: list.splits)

lemma re_match_words: "rest \<in> set (re_match (words wds) s) \<longleftrightarrow> (\<exists>w \<in> set wds. s = w @ rest)"
  by (induction wds rule: words.induct) (auto simp: re_match_lit in_class_def split: list.splits)

lemma re_search_line_at:
  "re_search_line r s = Some g \<Longrightarrow> \<exists>pre post rest. s = pre @ post \<and> rest \<in> set (re_match r post)"
proof (induction s)
  case Nil
  then have "re_match r [] \<noteq> []" by auto
  then show ?case by (metis append_Nil last_in_set)
next
  case (Cons c cs)
  show ?case
  proof (cases "first_line (re_match r (c # cs))")
    case None
    with Cons obtain pre post rest where "cs = pre @ post" "rest \<in> set (re_match r post)" by auto
    then show ?thesis by (intro exI[of _ "c # pre"] exI[of _ post] exI[of _ rest]) simp
  next
    case (Some g')
    then have "re_match r (c # cs) \<noteq> []" by auto
    then show ?thesis by (metis append_Nil last_in_set)
  qed
qed

end
