(* ===== verification/TicketAudit.thy ===== *)
theory TicketAudit
  imports PyRe
begin

text \<open>
  The automatic audit of a ticket's text: \<open>services/ticket_audit_service.py\<close>. The text is taken
  apart by field patterns and section headers, checked against the rules, handed to the model
  for a semantic check, and scored. The language model is an argument: its answer to the parsed
  ticket, or None when the call raises. Measured times are an argument of the report.
\<close>

section \<open>The parser\<close>

record parsed_ticket =
  pt_type :: pystr
  pt_task :: pystr
  pt_dispatch_no :: pystr
  pt_operator :: pystr
  pt_steps :: "pystr list"
  pt_safety :: "pystr list"
  pt_dangers :: "pystr list"
  pt_raw :: pystr

definition colons :: "nat list" where
  "colons = [58, 0xff1a]"

definition TASK_KEYS :: "pystr list" where
  "TASK_KEYS = [[0x64cd, 0x4f5c, 0x4efb, 0x52a1], [0x5de5, 0x4f5c, 0x4efb, 0x52a1], [0x4efb, 0x52a1]]"

definition OPERATOR_KEYS :: "pystr list" where
  "OPERATOR_KEYS = [[0x64cd, 0x4f5c, 0x4eba], [0x5de5, 0x4f5c, 0x8d1f, 0x8d23, 0x4eba], [0x8d1f, 0x8d23, 0x4eba], [0x76d1, 0x62a4, 0x4eba]]"

definition task_head :: re where
  "task_head = Cat (words TASK_KEYS) (Cat spaces (one_of colons))"

definition operator_head :: re where
  "operator_head = Cat (words OPERATOR_KEYS) (Cat spaces (one_of colons))"

definition dispatch_word :: re where
  "dispatch_word = Cat (Opt (lit [0x8c03, 0x5ea6])) (words [[0x6307, 0x4ee4], [0x547d, 0x4ee4]])"

definition dispatch_head :: re where
  "dispatch_head = Cat dispatch_word (Cat (Opt (words [[0x53f7], [0x7f16, 0x53f7]])) (Cat spaces (one_of colons)))"

text \<open>The value of a field: the rest of the line behind its head.\<close>

definition field_value :: "re \<Rightarrow> pystr \<Rightarrow> pystr" where
  "field_value head raw = (case re_search_line (Cat head spaces) raw of Some g \<Rightarrow> py_strip g | None \<Rightarrow> [])"

definition STEP_MARKERS :: "pystr list" where
  "STEP_MARKERS = [[0x64cd, 0x4f5c, 0x6b65, 0x9aa4], [0x6b65, 0x9aa4], [0x64cd, 0x4f5c, 0x5185, 0x5bb9]]"

definition SAFETY_MARKERS :: "pystr list" where
  "SAFETY_MARKERS = [[0x5b89, 0x5168, 0x63aa, 0x65bd], [0x5b89, 0x63aa], [0x5b89, 0x5168, 0x6280, 0x672f, 0x63aa, 0x65bd]]"

definition DANGER_MARKERS :: "pystr list" where
  "DANGER_MARKERS = [[0x5371, 0x9669, 0x70b9], [0x98ce, 0x9669, 0x70b9]]"

definition CIRCLED :: char_class where
  "CIRCLED = [(0x2460, 0x2473)]"

definition number_mark :: re where
  "number_mark = Cat spaces (Alt (Cat (plus DIGIT) (Cat (one_of [46, 0x3001, 41, 0xff09]) spaces))
     (Alt (Cat (Cls CIRCLED) spaces) (Cat (one_of [45, 42, 0x2022]) spaces)))"

definition strip_num :: "pystr \<Rightarrow> pystr" where
  "strip_num line = py_strip (re_drop number_mark line)"

definition is_header :: "pystr \<Rightarrow> pystr list \<Rightarrow> bool" where
  "is_header line markers =
     (let s = strip_num (py_strip (py_rstrip [58, 0xff1a, 32] line))
      in list_ex (\<lambda>m. py_in m s) markers \<and> length s \<le> 14)"

text \<open>A line the field patterns have taken, and a numbered line outside every section.\<close>

definition field_line :: "pystr \<Rightarrow> bool" where
  "field_line s \<longleftrightarrow> re_matches task_head s \<or> re_matches dispatch_word s \<or> re_matches operator_head s"

definition numbered_line :: "pystr \<Rightarrow> bool" where
  "numbered_line s \<longleftrightarrow>
     re_matches (Cat (plus DIGIT) (one_of [46, 0x3001, 41])) s \<or> re_matches (Cls CIRCLED) s"

datatype ticket_section = SecNone | SecSteps | SecSafety | SecDangers

definition scan_line :: "pystr \<Rightarrow> ticket_section \<times> parsed_ticket \<Rightarrow> ticket_section \<times> parsed_ticket" where
  "scan_line line = (\<lambda>(sec, p).
     let s = py_strip line in
     if s = [] then (sec, p)
     else if is_header s STEP_MARKERS then (SecSteps, p)
     else if is_header s SAFETY_MARKERS then (SecSafety, p)
     else if is_header s DANGER_MARKERS then (SecDangers, p)
     else if field_line s then (sec, p)
     else
       let item = strip_num s in
       if item = [] then (sec, p)
       else (sec, case sec of
           SecSteps \<Rightarrow> p\<lparr>pt_steps := pt_steps p @ [item]\<rparr>
         | SecSafety \<Rightarrow> p\<lparr>pt_safety := pt_safety p @ [item]\<rparr>
         | SecDangers \<Rightarrow> p\<lparr>pt_dangers := pt_dangers p @ [item]\<rparr>
         | SecNone \<Rightarrow> if numbered_line s then p\<lparr>pt_steps := pt_steps p @ [item]\<rparr> else p))"

definition blank_ticket :: "pystr \<Rightarrow> pystr \<Rightarrow> parsed_ticket" where
  "blank_ticket raw ticket_type = \<lparr>pt_type = ticket_type, pt_task = [], pt_dispatch_no = [],
     pt_operator = [], pt_steps = [], pt_safety = [], pt_dangers = [], pt_raw = raw\<rparr>"

definition parse_ticket :: "pystr \<Rightarrow> pystr \<Rightarrow> parsed_ticket" where
  "parse_ticket raw ticket_type =
     (let p = blank_ticket raw ticket_type in
      if py_strip raw = [] then p
      else snd (fold scan_line (py_splitlines raw)
        (SecNone, p\<lparr>pt_task := field_value task_head raw,
                    pt_dispatch_no := field_value dispatch_head raw,
                    pt_operator := field_value operator_head raw\<rparr>)))"

section \<open>The rules\<close>

record required_rule =
  rq_id :: pystr
  rq_field :: pystr
  rq_label :: pystr
  rq_severity :: pystr
  rq_suggestion :: pystr

record sequence_rule =
  sq_id :: pystr
  sq_before :: pystr
  sq_after :: pystr
  sq_severity :: pystr
  sq_msg :: pystr
  sq_suggestion :: pystr

record audit_rules =
  ar_required :: "required_rule list"
  ar_sequences :: "sequence_rule list"
  ar_danger_keywords :: "pystr list"
  ar_dispatch :: "re option"
  ar_blocklist :: "pystr list"

text \<open>The dispatch pattern: a letter, digit or hyphen, at least four times, up to the end.\<close>

definition DISPATCH_CHARS :: char_class where
  "DISPATCH_CHARS = [(65, 90), (97, 122), (48, 57), (45, 45)]"

definition DEFAULT_RULES :: audit_rules where
  "DEFAULT_RULES = \<lparr>
     ar_required =
       [\<lparr>rq_id = asc ''REQ_TASK'', rq_field = asc ''task'', rq_label = [0x4efb, 0x52a1], rq_severity = asc ''critical'', rq_suggestion = [0x8865, 0x5145, 0x64cd, 0x4f5c, 0x4efb, 0x52a1]\<rparr>,
        \<lparr>rq_id = asc ''REQ_DISPATCH'', rq_field = asc ''dispatch_no'', rq_label = [0x8c03, 0x5ea6, 0x6307, 0x4ee4, 0x53f7], rq_severity = asc ''major'', rq_suggestion = [0x8865, 0x5145, 0x8c03, 0x5ea6, 0x6307, 0x4ee4, 0x53f7]\<rparr>,
        \<lparr>rq_id = asc ''REQ_OPERATOR'', rq_field = asc ''operator'', rq_label = [0x64cd, 0x4f5c, 0x4eba], rq_severity = asc ''major'', rq_suggestion = ([0x8865, 0x5145, 0x64cd, 0x4f5c, 0x4eba] @ asc ''/'' @ [0x8d1f, 0x8d23, 0x4eba])\<rparr>],
     ar_sequences =
       [\<lparr>sq_id = asc ''SEQ_001'', sq_before = [0x6302, 0x5730, 0x7ebf], sq_after = [0x9a8c, 0x7535], sq_severity = asc ''critical'',
         sq_msg = [0x6302, 0x5730, 0x7ebf, 0x51fa, 0x73b0, 0x5728, 0x9a8c, 0x7535, 0x4e4b, 0x524d], sq_suggestion = [0x5e94, 0x5148, 0x9a8c, 0x7535, 0x786e, 0x8ba4, 0x65e0, 0x7535, 0x540e, 0x518d, 0x6302, 0x5730, 0x7ebf]\<rparr>,
        \<lparr>sq_id = asc ''SEQ_002'', sq_before = [0x63a5, 0x5730], sq_after = [0x9a8c, 0x7535], sq_severity = asc ''critical'',
         sq_msg = [0x63a5, 0x5730, 0x51fa, 0x73b0, 0x5728, 0x9a8c, 0x7535, 0x4e4b, 0x524d], sq_suggestion = [0x5e94, 0x5148, 0x9a8c, 0x7535, 0x786e, 0x8ba4, 0x65e0, 0x7535, 0x540e, 0x518d, 0x63a5, 0x5730]\<rparr>],
     ar_danger_keywords = [[0x505c, 0x7535], [0x63a5, 0x5730], [0x5012, 0x95f8], [0x62c9, 0x95f8], [0x5408, 0x95f8], [0x5e26, 0x7535], [0x767b, 0x9ad8], [0x6302, 0x5730, 0x7ebf]],
     ar_dispatch = Some (Cat (Cls DISPATCH_CHARS) (Cat (Cls DISPATCH_CHARS) (Cat (Cls DISPATCH_CHARS)
       (Cat (Cls DISPATCH_CHARS) (Star DISPATCH_CHARS))))),
     ar_blocklist = [[0x7ea6, 0x65f6, 0x505c, 0x9001, 0x7535], [0x7ea6, 0x5b9a, 0x505c, 0x9001, 0x7535], [0x53e3, 0x5934, 0x6307, 0x4ee4]]\<rparr>"

text \<open>The rules of the file when it holds a document the service can use, else the default ones.\<close>

definition load_rules :: "audit_rules option \<Rightarrow> audit_rules" where
  "load_rules file = (case file of Some rules \<Rightarrow> rules | None \<Rightarrow> DEFAULT_RULES)"

record audit_item =
  ai_layer :: pystr
  ai_rule_id :: json
  ai_type :: pystr
  ai_severity :: json
  ai_msg :: json
  ai_suggestion :: json

definition rule_item :: "pystr \<Rightarrow> pystr \<Rightarrow> pystr \<Rightarrow> pystr \<Rightarrow> pystr \<Rightarrow> audit_item" where
  "rule_item rule_id typ severity msg suggestion = \<lparr>ai_layer = asc ''rule'', ai_rule_id = JStr rule_id,
     ai_type = typ, ai_severity = JStr severity, ai_msg = JStr msg, ai_suggestion = JStr suggestion\<rparr>"

text \<open>\<open>parsed.get(key)\<close> as a truth value, for the keys a required field can name.\<close>

definition parsed_has :: "parsed_ticket \<Rightarrow> pystr \<Rightarrow> bool" where
  "parsed_has p key =
     (if key = asc ''task'' then pt_task p \<noteq> [] else if key = asc ''dispatch_no'' then pt_dispatch_no p \<noteq> []
      else if key = asc ''operator'' then pt_operator p \<noteq> [] else if key = asc ''steps'' then pt_steps p \<noteq> []
      else if key = asc ''safety'' then pt_safety p \<noteq> [] else if key = asc ''dangers'' then pt_dangers p \<noteq> []
      else if key = asc ''raw'' then pt_raw p \<noteq> [] else key = asc ''ticket_type'' \<and> pt_type p \<noteq> [])"

fun find_idx :: "pystr list \<Rightarrow> pystr \<Rightarrow> nat option" where
  "find_idx [] kw = None"
| "find_idx (s # ss) kw = (if py_in kw s then Some 0 else map_option Suc (find_idx ss kw))"

definition out_of_order :: "pystr list \<Rightarrow> sequence_rule \<Rightarrow> bool" where
  "out_of_order steps r = (case (find_idx steps (sq_before r), find_idx steps (sq_after r)) of
     (Some ib, Some ia) \<Rightarrow> ib < ia | _ \<Rightarrow> False)"

definition rule_check :: "parsed_ticket \<Rightarrow> audit_rules \<Rightarrow> audit_item list" where
  "rule_check p rules =
     (let blob = pt_raw p @ concat (pt_steps p) in
      concat (map (\<lambda>r. if rq_field r \<noteq> [] \<and> \<not> parsed_has p (rq_field r)
         then [rule_item (rq_id r) (asc ''required_field'') (rq_severity r) ([0x7f3a, 0x5c11] @ rq_label r) (rq_suggestion r)]
         else []) (ar_required rules)) @
      concat (map (\<lambda>r. if out_of_order (pt_steps p) r
         then [rule_item (sq_id r) (asc ''sequence'') (sq_severity r) (sq_msg r) (sq_suggestion r)]
         else []) (ar_sequences rules)) @
      (if list_ex (\<lambda>k. py_in k blob) (ar_danger_keywords rules) \<and> pt_dangers p = []
       then [rule_item (asc ''DANGER_001'') (asc ''danger_point'') (asc ''major'')
               [0x6d89, 0x53ca, 0x9ad8, 0x98ce, 0x9669, 0x64cd, 0x4f5c, 0x4f46, 0x672a, 0x5217, 0x51fa, 0x5371, 0x9669, 0x70b9] [0x8865, 0x5145, 0x5bf9, 0x5e94, 0x5371, 0x9669, 0x70b9, 0x5206, 0x6790]]
       else []) @
      (case ar_dispatch rules of
         Some pat \<Rightarrow> if pt_dispatch_no p \<noteq> [] \<and> \<not> re_matches_end pat (pt_dispatch_no p)
           then [rule_item (asc ''DISP_001'') (asc ''dispatch_format'') (asc ''minor'')
                   [0x8c03, 0x5ea6, 0x6307, 0x4ee4, 0x53f7, 0x683c, 0x5f0f, 0x4e0d, 0x89c4, 0x8303] ([0x6309] @ asc '' '' @ [0x5b57, 0x6bcd, 0x6570, 0x5b57] @ asc ''- '' @ [0x7684, 0x89c4, 0x8303, 0x683c, 0x5f0f, 0x586b, 0x5199])]
           else []
       | None \<Rightarrow> []) @
      concat (map (\<lambda>kw. if py_in kw blob
         then [rule_item (asc ''BLOCK_001'') (asc ''keyword_blocklist'') (asc ''major'') ([0x542b, 0x7981, 0x7528, 0x8868, 0x8ff0, 0xff1a] @ kw) [0x6309, 0x5b89, 0x89c4, 0x89c4, 0x8303, 0x8868, 0x8ff0]]
         else []) (ar_blocklist rules)))"

section \<open>The semantic check and the score\<close>

definition llm_item :: "(pystr \<times> json) list \<Rightarrow> audit_item" where
  "llm_item it = \<lparr>ai_layer = asc ''llm'', ai_rule_id = json_get it (asc ''ruleId'') (JStr (asc ''LLM_xxx'')),
     ai_type = asc ''semantic'', ai_severity = json_get it (asc ''severity'') (JStr (asc ''minor'')),
     ai_msg = json_get it (asc ''msg'') (JStr []), ai_suggestion = json_get it (asc ''suggestion'') (JStr [])\<rparr>"

definition llm_items :: "pystr \<Rightarrow> audit_item list" where
  "llm_items answer = (case extract_json answer of
     Some (JList arr) \<Rightarrow> concat (map (\<lambda>it. case it of JObj kvs \<Rightarrow> [llm_item kvs] | _ \<Rightarrow> []) arr)
   | _ \<Rightarrow> [])"

definition joined_or_none :: "pystr list \<Rightarrow> pystr" where
  "joined_or_none xs = py_or (py_join [59] xs) [0x65e0]"

definition audit_prompt :: "parsed_ticket \<Rightarrow> pystr \<Rightarrow> pystr" where
  "audit_prompt p ticket_type =
     ([0x4f60, 0x662f, 0x7535, 0x7f51, 0x4e24, 0x7968, 0x5ba1, 0x6838, 0x4e13, 0x5bb6, 0x3002, 0x89c4, 0x5219, 0x5f15, 0x64ce, 0x5df2, 0x67e5, 0x786c, 0x6027, 0x9879, 0xff08, 0x5fc5, 0x586b] @ asc ''/'' @ [0x987a, 0x5e8f] @ asc ''/'' @ [0x5371, 0x9669, 0x70b9] @ asc ''/'' @ [0x8c03, 0x5ea6, 0x683c, 0x5f0f] @ asc ''/'' @ [0x7981, 0x7528, 0x672f, 0x8bed, 0xff09, 0xff0c, 0xa, 0x4f60, 0x4e13, 0x67e5, 0x8bed, 0x4e49, 0x5408, 0x89c4, 0xff1a, 0xa] @ asc ''1. '' @ [0x5b89, 0x63aa, 0x662f, 0x5426, 0x8986, 0x76d6, 0x6240, 0x6709, 0x5371, 0x9669, 0x70b9, 0x4e0e, 0x9ad8, 0x98ce, 0x9669, 0x64cd, 0x4f5c, 0xa] @ asc ''2. '' @ [0x672f, 0x8bed, 0x662f, 0x5426, 0x89c4, 0x8303, 0x3001, 0x6b65, 0x9aa4, 0x662f, 0x5426, 0x53ef, 0x6267, 0x884c, 0x3001, 0x6709, 0x65e0, 0x9057, 0x6f0f, 0x5173, 0x952e, 0x6b65, 0x9aa4, 0xa, 0x8f93, 0x51fa, 0x4e25, 0x683c] @ asc '' JSON '' @ [0x6570, 0x7ec4, 0xff0c, 0x6bcf, 0x9879] @ asc '' {'' @ [0x22] @ asc ''ruleId'' @ [0x22] @ asc '':'' @ [0x22] @ asc ''LLM_xxx'' @ [0x22] @ asc '','' @ [0x22] @ asc ''severity'' @ [0x22] @ asc '':'' @ [0x22] @ asc ''critical|major|minor'' @ [0x22] @ asc '','' @ [0x22] @ asc ''msg'' @ [0x22] @ asc '':'' @ [0x22, 0x95ee, 0x9898, 0x63cf, 0x8ff0, 0x22] @ asc '','' @ [0x22] @ asc ''suggestion'' @ [0x22] @ asc '':'' @ [0x22, 0x4fee, 0x6b63, 0x5efa, 0x8bae, 0x22] @ asc ''}'' @ [0xff1b, 0x65e0, 0x95ee, 0x9898, 0x8f93, 0x51fa] @ asc '' []'' @ [0x3002, 0xa, 0xa, 0x3010, 0x7968, 0x636e, 0x7c7b, 0x578b, 0x3011]) @
     ticket_type @
     [0xa, 0x3010, 0x4efb, 0x52a1, 0x3011] @
     pt_task p @
     [0xa, 0x3010, 0x64cd, 0x4f5c, 0x6b65, 0x9aa4, 0x3011] @
     joined_or_none (pt_steps p) @
     [0xa, 0x3010, 0x5b89, 0x5168, 0x63aa, 0x65bd, 0x3011] @
     joined_or_none (pt_safety p) @
     [0xa, 0x3010, 0x5371, 0x9669, 0x70b9, 0x3011] @
     joined_or_none (pt_dangers p)"

text \<open>The answer of the model to a prompt; None when the call raises.\<close>

type_synonym auditor_llm = "pystr \<Rightarrow> pystr option"

definition llm_check :: "auditor_llm \<Rightarrow> parsed_ticket \<Rightarrow> pystr \<Rightarrow> audit_item list option" where
  "llm_check llm p ticket_type = map_option llm_items (llm (audit_prompt p ticket_type))"

text \<open>The look-up in the table of deductions: a list or an object is not hashable.\<close>

definition deduction :: "audit_item \<Rightarrow> int res" where
  "deduction it = (case ai_severity it of
     JStr s \<Rightarrow> Inr (if s = asc ''critical'' then 35 else if s = asc ''major'' then 15 else 5)
   | JList _ \<Rightarrow> Inl TypeError
   | JObj _ \<Rightarrow> Inl TypeError
   | _ \<Rightarrow> Inr 5)"

fun deductions :: "audit_item list \<Rightarrow> int res" where
  "deductions [] = Inr 0"
| "deductions (it # its) = (case deduction it of Inl e \<Rightarrow> Inl e
     | Inr d \<Rightarrow> (case deductions its of Inl e \<Rightarrow> Inl e | Inr ds \<Rightarrow> Inr (d + ds)))"

definition score :: "audit_item list \<Rightarrow> int res" where
  "score items = map_sum id (\<lambda>d. max 0 (min 100 (100 - d))) (deductions items)"

definition overall :: "int \<Rightarrow> pystr" where
  "overall sc = (if 85 \<le> sc then asc ''pass'' else if 60 \<le> sc then asc ''warn'' else asc ''fail'')"

record audit_report =
  rp_overall :: pystr
  rp_score :: int
  rp_type :: pystr
  rp_items :: "audit_item list"

definition audit_ticket :: "audit_rules \<Rightarrow> auditor_llm \<Rightarrow> pystr \<Rightarrow> pystr \<Rightarrow> audit_report res" where
  "audit_ticket rules llm txt ticket_type =
     (let p = parse_ticket txt ticket_type in
      if pt_task p = [] \<and> pt_steps p = []
      then Inr \<lparr>rp_overall = asc ''fail'', rp_score = 0, rp_type = ticket_type,
             rp_items = [rule_item (asc ''PARSE_001'') (asc ''parse'') (asc ''critical'') [0x65e0, 0x6cd5, 0x8bc6, 0x522b, 0x7968, 0x636e, 0x5185, 0x5bb9]
               ([0x8bf7, 0x6309, 0x89c4, 0x8303, 0x683c, 0x5f0f, 0x7c98, 0x8d34, 0x7968, 0x636e, 0xff08, 0x542b, 0x4efb, 0x52a1] @ asc ''/'' @ [0x6b65, 0x9aa4, 0x7b49, 0xff09])]\<rparr>
      else
        let items = rule_check p rules @ (case llm_check llm p ticket_type of Some its \<Rightarrow> its | None \<Rightarrow> [])
        in (case score items of
              Inl e \<Rightarrow> Inl e
            | Inr sc \<Rightarrow> Inr \<lparr>rp_overall = overall sc, rp_score = sc, rp_type = ticket_type, rp_items = items\<rparr>))"

text \<open>The report as the JSON document the ticket stores.\<close>

definition item_json :: "audit_item \<Rightarrow> json" where
  "item_json it = JObj [(asc ''layer'', JStr (ai_layer it)), (asc ''ruleId'', ai_rule_id it),
     (asc ''type'', JStr (ai_type it)), (asc ''severity'', ai_severity it), (asc ''msg'', ai_msg it),
     (asc ''suggestion'', ai_suggestion it)]"

definition report_json :: "int \<Rightarrow> audit_report \<Rightarrow> json" where
  "report_json latency r = JObj [(asc ''overall'', JStr (rp_overall r)), (asc ''score'', JInt (rp_score r)),
     (asc ''ticketType'', JStr (rp_type r)), (asc ''items'', JList (map item_json (rp_items r))),
     (asc ''latencyMs'', JInt latency)]"

end
