(* ===== verification/Tickets.thy ===== *)
theory Tickets
  imports Tables TicketAudit Interfaces
begin

text \<open>
  The work tickets: \<open>models/ticket.py\<close> (the row) and \<open>services/ticket_lifecycle_service.py\<close>
  (creation, the life cycle draft, review, issue, execution, archive, and the queries). The
  server's local time \<open>datetime.now()\<close> is the clock of an operation. What an operation tells
  other components (the time line of a proactive run, the quality event bus) is a list of
  effects; a failure there is swallowed by the code. Column lengths are not modelled.
\<close>

section \<open>The row\<close>

datatype ticket_status = DRAFT | PENDING_REVIEW | REVIEWED | ISSUED | IN_EXECUTION | COMPLETED
  | ARCHIVED | REJECTED

datatype ticket_type = OPERATION | WORK

definition ticket_status_str :: "ticket_status \<Rightarrow> pystr" where
  "ticket_status_str s = asc (case s of DRAFT \<Rightarrow> ''draft'' | PENDING_REVIEW \<Rightarrow> ''pending_review''
     | REVIEWED \<Rightarrow> ''reviewed'' | ISSUED \<Rightarrow> ''issued'' | IN_EXECUTION \<Rightarrow> ''in_execution''
     | COMPLETED \<Rightarrow> ''completed'' | ARCHIVED \<Rightarrow> ''archived'' | REJECTED \<Rightarrow> ''rejected'')"

definition ticket_type_str :: "ticket_type \<Rightarrow> pystr" where
  "ticket_type_str t = (case t of OPERATION \<Rightarrow> [0x64cd, 0x4f5c, 0x7968] | WORK \<Rightarrow> [0x5de5, 0x4f5c, 0x7968])"

text \<open>The enum look-ups \<open>TicketStatus(value)\<close> and \<open>TicketType(value)\<close>.\<close>

definition TICKET_STATES :: "ticket_status list" where
  "TICKET_STATES = [DRAFT, PENDING_REVIEW, REVIEWED, ISSUED, IN_EXECUTION, COMPLETED, ARCHIVED, REJECTED]"

definition ticket_status_of :: "pystr \<Rightarrow> ticket_status res" where
  "ticket_status_of v = (case find (\<lambda>s. ticket_status_str s = v) TICKET_STATES of
     Some s \<Rightarrow> Inr s | None \<Rightarrow> Inl (ValueError ([39] @ v @ [39] @ (asc '' is not a valid TicketStatus''))))"

definition ticket_type_of :: "pystr \<Rightarrow> ticket_type res" where
  "ticket_type_of v = (case find (\<lambda>s. ticket_type_str s = v) [OPERATION, WORK] of
     Some s \<Rightarrow> Inr s | None \<Rightarrow> Inl (ValueError ([39] @ v @ [39] @ (asc '' is not a valid TicketType''))))"

record ticket =
  tk_id :: pystr
  tk_tenant_id :: pystr
  tk_source_ref :: "pystr option"
  tk_type :: ticket_type
  tk_status :: ticket_status
  tk_title :: pystr
  tk_task :: pystr
  tk_device :: pystr
  tk_location :: pystr
  tk_steps :: pystr
  tk_safety_measures :: pystr
  tk_risks :: pystr
  tk_notes :: pystr
  tk_creator :: pystr
  tk_reviewer :: pystr
  tk_issuer :: pystr
  tk_executor :: pystr
  tk_supervisor :: pystr
  tk_created_at :: time
  tk_updated_at :: time
  tk_reviewed_at :: "time option"
  tk_issued_at :: "time option"
  tk_executed_at :: "time option"
  tk_completed_at :: "time option"
  tk_archived_at :: "time option"
  tk_review_score :: int
  tk_review_comment :: pystr
  tk_audit_report :: pystr
  tk_execution_log :: pystr
  tk_deviation :: pystr
  tk_version :: int
  tk_is_deleted :: bool

type_synonym ticket_table = "ticket list"

datatype ticket_effect = SyncRun pystr pystr pystr pystr | EmitEvent pystr pystr

text \<open>The row an operation finds: not deleted, of the tenant.\<close>

definition find_ticket :: "pystr \<Rightarrow> pystr \<Rightarrow> ticket_table \<Rightarrow> ticket option" where
  "find_ticket ticket_id tenant tbl =
     find (\<lambda>t. tk_id t = ticket_id \<and> tk_tenant_id t = tenant \<and> \<not> tk_is_deleted t) tbl"

text \<open>
  The commit: an UPDATE is issued for a changed row; the column \<open>updated_at\<close> takes the server's
  time unless the code assigned it.
\<close>

definition save_ticket :: "clock \<Rightarrow> ticket \<Rightarrow> ticket \<Rightarrow> ticket_table \<Rightarrow> ticket_table" where
  "save_ticket c old new tbl =
     (if new = old then tbl
      else if tk_updated_at new \<noteq> tk_updated_at old then put_row tk_id new tbl
      else put_row tk_id (new\<lparr>tk_updated_at := sqlnow c\<rparr>) tbl)"

definition sync_run :: "pystr \<Rightarrow> pystr \<Rightarrow> ticket \<Rightarrow> ticket_effect" where
  "sync_run action actor t = SyncRun (tk_id t) action (ticket_status_str (tk_status t)) actor"

section \<open>Creation\<close>

record ticket_args =
  ta_type :: pystr
  ta_task :: pystr
  ta_device :: pystr
  ta_location :: pystr
  ta_steps :: "pystr list"
  ta_safety :: "pystr list"
  ta_risks :: "pystr list"
  ta_notes :: pystr
  ta_creator :: pystr
  ta_tenant :: pystr
  ta_source_ref :: pystr

definition text_list :: "pystr list \<Rightarrow> pystr" where
  "text_list xs = json_text (JList (map JStr xs))"

definition new_ticket :: "clock \<Rightarrow> pystr \<Rightarrow> ticket_type \<Rightarrow> ticket_args \<Rightarrow> ticket" where
  "new_ticket c uuid ty a = \<lparr>
     tk_id = uuid, tk_tenant_id = ta_tenant a,
     tk_source_ref = str_or_none (py_strip (ta_source_ref a)),
     tk_type = ty, tk_status = DRAFT,
     tk_title = (if ta_task a = [] then [0x4e24, 0x7968] else take 200 (ta_task a)),
     tk_task = ta_task a, tk_device = ta_device a, tk_location = ta_location a,
     tk_steps = text_list (ta_steps a), tk_safety_measures = text_list (ta_safety a),
     tk_risks = text_list (ta_risks a), tk_notes = ta_notes a,
     tk_creator = ta_creator a, tk_reviewer = [], tk_issuer = [], tk_executor = [], tk_supervisor = [],
     tk_created_at = sqlnow c, tk_updated_at = sqlnow c, tk_reviewed_at = None, tk_issued_at = None,
     tk_executed_at = None, tk_completed_at = None, tk_archived_at = None,
     tk_review_score = 0, tk_review_comment = [], tk_audit_report = [], tk_execution_log = [],
     tk_deviation = [], tk_version = 1, tk_is_deleted = False\<rparr>"

text \<open>The INSERT: the primary key and the constraint on tenant and source reference.\<close>

definition insert_ticket :: "ticket \<Rightarrow> ticket_table \<Rightarrow> ticket_table res" where
  "insert_ticket t tbl =
     (if tk_id t \<in> set (map tk_id tbl) then Inl IntegrityError
      else if tk_source_ref t \<noteq> None \<and>
          (tk_tenant_id t, tk_source_ref t) \<in> set (map (\<lambda>x. (tk_tenant_id x, tk_source_ref x)) tbl)
      then Inl IntegrityError else Inr (tbl @ [t]))"

definition create_ticket ::
  "clock \<Rightarrow> pystr \<Rightarrow> ticket_args \<Rightarrow> ticket_table \<Rightarrow> (ticket \<times> ticket_table) res" where
  "create_ticket c uuid a tbl =
     (let source_ref = str_or_none (py_strip (ta_source_ref a));
          existing = (case source_ref of None \<Rightarrow> None
            | Some s \<Rightarrow> find (\<lambda>t. tk_tenant_id t = ta_tenant a \<and> tk_source_ref t = Some s \<and> \<not> tk_is_deleted t) tbl)
      in case existing of
           Some t \<Rightarrow> Inr (t, tbl)
         | None \<Rightarrow>
             (case ticket_type_of (ta_type a) of
                Inl e \<Rightarrow> Inl e
              | Inr ty \<Rightarrow>
                  let t = new_ticket c uuid ty a
                  in (case insert_ticket t tbl of Inl e \<Rightarrow> Inl e | Inr tbl' \<Rightarrow> Inr (t, tbl'))))"

section \<open>The life cycle\<close>

definition msg_no_ticket :: pystr where "msg_no_ticket = [0x7968, 0x636e, 0x4e0d, 0x5b58, 0x5728]"

text \<open>The content fields \<open>update_ticket_content\<close> may be given; a list becomes its JSON text.\<close>

datatype ticket_content = CTitle pystr | CTask pystr | CDevice pystr | CLocation pystr | CNotes pystr
  | CSteps "pystr list" | CSafety "pystr list" | CRisks "pystr list"

fun set_content :: "ticket_content \<Rightarrow> ticket \<Rightarrow> ticket" where
  "set_content (CTitle v) t = t\<lparr>tk_title := v\<rparr>"
| "set_content (CTask v) t = t\<lparr>tk_task := v\<rparr>"
| "set_content (CDevice v) t = t\<lparr>tk_device := v\<rparr>"
| "set_content (CLocation v) t = t\<lparr>tk_location := v\<rparr>"
| "set_content (CNotes v) t = t\<lparr>tk_notes := v\<rparr>"
| "set_content (CSteps v) t = t\<lparr>tk_steps := text_list v\<rparr>"
| "set_content (CSafety v) t = t\<lparr>tk_safety_measures := text_list v\<rparr>"
| "set_content (CRisks v) t = t\<lparr>tk_risks := text_list v\<rparr>"

text \<open>The step of each handler on the row it has locked: its state check and its assignments.\<close>

definition update_row :: "ticket_content list \<Rightarrow> ticket \<Rightarrow> ticket res" where
  "update_row kwargs t =
     (if tk_status t \<noteq> DRAFT then Inl (ValueError [0x4ec5, 0x8349, 0x7a3f, 0x72b6, 0x6001, 0x53ef, 0x4fee, 0x6539, 0x5185, 0x5bb9]) else Inr (fold set_content kwargs t))"

text \<open>
  The text the audit reads. The service stores JSON lists only; an item is shown by \<open>str\<close>.
\<close>

definition parse_json :: "pystr \<Rightarrow> json \<Rightarrow> json" where
  "parse_json txt dflt =
     (if txt = [] then dflt else (case json_loads txt of Some v \<Rightarrow> v | None \<Rightarrow> dflt))"

definition text_items :: "pystr \<Rightarrow> pystr list" where
  "text_items txt = (case parse_json txt (JList []) of JList js \<Rightarrow> map py_str js | _ \<Rightarrow> [])"

definition build_ticket_text :: "ticket \<Rightarrow> pystr" where
  "build_ticket_text t = py_join [10]
     ([[0x4efb, 0x52a1, 0xff1a] @ tk_task t] @
      map (\<lambda>(i, s). [0x6b65, 0x9aa4] @ dec_nat i @ [0xff1a] @ s) (enumerate 1 (text_items (tk_steps t))) @
      map (\<lambda>s. [0x5b89, 0x5168, 0x63aa, 0x65bd, 0xff1a] @ s) (text_items (tk_safety_measures t)) @
      map (\<lambda>r. [0x5371, 0x9669, 0x70b9, 0xff1a] @ r) (text_items (tk_risks t)))"

text \<open>\<open>ticket_audit_service.audit_ticket\<close> with the measured time, as the submission calls it.\<close>

type_synonym auditor = "pystr \<Rightarrow> pystr \<Rightarrow> (audit_report \<times> int) res"

definition submit_row :: "clock \<Rightarrow> auditor \<Rightarrow> ticket \<Rightarrow> ticket res" where
  "submit_row c audit t =
     (if tk_status t \<noteq> DRAFT then Inl (ValueError [0x4ec5, 0x8349, 0x7a3f, 0x53ef, 0x63d0, 0x4ea4, 0x5ba1, 0x6838])
      else
        let t1 = t\<lparr>tk_status := PENDING_REVIEW, tk_updated_at := utc c 0\<rparr>
        in (case audit (build_ticket_text t1) (ticket_type_str (tk_type t1)) of
              Inl e \<Rightarrow> Inr t1
            | Inr (report, latency) \<Rightarrow>
                let t2 = t1\<lparr>tk_audit_report := json_text (report_json latency report),
                            tk_review_score := rp_score report\<rparr>
                in Inr (if 85 \<le> rp_score report
                        then t2\<lparr>tk_status := REVIEWED, tk_reviewed_at := Some (utc c 1)\<rparr> else t2)))"

definition review_row :: "clock \<Rightarrow> bool \<Rightarrow> pystr \<Rightarrow> pystr \<Rightarrow> ticket \<Rightarrow> ticket res" where
  "review_row c approved comment reviewer t =
     (if tk_status t \<notin> {PENDING_REVIEW, REVIEWED} then Inl (ValueError [0x5f53, 0x524d, 0x72b6, 0x6001, 0x4e0d, 0x5141, 0x8bb8, 0x5ba1, 0x6838, 0x64cd, 0x4f5c])
      else
        let t1 = (if approved then t\<lparr>tk_status := REVIEWED\<rparr>
                  else t\<lparr>tk_status := REJECTED, tk_review_comment := py_strip (tk_review_comment t @ [10] @ comment)\<rparr>)
        in Inr (t1\<lparr>tk_reviewer := py_or reviewer (tk_reviewer t1), tk_reviewed_at := Some (utc c 0)\<rparr>))"

definition issue_row :: "clock \<Rightarrow> pystr \<Rightarrow> ticket \<Rightarrow> ticket res" where
  "issue_row c issuer t =
     (if tk_status t \<noteq> REVIEWED then Inl (ValueError [0x4ec5, 0x5ba1, 0x6838, 0x901a, 0x8fc7, 0x7684, 0x7968, 0x636e, 0x53ef, 0x7b7e, 0x53d1])
      else Inr (t\<lparr>tk_status := ISSUED, tk_issuer := py_or issuer (tk_issuer t), tk_issued_at := Some (utc c 0)\<rparr>))"

definition start_row :: "clock \<Rightarrow> pystr \<Rightarrow> pystr \<Rightarrow> ticket \<Rightarrow> ticket res" where
  "start_row c executor supervisor t =
     (if tk_status t \<noteq> ISSUED then Inl (ValueError [0x4ec5, 0x5df2, 0x7b7e, 0x53d1, 0x7968, 0x636e, 0x53ef, 0x5f00, 0x59cb, 0x6267, 0x884c])
      else Inr (t\<lparr>tk_status := IN_EXECUTION, tk_executor := py_or executor (tk_executor t),
             tk_supervisor := py_or supervisor (tk_supervisor t), tk_executed_at := Some (utc c 0)\<rparr>))"

definition complete_row :: "clock \<Rightarrow> pystr \<Rightarrow> pystr \<Rightarrow> ticket \<Rightarrow> ticket res" where
  "complete_row c log deviation t =
     (if tk_status t \<noteq> IN_EXECUTION then Inl (ValueError [0x4ec5, 0x6267, 0x884c, 0x4e2d, 0x72b6, 0x6001, 0x53ef, 0x5b8c, 0x6210])
      else
        let t1 = t\<lparr>tk_status := COMPLETED, tk_completed_at := Some (utc c 0)\<rparr>;
            t2 = (if log = [] then t1 else t1\<lparr>tk_execution_log := take 2000 log\<rparr>)
        in Inr (if deviation = [] then t2 else t2\<lparr>tk_deviation := take 1000 deviation\<rparr>))"

definition archive_row :: "clock \<Rightarrow> ticket \<Rightarrow> ticket res" where
  "archive_row c t =
     (if tk_status t \<noteq> COMPLETED then Inl (ValueError [0x4ec5, 0x5df2, 0x5b8c, 0x6210, 0x7968, 0x636e, 0x53ef, 0x5f52, 0x6863])
      else Inr (t\<lparr>tk_status := ARCHIVED, tk_archived_at := Some (utc c 0)\<rparr>))"

text \<open>
  The frame of every handler: lock and load the row, apply its step, commit, tell the others.
  The pair returned with the table is the refreshed row and the effects.
\<close>

definition on_ticket ::
  "clock \<Rightarrow> (ticket \<Rightarrow> ticket res) \<Rightarrow> (ticket \<Rightarrow> ticket_effect list) \<Rightarrow> ticket \<Rightarrow> ticket_table \<Rightarrow>
     (ticket \<times> ticket_effect list \<times> ticket_table) res" where
  "on_ticket c step tell t tbl =
     (case step t of
        Inl e \<Rightarrow> Inl e
      | Inr t' \<Rightarrow>
          let tbl' = save_ticket c t t' tbl
          in (case get_row tk_id (tk_id t) tbl' of
                None \<Rightarrow> Inl NoResultFound
              | Some row \<Rightarrow> Inr (row, tell row, tbl')))"

definition update_ticket_content ::
  "clock \<Rightarrow> pystr \<Rightarrow> pystr \<Rightarrow> ticket_content list \<Rightarrow> ticket_table \<Rightarrow>
     (ticket \<times> ticket_effect list \<times> ticket_table) option res" where
  "update_ticket_content c ticket_id tenant kwargs tbl =
     (case find_ticket ticket_id tenant tbl of
        None \<Rightarrow> Inr None
      | Some t \<Rightarrow>
          (case on_ticket c (update_row kwargs) (\<lambda>r. [sync_run (asc ''update'') (tk_creator r) r]) t tbl of
             Inl e \<Rightarrow> Inl e | Inr r \<Rightarrow> Inr (Some r)))"

definition with_ticket ::
  "clock \<Rightarrow> pystr \<Rightarrow> pystr \<Rightarrow> (ticket \<Rightarrow> ticket res) \<Rightarrow> (ticket \<Rightarrow> ticket_effect list) \<Rightarrow> ticket_table \<Rightarrow>
     (ticket \<times> ticket_effect list \<times> ticket_table) res" where
  "with_ticket c ticket_id tenant step tell tbl =
     (case find_ticket ticket_id tenant tbl of
        None \<Rightarrow> Inl (ValueError msg_no_ticket)
      | Some t \<Rightarrow> on_ticket c step tell t tbl)"

definition submit_for_review ::
  "clock \<Rightarrow> auditor \<Rightarrow> pystr \<Rightarrow> pystr \<Rightarrow> ticket_table \<Rightarrow> (ticket \<times> ticket_effect list \<times> ticket_table) res" where
  "submit_for_review c audit ticket_id tenant =
     with_ticket c ticket_id tenant (submit_row c audit) (\<lambda>r. [sync_run (asc ''submit'') (tk_creator r) r])"

definition review_ticket ::
  "clock \<Rightarrow> bool \<Rightarrow> pystr \<Rightarrow> pystr \<Rightarrow> pystr \<Rightarrow> pystr \<Rightarrow> ticket_table \<Rightarrow>
     (ticket \<times> ticket_effect list \<times> ticket_table) res" where
  "review_ticket c approved comment reviewer ticket_id tenant =
     with_ticket c ticket_id tenant (review_row c approved comment reviewer)
       (\<lambda>r. [sync_run (asc ''review'') reviewer r])"

text \<open>The quality event is sent only under the setting \<open>TICKET_ACTION_LOOP_ENABLE\<close>.\<close>

definition emit_ticket_event :: "bool \<Rightarrow> pystr \<Rightarrow> ticket \<Rightarrow> ticket_effect list" where
  "emit_ticket_event loop_enabled event_type t = (if loop_enabled then [EmitEvent event_type (tk_id t)] else [])"

definition issue_ticket ::
  "bool \<Rightarrow> clock \<Rightarrow> pystr \<Rightarrow> pystr \<Rightarrow> pystr \<Rightarrow> ticket_table \<Rightarrow> (ticket \<times> ticket_effect list \<times> ticket_table) res" where
  "issue_ticket loop_enabled c issuer ticket_id tenant =
     with_ticket c ticket_id tenant (issue_row c issuer)
       (\<lambda>r. sync_run (asc ''issue'') issuer r # emit_ticket_event loop_enabled (asc ''ticket.issued'') r)"

definition start_execution ::
  "clock \<Rightarrow> pystr \<Rightarrow> pystr \<Rightarrow> pystr \<Rightarrow> pystr \<Rightarrow> ticket_table \<Rightarrow> (ticket \<times> ticket_effect list \<times> ticket_table) res" where
  "start_execution c executor supervisor ticket_id tenant =
     with_ticket c ticket_id tenant (start_row c executor supervisor)
       (\<lambda>r. [sync_run (asc ''start'') executor r])"

definition complete_execution ::
  "bool \<Rightarrow> clock \<Rightarrow> pystr \<Rightarrow> pystr \<Rightarrow> pystr \<Rightarrow> pystr \<Rightarrow> ticket_table \<Rightarrow>
     (ticket \<times> ticket_effect list \<times> ticket_table) res" where
  "complete_execution loop_enabled c log deviation ticket_id tenant =
     with_ticket c ticket_id tenant (complete_row c log deviation)
       (\<lambda>r. sync_run (asc ''complete'') (tk_executor r) r # emit_ticket_event loop_enabled (asc ''ticket.completed'') r)"

definition archive_ticket ::
  "clock \<Rightarrow> pystr \<Rightarrow> pystr \<Rightarrow> ticket_table \<Rightarrow> (ticket \<times> ticket_effect list \<times> ticket_table) res" where
  "archive_ticket c ticket_id tenant =
     with_ticket c ticket_id tenant (archive_row c) (\<lambda>r. [sync_run (asc ''archive'') [] r])"

definition delete_ticket ::
  "clock \<Rightarrow> pystr \<Rightarrow> pystr \<Rightarrow> ticket_table \<Rightarrow> bool \<times> ticket_effect list \<times> ticket_table" where
  "delete_ticket c ticket_id tenant tbl =
     (case find_ticket ticket_id tenant tbl of
        None \<Rightarrow> (False, [], tbl)
      | Some t \<Rightarrow> (True, [SyncRun ticket_id (asc ''delete'') (asc ''deleted'') []],
                   save_ticket c t (t\<lparr>tk_is_deleted := True\<rparr>) tbl))"

section \<open>The API's view of a ticket\<close>

definition time_text :: "time option \<Rightarrow> json" where
  "time_text v = JStr (case v of Some t \<Rightarrow> strftime_minute t | None \<Rightarrow> [])"

definition ticket_to_dict :: "ticket \<Rightarrow> (pystr \<times> json) list" where
  "ticket_to_dict t =
     [(asc ''id'', JStr (tk_id t)),
      (asc ''sourceRef'', JStr (case tk_source_ref t of Some s \<Rightarrow> s | None \<Rightarrow> [])),
      (asc ''ticketType'', JStr (ticket_type_str (tk_type t))),
      (asc ''status'', JStr (ticket_status_str (tk_status t))),
      (asc ''title'', JStr (tk_title t)), (asc ''task'', JStr (tk_task t)),
      (asc ''device'', JStr (tk_device t)), (asc ''location'', JStr (tk_location t)),
      (asc ''steps'', parse_json (tk_steps t) (JList [])),
      (asc ''safety'', parse_json (tk_safety_measures t) (JList [])),
      (asc ''risks'', parse_json (tk_risks t) (JList [])),
      (asc ''notes'', JStr (tk_notes t)), (asc ''creator'', JStr (tk_creator t)),
      (asc ''reviewer'', JStr (tk_reviewer t)), (asc ''issuer'', JStr (tk_issuer t)),
      (asc ''executor'', JStr (tk_executor t)), (asc ''supervisor'', JStr (tk_supervisor t)),
      (asc ''reviewScore'', JInt (tk_review_score t)), (asc ''reviewComment'', JStr (tk_review_comment t)),
      (asc ''auditReport'', parse_json (tk_audit_report t) (JObj [])),
      (asc ''executionLog'', JStr (tk_execution_log t)), (asc ''deviation'', JStr (tk_deviation t)),
      (asc ''version'', JInt (if tk_version t = 0 then 1 else tk_version t)),
      (asc ''createdAt'', time_text (Some (tk_created_at t))),
      (asc ''updatedAt'', time_text (Some (tk_updated_at t))),
      (asc ''reviewedAt'', time_text (tk_reviewed_at t)), (asc ''issuedAt'', time_text (tk_issued_at t)),
      (asc ''completedAt'', time_text (tk_completed_at t))]"

section \<open>Queries\<close>

definition get_ticket :: "pystr \<Rightarrow> pystr \<Rightarrow> ticket_table \<Rightarrow> ticket option" where
  "get_ticket ticket_id tenant tbl = find_ticket ticket_id tenant tbl"

definition list_tickets ::
  "pystr \<Rightarrow> pystr \<Rightarrow> pystr \<Rightarrow> nat \<Rightarrow> nat \<Rightarrow> pystr \<Rightarrow> ticket_table \<Rightarrow> (nat \<times> ticket list) res" where
  "list_tickets status ticket_type creator page psize tenant tbl =
     (case (if status = [] then Inr None else map_sum id Some (ticket_status_of status)) of
        Inl e \<Rightarrow> Inl e
      | Inr st \<Rightarrow>
     (case (if ticket_type = [] then Inr None else map_sum id Some (ticket_type_of ticket_type)) of
        Inl e \<Rightarrow> Inl e
      | Inr ty \<Rightarrow>
          let rows = filter (\<lambda>t. \<not> tk_is_deleted t \<and> tk_tenant_id t = tenant \<and>
                (st = None \<or> st = Some (tk_status t)) \<and> (ty = None \<or> ty = Some (tk_type t)) \<and>
                (creator = [] \<or> tk_creator t = creator)) tbl
          in Inr (length rows, page_rows ((page - 1) * psize) psize (sort_key (\<lambda>t. - tk_created_at t) rows))))"

text \<open>
  The keys of the statistics are \<open>str(s)\<close> of enum members, which is the class and member name:
  \<open>str\<close> of a \<open>(str, Enum)\<close> member is not its value.
\<close>

definition status_member_str :: "ticket_status \<Rightarrow> pystr" where
  "status_member_str s = asc (case s of DRAFT \<Rightarrow> ''TicketStatus.DRAFT''
     | PENDING_REVIEW \<Rightarrow> ''TicketStatus.PENDING_REVIEW'' | REVIEWED \<Rightarrow> ''TicketStatus.REVIEWED''
     | ISSUED \<Rightarrow> ''TicketStatus.ISSUED'' | IN_EXECUTION \<Rightarrow> ''TicketStatus.IN_EXECUTION''
     | COMPLETED \<Rightarrow> ''TicketStatus.COMPLETED'' | ARCHIVED \<Rightarrow> ''TicketStatus.ARCHIVED''
     | REJECTED \<Rightarrow> ''TicketStatus.REJECTED'')"

text \<open>The total and the counts by status; the average score is left out.\<close>

definition get_ticket_stats :: "pystr \<Rightarrow> ticket_table \<Rightarrow> nat \<times> (pystr \<times> nat) list" where
  "get_ticket_stats tenant tbl =
     (let rows = filter (\<lambda>t. \<not> tk_is_deleted t \<and> tk_tenant_id t = tenant) tbl
      in (length rows,
          map (\<lambda>s. (status_member_str s, length (filter (\<lambda>t. tk_status t = s) rows)))
            (fromkeys (map tk_status rows))))"

end
