(* ===== verification/TicketLaws.thy ===== *)
theory TicketLaws
  imports Tickets
begin

text \<open>
  What the ticket service guarantees. Runs are lists of operations with the clocks, the audits
  and the actors they meet; an operation that raises leaves the table as it was. Every handler
  is one step on one row, so the laws are proved of the steps and lifted over the table.
\<close>

section \<open>Steps on a row\<close>

datatype ticket_action =
    Update "ticket_content list"
  | Submit auditor
  | Review bool pystr pystr
  | Issue pystr
  | Start pystr pystr
  | Complete pystr pystr
  | Archive

fun ticket_apply :: "clock \<times> ticket_action \<Rightarrow> ticket \<Rightarrow> ticket res" where
  "ticket_apply (c, Update kwargs) t = update_row kwargs t"
| "ticket_apply (c, Submit audit) t = submit_row c audit t"
| "ticket_apply (c, Review approved comment reviewer) t = review_row c approved comment reviewer t"
| "ticket_apply (c, Issue issuer) t = issue_row c issuer t"
| "ticket_apply (c, Start executor supervisor) t = start_row c executor supervisor t"
| "ticket_apply (c, Complete log deviation) t = complete_row c log deviation t"
| "ticket_apply (c, Archive) t = archive_row c t"

lemmas ticket_row_defs = update_row_def submit_row_def review_row_def issue_row_def start_row_def
  complete_row_def archive_row_def

text \<open>The life cycle of the module's header.\<close>

inductive ticket_edge :: "ticket_status \<Rightarrow> ticket_status \<Rightarrow> bool" where
  submitted: "ticket_edge DRAFT PENDING_REVIEW"
| passed: "ticket_edge DRAFT REVIEWED"
| approved: "ticket_edge PENDING_REVIEW REVIEWED"
| refused: "ticket_edge PENDING_REVIEW REJECTED"
| withdrawn: "ticket_edge REVIEWED REJECTED"
| issued: "ticket_edge REVIEWED ISSUED"
| started: "ticket_edge ISSUED IN_EXECUTION"
| finished: "ticket_edge IN_EXECUTION COMPLETED"
| filed: "ticket_edge COMPLETED ARCHIVED"

inductive_simps ticket_edge_from [simp]:
  "ticket_edge DRAFT s" "ticket_edge PENDING_REVIEW s" "ticket_edge REVIEWED s" "ticket_edge ISSUED s"
  "ticket_edge IN_EXECUTION s" "ticket_edge COMPLETED s" "ticket_edge ARCHIVED s" "ticket_edge REJECTED s"

lemma set_contents_status [simp]: "tk_status (fold set_content kwargs t) = tk_status t"
proof (induction kwargs arbitrary: t)
  case (Cons k kwargs)
  then show ?case by (cases k) simp_all
qed simp

lemma ticket_apply_status:
  "ticket_apply ca t = Inr t' \<Longrightarrow> tk_status t' = tk_status t \<or> ticket_edge (tk_status t) (tk_status t')"
  by (induction ca t rule: ticket_apply.induct)
    (auto simp: ticket_row_defs Let_def split: if_splits sum.splits)

interpretation tk_flow: status_machine ticket_apply tk_status ticket_edge
  by unfold_locales (rule ticket_apply_status)

text \<open>Of the row, a step changes the content of a draft, the status and what belongs to its stage.\<close>

definition ticket_content_of where
  "ticket_content_of t = (tk_title t, tk_task t, tk_device t, tk_location t, tk_steps t,
     tk_safety_measures t, tk_risks t, tk_notes t)"

definition ticket_origin where
  "ticket_origin t = (tk_id t, tk_tenant_id t, tk_source_ref t, tk_type t, tk_creator t, tk_created_at t, tk_version t)"

definition ticket_timeline :: "ticket \<Rightarrow> bool" where
  "ticket_timeline t \<longleftrightarrow>
     (tk_reviewed_at t \<noteq> None \<longleftrightarrow> tk_status t \<notin> {DRAFT, PENDING_REVIEW}) \<and>
     (tk_issued_at t \<noteq> None \<longleftrightarrow> tk_status t \<in> {ISSUED, IN_EXECUTION, COMPLETED, ARCHIVED}) \<and>
     (tk_executed_at t \<noteq> None \<longleftrightarrow> tk_status t \<in> {IN_EXECUTION, COMPLETED, ARCHIVED}) \<and>
     (tk_completed_at t \<noteq> None \<longleftrightarrow> tk_status t \<in> {COMPLETED, ARCHIVED}) \<and>
     (tk_archived_at t \<noteq> None \<longleftrightarrow> tk_status t = ARCHIVED)"

definition ticket_moves :: "ticket \<Rightarrow> ticket \<Rightarrow> bool" where
  "ticket_moves t t' \<longleftrightarrow>
     ticket_origin t' = ticket_origin t \<and>
     (tk_status t' = tk_status t \<or> ticket_edge (tk_status t) (tk_status t')) \<and>
     (tk_status t \<noteq> DRAFT \<longrightarrow> ticket_content_of t' = ticket_content_of t) \<and>
     (ticket_timeline t \<longrightarrow> ticket_timeline t') \<and>
     (tk_is_deleted t \<longrightarrow> t' = t)"

lemma set_content_frame:
  "ticket_origin (set_content k t) = ticket_origin t \<and>
   ticket_timeline (set_content k t) = ticket_timeline t \<and>
   tk_is_deleted (set_content k t) = tk_is_deleted t"
  by (cases k) (simp_all add: ticket_origin_def ticket_timeline_def)

lemma set_contents_frame:
  "ticket_origin (fold set_content kwargs t) = ticket_origin t \<and>
   ticket_timeline (fold set_content kwargs t) = ticket_timeline t \<and>
   tk_is_deleted (fold set_content kwargs t) = tk_is_deleted t"
  by (induction kwargs arbitrary: t) (simp_all add: set_content_frame)

text \<open>One goal per action: the row is as wide as the table, so the cases are kept apart.\<close>

lemma ticket_apply_cases:
  assumes "ticket_apply (c, a) t = Inr t'"
    and "\<And>kwargs. a = Update kwargs \<Longrightarrow> update_row kwargs t = Inr t' \<Longrightarrow> P"
    and "\<And>audit. submit_row c audit t = Inr t' \<Longrightarrow> P"
    and "\<And>approved comment reviewer. review_row c approved comment reviewer t = Inr t' \<Longrightarrow> P"
    and "\<And>issuer. issue_row c issuer t = Inr t' \<Longrightarrow> P"
    and "\<And>executor supervisor. start_row c executor supervisor t = Inr t' \<Longrightarrow> P"
    and "\<And>log deviation. complete_row c log deviation t = Inr t' \<Longrightarrow> P"
    and "archive_row c t = Inr t' \<Longrightarrow> P"
  shows P
  using assms by (cases a) simp_all

lemma submit_row_moves: "submit_row c audit t = Inr t' \<Longrightarrow> \<not> tk_is_deleted t \<Longrightarrow> ticket_moves t t'"
  by (auto simp: submit_row_def Let_def split: if_splits sum.splits)
    (simp_all add: ticket_moves_def ticket_origin_def ticket_timeline_def ticket_content_of_def)

lemma review_row_moves: "review_row c approved comment reviewer t = Inr t' \<Longrightarrow> \<not> tk_is_deleted t \<Longrightarrow> ticket_moves t t'"
  by (auto simp: review_row_def Let_def split: if_splits sum.splits)
    (simp_all add: ticket_moves_def ticket_origin_def ticket_timeline_def ticket_content_of_def)

lemma issue_row_moves: "issue_row c issuer t = Inr t' \<Longrightarrow> \<not> tk_is_deleted t \<Longrightarrow> ticket_moves t t'"
  by (auto simp: issue_row_def Let_def split: if_splits sum.splits)
    (simp_all add: ticket_moves_def ticket_origin_def ticket_timeline_def ticket_content_of_def)

lemma start_row_moves: "start_row c executor supervisor t = Inr t' \<Longrightarrow> \<not> tk_is_deleted t \<Longrightarrow> ticket_moves t t'"
  by (auto simp: start_row_def Let_def split: if_splits sum.splits)
    (simp_all add: ticket_moves_def ticket_origin_def ticket_timeline_def ticket_content_of_def)

lemma complete_row_moves: "complete_row c log deviation t = Inr t' \<Longrightarrow> \<not> tk_is_deleted t \<Longrightarrow> ticket_moves t t'"
  by (auto simp: complete_row_def Let_def split: if_splits sum.splits)
    (simp_all add: ticket_moves_def ticket_origin_def ticket_timeline_def ticket_content_of_def)

lemma archive_row_moves: "archive_row c t = Inr t' \<Longrightarrow> \<not> tk_is_deleted t \<Longrightarrow> ticket_moves t t'"
  by (auto simp: archive_row_def Let_def split: if_splits sum.splits)
    (simp_all add: ticket_moves_def ticket_origin_def ticket_timeline_def ticket_content_of_def)

lemma update_row_moves: "update_row kwargs t = Inr t' \<Longrightarrow> \<not> tk_is_deleted t \<Longrightarrow> ticket_moves t t'"
  by (auto simp: update_row_def ticket_moves_def set_contents_frame split: if_splits)

lemma ticket_apply_moves:
  assumes "ticket_apply (c, a) t = Inr t'" and "\<not> tk_is_deleted t"
  shows "ticket_moves t t'"
  using assms(1) by (rule ticket_apply_cases)
    (erule update_row_moves submit_row_moves review_row_moves issue_row_moves start_row_moves
      complete_row_moves archive_row_moves; rule assms(2))+

lemma ticket_apply_live:
  assumes "ticket_apply (c, a) t = Inr t'"
  shows "tk_is_deleted t' = tk_is_deleted t"
  using assms by (rule ticket_apply_cases)
    (auto simp: set_contents_frame ticket_row_defs Let_def split: if_splits sum.splits)

lemma ticket_moves_refl [simp]: "ticket_moves t t"
  by (simp add: ticket_moves_def)

lemma ticket_moves_id: "ticket_moves t t' \<Longrightarrow> tk_id t' = tk_id t"
  by (simp add: ticket_moves_def ticket_origin_def)

section \<open>Runs over the table\<close>

datatype ticket_op =
    CreateTicket clock pystr ticket_args
  | StepTicket bool clock pystr pystr ticket_action
  | DeleteTicket clock pystr pystr

text \<open>The handler each action is a step of, as the routes call it.\<close>

fun ticket_handler ::
  "bool \<Rightarrow> clock \<Rightarrow> ticket_action \<Rightarrow> pystr \<Rightarrow> pystr \<Rightarrow> ticket_table \<Rightarrow>
     (ticket \<times> ticket_effect list \<times> ticket_table) res" where
  "ticket_handler b c (Update kwargs) i tn tbl =
     (case update_ticket_content c i tn kwargs tbl of
        Inl e \<Rightarrow> Inl e
      | Inr None \<Rightarrow> Inl (ValueError msg_no_ticket)
      | Inr (Some r) \<Rightarrow> Inr r)"
| "ticket_handler b c (Submit audit) i tn tbl = submit_for_review c audit i tn tbl"
| "ticket_handler b c (Review approved comment reviewer) i tn tbl = review_ticket c approved comment reviewer i tn tbl"
| "ticket_handler b c (Issue issuer) i tn tbl = issue_ticket b c issuer i tn tbl"
| "ticket_handler b c (Start executor supervisor) i tn tbl = start_execution c executor supervisor i tn tbl"
| "ticket_handler b c (Complete log deviation) i tn tbl = complete_execution b c log deviation i tn tbl"
| "ticket_handler b c Archive i tn tbl = archive_ticket c i tn tbl"

fun ticket_step :: "ticket_op \<Rightarrow> ticket_table \<Rightarrow> ticket_table" where
  "ticket_step (CreateTicket c uuid a) tbl =
     (case create_ticket c uuid a tbl of Inl e \<Rightarrow> tbl | Inr (t, tbl') \<Rightarrow> tbl')"
| "ticket_step (StepTicket b c i tn a) tbl =
     (case ticket_handler b c a i tn tbl of Inl e \<Rightarrow> tbl | Inr (t, fx, tbl') \<Rightarrow> tbl')"
| "ticket_step (DeleteTicket c i tn) tbl = (case delete_ticket c i tn tbl of (b, fx, tbl') \<Rightarrow> tbl')"

text \<open>A handler is its step on the row it finds, saved.\<close>

lemma find_ticket_SomeD:
  "find_ticket i tn tbl = Some t \<Longrightarrow> t \<in> set tbl \<and> tk_id t = i \<and> tk_tenant_id t = tn \<and> \<not> tk_is_deleted t"
  by (auto simp: find_ticket_def find_Some_iff)

lemma ticket_handler_with:
  "\<exists>tell. ticket_handler b c a i tn tbl = with_ticket c i tn (ticket_apply (c, a)) tell tbl"
proof (cases a)
  case (Update kwargs)
  have "ticket_apply (c, Update kwargs) = update_row kwargs" by (rule ext) simp
  then show ?thesis unfolding Update
    by (intro exI[of _ "\<lambda>r. [sync_run (asc ''update'') (tk_creator r) r]"])
      (auto simp: update_ticket_content_def with_ticket_def split: option.splits sum.splits)
next
  case (Submit audit)
  have "ticket_apply (c, Submit audit) = submit_row c audit" by (rule ext) simp
  then show ?thesis unfolding Submit by (auto simp: submit_for_review_def)
next
  case (Review approved comment reviewer)
  have "ticket_apply (c, Review approved comment reviewer) = review_row c approved comment reviewer"
    by (rule ext) simp
  then show ?thesis unfolding Review by (auto simp: review_ticket_def)
next
  case (Issue issuer)
  have "ticket_apply (c, Issue issuer) = issue_row c issuer" by (rule ext) simp
  then show ?thesis unfolding Issue by (auto simp: issue_ticket_def)
next
  case (Start executor supervisor)
  have "ticket_apply (c, Start executor supervisor) = start_row c executor supervisor" by (rule ext) simp
  then show ?thesis unfolding Start by (auto simp: start_execution_def)
next
  case (Complete log deviation)
  have "ticket_apply (c, Complete log deviation) = complete_row c log deviation" by (rule ext) simp
  then show ?thesis unfolding Complete by (auto simp: complete_execution_def)
next
  case Archive
  have "ticket_apply (c, Archive) = archive_row c" by (rule ext) simp
  then show ?thesis unfolding Archive by (auto simp: archive_ticket_def)
qed

lemma get_row_saved:
  assumes "t \<in> set tbl" and "tk_id t' = tk_id t"
  shows "\<exists>row. get_row tk_id (tk_id t) (save_ticket c t t' tbl) = Some row"
proof -
  obtain r where "get_row tk_id (tk_id t) tbl = Some r"
    using assms(1) get_row_None_iff[of tk_id "tk_id t" tbl] by (cases "get_row tk_id (tk_id t) tbl") auto
  with assms(2) show ?thesis by (auto simp: save_ticket_def table_simps)
qed

lemma saved_row:
  assumes "get_row tk_id (tk_id t) (save_ticket c t t' tbl) = Some row" and "distinct (map tk_id tbl)"
    and "t \<in> set tbl" and "tk_id t' = tk_id t"
  shows "tk_id row = tk_id t \<and> tk_status row = tk_status t' \<and> tk_reviewed_at row = tk_reviewed_at t'"
proof -
  have "get_row tk_id (tk_id t) tbl = Some t" using get_row_distinct[OF assms(2,3)] .
  with assms(1,4) show ?thesis
    by (auto simp: save_ticket_def table_simps split: if_splits)
qed

lemma ticket_step_on_row:
  "ticket_step (StepTicket b c i tn a) tbl =
     (case find_ticket i tn tbl of None \<Rightarrow> tbl
      | Some t \<Rightarrow> (case ticket_apply (c, a) t of Inl e \<Rightarrow> tbl | Inr t' \<Rightarrow> save_ticket c t t' tbl))"
proof -
  obtain tell where h: "ticket_handler b c a i tn tbl = with_ticket c i tn (ticket_apply (c, a)) tell tbl"
    using ticket_handler_with by blast
  show ?thesis
  proof (cases "find_ticket i tn tbl")
    case None
    then show ?thesis by (simp add: h with_ticket_def)
  next
    case (Some t)
    note t = find_ticket_SomeD[OF Some]
    show ?thesis
    proof (cases "ticket_apply (c, a) t")
      case (Inl e)
      with Some show ?thesis by (simp add: h with_ticket_def on_ticket_def)
    next
      case (Inr t')
      have "ticket_moves t t'" using ticket_apply_moves[OF Inr] t by blast
      with get_row_saved t ticket_moves_id obtain row
        where "get_row tk_id (tk_id t) (save_ticket c t t' tbl) = Some row" by blast
      with Some Inr show ?thesis by (simp add: h with_ticket_def on_ticket_def Let_def)
    qed
  qed
qed

text \<open>Every operation leaves the table, appends a draft, or moves one row of a table with distinct ids.\<close>

lemma save_ticket_put:
  "\<exists>t''. save_ticket c t t' tbl = put_row tk_id t'' tbl \<and> (t'' = t' \<or> (\<exists>u. t'' = t'\<lparr>tk_updated_at := u\<rparr>))"
  if "distinct (map tk_id tbl)" "t \<in> set tbl" "tk_id t' = tk_id t"
proof (cases "t' = t")
  case True
  then show ?thesis using put_row_same[OF that(1,2)] by (intro exI[of _ t]) (simp add: save_ticket_def)
qed (auto simp: save_ticket_def)

lemma ticket_moves_touch: "ticket_moves t t' \<Longrightarrow> \<not> tk_is_deleted t \<Longrightarrow> ticket_moves t (t'\<lparr>tk_updated_at := u\<rparr>)"
  by (simp add: ticket_moves_def ticket_origin_def ticket_content_of_def ticket_timeline_def)

lemma ticket_moves_delete: "ticket_moves t (t\<lparr>tk_is_deleted := True\<rparr>)"
  by (simp add: ticket_moves_def ticket_origin_def ticket_content_of_def ticket_timeline_def)

lemma save_moves:
  assumes "distinct (map tk_id tbl)" and "t \<in> set tbl" and "\<not> tk_is_deleted t" and "ticket_moves t t'"
  shows "list_all2 ticket_moves tbl (save_ticket c t t' tbl)"
proof -
  from save_ticket_put[OF assms(1,2) ticket_moves_id[OF assms(4)]] obtain t'' where
    t'': "save_ticket c t t' tbl = put_row tk_id t'' tbl" "ticket_moves t t''"
    using ticket_moves_touch[OF assms(4,3)] assms(4) by metis
  have "get_row tk_id (tk_id t'') tbl = Some t"
    using get_row_distinct[OF assms(1,2)] ticket_moves_id[OF t''(2)] by simp
  with t'' assms(1) show ?thesis by (auto intro!: list_all2_put_row)
qed

lemma ticket_step_shape:
  assumes "distinct (map tk_id tbl)"
  shows "list_all2 ticket_moves tbl (ticket_step op tbl) \<or>
    (\<exists>c uuid ty a. op = CreateTicket c uuid a \<and> insert_ticket (new_ticket c uuid ty a) tbl = Inr (ticket_step op tbl))"
proof (cases op)
  case (CreateTicket c uuid a)
  then show ?thesis
    by (auto simp: create_ticket_def Let_def list.rel_refl split: option.splits sum.splits)
next
  case (StepTicket b c i tn a)
  show ?thesis
    unfolding StepTicket ticket_step_on_row
    by (auto simp: list.rel_refl split: option.splits sum.splits
      dest!: find_ticket_SomeD intro!: save_moves[OF assms] ticket_apply_moves)
next
  case (DeleteTicket c i tn)
  then show ?thesis
    by (auto simp: delete_ticket_def list.rel_refl split: option.splits
      dest!: find_ticket_SomeD intro!: save_moves[OF assms] ticket_moves_delete)
qed

section \<open>The invariant of the table\<close>

definition source_refs :: "ticket_table \<Rightarrow> (pystr \<times> pystr option) list" where
  "source_refs tbl = filter (\<lambda>(tn, r). r \<noteq> None) (map (\<lambda>t. (tk_tenant_id t, tk_source_ref t)) tbl)"

definition wf_tickets :: "ticket_table \<Rightarrow> bool" where
  "wf_tickets tbl \<longleftrightarrow> distinct (map tk_id tbl) \<and> distinct (source_refs tbl) \<and> list_all ticket_timeline tbl"

lemma ticket_moves_refs:
  assumes "list_all2 ticket_moves tbl tbl'"
  shows "map tk_id tbl' = map tk_id tbl" "source_refs tbl' = source_refs tbl"
proof -
  show "map tk_id tbl' = map tk_id tbl" by (rule moves_map[OF assms]) (rule ticket_moves_id)
  have "map (\<lambda>t. (tk_tenant_id t, tk_source_ref t)) tbl' = map (\<lambda>t. (tk_tenant_id t, tk_source_ref t)) tbl"
    by (rule moves_map[OF assms]) (simp add: ticket_moves_def ticket_origin_def)
  then show "source_refs tbl' = source_refs tbl" by (simp add: source_refs_def)
qed

lemma insert_ticket_InrD:
  "insert_ticket t tbl = Inr tbl' \<Longrightarrow>
   tbl' = tbl @ [t] \<and> tk_id t \<notin> tk_id ` set tbl \<and>
   (tk_source_ref t \<noteq> None \<longrightarrow> (tk_tenant_id t, tk_source_ref t) \<notin> set (source_refs tbl))"
  by (auto simp: insert_ticket_def source_refs_def split: if_splits)

lemma new_ticket_timeline [simp]: "ticket_timeline (new_ticket c uuid ty a)"
  by (simp add: ticket_timeline_def new_ticket_def)

lemma ticket_step_wf:
  assumes "wf_tickets tbl"
  shows "wf_tickets (ticket_step op tbl)"
proof -
  have d: "distinct (map tk_id tbl)" using assms by (simp add: wf_tickets_def)
  from ticket_step_shape[OF d, of op] show ?thesis
  proof
    assume m: "list_all2 ticket_moves tbl (ticket_step op tbl)"
    have "list_all ticket_timeline (ticket_step op tbl)"
      by (rule moves_list_all[OF m, where P = ticket_timeline])
        (use assms in \<open>auto simp: ticket_moves_def wf_tickets_def\<close>)
    with assms ticket_moves_refs[OF m] show ?thesis by (simp add: wf_tickets_def)
  next
    assume "\<exists>c uuid ty a. op = CreateTicket c uuid a \<and>
      insert_ticket (new_ticket c uuid ty a) tbl = Inr (ticket_step op tbl)"
    then obtain t where t: "ticket_timeline t" "insert_ticket t tbl = Inr (ticket_step op tbl)"
      using new_ticket_timeline by blast
    note eq = insert_ticket_InrD[OF t(2)]
    then have "ticket_step op tbl = tbl @ [t]" by blast
    moreover have "distinct (source_refs (tbl @ [t]))"
      using eq assms by (auto simp: source_refs_def wf_tickets_def)
    ultimately show ?thesis using eq t(1) assms by (auto simp: wf_tickets_def)
  qed
qed

interpretation tickets: invariant_ops ticket_step wf_tickets
  by unfold_locales (rule ticket_step_wf)

lemma wf_tickets_Nil [simp]: "wf_tickets []"
  by (simp add: wf_tickets_def source_refs_def)

lemma wf_ticket_runs: "wf_tickets (fold ticket_step ops [])"
  by (rule tickets.run_inv) simp

text \<open>A source reference belongs to one row; whether the service sees it depends on the deletion mark.\<close>

lemma source_ref_unique:
  assumes "distinct (source_refs tbl)" and "t \<in> set tbl" and "x \<in> set tbl" and "tk_source_ref t = Some s"
    and "tk_source_ref x = Some s" and "tk_tenant_id x = tk_tenant_id t"
  shows "x = t"
  using assms
proof (induction tbl)
  case (Cons a tbl)
  have in_refs: "y \<in> set tbl \<Longrightarrow> tk_source_ref y = Some s \<Longrightarrow>
      (tk_tenant_id y, Some s) \<in> set (source_refs tbl)" for y
    by (force simp: source_refs_def image_iff)
  have "source_refs (a # tbl) = (if tk_source_ref a = None then [] else [(tk_tenant_id a, tk_source_ref a)]) @ source_refs tbl"
    by (simp add: source_refs_def)
  with Cons show ?case using in_refs[of t] in_refs[of x] by (auto split: if_splits)
qed simp

lemma source_hits:
  assumes "wf_tickets tbl" and "t \<in> set tbl" and "tk_source_ref t = Some s"
  shows "find (\<lambda>x. tk_tenant_id x = tk_tenant_id t \<and> tk_source_ref x = Some s \<and> \<not> tk_is_deleted x) tbl =
    (if tk_is_deleted t then None else Some t)"
proof -
  have u: "x = t" if "x \<in> set tbl" "tk_source_ref x = Some s" "tk_tenant_id x = tk_tenant_id t" for x
    using source_ref_unique[of tbl t x s] assms that by (simp add: wf_tickets_def)
  show ?thesis
  proof (cases "tk_is_deleted t")
    case True
    then show ?thesis using u by (auto simp: find_None_iff)
  next
    case False
    then have "find (\<lambda>x. tk_tenant_id x = tk_tenant_id t \<and> tk_source_ref x = Some s \<and> \<not> tk_is_deleted x) tbl \<noteq> None"
      using assms(2,3) by (auto simp: find_None_iff)
    then obtain x where x: "find (\<lambda>x. tk_tenant_id x = tk_tenant_id t \<and> tk_source_ref x = Some s \<and> \<not> tk_is_deleted x) tbl = Some x"
      by blast
    then have "x = t" using u by (auto simp: find_Some_iff)
    with x False show ?thesis by simp
  qed
qed

section \<open>What becomes of a ticket\<close>

definition ticket_later :: "ticket \<Rightarrow> ticket \<Rightarrow> bool" where
  "ticket_later t t' \<longleftrightarrow>
     ticket_origin t' = ticket_origin t \<and> ticket_edge\<^sup>*\<^sup>* (tk_status t) (tk_status t') \<and>
     (tk_status t \<noteq> DRAFT \<longrightarrow> ticket_content_of t' = ticket_content_of t) \<and>
     (tk_is_deleted t \<longrightarrow> t' = t)"

lemma no_way_to_draft: "ticket_edge\<^sup>*\<^sup>* s s' \<Longrightarrow> s \<noteq> DRAFT \<Longrightarrow> s' \<noteq> DRAFT"
  using tk_flow.path_closed[of s s' "- {DRAFT}"] by (auto elim: ticket_edge.cases)

lemma ticket_terminal: "ticket_edge\<^sup>*\<^sup>* s s' \<Longrightarrow> s \<in> {ARCHIVED, REJECTED} \<Longrightarrow> s' = s"
  using tk_flow.path_closed[of s s' "{s}"] by (auto elim: ticket_edge.cases)

lemma ticket_later_refl [simp]: "ticket_later t t"
  by (simp add: ticket_later_def)

lemma ticket_later_step: "ticket_later t t' \<Longrightarrow> ticket_moves t' t'' \<Longrightarrow> ticket_later t t''"
  using no_way_to_draft[of "tk_status t" "tk_status t'"]
  by (auto simp: ticket_later_def ticket_moves_def intro: rtranclp.rtrancl_into_rtrancl)

lemma ticket_persists:
  assumes "wf_tickets tbl" and "get_row tk_id i tbl = Some t"
  shows "\<exists>t'. get_row tk_id i (fold ticket_step ops tbl) = Some t' \<and> ticket_later t t'"
proof (induction ops rule: rev_induct)
  case Nil
  show ?case using assms(2) by simp
next
  case (snoc op ops)
  let ?tbl = "fold ticket_step ops tbl"
  from snoc obtain t' where t': "get_row tk_id i ?tbl = Some t'" "ticket_later t t'" by blast
  have "distinct (map tk_id ?tbl)" using tickets.run_inv[OF assms(1)] by (simp add: wf_tickets_def)
  from ticket_step_shape[OF this, of op] obtain t'' where
    "get_row tk_id i (ticket_step op ?tbl) = Some t''" "ticket_moves t' t''"
  proof (elim disjE, goal_cases)
    case 1
    from get_row_moves[OF 1(2) ticket_moves_id t'(1)] 1(1) show ?case by blast
  next
    case 2
    then obtain n where "ticket_step op ?tbl = ?tbl @ [n]" using insert_ticket_InrD by blast
    with t'(1) 2(1)[of t'] show ?case by (simp add: get_row_def find_append)
  qed
  with ticket_later_step[OF t'(2)] show ?case by auto
qed

section \<open>The abstract life cycle\<close>

text \<open>
  What the rest of the system may rely on: a map from the live tickets to their tenant and
  status, and operations that move a status when it is the expected one.
\<close>

type_synonym life = "pystr \<rightharpoonup> pystr \<times> ticket_status"

datatype life_op =
    LIdle
  | LNew pystr pystr
  | LMove pystr pystr "ticket_status list" ticket_status
  | LDrop pystr pystr

fun life_spec :: "life_op \<Rightarrow> life \<Rightarrow> life" where
  "life_spec LIdle m = m"
| "life_spec (LNew i tn) m = (if m i = None then m(i \<mapsto> (tn, DRAFT)) else m)"
| "life_spec (LMove i tn from to_st) m =
     (case m i of
        Some (tn', s) \<Rightarrow> if tn' = tn \<and> s \<in> set from then m(i \<mapsto> (tn, to_st)) else m
      | None \<Rightarrow> m)"
| "life_spec (LDrop i tn) m =
     (case m i of Some (tn', s) \<Rightarrow> if tn' = tn then m(i := None) else m | None \<Rightarrow> m)"

fun life_of_action :: "pystr \<Rightarrow> pystr \<Rightarrow> ticket_action \<Rightarrow> life_op set" where
  "life_of_action i tn (Update kwargs) = {LIdle}"
| "life_of_action i tn (Submit audit) =
     {LMove i tn [DRAFT] PENDING_REVIEW, LMove i tn [DRAFT] REVIEWED}"
| "life_of_action i tn (Review approved comment reviewer) =
     {LMove i tn [PENDING_REVIEW, REVIEWED] (if approved then REVIEWED else REJECTED)}"
| "life_of_action i tn (Issue issuer) = {LMove i tn [REVIEWED] ISSUED}"
| "life_of_action i tn (Start executor supervisor) = {LMove i tn [ISSUED] IN_EXECUTION}"
| "life_of_action i tn (Complete log deviation) = {LMove i tn [IN_EXECUTION] COMPLETED}"
| "life_of_action i tn Archive = {LMove i tn [COMPLETED] ARCHIVED}"

fun life_of :: "ticket_op \<Rightarrow> life_op set" where
  "life_of (CreateTicket c uuid a) = {LIdle, LNew uuid (ta_tenant a)}"
| "life_of (StepTicket b c i tn a) = life_of_action i tn a"
| "life_of (DeleteTicket c i tn) = {LDrop i tn}"

definition life_of_row :: "ticket \<Rightarrow> (pystr \<times> ticket_status) option" where
  "life_of_row t = (if tk_is_deleted t then None else Some (tk_tenant_id t, tk_status t))"

definition ticket_abs :: "ticket_table \<Rightarrow> life" where
  "ticket_abs tbl = (\<lambda>i. Option.bind (get_row tk_id i tbl) life_of_row)"

lemma find_ticket_get_row:
  "distinct (map tk_id tbl) \<Longrightarrow>
   find_ticket i tn tbl = (case get_row tk_id i tbl of None \<Rightarrow> None
     | Some t \<Rightarrow> if tk_tenant_id t = tn \<and> \<not> tk_is_deleted t then Some t else None)"
proof (induction tbl)
  case (Cons t tbl)
  have "find_ticket i tn tbl = None" if "tk_id t = i"
  proof -
    have "tk_id x \<noteq> i" if "x \<in> set tbl" for x
      using that \<open>tk_id t = i\<close> Cons.prems by (metis distinct.simps(2) image_eqI list.set_map list.simps(9))
    then show ?thesis by (auto simp: find_ticket_def find_None_iff)
  qed
  then show ?case using Cons by (auto simp: find_ticket_def)
qed (simp add: find_ticket_def)

lemma abs_save:
  assumes "distinct (map tk_id tbl)" and "t \<in> set tbl" and "tk_id t' = tk_id t"
  shows "ticket_abs (save_ticket c t t' tbl) = (ticket_abs tbl)(tk_id t := life_of_row t')"
proof
  fix i
  obtain t'' where t'': "save_ticket c t t' tbl = put_row tk_id t'' tbl" "tk_id t'' = tk_id t"
    "life_of_row t'' = life_of_row t'"
    using save_ticket_put[OF assms, of c] assms(3) by (auto simp: life_of_row_def)
  show "ticket_abs (save_ticket c t t' tbl) i = ((ticket_abs tbl)(tk_id t := life_of_row t')) i"
    using get_row_distinct[OF assms(1,2)] by (simp add: ticket_abs_def t'' table_simps)
qed

lemma abs_find:
  assumes "distinct (map tk_id tbl)"
  shows "find_ticket i tn tbl = Some t \<Longrightarrow> ticket_abs tbl i = Some (tn, tk_status t)"
    and "find_ticket i tn tbl = None \<Longrightarrow> \<forall>s. ticket_abs tbl i \<noteq> Some (tn, s)"
  by (auto simp: find_ticket_get_row[OF assms] ticket_abs_def life_of_row_def split: option.splits if_splits)

text \<open>On the row, an action that succeeds makes the move it stands for, and one that fails had no right to.\<close>

lemma row_step_status:
  "submit_row c audit t = Inr t' \<Longrightarrow> tk_status t = DRAFT \<and> tk_status t' \<in> {PENDING_REVIEW, REVIEWED}"
  "review_row c approved comment reviewer t = Inr t' \<Longrightarrow>
     tk_status t \<in> {PENDING_REVIEW, REVIEWED} \<and> tk_status t' = (if approved then REVIEWED else REJECTED)"
  "issue_row c issuer t = Inr t' \<Longrightarrow> tk_status t = REVIEWED \<and> tk_status t' = ISSUED"
  "start_row c executor supervisor t = Inr t' \<Longrightarrow> tk_status t = ISSUED \<and> tk_status t' = IN_EXECUTION"
  "complete_row c log deviation t = Inr t' \<Longrightarrow> tk_status t = IN_EXECUTION \<and> tk_status t' = COMPLETED"
  "archive_row c t = Inr t' \<Longrightarrow> tk_status t = COMPLETED \<and> tk_status t' = ARCHIVED"
  by (auto simp: ticket_row_defs Let_def split: if_splits sum.splits)

lemma row_step_refused:
  "submit_row c audit t = Inl e \<Longrightarrow> tk_status t \<noteq> DRAFT"
  "review_row c approved comment reviewer t = Inl e \<Longrightarrow> tk_status t \<notin> {PENDING_REVIEW, REVIEWED}"
  "issue_row c issuer t = Inl e \<Longrightarrow> tk_status t \<noteq> REVIEWED"
  "start_row c executor supervisor t = Inl e \<Longrightarrow> tk_status t \<noteq> ISSUED"
  "complete_row c log deviation t = Inl e \<Longrightarrow> tk_status t \<noteq> IN_EXECUTION"
  "archive_row c t = Inl e \<Longrightarrow> tk_status t \<noteq> COMPLETED"
  by (auto simp: ticket_row_defs Let_def split: if_splits sum.splits)

lemma action_moves:
  assumes "ticket_apply (c, a) t = Inr t'"
  shows "a \<in> range Update \<and> tk_status t' = tk_status t \<or>
    (\<exists>from. LMove i tn from (tk_status t') \<in> life_of_action i tn a \<and> tk_status t \<in> set from)"
proof (cases a)
  case (Update kwargs)
  with assms show ?thesis by (auto simp: update_row_def split: if_splits)
next
  case (Submit audit)
  with assms have "submit_row c audit t = Inr t'" by simp
  from row_step_status(1)[OF this] show ?thesis
    unfolding Submit by (intro disjI2 exI[of _ "[DRAFT]"]) simp
next
  case (Review approved comment reviewer)
  with assms row_step_status(2)[of c approved comment reviewer t t'] show ?thesis by auto
next
  case (Issue issuer)
  with assms row_step_status(3)[of c issuer t t'] show ?thesis by auto
next
  case (Start executor supervisor)
  with assms row_step_status(4)[of c executor supervisor t t'] show ?thesis by auto
next
  case (Complete log deviation)
  with assms row_step_status(5)[of c log deviation t t'] show ?thesis by auto
next
  case Archive
  with assms row_step_status(6)[of c t t'] show ?thesis by auto
qed

lemma action_refused:
  assumes "ticket_apply (c, a) t = Inl e"
  shows "a \<in> range Update \<or>
    (\<exists>from to_st. LMove i tn from to_st \<in> life_of_action i tn a \<and> tk_status t \<notin> set from)"
  using assms by (cases a) (auto dest!: row_step_refused)

lemma action_has_move:
  "a \<in> range Update \<or> (\<exists>from to_st. LMove i tn from to_st \<in> life_of_action i tn a)"
  by (cases a) auto

lemma life_idle_update [simp]: "life_of_action i tn a = {LIdle} \<longleftrightarrow> a \<in> range Update"
  by (cases a) auto

text \<open>One step of the service is one step of the abstract life cycle.\<close>

lemma life_step:
  assumes "wf_tickets tbl"
  shows "\<exists>l \<in> life_of op. ticket_abs (ticket_step op tbl) = life_spec l (ticket_abs tbl)"
proof -
  have d: "distinct (map tk_id tbl)" using assms by (simp add: wf_tickets_def)
  show ?thesis
  proof (cases op)
    case (CreateTicket c uuid a)
    from ticket_step_shape[OF d, of op] show ?thesis
    proof
      assume "list_all2 ticket_moves tbl (ticket_step op tbl)"
      then have "ticket_step op tbl = tbl"
        by (auto simp: CreateTicket create_ticket_def Let_def dest: list_all2_lengthD
            split: option.splits sum.splits dest!: insert_ticket_InrD)
      then show ?thesis by (intro bexI[of _ LIdle]) (simp_all add: CreateTicket)
    next
      assume "\<exists>c uuid ty a. op = CreateTicket c uuid a \<and>
        insert_ticket (new_ticket c uuid ty a) tbl = Inr (ticket_step op tbl)"
      then obtain ty where "insert_ticket (new_ticket c uuid ty a) tbl = Inr (ticket_step op tbl)"
        using CreateTicket by auto
      from insert_ticket_InrD[OF this] have t: "ticket_step op tbl = tbl @ [new_ticket c uuid ty a]"
        "uuid \<notin> tk_id ` set tbl" by (auto simp: new_ticket_def)
      have "get_row tk_id uuid tbl = None" using t(2) by (simp add: get_row_None_iff)
      then have "ticket_abs (ticket_step op tbl) = life_spec (LNew uuid (ta_tenant a)) (ticket_abs tbl)"
        by (auto simp: ticket_abs_def t(1) get_row_def find_append life_of_row_def new_ticket_def
            fun_eq_iff split: option.splits)
      then show ?thesis by (auto simp: CreateTicket)
    qed
  next
    case (StepTicket b c i tn a)
    show ?thesis
    proof (cases "find_ticket i tn tbl")
      case None
      have step: "ticket_step (StepTicket b c i tn a) tbl = tbl" unfolding ticket_step_on_row by (simp add: None)
      from action_has_move[of a i tn] abs_find(2)[OF d None] show ?thesis
        unfolding StepTicket step life_of.simps by (elim disjE exE) (auto intro!: bexI split: option.splits)
    next
      case (Some t)
      note t = find_ticket_SomeD[OF Some] and abs = abs_find(1)[OF d Some]
      show ?thesis
      proof (cases "ticket_apply (c, a) t")
        case (Inl e)
        have step: "ticket_step (StepTicket b c i tn a) tbl = tbl" unfolding ticket_step_on_row by (simp add: Some Inl)
        from action_refused[OF Inl, of i tn] abs show ?thesis
          unfolding StepTicket step life_of.simps by (elim disjE exE) (auto intro!: bexI)
      next
        case (Inr t')
        from ticket_apply_moves[OF Inr] t have m: "ticket_moves t t'" by blast
        then have "life_of_row t' = Some (tn, tk_status t')"
          using ticket_apply_live[OF Inr] t by (simp add: life_of_row_def ticket_moves_def ticket_origin_def)
        then have "ticket_abs (ticket_step op tbl) = (ticket_abs tbl)(i \<mapsto> (tn, tk_status t'))"
          using abs_save[OF d _ ticket_moves_id[OF m], of c] t
          unfolding StepTicket ticket_step_on_row by (simp add: Some Inr)
        with action_moves[OF Inr, of i tn] abs show ?thesis
          unfolding StepTicket life_of.simps by (elim disjE exE) (auto intro!: bexI simp del: ticket_step.simps)
      qed
    qed
  next
    case (DeleteTicket c i tn)
    show ?thesis
    proof (cases "find_ticket i tn tbl")
      case None
      with abs_find(2)[OF d None] show ?thesis
        by (auto simp: DeleteTicket delete_ticket_def split: option.splits)
    next
      case (Some t)
      note t = find_ticket_SomeD[OF Some] and abs = abs_find(1)[OF d Some]
      have "ticket_abs (ticket_step op tbl) = (ticket_abs tbl)(i := None)"
        using abs_save[OF d, of t "t\<lparr>tk_is_deleted := True\<rparr>" c] t
        by (simp add: DeleteTicket delete_ticket_def Some life_of_row_def)
      with abs show ?thesis by (simp add: DeleteTicket)
    qed
  qed
qed

end
