(* ===== verification/TicketReview.thy ===== *)
theory TicketReview
  imports TicketLaws
begin

text \<open>
  The audit of the text that the ticket service builds. In that text a colon follows a label of
  the service only; the patterns for the dispatch number and the operator, which the service
  never writes, want other words before it.
\<close>

section \<open>Colons\<close>

definition label_end :: "nat \<Rightarrow> bool" where
  "label_end c \<longleftrightarrow> c \<in> {0x52a1, 0x65bd, 0x70b9} \<or> is_digit c"

definition is_colon :: "nat \<Rightarrow> bool" where
  "is_colon c \<longleftrightarrow> c \<in> set colons"

text \<open>Every colon stands behind the end of a label.\<close>

fun colons_labelled :: "nat \<Rightarrow> pystr \<Rightarrow> bool" where
  "colons_labelled prev [] = True"
| "colons_labelled prev (c # cs) = ((is_colon c \<longrightarrow> label_end prev) \<and> colons_labelled c cs)"

definition no_colon :: "pystr \<Rightarrow> bool" where
  "no_colon s = list_all (\<lambda>c. \<not> is_colon c) s"

lemma labelled_append:
  "colons_labelled p (a @ b) \<longleftrightarrow> colons_labelled p a \<and> colons_labelled (if a = [] then p else last a) b"
  by (induction a arbitrary: p) auto

lemma no_colon_labelled: "no_colon s \<Longrightarrow> colons_labelled p s"
  by (induction s arbitrary: p) (auto simp: no_colon_def)

lemma labelled_at:
  "colons_labelled p (pre @ c # post) \<Longrightarrow> is_colon c \<Longrightarrow> pre \<noteq> [] \<Longrightarrow> label_end (last pre)"
  by (simp add: labelled_append)

lemma labelled_any: "no_colon [c] \<Longrightarrow> colons_labelled p (c # cs) \<Longrightarrow> colons_labelled q (c # cs)"
  by (simp add: no_colon_def)

lemma labelled_join:
  assumes "\<And>l. l \<in> set ls \<Longrightarrow> \<exists>c cs. l = c # cs \<and> no_colon [c] \<and> colons_labelled 0 l"
  shows "colons_labelled 0 (py_join [10] ls)"
  using assms
proof (induction ls)
  case (Cons l ls)
  show ?case
  proof (cases "ls = []")
    case True
    with Cons.prems[of l] show ?thesis by auto
  next
    case False
    then obtain l' ls' where ls: "ls = l' # ls'" by (cases ls) auto
    obtain c cs where "l' = c # cs" "no_colon [c]" using Cons.prems[of l'] ls by auto
    then obtain ds where "py_join [10] ls = c # ds" "no_colon [c]" by (auto simp: ls py_join_Cons)
    moreover have "colons_labelled 0 (py_join [10] ls)" using Cons by simp
    moreover have "colons_labelled 0 l" using Cons.prems[of l] by auto
    ultimately show ?thesis
      using labelled_any[of c 0 ds 10] False
      by (simp add: py_join_Cons labelled_append is_colon_def colons_def)
  qed
qed simp

lemma labelled_line:
  assumes "no_colon p" and "p \<noteq> []" and "label_end (last p)" and "is_colon c" and "no_colon s"
  shows "colons_labelled 0 (p @ c # s)"
  using assms no_colon_labelled by (simp add: labelled_append)

section \<open>The built text\<close>

definition plain_ticket :: "ticket \<Rightarrow> bool" where
  "plain_ticket t \<longleftrightarrow> no_colon (tk_task t) \<and>
     (\<forall>s \<in> set (text_items (tk_steps t) @ text_items (tk_safety_measures t) @ text_items (tk_risks t)). no_colon s)"

lemma dec_nat_last: "is_digit (last (dec_nat n))"
  using dec_nat_is_digit[of "last (dec_nat n)" n] by simp

lemma dec_nat_no_colon: "no_colon (dec_nat n)"
proof -
  have "\<not> is_colon c" if "c \<in> set (dec_nat n)" for c
    using dec_nat_is_digit[OF that] by (auto simp: is_colon_def colons_def is_digit_def)
  then show ?thesis by (simp add: no_colon_def list_all_iff)
qed

lemma is_colon_wide [simp]: "is_colon 0xff1a"
  by (simp add: is_colon_def colons_def)

lemma built_text_labelled:
  assumes "plain_ticket t"
  shows "colons_labelled 0 (build_ticket_text t)"
  unfolding build_ticket_text_def
proof (rule labelled_join)
  have label: "\<exists>c cs. p @ 0xff1a # s = c # cs \<and> no_colon [c] \<and> colons_labelled 0 (p @ 0xff1a # s)"
    if "no_colon p" "p \<noteq> []" "label_end (last p)" "no_colon s" for p s
    using labelled_line[of p "0xff1a" s] that by (cases p) (auto simp: no_colon_def)
  fix l
  assume "l \<in> set ([[0x4efb, 0x52a1, 0xff1a] @ tk_task t] @
      map (\<lambda>(i, s). [0x6b65, 0x9aa4] @ dec_nat i @ [0xff1a] @ s) (enumerate 1 (text_items (tk_steps t))) @
      map (\<lambda>s. [0x5b89, 0x5168, 0x63aa, 0x65bd, 0xff1a] @ s) (text_items (tk_safety_measures t)) @
      map (\<lambda>r. [0x5371, 0x9669, 0x70b9, 0xff1a] @ r) (text_items (tk_risks t)))"
  then consider "l = [0x4efb, 0x52a1] @ 0xff1a # tk_task t"
    | i s where "(i, s) \<in> set (enumerate 1 (text_items (tk_steps t)))" "l = ([0x6b65, 0x9aa4] @ dec_nat i) @ 0xff1a # s"
    | s where "s \<in> set (text_items (tk_safety_measures t))" "l = [0x5b89, 0x5168, 0x63aa, 0x65bd] @ 0xff1a # s"
    | s where "s \<in> set (text_items (tk_risks t))" "l = [0x5371, 0x9669, 0x70b9] @ 0xff1a # s" by auto
  then show "\<exists>c cs. l = c # cs \<and> no_colon [c] \<and> colons_labelled 0 l"
  proof cases
    case 1
    show ?thesis unfolding 1
      by (rule label) (use assms in \<open>simp_all add: plain_ticket_def no_colon_def is_colon_def colons_def label_end_def\<close>)
  next
    case (2 i s)
    have "s \<in> set (text_items (tk_steps t))" using 2(1) by (auto simp: in_set_enumerate_eq)
    then show ?thesis unfolding 2(2)
      by (intro label) (use assms dec_nat_no_colon[of i] dec_nat_last[of i] in
        \<open>simp_all add: plain_ticket_def no_colon_def is_colon_def colons_def label_end_def\<close>)
  next
    case (3 s)
    then show ?thesis
      by (simp only: 3(2), intro label) (use assms 3(1) in \<open>simp_all add: plain_ticket_def no_colon_def is_colon_def colons_def label_end_def\<close>)
  next
    case (4 s)
    then show ?thesis
      by (simp only: 4(2), intro label) (use assms 4(1) in \<open>simp_all add: plain_ticket_def no_colon_def is_colon_def colons_def label_end_def\<close>)
  qed
qed

section \<open>The patterns\<close>

lemma spaces_colon_match:
  assumes "rest \<in> set (re_match (Cat spaces (one_of colons)) s)"
  obtains w c where "s = w @ c # rest" "list_all (in_class SPACE) w" "is_colon c"
proof -
  from assms obtain r where r: "r \<in> set (re_star SPACE s)" "rest \<in> set (re_match (one_of colons) r)"
    by (auto simp: spaces_def)
  from re_star_split[OF r(1)] obtain w where "s = w @ r" "list_all (in_class SPACE) w" by blast
  moreover from r(2) obtain c where "r = c # rest" "is_colon c"
    by (auto simp: one_of_def in_class_def is_colon_def colons_def split: list.splits if_splits)
  ultimately show ?thesis using that by blast
qed

text \<open>What stands before the colon of the dispatch and operator patterns.\<close>

definition field_end :: "nat \<Rightarrow> bool" where
  "field_end c \<longleftrightarrow> c \<in> {0x4ee4, 0x53f7, 0x4eba}"

lemma operator_match:
  assumes "rest \<in> set (re_match operator_head s)"
  shows "\<exists>u x w c. s = u @ x # w @ c # rest \<and> field_end x \<and> list_all (in_class SPACE) w \<and> is_colon c"
proof -
  from assms obtain r where r: "r \<in> set (re_match (words OPERATOR_KEYS) s)"
    "rest \<in> set (re_match (Cat spaces (one_of colons)) r)" unfolding operator_head_def by auto
  from spaces_colon_match[OF r(2)] obtain w c where w: "r = w @ c # rest" "list_all (in_class SPACE) w" "is_colon c" .
  from r(1) obtain k where k: "k \<in> set OPERATOR_KEYS" "s = k @ r" by (auto simp: re_match_words)
  then have "k \<noteq> [] \<and> field_end (last k)" by (auto simp: OPERATOR_KEYS_def field_end_def)
  then have "s = butlast k @ last k # w @ c # rest" "field_end (last k)" using k(2) w(1) by auto
  with w show ?thesis by blast
qed

lemma dispatch_match:
  assumes "rest \<in> set (re_match dispatch_head s)"
  shows "\<exists>u x w c. s = u @ x # w @ c # rest \<and> field_end x \<and> list_all (in_class SPACE) w \<and> is_colon c"
proof -
  from assms obtain a b where r: "a \<in> set (re_match dispatch_word s)"
    "b \<in> set (re_match (Opt (words [[0x53f7], [0x7f16, 0x53f7]])) a)"
    "rest \<in> set (re_match (Cat spaces (one_of colons)) b)" unfolding dispatch_head_def by auto
  from spaces_colon_match[OF r(3)] obtain w c where w: "b = w @ c # rest" "list_all (in_class SPACE) w" "is_colon c" .
  from r(1) obtain s' where "s' \<in> set (re_match (Opt (lit [0x8c03, 0x5ea6])) s)"
    and a: "a \<in> set (re_match (words [[0x6307, 0x4ee4], [0x547d, 0x4ee4]]) s')"
    unfolding dispatch_word_def re_match.simps(3) set_concat set_map by blast
  with re_match_split have s': "\<exists>p. s = p @ s'" by blast
  from a obtain k where k: "k \<in> set [[0x6307, 0x4ee4], [0x547d, 0x4ee4]]" "s' = k @ a"
    unfolding re_match_words by blast
  from r(2) have "a = b \<or> (\<exists>m \<in> set [[0x53f7], [0x7f16, 0x53f7]]. a = m @ b)"
    by (auto simp: re_match_words simp del: words.simps)
  then have "\<exists>u x. s' = u @ x # b \<and> field_end x"
  proof
    assume "a = b"
    then have "s' = butlast k @ last k # b" "field_end (last k)" using k by (auto simp: field_end_def)
    then show ?thesis by blast
  next
    assume "\<exists>m \<in> set [[0x53f7], [0x7f16, 0x53f7]]. a = m @ b"
    then obtain m where m: "a = m @ b" "m \<noteq> []" "field_end (last m)" by (auto simp: field_end_def)
    then have "s' = (k @ butlast m) @ last m # b" using k(2) by simp
    with m(3) show ?thesis by blast
  qed
  then obtain u x where u: "s' = u @ x # b" "field_end x" by blast
  from s' obtain p where "s = (p @ u) @ x # w @ c # rest" using u(1) w(1) by auto
  with u(2) w show ?thesis by blast
qed

lemma no_field:
  assumes "colons_labelled 0 raw"
    and "\<And>s rest. rest \<in> set (re_match head s) \<Longrightarrow>
      \<exists>u x w c. s = u @ x # w @ c # rest \<and> field_end x \<and> list_all (in_class SPACE) w \<and> is_colon c"
  shows "field_value head raw = []"
proof (cases "re_search_line (Cat head spaces) raw")
  case (Some g)
  from re_search_line_at[OF this] obtain pre post rest0 where m: "raw = pre @ post"
    "rest0 \<in> set (re_match (Cat head spaces) post)" by blast
  then obtain rest where "rest \<in> set (re_match head post)" by auto
  from assms(2)[OF this] obtain u x w c where x: "post = u @ x # w @ c # rest" "field_end x"
    "list_all (in_class SPACE) w" "is_colon c" by blast
  then have "raw = (pre @ u @ x # w) @ c # rest" by (simp add: m(1))
  from assms(1)[unfolded this] labelled_at[OF _ x(4), of 0 "pre @ u @ x # w" rest]
  have e: "label_end (last (x # w))" by simp
  have False
  proof (cases "w = []")
    case True
    with e x(2) show False by (auto simp: label_end_def field_end_def is_digit_def)
  next
    case False
    then have "in_class SPACE (last w)" using x(3) by (simp add: list_all_iff)
    with e False show False by (auto simp: label_end_def is_digit_def in_class_def SPACE_def)
  qed
  then show ?thesis ..
qed (simp add: field_value_def)

section \<open>The score\<close>

lemma scan_line_fields:
  "pt_dispatch_no (snd (scan_line l st)) = pt_dispatch_no (snd st) \<and>
   pt_operator (snd (scan_line l st)) = pt_operator (snd st)"
  by (cases st) (auto simp: scan_line_def Let_def split: ticket_section.splits)

lemma scan_lines_fields:
  "pt_dispatch_no (snd (fold scan_line ls st)) = pt_dispatch_no (snd st) \<and>
   pt_operator (snd (fold scan_line ls st)) = pt_operator (snd st)"
  by (induction ls arbitrary: st) (simp_all add: scan_line_fields)

lemma built_text_fields:
  assumes "plain_ticket t"
  shows "pt_dispatch_no (parse_ticket (build_ticket_text t) ty) = []"
    and "pt_operator (parse_ticket (build_ticket_text t) ty) = []"
  using no_field[OF built_text_labelled[OF assms] dispatch_match]
    no_field[OF built_text_labelled[OF assms] operator_match]
  by (auto simp: parse_ticket_def blank_ticket_def Let_def scan_lines_fields)

lemma deduction_nonneg: "deduction it = Inr d \<Longrightarrow> 0 \<le> d"
  by (auto simp: deduction_def split: json.splits if_splits)

lemma deductions_nonneg: "deductions its = Inr d \<Longrightarrow> 0 \<le> d"
  by (induction its arbitrary: d) (auto split: sum.splits dest: deduction_nonneg)

lemma deductions_append:
  "deductions (xs @ ys) = Inr d \<Longrightarrow> \<exists>a b. deductions xs = Inr a \<and> deductions ys = Inr b \<and> d = a + b"
  by (induction xs arbitrary: d) (auto split: sum.splits)

text \<open>Items of a list cost at least what a part of the list costs.\<close>

lemma deductions_part:
  assumes "deductions (xs @ ys @ zs) = Inr d" and "deductions ys = Inr b"
  shows "b \<le> d"
  using assms deductions_append[of xs "ys @ zs" d] deductions_append[of ys zs]
    deductions_nonneg[of xs] deductions_nonneg[of zs] by fastforce

lemma score_bounds: "score items = Inr sc \<Longrightarrow> 0 \<le> sc \<and> sc \<le> 100"
  by (cases "deductions items") (auto simp: score_def)

lemma missing_fields_items:
  assumes "pt_dispatch_no p = []" and "pt_operator p = []"
  shows "\<exists>xs ys zs. rule_check p DEFAULT_RULES = xs @ ys @ zs \<and> deductions ys = Inr 30"
proof -
  let ?a = "rule_item (asc ''REQ_DISPATCH'') (asc ''required_field'') (asc ''major'') ([0x7f3a, 0x5c11] @ [0x8c03, 0x5ea6, 0x6307, 0x4ee4, 0x53f7]) [0x8865, 0x5145, 0x8c03, 0x5ea6, 0x6307, 0x4ee4, 0x53f7]"
  let ?b = "rule_item (asc ''REQ_OPERATOR'') (asc ''required_field'') (asc ''major'') ([0x7f3a, 0x5c11] @ [0x64cd, 0x4f5c, 0x4eba]) ([0x8865, 0x5145, 0x64cd, 0x4f5c, 0x4eba] @ asc ''/'' @ [0x8d1f, 0x8d23, 0x4eba])"
  let ?req = "\<lambda>r. if rq_field r \<noteq> [] \<and> \<not> parsed_has p (rq_field r)
    then [rule_item (rq_id r) (asc ''required_field'') (rq_severity r) ([0x7f3a, 0x5c11] @ rq_label r) (rq_suggestion r)] else []"
  obtain zs where zs: "rule_check p DEFAULT_RULES = concat (map ?req (ar_required DEFAULT_RULES)) @ zs"
    unfolding rule_check_def Let_def by blast
  obtain r where r: "ar_required DEFAULT_RULES = [r,
      \<lparr>rq_id = asc ''REQ_DISPATCH'', rq_field = asc ''dispatch_no'', rq_label = [0x8c03, 0x5ea6, 0x6307, 0x4ee4, 0x53f7], rq_severity = asc ''major'', rq_suggestion = [0x8865, 0x5145, 0x8c03, 0x5ea6, 0x6307, 0x4ee4, 0x53f7]\<rparr>,
      \<lparr>rq_id = asc ''REQ_OPERATOR'', rq_field = asc ''operator'', rq_label = [0x64cd, 0x4f5c, 0x4eba], rq_severity = asc ''major'', rq_suggestion = ([0x8865, 0x5145, 0x64cd, 0x4f5c, 0x4eba] @ asc ''/'' @ [0x8d1f, 0x8d23, 0x4eba])\<rparr>]"
    by (simp add: DEFAULT_RULES_def)
  have "rule_check p DEFAULT_RULES = ?req r @ [?a, ?b] @ zs"
    using assms by (simp add: zs r parsed_has_def)
  then have "\<exists>xs zs. rule_check p DEFAULT_RULES = xs @ [?a, ?b] @ zs" by blast
  moreover have "deductions [?a, ?b] = Inr 30" by (simp add: deduction_def rule_item_def)
  ultimately show ?thesis by blast
qed

lemma audit_of_built_text:
  assumes "plain_ticket t" and "audit_ticket DEFAULT_RULES llm (build_ticket_text t) ty = Inr r"
  shows "rp_score r \<le> 70"
proof -
  let ?p = "parse_ticket (build_ticket_text t) ty"
  from missing_fields_items[OF built_text_fields[OF assms(1), of ty]] obtain xs ys zs where
    items: "rule_check ?p DEFAULT_RULES = xs @ ys @ zs" "deductions ys = Inr 30" by blast
  have "sc \<le> 70" if "score (rule_check ?p DEFAULT_RULES @ its) = Inr sc" for its sc
  proof (cases "deductions (xs @ ys @ zs @ its)")
    case (Inr d)
    from deductions_part[OF Inr items(2)] that items(1) Inr show ?thesis by (simp add: score_def)
  qed (use that items(1) in \<open>simp add: score_def\<close>)
  then show ?thesis using assms(2)
    by (auto simp: audit_ticket_def Let_def split: if_splits sum.splits)
qed

lemma submit_built_text:
  assumes "tk_status t = DRAFT" and "plain_ticket t" and "tk_reviewed_at t = None"
  shows "\<exists>t'. submit_row c (\<lambda>txt ty. map_sum id (\<lambda>r. (r, ms)) (audit_ticket DEFAULT_RULES llm txt ty)) t = Inr t' \<and>
    tk_status t' = PENDING_REVIEW \<and> tk_reviewed_at t' = None"
proof -
  let ?t1 = "t\<lparr>tk_status := PENDING_REVIEW, tk_updated_at := utc c 0\<rparr>"
  have p: "plain_ticket ?t1" using assms(2) by (simp add: plain_ticket_def)
  show ?thesis
  proof (cases "audit_ticket DEFAULT_RULES llm (build_ticket_text ?t1) (ticket_type_str (tk_type ?t1))")
    case (Inl e)
    with assms show ?thesis by (simp add: submit_row_def Let_def)
  next
    case (Inr r)
    from audit_of_built_text[OF p Inr] Inr assms show ?thesis by (simp add: submit_row_def Let_def)
  qed
qed

end
