(* ===== verification/TicketClaims.thy ===== *)
theory TicketClaims
  imports TicketReview
begin

text \<open>
  The properties of the ticket service. Each is a statement about arbitrary runs of its
  operations from an empty table.
\<close>

lemma json_loads_text_list: "json_loads (text_list xs) = Some (JList (map JStr xs))"
  unfolding text_list_def by (rule json_loads_text) (simp_all add: list_all_iff)

lemma parse_text_list: "parse_json (text_list xs) d = JList (map JStr xs)"
proof -
  have "text_list xs \<noteq> []" by (simp add: text_list_def)
  then show ?thesis by (simp add: parse_json_def json_loads_text_list)
qed

lemma text_items_list: "text_items (text_list xs) = xs"
  by (simp add: text_items_def parse_text_list py_str_def comp_def)


text \<open>After any run of the service no two tickets share an id, no two of a tenant (deleted
  ones included) a source reference, and every ticket has exactly the time stamps of the
  stages its status has passed: reviewed, issued, executed, completed, archived.\<close>

theorem ticket_table_invariant: "wf_tickets (fold ticket_step ops [])"
  by (rule wf_ticket_runs)

text \<open>C33: Once a ticket has been submitted, whatever happens later to the table, the ticket is
  still there with the same identity and content, its status has only moved along the life
  cycle, never back to draft, an archived or rejected ticket keeps its status, and a deleted
  one does not change at all.\<close>

theorem submitted_ticket_is_frozen:
  assumes "get_row tk_id i (fold ticket_step ops []) = Some t" and "tk_status t \<noteq> DRAFT"
  shows "\<exists>t'. get_row tk_id i (fold ticket_step (ops @ later) []) = Some t' \<and>
    ticket_origin t' = ticket_origin t \<and> ticket_content_of t' = ticket_content_of t \<and>
    ticket_edge\<^sup>*\<^sup>* (tk_status t) (tk_status t') \<and> tk_status t' \<noteq> DRAFT \<and>
    (tk_status t \<in> {ARCHIVED, REJECTED} \<longrightarrow> tk_status t' = tk_status t) \<and>
    (tk_is_deleted t \<longrightarrow> t' = t)"
  using ticket_persists[OF wf_ticket_runs assms(1), of later] assms(2)
    no_way_to_draft ticket_terminal[of "tk_status t"]
  by (fastforce simp: ticket_later_def)

definition demo_ticket_args :: "pystr \<Rightarrow> ticket_args" where
  "demo_ticket_args ref = \<lparr>ta_type = ticket_type_str WORK, ta_task = asc ''swap'', ta_device = [],
     ta_location = [], ta_steps = [], ta_safety = [], ta_risks = [], ta_notes = [],
     ta_creator = asc ''li'', ta_tenant = asc ''t'', ta_source_ref = ref\<rparr>"

definition demo_submitted :: "ticket_op list" where
  "demo_submitted = [CreateTicket (at_time 5) (asc ''a'') (demo_ticket_args (asc ''s'')),
     StepTicket False (at_time 6) (asc ''a'') (asc ''t'') (Submit (\<lambda>_ _. Inl TypeError))]"

lemma ticket_type_of_str [simp]: "ticket_type_of (ticket_type_str ty) = Inr ty"
  by (cases ty) (simp_all add: ticket_type_of_def ticket_type_str_def)

lemma strip_demo: "py_strip (asc ''s'') = asc ''s''"
  by (simp add: py_strip_def asc_def py_isspace_def)

lemma demo_created:
  "ticket_step (CreateTicket (at_time 5) (asc ''a'') (demo_ticket_args (asc ''s''))) [] =
     [new_ticket (at_time 5) (asc ''a'') WORK (demo_ticket_args (asc ''s''))]"
  by (simp add: create_ticket_def demo_ticket_args_def strip_demo str_or_none_def insert_ticket_def Let_def)

lemma demo_submitted_row:
  "get_row tk_id (asc ''a'') (fold ticket_step demo_submitted []) =
     Some ((new_ticket (at_time 5) (asc ''a'') WORK (demo_ticket_args (asc ''s'')))
       \<lparr>tk_status := PENDING_REVIEW, tk_updated_at := 6\<rparr>)"
  unfolding demo_submitted_def fold_simps demo_created
  by (simp add: demo_ticket_args_def new_ticket_def submit_for_review_def with_ticket_def find_ticket_def
      on_ticket_def submit_row_def save_ticket_def Let_def)

theorem submitted_ticket_is_frozen_witness:
  "\<exists>t'. get_row tk_id (asc ''a'')
      (fold ticket_step (demo_submitted @ [DeleteTicket (at_time 7) (asc ''a'') (asc ''t'')]) []) = Some t' \<and>
    tk_task t' = asc ''swap'' \<and> tk_status t' \<noteq> DRAFT"
  using submitted_ticket_is_frozen[OF demo_submitted_row, of "[DeleteTicket (at_time 7) (asc ''a'') (asc ''t'')]"]
  by (auto simp: ticket_content_of_def new_ticket_def demo_ticket_args_def)

text \<open>A ticket created with a source reference is found again by every later creation with
  that reference in its tenant, which then changes nothing; but after the ticket was deleted
  every such creation fails with an integrity error, because the check of the service skips
  deleted rows and the constraint of the table does not.\<close>

theorem creation_by_source:
  assumes "get_row tk_id i (fold ticket_step ops []) = Some t"
    and "tk_source_ref t = Some s" and "s \<noteq> []"
    and "ta_tenant a = tk_tenant_id t" and "py_strip (ta_source_ref a) = s"
    and "ticket_type_of (ta_type a) = Inr ty"
  shows "\<exists>t'. get_row tk_id i (fold ticket_step (ops @ later) []) = Some t' \<and>
    create_ticket c uuid a (fold ticket_step (ops @ later) []) =
      (if tk_is_deleted t' then Inl IntegrityError else Inr (t', fold ticket_step (ops @ later) []))"
proof -
  let ?tbl = "fold ticket_step (ops @ later) []"
  from ticket_persists[OF wf_ticket_runs assms(1), of later] obtain t' where
    t': "get_row tk_id i ?tbl = Some t'" "ticket_later t t'" by auto
  then have src: "tk_source_ref t' = Some s" "tk_tenant_id t' = ta_tenant a"
    using assms(2,4) by (auto simp: ticket_later_def ticket_origin_def)
  note hit = source_hits[OF wf_ticket_runs[of "ops @ later"] get_row_in[OF t'(1)] src(1)]
  have ref: "str_or_none (py_strip (ta_source_ref a)) = Some s"
    using assms(3,5) by (simp add: str_or_none_def)
  have "create_ticket c uuid a ?tbl =
      (if tk_is_deleted t' then
         map_sum id (\<lambda>tbl'. (new_ticket c uuid ty a, tbl')) (insert_ticket (new_ticket c uuid ty a) ?tbl)
       else Inr (t', ?tbl))"
    using hit src(2) by (simp add: create_ticket_def ref assms(6) Let_def split: sum.splits)
  moreover have "insert_ticket (new_ticket c uuid ty a) ?tbl = Inl IntegrityError"
    using get_row_in[OF t'(1)] src ref by (force simp: insert_ticket_def new_ticket_def image_iff)
  ultimately show ?thesis using t'(1) by simp
qed

theorem creation_by_source_witness:
  "create_ticket (at_time 9) (asc ''b'') (demo_ticket_args (asc ''s''))
     (fold ticket_step (demo_submitted @ [DeleteTicket (at_time 7) (asc ''a'') (asc ''t'')]) []) = Inl IntegrityError"
proof -
  have row: "tk_source_ref ((new_ticket (at_time 5) (asc ''a'') WORK (demo_ticket_args (asc ''s'')))
      \<lparr>tk_status := PENDING_REVIEW, tk_updated_at := 6\<rparr>) = Some (asc ''s'')"
    by (simp add: new_ticket_def demo_ticket_args_def strip_demo str_or_none_def)
  have "get_row tk_id (asc ''a'')
      (fold ticket_step (demo_submitted @ [DeleteTicket (at_time 7) (asc ''a'') (asc ''t'')]) []) =
     Some ((new_ticket (at_time 5) (asc ''a'') WORK (demo_ticket_args (asc ''s'')))
       \<lparr>tk_status := PENDING_REVIEW, tk_updated_at := 7, tk_is_deleted := True\<rparr>)"
    unfolding demo_submitted_def append_Cons append_Nil fold_simps demo_created
    by (simp add: demo_ticket_args_def new_ticket_def submit_for_review_def with_ticket_def find_ticket_def
      on_ticket_def submit_row_def save_ticket_def delete_ticket_def Let_def)
  with creation_by_source[OF demo_submitted_row row, of "demo_ticket_args (asc ''s'')" WORK
      "[DeleteTicket (at_time 7) (asc ''a'') (asc ''t'')]" "at_time 9" "asc ''b''"]
  show ?thesis by (simp add: demo_ticket_args_def strip_demo new_ticket_def)
qed

text \<open>The automatic first review never passes a ticket. The text the service builds for the
  audit has no line for the dispatch number and none for the operator, so the default rules
  deduct at least 30 points whatever the language model answers, and the 85 points of an
  automatic pass are out of reach: a submitted draft whose texts contain no colon always ends
  as pending review.\<close>

theorem submission_never_passes:
  assumes "find_ticket i tn (fold ticket_step ops []) = Some t" and "tk_status t = DRAFT" and "plain_ticket t"
  shows "\<exists>t' fx tbl'.
    submit_for_review c (\<lambda>txt ty. map_sum id (\<lambda>r. (r, ms)) (audit_ticket DEFAULT_RULES llm txt ty)) i tn
      (fold ticket_step ops []) = Inr (t', fx, tbl') \<and>
    tk_id t' = i \<and> tk_status t' = PENDING_REVIEW \<and> tk_reviewed_at t' = None"
proof -
  let ?tbl = "fold ticket_step ops []"
  let ?audit = "\<lambda>txt ty. map_sum id (\<lambda>r. (r, ms)) (audit_ticket DEFAULT_RULES llm txt ty)"
  note t = find_ticket_SomeD[OF assms(1)]
  have wf: "wf_tickets ?tbl" by (rule wf_ticket_runs)
  then have rev: "tk_reviewed_at t = None"
    using t assms(2) by (auto simp: wf_tickets_def list_all_iff ticket_timeline_def)
  obtain t' where t': "submit_row c ?audit t = Inr t'" "tk_status t' = PENDING_REVIEW" "tk_reviewed_at t' = None"
    using submit_built_text[OF assms(2,3) rev] by blast
  then have id: "tk_id t' = tk_id t" using submit_row_moves ticket_moves_id t by blast
  from get_row_saved[OF _ id, of ?tbl c] t obtain row where
    row: "get_row tk_id (tk_id t) (save_ticket c t t' ?tbl) = Some row" by blast
  have "tk_status row = tk_status t' \<and> tk_reviewed_at row = tk_reviewed_at t' \<and> tk_id row = i"
    using saved_row[OF row _ _ id] wf t t' by (auto simp: wf_tickets_def)
  with row t'(1) assms(1) t'(2,3) show ?thesis
    by (simp add: submit_for_review_def with_ticket_def on_ticket_def Let_def)
qed

definition demo_draft :: "ticket_op list" where
  "demo_draft = [CreateTicket (at_time 5) (asc ''a'') (demo_ticket_args (asc ''s''))]"

theorem submission_never_passes_witness:
  "\<exists>t' fx tbl'. submit_for_review (at_time 6)
      (\<lambda>txt ty. map_sum id (\<lambda>r. (r, 7)) (audit_ticket DEFAULT_RULES (\<lambda>_. None) txt ty))
      (asc ''a'') (asc ''t'') (fold ticket_step demo_draft []) = Inr (t', fx, tbl') \<and>
    tk_id t' = asc ''a'' \<and> tk_status t' = PENDING_REVIEW \<and> tk_reviewed_at t' = None"
proof (rule submission_never_passes)
  let ?t = "new_ticket (at_time 5) (asc ''a'') WORK (demo_ticket_args (asc ''s''))"
  show "find_ticket (asc ''a'') (asc ''t'') (fold ticket_step demo_draft []) = Some ?t"
    unfolding demo_draft_def fold_simps demo_created
    by (simp add: find_ticket_def new_ticket_def demo_ticket_args_def)
  show "tk_status ?t = DRAFT" by (simp add: new_ticket_def)
  have "no_colon (asc ''swap'')" by (simp add: no_colon_def asc_def is_colon_def colons_def)
  then show "plain_ticket ?t"
    by (simp add: plain_ticket_def new_ticket_def demo_ticket_args_def text_items_list)
qed

text \<open>What a ticket is created with is what the table holds and the API shows of it: steps,
  safety measures and risks go through their JSON columns unchanged, whatever characters they
  contain, and so do the type and the task.\<close>

theorem created_ticket_shows_its_content:
  assumes "create_ticket c uuid a tbl = Inr (t, tbl')" and "uuid \<notin> tk_id ` set tbl" and "tk_id t = uuid"
  shows "get_row tk_id uuid tbl' = Some t \<and>
    map_of (ticket_to_dict t) (asc ''steps'') = Some (JList (map JStr (ta_steps a))) \<and>
    map_of (ticket_to_dict t) (asc ''safety'') = Some (JList (map JStr (ta_safety a))) \<and>
    map_of (ticket_to_dict t) (asc ''risks'') = Some (JList (map JStr (ta_risks a))) \<and>
    map_of (ticket_to_dict t) (asc ''ticketType'') = Some (JStr (ta_type a)) \<and>
    map_of (ticket_to_dict t) (asc ''task'') = Some (JStr (ta_task a))"
proof -
  from assms obtain ty where ty: "ticket_type_of (ta_type a) = Inr ty" "t = new_ticket c uuid ty a"
    "insert_ticket t tbl = Inr tbl'"
    by (auto simp: create_ticket_def Let_def find_Some_iff split: option.splits sum.splits)
  have "get_row tk_id uuid tbl = None" using assms(2) by (simp add: get_row_None_iff)
  then have row: "get_row tk_id uuid tbl' = Some t"
    using insert_ticket_InrD[OF ty(3)] assms(3) by (simp add: get_row_def find_append)
  have str: "ticket_type_str ty = ta_type a"
    using ty(1) by (auto simp: ticket_type_of_def split: option.splits if_splits)
  have json: "parse_json (text_list xs) (JList []) = JList (map JStr xs)" for xs
    using parse_text_list .
  show ?thesis using row by (simp add: ty(2) new_ticket_def ticket_to_dict_def json str)
qed

theorem created_ticket_shows_its_content_witness:
  "map_of (ticket_to_dict (new_ticket (at_time 5) (asc ''a'') WORK (demo_ticket_args [])\<lparr>tk_tenant_id := asc ''t''\<rparr>))
     (asc ''task'') = Some (JStr (asc ''swap''))"
proof -
  have "new_ticket (at_time 5) (asc ''a'') WORK (demo_ticket_args [])\<lparr>tk_tenant_id := asc ''t''\<rparr> =
      new_ticket (at_time 5) (asc ''a'') WORK (demo_ticket_args [])"
    by (simp add: new_ticket_def demo_ticket_args_def)
  moreover have "create_ticket (at_time 5) (asc ''a'') (demo_ticket_args []) [] =
      Inr (new_ticket (at_time 5) (asc ''a'') WORK (demo_ticket_args []),
           [new_ticket (at_time 5) (asc ''a'') WORK (demo_ticket_args [])])"
    by (simp add: create_ticket_def demo_ticket_args_def str_or_none_def insert_ticket_def Let_def)
  ultimately show ?thesis
    using created_ticket_shows_its_content[of "at_time 5" "asc ''a''" "demo_ticket_args []" "[]"]
    by (simp add: new_ticket_def[of "at_time 5" "asc ''a''" WORK "demo_ticket_args []"])
      (simp add: demo_ticket_args_def)
qed

end
