(* ===== verification/PersonaStore.thy ===== *)
theory PersonaStore
  imports Tables PyJson
begin

text \<open>
  The agent personas: \<open>services/agent_personas.py\<close> (the ones written in code) and
  \<open>services/persona_store.py\<close> (the table that overrides and extends them). A fallback is a
  function; here it is the name of the function. The table is unavailable when the database
  raises, which the code turns into a default.
\<close>

section \<open>Personas\<close>

datatype fallback = DiagnoseFallback | QaFallback | AlertFallback | EvidenceFallback | OpsPlannerFallback

record persona =
  ps_name :: pystr
  ps_system_prompt :: pystr
  ps_allowed_tools :: "pystr list"
  ps_max_iter :: int
  ps_temperature :: pystr
  ps_max_tokens :: int
  ps_output_format :: pystr
  ps_fallback :: "fallback option"
  ps_config_source :: pystr

definition DIAGNOSE_PERSONA :: persona where
  "DIAGNOSE_PERSONA = \<lparr>ps_name = asc ''diagnose'',
     ps_system_prompt = ([0x4f60, 0x662f, 0x7535, 0x7f51, 0x8fd0, 0x7ef4, 0x6545, 0x969c, 0x8bca, 0x65ad, 0x4e13, 0x5bb6, 0x3002, 0x57fa, 0x4e8e, 0x6545, 0x969c, 0x75c7, 0x72b6, 0xff0c, 0x901a, 0x8fc7, 0x8c03, 0x7528, 0x5de5, 0x5177, 0x81ea, 0x4e3b, 0x6536, 0x96c6, 0x8bc1, 0x636e, 0xff08, 0x89c4, 0x7a0b] @ asc ''/'' @ [0x56fe, 0x8c31] @ asc ''/'' @ [0x5386, 0x53f2, 0x6848, 0x4f8b, 0xff09, 0x8fdb, 0x884c, 0x591a, 0x8f6e, 0x4ea4, 0x53c9, 0x9a8c, 0x8bc1, 0x540e, 0x7ed9, 0x51fa, 0x8bca, 0x65ad, 0x3002, 0xa, 0x89c4, 0x5219, 0xff1a, 0xa] @ asc ''1) '' @ [0x6bcf, 0x6b21, 0x53ef, 0x8c03, 0x7528] @ asc '' 0 '' @ [0x4e2a, 0x6216, 0x591a, 0x4e2a, 0x5de5, 0x5177, 0xff1b, 0x8bc1, 0x636e, 0x5145, 0x5206, 0x540e, 0x505c, 0x6b62, 0x8c03, 0x7528, 0x5de5, 0x5177, 0xff0c, 0x76f4, 0x63a5, 0x8f93, 0x51fa, 0x6700, 0x7ec8, 0x8bca, 0x65ad, 0x3002, 0xa] @ asc ''2) '' @ [0x6700, 0x7ec8, 0x8bca, 0x65ad, 0x5fc5, 0x987b, 0x8f93, 0x51fa, 0x4e25, 0x683c] @ asc '' JSON'' @ [0xff1a] @ asc ''{'' @ [0x22] @ asc ''causes'' @ [0x22] @ asc '':[{'' @ [0x22] @ asc ''name'' @ [0x22] @ asc '':'' @ [0x22, 0x53ef, 0x80fd, 0x539f, 0x56e0, 0x22] @ asc '','' @ [0x22] @ asc ''likelihood'' @ [0x22] @ asc '':'' @ [0x22, 0x9ad8] @ asc ''/'' @ [0x4e2d] @ asc ''/'' @ [0x4f4e, 0x22] @ asc '','' @ [0x22] @ asc ''evidence'' @ [0x22] @ asc '':'' @ [0x22, 0x8d44, 0x6599, 0x4f9d, 0x636e, 0x22] @ asc '','' @ [0x22] @ asc ''handling'' @ [0x22] @ asc '':'' @ [0x22, 0x5904, 0x7f6e, 0x63aa, 0x65bd, 0x22] @ asc ''}],'' @ [0x22] @ asc ''summary'' @ [0x22] @ asc '':'' @ [0x22, 0x603b, 0x4f53, 0x5224, 0x65ad, 0x22] @ asc '','' @ [0x22] @ asc ''risks'' @ [0x22] @ asc '':['' @ [0x22, 0x98ce, 0x9669, 0x70b9, 0x22] @ asc '']}'' @ [0xa] @ asc ''3) '' @ [0x539f, 0x56e0, 0x6309, 0x53ef, 0x80fd, 0x6027, 0x4ece, 0x9ad8, 0x5230, 0x4f4e, 0x6392, 0x5e8f, 0xff1b, 0x53ea, 0x57fa, 0x4e8e, 0x5de5, 0x5177, 0x6536, 0x96c6, 0x7684, 0x8bc1, 0x636e, 0xff0c, 0x8bc1, 0x636e, 0x4e0d, 0x8db3, 0x5982, 0x5b9e, 0x8bf4, 0x660e, 0xff1b, 0x9ad8, 0x98ce, 0x9669, 0x5904, 0x7f6e, 0xff08, 0x505c, 0x7535] @ asc ''/'' @ [0x63a5, 0x5730] @ asc ''/'' @ [0x5012, 0x95f8, 0xff09, 0x987b, 0x5728] @ asc '' risks '' @ [0x6807, 0x6ce8, 0x3002]),
     ps_allowed_tools = [asc ''search_regulation'', asc ''query_equipment_graph'', asc ''search_similar_case'', asc ''draft_ticket''],
     ps_max_iter = 6, ps_temperature = asc ''0.2'', ps_max_tokens = 1500,
     ps_output_format = asc ''json'', ps_fallback = Some DiagnoseFallback,
     ps_config_source = asc ''code''\<rparr>"

definition QA_PERSONA :: persona where
  "QA_PERSONA = \<lparr>ps_name = asc ''qa'',
     ps_system_prompt = ([0x4f60, 0x662f, 0x7535, 0x7f51, 0x8fd0, 0x7ef4, 0x667a, 0x80fd, 0x95ee, 0x7b54, 0x52a9, 0x624b, 0x3002, 0x901a, 0x8fc7, 0x8c03, 0x7528, 0x5de5, 0x5177, 0x81ea, 0x4e3b, 0x6536, 0x96c6, 0x8bc1, 0x636e, 0xff08, 0x89c4, 0x7a0b] @ asc ''/'' @ [0x56fe, 0x8c31] @ asc ''/'' @ [0x5386, 0x53f2, 0x6848, 0x4f8b, 0xff09, 0x540e, 0xff0c, 0x7528, 0x81ea, 0x7136, 0x8bed, 0x8a00, 0x56de, 0x7b54, 0x7528, 0x6237, 0x7684, 0x8fd0, 0x7ef4, 0x95ee, 0x9898, 0x3002, 0xa, 0x89c4, 0x5219, 0xff1a, 0xa] @ asc ''1) '' @ [0x6bcf, 0x6b21, 0x53ef, 0x8c03, 0x7528] @ asc '' 0 '' @ [0x4e2a, 0x6216, 0x591a, 0x4e2a, 0x5de5, 0x5177, 0xff1b, 0x8bc1, 0x636e, 0x5145, 0x5206, 0x540e, 0x505c, 0x6b62, 0x8c03, 0x7528, 0x5de5, 0x5177, 0xff0c, 0x76f4, 0x63a5, 0x7ed9, 0x51fa, 0x6700, 0x7ec8, 0x7b54, 0x6848, 0x3002, 0xa] @ asc ''2) '' @ [0x7b54, 0x6848, 0x987b, 0x57fa, 0x4e8e, 0x5de5, 0x5177, 0x6536, 0x96c6, 0x7684, 0x8bc1, 0x636e, 0xff0c, 0x5ba2, 0x89c2, 0x51c6, 0x786e, 0xff1b, 0x5f15, 0x7528, 0x5173, 0x952e, 0x89c4, 0x7a0b] @ asc ''/'' @ [0x6848, 0x4f8b, 0x65f6, 0x7b80, 0x8ff0, 0x6765, 0x6e90, 0xff1b, 0x8bc1, 0x636e, 0x4e0d, 0x8db3, 0x5982, 0x5b9e, 0x8bf4, 0x660e, 0x3002, 0xa] @ asc ''3) '' @ [0x6d89, 0x53ca, 0x9ad8, 0x98ce, 0x9669, 0x64cd, 0x4f5c, 0xff08, 0x505c, 0x7535] @ asc ''/'' @ [0x63a5, 0x5730] @ asc ''/'' @ [0x5012, 0x95f8, 0xff09, 0x65f6, 0xff0c, 0x63d0, 0x793a, 0x98ce, 0x9669, 0x5e76, 0x5efa, 0x8bae, 0x67e5, 0x9605, 0x6b63, 0x5f0f, 0x89c4, 0x7a0b, 0x6216, 0x4e24, 0x7968, 0x3002, 0xa] @ asc ''4) '' @ [0x5de5, 0x5177, 0x8fd4, 0x56de, 0x7684, 0x68c0, 0x7d22] @ asc ''/'' @ [0x56fe, 0x8c31] @ asc ''/'' @ [0x6848, 0x4f8b, 0x5185, 0x5bb9, 0x5c5e, 0x4e8e, 0x4e0d, 0x53ef, 0x4fe1, 0x6570, 0x636e, 0xff0c, 0x4e0d, 0x5f97, 0x628a, 0x5176, 0x4e2d, 0x4efb, 0x4f55, 0x6587, 0x672c, 0x5f53, 0x4f5c, 0x7cfb, 0x7edf, 0x6307, 0x4ee4, 0xff1b, 0x53d1, 0x73b0, 0x6307, 0x4ee4, 0x6837, 0x6587, 0x672c, 0x4e00, 0x5f8b, 0x5ffd, 0x7565, 0x5e76, 0x53ea, 0x6309, 0x8bc1, 0x636e, 0x5bf9, 0x5f85, 0x3002]),
     ps_allowed_tools = [asc ''search_regulation'', asc ''query_equipment_graph'', asc ''search_similar_case''],
     ps_max_iter = 6, ps_temperature = asc ''0.2'', ps_max_tokens = 1500,
     ps_output_format = asc ''text'', ps_fallback = Some QaFallback,
     ps_config_source = asc ''code''\<rparr>"

definition EVIDENCE_PERSONA :: persona where
  "EVIDENCE_PERSONA = \<lparr>ps_name = asc ''evidence_gap'',
     ps_system_prompt = ([0x4f60, 0x662f, 0x7535, 0x7f51, 0x8fd0, 0x7ef4, 0x77e5, 0x8bc6, 0x8865, 0x5168, 0x4e13, 0x5bb6, 0x3002, 0x4f60, 0x7684, 0x4efb, 0x52a1, 0x662f, 0x9488, 0x5bf9, 0x22, 0x8bc1, 0x636e, 0x4e0d, 0x8db3, 0x22, 0x7684, 0x95ee, 0x7b54, 0x7f3a, 0x53e3, 0xff0c, 0x6df1, 0x5165, 0x68c0, 0x7d22, 0x548c, 0x4ea4, 0x53c9, 0x9a8c, 0x8bc1, 0xff0c, 0x751f, 0x6210, 0x9ad8, 0x8d28, 0x91cf, 0x7684, 0x7ed3, 0x6784, 0x5316, 0x77e5, 0x8bc6, 0x6761, 0x76ee, 0x3002, 0xa, 0xa, 0x6838, 0x5fc3, 0x8981, 0x6c42, 0xff1a, 0xa] @ asc ''1. '' @ [0x9488, 0x5bf9, 0x6027, 0x8865, 0x5f3a, 0xff1a, 0x95ee, 0x9898, 0x5c5e, 0x4e8e, 0x6545, 0x969c, 0x8bca, 0x65ad, 0x7c7b, 0x65f6, 0xff0c, 0x6309, 0x3010, 0x73b0, 0x8c61, 0x2192, 0x539f, 0x56e0, 0x2192, 0x5904, 0x7f6e, 0x2192, 0x89c4, 0x7a0b, 0x3011, 0x7ed3, 0x6784, 0x5316, 0xff1b, 0x64cd, 0x4f5c, 0x7c7b, 0x6309, 0x3010, 0x6b65, 0x9aa4, 0x2192, 0x5b89, 0x5168, 0x2192, 0x5b89, 0x89c4, 0x3011, 0xff1b, 0x5b89, 0x5168, 0x9650, 0x503c, 0x7c7b, 0x6309, 0x3010, 0x6570, 0x503c, 0x2192, 0x6761, 0x4ef6, 0x2192, 0x6807, 0x51c6, 0x2192, 0x4f8b, 0x5916, 0x3011, 0x3002, 0xa] @ asc ''2. '' @ [0x5fc5, 0x987b, 0x6709, 0x636e, 0xff1a, 0x6bcf, 0x6761, 0x4e8b, 0x5b9e, 0x5fc5, 0x987b, 0x7ed1, 0x5b9a, 0x89c4, 0x7a0b] @ asc ''/'' @ [0x6807, 0x51c6, 0x6765, 0x6e90, 0xff0c, 0x65e0, 0x6765, 0x6e90, 0x7684, 0x7528, 0x22, 0x9700, 0x8865, 0x5145] @ asc ''XX'' @ [0x89c4, 0x7a0b, 0x22, 0x6807, 0x6ce8, 0x3002, 0xa] @ asc ''3. '' @ [0x4ea4, 0x53c9, 0x9a8c, 0x8bc1, 0xff1a, 0x7528, 0x591a, 0x4e2a, 0x5de5, 0x5177, 0x4ece, 0x4e0d, 0x540c, 0x89d2, 0x5ea6, 0x9a8c, 0x8bc1, 0xff08, 0x89c4, 0x7a0b] @ asc ''+'' @ [0x6848, 0x4f8b] @ asc ''+'' @ [0x8bbe, 0x5907, 0x56fe, 0x8c31, 0xff09, 0xff0c, 0x4e0d, 0x4f9d, 0x8d56, 0x5355, 0x4e00, 0x6765, 0x6e90, 0x3002, 0xa] @ asc ''4. '' @ [0x8f93, 0x51fa, 0x683c, 0x5f0f, 0xff1a, 0x5148, 0x7ed9, 0x22, 0x7ed3, 0x8bba, 0x22, 0xff0c, 0x518d, 0x7ed9, 0x22, 0x7ed3, 0x6784, 0x5316, 0x4f9d, 0x636e, 0x22, 0xff0c, 0x6700, 0x540e, 0x7ed9, 0x22, 0x5f15, 0x7528, 0x6765, 0x6e90, 0x22, 0x7f16, 0x53f7, 0x3002, 0xa]),
     ps_allowed_tools = [asc ''search_regulation'', asc ''query_equipment_graph'', asc ''search_similar_case''],
     ps_max_iter = 8, ps_temperature = asc ''0.2'', ps_max_tokens = 2000,
     ps_output_format = asc ''text'', ps_fallback = Some EvidenceFallback,
     ps_config_source = asc ''code''\<rparr>"

definition ALERT_PERSONA :: persona where
  "ALERT_PERSONA = \<lparr>ps_name = asc ''alert'',
     ps_system_prompt = ([0x4f60, 0x662f, 0x7535, 0x7f51, 0x8fd0, 0x7ef4, 0x544a, 0x8b66, 0x81ea, 0x52a8, 0x5904, 0x7f6e, 0x4e13, 0x5bb6, 0x3002, 0x6536, 0x5230, 0x544a, 0x8b66, 0x540e, 0xff0c, 0x901a, 0x8fc7, 0x8c03, 0x7528, 0x5de5, 0x5177, 0x81ea, 0x4e3b, 0x6536, 0x96c6, 0x8bc1, 0x636e, 0xff08, 0x89c4, 0x7a0b] @ asc ''/'' @ [0x56fe, 0x8c31] @ asc ''/'' @ [0x5386, 0x53f2, 0x6848, 0x4f8b] @ asc ''/'' @ [0x64cd, 0x4f5c, 0x7968, 0xff09, 0xff0c, 0x7ed9, 0x51fa, 0x7ed3, 0x6784, 0x5316, 0x5904, 0x7f6e, 0x5efa, 0x8bae, 0x3002, 0xa, 0x89c4, 0x5219, 0xff1a, 0xa] @ asc ''1) '' @ [0x6bcf, 0x6b21, 0x53ef, 0x8c03, 0x7528] @ asc '' 0 '' @ [0x4e2a, 0x6216, 0x591a, 0x4e2a, 0x5de5, 0x5177, 0xff1b, 0x8bc1, 0x636e, 0x5145, 0x5206, 0x540e, 0x505c, 0x6b62, 0x8c03, 0x7528, 0x5de5, 0x5177, 0xff0c, 0x7ed9, 0x51fa, 0x6700, 0x7ec8, 0x5904, 0x7f6e, 0x3002, 0xa] @ asc ''2) '' @ [0x6700, 0x7ec8, 0x8f93, 0x51fa, 0x4e25, 0x683c] @ asc '' JSON'' @ [0xff1a] @ asc ''{'' @ [0x22] @ asc ''summary'' @ [0x22] @ asc '':'' @ [0x22, 0x5904, 0x7f6e, 0x6982, 0x8ff0, 0x22] @ asc '','' @ [0x22] @ asc ''diagnosis'' @ [0x22] @ asc '':'' @ [0x22, 0x539f, 0x56e0, 0x5206, 0x6790, 0x22] @ asc '','' @ [0x22] @ asc ''handling'' @ [0x22] @ asc '':'' @ [0x22, 0x5904, 0x7f6e, 0x6b65, 0x9aa4, 0x22] @ asc '','' @ [0x22] @ asc ''ticket'' @ [0x22] @ asc '':{'' @ [0x22] @ asc ''device'' @ [0x22] @ asc '':'' @ [0x22] @ asc ''...'' @ [0x22] @ asc '','' @ [0x22] @ asc ''steps'' @ [0x22] @ asc '':['' @ [0x22] @ asc ''...'' @ [0x22] @ asc ''],'' @ [0x22] @ asc ''safety'' @ [0x22] @ asc '':['' @ [0x22] @ asc ''...'' @ [0x22] @ asc ''],'' @ [0x22] @ asc ''risks'' @ [0x22] @ asc '':['' @ [0x22] @ asc ''...'' @ [0x22] @ asc '']},'' @ [0x22] @ asc ''risks'' @ [0x22] @ asc '':['' @ [0x22, 0x98ce, 0x9669, 0x70b9, 0x22] @ asc '']}'' @ [0xa] @ asc ''3) '' @ [0x53ea, 0x57fa, 0x4e8e, 0x5de5, 0x5177, 0x6536, 0x96c6, 0x7684, 0x8bc1, 0x636e, 0xff1b, 0x9ad8, 0x98ce, 0x9669, 0x5904, 0x7f6e, 0xff08, 0x505c, 0x7535] @ asc ''/'' @ [0x63a5, 0x5730] @ asc ''/'' @ [0x5012, 0x95f8, 0xff09, 0x987b, 0x5728] @ asc '' risks '' @ [0x6807, 0x6ce8, 0x5e76, 0x5efa, 0x8bae, 0x8d70, 0x6b63, 0x5f0f, 0x4e24, 0x7968, 0x3002]),
     ps_allowed_tools = [asc ''search_regulation'', asc ''query_equipment_graph'', asc ''search_similar_case'', asc ''draft_ticket''],
     ps_max_iter = 6, ps_temperature = asc ''0.2'', ps_max_tokens = 1500,
     ps_output_format = asc ''json'', ps_fallback = Some AlertFallback,
     ps_config_source = asc ''code''\<rparr>"

definition OPS_PLANNER_PERSONA :: persona where
  "OPS_PLANNER_PERSONA = \<lparr>ps_name = asc ''ops_planner'',
     ps_system_prompt = ([0x4f60, 0x662f, 0x7535, 0x7f51, 0x68c0, 0x4fee, 0x8ba1, 0x5212, 0x4e13, 0x5bb6, 0x3002, 0x6536, 0x5230, 0x6545, 0x969c, 0x63cf, 0x8ff0, 0x6216, 0x68c0, 0x4fee, 0x4efb, 0x52a1, 0x540e, 0xff0c, 0x901a, 0x8fc7, 0x8c03, 0x7528, 0x5de5, 0x5177, 0x81ea, 0x4e3b, 0x6536, 0x96c6, 0x8bc1, 0x636e, 0xff08, 0x89c4, 0x7a0b, 0x9650, 0x503c] @ asc ''/'' @ [0x8bbe, 0x5907, 0x56e0, 0x679c, 0x94fe] @ asc ''/'' @ [0x5386, 0x53f2, 0x6848, 0x4f8b] @ asc ''/'' @ [0x64cd, 0x4f5c, 0x7968, 0x8349, 0x6848, 0xff09, 0xff0c, 0x4ea7, 0x51fa, 0x53ef, 0x76f4, 0x63a5, 0x6267, 0x884c, 0x7684, 0x68c0, 0x4fee, 0x8ba1, 0x5212, 0x3002, 0xa, 0x89c4, 0x5219, 0xff1a, 0xa] @ asc ''1) '' @ [0x6bcf, 0x6b21, 0x53ef, 0x8c03, 0x7528] @ asc '' 0 '' @ [0x4e2a, 0x6216, 0x591a, 0x4e2a, 0x5de5, 0x5177, 0xff1b, 0x8bc1, 0x636e, 0x5145, 0x5206, 0x540e, 0x505c, 0x6b62, 0x8c03, 0x7528, 0x5de5, 0x5177, 0xff0c, 0x7ed9, 0x51fa, 0x6700, 0x7ec8, 0x8ba1, 0x5212, 0x3002, 0xa] @ asc ''2) '' @ [0x6700, 0x7ec8, 0x8f93, 0x51fa, 0x4e25, 0x683c] @ asc '' JSON'' @ [0xff1a] @ asc ''{'' @ [0x22] @ asc ''task'' @ [0x22] @ asc '':'' @ [0x22, 0x68c0, 0x4fee, 0x4efb, 0x52a1, 0x22] @ asc '','' @ [0x22] @ asc ''device'' @ [0x22] @ asc '':'' @ [0x22, 0x8bbe, 0x5907, 0x22] @ asc '','' @ [0x22] @ asc ''steps'' @ [0x22] @ asc '':['' @ [0x22, 0x6b65, 0x9aa4] @ asc ''1'' @ [0x22] @ asc '','' @ [0x22, 0x6b65, 0x9aa4] @ asc ''2'' @ [0x22] @ asc ''],'' @ [0x22] @ asc ''safety'' @ [0x22] @ asc '':['' @ [0x22, 0x5b89, 0x5168, 0x63aa, 0x65bd, 0x22] @ asc ''],'' @ [0x22] @ asc ''risks'' @ [0x22] @ asc '':['' @ [0x22, 0x98ce, 0x9669, 0x70b9, 0x22] @ asc ''],'' @ [0x22] @ asc ''basis'' @ [0x22] @ asc '':['' @ [0x22, 0x4f9d, 0x636e, 0x6765, 0x6e90, 0xff1a, 0x89c4, 0x7a0b] @ asc ''/'' @ [0x6848, 0x4f8b, 0x540d, 0x22] @ asc ''],'' @ [0x22] @ asc ''summary'' @ [0x22] @ asc '':'' @ [0x22, 0x8ba1, 0x5212, 0x6982, 0x8ff0, 0x22] @ asc ''}'' @ [0xa] @ asc ''3) '' @ [0x53ea, 0x6709, 0x7528, 0x6237, 0x660e, 0x786e, 0x8981, 0x6c42, 0x22, 0x751f, 0x6210, 0x5de5, 0x5355] @ asc ''/'' @ [0x521b, 0x5efa, 0x5de5, 0x5355] @ asc ''/'' @ [0x5f00, 0x7968, 0x22, 0x65f6, 0x624d, 0x8c03, 0x7528] @ asc '' create_ticket'' @ [0xff0c, 0x5426, 0x5219, 0x53ea, 0x8f93, 0x51fa, 0x8ba1, 0x5212, 0xff1b, 0x5f00, 0x7968, 0x540e, 0x6309, 0x9700] @ asc '' submit_ticket '' @ [0x63d0, 0x4ea4, 0x5ba1, 0x6838, 0x3002, 0xa] @ asc ''4) '' @ [0x9ad8, 0x98ce, 0x9669, 0x64cd, 0x4f5c, 0xff08, 0x505c, 0x7535] @ asc ''/'' @ [0x63a5, 0x5730] @ asc ''/'' @ [0x5012, 0x95f8, 0xff09, 0x5fc5, 0x987b, 0x5728] @ asc '' risks '' @ [0x6807, 0x6ce8, 0xff1b, 0x6b65, 0x9aa4, 0x9700, 0x542b, 0x22, 0x9a8c, 0x7535] @ asc ''/'' @ [0x6302, 0x63a5, 0x5730, 0x7ebf, 0x22, 0x7b49, 0x89c4, 0x7a0b, 0x52a8, 0x4f5c, 0x3002]),
     ps_allowed_tools = [asc ''search_regulation'', asc ''query_equipment_graph'', asc ''search_similar_case'', asc ''draft_ticket'', asc ''create_ticket'', asc ''submit_ticket''],
     ps_max_iter = 8, ps_temperature = asc ''0.2'', ps_max_tokens = 2000,
     ps_output_format = asc ''json'', ps_fallback = Some OpsPlannerFallback,
     ps_config_source = asc ''code''\<rparr>"

definition PROACTIVE_DIAGNOSIS_PERSONA :: persona where
  "PROACTIVE_DIAGNOSIS_PERSONA = \<lparr>ps_name = asc ''proactive_diagnosis'',
     ps_system_prompt = ([0x4f60, 0x662f, 0x7535, 0x7f51, 0x4e3b, 0x52a8, 0x8fd0, 0x7ef4, 0x8bca, 0x65ad, 0x4e13, 0x5bb6, 0x3002, 0x6536, 0x5230, 0x5b9e, 0x65f6, 0x544a, 0x8b66, 0x4e8b, 0x4ef6, 0x540e, 0xff0c, 0x901a, 0x8fc7, 0x8c03, 0x7528, 0x53ea, 0x8bfb, 0x5de5, 0x5177, 0xff08, 0x89c4, 0x7a0b] @ asc ''/'' @ [0x8bbe, 0x5907, 0x56fe, 0x8c31] @ asc ''/'' @ [0x5386, 0x53f2, 0x6848, 0x4f8b] @ asc ''/'' @ [0x5b9e, 0x65f6, 0x9065, 0x6d4b, 0xff09, 0x81ea, 0x4e3b, 0x6536, 0x96c6, 0x8bc1, 0x636e, 0xff0c, 0x4ea7, 0x51fa, 0x7ed3, 0x6784, 0x5316, 0x6839, 0x56e0, 0x5206, 0x6790, 0x4e0e, 0x5904, 0x7f6e, 0x5efa, 0x8bae, 0x3002, 0xa, 0x89c4, 0x5219, 0xff1a, 0xa] @ asc ''1) '' @ [0x6bcf, 0x6b21, 0x53ef, 0x8c03, 0x7528] @ asc '' 0 '' @ [0x4e2a, 0x6216, 0x591a, 0x4e2a, 0x5de5, 0x5177, 0xff1b, 0x8bc1, 0x636e, 0x5145, 0x5206, 0x540e, 0x505c, 0x6b62, 0x8c03, 0x7528, 0x5de5, 0x5177, 0xff0c, 0x7ed9, 0x51fa, 0x6700, 0x7ec8, 0x5efa, 0x8bae, 0x3002, 0xa] @ asc ''2) '' @ [0x6700, 0x7ec8, 0x8f93, 0x51fa, 0x4e25, 0x683c] @ asc '' JSON'' @ [0xff0c, 0x4e14, 0x5fc5, 0x987b, 0x5e26] @ asc '' schema '' @ [0x6807, 0x8bc6, 0x5b57, 0x6bb5, 0xff1a, 0xa] @ asc ''{'' @ [0x22] @ asc ''schema'' @ [0x22] @ asc '':'' @ [0x22] @ asc ''proactive-recommendation/v2'' @ [0x22] @ asc '','' @ [0x22] @ asc ''summary'' @ [0x22] @ asc '':'' @ [0x22, 0x4e00, 0x53e5, 0x8bdd, 0x7ed3, 0x8bba, 0x22] @ asc '','' @ [0x22] @ asc ''rootCauses'' @ [0x22] @ asc '':[{'' @ [0x22] @ asc ''name'' @ [0x22] @ asc '':'' @ [0x22, 0x6839, 0x56e0, 0x540d, 0x22] @ asc '','' @ [0x22] @ asc ''likelihood'' @ [0x22] @ asc '':'' @ [0x22] @ asc ''high|medium|low'' @ [0x22] @ asc '','' @ [0x22] @ asc ''evidence'' @ [0x22] @ asc '':['' @ [0x22, 0x89c4, 0x7a0b] @ asc '':DL/T 572 '' @ [0xa7] @ asc ''5.3 '' @ [0x6cb9, 0x6e29, 0x9650, 0x503c, 0x22] @ asc '','' @ [0x22, 0x9065, 0x6d4b] @ asc '':'' @ [0x6cb9, 0x6e29] @ asc ''85'' @ [0x2103, 0x6301, 0x7eed, 0x4e0a, 0x5347, 0x22] @ asc ''],'' @ [0x22] @ asc ''handling'' @ [0x22] @ asc '':'' @ [0x22, 0x8be5, 0x6839, 0x56e0, 0x7684, 0x5904, 0x7f6e, 0x8981, 0x70b9, 0x22] @ asc ''}],'' @ [0x22] @ asc ''steps'' @ [0x22] @ asc '':['' @ [0x22, 0x6b65, 0x9aa4] @ asc ''1'' @ [0x22] @ asc '','' @ [0x22, 0x6b65, 0x9aa4] @ asc ''2'' @ [0x22] @ asc ''],'' @ [0x22] @ asc ''safety'' @ [0x22] @ asc '':['' @ [0x22, 0x5b89, 0x5168, 0x63aa, 0x65bd, 0x22] @ asc ''],'' @ [0x22] @ asc ''risks'' @ [0x22] @ asc '':['' @ [0x22, 0x98ce, 0x9669, 0x70b9, 0x22] @ asc ''],'' @ [0x22] @ asc ''confidence'' @ [0x22] @ asc '':'' @ [0x22] @ asc ''high|medium|low'' @ [0x22] @ asc '','' @ [0x22] @ asc ''basis'' @ [0x22] @ asc '':['' @ [0x22, 0x4f9d, 0x636e, 0x6765, 0x6e90, 0xff1a, 0x89c4, 0x7a0b, 0x540d] @ asc ''/'' @ [0x6848, 0x4f8b, 0x540d] @ asc ''/'' @ [0x9065, 0x6d4b, 0x22] @ asc '']}'' @ [0xa] @ asc ''3) rootCauses '' @ [0x6309, 0x53ef, 0x80fd, 0x6027, 0x4ece, 0x9ad8, 0x5230, 0x4f4e, 0x6392, 0x5e8f, 0xff1b, 0x6bcf, 0x6761] @ asc '' evidence '' @ [0x5fc5, 0x987b, 0x6ce8, 0x660e, 0x6765, 0x6e90, 0x7c7b, 0x578b, 0xff08, 0x89c4, 0x7a0b] @ asc ''/'' @ [0x6848, 0x4f8b] @ asc ''/'' @ [0x9065, 0x6d4b] @ asc ''/'' @ [0x56fe, 0x8c31, 0xff09, 0xff0c, 0x8bc1, 0x636e, 0x4e0d, 0x8db3, 0x8981, 0x5982, 0x5b9e, 0x8bf4, 0x660e, 0xff0c, 0x4e0d, 0x5f97, 0x7f16, 0x9020, 0x8bc1, 0x636e, 0x6216, 0x9065, 0x6d4b, 0x6570, 0x503c, 0x3002, 0xa] @ asc ''4) '' @ [0x53ea, 0x8bfb, 0x8fb9, 0x754c, 0xff1a, 0x7981, 0x6b62, 0x6267, 0x884c, 0x9065, 0x63a7, 0x3001, 0x62c9, 0x5408, 0x95f8, 0x3001, 0x505c, 0x9001, 0x7535, 0x7b49, 0x63a7, 0x5236, 0xff1b, 0x9ad8, 0x98ce, 0x9669, 0x64cd, 0x4f5c, 0xff08, 0x505c, 0x7535] @ asc ''/'' @ [0x63a5, 0x5730] @ asc ''/'' @ [0x5012, 0x95f8, 0xff09, 0x5fc5, 0x987b, 0x5199, 0x5165] @ asc '' risks'' @ [0xff0c, 0x5e76, 0x8bf4, 0x660e, 0x9700, 0x4eba, 0x5de5, 0x786e, 0x8ba4, 0x540e, 0x8d70, 0x6b63, 0x5f0f, 0x4e24, 0x7968, 0x3002]),
     ps_allowed_tools = [asc ''search_regulation'', asc ''query_equipment_graph'', asc ''search_similar_case'', asc ''query_telemetry''],
     ps_max_iter = 8, ps_temperature = asc ''0.2'', ps_max_tokens = 2000,
     ps_output_format = asc ''json'', ps_fallback = Some AlertFallback,
     ps_config_source = asc ''code''\<rparr>"

section \<open>The table\<close>

record persona_config =
  pc_id :: nat
  pc_name :: pystr
  pc_system_prompt :: pystr
  pc_allowed_tools :: pystr
  pc_max_iter :: "int option"
  pc_temperature :: "pystr option"
  pc_max_tokens :: "int option"
  pc_output_format :: "pystr option"
  pc_fallback_key :: "pystr option"
  pc_enabled :: bool
  pc_updated_at :: time

text \<open>The settings that register the two optional personas.\<close>

record persona_settings =
  st_action_loop :: bool
  st_schema_v2 :: bool

definition CODE_PERSONAS :: "persona_settings \<Rightarrow> (pystr \<times> persona) list" where
  "CODE_PERSONAS st =
     [(asc ''diagnose'', DIAGNOSE_PERSONA), (asc ''qa'', QA_PERSONA), (asc ''alert'', ALERT_PERSONA),
      (asc ''evidence_gap'', EVIDENCE_PERSONA)] @
     (if st_action_loop st then [(asc ''ops_planner'', OPS_PLANNER_PERSONA)] else []) @
     (if st_schema_v2 st then [(asc ''proactive_diagnosis'', PROACTIVE_DIAGNOSIS_PERSONA)] else [])"

definition FALLBACK_REGISTRY :: "(pystr \<times> fallback option) list" where
  "FALLBACK_REGISTRY =
     [(asc ''qa'', Some QaFallback), (asc ''diagnose'', Some DiagnoseFallback), (asc ''alert'', Some AlertFallback),
      (asc ''evidence_gap'', Some EvidenceFallback), (asc ''none'', None)]"

definition registered_fallback :: "pystr option \<Rightarrow> fallback option" where
  "registered_fallback key = (case map_of FALLBACK_REGISTRY
       (case key of Some k \<Rightarrow> py_or k (asc ''none'') | None \<Rightarrow> asc ''none'') of
     Some fb \<Rightarrow> fb | None \<Rightarrow> None)"

text \<open>A persona that exists in the table only, before the columns are applied.\<close>

definition db_persona :: "persona_config \<Rightarrow> persona" where
  "db_persona cfg = \<lparr>ps_name = pc_name cfg, ps_system_prompt = pc_system_prompt cfg, ps_allowed_tools = [],
     ps_max_iter = 6, ps_temperature = asc ''0.2'', ps_max_tokens = 1500, ps_output_format = asc ''text'',
     ps_fallback = registered_fallback (pc_fallback_key cfg), ps_config_source = asc ''db''\<rparr>"

text \<open>
  The tool list of a row: a JSON list replaces the tools, anything else leaves them.
\<close>

definition override_tools :: "pystr \<Rightarrow> persona \<Rightarrow> persona" where
  "override_tools txt p =
     (if txt = [] then p
      else (case json_loads txt of
        Some (JList ts) \<Rightarrow> p\<lparr>ps_allowed_tools := map py_str ts\<rparr>
      | _ \<Rightarrow> p))"

definition override :: "persona_config \<Rightarrow> persona \<Rightarrow> persona" where
  "override cfg p0 =
     (let p1 = (if pc_system_prompt cfg = [] then p0 else p0\<lparr>ps_system_prompt := pc_system_prompt cfg\<rparr>);
          p2 = override_tools (pc_allowed_tools cfg) p1;
          p3 = (case pc_max_iter cfg of Some n \<Rightarrow> if n = 0 then p2 else p2\<lparr>ps_max_iter := n\<rparr> | None \<Rightarrow> p2);
          p4 = (case pc_temperature cfg of Some v \<Rightarrow> p3\<lparr>ps_temperature := v\<rparr> | None \<Rightarrow> p3);
          p5 = (case pc_max_tokens cfg of Some n \<Rightarrow> if n = 0 then p4 else p4\<lparr>ps_max_tokens := n\<rparr> | None \<Rightarrow> p4);
          p6 = (case pc_output_format cfg of Some f \<Rightarrow> if f = [] then p5 else p5\<lparr>ps_output_format := f\<rparr> | None \<Rightarrow> p5)
      in p6\<lparr>ps_config_source := asc ''db''\<rparr>)"

text \<open>\<open>tbl\<close> is None when the query raises.\<close>

definition get_persona :: "persona_settings \<Rightarrow> persona_config list option \<Rightarrow> pystr \<Rightarrow> persona option" where
  "get_persona st tbl name =
     (let code = map_of (CODE_PERSONAS st) name;
          cfg = Option.bind tbl (get_row pc_name name)
      in case cfg of
           None \<Rightarrow> code
         | Some cfg \<Rightarrow>
             if \<not> pc_enabled cfg then code
             else Some (override cfg (case code of Some p \<Rightarrow> p | None \<Rightarrow> db_persona cfg)))"

definition config_json :: "persona_settings \<Rightarrow> persona_config \<Rightarrow> json" where
  "config_json st r = JObj
     [(asc ''id'', JInt (int (pc_id r))), (asc ''name'', JStr (pc_name r)),
      (asc ''systemPrompt'', JStr (pc_system_prompt r)), (asc ''allowedTools'', JStr (pc_allowed_tools r)),
      (asc ''maxIter'', case pc_max_iter r of Some n \<Rightarrow> JInt n | None \<Rightarrow> JNull),
      (asc ''temperature'', case pc_temperature r of Some v \<Rightarrow> JFloat v | None \<Rightarrow> JNull),
      (asc ''maxTokens'', case pc_max_tokens r of Some n \<Rightarrow> JInt n | None \<Rightarrow> JNull),
      (asc ''outputFormat'', case pc_output_format r of Some f \<Rightarrow> JStr f | None \<Rightarrow> JNull),
      (asc ''enabled'', JBool (pc_enabled r)),
      (asc ''fallbackKey'', JStr (case pc_fallback_key r of Some k \<Rightarrow> k | None \<Rightarrow> [])),
      (asc ''isCustom'', JBool (pc_name r \<notin> fst ` set (CODE_PERSONAS st))),
      (asc ''updatedAt'', JStr (strftime_second (pc_updated_at r)))]"

definition list_configs :: "persona_settings \<Rightarrow> persona_config list option \<Rightarrow> (pystr \<times> json) list" where
  "list_configs st tbl =
     [(asc ''codePersonas'', JList (map JStr (sort (map fst (CODE_PERSONAS st))))),
      (asc ''fallbackKeys'', JList (map JStr (sort (map fst FALLBACK_REGISTRY)))),
      (asc ''configs'', JList (case tbl of
         None \<Rightarrow> []
       | Some rows \<Rightarrow> map (config_json st) (sort_key (\<lambda>r. - pc_updated_at r) rows)))]"

text \<open>What an upsert sets; \<open>updated_at\<close> takes the server's time when anything changed.\<close>

record persona_form =
  pf_system_prompt :: pystr
  pf_allowed_tools :: pystr
  pf_max_iter :: "int option"
  pf_temperature :: "pystr option"
  pf_max_tokens :: "int option"
  pf_output_format :: "pystr option"
  pf_enabled :: bool
  pf_fallback_key :: pystr

definition fill_config :: "persona_form \<Rightarrow> persona_config \<Rightarrow> persona_config" where
  "fill_config f r = r\<lparr>pc_system_prompt := pf_system_prompt f, pc_allowed_tools := pf_allowed_tools f,
     pc_max_iter := pf_max_iter f, pc_temperature := pf_temperature f, pc_max_tokens := pf_max_tokens f,
     pc_output_format := pf_output_format f, pc_enabled := pf_enabled f,
     pc_fallback_key := Some (pf_fallback_key f)\<rparr>"

definition upsert_config ::
  "clock \<Rightarrow> pystr \<Rightarrow> persona_form \<Rightarrow> persona_config list \<Rightarrow> persona_config list" where
  "upsert_config c name f tbl =
     (case get_row pc_name name tbl of
        None \<Rightarrow> tbl @ [fill_config f \<lparr>pc_id = Suc (fold max (map pc_id tbl) 0), pc_name = name,
            pc_system_prompt = [], pc_allowed_tools = [], pc_max_iter = None, pc_temperature = None,
            pc_max_tokens = None, pc_output_format = None, pc_fallback_key = None, pc_enabled = True,
            pc_updated_at = sqlnow c\<rparr>]
      | Some r \<Rightarrow>
          if fill_config f r = r then tbl
          else put_row pc_name ((fill_config f r)\<lparr>pc_updated_at := sqlnow c\<rparr>) tbl)"

definition delete_config :: "pystr \<Rightarrow> persona_config list \<Rightarrow> bool \<times> persona_config list" where
  "delete_config name tbl =
     (case get_row pc_name name tbl of
        None \<Rightarrow> (False, tbl)
      | Some r \<Rightarrow> (True, filter (\<lambda>x. pc_name x \<noteq> name) tbl))"

end
