(* ===== verification/AgentRuntime.thy ===== *)
theory AgentRuntime
  imports PersonaStore PyRe TicketAudit
begin

text \<open>
  The agent engine: \<open>services/capability_context.py\<close> (the trusted context of a call) and
  \<open>services/agent_runtime.py\<close> (the tool registry with its permission check, and the loop in which
  a language model calls tools). Tools act on a world of any type \<open>'w\<close>; a handler that raises is
  a value with the name of the exception's class and its text. The language model is a function
  of the messages and the tool names it is offered; it may raise. Metrics, callbacks and
  measured times are left out.
\<close>

section \<open>The trusted context\<close>

text \<open>
  The entries of a context that are read; a missing text is empty, a missing switch null. The
  values are texts in every call of the code.
\<close>

record agent_ctx =
  cx_tenant :: pystr
  cx_tenant_id :: pystr
  cx_username :: pystr
  cx_actor_id :: pystr
  cx_role :: pystr
  cx_agent_id :: pystr
  cx_persona :: pystr
  cx_request_id :: pystr
  cx_trace_id :: pystr
  cx_memoryWrite :: json
  cx_memory_write :: json
  cx_memoryRead :: json
  cx_memory_read :: json
  cx_memoryScope :: pystr
  cx_memory_scope :: pystr

definition normalize_tenant :: "pystr \<Rightarrow> pystr" where
  "normalize_tenant v = py_or (py_strip (py_or v (asc ''default''))) (asc ''default'')"

definition normalize_agent :: "pystr \<Rightarrow> pystr" where
  "normalize_agent v = py_or (py_strip (py_or v (asc ''default''))) (asc ''default'')"

text \<open>
  \<open>lower\<close> as far as a comparison with ASCII words without the letter k can tell.
\<close>

definition ascii_lower :: "pystr \<Rightarrow> pystr" where
  "ascii_lower s = map (\<lambda>c. if 65 \<le> c \<and> c \<le> 90 then c + 32 else c) s"

definition normalize_scope :: "pystr \<Rightarrow> pystr" where
  "normalize_scope v =
     (let scope = ascii_lower (py_strip (py_or v (asc ''user'')))
      in if scope \<in> {asc ''user'', asc ''device''} then scope else asc ''user'')"

definition explicit_enabled :: "json \<Rightarrow> bool" where
  "explicit_enabled v = (case v of
     JBool b \<Rightarrow> b
   | JInt i \<Rightarrow> i = 1
   | JFloat s \<Rightarrow> s = asc ''1.0''
   | JStr s \<Rightarrow> ascii_lower (py_strip s) \<in> set (map asc [''1'', ''true'', ''yes'', ''y'', ''on'', ''enabled'', ''write''])
   | _ \<Rightarrow> False)"

record capability =
  cap_tenant_id :: pystr
  cap_actor_id :: pystr
  cap_agent_id :: pystr
  cap_role :: pystr
  cap_request_id :: pystr

definition from_mapping :: "agent_ctx \<Rightarrow> pystr \<Rightarrow> capability" where
  "from_mapping cx trusted_agent_id = \<lparr>
     cap_tenant_id = normalize_tenant (py_or (cx_tenant cx) (cx_tenant_id cx)),
     cap_actor_id = py_strip (py_or (cx_username cx) (cx_actor_id cx)),
     cap_agent_id = normalize_agent (py_or trusted_agent_id (py_or (cx_agent_id cx) (cx_persona cx))),
     cap_role = py_strip (cx_role cx),
     cap_request_id = py_strip (py_or (cx_request_id cx) (cx_trace_id cx))\<rparr>"

definition memory_write_enabled :: "agent_ctx \<Rightarrow> bool" where
  "memory_write_enabled cx \<longleftrightarrow> explicit_enabled (cx_memoryWrite cx) \<or> explicit_enabled (cx_memory_write cx)"

definition memory_read_enabled :: "agent_ctx \<Rightarrow> bool" where
  "memory_read_enabled cx \<longleftrightarrow>
     memory_write_enabled cx \<or> explicit_enabled (cx_memoryRead cx) \<or> explicit_enabled (cx_memory_read cx)"

section \<open>Tools\<close>

type_synonym tool_args = "(pystr \<times> json) list"

text \<open>What a handler raises: the name of the class and the text.\<close>

type_synonym exc = "pystr \<times> pystr"

record 'w tool =
  tl_name :: pystr
  tl_description :: pystr
  tl_handler :: "tool_args \<Rightarrow> 'w \<Rightarrow> (exc + pystr) \<times> 'w"
  tl_provider :: pystr
  tl_action_type :: pystr
  tl_required_roles :: "pystr list option"
  tl_tenant_aware :: bool

definition tool_permissions :: "(pystr \<times> pystr list) list" where
  "tool_permissions = [(asc ''draft_ticket'', [asc ''admin'']),
     (asc ''create_ticket'', [asc ''admin'', asc ''editor'']),
     (asc ''submit_ticket'', [asc ''admin'', asc ''editor''])]"

definition audit_action_type :: "'w tool \<Rightarrow> pystr" where
  "audit_action_type t = py_or (tl_action_type t)
     (if tl_name t \<in> fst ` set tool_permissions then asc ''write'' else asc ''read'')"

text \<open>The registry: a dict by name.\<close>

type_synonym 'w registry = "(pystr \<times> 'w tool) list"

definition register_tool :: "'w tool \<Rightarrow> 'w registry \<Rightarrow> 'w registry" where
  "register_tool t reg = AList.update (tl_name t) t reg"

definition schemas_for :: "'w registry \<Rightarrow> pystr list \<Rightarrow> 'w tool list" where
  "schemas_for reg names = concat (map (\<lambda>n. case map_of reg n of Some t \<Rightarrow> [t] | None \<Rightarrow> []) names)"

record audit_entry =
  ae_persona :: pystr
  ae_tool :: pystr
  ae_iter :: int
  ae_args :: tool_args
  ae_result :: pystr
  ae_error :: bool
  ae_username :: pystr
  ae_tenant :: pystr
  ae_role :: pystr
  ae_provider :: pystr
  ae_action :: pystr
  ae_denied :: "pystr option"

text \<open>The context of one step of an agent: the caller's, the persona's name and the iteration.\<close>

definition audit_of :: "agent_ctx \<Rightarrow> int \<Rightarrow> pystr \<Rightarrow> pystr \<Rightarrow> pystr \<Rightarrow> tool_args \<Rightarrow> pystr \<Rightarrow> bool \<Rightarrow> pystr option \<Rightarrow> audit_entry" where
  "audit_of cx it name provider action args result err denied = \<lparr>ae_persona = cx_persona cx, ae_tool = name,
     ae_iter = it, ae_args = args, ae_result = result, ae_error = err, ae_username = cx_username cx,
     ae_tenant = py_or (cx_tenant cx) (asc ''default''), ae_role = cx_role cx, ae_provider = provider, ae_action = action, ae_denied = denied\<rparr>"

definition no_ctx_audit :: "pystr \<Rightarrow> pystr \<Rightarrow> pystr \<Rightarrow> tool_args \<Rightarrow> pystr \<Rightarrow> bool \<Rightarrow> audit_entry" where
  "no_ctx_audit name provider action args result err = \<lparr>ae_persona = asc ''ctx-less'', ae_tool = name,
     ae_iter = 0, ae_args = args, ae_result = result, ae_error = err, ae_username = asc ''-'',
     ae_tenant = asc ''default'', ae_role = [], ae_provider = provider, ae_action = action, ae_denied = None\<rparr>"

text \<open>The roles a call needs: the tool's own, or those of the table for a tool that declares none.\<close>

definition allowed_roles :: "'w tool \<Rightarrow> pystr list" where
  "allowed_roles t = (case tl_required_roles t of
     Some rs \<Rightarrow> rs
   | None \<Rightarrow> (case map_of tool_permissions (tl_name t) of Some rs \<Rightarrow> rs | None \<Rightarrow> []))"

definition may_call :: "'w tool \<Rightarrow> pystr \<Rightarrow> bool" where
  "may_call t role \<longleftrightarrow> allowed_roles t = [] \<or> role \<in> set (allowed_roles t)"

definition RESERVED_ARGS :: "pystr list" where
  "RESERVED_ARGS = [asc ''tenant'', asc ''tenant_id'', asc ''tenantId'']"

definition clean_args :: "json \<Rightarrow> tool_args" where
  "clean_args args = (case args of JObj kvs \<Rightarrow> filter (\<lambda>(k, v). k \<notin> set RESERVED_ARGS) kvs | _ \<Rightarrow> [])"

text \<open>The call itself: a handler that raises gives an error text.\<close>

definition call_tool :: "'w tool \<Rightarrow> tool_args \<Rightarrow> 'w \<Rightarrow> pystr \<times> bool \<times> 'w" where
  "call_tool t args w = (case tl_handler t args w of
     (Inr result, w') \<Rightarrow> (result, False, w')
   | (Inl (cls, msg), w') \<Rightarrow> (([0x5de5, 0x5177] @ asc '' '') @ tl_name t @ (asc '' '' @ [0x6267, 0x884c, 0x5931, 0x8d25] @ asc '': '') @ cls @ asc '': '' @ msg, True, w'))"

definition denied_text :: "'w tool \<Rightarrow> pystr" where
  "denied_text t = ([0x6743, 0x9650, 0x4e0d, 0x8db3, 0xff1a, 0x5de5, 0x5177] @ asc '' '') @ tl_name t @ (asc '' '' @ [0x9700] @ asc '' '') @ py_repr (JList (map JStr (allowed_roles t))) @ (asc '' '' @ [0x89d2, 0x8272])"

definition run_tool ::
  "'w registry \<Rightarrow> pystr \<Rightarrow> json \<Rightarrow> (agent_ctx \<times> int) option \<Rightarrow> 'w \<Rightarrow> pystr \<times> bool \<times> audit_entry list \<times> 'w" where
  "run_tool reg name args ctx w =
     (case map_of reg name of
        None \<Rightarrow> (([0x672a, 0x77e5, 0x5de5, 0x5177] @ asc '': '') @ name, True, [], w)
      | Some t \<Rightarrow>
          (case ctx of
             None \<Rightarrow>
               (case call_tool t (clean_args args) w of (result, err, w') \<Rightarrow>
                  (result, err, [no_ctx_audit name (tl_provider t) (audit_action_type t) (clean_args args) result err], w'))
           | Some (cx, it) \<Rightarrow>
               if \<not> may_call t (cx_role cx)
               then (denied_text t, True,
                     [audit_of cx it name (tl_provider t) (audit_action_type t) [] (denied_text t) True (Some (asc ''role_not_allowed''))], w)
               else if \<not> tl_tenant_aware t
               then (([0x5de5, 0x5177] @ asc '' '') @ name @ (asc '' '' @ [0x672a, 0x58f0, 0x660e, 0x79df, 0x6237, 0x9694, 0x79bb, 0x80fd, 0x529b, 0xff0c, 0x5df2, 0x62d2, 0x7edd, 0x8c03, 0x7528]), True, [], w)
               else
                 let tool_args = clean_args args @ [(asc ''tenant'', JStr (normalize_tenant (cx_tenant cx)))]
                 in (case call_tool t tool_args w of (result, err, w') \<Rightarrow>
                      (result, err, [audit_of cx it name (tl_provider t) (audit_action_type t) tool_args result err None], w'))))"

section \<open>The loop\<close>

record tool_call =
  tc_id :: pystr
  tc_name :: pystr
  tc_arguments :: json

record llm_reply =
  re_content :: "pystr option"
  re_calls :: "tool_call list"

datatype message =
    SystemMsg pystr
  | UserMsg pystr
  | AssistantMsg pystr "tool_call list"
  | ToolMsg pystr pystr

record agent_step =
  as_iter :: int
  as_thought :: "pystr option"
  as_tool :: "pystr option"
  as_args :: json
  as_result :: "pystr option"
  as_error :: bool

type_synonym llm = "message list \<Rightarrow> pystr list \<Rightarrow> pystr + llm_reply"

record 'w loop_state =
  ls_messages :: "message list"
  ls_steps :: "agent_step list"
  ls_audits :: "audit_entry list"
  ls_world :: 'w

definition content_of :: "llm_reply \<Rightarrow> pystr" where
  "content_of r = (case re_content r of Some s \<Rightarrow> s | None \<Rightarrow> [])"

text \<open>One tool call of a reply in iteration \<open>i\<close>.\<close>

definition do_call ::
  "'w registry \<Rightarrow> agent_ctx \<Rightarrow> int \<Rightarrow> llm_reply \<Rightarrow> tool_call \<Rightarrow> 'w loop_state \<Rightarrow> 'w loop_state" where
  "do_call reg cx i r tc ls =
     (case run_tool reg (tc_name tc) (tc_arguments tc) (Some (cx, i)) (ls_world ls) of
        (result, err, audits, w') \<Rightarrow>
          ls\<lparr>ls_messages := ls_messages ls @ [ToolMsg (tc_id tc) result],
             ls_steps := ls_steps ls @ [\<lparr>as_iter = i, as_thought = re_content r, as_tool = Some (tc_name tc),
               as_args = tc_arguments tc, as_result = Some (take 600 result), as_error = err\<rparr>],
             ls_audits := ls_audits ls @ audits, ls_world := w'\<rparr>)"

datatype loop_end = Answered llm_reply | OutOfIterations | LlmRaised pystr

text \<open>\<open>n\<close> iterations are left; the current one is \<open>i\<close>.\<close>

fun agent_loop ::
  "llm \<Rightarrow> 'w registry \<Rightarrow> pystr list \<Rightarrow> agent_ctx \<Rightarrow> int \<Rightarrow> nat \<Rightarrow> 'w loop_state \<Rightarrow> loop_end \<times> 'w loop_state" where
  "agent_loop llm reg allowed cx i 0 ls = (OutOfIterations, ls)"
| "agent_loop llm reg allowed cx i (Suc n) ls =
     (case llm (ls_messages ls) (map tl_name (schemas_for reg allowed)) of
        Inl e \<Rightarrow> (LlmRaised e, ls)
      | Inr r \<Rightarrow>
          if re_calls r = []
          then (Answered r, ls\<lparr>ls_steps := ls_steps ls @ [\<lparr>as_iter = i, as_thought = re_content r, as_tool = None,
                  as_args = JNull, as_result = None, as_error = False\<rparr>]\<rparr>)
          else agent_loop llm reg allowed cx (i + 1) n
                 (fold (do_call reg cx i r) (re_calls r)
                    (ls\<lparr>ls_messages := ls_messages ls @ [AssistantMsg (content_of r) (re_calls r)]\<rparr>)))"

record 'w agent_run =
  ag_answer :: json
  ag_steps :: "agent_step list"
  ag_iterations :: nat
  ag_degraded :: bool
  ag_reason :: "pystr option"
  ag_persona :: pystr
  ag_tools_used :: "pystr list"
  ag_audits :: "audit_entry list"
  ag_memory :: "(bool \<times> pystr \<times> pystr) option"
  ag_world :: 'w

definition tools_used :: "agent_step list \<Rightarrow> pystr list" where
  "tools_used steps = sort (remdups (concat (map (\<lambda>s. case as_tool s of Some t \<Rightarrow> if t = [] then [] else [t] | None \<Rightarrow> []) steps)))"

definition json_or :: "json \<Rightarrow> json \<Rightarrow> json" where
  "json_or a b = (if truthy a then a else b)"

text \<open>The fallback functions: the answer each gives for a message in a world, or None when it raises.\<close>

type_synonym 'w fallbacks = "fallback \<Rightarrow> pystr \<Rightarrow> 'w \<Rightarrow> json option \<times> 'w"

definition agent_fallback ::
  "'w fallbacks \<Rightarrow> persona \<Rightarrow> pystr \<Rightarrow> 'w loop_state \<Rightarrow> pystr \<Rightarrow> 'w agent_run" where
  "agent_fallback fbs p user_msg ls reason =
     (let (answer, w) = (case ps_fallback p of
            None \<Rightarrow> (JNull, ls_world ls)
          | Some fb \<Rightarrow> (case fbs fb user_msg (ls_world ls) of (a, w) \<Rightarrow> (case a of Some j \<Rightarrow> j | None \<Rightarrow> JNull, w)))
      in \<lparr>ag_answer = json_or answer (JObj [(asc ''summary'', JStr (asc ''agent '' @ [0x964d, 0x7ea7, 0xff0c, 0x672a, 0x80fd, 0x751f, 0x6210, 0x7ed3, 0x679c])), (asc ''degradeReason'', JStr reason)]),
          ag_steps = ls_steps ls, ag_iterations = length (ls_steps ls), ag_degraded = True,
          ag_reason = Some reason, ag_persona = ps_name p, ag_tools_used = tools_used (ls_steps ls),
          ag_audits = ls_audits ls, ag_memory = None, ag_world = w\<rparr>)"

definition final_answer :: "persona \<Rightarrow> llm_reply \<Rightarrow> json" where
  "final_answer p r =
     (if ps_output_format p = asc ''json''
      then json_or (case extract_json (content_of r) of Some j \<Rightarrow> j | None \<Rightarrow> JNull)
             (JObj [(asc ''summary'', JStr (take 500 (content_of r)))])
      else JStr (content_of r))"

text \<open>
  The recalled memory is part of the prompt only for a named user who has allowed it; \<open>recall\<close> is
  what the memory service returns (empty when it raises).
\<close>

definition recalled :: "bool \<Rightarrow> pystr \<Rightarrow> agent_ctx option \<Rightarrow> pystr" where
  "recalled memory_enable recall ctx = (case ctx of
     Some cx \<Rightarrow> if cx_username cx \<noteq> [] \<and> memory_enable \<and> memory_read_enabled cx then recall else []
   | None \<Rightarrow> [])"

definition start_state :: "persona \<Rightarrow> pystr \<Rightarrow> pystr \<Rightarrow> 'w \<Rightarrow> 'w loop_state" where
  "start_state p recall_text user_msg w = \<lparr>
     ls_messages = [SystemMsg (ps_system_prompt p), SystemMsg recall_text, UserMsg user_msg],
     ls_steps = [], ls_audits = [], ls_world = w\<rparr>"

text \<open>
  After an answer to a named user the memory service is asked to extract memories: with the
  user's consent under the global switch, for the tenant and the agent of the context.
\<close>

definition memory_request :: "bool \<Rightarrow> persona \<Rightarrow> agent_ctx option \<Rightarrow> (bool \<times> pystr \<times> pystr) option" where
  "memory_request auto_save p ctx = (case ctx of
     Some cx \<Rightarrow>
       if cx_username cx = [] then None
       else let cap = from_mapping cx (ps_name p)
         in Some (auto_save \<and> memory_write_enabled cx, cap_tenant_id cap, cap_agent_id cap)
   | None \<Rightarrow> None)"

text \<open>
  The context of the tool calls of a run: the caller's with the persona's name. A run without a
  context gives the tools one all the same, with nothing else in it.
\<close>

definition no_ctx :: agent_ctx where
  "no_ctx = \<lparr>cx_tenant = [], cx_tenant_id = [], cx_username = [], cx_actor_id = [], cx_role = [],
     cx_agent_id = [], cx_persona = [], cx_request_id = [], cx_trace_id = [],
     cx_memoryWrite = JNull, cx_memory_write = JNull, cx_memoryRead = JNull, cx_memory_read = JNull,
     cx_memoryScope = [], cx_memory_scope = []\<rparr>"

definition step_ctx :: "persona \<Rightarrow> agent_ctx option \<Rightarrow> agent_ctx" where
  "step_ctx p ctx = (case ctx of Some cx \<Rightarrow> cx | None \<Rightarrow> no_ctx)\<lparr>cx_persona := ps_name p\<rparr>"

definition run_agent ::
  "llm \<Rightarrow> 'w registry \<Rightarrow> 'w fallbacks \<Rightarrow> bool \<Rightarrow> bool \<Rightarrow> pystr \<Rightarrow> persona \<Rightarrow> pystr \<Rightarrow> agent_ctx option \<Rightarrow> 'w \<Rightarrow> 'w agent_run" where
  "run_agent llm reg fbs memory_enable auto_save recall p user_msg ctx w =
     (case agent_loop llm reg (ps_allowed_tools p) (step_ctx p ctx) 1
         (nat (ps_max_iter p)) (start_state p (recalled memory_enable recall ctx) user_msg w) of
        (OutOfIterations, ls) \<Rightarrow> agent_fallback fbs p user_msg ls (asc ''max_iter'')
      | (LlmRaised cls, ls) \<Rightarrow> agent_fallback fbs p user_msg ls (asc ''exception:'' @ cls)
      | (Answered r, ls) \<Rightarrow>
          \<lparr>ag_answer = final_answer p r, ag_steps = ls_steps ls, ag_iterations = length (ls_steps ls),
           ag_degraded = False, ag_reason = None, ag_persona = ps_name p, ag_tools_used = tools_used (ls_steps ls),
           ag_audits = ls_audits ls, ag_memory = memory_request auto_save p ctx, ag_world = ls_world ls\<rparr>)"

end
