(* ===== verification/AgentTools.thy ===== *)
theory AgentTools
  imports AgentRuntime Tickets
begin

text \<open>
  The tools of the agents: \<open>services/agent_tools.py\<close>. The two that write act on the ticket table.
  The retrieval, graph, case and drafting services are arguments; a call of one may raise.
\<close>

text \<open>
  What a tool call meets: the clock and the id a new ticket gets when the table is in a given
  state, the auditor of a submission, and the answers of the services to a text in a tenant.
\<close>

record tool_env =
  te_clock :: "ticket_table \<Rightarrow> clock"
  te_uuid :: "ticket_table \<Rightarrow> pystr"
  te_auditor :: auditor
  te_search :: "pystr \<Rightarrow> pystr \<Rightarrow> exc + (pystr \<times> pystr) list"
  te_graph :: "pystr \<Rightarrow> pystr \<Rightarrow> exc + pystr list"
  te_cases :: "pystr \<Rightarrow> pystr \<Rightarrow> exc + (pystr \<times> pystr) list"
  te_draft :: "pystr \<Rightarrow> pystr \<Rightarrow> exc + (pystr \<times> json) list"

definition TOPK :: nat where "TOPK = 5"

section \<open>Arguments\<close>

text \<open>
  Calling a handler with keyword arguments: an unknown name or a missing required one raises
  \<open>TypeError\<close>. The tools take texts and lists of texts; other values are shown as text.
\<close>

definition bind_args :: "pystr list \<Rightarrow> pystr list \<Rightarrow> tool_args \<Rightarrow> exc option" where
  "bind_args required optional args =
     (if list_ex (\<lambda>(k, v). k \<notin> set (required @ optional)) args \<or> list_ex (\<lambda>k. k \<notin> fst ` set args) required
      then Some (asc ''TypeError'', asc ''arguments'') else None)"

definition arg_text :: "tool_args \<Rightarrow> pystr \<Rightarrow> pystr" where
  "arg_text args k = (case map_of args k of
     Some v \<Rightarrow> if truthy v then py_str v else []
   | None \<Rightarrow> [])"

definition arg_list :: "tool_args \<Rightarrow> pystr \<Rightarrow> pystr list" where
  "arg_list args k = (case map_of args k of Some (JList vs) \<Rightarrow> map py_str vs | _ \<Rightarrow> [])"

section \<open>Summaries\<close>

definition fmt_chunks :: "(pystr \<times> pystr) list \<Rightarrow> pystr" where
  "fmt_chunks ctx = py_join [10] (map (\<lambda>(i, doc, chunk). [91] @ dec_nat i @ [93, 32] @ doc @ [58, 32] @ take 200 chunk)
     (enumerate 1 (take TOPK ctx)))"

definition fmt_ticket :: "(pystr \<times> json) list \<Rightarrow> pystr" where
  "fmt_ticket ticket =
     (if ticket = [] then []
      else ([0x8bbe, 0x5907] @ asc '':'') @ py_or (arg_text ticket (asc ''device'')) [0x65e0] @ [10] @
           ([0x6b65, 0x9aa4] @ asc '':'') @ py_or (py_join [59] (take 8 (arg_list ticket (asc ''steps'')))) [0x65e0] @ [10] @
           ([0x5b89, 0x63aa] @ asc '':'') @ py_or (py_join [59] (arg_list ticket (asc ''safety''))) [0x65e0] @ [10] @
           ([0x98ce, 0x9669] @ asc '':'') @ py_or (py_join [59] (arg_list ticket (asc ''risks''))) [0x65e0])"

section \<open>Handlers\<close>

type_synonym handler = "tool_args \<Rightarrow> ticket_table \<Rightarrow> (exc + pystr) \<times> ticket_table"

text \<open>A handler that only asks a service.\<close>

definition reader ::
  "pystr \<Rightarrow> (pystr \<Rightarrow> pystr \<Rightarrow> exc + 'a) \<Rightarrow> ('a \<Rightarrow> pystr) \<Rightarrow> pystr \<Rightarrow> handler" where
  "reader key service fmt none_text args tbl =
     (case bind_args [key] [asc ''tenant''] args of
        Some e \<Rightarrow> (Inl e, tbl)
      | None \<Rightarrow> (map_sum id (\<lambda>r. py_or (fmt r) none_text) (service (arg_text args key) (arg_text args (asc ''tenant''))), tbl))"

definition t_search_regulation :: "tool_env \<Rightarrow> handler" where
  "t_search_regulation env = reader (asc ''query'') (te_search env) fmt_chunks [0x672a, 0x68c0, 0x7d22, 0x5230, 0x76f8, 0x5173, 0x89c4, 0x7a0b]"

definition t_query_equipment_graph :: "tool_env \<Rightarrow> handler" where
  "t_query_equipment_graph env = reader (asc ''entity'') (te_graph env) (py_join [10]) [0x56fe, 0x8c31, 0x4e2d, 0x65e0, 0x8be5, 0x8bbe, 0x5907, 0x76f8, 0x5173, 0x56e0, 0x679c, 0x94fe]"

definition t_search_similar_case :: "tool_env \<Rightarrow> handler" where
  "t_search_similar_case env = reader (asc ''symptom'') (te_cases env) fmt_chunks [0x672a, 0x627e, 0x5230, 0x76f8, 0x4f3c, 0x5386, 0x53f2, 0x6848, 0x4f8b]"

definition t_draft_ticket :: "tool_env \<Rightarrow> handler" where
  "t_draft_ticket env = reader (asc ''task'') (te_draft env) fmt_ticket [0x751f, 0x6210, 0x64cd, 0x4f5c, 0x7968, 0x8349, 0x6848, 0x5931, 0x8d25]"

text \<open>The exception of a service operation, as the registry reports it.\<close>

definition exc_of :: "pyerr \<Rightarrow> exc" where
  "exc_of e = (case e of
     ValueError m \<Rightarrow> (asc ''ValueError'', m) | LookupError m \<Rightarrow> (asc ''LookupError'', m)
   | TypeError \<Rightarrow> (asc ''TypeError'', []) | OverflowError \<Rightarrow> (asc ''OverflowError'', [])
   | IntegrityError \<Rightarrow> (asc ''IntegrityError'', []) | NoResultFound \<Rightarrow> (asc ''NoResultFound'', [])
   | BizError m _ \<Rightarrow> (asc ''BizError'', m) | HandlerError m \<Rightarrow> (asc ''Exception'', m)
   | KeyError m \<Rightarrow> (asc ''KeyError'', m) | RuntimeError m \<Rightarrow> (asc ''RuntimeError'', m))"

definition created_text :: "ticket \<Rightarrow> pystr" where
  "created_text t = ([0x5df2, 0x521b, 0x5efa, 0x5de5, 0x5355] @ asc '' '') @ tk_id t @ ([0xff08, 0x8349, 0x7a3f, 0xff0c, 0x72b6, 0x6001] @ asc '':'') @ ticket_status_str (tk_status t) @ ([0xff09, 0xff0c, 0x6807, 0x9898] @ asc '':'') @
     tk_title t @ ([0x3002, 0x53ef, 0x8c03, 0x7528] @ asc '' submit_ticket '' @ [0x63d0, 0x4ea4, 0x5ba1, 0x6838])"

definition ticket_args_of :: "tool_args \<Rightarrow> pystr \<Rightarrow> ticket_args" where
  "ticket_args_of args task = \<lparr>
     ta_type = py_or (arg_text args (asc ''ticketType'')) (ticket_type_str OPERATION), ta_task = task,
     ta_device = arg_text args (asc ''device''), ta_location = [], ta_steps = arg_list args (asc ''steps''),
     ta_safety = arg_list args (asc ''safety''), ta_risks = arg_list args (asc ''risks''), ta_notes = [],
     ta_creator = arg_text args (asc ''creator''),
     ta_tenant = py_or (arg_text args (asc ''tenant'')) (asc ''default''),
     ta_source_ref = arg_text args (asc ''sourceRef'')\<rparr>"

definition t_create_ticket :: "tool_env \<Rightarrow> handler" where
  "t_create_ticket env args tbl =
     (case bind_args [asc ''task''] (map asc [''device'', ''ticketType'', ''steps'', ''safety'', ''risks'',
         ''sourceRef'', ''tenant'', ''creator'']) args of
        Some e \<Rightarrow> (Inl e, tbl)
      | None \<Rightarrow>
          let task = py_strip (arg_text args (asc ''task''))
          in if task = [] then (Inr ([0x521b, 0x5efa, 0x5931, 0x8d25, 0xff1a] @ asc ''task '' @ [0x4e0d, 0x80fd, 0x4e3a, 0x7a7a]), tbl)
             else (case create_ticket (te_clock env tbl) (te_uuid env tbl) (ticket_args_of args task) tbl of
                     Inl e \<Rightarrow> (Inl (exc_of e), tbl)
                   | Inr (t, tbl') \<Rightarrow> (Inr (created_text t), tbl')))"

definition submitted_text :: "ticket \<Rightarrow> pystr" where
  "submitted_text t = ([0x5de5, 0x5355] @ asc '' '') @ tk_id t @ (asc '' '' @ [0x5df2, 0x63d0, 0x4ea4, 0x5ba1, 0x6838, 0xff0c, 0x72b6, 0x6001] @ asc '':'') @ ticket_status_str (tk_status t) @ ([0xff0c, 0x5ba1, 0x6838, 0x5f97, 0x5206] @ asc '':'') @
     py_str_int (tk_review_score t)"

definition t_submit_ticket :: "tool_env \<Rightarrow> handler" where
  "t_submit_ticket env args tbl =
     (case bind_args [asc ''ticketId''] [asc ''tenant''] args of
        Some e \<Rightarrow> (Inl e, tbl)
      | None \<Rightarrow>
          (case submit_for_review (te_clock env tbl) (te_auditor env) (arg_text args (asc ''ticketId''))
              (py_or (arg_text args (asc ''tenant'')) (asc ''default'')) tbl of
             Inl (ValueError m) \<Rightarrow> (Inr ([0x63d0, 0x4ea4, 0x5931, 0x8d25, 0xff1a] @ m), tbl)
           | Inl e \<Rightarrow> (Inl (exc_of e), tbl)
           | Inr (t, fx, tbl') \<Rightarrow> (Inr (submitted_text t), tbl')))"

section \<open>The registry\<close>

definition builtin :: "pystr \<Rightarrow> pystr \<Rightarrow> handler \<Rightarrow> pystr list \<Rightarrow> ticket_table tool" where
  "builtin name description h roles = \<lparr>tl_name = name, tl_description = description, tl_handler = h,
     tl_provider = asc ''builtin'', tl_action_type = [], tl_required_roles = Some roles, tl_tenant_aware = True\<rparr>"

definition default_registry :: "persona_settings \<Rightarrow> tool_env \<Rightarrow> ticket_table registry" where
  "default_registry st env = fold register_tool
     ([builtin (asc ''search_regulation'') ([0x68c0, 0x7d22, 0x7535, 0x7f51, 0x8fd0, 0x7ef4, 0x89c4, 0x7a0b] @ asc ''/'' @ [0x624b, 0x518c] @ asc ''/'' @ [0x6807, 0x51c6, 0xff0c, 0x83b7, 0x53d6, 0x6545, 0x969c, 0x5904, 0x7f6e, 0x7684, 0x89c4, 0x7a0b, 0x4f9d, 0x636e, 0x3001, 0x9650, 0x503c, 0x3001, 0x6807, 0x51c6, 0x6b65, 0x9aa4, 0x3002]) (t_search_regulation env) [],
       builtin (asc ''query_equipment_graph'') ([0x67e5, 0x77e5, 0x8bc6, 0x56fe, 0x8c31, 0x4e2d, 0x8bbe, 0x5907, 0x7684, 0x6545, 0x969c] @ asc ''-'' @ [0x5904, 0x7f6e, 0x56e0, 0x679c, 0x94fe, 0xff08, 0x8bbe, 0x5907, 0x2192, 0x6545, 0x969c, 0x2192, 0x5904, 0x7f6e] @ asc '' '' @ [0x591a, 0x8df3, 0xff09, 0x3002]) (t_query_equipment_graph env) [],
       builtin (asc ''search_similar_case'') [0x67e5, 0x5386, 0x53f2, 0x76f8, 0x4f3c, 0x6545, 0x969c, 0x6848, 0x4f8b, 0xff08, 0x6545, 0x969c, 0x6848, 0x4f8b, 0x5e93, 0xff09, 0xff0c, 0x770b, 0x5386, 0x53f2, 0x4e0a, 0x7c7b, 0x4f3c, 0x6545, 0x969c, 0x600e, 0x4e48, 0x5904, 0x7406, 0x7684, 0x3002] (t_search_similar_case env) [],
       builtin (asc ''draft_ticket'') ([0x751f, 0x6210, 0x5904, 0x7f6e, 0x64cd, 0x4f5c, 0x7968, 0x8349, 0x6848, 0xff08, 0x6b65, 0x9aa4] @ asc ''/'' @ [0x5b89, 0x63aa] @ asc ''/'' @ [0x98ce, 0x9669, 0xff09, 0x3002, 0x8bca, 0x65ad, 0x57fa, 0x672c, 0x660e, 0x786e, 0x3001, 0x9700, 0x8981, 0x5904, 0x7f6e, 0x6b65, 0x9aa4, 0x65f6, 0x8c03, 0x7528, 0x3002]) (t_draft_ticket env) [asc ''admin'']] @
      (if st_action_loop st
       then [builtin (asc ''create_ticket'') ([0x628a, 0x5df2, 0x786e, 0x5b9a, 0x7684, 0x5904, 0x7f6e, 0x65b9, 0x6848, 0x843d, 0x5e93, 0x6210, 0x4e24, 0x7968, 0x8349, 0x7a3f, 0x3002, 0x4ec5, 0x5f53, 0x7528, 0x6237, 0x660e, 0x786e, 0x8981, 0x6c42, 0x751f, 0x6210] @ asc ''/'' @ [0x521b, 0x5efa, 0x5de5, 0x5355, 0x65f6, 0x8c03, 0x7528, 0x3002]) (t_create_ticket env) [asc ''admin'', asc ''editor''],
             builtin (asc ''submit_ticket'') ([0x628a, 0x5de5, 0x5355, 0x63d0, 0x4ea4, 0x5ba1, 0x6838, 0xff08, 0x81ea, 0x52a8, 0x8dd1, 0x5ba1, 0x6838, 0x5f15, 0x64ce, 0xff09, 0x3002] @ asc ''create_ticket '' @ [0x6210, 0x529f, 0x540e, 0x6309, 0x7528, 0x6237, 0x8981, 0x6c42, 0x8c03, 0x7528, 0x3002]) (t_submit_ticket env) [asc ''admin'', asc ''editor'']]
       else [])) []"

end
