(* ===== verification/AgentClaims.thy ===== *)
theory AgentClaims
  imports AgentTools TicketLaws
begin

text \<open>
  What the agent engine guarantees: tools act with the caller's role and tenant only, the loop
  is bounded, and what it does not guarantee: the persona's list of tools is advice.
\<close>

section \<open>One tool call\<close>

text \<open>The arguments a handler gets in the name of a tenant.\<close>

definition tenant_args :: "pystr \<Rightarrow> tool_args \<Rightarrow> bool" where
  "tenant_args tenant args \<longleftrightarrow> map_of args (asc ''tenant'') = Some (JStr tenant) \<and>
     (\<forall>(k, v) \<in> set args. k = asc ''tenant'' \<longrightarrow> v = JStr tenant) \<and>
     asc ''tenant_id'' \<notin> fst ` set args \<and> asc ''tenantId'' \<notin> fst ` set args"

lemma tenant_args_clean: "tenant_args tn (clean_args args @ [(asc ''tenant'', JStr tn)])"
proof (cases args)
  case (JObj kvs)
  have "map_of (filter (\<lambda>(k, v). k \<notin> set RESERVED_ARGS) kvs) (asc ''tenant'') = None"
    by (auto simp: map_of_eq_None_iff RESERVED_ARGS_def)
  then show ?thesis by (auto simp: JObj tenant_args_def clean_args_def RESERVED_ARGS_def map_add_def)
qed (simp_all add: tenant_args_def clean_args_def)

definition rightful :: "'w registry \<Rightarrow> agent_ctx \<Rightarrow> audit_entry \<Rightarrow> bool" where
  "rightful reg cx e \<longleftrightarrow> (\<exists>t. map_of reg (ae_tool e) = Some t \<and>
     (if ae_denied e = None
      then may_call t (cx_role cx) \<and> tl_tenant_aware t \<and> tenant_args (normalize_tenant (cx_tenant cx)) (ae_args e)
      else \<not> may_call t (cx_role cx)))"

text \<open>The tools this caller may use keep \<open>I\<close>, given arguments in the name of its tenant.\<close>

definition tools_keep :: "'w registry \<Rightarrow> agent_ctx \<Rightarrow> ('w \<Rightarrow> bool) \<Rightarrow> bool" where
  "tools_keep reg cx I \<longleftrightarrow> (\<forall>n t args w. map_of reg n = Some t \<longrightarrow> may_call t (cx_role cx) \<longrightarrow> tl_tenant_aware t \<longrightarrow>
     tenant_args (normalize_tenant (cx_tenant cx)) args \<longrightarrow> I w \<longrightarrow> I (snd (tl_handler t args w)))"

lemma run_tool_rights:
  assumes "tools_keep reg cx I"
    and "run_tool reg name args (Some (cx', i)) w = (result, err, audits, w')"
    and "cx_role cx' = cx_role cx" and "cx_tenant cx' = cx_tenant cx" and "I w"
  shows "I w' \<and> (\<forall>e \<in> set audits. rightful reg cx e)"
proof (cases "map_of reg name")
  case None
  with assms(2,5) show ?thesis by (simp add: run_tool_def)
next
  case (Some t)
  let ?args = "clean_args args @ [(asc ''tenant'', JStr (normalize_tenant (cx_tenant cx)))]"
  show ?thesis
  proof (cases "may_call t (cx_role cx) \<and> tl_tenant_aware t")
    case False
    with Some assms(2-5) show ?thesis
      by (auto simp: run_tool_def audit_of_def rightful_def split: if_splits)
  next
    case True
    have "I (snd (tl_handler t ?args w))"
      using assms(1,5) Some True tenant_args_clean unfolding tools_keep_def by blast
    then have "I (snd (snd (call_tool t ?args w)))"
      by (auto simp: call_tool_def split: prod.splits sum.splits)
    with Some True assms(2-4) show ?thesis
      by (auto simp: run_tool_def audit_of_def rightful_def tenant_args_clean Let_def split: prod.splits)
  qed
qed

section \<open>The loop\<close>

lemma do_call_rights:
  assumes "tools_keep reg cx I"
    and "I (ls_world ls)" and "\<forall>e \<in> set (ls_audits ls). rightful reg cx e"
    and "cx_role cx' = cx_role cx" and "cx_tenant cx' = cx_tenant cx"
  shows "I (ls_world (do_call reg cx' i r tc ls)) \<and>
    (\<forall>e \<in> set (ls_audits (do_call reg cx' i r tc ls)). rightful reg cx e)"
proof -
  obtain result err audits w' where
    run: "run_tool reg (tc_name tc) (tc_arguments tc) (Some (cx', i)) (ls_world ls) = (result, err, audits, w')"
    by (metis prod_cases4)
  from run_tool_rights[OF assms(1) this assms(4,5,2)] assms(3) run show ?thesis
    by (auto simp: do_call_def)
qed

lemma do_calls_rights:
  assumes "tools_keep reg cx I"
    and "I (ls_world ls)" and "\<forall>e \<in> set (ls_audits ls). rightful reg cx e"
    and "cx_role cx' = cx_role cx" and "cx_tenant cx' = cx_tenant cx"
  shows "I (ls_world (fold (do_call reg cx' i r) tcs ls)) \<and>
    (\<forall>e \<in> set (ls_audits (fold (do_call reg cx' i r) tcs ls)). rightful reg cx e)"
  using assms(2,3)
proof (induction tcs arbitrary: ls)
  case (Cons tc tcs)
  from do_call_rights[OF assms(1) Cons.prems assms(4,5), of i r tc]
  have "I (ls_world (do_call reg cx' i r tc ls))"
    "\<forall>e \<in> set (ls_audits (do_call reg cx' i r tc ls)). rightful reg cx e" by auto
  from Cons.IH[OF this] show ?case by simp
qed simp

lemma agent_loop_rights:
  assumes "tools_keep reg cx I"
    and "cx_role cx' = cx_role cx" and "cx_tenant cx' = cx_tenant cx"
    and "I (ls_world ls)" and "\<forall>e \<in> set (ls_audits ls). rightful reg cx e"
  shows "I (ls_world (snd (agent_loop llm reg allowed cx' i n ls))) \<and>
    (\<forall>e \<in> set (ls_audits (snd (agent_loop llm reg allowed cx' i n ls))). rightful reg cx e)"
  using assms(4,5)
proof (induction n arbitrary: i ls)
  case (Suc n)
  show ?case
  proof (cases "llm (ls_messages ls) (map tl_name (schemas_for reg allowed))")
    case (Inr r)
    let ?ls = "ls\<lparr>ls_messages := ls_messages ls @ [AssistantMsg (content_of r) (re_calls r)]\<rparr>"
    have "I (ls_world ?ls)" "\<forall>e \<in> set (ls_audits ?ls). rightful reg cx e" using Suc.prems by simp_all
    from do_calls_rights[OF assms(1) this assms(2,3), of i r "re_calls r"]
    have "I (ls_world (fold (do_call reg cx' i r) (re_calls r) ?ls))"
      "\<forall>e \<in> set (ls_audits (fold (do_call reg cx' i r) (re_calls r) ?ls)). rightful reg cx e" by auto
    from Suc.IH[OF this, of "i + 1"] Suc.prems Inr show ?thesis by auto
  qed (use Suc.prems in simp)
qed simp

definition is_assistant :: "message \<Rightarrow> bool" where
  "is_assistant m = (case m of AssistantMsg _ _ \<Rightarrow> True | _ \<Rightarrow> False)"

definition asked :: "'w loop_state \<Rightarrow> nat" where
  "asked ls = length (filter is_assistant (ls_messages ls))"

lemma do_calls_frame:
  "asked (fold (do_call reg ctx i r) tcs ls) = asked ls \<and>
   (\<exists>steps. ls_steps (fold (do_call reg ctx i r) tcs ls) = ls_steps ls @ steps \<and>
      length steps = length tcs \<and> (\<forall>s \<in> set steps. as_iter s = i)) \<and>
   set (ls_audits ls) \<subseteq> set (ls_audits (fold (do_call reg ctx i r) tcs ls))"
proof (induction tcs arbitrary: ls)
  case (Cons tc tcs)
  have one: "asked (do_call reg ctx i r tc ls) = asked ls \<and>
      (\<exists>s. ls_steps (do_call reg ctx i r tc ls) = ls_steps ls @ [s] \<and> as_iter s = i) \<and>
      set (ls_audits ls) \<subseteq> set (ls_audits (do_call reg ctx i r tc ls))" for ls :: "'a loop_state"
    by (auto simp: do_call_def asked_def is_assistant_def split: prod.splits)
  from Cons[of "do_call reg ctx i r tc ls"] one[of ls] show ?case by fastforce
qed simp

lemma agent_loop_frame:
  assumes "agent_loop llm reg allowed ctx i n ls = (e, ls')"
  shows "asked ls' \<le> asked ls + n \<and> (e = OutOfIterations \<longleftrightarrow> asked ls' = asked ls + n) \<and>
    (\<exists>steps. ls_steps ls' = ls_steps ls @ steps \<and> (\<forall>s \<in> set steps. i \<le> as_iter s \<and> as_iter s < i + int n)) \<and>
    set (ls_audits ls) \<subseteq> set (ls_audits ls')"
  using assms
proof (induction n arbitrary: i ls)
  case (Suc n)
  show ?case
  proof (cases "llm (ls_messages ls) (map tl_name (schemas_for reg allowed))")
    case (Inl x)
    with Suc.prems show ?thesis by auto
  next
    case (Inr r)
    show ?thesis
    proof (cases "re_calls r = []")
      case True
      with Inr Suc.prems show ?thesis by (auto simp: asked_def)
    next
      case False
      let ?ls = "ls\<lparr>ls_messages := ls_messages ls @ [AssistantMsg (content_of r) (re_calls r)]\<rparr>"
      let ?ls1 = "fold (do_call reg ctx i r) (re_calls r) ?ls"
      have loop: "agent_loop llm reg allowed ctx (i + 1) n ?ls1 = (e, ls')"
        using Suc.prems Inr False by simp
      from do_calls_frame[of reg ctx i r "re_calls r" ?ls] obtain st where st:
        "asked ?ls1 = asked ls + 1" "ls_steps ?ls1 = ls_steps ls @ st" "\<forall>s \<in> set st. as_iter s = i"
        "set (ls_audits ls) \<subseteq> set (ls_audits ?ls1)" by (auto simp: asked_def is_assistant_def)
      from Suc.IH[OF loop] obtain st' where st': "asked ls' \<le> asked ?ls1 + n"
        "e = OutOfIterations \<longleftrightarrow> asked ls' = asked ?ls1 + n" "ls_steps ls' = ls_steps ?ls1 @ st'"
        "\<forall>s \<in> set st'. i + 1 \<le> as_iter s \<and> as_iter s < i + 1 + int n"
        "set (ls_audits ?ls1) \<subseteq> set (ls_audits ls')" by blast
      show ?thesis
      proof (intro conjI exI[of _ "st @ st'"])
        show "\<forall>s \<in> set (st @ st'). i \<le> as_iter s \<and> as_iter s < i + int (Suc n)"
          using st(3) st'(4) by fastforce
      qed (use st st' in auto)
    qed
  qed
qed simp

section \<open>Properties\<close>

lemma run_agent_rights:
  assumes "tools_keep reg cx I" and "\<And>fb m w. I w \<Longrightarrow> I (snd (fbs fb m w))" and "I w"
  shows "I (ag_world (run_agent llm reg fbs me au recall p msg (Some cx) w)) \<and>
    (\<forall>e \<in> set (ag_audits (run_agent llm reg fbs me au recall p msg (Some cx) w)). rightful reg cx e)"
proof -
  let ?cx = "cx\<lparr>cx_persona := ps_name p\<rparr>"
  let ?ls = "start_state p (recalled me recall (Some cx)) msg w"
  obtain e ls where loop: "agent_loop llm reg (ps_allowed_tools p) ?cx 1 (nat (ps_max_iter p)) ?ls = (e, ls)"
    by (metis surj_pair)
  have "I (ls_world ls) \<and> (\<forall>e \<in> set (ls_audits ls). rightful reg cx e)"
    using agent_loop_rights[OF assms(1), of ?cx ?ls llm "ps_allowed_tools p" 1 "nat (ps_max_iter p)"] assms(3)
    unfolding loop snd_conv by (simp add: start_state_def)
  moreover have "I w \<Longrightarrow> fbs fb msg w = (a, w') \<Longrightarrow> I w'" for fb w a w'
    using assms(2)[of w fb msg] by simp
  ultimately show ?thesis
    by (auto simp: run_agent_def step_ctx_def loop agent_fallback_def Let_def split: loop_end.splits option.splits prod.splits)
qed

text \<open>C23: Whatever the language model asks for, an agent that acts for a caller changes the world
  through the tools that caller's role may use, each called in the caller's tenant with no other
  tenant argument: every invariant those calls (and the fallbacks) keep holds at the end, and
  every audited call is either one of them or a refusal of a tool the role may not use.\<close>

theorem agent_acts_within_its_rights:
  assumes "\<And>n t args w. map_of reg n = Some t \<Longrightarrow> may_call t (cx_role cx) \<Longrightarrow> tl_tenant_aware t \<Longrightarrow>
      tenant_args (normalize_tenant (cx_tenant cx)) args \<Longrightarrow> I w \<Longrightarrow> I (snd (tl_handler t args w))"
    and "\<And>fb m w. I w \<Longrightarrow> I (snd (fbs fb m w))" and "I w"
  shows "I (ag_world (run_agent llm reg fbs me au recall p msg (Some cx) w)) \<and>
    (\<forall>e \<in> set (ag_audits (run_agent llm reg fbs me au recall p msg (Some cx) w)). rightful reg cx e)"
proof (rule run_agent_rights[OF _ assms(2,3)])
  show "tools_keep reg cx I" using assms(1) by (simp add: tools_keep_def)
qed


text \<open>The persona's list of tools only selects what the language model is told about. A registered
  tool outside the list that the model asks for in its first answer is executed all the same.\<close>

theorem tools_outside_persona_are_run:
  assumes "llm (ls_messages (start_state p (recalled me recall (Some cx)) msg w))
      (map tl_name (schemas_for reg (ps_allowed_tools p))) = Inr r"
    and "re_calls r = [tc]" and "map_of reg (tc_name tc) = Some t" and "tc_name tc \<notin> set (ps_allowed_tools p)"
    and "may_call t (cx_role cx)" and "tl_tenant_aware t" and "1 \<le> ps_max_iter p"
  shows "\<exists>e \<in> set (ag_audits (run_agent llm reg fbs me au recall p msg (Some cx) w)).
    ae_tool e = tc_name tc \<and> ae_denied e = None"
proof -
  let ?cx = "cx\<lparr>cx_persona := ps_name p\<rparr>"
  let ?ls = "start_state p (recalled me recall (Some cx)) msg w"
  let ?ls1 = "do_call reg ?cx 1 r tc (?ls\<lparr>ls_messages := ls_messages ?ls @ [AssistantMsg (content_of r) [tc]]\<rparr>)"
  obtain n where n: "nat (ps_max_iter p) = Suc n" using assms(7) by (cases "nat (ps_max_iter p)") auto
  obtain e ls where loop: "agent_loop llm reg (ps_allowed_tools p) ?cx 1 (Suc n) ?ls = (e, ls)"
    by (metis surj_pair)
  then have rest: "agent_loop llm reg (ps_allowed_tools p) ?cx 2 n ?ls1 = (e, ls)"
    using assms(1,2) by simp
  have "\<exists>e \<in> set (ls_audits ?ls1). ae_tool e = tc_name tc \<and> ae_denied e = None"
    using assms(3,5,6) by (simp add: do_call_def run_tool_def audit_of_def Let_def split: prod.splits)
  then have "\<exists>e \<in> set (ls_audits ls). ae_tool e = tc_name tc \<and> ae_denied e = None"
    using agent_loop_frame[OF rest] by blast
  moreover have "ag_audits (run_agent llm reg fbs me au recall p msg (Some cx) w) = ls_audits ls"
    unfolding run_agent_def step_ctx_def option.case n loop prod.case
    by (cases e) (simp_all add: agent_fallback_def Let_def split: prod.splits)
  ultimately show ?thesis by simp
qed

text \<open>
  A run without a context is a run of a nameless caller without a role: its calls are audited, and
  refused where a role is needed.
\<close>

theorem run_without_context:
  "run_agent llm reg fbs me au recall p msg None w = run_agent llm reg fbs me au recall p msg (Some no_ctx) w"
proof -
  have "recalled me recall None = recalled me recall (Some no_ctx)"
    "memory_request au p None = memory_request au p (Some no_ctx)" "step_ctx p None = step_ctx p (Some no_ctx)"
    by (simp_all add: recalled_def memory_request_def step_ctx_def no_ctx_def)
  then show ?thesis by (simp only: run_agent_def)
qed

section \<open>The ticket tools\<close>

lemma filter_put_row:
  "distinct (map key tbl) \<Longrightarrow> get_row key (key r) tbl = Some old \<Longrightarrow> \<not> P old \<Longrightarrow> \<not> P r \<Longrightarrow>
   filter P (put_row key r tbl) = filter P tbl"
  by (induction tbl) (auto simp: put_row_absent image_iff split: if_splits)

fun op_tenant :: "ticket_op \<Rightarrow> pystr" where
  "op_tenant (CreateTicket c uuid a) = ta_tenant a"
| "op_tenant (StepTicket b c i tn a) = tn"
| "op_tenant (DeleteTicket c i tn) = tn"

lemma save_other_tenants:
  assumes "distinct (map tk_id tbl)" and "t \<in> set tbl" and "ticket_moves t t'" and "tk_tenant_id t = tn"
  shows "filter (\<lambda>t. tk_tenant_id t \<noteq> tn) (save_ticket c t t' tbl) = filter (\<lambda>t. tk_tenant_id t \<noteq> tn) tbl"
proof -
  have tn: "tk_tenant_id t' = tn" using assms(3,4) by (simp add: ticket_moves_def ticket_origin_def)
  from save_ticket_put[OF assms(1,2) ticket_moves_id[OF assms(3)]] obtain t'' where
    t'': "save_ticket c t t' tbl = put_row tk_id t'' tbl" "tk_id t'' = tk_id t" "tk_tenant_id t'' = tn"
    using ticket_moves_id[OF assms(3)] tn by fastforce
  have "get_row tk_id (tk_id t'') tbl = Some t" using get_row_distinct[OF assms(1,2)] t''(2) by simp
  from filter_put_row[OF assms(1) this] t'' assms(4) show ?thesis by simp
qed

lemma ticket_step_other_tenants:
  assumes "wf_tickets tbl"
  shows "filter (\<lambda>t. tk_tenant_id t \<noteq> op_tenant op) (ticket_step op tbl) = filter (\<lambda>t. tk_tenant_id t \<noteq> op_tenant op) tbl"
proof (cases op)
  case (CreateTicket c uuid a)
  then show ?thesis
    by (auto simp: create_ticket_def Let_def new_ticket_def dest!: insert_ticket_InrD split: option.splits sum.splits)
next
  case (StepTicket b c i tn a)
  have d: "distinct (map tk_id tbl)" using assms by (simp add: wf_tickets_def)
  show ?thesis
    unfolding StepTicket ticket_step_on_row op_tenant.simps
    by (auto split: option.splits sum.splits dest!: find_ticket_SomeD
      intro!: save_other_tenants[OF d] ticket_apply_moves)
next
  case (DeleteTicket c i tn)
  have d: "distinct (map tk_id tbl)" using assms by (simp add: wf_tickets_def)
  show ?thesis
    unfolding DeleteTicket ticket_step.simps delete_ticket_def op_tenant.simps
    by (auto split: option.splits dest!: find_ticket_SomeD intro!: save_other_tenants[OF d] ticket_moves_delete)
qed

lemma normalize_tenant_nonempty [simp]: "normalize_tenant v \<noteq> []"
  by (simp add: normalize_tenant_def)

lemma tenant_text: "tenant_args tn args \<Longrightarrow> tn \<noteq> [] \<Longrightarrow> py_or (arg_text args (asc ''tenant'')) (asc ''default'') = tn"
  by (simp add: tenant_args_def arg_text_def py_str_def py_or_def)

lemma reader_world [simp]: "snd (reader key service fmt none_text args tbl) = tbl"
  by (simp add: reader_def split: option.splits)

lemma create_tool_step:
  assumes "tenant_args tn args" and "tn \<noteq> []"
  shows "snd (t_create_ticket env args tbl) = tbl \<or>
    (\<exists>op. op_tenant op = tn \<and> snd (t_create_ticket env args tbl) = ticket_step op tbl)"
proof -
  let ?task = "py_strip (arg_text args (asc ''task''))"
  have "op_tenant (CreateTicket (te_clock env tbl) (te_uuid env tbl) (ticket_args_of args ?task)) = tn"
    using tenant_text[OF assms] by (simp add: ticket_args_of_def)
  moreover have "snd (t_create_ticket env args tbl) = tbl \<or>
      snd (t_create_ticket env args tbl) = ticket_step (CreateTicket (te_clock env tbl) (te_uuid env tbl) (ticket_args_of args ?task)) tbl"
    by (auto simp: t_create_ticket_def Let_def split: option.splits sum.splits)
  ultimately show ?thesis by blast
qed

lemma submit_tool_step:
  assumes "tenant_args tn args" and "tn \<noteq> []"
  shows "\<exists>op. op_tenant op = tn \<and> snd (t_submit_ticket env args tbl) \<in> {tbl, ticket_step op tbl}"
proof -
  let ?op = "StepTicket False (te_clock env tbl) (arg_text args (asc ''ticketId'')) tn (Submit (te_auditor env))"
  have "snd (t_submit_ticket env args tbl) \<in> {tbl, ticket_step ?op tbl}"
    using tenant_text[OF assms]
    by (auto simp: t_submit_ticket_def split: option.splits sum.splits pyerr.splits)
  then show ?thesis by (intro exI[of _ ?op]) simp
qed

lemma default_tools:
  assumes "map_of (default_registry st env) n = Some t"
  shows "(\<forall>args tbl. snd (tl_handler t args tbl) = tbl) \<or>
    allowed_roles t = [asc ''admin'', asc ''editor''] \<and> tl_handler t \<in> {t_create_ticket env, t_submit_ticket env}"
proof -
  have "\<forall>(n, t) \<in> set (fold register_tool ts reg). Q t"
    if "\<forall>t \<in> set ts. Q t" "\<forall>(n, t) \<in> set reg. Q t" for Q and ts :: "ticket_table tool list" and reg
    using that
  proof (induction ts arbitrary: reg)
    case (Cons t ts)
    have "set (AList.update (tl_name t) t reg) \<subseteq> insert (tl_name t, t) (set reg)"
      by (induction reg) auto
    with Cons.prems have "\<forall>(n, t) \<in> set (register_tool t reg). Q t" by (auto simp: register_tool_def)
    with Cons show ?case by simp
  qed simp
  note all = this[of _ "\<lambda>t. (\<forall>args tbl. snd (tl_handler t args tbl) = tbl) \<or>
    allowed_roles t = [asc ''admin'', asc ''editor''] \<and> tl_handler t \<in> {t_create_ticket env, t_submit_ticket env}" "[]"]
  have "\<forall>(n, t) \<in> set (default_registry st env). (\<forall>args tbl. snd (tl_handler t args tbl) = tbl) \<or>
    allowed_roles t = [asc ''admin'', asc ''editor''] \<and> tl_handler t \<in> {t_create_ticket env, t_submit_ticket env}"
    unfolding default_registry_def
    by (rule all) (auto simp: builtin_def allowed_roles_def t_search_regulation_def
      t_query_equipment_graph_def t_search_similar_case_def t_draft_ticket_def)
  with map_of_SomeD[OF assms] show ?thesis by fastforce
qed

lemma default_tools_keep:
  "tools_keep (default_registry st env) cx (\<lambda>tbl'. wf_tickets tbl' \<and>
     filter (\<lambda>t. tk_tenant_id t \<noteq> normalize_tenant (cx_tenant cx)) tbl' =
       filter (\<lambda>t. tk_tenant_id t \<noteq> normalize_tenant (cx_tenant cx)) tbl \<and>
     (cx_role cx \<notin> {asc ''admin'', asc ''editor''} \<longrightarrow> tbl' = tbl))"
  unfolding tools_keep_def
proof (intro allI impI, elim conjE, goal_cases)
  case (1 n t args w)
  let ?tn = "normalize_tenant (cx_tenant cx)"
  from default_tools[OF 1(1)] show ?case
  proof
    assume "\<forall>args tbl. snd (tl_handler t args tbl) = tbl"
    with 1(5-7) show ?case by simp
  next
    assume h: "allowed_roles t = [asc ''admin'', asc ''editor''] \<and> tl_handler t \<in> {t_create_ticket env, t_submit_ticket env}"
    with 1(2) have role: "cx_role cx \<in> {asc ''admin'', asc ''editor''}" by (simp add: may_call_def)
    from h have "tl_handler t = t_create_ticket env \<or> tl_handler t = t_submit_ticket env" by simp
    then obtain op where "op_tenant op = ?tn" "snd (tl_handler t args w) \<in> {w, ticket_step op w}"
    proof
      assume e: "tl_handler t = t_create_ticket env"
      from create_tool_step[OF 1(4) normalize_tenant_nonempty, of env w] show ?thesis
      proof
        assume "snd (t_create_ticket env args w) = w"
        with e show ?thesis by (intro that[of "DeleteTicket undefined undefined ?tn"]) simp_all
      qed (use e in \<open>auto intro: that\<close>)
    next
      assume "tl_handler t = t_submit_ticket env"
      with submit_tool_step[OF 1(4) normalize_tenant_nonempty, of env w] show ?thesis by (auto intro: that)
    qed
    with 1(5-7) role ticket_step_wf[OF 1(5), of op] ticket_step_other_tenants[OF 1(5), of op] show ?case by auto
  qed
qed

text \<open>C24: The agents and the ticket service together: however an agent is prompted, and whatever its
  language model answers, a run for a caller keeps the ticket table well formed and leaves every
  ticket of another tenant as it was, and for a caller who is neither administrator nor editor
  it leaves the whole table as it was. (The fallbacks of the personas do not write tickets.)\<close>

theorem agent_run_respects_tickets:
  assumes "\<And>fb m w. snd (fbs fb m w) = w"
    and "tbl' = ag_world (run_agent llm (default_registry st env) fbs me au recall p msg (Some cx) (fold ticket_step ops []))"
  shows "wf_tickets tbl' \<and>
    filter (\<lambda>t. tk_tenant_id t \<noteq> normalize_tenant (cx_tenant cx)) tbl' =
      filter (\<lambda>t. tk_tenant_id t \<noteq> normalize_tenant (cx_tenant cx)) (fold ticket_step ops []) \<and>
    (cx_role cx \<notin> {asc ''admin'', asc ''editor''} \<longrightarrow> tbl' = fold ticket_step ops [])"
  unfolding assms(2)
  by (rule run_agent_rights[OF default_tools_keep[of st env cx "fold ticket_step ops []"], THEN conjunct1])
    (simp_all add: assms(1) wf_ticket_runs)

definition demo_agent_ctx :: "pystr \<Rightarrow> agent_ctx" where
  "demo_agent_ctx role = \<lparr>cx_tenant = asc ''t'', cx_tenant_id = [], cx_username = asc ''li'', cx_actor_id = [],
     cx_role = role, cx_agent_id = [], cx_persona = [], cx_request_id = [], cx_trace_id = [],
     cx_memoryWrite = JNull, cx_memory_write = JNull, cx_memoryRead = JNull, cx_memory_read = JNull,
     cx_memoryScope = [], cx_memory_scope = []\<rparr>"

definition demo_tool_env :: tool_env where
  "demo_tool_env = \<lparr>te_clock = (\<lambda>_. at_time 5), te_uuid = (\<lambda>_. asc ''a''), te_auditor = (\<lambda>_ _. Inl TypeError),
     te_search = (\<lambda>_ _. Inr []), te_graph = (\<lambda>_ _. Inr []), te_cases = (\<lambda>_ _. Inr []), te_draft = (\<lambda>_ _. Inr [])\<rparr>"

definition demo_call :: tool_call where
  "demo_call = \<lparr>tc_id = asc ''1'', tc_name = asc ''draft_ticket'', tc_arguments = JObj [(asc ''task'', JStr (asc ''swap''))]\<rparr>"

text \<open>A language model that calls one tool and then answers.\<close>

definition demo_llm :: llm where
  "demo_llm ms names = Inr (if length ms = 3 then \<lparr>re_content = None, re_calls = [demo_call]\<rparr>
     else \<lparr>re_content = Some (asc ''done''), re_calls = []\<rparr>)"

definition demo_settings :: persona_settings where
  "demo_settings = \<lparr>st_action_loop = True, st_schema_v2 = False\<rparr>"

theorem agent_acts_within_its_rights_witness:
  "ag_world (run_agent demo_llm (default_registry demo_settings demo_tool_env) (\<lambda>fb m w. (None, w)) False False []
     QA_PERSONA (asc ''help'') (Some (demo_agent_ctx (asc ''viewer''))) []) = []"
proof -
  let ?reg = "default_registry demo_settings demo_tool_env"
  have keep: "snd (tl_handler t args w) = []"
    if "map_of ?reg n = Some t" "may_call t (cx_role (demo_agent_ctx (asc ''viewer'')))" "w = []" for n t args w
    using default_tools[OF that(1)] that(2,3) by (auto simp: may_call_def demo_agent_ctx_def)
  have "ag_world (run_agent demo_llm ?reg (\<lambda>fb m w. (None, w)) False False [] QA_PERSONA (asc ''help'')
      (Some (demo_agent_ctx (asc ''viewer''))) []) = [] \<and>
    (\<forall>e \<in> set (ag_audits (run_agent demo_llm ?reg (\<lambda>fb m w. (None, w)) False False [] QA_PERSONA (asc ''help'')
      (Some (demo_agent_ctx (asc ''viewer''))) [])). rightful ?reg (demo_agent_ctx (asc ''viewer'')) e)"
    by (rule agent_acts_within_its_rights[where I = "\<lambda>w. w = []"]) (auto intro: keep)
  then show ?thesis by blast
qed


lemma demo_draft_tool:
  "map_of (default_registry demo_settings demo_tool_env) (asc ''draft_ticket'') =
     Some (builtin (asc ''draft_ticket'') ([0x751f, 0x6210, 0x5904, 0x7f6e, 0x64cd, 0x4f5c, 0x7968, 0x8349, 0x6848, 0xff08, 0x6b65, 0x9aa4] @ asc ''/'' @ [0x5b89, 0x63aa] @ asc ''/'' @ [0x98ce, 0x9669, 0xff09, 0x3002, 0x8bca, 0x65ad, 0x57fa, 0x672c, 0x660e, 0x786e, 0x3001, 0x9700, 0x8981, 0x5904, 0x7f6e, 0x6b65, 0x9aa4, 0x65f6, 0x8c03, 0x7528, 0x3002])
       (t_draft_ticket demo_tool_env) [asc ''admin''])"
  by (simp add: default_registry_def register_tool_def demo_settings_def builtin_def)

theorem tools_outside_persona_are_run_witness:
  "\<exists>e \<in> set (ag_audits (run_agent demo_llm (default_registry demo_settings demo_tool_env) (\<lambda>fb m w. (None, w))
      False False [] QA_PERSONA (asc ''help'') (Some (demo_agent_ctx (asc ''admin''))) [])).
    ae_tool e = asc ''draft_ticket'' \<and> ae_denied e = None"
  using tools_outside_persona_are_run[of demo_llm QA_PERSONA False "[]" "demo_agent_ctx (asc ''admin'')" "asc ''help''"
      "[]" "default_registry demo_settings demo_tool_env" "\<lparr>re_content = None, re_calls = [demo_call]\<rparr>" demo_call
      "builtin (asc ''draft_ticket'') ([0x751f, 0x6210, 0x5904, 0x7f6e, 0x64cd, 0x4f5c, 0x7968, 0x8349, 0x6848, 0xff08, 0x6b65, 0x9aa4] @ asc ''/'' @ [0x5b89, 0x63aa] @ asc ''/'' @ [0x98ce, 0x9669, 0xff09, 0x3002, 0x8bca, 0x65ad, 0x57fa, 0x672c, 0x660e, 0x786e, 0x3001, 0x9700, 0x8981, 0x5904, 0x7f6e, 0x6b65, 0x9aa4, 0x65f6, 0x8c03, 0x7528, 0x3002])
       (t_draft_ticket demo_tool_env) [asc ''admin'']" "\<lambda>fb m w. (None, w)" False] demo_draft_tool
  by (simp add: demo_llm_def start_state_def demo_call_def QA_PERSONA_def may_call_def allowed_roles_def builtin_def
      demo_agent_ctx_def)

theorem agent_run_respects_tickets_witness:
  "wf_tickets (ag_world (run_agent demo_llm (default_registry demo_settings demo_tool_env) (\<lambda>fb m w. (None, w))
     False False [] QA_PERSONA (asc ''help'') (Some (demo_agent_ctx (asc ''viewer''))) (fold ticket_step [] [])))"
  by (rule agent_run_respects_tickets[OF _ refl, THEN conjunct1]) simp

end
