(* ===== verification/WorkflowService.thy ===== *)
theory WorkflowService
  imports WorkflowEngine PersonaStore Interfaces
begin

text \<open>
  The stored workflows and their runs: \<open>models/workflow.py\<close>, \<open>services/workflow_service.py\<close> and
  \<open>execute_run\<close> of \<open>services/workflow_engine.py\<close>, with the guards of \<open>routers/workflow.py\<close>. The
  background task a run is handed to is a separate operation, so that other requests can come
  between. Whether the name matches a search word is the database's LIKE, an argument.
\<close>

section \<open>The rows\<close>

record workflow =
  wf_id :: pystr
  wf_name :: pystr
  wf_description :: pystr
  wf_graph :: wgraph
  wf_enabled :: bool
  wf_version :: int
  wf_tenant :: pystr
  wf_created_by :: pystr
  wf_created_at :: time
  wf_updated_at :: time

datatype run_status = RunRunning | RunDone | RunFailed | RunOther pystr

definition run_status_of :: "pystr \<Rightarrow> run_status" where
  "run_status_of s = (if s = asc ''running'' then RunRunning else if s = asc ''done'' then RunDone
     else if s = asc ''failed'' then RunFailed else RunOther s)"

record workflow_run =
  wr_id :: pystr
  wr_workflow_id :: pystr
  wr_workflow_name :: pystr
  wr_workflow_version :: int
  wr_status :: run_status
  wr_input :: run_input
  wr_output :: pystr
  wr_node_states :: "node_state list"
  wr_error :: pystr
  wr_tenant :: pystr
  wr_created_by :: pystr
  wr_started_at :: time
  wr_finished_at :: "time option"
  wr_duration_ms :: int

record workflow_db =
  wd_workflows :: "workflow list"
  wd_runs :: "workflow_run list"

definition empty_workflow_db :: workflow_db where
  "empty_workflow_db = \<lparr>wd_workflows = [], wd_runs = []\<rparr>"

section \<open>Workflows\<close>

definition msg_no_workflow :: pystr where "msg_no_workflow = [0x5de5, 0x4f5c, 0x6d41, 0x4e0d, 0x5b58, 0x5728]"

definition get_workflow :: "workflow_db \<Rightarrow> pystr \<Rightarrow> pystr \<Rightarrow> workflow res" where
  "get_workflow db i tenant =
     (case find (\<lambda>w. wf_id w = i \<and> wf_tenant w = tenant) (wd_workflows db) of
        None \<Rightarrow> Inl (BizError msg_no_workflow 404)
      | Some w \<Rightarrow> Inr w)"

text \<open>The check of a graph that is to be stored.\<close>

definition check_graph :: "wgraph \<Rightarrow> unit res" where
  "check_graph g = (case validate_graph g of
     Inl e \<Rightarrow> Inl e
   | Inr errs \<Rightarrow> if errs = [] then Inr () else Inl (BizError ([0x56fe, 0x6821, 0x9a8c, 0x5931, 0x8d25, 0xff1a] @ py_join [0xff1b] errs) 400))"

definition create_workflow ::
  "clock \<Rightarrow> pystr \<Rightarrow> pystr \<Rightarrow> pystr \<Rightarrow> wgraph \<Rightarrow> pystr \<Rightarrow> pystr \<Rightarrow> workflow_db \<Rightarrow> (workflow \<times> workflow_db) res" where
  "create_workflow c uuid name description graph tenant username db =
     (if name = [] \<or> py_strip name = [] then Inl (BizError [0x540d, 0x79f0, 0x4e0d, 0x80fd, 0x4e3a, 0x7a7a] 400)
      else if list_ex (\<lambda>w. wf_name w = py_strip name \<and> wf_tenant w = tenant) (wd_workflows db)
      then Inl (BizError [0x540c, 0x540d, 0x5de5, 0x4f5c, 0x6d41, 0x5df2, 0x5b58, 0x5728] 400)
      else (case check_graph graph of
          Inl e \<Rightarrow> Inl e
        | Inr _ \<Rightarrow>
            if uuid \<in> wf_id ` set (wd_workflows db) then Inl IntegrityError
            else
              let w = \<lparr>wf_id = uuid, wf_name = py_strip name, wf_description = description, wf_graph = graph,
                    wf_enabled = True, wf_version = 1, wf_tenant = tenant, wf_created_by = username,
                    wf_created_at = sqlnow c, wf_updated_at = sqlnow c\<rparr>
              in Inr (w, db\<lparr>wd_workflows := wd_workflows db @ [w]\<rparr>)))"

definition update_workflow_row ::
  "pystr option \<Rightarrow> pystr option \<Rightarrow> wgraph option \<Rightarrow> bool option \<Rightarrow> workflow \<Rightarrow> workflow res" where
  "update_workflow_row name description graph enabled w =
     (case (case graph of None \<Rightarrow> Inr () | Some g \<Rightarrow> check_graph g) of
        Inl e \<Rightarrow> Inl e
      | Inr _ \<Rightarrow>
          let w1 = (case graph of None \<Rightarrow> w | Some g \<Rightarrow> w\<lparr>wf_graph := g, wf_version := wf_version w + 1\<rparr>);
              w2 = (case name of Some n \<Rightarrow> if py_strip n = [] then w1 else w1\<lparr>wf_name := py_strip n\<rparr> | None \<Rightarrow> w1);
              w3 = (case description of Some d \<Rightarrow> w2\<lparr>wf_description := d\<rparr> | None \<Rightarrow> w2)
          in Inr (case enabled of Some b \<Rightarrow> w3\<lparr>wf_enabled := b\<rparr> | None \<Rightarrow> w3))"

definition update_workflow ::
  "clock \<Rightarrow> pystr \<Rightarrow> pystr \<Rightarrow> pystr option \<Rightarrow> pystr option \<Rightarrow> wgraph option \<Rightarrow> bool option \<Rightarrow> workflow_db \<Rightarrow>
     (workflow \<times> workflow_db) res" where
  "update_workflow c i tenant name description graph enabled db =
     (case get_workflow db i tenant of
        Inl e \<Rightarrow> Inl e
      | Inr w \<Rightarrow>
          (case update_workflow_row name description graph enabled w of
             Inl e \<Rightarrow> Inl e
           | Inr w' \<Rightarrow>
               if w' = w then Inr (w, db)
               else
                 let w'' = w'\<lparr>wf_updated_at := sqlnow c\<rparr>
                 in Inr (w'', db\<lparr>wd_workflows := put_row wf_id w'' (wd_workflows db)\<rparr>)))"

definition delete_workflow :: "pystr \<Rightarrow> pystr \<Rightarrow> workflow_db \<Rightarrow> workflow_db res" where
  "delete_workflow i tenant db =
     (case get_workflow db i tenant of
        Inl e \<Rightarrow> Inl e
      | Inr w \<Rightarrow> Inr (db\<lparr>wd_workflows := filter (\<lambda>v. wf_id v \<noteq> wf_id w) (wd_workflows db)\<rparr>))"

definition list_workflows ::
  "(pystr \<Rightarrow> pystr \<Rightarrow> bool) \<Rightarrow> pystr \<Rightarrow> pystr \<Rightarrow> nat \<Rightarrow> nat \<Rightarrow> workflow_db \<Rightarrow> nat \<times> workflow list" where
  "list_workflows like tenant keyword page psize db =
     (let rows = filter (\<lambda>w. wf_tenant w = tenant \<and> (keyword = [] \<or> like keyword (wf_name w))) (wd_workflows db)
      in (length rows, page_rows ((page - 1) * psize) psize (sort_key (\<lambda>w. - wf_updated_at w) rows)))"

section \<open>Runs\<close>

text \<open>The answer names the run to execute, unless the event loop refused the task (\<open>refused\<close> is its message).\<close>

definition start_run ::
  "clock \<Rightarrow> pystr \<Rightarrow> pystr option \<Rightarrow> workflow \<Rightarrow> pystr \<Rightarrow> (pystr \<times> json) list \<Rightarrow> pystr \<Rightarrow> pystr \<Rightarrow> workflow_db \<Rightarrow>
     (workflow_run \<times> pystr option \<times> workflow_db) res" where
  "start_run c uuid refused w query extra_vars tenant username db =
     (if py_strip query = [] then Inl (BizError (asc ''query '' @ [0x4e0d, 0x80fd, 0x4e3a, 0x7a7a]) 400)
      else if uuid \<in> wr_id ` set (wd_runs db) then Inl IntegrityError
      else
        let run = \<lparr>wr_id = uuid, wr_workflow_id = wf_id w, wr_workflow_name = wf_name w,
              wr_workflow_version = wf_version w, wr_status = RunRunning,
              wr_input = \<lparr>ri_query = query, ri_vars = extra_vars\<rparr>, wr_output = [], wr_node_states = [],
              wr_error = [], wr_tenant = tenant, wr_created_by = username, wr_started_at = utc c 0,
              wr_finished_at = None, wr_duration_ms = 0\<rparr>;
            run' = (case refused of None \<Rightarrow> run
              | Some msg \<Rightarrow> run\<lparr>wr_status := RunFailed, wr_error := [0x8c03, 0x5ea6, 0x6267, 0x884c, 0x5931, 0x8d25, 0xff1a] @ msg\<rparr>)
        in Inr (run', (if refused = None then Some uuid else None), db\<lparr>wd_runs := wd_runs db @ [run']\<rparr>))"

text \<open>The request to run a workflow: look-up, guard, start.\<close>

definition run_workflow_api ::
  "clock \<Rightarrow> pystr \<Rightarrow> pystr option \<Rightarrow> pystr \<Rightarrow> pystr \<Rightarrow> (pystr \<times> json) list \<Rightarrow> pystr \<Rightarrow> pystr \<Rightarrow> workflow_db \<Rightarrow>
     (workflow_run \<times> pystr option \<times> workflow_db) res" where
  "run_workflow_api c uuid refused i query extra_vars tenant username db =
     (case get_workflow db i tenant of
        Inl e \<Rightarrow> Inl e
      | Inr w \<Rightarrow>
          if \<not> wf_enabled w then Inl (BizError [0x5de5, 0x4f5c, 0x6d41, 0x5df2, 0x505c, 0x7528, 0xff0c, 0x8bf7, 0x5148, 0x542f, 0x7528, 0x518d, 0x8fd0, 0x884c] 400)
          else start_run c uuid refused w query extra_vars tenant username db)"

text \<open>
  What an execution meets: the services, the times and faults of its nodes, the clock, the text of
  an exception, and the conversion of a time span to milliseconds (a product of floats).
\<close>

record exec_env =
  ee_services :: services
  ee_run :: run_env
  ee_clock :: clock
  ee_str :: "pyerr \<Rightarrow> pystr"
  ee_ms :: "time \<Rightarrow> int"

definition run_user :: "workflow_run \<Rightarrow> wuser" where
  "run_user r = \<lparr>wu_username = wr_created_by r, wu_tenant = wr_tenant r, wu_role = [], wu_dept = []\<rparr>"

definition engine_result :: "exec_env \<Rightarrow> workflow \<Rightarrow> workflow_run \<Rightarrow> run_result" where
  "engine_result ee w r =
     (case execute_graph (ee_services ee) (wf_graph w) (wr_input r) (run_user r) (ee_run ee) of
        Inr res \<Rightarrow> res
      | Inl e \<Rightarrow> \<lparr>rr_status = asc ''failed'', rr_output = [], rr_states = [],
          rr_error = [0x5f15, 0x64ce, 0x5f02, 0x5e38, 0xff1a] @ ee_str ee e, rr_warnings = []\<rparr>)"

definition finish_run :: "exec_env \<Rightarrow> workflow option \<Rightarrow> workflow_run \<Rightarrow> workflow_run" where
  "finish_run ee w r = (case w of
     None \<Rightarrow> r\<lparr>wr_status := RunFailed, wr_error := [0x5de5, 0x4f5c, 0x6d41, 0x5df2, 0x5220, 0x9664, 0xff0c, 0x65e0, 0x6cd5, 0x6267, 0x884c], wr_finished_at := Some (utc (ee_clock ee) 0)\<rparr>
   | Some w \<Rightarrow>
       let res = engine_result ee w r
       in r\<lparr>wr_status := run_status_of (rr_status res), wr_output := rr_output res, wr_node_states := rr_states res,
            wr_error := rr_error res, wr_finished_at := Some (utc (ee_clock ee) 0),
            wr_duration_ms := ee_ms ee (utc (ee_clock ee) 0 - wr_started_at r)\<rparr>)"

definition execute_run :: "exec_env \<Rightarrow> pystr \<Rightarrow> workflow_db \<Rightarrow> workflow_db" where
  "execute_run ee run_id db =
     (case get_row wr_id run_id (wd_runs db) of
        None \<Rightarrow> db
      | Some r \<Rightarrow>
          db\<lparr>wd_runs := put_row wr_id
            (finish_run ee (get_row wf_id (wr_workflow_id r) (wd_workflows db)) r) (wd_runs db)\<rparr>)"

definition list_runs :: "pystr \<Rightarrow> pystr \<Rightarrow> nat \<Rightarrow> nat \<Rightarrow> workflow_db \<Rightarrow> nat \<times> workflow_run list" where
  "list_runs i tenant page psize db =
     (let rows = filter (\<lambda>r. wr_workflow_id r = i \<and> wr_tenant r = tenant) (wd_runs db)
      in (length rows, page_rows ((page - 1) * psize) psize (sort_key (\<lambda>r. - wr_started_at r) rows)))"

definition get_run :: "pystr \<Rightarrow> pystr \<Rightarrow> workflow_db \<Rightarrow> workflow_run res" where
  "get_run run_id tenant db =
     (case find (\<lambda>r. wr_id r = run_id \<and> wr_tenant r = tenant) (wd_runs db) of
        None \<Rightarrow> Inl (BizError [0x8fd0, 0x884c, 0x8bb0, 0x5f55, 0x4e0d, 0x5b58, 0x5728] 404)
      | Some r \<Rightarrow> Inr r)"

section \<open>The personas offered to agent nodes\<close>

text \<open>
  The names of the six personas of the code and the keys of what \<open>list_configs\<close> returns.
\<close>

definition PERSONA_NAMES :: "pystr list" where
  "PERSONA_NAMES = map ps_name [QA_PERSONA, DIAGNOSE_PERSONA, ALERT_PERSONA, EVIDENCE_PERSONA,
     OPS_PLANNER_PERSONA, PROACTIVE_DIAGNOSIS_PERSONA]"

definition list_personas :: "persona_settings \<Rightarrow> persona_config list option \<Rightarrow> pystr list" where
  "list_personas st tbl =
     PERSONA_NAMES @ filter (\<lambda>k. k \<notin> set PERSONA_NAMES) (map fst (list_configs st tbl))"

end
