(* ===== verification/WorkflowServiceClaims.thy ===== *)
theory WorkflowServiceClaims
  imports WorkflowService WorkflowClaims
begin

text \<open>
  The workflow service over time: runs of requests and of the background executions they start,
  in any order. The graphs in the table are valid, so every execution of a run settles it.
\<close>

section \<open>Operations\<close>

datatype workflow_op =
    WCreate clock pystr pystr pystr wgraph pystr pystr
  | WUpdate clock pystr pystr "pystr option" "pystr option" "wgraph option" "bool option"
  | WDelete pystr pystr
  | WStart clock pystr "pystr option" pystr pystr "(pystr \<times> json) list" pystr pystr
  | WExecute exec_env pystr

fun workflow_step :: "workflow_op \<Rightarrow> workflow_db \<Rightarrow> workflow_db" where
  "workflow_step (WCreate c uuid name description g tenant username) db =
     (case create_workflow c uuid name description g tenant username db of Inl e \<Rightarrow> db | Inr (w, db') \<Rightarrow> db')"
| "workflow_step (WUpdate c i tenant name description g enabled) db =
     (case update_workflow c i tenant name description g enabled db of Inl e \<Rightarrow> db | Inr (w, db') \<Rightarrow> db')"
| "workflow_step (WDelete i tenant) db = (case delete_workflow i tenant db of Inl e \<Rightarrow> db | Inr db' \<Rightarrow> db')"
| "workflow_step (WStart c uuid refused i query vs tenant username) db =
     (case run_workflow_api c uuid refused i query vs tenant username db of Inl e \<Rightarrow> db | Inr (r, t, db') \<Rightarrow> db')"
| "workflow_step (WExecute ee run_id) db = execute_run ee run_id db"

definition run_row_ok :: "workflow_run \<Rightarrow> bool" where
  "run_row_ok r \<longleftrightarrow> wr_status r \<in> {RunRunning, RunDone, RunFailed} \<and>
     (wr_status r = RunRunning \<longrightarrow> wr_finished_at r = None)"

definition wf_workflows :: "workflow_db \<Rightarrow> bool" where
  "wf_workflows db \<longleftrightarrow> distinct (map wf_id (wd_workflows db)) \<and> distinct (map wr_id (wd_runs db)) \<and>
     (\<forall>w \<in> set (wd_workflows db). valid_graph (wf_graph w) \<and> 1 \<le> wf_version w) \<and>
     (\<forall>r \<in> set (wd_runs db). run_row_ok r)"

lemma check_graph_ok: "check_graph g = Inr u \<longleftrightarrow> valid_graph g"
  using validate_iff[of g] by (auto simp: check_graph_def split: sum.splits)

lemma get_workflow_InrD:
  "get_workflow db i tn = Inr w \<Longrightarrow> w \<in> set (wd_workflows db) \<and> wf_id w = i \<and> wf_tenant w = tn"
  by (auto simp: get_workflow_def find_Some_iff split: option.splits)

lemma update_row_InrD:
  assumes "update_workflow_row name description g enabled w = Inr w'"
  shows "wf_id w' = wf_id w \<and> wf_tenant w' = wf_tenant w \<and>
    wf_graph w' = (case g of None \<Rightarrow> wf_graph w | Some g' \<Rightarrow> g') \<and>
    wf_version w' = wf_version w + (if g = None then 0 else 1) \<and> (\<forall>g'. g = Some g' \<longrightarrow> valid_graph g')"
  using assms by (auto simp: update_workflow_row_def Let_def check_graph_ok split: option.splits sum.splits if_splits)

text \<open>The result of the engine on a valid graph.\<close>

lemma engine_settles:
  assumes "valid_graph (wf_graph w)"
  shows "map ns_id (rr_states (engine_result ee w r)) = map wn_id (wg_nodes (wf_graph w)) \<and>
    (\<forall>st \<in> set (rr_states (engine_result ee w r)). ns_status st \<in> {NDone, NError, NSkipped}) \<and>
    run_status_of (rr_status (engine_result ee w r)) \<in> {RunDone, RunFailed}"
proof -
  let ?g = "wf_graph w"
  obtain n rs where "find (\<lambda>n. has_type n ''input'') (wg_nodes ?g) = Some n" "n \<in> set (wg_nodes ?g)"
    "\<And>m. m \<in> set (wg_nodes ?g) \<Longrightarrow> has_type m ''input'' \<longleftrightarrow> m = n"
    and n: "run_inv ?g (wn_id n) (topo_order (wg_nodes ?g) (wg_edges ?g)) rs"
    "set (topo_order (wg_nodes ?g) (wg_edges ?g)) = wn_id ` set (wg_nodes ?g)"
    "execute_graph (ee_services ee) ?g (wr_input r) (run_user r) (ee_run ee) = Inr
       \<lparr>rr_status = (if rs_output_reached rs then asc ''done'' else asc ''failed''),
        rr_output = output_text (topo_order (wg_nodes ?g) (wg_edges ?g)) (rs_states rs),
        rr_states = rs_states rs, rr_error = rs_error rs, rr_warnings = rs_warnings rs\<rparr>"
    by (rule valid_runs[OF assms, of "ee_services ee" "wr_input r" "run_user r" "ee_run ee"])
      (rule that; (assumption | blast))
  note I = n(1)[unfolded run_inv_def]
  have ids: "map ns_id (rs_states rs) = map wn_id (wg_nodes ?g)" using I by blast
  have "distinct (map ns_id (rs_states rs))" using assms by (simp add: ids valid_graph_def)
  have "settled st" if st: "st \<in> set (rs_states rs)" for st
  proof -
    have "ns_id st \<in> set (map wn_id (wg_nodes ?g))" using st by (simp add: ids[symmetric])
    then obtain m where m: "m \<in> set (wg_nodes ?g)" "ns_id st = wn_id m" by auto
    with I n(2) obtain st' where "get_row ns_id (wn_id m) (rs_states rs) = Some st'" "settled st'" by auto
    with get_row_distinct[OF \<open>distinct (map ns_id (rs_states rs))\<close> st] m(2) show ?thesis by simp
  qed
  then have all: "\<forall>st \<in> set (rs_states rs). ns_status st \<in> {NDone, NError, NSkipped}"
    by (auto simp: settled_def)
  show ?thesis
    unfolding engine_result_def n(3) sum.case run_result.select_convs
    using ids all by (simp add: run_status_of_def)
qed

section \<open>The invariant\<close>

lemma put_workflow_ok:
  assumes "wf_workflows db" and "w \<in> set (wd_workflows db)" and "wf_id w' = wf_id w"
    and "valid_graph (wf_graph w')" and "1 \<le> wf_version w'"
  shows "wf_workflows (db\<lparr>wd_workflows := put_row wf_id w' (wd_workflows db)\<rparr>)"
  using assms by (auto simp: wf_workflows_def table_simps dest: put_row_set)

lemma finish_run_ok:
  assumes "\<And>w. wo = Some w \<Longrightarrow> valid_graph (wf_graph w)"
  shows "run_row_ok (finish_run ee wo r) \<and> wr_status (finish_run ee wo r) \<in> {RunDone, RunFailed} \<and>
    wr_finished_at (finish_run ee wo r) \<noteq> None \<and> wr_id (finish_run ee wo r) = wr_id r"
proof (cases wo)
  case (Some w)
  from engine_settles[OF assms[OF Some], of ee r] show ?thesis
    by (auto simp: Some finish_run_def Let_def run_row_ok_def)
qed (simp add: finish_run_def run_row_ok_def)

lemma workflow_of_run:
  assumes "wf_workflows db" and "get_row wf_id i (wd_workflows db) = Some w"
  shows "valid_graph (wf_graph w)"
  using assms get_row_in[OF assms(2)] by (simp add: wf_workflows_def)

lemma workflow_step_wf:
  assumes "wf_workflows db"
  shows "wf_workflows (workflow_step op db)"
proof (cases op)
  case (WCreate c uuid name description g tenant username)
  then show ?thesis
    using assms by (auto simp: create_workflow_def Let_def check_graph_ok wf_workflows_def split: sum.splits)
next
  case (WUpdate c i tenant name description g enabled)
  show ?thesis
  proof (cases "update_workflow c i tenant name description g enabled db")
    case (Inr p)
    then obtain w w' where w: "get_workflow db i tenant = Inr w"
      "update_workflow_row name description g enabled w = Inr w'"
      "snd p = (if w' = w then db else db\<lparr>wd_workflows := put_row wf_id (w'\<lparr>wf_updated_at := sqlnow c\<rparr>) (wd_workflows db)\<rparr>)"
      by (auto simp: update_workflow_def Let_def split: sum.splits if_splits)
    note u = update_row_InrD[OF w(2)] and g = get_workflow_InrD[OF w(1)]
    have "valid_graph (wf_graph w)" "1 \<le> wf_version w" using g assms by (auto simp: wf_workflows_def)
    with u have "valid_graph (wf_graph w')" "1 \<le> wf_version w'" by (auto split: option.splits if_splits)
    then have "wf_workflows (snd p)"
      using w(3) put_workflow_ok[OF assms, of w "w'\<lparr>wf_updated_at := sqlnow c\<rparr>"] g u assms by (auto split: if_splits)
    then show ?thesis by (cases p) (simp add: WUpdate Inr)
  qed (use assms in \<open>simp add: WUpdate\<close>)
next
  case (WDelete i tenant)
  then show ?thesis
    using assms by (auto simp: delete_workflow_def wf_workflows_def distinct_map_filter split: sum.splits)
next
  case (WStart c uuid refused i query vs tenant username)
  then show ?thesis
    using assms by (auto simp: run_workflow_api_def start_run_def Let_def wf_workflows_def run_row_ok_def
      split: sum.splits option.splits)
next
  case (WExecute ee run_id)
  show ?thesis
  proof (cases "get_row wr_id run_id (wd_runs db)")
    case (Some r)
    let ?r = "finish_run ee (get_row wf_id (wr_workflow_id r) (wd_workflows db)) r"
    have ok: "run_row_ok ?r \<and> wr_id ?r = wr_id r"
      using finish_run_ok workflow_of_run[OF assms] by blast
    have "\<forall>x \<in> set (put_row wr_id ?r (wd_runs db)). run_row_ok x"
      using assms ok by (auto simp: wf_workflows_def dest: put_row_set)
    with assms show ?thesis
      by (simp add: WExecute execute_run_def Some wf_workflows_def table_simps)
  qed (use assms in \<open>simp add: WExecute execute_run_def\<close>)
qed

interpretation workflows: invariant_ops workflow_step wf_workflows
  by unfold_locales (rule workflow_step_wf)

lemma wf_workflow_runs: "wf_workflows (fold workflow_step ops empty_workflow_db)"
  by (rule workflows.run_inv) (simp add: wf_workflows_def empty_workflow_db_def)

section \<open>Properties\<close>

text \<open>After any run of the workflow service, executing a run settles it: the run ends as done or
  failed with its end time, and while its workflow exists its record holds every node of the
  workflow's graph exactly once, each done, failed or skipped; the engine never rejects the graph.\<close>

theorem every_run_is_settled:
  assumes "get_row wr_id i (wd_runs (fold workflow_step ops empty_workflow_db)) = Some r"
  shows "\<exists>r'. get_row wr_id i (wd_runs (execute_run ee i (fold workflow_step ops empty_workflow_db))) = Some r' \<and>
    wr_status r' \<in> {RunDone, RunFailed} \<and> wr_finished_at r' \<noteq> None \<and>
    (\<forall>w. get_row wf_id (wr_workflow_id r) (wd_workflows (fold workflow_step ops empty_workflow_db)) = Some w \<longrightarrow>
       map ns_id (wr_node_states r') = map wn_id (wg_nodes (wf_graph w)) \<and>
       (\<forall>st \<in> set (wr_node_states r'). ns_status st \<in> {NDone, NError, NSkipped}))"
proof -
  let ?db = "fold workflow_step ops empty_workflow_db"
  let ?wf = "get_row wf_id (wr_workflow_id r) (wd_workflows ?db)"
  let ?r = "finish_run ee ?wf r"
  have ok: "wr_status ?r \<in> {RunDone, RunFailed} \<and> wr_finished_at ?r \<noteq> None \<and> wr_id ?r = wr_id r"
    using finish_run_ok workflow_of_run[OF wf_workflow_runs] by blast
  have row: "get_row wr_id i (wd_runs (execute_run ee i ?db)) = Some ?r"
    using assms ok get_row_key[OF assms] by (simp add: execute_run_def table_simps)
  have "map ns_id (wr_node_states ?r) = map wn_id (wg_nodes (wf_graph w)) \<and>
       (\<forall>st \<in> set (wr_node_states ?r). ns_status st \<in> {NDone, NError, NSkipped})" if "?wf = Some w" for w
    using engine_settles[OF workflow_of_run[OF wf_workflow_runs that], of ee r] that
    by (simp add: finish_run_def Let_def)
  with ok row show ?thesis by blast
qed

text \<open>A run is recorded with the version the workflow had when it was started, but is executed with
  the graph the workflow has when the background task comes to it: after an update in between,
  the run's node records are those of the new graph under the old version number.\<close>

theorem run_uses_the_later_graph:
  assumes "run_workflow_api c u None i query vs tn un (fold workflow_step ops empty_workflow_db) = Inr (r, Some u, db1)"
    and "update_workflow c' i tn None None (Some g) None db1 = Inr (w', db2)"
  shows "\<exists>r'. get_row wr_id u (wd_runs (execute_run ee u db2)) = Some r' \<and>
    wr_workflow_version r' = wf_version w' - 1 \<and> map ns_id (wr_node_states r') = map wn_id (wg_nodes g)"
proof -
  let ?db = "fold workflow_step ops empty_workflow_db"
  have wf: "wf_workflows ?db" by (rule wf_workflow_runs)
  from assms(1) obtain w where w: "get_workflow ?db i tn = Inr w" "wr_id r = u" "wr_workflow_id r = wf_id w"
    "wr_workflow_version r = wf_version w" "db1 = ?db\<lparr>wd_runs := wd_runs ?db @ [r]\<rparr>" "u \<notin> wr_id ` set (wd_runs ?db)"
    by (auto simp: run_workflow_api_def start_run_def Let_def split: sum.splits if_splits)
  note g = get_workflow_InrD[OF w(1)]
  have "get_workflow db1 i tn = Inr w" using w(1) by (simp add: w(5) get_workflow_def)
  with assms(2) obtain w1 where w1: "update_workflow_row None None (Some g) None w = Inr w1"
    "(if w1 = w then Inr (w, db1) else
       Inr (w1\<lparr>wf_updated_at := sqlnow c'\<rparr>, db1\<lparr>wd_workflows := put_row wf_id (w1\<lparr>wf_updated_at := sqlnow c'\<rparr>) (wd_workflows db1)\<rparr>)) =
       (Inr (w', db2) :: (workflow \<times> workflow_db) res)"
    unfolding update_workflow_def Let_def by (auto split: sum.splits)
  have "wf_version w1 = wf_version w + 1" using update_row_InrD[OF w1(1)] by simp
  then have "w1 \<noteq> w" by auto
  with w1(2) have w': "w' = w1\<lparr>wf_updated_at := sqlnow c'\<rparr>"
    "db2 = db1\<lparr>wd_workflows := put_row wf_id w' (wd_workflows db1)\<rparr>" by auto
  note u1 = update_row_InrD[OF w1(1)]
  have d: "distinct (map wf_id (wd_workflows ?db))" using wf by (simp add: wf_workflows_def)
  have "get_row wf_id (wf_id w) (wd_workflows ?db) = Some w" using get_row_distinct[OF d] g by blast
  then have row: "get_row wf_id (wr_workflow_id r) (wd_workflows db2) = Some w'"
    using w(3,5) w' u1 by (simp add: table_simps)
  have new: "get_row wr_id u (wd_runs db2) = Some r"
    using w(2,5,6) w'(2) get_row_None_iff[of wr_id u "wd_runs ?db"] by (simp add: get_row_def find_append)
  let ?r = "finish_run ee (Some w') r"
  have graph: "wf_graph w' = g" "valid_graph g" using u1 w'(1) by auto
  have "get_row wr_id u (wd_runs (execute_run ee u db2)) = Some ?r"
    using new row w(2) finish_run_ok[of "Some w'" ee r] graph by (simp add: execute_run_def table_simps)
  moreover have "wr_workflow_version ?r = wf_version w' - 1"
    using w(4) u1 w'(1) by (simp add: finish_run_def Let_def)
  moreover have "map ns_id (wr_node_states ?r) = map wn_id (wg_nodes g)"
    using engine_settles[of w' ee r] graph by (simp add: finish_run_def Let_def)
  ultimately show ?thesis by blast
qed

text \<open>Renaming a workflow to the name of another one of the same tenant is not refused, as creating would be.\<close>

theorem rename_may_collide:
  assumes "w1 \<in> set (wd_workflows db)" and "w2 \<in> set (wd_workflows db)" and "wf_id w1 \<noteq> wf_id w2"
    and "wf_tenant w2 = wf_tenant w1" and "get_workflow db (wf_id w2) (wf_tenant w2) = Inr w2"
    and "py_strip (wf_name w1) = wf_name w1" and "wf_name w1 \<noteq> []"
  shows "\<exists>w' db'. update_workflow c (wf_id w2) (wf_tenant w2) (Some (wf_name w1)) None None None db = Inr (w', db') \<and>
    wf_name w' = wf_name w1"
proof -
  have "wf_name w2 = wf_name w1" if "w2\<lparr>wf_name := wf_name w1\<rparr> = w2"
    using arg_cong[OF that, of wf_name] by simp
  with assms show ?thesis by (auto simp: update_workflow_def update_workflow_row_def Let_def)
qed

text \<open>The list offered to agent nodes has the keys of \<open>list_configs\<close> in it, and no persona of the table.\<close>

theorem personas_of_the_table_are_not_offered:
  "list_personas st tbl = PERSONA_NAMES @ [asc ''codePersonas'', asc ''fallbackKeys'', asc ''configs'']"
  by (simp add: list_personas_def list_configs_def PERSONA_NAMES_def QA_PERSONA_def DIAGNOSE_PERSONA_def
      ALERT_PERSONA_def EVIDENCE_PERSONA_def OPS_PLANNER_PERSONA_def PROACTIVE_DIAGNOSIS_PERSONA_def)

section \<open>Witnesses\<close>

definition demo_exec :: exec_env where
  "demo_exec = \<lparr>ee_services = null_services, ee_run = quiet_env, ee_clock = at_time 9, ee_str = (\<lambda>e. []), ee_ms = (\<lambda>t. t)\<rparr>"

definition demo_workflow_ops :: "workflow_op list" where
  "demo_workflow_ops = [WCreate (at_time 1) (asc ''w'') (asc ''p'') [] echo_graph (asc ''t'') (asc ''li''),
     WStart (at_time 2) (asc ''r'') None (asc ''w'') (asc ''p'') [] (asc ''t'') (asc ''li'')]"

lemma check_echo [simp]: "check_graph echo_graph = Inr ()"
  using echo_valid by (simp add: check_graph_def)

lemma demo_stored:
  "workflow_step (WCreate (at_time 1) (asc ''w'') (asc ''p'') [] echo_graph (asc ''t'') (asc ''li'')) empty_workflow_db =
     \<lparr>wd_workflows = [\<lparr>wf_id = asc ''w'', wf_name = asc ''p'', wf_description = [], wf_graph = echo_graph,
        wf_enabled = True, wf_version = 1, wf_tenant = asc ''t'', wf_created_by = asc ''li'',
        wf_created_at = 1, wf_updated_at = 1\<rparr>], wd_runs = []\<rparr>"
  by (simp add: create_workflow_def empty_workflow_db_def Let_def)

theorem every_run_is_settled_witness:
  "\<exists>r'. get_row wr_id (asc ''r'') (wd_runs (execute_run demo_exec (asc ''r'')
      (fold workflow_step demo_workflow_ops empty_workflow_db))) = Some r' \<and> wr_status r' \<in> {RunDone, RunFailed}"
proof -
  have "\<exists>r. get_row wr_id (asc ''r'') (wd_runs (fold workflow_step demo_workflow_ops empty_workflow_db)) = Some r"
    unfolding demo_workflow_ops_def fold_simps demo_stored
    by (simp add: run_workflow_api_def get_workflow_def start_run_def Let_def)
  then obtain r where "get_row wr_id (asc ''r'') (wd_runs (fold workflow_step demo_workflow_ops empty_workflow_db)) = Some r" ..
  from every_run_is_settled[OF this, of demo_exec] show ?thesis by blast
qed

theorem run_uses_the_later_graph_witness:
  "\<exists>r' db2. get_row wr_id (asc ''r'') (wd_runs (execute_run demo_exec (asc ''r'') db2)) = Some r' \<and>
    wr_workflow_version r' = 1 \<and> map ns_id (wr_node_states r') = map wn_id (wg_nodes join_graph)"
proof -
  let ?db = "fold workflow_step [WCreate (at_time 1) (asc ''w'') (asc ''p'') [] echo_graph (asc ''t'') (asc ''li'')] empty_workflow_db"
  obtain r db1 where run: "run_workflow_api (at_time 2) (asc ''r'') None (asc ''w'') (asc ''p'') [] (asc ''t'') (asc ''li'') ?db =
      Inr (r, Some (asc ''r''), db1)" and db1: "wd_workflows db1 = wd_workflows ?db"
    unfolding fold_simps demo_stored
    by (simp add: run_workflow_api_def get_workflow_def start_run_def Let_def)
  have "check_graph join_graph = Inr ()" using join_valid by (simp add: check_graph_def)
  then obtain w' db2 where upd: "update_workflow (at_time 3) (asc ''w'') (asc ''t'') None None (Some join_graph) None db1 = Inr (w', db2)"
    "wf_version w' = 2"
    using db1 unfolding fold_simps demo_stored
    by (simp add: update_workflow_def update_workflow_row_def get_workflow_def Let_def)
  from run_uses_the_later_graph[OF run upd(1), of demo_exec] upd(2) show ?thesis by auto
qed

end
