(* ===== verification/Notifications.thy ===== *)
theory Notifications
  imports Tables Interfaces
begin

text \<open>
  The notification centre: \<open>models/notification.py\<close> and \<open>services/notification_service.py\<close>. A
  notification is stored and, when stored, pushed to the open connections of its recipient; a
  failure of the database is swallowed. Column lengths are those of the slices in the code.
\<close>

record notification =
  nt_id :: pystr
  nt_recipient :: pystr
  nt_type :: pystr
  nt_title :: pystr
  nt_body :: pystr
  nt_link :: pystr
  nt_read_at :: "time option"
  nt_tenant :: pystr
  nt_created_at :: time

type_synonym note_table = "notification list"

text \<open>What a caller asks to be told to whom.\<close>

record note_request =
  nq_username :: pystr
  nq_type :: pystr
  nq_title :: pystr
  nq_body :: pystr
  nq_link :: pystr
  nq_tenant :: pystr

text \<open>What one notification meets: whether the database works, the clock, the new id.\<close>

record note_env =
  ne_db_up :: bool
  ne_clock :: clock
  ne_uuid :: pystr

definition new_note :: "note_env \<Rightarrow> note_request \<Rightarrow> notification" where
  "new_note env q = \<lparr>nt_id = ne_uuid env, nt_recipient = nq_username q, nt_type = nq_type q,
     nt_title = take 200 (nq_title q), nt_body = take 1000 (nq_body q), nt_link = take 255 (nq_link q),
     nt_read_at = None, nt_tenant = nq_tenant q, nt_created_at = sqlnow (ne_clock env)\<rparr>"

text \<open>The stored id, and the row pushed to the recipient's connections.\<close>

definition notify_user :: "note_env \<Rightarrow> note_request \<Rightarrow> note_table \<Rightarrow> pystr option \<times> note_table" where
  "notify_user env q tbl =
     (if nq_username q = [] then (None, tbl)
      else if \<not> ne_db_up env \<or> ne_uuid env \<in> nt_id ` set tbl then (None, tbl)
      else (Some (ne_uuid env), tbl @ [new_note env q]))"

text \<open>One call of \<open>notify_user\<close> per distinct recipient, in order; the number stored.\<close>

fun notify_each :: "note_env list \<Rightarrow> pystr list \<Rightarrow> note_request \<Rightarrow> note_table \<Rightarrow> nat \<times> note_table" where
  "notify_each (env # envs) (u # us) q tbl =
     (case notify_user env (q\<lparr>nq_username := u\<rparr>) tbl of (nid, tbl1) \<Rightarrow>
        (case notify_each envs us q tbl1 of (sent, tbl2) \<Rightarrow>
           (if nid \<noteq> None then Suc sent else sent, tbl2)))"
| "notify_each envs us q tbl = (0, tbl)"

definition notify_many :: "note_env list \<Rightarrow> pystr list \<Rightarrow> note_request \<Rightarrow> note_table \<Rightarrow> nat \<times> note_table" where
  "notify_many envs usernames q tbl = notify_each envs (fromkeys usernames) q tbl"

definition list_notifications :: "pystr \<Rightarrow> pystr \<Rightarrow> bool \<Rightarrow> nat \<Rightarrow> note_table \<Rightarrow> notification list" where
  "list_notifications username tenant unread_only limit tbl =
     take (min limit 200) (sort_key (\<lambda>n. - nt_created_at n)
       (filter (\<lambda>n. nt_recipient n = username \<and> nt_tenant n = tenant \<and> (unread_only \<longrightarrow> nt_read_at n = None)) tbl))"

definition unread :: "pystr \<Rightarrow> pystr \<Rightarrow> notification \<Rightarrow> bool" where
  "unread username tenant n \<longleftrightarrow> nt_recipient n = username \<and> nt_tenant n = tenant \<and> nt_read_at n = None"

definition unread_count :: "pystr \<Rightarrow> pystr \<Rightarrow> note_table \<Rightarrow> nat" where
  "unread_count username tenant tbl = length (filter (unread username tenant) tbl)"

definition mark_read :: "clock \<Rightarrow> pystr \<Rightarrow> pystr \<Rightarrow> pystr \<Rightarrow> note_table \<Rightarrow> note_table res" where
  "mark_read c notification_id username tenant tbl =
     (case find (\<lambda>n. nt_id n = notification_id \<and> nt_recipient n = username \<and> nt_tenant n = tenant) tbl of
        None \<Rightarrow> Inl (BizError [0x901a, 0x77e5, 0x4e0d, 0x5b58, 0x5728] 404)
      | Some n \<Rightarrow>
          Inr (if nt_read_at n = None then put_row nt_id (n\<lparr>nt_read_at := Some (utc c 0)\<rparr>) tbl else tbl))"

definition mark_all_read :: "clock \<Rightarrow> pystr \<Rightarrow> pystr \<Rightarrow> note_table \<Rightarrow> nat \<times> note_table" where
  "mark_all_read c username tenant tbl =
     (unread_count username tenant tbl,
      map (\<lambda>n. if unread username tenant n then n\<lparr>nt_read_at := Some (utc c 0)\<rparr> else n) tbl)"

section \<open>Laws\<close>

text \<open>
  The table grows only by \<open>notify_user\<close>; the readers' operations touch the time of reading only.
\<close>

datatype note_op =
    Notify note_env note_request
  | MarkRead clock pystr pystr pystr
  | MarkAllRead clock pystr pystr

fun note_step :: "note_op \<Rightarrow> note_table \<Rightarrow> note_table" where
  "note_step (Notify env q) tbl = snd (notify_user env q tbl)"
| "note_step (MarkRead c i u tn) tbl = (case mark_read c i u tn tbl of Inr tbl' \<Rightarrow> tbl' | Inl _ \<Rightarrow> tbl)"
| "note_step (MarkAllRead c u tn) tbl = snd (mark_all_read c u tn tbl)"

definition wf_note :: "notification \<Rightarrow> bool" where
  "wf_note n \<longleftrightarrow> nt_recipient n \<noteq> [] \<and> length (nt_title n) \<le> 200 \<and> length (nt_body n) \<le> 1000 \<and> length (nt_link n) \<le> 255"

definition wf_notes :: "note_table \<Rightarrow> bool" where
  "wf_notes tbl \<longleftrightarrow> distinct (map nt_id tbl) \<and> (\<forall>n \<in> set tbl. wf_note n)"

lemma notify_user_wf: "wf_notes tbl \<Longrightarrow> wf_notes (snd (notify_user env q tbl))"
  by (auto simp: notify_user_def wf_notes_def wf_note_def new_note_def)

lemma found_row: "find P xs = Some x \<Longrightarrow> x \<in> set xs \<and> P x"
  by (auto simp: find_Some_iff)

lemma note_step_wf: "wf_notes tbl \<Longrightarrow> wf_notes (note_step op tbl)"
proof (cases op)
  case (MarkRead c i u tn)
  assume wf: "wf_notes tbl"
  have "wf_notes (put_row nt_id (n\<lparr>nt_read_at := t\<rparr>) tbl)" if "n \<in> set tbl" for n t
    using wf that by (auto simp: wf_notes_def wf_note_def table_simps dest!: put_row_set)
  with MarkRead wf show ?thesis
    by (auto simp: mark_read_def dest: found_row split: option.splits)
next
  case (MarkAllRead c u tn)
  assume wf: "wf_notes tbl"
  have "map nt_id (snd (mark_all_read c u tn tbl)) = map nt_id tbl" by (simp add: mark_all_read_def)
  moreover have "\<forall>n \<in> set (snd (mark_all_read c u tn tbl)). wf_note n"
    using wf by (auto simp: wf_notes_def mark_all_read_def wf_note_def)
  ultimately show ?thesis using wf by (simp add: MarkAllRead wf_notes_def)
qed (simp_all add: notify_user_wf)

interpretation centre: invariant_ops note_step wf_notes
  by unfold_locales (rule note_step_wf)

lemma wf_note_runs: "wf_notes (fold note_step ops [])"
  by (rule centre.run_inv) (simp add: wf_notes_def)

lemma mark_read_InrD:
  assumes "mark_read c i u tn tbl = Inr tbl'"
  obtains n where "n \<in> set tbl" "nt_id n = i" "nt_recipient n = u" "nt_tenant n = tn"
    "tbl' = (if nt_read_at n = None then put_row nt_id (n\<lparr>nt_read_at := Some (utc c 0)\<rparr>) tbl else tbl)"
proof -
  from assms obtain n where n: "find (\<lambda>n. nt_id n = i \<and> nt_recipient n = u \<and> nt_tenant n = tn) tbl = Some n"
    "tbl' = (if nt_read_at n = None then put_row nt_id (n\<lparr>nt_read_at := Some (utc c 0)\<rparr>) tbl else tbl)"
    by (auto simp: mark_read_def split: option.splits)
  from found_row[OF n(1)] n(2) show ?thesis by (intro that) auto
qed

definition addressed :: "pystr \<Rightarrow> pystr \<Rightarrow> notification \<Rightarrow> bool" where
  "addressed username tenant n \<longleftrightarrow> nt_recipient n = username \<and> nt_tenant n = tenant"

section \<open>Properties\<close>

text \<open>A reader only ever changes what is unread of its own: marking one notification as read makes it
  read and leaves every other as it was (a stranger's notification is not found), marking all
  leaves none of the reader's unread, reports how many there were and leaves those of others.\<close>

theorem reading_is_private:
  assumes "tbl = fold note_step ops []"
  shows "(case mark_read c i u tn tbl of
      Inl e \<Rightarrow> \<forall>n \<in> set tbl. nt_id n = i \<longrightarrow> nt_recipient n \<noteq> u \<or> nt_tenant n \<noteq> tn
    | Inr tbl' \<Rightarrow> (\<forall>n \<in> set tbl'. nt_id n = i \<longrightarrow> nt_read_at n \<noteq> None \<and> nt_recipient n = u) \<and>
        filter (\<lambda>n. nt_id n \<noteq> i) tbl' = filter (\<lambda>n. nt_id n \<noteq> i) tbl) \<and>
    (case mark_all_read c u tn tbl of (k, tbl') \<Rightarrow>
        k = unread_count u tn tbl \<and> unread_count u tn tbl' = 0 \<and>
        filter (\<lambda>n. \<not> addressed u tn n) tbl' = filter (\<lambda>n. \<not> addressed u tn n) tbl)"
proof (rule conjI)
  have d: "distinct (map nt_id tbl)" using wf_note_runs assms by (simp add: wf_notes_def)
  show "case mark_read c i u tn tbl of
      Inl e \<Rightarrow> \<forall>n \<in> set tbl. nt_id n = i \<longrightarrow> nt_recipient n \<noteq> u \<or> nt_tenant n \<noteq> tn
    | Inr tbl' \<Rightarrow> (\<forall>n \<in> set tbl'. nt_id n = i \<longrightarrow> nt_read_at n \<noteq> None \<and> nt_recipient n = u) \<and>
        filter (\<lambda>n. nt_id n \<noteq> i) tbl' = filter (\<lambda>n. nt_id n \<noteq> i) tbl"
  proof (cases "mark_read c i u tn tbl")
    case (Inl e)
    then show ?thesis by (auto simp: mark_read_def find_None_iff split: option.splits)
  next
    case (Inr tbl')
    then obtain n where n: "n \<in> set tbl" "nt_id n = i" "nt_recipient n = u"
      "tbl' = (if nt_read_at n = None then put_row nt_id (n\<lparr>nt_read_at := Some (utc c 0)\<rparr>) tbl else tbl)"
      by (elim mark_read_InrD) blast
    have only: "x = n" if "x \<in> set tbl" "nt_id x = i" for x using d that n(1,2) by (metis distinct_map inj_onD)
    have rest: "filter (\<lambda>x. nt_id x \<noteq> i) (put_row nt_id (n\<lparr>nt_read_at := t\<rparr>) tbl) = filter (\<lambda>x. nt_id x \<noteq> i) tbl" for t
      unfolding n(2)[symmetric] by (induction tbl) auto
    have "nt_read_at x \<noteq> None \<and> nt_recipient x = u" if "x \<in> set tbl'" "nt_id x = i" for x
    proof (cases "nt_read_at n = None")
      case True
      with n(4) that(1) have "x \<in> set (put_row nt_id (n\<lparr>nt_read_at := Some (utc c 0)\<rparr>) tbl)" by simp
      from put_row_set[OF this] that(2) n(2,3) show ?thesis by auto
    next
      case False
      with n(4) that(1) have "x \<in> set tbl" by simp
      from only[OF this that(2)] False n(3) show ?thesis by simp
    qed
    moreover have "filter (\<lambda>x. nt_id x \<noteq> i) tbl' = filter (\<lambda>x. nt_id x \<noteq> i) tbl"
      unfolding n(4) using rest by (cases "nt_read_at n = None") simp_all
    ultimately show ?thesis unfolding Inr sum.case by blast
  qed
  show "case mark_all_read c u tn tbl of (k, tbl') \<Rightarrow>
        k = unread_count u tn tbl \<and> unread_count u tn tbl' = 0 \<and>
        filter (\<lambda>n. \<not> addressed u tn n) tbl' = filter (\<lambda>n. \<not> addressed u tn n) tbl"
    unfolding mark_all_read_def prod.case
  proof (intro conjI refl)
    show "unread_count u tn (map (\<lambda>n. if unread u tn n then n\<lparr>nt_read_at := Some (utc c 0)\<rparr> else n) tbl) = 0"
      by (auto simp: unread_count_def unread_def filter_empty_conv)
    show "filter (\<lambda>n. \<not> addressed u tn n) (map (\<lambda>n. if unread u tn n then n\<lparr>nt_read_at := Some (utc c 0)\<rparr> else n) tbl) =
        filter (\<lambda>n. \<not> addressed u tn n) tbl"
    proof (induction tbl)
      case (Cons n tbl)
      then show ?case
        by (cases "nt_recipient n = u"; cases "nt_tenant n = tn") (simp_all add: addressed_def unread_def)
    qed simp
  qed
qed

text \<open>An inbox with a message for each of two people.\<close>

definition demo_inbox :: "note_op list" where
  "demo_inbox = map (\<lambda>(i, u). Notify \<lparr>ne_db_up = True, ne_clock = at_time 1, ne_uuid = i\<rparr>
     \<lparr>nq_username = u, nq_type = asc ''system'', nq_title = asc ''hi'', nq_body = [], nq_link = [], nq_tenant = asc ''t''\<rparr>)
     [(asc ''1'', asc ''li''), (asc ''2'', asc ''wu'')]"

theorem reading_is_private_witness:
  "\<exists>tbl'. mark_read (at_time 5) (asc ''1'') (asc ''li'') (asc ''t'') (fold note_step demo_inbox []) = Inr tbl' \<and>
     filter (\<lambda>n. nt_id n \<noteq> asc ''1'') tbl' = filter (\<lambda>n. nt_id n \<noteq> asc ''1'') (fold note_step demo_inbox [])"
proof -
  let ?tbl = "fold note_step demo_inbox []"
  obtain tbl' where "mark_read (at_time 5) (asc ''1'') (asc ''li'') (asc ''t'') ?tbl = Inr tbl'"
    by (auto simp: demo_inbox_def notify_user_def new_note_def mark_read_def)
  with reading_is_private[where ops = demo_inbox and c = "at_time 5" and i = "asc ''1''" and u = "asc ''li''" and tn = "asc ''t''", OF refl] show ?thesis by simp
qed

end
