(* ===== verification/Access.thy ===== *)
theory Access
  imports Tables PyText
begin

text \<open>
  Who may do what: the role table of \<open>core/permissions.py\<close>, the user and document rows of
  \<open>models/user.py\<close> and \<open>models/document.py\<close> as far as access depends on them, and the access list
  of one document (\<open>get_document\<close> and \<open>_assert_acl\<close> of \<open>services/document_service.py\<close>, with the
  tenant check \<open>_check_doc\<close> that the collaboration services put before it).
\<close>

section \<open>Roles and permissions\<close>

definition ADMIN_ALL :: pystr where "ADMIN_ALL = asc ''*''"

definition wc :: "pystr \<Rightarrow> pystr" where "wc resource = resource @ asc '':*''"

definition ROLE_PERMISSIONS :: "(pystr \<times> pystr list) list" where
  "ROLE_PERMISSIONS = [
     (asc ''admin'', [ADMIN_ALL]),
     (asc ''editor'', map asc [''ops:read'', ''ops:write'', ''ops:review'',
        ''doc:read'', ''doc:upload'', ''doc:delete'', ''doc:manage'', ''qa:answer'', ''feedback:read'',
        ''kg:read'', ''kg:edit'', ''domain:use'', ''ticket:manage'', ''workflow:manage'', ''workflow:read'',
        ''report:read'', ''report:manage'', ''doc:annotate'', ''doc:signoff'', ''drill:read'', ''drill:manage'']),
     (asc ''operator'', map asc [''ops:read'', ''ops:write'', ''doc:read'', ''qa:answer'', ''feedback:read'',
        ''kg:read'', ''domain:use'', ''report:read'', ''doc:annotate'', ''drill:read'', ''drill:manage'']),
     (asc ''auditor'', map asc [''ops:read'', ''doc:read'', ''qa:answer'', ''feedback:read'', ''kg:read'',
        ''domain:use'', ''alert:read'', ''audit:read'', ''metric:read'', ''workflow:read'', ''report:read'',
        ''drill:read''])]"

definition VALID_ROLES :: "pystr list" where
  "VALID_ROLES = map fst ROLE_PERMISSIONS"

definition role_perms :: "pystr \<Rightarrow> pystr list" where
  "role_perms role = (case map_of ROLE_PERMISSIONS role of Some ps \<Rightarrow> ps | None \<Rightarrow> [])"

definition has_perm :: "pystr \<Rightarrow> pystr \<Rightarrow> bool" where
  "has_perm role perm =
     (let perms = role_perms role
      in if perms = [] then False
         else if ADMIN_ALL \<in> set perms then True
         else if perm \<in> set perms then True
         else wc (takeWhile (\<lambda>c. c \<noteq> 58) perm) \<in> set perms)"

section \<open>Users and documents\<close>

record user =
  us_username :: pystr
  us_password_hash :: pystr
  us_role :: pystr
  us_status :: pystr
  us_dept :: pystr
  us_tenant_id :: pystr

record document =
  dc_id :: pystr
  dc_doc_name :: pystr
  dc_file_size :: int
  dc_status :: pystr
  dc_chunk_count :: int
  dc_dept :: pystr
  dc_allowed_roles :: pystr
  dc_tenant_id :: pystr

definition msg_no_document :: pystr where "msg_no_document = [0x6587, 0x6863, 0x4e0d, 0x5b58, 0x5728]"

definition get_document :: "document list \<Rightarrow> pystr \<Rightarrow> document res" where
  "get_document docs doc_id =
     (case get_row dc_id doc_id docs of
        None \<Rightarrow> Inl (BizError msg_no_document 404)
      | Some d \<Rightarrow> Inr d)"

definition acl_roles :: "document \<Rightarrow> pystr list" where
  "acl_roles d = filter (\<lambda>r. r \<noteq> []) (map py_strip (py_split 44 (dc_allowed_roles d)))"

definition assert_acl :: "document \<Rightarrow> pystr option \<Rightarrow> pystr option \<Rightarrow> unit res" where
  "assert_acl d user_dept user_role =
     (if user_dept = None \<and> user_role = None then Inr ()
      else if user_role = Some (asc ''admin'') then Inr ()
      else if dc_dept d \<noteq> [] \<and> (\<exists>dept \<in> set_option user_dept. dept \<noteq> [] \<and> dc_dept d \<noteq> dept)
      then Inl (BizError [0x65e0, 0x6743, 0x9650, 0x8bbf, 0x95ee, 0x8be5, 0x90e8, 0x95e8, 0x6587, 0x6863] 403)
      else if dc_allowed_roles d \<noteq> [] \<and> acl_roles d \<noteq> [] \<and>
          (\<exists>role \<in> set_option user_role. role \<noteq> [] \<and> role \<notin> set (acl_roles d))
      then Inl (BizError [0x65e0, 0x6743, 0x9650, 0x8bbf, 0x95ee, 0x8be5, 0x6587, 0x6863, 0xff08, 0x89d2, 0x8272, 0x672a, 0x6388, 0x6743, 0xff09] 403)
      else Inr ())"

definition check_doc :: "document list \<Rightarrow> pystr \<Rightarrow> pystr \<Rightarrow> document res" where
  "check_doc docs doc_id tenant_id =
     (case get_document docs doc_id of
        Inl e \<Rightarrow> Inl e
      | Inr d \<Rightarrow>
          if dc_tenant_id d \<noteq> [] \<and> dc_tenant_id d \<noteq> tenant_id then Inl (BizError msg_no_document 404)
          else Inr d)"

text \<open>The tenant check and the access list together, for a signed-in user.\<close>

definition check_doc_acl :: "document list \<Rightarrow> pystr \<Rightarrow> pystr \<Rightarrow> pystr \<Rightarrow> pystr \<Rightarrow> document res" where
  "check_doc_acl docs doc_id tenant_id user_dept user_role =
     (case check_doc docs doc_id tenant_id of
        Inl e \<Rightarrow> Inl e
      | Inr d \<Rightarrow> (case assert_acl d (Some user_dept) (Some user_role) of Inl e \<Rightarrow> Inl e | Inr _ \<Rightarrow> Inr d))"

section \<open>Facts\<close>

text \<open>
  No listed permission is a wildcard of a resource, so a permission is granted exactly when it
  is listed, or to the administrator.
\<close>

lemma no_wildcards: "list_all (\<lambda>(role, ps). list_all (\<lambda>p. last p \<noteq> 42 \<or> length p = 1) ps) ROLE_PERMISSIONS"
  by code_simp

lemma wc_not_listed: "wc resource \<notin> set (role_perms role)"
proof
  assume "wc resource \<in> set (role_perms role)"
  then obtain ps where "(role, ps) \<in> set ROLE_PERMISSIONS" "wc resource \<in> set ps"
    by (auto simp: role_perms_def split: option.splits dest!: map_of_SomeD[OF sym])
  with no_wildcards have "last (wc resource) \<noteq> 42 \<or> length (wc resource) = 1"
    by (auto simp: list_all_iff)
  then show False by (simp add: wc_def asc_def)
qed

lemma admin_all_listed: "ADMIN_ALL \<in> set (role_perms role) \<longleftrightarrow> role = asc ''admin''"
proof
  assume "ADMIN_ALL \<in> set (role_perms role)"
  then show "role = asc ''admin''"
    by (simp add: role_perms_def ROLE_PERMISSIONS_def ADMIN_ALL_def asc_def split: if_splits)
qed (simp add: role_perms_def ROLE_PERMISSIONS_def)

lemma has_perm_iff: "has_perm role perm \<longleftrightarrow> role = asc ''admin'' \<or> perm \<in> set (role_perms role)"
proof (cases "role_perms role = []")
  case True
  then have "role \<noteq> asc ''admin''" using admin_all_listed[of role] by auto
  with True show ?thesis by (simp add: has_perm_def)
qed (use admin_all_listed wc_not_listed in \<open>auto simp: has_perm_def Let_def\<close>)

lemma check_doc_InrD: "check_doc docs i tn = Inr d \<Longrightarrow> get_row dc_id i docs = Some d"
  by (auto simp: check_doc_def get_document_def split: option.splits if_splits)

lemma check_doc_acl_InrD: "check_doc_acl docs i tn dept role = Inr d \<Longrightarrow> check_doc docs i tn = Inr d"
  by (auto simp: check_doc_acl_def split: sum.splits)

end
