(* ===== verification/Sha256.thy ===== *)
theory Sha256
  imports Prelude "HOL-Library.Word"
begin

unbundle bit_operations_syntax

text \<open>
  The part of Python's standard library that the electronic signatures use: the UTF-8 encoding of
  a text and \<open>hashlib.sha256(...).hexdigest()\<close>, over bytes and 32-bit words as FIPS 180-4 has it.
  Texts with lone surrogates, which \<open>encode\<close> refuses, do not occur.
\<close>

section \<open>Encoding\<close>

definition utf8_char :: "nat \<Rightarrow> nat list" where
  "utf8_char c =
     (if c < 0x80 then [c]
      else if c < 0x800 then [0xc0 + c div 64, 0x80 + c mod 64]
      else if c < 0x10000 then [0xe0 + c div 4096, 0x80 + c div 64 mod 64, 0x80 + c mod 64]
      else [0xf0 + c div 262144, 0x80 + c div 4096 mod 64, 0x80 + c div 64 mod 64, 0x80 + c mod 64])"

definition utf8 :: "pystr \<Rightarrow> nat list" where
  "utf8 s = concat (map utf8_char s)"

section \<open>The hash\<close>

type_synonym w32 = "32 word"

definition rotr :: "nat \<Rightarrow> w32 \<Rightarrow> w32" where
  "rotr n x = drop_bit n x OR push_bit (32 - n) x"

definition SHA_K :: "w32 list" where
  "SHA_K = [1116352408, 1899447441, 3049323471, 3921009573, 961987163, 1508970993, 2453635748, 2870763221,
     3624381080, 310598401, 607225278, 1426881987, 1925078388, 2162078206, 2614888103, 3248222580,
     3835390401, 4022224774, 264347078, 604807628, 770255983, 1249150122, 1555081692, 1996064986,
     2554220882, 2821834349, 2952996808, 3210313671, 3336571891, 3584528711, 113926993, 338241895,
     666307205, 773529912, 1294757372, 1396182291, 1695183700, 1986661051, 2177026350, 2456956037,
     2730485921, 2820302411, 3259730800, 3345764771, 3516065817, 3600352804, 4094571909, 275423344,
     430227734, 506948616, 659060556, 883997877, 958139571, 1322822218, 1537002063, 1747873779,
     1955562222, 2024104815, 2227730452, 2361852424, 2428436474, 2756734187, 3204031479, 3329325298]"

definition SHA_H :: "w32 list" where
  "SHA_H = [1779033703, 3144134277, 1013904242, 2773480762, 1359893119, 2600822924, 528734635, 1541459225]"

text \<open>The big-endian bytes of a 64-bit length.\<close>

primrec bytes_le :: "nat \<Rightarrow> nat \<Rightarrow> nat list" where
  "bytes_le 0 n = []"
| "bytes_le (Suc k) n = n mod 256 # bytes_le k (n div 256)"

definition be64 :: "nat \<Rightarrow> nat list" where
  "be64 n = rev (bytes_le 8 n)"

definition sha_pad :: "nat list \<Rightarrow> nat list" where
  "sha_pad m = m @ [0x80] @ replicate ((119 - length m mod 64) mod 64) 0 @ be64 (8 * length m)"

fun be_words :: "nat list \<Rightarrow> w32 list" where
  "be_words (a # b # c # d # bs) = (push_bit 24 (of_nat a) OR push_bit 16 (of_nat b) OR push_bit 8 (of_nat c) OR of_nat d) # be_words bs"
| "be_words _ = []"

fun chunks16 :: "'a list \<Rightarrow> 'a list list" where
  "chunks16 [] = []"
| "chunks16 (x # xs) = take 16 (x # xs) # chunks16 (drop 15 xs)"

text \<open>The six functions of the standard.\<close>

definition sigma0 :: "w32 \<Rightarrow> w32" where "sigma0 x = rotr 7 x XOR rotr 18 x XOR drop_bit 3 x"
definition sigma1 :: "w32 \<Rightarrow> w32" where "sigma1 x = rotr 17 x XOR rotr 19 x XOR drop_bit 10 x"
definition Sigma0 :: "w32 \<Rightarrow> w32" where "Sigma0 x = rotr 2 x XOR rotr 13 x XOR rotr 22 x"
definition Sigma1 :: "w32 \<Rightarrow> w32" where "Sigma1 x = rotr 6 x XOR rotr 11 x XOR rotr 25 x"
definition choice :: "w32 \<Rightarrow> w32 \<Rightarrow> w32 \<Rightarrow> w32" where "choice x y z = (x AND y) XOR (NOT x AND z)"
definition majority :: "w32 \<Rightarrow> w32 \<Rightarrow> w32 \<Rightarrow> w32" where "majority x y z = (x AND y) XOR (x AND z) XOR (y AND z)"

text \<open>The message schedule, newest word first.\<close>

definition next_word :: "w32 list \<Rightarrow> w32" where
  "next_word ws = sigma1 (ws ! 1) + ws ! 6 + sigma0 (ws ! 14) + ws ! 15"

primrec schedule :: "nat \<Rightarrow> w32 list \<Rightarrow> w32 list" where
  "schedule 0 ws = rev ws"
| "schedule (Suc n) ws = schedule n (next_word ws # ws)"

text \<open>One round: the two temporary words, and the shift of the eight variables.\<close>

fun shift_in :: "w32 \<Rightarrow> w32 \<Rightarrow> w32 list \<Rightarrow> w32 list" where
  "shift_in t1 t2 [a, b, c, d, e, f, g, h] = [t1 + t2, a, b, c, d + t1, e, f, g]"
| "shift_in t1 t2 st = st"

fun sha_round :: "w32 \<times> w32 \<Rightarrow> w32 list \<Rightarrow> w32 list" where
  "sha_round (k, w) [a, b, c, d, e, f, g, h] =
     shift_in (h + Sigma1 e + choice e f g + k + w) (Sigma0 a + majority a b c) [a, b, c, d, e, f, g, h]"
| "sha_round _ st = st"

definition sha_block :: "w32 list \<Rightarrow> w32 list \<Rightarrow> w32 list" where
  "sha_block blk st = map2 (+) st (fold sha_round (zip SHA_K (schedule 48 (rev blk))) st)"

definition sha_words :: "nat list \<Rightarrow> w32 list" where
  "sha_words m = fold sha_block (chunks16 (be_words (sha_pad m))) SHA_H"

definition hex_char :: "nat \<Rightarrow> nat" where
  "hex_char n = (if n < 10 then 48 + n else 87 + n)"

definition hex32 :: "w32 \<Rightarrow> pystr" where
  "hex32 w = map (\<lambda>i. hex_char (unat (drop_bit i w AND 15))) [28, 24, 20, 16, 12, 8, 4, 0]"

definition sha256_hex :: "pystr \<Rightarrow> pystr" where
  "sha256_hex s = concat (map hex32 (sha_words (utf8 s)))"

section \<open>Facts\<close>

definition is_hex :: "nat \<Rightarrow> bool" where
  "is_hex c \<longleftrightarrow> 48 \<le> c \<and> c \<le> 57 \<or> 97 \<le> c \<and> c \<le> 102"

lemma hex32_hex: "c \<in> set (hex32 w) \<Longrightarrow> is_hex c"
proof -
  have "unat (x AND 15) \<le> 15" for x :: w32
    using word_and_le1[of x 15] by (simp add: word_le_nat_alt)
  then have "is_hex (hex_char (unat (x AND 15)))" for x :: w32
    by (auto simp: hex_char_def is_hex_def intro: le_trans)
  then show "c \<in> set (hex32 w) \<Longrightarrow> is_hex c" by (auto simp: hex32_def)
qed

lemma sha256_hex_chars: "c \<in> set (sha256_hex s) \<Longrightarrow> is_hex c"
  by (auto simp: sha256_hex_def dest: hex32_hex)

lemma sha_round_length [simp]: "length (sha_round kw st) = length st"
proof (induction kw st rule: sha_round.induct)
  case (1 k w a b c d e f g h)
  then show ?case by simp
qed simp_all

lemma sha_rounds_length [simp]: "length (fold sha_round kws st) = length st"
  by (induction kws arbitrary: st) simp_all

lemma sha_block_length [simp]: "length (sha_block blk st) = length st"
  by (simp add: sha_block_def)

lemma sha_words_length [simp]: "length (sha_words m) = 8"
proof -
  have "length (fold sha_block blks st) = length st" for blks st
    by (induction blks arbitrary: st) simp_all
  then show ?thesis by (simp add: sha_words_def SHA_H_def)
qed

lemma sha256_hex_nonempty [simp]: "sha256_hex s \<noteq> []"
proof -
  obtain w ws where "sha_words (utf8 s) = w # ws"
    by (metis sha_words_length list.size(3) neq_Nil_conv zero_neq_numeral)
  then show ?thesis by (simp add: sha256_hex_def hex32_def)
qed

lemma bar_not_hex: "124 \<notin> set (sha256_hex s)"
  using sha256_hex_chars[of 124 s] by (auto simp: is_hex_def)

end
