(* ===== verification/Signoff.thy ===== *)
theory Signoff
  imports Access Notifications Sha256
begin

text \<open>
  The electronic sign-off of documents: the rows \<open>DocSignoff\<close> and \<open>DocSignoffEvent\<close> of
  \<open>models/doc_collab.py\<close> and \<open>services/doc_signoff_service.py\<close>. The signers of a flow sign in order;
  each signature is chained to the one before by SHA-256. The password check of bcrypt is an
  argument. Every handler loads the row, computes the new row, and commits the columns it
  assigned; what comes between load and commit is \<open>commit_columns\<close>' third argument.
\<close>

section \<open>The rows\<close>

datatype sign_status = NodePending | NodeSigned | NodeRejected

record sign_node =
  sn_seq :: nat
  sn_signer :: pystr
  sn_role :: pystr
  sn_status :: sign_status
  sn_signedAt :: pystr
  sn_comment :: pystr
  sn_hash :: pystr

datatype signoff_status = SoDraft | SoPending | SoSigned | SoRejected | SoCancelled

record signoff =
  so_id :: pystr
  so_doc_id :: pystr
  so_title :: pystr
  so_status :: signoff_status
  so_flow :: "sign_node list"
  so_current_seq :: nat
  so_doc_fingerprint :: pystr
  so_hash_chain :: pystr
  so_tenant :: pystr
  so_created_by :: pystr
  so_created_at :: time
  so_updated_at :: time
  so_finished_at :: "time option"

record signoff_event =
  se_signoff_id :: pystr
  se_action :: pystr
  se_actor :: pystr
  se_node_seq :: nat
  se_detail :: pystr
  se_tenant :: pystr
  se_created_at :: time

record signoff_db =
  sd_signoffs :: "signoff list"
  sd_events :: "signoff_event list"

definition signoff_status_str :: "signoff_status \<Rightarrow> pystr" where
  "signoff_status_str s = asc (case s of SoDraft \<Rightarrow> ''draft'' | SoPending \<Rightarrow> ''pending''
     | SoSigned \<Rightarrow> ''signed'' | SoRejected \<Rightarrow> ''rejected'' | SoCancelled \<Rightarrow> ''cancelled'')"

section \<open>Fingerprint and hash chain\<close>

definition fingerprint :: "document \<Rightarrow> pystr" where
  "fingerprint d = sha256_hex (dc_id d @ [58] @ dc_status d @ [58] @ py_str_int (dc_file_size d) @ [58] @
     py_str_int (dc_chunk_count d))"

text \<open>\<open>sha256(prev|signer|ts|comment)\<close>.\<close>

definition node_text :: "sign_node \<Rightarrow> pystr" where
  "node_text n = sn_signer n @ [124] @ sn_signedAt n @ [124] @ sn_comment n"

definition node_hash :: "pystr \<Rightarrow> sign_node \<Rightarrow> pystr" where
  "node_hash prev n = sha256_hex (prev @ [124] @ node_text n)"

definition genesis :: "pystr \<Rightarrow> pystr" where
  "genesis signoff_id = sha256_hex signoff_id"

section \<open>Creation\<close>

definition get_signoff :: "signoff_db \<Rightarrow> pystr \<Rightarrow> pystr \<Rightarrow> signoff res" where
  "get_signoff db signoff_id tenant_id =
     (case find (\<lambda>s. so_id s = signoff_id \<and> so_tenant s = tenant_id) (sd_signoffs db) of
        None \<Rightarrow> Inl (BizError [0x7b7e, 0x6279, 0x5355, 0x4e0d, 0x5b58, 0x5728] 404)
      | Some s \<Rightarrow> Inr s)"

definition log_event :: "clock \<Rightarrow> signoff \<Rightarrow> pystr \<Rightarrow> pystr \<Rightarrow> nat \<Rightarrow> pystr \<Rightarrow> signoff_event" where
  "log_event c s action actor node_seq detail = \<lparr>se_signoff_id = so_id s, se_action = action, se_actor = actor,
     se_node_seq = node_seq, se_detail = take 500 detail, se_tenant = so_tenant s, se_created_at = sqlnow c\<rparr>"

fun build_nodes :: "nat \<Rightarrow> pystr list \<Rightarrow> (pystr \<times> pystr) list \<Rightarrow> sign_node list res" where
  "build_nodes i seen [] = Inr []"
| "build_nodes i seen ((signer0, role0) # items) =
     (let signer = py_strip signer0; role = py_strip role0
      in if signer = [] then Inl (BizError (([0x7b2c] @ asc '' '') @ dec_nat i @ (asc '' '' @ [0x4e2a, 0x8282, 0x70b9, 0x7b7e, 0x6279, 0x4eba, 0x4e3a, 0x7a7a])) 400)
         else if signer \<in> set seen then Inl (BizError ([0x7b7e, 0x6279, 0x4eba, 0x91cd, 0x590d, 0xff1a] @ signer) 400)
         else if role \<noteq> [] \<and> role \<notin> set VALID_ROLES then Inl (BizError ([0x975e, 0x6cd5, 0x89d2, 0x8272, 0xff1a] @ role) 400)
         else (case build_nodes (Suc i) (signer # seen) items of
             Inl e \<Rightarrow> Inl e
           | Inr nodes \<Rightarrow> Inr (\<lparr>sn_seq = i, sn_signer = signer, sn_role = role, sn_status = NodePending,
               sn_signedAt = [], sn_comment = [], sn_hash = []\<rparr> # nodes)))"

definition validate_flow :: "(pystr \<times> pystr) list \<Rightarrow> sign_node list res" where
  "validate_flow signers =
     (if signers = [] \<or> 10 < length signers then Inl (BizError ([0x7b7e, 0x6279, 0x8282, 0x70b9, 0x9700] @ asc '' 1-10 '' @ [0x4e2a]) 400)
      else build_nodes 1 [] signers)"

definition new_signoff ::
  "clock \<Rightarrow> pystr \<Rightarrow> document \<Rightarrow> pystr \<Rightarrow> sign_node list \<Rightarrow> pystr \<Rightarrow> pystr \<Rightarrow> signoff" where
  "new_signoff c uuid d title nodes tenant_id username = \<lparr>so_id = uuid, so_doc_id = dc_id d,
     so_title = py_or (take 200 title) ([0x6587, 0x6863, 0x4f1a, 0x7b7e, 0xb7] @ take 60 (dc_doc_name d)),
     so_status = SoDraft, so_flow = nodes, so_current_seq = 0, so_doc_fingerprint = [], so_hash_chain = [],
     so_tenant = tenant_id, so_created_by = username, so_created_at = sqlnow c, so_updated_at = sqlnow c,
     so_finished_at = None\<rparr>"

definition create_signoff ::
  "clock \<Rightarrow> pystr \<Rightarrow> document list \<Rightarrow> pystr \<Rightarrow> pystr \<Rightarrow> (pystr \<times> pystr) list \<Rightarrow> user \<Rightarrow> signoff_db \<Rightarrow>
     (signoff \<times> signoff_db) res" where
  "create_signoff c uuid docs doc_id title signers u db =
     (case check_doc_acl docs doc_id (us_tenant_id u) (us_dept u) (us_role u) of
        Inl e \<Rightarrow> Inl e
      | Inr d \<Rightarrow>
          (case validate_flow signers of
             Inl e \<Rightarrow> Inl e
           | Inr nodes \<Rightarrow>
               if uuid \<in> so_id ` set (sd_signoffs db) then Inl IntegrityError
               else
                 let s = new_signoff c uuid d title nodes (us_tenant_id u) (us_username u)
                 in Inr (s, db\<lparr>sd_signoffs := sd_signoffs db @ [s],
                      sd_events := sd_events db @ [log_event c s (asc ''create'') (us_username u) 0
                        (dec_nat (length nodes) @ (asc '' '' @ [0x8282, 0x70b9, 0x4f1a, 0x7b7e, 0x6d41, 0x521b, 0x5efa]))]\<rparr>)))"

section \<open>The steps on a row\<close>

definition current_node :: "signoff \<Rightarrow> sign_node option" where
  "current_node s = find (\<lambda>n. sn_seq n = so_current_seq s) (so_flow s)"

text \<open>The change of the current node in the copy of the flow.\<close>

fun update_node :: "nat \<Rightarrow> (sign_node \<Rightarrow> sign_node) \<Rightarrow> sign_node list \<Rightarrow> sign_node list" where
  "update_node k f [] = []"
| "update_node k f (n # ns) = (if sn_seq n = k then f n # ns else n # update_node k f ns)"

definition submit_signoff_row :: "document list \<Rightarrow> signoff \<Rightarrow> signoff res" where
  "submit_signoff_row docs s =
     (if so_status s \<noteq> SoDraft then Inl (BizError [0x4ec5, 0x8349, 0x7a3f, 0x72b6, 0x6001, 0x53ef, 0x63d0, 0x4ea4] 400)
      else (case check_doc docs (so_doc_id s) (so_tenant s) of
          Inl e \<Rightarrow> Inl e
        | Inr d \<Rightarrow> Inr (s\<lparr>so_doc_fingerprint := fingerprint d, so_hash_chain := genesis (so_id s),
            so_status := SoPending, so_current_seq := 1\<rparr>)))"

text \<open>What a signature (or a refusal) writes into the node.\<close>

definition mark_node :: "clock \<Rightarrow> sign_status \<Rightarrow> pystr \<Rightarrow> pystr \<Rightarrow> sign_node \<Rightarrow> sign_node" where
  "mark_node c status comment prev n =
     (let n' = n\<lparr>sn_status := status, sn_signedAt := isoformat (utc c 0), sn_comment := take 500 comment\<rparr>
      in n'\<lparr>sn_hash := node_hash prev n'\<rparr>)"

definition msg_password :: pystr where "msg_password = [0x53e3, 0x4ee4, 0x590d, 0x6838, 0x5931, 0x8d25, 0xff0c, 0x7535, 0x5b50, 0x7b7e, 0x6279, 0x8981, 0x6c42, 0x91cd, 0x65b0, 0x9a8c, 0x8bc1, 0x53e3, 0x4ee4]"

definition sign_row ::
  "clock \<Rightarrow> (pystr \<Rightarrow> pystr \<Rightarrow> bool) \<Rightarrow> user \<Rightarrow> pystr \<Rightarrow> pystr \<Rightarrow> signoff \<Rightarrow> signoff res" where
  "sign_row c verify_password u password comment s =
     (if so_status s \<noteq> SoPending then Inl (BizError (([0x5f53, 0x524d, 0x72b6, 0x6001] @ asc '' '') @ signoff_status_str (so_status s) @ (asc '' '' @ [0x4e0d, 0x53ef, 0x7b7e, 0x6279])) 400)
      else if so_current_seq s < 1 \<or> length (so_flow s) < so_current_seq s then Inl (BizError [0x7b7e, 0x6279, 0x6d41, 0x5df2, 0x8d70, 0x5b8c] 400)
      else (case current_node s of
          None \<Rightarrow> Inl (BizError [0x7b7e, 0x6279, 0x6d41, 0x8282, 0x70b9, 0x7f3a, 0x5931] 500)
        | Some node \<Rightarrow>
            if sn_signer node \<noteq> us_username u
            then Inl (BizError (([0x5f53, 0x524d, 0x8282, 0x70b9, 0x7b7e, 0x6279, 0x4eba, 0x4e3a] @ asc '' '') @ sn_signer node @ [0xff0c, 0x975e, 0x672c, 0x4eba]) 403)
            else if password = [] \<or> \<not> verify_password password (us_password_hash u)
            then Inl (BizError msg_password 403)
            else
              let node' = mark_node c NodeSigned comment (so_hash_chain s) node;
                  s1 = s\<lparr>so_flow := update_node (so_current_seq s) (\<lambda>_. node') (so_flow s), so_hash_chain := sn_hash node'\<rparr>
              in Inr (if length (so_flow s) \<le> so_current_seq s
                      then s1\<lparr>so_status := SoSigned, so_finished_at := Some (utc c 1)\<rparr>
                      else s1\<lparr>so_current_seq := so_current_seq s + 1\<rparr>)))"

definition reject_row ::
  "clock \<Rightarrow> (pystr \<Rightarrow> pystr \<Rightarrow> bool) \<Rightarrow> user \<Rightarrow> pystr \<Rightarrow> pystr \<Rightarrow> signoff \<Rightarrow> signoff res" where
  "reject_row c verify_password u password reason s =
     (if so_status s \<noteq> SoPending then Inl (BizError (([0x5f53, 0x524d, 0x72b6, 0x6001] @ asc '' '') @ signoff_status_str (so_status s) @ (asc '' '' @ [0x4e0d, 0x53ef, 0x9a73, 0x56de])) 400)
      else (case current_node s of
          None \<Rightarrow> Inl (BizError [0x4ec5, 0x5f53, 0x524d, 0x8282, 0x70b9, 0x7b7e, 0x6279, 0x4eba, 0x53ef, 0x9a73, 0x56de] 403)
        | Some node \<Rightarrow>
            if sn_signer node \<noteq> us_username u then Inl (BizError [0x4ec5, 0x5f53, 0x524d, 0x8282, 0x70b9, 0x7b7e, 0x6279, 0x4eba, 0x53ef, 0x9a73, 0x56de] 403)
            else if password = [] \<or> \<not> verify_password password (us_password_hash u)
            then Inl (BizError msg_password 403)
            else
              let node' = mark_node c NodeRejected reason (so_hash_chain s) node
              in Inr (s\<lparr>so_flow := update_node (so_current_seq s) (\<lambda>_. node') (so_flow s), so_hash_chain := sn_hash node',
                   so_status := SoRejected, so_finished_at := Some (utc c 1)\<rparr>)))"

definition cancel_row :: "clock \<Rightarrow> pystr \<Rightarrow> bool \<Rightarrow> signoff \<Rightarrow> signoff res" where
  "cancel_row c username is_admin s =
     (if so_status s \<in> {SoSigned, SoRejected, SoCancelled} then Inl (BizError [0x5df2, 0x7ec8, 0x7ed3, 0x7684, 0x7b7e, 0x6279, 0x5355, 0x4e0d, 0x53ef, 0x53d6, 0x6d88] 400)
      else if \<not> is_admin \<and> so_created_by s \<noteq> username then Inl (BizError [0x4ec5, 0x53d1, 0x8d77, 0x4eba, 0x6216, 0x7ba1, 0x7406, 0x5458, 0x53ef, 0x53d6, 0x6d88] 403)
      else Inr (s\<lparr>so_status := SoCancelled, so_finished_at := Some (utc c 0)\<rparr>))"

section \<open>The commit\<close>

text \<open>
  The UPDATE of a session sets the columns whose values differ from those it loaded, in the row as
  it is by then; there is no lock and no version check.
\<close>

definition changed :: "'a \<Rightarrow> 'a \<Rightarrow> 'a \<Rightarrow> 'a" where
  "changed old new cur = (if new = old then cur else new)"

definition commit_columns :: "clock \<Rightarrow> signoff \<Rightarrow> signoff \<Rightarrow> signoff \<Rightarrow> signoff" where
  "commit_columns c old new cur = cur\<lparr>
     so_status := changed (so_status old) (so_status new) (so_status cur),
     so_flow := changed (so_flow old) (so_flow new) (so_flow cur),
     so_current_seq := changed (so_current_seq old) (so_current_seq new) (so_current_seq cur),
     so_doc_fingerprint := changed (so_doc_fingerprint old) (so_doc_fingerprint new) (so_doc_fingerprint cur),
     so_hash_chain := changed (so_hash_chain old) (so_hash_chain new) (so_hash_chain cur),
     so_finished_at := changed (so_finished_at old) (so_finished_at new) (so_finished_at cur),
     so_updated_at := sqlnow c\<rparr>"

text \<open>A handler that nothing comes between: load, step, commit, log.\<close>

definition on_signoff ::
  "clock \<Rightarrow> pystr \<Rightarrow> pystr \<Rightarrow> (signoff \<Rightarrow> signoff res) \<Rightarrow> (signoff \<Rightarrow> signoff \<Rightarrow> signoff_event) \<Rightarrow> signoff_db \<Rightarrow>
     (signoff \<times> signoff_db) res" where
  "on_signoff c signoff_id tenant_id step event db =
     (case get_signoff db signoff_id tenant_id of
        Inl e \<Rightarrow> Inl e
      | Inr s \<Rightarrow>
          (case step s of
             Inl e \<Rightarrow> Inl e
           | Inr s1 \<Rightarrow>
               let s' = commit_columns c s s1 s
               in Inr (s', db\<lparr>sd_signoffs := put_row so_id s' (sd_signoffs db), sd_events := sd_events db @ [event s s1]\<rparr>)))"

definition submit_signoff ::
  "clock \<Rightarrow> document list \<Rightarrow> pystr \<Rightarrow> pystr \<Rightarrow> pystr \<Rightarrow> signoff_db \<Rightarrow> (signoff \<times> signoff_db) res" where
  "submit_signoff c docs signoff_id tenant_id username =
     on_signoff c signoff_id tenant_id (submit_signoff_row docs)
       (\<lambda>s s1. log_event c s (asc ''submit'') username 0 [0x63d0, 0x4ea4, 0x4f1a, 0x7b7e, 0xff0c, 0x6307, 0x7eb9, 0x5df2, 0x56fa, 0x5316])"

definition sign ::
  "clock \<Rightarrow> (pystr \<Rightarrow> pystr \<Rightarrow> bool) \<Rightarrow> pystr \<Rightarrow> pystr \<Rightarrow> user \<Rightarrow> pystr \<Rightarrow> pystr \<Rightarrow> signoff_db \<Rightarrow> (signoff \<times> signoff_db) res" where
  "sign c verify_password signoff_id tenant_id u password comment =
     on_signoff c signoff_id tenant_id (sign_row c verify_password u password comment)
       (\<lambda>s s1. log_event c s (asc ''sign'') (us_username u) (so_current_seq s)
         (([0x8282, 0x70b9] @ asc '' '') @ dec_nat (so_current_seq s) @ (asc '' '' @ [0x7b7e, 0x6279, 0x901a, 0x8fc7])))"

definition reject ::
  "clock \<Rightarrow> (pystr \<Rightarrow> pystr \<Rightarrow> bool) \<Rightarrow> pystr \<Rightarrow> pystr \<Rightarrow> user \<Rightarrow> pystr \<Rightarrow> pystr \<Rightarrow> signoff_db \<Rightarrow> (signoff \<times> signoff_db) res" where
  "reject c verify_password signoff_id tenant_id u password reason =
     on_signoff c signoff_id tenant_id (reject_row c verify_password u password reason)
       (\<lambda>s s1. log_event c s (asc ''reject'') (us_username u) (so_current_seq s)
         (([0x8282, 0x70b9] @ asc '' '') @ dec_nat (so_current_seq s) @ (asc '' '' @ [0x9a73, 0x56de, 0xff1a]) @ take 500 reason))"

definition cancel_signoff ::
  "clock \<Rightarrow> pystr \<Rightarrow> pystr \<Rightarrow> pystr \<Rightarrow> bool \<Rightarrow> signoff_db \<Rightarrow> (signoff \<times> signoff_db) res" where
  "cancel_signoff c signoff_id tenant_id username is_admin =
     on_signoff c signoff_id tenant_id (cancel_row c username is_admin)
       (\<lambda>s s1. log_event c s (asc ''cancel'') username 0 [0x7b7e, 0x6279, 0x5355, 0x53d6, 0x6d88])"

section \<open>Notifications\<close>

text \<open>What a handler tells the notification centre after its commit.\<close>

definition notify_pending_signer :: "signoff \<Rightarrow> note_request list" where
  "notify_pending_signer s = (case current_node s of
     None \<Rightarrow> []
   | Some node \<Rightarrow> [\<lparr>nq_username = sn_signer node, nq_type = asc ''signoff_pending'',
       nq_title = [0x8f6e, 0x5230, 0x4f60, 0x7b7e, 0x6279, 0xff1a] @ so_title s,
       nq_body = [0x4f1a, 0x7b7e, 0x5355, 0x300c] @ so_title s @ ([0x300d, 0x5f53, 0x524d, 0x8282, 0x70b9] @ asc '' '') @ dec_nat (sn_seq node) @ (asc '' '' @ [0x7b49, 0x4f60, 0x7b7e, 0x6279]),
       nq_link = asc ''/doc-collab?doc='' @ so_doc_id s, nq_tenant = so_tenant s\<rparr>])"

definition notify_signed :: "signoff \<Rightarrow> note_request list" where
  "notify_signed s =
     (if so_status s = SoSigned
      then [\<lparr>nq_username = so_created_by s, nq_type = asc ''signoff_signed'', nq_title = [0x4f1a, 0x7b7e, 0x5b8c, 0x6210, 0xff1a] @ so_title s,
         nq_body = [0x300c] @ so_title s @ [0x300d, 0x5168, 0x90e8, 0x8282, 0x70b9, 0x7b7e, 0x6279, 0x901a, 0x8fc7, 0xff08] @ dec_nat (length (so_flow s)) @ (asc '' '' @ [0x8282, 0x70b9, 0xff09]),
         nq_link = asc ''/doc-collab?doc='' @ so_doc_id s, nq_tenant = so_tenant s\<rparr>]
      else notify_pending_signer s)"

definition notify_rejected :: "signoff \<Rightarrow> note_request list" where
  "notify_rejected s = (case current_node s of
     None \<Rightarrow> []
   | Some node \<Rightarrow> [\<lparr>nq_username = so_created_by s, nq_type = asc ''signoff_rejected'', nq_title = [0x7b7e, 0x6279, 0x88ab, 0x9a73, 0x56de, 0xff1a] @ so_title s,
       nq_body = ([0x8282, 0x70b9] @ asc '' '') @ dec_nat (sn_seq node) @ [0xff08] @ sn_signer node @ [0xff09, 0x9a73, 0x56de, 0xff1a] @ py_or (sn_comment node) [0x65e0, 0x7406, 0x7531],
       nq_link = asc ''/doc-collab?doc='' @ so_doc_id s, nq_tenant = so_tenant s\<rparr>])"

section \<open>Queries\<close>

definition list_signoffs :: "document list \<Rightarrow> pystr \<Rightarrow> user \<Rightarrow> signoff_db \<Rightarrow> signoff list res" where
  "list_signoffs docs doc_id u db =
     (case check_doc_acl docs doc_id (us_tenant_id u) (us_dept u) (us_role u) of
        Inl e \<Rightarrow> Inl e
      | Inr _ \<Rightarrow> Inr (take 100 (sort_key (\<lambda>s. - so_created_at s)
          (filter (\<lambda>s. so_doc_id s = doc_id \<and> so_tenant s = us_tenant_id u) (sd_signoffs db)))))"

definition my_pending :: "pystr \<Rightarrow> pystr \<Rightarrow> signoff_db \<Rightarrow> signoff list" where
  "my_pending tenant_id username db =
     filter (\<lambda>s. case current_node s of Some node \<Rightarrow> sn_signer node = username | None \<Rightarrow> False)
       (take 200 (sort_key (\<lambda>s. - so_updated_at s)
         (filter (\<lambda>s. so_tenant s = tenant_id \<and> so_status s = SoPending) (sd_signoffs db))))"

definition get_signoff_detail ::
  "document list \<Rightarrow> pystr \<Rightarrow> user \<Rightarrow> signoff_db \<Rightarrow> (signoff \<times> signoff_event list) res" where
  "get_signoff_detail docs signoff_id u db =
     (case get_signoff db signoff_id (us_tenant_id u) of
        Inl e \<Rightarrow> Inl e
      | Inr s \<Rightarrow>
          (case check_doc_acl docs (so_doc_id s) (us_tenant_id u) (us_dept u) (us_role u) of
             Inl e \<Rightarrow> Inl e
           | Inr _ \<Rightarrow> Inr (s, filter (\<lambda>e. se_signoff_id e = signoff_id) (sd_events db))))"

definition suggest_signers :: "user list \<Rightarrow> pystr \<Rightarrow> (pystr \<times> pystr \<times> pystr) list" where
  "suggest_signers users tenant_id =
     map (\<lambda>u. (us_username u, us_role u, us_dept u)) (take 100 (sort_key us_username
       (filter (\<lambda>u. us_tenant_id u = tenant_id \<and> us_status u = asc ''active'') users)))"

section \<open>Verification\<close>

text \<open>The chain from a hash on over the nodes that are signed or rejected; None where it breaks.\<close>

fun verify_nodes :: "pystr \<Rightarrow> sign_node list \<Rightarrow> pystr option" where
  "verify_nodes prev [] = Some prev"
| "verify_nodes prev (n # ns) =
     (if sn_status n \<notin> {NodeSigned, NodeRejected} then verify_nodes prev ns
      else if node_hash prev n \<noteq> sn_hash n then None
      else verify_nodes (node_hash prev n) ns)"

definition chain_ok :: "signoff \<Rightarrow> bool" where
  "chain_ok s = (case verify_nodes (genesis (so_id s)) (so_flow s) of
     None \<Rightarrow> False
   | Some prev \<Rightarrow> so_hash_chain s = [] \<or> prev = so_hash_chain s)"

definition doc_changed :: "document list \<Rightarrow> signoff \<Rightarrow> bool" where
  "doc_changed docs s =
     (if so_doc_fingerprint s = [] then False
      else (case get_document docs (so_doc_id s) of
          Inl _ \<Rightarrow> True
        | Inr d \<Rightarrow> fingerprint d \<noteq> so_doc_fingerprint s))"

record verify_report =
  vr_status :: signoff_status
  vr_doc_changed :: bool
  vr_chain_ok :: bool
  vr_valid :: bool

definition verify_signoff :: "document list \<Rightarrow> pystr \<Rightarrow> pystr \<Rightarrow> signoff_db \<Rightarrow> verify_report res" where
  "verify_signoff docs signoff_id tenant_id db =
     (case get_signoff db signoff_id tenant_id of
        Inl e \<Rightarrow> Inl e
      | Inr s \<Rightarrow> Inr \<lparr>vr_status = so_status s, vr_doc_changed = doc_changed docs s, vr_chain_ok = chain_ok s,
          vr_valid = chain_ok s \<and> \<not> doc_changed docs s\<rparr>)"

end
