(* ===== verification/SignoffLaws.thy ===== *)
theory SignoffLaws
  imports Signoff
begin

text \<open>
  What every run of the sign-off service keeps: the shape of the flows, the progress of the
  signatures through them, the hash chain, and the agreement of the event log with the flows.
\<close>

section \<open>Runs\<close>

datatype signoff_op =
    SoCreate clock pystr "document list" pystr pystr "(pystr \<times> pystr) list" user
  | SoSubmit clock "document list" pystr pystr pystr
  | SoSign clock "pystr \<Rightarrow> pystr \<Rightarrow> bool" pystr pystr user pystr pystr
  | SoReject clock "pystr \<Rightarrow> pystr \<Rightarrow> bool" pystr pystr user pystr pystr
  | SoCancel clock pystr pystr pystr bool

definition kept :: "signoff_db \<Rightarrow> (signoff \<times> signoff_db) res \<Rightarrow> signoff_db" where
  "kept db r = (case r of Inr (_, db') \<Rightarrow> db' | Inl _ \<Rightarrow> db)"

fun signoff_step :: "signoff_op \<Rightarrow> signoff_db \<Rightarrow> signoff_db" where
  "signoff_step (SoCreate c uuid docs doc_id title signers u) db = kept db (create_signoff c uuid docs doc_id title signers u db)"
| "signoff_step (SoSubmit c docs i tn username) db = kept db (submit_signoff c docs i tn username db)"
| "signoff_step (SoSign c vp i tn u pw comment) db = kept db (sign c vp i tn u pw comment db)"
| "signoff_step (SoReject c vp i tn u pw reason) db = kept db (reject c vp i tn u pw reason db)"
| "signoff_step (SoCancel c i tn username is_admin) db = kept db (cancel_signoff c i tn username is_admin db)"

definition empty_signoffs :: signoff_db where
  "empty_signoffs = \<lparr>sd_signoffs = [], sd_events = []\<rparr>"

section \<open>Flows\<close>

definition flow_shape :: "sign_node list \<Rightarrow> bool" where
  "flow_shape flow \<longleftrightarrow> map sn_seq flow = [1..<Suc (length flow)] \<and> flow \<noteq> [] \<and> length flow \<le> 10 \<and>
     distinct (map sn_signer flow) \<and> [] \<notin> sn_signer ` set flow"

text \<open>The nodes before \<open>k\<close> are signed, the others are waiting.\<close>

definition progress :: "nat \<Rightarrow> sign_node list \<Rightarrow> bool" where
  "progress k flow \<longleftrightarrow> (\<forall>n \<in> set flow. sn_status n = (if sn_seq n < k then NodeSigned else NodePending))"

definition refused_at :: "nat \<Rightarrow> sign_node list \<Rightarrow> bool" where
  "refused_at k flow \<longleftrightarrow> (\<forall>n \<in> set flow. sn_status n =
     (if sn_seq n < k then NodeSigned else if sn_seq n = k then NodeRejected else NodePending))"

definition stage_ok :: "signoff \<Rightarrow> bool" where
  "stage_ok s = (let k = so_current_seq s; l = length (so_flow s) in case so_status s of
     SoDraft \<Rightarrow> k = 0 \<and> progress 1 (so_flow s) \<and> so_hash_chain s = []
   | SoPending \<Rightarrow> 1 \<le> k \<and> k \<le> l \<and> progress k (so_flow s)
   | SoSigned \<Rightarrow> k = l \<and> progress (l + 1) (so_flow s)
   | SoRejected \<Rightarrow> 1 \<le> k \<and> k \<le> l \<and> refused_at k (so_flow s)
   | SoCancelled \<Rightarrow> k = 0 \<and> progress 1 (so_flow s) \<and> so_hash_chain s = [] \<or> 1 \<le> k \<and> k \<le> l \<and> progress k (so_flow s))"

definition chain_inv :: "signoff \<Rightarrow> bool" where
  "chain_inv s \<longleftrightarrow> so_hash_chain s = [] \<and> so_current_seq s = 0 \<and> so_status s \<in> {SoDraft, SoCancelled} \<or>
     verify_nodes (genesis (so_id s)) (so_flow s) = Some (so_hash_chain s)"

definition wf_signoff :: "signoff \<Rightarrow> bool" where
  "wf_signoff s \<longleftrightarrow> flow_shape (so_flow s) \<and> stage_ok s \<and> chain_inv s \<and>
     (so_finished_at s \<noteq> None \<longleftrightarrow> so_status s \<in> {SoSigned, SoRejected, SoCancelled})"

lemma seq_ge: "map sn_seq ns = [i..<j] \<Longrightarrow> n \<in> set ns \<Longrightarrow> i \<le> sn_seq n"
proof -
  assume "map sn_seq ns = [i..<j]" "n \<in> set ns"
  then have "sn_seq n \<in> set [i..<j]" by (metis imageI set_map)
  then show ?thesis by simp
qed

lemma flow_seq_pos: "flow_shape flow \<Longrightarrow> n \<in> set flow \<Longrightarrow> 1 \<le> sn_seq n"
  unfolding flow_shape_def by (elim conjE) (rule seq_ge)

lemma waiting: "flow_shape flow \<Longrightarrow> progress 1 flow \<Longrightarrow> n \<in> set flow \<Longrightarrow> sn_status n = NodePending"
  using flow_seq_pos[of flow n] by (auto simp: progress_def)

lemma build_nodes_shape:
  assumes "build_nodes i seen items = Inr nodes"
  shows "map sn_seq nodes = [i..<i + length items] \<and> length nodes = length items \<and>
    distinct (map sn_signer nodes) \<and> set seen \<inter> sn_signer ` set nodes = {} \<and> [] \<notin> sn_signer ` set nodes \<and>
    (\<forall>n \<in> set nodes. sn_status n = NodePending)"
  using assms
proof (induction items arbitrary: i seen nodes)
  case (Cons item items)
  obtain signer0 role0 where item: "item = (signer0, role0)" by fastforce
  let ?signer = "py_strip signer0"
  from Cons.prems obtain rest where rest: "build_nodes (Suc i) (?signer # seen) items = Inr rest"
    and new: "?signer \<noteq> []" "?signer \<notin> set seen" and nodes: "nodes = \<lparr>sn_seq = i, sn_signer = ?signer,
      sn_role = py_strip role0, sn_status = NodePending, sn_signedAt = [], sn_comment = [], sn_hash = []\<rparr> # rest"
    by (auto simp: item Let_def split: if_splits sum.splits)
  from Cons.IH[OF rest] show ?case
    unfolding nodes using new by (auto simp: upt_rec[of i] simp del: upt_Suc)
qed simp

lemma validate_flow_shape:
  assumes "validate_flow signers = Inr nodes"
  shows "flow_shape nodes \<and> progress 1 nodes"
proof -
  from assms have "signers \<noteq> []" "length signers \<le> 10" "build_nodes 1 [] signers = Inr nodes"
    by (auto simp: validate_flow_def split: if_splits)
  with build_nodes_shape[OF this(3)] have shape: "flow_shape nodes" and "\<forall>n \<in> set nodes. sn_status n = NodePending"
    by (auto simp: flow_shape_def)
  with flow_seq_pos[OF shape] show ?thesis by (force simp: progress_def)
qed

text \<open>The flow around its \<open>k\<close>-th node.\<close>

lemma flow_split:
  assumes "flow_shape flow" and "1 \<le> k" and "k \<le> length flow"
  obtains pre node post where "flow = pre @ node # post" "sn_seq node = k" "length pre = k - 1"
    "\<forall>n \<in> set pre. sn_seq n < k" "\<forall>n \<in> set post. k < sn_seq n"
proof (rule that)
  let ?i = "k - 1"
  have i: "?i < length flow" using assms(2,3) by simp
  then show "flow = take ?i flow @ flow ! ?i # drop k flow"
    using id_take_nth_drop[OF i] assms(2) by simp
  have seq: "sn_seq (flow ! j) = Suc j" if "j < length flow" for j
    using assms(1) that nth_map[OF that, of sn_seq] by (simp add: flow_shape_def del: nth_map upt_Suc)
  show "sn_seq (flow ! ?i) = k" using seq[OF i] assms(2) by simp
  show "length (take ?i flow) = k - 1" using i by simp
  show "\<forall>n \<in> set (take ?i flow). sn_seq n < k"
    using seq i by (auto simp: set_conv_nth)
  show "\<forall>n \<in> set (drop k flow). k < sn_seq n"
    using seq by (auto simp: set_conv_nth)
qed

lemma find_split: "\<forall>n \<in> set pre. \<not> P n \<Longrightarrow> P node \<Longrightarrow> find P (pre @ node # post) = Some node"
  by (induction pre) auto

lemma update_node_split:
  "\<forall>n \<in> set pre. sn_seq n < k \<Longrightarrow> sn_seq node = k \<Longrightarrow> update_node k f (pre @ node # post) = pre @ f node # post"
  by (induction pre) auto

lemma verify_append:
  "verify_nodes p (xs @ ys) = Option.bind (verify_nodes p xs) (\<lambda>q. verify_nodes q ys)"
  by (induction xs arbitrary: p) auto

lemma verify_pending: "\<forall>n \<in> set ns. sn_status n = NodePending \<Longrightarrow> verify_nodes p ns = Some p"
  by (induction ns) auto

lemma mark_node_simps [simp]:
  "sn_seq (mark_node c st comment p n) = sn_seq n" "sn_signer (mark_node c st comment p n) = sn_signer n"
  "sn_role (mark_node c st comment p n) = sn_role n" "sn_status (mark_node c st comment p n) = st"
  "node_hash p (mark_node c st comment p n) = sn_hash (mark_node c st comment p n)"
  by (simp_all add: mark_node_def node_hash_def node_text_def Let_def)

lemma mark_chain:
  assumes "verify_nodes g (pre @ node # post) = Some h" and "sn_status node = NodePending"
    and "\<forall>n \<in> set post. sn_status n = NodePending" and "st \<noteq> NodePending"
  shows "verify_nodes g (pre @ mark_node c st comment h node # post) = Some (sn_hash (mark_node c st comment h node))"
proof -
  have "verify_nodes g pre = Some h"
    using assms(1-3) by (auto simp: verify_append verify_pending split: bind_splits)
  moreover have "st \<in> {NodeSigned, NodeRejected}" using assms(4) by (cases st) auto
  ultimately show ?thesis using assms(3) by (simp add: verify_append verify_pending)
qed

lemma flow_shape_mark:
  "flow_shape (pre @ node # post) \<Longrightarrow> flow_shape (pre @ mark_node c st comment h node # post)"
  by (simp add: flow_shape_def)

section \<open>The steps on a row\<close>

text \<open>A pending sign-off around its current node.\<close>

definition at_node :: "signoff \<Rightarrow> sign_node list \<Rightarrow> sign_node \<Rightarrow> sign_node list \<Rightarrow> bool" where
  "at_node s pre node post \<longleftrightarrow> so_flow s = pre @ node # post \<and> sn_seq node = so_current_seq s \<and>
     length pre = so_current_seq s - 1 \<and> sn_status node = NodePending \<and>
     (\<forall>n \<in> set pre. sn_seq n < so_current_seq s \<and> sn_status n = NodeSigned) \<and>
     (\<forall>n \<in> set post. so_current_seq s < sn_seq n \<and> sn_status n = NodePending)"

lemma pending_split:
  assumes "wf_signoff s" and "so_status s = SoPending"
  obtains pre node post where "at_node s pre node post" "current_node s = Some node"
proof -
  have k: "1 \<le> so_current_seq s" "so_current_seq s \<le> length (so_flow s)" and p: "progress (so_current_seq s) (so_flow s)"
    using assms by (simp_all add: wf_signoff_def stage_ok_def Let_def)
  have shape: "flow_shape (so_flow s)" using assms(1) by (simp add: wf_signoff_def)
  from flow_split[OF shape k] obtain pre node post where f: "so_flow s = pre @ node # post"
    "sn_seq node = so_current_seq s" "length pre = so_current_seq s - 1"
    "\<forall>n \<in> set pre. sn_seq n < so_current_seq s" "\<forall>n \<in> set post. so_current_seq s < sn_seq n" by metis
  then have "current_node s = Some node"
    unfolding current_node_def f(1) by (intro find_split) auto
  moreover have "at_node s pre node post"
    using f p unfolding at_node_def progress_def by fastforce
  ultimately show ?thesis using that by blast
qed

lemma at_node_update:
  "at_node s pre node post \<Longrightarrow> update_node (so_current_seq s) f (so_flow s) = pre @ f node # post"
  unfolding at_node_def by (metis update_node_split)

text \<open>What \<open>sign\<close> makes of a well-formed row.\<close>

lemma sign_row_InrD:
  assumes "wf_signoff s" and "sign_row c vp u pw comment s = Inr s'"
  obtains pre node post where "so_status s = SoPending" "at_node s pre node post" "sn_signer node = us_username u"
    "pw \<noteq> []" "vp pw (us_password_hash u)"
    "s' = (let n' = mark_node c NodeSigned comment (so_hash_chain s) node;
               s1 = s\<lparr>so_flow := pre @ n' # post, so_hash_chain := sn_hash n'\<rparr>
           in if post = [] then s1\<lparr>so_status := SoSigned, so_finished_at := Some (utc c 1)\<rparr>
              else s1\<lparr>so_current_seq := so_current_seq s + 1\<rparr>)"
proof -
  from assms(2) have st: "so_status s = SoPending" by (simp add: sign_row_def split: if_splits)
  from pending_split[OF assms(1) st] obtain pre node post where
    a: "at_node s pre node post" "current_node s = Some node" by blast
  have "length (so_flow s) \<le> so_current_seq s \<longleftrightarrow> post = []"
    using a(1) assms(1) st by (cases post) (auto simp: at_node_def wf_signoff_def stage_ok_def Let_def)
  with that[OF st a(1)] assms(2) st a(2) at_node_update[OF a(1)] show ?thesis
    by (simp add: sign_row_def Let_def split: if_splits)
qed

lemma reject_row_InrD:
  assumes "wf_signoff s" and "reject_row c vp u pw reason s = Inr s'"
  obtains pre node post where "so_status s = SoPending" "at_node s pre node post" "sn_signer node = us_username u"
    "pw \<noteq> []" "vp pw (us_password_hash u)"
    "s' = (let n' = mark_node c NodeRejected reason (so_hash_chain s) node
           in s\<lparr>so_flow := pre @ n' # post, so_hash_chain := sn_hash n', so_status := SoRejected,
                so_finished_at := Some (utc c 1)\<rparr>)"
proof -
  from assms(2) have st: "so_status s = SoPending" by (simp add: reject_row_def split: if_splits)
  from pending_split[OF assms(1) st] obtain pre node post where
    a: "at_node s pre node post" "current_node s = Some node" by blast
  with that[OF st a(1)] assms(2) st at_node_update[OF a(1)] show ?thesis
    by (simp add: reject_row_def Let_def split: if_splits)
qed

lemma pending_chain:
  assumes "wf_signoff s" and "so_status s = SoPending" and "at_node s pre node post" and "st \<noteq> NodePending"
  shows "verify_nodes (genesis (so_id s)) (pre @ mark_node c st comment (so_hash_chain s) node # post) =
    Some (sn_hash (mark_node c st comment (so_hash_chain s) node))"
  using assms by (intro mark_chain) (auto simp: wf_signoff_def chain_inv_def at_node_def)

lemma sign_row_wf:
  assumes "wf_signoff s" and "sign_row c vp u pw comment s = Inr s'"
  shows "wf_signoff s'"
proof -
  from sign_row_InrD[OF assms] obtain pre node post where st: "so_status s = SoPending" and a: "at_node s pre node post"
    and s': "s' = (let n' = mark_node c NodeSigned comment (so_hash_chain s) node;
               s1 = s\<lparr>so_flow := pre @ n' # post, so_hash_chain := sn_hash n'\<rparr>
           in if post = [] then s1\<lparr>so_status := SoSigned, so_finished_at := Some (utc c 1)\<rparr>
              else s1\<lparr>so_current_seq := so_current_seq s + 1\<rparr>)" by metis
  have f: "so_flow s = pre @ node # post" using a by (simp add: at_node_def)
  have k: "1 \<le> so_current_seq s" "so_current_seq s \<le> length (so_flow s)" "so_finished_at s = None"
    using assms(1) st by (auto simp: wf_signoff_def stage_ok_def Let_def)
  have shape: "flow_shape (pre @ mark_node c NodeSigned comment (so_hash_chain s) node # post)"
    using assms(1) f by (intro flow_shape_mark) (simp add: wf_signoff_def)
  note chain = pending_chain[OF assms(1) st a, of NodeSigned c comment]
  show ?thesis
  proof (cases post)
    case Nil
    then have "so_current_seq s = Suc (length pre)" using a k by (auto simp: at_node_def)
    with Nil s' shape chain k a st show ?thesis
      by (auto simp: wf_signoff_def stage_ok_def chain_inv_def Let_def progress_def at_node_def)
  next
    case (Cons n ns)
    then have "so_current_seq s + 1 \<le> length (so_flow s)" using a k by (auto simp: at_node_def)
    with Cons s' shape chain k a st f show ?thesis
      by (auto simp: wf_signoff_def stage_ok_def chain_inv_def Let_def progress_def at_node_def)
  qed
qed

lemma reject_row_wf:
  assumes "wf_signoff s" and "reject_row c vp u pw reason s = Inr s'"
  shows "wf_signoff s'"
proof -
  from reject_row_InrD[OF assms] obtain pre node post where st: "so_status s = SoPending" and a: "at_node s pre node post"
    and s': "s' = (let n' = mark_node c NodeRejected reason (so_hash_chain s) node
           in s\<lparr>so_flow := pre @ n' # post, so_hash_chain := sn_hash n', so_status := SoRejected,
                so_finished_at := Some (utc c 1)\<rparr>)" by metis
  have f: "so_flow s = pre @ node # post" using a by (simp add: at_node_def)
  have k: "1 \<le> so_current_seq s" "so_current_seq s \<le> length (so_flow s)"
    using assms(1) st by (auto simp: wf_signoff_def stage_ok_def Let_def)
  have "flow_shape (pre @ mark_node c NodeRejected reason (so_hash_chain s) node # post)"
    using assms(1) f by (intro flow_shape_mark) (simp add: wf_signoff_def)
  with s' k a f pending_chain[OF assms(1) st a, of NodeRejected c reason] show ?thesis
    by (auto simp: wf_signoff_def stage_ok_def chain_inv_def Let_def refused_at_def at_node_def)
qed

lemma submit_row_wf:
  assumes "wf_signoff s" and "submit_signoff_row docs s = Inr s'"
  shows "wf_signoff s'"
proof -
  from assms(2) obtain d where s': "so_status s = SoDraft" "s' = s\<lparr>so_doc_fingerprint := fingerprint d,
      so_hash_chain := genesis (so_id s), so_status := SoPending, so_current_seq := 1\<rparr>"
    by (auto simp: submit_signoff_row_def split: if_splits sum.splits)
  have "flow_shape (so_flow s)" "progress 1 (so_flow s)" "so_finished_at s = None"
    using assms(1) s'(1) by (auto simp: wf_signoff_def stage_ok_def Let_def)
  moreover from this have "1 \<le> length (so_flow s)" by (cases "so_flow s") (auto simp: flow_shape_def)
  moreover have "\<forall>n \<in> set (so_flow s). sn_status n = NodePending"
    using waiting \<open>flow_shape (so_flow s)\<close> \<open>progress 1 (so_flow s)\<close> by blast
  ultimately show ?thesis
    using s'(2) by (simp add: wf_signoff_def stage_ok_def chain_inv_def Let_def verify_pending)
qed

lemma cancel_row_wf:
  "wf_signoff s \<Longrightarrow> cancel_row c username is_admin s = Inr s' \<Longrightarrow> wf_signoff s'"
  by (cases "so_status s") (auto simp: cancel_row_def wf_signoff_def stage_ok_def chain_inv_def Let_def split: if_splits)

lemma commit_alone:
  "commit_columns c s s1 s = s\<lparr>so_status := so_status s1, so_flow := so_flow s1, so_current_seq := so_current_seq s1,
     so_doc_fingerprint := so_doc_fingerprint s1, so_hash_chain := so_hash_chain s1, so_finished_at := so_finished_at s1,
     so_updated_at := sqlnow c\<rparr>"
  by (simp add: commit_columns_def changed_def)

end
