(* ===== verification/SignoffClaims.thy ===== *)
theory SignoffClaims
  imports SignoffLaws
begin

text \<open>
  What the sign-off service guarantees over its table and event log, how far its verification
  reaches, and where a late commit undoes a signature.
\<close>

section \<open>The tables\<close>

text \<open>The signatures the log has of a sign-off, and those in its flow.\<close>

definition trail :: "signoff_event list \<Rightarrow> pystr \<Rightarrow> (pystr \<times> nat) list" where
  "trail events i = map (\<lambda>e. (se_actor e, se_node_seq e))
     (filter (\<lambda>e. se_signoff_id e = i \<and> se_action e = asc ''sign'') events)"

definition signatures :: "signoff \<Rightarrow> (pystr \<times> nat) list" where
  "signatures s = map (\<lambda>n. (sn_signer n, sn_seq n)) (filter (\<lambda>n. sn_status n = NodeSigned) (so_flow s))"

definition wf_signoffs :: "signoff_db \<Rightarrow> bool" where
  "wf_signoffs db \<longleftrightarrow> distinct (map so_id (sd_signoffs db)) \<and>
     (\<forall>e \<in> set (sd_events db). se_signoff_id e \<in> so_id ` set (sd_signoffs db)) \<and>
     (\<forall>s \<in> set (sd_signoffs db). wf_signoff s \<and> trail (sd_events db) (so_id s) = signatures s)"

text \<open>A step that keeps the row well formed and adds to the signatures what it logs.\<close>

definition logged_step :: "(signoff \<Rightarrow> signoff res) \<Rightarrow> (signoff \<Rightarrow> signoff \<Rightarrow> signoff_event) \<Rightarrow> bool" where
  "logged_step step event \<longleftrightarrow> (\<forall>s s1. wf_signoff s \<longrightarrow> step s = Inr s1 \<longrightarrow>
     wf_signoff s1 \<and> so_id s1 = so_id s \<and> se_signoff_id (event s s1) = so_id s \<and>
     signatures s1 = signatures s @
       (if se_action (event s s1) = asc ''sign'' then [(se_actor (event s s1), se_node_seq (event s s1))] else []))"

lemma get_signoff_InrD: "get_signoff db i tn = Inr s \<Longrightarrow> s \<in> set (sd_signoffs db) \<and> so_id s = i \<and> so_tenant s = tn"
  by (auto simp: get_signoff_def dest: found_row split: option.splits)

lemma commit_alone_facts [simp]:
  "so_id (commit_columns c s s1 s) = so_id s"
  "signatures (commit_columns c s s1 s) = signatures s1"
  by (simp_all add: commit_alone signatures_def)

lemma commit_alone_wf: "wf_signoff s1 \<Longrightarrow> so_id s1 = so_id s \<Longrightarrow> wf_signoff (commit_columns c s s1 s)"
  by (simp add: commit_alone wf_signoff_def stage_ok_def chain_inv_def cong: signoff_status.case_cong)

lemma trail_append: "trail (es @ [e]) i = trail es i @ (if se_signoff_id e = i \<and> se_action e = asc ''sign''
    then [(se_actor e, se_node_seq e)] else [])"
  by (simp add: trail_def)

lemma on_signoff_wf:
  assumes "wf_signoffs db" and "logged_step step event"
  shows "wf_signoffs (kept db (on_signoff c i tn step event db))"
proof (cases "on_signoff c i tn step event db")
  case (Inr r)
  then obtain s s1 where s: "get_signoff db i tn = Inr s" "step s = Inr s1"
    and r: "r = (commit_columns c s s1 s, db\<lparr>sd_signoffs := put_row so_id (commit_columns c s s1 s) (sd_signoffs db),
      sd_events := sd_events db @ [event s s1]\<rparr>)"
    by (auto simp: on_signoff_def Let_def split: sum.splits)
  let ?s = "commit_columns c s s1 s"
  have m: "s \<in> set (sd_signoffs db)" using get_signoff_InrD[OF s(1)] by simp
  with assms(1) have ws: "wf_signoff s" "trail (sd_events db) (so_id s) = signatures s" by (simp_all add: wf_signoffs_def)
  with assms(2) s(2) have st: "wf_signoff s1" "so_id s1 = so_id s" "se_signoff_id (event s s1) = so_id s"
    "signatures s1 = signatures s @
      (if se_action (event s s1) = asc ''sign'' then [(se_actor (event s s1), se_node_seq (event s s1))] else [])"
    unfolding logged_step_def by blast+
  have "wf_signoff x \<and> trail (sd_events db @ [event s s1]) (so_id x) = signatures x"
    if "x \<in> set (put_row so_id ?s (sd_signoffs db))" for x
    using put_row_set[OF that]
  proof
    assume "x = ?s"
    then show ?thesis using st ws commit_alone_wf[OF st(1,2), of c] by (simp add: trail_append)
  next
    assume "x \<in> set (sd_signoffs db) \<and> so_id x \<noteq> so_id ?s"
    then show ?thesis using assms(1) st(3) by (auto simp: wf_signoffs_def trail_append)
  qed
  moreover have "so_id ` set (put_row so_id ?s (sd_signoffs db)) = so_id ` set (sd_signoffs db)"
    by (metis map_key_put_row set_map)
  ultimately show ?thesis
    using assms(1) m st(3) unfolding Inr r kept_def wf_signoffs_def by (auto simp: map_key_put_row)
qed (use assms(1) in \<open>simp add: kept_def\<close>)

lemma signatures_at:
  "at_node s pre node post \<Longrightarrow> signatures s = map (\<lambda>n. (sn_signer n, sn_seq n)) pre"
  by (auto simp: at_node_def signatures_def filter_empty_conv intro: filter_True)

lemma signatures_split:
  "so_flow s = pre @ node # post \<Longrightarrow> \<forall>n \<in> set pre. sn_status n = NodeSigned \<Longrightarrow> \<forall>n \<in> set post. sn_status n = NodePending \<Longrightarrow>
   signatures s = map (\<lambda>n. (sn_signer n, sn_seq n)) pre @ (if sn_status node = NodeSigned then [(sn_signer node, sn_seq node)] else [])"
  by (auto simp: signatures_def filter_empty_conv intro: filter_True)

lemma sign_logged:
  "logged_step (sign_row c vp u pw comment)
     (\<lambda>s s1. log_event c s (asc ''sign'') (us_username u) (so_current_seq s) (d s))"
  unfolding logged_step_def
proof (intro allI impI)
  fix s s1
  assume h: "wf_signoff s" "sign_row c vp u pw comment s = Inr s1"
  from sign_row_InrD[OF h] obtain pre node post where a: "at_node s pre node post" "sn_signer node = us_username u"
    and s1: "s1 = (let n' = mark_node c NodeSigned comment (so_hash_chain s) node;
               s1 = s\<lparr>so_flow := pre @ n' # post, so_hash_chain := sn_hash n'\<rparr>
           in if post = [] then s1\<lparr>so_status := SoSigned, so_finished_at := Some (utc c 1)\<rparr>
              else s1\<lparr>so_current_seq := so_current_seq s + 1\<rparr>)" by metis
  have "signatures s1 = signatures s @ [(us_username u, so_current_seq s)]"
    using signatures_split[of s1 pre "mark_node c NodeSigned comment (so_hash_chain s) node" post]
      signatures_at[OF a(1)] a by (auto simp: s1 at_node_def Let_def)
  moreover have "so_id s1 = so_id s" by (simp add: s1 Let_def)
  ultimately show "wf_signoff s1 \<and> so_id s1 = so_id s \<and>
     se_signoff_id (log_event c s (asc ''sign'') (us_username u) (so_current_seq s) (d s)) = so_id s \<and>
     signatures s1 = signatures s @
       (if se_action (log_event c s (asc ''sign'') (us_username u) (so_current_seq s) (d s)) = asc ''sign''
        then [(se_actor (log_event c s (asc ''sign'') (us_username u) (so_current_seq s) (d s)),
          se_node_seq (log_event c s (asc ''sign'') (us_username u) (so_current_seq s) (d s)))] else [])"
    using sign_row_wf[OF h] by (simp add: log_event_def)
qed

text \<open>The other actions log nothing of the kind and sign nothing.\<close>

lemma unsigned_logged:
  assumes "\<And>s s1. wf_signoff s \<Longrightarrow> step s = Inr s1 \<Longrightarrow> wf_signoff s1 \<and> so_id s1 = so_id s \<and> signatures s1 = signatures s"
    and "action \<noteq> asc ''sign''"
  shows "logged_step step (\<lambda>s s1. log_event c s action actor (k s) (d s))"
  unfolding logged_step_def
proof (intro allI impI)
  fix s s1
  assume "wf_signoff s" "step s = Inr s1"
  from assms(1)[OF this] assms(2) show "wf_signoff s1 \<and> so_id s1 = so_id s \<and>
     se_signoff_id (log_event c s action actor (k s) (d s)) = so_id s \<and>
     signatures s1 = signatures s @ (if se_action (log_event c s action actor (k s) (d s)) = asc ''sign''
       then [(se_actor (log_event c s action actor (k s) (d s)), se_node_seq (log_event c s action actor (k s) (d s)))] else [])"
    by (simp add: log_event_def)
qed

lemma reject_unsigned:
  assumes "wf_signoff s" and "reject_row c vp u pw reason s = Inr s1"
  shows "wf_signoff s1 \<and> so_id s1 = so_id s \<and> signatures s1 = signatures s"
proof -
  from reject_row_InrD[OF assms] obtain pre node post where a: "at_node s pre node post"
    and s1: "s1 = (let n' = mark_node c NodeRejected reason (so_hash_chain s) node
           in s\<lparr>so_flow := pre @ n' # post, so_hash_chain := sn_hash n', so_status := SoRejected,
                so_finished_at := Some (utc c 1)\<rparr>)" by metis
  have "signatures s1 = signatures s"
    using signatures_split[of s1 pre "mark_node c NodeRejected reason (so_hash_chain s) node" post]
      signatures_at[OF a] a by (auto simp: s1 at_node_def Let_def)
  with reject_row_wf[OF assms] show ?thesis by (simp add: s1 Let_def)
qed

lemma submit_unsigned:
  "wf_signoff s \<Longrightarrow> submit_signoff_row docs s = Inr s1 \<Longrightarrow> wf_signoff s1 \<and> so_id s1 = so_id s \<and> signatures s1 = signatures s"
  using submit_row_wf[of s docs s1]
  by (auto simp: submit_signoff_row_def signatures_def split: if_splits sum.splits)

lemma cancel_unsigned:
  "wf_signoff s \<Longrightarrow> cancel_row c username is_admin s = Inr s1 \<Longrightarrow>
   wf_signoff s1 \<and> so_id s1 = so_id s \<and> signatures s1 = signatures s"
  using cancel_row_wf[of s c username is_admin s1]
  by (auto simp: cancel_row_def signatures_def split: if_splits)

lemma create_wf:
  assumes "wf_signoffs db"
  shows "wf_signoffs (kept db (create_signoff c uuid docs doc_id title signers u db))"
proof (cases "create_signoff c uuid docs doc_id title signers u db")
  case (Inr r)
  then obtain d nodes where v: "validate_flow signers = Inr nodes" and new: "uuid \<notin> so_id ` set (sd_signoffs db)"
    and r: "snd r = db\<lparr>sd_signoffs := sd_signoffs db @ [new_signoff c uuid d title nodes (us_tenant_id u) (us_username u)],
       sd_events := sd_events db @ [log_event c (new_signoff c uuid d title nodes (us_tenant_id u) (us_username u))
         (asc ''create'') (us_username u) 0 (dec_nat (length nodes) @ (asc '' '' @ [0x8282, 0x70b9, 0x4f1a, 0x7b7e, 0x6d41, 0x521b, 0x5efa]))]\<rparr>" (is "snd r = db\<lparr>sd_signoffs := _ @ [?s], sd_events := _ @ [?e]\<rparr>")
    by (auto simp: create_signoff_def Let_def split: sum.splits if_splits)
  have "se_signoff_id ?e = uuid" "se_action ?e = asc ''create''" "so_id ?s = uuid"
    by (simp_all add: log_event_def new_signoff_def)
  moreover have "wf_signoff ?s" "signatures ?s = []"
    using validate_flow_shape[OF v] waiting[of nodes]
    by (auto simp: wf_signoff_def new_signoff_def stage_ok_def chain_inv_def signatures_def filter_empty_conv)
  moreover have "trail (sd_events db) uuid = []"
    using assms new by (auto simp: trail_def filter_empty_conv wf_signoffs_def)
  ultimately have "wf_signoffs (snd r)"
    using assms new unfolding r wf_signoffs_def by (auto simp: trail_append)
  then show ?thesis by (cases r) (simp add: Inr kept_def)
qed (use assms in \<open>simp add: kept_def\<close>)

lemma signoff_step_wf: "wf_signoffs db \<Longrightarrow> wf_signoffs (signoff_step op db)"
proof (cases op)
  case (SoSubmit c docs i tn username)
  then show "wf_signoffs db \<Longrightarrow> ?thesis"
    by (auto simp: submit_signoff_def intro!: on_signoff_wf unsigned_logged dest: submit_unsigned)
next
  case (SoSign c vp i tn u pw comment)
  then show "wf_signoffs db \<Longrightarrow> ?thesis"
    by (auto simp: sign_def intro!: on_signoff_wf sign_logged)
next
  case (SoReject c vp i tn u pw reason)
  then show "wf_signoffs db \<Longrightarrow> ?thesis"
    by (auto simp: reject_def intro!: on_signoff_wf unsigned_logged dest: reject_unsigned)
next
  case (SoCancel c i tn username is_admin)
  then show "wf_signoffs db \<Longrightarrow> ?thesis"
    by (auto simp: cancel_signoff_def intro!: on_signoff_wf unsigned_logged dest: cancel_unsigned)
qed (simp add: create_wf)

interpretation signoffs: invariant_ops signoff_step wf_signoffs
  by unfold_locales (rule signoff_step_wf)

lemma wf_signoff_runs: "wf_signoffs (fold signoff_step ops empty_signoffs)"
  by (rule signoffs.run_inv) (simp add: wf_signoffs_def empty_signoffs_def)

lemma run_signoff:
  "s \<in> set (sd_signoffs (fold signoff_step ops empty_signoffs)) \<Longrightarrow> wf_signoff s"
  using wf_signoff_runs[of ops] by (simp add: wf_signoffs_def)

section \<open>Properties\<close>

lemma chain_inv_ok: "chain_inv s \<Longrightarrow> flow_shape (so_flow s) \<Longrightarrow> stage_ok s \<Longrightarrow> chain_ok s"
  using waiting[of "so_flow s"]
  by (cases "so_status s") (auto simp: chain_inv_def chain_ok_def stage_ok_def Let_def verify_pending split: option.splits)

lemma wf_chain_ok: "wf_signoff s \<Longrightarrow> chain_ok s"
  by (simp add: wf_signoff_def chain_inv_ok)

text \<open>The signed nodes are a prefix of the flow.\<close>

lemma signed_below:
  assumes "flow_shape flow" and "\<And>n. n \<in> set flow \<Longrightarrow> sn_status n = NodeSigned \<longleftrightarrow> sn_seq n < k" and "1 \<le> k" and "k \<le> Suc (length flow)"
  shows "filter (\<lambda>n. sn_status n = NodeSigned) flow = take (k - 1) flow"
proof -
  have seq: "sn_seq (flow ! j) = Suc j" if "j < length flow" for j
    using assms(1) that nth_map[OF that, of sn_seq] by (simp add: flow_shape_def del: nth_map upt_Suc)
  then have st: "sn_status (flow ! j) = NodeSigned \<longleftrightarrow> Suc j < k" if "j < length flow" for j
    using assms(2)[OF nth_mem[OF that]] that by simp
  have "filter (\<lambda>n. sn_status n = NodeSigned) (take (k - 1) flow @ drop (k - 1) flow) = take (k - 1) flow"
    unfolding filter_append
  proof (rule arg_cong2[of _ _ _ "[]" "(@)", THEN trans])
    show "filter (\<lambda>n. sn_status n = NodeSigned) (take (k - 1) flow) = take (k - 1) flow"
      using assms(3,4) st by (intro filter_True) (auto simp: set_conv_nth)
    show "filter (\<lambda>n. sn_status n = NodeSigned) (drop (k - 1) flow) = []"
      using assms(3,4) st by (auto simp: filter_empty_conv set_conv_nth)
  qed simp
  then show ?thesis by simp
qed

lemma signed_prefix:
  assumes "wf_signoff s"
  shows "\<exists>k \<le> length (so_flow s). filter (\<lambda>n. sn_status n = NodeSigned) (so_flow s) = take k (so_flow s) \<and>
    (so_status s = SoSigned \<longleftrightarrow> k = length (so_flow s))"
proof -
  have shape: "flow_shape (so_flow s)" using assms by (simp add: wf_signoff_def)
  then have ne: "0 < length (so_flow s)" by (simp add: flow_shape_def)
  define k where "k = (if so_status s = SoSigned then Suc (length (so_flow s)) else if so_current_seq s = 0 then 1 else so_current_seq s)"
  have stage: "stage_ok s" using assms by (simp add: wf_signoff_def)
  then have k: "1 \<le> k" "k \<le> Suc (length (so_flow s))" "so_status s \<noteq> SoSigned \<Longrightarrow> k \<le> length (so_flow s)"
    using ne by (cases "so_status s"; simp add: k_def stage_ok_def Let_def; linarith)+
  have st: "sn_status n = NodeSigned \<longleftrightarrow> sn_seq n < k" if n: "n \<in> set (so_flow s)" for n
    using stage n flow_seq_pos[OF shape n]
    by (cases "so_status s") (auto simp: k_def stage_ok_def Let_def progress_def refused_at_def split: if_splits)
  show ?thesis
    using signed_below[OF shape st k(1,2)] k ne by (intro exI[of _ "k - 1"]) (auto simp: k_def)
qed

text \<open>After any run of the sign-off service the verification finds the hash chain of every sign-off
  intact, whatever its stage, and calls the sign-off valid exactly when it was never submitted or
  its document still has the fingerprint of the submission.\<close>

theorem untouched_signoffs_verify:
  assumes "verify_signoff docs i tn (fold signoff_step ops empty_signoffs) = Inr r"
    and "get_signoff (fold signoff_step ops empty_signoffs) i tn = Inr s"
  shows "vr_chain_ok r \<and> (vr_valid r \<longleftrightarrow> so_doc_fingerprint s = [] \<or>
    (\<exists>d. get_row dc_id (so_doc_id s) docs = Some d \<and> fingerprint d = so_doc_fingerprint s))"
proof -
  have "chain_ok s" using get_signoff_InrD[OF assms(2)] run_signoff wf_chain_ok by blast
  then show ?thesis
    using assms by (auto simp: verify_signoff_def doc_changed_def get_document_def split: option.splits if_splits)
qed

text \<open>C21: In any run the signatures of a sign-off and its log agree, entry by entry: the nodes signed are the
  first ones of the flow, in its order, each logged once as signed by its own signer; the sign-off
  is signed exactly when all of its nodes are.\<close>

theorem signers_sign_in_turn:
  assumes "s \<in> set (sd_signoffs (fold signoff_step ops empty_signoffs))"
  shows "\<exists>k. trail (sd_events (fold signoff_step ops empty_signoffs)) (so_id s) =
      map (\<lambda>n. (sn_signer n, sn_seq n)) (take k (so_flow s)) \<and>
    map sn_seq (take k (so_flow s)) = [1..<Suc k] \<and> distinct (map sn_signer (so_flow s)) \<and>
    (so_status s = SoSigned \<longleftrightarrow> k = length (so_flow s))"
proof -
  have t: "trail (sd_events (fold signoff_step ops empty_signoffs)) (so_id s) = signatures s"
    using wf_signoff_runs[of ops] assms by (simp add: wf_signoffs_def)
  from signed_prefix[OF run_signoff[OF assms]] obtain k where "k \<le> length (so_flow s)"
    "filter (\<lambda>n. sn_status n = NodeSigned) (so_flow s) = take k (so_flow s)"
    "so_status s = SoSigned \<longleftrightarrow> k = length (so_flow s)" by blast
  moreover have "flow_shape (so_flow s)" using run_signoff[OF assms] by (simp add: wf_signoff_def)
  ultimately show ?thesis
    unfolding t signatures_def by (intro exI[of _ k]) (simp add: flow_shape_def take_map[symmetric] take_upt del: upt_Suc)
qed

section \<open>Tampering\<close>










text \<open>The chain does not cover the outcome: when the refusal of a sign-off is changed into an approval
  in the database (the status of the sign-off and of the refused node), the verification reports
  the same as before.\<close>

theorem a_refusal_can_be_turned:
  assumes "s \<in> set (sd_signoffs (fold signoff_step ops empty_signoffs))" and "so_status s = SoRejected"
    and "s' = s\<lparr>so_status := SoSigned,
      so_flow := map (\<lambda>n. if sn_status n = NodeRejected then n\<lparr>sn_status := NodeSigned\<rparr> else n) (so_flow s)\<rparr>"
  shows "chain_ok s' \<and> doc_changed docs s' = doc_changed docs s \<and>
    (\<forall>n \<in> set (so_flow s'). sn_status n \<noteq> NodeRejected) \<and> (\<exists>n \<in> set (so_flow s). sn_status n = NodeRejected)"
proof (intro conjI)
  have wf: "wf_signoff s" by (rule run_signoff[OF assms(1)])
  have "verify_nodes g (map (\<lambda>n. if sn_status n = NodeRejected then n\<lparr>sn_status := NodeSigned\<rparr> else n) flow) = verify_nodes g flow" for g flow
    by (induction flow arbitrary: g) (auto simp: node_hash_def node_text_def)
  then show "chain_ok s'" using wf_chain_ok[OF wf] by (simp add: assms(3) chain_ok_def split: option.splits)
  show "doc_changed docs s' = doc_changed docs s" by (simp add: assms(3) doc_changed_def split: sum.splits)
  show "\<forall>n \<in> set (so_flow s'). sn_status n \<noteq> NodeRejected" by (auto simp: assms(3))
  have k: "1 \<le> so_current_seq s" "so_current_seq s \<le> length (so_flow s)" "refused_at (so_current_seq s) (so_flow s)"
    "flow_shape (so_flow s)" using wf assms(2) by (auto simp: wf_signoff_def stage_ok_def Let_def)
  from flow_split[OF k(4,1,2)] obtain pre node post where "so_flow s = pre @ node # post" "sn_seq node = so_current_seq s"
    by metis
  then show "\<exists>n \<in> set (so_flow s). sn_status n = NodeRejected" using k(3) by (auto simp: refused_at_def)
qed

lemma sign_row_flow:
  assumes "wf_signoff s" and "sign_row c vp u pw comment s = Inr s'"
  shows "\<exists>pre node post. at_node s pre node post \<and> sn_signer node = us_username u \<and>
    so_flow s' = pre @ mark_node c NodeSigned comment (so_hash_chain s) node # post \<and>
    (so_status s' = SoPending \<longleftrightarrow> post \<noteq> []) \<and> so_status s = SoPending"
proof -
  from sign_row_InrD[OF assms] obtain pre node post where st: "so_status s = SoPending" and a: "at_node s pre node post"
    and u: "sn_signer node = us_username u"
    and s': "s' = (let n' = mark_node c NodeSigned comment (so_hash_chain s) node;
               s1 = s\<lparr>so_flow := pre @ n' # post, so_hash_chain := sn_hash n'\<rparr>
           in if post = [] then s1\<lparr>so_status := SoSigned, so_finished_at := Some (utc c 1)\<rparr>
              else s1\<lparr>so_current_seq := so_current_seq s + 1\<rparr>)" by metis
  show ?thesis
    by (rule exI[of _ pre], rule exI[of _ node], rule exI[of _ post]) (use a u st in \<open>simp add: s' Let_def\<close>)
qed

lemma sign_row_pending: "sign_row c vp u pw comment s = Inr s' \<Longrightarrow> so_status s = SoPending"
  by (simp add: sign_row_def split: if_splits)

lemma sign_row_id: "sign_row c vp u pw comment s = Inr s' \<Longrightarrow> so_id s' = so_id s"
  by (auto simp: sign_row_def Let_def split: if_splits option.splits)

lemma at_node_unique:
  "at_node s pre node post \<Longrightarrow> at_node s pre' node' post' \<Longrightarrow> pre' = pre \<and> node' = node \<and> post' = post"
  by (auto simp: at_node_def)

text \<open>Signatures can be lost: when a signer's request is sent twice, and the second one, which loaded the
  sign-off before the first was committed, is committed only after the next signer has signed, the
  flow it writes has the next signer's node waiting again; a sign-off that was complete stays
  marked as signed. The chain it writes is intact.\<close>

theorem late_commit_erases_a_signature:
  assumes "s \<in> set (sd_signoffs (fold signoff_step ops empty_signoffs))"
    and "sign_row c vp u pw m s = Inr s1" and "sign_row c' vp u pw m s = Inr s1'"
    and "r1 = commit_columns c s s1 s" and "sign_row c2 vp u2 pw2 m2 r1 = Inr s2" and "r2 = commit_columns c2 r1 s2 r1"
    and "r3 = commit_columns c' s s1' r2"
  shows "so_status r3 = so_status r2 \<and> verify_nodes (genesis (so_id s)) (so_flow r3) = Some (so_hash_chain s1') \<and>
    (\<exists>n \<in> set (so_flow r2). sn_signer n = us_username u2 \<and> sn_status n = NodeSigned) \<and>
    (\<exists>n \<in> set (so_flow r3). sn_signer n = us_username u2 \<and> sn_status n = NodePending)"
proof -
  have wf: "wf_signoff s" by (rule run_signoff[OF assms(1)])
  from sign_row_flow[OF wf assms(2)] obtain pre node post where
    a: "at_node s pre node post" "so_flow s1 = pre @ mark_node c NodeSigned m (so_hash_chain s) node # post"
      "so_status s1 = SoPending \<longleftrightarrow> post \<noteq> []" by blast
  from sign_row_flow[OF wf assms(3)] obtain pre' node' post' where
    a': "at_node s pre' node' post'" "so_flow s1' = pre' @ mark_node c' NodeSigned m (so_hash_chain s) node' # post'"
      "so_status s1' = SoPending \<longleftrightarrow> post' \<noteq> []" by blast
  note same = at_node_unique[OF a(1) a'(1)]
  have "wf_signoff r1"
    unfolding assms(4) by (rule commit_alone_wf[OF sign_row_wf[OF wf assms(2)] sign_row_id[OF assms(2)]])
  from sign_row_flow[OF this assms(5)] obtain pre2 node2 post2 where
    b: "at_node r1 pre2 node2 post2" "sn_signer node2 = us_username u2"
      "so_flow s2 = pre2 @ mark_node c2 NodeSigned m2 (so_hash_chain r1) node2 # post2" "so_status r1 = SoPending" by blast
  have r1: "so_flow r1 = so_flow s1" "so_status r1 = so_status s1" by (simp_all add: assms(4) commit_alone)
  have n2: "node2 \<in> set (so_flow s1)" "sn_status node2 = NodePending" using b(1) r1(1) by (simp_all add: at_node_def)
  then have post: "node2 \<in> set post" using a(1,2) by (auto simp: at_node_def)
  have moved: "so_flow s1' \<noteq> so_flow s" using a'(1,2) by (auto simp: at_node_def dest: arg_cong[of _ _ sn_status])
  have "so_status s1' = so_status s"
    using a a' same b(4) r1(2) sign_row_pending[OF assms(3)] by simp
  then have r3: "so_flow r3 = so_flow s1'" "so_status r3 = so_status r2"
    using moved by (simp_all add: assms(7) commit_columns_def changed_def)
  have r2: "so_flow r2 = so_flow s2" by (simp add: assms(6) commit_alone)
  have "verify_nodes (genesis (so_id s)) (so_flow s1') = Some (so_hash_chain s1')"
    using sign_row_wf[OF wf assms(3)] sign_row_id[OF assms(3)] \<open>so_status s1' = so_status s\<close> sign_row_pending[OF assms(3)]
    by (simp add: wf_signoff_def chain_inv_def)
  moreover have "mark_node c2 NodeSigned m2 (so_hash_chain r1) node2 \<in> set (so_flow r2)" by (simp add: r2 b(3))
  moreover have "node2 \<in> set (so_flow r3)" using post same a'(2) by (simp add: r3(1))
  ultimately show ?thesis using r3 b(2) n2(2) by (metis mark_node_simps(2,4))
qed

section \<open>Witnesses\<close>

text \<open>A document, two people, and a sign-off of theirs that was submitted.\<close>

definition demo_doc :: document where
  "demo_doc = \<lparr>dc_id = asc ''d'', dc_doc_name = asc ''rules'', dc_file_size = 7, dc_status = asc ''parsed'',
     dc_chunk_count = 2, dc_dept = [], dc_allowed_roles = [], dc_tenant_id = asc ''t''\<rparr>"

definition demo_user :: "string \<Rightarrow> user" where
  "demo_user name = \<lparr>us_username = asc name, us_password_hash = asc ''h'', us_role = asc ''editor'',
     us_status = asc ''active'', us_dept = [], us_tenant_id = asc ''t''\<rparr>"

definition demo_signoffs :: "signoff_op list" where
  "demo_signoffs = [SoCreate (at_time 1) (asc ''a'') [demo_doc] (asc ''d'') (asc ''x'')
     [(asc ''li'', []), (asc ''wu'', [])] (demo_user ''li''), SoSubmit (at_time 2) [demo_doc] (asc ''a'') (asc ''t'') (asc ''li'')]"

definition waiting_node :: "nat \<Rightarrow> string \<Rightarrow> sign_node" where
  "waiting_node k name = \<lparr>sn_seq = k, sn_signer = asc name, sn_role = [], sn_status = NodePending,
     sn_signedAt = [], sn_comment = [], sn_hash = []\<rparr>"

definition demo_signoff :: signoff where
  "demo_signoff = \<lparr>so_id = asc ''a'', so_doc_id = asc ''d'', so_title = asc ''x'', so_status = SoPending,
     so_flow = [waiting_node 1 ''li'', waiting_node 2 ''wu''], so_current_seq = 1, so_doc_fingerprint = fingerprint demo_doc,
     so_hash_chain = genesis (asc ''a''), so_tenant = asc ''t'', so_created_by = asc ''li'', so_created_at = 1,
     so_updated_at = 2, so_finished_at = None\<rparr>"

lemma demo_doc_simps [simp]: "dc_id demo_doc = asc ''d''" "dc_doc_name demo_doc = asc ''rules''"
  by (simp_all add: demo_doc_def)

lemma demo_title: "py_or (take 200 (asc ''x'')) y = asc ''x''"
  by (simp add: asc_def py_or_def)

lemma demo_checked: "check_doc [demo_doc] (asc ''d'') (asc ''t'') = Inr demo_doc"
  "check_doc_acl [demo_doc] (asc ''d'') (asc ''t'') [] (asc ''editor'') = Inr demo_doc"
  by (simp_all add: check_doc_def check_doc_acl_def get_document_def demo_doc_def assert_acl_def)

lemma demo_flow: "validate_flow [(asc ''li'', []), (asc ''wu'', [])] = Inr [waiting_node 1 ''li'', waiting_node 2 ''wu'']"
  by (simp add: validate_flow_def waiting_node_def asc_def py_strip_def py_isspace_def Let_def)

lemma demo_run: "sd_signoffs (fold signoff_step demo_signoffs empty_signoffs) = [demo_signoff]"
  by (simp add: demo_signoffs_def empty_signoffs_def kept_def create_signoff_def demo_user_def demo_checked demo_flow
      new_signoff_def submit_signoff_def on_signoff_def get_signoff_def submit_signoff_row_def commit_alone
      demo_signoff_def demo_title Let_def)

lemma demo_get: "get_signoff (fold signoff_step demo_signoffs empty_signoffs) (asc ''a'') (asc ''t'') = Inr demo_signoff"
  by (simp add: get_signoff_def demo_run) (simp add: demo_signoff_def)

theorem untouched_signoffs_verify_witness:
  "\<exists>r. verify_signoff [demo_doc] (asc ''a'') (asc ''t'') (fold signoff_step demo_signoffs empty_signoffs) = Inr r \<and>
     vr_chain_ok r \<and> vr_valid r"
proof -
  obtain r where r: "verify_signoff [demo_doc] (asc ''a'') (asc ''t'') (fold signoff_step demo_signoffs empty_signoffs) = Inr r"
    by (simp add: verify_signoff_def demo_get)
  from untouched_signoffs_verify[OF r demo_get] r show ?thesis by (simp add: demo_signoff_def)
qed

theorem signers_sign_in_turn_witness:
  "\<exists>k. trail (sd_events (fold signoff_step demo_signoffs empty_signoffs)) (asc ''a'') =
     map (\<lambda>n. (sn_signer n, sn_seq n)) (take k [waiting_node 1 ''li'', waiting_node 2 ''wu''])"
  using signers_sign_in_turn[of demo_signoff demo_signoffs] by (auto simp: demo_run demo_signoff_def)


text \<open>Any password is right here; li signs at time 3, and once more at time 4; wu signs or refuses.\<close>

definition anyone :: "pystr \<Rightarrow> pystr \<Rightarrow> bool" where "anyone pw h = True"

lemma demo_pending_sign: "\<exists>s1. sign_row (at_time t) anyone (demo_user ''li'') (asc ''pw'') [] demo_signoff = Inr s1"
  by (simp add: sign_row_def demo_signoff_def current_node_def waiting_node_def demo_user_def anyone_def Let_def asc_def)

theorem late_commit_erases_a_signature_witness:
  "\<exists>(r2 :: signoff) (r3 :: signoff). so_status r2 = SoSigned \<and> so_status r3 = SoSigned \<and>
     (\<exists>n \<in> set (so_flow r3). sn_signer n = asc ''wu'' \<and> sn_status n = NodePending)"
proof -
  obtain s1 s1' where s: "sign_row (at_time 3) anyone (demo_user ''li'') (asc ''pw'') [] demo_signoff = Inr s1"
    "sign_row (at_time 4) anyone (demo_user ''li'') (asc ''pw'') [] demo_signoff = Inr s1'"
    using demo_pending_sign by metis
  obtain s2 where s2: "sign_row (at_time 5) anyone (demo_user ''wu'') (asc ''pw'') [] (commit_columns (at_time 3) demo_signoff s1 demo_signoff) = Inr s2"
    "so_status s2 = SoSigned"
    using s(1) by (auto simp: sign_row_def demo_signoff_def current_node_def waiting_node_def demo_user_def anyone_def
        Let_def asc_def commit_alone)
  let ?r1 = "commit_columns (at_time 3) demo_signoff s1 demo_signoff"
  let ?r2 = "commit_columns (at_time 5) ?r1 s2 ?r1"
  let ?r3 = "commit_columns (at_time 4) demo_signoff s1' ?r2"
  have m: "demo_signoff \<in> set (sd_signoffs (fold signoff_step demo_signoffs empty_signoffs))" by (simp add: demo_run)
  note c = late_commit_erases_a_signature[OF m s refl s2(1) refl refl]
  have 2: "so_status ?r2 = SoSigned" by (simp add: commit_alone s2(2))
  have 3: "so_status ?r3 = SoSigned" by (rule trans[OF conjunct1[OF c] 2])
  have "us_username (demo_user ''wu'') = asc ''wu''" by (simp add: demo_user_def)
  then have "\<exists>n \<in> set (so_flow ?r3). sn_signer n = asc ''wu'' \<and> sn_status n = NodePending"
    using c by (simp only: )
  with 2 3 show ?thesis by blast
qed

theorem a_refusal_can_be_turned_witness:
  "\<exists>ops s. s \<in> set (sd_signoffs (fold signoff_step ops empty_signoffs)) \<and> so_status s = SoRejected \<and>
     chain_ok (s\<lparr>so_status := SoSigned,
       so_flow := map (\<lambda>n. if sn_status n = NodeRejected then n\<lparr>sn_status := NodeSigned\<rparr> else n) (so_flow s)\<rparr>)"
proof -
  let ?ops = "demo_signoffs @ [SoReject (at_time 3) anyone (asc ''a'') (asc ''t'') (demo_user ''li'') (asc ''pw'') (asc ''no'')]"
  obtain s1 where s1: "reject_row (at_time 3) anyone (demo_user ''li'') (asc ''pw'') (asc ''no'') demo_signoff = Inr s1"
    "so_status s1 = SoRejected"
    by (simp add: reject_row_def demo_signoff_def current_node_def waiting_node_def demo_user_def anyone_def Let_def asc_def)
  let ?s = "commit_columns (at_time 3) demo_signoff s1 demo_signoff"
  have "sd_signoffs (fold signoff_step ?ops empty_signoffs) = [?s]"
    by (simp add: reject_def on_signoff_def demo_get s1(1) kept_def demo_run Let_def)
  then have m: "?s \<in> set (sd_signoffs (fold signoff_step ?ops empty_signoffs))" by simp
  have st: "so_status ?s = SoRejected" by (simp add: commit_alone s1(2))
  from a_refusal_can_be_turned[OF m st refl, of "[demo_doc]"] m st show ?thesis by blast
qed

end
