(* ===== verification/AlertDisposal.thy ===== *)
theory AlertDisposal
  imports TaskQueue AgentTools
begin

text \<open>
  The disposal of alerts: \<open>models/alert_disposal.py\<close> and \<open>services/alert_disposal_service.py\<close>. An
  alert is stored together with a task of the persistent queue; the task's handler lets the
  alert persona analyse it and stores the proposal; people confirm, refuse, close, or turn it
  into a work ticket. The state is the three tables involved. The handler works in two database
  sessions; what others do while the agent runs comes between \<open>agent_phase\<close> and \<open>write_phase\<close>.
\<close>

section \<open>The row\<close>

datatype disposal_status = DsPending | DsProposed | DsDisposed | DsConfirmed | DsRejected | DsTicketed | DsClosed

definition disposal_status_str :: "disposal_status \<Rightarrow> pystr" where
  "disposal_status_str s = asc (case s of DsPending \<Rightarrow> ''pending'' | DsProposed \<Rightarrow> ''proposed''
     | DsDisposed \<Rightarrow> ''disposed'' | DsConfirmed \<Rightarrow> ''confirmed'' | DsRejected \<Rightarrow> ''rejected''
     | DsTicketed \<Rightarrow> ''ticketed'' | DsClosed \<Rightarrow> ''closed'')"

record disposal =
  ad_id :: nat
  ad_tenant_id :: pystr
  ad_created_at :: time
  ad_severity :: pystr
  ad_title :: pystr
  ad_summary :: pystr
  ad_diagnosis_json :: pystr
  ad_handling :: pystr
  ad_ticket_draft_json :: pystr
  ad_status :: disposal_status
  ad_source :: pystr
  ad_ticket_id :: pystr
  ad_reviewer :: pystr
  ad_review_note :: pystr
  ad_reviewed_at :: "time option"

record alert_db =
  al_disposals :: "disposal list"
  al_tasks :: task_table
  al_tickets :: ticket_table

definition empty_alerts :: alert_db where
  "empty_alerts = \<lparr>al_disposals = [], al_tasks = [], al_tickets = []\<rparr>"

definition ALERT_TASK :: pystr where "ALERT_TASK = asc ''alert_disposal.process''"

definition disposal_tenant :: "pystr \<Rightarrow> pystr" where
  "disposal_tenant v = py_or (py_strip (py_or v (asc ''default''))) (asc ''default'')"

text \<open>The idempotency key of the task and the source reference of the ticket.\<close>

definition disposal_key :: "nat \<Rightarrow> pystr" where
  "disposal_key i = asc ''alert-disposal:'' @ dec_nat i"

definition find_disposal :: "nat \<Rightarrow> pystr \<Rightarrow> alert_db \<Rightarrow> disposal option" where
  "find_disposal i tenant db = find (\<lambda>d. ad_id d = i \<and> ad_tenant_id d = tenant) (al_disposals db)"

definition save_disposal :: "disposal \<Rightarrow> alert_db \<Rightarrow> alert_db" where
  "save_disposal d db = db\<lparr>al_disposals := put_row ad_id d (al_disposals db)\<rparr>"

section \<open>The trigger\<close>

definition new_disposal :: "clock \<Rightarrow> nat \<Rightarrow> pystr \<Rightarrow> pystr \<Rightarrow> pystr \<Rightarrow> pystr \<Rightarrow> pystr \<Rightarrow> disposal" where
  "new_disposal c i severity title summary source tenant = \<lparr>ad_id = i, ad_tenant_id = tenant,
     ad_created_at = sqlnow c, ad_severity = py_or severity (asc ''warning''), ad_title = take 256 title,
     ad_summary = take 2000 summary, ad_diagnosis_json = [], ad_handling = [], ad_ticket_draft_json = [],
     ad_status = DsPending, ad_source = source, ad_ticket_id = [], ad_reviewer = [], ad_review_note = [],
     ad_reviewed_at = None\<rparr>"

definition disposal_task :: "nat \<Rightarrow> pystr \<Rightarrow> pystr option \<Rightarrow> pystr \<Rightarrow> enqueue_args" where
  "disposal_task i alert_text model_type tenant = (default_enqueue_args ALERT_TASK)\<lparr>
     ea_payload := Some (PDict [(PStr (asc ''disposal_id''), PInt (int i)), (PStr (asc ''alert_text''), PStr alert_text),
       (PStr (asc ''model_type''), case model_type of Some m \<Rightarrow> PStr m | None \<Rightarrow> PNone)]),
     ea_queue := asc ''realtime'', ea_idempotency_key := disposal_key i, ea_tenant_id := tenant,
     ea_max_attempts := 3\<rparr>"

text \<open>One transaction: when the task cannot be stored, neither is the disposal.\<close>

definition trigger_disposal ::
  "clock \<Rightarrow> pystr \<Rightarrow> pystr \<Rightarrow> pystr \<Rightarrow> pystr \<Rightarrow> pystr \<Rightarrow> pystr option \<Rightarrow> pystr \<Rightarrow> alert_db \<Rightarrow> (nat \<times> alert_db) res" where
  "trigger_disposal c uuid severity title summary source model_type tenant_id db =
     (let tenant = disposal_tenant tenant_id;
          i = Suc (fold max (map ad_id (al_disposals db)) 0)
      in (case enqueue_task_record c uuid (al_tasks db) (al_tasks db)
              (disposal_task i (py_or summary title) model_type tenant) (al_tasks db) of
            Inl e \<Rightarrow> Inl e
          | Inr (t, tasks) \<Rightarrow> Inr (i, db\<lparr>
              al_disposals := al_disposals db @ [new_disposal c i severity title summary source tenant],
              al_tasks := tasks\<rparr>)))"

section \<open>The handler of the task\<close>

text \<open>
  What the analysis meets: the configuration of the agents, an exception of the provider, and
  what Python raises for a summary that is not a text when it is cut and stored.
\<close>

record disposal_env =
  de_llm :: llm
  de_settings :: persona_settings
  de_personas :: "persona_config list option"
  de_tools :: tool_env
  de_memory_enable :: bool
  de_auto_save :: bool
  de_recall :: pystr
  de_provider_error :: "exc option"
  de_bad_summary :: "json \<Rightarrow> exc"

definition system_ctx :: "pystr \<Rightarrow> agent_ctx" where
  "system_ctx tenant = no_ctx\<lparr>cx_username := asc ''system'', cx_tenant := tenant, cx_role := asc ''admin''\<rparr>"

text \<open>
  The fallback of the alert persona, which a row of the persona table keeps too: a fixed answer.
\<close>

definition alert_fallbacks :: "ticket_table fallbacks" where
  "alert_fallbacks fb user_msg w =
     (Some (JObj [(asc ''summary'', JStr [0x81ea, 0x52a8, 0x5904, 0x7f6e, 0x5931, 0x8d25, 0xff0c, 0x8bf7, 0x4eba, 0x5de5, 0x5206, 0x6790]), (asc ''diagnosis'', JStr []), (asc ''handling'', JStr []),
        (asc ''ticket'', JObj []), (asc ''risks'', JList [])]), w)"

definition no_disposal :: pystr where "no_disposal = [0x5904, 0x7f6e, 0x8bb0, 0x5f55, 0x4e0d, 0x5b58, 0x5728]"

text \<open>The answer of the agent as a dict.\<close>

definition answer_dict :: "json \<Rightarrow> (pystr \<times> json) list" where
  "answer_dict answer = (case answer of
     JObj kvs \<Rightarrow> kvs
   | v \<Rightarrow> [(asc ''summary'', JStr (take 500 (py_str v)))])"

text \<open>The first session: the analysis, which may act on tickets; its outcome is an exception or an answer.\<close>

definition agent_phase :: "disposal_env \<Rightarrow> nat \<Rightarrow> pystr \<Rightarrow> pystr \<Rightarrow> alert_db \<Rightarrow> (exc + (pystr \<times> json) list) \<times> alert_db" where
  "agent_phase env i alert_text tenant db =
     (case get_persona (de_settings env) (de_personas env) (asc ''alert'') of
        None \<Rightarrow> (Inl (asc ''AttributeError'', []), db)
      | Some p \<Rightarrow>
          (case find_disposal i tenant db of
             None \<Rightarrow> (Inl (asc ''ValueError'', no_disposal), db)
           | Some d \<Rightarrow>
               (case de_provider_error env of
                  Some e \<Rightarrow> (Inl e, db)
                | None \<Rightarrow>
                    let run = run_agent (de_llm env) (default_registry (de_settings env) (de_tools env)) alert_fallbacks
                          (de_memory_enable env) (de_auto_save env) (de_recall env) p ([0x544a, 0x8b66, 0xff1a] @ alert_text)
                          (Some (system_ctx tenant)) (al_tickets db)
                    in (Inr (answer_dict (ag_answer run)), db\<lparr>al_tickets := ag_world run\<rparr>))))"

definition propose :: "(pystr \<times> json) list \<Rightarrow> pystr \<Rightarrow> disposal \<Rightarrow> disposal" where
  "propose ans handling d = d\<lparr>
     ad_diagnosis_json := take 8000 (json_text (JObj ans)),
     ad_handling := take 2000 handling,
     ad_ticket_draft_json := take 4000 (json_text (case map_of ans (asc ''ticket'') of
         Some v \<Rightarrow> json_or v (JObj []) | None \<Rightarrow> JObj [])),
     ad_status := DsProposed\<rparr>"

definition failed_proposal :: "exc \<Rightarrow> disposal \<Rightarrow> disposal" where
  "failed_proposal e d = d\<lparr>ad_status := DsProposed,
     ad_handling := take 2000 (([0x81ea, 0x52a8, 0x5904, 0x7f6e, 0x5931, 0x8d25] @ asc '': '') @ fst e @ asc '': '' @ snd e)\<rparr>"

text \<open>
  The second session; in the failure case a third one. The status reported and whether the
  result is degraded.
\<close>

definition write_phase ::
  "disposal_env \<Rightarrow> nat \<Rightarrow> pystr \<Rightarrow> exc + (pystr \<times> json) list \<Rightarrow> alert_db \<Rightarrow> pystr \<times> bool \<times> alert_db" where
  "write_phase env i tenant outcome db =
     (case find_disposal i tenant db of
        None \<Rightarrow> (asc ''missing'', True, db)
      | Some d \<Rightarrow>
          (case outcome of
             Inl e \<Rightarrow> (asc ''proposed'', True, save_disposal (failed_proposal e d) db)
           | Inr ans \<Rightarrow>
               let summary = (case map_of ans (asc ''summary'') of Some v \<Rightarrow> v | None \<Rightarrow> JStr [])
               in if truthy summary \<and> (case summary of JStr s \<Rightarrow> False | _ \<Rightarrow> True)
                  then (asc ''proposed'', True, save_disposal (failed_proposal (de_bad_summary env summary) d) db)
                  else (asc ''proposed'', False,
                    save_disposal (propose ans (case summary of JStr s \<Rightarrow> s | _ \<Rightarrow> []) d) db)))"

definition run_disposal ::
  "disposal_env \<Rightarrow> (alert_db \<Rightarrow> alert_db) \<Rightarrow> nat \<Rightarrow> pystr \<Rightarrow> pystr \<Rightarrow> alert_db \<Rightarrow> pystr \<times> bool \<times> alert_db" where
  "run_disposal env between i alert_text tenant_id db =
     (let tenant = disposal_tenant tenant_id
      in (case agent_phase env i alert_text tenant db of (outcome, db1) \<Rightarrow>
            write_phase env i tenant outcome (between db1)))"

text \<open>
  The handler of the task type. The payload is the one of \<open>trigger_disposal\<close>: the id is an
  integer; texts that \<open>int\<close> would accept do not occur.
\<close>

definition alert_disposal_task_handler ::
  "disposal_env \<Rightarrow> (alert_db \<Rightarrow> alert_db) \<Rightarrow> (pystr \<times> json) list \<Rightarrow> pystr \<Rightarrow> alert_db \<Rightarrow> pystr res \<times> alert_db" where
  "alert_disposal_task_handler env between payload tenant db =
     (case map_of payload (asc ''disposal_id'') of
        None \<Rightarrow> (Inl (KeyError (asc ''disposal_id'')), db)
      | Some (JInt i) \<Rightarrow>
          (case run_disposal env between (nat i) (arg_text payload (asc ''alert_text'')) tenant db of
             (status, degr, db') \<Rightarrow>
               (if degr then Inl (RuntimeError (([0x544a, 0x8b66, 0x81ea, 0x52a8, 0x5904, 0x7f6e, 0x672a, 0x5b8c, 0x6210] @ asc '': '') @ status)) else Inr status, db'))
      | Some _ \<Rightarrow> (Inl TypeError, db))"

section \<open>The decisions of people\<close>

definition confirm_row :: "clock \<Rightarrow> pystr \<Rightarrow> disposal \<Rightarrow> disposal res" where
  "confirm_row c reviewer d =
     (if ad_status d \<notin> {DsProposed, DsDisposed}
      then Inl (ValueError (([0x5f53, 0x524d, 0x72b6, 0x6001] @ asc '' '') @ disposal_status_str (ad_status d) @ (asc '' '' @ [0x4e0d, 0x53ef, 0x786e, 0x8ba4, 0xff08, 0x9700] @ asc '' proposed'' @ [0xff09])))
      else Inr (d\<lparr>ad_status := DsConfirmed, ad_reviewer := reviewer, ad_reviewed_at := Some (utc c 0)\<rparr>))"

definition refuse_row :: "clock \<Rightarrow> pystr \<Rightarrow> pystr \<Rightarrow> disposal \<Rightarrow> disposal res" where
  "refuse_row c reviewer note d =
     (if ad_status d \<notin> {DsProposed, DsDisposed, DsConfirmed}
      then Inl (ValueError (([0x5f53, 0x524d, 0x72b6, 0x6001] @ asc '' '') @ disposal_status_str (ad_status d) @ (asc '' '' @ [0x4e0d, 0x53ef, 0x9a73, 0x56de])))
      else Inr (d\<lparr>ad_status := DsRejected, ad_reviewer := reviewer, ad_review_note := take 500 note,
             ad_reviewed_at := Some (utc c 0)\<rparr>))"

definition close_row :: "clock \<Rightarrow> pystr \<Rightarrow> pystr \<Rightarrow> disposal \<Rightarrow> disposal res" where
  "close_row c reviewer note d =
     (if ad_status d \<in> {DsTicketed, DsClosed}
      then Inl (ValueError (([0x5f53, 0x524d, 0x72b6, 0x6001] @ asc '' '') @ disposal_status_str (ad_status d) @ (asc '' '' @ [0x4e0d, 0x53ef, 0x5173, 0x95ed])))
      else Inr (d\<lparr>ad_status := DsClosed, ad_reviewer := reviewer, ad_review_note := take 500 note,
             ad_reviewed_at := Some (utc c 0)\<rparr>))"

definition on_disposal :: "nat \<Rightarrow> pystr \<Rightarrow> (disposal \<Rightarrow> disposal res) \<Rightarrow> alert_db \<Rightarrow> (disposal \<times> alert_db) res" where
  "on_disposal i tenant_id step db =
     (case find_disposal i (disposal_tenant tenant_id) db of
        None \<Rightarrow> Inl (ValueError no_disposal)
      | Some d \<Rightarrow> (case step d of Inl e \<Rightarrow> Inl e | Inr d' \<Rightarrow> Inr (d', save_disposal d' db)))"

definition confirm_disposal :: "clock \<Rightarrow> nat \<Rightarrow> pystr \<Rightarrow> pystr \<Rightarrow> alert_db \<Rightarrow> (disposal \<times> alert_db) res" where
  "confirm_disposal c i reviewer tenant_id = on_disposal i tenant_id (confirm_row c reviewer)"

definition reject_disposal :: "clock \<Rightarrow> nat \<Rightarrow> pystr \<Rightarrow> pystr \<Rightarrow> pystr \<Rightarrow> alert_db \<Rightarrow> (disposal \<times> alert_db) res" where
  "reject_disposal c i reviewer note tenant_id = on_disposal i tenant_id (refuse_row c reviewer note)"

definition close_disposal :: "clock \<Rightarrow> nat \<Rightarrow> pystr \<Rightarrow> pystr \<Rightarrow> pystr \<Rightarrow> alert_db \<Rightarrow> (disposal \<times> alert_db) res" where
  "close_disposal c i reviewer note tenant_id = on_disposal i tenant_id (close_row c reviewer note)"

text \<open>
  The draft of a disposal: an unreadable one counts as empty, one that is no object makes the
  attribute look-up fail. Its fields are texts and lists of texts; other values are shown as text.
\<close>

definition draft_of :: "disposal \<Rightarrow> (pystr \<times> json) list res" where
  "draft_of d =
     (if ad_ticket_draft_json d = [] then Inr []
      else (case json_loads (ad_ticket_draft_json d) of
          None \<Rightarrow> Inr []
        | Some (JObj kvs) \<Rightarrow> Inr kvs
        | Some _ \<Rightarrow> Inl (HandlerError (asc ''AttributeError''))))"

definition list_or :: "'a list \<Rightarrow> 'a list \<Rightarrow> 'a list" where
  "list_or a b = (if a = [] then b else a)"

definition draft_ticket_args :: "(pystr \<times> json) list \<Rightarrow> disposal \<Rightarrow> pystr \<Rightarrow> pystr \<Rightarrow> ticket_args" where
  "draft_ticket_args draft d creator tenant = \<lparr>
     ta_type = py_or (arg_text draft (asc ''ticket_type'')) (py_or (arg_text draft (asc ''ticketType'')) (ticket_type_str OPERATION)),
     ta_task = py_or (arg_text draft (asc ''task'')) (py_or (ad_title d) [0x544a, 0x8b66, 0x5904, 0x7f6e]),
     ta_device = arg_text draft (asc ''device''), ta_location = arg_text draft (asc ''location''),
     ta_steps = arg_list draft (asc ''steps''),
     ta_safety = list_or (arg_list draft (asc ''safety'')) (arg_list draft (asc ''safety_measures'')),
     ta_risks = arg_list draft (asc ''risks''),
     ta_notes = py_or (arg_text draft (asc ''notes'')) ([0x6765, 0x6e90, 0x544a, 0x8b66, 0xff1a] @ ad_title d),
     ta_creator = creator, ta_tenant = tenant, ta_source_ref = disposal_key (ad_id d)\<rparr>"

text \<open>One transaction over the two tables.\<close>

definition to_ticket ::
  "clock \<Rightarrow> pystr \<Rightarrow> nat \<Rightarrow> pystr \<Rightarrow> pystr \<Rightarrow> alert_db \<Rightarrow> (disposal \<times> ticket \<times> alert_db) res" where
  "to_ticket c uuid i creator tenant0 db =
     (let tenant = disposal_tenant tenant0
      in (case find_disposal i tenant db of
            None \<Rightarrow> Inl (ValueError no_disposal)
          | Some d \<Rightarrow>
              if ad_status d \<noteq> DsConfirmed then Inl (ValueError ([0x4ec5, 0x5df2, 0x786e, 0x8ba4] @ asc ''(confirmed)'' @ [0x9884, 0x6848, 0x53ef, 0x8f6c, 0x4e24, 0x7968]))
              else (case draft_of d of
                  Inl e \<Rightarrow> Inl e
                | Inr draft \<Rightarrow>
                    (case create_ticket c uuid (draft_ticket_args draft d creator tenant) (al_tickets db) of
                       Inl e \<Rightarrow> Inl e
                     | Inr (t, tickets) \<Rightarrow>
                         let d' = d\<lparr>ad_ticket_id := tk_id t, ad_status := DsTicketed\<rparr>
                         in Inr (d', t, (save_disposal d' db)\<lparr>al_tickets := tickets\<rparr>)))))"

section \<open>The list\<close>

definition list_disposals :: "nat \<Rightarrow> nat \<Rightarrow> disposal_status option \<Rightarrow> pystr \<Rightarrow> alert_db \<Rightarrow> nat \<times> disposal list" where
  "list_disposals page psize status tenant_id db =
     (let rows = filter (\<lambda>d. ad_tenant_id d = disposal_tenant tenant_id \<and> (case status of None \<Rightarrow> True | Some s \<Rightarrow> ad_status d = s))
          (al_disposals db)
      in (length rows, page_rows ((page - 1) * psize) psize (sort_key (\<lambda>d. - ad_created_at d) rows)))"

definition disposal_to_dict :: "disposal \<Rightarrow> json" where
  "disposal_to_dict d = JObj
     [(asc ''id'', JInt (int (ad_id d))), (asc ''severity'', JStr (ad_severity d)), (asc ''title'', JStr (ad_title d)),
      (asc ''summary'', JStr (ad_summary d)), (asc ''handling'', JStr (ad_handling d)),
      (asc ''status'', JStr (disposal_status_str (ad_status d))), (asc ''source'', JStr (ad_source d)),
      (asc ''tenantId'', JStr (ad_tenant_id d)), (asc ''ticketId'', JStr (ad_ticket_id d)),
      (asc ''reviewer'', JStr (ad_reviewer d)), (asc ''reviewNote'', JStr (ad_review_note d)),
      (asc ''reviewedAt'', JStr (case ad_reviewed_at d of Some t \<Rightarrow> strftime_second t | None \<Rightarrow> []))]"

end
