(* ===== verification/AlertClaims.thy ===== *)
theory AlertClaims
  imports AlertDisposal AgentClaims TaskQueueProps
begin

text \<open>
  The alert disposals together with the task queue and the ticket table they write to: what any
  interleaving of their operations keeps, and what a repeated task does to a decision.
\<close>

section \<open>Runs\<close>

text \<open>
  The analysis is two operations, so that others can come between; the outcome a write phase
  stores is arbitrary.
\<close>

datatype alert_op =
    Trigger clock pystr pystr pystr pystr pystr "pystr option" pystr
  | Analyse disposal_env nat pystr pystr
  | StoreOutcome disposal_env nat pystr "exc + (pystr \<times> json) list"
  | Confirm clock nat pystr pystr
  | Refuse clock nat pystr pystr pystr
  | CloseAlert clock nat pystr pystr pystr
  | ToTicket clock pystr nat pystr pystr
  | QueueOp task_op
  | TicketOp ticket_op

definition after :: "alert_db \<Rightarrow> (disposal \<times> alert_db) res \<Rightarrow> alert_db" where
  "after db r = (case r of Inl e \<Rightarrow> db | Inr (d, db') \<Rightarrow> db')"

fun alert_step :: "alert_op \<Rightarrow> alert_db \<Rightarrow> alert_db" where
  "alert_step (Trigger c uuid severity title summary source model tenant) db =
     (case trigger_disposal c uuid severity title summary source model tenant db of Inl e \<Rightarrow> db | Inr (i, db') \<Rightarrow> db')"
| "alert_step (Analyse env i txt tenant) db = snd (agent_phase env i txt tenant db)"
| "alert_step (StoreOutcome env i tenant outcome) db = snd (snd (write_phase env i tenant outcome db))"
| "alert_step (Confirm c i reviewer tenant) db = after db (confirm_disposal c i reviewer tenant db)"
| "alert_step (Refuse c i reviewer note tenant) db = after db (reject_disposal c i reviewer note tenant db)"
| "alert_step (CloseAlert c i reviewer note tenant) db = after db (close_disposal c i reviewer note tenant db)"
| "alert_step (ToTicket c uuid i creator tenant) db =
     (case to_ticket c uuid i creator tenant db of Inl e \<Rightarrow> db | Inr (d, t, db') \<Rightarrow> db')"
| "alert_step (QueueOp op) db = db\<lparr>al_tasks := task_step op (al_tasks db)\<rparr>"
| "alert_step (TicketOp op) db = db\<lparr>al_tickets := ticket_step op (al_tickets db)\<rparr>"

section \<open>The analysis and the tickets\<close>

lemma default_tools_step:
  "tools_keep (default_registry st env) cx (runs_to ticket_step tbl)"
  unfolding tools_keep_def
proof (intro allI impI, goal_cases)
  case (1 n t args w)
  let ?tn = "normalize_tenant (cx_tenant cx)"
  from default_tools[OF 1(1)] have "snd (tl_handler t args w) = w \<or> (\<exists>op. snd (tl_handler t args w) = ticket_step op w)"
  proof
    assume "allowed_roles t = [asc ''admin'', asc ''editor''] \<and> tl_handler t \<in> {t_create_ticket env, t_submit_ticket env}"
    then show ?thesis
      using create_tool_step[OF 1(4) normalize_tenant_nonempty, of env w]
        submit_tool_step[OF 1(4) normalize_tenant_nonempty, of env w] by auto
  qed simp
  with 1(5) show ?case by (metis runs_step runs_trans)
qed

lemma agent_phase_frame:
  "al_disposals (snd (agent_phase env i txt tenant db)) = al_disposals db \<and>
   al_tasks (snd (agent_phase env i txt tenant db)) = al_tasks db \<and>
   runs_to ticket_step (al_tickets db) (al_tickets (snd (agent_phase env i txt tenant db)))"
proof -
  have "runs_to ticket_step (al_tickets db) (ag_world (run_agent (de_llm env)
      (default_registry (de_settings env) (de_tools env)) alert_fallbacks (de_memory_enable env) (de_auto_save env)
      (de_recall env) p m (Some (system_ctx tenant)) (al_tickets db)))" for p m
    by (rule run_agent_rights[THEN conjunct1, OF default_tools_step]) (auto simp: alert_fallbacks_def)
  then show ?thesis
    by (auto simp: agent_phase_def Let_def split: option.splits)
qed

section \<open>The invariant\<close>

definition has_task :: "task_table \<Rightarrow> disposal \<Rightarrow> bool" where
  "has_task tasks d \<longleftrightarrow> (\<exists>t \<in> set tasks. has_task_key (ad_tenant_id d) ALERT_TASK (disposal_key (ad_id d)) t)"

definition has_ticket :: "ticket_table \<Rightarrow> disposal \<Rightarrow> bool" where
  "has_ticket tickets d \<longleftrightarrow> (\<exists>t. get_row tk_id (ad_ticket_id d) tickets = Some t \<and>
     tk_source_ref t = Some (disposal_key (ad_id d)) \<and> tk_tenant_id t = ad_tenant_id d)"

definition wf_disposal :: "alert_db \<Rightarrow> disposal \<Rightarrow> bool" where
  "wf_disposal db d \<longleftrightarrow> has_task (al_tasks db) d \<and> (ad_status d = DsTicketed \<longrightarrow> has_ticket (al_tickets db) d) \<and>
     (ad_status d \<in> {DsConfirmed, DsRejected, DsClosed} \<longrightarrow> ad_reviewed_at d \<noteq> None)"

definition wf_alerts :: "alert_db \<Rightarrow> bool" where
  "wf_alerts db \<longleftrightarrow> distinct (map ad_id (al_disposals db)) \<and> task_inv (al_tasks db) \<and> wf_tickets (al_tickets db) \<and>
     (\<forall>d \<in> set (al_disposals db). wf_disposal db d)"

lemma has_ticket_later:
  assumes "wf_tickets tbl" and "runs_to ticket_step tbl tbl'" and "has_ticket tbl d"
  shows "has_ticket tbl' d"
proof -
  from assms(3) obtain t where t: "get_row tk_id (ad_ticket_id d) tbl = Some t"
    "tk_source_ref t = Some (disposal_key (ad_id d))" "tk_tenant_id t = ad_tenant_id d" by (auto simp: has_ticket_def)
  from assms(2) obtain ops where "tbl' = fold ticket_step ops tbl" by (auto simp: runs_to_def)
  with ticket_persists[OF assms(1) t(1), of ops] t(2,3) show ?thesis
    by (auto simp: has_ticket_def ticket_later_def ticket_origin_def)
qed

lemma has_task_later:
  assumes "task_inv tbl" and "has_task tbl d"
  shows "has_task (task_step op tbl) d"
proof -
  from assms(2) obtain t where t: "t \<in> set tbl" "has_task_key (ad_tenant_id d) ALERT_TASK (disposal_key (ad_id d)) t"
    by (auto simp: has_task_def)
  have "get_row pt_id (pt_id t) tbl = Some t"
    using get_row_distinct t(1) assms(1) by (auto simp: task_inv_def)
  from run_row[OF assms(1) this, of "[op]"] obtain t' where "get_row pt_id (pt_id t) (task_step op tbl) = Some t'"
    "pt_tenant_id t' = pt_tenant_id t" "pt_task_type t' = pt_task_type t" "pt_idempotency_key t' = pt_idempotency_key t"
    by auto
  with t(2) show ?thesis unfolding has_task_def has_task_key_def by (metis get_row_in)
qed

text \<open>A change of the tables that keeps the disposals.\<close>

lemma wf_alerts_tables:
  assumes "wf_alerts db" and "al_disposals db' = al_disposals db" and "task_inv (al_tasks db')" and "wf_tickets (al_tickets db')"
    and "\<And>d. has_task (al_tasks db) d \<Longrightarrow> has_task (al_tasks db') d"
    and "\<And>d. has_ticket (al_tickets db) d \<Longrightarrow> has_ticket (al_tickets db') d"
  shows "wf_alerts db'"
  using assms by (auto simp: wf_alerts_def wf_disposal_def)

text \<open>A change of one disposal.\<close>

lemma wf_alerts_save:
  assumes "wf_alerts db" and "find_disposal i tenant db = Some d" and "ad_id d' = ad_id d" and "ad_tenant_id d' = ad_tenant_id d"
    and "ad_status d' = DsTicketed \<longrightarrow> has_ticket (al_tickets db) d'"
    and "ad_status d' \<in> {DsConfirmed, DsRejected, DsClosed} \<longrightarrow> ad_reviewed_at d' \<noteq> None"
  shows "wf_alerts (save_disposal d' db)"
proof -
  have "d \<in> set (al_disposals db)" using assms(2) by (auto simp: find_disposal_def find_Some_iff)
  then have "has_task (al_tasks db) d'" using assms(1,3,4) by (auto simp: wf_alerts_def wf_disposal_def has_task_def)
  with assms show ?thesis
    unfolding wf_alerts_def save_disposal_def wf_disposal_def
    by (auto simp: table_simps dest!: put_row_set)
qed

lemma on_disposal_wf:
  assumes "wf_alerts db"
    and "\<And>d d'. step d = Inr d' \<Longrightarrow> ad_id d' = ad_id d \<and> ad_tenant_id d' = ad_tenant_id d \<and> ad_status d' \<noteq> DsTicketed \<and>
      ad_reviewed_at d' \<noteq> None"
  shows "wf_alerts (after db (on_disposal i tenant step db))"
proof (cases "find_disposal i (disposal_tenant tenant) db")
  case (Some d)
  show ?thesis
  proof (cases "step d")
    case (Inr d')
    from assms(2)[OF Inr] wf_alerts_save[OF assms(1) Some, of d'] show ?thesis
      by (simp add: on_disposal_def Some Inr after_def)
  qed (use assms(1) in \<open>simp add: on_disposal_def Some after_def\<close>)
qed (use assms(1) in \<open>simp add: on_disposal_def after_def\<close>)

lemma decisions_frame:
  "confirm_row c reviewer d = Inr d' \<Longrightarrow> ad_id d' = ad_id d \<and> ad_tenant_id d' = ad_tenant_id d \<and> ad_status d' \<noteq> DsTicketed \<and> ad_reviewed_at d' \<noteq> None"
  "refuse_row c reviewer note d = Inr d' \<Longrightarrow> ad_id d' = ad_id d \<and> ad_tenant_id d' = ad_tenant_id d \<and> ad_status d' \<noteq> DsTicketed \<and> ad_reviewed_at d' \<noteq> None"
  "close_row c reviewer note d = Inr d' \<Longrightarrow> ad_id d' = ad_id d \<and> ad_tenant_id d' = ad_tenant_id d \<and> ad_status d' \<noteq> DsTicketed \<and> ad_reviewed_at d' \<noteq> None"
  by (auto simp: confirm_row_def refuse_row_def close_row_def split: if_splits)

lemma write_phase_cases:
  "write_phase env i tenant outcome db = (asc ''missing'', True, db) \<and> find_disposal i tenant db = None \<or>
   (\<exists>d d' degr. find_disposal i tenant db = Some d \<and> write_phase env i tenant outcome db = (asc ''proposed'', degr, save_disposal d' db) \<and>
      ad_id d' = ad_id d \<and> ad_tenant_id d' = ad_tenant_id d \<and> ad_status d' = DsProposed \<and> ad_ticket_id d' = ad_ticket_id d \<and>
      ad_reviewer d' = ad_reviewer d \<and> ad_reviewed_at d' = ad_reviewed_at d)"
  by (auto simp: write_phase_def propose_def failed_proposal_def Let_def split: option.splits sum.splits)

lemma new_id_fresh: "i \<in> set xs \<Longrightarrow> i < Suc (fold max xs (n::nat))"
proof -
  have "n \<le> fold max xs n" for n using Max.set_eq_fold[of n xs] by (metis Max_ge List.finite_set list.set_intros(1))
  moreover have "i \<in> set xs \<Longrightarrow> i \<le> fold max xs n"
    using Max.set_eq_fold[of n xs] by (metis Max_ge List.finite_set list.set_intros(2))
  ultimately show "i \<in> set xs \<Longrightarrow> ?thesis" by simp
qed

lemma strip_key [simp]: "py_strip (disposal_key i) = disposal_key i"
proof -
  obtain ds c where d: "dec_nat i = ds @ [c]" by (metis dec_nat_nonempty rev_exhaust)
  with dec_nat_digits[of c i] have "\<not> py_isspace c" by (auto simp: py_isspace_def)
  moreover have "\<not> py_isspace 97" by (simp add: py_isspace_def)
  ultimately show ?thesis by (simp add: py_strip_def disposal_key_def d asc_def)
qed

lemma strip_alert_task [simp]: "py_strip ALERT_TASK = ALERT_TASK"
  by (simp add: ALERT_TASK_def py_strip_def asc_def py_isspace_def)

lemma norm_disposal_tenant [simp]: "norm_tenant (disposal_tenant v) = disposal_tenant v"
proof -
  have "py_strip (asc ''default'') = asc ''default''" by (simp add: py_strip_def asc_def py_isspace_def)
  then show ?thesis by (simp add: norm_tenant_def disposal_tenant_def py_or_def)
qed

lemma key_nonempty [simp]: "disposal_key i \<noteq> []"
  by (simp add: disposal_key_def asc_def)

text \<open>After an enqueue with a key there is a task with that key.\<close>

lemma enqueued_key:
  assumes "enqueue_task_record c uuid tbl tbl a tbl = Inr (t, tbl')" and "str_or_none (py_strip (ea_idempotency_key a)) = Some k"
  shows "\<exists>t \<in> set tbl'. has_task_key (norm_tenant (ea_tenant_id a)) (py_strip (ea_task_type a)) k t"
proof (cases "find (has_task_key (norm_tenant (ea_tenant_id a)) (py_strip (ea_task_type a)) k) tbl")
  case (Some x)
  with assms have "tbl' = tbl" by (auto simp: enqueue_task_record_def Let_def split: if_splits)
  with Some show ?thesis by (auto simp: find_Some_iff)
next
  case None
  from assms(1) show ?thesis
  proof (cases rule: enqueue_cases)
    case existing
    with assms None show ?thesis
      by (auto simp: enqueue_task_record_def Let_def insert_task_def split: if_splits option.splits sum.splits)
  next
    case (created payload)
    from insert_task_SomeD[OF created(4)] have "tbl' = tbl @ [t]" by simp
    with created(3) assms(2) show ?thesis by (simp add: new_task_def has_task_key_def)
  qed
qed

lemma trigger_wf:
  assumes "wf_alerts db"
  shows "wf_alerts (alert_step (Trigger c uuid severity title summary source model tenant) db)"
proof (cases "trigger_disposal c uuid severity title summary source model tenant db")
  case (Inr r)
  let ?i = "Suc (fold max (map ad_id (al_disposals db)) 0)" and ?tn = "disposal_tenant tenant"
  let ?a = "disposal_task ?i (py_or summary title) model ?tn"
  let ?d = "new_disposal c ?i severity title summary source ?tn"
  from Inr obtain t tasks where e: "enqueue_task_record c uuid (al_tasks db) (al_tasks db) ?a (al_tasks db) = Inr (t, tasks)"
    and r: "r = (?i, db\<lparr>al_disposals := al_disposals db @ [?d], al_tasks := tasks\<rparr>)"
    by (auto simp: trigger_disposal_def Let_def split: sum.splits)
  have step: "tasks = task_step (Enqueue c uuid (al_tasks db) (al_tasks db) ?a) (al_tasks db)" by (simp add: e ok_db_def)
  have inv: "task_inv tasks" unfolding step using assms by (intro task_step_inv) (simp add: wf_alerts_def)
  have args: "ea_task_type ?a = ALERT_TASK" "ea_idempotency_key ?a = disposal_key ?i" "ea_tenant_id ?a = ?tn"
    by (simp_all add: disposal_task_def default_enqueue_args_def)
  have key: "has_task tasks ?d"
    using enqueued_key[OF e] by (simp add: args str_or_none_def has_task_def new_disposal_def)
  have old: "has_task tasks d" if "d \<in> set (al_disposals db)" for d
    using has_task_later that assms by (auto simp: step wf_alerts_def wf_disposal_def simp del: task_step.simps)
  have "?i \<notin> ad_id ` set (al_disposals db)"
    using new_id_fresh[of _ "map ad_id (al_disposals db)" 0] by force
  then show ?thesis
    using assms inv key old by (auto simp: Inr r wf_alerts_def wf_disposal_def new_disposal_def)
qed (use assms in \<open>simp\<close>)

lemma create_ticket_found:
  assumes "wf_tickets tbl" and "create_ticket c uuid a tbl = Inr (t, tbl')" and "str_or_none (py_strip (ta_source_ref a)) = Some k"
  shows "get_row tk_id (tk_id t) tbl' = Some t \<and> tk_source_ref t = Some k \<and> tk_tenant_id t = ta_tenant a \<and> wf_tickets tbl'"
proof -
  have wf: "wf_tickets tbl'" using ticket_step_wf[OF assms(1), of "CreateTicket c uuid a"] assms(2) by simp
  have "t \<in> set tbl' \<and> tk_source_ref t = Some k \<and> tk_tenant_id t = ta_tenant a"
    using assms(2,3)
    by (auto simp: create_ticket_def Let_def find_Some_iff new_ticket_def insert_ticket_def split: option.splits sum.splits if_splits)
  with wf show ?thesis using get_row_distinct by (auto simp: wf_tickets_def)
qed

lemma to_ticket_InrD:
  assumes "to_ticket c uuid i creator tenant db = Inr (d', t, db')"
  obtains d draft tickets where "find_disposal i (disposal_tenant tenant) db = Some d" "ad_status d = DsConfirmed"
    "draft_of d = Inr draft"
    "create_ticket c uuid (draft_ticket_args draft d creator (disposal_tenant tenant)) (al_tickets db) = Inr (t, tickets)"
    "d' = d\<lparr>ad_ticket_id := tk_id t, ad_status := DsTicketed\<rparr>" "db' = (save_disposal d' db)\<lparr>al_tickets := tickets\<rparr>"
  using assms by (auto simp: to_ticket_def Let_def split: option.splits sum.splits if_splits)

lemma find_disposal_SomeD: "find_disposal i tenant db = Some d \<Longrightarrow> d \<in> set (al_disposals db) \<and> ad_id d = i \<and> ad_tenant_id d = tenant"
  by (auto simp: find_disposal_def find_Some_iff)

lemma to_ticket_wf:
  assumes "wf_alerts db"
  shows "wf_alerts (alert_step (ToTicket c uuid i creator tenant) db)"
proof (cases "to_ticket c uuid i creator tenant db")
  case (Inr r)
  then obtain d' t db' where t: "to_ticket c uuid i creator tenant db = Inr (d', t, db')" and r: "r = (d', t, db')"
    by (cases r) auto
  from to_ticket_InrD[OF t] obtain d draft tickets where d: "find_disposal i (disposal_tenant tenant) db = Some d"
    and cr: "create_ticket c uuid (draft_ticket_args draft d creator (disposal_tenant tenant)) (al_tickets db) = Inr (t, tickets)"
    and d': "d' = d\<lparr>ad_ticket_id := tk_id t, ad_status := DsTicketed\<rparr>" and db': "db' = (save_disposal d' db)\<lparr>al_tickets := tickets\<rparr>"
    by blast
  let ?db = "db\<lparr>al_tickets := tickets\<rparr>"
  have wt: "wf_tickets (al_tickets db)" using assms by (simp add: wf_alerts_def)
  have key: "str_or_none (py_strip (ta_source_ref (draft_ticket_args draft d creator (disposal_tenant tenant)))) = Some (disposal_key (ad_id d))"
    by (simp add: draft_ticket_args_def str_or_none_def)
  note new = create_ticket_found[OF wt cr key]
  have "runs_to ticket_step (al_tickets db) tickets"
    using runs_step[of ticket_step "al_tickets db" "CreateTicket c uuid (draft_ticket_args draft d creator (disposal_tenant tenant))"] cr
    by simp
  then have wf: "wf_alerts ?db"
    using new has_ticket_later[OF wt] assms by (intro wf_alerts_tables[OF assms]) (auto simp: wf_alerts_def)
  have "find_disposal i (disposal_tenant tenant) ?db = Some d" using d by (simp add: find_disposal_def)
  from wf_alerts_save[OF wf this, of d'] new find_disposal_SomeD[OF d] have "wf_alerts (save_disposal d' ?db)"
    by (simp add: d' has_ticket_def draft_ticket_args_def)
  moreover have "save_disposal d' ?db = db'" by (cases db) (simp add: db' save_disposal_def)
  ultimately show ?thesis by (simp add: t)
qed (use assms in \<open>simp\<close>)

lemma alert_step_wf: "wf_alerts db \<Longrightarrow> wf_alerts (alert_step op db)"
proof (cases op)
  case (Analyse env i msg tenant)
  assume wf: "wf_alerts db"
  note f = agent_phase_frame[of env i msg tenant db]
  from f obtain ops where ops: "al_tickets (snd (agent_phase env i msg tenant db)) = fold ticket_step ops (al_tickets db)"
    by (auto simp: runs_to_def)
  have "wf_tickets (al_tickets db)" using wf by (simp add: wf_alerts_def)
  with has_ticket_later[OF this] f tickets.run_inv[OF this, of ops] wf show ?thesis
    unfolding Analyse alert_step.simps by (intro wf_alerts_tables[OF wf]) (auto simp: ops wf_alerts_def)
next
  case (StoreOutcome env i tenant outcome)
  assume wf: "wf_alerts db"
  from write_phase_cases[of env i tenant outcome db] show ?thesis
    using wf wf_alerts_save[OF wf, of i tenant] by (auto simp: StoreOutcome)
next
  case (QueueOp op)
  assume wf: "wf_alerts db"
  then show ?thesis
    unfolding QueueOp alert_step.simps
    by (intro wf_alerts_tables[OF wf]) (auto simp: wf_alerts_def intro: task_step_inv has_task_later)
next
  case (TicketOp op)
  assume wf: "wf_alerts db"
  then show ?thesis
    unfolding TicketOp alert_step.simps
    by (intro wf_alerts_tables[OF wf]) (auto simp: wf_alerts_def intro: ticket_step_wf has_ticket_later)
next
  case (Confirm c i reviewer tenant)
  then show "wf_alerts db \<Longrightarrow> ?thesis" by (simp add: confirm_disposal_def on_disposal_wf decisions_frame(1))
next
  case (Refuse c i reviewer remark tenant)
  then show "wf_alerts db \<Longrightarrow> ?thesis" by (simp add: reject_disposal_def on_disposal_wf decisions_frame(2))
next
  case (CloseAlert c i reviewer remark tenant)
  then show "wf_alerts db \<Longrightarrow> ?thesis" by (simp add: close_disposal_def on_disposal_wf decisions_frame(3))
next
  case (ToTicket c uuid i creator tenant)
  then show "wf_alerts db \<Longrightarrow> ?thesis" using to_ticket_wf by blast
next
  case (Trigger c uuid severity title summary source model tenant)
  then show "wf_alerts db \<Longrightarrow> ?thesis" using trigger_wf by blast
qed

interpretation alerts: invariant_ops alert_step wf_alerts
  by unfold_locales (rule alert_step_wf)

lemma wf_alert_runs: "wf_alerts (fold alert_step ops empty_alerts)"
  by (rule alerts.run_inv) (simp add: wf_alerts_def empty_alerts_def task_inv_def task_keys_def)

section \<open>What persists\<close>

lemma tickets_evolve_step: "wf_alerts db \<Longrightarrow> runs_to ticket_step (al_tickets db) (al_tickets (alert_step op db))"
proof (cases op)
  case (ToTicket c uuid i creator tenant)
  show ?thesis
  proof (cases "to_ticket c uuid i creator tenant db")
    case (Inr r)
    then obtain d' t db' where r: "to_ticket c uuid i creator tenant db = Inr (d', t, db')" by (cases r) auto
    from to_ticket_InrD[OF this] obtain d draft tickets where
      cr: "create_ticket c uuid (draft_ticket_args draft d creator (disposal_tenant tenant)) (al_tickets db) = Inr (t, tickets)"
      and db': "db' = (save_disposal d' db)\<lparr>al_tickets := tickets\<rparr>" by blast
    then have "al_tickets db' = ticket_step (CreateTicket c uuid (draft_ticket_args draft d creator (disposal_tenant tenant))) (al_tickets db)"
      by simp
    then show ?thesis by (metis ToTicket alert_step.simps(7) r runs_step sum.simps(6) case_prod_conv)
  qed (simp add: ToTicket)
next
  case (Analyse env i msg tenant)
  then show ?thesis using agent_phase_frame by simp
next
  case (StoreOutcome env i tenant outcome)
  then show ?thesis
    using write_phase_cases[of env i tenant outcome db] by (auto simp: save_disposal_def)
qed (auto simp: trigger_disposal_def after_def confirm_disposal_def reject_disposal_def close_disposal_def on_disposal_def
    save_disposal_def Let_def split: sum.splits option.splits)

lemma tickets_evolve: "wf_alerts db \<Longrightarrow> runs_to ticket_step (al_tickets db) (al_tickets (fold alert_step ops db))"
proof (induction ops arbitrary: db)
  case (Cons op ops)
  note runs_trans[OF tickets_evolve_step[OF Cons.prems, of op] Cons.IH[OF alert_step_wf[OF Cons.prems, of op]]]
  then show ?case by simp
qed simp

definition disposal_ids :: "alert_db \<Rightarrow> (nat \<times> pystr) list" where
  "disposal_ids db = map (\<lambda>d. (ad_id d, ad_tenant_id d)) (al_disposals db)"

lemma find_disposal_iff: "find_disposal i tenant db \<noteq> None \<longleftrightarrow> (i, tenant) \<in> set (disposal_ids db)"
  by (auto simp: find_disposal_def disposal_ids_def find_None_iff)

lemma ids_save:
  assumes "wf_alerts db" and "find_disposal i tenant db = Some d" and "ad_id d' = ad_id d" and "ad_tenant_id d' = ad_tenant_id d"
  shows "disposal_ids (save_disposal d' db) = disposal_ids db"
proof -
  have "d \<in> set (al_disposals db)" "distinct (map ad_id (al_disposals db))"
    using assms(1,2) find_disposal_SomeD by (auto simp: wf_alerts_def)
  then have "x = d" if "x \<in> set (al_disposals db)" "ad_id x = ad_id d" for x
    using that by (metis distinct_map inj_onD)
  then show ?thesis
    using assms(3,4) by (auto simp: disposal_ids_def save_disposal_def put_row_def)
qed

lemma ids_grow_step: "wf_alerts db \<Longrightarrow> set (disposal_ids db) \<subseteq> set (disposal_ids (alert_step op db))"
proof (cases op)
  case (StoreOutcome env i tenant outcome)
  then show "wf_alerts db \<Longrightarrow> ?thesis"
    using write_phase_cases[of env i tenant outcome db] ids_save[of db i tenant] by auto
next
  case (ToTicket c uuid i creator tenant)
  assume wf: "wf_alerts db"
  have "set (disposal_ids db) \<subseteq> set (disposal_ids db')" if r: "to_ticket c uuid i creator tenant db = Inr (d', t, db')" for d' t db'
  proof -
    from to_ticket_InrD[OF r] obtain d tickets where d: "find_disposal i (disposal_tenant tenant) db = Some d"
      "d' = d\<lparr>ad_ticket_id := tk_id t, ad_status := DsTicketed\<rparr>" "db' = (save_disposal d' db)\<lparr>al_tickets := tickets\<rparr>" by metis
    from ids_save[OF wf d(1), of d'] d(2,3) show ?thesis by (simp add: disposal_ids_def)
  qed
  then show ?thesis by (auto simp: ToTicket split: sum.splits)
next
  case (Analyse env i msg tenant)
  then show ?thesis using agent_phase_frame[of env i msg tenant db] by (simp add: disposal_ids_def)
next
  case (Trigger c uuid severity title summary source model tenant)
  then show ?thesis by (auto simp: trigger_disposal_def disposal_ids_def Let_def split: sum.splits)
next
  case (Confirm c i reviewer tenant)
  then show "wf_alerts db \<Longrightarrow> ?thesis"
    by (auto simp: confirm_disposal_def on_disposal_def after_def ids_save decisions_frame split: sum.splits option.splits)
next
  case (Refuse c i reviewer remark tenant)
  then show "wf_alerts db \<Longrightarrow> ?thesis"
    by (auto simp: reject_disposal_def on_disposal_def after_def ids_save decisions_frame split: sum.splits option.splits)
next
  case (CloseAlert c i reviewer remark tenant)
  then show "wf_alerts db \<Longrightarrow> ?thesis"
    by (auto simp: close_disposal_def on_disposal_def after_def ids_save decisions_frame split: sum.splits option.splits)
qed (simp_all add: disposal_ids_def)

lemma ids_grow: "wf_alerts db \<Longrightarrow> set (disposal_ids db) \<subseteq> set (disposal_ids (fold alert_step ops db))"
proof (induction ops arbitrary: db)
  case (Cons op ops)
  from Cons.IH[OF alert_step_wf[OF Cons.prems]] ids_grow_step[OF Cons.prems, of op] show ?case by auto
qed simp

lemma find_saved:
  assumes "wf_alerts db" and "find_disposal i tenant db = Some d" and "ad_id d' = ad_id d" and "ad_tenant_id d' = ad_tenant_id d"
  shows "find_disposal i tenant (save_disposal d' db) = Some d'"
proof -
  have d: "d \<in> set (al_disposals db)" "ad_id d = i" "ad_tenant_id d = tenant" using find_disposal_SomeD[OF assms(2)] by auto
  have "find (\<lambda>x. ad_id x = i \<and> ad_tenant_id x = tenant) (put_row ad_id d' tbl) = Some d'" if "d \<in> set tbl" for tbl
    using that d(2,3) assms(3,4) by (induction tbl) auto
  with d(1) show ?thesis by (simp add: find_disposal_def save_disposal_def)
qed


lemma create_again:
  assumes "wf_tickets tbl" and "u \<in> set tbl" and "tk_source_ref u = Some k" and "ta_tenant a = tk_tenant_id u"
    and "str_or_none (py_strip (ta_source_ref a)) = Some k" and "create_ticket c uuid a tbl = Inr (t, tbl')"
  shows "t = u \<and> tbl' = tbl"
proof (cases "tk_is_deleted u")
  case True
  have "insert_ticket (new_ticket c uuid ty a) tbl = Inl IntegrityError" for ty
    using assms(2-5) by (force simp: insert_ticket_def new_ticket_def image_iff)
  with source_hits[OF assms(1-3)] True assms(4-6) show ?thesis
    by (simp add: create_ticket_def Let_def split: sum.splits)
next
  case False
  with source_hits[OF assms(1-3)] assms(4-6) show ?thesis by (simp add: create_ticket_def Let_def)
qed

section \<open>Properties\<close>


text \<open>An alert is never turned into a second ticket: once it was, a later request - after a renewed
  analysis and confirmation - gives the same ticket and leaves the ticket table as it is, or fails
  because the ticket was deleted.\<close>

theorem one_ticket_per_alert:
  assumes "to_ticket c uuid i creator tenant (fold alert_step ops empty_alerts) = Inr (d, t, db1)"
    and "to_ticket c' uuid' i creator' tenant (fold alert_step later db1) = Inr (d', t', db2)"
  shows "tk_id t' = tk_id t \<and> al_tickets db2 = al_tickets (fold alert_step later db1)"
proof -
  let ?db = "fold alert_step ops empty_alerts" and ?db' = "fold alert_step later db1" and ?tn = "disposal_tenant tenant"
  have wf1: "wf_alerts db1" using alert_step_wf[OF wf_alert_runs, of "ToTicket c uuid i creator tenant" ops] assms(1) by simp
  from to_ticket_InrD[OF assms(1)] obtain x draft tickets where x: "find_disposal i ?tn ?db = Some x"
    "create_ticket c uuid (draft_ticket_args draft x creator ?tn) (al_tickets ?db) = Inr (t, tickets)" "al_tickets db1 = tickets"
    by (metis alert_db.select_convs(3) alert_db.surjective alert_db.update_convs(3))
  have "wf_tickets (al_tickets ?db)" using wf_alert_runs[of ops] by (simp add: wf_alerts_def)
  from create_ticket_found[OF this x(2), of "disposal_key i"] x(3) find_disposal_SomeD[OF x(1)] have t: "get_row tk_id (tk_id t) (al_tickets db1) = Some t"
    "tk_source_ref t = Some (disposal_key i)" "tk_tenant_id t = ?tn" by (auto simp: draft_ticket_args_def str_or_none_def)
  have wt: "wf_tickets (al_tickets db1)" using wf1 by (simp add: wf_alerts_def)
  from tickets_evolve[OF wf1, of later] obtain tops where tops: "al_tickets ?db' = fold ticket_step tops (al_tickets db1)"
    by (auto simp: runs_to_def)
  from ticket_persists[OF wt t(1), of tops] obtain u where u: "get_row tk_id (tk_id t) (al_tickets ?db') = Some u"
    "tk_source_ref u = Some (disposal_key i)" "tk_tenant_id u = ?tn" using t(2,3) by (auto simp: tops ticket_later_def ticket_origin_def)
  have wt': "wf_tickets (al_tickets ?db')" using alerts.run_inv[OF wf1, of later] by (simp add: wf_alerts_def)
  from to_ticket_InrD[OF assms(2)] obtain y draft' tickets' where y: "find_disposal i ?tn ?db' = Some y"
    "create_ticket c' uuid' (draft_ticket_args draft' y creator' ?tn) (al_tickets ?db') = Inr (t', tickets')" "al_tickets db2 = tickets'"
    by (metis alert_db.select_convs(3) alert_db.surjective alert_db.update_convs(3))
  let ?a = "draft_ticket_args draft' y creator' ?tn"
  have a: "ta_tenant ?a = tk_tenant_id u" "str_or_none (py_strip (ta_source_ref ?a)) = Some (disposal_key i)"
    using find_disposal_SomeD[OF y(1)] u(3) by (simp_all add: draft_ticket_args_def str_or_none_def)
  from create_again[OF wt' get_row_in[OF u(1)] u(2) a y(2)] have "t' = u \<and> tickets' = al_tickets ?db'" .
  with get_row_key[OF u(1)] y(3) show ?thesis by simp
qed

text \<open>A repeated analysis overrules people: when the task of an alert is run (again) - the queue retries
  it after every failed or interrupted run - the alert ends as a proposal, whatever was decided
  about it before or while the analysis ran, be it refused, closed or turned into a ticket; the
  name of who decided stays.\<close>

theorem a_repeated_task_reopens:
  assumes "map_of payload (asc ''disposal_id'') = Some (JInt (int i))"
    and "find_disposal i (disposal_tenant tenant) (fold alert_step ops empty_alerts) = Some d"
  shows "\<exists>d0 d1. find_disposal i (disposal_tenant tenant) (fold alert_step others (snd (agent_phase env i
      (arg_text payload (asc ''alert_text'')) (disposal_tenant tenant) (fold alert_step ops empty_alerts)))) = Some d0 \<and>
    find_disposal i (disposal_tenant tenant) (snd (alert_disposal_task_handler env (fold alert_step others) payload tenant
      (fold alert_step ops empty_alerts))) = Some d1 \<and>
    ad_status d1 = DsProposed \<and> ad_ticket_id d1 = ad_ticket_id d0 \<and> ad_reviewer d1 = ad_reviewer d0"
proof -
  let ?db = "fold alert_step ops empty_alerts" and ?tn = "disposal_tenant tenant" and ?txt = "arg_text payload (asc ''alert_text'')"
  obtain outcome db1 where ph: "agent_phase env i ?txt ?tn ?db = (outcome, db1)" by fastforce
  have wf: "wf_alerts ?db" by (rule wf_alert_runs)
  have wf1: "wf_alerts db1" using alert_step_wf[OF wf, of "Analyse env i ?txt ?tn"] ph by simp
  have "(i, ?tn) \<in> set (disposal_ids ?db)" using assms(2) find_disposal_iff[of i ?tn ?db] by simp
  then have "(i, ?tn) \<in> set (disposal_ids (fold alert_step others db1))"
    using ids_grow_step[OF wf, of "Analyse env i ?txt ?tn"] ids_grow[OF wf1, of others] ph by auto
  then obtain d0 where d0: "find_disposal i ?tn (fold alert_step others db1) = Some d0"
    using find_disposal_iff[of i ?tn "fold alert_step others db1"] by auto
  from write_phase_cases[of env i ?tn outcome "fold alert_step others db1"] d0 obtain d1 degr where
    w: "write_phase env i ?tn outcome (fold alert_step others db1) = (asc ''proposed'', degr, save_disposal d1 (fold alert_step others db1))"
    and d1: "ad_id d1 = ad_id d0" "ad_tenant_id d1 = ad_tenant_id d0" "ad_status d1 = DsProposed" "ad_ticket_id d1 = ad_ticket_id d0"
      "ad_reviewer d1 = ad_reviewer d0" by auto
  have "snd (alert_disposal_task_handler env (fold alert_step others) payload tenant ?db) = save_disposal d1 (fold alert_step others db1)"
    using assms(1) ph w by (simp add: alert_disposal_task_handler_def run_disposal_def Let_def)
  moreover have "find_disposal i ?tn (save_disposal d1 (fold alert_step others db1)) = Some d1"
    by (rule find_saved[OF alerts.run_inv[OF wf1] d0 d1(1,2)])
  ultimately show ?thesis using d0 d1 ph by auto
qed

section \<open>Witnesses\<close>

text \<open>One alert, its failed analysis, and its confirmation all the same.\<close>

definition demo_disposal_env :: disposal_env where
  "demo_disposal_env = \<lparr>de_llm = demo_llm, de_settings = demo_settings, de_personas = None, de_tools = demo_tool_env,
     de_memory_enable = False, de_auto_save = False, de_recall = [], de_provider_error = Some (asc ''Down'', []),
     de_bad_summary = (\<lambda>_. (asc ''TypeError'', []))\<rparr>"

definition demo_trigger :: alert_op where
  "demo_trigger = Trigger (at_time 1) (asc ''u'') [] (asc ''hot'') [] (asc ''manual'') None (asc ''t'')"

definition demo_decision :: "alert_op list" where
  "demo_decision = [StoreOutcome demo_disposal_env 1 (asc ''t'') (Inl (asc ''Down'', [])),
     Confirm (at_time 2) 1 (asc ''li'') (asc ''t'')]"

definition demo_tasks :: task_table where
  "demo_tasks = (case enqueue_task_record (at_time 1) (asc ''u'') [] [] (disposal_task 1 (asc ''hot'') None (asc ''t'')) [] of
     Inr (t, tasks) \<Rightarrow> tasks | Inl e \<Rightarrow> [])"

definition demo_disposal :: disposal where
  "demo_disposal = \<lparr>ad_id = 1, ad_tenant_id = asc ''t'', ad_created_at = 1, ad_severity = asc ''warning'', ad_title = asc ''hot'',
     ad_summary = [], ad_diagnosis_json = [], ad_handling = [], ad_ticket_draft_json = [], ad_status = DsPending,
     ad_source = asc ''manual'', ad_ticket_id = [], ad_reviewer = [], ad_review_note = [], ad_reviewed_at = None\<rparr>"

lemma demo_tenant [simp]: "disposal_tenant (asc ''t'') = asc ''t''"
  by (simp add: disposal_tenant_def py_or_def py_strip_def asc_def py_isspace_def)

lemma demo_alert_title: "take 256 (asc ''hot'') = asc ''hot''" "py_or [] (asc ''hot'') = asc ''hot''" "py_or [] (asc ''warning'') = asc ''warning''"
  by (simp_all add: asc_def py_or_def)

lemma alert_task_nonempty [simp]: "ALERT_TASK \<noteq> []"
  by (simp add: ALERT_TASK_def asc_def)

lemma demo_enqueued: "\<exists>t. enqueue_task_record (at_time 1) (asc ''u'') [] [] (disposal_task 1 (asc ''hot'') None (asc ''t'')) [] = Inr (t, demo_tasks)"
  by (simp add: demo_tasks_def enqueue_task_record_def disposal_task_def default_enqueue_args_def payload_or_empty_def
      json_safe_def insert_task_def str_or_none_def Let_def split: option.splits)

lemma demo_triggered: "alert_step demo_trigger empty_alerts = \<lparr>al_disposals = [demo_disposal], al_tasks = demo_tasks, al_tickets = []\<rparr>"
proof -
  obtain t where "enqueue_task_record (at_time 1) (asc ''u'') [] [] (disposal_task 1 (asc ''hot'') None (asc ''t'')) [] = Inr (t, demo_tasks)"
    using demo_enqueued by blast
  then show ?thesis
    by (simp add: demo_trigger_def trigger_disposal_def empty_alerts_def new_disposal_def demo_disposal_def demo_alert_title)
qed


theorem a_repeated_task_reopens_witness:
  "\<exists>d. find_disposal 1 (asc ''t'') (snd (alert_disposal_task_handler demo_disposal_env
      (fold alert_step [CloseAlert (at_time 5) 1 (asc ''li'') [] (asc ''t'')]) [(asc ''disposal_id'', JInt (int 1))] (asc ''t'')
      (fold alert_step [demo_trigger] empty_alerts))) = Some d \<and> ad_status d = DsProposed"
proof -
  have "find_disposal 1 (disposal_tenant (asc ''t'')) (fold alert_step [demo_trigger] empty_alerts) = Some demo_disposal"
    by (simp add: demo_triggered find_disposal_def) (simp add: demo_disposal_def)
  from a_repeated_task_reopens[where payload = "[(asc ''disposal_id'', JInt (int 1))]" and env = demo_disposal_env
      and others = "[CloseAlert (at_time 5) 1 (asc ''li'') [] (asc ''t'')]", OF _ this]
  show ?thesis by auto
qed

lemma demo_create:
  "tbl = [] \<or> tbl = [new_ticket (at_time 3) (asc ''k'') OPERATION (draft_ticket_args [] demo_disposal [] (asc ''t''))] \<Longrightarrow>
   ad_id d = 1 \<Longrightarrow> ad_title d = asc ''hot'' \<Longrightarrow>
   create_ticket (at_time 3) (asc ''k'') (draft_ticket_args [] d [] (asc ''t'')) tbl =
     Inr (new_ticket (at_time 3) (asc ''k'') OPERATION (draft_ticket_args [] demo_disposal [] (asc ''t'')),
          [new_ticket (at_time 3) (asc ''k'') OPERATION (draft_ticket_args [] demo_disposal [] (asc ''t''))])"
  by (auto simp: create_ticket_def Let_def draft_ticket_args_def str_or_none_def arg_text_def arg_list_def list_or_def
      py_or_def ticket_type_of_def new_ticket_def insert_ticket_def demo_disposal_def)

definition decided :: "disposal \<Rightarrow> disposal" where
  "decided d = (failed_proposal (asc ''Down'', []) d)\<lparr>ad_status := DsConfirmed, ad_reviewer := asc ''li'', ad_reviewed_at := Some 2\<rparr>"

lemma decided_simps [simp]: "ad_id (decided d) = ad_id d" "ad_tenant_id (decided d) = ad_tenant_id d" "ad_title (decided d) = ad_title d"
  "ad_status (decided d) = DsConfirmed" "ad_ticket_draft_json (decided d) = ad_ticket_draft_json d"
  by (simp_all add: decided_def failed_proposal_def)

lemma demo_decided:
  assumes "ad_id d = 1" and "ad_tenant_id d = asc ''t''"
  shows "fold alert_step demo_decision \<lparr>al_disposals = [d], al_tasks = ts, al_tickets = tks\<rparr> =
    \<lparr>al_disposals = [decided d], al_tasks = ts, al_tickets = tks\<rparr>"
  using assms by (simp add: demo_decision_def write_phase_def find_disposal_def save_disposal_def failed_proposal_def
      confirm_disposal_def on_disposal_def confirm_row_def after_def decided_def)

lemma demo_to_ticket:
  assumes "ad_id d = 1" and "ad_tenant_id d = asc ''t''" and "ad_title d = asc ''hot''" and "ad_ticket_draft_json d = []"
    and "tks = [] \<or> tks = [new_ticket (at_time 3) (asc ''k'') OPERATION (draft_ticket_args [] demo_disposal [] (asc ''t''))]"
  shows "\<exists>d' t. to_ticket (at_time 3) (asc ''k'') 1 [] (asc ''t'') \<lparr>al_disposals = [decided d], al_tasks = ts, al_tickets = tks\<rparr> =
      Inr (d', t, \<lparr>al_disposals = [d'], al_tasks = ts,
        al_tickets = [new_ticket (at_time 3) (asc ''k'') OPERATION (draft_ticket_args [] demo_disposal [] (asc ''t''))]\<rparr>) \<and>
    ad_id d' = 1 \<and> ad_tenant_id d' = asc ''t'' \<and> ad_title d' = asc ''hot'' \<and> ad_ticket_draft_json d' = []"
  using assms demo_create[OF assms(5), of "decided d"]
  by (simp add: to_ticket_def find_disposal_def draft_of_def save_disposal_def Let_def)

theorem one_ticket_per_alert_witness:
  "\<exists>d t db1 d' t' db2.
     to_ticket (at_time 3) (asc ''k'') 1 [] (asc ''t'') (fold alert_step (demo_trigger # demo_decision) empty_alerts) = Inr (d, t, db1) \<and>
     to_ticket (at_time 3) (asc ''k'') 1 [] (asc ''t'') (fold alert_step demo_decision db1) = Inr (d', t', db2) \<and>
     tk_id t' = tk_id t"
proof -
  let ?k = "new_ticket (at_time 3) (asc ''k'') OPERATION (draft_ticket_args [] demo_disposal [] (asc ''t''))"
  have demo: "ad_id demo_disposal = 1" "ad_tenant_id demo_disposal = asc ''t''" "ad_title demo_disposal = asc ''hot''"
    "ad_ticket_draft_json demo_disposal = []" by (simp_all add: demo_disposal_def)
  have start: "fold alert_step (demo_trigger # demo_decision) empty_alerts =
      \<lparr>al_disposals = [decided demo_disposal], al_tasks = demo_tasks, al_tickets = []\<rparr>"
    unfolding fold_simps demo_triggered by (rule demo_decided[OF demo(1,2)])
  from demo_to_ticket[OF demo, of "[]" demo_tasks] obtain d t where
    1: "to_ticket (at_time 3) (asc ''k'') 1 [] (asc ''t'') (fold alert_step (demo_trigger # demo_decision) empty_alerts) =
      Inr (d, t, \<lparr>al_disposals = [d], al_tasks = demo_tasks, al_tickets = [?k]\<rparr>)"
    and d: "ad_id d = 1" "ad_tenant_id d = asc ''t''" "ad_title d = asc ''hot''" "ad_ticket_draft_json d = []"
    unfolding start by blast
  from demo_to_ticket[OF d, of "[?k]" demo_tasks] obtain d' t' where
    2: "to_ticket (at_time 3) (asc ''k'') 1 [] (asc ''t'') (fold alert_step demo_decision
      \<lparr>al_disposals = [d], al_tasks = demo_tasks, al_tickets = [?k]\<rparr>) =
      Inr (d', t', \<lparr>al_disposals = [d'], al_tasks = demo_tasks, al_tickets = [?k]\<rparr>)"
    unfolding demo_decided[OF d(1,2)] by blast
  from one_ticket_per_alert[OF 1 2] 1 2 show ?thesis by blast
qed

end
