(* ===== verification/Sha256Test.thy ===== *)
theory Sha256Test
  imports Sha256
begin

text \<open>
  The model of SHA-256 evaluated by the kernel: the first test vector of the standard.
\<close>

lemma sha256_abc:
  "sha256_hex (asc ''abc'') = asc ''ba7816bf8f01cfea414140de5dae2223b00361a396177a9cb410ff61f20015ad''"
  by code_simp

end
