(* ===== verification/PyFloat.thy ===== *)
theory PyFloat
  imports Json
begin

text \<open>
  Python's floats, as far as the sources compute with them: non-negative numbers below \<open>2 ^ 53\<close>,
  which come from dividing, adding and multiplying small ones. A float is a pair \<open>(s, k)\<close> that
  stands for \<open>s / 2 ^ k\<close>, with \<open>s\<close> of 53 bits; every operation gives the float nearest to the
  exact result, the even one of two equally near, as IEEE 754 and CPython do.
\<close>

type_synonym dbl = "nat \<times> nat"

fun bit_len :: "nat \<Rightarrow> nat" where
  "bit_len n = (if n = 0 then 0 else Suc (bit_len (n div 2)))"

declare bit_len.simps [simp del]

definition div_half_even :: "nat \<Rightarrow> nat \<Rightarrow> nat" where
  "div_half_even a b =
     (let q = a div b; r = a mod b
      in if 2 * r < b \<or> 2 * r = b \<and> even q then q else q + 1)"

text \<open>The float nearest to \<open>p / q\<close>.\<close>

definition fdiv :: "nat \<Rightarrow> nat \<Rightarrow> dbl" where
  "fdiv p q =
     (if p = 0 then (0, 0)
      else let k0 = 53 + bit_len q - bit_len p;
               k = (if 2 ^ 53 * q \<le> p * 2 ^ k0 then k0 - 1 else k0)
           in (div_half_even (p * 2 ^ k) q, k))"

text \<open>\<open>float(n)\<close>, the sum, the product, the quotient by an integer, and the comparison \<open><\<close>.\<close>

definition fnat :: "nat \<Rightarrow> dbl" where
  "fnat n = fdiv n 1"

fun fadd :: "dbl \<Rightarrow> dbl \<Rightarrow> dbl" where
  "fadd (s1, k1) (s2, k2) = fdiv (s1 * 2 ^ k2 + s2 * 2 ^ k1) (2 ^ (k1 + k2))"

fun fmul :: "dbl \<Rightarrow> dbl \<Rightarrow> dbl" where
  "fmul (s1, k1) (s2, k2) = fdiv (s1 * s2) (2 ^ (k1 + k2))"

fun fquot :: "dbl \<Rightarrow> nat \<Rightarrow> dbl" where
  "fquot (s, k) n = fdiv s (n * 2 ^ k)"

fun fless :: "dbl \<Rightarrow> dbl \<Rightarrow> bool" where
  "fless (s1, k1) (s2, k2) \<longleftrightarrow> s1 * 2 ^ k2 < s2 * 2 ^ k1"

text \<open>\<open>int(x)\<close>, and \<open>round(x, d)\<close> as the number of units of \<open>10 ^ - d\<close>.\<close>

fun ftrunc :: "dbl \<Rightarrow> nat" where
  "ftrunc (s, k) = s div 2 ^ k"

fun fround :: "nat \<Rightarrow> dbl \<Rightarrow> nat" where
  "fround d (s, k) = div_half_even (s * 10 ^ d) (2 ^ k)"

text \<open>The float that \<open>round(x, d)\<close> gives, which is the one nearest to the decimal number.\<close>

definition fdec :: "nat \<Rightarrow> nat \<Rightarrow> dbl" where
  "fdec d n = fdiv n (10 ^ d)"

section \<open>Text\<close>

text \<open>\<open>f"{x:.df}"\<close> of a number given in units of \<open>10 ^ - d\<close>, and the \<open>repr\<close> of a float rounded to \<open>d\<close> places.\<close>

definition frac_digits :: "nat \<Rightarrow> nat \<Rightarrow> pystr" where
  "frac_digits d n = (let t = dec_nat (n mod 10 ^ d) in replicate (d - length t) 48 @ t)"

definition fixed_text :: "nat \<Rightarrow> nat \<Rightarrow> pystr" where
  "fixed_text d n = dec_nat (n div 10 ^ d) @ [46] @ frac_digits d n"

definition repr_dec :: "nat \<Rightarrow> nat \<Rightarrow> pystr" where
  "repr_dec d n =
     (let f = rev (dropWhile (\<lambda>c. c = 48) (rev (frac_digits d n)))
      in dec_nat (n div 10 ^ d) @ [46] @ (if f = [] then [48] else f))"

section \<open>Facts\<close>

lemma div_half_even_le: "a \<le> n * b \<Longrightarrow> 0 < b \<Longrightarrow> div_half_even a b \<le> n"
proof -
  assume le: "a \<le> n * b" and b: "0 < b"
  then have q: "a div b \<le> n" by (metis div_le_mono nonzero_mult_div_cancel_right not_gr0)
  show ?thesis
  proof (cases "a div b = n")
    case True
    then have "a = n * b + a mod b" by (metis div_mult_mod_eq)
    with le have "a mod b = 0" by simp
    with True b show ?thesis by (simp add: div_half_even_def)
  qed (use q in \<open>simp add: div_half_even_def Let_def\<close>)
qed

lemma div_half_even_ge: "n * b \<le> a \<Longrightarrow> 0 < b \<Longrightarrow> n \<le> div_half_even a b"
  by (auto simp: div_half_even_def Let_def less_eq_div_iff_mult_less_eq intro: le_SucI)

lemma div_half_even_exact [simp]: "0 < b \<Longrightarrow> div_half_even (n * b) b = n"
  by (simp add: div_half_even_def)

lemma div_half_even_mono: "a \<le> a' \<Longrightarrow> 0 < b \<Longrightarrow> div_half_even a b \<le> div_half_even a' b"
proof -
  assume le: "a \<le> a'" and b: "0 < b"
  have q: "a div b \<le> a' div b" using le by (rule div_le_mono)
  show ?thesis
  proof (cases "a div b = a' div b")
    case True
    with le have "a mod b \<le> a' mod b" by (metis add_le_cancel_left mult_div_mod_eq)
    with True show ?thesis by (auto simp: div_half_even_def Let_def)
  qed (use q in \<open>auto simp: div_half_even_def Let_def\<close>)
qed

lemma fdiv_zero [simp]: "fdiv 0 q = (0, 0)"
  by (simp add: fdiv_def)

lemma fround_zero [simp]: "fround d (0, 0) = 0"
  by (simp add: div_half_even_def)

text \<open>A quotient of at most one stays at most one.\<close>

lemma fdiv_le_one:
  assumes "p \<le> q" "0 < q"
  shows "fst (fdiv p q) \<le> 2 ^ snd (fdiv p q)"
proof (cases "p = 0")
  case False
  then show ?thesis
    using assms by (auto simp: fdiv_def Let_def mult.commute intro!: div_half_even_le)
qed simp

lemma fround_le_one:
  assumes "p \<le> q" "0 < q"
  shows "fround d (fdiv p q) \<le> 10 ^ d"
proof -
  obtain s k where sk: "fdiv p q = (s, k)" by (cases "fdiv p q")
  with fdiv_le_one[OF assms] have "s \<le> 2 ^ k" by simp
  then have "s * 10 ^ d \<le> 10 ^ d * 2 ^ k" by simp
  then show ?thesis unfolding sk by (auto intro!: div_half_even_le)
qed

end
