(* ===== verification/Drill.thy ===== *)
theory Drill
  imports PyFloat PyRe Notifications
begin

text \<open>
  The fault drills: \<open>models/drill.py\<close> (scenarios and runs) and \<open>services/drill_service.py\<close>. A run is a
  snapshot of a scenario's time line and checklist, the actions reported while it is running, and
  a score once it has ended. Coverages are kept in thousandths, average response times in tenths of
  a second, the units \<open>round\<close> leaves; the language model's review of a run, the search of the
  database for a keyword and the paths of the knowledge graph are arguments.
\<close>

section \<open>Rows\<close>

record drill_event =
  ev_tOffset :: int
  ev_device :: pystr
  ev_event :: pystr
  ev_severity :: pystr

record check_item =
  ci_id :: pystr
  ci_action :: pystr
  ci_keywords :: "pystr list"

record drill_scenario =
  sc_id :: pystr
  sc_name :: pystr
  sc_description :: pystr
  sc_station_id :: pystr
  sc_fault_device :: pystr
  sc_fault_desc :: pystr
  sc_propagation :: "drill_event list"
  sc_checklist :: "check_item list"
  sc_difficulty :: pystr
  sc_enabled :: bool
  sc_source :: pystr
  sc_tenant :: pystr
  sc_created_by :: pystr
  sc_created_at :: time
  sc_updated_at :: time

datatype drill_status = DrRunning | DrFinished | DrAborted

definition drill_status_str :: "drill_status \<Rightarrow> pystr" where
  "drill_status_str s = (case s of DrRunning \<Rightarrow> asc ''running'' | DrFinished \<Rightarrow> asc ''finished'' | DrAborted \<Rightarrow> asc ''aborted'')"

record drill_action =
  da_t :: nat
  da_user :: pystr
  da_action :: pystr

record drill_match =
  dm_checklistId :: pystr
  dm_actionIdx :: nat
  dm_responseSec :: nat

record drill_score =
  ds_matched :: "drill_match list"
  ds_missed :: "pystr list"
  ds_coverage :: nat
  ds_avg :: "nat option"
  ds_grade :: pystr

record drill_run =
  dr_id :: pystr
  dr_scenario_id :: pystr
  dr_scenario_name :: pystr
  dr_station_id :: pystr
  dr_fault_device :: pystr
  dr_status :: drill_status
  dr_propagation :: "drill_event list"
  dr_checklist :: "check_item list"
  dr_actions :: "drill_action list"
  dr_score :: "drill_score option"
  dr_evaluation_md :: pystr
  dr_tenant :: pystr
  dr_started_by :: pystr
  dr_started_at :: time
  dr_finished_at :: "time option"
  dr_duration_sec :: nat

record drill_db =
  dd_scenarios :: "drill_scenario list"
  dd_runs :: "drill_run list"

definition empty_drills :: drill_db where
  "empty_drills = \<lparr>dd_scenarios = [], dd_runs = []\<rparr>"

section \<open>Validation\<close>

definition MAX_EVENTS :: nat where "MAX_EVENTS = 30"

definition MAX_CHECKLIST :: nat where "MAX_CHECKLIST = 20"

definition clean_event :: "drill_event \<Rightarrow> drill_event" where
  "clean_event e = e\<lparr>ev_tOffset := max 0 (ev_tOffset e)\<rparr>"

definition clean_item :: "nat \<Rightarrow> check_item \<Rightarrow> check_item" where
  "clean_item i c = c\<lparr>ci_id := py_or (ci_id c) (asc ''c'' @ dec_nat i),
     ci_keywords := take 8 (filter (\<lambda>k. py_strip k \<noteq> []) (ci_keywords c))\<rparr>"

text \<open>The checked and cleaned time line and checklist; the code changes the lists in place.\<close>

definition validate_scenario ::
  "drill_event list \<Rightarrow> check_item list \<Rightarrow> (drill_event list \<times> check_item list) res" where
  "validate_scenario propagation checklist =
     (if propagation = [] then Inl (BizError [0x4f20, 0x64ad, 0x4e8b, 0x4ef6, 0x65f6, 0x95f4, 0x8f74, 0x4e0d, 0x80fd, 0x4e3a, 0x7a7a] 400)
      else if MAX_EVENTS < length propagation
      then Inl (BizError (([0x4f20, 0x64ad, 0x4e8b, 0x4ef6, 0x4e0d, 0x8d85, 0x8fc7] @ asc '' '') @ dec_nat MAX_EVENTS @ (asc '' '' @ [0x6761])) 400)
      else if list_ex (\<lambda>e. ev_event e = []) propagation then Inl (BizError ([0x4f20, 0x64ad, 0x4e8b, 0x4ef6, 0x9700, 0x5305, 0x542b] @ asc '' event '' @ [0x5b57, 0x6bb5]) 400)
      else if checklist = [] then Inl (BizError [0x5e94, 0x5c3d, 0x52a8, 0x4f5c, 0x6e05, 0x5355, 0x4e0d, 0x80fd, 0x4e3a, 0x7a7a] 400)
      else if MAX_CHECKLIST < length checklist
      then Inl (BizError (([0x52a8, 0x4f5c, 0x6e05, 0x5355, 0x4e0d, 0x8d85, 0x8fc7] @ asc '' '') @ dec_nat MAX_CHECKLIST @ (asc '' '' @ [0x6761])) 400)
      else if list_ex (\<lambda>c. ci_action c = []) checklist then Inl (BizError ([0x52a8, 0x4f5c, 0x6e05, 0x5355, 0x9879, 0x9700, 0x5305, 0x542b] @ asc '' action '' @ [0x5b57, 0x6bb5]) 400)
      else Inr (map clean_event propagation, map2 clean_item [1..<Suc (length checklist)] checklist))"

section \<open>Scenarios\<close>

definition list_scenarios ::
  "(pystr \<Rightarrow> pystr \<Rightarrow> bool) \<Rightarrow> pystr \<Rightarrow> pystr \<Rightarrow> nat \<Rightarrow> nat \<Rightarrow> drill_db \<Rightarrow> nat \<times> drill_scenario list" where
  "list_scenarios like tenant_id keyword page psize db =
     (let rows = filter (\<lambda>s. sc_tenant s = tenant_id \<and> (keyword \<noteq> [] \<longrightarrow> like keyword (sc_name s))) (dd_scenarios db)
      in (length rows, page_rows ((page - 1) * psize) psize (sort_key (\<lambda>s. - sc_updated_at s) rows)))"

definition get_scenario :: "drill_db \<Rightarrow> pystr \<Rightarrow> pystr \<Rightarrow> drill_scenario res" where
  "get_scenario db scenario_id tenant_id =
     (case find (\<lambda>s. sc_id s = scenario_id \<and> sc_tenant s = tenant_id) (dd_scenarios db) of
        None \<Rightarrow> Inl (BizError [0x6f14, 0x7ec3, 0x5267, 0x672c, 0x4e0d, 0x5b58, 0x5728] 404)
      | Some s \<Rightarrow> Inr s)"

record scenario_form =
  sf_name :: pystr
  sf_description :: pystr
  sf_station_id :: pystr
  sf_fault_device :: pystr
  sf_fault_desc :: pystr
  sf_propagation :: "drill_event list"
  sf_checklist :: "check_item list"
  sf_difficulty :: pystr

definition new_scenario :: "clock \<Rightarrow> pystr \<Rightarrow> pystr \<Rightarrow> pystr \<Rightarrow> scenario_form \<Rightarrow> drill_scenario" where
  "new_scenario c uuid tenant_id username f = \<lparr>sc_id = uuid, sc_name = take 120 (py_strip (sf_name f)),
     sc_description = take 500 (sf_description f), sc_station_id = sf_station_id f, sc_fault_device = sf_fault_device f,
     sc_fault_desc = take 500 (sf_fault_desc f), sc_propagation = sf_propagation f, sc_checklist = sf_checklist f,
     sc_difficulty = (if sf_difficulty f \<in> {asc ''easy'', asc ''normal'', asc ''hard''} then sf_difficulty f else asc ''normal''),
     sc_enabled = True, sc_source = asc ''manual'', sc_tenant = tenant_id, sc_created_by = username,
     sc_created_at = sqlnow c, sc_updated_at = sqlnow c\<rparr>"

definition insert_scenario :: "drill_scenario \<Rightarrow> drill_db \<Rightarrow> (drill_scenario \<times> drill_db) res" where
  "insert_scenario s db =
     (if sc_id s \<in> sc_id ` set (dd_scenarios db) then Inl IntegrityError
      else Inr (s, db\<lparr>dd_scenarios := dd_scenarios db @ [s]\<rparr>))"

definition create_scenario ::
  "clock \<Rightarrow> pystr \<Rightarrow> pystr \<Rightarrow> pystr \<Rightarrow> scenario_form \<Rightarrow> drill_db \<Rightarrow> (drill_scenario \<times> drill_db) res" where
  "create_scenario c uuid tenant_id username f db =
     (if py_strip (sf_name f) = [] then Inl (BizError [0x5267, 0x672c, 0x540d, 0x79f0, 0x4e0d, 0x80fd, 0x4e3a, 0x7a7a] 400)
      else (case validate_scenario (sf_propagation f) (sf_checklist f) of
          Inl e \<Rightarrow> Inl e
        | Inr (ps, cs) \<Rightarrow>
            insert_scenario (new_scenario c uuid tenant_id username (f\<lparr>sf_propagation := ps, sf_checklist := cs\<rparr>)) db))"

text \<open>The fields an update names; \<open>None\<close> leaves a column as it is.\<close>

record scenario_patch =
  sp_name :: "pystr option"
  sp_description :: "pystr option"
  sp_station_id :: "pystr option"
  sp_fault_device :: "pystr option"
  sp_fault_desc :: "pystr option"
  sp_propagation :: "drill_event list option"
  sp_checklist :: "check_item list option"
  sp_difficulty :: "pystr option"
  sp_enabled :: "bool option"

definition given :: "'a option \<Rightarrow> 'a \<Rightarrow> 'a" where
  "given p v = (case p of None \<Rightarrow> v | Some w \<Rightarrow> w)"

text \<open>The lists are checked only when both are given.\<close>

definition checked_patch :: "scenario_patch \<Rightarrow> scenario_patch res" where
  "checked_patch p =
     (case (sp_propagation p, sp_checklist p) of
        (Some es, Some cs) \<Rightarrow>
          (case validate_scenario es cs of
             Inl e \<Rightarrow> Inl e
           | Inr (es', cs') \<Rightarrow> Inr (p\<lparr>sp_propagation := Some es', sp_checklist := Some cs'\<rparr>))
      | _ \<Rightarrow> Inr p)"

definition patch_scenario :: "scenario_patch \<Rightarrow> drill_scenario \<Rightarrow> drill_scenario" where
  "patch_scenario p s = s\<lparr>sc_name := given (sp_name p) (sc_name s), sc_description := given (sp_description p) (sc_description s),
     sc_station_id := given (sp_station_id p) (sc_station_id s), sc_fault_device := given (sp_fault_device p) (sc_fault_device s),
     sc_fault_desc := given (sp_fault_desc p) (sc_fault_desc s), sc_propagation := given (sp_propagation p) (sc_propagation s),
     sc_checklist := given (sp_checklist p) (sc_checklist s), sc_difficulty := given (sp_difficulty p) (sc_difficulty s),
     sc_enabled := given (sp_enabled p) (sc_enabled s)\<rparr>"

definition update_scenario ::
  "clock \<Rightarrow> pystr \<Rightarrow> pystr \<Rightarrow> scenario_patch \<Rightarrow> drill_db \<Rightarrow> (drill_scenario \<times> drill_db) res" where
  "update_scenario c scenario_id tenant_id p db =
     (case get_scenario db scenario_id tenant_id of
        Inl e \<Rightarrow> Inl e
      | Inr s \<Rightarrow>
          (case checked_patch p of
             Inl e \<Rightarrow> Inl e
           | Inr p' \<Rightarrow>
               let s1 = patch_scenario p' s;
                   s' = (if s1 = s then s else s1\<lparr>sc_updated_at := sqlnow c\<rparr>)
               in Inr (s', db\<lparr>dd_scenarios := put_row sc_id s' (dd_scenarios db)\<rparr>)))"

definition delete_scenario :: "pystr \<Rightarrow> pystr \<Rightarrow> drill_db \<Rightarrow> drill_db res" where
  "delete_scenario scenario_id tenant_id db =
     (case get_scenario db scenario_id tenant_id of
        Inl e \<Rightarrow> Inl e
      | Inr s \<Rightarrow>
          if list_ex (\<lambda>r. dr_scenario_id r = scenario_id \<and> dr_status r = DrRunning) (dd_runs db)
          then Inl (BizError [0x8be5, 0x5267, 0x672c, 0x6709, 0x8fdb, 0x884c, 0x4e2d, 0x7684, 0x6f14, 0x7ec3, 0xff0c, 0x5148, 0x7ec8, 0x6b62, 0x518d, 0x5220, 0x9664] 400)
          else Inr (db\<lparr>dd_scenarios := filter (\<lambda>x. sc_id x \<noteq> sc_id s) (dd_scenarios db)\<rparr>))"

section \<open>A scenario from the paths of the knowledge graph\<close>

definition DEFAULT_CHECKLIST :: "check_item list" where
  "DEFAULT_CHECKLIST = map (\<lambda>(a, ks). \<lparr>ci_id = [], ci_action = a, ci_keywords = ks\<rparr>)
     [([0x67e5, 0x770b, 0x6545, 0x969c, 0x8bbe, 0x5907, 0x8be6, 0x60c5, 0x4e0e, 0x9065, 0x6d4b], [[0x67e5, 0x770b], [0x8bbe, 0x5907], [0x9065, 0x6d4b]]),
      ([0x6838, 0x5bf9, 0x544a, 0x8b66, 0x4e0e, 0x4f20, 0x64ad, 0x5f71, 0x54cd, 0x8303, 0x56f4], [[0x544a, 0x8b66], [0x4f20, 0x64ad], [0x5f71, 0x54cd]]),
      (([0x9694, 0x79bb, 0x6545, 0x969c, 0x8bbe, 0x5907, 0xff08, 0x8fdc, 0x7a0b] @ asc ''/'' @ [0x73b0, 0x573a, 0xff09]), [[0x9694, 0x79bb], [0x65ad, 0x5f00], [0x505c, 0x8fd0]]),
      ([0x6c47, 0x62a5, 0x8c03, 0x5ea6, 0x5e76, 0x901a, 0x77e5, 0x68c0, 0x4fee], [[0x6c47, 0x62a5], [0x8c03, 0x5ea6], [0x901a, 0x77e5], [0x68c0, 0x4fee]]),
      ([0x751f, 0x6210, 0x4e24, 0x7968, 0x5e76, 0x6267, 0x884c, 0x5b89, 0x5168, 0x63aa, 0x65bd], [[0x4e24, 0x7968], [0x5de5, 0x4f5c, 0x7968], [0x64cd, 0x4f5c, 0x7968], [0x5b89, 0x63aa]])]"

fun str_items :: "json list \<Rightarrow> pystr list" where
  "str_items [] = []"
| "str_items (JStr s # js) = s # str_items js"
| "str_items (_ # js) = str_items js"

fun path_value_tokens :: "json \<Rightarrow> pystr list" where
  "path_value_tokens (JStr s) = [s]"
| "path_value_tokens (JList js) = str_items js"
| "path_value_tokens _ = []"

fun path_tokens :: "json \<Rightarrow> pystr list" where
  "path_tokens (JObj kvs) = concat (map (\<lambda>(k, v). path_value_tokens v) kvs)"
| "path_tokens (JList js) = str_items js"
| "path_tokens _ = []"

definition add_device :: "pystr \<Rightarrow> pystr list \<Rightarrow> pystr list" where
  "add_device t0 devices =
     (let t = py_strip t0 in if t \<noteq> [] \<and> t \<notin> set devices \<and> length t \<le> 40 then devices @ [t] else devices)"

fun chain_devices :: "pystr list \<Rightarrow> json list \<Rightarrow> pystr list" where
  "chain_devices devices [] = devices"
| "chain_devices devices (p # ps) =
     (let devices' = fold add_device (path_tokens p) devices
      in if 8 \<le> length devices' then devices' else chain_devices devices' ps)"

definition extract_chain_devices :: "json list \<Rightarrow> pystr list" where
  "extract_chain_devices paths = chain_devices [] paths"

text \<open>The devices along the chain, the faulty one among them.\<close>

definition chain_of :: "json list \<Rightarrow> pystr \<Rightarrow> pystr list" where
  "chain_of paths device_id =
     (let ds = (case extract_chain_devices paths of [] \<Rightarrow> [device_id] | ds \<Rightarrow> ds)
      in if device_id \<in> set ds then ds else device_id # ds)"

definition chain_events :: "pystr list \<Rightarrow> drill_event list" where
  "chain_events devices =
     (let d0 = hd devices in
      [\<lparr>ev_tOffset = 0, ev_device = d0, ev_event = d0 @ (asc '' '' @ [0x53d1, 0x751f, 0x6545, 0x969c, 0x544a, 0x8b66, 0xff0c, 0x8bf7, 0x7acb, 0x5373, 0x7814, 0x5224, 0x5904, 0x7f6e]), ev_severity = asc ''critical''\<rparr>] @
      map2 (\<lambda>i dev. \<lparr>ev_tOffset = int i * 60, ev_device = dev, ev_event = [0x6545, 0x969c, 0x5f71, 0x54cd, 0x6269, 0x6563, 0xff1a] @ dev @ (asc '' '' @ [0x51fa, 0x73b0, 0x5173, 0x8054, 0x5f02, 0x5e38, 0x4fe1, 0x53f7]),
          ev_severity = asc ''warning''\<rparr>) [1..<6] (take 5 (drop 1 devices)) @
      [\<lparr>ev_tOffset = 360, ev_device = d0, ev_event = ([0x8c03, 0x5ea6, 0x50ac, 0x529e, 0xff1a, 0x8981, 0x6c42] @ asc '' 5 '' @ [0x5206, 0x949f, 0x5185, 0x6c47, 0x62a5, 0x5904, 0x7f6e, 0x8fdb, 0x5c55]), ev_severity = asc ''info''\<rparr>])"

definition strftime_mdHM :: "time \<Rightarrow> pystr" where
  "strftime_mdHM t =
     (let (y, m, d) = civil_of_days (t div seconds 86400);
          s = t mod seconds 86400 div 1000000
      in zero_pad 2 m @ zero_pad 2 d @ zero_pad 2 (s div 3600) @ zero_pad 2 (s div 60 mod 60))"

definition scenario_from_fault_chain ::
  "clock \<Rightarrow> pystr \<Rightarrow> (pystr \<Rightarrow> pystr \<Rightarrow> unit + json list) \<Rightarrow> pystr \<Rightarrow> pystr \<Rightarrow> pystr \<Rightarrow> pystr \<Rightarrow> pystr \<Rightarrow> drill_db \<Rightarrow>
   (drill_scenario \<times> drill_db) res" where
  "scenario_from_fault_chain c uuid fault_chain tenant_id username station_id device_id name db =
     (let paths = (case fault_chain device_id station_id of Inl _ \<Rightarrow> [] | Inr ps \<Rightarrow> ps);
          devices = chain_of paths device_id;
          d0 = hd devices
      in (case validate_scenario (chain_events devices) DEFAULT_CHECKLIST of
            Inl e \<Rightarrow> Inl e
          | Inr (es, cs) \<Rightarrow>
              insert_scenario \<lparr>sc_id = uuid,
                sc_name = take 120 (py_strip (py_or name ([0x6545, 0x969c, 0x6f14, 0x7ec3, 0xb7] @ d0 @ [0xb7] @ strftime_mdHM (utc c 0)))),
                sc_description = ([0x7531, 0x5b6a, 0x751f, 0x6545, 0x969c, 0x94fe, 0x81ea, 0x52a8, 0x751f, 0x6210, 0xff08, 0x8bbe, 0x5907] @ asc '' '') @ device_id @ ([0xff0c, 0x7ad9, 0x70b9] @ asc '' '') @ py_or station_id [0x9ed8, 0x8ba4] @ [0xff09, 0xff0c, 0x53ef, 0x6309, 0x9700, 0x7f16, 0x8f91, 0x3002],
                sc_station_id = station_id, sc_fault_device = device_id,
                sc_fault_desc = d0 @ (asc '' '' @ [0x7591, 0x4f3c, 0x6545, 0x969c, 0xff08, 0x5b6a, 0x751f, 0x6545, 0x969c, 0x94fe] @ asc '' '') @ dec_nat (length paths) @ (asc '' '' @ [0x6761, 0x8def, 0x5f84, 0x63a8, 0x5bfc, 0xff09]),
                sc_propagation = es, sc_checklist = cs, sc_difficulty = asc ''normal'', sc_enabled = True,
                sc_source = asc ''fault_chain'', sc_tenant = tenant_id, sc_created_by = username,
                sc_created_at = sqlnow c, sc_updated_at = sqlnow c\<rparr> db))"

section \<open>Runs\<close>

definition elapsed_sec :: "time \<Rightarrow> drill_run \<Rightarrow> nat" where
  "elapsed_sec now r =
     (let end = (case dr_finished_at r of Some t \<Rightarrow> t | None \<Rightarrow> now)
      in nat ((end - dr_started_at r) div 1000000))"

text \<open>What the live view shows of the time line.\<close>

definition due_events :: "time \<Rightarrow> drill_run \<Rightarrow> drill_event list" where
  "due_events now r = filter (\<lambda>e. ev_tOffset e \<le> int (elapsed_sec now r)) (dr_propagation r)"

definition new_run :: "clock \<Rightarrow> pystr \<Rightarrow> pystr \<Rightarrow> pystr \<Rightarrow> drill_scenario \<Rightarrow> drill_run" where
  "new_run c uuid tenant_id username s = \<lparr>dr_id = uuid, dr_scenario_id = sc_id s, dr_scenario_name = sc_name s,
     dr_station_id = sc_station_id s, dr_fault_device = sc_fault_device s, dr_status = DrRunning,
     dr_propagation = sc_propagation s, dr_checklist = sc_checklist s, dr_actions = [], dr_score = None,
     dr_evaluation_md = [], dr_tenant = tenant_id, dr_started_by = username, dr_started_at = utc c 0,
     dr_finished_at = None, dr_duration_sec = 0\<rparr>"

definition start_drill_run ::
  "clock \<Rightarrow> pystr \<Rightarrow> pystr \<Rightarrow> pystr \<Rightarrow> pystr \<Rightarrow> drill_db \<Rightarrow> (drill_run \<times> drill_db) res" where
  "start_drill_run c uuid tenant_id username scenario_id db =
     (case get_scenario db scenario_id tenant_id of
        Inl e \<Rightarrow> Inl e
      | Inr s \<Rightarrow>
          if \<not> sc_enabled s then Inl (BizError [0x5267, 0x672c, 0x5df2, 0x505c, 0x7528] 400)
          else if uuid \<in> dr_id ` set (dd_runs db) then Inl IntegrityError
          else let r = new_run c uuid tenant_id username s
               in Inr (r, db\<lparr>dd_runs := dd_runs db @ [r]\<rparr>))"

definition get_drill_run :: "drill_db \<Rightarrow> pystr \<Rightarrow> pystr \<Rightarrow> drill_run res" where
  "get_drill_run db run_id tenant_id =
     (case find (\<lambda>r. dr_id r = run_id \<and> dr_tenant r = tenant_id) (dd_runs db) of
        None \<Rightarrow> Inl (BizError [0x6f14, 0x7ec3, 0x8bb0, 0x5f55, 0x4e0d, 0x5b58, 0x5728] 404)
      | Some r \<Rightarrow> Inr r)"

definition save_run :: "drill_run \<Rightarrow> drill_db \<Rightarrow> drill_db" where
  "save_run r db = db\<lparr>dd_runs := put_row dr_id r (dd_runs db)\<rparr>"

definition record_row :: "clock \<Rightarrow> pystr \<Rightarrow> pystr \<Rightarrow> drill_run \<Rightarrow> drill_run res" where
  "record_row c username action r =
     (if dr_status r \<noteq> DrRunning then Inl (BizError ([0x6f14, 0x7ec3, 0x5df2] @ drill_status_str (dr_status r) @ [0xff0c, 0x65e0, 0x6cd5, 0x7ee7, 0x7eed, 0x6253, 0x5361]) 400)
      else if py_strip action = [] then Inl (BizError [0x64cd, 0x4f5c, 0x5185, 0x5bb9, 0x4e0d, 0x80fd, 0x4e3a, 0x7a7a] 400)
      else Inr (r\<lparr>dr_actions := dr_actions r @ [\<lparr>da_t = elapsed_sec (utc c 0) r, da_user = username,
             da_action = take 300 (py_strip action)\<rparr>]\<rparr>))"

section \<open>The score\<close>

definition hits :: "check_item \<Rightarrow> drill_action \<Rightarrow> bool" where
  "hits c a \<longleftrightarrow> list_ex (\<lambda>k. k \<noteq> [] \<and> py_in k (da_action a)) (ci_keywords c)"

text \<open>The first action not used yet that hits the item, with its place.\<close>

fun first_hit :: "nat \<Rightarrow> nat list \<Rightarrow> check_item \<Rightarrow> drill_action list \<Rightarrow> (nat \<times> drill_action) option" where
  "first_hit i used c [] = None"
| "first_hit i used c (a # as) =
     (if i \<notin> set used \<and> hits c a then Some (i, a) else first_hit (Suc i) used c as)"

fun match_items :: "drill_action list \<Rightarrow> nat list \<Rightarrow> check_item list \<Rightarrow> drill_match list \<times> pystr list" where
  "match_items actions used [] = ([], [])"
| "match_items actions used (c # cs) =
     (case first_hit 0 used c actions of
        Some (i, a) \<Rightarrow>
          (case match_items actions (i # used) cs of
             (matched, missed) \<Rightarrow> (\<lparr>dm_checklistId = ci_id c, dm_actionIdx = i, dm_responseSec = da_t a\<rparr> # matched, missed))
      | None \<Rightarrow>
          (case match_items actions used cs of (matched, missed) \<Rightarrow> (matched, ci_id c # missed)))"

definition coverage :: "nat \<Rightarrow> nat \<Rightarrow> nat" where
  "coverage m n = (if n = 0 then 0 else fround 3 (fdiv m n))"

definition grade_of :: "nat \<Rightarrow> pystr" where
  "grade_of cov = (if 900 \<le> cov then [0x4f18, 0x79c0] else if 700 \<le> cov then [0x826f, 0x597d]
     else if 500 \<le> cov then [0x5408, 0x683c] else [0x9700, 0x590d, 0x8bad])"

definition score_run :: "drill_run \<Rightarrow> drill_score" where
  "score_run r =
     (case match_items (dr_actions r) [] (dr_checklist r) of
        (matched, missed) \<Rightarrow>
          let cov = coverage (length matched) (length (dr_checklist r))
          in \<lparr>ds_matched = matched, ds_missed = missed, ds_coverage = cov,
               ds_avg = (if matched = [] then None
                 else Some (fround 1 (fdiv (sum_list (map dm_responseSec matched)) (length matched)))),
               ds_grade = grade_of cov\<rparr>)"

text \<open>\<open>int(coverage * 100)\<close>, and an average that is missing or zero shown as a dash.\<close>

definition percent :: "nat \<Rightarrow> nat" where
  "percent cov = ftrunc (fmul (fdec 3 cov) (fnat 100))"

definition avg_text :: "nat option \<Rightarrow> pystr" where
  "avg_text a = (case a of None \<Rightarrow> [0x2014] | Some n \<Rightarrow> if n = 0 then [0x2014] else repr_dec 1 n)"

definition missed_actions :: "drill_run \<Rightarrow> drill_score \<Rightarrow> pystr list" where
  "missed_actions r score = map ci_action (filter (\<lambda>c. ci_id c \<in> set (ds_missed score)) (dr_checklist r))"

definition template_evaluation :: "drill_run \<Rightarrow> drill_score \<Rightarrow> pystr" where
  "template_evaluation r score =
     (asc ''## '' @ [0x8868, 0x73b0]) @ [10] @ ([0x52a8, 0x4f5c, 0x8986, 0x76d6, 0x7387] @ asc '' '') @ dec_nat (percent (ds_coverage score)) @ (asc ''%'' @ [0xff08, 0x8bc4, 0x7ea7, 0xff1a]) @ ds_grade score @
     ([0xff09, 0xff0c, 0x5e73, 0x5747, 0x54cd, 0x5e94] @ asc '' '') @ avg_text (ds_avg score) @ (asc '' '' @ [0x79d2, 0x3002]) @ [10, 10] @ (asc ''## '' @ [0x4eae, 0x70b9, 0x4e0e, 0x4e0d, 0x8db3]) @ [10] @
     (if missed_actions r score = [] then [0x5168, 0x90e8, 0x5173, 0x952e, 0x52a8, 0x4f5c, 0x5df2, 0x8986, 0x76d6, 0x3002] @ [10]
      else [0x9057, 0x6f0f, 0x52a8, 0x4f5c, 0xff1a] @ py_join [0xff1b] (missed_actions r score) @ [10]) @
     [10] @ (asc ''## '' @ [0x6539, 0x8fdb, 0x5efa, 0x8bae]) @ [10] @
     ([0xff08] @ asc ''LLM '' @ [0x4e0d, 0x53ef, 0x7528, 0xff0c, 0x6a21, 0x677f, 0x590d, 0x76d8, 0xff09, 0x9488, 0x5bf9, 0x9057, 0x6f0f, 0x52a8, 0x4f5c, 0x5f3a, 0x5316, 0x57f9, 0x8bad, 0xff0c, 0x538b, 0x7f29, 0x9996, 0x6b65, 0x54cd, 0x5e94, 0x65f6, 0x95f4, 0xff0c, 0x6f14, 0x7ec3, 0x540e, 0x5bf9, 0x7167, 0x89c4, 0x7a0b, 0x590d, 0x76d8, 0x3002])"

section \<open>Ending a run\<close>

text \<open>
  What a run's end meets: the clock, whether missed actions are reported to the quality events, and
  the language model's review, which is given the run and its score.
\<close>

record drill_env =
  de_clock :: clock
  de_miss_quality :: bool
  de_review :: "drill_run \<Rightarrow> drill_score \<Rightarrow> unit + pystr"

definition evaluation :: "drill_env \<Rightarrow> bool \<Rightarrow> drill_run \<Rightarrow> drill_score \<Rightarrow> pystr" where
  "evaluation env ask r score =
     (if \<not> ask then template_evaluation r score
      else (case de_review env r score of
          Inl _ \<Rightarrow> template_evaluation r score
        | Inr raw \<Rightarrow> if 20 < length (py_strip raw) then py_strip raw else template_evaluation r score))"

definition end_row :: "drill_env \<Rightarrow> drill_status \<Rightarrow> drill_run \<Rightarrow> drill_run" where
  "end_row env status r =
     (let r1 = r\<lparr>dr_status := status, dr_finished_at := Some (utc (de_clock env) 0)\<rparr>;
          r2 = r1\<lparr>dr_duration_sec := elapsed_sec (utc (de_clock env) 0) r1\<rparr>
      in r2\<lparr>dr_score := Some (score_run r2)\<rparr>)"

definition finish_row :: "drill_env \<Rightarrow> bool \<Rightarrow> bool \<Rightarrow> drill_run \<Rightarrow> drill_run" where
  "finish_row env auto with_llm r =
     (let r' = end_row env DrFinished r
      in r'\<lparr>dr_evaluation_md := evaluation env (with_llm \<and> \<not> auto) r' (score_run r')\<rparr>)"

definition notify_finished :: "drill_run \<Rightarrow> note_request list" where
  "notify_finished r =
     (let (grade, cov) = (case dr_score r of None \<Rightarrow> ([], 0) | Some s \<Rightarrow> (ds_grade s, ds_coverage s))
      in [\<lparr>nq_username = dr_started_by r, nq_type = asc ''drill_finished'',
           nq_title = [0x6f14, 0x7ec3, 0x590d, 0x76d8, 0x5c31, 0x7eea, 0xff1a] @ dr_scenario_name r @ [0xff08] @ grade @ [0xff09],
           nq_body = ([0x8986, 0x76d6, 0x7387] @ asc '' '') @ dec_nat (percent cov) @ (asc ''%'' @ [0xff0c, 0x7528, 0x65f6] @ asc '' '') @ dec_nat (dr_duration_sec r) @ (asc ''s''),
           nq_link = asc ''/drill'', nq_tenant = dr_tenant r\<rparr>])"

text \<open>The payload of the quality event about missed actions.\<close>

definition coverage_json :: "drill_score \<Rightarrow> json" where
  "coverage_json s =
     (if ds_matched s = [] \<and> ds_missed s = [] then JInt 0 else JFloat (repr_dec 3 (ds_coverage s)))"

definition emit_missed_quality :: "drill_env \<Rightarrow> drill_run \<Rightarrow> drill_score \<Rightarrow> json list" where
  "emit_missed_quality env r score =
     (if \<not> de_miss_quality env \<or> missed_actions r score = [] then []
      else [JObj [(asc ''runId'', JStr (dr_id r)), (asc ''scenario'', JStr (dr_scenario_name r)),
              (asc ''user'', JStr (dr_started_by r)),
              (asc ''missedActions'', JList (map JStr (take 10 (missed_actions r score)))),
              (asc ''coverage'', coverage_json score), (asc ''grade'', JStr (ds_grade score))]])"

text \<open>The run, what is told to whom, the quality events and the tables afterwards.\<close>

definition finish_run_with ::
  "drill_env \<Rightarrow> pystr \<Rightarrow> pystr \<Rightarrow> bool \<Rightarrow> bool \<Rightarrow> drill_db \<Rightarrow>
   (drill_run \<times> note_request list \<times> json list \<times> drill_db) res" where
  "finish_run_with env run_id tenant_id auto with_llm db =
     (case get_drill_run db run_id tenant_id of
        Inl e \<Rightarrow> Inl e
      | Inr r \<Rightarrow>
          if dr_status r \<noteq> DrRunning then Inr (r, [], [], db)
          else let r' = finish_row env auto with_llm r
               in Inr (r', notify_finished r', emit_missed_quality env r' (score_run r'), save_run r' db))"

definition abort_run ::
  "drill_env \<Rightarrow> pystr \<Rightarrow> pystr \<Rightarrow> drill_db \<Rightarrow> (drill_run \<times> json list \<times> drill_db) res" where
  "abort_run env run_id tenant_id db =
     (case get_drill_run db run_id tenant_id of
        Inl e \<Rightarrow> Inl e
      | Inr r \<Rightarrow>
          if dr_status r \<noteq> DrRunning then Inl (BizError [0x6f14, 0x7ec3, 0x5df2, 0x7ed3, 0x675f] 400)
          else let r' = end_row env DrAborted r
               in Inr (r', emit_missed_quality env r' (score_run r'), save_run r' db))"

definition record_action ::
  "clock \<Rightarrow> pystr \<Rightarrow> pystr \<Rightarrow> pystr \<Rightarrow> pystr \<Rightarrow> drill_db \<Rightarrow> (drill_run \<times> drill_db) res" where
  "record_action c run_id tenant_id username action db =
     (case get_drill_run db run_id tenant_id of
        Inl e \<Rightarrow> Inl e
      | Inr r \<Rightarrow> (case record_row c username action r of Inl e \<Rightarrow> Inl e | Inr r' \<Rightarrow> Inr (r', save_run r' db)))"

text \<open>The view that is polled; it ends a run that has lasted too long.\<close>

definition drill_run_state :: "clock \<Rightarrow> drill_env \<Rightarrow> nat \<Rightarrow> pystr \<Rightarrow> pystr \<Rightarrow> drill_db \<Rightarrow> (drill_run \<times> drill_db) res" where
  "drill_run_state c env limit run_id tenant_id db =
     (case get_drill_run db run_id tenant_id of
        Inl e \<Rightarrow> Inl e
      | Inr r \<Rightarrow>
          if dr_status r = DrRunning \<and> limit < elapsed_sec (utc c 0) r
          then (case finish_run_with env run_id tenant_id True True db of
                  Inl e \<Rightarrow> Inl e | Inr (r', notes, events, db') \<Rightarrow> Inr (r', db'))
          else Inr (r, db))"

text \<open>
  The sweep over the running runs of one tenant; \<open>ck i\<close> is the clock of the check of the
  i-th row, \<open>envs i\<close> what ending it meets. A run that is gone ends the sweep with an exception.
\<close>

fun sweep_rows ::
  "(nat \<Rightarrow> clock) \<Rightarrow> (nat \<Rightarrow> drill_env) \<Rightarrow> nat \<Rightarrow> pystr \<Rightarrow> nat \<Rightarrow> drill_run list \<Rightarrow> drill_db \<Rightarrow> nat \<times> drill_db" where
  "sweep_rows ck envs limit tenant i [] db = (0, db)"
| "sweep_rows ck envs limit tenant i (r # rs) db =
     (if limit < elapsed_sec (utc (ck i) 0) r
      then (case finish_run_with (envs i) (dr_id r) tenant True True db of
              Inl e \<Rightarrow> (0, db)
            | Inr (r', notes, events, db') \<Rightarrow>
                (case sweep_rows ck envs limit tenant (Suc i) rs db' of (n, db'') \<Rightarrow> (Suc n, db'')))
      else sweep_rows ck envs limit tenant (Suc i) rs db)"

definition sweep_timeout_runs ::
  "(nat \<Rightarrow> clock) \<Rightarrow> (nat \<Rightarrow> drill_env) \<Rightarrow> nat \<Rightarrow> pystr \<Rightarrow> drill_db \<Rightarrow> nat \<times> drill_db" where
  "sweep_timeout_runs ck envs limit tenant db =
     sweep_rows ck envs limit tenant 0 (filter (\<lambda>r. dr_tenant r = tenant \<and> dr_status r = DrRunning) (dd_runs db)) db"

section \<open>Lists and statistics\<close>

definition list_drill_runs :: "pystr \<Rightarrow> pystr \<Rightarrow> nat \<Rightarrow> nat \<Rightarrow> drill_db \<Rightarrow> nat \<times> drill_run list" where
  "list_drill_runs tenant_id scenario_id page psize db =
     (let rows = filter (\<lambda>r. dr_tenant r = tenant_id \<and> (scenario_id \<noteq> [] \<longrightarrow> dr_scenario_id r = scenario_id)) (dd_runs db)
      in (length rows, page_rows ((page - 1) * psize) psize (sort_key (\<lambda>r. - dr_started_at r) rows)))"

text \<open>A counter in a dict, in the order of first occurrence.\<close>

definition bump :: "'k \<Rightarrow> ('k \<times> nat) list \<Rightarrow> ('k \<times> nat) list" where
  "bump k d = AList.update k (Suc (case map_of d k of Some n \<Rightarrow> n | None \<Rightarrow> 0)) d"

definition finished_runs :: "pystr \<Rightarrow> nat \<Rightarrow> drill_db \<Rightarrow> drill_run list" where
  "finished_runs tenant_id lim db =
     take lim (sort_key (\<lambda>r. - dr_started_at r) (filter (\<lambda>r. dr_tenant r = tenant_id \<and> dr_status r = DrFinished) (dd_runs db)))"

definition run_scores :: "drill_run list \<Rightarrow> drill_score list" where
  "run_scores rows = concat (map (\<lambda>r. case dr_score r of Some s \<Rightarrow> [s] | None \<Rightarrow> []) rows)"

definition float_sum :: "dbl list \<Rightarrow> dbl" where
  "float_sum xs = fold (\<lambda>x acc. fadd acc x) xs (0, 0)"

record drill_figures =
  df_finished :: nat
  df_running :: nat
  df_avg_coverage :: "nat option"
  df_by_grade :: "(pystr \<times> nat) list"

definition drill_stats :: "pystr \<Rightarrow> drill_db \<Rightarrow> drill_figures" where
  "drill_stats tenant_id db =
     (let rows = finished_runs tenant_id 500 db; scores = run_scores rows
      in \<lparr>df_finished = length rows,
           df_running = length (filter (\<lambda>r. dr_tenant r = tenant_id \<and> dr_status r = DrRunning) (dd_runs db)),
           df_avg_coverage = (if scores = [] then None
             else Some (fround 3 (fquot (float_sum (map (\<lambda>s. fdec 3 (ds_coverage s)) scores)) (length scores)))),
           df_by_grade = fold bump (filter (\<lambda>g. g \<noteq> []) (map ds_grade scores)) []\<rparr>)"

record drill_rank =
  rk_user :: pystr
  rk_runs :: nat
  rk_cov :: dbl
  rk_resp :: dbl
  rk_resp_n :: nat
  rk_last :: pystr

definition new_rank :: "pystr \<Rightarrow> drill_rank" where
  "new_rank u = \<lparr>rk_user = u, rk_runs = 0, rk_cov = (0, 0), rk_resp = (0, 0), rk_resp_n = 0, rk_last = []\<rparr>"

definition count_run :: "drill_run \<Rightarrow> drill_rank \<Rightarrow> drill_rank" where
  "count_run r k =
     (let cov = (case dr_score r of Some s \<Rightarrow> fdec 3 (ds_coverage s) | None \<Rightarrow> (0, 0));
          avg = (case dr_score r of Some s \<Rightarrow> ds_avg s | None \<Rightarrow> None);
          k1 = k\<lparr>rk_runs := rk_runs k + 1, rk_cov := fadd (rk_cov k) cov\<rparr>;
          k2 = (case avg of None \<Rightarrow> k1
            | Some n \<Rightarrow> k1\<lparr>rk_resp := fadd (rk_resp k1) (fdec 1 n), rk_resp_n := rk_resp_n k1 + 1\<rparr>)
      in k2\<lparr>rk_last := max (rk_last k2) (isoformat (dr_started_at r))\<rparr>)"

definition rank_run :: "drill_run \<Rightarrow> (pystr \<times> drill_rank) list \<Rightarrow> (pystr \<times> drill_rank) list" where
  "rank_run r d =
     (let u = dr_started_by r
      in AList.update u (count_run r (case map_of d u of Some k \<Rightarrow> k | None \<Rightarrow> new_rank u)) d)"

record leader =
  ld_user :: pystr
  ld_runs :: nat
  ld_avg_coverage :: nat
  ld_avg_response :: "nat option"
  ld_last :: pystr

definition leader_of :: "drill_rank \<Rightarrow> leader" where
  "leader_of k = \<lparr>ld_user = rk_user k, ld_runs = rk_runs k, ld_avg_coverage = fround 3 (fquot (rk_cov k) (rk_runs k)),
     ld_avg_response = (if rk_resp_n k = 0 then None else Some (fround 1 (fquot (rk_resp k) (rk_resp_n k)))),
     ld_last = rk_last k\<rparr>"

text \<open>A missing average response, and one of zero, count as a thousand million seconds.\<close>

definition leader_key :: "leader \<Rightarrow> int \<times> nat" where
  "leader_key l = (- int (ld_avg_coverage l), (case ld_avg_response l of
     None \<Rightarrow> 10 * 1000000000 | Some n \<Rightarrow> if n = 0 then 10 * 1000000000 else n))"

definition leaderboard :: "clock \<Rightarrow> pystr \<Rightarrow> int \<Rightarrow> drill_db \<Rightarrow> leader list" where
  "leaderboard c tenant days db =
     (let since = utc c 0 - seconds (86400 * max 1 days);
          rows = take 1000 (sort_key (\<lambda>r. - dr_started_at r)
            (filter (\<lambda>r. dr_tenant r = tenant \<and> dr_status r = DrFinished \<and> since \<le> dr_started_at r) (dd_runs db)))
      in take 20 (sort_key leader_key (map (\<lambda>(u, k). leader_of k) (fold rank_run rows []))))"

end
