(* ===== verification/Growth.thy ===== *)
theory Growth
  imports Interfaces
begin

text \<open>
  Tables whose rows are never deleted: an operation appends rows and changes the others by a
  relation \<open>later\<close> that is reflexive, transitive and keeps the key. What \<open>later\<close> says of one row
  then holds of it through any run.
\<close>

definition grows :: "('r \<Rightarrow> 'r \<Rightarrow> bool) \<Rightarrow> 'r list \<Rightarrow> 'r list \<Rightarrow> bool" where
  "grows R xs ys \<longleftrightarrow> (\<exists>mid new. ys = mid @ new \<and> list_all2 R xs mid)"

lemma grows_refl: "(\<And>x. R x x) \<Longrightarrow> grows R xs xs"
  unfolding grows_def by (intro exI[of _ xs] exI[of _ "[]"]) (simp add: list.rel_refl)

lemma grows_append: "(\<And>x. R x x) \<Longrightarrow> grows R xs (xs @ ys)"
  unfolding grows_def by (intro exI[of _ xs] exI[of _ ys]) (simp add: list.rel_refl)

lemma grows_put:
  assumes "\<And>x. R x x" and "distinct (map key xs)" and "get_row key (key r) xs = Some t" and "R t r"
  shows "grows R xs (put_row key r xs)"
  unfolding grows_def
  by (intro exI[of _ "put_row key r xs"] exI[of _ "[]"]) (simp add: list_all2_put_row[OF assms])

lemma grows_map: "(\<And>x. x \<in> set xs \<Longrightarrow> R x (f x)) \<Longrightarrow> grows R xs (map f xs)"
  unfolding grows_def
  by (intro exI[of _ "map f xs"] exI[of _ "[]"]) (simp add: list_all2_map2 list.rel_refl_strong)

lemma grows_trans:
  assumes "\<And>x y z. R x y \<Longrightarrow> R y z \<Longrightarrow> R x z" and "grows R xs ys" and "grows R ys zs"
  shows "grows R xs zs"
proof -
  from assms(2,3) obtain m n m' n' where mn: "ys = m @ n" "list_all2 R xs m" "zs = m' @ n'" "list_all2 R ys m'"
    unfolding grows_def by blast
  then obtain a b where ab: "m' = a @ b" "list_all2 R m a" by (auto simp: list_all2_append1)
  have "list_all2 R xs a" by (rule list_all2_trans[OF _ mn(2) ab(2)]) (rule assms(1))
  with mn(3) ab(1) show ?thesis unfolding grows_def by (intro exI[of _ a] exI[of _ "b @ n'"]) simp
qed

lemma grows_row:
  assumes "grows R xs ys" and "\<And>x y. R x y \<Longrightarrow> key y = key x" and "get_row key k xs = Some r"
  shows "\<exists>r'. get_row key k ys = Some r' \<and> R r r'"
proof -
  from assms(1) obtain m n where mn: "ys = m @ n" "list_all2 R xs m" unfolding grows_def by blast
  from get_row_moves[OF mn(2) assms(2,3)] obtain r' where "get_row key k m = Some r'" "R r r'" by blast
  with mn(1) show ?thesis by (auto simp: get_row_def find_append)
qed

locale growing_table = invariant_ops +
  fixes rows :: "'b \<Rightarrow> 'r list"
    and key :: "'r \<Rightarrow> 'k"
    and later :: "'r \<Rightarrow> 'r \<Rightarrow> bool"
  assumes later_refl: "later r r"
    and later_trans: "later r r' \<Longrightarrow> later r' r'' \<Longrightarrow> later r r''"
    and later_key: "later r r' \<Longrightarrow> key r' = key r"
    and step_grows: "inv db \<Longrightarrow> grows later (rows db) (rows (step op db))"
begin

lemma run_grows: "inv db \<Longrightarrow> grows later (rows db) (rows (fold step ops db))"
proof (induction ops arbitrary: db)
  case Nil
  show ?case by (simp add: grows_refl later_refl)
next
  case (Cons op ops)
  from grows_trans[OF later_trans step_grows[OF Cons.prems, of op] Cons.IH[OF step_inv[OF Cons.prems]]]
  show ?case by simp
qed

lemma row_persists:
  "inv db \<Longrightarrow> get_row key k (rows db) = Some r \<Longrightarrow>
   \<exists>r'. get_row key k (rows (fold step ops db)) = Some r' \<and> later r r'"
  using grows_row[where key = key and R = later, OF run_grows later_key] by blast

end

end
