(* ===== verification/DrillClaims.thy ===== *)
theory DrillClaims
  imports Drill Growth
begin

text \<open>
  What the drills guarantee: a run is a snapshot that only grows while it is running and never
  changes once ended, its score is that of its actions, the scoring is a maximal matching that
  reaches at least half of the best one, and the sweep settles one tenant's expired runs.
\<close>

section \<open>Runs of the service\<close>

datatype drill_op =
    CreateScenario clock pystr pystr pystr scenario_form
  | UpdateScenario clock pystr pystr scenario_patch
  | DeleteScenario pystr pystr
  | FaultChain clock pystr "pystr \<Rightarrow> pystr \<Rightarrow> unit + json list" pystr pystr pystr pystr pystr
  | StartDrill clock pystr pystr pystr pystr
  | RecordAction clock pystr pystr pystr pystr
  | FinishDrill drill_env pystr pystr bool bool
  | AbortDrill drill_env pystr pystr
  | PollDrill clock drill_env nat pystr pystr
  | SweepDrills "nat \<Rightarrow> clock" "nat \<Rightarrow> drill_env" nat pystr

definition kept :: "drill_db \<Rightarrow> drill_db res \<Rightarrow> drill_db" where
  "kept db r = (case r of Inl _ \<Rightarrow> db | Inr db' \<Rightarrow> db')"

fun drill_step :: "drill_op \<Rightarrow> drill_db \<Rightarrow> drill_db" where
  "drill_step (CreateScenario c u tn un f) db = kept db (map_sum id snd (create_scenario c u tn un f db))"
| "drill_step (UpdateScenario c i tn p) db = kept db (map_sum id snd (update_scenario c i tn p db))"
| "drill_step (DeleteScenario i tn) db = kept db (delete_scenario i tn db)"
| "drill_step (FaultChain c u fc tn un st dev nm) db = kept db (map_sum id snd (scenario_from_fault_chain c u fc tn un st dev nm db))"
| "drill_step (StartDrill c u tn un i) db = kept db (map_sum id snd (start_drill_run c u tn un i db))"
| "drill_step (RecordAction c i tn un a) db = kept db (map_sum id snd (record_action c i tn un a db))"
| "drill_step (FinishDrill env i tn auto llm) db = kept db (map_sum id (\<lambda>(r, ns, es, db'). db') (finish_run_with env i tn auto llm db))"
| "drill_step (AbortDrill env i tn) db = kept db (map_sum id (\<lambda>(r, es, db'). db') (abort_run env i tn db))"
| "drill_step (PollDrill c env limit i tn) db = kept db (map_sum id snd (drill_run_state c env limit i tn db))"
| "drill_step (SweepDrills ck envs limit tn) db = snd (sweep_timeout_runs ck envs limit tn db)"

definition wf_run :: "drill_run \<Rightarrow> bool" where
  "wf_run r \<longleftrightarrow>
     (if dr_status r = DrRunning then dr_finished_at r = None \<and> dr_score r = None
      else dr_finished_at r \<noteq> None \<and> dr_score r = Some (score_run r) \<and> dr_duration_sec r = elapsed_sec 0 r \<and>
        (dr_status r = DrFinished \<longrightarrow> dr_evaluation_md r \<noteq> []))"

definition wf_drills :: "drill_db \<Rightarrow> bool" where
  "wf_drills db \<longleftrightarrow> distinct (map dr_id (dd_runs db)) \<and> (\<forall>r \<in> set (dd_runs db). wf_run r)"

definition run_origin where
  "run_origin r = (dr_id r, dr_scenario_id r, dr_scenario_name r, dr_station_id r, dr_fault_device r,
     dr_propagation r, dr_checklist r, dr_tenant r, dr_started_by r, dr_started_at r)"

definition later_run :: "drill_run \<Rightarrow> drill_run \<Rightarrow> bool" where
  "later_run r r' \<longleftrightarrow> run_origin r' = run_origin r \<and> (\<exists>more. dr_actions r' = dr_actions r @ more) \<and>
     (dr_status r \<noteq> DrRunning \<longrightarrow> r' = r)"

lemma later_run_refl: "later_run r r"
  by (simp add: later_run_def)

lemma later_run_trans: "later_run r r' \<Longrightarrow> later_run r' r'' \<Longrightarrow> later_run r r''"
  by (auto simp: later_run_def)

lemma later_run_id: "later_run r r' \<Longrightarrow> dr_id r' = dr_id r"
  by (simp add: later_run_def run_origin_def)

lemma elapsed_finished: "dr_finished_at r = Some t \<Longrightarrow> elapsed_sec now r = elapsed_sec 0 r"
  by (simp add: elapsed_sec_def)

lemma score_run_cong: "dr_actions r' = dr_actions r \<Longrightarrow> dr_checklist r' = dr_checklist r \<Longrightarrow> score_run r' = score_run r"
  by (simp add: score_run_def)

lemma template_nonempty: "template_evaluation r s \<noteq> []"
  by (simp add: template_evaluation_def)

lemma evaluation_nonempty: "evaluation env ask r s \<noteq> []"
  using template_nonempty by (auto simp: evaluation_def split: sum.split)

lemma record_row_later: "record_row c u a r = Inr r' \<Longrightarrow> later_run r r' \<and> (wf_run r \<longrightarrow> wf_run r')"
  by (auto simp: record_row_def later_run_def run_origin_def wf_run_def split: if_splits)

lemma end_row_later:
  assumes "dr_status r = DrRunning" and "st \<noteq> DrRunning"
  shows "later_run r (end_row env st r)" and "st \<noteq> DrFinished \<Longrightarrow> wf_run (end_row env st r)"
proof -
  show "later_run r (end_row env st r)"
    using assms by (simp add: end_row_def later_run_def run_origin_def Let_def)
  show "wf_run (end_row env st r)" if "st \<noteq> DrFinished"
    using assms that by (simp add: end_row_def wf_run_def Let_def score_run_def elapsed_sec_def)
qed

lemma finish_row_later:
  assumes "dr_status r = DrRunning"
  shows "later_run r (finish_row env auto llm r)" and "wf_run (finish_row env auto llm r)"
proof -
  show "later_run r (finish_row env auto llm r)"
    using end_row_later(1)[OF assms, of DrFinished env]
    by (simp add: finish_row_def later_run_def run_origin_def Let_def assms)
  show "wf_run (finish_row env auto llm r)"
    using assms evaluation_nonempty
    by (simp add: finish_row_def end_row_def wf_run_def Let_def score_run_def elapsed_sec_def)
qed

text \<open>What one look-up and one UPDATE do to the runs.\<close>

definition runs_ok :: "drill_db \<Rightarrow> drill_db \<Rightarrow> bool" where
  "runs_ok db db' \<longleftrightarrow> wf_drills db' \<and> grows later_run (dd_runs db) (dd_runs db')"

lemma runs_ok_same: "wf_drills db \<Longrightarrow> dd_runs db' = dd_runs db \<Longrightarrow> runs_ok db db'"
  by (simp add: runs_ok_def wf_drills_def grows_refl later_run_refl)

lemma runs_ok_trans: "runs_ok db db' \<Longrightarrow> runs_ok db' db'' \<Longrightarrow> runs_ok db db''"
  using grows_trans[where R = later_run, OF later_run_trans] by (auto simp: runs_ok_def)

lemma get_drill_run_InrD:
  assumes "get_drill_run db i tn = Inr r"
  shows "r \<in> set (dd_runs db)" and "dr_id r = i" and "dr_tenant r = tn"
  using assms by (auto simp: get_drill_run_def dest: found_row split: option.splits)

lemma save_run_ok:
  assumes "wf_drills db" and "r \<in> set (dd_runs db)" and "later_run r r'" and "wf_run r'"
  shows "runs_ok db (save_run r' db)"
proof -
  have id: "dr_id r' = dr_id r" using assms(3) by (rule later_run_id)
  have d: "distinct (map dr_id (dd_runs db))" using assms(1) by (simp add: wf_drills_def)
  have "get_row dr_id (dr_id r') (dd_runs db) = Some r" using get_row_distinct[OF d assms(2)] id by simp
  from grows_put[where R = later_run, OF later_run_refl d this assms(3)]
  have "grows later_run (dd_runs db) (put_row dr_id r' (dd_runs db))" .
  moreover have "wf_run x" if "x \<in> set (put_row dr_id r' (dd_runs db))" for x
    using that ball_put_row[where P = wf_run and tbl = "dd_runs db"] assms(1,4) by (auto simp: wf_drills_def)
  ultimately show ?thesis using d by (simp add: runs_ok_def wf_drills_def save_run_def table_simps)
qed

lemma drill_finish_ok:
  assumes "wf_drills db" and "finish_run_with env i tn auto llm db = Inr (r', ns, es, db')"
  shows "runs_ok db db'"
proof -
  from assms(2) obtain r where r: "get_drill_run db i tn = Inr r"
    "db' = (if dr_status r = DrRunning then save_run (finish_row env auto llm r) db else db)"
    by (auto simp: finish_run_with_def Let_def split: sum.splits if_splits)
  show ?thesis
  proof (cases "dr_status r = DrRunning")
    case True
    with save_run_ok[OF assms(1) get_drill_run_InrD(1)[OF r(1)] finish_row_later[OF True]] r(2) show ?thesis by simp
  qed (use r(2) assms(1) in \<open>simp add: runs_ok_same\<close>)
qed

lemma abort_run_ok:
  assumes "wf_drills db" and "abort_run env i tn db = Inr (r', es, db')"
  shows "runs_ok db db'"
proof -
  from assms(2) obtain r where r: "get_drill_run db i tn = Inr r" "dr_status r = DrRunning" "db' = save_run (end_row env DrAborted r) db"
    by (auto simp: abort_run_def Let_def split: sum.splits if_splits)
  from save_run_ok[OF assms(1) get_drill_run_InrD(1)[OF r(1)] end_row_later[OF r(2)]] r(3) show ?thesis by simp
qed

lemma sweep_rows_ok: "wf_drills db \<Longrightarrow> runs_ok db (snd (sweep_rows ck envs limit tn i rs db))"
proof (induction rs arbitrary: i db)
  case Nil
  then show ?case by (simp add: runs_ok_same)
next
  case (Cons r rs)
  show ?case
  proof (cases "limit < elapsed_sec (utc (ck i) 0) r")
    case True
    show ?thesis
    proof (cases "finish_run_with (envs i) (dr_id r) tn True True db")
      case (Inl e)
      with True Cons.prems show ?thesis by (simp add: runs_ok_same)
    next
      case (Inr x)
      then obtain r' ns es db' where x: "finish_run_with (envs i) (dr_id r) tn True True db = Inr (r', ns, es, db')"
        by (cases x) auto
      from drill_finish_ok[OF Cons.prems x] have ok: "runs_ok db db'" .
      then have "wf_drills db'" by (simp add: runs_ok_def)
      from runs_ok_trans[OF ok Cons.IH[OF this]] True x show ?thesis by (simp add: case_prod_beta)
    qed
  qed (use Cons in simp)
qed

lemma insert_scenario_runs: "insert_scenario s db = Inr (s', db') \<Longrightarrow> dd_runs db' = dd_runs db"
  by (auto simp: insert_scenario_def split: if_splits)

lemma kept_ok: "wf_drills db \<Longrightarrow> (\<And>db'. r = Inr db' \<Longrightarrow> runs_ok db db') \<Longrightarrow> runs_ok db (kept db r)"
  by (auto simp: kept_def runs_ok_same split: sum.split)

lemma map_sum_InrD: "map_sum id f x = Inr y \<Longrightarrow> \<exists>z. x = Inr z \<and> y = f z"
  by (cases x) auto

lemma drill_step_ok: "wf_drills db \<Longrightarrow> runs_ok db (drill_step op db)"
proof (cases op)
  case (CreateScenario c u tn un f)
  assume wf: "wf_drills db"
  show ?thesis unfolding CreateScenario drill_step.simps
    by (rule kept_ok[OF wf], rule runs_ok_same[OF wf])
      (auto simp: create_scenario_def dest!: map_sum_InrD insert_scenario_runs split: if_splits sum.splits)
next
  case (UpdateScenario c i tn p)
  assume wf: "wf_drills db"
  show ?thesis unfolding UpdateScenario drill_step.simps
    by (rule kept_ok[OF wf], rule runs_ok_same[OF wf])
      (auto simp: update_scenario_def Let_def dest!: map_sum_InrD split: sum.splits)
next
  case (DeleteScenario i tn)
  assume wf: "wf_drills db"
  show ?thesis unfolding DeleteScenario drill_step.simps
    by (rule kept_ok[OF wf], rule runs_ok_same[OF wf])
      (auto simp: delete_scenario_def split: if_splits sum.splits)
next
  case (FaultChain c u fc tn un st dev nm)
  assume wf: "wf_drills db"
  show ?thesis unfolding FaultChain drill_step.simps
    by (rule kept_ok[OF wf], rule runs_ok_same[OF wf])
      (auto simp: scenario_from_fault_chain_def Let_def dest!: map_sum_InrD insert_scenario_runs split: sum.splits)
next
  case (StartDrill c u tn un i)
  assume wf: "wf_drills db"
  have "runs_ok db db'" if start: "start_drill_run c u tn un i db = Inr (r, db')" for r db'
  proof -
    from start obtain s where r: "u \<notin> dr_id ` set (dd_runs db)" "r = new_run c u tn un s" "dd_runs db' = dd_runs db @ [r]"
      by (auto simp: start_drill_run_def Let_def split: sum.splits if_splits)
    then show ?thesis
      using wf by (auto simp: runs_ok_def wf_drills_def wf_run_def new_run_def grows_append later_run_refl)
  qed
  then show ?thesis unfolding StartDrill drill_step.simps by (intro kept_ok[OF wf]) (auto dest!: map_sum_InrD)
next
  case (RecordAction c i tn un a)
  assume wf: "wf_drills db"
  have "runs_ok db db'" if rec: "record_action c i tn un a db = Inr (r', db')" for r' db'
  proof -
    from rec obtain r where r: "get_drill_run db i tn = Inr r" "record_row c un a r = Inr r'" "db' = save_run r' db"
      by (auto simp: record_action_def split: sum.splits)
    have "wf_run r" using wf get_drill_run_InrD(1)[OF r(1)] by (simp add: wf_drills_def)
    with save_run_ok[OF wf get_drill_run_InrD(1)[OF r(1)]] record_row_later[OF r(2)] r(3) show ?thesis by blast
  qed
  then show ?thesis unfolding RecordAction drill_step.simps by (intro kept_ok[OF wf]) (auto dest!: map_sum_InrD)
next
  case (FinishDrill env i tn auto llm)
  assume wf: "wf_drills db"
  show ?thesis unfolding FinishDrill drill_step.simps
    by (rule kept_ok[OF wf]) (auto dest!: map_sum_InrD intro: drill_finish_ok[OF wf])
next
  case (AbortDrill env i tn)
  assume wf: "wf_drills db"
  show ?thesis unfolding AbortDrill drill_step.simps
    by (rule kept_ok[OF wf]) (auto dest!: map_sum_InrD intro: abort_run_ok[OF wf])
next
  case (PollDrill c env limit i tn)
  assume wf: "wf_drills db"
  show ?thesis unfolding PollDrill drill_step.simps
    by (rule kept_ok[OF wf])
      (auto simp: drill_run_state_def dest!: map_sum_InrD intro: drill_finish_ok[OF wf] runs_ok_same[OF wf] split: sum.splits if_splits)
next
  case (SweepDrills ck envs limit tn)
  assume wf: "wf_drills db"
  show ?thesis unfolding SweepDrills drill_step.simps sweep_timeout_runs_def by (rule sweep_rows_ok[OF wf])
qed

interpretation drills: growing_table drill_step wf_drills dd_runs dr_id later_run
  by unfold_locales
    (use drill_step_ok in \<open>auto simp: runs_ok_def later_run_refl later_run_id intro: later_run_trans\<close>)

lemma wf_drill_runs: "wf_drills (fold drill_step ops empty_drills)"
  by (rule drills.run_inv) (simp add: wf_drills_def empty_drills_def)


section \<open>The scoring as a matching\<close>

text \<open>Items and actions joined in pairs, each used at most once.\<close>

definition drill_matching :: "check_item list \<Rightarrow> drill_action list \<Rightarrow> nat list \<Rightarrow> (nat \<times> nat) set \<Rightarrow> bool" where
  "drill_matching cs as used M \<longleftrightarrow>
     (\<forall>(j, i) \<in> M. j < length cs \<and> i < length as \<and> i \<notin> set used \<and> hits (cs ! j) (as ! i)) \<and> inj_on fst M \<and> inj_on snd M"

lemma first_hit_SomeD:
  "first_hit n used c as = Some (i, a) \<Longrightarrow> n \<le> i \<and> i - n < length as \<and> as ! (i - n) = a \<and> i \<notin> set used \<and> hits c a"
proof (induction n used c as rule: first_hit.induct)
  case (2 n used c b as)
  show ?case
  proof (cases "n \<notin> set used \<and> hits c b")
    case False
    with 2 have "Suc n \<le> i \<and> i - Suc n < length as \<and> as ! (i - Suc n) = a \<and> i \<notin> set used \<and> hits c a" by simp
    moreover from this have "Suc n \<le> i" by blast
    then have "i - n = Suc (i - Suc n)" by simp
    ultimately show ?thesis by simp
  qed (use 2 in auto)
qed simp

lemma first_hit_NoneD: "first_hit n used c as = None \<Longrightarrow> i < length as \<Longrightarrow> n + i \<notin> set used \<Longrightarrow> \<not> hits c (as ! i)"
proof (induction n used c as arbitrary: i rule: first_hit.induct)
  case (2 n used c b as)
  show ?case
  proof (cases i)
    case 0
    with 2 show ?thesis by (auto split: if_splits)
  next
    case (Suc i')
    with 2(2-4) 2(1)[of i'] show ?thesis by (auto split: if_splits)
  qed
qed simp

lemma matching_finite: "drill_matching cs as used M \<Longrightarrow> finite M"
  by (rule finite_subset[of _ "{..<length cs} \<times> {..<length as}"]) (auto simp: drill_matching_def)

text \<open>Leaving out the first item and one action costs at most two pairs.\<close>

definition shift_pairs :: "nat option \<Rightarrow> (nat \<times> nat) set \<Rightarrow> (nat \<times> nat) set" where
  "shift_pairs i M = (\<lambda>(j, k). (j - 1, k)) ` {p \<in> M. fst p \<noteq> 0 \<and> Some (snd p) \<noteq> i}"

lemma shift_pairs_iff: "(j, k) \<in> shift_pairs i M \<longleftrightarrow> (Suc j, k) \<in> M \<and> Some k \<noteq> i"
proof
  assume "(Suc j, k) \<in> M \<and> Some k \<noteq> i"
  then have "(Suc j, k) \<in> {p \<in> M. fst p \<noteq> 0 \<and> Some (snd p) \<noteq> i}" by simp
  from image_eqI[OF _ this, of _ "\<lambda>(j, k). (j - 1, k)"] show "(j, k) \<in> shift_pairs i M" by (simp add: shift_pairs_def)
qed (auto simp: shift_pairs_def)

lemma shift_matching:
  assumes "drill_matching (c # cs) as used M"
  shows "drill_matching cs as (case i of None \<Rightarrow> used | Some k \<Rightarrow> k # used) (shift_pairs i M)"
    and "card M \<le> card (shift_pairs i M) + card {p \<in> M. fst p = 0} + card {p \<in> M. Some (snd p) = i}"
proof -
  have fin: "finite M" by (rule matching_finite[OF assms])
  have inj: "inj_on (\<lambda>(j, k). (j - 1, k)) {p \<in> M. fst p \<noteq> 0 \<and> Some (snd p) \<noteq> i}"
    by (auto simp: inj_on_def)
  show "drill_matching cs as (case i of None \<Rightarrow> used | Some k \<Rightarrow> k # used) (shift_pairs i M)"
    unfolding drill_matching_def
  proof (intro conjI ballI)
    fix p assume "p \<in> shift_pairs i M"
    then obtain j k where jk: "p = (j, k)" "(Suc j, k) \<in> M" "Some k \<noteq> i" by (cases p) (auto simp: shift_pairs_iff)
    from assms jk(2) have "Suc j < length (c # cs) \<and> k < length as \<and> k \<notin> set used \<and> hits ((c # cs) ! Suc j) (as ! k)"
      unfolding drill_matching_def by fastforce
    with jk show "case p of (j, k) \<Rightarrow> j < length cs \<and> k < length as \<and>
        k \<notin> set (case i of None \<Rightarrow> used | Some k \<Rightarrow> k # used) \<and> hits (cs ! j) (as ! k)"
      by (auto split: option.split)
  next
    have "inj_on fst M" "inj_on snd M" using assms by (simp_all add: drill_matching_def)
    then have same: "(j, k) \<in> M \<Longrightarrow> (j', k') \<in> M \<Longrightarrow> j = j' \<or> k = k' \<Longrightarrow> (j, k) = (j', k')" for j k j' k'
      using inj_onD[of fst M "(j, k)" "(j', k')"] inj_onD[of snd M "(j, k)" "(j', k')"] by auto
    show "inj_on fst (shift_pairs i M)" "inj_on snd (shift_pairs i M)"
      by (rule inj_onI; clarsimp simp: shift_pairs_iff; drule (1) same; simp)+
  qed
  have "M \<subseteq> {p \<in> M. fst p \<noteq> 0 \<and> Some (snd p) \<noteq> i} \<union> {p \<in> M. fst p = 0} \<union> {p \<in> M. Some (snd p) = i}" by auto
  then have "card M \<le> card ({p \<in> M. fst p \<noteq> 0 \<and> Some (snd p) \<noteq> i} \<union> {p \<in> M. fst p = 0} \<union> {p \<in> M. Some (snd p) = i})"
    by (rule card_mono[rotated]) (simp add: fin)
  also have "\<dots> \<le> card {p \<in> M. fst p \<noteq> 0 \<and> Some (snd p) \<noteq> i} + card {p \<in> M. fst p = 0} + card {p \<in> M. Some (snd p) = i}"
    by (rule order_trans[OF card_Un_le add_right_mono[OF card_Un_le]])
  also have "card {p \<in> M. fst p \<noteq> 0 \<and> Some (snd p) \<noteq> i} = card (shift_pairs i M)"
    unfolding shift_pairs_def by (rule card_image[OF inj, symmetric])
  finally show "card M \<le> card (shift_pairs i M) + card {p \<in> M. fst p = 0} + card {p \<in> M. Some (snd p) = i}" .
qed

lemma card_fibre: "inj_on f M \<Longrightarrow> finite M \<Longrightarrow> card {p \<in> M. g (f p) = Some v} \<le> 1 \<or> \<not> inj g"
  by (rule disjCI) (auto simp: card_le_Suc0_iff_eq inj_on_def)

lemma matching_bound:
  "drill_matching cs as used M \<Longrightarrow> card M \<le> 2 * length (fst (match_items as used cs))"
proof (induction as used cs arbitrary: M rule: match_items.induct)
  case (1 as used)
  then have "M = {}" by (auto simp: drill_matching_def)
  then show ?case by simp
next
  case (2 as used c cs)
  have fin: "finite M" by (rule matching_finite[OF "2.prems"])
  have inj: "inj_on fst M" "inj_on snd M" using "2.prems" by (simp_all add: drill_matching_def)
  have one: "card {p \<in> M. fst p = 0} \<le> 1" "card {p \<in> M. Some (snd p) = Some i} \<le> 1" for i
    using inj fin by (auto simp: card_le_Suc0_iff_eq inj_on_def)
  show ?case
  proof (cases "first_hit 0 used c as")
    case None
    have "\<not> hits c (as ! i)" if "i < length as" "i \<notin> set used" for i
      using first_hit_NoneD[OF None that(1)] that(2) by simp
    moreover have "i < length as \<and> i \<notin> set used \<and> hits c (as ! i)" if "(0, i) \<in> M" for i
      using "2.prems" that unfolding drill_matching_def by fastforce
    ultimately have "(0, i) \<notin> M" for i by blast
    then have z: "{p \<in> M. fst p = 0} = {}" by (auto intro!: gr0I)
    have "card (shift_pairs None M) \<le> 2 * length (fst (match_items as used cs))"
      using "2.IH"(1)[OF None] shift_matching(1)[OF "2.prems", of None] by simp
    with shift_matching(2)[OF "2.prems", of None] None z show ?thesis by (simp add: case_prod_beta)
  next
    case (Some ia)
    then obtain i a where ia: "first_hit 0 used c as = Some (i, a)" by (cases ia) auto
    have "card (shift_pairs (Some i) M) \<le> 2 * length (fst (match_items as (i # used) cs))"
      using "2.IH"(2)[OF ia refl] shift_matching(1)[OF "2.prems", of "Some i"] by simp
    with shift_matching(2)[OF "2.prems", of "Some i"] one(1) one(2)[of i] ia show ?thesis by (simp add: case_prod_beta)
  qed
qed

lemma match_items_sound:
  assumes "match_items as used cs = (matched, missed)"
  shows "length matched + length missed = length cs \<and> distinct (map dm_actionIdx matched) \<and>
    set (map dm_actionIdx matched) \<inter> set used = {} \<and>
    (\<forall>m \<in> set matched. \<exists>c \<in> set cs. ci_id c = dm_checklistId m \<and> dm_actionIdx m < length as \<and>
       hits c (as ! dm_actionIdx m) \<and> dm_responseSec m = da_t (as ! dm_actionIdx m))"
  using assms
proof (induction as used cs arbitrary: matched missed rule: match_items.induct)
  case (2 as used c cs)
  show ?case
  proof (cases "first_hit 0 used c as")
    case None
    with "2.prems" obtain ms where "match_items as used cs = (matched, ms)" "missed = ci_id c # ms"
      by (auto split: prod.splits)
    note IH = "2.IH"(1)[OF None this(1)]
    from IH have "\<forall>m \<in> set matched. \<exists>d \<in> set (c # cs). ci_id d = dm_checklistId m \<and> dm_actionIdx m < length as \<and>
       hits d (as ! dm_actionIdx m) \<and> dm_responseSec m = da_t (as ! dm_actionIdx m)" by (meson list.set_intros(2))
    with IH \<open>missed = ci_id c # ms\<close> show ?thesis by simp
  next
    case (Some ia)
    then obtain i a where ia: "first_hit 0 used c as = Some (i, a)" by (cases ia) auto
    with "2.prems" obtain ms where ms: "match_items as (i # used) cs = (ms, missed)"
      "matched = \<lparr>dm_checklistId = ci_id c, dm_actionIdx = i, dm_responseSec = da_t a\<rparr> # ms"
      by (auto split: prod.splits)
    from first_hit_SomeD[OF ia] have i: "i < length as" "as ! i = a" "i \<notin> set used" "hits c a" by auto
    note IH = "2.IH"(2)[OF ia refl ms(1)]
    from IH have "\<forall>m \<in> set ms. \<exists>d \<in> set (c # cs). ci_id d = dm_checklistId m \<and> dm_actionIdx m < length as \<and>
       hits d (as ! dm_actionIdx m) \<and> dm_responseSec m = da_t (as ! dm_actionIdx m)" by (meson list.set_intros(2))
    with IH i show ?thesis unfolding ms(2) by simp
  qed
qed simp


section \<open>The sweep\<close>

lemma finish_running:
  assumes "wf_drills db" and "r \<in> set (dd_runs db)" and "dr_status r = DrRunning"
  shows "finish_run_with env (dr_id r) (dr_tenant r) auto llm db =
    Inr (finish_row env auto llm r, notify_finished (finish_row env auto llm r),
      emit_missed_quality env (finish_row env auto llm r) (score_run (finish_row env auto llm r)),
      save_run (finish_row env auto llm r) db)"
proof -
  have d: "distinct (map dr_id (dd_runs db))" using assms(1) by (simp add: wf_drills_def)
  have "find (\<lambda>x. dr_id x = dr_id r \<and> dr_tenant x = dr_tenant r) (dd_runs db) = Some r"
  proof (cases "find (\<lambda>x. dr_id x = dr_id r \<and> dr_tenant x = dr_tenant r) (dd_runs db)")
    case None
    with assms(2) show ?thesis by (auto simp: find_None_iff)
  next
    case (Some x)
    from found_row[OF this] have "x = r" using d assms(2) by (auto simp: distinct_map inj_on_def)
    with Some show ?thesis by simp
  qed
  then show ?thesis using assms(3) by (simp add: finish_run_with_def get_drill_run_def Let_def)
qed

lemma finish_row_simps [simp]:
  "dr_id (finish_row env auto llm r) = dr_id r" "dr_tenant (finish_row env auto llm r) = dr_tenant r"
  "dr_status (finish_row env auto llm r) = DrFinished"
  by (simp_all add: finish_row_def end_row_def Let_def)

lemma sweep_rows_spec:
  assumes "wf_drills db" and "distinct (map dr_id rs)"
    and "\<forall>r \<in> set rs. r \<in> set (dd_runs db) \<and> dr_tenant r = tn \<and> dr_status r = DrRunning"
    and "sweep_rows (\<lambda>_. at_time t) envs limit tn i rs db = (n, db')"
  shows "n = length (filter (\<lambda>r. limit < elapsed_sec t r) rs) \<and>
    filter (\<lambda>r. dr_tenant r \<noteq> tn) (dd_runs db') = filter (\<lambda>r. dr_tenant r \<noteq> tn) (dd_runs db) \<and>
    (\<forall>x \<in> set (dd_runs db'). dr_status x = DrFinished \<or> x \<in> set (dd_runs db) \<and> \<not> (x \<in> set rs \<and> limit < elapsed_sec t x))"
  using assms(1-4)
proof (induction rs arbitrary: i db n)
  case Nil
  then show ?case by auto
next
  case (Cons r rs)
  show ?case
  proof (cases "limit < elapsed_sec t r")
    case False
    with Cons.prems(4) have "sweep_rows (\<lambda>_. at_time t) envs limit tn (Suc i) rs db = (n, db')" by simp
    with Cons.IH[OF Cons.prems(1)] Cons.prems(2,3) False show ?thesis by auto
  next
    case True
    let ?r = "finish_row (envs i) True True r"
    have r: "r \<in> set (dd_runs db)" "dr_tenant r = tn" "dr_status r = DrRunning" using Cons.prems(3) by simp_all
    have fin: "finish_run_with (envs i) (dr_id r) tn True True db = Inr (?r, notify_finished ?r,
        emit_missed_quality (envs i) ?r (score_run ?r), save_run ?r db)"
      using finish_running[OF Cons.prems(1) r(1,3), of "envs i" True True] r(2) by simp
    obtain m where m: "sweep_rows (\<lambda>_. at_time t) envs limit tn (Suc i) rs (save_run ?r db) = (m, db')" "n = Suc m"
      using Cons.prems(4) True fin by (auto split: prod.splits)
    have wf: "wf_drills (save_run ?r db)" using drill_finish_ok[OF Cons.prems(1) fin] by (simp add: runs_ok_def)
    have d: "distinct (map dr_id (dd_runs db))" using Cons.prems(1) by (simp add: wf_drills_def)
    have other: "x \<in> set (dd_runs (save_run ?r db))" if "x \<in> set rs" for x
    proof -
      have "dr_id x \<noteq> dr_id r" using Cons.prems(2) that by (metis distinct.simps(2) image_eqI list.set_map list.simps(9))
      with Cons.prems(3) that show ?thesis by (simp add: save_run_def put_row_keeps)
    qed
    have fil: "filter (\<lambda>r. dr_tenant r \<noteq> tn) (put_row dr_id ?r tbl) = filter (\<lambda>r. dr_tenant r \<noteq> tn) tbl"
      if "\<forall>x \<in> set tbl. dr_id x = dr_id r \<longrightarrow> x = r" for tbl
      using that r(2) by (induction tbl) auto
    have "x = r" if "x \<in> set (dd_runs db)" "dr_id x = dr_id r" for x
      using d that r(1) by (auto simp: distinct_map inj_on_def)
    with fil have keep: "filter (\<lambda>r. dr_tenant r \<noteq> tn) (dd_runs (save_run ?r db)) = filter (\<lambda>r. dr_tenant r \<noteq> tn) (dd_runs db)"
      by (simp add: save_run_def)
    have sub: "x = ?r \<or> x \<in> set (dd_runs db) \<and> x \<noteq> r" if "x \<in> set (dd_runs (save_run ?r db))" for x
      using that by (auto simp: save_run_def dest: put_row_set)
    from Cons.IH[OF wf _ _ m(1)] Cons.prems(2,3) other
    have IH: "m = length (filter (\<lambda>r. limit < elapsed_sec t r) rs)"
      "filter (\<lambda>r. dr_tenant r \<noteq> tn) (dd_runs db') = filter (\<lambda>r. dr_tenant r \<noteq> tn) (dd_runs (save_run ?r db))"
      "\<forall>x \<in> set (dd_runs db'). dr_status x = DrFinished \<or>
         x \<in> set (dd_runs (save_run ?r db)) \<and> \<not> (x \<in> set rs \<and> limit < elapsed_sec t x)" by auto
    have "dr_status x = DrFinished \<or> x \<in> set (dd_runs db) \<and> \<not> (x \<in> set (r # rs) \<and> limit < elapsed_sec t x)"
      if x: "x \<in> set (dd_runs db')" for x
    proof (rule disjCI)
      assume no: "\<not> (x \<in> set (dd_runs db) \<and> \<not> (x \<in> set (r # rs) \<and> limit < elapsed_sec t x))"
      from IH(3) x have "dr_status x = DrFinished \<or> x \<in> set (dd_runs (save_run ?r db)) \<and> \<not> (x \<in> set rs \<and> limit < elapsed_sec t x)" by blast
      with sub[of x] no show "dr_status x = DrFinished" by (cases "x = ?r") auto
    qed
    with IH(1,2) keep True m(2) show ?thesis by simp
  qed
qed

section \<open>Properties\<close>

text \<open>C34: A drill run is a snapshot of its scenario: whatever is done later to scenarios and runs, it is still
  there with the same time line, checklist, user and start, its reported actions have only been
  added to, and once it has ended it never changes again. An ended run has the score of its actions
  and its time of ending.\<close>

theorem drill_runs_are_final:
  assumes "get_row dr_id i (dd_runs (fold drill_step ops empty_drills)) = Some r"
  shows "(dr_status r \<noteq> DrRunning \<longrightarrow> dr_score r = Some (score_run r) \<and> dr_finished_at r \<noteq> None) \<and>
    (\<exists>r'. get_row dr_id i (dd_runs (fold drill_step (ops @ afterwards) empty_drills)) = Some r' \<and>
       run_origin r' = run_origin r \<and> (\<exists>as. dr_actions r' = dr_actions r @ as) \<and> (dr_status r \<noteq> DrRunning \<longrightarrow> r' = r))"
proof -
  have "wf_run r" using wf_drill_runs[of ops] get_row_in[OF assms] by (simp add: wf_drills_def)
  moreover from drills.row_persists[OF wf_drill_runs assms, of afterwards]
  obtain r' where "get_row dr_id i (dd_runs (fold drill_step (ops @ afterwards) empty_drills)) = Some r'" "later_run r r'" by auto
  ultimately show ?thesis by (auto simp: wf_run_def later_run_def)
qed

text \<open>C35: The score counts a matching of checklist items and reported actions: every item is matched or missed,
  no action counts twice, each match is a hit with the time of its action, and the number of
  matches is at least half of that of any matching, which is the best the greedy choice promises.\<close>

theorem scoring_is_half_optimal:
  assumes "score = score_run r"
  shows "length (ds_matched score) + length (ds_missed score) = length (dr_checklist r) \<and>
    distinct (map dm_actionIdx (ds_matched score)) \<and>
    (\<forall>m \<in> set (ds_matched score). \<exists>c \<in> set (dr_checklist r). ci_id c = dm_checklistId m \<and>
       dm_actionIdx m < length (dr_actions r) \<and> hits c (dr_actions r ! dm_actionIdx m) \<and>
       dm_responseSec m = da_t (dr_actions r ! dm_actionIdx m)) \<and>
    (\<forall>M. drill_matching (dr_checklist r) (dr_actions r) [] M \<longrightarrow> card M \<le> 2 * length (ds_matched score)) \<and>
    ds_coverage score \<le> 1000"
proof -
  obtain matched missed where m: "match_items (dr_actions r) [] (dr_checklist r) = (matched, missed)" by force
  have s: "ds_matched score = matched" "ds_missed score = missed"
    "ds_coverage score = coverage (length matched) (length (dr_checklist r))"
    using m by (simp_all add: assms score_run_def Let_def)
  note sound = match_items_sound[OF m]
  have "ds_coverage score \<le> 1000"
  proof (cases "dr_checklist r = []")
    case False
    then have "fround 3 (fdiv (length matched) (length (dr_checklist r))) \<le> 10 ^ 3"
      using sound by (intro fround_le_one) auto
    with False show ?thesis by (simp add: s(3) coverage_def)
  qed (simp add: s(3) coverage_def)
  with sound matching_bound[of "dr_checklist r" "dr_actions r" "[]"] show ?thesis by (simp add: s m)
qed

text \<open>The sweep finishes exactly the expired runs of the one tenant it is called for: afterwards none of that
  tenant's running runs has lasted longer than the limit, it reports how many it finished, and the
  runs of every other tenant, expired or not, are as they were.\<close>

theorem sweep_settles_one_tenant:
  assumes "db = fold drill_step ops empty_drills"
    and "sweep_timeout_runs (\<lambda>_. at_time t) envs limit tn db = (n, db')"
  shows "(\<forall>r \<in> set (dd_runs db'). dr_tenant r = tn \<and> dr_status r = DrRunning \<longrightarrow> elapsed_sec t r \<le> limit) \<and>
    n = length (filter (\<lambda>r. dr_tenant r = tn \<and> dr_status r = DrRunning \<and> limit < elapsed_sec t r) (dd_runs db)) \<and>
    filter (\<lambda>r. dr_tenant r \<noteq> tn) (dd_runs db') = filter (\<lambda>r. dr_tenant r \<noteq> tn) (dd_runs db)"
proof -
  let ?rs = "filter (\<lambda>r. dr_tenant r = tn \<and> dr_status r = DrRunning) (dd_runs db)"
  have wf: "wf_drills db" unfolding assms(1) by (rule wf_drill_runs)
  then have "distinct (map dr_id ?rs)" by (simp add: wf_drills_def distinct_map_filter)
  from sweep_rows_spec[OF wf this _ assms(2)[unfolded sweep_timeout_runs_def]]
  have *: "n = length (filter (\<lambda>r. limit < elapsed_sec t r) ?rs)"
    "filter (\<lambda>r. dr_tenant r \<noteq> tn) (dd_runs db') = filter (\<lambda>r. dr_tenant r \<noteq> tn) (dd_runs db)"
    "\<forall>x \<in> set (dd_runs db'). dr_status x = DrFinished \<or> x \<in> set (dd_runs db) \<and> \<not> (x \<in> set ?rs \<and> limit < elapsed_sec t x)"
    by auto
  have "elapsed_sec t r \<le> limit" if "r \<in> set (dd_runs db')" "dr_tenant r = tn" "dr_status r = DrRunning" for r
    using *(3) that by force
  with *(1,2) show ?thesis by (simp add: conj_ac)
qed


text \<open>
  A scenario with two items whose keywords overlap, a run of it, and two actions: the greedy choice
  spends the only action that hits the second item on the first one.
\<close>

definition demo_items :: "check_item list" where
  "demo_items = [\<lparr>ci_id = asc ''c1'', ci_action = asc ''look'', ci_keywords = [asc ''a'']\<rparr>,
     \<lparr>ci_id = asc ''c2'', ci_action = asc ''call'', ci_keywords = [asc ''b'']\<rparr>]"

definition demo_form :: scenario_form where
  "demo_form = \<lparr>sf_name = asc ''s'', sf_description = [], sf_station_id = [], sf_fault_device = [], sf_fault_desc = [],
     sf_propagation = [\<lparr>ev_tOffset = 0, ev_device = asc ''T1'', ev_event = asc ''trip'', ev_severity = asc ''info''\<rparr>],
     sf_checklist = demo_items, sf_difficulty = asc ''easy''\<rparr>"

definition demo_scenario :: drill_scenario where
  "demo_scenario = new_scenario (at_time 0) (asc ''s'') (asc ''t'') (asc ''li'') demo_form"

definition demo_run :: drill_run where
  "demo_run = new_run (at_time 0) (asc ''r'') (asc ''t'') (asc ''li'') demo_scenario"

definition demo_drill :: "drill_op list" where
  "demo_drill = [CreateScenario (at_time 0) (asc ''s'') (asc ''t'') (asc ''li'') demo_form,
     StartDrill (at_time 0) (asc ''r'') (asc ''t'') (asc ''li'') (asc ''s'')]"

definition demo_drill_env :: drill_env where
  "demo_drill_env = \<lparr>de_clock = at_time 7, de_miss_quality = False, de_review = (\<lambda>_ _. Inl ())\<rparr>"

lemma strip_letter: "py_strip (asc ''s'') = asc ''s''" "py_strip (asc ''a'') = asc ''a''" "py_strip (asc ''b'') = asc ''b''"
  by (simp_all add: py_strip_def asc_def py_isspace_def)

lemma demo_validated: "validate_scenario (sf_propagation demo_form) (sf_checklist demo_form) =
    Inr (sf_propagation demo_form, sf_checklist demo_form)"
  by (simp add: validate_scenario_def demo_form_def demo_items_def MAX_EVENTS_def MAX_CHECKLIST_def clean_event_def
      clean_item_def py_or_def strip_letter upt_rec)

lemma demo_scenario_simps: "sc_id demo_scenario = asc ''s''" "sc_tenant demo_scenario = asc ''t''" "sc_enabled demo_scenario"
  by (simp_all add: demo_scenario_def new_scenario_def)

lemma demo_drill_run: "fold drill_step demo_drill empty_drills = \<lparr>dd_scenarios = [demo_scenario], dd_runs = [demo_run]\<rparr>"
proof -
  have "drill_step (CreateScenario (at_time 0) (asc ''s'') (asc ''t'') (asc ''li'') demo_form) empty_drills =
      \<lparr>dd_scenarios = [demo_scenario], dd_runs = []\<rparr>"
    using demo_validated
    by (simp add: create_scenario_def strip_letter insert_scenario_def empty_drills_def kept_def demo_scenario_def demo_form_def)
  moreover have "drill_step (StartDrill (at_time 0) (asc ''r'') (asc ''t'') (asc ''li'') (asc ''s'')) \<lparr>dd_scenarios = [demo_scenario], dd_runs = []\<rparr> =
      \<lparr>dd_scenarios = [demo_scenario], dd_runs = [demo_run]\<rparr>"
    using demo_scenario_simps by (simp add: start_drill_run_def get_scenario_def kept_def demo_run_def Let_def)
  ultimately show ?thesis by (simp add: demo_drill_def)
qed

theorem drill_runs_are_final_witness:
  "\<exists>r'. get_row dr_id (asc ''r'') (dd_runs (fold drill_step (demo_drill @ [FinishDrill demo_drill_env (asc ''r'') (asc ''t'') False True]) empty_drills)) = Some r' \<and>
     dr_checklist r' = demo_items"
proof -
  have "get_row dr_id (asc ''r'') (dd_runs (fold drill_step demo_drill empty_drills)) = Some demo_run"
    by (simp add: demo_drill_run) (simp add: demo_run_def new_run_def)
  from drill_runs_are_final[OF this, of "[FinishDrill demo_drill_env (asc ''r'') (asc ''t'') False True]"]
  show ?thesis by (auto simp: run_origin_def demo_run_def new_run_def demo_scenario_def new_scenario_def demo_form_def)
qed

definition demo_acted :: drill_run where
  "demo_acted = demo_run\<lparr>dr_actions := [\<lparr>da_t = 3, da_user = asc ''li'', da_action = asc ''ab''\<rparr>,
     \<lparr>da_t = 5, da_user = asc ''li'', da_action = asc ''a''\<rparr>]\<rparr>"

lemma demo_acted_simps: "dr_checklist demo_acted = demo_items"
  "dr_actions demo_acted = [\<lparr>da_t = 3, da_user = asc ''li'', da_action = asc ''ab''\<rparr>, \<lparr>da_t = 5, da_user = asc ''li'', da_action = asc ''a''\<rparr>]"
  by (simp_all add: demo_acted_def demo_run_def new_run_def demo_scenario_def new_scenario_def demo_form_def)

theorem scoring_is_half_optimal_witness:
  "length (ds_matched (score_run demo_acted)) = 1 \<and>
   (\<exists>M. drill_matching (dr_checklist demo_acted) (dr_actions demo_acted) [] M \<and> card M = 2 * length (ds_matched (score_run demo_acted)))"
proof -
  have one: "length (ds_matched (score_run demo_acted)) = 1"
    by (simp add: score_run_def demo_acted_simps demo_items_def hits_def asc_def Let_def)
  have "drill_matching (dr_checklist demo_acted) (dr_actions demo_acted) [] {(0, 1), (1, 0)}"
    by (simp add: drill_matching_def demo_acted_simps demo_items_def hits_def asc_def)
  moreover have "card {(0 :: nat, 1 :: nat), (1, 0)} = 2" by simp
  moreover have "card {(0 :: nat, 1 :: nat), (1, 0)} \<le> 2 * length (ds_matched (score_run demo_acted))"
    using scoring_is_half_optimal[OF refl, of demo_acted] calculation(1) by blast
  ultimately show ?thesis using one by (intro conjI exI[of _ "{(0, 1), (1, 0)}"]) simp_all
qed

theorem sweep_settles_one_tenant_witness:
  "\<exists>db'. sweep_timeout_runs (\<lambda>_. at_time (seconds 9)) (\<lambda>_. demo_drill_env) 5 (asc ''u'') (fold drill_step demo_drill empty_drills) = (0, db') \<and>
     filter (\<lambda>r. dr_tenant r \<noteq> asc ''u'') (dd_runs db') = [demo_run] \<and> elapsed_sec (seconds 9) demo_run = 9"
proof -
  let ?db = "fold drill_step demo_drill empty_drills"
  obtain n db' where s: "sweep_timeout_runs (\<lambda>_. at_time (seconds 9)) (\<lambda>_. demo_drill_env) 5 (asc ''u'') ?db = (n, db')" by force
  have t: "dr_tenant demo_run = asc ''t''" by (simp add: demo_run_def new_run_def)
  have "elapsed_sec (seconds 9) demo_run = 9" by (simp add: demo_run_def new_run_def elapsed_sec_def seconds_def)
  with sweep_settles_one_tenant[OF refl s] s t show ?thesis by (simp add: demo_drill_run)
qed

end
