(* ===== verification/ConfigStore.thy ===== *)
theory ConfigStore
  imports PyText
begin

text \<open>
  Configuration that can be changed while the service runs: the cache server's store of JSON
  documents with expiry (clients/redis_client.py) and the part of services/config_service.py that
  keeps the prompt and the routing of the language models, in the store and in memory.
\<close>

section \<open>The cache server\<close>

text \<open>A document and, when it has one, the time at which it expires.\<close>

type_synonym redis = "pystr \<Rightarrow> (json \<times> time option) option"

text \<open>
  What a call meets: the time, the error of an unreachable server, the error of the \<open>EXPIRE\<close>
  command alone, and the settings CACHE_SLIDE_TTL_ENABLE and QA_CACHE_TTL.
\<close>

record cache_env =
  ce_now :: time
  ce_fault :: "pyerr option"
  ce_expire_fails :: bool
  ce_slide :: bool
  ce_ttl :: int

definition live :: "time \<Rightarrow> redis \<Rightarrow> pystr \<Rightarrow> json option" where
  "live now st key =
     (case st key of
        None \<Rightarrow> None
      | Some (v, None) \<Rightarrow> Some v
      | Some (v, Some t) \<Rightarrow> if now < t then Some v else None)"

definition cache_get_json :: "cache_env \<Rightarrow> pystr \<Rightarrow> redis \<Rightarrow> (json option \<times> redis) res" where
  "cache_get_json env key st =
     (case ce_fault env of
        Some e \<Rightarrow> Inl e
      | None \<Rightarrow>
          (case live (ce_now env) st key of
             None \<Rightarrow> Inr (None, st)
           | Some v \<Rightarrow>
               Inr (Some v, if ce_slide env \<and> \<not> ce_expire_fails env
                 then st(key \<mapsto> (v, Some (ce_now env + seconds (ce_ttl env)))) else st)))"

definition cache_set_json :: "cache_env \<Rightarrow> pystr \<Rightarrow> json \<Rightarrow> int \<Rightarrow> redis \<Rightarrow> redis res" where
  "cache_set_json env key v ttl st =
     (case ce_fault env of Some e \<Rightarrow> Inl e | None \<Rightarrow> Inr (st(key \<mapsto> (v, Some (ce_now env + seconds ttl)))))"

definition cache_set_json_persistent :: "cache_env \<Rightarrow> pystr \<Rightarrow> json \<Rightarrow> redis \<Rightarrow> redis res" where
  "cache_set_json_persistent env key v st =
     (case ce_fault env of Some e \<Rightarrow> Inl e | None \<Rightarrow> Inr (st(key \<mapsto> (v, None))))"

definition cache_get_json_safe :: "cache_env \<Rightarrow> pystr \<Rightarrow> redis \<Rightarrow> json option" where
  "cache_get_json_safe env key st = (if ce_fault env = None then live (ce_now env) st key else None)"

definition cache_set_json_safe :: "cache_env \<Rightarrow> pystr \<Rightarrow> json \<Rightarrow> int \<Rightarrow> redis \<Rightarrow> bool \<times> redis" where
  "cache_set_json_safe env key v ttl st =
     (case cache_set_json env key v ttl st of Inl _ \<Rightarrow> (False, st) | Inr st' \<Rightarrow> (True, st'))"

section \<open>The memory of the process\<close>

record runtime_config =
  rc_system_prompt :: "pystr option"
  rc_fallback_chain :: "pystr list option"
  rc_tier_models :: "(pystr \<times> json) list option"
  rc_ollama_enable :: "bool option"

definition fresh_runtime :: runtime_config where
  "fresh_runtime = \<lparr>rc_system_prompt = None, rc_fallback_chain = None, rc_tier_models = None, rc_ollama_enable = None\<rparr>"

definition not_blank :: "pystr \<Rightarrow> bool" where
  "not_blank s \<longleftrightarrow> py_strip s \<noteq> []"

definition comma_list :: "pystr \<Rightarrow> pystr list" where
  "comma_list s = filter (\<lambda>p. p \<noteq> []) (map py_strip (py_split 44 s))"

text \<open>The getters; \<open>dflt\<close> is the setting LLM_FALLBACK_CHAIN.\<close>

definition rt_system_prompt :: "runtime_config \<Rightarrow> pystr option" where
  "rt_system_prompt rt = rc_system_prompt rt"

definition rt_llm_fallback_chain :: "pystr \<Rightarrow> runtime_config \<Rightarrow> pystr list" where
  "rt_llm_fallback_chain dflt rt =
     (case rc_fallback_chain rt of
        Some (p # ps) \<Rightarrow> p # ps
      | _ \<Rightarrow> comma_list dflt)"

definition rt_tier_models :: "runtime_config \<Rightarrow> (pystr \<times> json) list" where
  "rt_tier_models rt = (case rc_tier_models rt of Some tm \<Rightarrow> tm | None \<Rightarrow> [])"

definition rt_ollama_enable :: "runtime_config \<Rightarrow> bool" where
  "rt_ollama_enable rt = (case rc_ollama_enable rt of None \<Rightarrow> True | Some b \<Rightarrow> b)"

section \<open>Reading and saving\<close>

definition PROMPT_KEY :: pystr where "PROMPT_KEY = asc ''config:prompt''"

definition ROUTER_KEY :: pystr where "ROUTER_KEY = asc ''config:llm_router''"

definition get_prompt_config :: "cache_env \<Rightarrow> redis \<Rightarrow> (json \<times> redis) res" where
  "get_prompt_config env st =
     map_sum id (\<lambda>(v, st'). (case v of
         Some j \<Rightarrow> if truthy j then j else JObj [(asc ''systemPrompt'', JStr [])]
       | None \<Rightarrow> JObj [(asc ''systemPrompt'', JStr [])], st'))
       (cache_get_json env PROMPT_KEY st)"

definition update_prompt_config ::
  "cache_env \<Rightarrow> pystr \<Rightarrow> redis \<times> runtime_config \<Rightarrow> (json \<times> redis \<times> runtime_config) res" where
  "update_prompt_config env system_prompt s =
     (let sp = py_strip system_prompt; data = JObj [(asc ''systemPrompt'', JStr sp)]
      in case cache_set_json_persistent env PROMPT_KEY data (fst s) of
           Inl e \<Rightarrow> Inl e
         | Inr st \<Rightarrow> Inr (data, st, (snd s)\<lparr>rc_system_prompt := str_or_none sp\<rparr>))"

text \<open>A stored document that is no object has no \<open>setdefault\<close>.\<close>

definition get_llm_router_config :: "cache_env \<Rightarrow> redis \<Rightarrow> (json \<times> redis) res" where
  "get_llm_router_config env st =
     (case cache_get_json env ROUTER_KEY st of
        Inl e \<Rightarrow> Inl e
      | Inr (v, st') \<Rightarrow>
          (case v of
             None \<Rightarrow> Inr (JObj [(asc ''fallbackChain'', JList []), (asc ''tierModels'', JObj []), (asc ''ollamaEnable'', JBool True)], st')
           | Some j \<Rightarrow>
               if \<not> truthy j
               then Inr (JObj [(asc ''fallbackChain'', JList []), (asc ''tierModels'', JObj []), (asc ''ollamaEnable'', JBool True)], st')
               else (case j of
                   JObj kvs \<Rightarrow> Inr (JObj (if asc ''ollamaEnable'' \<in> fst ` set kvs then kvs
                     else kvs @ [(asc ''ollamaEnable'', JBool True)]), st')
                 | _ \<Rightarrow> Inl (HandlerError (asc ''AttributeError'')))))"

definition router_document :: "pystr list \<Rightarrow> (pystr \<times> json) list \<Rightarrow> bool \<Rightarrow> json" where
  "router_document chain tiers ollama =
     JObj [(asc ''fallbackChain'', JList (map JStr chain)), (asc ''tierModels'', JObj tiers), (asc ''ollamaEnable'', JBool ollama)]"

definition update_llm_router_config ::
  "cache_env \<Rightarrow> pystr list \<Rightarrow> (pystr \<times> json) list \<Rightarrow> bool \<Rightarrow> redis \<times> runtime_config \<Rightarrow> (json \<times> redis \<times> runtime_config) res" where
  "update_llm_router_config env chain tiers ollama s =
     (let data = router_document chain tiers ollama
      in case cache_set_json_persistent env ROUTER_KEY data (fst s) of
           Inl e \<Rightarrow> Inl e
         | Inr st \<Rightarrow> Inr (data, st, (snd s)\<lparr>rc_fallback_chain := Some (filter not_blank chain),
             rc_tier_models := Some tiers, rc_ollama_enable := Some ollama\<rparr>))"

fun chain_of_json :: "json list \<Rightarrow> pystr list" where
  "chain_of_json [] = []"
| "chain_of_json (JStr p # js) = (if not_blank p then p # chain_of_json js else chain_of_json js)"
| "chain_of_json (_ # js) = chain_of_json js"

text \<open>The two blocks of \<open>load_runtime\<close>; what raises inside a block is swallowed.\<close>

definition load_prompt :: "json \<Rightarrow> runtime_config \<Rightarrow> runtime_config" where
  "load_prompt pc rt =
     (case pc of
        JObj kvs \<Rightarrow>
          (let v = json_get kvs (asc ''systemPrompt'') JNull
           in if \<not> truthy v then rt\<lparr>rc_system_prompt := None\<rparr>
              else case v of JStr s \<Rightarrow> rt\<lparr>rc_system_prompt := str_or_none (py_strip s)\<rparr> | _ \<Rightarrow> rt)
      | _ \<Rightarrow> rt)"

definition load_router :: "json \<Rightarrow> runtime_config \<Rightarrow> runtime_config" where
  "load_router lr rt =
     (case lr of
        JObj kvs \<Rightarrow>
          (let rt1 = (case json_get kvs (asc ''fallbackChain'') JNull of
                 JList js \<Rightarrow> rt\<lparr>rc_fallback_chain := Some (chain_of_json js)\<rparr> | _ \<Rightarrow> rt);
               rt2 = (case json_get kvs (asc ''tierModels'') JNull of
                 JObj tm \<Rightarrow> rt1\<lparr>rc_tier_models := Some tm\<rparr> | _ \<Rightarrow> rt1)
           in case map_of kvs (asc ''ollamaEnable'') of
                Some v \<Rightarrow> rt2\<lparr>rc_ollama_enable := Some (truthy v)\<rparr> | None \<Rightarrow> rt2)
      | _ \<Rightarrow> rt)"

definition load_runtime :: "cache_env \<Rightarrow> redis \<times> runtime_config \<Rightarrow> redis \<times> runtime_config" where
  "load_runtime env s =
     (let s1 = (case get_prompt_config env (fst s) of
            Inl _ \<Rightarrow> s | Inr (pc, st) \<Rightarrow> (st, load_prompt pc (snd s)))
      in case cache_get_json env ROUTER_KEY (fst s1) of
           Inl _ \<Rightarrow> s1
         | Inr (Some lr, st) \<Rightarrow> (st, if truthy lr then load_router lr (snd s1) else snd s1)
         | Inr (None, st) \<Rightarrow> (st, snd s1))"

section \<open>What is loaded is what was saved\<close>

lemma chain_of_json_map [simp]: "chain_of_json (map JStr chain) = filter not_blank chain"
  by (induction chain) auto

lemma truthy_router_document [simp]: "truthy (router_document chain tiers ollama)"
  by (simp add: router_document_def)

lemma load_router_document:
  "load_router (router_document chain tiers ollama) rt =
     rt\<lparr>rc_fallback_chain := Some (filter not_blank chain), rc_tier_models := Some tiers, rc_ollama_enable := Some ollama\<rparr>"
  by (simp add: load_router_def router_document_def json_get_def)

lemma router_key_simps [simp]: "ROUTER_KEY \<noteq> PROMPT_KEY" "PROMPT_KEY \<noteq> ROUTER_KEY"
  by (simp_all add: ROUTER_KEY_def PROMPT_KEY_def)

lemma get_prompt_keeps_router:
  "get_prompt_config env st = Inr (pc, st') \<Longrightarrow> st' ROUTER_KEY = st ROUTER_KEY"
  by (auto simp: get_prompt_config_def cache_get_json_def split: option.splits if_splits)

lemma load_prompt_keeps:
  "rc_fallback_chain (load_prompt pc rt) = rc_fallback_chain rt"
  "rc_tier_models (load_prompt pc rt) = rc_tier_models rt"
  "rc_ollama_enable (load_prompt pc rt) = rc_ollama_enable rt"
  by (simp_all add: load_prompt_def Let_def split: json.split)

lemma load_prompt_stage:
  assumes "ce_fault env = None"
  obtains pc st' where "get_prompt_config env st = Inr (pc, st')" "st' ROUTER_KEY = st ROUTER_KEY"
proof -
  obtain v st' where "cache_get_json env PROMPT_KEY st = Inr (v, st')"
    using assms by (cases "live (ce_now env) st PROMPT_KEY") (simp_all add: cache_get_json_def)
  then have "\<exists>pc. get_prompt_config env st = Inr (pc, st')" by (simp add: get_prompt_config_def)
  then show ?thesis using that get_prompt_keeps_router by blast
qed

lemma load_live:
  assumes "ce_fault env = None" and "live (ce_now env) st ROUTER_KEY = Some (router_document chain tiers ollama)"
  shows "rc_fallback_chain (snd (load_runtime env (st, rt))) = Some (filter not_blank chain)
       \<and> rc_tier_models (snd (load_runtime env (st, rt))) = Some tiers
       \<and> rc_ollama_enable (snd (load_runtime env (st, rt))) = Some ollama"
proof -
  obtain pc st' where p: "get_prompt_config env st = Inr (pc, st')" "st' ROUTER_KEY = st ROUTER_KEY"
    using assms(1) by (rule load_prompt_stage)
  then have "live (ce_now env) st' ROUTER_KEY = Some (router_document chain tiers ollama)"
    using assms(2) by (simp add: live_def)
  then show ?thesis
    using assms(1) p by (simp add: load_runtime_def cache_get_json_def load_router_document Let_def)
qed

lemma load_dead:
  assumes "ce_fault env = None" and "live (ce_now env) st ROUTER_KEY = None"
  shows "rc_fallback_chain (snd (load_runtime env (st, rt))) = rc_fallback_chain rt
       \<and> rc_tier_models (snd (load_runtime env (st, rt))) = rc_tier_models rt
       \<and> rc_ollama_enable (snd (load_runtime env (st, rt))) = rc_ollama_enable rt"
proof -
  obtain pc st' where p: "get_prompt_config env st = Inr (pc, st')" "st' ROUTER_KEY = st ROUTER_KEY"
    using assms(1) by (rule load_prompt_stage)
  then have "live (ce_now env) st' ROUTER_KEY = None" using assms(2) by (simp add: live_def)
  then show ?thesis
    using assms(1) p by (simp add: load_runtime_def cache_get_json_def load_prompt_keeps Let_def)
qed

end
