(* ===== verification/LlmRouter.thy ===== *)
theory LlmRouter
  imports ConfigStore
begin

text \<open>
  Choice of the language model (providers/llm_router.py and providers/factory.py): the table of
  the circuit breaker, the chain of providers with the user's choice in front, the wrapper that
  tries them in order, its streaming form, and the periodic probe. The providers themselves are
  arguments.
\<close>

section \<open>The circuit breaker\<close>

text \<open>
  For each provider that was recorded: its consecutive failures, and the time at which its cooldown
  ends, 0 when there is none. The settings are LLM_CIRCUIT_FAIL_N, LLM_CIRCUIT_COOLDOWN and
  LLM_FALLBACK_ON_EMPTY.
\<close>

type_synonym llm_health = "pystr \<Rightarrow> (nat \<times> time) option"

record llm_settings =
  ls_fail_n :: nat
  ls_cooldown :: int
  ls_on_empty :: bool
  ls_fallback_chain :: pystr
  ls_provider :: pystr

definition is_healthy :: "time \<Rightarrow> llm_health \<Rightarrow> pystr \<Rightarrow> bool" where
  "is_healthy now h p =
     (case h p of
        None \<Rightarrow> True
      | Some (_, cooldown_until) \<Rightarrow> \<not> (cooldown_until \<noteq> 0 \<and> now < cooldown_until))"

definition record_fail :: "llm_settings \<Rightarrow> time \<Rightarrow> pystr \<Rightarrow> llm_health \<Rightarrow> llm_health" where
  "record_fail cfg now p h =
     (let (fails, until) = (case h p of None \<Rightarrow> (0, 0) | Some rec \<Rightarrow> rec)
      in h(p \<mapsto> (Suc fails, if ls_fail_n cfg \<le> Suc fails then now + seconds (ls_cooldown cfg) else until)))"

definition record_ok :: "pystr \<Rightarrow> llm_health \<Rightarrow> llm_health" where
  "record_ok p h = h(p \<mapsto> (0, 0))"

section \<open>The chain\<close>

definition fallback_chain :: "llm_settings \<Rightarrow> runtime_config \<Rightarrow> pystr list" where
  "fallback_chain cfg rt =
     (let chain = rt_llm_fallback_chain (ls_fallback_chain cfg) rt
      in if rt_ollama_enable rt then chain else filter (\<lambda>p. p \<noteq> asc ''ollama'') chain)"

definition add_name :: "pystr \<Rightarrow> pystr list \<Rightarrow> pystr list" where
  "add_name p chain =
     (if p \<noteq> [] \<and> p \<notin> {asc ''default'', asc ''auto''} \<and> p \<notin> set chain then chain @ [p] else chain)"

text \<open>\<open>None\<close> and the empty string are both no choice.\<close>

definition resolve_chain :: "llm_settings \<Rightarrow> runtime_config \<Rightarrow> pystr \<Rightarrow> pystr list" where
  "resolve_chain cfg rt model_type = fold add_name (model_type # fallback_chain cfg rt) []"

section \<open>The wrapper\<close>

record fallback_llm =
  fl_names :: "pystr list"
  fl_tier :: pystr
  fl_last_used_name :: pystr
  fl_degraded :: bool
  fl_degrade_reason :: pystr

definition new_fallback_llm :: "pystr list \<Rightarrow> pystr \<Rightarrow> fallback_llm" where
  "new_fallback_llm names tier = \<lparr>fl_names = names, fl_tier = tier,
     fl_last_used_name = (case names of [] \<Rightarrow> asc ''unknown'' | n # _ \<Rightarrow> n), fl_degraded = False, fl_degrade_reason = []\<rparr>"

text \<open>The model the tier stands for with a provider; \<open>JNull\<close> is the provider's own default.\<close>

definition tier_model :: "runtime_config \<Rightarrow> pystr \<Rightarrow> pystr \<Rightarrow> json" where
  "tier_model rt tier name =
     (case json_get (rt_tier_models rt) name JNull of
        JObj kvs \<Rightarrow> if name = [] then JNull else json_get kvs tier JNull
      | _ \<Rightarrow> JNull)"

text \<open>An exception of a provider: the name of its class and its text.\<close>

datatype llm_exn = LlmExn (exn_class: pystr) (exn_text: pystr)

text \<open>A result: the text, or None, and what comes with it (token counts, or the calls of tools).\<close>

type_synonym llm_result = "pystr option \<times> json"

datatype llm_method = ChatM | ChatWithUsageM | ChatWithToolsM

definition is_empty :: "llm_method \<Rightarrow> llm_result \<Rightarrow> bool" where
  "is_empty m res \<longleftrightarrow> m \<noteq> ChatWithToolsM \<and> py_strip (case fst res of None \<Rightarrow> [] | Some s \<Rightarrow> s) = []"

text \<open>
  What a request meets: the settings, the configuration, the clock at the i-th attempt, and what
  the i-th attempt gives, asked of a provider with a model. A stream gives tokens and may break.
\<close>

record llm_env =
  le_cfg :: llm_settings
  le_rt :: runtime_config
  le_now :: "nat \<Rightarrow> time"
  le_call :: "nat \<Rightarrow> llm_method \<Rightarrow> pystr \<Rightarrow> json \<Rightarrow> llm_exn + llm_result"
  le_stream :: "nat \<Rightarrow> pystr \<Rightarrow> json \<Rightarrow> pystr list \<times> llm_exn option"

text \<open>A call that was made, as the circuit breaker counts it.\<close>

record llm_call =
  lc_name :: pystr
  lc_model :: json
  lc_failed :: "time option"

definition next_name :: "pystr list \<Rightarrow> pystr" where
  "next_name names = (case names of [] \<Rightarrow> asc ''-'' | n # _ \<Rightarrow> n)"

definition reason_empty :: "pystr \<Rightarrow> pystr list \<Rightarrow> pystr" where
  "reason_empty name names = name @ (asc '' '' @ [0x8fd4, 0x56de, 0x7a7a, 0x8f93, 0x51fa, 0xff0c, 0x5df2, 0x5207, 0x6362, 0x81f3] @ asc '' '') @ next_name names"

definition reason_empty_stream :: "pystr \<Rightarrow> pystr list \<Rightarrow> pystr" where
  "reason_empty_stream name names = name @ (asc '' '' @ [0x7a7a, 0x6d41, 0xff0c, 0x5df2, 0x5207, 0x6362, 0x81f3] @ asc '' '') @ next_name names"

definition reason_exn :: "pystr \<Rightarrow> llm_exn \<Rightarrow> pystr list \<Rightarrow> pystr" where
  "reason_exn name e names = name @ (asc '' '' @ [0x4e0d, 0x53ef, 0x7528] @ asc ''('') @ exn_class e @ (asc '')'' @ [0xff0c, 0x5df2, 0x5207, 0x6362, 0x81f3] @ asc '' '') @ next_name names"

text \<open>What the wrapper remembers of the provider that answered, the i-th of the chain.\<close>

definition answered :: "nat \<Rightarrow> pystr \<Rightarrow> pystr \<Rightarrow> fallback_llm \<Rightarrow> fallback_llm" where
  "answered i name reason fb = fb\<lparr>fl_last_used_name := name, fl_degraded := (0 < i),
     fl_degrade_reason := (if 0 < i \<and> name = asc ''ollama'' then [0x4e91, 0x7aef, 0x6a21, 0x578b, 0x5168, 0x90e8, 0x4e0d, 0x53ef, 0x7528, 0xff0c, 0x5df2, 0x4f7f, 0x7528, 0x672c, 0x5730, 0x5e94, 0x6025, 0x6a21, 0x578b]
       else if 0 < i then reason else [])\<rparr>"

text \<open>
  The loop over the chain: the outcome, the calls that were made, the table and the wrapper. The
  outcome \<open>Inr None\<close> is that of an empty chain.
\<close>

record llm_state =
  st_health :: llm_health
  st_calls :: "llm_call list"
  st_llm :: fallback_llm

definition called_ok :: "pystr \<Rightarrow> json \<Rightarrow> llm_state \<Rightarrow> llm_state" where
  "called_ok name model s = s\<lparr>st_health := record_ok name (st_health s),
     st_calls := st_calls s @ [\<lparr>lc_name = name, lc_model = model, lc_failed = None\<rparr>]\<rparr>"

definition called_fail :: "llm_env \<Rightarrow> nat \<Rightarrow> pystr \<Rightarrow> json \<Rightarrow> llm_state \<Rightarrow> llm_state" where
  "called_fail env i name model s = s\<lparr>st_health := record_fail (le_cfg env) (le_now env i) name (st_health s),
     st_calls := st_calls s @ [\<lparr>lc_name = name, lc_model = model, lc_failed = Some (le_now env i)\<rparr>]\<rparr>"

fun try_from ::
  "llm_env \<Rightarrow> llm_method \<Rightarrow> bool \<Rightarrow> nat \<Rightarrow> pystr list \<Rightarrow> llm_exn option \<Rightarrow> llm_result option \<Rightarrow> pystr \<Rightarrow> llm_state \<Rightarrow>
   (llm_exn + llm_result option) \<times> llm_state" where
  "try_from env m check_empty i [] last_exc last_res reason s =
     ((case last_exc of Some e \<Rightarrow> Inl e | None \<Rightarrow> Inr last_res), s)"
| "try_from env m check_empty i (name # names) last_exc last_res reason s =
     (let model = tier_model (le_rt env) (fl_tier (st_llm s)) name
      in case le_call env i m name model of
           Inl e \<Rightarrow> try_from env m check_empty (Suc i) names (Some e) last_res (reason_exn name e names)
               (called_fail env i name model s)
         | Inr res \<Rightarrow>
             if check_empty \<and> ls_on_empty (le_cfg env) \<and> is_empty m res
             then try_from env m check_empty (Suc i) names last_exc (Some res) (reason_empty name names)
               (called_fail env i name model s)
             else (Inr (Some res), (called_ok name model s)\<lparr>st_llm := answered i name reason (st_llm s)\<rparr>))"

definition try_providers ::
  "llm_env \<Rightarrow> llm_method \<Rightarrow> bool \<Rightarrow> llm_state \<Rightarrow> (llm_exn + llm_result option) \<times> llm_state" where
  "try_providers env m check_empty s = try_from env m check_empty 0 (fl_names (st_llm s)) None None [] s"

definition llm_chat :: "llm_env \<Rightarrow> llm_state \<Rightarrow> (llm_exn + llm_result option) \<times> llm_state" where
  "llm_chat env = try_providers env ChatM True"

definition llm_chat_with_usage :: "llm_env \<Rightarrow> llm_state \<Rightarrow> (llm_exn + llm_result option) \<times> llm_state" where
  "llm_chat_with_usage env = try_providers env ChatWithUsageM True"

definition llm_chat_with_tools :: "llm_env \<Rightarrow> llm_state \<Rightarrow> (llm_exn + llm_result option) \<times> llm_state" where
  "llm_chat_with_tools env = try_providers env ChatWithToolsM False"

text \<open>The stream: the tokens that reach the caller, and the exception that ends them.\<close>

fun stream_from ::
  "llm_env \<Rightarrow> nat \<Rightarrow> pystr list \<Rightarrow> llm_exn option \<Rightarrow> pystr \<Rightarrow> llm_state \<Rightarrow> pystr list \<times> llm_exn option \<times> llm_state" where
  "stream_from env i [] last_exc reason s = ([], last_exc, s)"
| "stream_from env i (name # names) last_exc reason s =
     (let model = tier_model (le_rt env) (fl_tier (st_llm s)) name
      in case le_stream env i name model of
           (t # ts, e) \<Rightarrow> (t # ts, e, (called_ok name model s)\<lparr>st_llm := answered i name reason (st_llm s)\<rparr>)
         | ([], Some e) \<Rightarrow> stream_from env (Suc i) names (Some e) (reason_exn name e names) (called_fail env i name model s)
         | ([], None) \<Rightarrow>
             if ls_on_empty (le_cfg env)
             then stream_from env (Suc i) names last_exc (reason_empty_stream name names) (called_fail env i name model s)
             else ([], None, s))"

definition llm_stream :: "llm_env \<Rightarrow> llm_state \<Rightarrow> pystr list \<times> llm_exn option \<times> llm_state" where
  "llm_stream env s = stream_from env 0 (fl_names (st_llm s)) None [] s"

section \<open>The factory\<close>

definition KNOWN_PROVIDERS :: "pystr list" where
  "KNOWN_PROVIDERS = map asc [''deepseek'', ''qwen'', ''doubao'', ''ollama'']"

definition unknown_provider :: "pystr \<Rightarrow> pyerr" where
  "unknown_provider p = ValueError (([0x672a, 0x77e5] @ asc '' LLM_PROVIDER: '') @ p @ ([0xff08, 0x652f, 0x6301] @ asc '': deepseek | qwen | doubao | ollama'' @ [0xff09]))"

definition get_raw_provider :: "pystr \<Rightarrow> unit res" where
  "get_raw_provider p = (if p \<in> set KNOWN_PROVIDERS then Inr () else Inl (unknown_provider p))"

definition candidates :: "llm_settings \<Rightarrow> runtime_config \<Rightarrow> time \<Rightarrow> llm_health \<Rightarrow> pystr \<Rightarrow> pystr list" where
  "candidates cfg rt now h provider =
     (let names = resolve_chain cfg rt provider;
          names = (if names = [] then [ls_provider cfg] else names);
          healthy = filter (is_healthy now h) names
      in if healthy = [] then names else healthy)"

definition get_llm_provider ::
  "llm_settings \<Rightarrow> runtime_config \<Rightarrow> time \<Rightarrow> llm_health \<Rightarrow> pystr \<Rightarrow> pystr \<Rightarrow> fallback_llm res" where
  "get_llm_provider cfg rt now h provider tier =
     (let names = candidates cfg rt now h provider
      in case filter (\<lambda>p. p \<notin> set KNOWN_PROVIDERS) names of
           p # _ \<Rightarrow> map_sum id (\<lambda>_. new_fallback_llm names tier) (get_raw_provider p)
         | [] \<Rightarrow> Inr (new_fallback_llm names tier))"

section \<open>The probe\<close>

text \<open>A provider is well when it can be built and its answer to a ping, of whatever text, arrives.\<close>

definition check_llm_health :: "(pystr \<Rightarrow> llm_exn + llm_result) \<Rightarrow> pystr \<Rightarrow> bool" where
  "check_llm_health ping p \<longleftrightarrow>
     (case get_raw_provider p of Inl _ \<Rightarrow> False | Inr _ \<Rightarrow> (case ping p of Inl _ \<Rightarrow> False | Inr _ \<Rightarrow> True))"

definition should_actively_probe :: "pystr \<Rightarrow> bool" where
  "should_actively_probe name \<longleftrightarrow> name \<noteq> asc ''ollama''"

definition probe_one :: "llm_env \<Rightarrow> (pystr \<Rightarrow> llm_exn + llm_result) \<Rightarrow> nat \<times> pystr \<Rightarrow> llm_state \<Rightarrow> llm_state" where
  "probe_one env ping x s =
     (if \<not> should_actively_probe (snd x) then s
      else if check_llm_health ping (snd x) then called_ok (snd x) JNull s
      else called_fail env (fst x) (snd x) JNull s)"

definition probe_round :: "llm_env \<Rightarrow> (pystr \<Rightarrow> llm_exn + llm_result) \<Rightarrow> llm_state \<Rightarrow> llm_state" where
  "probe_round env ping s = fold (probe_one env ping) (enumerate 0 (fallback_chain (le_cfg env) (le_rt env))) s"

text \<open>The rounds of the background loop, each with what it meets; without the setting there are none.\<close>

definition refresh_llm_health_loop ::
  "bool \<Rightarrow> (llm_env \<times> (pystr \<Rightarrow> llm_exn + llm_result)) list \<Rightarrow> llm_state \<Rightarrow> llm_state" where
  "refresh_llm_health_loop enabled rounds s =
     (if enabled then fold (\<lambda>(env, ping). probe_round env ping) rounds s else s)"

end
