(* ===== verification/LlmClaims.thy ===== *)
theory LlmClaims
  imports LlmRouter Interfaces
begin

text \<open>
  What the choice of the language model guarantees: the first provider that answers is the one
  used, tokens of a stream come from one provider, the circuit breaker's table is a function of the
  calls that were made, and the configuration survives a restart unless reading it makes it expire.
\<close>

section \<open>Concrete providers\<close>

text \<open>A first provider that times out, a second that answers; and the settings as they are shipped.\<close>

definition shipped :: llm_settings where
  "shipped = \<lparr>ls_fail_n = 3, ls_cooldown = 60, ls_on_empty = True,
     ls_fallback_chain = asc ''qwen,deepseek,doubao,ollama'', ls_provider = asc ''deepseek''\<rparr>"

definition qwen_down :: llm_env where
  "qwen_down = \<lparr>le_cfg = shipped, le_rt = fresh_runtime, le_now = (\<lambda>i. 1000000 + int i),
     le_call = (\<lambda>i m name model. if name = asc ''qwen'' then Inl (LlmExn (asc ''Timeout'') []) else Inr (Some (asc ''yes''), JNull)),
     le_stream = (\<lambda>i name model. if name = asc ''qwen'' then ([], Some (LlmExn (asc ''Timeout'') [])) else ([asc ''y'', asc ''es''], None))\<rparr>"

definition fresh_state :: llm_state where
  "fresh_state = \<lparr>st_health = (\<lambda>_. None), st_calls = [], st_llm = new_fallback_llm [] []\<rparr>"

definition two_providers :: llm_state where
  "two_providers = fresh_state\<lparr>st_llm := new_fallback_llm [asc ''qwen'', asc ''deepseek''] (asc ''plus'')\<rparr>"

lemmas concrete = shipped_def qwen_down_def two_providers_def fresh_state_def new_fallback_llm_def fresh_runtime_def
  tier_model_def rt_tier_models_def json_get_def

section \<open>The first answer\<close>

text \<open>\<open>fails env m ce tier i name\<close>: the i-th attempt, at this provider, gives no answer.\<close>

definition attempt :: "llm_env \<Rightarrow> llm_method \<Rightarrow> pystr \<Rightarrow> nat \<times> pystr \<Rightarrow> llm_exn + llm_result" where
  "attempt env m tier x = le_call env (fst x) m (snd x) (tier_model (le_rt env) tier (snd x))"

definition unanswered :: "llm_env \<Rightarrow> llm_method \<Rightarrow> bool \<Rightarrow> pystr \<Rightarrow> nat \<times> pystr \<Rightarrow> bool" where
  "unanswered env m check_empty tier x \<longleftrightarrow>
     (case attempt env m tier x of
        Inl _ \<Rightarrow> True
      | Inr res \<Rightarrow> check_empty \<and> ls_on_empty (le_cfg env) \<and> is_empty m res)"

definition call_ok :: "llm_env \<Rightarrow> pystr \<Rightarrow> pystr \<Rightarrow> llm_call" where
  "call_ok env tier name = \<lparr>lc_name = name, lc_model = tier_model (le_rt env) tier name, lc_failed = None\<rparr>"

definition call_failed :: "llm_env \<Rightarrow> pystr \<Rightarrow> nat \<times> pystr \<Rightarrow> llm_call" where
  "call_failed env tier x = \<lparr>lc_name = snd x, lc_model = tier_model (le_rt env) tier (snd x), lc_failed = Some (le_now env (fst x))\<rparr>"

definition failures :: "llm_env \<Rightarrow> pystr \<Rightarrow> (nat \<times> pystr) list \<Rightarrow> llm_state \<Rightarrow> llm_state" where
  "failures env tier xs s = fold (\<lambda>x. called_fail env (fst x) (snd x) (tier_model (le_rt env) tier (snd x))) xs s"

lemma failures_Nil [simp]: "failures env tier [] s = s"
  by (simp add: failures_def)

lemma failures_Cons [simp]:
  "failures env tier (x # xs) s = failures env tier xs (called_fail env (fst x) (snd x) (tier_model (le_rt env) tier (snd x)) s)"
  by (simp add: failures_def)

lemma called_fail_llm [simp]: "st_llm (called_fail env i name model s) = st_llm s"
  by (simp add: called_fail_def)

lemma called_ok_llm [simp]: "st_llm (called_ok name model s) = st_llm s"
  by (simp add: called_ok_def)

lemma failures_llm [simp]: "st_llm (failures env tier xs s) = st_llm s"
  by (induction xs arbitrary: s) auto

text \<open>The exception raised when nobody answers, and the empty result returned otherwise.\<close>

definition exns :: "llm_env \<Rightarrow> llm_method \<Rightarrow> pystr \<Rightarrow> (nat \<times> pystr) list \<Rightarrow> llm_exn list" where
  "exns env m tier xs = concat (map (\<lambda>x. case attempt env m tier x of Inl e \<Rightarrow> [e] | Inr _ \<Rightarrow> []) xs)"

definition results :: "llm_env \<Rightarrow> llm_method \<Rightarrow> pystr \<Rightarrow> (nat \<times> pystr) list \<Rightarrow> llm_result list" where
  "results env m tier xs = concat (map (\<lambda>x. case attempt env m tier x of Inl _ \<Rightarrow> [] | Inr r \<Rightarrow> [r]) xs)"

definition latest :: "'a list \<Rightarrow> 'a option \<Rightarrow> 'a option" where
  "latest xs d = (if xs = [] then d else Some (last xs))"

lemma exns_simps [simp]:
  "exns env m tier [] = []"
  "exns env m tier (x # xs) = (case attempt env m tier x of Inl e \<Rightarrow> e # exns env m tier xs | Inr _ \<Rightarrow> exns env m tier xs)"
  by (simp_all add: exns_def split: sum.split)

lemma results_simps [simp]:
  "results env m tier [] = []"
  "results env m tier (x # xs) = (case attempt env m tier x of Inl _ \<Rightarrow> results env m tier xs | Inr r \<Rightarrow> r # results env m tier xs)"
  by (simp_all add: results_def split: sum.split)

lemma latest_simps [simp]: "latest [] d = d" "latest (x # xs) d = latest xs (Some x)"
  by (simp_all add: latest_def)

lemma try_from_unanswered:
  "(\<forall>x \<in> set (enumerate i names). unanswered env m ce (fl_tier (st_llm s)) x) \<Longrightarrow>
   try_from env m ce i names exc res reason s =
     ((case latest (exns env m (fl_tier (st_llm s)) (enumerate i names)) exc of
         Some e \<Rightarrow> Inl e
       | None \<Rightarrow> Inr (latest (results env m (fl_tier (st_llm s)) (enumerate i names)) res)),
      failures env (fl_tier (st_llm s)) (enumerate i names) s)"
proof (induction names arbitrary: i exc res reason s)
  case Nil
  then show ?case by (simp split: option.split)
next
  case (Cons name names)
  let ?tier = "fl_tier (st_llm s)"
  from Cons.prems have head: "unanswered env m ce ?tier (i, name)" by simp
  show ?case
  proof (cases "attempt env m ?tier (i, name)")
    case (Inl e)
    moreover have "le_call env i m name (tier_model (le_rt env) ?tier name) = Inl e"
      using Inl by (simp add: attempt_def)
    ultimately show ?thesis using Cons by (simp add: Let_def split: option.split)
  next
    case (Inr r)
    with head have "ce \<and> ls_on_empty (le_cfg env) \<and> is_empty m r" by (simp add: unanswered_def)
    moreover have "le_call env i m name (tier_model (le_rt env) ?tier name) = Inr r"
      using Inr by (simp add: attempt_def)
    ultimately show ?thesis using Cons Inr by (simp add: Let_def split: option.split)
  qed
qed

lemma try_from_answered:
  "(\<forall>x \<in> set (enumerate i pre). unanswered env m ce (fl_tier (st_llm s)) x) \<Longrightarrow>
   \<not> unanswered env m ce (fl_tier (st_llm s)) (i + length pre, name) \<Longrightarrow>
   \<exists>r reason'. attempt env m (fl_tier (st_llm s)) (i + length pre, name) = Inr r \<and>
     (pre = [] \<longrightarrow> reason' = reason) \<and>
     try_from env m ce i (pre @ name # post) exc res reason s =
       (Inr (Some r), (called_ok name (tier_model (le_rt env) (fl_tier (st_llm s)) name)
           (failures env (fl_tier (st_llm s)) (enumerate i pre) s))\<lparr>st_llm := answered (i + length pre) name reason' (st_llm s)\<rparr>)"
proof (induction pre arbitrary: i exc res reason s)
  case Nil
  then show ?case by (auto simp: unanswered_def attempt_def split: sum.splits)
next
  case (Cons p pre)
  let ?tier = "fl_tier (st_llm s)"
  from Cons.prems have head: "unanswered env m ce ?tier (i, p)" by simp
  let ?s = "called_fail env i p (tier_model (le_rt env) ?tier p) s"
  have IH: "\<exists>r reason'. attempt env m ?tier (i + length (p # pre), name) = Inr r \<and>
      try_from env m ce (Suc i) (pre @ name # post) exc' res' reason0 ?s =
       (Inr (Some r), (called_ok name (tier_model (le_rt env) ?tier name)
           (failures env ?tier (enumerate i (p # pre)) s))\<lparr>st_llm := answered (i + length (p # pre)) name reason' (st_llm s)\<rparr>)"
    for exc' res' reason0
    using Cons.IH[of "Suc i" ?s reason0 exc' res'] Cons.prems by auto
  show ?case
  proof (cases "attempt env m ?tier (i, p)")
    case (Inl e)
    then show ?thesis
      using IH[of "Some e" res "reason_exn p e (pre @ name # post)"] by (auto simp: attempt_def)
  next
    case (Inr r)
    with head have "ce \<and> ls_on_empty (le_cfg env) \<and> is_empty m r" by (simp add: unanswered_def)
    with Inr show ?thesis
      using IH[of exc "Some r" "reason_empty p (pre @ name # post)"] by (auto simp: attempt_def)
  qed
qed

lemma failures_calls: "st_calls (failures env tier xs s) = st_calls s @ map (call_failed env tier) xs"
  by (induction xs arbitrary: s) (auto simp: called_fail_def call_failed_def)

lemma split_first:
  assumes "\<exists>x \<in> set (enumerate 0 names). P x"
  obtains pre name post where "names = pre @ name # post" "\<forall>x \<in> set (enumerate 0 pre). \<not> P x" "P (length pre, name)"
proof -
  from split_list_first_prop[OF assms] obtain ys x zs
    where e: "enumerate 0 names = ys @ x # zs" "P x" "\<forall>y \<in> set ys. \<not> P y" by blast
  let ?pre = "map snd ys"
  have names: "names = ?pre @ snd x # map snd zs"
    using arg_cong[OF e(1), of "map snd"] by (simp add: map_snd_enumerate)
  then have "enumerate 0 names = enumerate 0 ?pre @ (length ?pre, snd x) # enumerate (Suc (length ?pre)) (map snd zs)"
    by (metis add_0 enumerate_append_eq enumerate_simps(2))
  with e(1) have "ys = enumerate 0 ?pre \<and> x = (length ?pre, snd x)"
    by (metis append_eq_append_conv length_enumerate length_map list.inject)
  with e names that show ?thesis by (metis (no_types))
qed

text \<open>C7: A request is answered by the first provider of the chain that gives an answer: exactly the
  providers up to it are called, in order, the earlier ones are recorded as failed and it as well,
  and the wrapper names it and says whether it was not the first. When nobody answers, all are
  called, and the last exception is raised, or the last empty text returned when there was none.
\<close>

theorem first_answer_is_used:
  "let tier = fl_tier (st_llm s); names = fl_names (st_llm s); (out, s') = try_providers env m check_empty s in
   if \<forall>x \<in> set (enumerate 0 names). unanswered env m check_empty tier x
   then out = (case latest (exns env m tier (enumerate 0 names)) None of
            Some e \<Rightarrow> Inl e | None \<Rightarrow> Inr (latest (results env m tier (enumerate 0 names)) None)) \<and>
        st_calls s' = st_calls s @ map (call_failed env tier) (enumerate 0 names) \<and> st_llm s' = st_llm s
   else \<exists>pre name post r. names = pre @ name # post \<and>
        (\<forall>x \<in> set (enumerate 0 pre). unanswered env m check_empty tier x) \<and>
        \<not> unanswered env m check_empty tier (length pre, name) \<and>
        attempt env m tier (length pre, name) = Inr r \<and> out = Inr (Some r) \<and>
        st_calls s' = st_calls s @ map (call_failed env tier) (enumerate 0 pre) @ [call_ok env tier name] \<and>
        is_healthy t (st_health s') name \<and>
        fl_last_used_name (st_llm s') = name \<and> fl_degraded (st_llm s') = (pre \<noteq> []) \<and>
        (pre = [] \<longrightarrow> fl_degrade_reason (st_llm s') = [])"
proof (cases "\<forall>x \<in> set (enumerate 0 (fl_names (st_llm s))). unanswered env m check_empty (fl_tier (st_llm s)) x")
  case True
  then show ?thesis
    by (simp add: try_providers_def try_from_unanswered failures_calls)
next
  case False
  let ?tier = "fl_tier (st_llm s)"
  from False obtain pre name post where p: "fl_names (st_llm s) = pre @ name # post"
      "\<forall>x \<in> set (enumerate 0 pre). \<not> \<not> unanswered env m check_empty ?tier x"
      "\<not> unanswered env m check_empty ?tier (length pre, name)"
    using split_first[of "fl_names (st_llm s)" "\<lambda>x. \<not> unanswered env m check_empty ?tier x"] by blast
  then obtain r reason' where r: "attempt env m ?tier (length pre, name) = Inr r" "pre = [] \<longrightarrow> reason' = []"
      "try_providers env m check_empty s =
       (Inr (Some r), (called_ok name (tier_model (le_rt env) ?tier name)
           (failures env ?tier (enumerate 0 pre) s))\<lparr>st_llm := answered (length pre) name reason' (st_llm s)\<rparr>)"
    using try_from_answered[of 0 pre env m check_empty s name "[]" post None None] by (auto simp: try_providers_def)
  have "\<exists>pre' name' post' r'. fl_names (st_llm s) = pre' @ name' # post' \<and>
        (\<forall>x \<in> set (enumerate 0 pre'). unanswered env m check_empty ?tier x) \<and>
        \<not> unanswered env m check_empty ?tier (length pre', name') \<and>
        attempt env m ?tier (length pre', name') = Inr r' \<and> fst (try_providers env m check_empty s) = Inr (Some r') \<and>
        st_calls (snd (try_providers env m check_empty s)) =
          st_calls s @ map (call_failed env ?tier) (enumerate 0 pre') @ [call_ok env ?tier name'] \<and>
        is_healthy t (st_health (snd (try_providers env m check_empty s))) name' \<and>
        fl_last_used_name (st_llm (snd (try_providers env m check_empty s))) = name' \<and>
        fl_degraded (st_llm (snd (try_providers env m check_empty s))) = (pre' \<noteq> []) \<and>
        (pre' = [] \<longrightarrow> fl_degrade_reason (st_llm (snd (try_providers env m check_empty s))) = [])"
    by (rule exI[of _ pre], rule exI[of _ name], rule exI[of _ post], rule exI[of _ r])
      (use p r in \<open>simp add: called_ok_def call_ok_def failures_calls answered_def is_healthy_def record_ok_def\<close>)
  then show ?thesis unfolding Let_def case_prod_beta if_not_P[OF False] .
qed

theorem first_answer_is_used_witness:
  "(\<exists>pre name post. [asc ''qwen'', asc ''deepseek''] = pre @ name # post \<and>
     fl_last_used_name (st_llm (snd (try_providers qwen_down ChatM True two_providers))) = name \<and>
     fl_degraded (st_llm (snd (try_providers qwen_down ChatM True two_providers))) = (pre \<noteq> [])) \<and>
   fst (try_providers qwen_down ChatM True two_providers) = Inr (Some (Some (asc ''yes''), JNull))"
proof -
  have names: "fl_names (st_llm two_providers) = [asc ''qwen'', asc ''deepseek'']" "fl_tier (st_llm two_providers) = asc ''plus''"
    by (simp_all add: two_providers_def new_fallback_llm_def)
  have yes: "py_strip (asc ''yes'') \<noteq> []" by (simp add: py_strip_def py_isspace_def asc_def)
  have answers: "\<not> unanswered qwen_down ChatM True (asc ''plus'') (1, asc ''deepseek'')"
    by (simp add: unanswered_def attempt_def qwen_down_def is_empty_def yes)
  then have not_all: "\<not> (\<forall>x \<in> set (enumerate 0 [asc ''qwen'', asc ''deepseek'']). unanswered qwen_down ChatM True (asc ''plus'') x)"
    by simp
  have out: "fst (try_providers qwen_down ChatM True two_providers) = Inr (Some (Some (asc ''yes''), JNull))"
    by (simp add: try_providers_def names, simp add: qwen_down_def is_empty_def yes)
  from first_answer_is_used[of two_providers qwen_down ChatM True 0, unfolded Let_def case_prod_beta names if_not_P[OF not_all]] out
  show ?thesis by blast
qed

section \<open>Streams\<close>

definition stream_of :: "llm_env \<Rightarrow> pystr \<Rightarrow> nat \<times> pystr \<Rightarrow> pystr list \<times> llm_exn option" where
  "stream_of env tier x = le_stream env (fst x) (snd x) (tier_model (le_rt env) tier (snd x))"

lemma stream_from_cases:
  "stream_from env i names exc reason s = (toks, e, s') \<Longrightarrow>
   (toks = [] \<and> st_llm s' = st_llm s \<and>
      (\<exists>pre post. names = pre @ post \<and> st_calls s' = st_calls s @ map (call_failed env (fl_tier (st_llm s))) (enumerate i pre))) \<or>
   (\<exists>pre name post. names = pre @ name # post \<and> toks \<noteq> [] \<and>
      (\<forall>x \<in> set (enumerate i pre). fst (stream_of env (fl_tier (st_llm s)) x) = []) \<and>
      stream_of env (fl_tier (st_llm s)) (i + length pre, name) = (toks, e) \<and>
      st_calls s' = st_calls s @ map (call_failed env (fl_tier (st_llm s))) (enumerate i pre) @ [call_ok env (fl_tier (st_llm s)) name] \<and>
      fl_last_used_name (st_llm s') = name \<and> fl_degraded (st_llm s') = (0 < i + length pre))"
proof (induction names arbitrary: i exc reason s)
  case Nil
  then show ?case by (auto intro!: exI[of _ "[]"])
next
  case (Cons name names)
  let ?tier = "fl_tier (st_llm s)"
  let ?model = "tier_model (le_rt env) ?tier name"
  let ?s = "called_fail env i name ?model s"
  consider (tokens) t ts e0 where "le_stream env i name ?model = (t # ts, e0)"
    | (stop) "le_stream env i name ?model = ([], None)" "\<not> ls_on_empty (le_cfg env)"
    | (nxt) exc' reason' where "fst (le_stream env i name ?model) = []"
        "stream_from env i (name # names) exc reason s = stream_from env (Suc i) names exc' reason' ?s"
  proof (cases "le_stream env i name ?model")
    case (Pair ts e0)
    consider (1) t ts' where "ts = t # ts'" | (2) x where "ts = []" "e0 = Some x"
      | (3) "ts = []" "e0 = None" "ls_on_empty (le_cfg env)" | (4) "ts = []" "e0 = None" "\<not> ls_on_empty (le_cfg env)"
      by (cases ts; cases e0) auto
    then show ?thesis
    proof cases
      case 1
      with Pair tokens show ?thesis by simp
    next
      case 2
      show ?thesis by (rule nxt[of "Some x" "reason_exn name x names"]) (use Pair 2 in \<open>simp_all add: Let_def\<close>)
    next
      case 3
      show ?thesis by (rule nxt[of exc "reason_empty_stream name names"]) (use Pair 3 in \<open>simp_all add: Let_def\<close>)
    next
      case 4
      with Pair stop show ?thesis by simp
    qed
  qed
  then show ?case
  proof cases
    case tokens
    with Cons.prems show ?thesis
      by (intro disjI2 exI[of _ "[]"] exI[of _ name] exI[of _ names])
        (auto simp: Let_def stream_of_def called_ok_def call_ok_def answered_def)
  next
    case stop
    with Cons.prems show ?thesis
      by (intro disjI1 conjI exI[of _ "[]"] exI[of _ "name # names"]) (auto simp: Let_def)
  next
    case nxt
    have calls: "st_calls ?s = st_calls s @ [call_failed env ?tier (i, name)]"
      by (simp add: called_fail_def call_failed_def)
    from Cons.IH[of "Suc i" exc' reason' ?s] Cons.prems nxt(2)
    consider (none) pre post where "toks = []" "st_llm s' = st_llm s" "names = pre @ post"
        "st_calls s' = st_calls s @ map (call_failed env ?tier) (enumerate i (name # pre))"
      | (some) pre n post where "names = pre @ n # post" "toks \<noteq> []"
        "\<forall>x \<in> set (enumerate (Suc i) pre). fst (stream_of env ?tier x) = []"
        "stream_of env ?tier (i + length (name # pre), n) = (toks, e)"
        "st_calls s' = st_calls s @ map (call_failed env ?tier) (enumerate i (name # pre)) @ [call_ok env ?tier n]"
        "fl_last_used_name (st_llm s') = n" "fl_degraded (st_llm s') = (0 < i + length (name # pre))"
      by (auto simp: calls)
    then show ?thesis
    proof cases
      case none
      then show ?thesis by (intro disjI1 conjI exI[of _ "name # pre"] exI[of _ post]) simp_all
    next
      case some
      with nxt(1) show ?thesis
        by (intro disjI2 exI[of _ "name # pre"] exI[of _ n] exI[of _ post]) (simp add: stream_of_def)
    qed
  qed
qed

text \<open>All tokens of a stream come from one provider, the first of the chain that gives any, and
  with them its ending; nobody after it is asked. So an answer is never cut and started again by
  another provider, and a provider that breaks after its first token is recorded as working.
\<close>

theorem tokens_come_from_one_provider:
  assumes "llm_stream env s = (t # ts, e, s')"
  shows "\<exists>pre name post. fl_names (st_llm s) = pre @ name # post \<and>
    (\<forall>x \<in> set (enumerate 0 pre). fst (stream_of env (fl_tier (st_llm s)) x) = []) \<and>
    stream_of env (fl_tier (st_llm s)) (length pre, name) = (t # ts, e) \<and>
    st_calls s' = st_calls s @ map (call_failed env (fl_tier (st_llm s))) (enumerate 0 pre) @ [call_ok env (fl_tier (st_llm s)) name] \<and>
    fl_last_used_name (st_llm s') = name \<and> fl_degraded (st_llm s') = (pre \<noteq> [])"
  using stream_from_cases[OF assms[unfolded llm_stream_def]] by auto

theorem tokens_come_from_one_provider_witness:
  "llm_stream qwen_down two_providers = ([asc ''y'', asc ''es''], None, snd (snd (llm_stream qwen_down two_providers))) \<and>
   (\<exists>pre name post. [asc ''qwen'', asc ''deepseek''] = pre @ name # post \<and>
     fl_last_used_name (st_llm (snd (snd (llm_stream qwen_down two_providers)))) = name)"
proof -
  have names: "fl_names (st_llm two_providers) = [asc ''qwen'', asc ''deepseek'']"
    by (simp add: two_providers_def new_fallback_llm_def)
  have s: "llm_stream qwen_down two_providers = ([asc ''y'', asc ''es''], None, snd (snd (llm_stream qwen_down two_providers)))"
    by (simp add: llm_stream_def names, simp add: qwen_down_def)
  from tokens_come_from_one_provider[OF s, unfolded names] s show ?thesis by blast
qed

section \<open>The circuit breaker's table\<close>

datatype llm_op =
    Choose runtime_config time pystr pystr
  | Chat llm_env | ChatUsage llm_env | ChatTools llm_env | Stream llm_env
  | Probe llm_env "pystr \<Rightarrow> llm_exn + llm_result"

fun llm_step :: "llm_settings \<Rightarrow> llm_op \<Rightarrow> llm_state \<Rightarrow> llm_state" where
  "llm_step cfg (Choose rt now provider tier) s =
     (case get_llm_provider cfg rt now (st_health s) provider tier of Inl _ \<Rightarrow> s | Inr fb \<Rightarrow> s\<lparr>st_llm := fb\<rparr>)"
| "llm_step cfg (Chat env) s = snd (llm_chat (env\<lparr>le_cfg := cfg\<rparr>) s)"
| "llm_step cfg (ChatUsage env) s = snd (llm_chat_with_usage (env\<lparr>le_cfg := cfg\<rparr>) s)"
| "llm_step cfg (ChatTools env) s = snd (llm_chat_with_tools (env\<lparr>le_cfg := cfg\<rparr>) s)"
| "llm_step cfg (Stream env) s = snd (snd (llm_stream (env\<lparr>le_cfg := cfg\<rparr>) s))"
| "llm_step cfg (Probe env ping) s = probe_round (env\<lparr>le_cfg := cfg\<rparr>) ping s"

text \<open>The table is the one the calls lead to.\<close>

definition count_call :: "llm_settings \<Rightarrow> llm_call \<Rightarrow> llm_health \<Rightarrow> llm_health" where
  "count_call cfg c h = (case lc_failed c of None \<Rightarrow> record_ok (lc_name c) h | Some t \<Rightarrow> record_fail cfg t (lc_name c) h)"

definition tracks :: "llm_settings \<Rightarrow> llm_state \<Rightarrow> bool" where
  "tracks cfg s \<longleftrightarrow> st_health s = fold (count_call cfg) (st_calls s) (\<lambda>_. None)"

lemma tracks_called_ok [simp]: "tracks cfg s \<Longrightarrow> tracks cfg (called_ok name model s)"
  by (simp add: tracks_def called_ok_def count_call_def)

lemma tracks_called_fail [simp]: "tracks cfg s \<Longrightarrow> le_cfg env = cfg \<Longrightarrow> tracks cfg (called_fail env i name model s)"
  by (simp add: tracks_def called_fail_def count_call_def)

lemma tracks_llm [simp]: "tracks cfg (s\<lparr>st_llm := fb\<rparr>) = tracks cfg s"
  by (simp add: tracks_def)

lemma try_from_tracks:
  "tracks cfg s \<Longrightarrow> le_cfg env = cfg \<Longrightarrow> tracks cfg (snd (try_from env m ce i names exc res reason s))"
  by (induction env m ce i names exc res reason s rule: try_from.induct) (auto simp: Let_def split: sum.split)

lemma stream_from_tracks:
  "tracks cfg s \<Longrightarrow> le_cfg env = cfg \<Longrightarrow> tracks cfg (snd (snd (stream_from env i names exc reason s)))"
  by (induction env i names exc reason s rule: stream_from.induct)
    (auto simp: Let_def split: prod.split list.split option.split)

lemma probe_one_tracks: "tracks cfg s \<Longrightarrow> le_cfg env = cfg \<Longrightarrow> tracks cfg (probe_one env ping x s)"
  by (simp add: probe_one_def)

lemma probe_round_tracks: "tracks cfg s \<Longrightarrow> le_cfg env = cfg \<Longrightarrow> tracks cfg (probe_round env ping s)"
  unfolding probe_round_def by (rule fold_invariant[where Q = "\<lambda>_. True"]) (simp_all add: probe_one_tracks)

interpretation router: invariant_ops "llm_step cfg" "tracks cfg" for cfg
proof
  fix s op
  assume "tracks cfg s"
  then show "tracks cfg (llm_step cfg op s)"
    by (cases op) (simp_all add: llm_chat_def llm_chat_with_usage_def llm_chat_with_tools_def try_providers_def
        llm_stream_def try_from_tracks stream_from_tracks probe_round_tracks split: sum.split)
qed

text \<open>The failures of a provider since its last answer, the latest first.\<close>

definition streak :: "pystr \<Rightarrow> llm_call list \<Rightarrow> time list" where
  "streak p calls = map (\<lambda>c. the (lc_failed c)) (takeWhile (\<lambda>c. lc_failed c \<noteq> None) (rev (filter (\<lambda>c. lc_name c = p) calls)))"

definition entry :: "llm_settings \<Rightarrow> pystr \<Rightarrow> llm_call list \<Rightarrow> (nat \<times> time) option" where
  "entry cfg p calls =
     (if filter (\<lambda>c. lc_name c = p) calls = [] then None
      else Some (length (streak p calls),
        if streak p calls \<noteq> [] \<and> ls_fail_n cfg \<le> length (streak p calls)
        then hd (streak p calls) + seconds (ls_cooldown cfg) else 0))"

lemma streak_snoc:
  "streak p (calls @ [c]) =
     (if lc_name c \<noteq> p then streak p calls
      else case lc_failed c of None \<Rightarrow> [] | Some t \<Rightarrow> t # streak p calls)"
  by (simp add: streak_def split: option.split)

lemma count_call_entry: "fold (count_call cfg) calls (\<lambda>_. None) p = entry cfg p calls"
proof (induction calls rule: rev_induct)
  case Nil
  then show ?case by (simp add: entry_def)
next
  case (snoc c calls)
  have none: "filter (\<lambda>c. lc_name c = p) calls = [] \<Longrightarrow> streak p calls = []" by (simp add: streak_def)
  show ?case
  proof (cases "lc_name c = p")
    case False
    with snoc show ?thesis
      by (auto simp: entry_def streak_snoc count_call_def record_ok_def record_fail_def Let_def case_prod_beta split: option.split)
  next
    case True
    with snoc none show ?thesis
      by (auto simp: entry_def streak_snoc count_call_def record_ok_def record_fail_def Let_def case_prod_beta split: option.splits if_splits)
  qed
qed

text \<open>C8: In every run of choices, requests, streams and probes a provider is out of use at a time
  exactly when it has failed at least N times since its last answer and the cooldown that began
  with the last of these failures is not over. So one answer closes the circuit, and after the
  cooldown a single further failure opens it again.
\<close>

theorem circuit_follows_the_calls:
  assumes "s = fold (llm_step cfg) ops fresh_state"
    and "\<forall>c \<in> set (st_calls s). \<forall>t. lc_failed c = Some t \<longrightarrow> 0 < t" and "0 \<le> ls_cooldown cfg"
  shows "\<not> is_healthy now (st_health s) p \<longleftrightarrow>
     streak p (st_calls s) \<noteq> [] \<and> ls_fail_n cfg \<le> length (streak p (st_calls s)) \<and>
     now < hd (streak p (st_calls s)) + seconds (ls_cooldown cfg)"
proof -
  have "tracks cfg s" unfolding assms(1) by (rule router.run_inv) (simp add: tracks_def fresh_state_def)
  then have h: "st_health s p = entry cfg p (st_calls s)" by (simp add: tracks_def count_call_entry)
  have pos: "0 < hd (streak p (st_calls s))" if "streak p (st_calls s) \<noteq> []"
  proof -
    from that obtain c cs where t: "takeWhile (\<lambda>c. lc_failed c \<noteq> None) (rev (filter (\<lambda>c. lc_name c = p) (st_calls s))) = c # cs"
      by (auto simp: streak_def neq_Nil_conv)
    then have "c \<in> set (takeWhile (\<lambda>c. lc_failed c \<noteq> None) (rev (filter (\<lambda>c. lc_name c = p) (st_calls s))))" by simp
    from set_takeWhileD[OF this] have "c \<in> set (st_calls s)" "lc_failed c \<noteq> None" by simp_all
    moreover have "hd (streak p (st_calls s)) = the (lc_failed c)" by (simp only: streak_def t list.map list.sel)
    ultimately have "c \<in> set (st_calls s)" "lc_failed c = Some (hd (streak p (st_calls s)))" by auto
    with assms(2) show ?thesis by blast
  qed
  have "streak p (st_calls s) \<noteq> [] \<Longrightarrow> filter (\<lambda>c. lc_name c = p) (st_calls s) \<noteq> []"
    by (auto simp: streak_def)
  with pos assms(3) show ?thesis
    by (auto simp: is_healthy_def h entry_def seconds_def split: if_splits)
qed

text \<open>Three requests, each timing out at the first provider.\<close>

definition two_chain :: runtime_config where
  "two_chain = fresh_runtime\<lparr>rc_fallback_chain := Some [asc ''qwen'', asc ''deepseek'']\<rparr>"

definition three_requests :: llm_state where
  "three_requests = fold (llm_step shipped) [Choose two_chain 0 (asc ''auto'') (asc ''plus''), Chat qwen_down, Chat qwen_down, Chat qwen_down] fresh_state"

definition streak_of :: "pystr \<Rightarrow> (pystr \<times> time option) list \<Rightarrow> time list" where
  "streak_of p xs = map (\<lambda>c. the (snd c)) (takeWhile (\<lambda>c. snd c \<noteq> None) (rev (filter (\<lambda>c. fst c = p) xs)))"

lemma chat_qwen_down:
  assumes "fl_names (st_llm s) = asc ''qwen'' # asc ''deepseek'' # names"
  shows "map (\<lambda>c. (lc_name c, lc_failed c)) (st_calls (llm_step shipped (Chat qwen_down) s)) =
      map (\<lambda>c. (lc_name c, lc_failed c)) (st_calls s) @ [(asc ''qwen'', Some 1000000), (asc ''deepseek'', None)]
    \<and> fl_names (st_llm (llm_step shipped (Chat qwen_down) s)) = asc ''qwen'' # asc ''deepseek'' # names"
proof -
  have yes: "py_strip (asc ''yes'') \<noteq> []" by (simp add: py_strip_def py_isspace_def asc_def)
  show ?thesis
    using assms
    by (simp add: llm_chat_def try_providers_def qwen_down_def is_empty_def yes called_ok_def called_fail_def answered_def Let_def)
qed

theorem circuit_follows_the_calls_witness:
  "\<not> is_healthy 2000000 (st_health three_requests) (asc ''qwen'') \<and> is_healthy 90000000 (st_health three_requests) (asc ''qwen'')"
proof -
  have calls: "map (\<lambda>c. (lc_name c, lc_failed c)) (st_calls three_requests) =
      [(asc ''qwen'', Some 1000000), (asc ''deepseek'', None), (asc ''qwen'', Some 1000000), (asc ''deepseek'', None),
       (asc ''qwen'', Some 1000000), (asc ''deepseek'', None)]"
  proof -
    have "get_llm_provider shipped two_chain 0 (st_health fresh_state) (asc ''auto'') (asc ''plus'') =
        Inr (new_fallback_llm [asc ''qwen'', asc ''deepseek''] (asc ''plus''))" (is "_ = Inr ?fb")
      by (simp add: get_llm_provider_def candidates_def resolve_chain_def fallback_chain_def rt_llm_fallback_chain_def
          rt_ollama_enable_def two_chain_def add_name_def fresh_runtime_def fresh_state_def is_healthy_def KNOWN_PROVIDERS_def)
    then have c: "llm_step shipped (Choose two_chain 0 (asc ''auto'') (asc ''plus'')) fresh_state = fresh_state\<lparr>st_llm := ?fb\<rparr>"
      by simp
    let ?s = "fresh_state\<lparr>st_llm := ?fb\<rparr>"
    have "fl_names (st_llm ?s) = asc ''qwen'' # asc ''deepseek'' # []"
      by (simp add: new_fallback_llm_def)
    note a = chat_qwen_down[OF this]
    note b = chat_qwen_down[OF conjunct2[OF a]]
    note d = chat_qwen_down[OF conjunct2[OF b]]
    have "three_requests = llm_step shipped (Chat qwen_down) (llm_step shipped (Chat qwen_down) (llm_step shipped (Chat qwen_down) ?s))"
      unfolding three_requests_def by (simp only: fold_simps c)
    with a b d show ?thesis by (simp only: fresh_state_def llm_state.simps) simp
  qed
  then have pos: "\<forall>c \<in> set (st_calls three_requests). \<forall>t. lc_failed c = Some t \<longrightarrow> 0 < t" by auto
  have "streak p xs = streak_of p (map (\<lambda>c. (lc_name c, lc_failed c)) xs)" for p xs
    by (simp add: streak_def streak_of_def rev_map filter_map takeWhile_map comp_def)
  then have streak: "streak (asc ''qwen'') (st_calls three_requests) = [1000000, 1000000, 1000000]"
    by (simp add: calls streak_of_def)
  have "ls_fail_n shipped = 3" "ls_cooldown shipped = 60" by (simp_all add: shipped_def)
  with circuit_follows_the_calls[OF three_requests_def pos, of 2000000 "asc ''qwen''"]
    circuit_follows_the_calls[OF three_requests_def pos, of 90000000 "asc ''qwen''"]
  show ?thesis by (simp add: streak seconds_def)
qed

text \<open>A provider whose answers are all empty is kept in use by the probe, which accepts any answer.\<close>

lemma probe_resets_an_empty_provider:
  assumes "ping p = Inr res" and "p \<in> set KNOWN_PROVIDERS" and "p \<noteq> asc ''ollama''"
  shows "is_healthy now (st_health (probe_one env ping (i, p) s)) p"
  using assms by (simp add: probe_one_def should_actively_probe_def check_llm_health_def get_raw_provider_def
      called_ok_def record_ok_def is_healthy_def)

section \<open>The provider that is chosen\<close>

lemma fold_add_name:
  "distinct chain \<Longrightarrow> distinct (fold add_name ps chain) \<and> (\<exists>rest. fold add_name ps chain = chain @ rest) \<and>
   set (fold add_name ps chain) = set chain \<union> {p \<in> set ps. p \<noteq> [] \<and> p \<notin> {asc ''default'', asc ''auto''}}"
proof (induction ps arbitrary: chain)
  case (Cons p ps)
  have "distinct (add_name p chain)" "\<exists>rest. add_name p chain = chain @ rest"
      "set (add_name p chain) = set chain \<union> {q. q = p \<and> p \<noteq> [] \<and> p \<notin> {asc ''default'', asc ''auto''}}"
    using Cons.prems by (auto simp: add_name_def)
  note step = this
  note IH = Cons.IH[OF step(1)]
  from IH step(2) obtain r1 r2 where "fold add_name ps (add_name p chain) = add_name p chain @ r1" "add_name p chain = chain @ r2"
    by blast
  then have "\<exists>rest. fold add_name (p # ps) chain = chain @ rest" by simp
  moreover have "set (fold add_name (p # ps) chain) = set chain \<union> {q \<in> set (p # ps). q \<noteq> [] \<and> q \<notin> {asc ''default'', asc ''auto''}}"
    using conjunct2[OF conjunct2[OF IH]] step(3) by auto
  ultimately show ?case using IH by simp
qed simp

lemma resolve_chain_set:
  "set (resolve_chain cfg rt p) = {q \<in> insert p (set (fallback_chain cfg rt)). q \<noteq> [] \<and> q \<notin> {asc ''default'', asc ''auto''}}"
  unfolding resolve_chain_def using fold_add_name[of "[]" "p # fallback_chain cfg rt"] by auto

lemma distinct_resolve_chain: "distinct (resolve_chain cfg rt p)"
  unfolding resolve_chain_def by (rule conjunct1[OF fold_add_name]) simp

lemma hd_resolve_chain:
  assumes "p \<noteq> []" "p \<notin> {asc ''default'', asc ''auto''}"
  shows "\<exists>rest. resolve_chain cfg rt p = p # rest"
proof -
  have "add_name p [] = [p]" using assms by (simp add: add_name_def)
  moreover obtain rest where "fold add_name (fallback_chain cfg rt) [p] = [p] @ rest"
    using fold_add_name[of "[p]" "fallback_chain cfg rt"] by auto
  ultimately show ?thesis by (simp add: resolve_chain_def)
qed

lemma candidates_facts:
  assumes "names = candidates cfg rt now h provider"
  shows "names \<noteq> []" and "distinct names"
    and "resolve_chain cfg rt provider \<noteq> [] \<Longrightarrow>
      names = filter (is_healthy now h) (resolve_chain cfg rt provider) \<or>
      names = resolve_chain cfg rt provider \<and> (\<forall>p \<in> set names. \<not> is_healthy now h p)"
    and "provider \<noteq> [] \<Longrightarrow> provider \<notin> {asc ''default'', asc ''auto''} \<Longrightarrow> is_healthy now h provider \<Longrightarrow> hd names = provider"
    and "get_llm_provider cfg rt now h provider tier =
      (case find (\<lambda>p. p \<notin> set KNOWN_PROVIDERS) names of
         None \<Rightarrow> Inr (new_fallback_llm names tier)
       | Some p \<Rightarrow> Inl (unknown_provider p))"
proof -
  show "names \<noteq> []" "distinct names"
    using assms distinct_resolve_chain by (auto simp: candidates_def Let_def)
  show "names = filter (is_healthy now h) (resolve_chain cfg rt provider) \<or>
      names = resolve_chain cfg rt provider \<and> (\<forall>p \<in> set names. \<not> is_healthy now h p)"
    if "resolve_chain cfg rt provider \<noteq> []"
    using that assms by (auto simp: candidates_def Let_def filter_empty_conv)
  show "hd names = provider" if "provider \<noteq> []" "provider \<notin> {asc ''default'', asc ''auto''}" "is_healthy now h provider"
    using hd_resolve_chain[OF that(1,2), of cfg rt] that(3) assms by (auto simp: candidates_def Let_def)
  have find: "find P xs = (case filter P xs of [] \<Rightarrow> None | x # _ \<Rightarrow> Some x)" for P and xs :: "pystr list"
    by (induction xs) auto
  show "get_llm_provider cfg rt now h provider tier =
      (case find (\<lambda>p. p \<notin> set KNOWN_PROVIDERS) names of
         None \<Rightarrow> Inr (new_fallback_llm names tier)
       | Some p \<Rightarrow> Inl (unknown_provider p))"
  proof (cases "filter (\<lambda>p. p \<notin> set KNOWN_PROVIDERS) names")
    case Nil
    then show ?thesis unfolding get_llm_provider_def assms[symmetric] Let_def find by simp
  next
    case (Cons p ps)
    then have "p \<notin> set KNOWN_PROVIDERS" by (metis (mono_tags, lifting) filter_eq_Cons_iff)
    with Cons show ?thesis unfolding get_llm_provider_def assms[symmetric] Let_def find by (simp add: get_raw_provider_def)
  qed
qed

text \<open>The wrapper gets at least one provider and none twice: those of the user's choice and the
  chain that are out of no cooldown, or all of them when that leaves nobody; a healthy choice of the
  user comes first. It cannot be built at all when one of these names is unknown, however many of
  the others work.
\<close>

theorem provider_choice:
  "let names = candidates cfg rt now h provider; chain = resolve_chain cfg rt provider in
   names \<noteq> [] \<and> distinct names \<and>
   (chain \<noteq> [] \<longrightarrow> names = filter (is_healthy now h) chain \<or> names = chain \<and> (\<forall>p \<in> set names. \<not> is_healthy now h p)) \<and>
   (provider \<noteq> [] \<and> provider \<notin> {asc ''default'', asc ''auto''} \<and> is_healthy now h provider \<longrightarrow> hd names = provider) \<and>
   get_llm_provider cfg rt now h provider tier =
     (case find (\<lambda>p. p \<notin> set KNOWN_PROVIDERS) names of
        None \<Rightarrow> Inr (new_fallback_llm names tier)
      | Some p \<Rightarrow> Inl (unknown_provider p))"
  unfolding Let_def
  by (intro conjI impI, rule candidates_facts(1)[OF refl], rule candidates_facts(2)[OF refl],
      erule candidates_facts(3)[OF refl], (elim conjE, rule candidates_facts(4)[OF refl], assumption+),
      rule candidates_facts(5)[OF refl])

text \<open>One name with a slip of the pen, and no request gets a provider.\<close>

theorem provider_choice_witness:
  "get_llm_provider shipped (fresh_runtime\<lparr>rc_fallback_chain := Some [asc ''qwen'', asc ''deepseek'', asc ''qwen2'']\<rparr>) 0 (\<lambda>_. None) (asc ''qwen'') (asc ''plus'')
     = Inl (unknown_provider (asc ''qwen2'')) \<and>
   hd (candidates shipped fresh_runtime 0 (\<lambda>_. None) (asc ''doubao'')) = asc ''doubao''"
proof -
  have c: "candidates shipped (fresh_runtime\<lparr>rc_fallback_chain := Some [asc ''qwen'', asc ''deepseek'', asc ''qwen2'']\<rparr>) 0 (\<lambda>_. None) (asc ''qwen'')
      = [asc ''qwen'', asc ''deepseek'', asc ''qwen2'']"
    by code_simp
  have d: "asc ''doubao'' \<noteq> [] \<and> asc ''doubao'' \<notin> {asc ''default'', asc ''auto''} \<and> is_healthy 0 (\<lambda>_. None) (asc ''doubao'')"
    by (simp add: is_healthy_def)
  have "find (\<lambda>p. p \<notin> set KNOWN_PROVIDERS) [asc ''qwen'', asc ''deepseek'', asc ''qwen2''] = Some (asc ''qwen2'')"
    by (simp add: KNOWN_PROVIDERS_def)
  with provider_choice[of shipped "fresh_runtime\<lparr>rc_fallback_chain := Some [asc ''qwen'', asc ''deepseek'', asc ''qwen2'']\<rparr>" 0 "\<lambda>_. None" "asc ''qwen''" "asc ''plus''"]
    provider_choice[of shipped fresh_runtime 0 "\<lambda>_. None" "asc ''doubao''" "asc ''plus''"] d
  show ?thesis by (simp add: Let_def c)
qed

section \<open>The configuration over a restart\<close>

text \<open>A reading of the routing configuration, as the administration page makes it.\<close>

definition read_router :: "cache_env \<Rightarrow> redis \<Rightarrow> redis" where
  "read_router env st = (case get_llm_router_config env st of Inl _ \<Rightarrow> st | Inr (_, st') \<Rightarrow> st')"

lemma read_router_entry:
  "st ROUTER_KEY = Some (router_document chain tiers ollama, None) \<Longrightarrow> \<not> ce_slide env \<Longrightarrow>
   read_router env st ROUTER_KEY = Some (router_document chain tiers ollama, None)"
  by (auto simp: read_router_def get_llm_router_config_def cache_get_json_def live_def router_document_def
      split: option.splits)

lemma read_routers_entry:
  "st ROUTER_KEY = Some (router_document chain tiers ollama, None) \<Longrightarrow> (\<forall>env \<in> set envs. \<not> ce_slide env) \<Longrightarrow>
   fold read_router envs st ROUTER_KEY = Some (router_document chain tiers ollama, None)"
  by (induction envs arbitrary: st) (simp_all add: read_router_entry)

lemma update_router_entry:
  "update_llm_router_config env chain tiers ollama s = Inr (data, st, rt) \<Longrightarrow>
   st ROUTER_KEY = Some (router_document chain tiers ollama, None) \<and>
   rc_fallback_chain rt = Some (filter not_blank chain) \<and> rc_tier_models rt = Some tiers \<and> rc_ollama_enable rt = Some ollama"
  by (auto simp: update_llm_router_config_def cache_set_json_persistent_def Let_def split: option.splits)

text \<open>C26: A routing configuration that was saved is in force after a restart, as it was before, however
  often it was read in between. With the sliding expiry of the cache switched on, one reading makes
  the stored configuration expire: after its time a restarted service runs on the defaults.
\<close>

theorem configuration_survives_a_restart:
  assumes "update_llm_router_config env chain tiers ollama s = Inr (data, st, rt)"
    and "ce_fault env' = None" and "rt' = snd (load_runtime env' (fold read_router envs st, fresh_runtime))"
  shows "((\<forall>e \<in> set envs. \<not> ce_slide e) \<longrightarrow>
      rt_llm_fallback_chain dflt rt' = rt_llm_fallback_chain dflt rt \<and> rt_tier_models rt' = rt_tier_models rt \<and>
      rt_ollama_enable rt' = rt_ollama_enable rt) \<and>
    (envs = [e] \<and> ce_slide e \<and> ce_fault e = None \<and> \<not> ce_expire_fails e \<and> ce_now e + seconds (ce_ttl e) \<le> ce_now env' \<longrightarrow>
      rt_llm_fallback_chain dflt rt' = comma_list dflt \<and> rt_tier_models rt' = [] \<and> rt_ollama_enable rt')"
proof -
  note st = update_router_entry[OF assms(1)]
  have "rt_llm_fallback_chain dflt rt' = rt_llm_fallback_chain dflt rt \<and> rt_tier_models rt' = rt_tier_models rt \<and>
      rt_ollama_enable rt' = rt_ollama_enable rt" if "\<forall>e \<in> set envs. \<not> ce_slide e"
  proof -
    have "fold read_router envs st ROUTER_KEY = Some (router_document chain tiers ollama, None)"
      by (rule read_routers_entry) (use st that in auto)
    then have "live (ce_now env') (fold read_router envs st) ROUTER_KEY = Some (router_document chain tiers ollama)"
      by (simp add: live_def)
    from load_live[OF assms(2) this, of fresh_runtime] st show ?thesis
      unfolding assms(3) rt_llm_fallback_chain_def rt_tier_models_def rt_ollama_enable_def by simp
  qed
  moreover have "rt_llm_fallback_chain dflt rt' = comma_list dflt \<and> rt_tier_models rt' = [] \<and> rt_ollama_enable rt'"
    if "envs = [e]" "ce_slide e" "ce_fault e = None" "\<not> ce_expire_fails e" "ce_now e + seconds (ce_ttl e) \<le> ce_now env'"
  proof -
    have "read_router e st ROUTER_KEY = Some (router_document chain tiers ollama, Some (ce_now e + seconds (ce_ttl e)))"
      using st that(2-4)
      by (simp add: read_router_def get_llm_router_config_def cache_get_json_def live_def, simp add: router_document_def)
    with that(1,5) have "live (ce_now env') (fold read_router envs st) ROUTER_KEY = None" by (simp add: live_def)
    from load_dead[OF assms(2) this, of fresh_runtime] show ?thesis
      unfolding assms(3) rt_llm_fallback_chain_def rt_tier_models_def rt_ollama_enable_def
      by (simp add: fresh_runtime_def)
  qed
  ultimately show ?thesis by simp
qed

definition cache_at :: "time \<Rightarrow> bool \<Rightarrow> cache_env" where
  "cache_at t slide = \<lparr>ce_now = t, ce_fault = None, ce_expire_fails = False, ce_slide = slide, ce_ttl = 3600\<rparr>"

theorem configuration_survives_a_restart_witness:
  "\<exists>data st rt. update_llm_router_config (cache_at 0 True) [asc ''doubao''] [] False ((\<lambda>_. None), fresh_runtime) = Inr (data, st, rt) \<and>
     rt_llm_fallback_chain (asc ''qwen'') rt = [asc ''doubao''] \<and>
     rt_llm_fallback_chain (asc ''qwen'') (snd (load_runtime (cache_at (seconds 7200) False) (fold read_router [cache_at 0 False] st, fresh_runtime)))
       = [asc ''doubao''] \<and>
     rt_llm_fallback_chain (asc ''qwen'') (snd (load_runtime (cache_at (seconds 7200) False) (fold read_router [cache_at 0 True] st, fresh_runtime)))
       = comma_list (asc ''qwen'')"
proof -
  obtain data st rt where u: "update_llm_router_config (cache_at 0 True) [asc ''doubao''] [] False ((\<lambda>_. None), fresh_runtime) = Inr (data, st, rt)"
    by (simp add: update_llm_router_config_def cache_set_json_persistent_def cache_at_def Let_def)
  have n: "filter not_blank [asc ''doubao''] = [asc ''doubao'']"
    by (simp add: not_blank_def py_strip_def py_isspace_def asc_def)
  have chain: "rt_llm_fallback_chain (asc ''qwen'') rt = [asc ''doubao'']"
    using update_router_entry[OF u] n by (simp add: rt_llm_fallback_chain_def)
  have env: "ce_fault (cache_at t b) = None" for t b by (simp add: cache_at_def)
  from configuration_survives_a_restart[where envs = "[cache_at 0 False]" and dflt = "asc ''qwen''" and env' = "cache_at (seconds 7200) False", OF u env refl]
    configuration_survives_a_restart[where envs = "[cache_at 0 True]" and dflt = "asc ''qwen''" and e = "cache_at 0 True" and env' = "cache_at (seconds 7200) False", OF u env refl]
    chain u
  show ?thesis by (auto simp: cache_at_def seconds_def)
qed

end
