(* ===== verification/QueryRouting.thy ===== *)
theory QueryRouting
  imports PyFloat PyRe
begin

text \<open>
  Choice of the retrieval path and of the model's tier by features of the question:
  routing/query_classifier.py, routing/routing_service.py, routing/config.py and \<open>classify_llm\<close> of
  providers/llm_router.py. The terms of the file grid_terms.json are an argument, as is the bucket
  of a user in the A/B test, a number below 1000 taken from a digest.
\<close>

section \<open>Regular expressions that ignore case\<close>

text \<open>\<open>re.search\<close> as a test.\<close>

fun re_found :: "re \<Rightarrow> pystr \<Rightarrow> bool" where
  "re_found r [] = (re_match r [] \<noteq> [])"
| "re_found r (c # cs) = (re_match r (c # cs) \<noteq> [] \<or> re_found r cs)"

text \<open>
  What a letter of the patterns matches under IGNORECASE: both cases, and the other characters that
  have it as lower case, such as the Kelvin and Ohm signs, or that the engine takes for the same.
\<close>

definition same_case :: "nat \<Rightarrow> nat list" where
  "same_case c =
     (let l = (if 65 \<le> c \<and> c \<le> 90 then c + 32 else c)
      in if 97 \<le> l \<and> l \<le> 122
         then [l, l - 32] @ (if l = 107 then [0x212a] else if l = 105 then [0x130, 0x131] else if l = 115 then [0x17f] else [])
         else if c \<in> {0x3a9, 0x3c9, 0x2126} then [0x3a9, 0x3c9, 0x2126]
         else if c \<in> {0xb5, 0x3bc, 0x39c} then [0xb5, 0x3bc, 0x39c]
         else [c])"

definition lit_ci :: "pystr \<Rightarrow> re" where
  "lit_ci s = foldr (\<lambda>c. Cat (one_of (same_case c))) s Eps"

fun words_ci :: "pystr list \<Rightarrow> re" where
  "words_ci [] = Cls []"
| "words_ci [w] = lit_ci w"
| "words_ci (w # v # vs) = Alt (lit_ci w) (words_ci (v # vs))"

text \<open>The parts of a pattern that \<open>\s*\<close> separates, with a number behind.\<close>

fun spaced :: "pystr list \<Rightarrow> re" where
  "spaced [] = plus DIGIT"
| "spaced (w # parts) = Cat (lit_ci w) (Cat spaces (spaced parts))"

section \<open>Features of a question\<close>

definition CORE_TERMS :: "pystr list" where
  "CORE_TERMS = [
     [0x53d8, 0x538b, 0x5668], [0x4e3b, 0x53d8], [0x65ad, 0x8def, 0x5668], [0x9694, 0x79bb, 0x5f00, 0x5173],
     [0x63a5, 0x5730, 0x5200, 0x95f8], [0x4e92, 0x611f, 0x5668], [0x7535, 0x6d41, 0x4e92, 0x611f, 0x5668], [0x7535, 0x538b, 0x4e92, 0x611f, 0x5668],
     [0x907f, 0x96f7, 0x5668], (asc ''GIS''), (asc ''SF6''), [0x5f00, 0x5173, 0x67dc],
     [0x7535, 0x7f06], [0x67b6, 0x7a7a, 0x7ebf], [0x6bcd, 0x7ebf], [0x7535, 0x5bb9, 0x5668],
     [0x7535, 0x6297, 0x5668], [0x6d88, 0x5f27, 0x7ebf, 0x5708], [0x7ee7, 0x7535, 0x4fdd, 0x62a4], [0x81ea, 0x52a8, 0x88c5, 0x7f6e],
     [0x8fdc, 0x52a8], [0x6d4b, 0x63a7], [0x5408, 0x5e76, 0x5355, 0x5143], [0x667a, 0x80fd, 0x7ec8, 0x7aef],
     [0x5dee, 0x52a8, 0x4fdd, 0x62a4], [0x74e6, 0x65af, 0x4fdd, 0x62a4], [0x8fc7, 0x6d41, 0x4fdd, 0x62a4], [0x8ddd, 0x79bb, 0x4fdd, 0x62a4],
     [0x96f6, 0x5e8f, 0x4fdd, 0x62a4], [0x91cd, 0x5408, 0x95f8], [0x5907, 0x81ea, 0x6295], [0x5b89, 0x7a33, 0x88c5, 0x7f6e],
     [0x6545, 0x969c, 0x5f55, 0x6ce2], [0x8df3, 0x95f8], [0x5408, 0x95f8], [0x5206, 0x95f8],
     [0x5012, 0x95f8], [0x505c, 0x7535], [0x9001, 0x7535], [0x63a5, 0x5730],
     [0x7edd, 0x7f18], [0x8010, 0x538b], [0x5c40, 0x653e], [0x6cb9, 0x8272, 0x8c31],
     [0x7ea2, 0x5916, 0x6d4b, 0x6e29], [0x5e26, 0x7535, 0x68c0, 0x6d4b], [0x5de1, 0x68c0], [0x68c0, 0x4fee],
     [0x9884, 0x8bd5], [0x5b9a, 0x68c0], [0x6d88, 0x7f3a], [0x62a2, 0x4fee],
     (asc ''kV''), (asc ''kA''), (asc ''MW''), (asc ''MVA''),
     (asc ''Hz''), [0x3a9], (asc ''dB''), (asc ''ppm''),
     (asc ''r/min''), (asc ''mm'' @ [0xb2]), (asc ''MPa''), [0x3bc, 0x3a9],
     (asc ''m'' @ [0x3a9])]"

definition STANDARD_RE :: re where
  "STANDARD_RE =
     Alt (spaced [asc ''DL'', asc ''/'', asc ''T'']) (Alt (spaced [asc ''GB'', asc ''/'', asc ''T''])
       (Alt (spaced [asc ''Q'', asc ''/'', asc ''GDW'']) (Alt (spaced [asc ''JB'', asc ''/'', asc ''T''])
         (Alt (spaced [asc ''IEEE'']) (spaced [asc ''IEC''])))))"

definition UNITS :: "pystr list" where
  "UNITS = [
     (asc ''kV''), (asc ''kA''), (asc ''MW''), (asc ''MVA''), (asc ''Hz''), [0x3a9],
     (asc ''dB''), (asc ''ppm''), (asc ''r/min''), (asc ''mm'' @ [0xb2]), (asc ''MPa''), [0x3bc, 0x3a9],
     (asc ''m'' @ [0x3a9]), [0x2103], ([0xb0] @ asc ''C''), (asc ''kVAR''), (asc ''kV'' @ [0xb7] @ asc ''A''), (asc ''kW'' @ [0xb7] @ asc ''h''),
     (asc ''MWh''), (asc ''GWh''), (asc ''A''), (asc ''V''), (asc ''W''), (asc ''mH''),
     ([0x3bc] @ asc ''F''), (asc ''nF''), (asc ''pF''), (asc ''k'' @ [0x3a9]), (asc ''M'' @ [0x3a9]), [0x5343, 0x4f0f],
     [0x5343, 0x5b89], [0x5146, 0x74e6], [0x5146, 0x4f0f, 0x5b89], [0x8d6b, 0x5179], [0x6b27, 0x59c6], [0x5146, 0x6b27],
     [0x5fae, 0x6b27], [0x6beb, 0x6b27], [0x6444, 0x6c0f, 0x5ea6], [0x5343, 0x4e4f], [0x5343, 0x74e6, 0x65f6], [0x5146, 0x74e6, 0x65f6],
     [0x5343, 0x4f0f, 0x5b89], [0x5b89, 0x57f9], [0x4f0f, 0x7279], [0x74e6, 0x7279], [0x6beb, 0x4ea8], [0x5fae, 0x6cd5],
     [0x7eb3, 0x6cd5], [0x76ae, 0x6cd5], [0x5343, 0x6b27], [0x5146, 0x5e15], [0x5e73, 0x65b9, 0x6beb, 0x7c73]]"

definition NUMERIC_RE :: re where
  "NUMERIC_RE = Cat (plus DIGIT) (Cat (Opt (chr 46)) (Cat (Star DIGIT) (Cat spaces (words_ci UNITS))))"

definition FAULT_WORDS :: "pystr list" where
  "FAULT_WORDS = [
     [0x6545, 0x969c], [0x8df3, 0x95f8], [0x4e8b, 0x6545], [0x5f02, 0x5e38],
     [0x544a, 0x8b66], [0x62a5, 0x8b66], [0x70e7, 0x6bc1], [0x51fb, 0x7a7f],
     [0x653e, 0x7535], [0x95ea, 0x7edc], [0x77ed, 0x8def], [0x63a5, 0x5730],
     [0x65ad, 0x7ebf], [0x7f3a, 0x76f8], [0x8fc7, 0x8d1f, 0x8377], [0x8fc7, 0x6d41],
     [0x8fc7, 0x538b], [0x6b20, 0x538b], [0x4f4e, 0x9891], [0x9ad8, 0x9891],
     [0x632f, 0x8361], [0x5192, 0x70df], [0x7740, 0x706b], [0x7206, 0x70b8],
     [0x6f0f, 0x6cb9], [0x6f0f, 0x6c14], [0x8fdb, 0x6c34], [0x53d7, 0x6f6e],
     [0x9508, 0x8680], [0x5361, 0x6da9], [0x62d2, 0x52a8], [0x8bef, 0x52a8]]"

definition NATURAL_WORDS :: "pystr list" where
  "NATURAL_WORDS = [
     [0x7684], [0x662f], [0x4e86], [0x5417],
     [0x600e, 0x4e48], [0x4e3a, 0x4ec0, 0x4e48], [0x5982, 0x4f55], [0x600e, 0x6837],
     [0x4ec0, 0x4e48], [0x54ea, 0x4e9b], [0x54ea, 0x4e2a], [0x8bf7, 0x95ee],
     [0x5e2e, 0x5fd9], [0x80fd, 0x5426], [0x53ef, 0x5426], [0x5e94, 0x8be5],
     [0x9700, 0x8981], [0x53ef, 0x4ee5], [0x662f, 0x5426]]"

definition ALIASES :: "pystr list" where
  "ALIASES = [
     [0x4e3b, 0x53d8], [0x53d8, 0x538b, 0x6c14], [0x9ad8, 0x53d8], [0x7ad9, 0x7528, 0x53d8],
     [0x63a5, 0x5730, 0x53d8], [0x5200, 0x95f8], (asc ''CT''), (asc ''TA''),
     (asc ''PT''), (asc ''TV''), (asc ''GIS''), (asc ''MOA''),
     [0x91cd, 0x5408, 0x95f8], [0x5907, 0x81ea, 0x6295], [0x5dee, 0x52a8, 0x4fdd, 0x62a4], [0x74e6, 0x65af, 0x4fdd, 0x62a4],
     [0x6709, 0x8f7d, 0x8c03, 0x538b]]"

datatype query_type = KeywordQ | NaturalQ | FaultQ | MixedQ

record query_features =
  qf_query_length :: nat
  qf_term_density :: dbl
  qf_query_type :: query_type
  qf_has_standard_reference :: bool
  qf_has_numeric_param :: bool
  qf_has_synonym_alias :: bool

text \<open>The terms, each once; the file maps names to their aliases.\<close>

definition term_dict :: "(pystr \<times> pystr) list \<Rightarrow> pystr list" where
  "term_dict grid_terms = fromkeys (CORE_TERMS @ concat (map (\<lambda>(k, v). [k, v]) grid_terms))"

definition check_synonym :: "pystr \<Rightarrow> bool" where
  "check_synonym s \<longleftrightarrow> list_ex (\<lambda>a. py_in a s) ALIASES"

definition term_hits :: "pystr list \<Rightarrow> pystr \<Rightarrow> nat" where
  "term_hits terms s = length (filter (\<lambda>t. py_in t s) terms)"

text \<open>\<open>min(a, b)\<close> of floats.\<close>

definition fmin :: "dbl \<Rightarrow> dbl \<Rightarrow> dbl" where
  "fmin a b = (if fless b a then b else a)"

definition extract_features :: "pystr list \<Rightarrow> pystr \<Rightarrow> query_features" where
  "extract_features terms query =
     (let s = py_strip query;
          has_fault = list_ex (\<lambda>w. py_in w s) FAULT_WORDS;
          has_natural = list_ex (\<lambda>w. py_in w s) NATURAL_WORDS
      in \<lparr>qf_query_length = length s,
          qf_term_density = fmin (fdiv (term_hits terms s) (max (length s) 1)) (fnat 1),
          qf_query_type = (if has_fault then FaultQ else if has_natural then NaturalQ
            else if length s \<le> 10 then KeywordQ else MixedQ),
          qf_has_standard_reference = re_found STANDARD_RE s,
          qf_has_numeric_param = re_found NUMERIC_RE s,
          qf_has_synonym_alias = check_synonym s\<rparr>)"

section \<open>The decision\<close>

text \<open>A number of the configuration, as written: \<open>(d, n)\<close> is \<open>n\<close> units of \<open>10 ^ - d\<close>.\<close>

type_synonym decimal = "nat \<times> nat"

definition dval :: "decimal \<Rightarrow> dbl" where
  "dval x = fdec (fst x) (snd x)"

definition dtext :: "decimal \<Rightarrow> pystr" where
  "dtext x = repr_dec (fst x) (snd x)"

record router_config =
  rq_enabled :: bool
  rq_sparse_max_len :: nat
  rq_sparse_term_density :: decimal
  rq_sparse_max_len_for_density :: nat
  rq_dense_min_len :: nat
  rq_dense_max_term_density :: decimal
  rq_skip_rerank_confidence :: decimal
  rq_min_confidence :: decimal
  rq_sparse_fallback_min_score :: decimal
  rq_ab_test_ratio :: decimal

definition default_router :: router_config where
  "default_router = \<lparr>rq_enabled = True, rq_sparse_max_len = 5, rq_sparse_term_density = (1, 3),
     rq_sparse_max_len_for_density = 10, rq_dense_min_len = 30, rq_dense_max_term_density = (1, 1),
     rq_skip_rerank_confidence = (2, 85), rq_min_confidence = (1, 6), rq_sparse_fallback_min_score = (1, 3),
     rq_ab_test_ratio = (1, 10)\<rparr>"

datatype route = Sparse | Dense | Hybrid | SparseFirst

record routing_decision =
  rd_route :: route
  rd_confidence :: dbl
  rd_reason :: pystr
  rd_features :: "query_features option"
  rd_skip_rerank :: bool

definition decision :: "route \<Rightarrow> dbl \<Rightarrow> pystr \<Rightarrow> query_features option \<Rightarrow> bool \<Rightarrow> routing_decision" where
  "decision r c reason f skip =
     \<lparr>rd_route = r, rd_confidence = c, rd_reason = reason, rd_features = f, rd_skip_rerank = skip\<rparr>"

definition density_text :: "query_features \<Rightarrow> pystr" where
  "density_text f = fixed_text 2 (fround 2 (qf_term_density f))"

definition fle :: "dbl \<Rightarrow> dbl \<Rightarrow> bool" where
  "fle a b \<longleftrightarrow> \<not> fless b a"

definition classify :: "router_config \<Rightarrow> pystr list \<Rightarrow> pystr \<Rightarrow> routing_decision" where
  "classify cfg terms query =
     (let f = extract_features terms query in
      if qf_has_standard_reference f
      then decision Sparse (fdec 2 92) [0x6807, 0x51c6, 0x5f15, 0x7528, 0x9700, 0x7cbe, 0x786e, 0x5b57, 0x7b26, 0x4e32, 0x5339, 0x914d] (Some f) True
      else if qf_query_length f \<le> rq_sparse_max_len cfg
      then decision Sparse (fdec 2 90) (([0x8d85, 0x77ed, 0x67e5, 0x8be2] @ asc ''('') @ dec_nat (qf_query_length f) @ ([0x5b57] @ asc '') IDF '' @ [0x5df2, 0x8db3, 0x591f, 0x7cbe, 0x51c6])) (Some f) True
      else if qf_query_length f \<le> rq_sparse_max_len_for_density cfg \<and> fle (dval (rq_sparse_term_density cfg)) (qf_term_density f)
      then decision Sparse (fdec 2 85) (([0x672f, 0x8bed, 0x5bc6, 0x96c6, 0x578b, 0x77ed, 0x67e5, 0x8be2] @ asc ''('' @ [0x5bc6, 0x5ea6]) @ density_text f @ (asc '')'')) (Some f) True
      else if qf_has_numeric_param f
      then decision SparseFirst (fdec 2 72) ([0x542b, 0x6570, 0x503c, 0x53c2, 0x6570] @ asc '', '' @ [0x5148] @ asc '' sparse '' @ [0x540e, 0x6309, 0x9700] @ asc '' hybrid'') (Some f) False
      else if qf_query_type f = FaultQ \<and> 10 < qf_query_length f
      then decision Dense (fdec 2 88) [0x6545, 0x969c, 0x53e3, 0x8bed, 0x5316, 0x63cf, 0x8ff0, 0x9700, 0x8bed, 0x4e49, 0x62bd, 0x8c61] (Some f) False
      else if qf_has_synonym_alias f \<and> 5 < qf_query_length f
      then decision Dense (fdec 2 78) ([0x540c, 0x4e49, 0x8bcd] @ asc ''/'' @ [0x522b, 0x540d, 0x6df7, 0x7528, 0x9700, 0x9690, 0x5f0f, 0x8bed, 0x4e49, 0x8fd1, 0x90bb]) (Some f) False
      else if rq_dense_min_len cfg \<le> qf_query_length f \<and> fle (qf_term_density f) (dval (rq_dense_max_term_density cfg))
      then decision Dense (fdec 2 82) (([0x957f, 0x81ea, 0x7136, 0x8bed, 0x8a00, 0x4f4e, 0x672f, 0x8bed, 0x5bc6, 0x5ea6] @ asc ''('' @ [0x5bc6, 0x5ea6]) @ density_text f @ (asc '')'')) (Some f) False
      else decision Hybrid (fdec 2 50) ([0x89c4, 0x5219, 0x672a, 0x8986, 0x76d6] @ asc '', '' @ [0x8d70, 0x5168, 0x94fe, 0x8def, 0x786e, 0x4fdd, 0x53ec, 0x56de]) (Some f) False)"

definition should_skip_rerank :: "router_config \<Rightarrow> routing_decision \<Rightarrow> bool" where
  "should_skip_rerank cfg d \<longleftrightarrow>
     rd_skip_rerank d \<and> fle (dval (rq_skip_rerank_confidence cfg)) (rd_confidence d) \<and> rd_route d = Sparse"

section \<open>The service\<close>

definition ab_enabled :: "router_config \<Rightarrow> bool" where
  "ab_enabled cfg \<longleftrightarrow> fless (dval (rq_ab_test_ratio cfg)) (fnat 1)"

definition is_b_group :: "router_config \<Rightarrow> (pystr \<Rightarrow> nat) \<Rightarrow> pystr \<Rightarrow> bool" where
  "is_b_group cfg bucket user_hash \<longleftrightarrow> ab_enabled cfg \<and> user_hash \<noteq> [] \<and>
     fless (fnat (bucket user_hash)) (fmul (dval (rq_ab_test_ratio cfg)) (fnat 1000))"

definition route_query ::
  "router_config \<Rightarrow> pystr list \<Rightarrow> (pystr \<Rightarrow> nat) \<Rightarrow> pystr \<Rightarrow> pystr \<Rightarrow> routing_decision" where
  "route_query cfg terms bucket query user_hash =
     (if \<not> rq_enabled cfg then decision Hybrid (fnat 1) [0x8def, 0x7531, 0x603b, 0x5f00, 0x5173, 0x5173, 0x95ed] None False
      else
        let d = classify cfg terms query;
            d = (if is_b_group cfg bucket user_hash
              then decision Hybrid (fnat 1) (asc ''A/B '' @ [0x6d4b, 0x8bd5] @ asc ''(B'' @ [0x7ec4] @ asc ''): '' @ [0x8d70] @ asc '' hybrid '' @ [0x5168, 0x94fe, 0x8def, 0x5bf9, 0x6bd4]) (rd_features d) False else d)
        in if fless (rd_confidence d) (dval (rq_min_confidence cfg))
           then decision Hybrid (fnat 1)
             (([0x7f6e, 0x4fe1, 0x5ea6, 0x4e0d, 0x8db3] @ asc ''('') @ fixed_text 2 (fround 2 (rd_confidence d)) @ (asc ''<'') @ dtext (rq_min_confidence cfg) @ (asc ''), '' @ [0x56de, 0x9000, 0x5168, 0x94fe, 0x8def]))
             (rd_features d) False
           else d)"

definition validate_sparse_result :: "router_config \<Rightarrow> dbl \<Rightarrow> bool" where
  "validate_sparse_result cfg top1_score \<longleftrightarrow> fle (dval (rq_sparse_fallback_min_score cfg)) top1_score"

section \<open>The tier of the model\<close>

definition classify_llm :: "bool \<Rightarrow> bool \<Rightarrow> pystr list \<Rightarrow> pystr \<Rightarrow> pystr \<times> pystr" where
  "classify_llm tier_enable fact_fast terms query =
     (if \<not> tier_enable then (asc ''plus'', asc ''tier_disabled'')
      else let f = extract_features terms query in
        if qf_has_standard_reference f then (asc ''turbo'', [0x6807, 0x51c6, 0x5f15, 0x7528, 0xb7, 0x7cbe, 0x786e, 0x67e5, 0x8be2])
        else if qf_query_type f = KeywordQ \<and> qf_query_length f \<le> 8 then (asc ''turbo'', [0x77ed, 0x5173, 0x952e, 0x8bcd, 0xb7, 0x7cbe, 0x786e, 0x67e5, 0x8be2])
        else if qf_query_length f \<le> 12 \<and> fle (fdec 2 25) (qf_term_density f) \<and> \<not> qf_has_numeric_param f
        then (asc ''turbo'', [0x672f, 0x8bed, 0x5bc6, 0x96c6, 0xb7, 0x7b80, 0x77ed, 0x67e5, 0x8be2])
        else if qf_query_type f = FaultQ then (asc ''plus'', [0x6545, 0x969c, 0x8bca, 0x65ad, 0xb7, 0x9700, 0x63a8, 0x7406])
        else if fact_fast \<and> qf_query_type f = NaturalQ \<and> qf_query_length f \<le> 20 \<and> fle (fdec 2 5) (qf_term_density f)
          \<and> \<not> qf_has_numeric_param f
        then (asc ''turbo'', ([0x4e8b, 0x5b9e, 0x77ed, 0x95ee, 0xb7, 0x4f4e, 0x63a8, 0x7406] @ asc ''('' @ [0x5bc6, 0x5ea6]) @ density_text f @ (asc '')''))
        else (asc ''plus'', [0x9ed8, 0x8ba4, 0x8d28, 0x91cf, 0x6863]))"

section \<open>Facts on searching\<close>

text \<open>A match stays one when text is added behind it, and in front of it for a search.\<close>

lemma re_star_append: "rest \<in> set (re_star rs s) \<Longrightarrow> rest @ t \<in> set (re_star rs (s @ t))"
proof (induction s)
  case Nil
  then have "rest = []" by simp
  have "t \<in> set (re_star rs t)" by (cases t) auto
  with \<open>rest = []\<close> show ?case by simp
qed (auto split: if_splits)

lemma re_match_append: "rest \<in> set (re_match r s) \<Longrightarrow> rest @ t \<in> set (re_match r (s @ t))"
proof (induction r arbitrary: rest s)
  case (Cls rs)
  then show ?case by (cases s) (auto split: if_splits)
next
  case (Cat a b)
  then show ?case by fastforce
qed (auto simp: re_star_append)

lemma re_found_iff: "re_found r s \<longleftrightarrow> (\<exists>pre suf. s = pre @ suf \<and> re_match r suf \<noteq> [])"
proof (induction s)
  case (Cons c cs)
  show ?case
  proof
    assume "re_found r (c # cs)"
    then consider "re_match r (c # cs) \<noteq> []" | "re_found r cs" by auto
    then show "\<exists>pre suf. c # cs = pre @ suf \<and> re_match r suf \<noteq> []"
    proof cases
      case 1
      then show ?thesis by (intro exI[of _ "[]"] exI[of _ "c # cs"]) simp
    next
      case 2
      with Cons obtain pre suf where "cs = pre @ suf" "re_match r suf \<noteq> []" by blast
      then show ?thesis by (intro exI[of _ "c # pre"] exI[of _ suf]) simp
    qed
  next
    assume "\<exists>pre suf. c # cs = pre @ suf \<and> re_match r suf \<noteq> []"
    then obtain pre suf where p: "c # cs = pre @ suf" "re_match r suf \<noteq> []" by blast
    then show "re_found r (c # cs)" using Cons by (cases pre) auto
  qed
qed simp

lemma re_found_within: "re_match r s \<noteq> [] \<Longrightarrow> re_found r (pre @ s @ post)"
proof -
  assume "re_match r s \<noteq> []"
  then obtain rest where "rest \<in> set (re_match r s)" by (meson list.set_sel(1))
  from re_match_append[OF this, of post] have "re_match r (s @ post) \<noteq> []" by auto
  then show ?thesis unfolding re_found_iff by blast
qed

lemma strip_keeps:
  assumes "s \<noteq> []" "\<not> py_isspace (hd s)" "\<not> py_isspace (last s)"
  shows "\<exists>pre' post'. py_strip (pre @ s @ post) = pre' @ s @ post'"
proof -
  obtain x xs where s: "s = x # xs" using assms(1) by (cases s) auto
  obtain y ys where r: "rev s = y # ys" "\<not> py_isspace y" using assms(1,3) by (cases "rev s") (auto simp: rev_swap hd_rev[symmetric])
  have front: "\<exists>pre'. dropWhile py_isspace (pre @ s @ post) = pre' @ s @ post"
    using assms(2) s by (induction pre) auto
  then obtain pre' where p: "dropWhile py_isspace (pre @ s @ post) = pre' @ s @ post" by blast
  have "\<exists>q. dropWhile py_isspace (q0 @ rev s @ rev pre') = q @ rev s @ rev pre'" for q0
    using r by (induction q0) auto
  then obtain q where "dropWhile py_isspace (rev post @ rev s @ rev pre') = q @ rev s @ rev pre'" by blast
  then have "py_strip (pre @ s @ post) = pre' @ s @ rev q" by (simp add: py_strip_def p)
  then show ?thesis by blast
qed

section \<open>What the router guarantees\<close>

lemmas float_eval = dval_def fdec_def fnat_def fdiv_def bit_len.simps div_half_even_def fle_def

text \<open>C27: A question that cites a standard, with any text around the citation, is searched by exact
  terms and its results are not ranked again; unless the router is off, the user is in group B, or
  the least confidence is set above 0.92.
\<close>

theorem standards_are_searched_exactly:
  assumes "re_match STANDARD_RE cite \<noteq> []" and "cite \<noteq> []" and "\<not> py_isspace (hd cite)" and "\<not> py_isspace (last cite)"
    and "rq_enabled cfg" and "\<not> is_b_group cfg bucket user_hash" and "fle (dval (rq_min_confidence cfg)) (fdec 2 92)"
    and "fle (dval (rq_skip_rerank_confidence cfg)) (fdec 2 92)"
  shows "rd_route (route_query cfg terms bucket (pre @ cite @ post) user_hash) = Sparse \<and>
    should_skip_rerank cfg (route_query cfg terms bucket (pre @ cite @ post) user_hash)"
proof -
  obtain pre' post' where "py_strip (pre @ cite @ post) = pre' @ cite @ post'" using strip_keeps assms(2-4) by blast
  then have "qf_has_standard_reference (extract_features terms (pre @ cite @ post))"
    using re_found_within[OF assms(1)] by (simp add: extract_features_def Let_def)
  then show ?thesis
    using assms(5-8) by (simp add: route_query_def classify_def Let_def decision_def fle_def should_skip_rerank_def)
qed

theorem standards_are_searched_exactly_witness:
  "rd_route (route_query default_router [] (\<lambda>_. 0) (asc ''see '' @ asc ''dl / t 860'' @ asc '' please'') (asc ''u1'')) = Sparse"
proof -
  have b: "\<not> is_b_group default_router (\<lambda>_. 0) (asc ''u1'')"
    by (simp add: is_b_group_def ab_enabled_def default_router_def float_eval)
  have m: "re_match STANDARD_RE (asc ''dl / t 860'') \<noteq> []"
    by (simp add: STANDARD_RE_def lit_ci_def one_of_def plus_def spaces_def in_class_def same_case_def SPACE_def DIGIT_def asc_def)
  have c: "fle (dval (rq_min_confidence default_router)) (fdec 2 92)" "fle (dval (rq_skip_rerank_confidence default_router)) (fdec 2 92)"
    by (simp_all add: default_router_def float_eval)
  show ?thesis
    by (rule conjunct1[OF standards_are_searched_exactly[OF m _ _ _ _ b c]]) (simp_all add: asc_def py_isspace_def default_router_def)
qed

text \<open>In the A/B test the configured share of the users, which the configuration calls the share
  that is routed, is the one that is not routed: a user whose bucket is below it always gets the
  full chain, and the others are routed as without the test.
\<close>

theorem ab_share_is_not_routed:
  assumes "rq_enabled cfg" and "ab_enabled cfg" and "user_hash \<noteq> []" and "fle (dval (rq_min_confidence cfg)) (fnat 1)"
  shows "if fless (fnat (bucket user_hash)) (fmul (dval (rq_ab_test_ratio cfg)) (fnat 1000))
    then rd_route (route_query cfg terms bucket query user_hash) = Hybrid
    else route_query cfg terms bucket query user_hash = route_query (cfg\<lparr>rq_ab_test_ratio := (1, 10)\<rparr>) terms bucket query user_hash"
proof -
  have "\<not> ab_enabled (cfg\<lparr>rq_ab_test_ratio := (1, 10)\<rparr>)" by (simp add: ab_enabled_def float_eval)
  moreover have "classify (cfg\<lparr>rq_ab_test_ratio := (1, 10)\<rparr>) terms query = classify cfg terms query"
    by (cases cfg) (simp only: classify_def router_config.simps)
  ultimately show ?thesis
    using assms by (simp add: route_query_def is_b_group_def decision_def fle_def Let_def)
qed

theorem ab_share_is_not_routed_witness:
  "rd_route (route_query (default_router\<lparr>rq_ab_test_ratio := (1, 5)\<rparr>) [] (\<lambda>_. 300) (asc ''dl / t 860'') (asc ''u1'')) = Hybrid"
proof -
  let ?cfg = "default_router\<lparr>rq_ab_test_ratio := (1, 5)\<rparr>"
  have h: "rq_enabled ?cfg" "ab_enabled ?cfg" "asc ''u1'' \<noteq> []" "fle (dval (rq_min_confidence ?cfg)) (fnat 1)"
    by (simp_all add: default_router_def ab_enabled_def float_eval)
  have "fless (fnat 300) (fmul (dval (rq_ab_test_ratio ?cfg)) (fnat 1000))" by (simp add: float_eval)
  with ab_share_is_not_routed[OF h, of "\<lambda>_. 300" "[]" "asc ''dl / t 860''"] show ?thesis by simp
qed

text \<open>A longer question about a fault that cites no standard is answered by the strong model.\<close>

lemma long_fault_questions_get_the_strong_model:
  assumes "qf_query_type (extract_features terms query) = FaultQ" and "12 < qf_query_length (extract_features terms query)"
    and "\<not> qf_has_standard_reference (extract_features terms query)"
  shows "fst (classify_llm tier_enable fact_fast terms query) = asc ''plus''"
  using assms by (simp add: classify_llm_def Let_def)

end
