(* ===== verification/QualityEvents.thy ===== *)
theory QualityEvents
  imports PyJson Tables
begin

text \<open>
  Quality events: the table (models/quality_event.py), the bus that stores an event and calls its
  subscribers (services/quality_event_bus.py), the management of their status
  (services/quality_event_service.py) and the payload they show (schemas/quality_event.py).
\<close>

section \<open>The table\<close>

type_synonym fields = "(pystr \<times> json) list"

record quality_event =
  qe_id :: pystr
  qe_source :: pystr
  qe_type :: pystr
  qe_payload :: fields
  qe_status :: pystr
  qe_tenant :: pystr
  qe_created_at :: time
  qe_handled_at :: "time option"

section \<open>The bus\<close>

type_synonym 'h subscribers = "(pystr \<times> 'h) list"

definition subscribe_quality :: "pystr \<Rightarrow> 'h \<Rightarrow> 'h subscribers \<Rightarrow> 'h subscribers" where
  "subscribe_quality pattern handler subs =
     (if (pattern, handler) \<in> set subs then subs else subs @ [(pattern, handler)])"

text \<open>\<open>fnmatch.fnmatch\<close> respects case on the servers' systems.\<close>

definition matches_quality :: "pystr \<Rightarrow> pystr \<Rightarrow> pystr \<Rightarrow> bool" where
  "matches_quality source etype pattern \<longleftrightarrow>
     fnmatchcase (source @ [46] @ etype) pattern \<or> fnmatchcase source pattern"

text \<open>
  What \<open>emit\<close> meets: the clock, the id of the new row, whether the insertion fails, and the
  setting QUALITY_BUS_ENABLE. The result is the id that is returned, the handlers that are started,
  each with the arguments it gets, and the table.
\<close>

record bus_env =
  be_clock :: clock
  be_uuid :: pystr
  be_db_fails :: bool
  be_enable :: bool

type_synonym 'h dispatch = "'h \<times> pystr \<times> pystr \<times> pystr \<times> fields \<times> pystr"

definition new_quality_event :: "bus_env \<Rightarrow> pystr \<Rightarrow> pystr \<Rightarrow> fields \<Rightarrow> pystr \<Rightarrow> quality_event" where
  "new_quality_event env source etype payload tenant = \<lparr>qe_id = be_uuid env, qe_source = source, qe_type = etype,
     qe_payload = payload, qe_status = asc ''pending'', qe_tenant = tenant, qe_created_at = sqlnow (be_clock env),
     qe_handled_at = None\<rparr>"

definition emit_quality ::
  "bus_env \<Rightarrow> 'h subscribers \<Rightarrow> pystr \<Rightarrow> pystr \<Rightarrow> fields \<Rightarrow> pystr \<Rightarrow> quality_event list \<Rightarrow>
   pystr \<times> 'h dispatch list \<times> quality_event list" where
  "emit_quality env subs source etype payload tenant tbl =
     (if be_db_fails env \<or> be_uuid env \<in> qe_id ` set tbl then ([], [], tbl)
      else (be_uuid env,
        if be_enable env
        then map (\<lambda>(_, handler). (handler, be_uuid env, source, etype, payload, tenant))
               (filter (\<lambda>(pattern, _). matches_quality source etype pattern) subs)
        else [],
        tbl @ [new_quality_event env source etype payload tenant]))"

section \<open>Status\<close>

definition STATUS_ALIASES :: "(pystr \<times> pystr list) list" where
  "STATUS_ALIASES =
     [(asc ''open'', [asc ''open'', asc ''pending'', asc ''failed'']), (asc ''processing'', [asc ''processing'']),
      (asc ''resolved'', [asc ''resolved'', asc ''handled'']), (asc ''ignored'', [asc ''ignored''])]"

definition QUALITY_TRANSITIONS :: "(pystr \<times> pystr list) list" where
  "QUALITY_TRANSITIONS =
     [(asc ''open'', [asc ''open'', asc ''processing'', asc ''resolved'', asc ''ignored'']),
      (asc ''processing'', [asc ''open'', asc ''processing'', asc ''resolved'', asc ''ignored'']),
      (asc ''resolved'', [asc ''open'', asc ''resolved'']), (asc ''ignored'', [asc ''open'', asc ''ignored''])]"

text \<open>\<open>lower\<close> as far as a comparison with words of ASCII letters other than k and i can tell.\<close>

definition lower_ascii :: "pystr \<Rightarrow> pystr" where
  "lower_ascii s = map (\<lambda>c. if 65 \<le> c \<and> c \<le> 90 then c + 32 else c) s"

definition canonical_status :: "pystr \<Rightarrow> pystr" where
  "canonical_status status =
     (let v = lower_ascii (py_strip (py_or status (asc ''pending'')))
      in case find (\<lambda>(_, aliases). v \<in> set aliases) STATUS_ALIASES of
           Some (canonical, _) \<Rightarrow> canonical
         | None \<Rightarrow> asc ''open'')"

definition allowed_from :: "pystr \<Rightarrow> pystr list" where
  "allowed_from current = (case map_of QUALITY_TRANSITIONS current of Some ss \<Rightarrow> ss | None \<Rightarrow> [])"

text \<open>\<open>dict(v or {})\<close> and \<open>list(v or [])\<close> for what the service itself stores there.\<close>

definition as_fields :: "json \<Rightarrow> fields res" where
  "as_fields v = (if \<not> truthy v then Inr [] else case v of JObj kvs \<Rightarrow> Inr kvs | _ \<Rightarrow> Inl TypeError)"

definition as_items :: "json \<Rightarrow> json list res" where
  "as_items v = (if \<not> truthy v then Inr [] else case v of JList js \<Rightarrow> Inr js | _ \<Rightarrow> Inl TypeError)"

definition history_entry :: "pystr \<Rightarrow> pystr \<Rightarrow> pystr \<Rightarrow> pystr \<Rightarrow> time \<Rightarrow> json" where
  "history_entry from to operator note now =
     JObj [(asc ''from'', JStr from), (asc ''to'', JStr to), (asc ''operator'', JStr operator),
       (asc ''note'', JStr note), (asc ''at'', JStr (isoformat now))]"

definition managed ::
  "pystr \<Rightarrow> pystr \<Rightarrow> pystr \<Rightarrow> pystr \<Rightarrow> time \<Rightarrow> fields \<Rightarrow> fields res" where
  "managed current status operator note now payload =
     (case as_fields (json_get payload (asc ''management'') JNull) of
        Inl e \<Rightarrow> Inl e
      | Inr management \<Rightarrow>
          (case as_items (json_get management (asc ''history'') JNull) of
             Inl e \<Rightarrow> Inl e
           | Inr history \<Rightarrow>
               (let history = history @ (if status \<noteq> current then [history_entry current status operator note now] else []);
                    management = fold (\<lambda>(k, v). AList.update k v)
                      [(asc ''operator'', JStr operator), (asc ''note'', JStr note),
                       (asc ''updated_at'', JStr (isoformat now)), (asc ''history'', JList history)] management
                in Inr (AList.update (asc ''management'') (JObj management) payload))))"

definition update_row_status ::
  "clock \<Rightarrow> pystr \<Rightarrow> pystr \<Rightarrow> pystr \<Rightarrow> quality_event \<Rightarrow> quality_event res" where
  "update_row_status c status operator note row =
     (let current = canonical_status (qe_status row) in
      if status \<notin> set (allowed_from current)
      then Inl (ValueError (current @ (asc '' '' @ [0x4e0d, 0x80fd, 0x6d41, 0x8f6c, 0x5230] @ asc '' '') @ status))
      else case managed current status operator note (utc c 0) (qe_payload row) of
             Inl e \<Rightarrow> Inl e
           | Inr payload \<Rightarrow> Inr (row\<lparr>qe_payload := payload, qe_status := status,
               qe_handled_at := (if status \<in> {asc ''resolved'', asc ''ignored''} then Some (utc c 0) else None)\<rparr>))"

text \<open>\<open>None\<close> when the tenant has no such event; a commit that fails leaves the table as it was.\<close>

definition update_quality_status ::
  "clock \<Rightarrow> pyerr option \<Rightarrow> pystr \<Rightarrow> pystr \<Rightarrow> pystr \<Rightarrow> pystr \<Rightarrow> pystr \<Rightarrow> quality_event list \<Rightarrow>
   (quality_event option \<times> quality_event list) res" where
  "update_quality_status c commit_error event_id tenant_id status operator note tbl =
     (case find (\<lambda>r. qe_id r = event_id \<and> qe_tenant r = tenant_id) tbl of
        None \<Rightarrow> Inr (None, tbl)
      | Some row \<Rightarrow>
          (case update_row_status c status operator note row of
             Inl e \<Rightarrow> Inl e
           | Inr row' \<Rightarrow>
               (case commit_error of
                  Some e \<Rightarrow> Inl e
                | None \<Rightarrow> Inr (Some row', put_row qe_id row' tbl))))"

text \<open>The end point, whose request model admits the four states only.\<close>

definition update_quality_status_api ::
  "clock \<Rightarrow> pyerr option \<Rightarrow> pystr \<Rightarrow> pystr \<Rightarrow> pystr \<Rightarrow> pystr \<Rightarrow> pystr \<Rightarrow> quality_event list \<Rightarrow>
   (quality_event \<times> quality_event list) res" where
  "update_quality_status_api c commit_error event_id tenant_id status operator note tbl =
     (case update_quality_status c commit_error event_id tenant_id status operator note tbl of
        Inl (ValueError msg) \<Rightarrow> Inl (BizError msg 409)
      | Inl e \<Rightarrow> Inl e
      | Inr (None, _) \<Rightarrow> Inl (BizError [0x8d28, 0x91cf, 0x4e8b, 0x4ef6, 0x4e0d, 0x5b58, 0x5728] 404)
      | Inr (Some row, tbl') \<Rightarrow> Inr (row, tbl'))"

section \<open>Queries\<close>

definition get_quality_event :: "quality_event list \<Rightarrow> pystr \<Rightarrow> pystr \<Rightarrow> quality_event option" where
  "get_quality_event tbl event_id tenant_id = find (\<lambda>r. qe_id r = event_id \<and> qe_tenant r = tenant_id) tbl"

text \<open>The database's text of a JSON value that is selected by a path.\<close>

definition payload_text :: "fields \<Rightarrow> pystr \<Rightarrow> pystr option" where
  "payload_text payload k =
     map_option (\<lambda>v. case v of JStr s \<Rightarrow> s | _ \<Rightarrow> json_text v) (map_of payload k)"

record quality_filter =
  qf_event_type :: pystr
  qf_status :: pystr
  qf_source :: pystr
  qf_trace_id :: pystr
  qf_conversation_id :: pystr
  qf_start_at :: "time option"
  qf_end_at :: "time option"

definition status_in :: "pystr \<Rightarrow> pystr list" where
  "status_in status = (case map_of STATUS_ALIASES status of Some ss \<Rightarrow> ss | None \<Rightarrow> [status])"

definition quality_selected :: "quality_filter \<Rightarrow> pystr \<Rightarrow> quality_event \<Rightarrow> bool" where
  "quality_selected f tenant_id r \<longleftrightarrow>
     qe_tenant r = tenant_id \<and>
     (qf_event_type f \<noteq> [] \<longrightarrow> qe_type r = qf_event_type f) \<and>
     (qf_status f \<noteq> [] \<longrightarrow> qe_status r \<in> set (status_in (qf_status f))) \<and>
     (qf_source f \<noteq> [] \<longrightarrow> qe_source r = qf_source f) \<and>
     (qf_trace_id f \<noteq> [] \<longrightarrow> list_ex (\<lambda>k. payload_text (qe_payload r) k = Some (qf_trace_id f))
        [asc ''trace_id'', asc ''traceId'', asc ''trace'']) \<and>
     (qf_conversation_id f \<noteq> [] \<longrightarrow> list_ex (\<lambda>k. payload_text (qe_payload r) k = Some (qf_conversation_id f))
        [asc ''conversation_id'', asc ''conversationId'']) \<and>
     (\<forall>t \<in> set_option (qf_start_at f). t \<le> qe_created_at r) \<and>
     (\<forall>t \<in> set_option (qf_end_at f). qe_created_at r \<le> t)"

definition list_quality_events ::
  "quality_filter \<Rightarrow> pystr \<Rightarrow> nat \<Rightarrow> nat \<Rightarrow> quality_event list \<Rightarrow> nat \<times> quality_event list" where
  "list_quality_events f tenant_id page psize tbl =
     (let rows = filter (quality_selected f tenant_id) tbl;
          ordered = rev (sort_key (\<lambda>r. (qe_created_at r, qe_id r)) rows)
      in (length rows, page_rows ((max 1 page - 1) * psize) psize ordered))"

definition count_status :: "pystr \<Rightarrow> pystr \<Rightarrow> quality_event list \<Rightarrow> nat" where
  "count_status tenant_id canonical tbl =
     length (filter (\<lambda>r. qe_tenant r = tenant_id \<and> canonical_status (qe_status r) = canonical) tbl)"

text \<open>Groups with their sizes, the largest first; the database orders equal ones as it likes.\<close>

definition group_counts :: "(quality_event \<Rightarrow> pystr) \<Rightarrow> quality_event list \<Rightarrow> (pystr \<times> nat) list" where
  "group_counts key rows =
     rev (sort_key snd (map (\<lambda>k. (k, length (filter (\<lambda>r. key r = k) rows))) (fromkeys (map key rows))))"

record quality_figures =
  qs_counts :: "(pystr \<times> nat) list"
  qs_total :: nat
  qs_sources :: "(pystr \<times> nat) list"
  qs_types :: "(pystr \<times> nat) list"

definition quality_stats :: "pystr \<Rightarrow> quality_event list \<Rightarrow> quality_figures" where
  "quality_stats tenant_id tbl =
     (let counts = map (\<lambda>(s, _). (s, count_status tenant_id s tbl)) STATUS_ALIASES;
          rows = filter (\<lambda>r. qe_tenant r = tenant_id) tbl
      in \<lparr>qs_counts = counts, qs_total = sum_list (map snd counts),
          qs_sources = group_counts qe_source rows, qs_types = group_counts qe_type rows\<rparr>)"

section \<open>The payload that is shown\<close>

definition is_blank :: "json \<Rightarrow> bool" where
  "is_blank v \<longleftrightarrow> v = JNull \<or> v = JStr []"

text \<open>\<open>_pick\<close>: the first of several keys that has a value.\<close>

fun pick :: "fields \<Rightarrow> pystr list \<Rightarrow> json \<Rightarrow> json" where
  "pick data [] d = d"
| "pick data (k # ks) d = (if is_blank (json_get data k JNull) then pick data ks d else json_get data k JNull)"

definition source_row :: "fields \<Rightarrow> json" where
  "source_row row =
     JObj (fold (\<lambda>(k, v). AList.update k v)
       [(asc ''doc'', JStr (py_str (pick row [asc ''doc'', asc ''docName'', asc ''doc_name'', asc ''title''] (JStr [])))),
        (asc ''chunk'', JStr (py_str (pick row [asc ''chunk'', asc ''chunkText'', asc ''chunk_text'', asc ''content''] (JStr [])))),
        (asc ''score'', pick row [asc ''score'', asc ''rerankScore'', asc ''rerank_score''] JNull)] row)"

fun source_rows :: "json list \<Rightarrow> json list" where
  "source_rows [] = []"
| "source_rows (JStr s # js) =
     JObj [(asc ''doc'', JStr s), (asc ''chunk'', JStr []), (asc ''score'', JNull)] # source_rows js"
| "source_rows (JObj row # js) = source_row row # source_rows js"
| "source_rows (_ # js) = source_rows js"

definition split_items :: "pystr \<Rightarrow> json list" where
  "split_items s = map JStr (filter (\<lambda>p. p \<noteq> []) (map py_strip (py_split 44 s)))"

definition normalize_sources :: "json \<Rightarrow> json list" where
  "normalize_sources value =
     (if \<not> truthy value then []
      else let v = (case value of JStr s \<Rightarrow> (case json_loads s of Some j \<Rightarrow> j | None \<Rightarrow> JList (split_items s)) | _ \<Rightarrow> value)
           in source_rows (case v of JList js \<Rightarrow> js | _ \<Rightarrow> [v]))"

definition user_fields :: "fields \<Rightarrow> fields" where
  "user_fields raw = (case json_get raw (asc ''user'') JNull of JObj kvs \<Rightarrow> kvs | _ \<Rightarrow> [])"

definition shown_user :: "fields \<Rightarrow> json" where
  "shown_user raw =
     (let user = user_fields raw
      in JObj (fold (\<lambda>(k, v). AList.update k v)
           [(asc ''id'', JStr (py_str (pick user [asc ''id'', asc ''userId'', asc ''user_id'']
               (pick raw [asc ''userId'', asc ''user_id''] (JStr []))))),
            (asc ''username'', JStr (py_str (pick user [asc ''username'', asc ''name'']
               (pick raw [asc ''username'', asc ''userName''] (JStr [])))))] user))"

definition str_pick :: "fields \<Rightarrow> pystr list \<Rightarrow> json \<Rightarrow> json" where
  "str_pick raw ks d = JStr (py_str (pick raw ks d))"

definition normalize_quality_payload :: "fields \<Rightarrow> pystr \<Rightarrow> fields" where
  "normalize_quality_payload raw tenant =
     fold (\<lambda>(k, v). AList.update k v)
       [(asc ''trace_id'', str_pick raw [asc ''trace_id'', asc ''traceId'', asc ''trace''] (JStr [])),
        (asc ''conversation_id'', str_pick raw [asc ''conversation_id'', asc ''conversationId''] (JStr [])),
        (asc ''query'', str_pick raw [asc ''query'', asc ''q'', asc ''question''] (JStr [])),
        (asc ''answer'', str_pick raw [asc ''answer'', asc ''response''] (JStr [])),
        (asc ''reason'', str_pick raw [asc ''reason'', asc ''feedbackReason'', asc ''feedback_reason''] (JStr [])),
        (asc ''sources'', JList (normalize_sources (pick raw [asc ''sources'', asc ''retrievalSources'', asc ''retrieval_sources''] (JList [])))),
        (asc ''tenant'', str_pick raw [asc ''tenant'', asc ''tenantId'', asc ''tenant_id''] (JStr tenant)),
        (asc ''user'', shown_user raw)] raw"

definition build_dislike_payload :: "fields \<Rightarrow> fields" where
  "build_dislike_payload values =
     normalize_quality_payload values
       (let t = json_get values (asc ''tenant'') JNull in py_str (if truthy t then t else JStr (asc ''default'')))"

end
