(* ===== verification/QualityClaims.thy ===== *)
theory QualityClaims
  imports QualityEvents Growth
begin

text \<open>
  What quality events guarantee: the history of an event's status is a chain of admitted steps that
  only grows, a stored event reaches exactly its subscribers, and the payload that is shown is a
  normal form.
\<close>

lemma json_get_update: "json_get (AList.update k v al) k' d = (if k' = k then v else json_get al k' d)"
  by (simp add: json_get_def update_conv)

lemma json_get_map_of: "json_get al k d = (case map_of al k of Some v \<Rightarrow> v | None \<Rightarrow> d)"
  by (simp add: json_get_def)

section \<open>The history of an event\<close>

definition history_of :: "quality_event \<Rightarrow> json list" where
  "history_of e =
     (case json_get (qe_payload e) (asc ''management'') JNull of
        JObj m \<Rightarrow> (case json_get m (asc ''history'') JNull of JList hs \<Rightarrow> hs | _ \<Rightarrow> [])
      | _ \<Rightarrow> [])"

text \<open>Entries that lead from one state to another by admitted changes.\<close>

fun history_chain :: "pystr \<Rightarrow> json list \<Rightarrow> pystr \<Rightarrow> bool" where
  "history_chain a [] b = (a = b)"
| "history_chain a (h # hs) b =
     (\<exists>c operator note t. h = history_entry a c operator note t \<and> c \<noteq> a \<and> c \<in> set (allowed_from a) \<and> history_chain c hs b)"

lemma history_chain_append:
  "history_chain a hs b \<Longrightarrow> history_chain b hs' c \<Longrightarrow> history_chain a (hs @ hs') c"
  by (induction a hs b rule: history_chain.induct) auto

definition later_event :: "quality_event \<Rightarrow> quality_event \<Rightarrow> bool" where
  "later_event e e' \<longleftrightarrow>
     (qe_id e', qe_source e', qe_type e', qe_tenant e', qe_created_at e') = (qe_id e, qe_source e, qe_type e, qe_tenant e, qe_created_at e) \<and>
     (\<forall>k. k \<noteq> asc ''management'' \<longrightarrow> map_of (qe_payload e') k = map_of (qe_payload e) k) \<and>
     (\<exists>hs. history_of e' = history_of e @ hs \<and> history_chain (canonical_status (qe_status e)) hs (canonical_status (qe_status e')))"

lemma later_event_refl: "later_event e e"
  unfolding later_event_def by (auto intro!: exI[of _ "[]"])

lemma later_event_trans: "later_event e e' \<Longrightarrow> later_event e' e'' \<Longrightarrow> later_event e e''"
  unfolding later_event_def by (auto intro: history_chain_append)

lemma canonical_of_alias: "s \<in> {asc ''open'', asc ''processing'', asc ''resolved'', asc ''ignored''} \<Longrightarrow> canonical_status s = s"
  by (auto simp: canonical_status_def STATUS_ALIASES_def lower_ascii_def py_strip_def py_isspace_def asc_def py_or_def)

lemma allowed_from_canonical: "s \<in> set (allowed_from c) \<Longrightarrow> s \<in> {asc ''open'', asc ''processing'', asc ''resolved'', asc ''ignored''}"
  by (auto simp: allowed_from_def QUALITY_TRANSITIONS_def split: if_splits option.splits)

lemma managed_history:
  assumes "managed current status operator note now payload = Inr payload'" and "e' = e\<lparr>qe_payload := payload', qe_status := s, qe_handled_at := h\<rparr>"
    and "qe_payload e = payload"
  shows "history_of e' = history_of e @ (if status \<noteq> current then [history_entry current status operator note now] else [])"
    and "k \<noteq> asc ''management'' \<Longrightarrow> map_of payload' k = map_of payload k"
proof -
  obtain m hs where m: "as_fields (json_get payload (asc ''management'') JNull) = Inr m"
      "as_items (json_get m (asc ''history'') JNull) = Inr hs"
    using assms(1) by (auto simp: managed_def split: sum.splits)
  have hs: "history_of e = hs"
    using m assms(3) by (cases "json_get payload (asc ''management'') JNull"; cases "json_get m (asc ''history'') JNull")
      (auto simp: history_of_def as_fields_def as_items_def json_get_def split: if_splits)
  have p: "payload' = AList.update (asc ''management'') (JObj (fold (\<lambda>(k, v). AList.update k v)
      [(asc ''operator'', JStr operator), (asc ''note'', JStr note), (asc ''updated_at'', JStr (isoformat now)),
       (asc ''history'', JList (hs @ (if status \<noteq> current then [history_entry current status operator note now] else [])))] m)) payload"
    using assms(1) m by (simp add: managed_def Let_def)
  show "history_of e' = history_of e @ (if status \<noteq> current then [history_entry current status operator note now] else [])"
    unfolding hs using assms(2) p by (simp add: history_of_def json_get_update)
  show "k \<noteq> asc ''management'' \<Longrightarrow> map_of payload' k = map_of payload k"
    unfolding p by (simp add: update_conv)
qed

lemma update_row_later:
  assumes "update_row_status c status operator note row = Inr row'"
  shows "later_event row row'" and "qe_id row' = qe_id row"
    and "qe_handled_at row' \<noteq> None \<longleftrightarrow> canonical_status (qe_status row') \<in> {asc ''resolved'', asc ''ignored''}"
proof -
  let ?current = "canonical_status (qe_status row)"
  from assms obtain payload where s: "status \<in> set (allowed_from ?current)"
      and p: "managed ?current status operator note (utc c 0) (qe_payload row) = Inr payload"
      and r: "row' = row\<lparr>qe_payload := payload, qe_status := status,
        qe_handled_at := (if status \<in> {asc ''resolved'', asc ''ignored''} then Some (utc c 0) else None)\<rparr>"
    by (auto simp: update_row_status_def Let_def split: if_splits sum.splits)
  have can: "canonical_status status = status" using s allowed_from_canonical canonical_of_alias by blast
  note h = managed_history[OF p r refl]
  have "history_chain ?current (if status \<noteq> ?current then [history_entry ?current status operator note (utc c 0)] else []) status"
    using s by auto
  with h r can show "later_event row row'" by (auto simp: later_event_def)
  show "qe_id row' = qe_id row" using r by simp
  show "qe_handled_at row' \<noteq> None \<longleftrightarrow> canonical_status (qe_status row') \<in> {asc ''resolved'', asc ''ignored''}"
    using r can by simp
qed

datatype quality_op =
    EmitQ bus_env pystr pystr fields pystr
  | UpdateQ clock "pyerr option" pystr pystr pystr pystr pystr

fun quality_step :: "quality_op \<Rightarrow> quality_event list \<Rightarrow> quality_event list" where
  "quality_step (EmitQ env source etype payload tenant) tbl =
     snd (snd (emit_quality env ([] :: (pystr \<times> nat) list) source etype payload tenant tbl))"
| "quality_step (UpdateQ c err i tn status operator note) tbl =
     (case update_quality_status c err i tn status operator note tbl of Inl _ \<Rightarrow> tbl | Inr (_, tbl') \<Rightarrow> tbl')"

definition wf_quality :: "quality_event list \<Rightarrow> bool" where
  "wf_quality tbl \<longleftrightarrow> distinct (map qe_id tbl) \<and>
     (\<forall>e \<in> set tbl. qe_handled_at e \<noteq> None \<longleftrightarrow> canonical_status (qe_status e) \<in> {asc ''resolved'', asc ''ignored''})"

lemma canonical_pending: "canonical_status (asc ''pending'') = asc ''open''"
  by (simp add: canonical_status_def STATUS_ALIASES_def lower_ascii_def py_strip_def py_isspace_def asc_def py_or_def)

lemma find_get_row:
  "distinct (map key tbl) \<Longrightarrow> find (\<lambda>r. key r = k \<and> P r) tbl = Some r \<Longrightarrow> get_row key k tbl = Some r \<and> key r = k \<and> r \<in> set tbl"
proof (induction tbl)
  case (Cons x xs)
  then show ?case by (auto simp: get_row_def find_Some_iff split: if_splits dest: nth_mem)
qed simp

lemma quality_step_ok:
  assumes "wf_quality tbl"
  shows "wf_quality (quality_step op tbl) \<and> grows later_event tbl (quality_step op tbl)"
proof (cases op)
  case (EmitQ env source etype payload tenant)
  with assms show ?thesis
    by (auto simp: emit_quality_def wf_quality_def new_quality_event_def canonical_pending
        intro: grows_refl grows_append later_event_refl)
next
  case (UpdateQ c err i tn status operator nt)
  show ?thesis
  proof (cases "\<exists>row row'. find (\<lambda>r. qe_id r = i \<and> qe_tenant r = tn) tbl = Some row \<and>
      update_row_status c status operator nt row = Inr row' \<and> err = None")
    case True
    then obtain row row' where f: "find (\<lambda>r. qe_id r = i \<and> qe_tenant r = tn) tbl = Some row"
        and u: "update_row_status c status operator nt row = Inr row'" and e: "err = None" by blast
    have st: "quality_step op tbl = put_row qe_id row' tbl"
      using UpdateQ f u e by (simp add: update_quality_status_def)
    have g: "get_row qe_id (qe_id row') tbl = Some row"
      using find_get_row[OF _ f] assms update_row_later(2)[OF u] by (simp add: wf_quality_def)
    have d: "distinct (map qe_id tbl)" using assms by (simp add: wf_quality_def)
    have "grows later_event tbl (put_row qe_id row' tbl)"
      by (rule grows_put[OF later_event_refl d g update_row_later(1)[OF u]])
    moreover have "wf_quality (put_row qe_id row' tbl)"
      using assms update_row_later(3)[OF u] by (auto simp: wf_quality_def table_simps dest!: put_row_set)
    ultimately show ?thesis by (simp add: st)
  next
    case False
    then have "quality_step op tbl = tbl"
      using UpdateQ by (auto simp: update_quality_status_def split: option.splits sum.splits)
    with assms show ?thesis by (simp add: grows_refl later_event_refl)
  qed
qed

interpretation quality: growing_table quality_step wf_quality "\<lambda>tbl. tbl" qe_id later_event
proof
  show "later_event e e" for e by (rule later_event_refl)
  show "later_event e e' \<Longrightarrow> later_event e' e'' \<Longrightarrow> later_event e e''" for e e' e'' by (rule later_event_trans)
  show "later_event e e' \<Longrightarrow> qe_id e' = qe_id e" for e e' by (simp add: later_event_def)
qed (use quality_step_ok in \<open>blast\<close>)+

text \<open>C20: Through any run of emissions and status changes, by whatever users, a stored event keeps its
  source, type, tenant and what it reported; the history of its status only grows, by entries that
  lead step by step from the state it was in to the state it is in, each an admitted change; and it
  has a handling time exactly while it is resolved or ignored.
\<close>

theorem quality_history_is_a_chain:
  assumes "wf_quality tbl" and "get_row qe_id i tbl = Some e"
  shows "\<exists>e' hs. get_row qe_id i (fold quality_step ops tbl) = Some e' \<and>
    (qe_source e', qe_type e', qe_tenant e', qe_created_at e') = (qe_source e, qe_type e, qe_tenant e, qe_created_at e) \<and>
    (\<forall>k. k \<noteq> asc ''management'' \<longrightarrow> map_of (qe_payload e') k = map_of (qe_payload e) k) \<and>
    history_of e' = history_of e @ hs \<and> history_chain (canonical_status (qe_status e)) hs (canonical_status (qe_status e')) \<and>
    (qe_handled_at e' \<noteq> None \<longleftrightarrow> canonical_status (qe_status e') \<in> {asc ''resolved'', asc ''ignored''})"
proof -
  from quality.row_persists[OF assms] obtain e' where e': "get_row qe_id i (fold quality_step ops tbl) = Some e'" "later_event e e'"
    by blast
  have "wf_quality (fold quality_step ops tbl)" by (rule quality.run_inv[OF assms(1)])
  moreover have "e' \<in> set (fold quality_step ops tbl)" using e'(1) by (auto simp: get_row_def find_Some_iff)
  ultimately show ?thesis using e' unfolding wf_quality_def later_event_def by blast
qed

text \<open>An event that is taken up and resolved, and a second event in between.\<close>

definition quality_demo :: "quality_op list" where
  "quality_demo =
     [UpdateQ (at_time 5) None (asc ''e1'') (asc ''t1'') (asc ''processing'') (asc ''ann'') [],
      EmitQ \<lparr>be_clock = at_time 6, be_uuid = asc ''e2'', be_db_fails = False, be_enable = True\<rparr> (asc ''drill'') (asc ''missed'') [] (asc ''t1''),
      UpdateQ (at_time 7) None (asc ''e1'') (asc ''t1'') (asc ''resolved'') (asc ''bob'') (asc ''done'')]"

definition first_event :: quality_event where
  "first_event = new_quality_event \<lparr>be_clock = at_time 4, be_uuid = asc ''e1'', be_db_fails = False, be_enable = True\<rparr>
     (asc ''feedback'') (asc ''dislike'') [(asc ''query'', JStr (asc ''why''))] (asc ''t1'')"

theorem quality_history_is_a_chain_witness:
  "\<exists>e' hs. get_row qe_id (asc ''e1'') (fold quality_step quality_demo [first_event]) = Some e' \<and>
     map_of (qe_payload e') (asc ''query'') = Some (JStr (asc ''why'')) \<and>
     history_of e' = hs \<and> history_chain (asc ''open'') hs (canonical_status (qe_status e'))"
proof -
  have wf: "wf_quality [first_event]" by (simp add: wf_quality_def first_event_def new_quality_event_def canonical_pending)
  have g: "get_row qe_id (asc ''e1'') [first_event] = Some first_event"
    by (simp add: get_row_def first_event_def new_quality_event_def)
  have e: "map_of (qe_payload first_event) (asc ''query'') = Some (JStr (asc ''why''))" "history_of first_event = []"
      "canonical_status (qe_status first_event) = asc ''open''"
    by (simp_all add: first_event_def new_quality_event_def history_of_def json_get_def canonical_pending)
  have q: "asc ''query'' \<noteq> asc ''management''" by simp
  from quality_history_is_a_chain[OF wf g, of quality_demo] e q show ?thesis by (metis append_Nil)
qed

section \<open>Dispatch\<close>

definition subscribed :: "(pystr \<times> 'h) list \<Rightarrow> 'h subscribers" where
  "subscribed regs = fold (\<lambda>(pattern, handler). subscribe_quality pattern handler) regs []"

lemma subscribed_snoc: "subscribed (regs @ [r]) = subscribe_quality (fst r) (snd r) (subscribed regs)"
  by (simp add: subscribed_def case_prod_beta)

lemma subscribed_set: "distinct (subscribed regs) \<and> set (subscribed regs) = set regs"
proof (induction regs rule: rev_induct)
  case Nil
  show ?case by (simp add: subscribed_def)
qed (auto simp: subscribed_snoc subscribe_quality_def)

lemma count_dispatches:
  "distinct subs \<Longrightarrow>
   count_list (map snd (filter (\<lambda>(pattern, _). P pattern) subs)) h = card {pattern. (pattern, h) \<in> set subs \<and> P pattern}"
proof (induction subs)
  case (Cons x subs)
  obtain pattern h' where x: "x = (pattern, h')" by (cases x)
  have fin: "finite {p. (p, h) \<in> set subs \<and> P p}"
    by (rule finite_subset[of _ "fst ` set subs"]) force+
  show ?case
  proof (cases "h' = h \<and> P pattern")
    case True
    then have "{p. (p, h) \<in> set (x # subs) \<and> P p} = insert pattern {p. (p, h) \<in> set subs \<and> P p}" using x by auto
    moreover have "pattern \<notin> {p. (p, h) \<in> set subs \<and> P p}" using Cons.prems True x by auto
    ultimately show ?thesis using Cons True x fin by simp
  next
    case False
    then have "{p. (p, h) \<in> set (x # subs) \<and> P p} = {p. (p, h) \<in> set subs \<and> P p}" using x by auto
    with Cons False x show ?thesis by auto
  qed
qed simp

lemma dispatch_handlers:
  "map fst (map (\<lambda>(_, handler). (handler, i, source, etype, payload, tenant)) subs) = map snd subs"
  by (induction subs) auto

text \<open>However often handlers were registered, an event whose insertion succeeds is stored as
  pending, and with the bus enabled every handler is started once for each of its distinct patterns
  that match the event; with the bus disabled it is stored all the same and nobody is started. When
  the insertion fails, nothing is stored and nobody is started.
\<close>

theorem emission_reaches_the_subscribers:
  assumes "be_uuid env \<noteq> []"
  shows "let (event_id, calls, tbl') = emit_quality env (subscribed regs) source etype payload tenant tbl in
     (event_id = [] \<longrightarrow> calls = [] \<and> tbl' = tbl) \<and>
     (event_id \<noteq> [] \<longrightarrow>
        (\<exists>row. tbl' = tbl @ [row] \<and> qe_id row = event_id \<and> qe_payload row = payload \<and> qe_status row = asc ''pending'') \<and>
        count_list (map fst calls) h =
          (if be_enable env then card {pattern. (pattern, h) \<in> set regs \<and> matches_quality source etype pattern} else 0))"
proof -
  let ?calls = "map (\<lambda>(_, handler). (handler, be_uuid env, source, etype, payload, tenant))
      (filter (\<lambda>(pattern, _). matches_quality source etype pattern) (subscribed regs))"
  have "count_list (map fst ?calls) h = card {pattern. (pattern, h) \<in> set regs \<and> matches_quality source etype pattern}"
    unfolding dispatch_handlers count_dispatches[OF conjunct1[OF subscribed_set]] conjunct2[OF subscribed_set] ..
  then show ?thesis using assms by (simp add: emit_quality_def new_quality_event_def Let_def del: map_map)
qed

theorem emission_reaches_the_subscribers_witness:
  "count_list (map fst (fst (snd (emit_quality \<lparr>be_clock = at_time 4, be_uuid = asc ''e1'', be_db_fails = False, be_enable = True\<rparr>
     (subscribed [(asc ''feedback.*'', 7), (asc ''feedback.*'', 7), (asc ''drill'', (7::nat))])
     (asc ''feedback'') (asc ''dislike'') [] (asc ''t1'') [])))) 7 = 1"
proof -
  let ?env = "\<lparr>be_clock = at_time 4, be_uuid = asc ''e1'', be_db_fails = False, be_enable = True\<rparr>"
  have u: "be_uuid ?env \<noteq> []" by simp
  have "matches_quality (asc ''feedback'') (asc ''dislike'') (asc ''feedback.*'')"
      "\<not> matches_quality (asc ''feedback'') (asc ''dislike'') (asc ''drill'')"
    by code_simp+
  then have "{pattern. (pattern, 7) \<in> set [(asc ''feedback.*'', 7), (asc ''feedback.*'', 7), (asc ''drill'', (7::nat))] \<and>
      matches_quality (asc ''feedback'') (asc ''dislike'') pattern} = {asc ''feedback.*''}"
    by auto
  moreover have "fst (emit_quality ?env (subscribed [(asc ''feedback.*'', 7), (asc ''feedback.*'', 7), (asc ''drill'', (7::nat))])
      (asc ''feedback'') (asc ''dislike'') [] (asc ''t1'') []) \<noteq> []"
    by (simp add: emit_quality_def)
  ultimately show ?thesis
    using emission_reaches_the_subscribers[OF u, of "[(asc ''feedback.*'', 7), (asc ''feedback.*'', 7), (asc ''drill'', 7::nat)]"
      "asc ''feedback''" "asc ''dislike''" "[]" "asc ''t1''" "[]" 7, unfolded Let_def case_prod_beta]
    by simp
qed

section \<open>The normal form of a payload\<close>

text \<open>Values whose floats have a text, as all that were read from JSON have.\<close>

fun proper :: "json \<Rightarrow> bool" where
  "proper (JFloat s) = (s \<noteq> [])"
| "proper (JList js) = list_all proper js"
| "proper (JObj kvs) = list_all (\<lambda>(k, v). proper v) kvs"
| "proper _ = True"

lemma proper_update: "list_all (\<lambda>(k, v). proper v) kvs \<Longrightarrow> proper v \<Longrightarrow> list_all (\<lambda>(k, v). proper v) (AList.update k v kvs)"
  by (induction kvs) auto

lemma jnumber_proper: "jnumber s = Some (j, r) \<Longrightarrow> proper j"
  by (auto simp: jnumber_def Let_def split: list.splits if_splits)

lemma jvalue_proper:
  "jvalue n s = Some (j, r) \<Longrightarrow> proper j"
  "jarray n s = Some (js, r) \<Longrightarrow> list_all proper js"
  "jmembers n s acc = Some (kvs, r) \<Longrightarrow> list_all (\<lambda>(k, v). proper v) acc \<Longrightarrow> list_all (\<lambda>(k, v). proper v) kvs"
proof (induction n s and n s and n s acc arbitrary: j r and js r and kvs r rule: jvalue_jarray_jmembers.induct)
  case (2 n s)
  then show ?case
    by (auto split: list.splits if_splits simp: asc_def dest: jnumber_proper)
next
  case (4 n s)
  then show ?case by (auto split: option.splits list.splits if_splits)
next
  case (6 n s acc)
  then show ?case by (auto split: option.splits list.splits if_splits simp: proper_update)
qed simp_all

lemma json_loads_proper: "json_loads s = Some j \<Longrightarrow> proper j"
  by (auto simp: json_loads_def simp del: jvalue.simps split: option.splits prod.splits if_splits dest: jvalue_proper(1))

lemma py_str_nonempty: "proper v \<Longrightarrow> \<not> is_blank v \<Longrightarrow> py_str v \<noteq> []"
  by (cases v) (auto simp: is_blank_def py_str_def py_str_int_def)

text \<open>Choosing again among the keys, the first of which now holds the text that was chosen.\<close>

lemma pick_cong: "(\<And>k. k \<in> set ks \<Longrightarrow> json_get a k JNull = json_get b k JNull) \<Longrightarrow> pick a ks d = pick b ks d"
  by (induction ks) auto

lemma pick_again:
  assumes "json_get n k JNull = str_pick raw (k # ks) d" and "\<And>k'. k' \<in> set ks \<Longrightarrow> json_get n k' JNull = json_get raw k' JNull"
    and "proper (json_get raw k JNull)"
  shows "str_pick n (k # ks) d = str_pick raw (k # ks) d"
proof (cases "is_blank (json_get raw k JNull)")
  case True
  then have p: "pick raw (k # ks) d = pick raw ks d" by simp
  have "pick n ks d = pick raw ks d" by (rule pick_cong) (rule assms(2))
  have k: "json_get n k JNull = JStr (py_str (pick raw ks d))" using assms(1) p by (simp only: str_pick_def)
  show ?thesis
  proof (cases "py_str (pick raw ks d) = []")
    case True
    then have "pick n (k # ks) d = pick raw ks d" using k \<open>pick n ks d = _\<close> by (simp add: is_blank_def)
    then show ?thesis using p by (simp only: str_pick_def)
  next
    case False
    then have "pick n (k # ks) d = JStr (py_str (pick raw ks d))" using k by (simp add: is_blank_def)
    then show ?thesis using p by (simp only: str_pick_def) (simp add: py_str_def)
  qed
next
  case False
  then have p: "pick raw (k # ks) d = json_get raw k JNull" by simp
  from py_str_nonempty[OF assms(3) False] have nb: "\<not> is_blank (JStr (py_str (json_get raw k JNull)))"
    by (simp add: is_blank_def)
  have k: "json_get n k JNull = JStr (py_str (json_get raw k JNull))" using assms(1) p by (simp only: str_pick_def)
  then have "pick n (k # ks) d = JStr (py_str (json_get raw k JNull))" using nb by simp
  then show ?thesis using p by (simp only: str_pick_def) (simp add: py_str_def)
qed

lemma pick_again_list:
  assumes "json_get n k JNull = str_pick raw (k # ks) d" and "list_all (\<lambda>k'. json_get n k' JNull = json_get raw k' JNull) ks"
    and "proper (json_get raw k JNull)"
  shows "str_pick n (k # ks) d = str_pick raw (k # ks) d"
  by (rule pick_again[OF assms(1) _ assms(3)]) (use assms(2) in \<open>auto simp: list_all_iff\<close>)

lemma pick_again_value:
  assumes "json_get n k JNull = pick raw (k # ks) JNull" and "\<And>k'. k' \<in> set ks \<Longrightarrow> json_get n k' JNull = json_get raw k' JNull"
  shows "pick n (k # ks) JNull = pick raw (k # ks) JNull"
proof (cases "is_blank (pick raw (k # ks) JNull)")
  case True
  have nb: "is_blank (pick raw ks' JNull) \<Longrightarrow> pick raw ks' JNull = JNull" for ks'
  proof (induction ks')
    case (Cons k ks')
    then show ?case by (cases "is_blank (json_get raw k JNull)") simp_all
  qed simp
  have "is_blank (json_get raw k JNull)" using True by (auto split: if_splits)
  then have "pick raw (k # ks) JNull = pick raw ks JNull" by simp
  moreover have "pick n ks JNull = pick raw ks JNull" by (rule pick_cong) (rule assms(2))
  ultimately show ?thesis using True assms(1) by simp
next
  case False
  then show ?thesis using assms(1) by (simp only: pick.simps) simp
qed

lemma proper_json_get: "list_all (\<lambda>(k, v). proper v) kvs \<Longrightarrow> proper (json_get kvs k JNull)"
  by (auto simp: json_get_def list_all_iff split: option.split dest!: map_of_SomeD)

lemma update_again: "json_get al k JNull = v \<Longrightarrow> v \<noteq> JNull \<Longrightarrow> AList.update k v al = al"
  by (auto simp: json_get_def intro: update_triv split: option.splits)

lemma update_again_null: "map_of al k = Some v \<Longrightarrow> AList.update k v al = al"
  by (rule update_triv)

lemma source_row_again:
  assumes "list_all (\<lambda>(k, v). proper v) row" and "source_row row = JObj row'"
  shows "source_row row' = JObj row'"
proof -
  let ?doc = "[asc ''docName'', asc ''doc_name'', asc ''title'']" and ?chunk = "[asc ''chunkText'', asc ''chunk_text'', asc ''content'']"
  let ?score = "[asc ''rerankScore'', asc ''rerank_score'']"
  have r: "row' = AList.update (asc ''score'') (pick row (asc ''score'' # ?score) JNull)
      (AList.update (asc ''chunk'') (str_pick row (asc ''chunk'' # ?chunk) (JStr []))
        (AList.update (asc ''doc'') (str_pick row (asc ''doc'' # ?doc) (JStr [])) row))"
    using assms(2) by (simp add: source_row_def str_pick_def)
  have d: "str_pick row' (asc ''doc'' # ?doc) (JStr []) = str_pick row (asc ''doc'' # ?doc) (JStr [])"
    by (rule pick_again) (auto simp: r json_get_update proper_json_get[OF assms(1)])
  have c: "str_pick row' (asc ''chunk'' # ?chunk) (JStr []) = str_pick row (asc ''chunk'' # ?chunk) (JStr [])"
    by (rule pick_again) (auto simp: r json_get_update proper_json_get[OF assms(1)])
  have s: "pick row' (asc ''score'' # ?score) JNull = pick row (asc ''score'' # ?score) JNull"
    by (rule pick_again_value) (auto simp: r json_get_update)
  have m: "map_of row' (asc ''doc'') = Some (str_pick row (asc ''doc'' # ?doc) (JStr []))"
      "map_of row' (asc ''chunk'') = Some (str_pick row (asc ''chunk'' # ?chunk) (JStr []))"
      "map_of row' (asc ''score'') = Some (pick row (asc ''score'' # ?score) JNull)"
    by (simp_all add: r update_conv)
  have "source_row row' = JObj (AList.update (asc ''score'') (pick row (asc ''score'' # ?score) JNull)
      (AList.update (asc ''chunk'') (str_pick row (asc ''chunk'' # ?chunk) (JStr []))
        (AList.update (asc ''doc'') (str_pick row (asc ''doc'' # ?doc) (JStr [])) row')))"
    unfolding source_row_def str_pick_def[symmetric] d c s by simp
  with m show ?thesis by (simp add: update_triv)
qed

lemma source_row_obj: "\<exists>row'. source_row row = JObj row'"
  by (simp add: source_row_def)

lemma source_rows_again: "list_all proper js \<Longrightarrow> source_rows (source_rows js) = source_rows js"
proof (induction js rule: source_rows.induct)
  case (2 s js)
  have "source_row [(asc ''doc'', JStr s), (asc ''chunk'', JStr []), (asc ''score'', JNull)]
      = JObj [(asc ''doc'', JStr s), (asc ''chunk'', JStr []), (asc ''score'', JNull)]"
    by (simp add: source_row_def json_get_def is_blank_def py_str_def)
  with 2 show ?case by simp
next
  case (3 row js)
  obtain row' where r: "source_row row = JObj row'" using source_row_obj by blast
  from 3 source_row_again[OF _ r] show ?case by (simp add: r)
qed auto

lemma normalize_sources_again:
  assumes "proper v"
  shows "normalize_sources (JList (normalize_sources v)) = normalize_sources v"
proof (cases "truthy v")
  case False
  then show ?thesis by (simp add: normalize_sources_def)
next
  case True
  let ?v = "case v of JStr s \<Rightarrow> (case json_loads s of Some j \<Rightarrow> j | None \<Rightarrow> JList (split_items s)) | _ \<Rightarrow> v"
  let ?js = "case ?v of JList js \<Rightarrow> js | _ \<Rightarrow> [?v]"
  have "list_all proper (split_items s)" for s by (simp add: split_items_def list_all_iff)
  then have "proper ?v" using assms by (auto split: json.split option.split dest: json_loads_proper)
  then have "list_all proper ?js" by (auto split: json.split)
  then have "source_rows (source_rows ?js) = source_rows ?js" by (rule source_rows_again)
  moreover have "normalize_sources v = source_rows ?js" using True by (simp add: normalize_sources_def Let_def)
  ultimately show ?thesis by (simp add: normalize_sources_def Let_def)
qed

lemma pick_proper: "list_all (\<lambda>(k, v). proper v) kvs \<Longrightarrow> proper d \<Longrightarrow> proper (pick kvs ks d)"
  by (induction ks) (auto simp: proper_json_get)

lemma user_fields_proper: "list_all (\<lambda>(k, v). proper v) raw \<Longrightarrow> list_all (\<lambda>(k, v). proper v) (user_fields raw)"
  using proper_json_get[of raw "asc ''user''"] by (auto simp: user_fields_def split: json.split)

lemma shown_user_again:
  assumes "list_all (\<lambda>(k, v). proper v) raw" and "json_get n (asc ''user'') JNull = shown_user raw"
    and "\<And>k. k \<in> {asc ''userId'', asc ''user_id'', asc ''username'', asc ''userName''} \<Longrightarrow> json_get n k JNull = json_get raw k JNull"
  shows "shown_user n = shown_user raw"
proof -
  let ?u = "user_fields raw"
  let ?i = "pick raw [asc ''userId'', asc ''user_id''] (JStr [])" and ?m = "pick raw [asc ''username'', asc ''userName''] (JStr [])"
  let ?id = "str_pick ?u (asc ''id'' # [asc ''userId'', asc ''user_id'']) ?i"
  let ?name = "str_pick ?u (asc ''username'' # [asc ''name'']) ?m"
  have su: "shown_user raw = JObj (AList.update (asc ''username'') ?name (AList.update (asc ''id'') ?id ?u))" (is "_ = JObj ?u'")
    by (simp add: shown_user_def str_pick_def Let_def)
  have uf: "user_fields n = ?u'" using assms(2) by (simp add: user_fields_def su)
  note up = user_fields_proper[OF assms(1)]
  have d: "pick n [asc ''userId'', asc ''user_id''] (JStr []) = ?i" "pick n [asc ''username'', asc ''userName''] (JStr []) = ?m"
    by (rule pick_cong, use assms(3) in auto)+
  have a: "str_pick ?u' (asc ''id'' # [asc ''userId'', asc ''user_id'']) ?i = ?id"
    by (rule pick_again) (auto simp: json_get_update proper_json_get[OF up])
  have b: "str_pick ?u' (asc ''username'' # [asc ''name'']) ?m = ?name"
    by (rule pick_again) (auto simp: json_get_update proper_json_get[OF up])
  have m: "map_of ?u' (asc ''id'') = Some ?id" "map_of ?u' (asc ''username'') = Some ?name"
    by (simp_all add: update_conv)
  have "shown_user n = JObj (AList.update (asc ''username'') ?name (AList.update (asc ''id'') ?id ?u'))"
    unfolding shown_user_def Let_def uf d str_pick_def[symmetric] a b by simp
  then show ?thesis unfolding su by (simp only: update_triv[OF m(1)] update_triv[OF m(2)])
qed

text \<open>The payload that is shown is a normal form: what the producers have normalized is left as it
  is when it is shown, whatever old or new names its fields had and however its sources were given.
\<close>

theorem normalizing_twice:
  assumes "list_all (\<lambda>(k, v). proper v) raw"
  shows "normalize_quality_payload (normalize_quality_payload raw tenant) tenant = normalize_quality_payload raw tenant"
proof -
  define n where "n = normalize_quality_payload raw tenant"
  let ?t = "[asc ''traceId'', asc ''trace'']" and ?c = "[asc ''conversationId'']" and ?q = "[asc ''q'', asc ''question'']"
  let ?a = "[asc ''response'']" and ?r = "[asc ''feedbackReason'', asc ''feedback_reason'']" and ?tn = "[asc ''tenantId'', asc ''tenant_id'']"
  let ?S = "normalize_sources (pick raw [asc ''sources'', asc ''retrievalSources'', asc ''retrieval_sources''] (JList []))"
  have get: "json_get n k JNull =
     (if k = asc ''user'' then shown_user raw
      else if k = asc ''tenant'' then str_pick raw (asc ''tenant'' # ?tn) (JStr tenant)
      else if k = asc ''sources'' then JList ?S
      else if k = asc ''reason'' then str_pick raw (asc ''reason'' # ?r) (JStr [])
      else if k = asc ''answer'' then str_pick raw (asc ''answer'' # ?a) (JStr [])
      else if k = asc ''query'' then str_pick raw (asc ''query'' # ?q) (JStr [])
      else if k = asc ''conversation_id'' then str_pick raw (asc ''conversation_id'' # ?c) (JStr [])
      else if k = asc ''trace_id'' then str_pick raw (asc ''trace_id'' # ?t) (JStr [])
      else json_get raw k JNull)" for k
    by (simp add: n_def normalize_quality_payload_def json_get_update)
  note pr = proper_json_get[OF assms]
  note gets =
    get[of "asc ''trace_id''", simplified]
    get[of "asc ''traceId''", simplified]
    get[of "asc ''trace''", simplified]
    get[of "asc ''conversation_id''", simplified]
    get[of "asc ''conversationId''", simplified]
    get[of "asc ''query''", simplified]
    get[of "asc ''q''", simplified]
    get[of "asc ''question''", simplified]
    get[of "asc ''answer''", simplified]
    get[of "asc ''response''", simplified]
    get[of "asc ''reason''", simplified]
    get[of "asc ''feedbackReason''", simplified]
    get[of "asc ''feedback_reason''", simplified]
    get[of "asc ''tenant''", simplified]
    get[of "asc ''tenantId''", simplified]
    get[of "asc ''tenant_id''", simplified]
  have again: "str_pick n (asc ''trace_id'' # ?t) (JStr []) = str_pick raw (asc ''trace_id'' # ?t) (JStr [])"
      "str_pick n (asc ''conversation_id'' # ?c) (JStr []) = str_pick raw (asc ''conversation_id'' # ?c) (JStr [])"
      "str_pick n (asc ''query'' # ?q) (JStr []) = str_pick raw (asc ''query'' # ?q) (JStr [])"
      "str_pick n (asc ''answer'' # ?a) (JStr []) = str_pick raw (asc ''answer'' # ?a) (JStr [])"
      "str_pick n (asc ''reason'' # ?r) (JStr []) = str_pick raw (asc ''reason'' # ?r) (JStr [])"
      "str_pick n (asc ''tenant'' # ?tn) (JStr tenant) = str_pick raw (asc ''tenant'' # ?tn) (JStr tenant)"
    by (rule pick_again_list; simp only: gets pr list.pred_inject simp_thms)+
  have "proper (pick raw [asc ''sources'', asc ''retrievalSources'', asc ''retrieval_sources''] (JList []))"
    by (rule pick_proper[OF assms]) simp
  then have sources: "normalize_sources (pick n [asc ''sources'', asc ''retrievalSources'', asc ''retrieval_sources''] (JList [])) = ?S"
    by (simp add: get is_blank_def normalize_sources_again)
  have user: "shown_user n = shown_user raw"
    by (rule shown_user_again[OF assms]) (auto simp: get)
  have m: "map_of n (asc ''trace_id'') = Some (str_pick raw (asc ''trace_id'' # ?t) (JStr []))"
      "map_of n (asc ''conversation_id'') = Some (str_pick raw (asc ''conversation_id'' # ?c) (JStr []))"
      "map_of n (asc ''query'') = Some (str_pick raw (asc ''query'' # ?q) (JStr []))"
      "map_of n (asc ''answer'') = Some (str_pick raw (asc ''answer'' # ?a) (JStr []))"
      "map_of n (asc ''reason'') = Some (str_pick raw (asc ''reason'' # ?r) (JStr []))"
      "map_of n (asc ''sources'') = Some (JList ?S)"
      "map_of n (asc ''tenant'') = Some (str_pick raw (asc ''tenant'' # ?tn) (JStr tenant))"
      "map_of n (asc ''user'') = Some (shown_user raw)"
    by (simp_all add: n_def normalize_quality_payload_def update_conv)
  have "normalize_quality_payload n tenant = n"
    unfolding normalize_quality_payload_def again sources user by (simp add: update_triv m)
  then show ?thesis by (simp add: n_def)
qed

theorem normalizing_twice_witness:
  "let raw = [(asc ''traceId'', JInt 7), (asc ''retrievalSources'', JStr (asc ''a.pdf,b.pdf''))]
   in list_all (\<lambda>(k, v). proper v) raw \<and>
      normalize_quality_payload (normalize_quality_payload raw (asc ''t'')) (asc ''t'') = normalize_quality_payload raw (asc ''t'')"
proof -
  have "list_all (\<lambda>(k, v). proper v) [(asc ''traceId'', JInt 7), (asc ''retrievalSources'', JStr (asc ''a.pdf,b.pdf''))]" by simp
  from this normalizing_twice[OF this, of "asc ''t''"] show ?thesis unfolding Let_def by blast
qed

end
