(* ===== verification/PyNumber.thy ===== *)
theory PyNumber
  imports PyFloat PyRe
begin

text \<open>
  More of Python's numbers and texts: \<open>float\<close> of a decimal text with its sign, \<open>abs(a - b)\<close>, the
  \<open>repr\<close> and \<open>"g"\<close> texts of a float, \<open>lower\<close>, \<open>replace\<close>, \<open>strip\<close> with characters, \<open>re.sub\<close> and
  \<open>re.findall\<close> for patterns that match no empty text. Numbers stay below the range of floats.
\<close>

section \<open>Floats with a sign\<close>

text \<open>True for a minus sign; there are two zeros.\<close>

type_synonym sdbl = "bool \<times> dbl"

text \<open>The value of a decimal digit of any script.\<close>

definition digit_value :: "nat \<Rightarrow> nat" where
  "digit_value c = (case find (\<lambda>(a, b). a \<le> c \<and> c \<le> b) DIGIT of Some (a, _) \<Rightarrow> c - a | None \<Rightarrow> 0)"

definition digits_nat :: "pystr \<Rightarrow> nat" where
  "digits_nat s = foldl (\<lambda>v c. 10 * v + digit_value c) 0 s"

text \<open>\<open>float(s)\<close> of a text of the form \<open>-?\d+(\.\d+)?\<close>.\<close>

definition py_float :: "pystr \<Rightarrow> sdbl" where
  "py_float s =
     (let neg = (case s of c # _ \<Rightarrow> c = 45 | [] \<Rightarrow> False);
          t = (if neg then tl s else s);
          whole = takeWhile (\<lambda>c. c \<noteq> 46) t;
          fraction = drop (Suc (length whole)) t
      in (neg, fdiv (digits_nat (whole @ fraction)) (10 ^ length fraction)))"

definition fabs_diff :: "sdbl \<Rightarrow> sdbl \<Rightarrow> dbl" where
  "fabs_diff a b =
     (let (s1, k1) = snd a; (s2, k2) = snd b
      in if fst a \<noteq> fst b then fadd (snd a) (snd b)
         else let x = s1 * 2 ^ k2; y = s2 * 2 ^ k1
           in fdiv (if x \<le> y then y - x else x - y) (2 ^ (k1 + k2)))"

section \<open>Decimal texts of a float\<close>

text \<open>The decimal exponent of \<open>p / q\<close>, which is not 0: \<open>10 ^ e \<le> p / q < 10 ^ (e + 1)\<close>.\<close>

definition dec_exp :: "nat \<Rightarrow> nat \<Rightarrow> int" where
  "dec_exp p q =
     (if q \<le> p then int (length (dec_nat (p div q))) - 1
      else - int (hd (filter (\<lambda>j. q \<le> p * 10 ^ j) [0..<Suc (length (dec_nat q))])))"

text \<open>The \<open>n\<close> leading digits of a float as a number, rounded, with their exponent.\<close>

definition sig_digits :: "nat \<Rightarrow> dbl \<Rightarrow> nat \<times> int" where
  "sig_digits n x =
     (let p = fst x; q = 2 ^ snd x; e = dec_exp p q; sh = int n - 1 - e;
          m = (if 0 \<le> sh then div_half_even (p * 10 ^ nat sh) q else div_half_even p (q * 10 ^ nat (- sh)))
      in if m = 10 ^ n then (10 ^ (n - 1), e + 1) else (m, e))"

definition same_float :: "dbl \<Rightarrow> dbl \<Rightarrow> bool" where
  "same_float a b \<longleftrightarrow> fst a * 2 ^ snd b = fst b * 2 ^ snd a"

definition sig_value :: "nat \<Rightarrow> nat \<times> int \<Rightarrow> dbl" where
  "sig_value n me =
     (let sh = snd me - int n + 1
      in if 0 \<le> sh then fdiv (fst me * 10 ^ nat sh) 1 else fdiv (fst me) (10 ^ nat (- sh)))"

definition strip_zeros :: "pystr \<Rightarrow> pystr" where
  "strip_zeros s = py_rstrip [48] s"

text \<open>Digits with the point after the place of \<open>10 ^ 0\<close>; and in scientific notation.\<close>

definition point_text :: "pystr \<Rightarrow> int \<Rightarrow> pystr \<times> pystr" where
  "point_text ds e =
     (if 0 \<le> e then (take (Suc (nat e)) (ds @ replicate (Suc (nat e) - length ds) 48), drop (Suc (nat e)) ds)
      else ([48], replicate (nat (- e) - 1) 48 @ ds))"

definition exponent_text :: "int \<Rightarrow> pystr" where
  "exponent_text e =
     [101, if e < 0 then 45 else 43] @ (let t = dec_nat (nat \<bar>e\<bar>) in replicate (2 - length t) 48 @ t)"

definition scientific :: "pystr \<Rightarrow> int \<Rightarrow> pystr" where
  "scientific ds e = take 1 ds @ (if length ds \<le> 1 then [] else [46] @ drop 1 ds) @ exponent_text e"

definition sign_text :: "bool \<Rightarrow> pystr" where
  "sign_text neg = (if neg then [45] else [])"

text \<open>\<open>f"{x:g}"\<close>.\<close>

definition g_text :: "sdbl \<Rightarrow> pystr" where
  "g_text x =
     sign_text (fst x) @
     (if fst (snd x) = 0 then [48]
      else let (m, e) = sig_digits 6 (snd x); ds = strip_zeros (dec_nat m)
           in if -4 \<le> e \<and> e < 6 then (let (w, f) = point_text ds e in w @ (if f = [] then [] else [46] @ f))
              else scientific ds e)"

text \<open>\<open>repr(x)\<close>: the shortest digits that read back as \<open>x\<close>.\<close>

definition repr_digits :: "dbl \<Rightarrow> nat \<times> int" where
  "repr_digits x =
     (case find (\<lambda>n. same_float (sig_value n (sig_digits n x)) x) [1..<17] of
        Some n \<Rightarrow> sig_digits n x
      | None \<Rightarrow> sig_digits 17 x)"

definition repr_float :: "sdbl \<Rightarrow> pystr" where
  "repr_float x =
     sign_text (fst x) @
     (if fst (snd x) = 0 then [48, 46, 48]
      else let (m, e) = repr_digits (snd x); ds = strip_zeros (dec_nat m)
           in if -4 \<le> e \<and> e < 16 then (let (w, f) = point_text ds e in w @ [46] @ (if f = [] then [48] else f))
              else scientific ds e)"

section \<open>Texts\<close>

text \<open>
  \<open>lower\<close>: Latin, Greek and Cyrillic capitals, full-width letters, Roman numerals and circled
  letters, and the signs whose lower case is a letter; the capitals of other scripts are left.
\<close>

definition char_lower :: "nat \<Rightarrow> pystr" where
  "char_lower c =
     (if 65 \<le> c \<and> c \<le> 90 \<or> 0xC0 \<le> c \<and> c \<le> 0xDE \<and> c \<noteq> 0xD7 \<or> 0x391 \<le> c \<and> c \<le> 0x3A9 \<and> c \<noteq> 0x3A2
         \<or> 0x410 \<le> c \<and> c \<le> 0x42F \<or> 0xFF21 \<le> c \<and> c \<le> 0xFF3A then [c + 32]
      else if 0x400 \<le> c \<and> c \<le> 0x40F then [c + 80]
      else if 0x2160 \<le> c \<and> c \<le> 0x216F then [c + 16]
      else if 0x24B6 \<le> c \<and> c \<le> 0x24CF then [c + 26]
      else if c = 0x130 then [105, 0x307] else if c = 0x212A then [107] else if c = 0x212B then [0xE5]
      else if c = 0x2126 then [0x3C9] else [c])"

definition py_lower :: "pystr \<Rightarrow> pystr" where
  "py_lower s = concat (map char_lower s)"

text \<open>\<open>s.replace(old, new)\<close> for a text \<open>old\<close> that is not empty.\<close>

function py_replace :: "pystr \<Rightarrow> pystr \<Rightarrow> pystr \<Rightarrow> pystr" where
  "py_replace old new [] = []"
| "py_replace old new (c # cs) =
     (if old \<noteq> [] \<and> starts old (c # cs) then new @ py_replace old new (drop (length old) (c # cs))
      else c # py_replace old new cs)"
  by pat_completeness auto
termination
  by (relation "measure (\<lambda>(old, new, s). length s)") (auto simp: neq_Nil_conv)

definition py_strip_chars :: "nat list \<Rightarrow> pystr \<Rightarrow> pystr" where
  "py_strip_chars chars s = py_rstrip chars (dropWhile (\<lambda>c. c \<in> set chars) s)"

text \<open>\<open>re.sub(r, new, s)\<close>.\<close>

function re_sub :: "re \<Rightarrow> pystr \<Rightarrow> pystr \<Rightarrow> pystr" where
  "re_sub r new [] = []"
| "re_sub r new (c # cs) =
     (case re_match r (c # cs) of
        rest # _ \<Rightarrow> if length rest \<le> length cs then new @ re_sub r new rest else c # re_sub r new cs
      | [] \<Rightarrow> c # re_sub r new cs)"
  by pat_completeness auto
termination
  by (relation "measure (\<lambda>(r, new, s). length s)") auto

text \<open>The pieces of a text between characters of a set, as \<open>re.split(r"[...]", s)\<close> gives them.\<close>

fun split_any :: "nat list \<Rightarrow> pystr \<Rightarrow> pystr list" where
  "split_any seps [] = [[]]"
| "split_any seps (c # cs) =
     (if c \<in> set seps then [] # split_any seps cs
      else (case split_any seps cs of [] \<Rightarrow> [[c]] | p # ps \<Rightarrow> (c # p) # ps))"

text \<open>The maximal runs of characters of one kind.\<close>

fun runs_of :: "(nat \<Rightarrow> bool) \<Rightarrow> pystr \<Rightarrow> pystr list" where
  "runs_of P [] = []"
| "runs_of P (c # cs) =
     (case runs_of P cs of
        (d # ds) # rs \<Rightarrow> if P c = P d then (c # d # ds) # rs else [c] # (d # ds) # rs
      | rs \<Rightarrow> [c] # rs)"

text \<open>\<open>f"{isoformat}Z"\<close> with whole seconds.\<close>

definition iso_seconds :: "time \<Rightarrow> pystr" where
  "iso_seconds t = isoformat (t - t mod 1000000) @ [90]"

end
