(* ===== verification/GovRules.thy ===== *)
theory GovRules
  imports PyNumber PyText
begin

text \<open>
  The rules of the knowledge governance (services/knowledge_governance_service.py) that work on
  snapshots of documents: which metadata are missing, what state a document is in, which findings
  its dates give, and which pairs of documents may contradict each other.
\<close>

section \<open>Snapshots\<close>

text \<open>The metadata of a document; an unset label or status is the empty text.\<close>

record doc_metadata =
  dm_doc_id :: pystr
  dm_tenant_id :: pystr
  dm_owner :: pystr
  dm_applicable_region :: pystr
  dm_effective_at :: "time option"
  dm_expires_at :: "time option"
  dm_is_permanent :: bool
  dm_review_interval_days :: "nat option"
  dm_next_review_at :: "time option"
  dm_version_label :: pystr
  dm_version_status :: pystr
  dm_created_by :: pystr
  dm_updated_by :: pystr
  dm_created_at :: time
  dm_updated_at :: time

record chunk_snapshot =
  cs_chunk_id :: pystr
  cs_content :: pystr
  cs_section :: pystr

record doc_snapshot =
  sp_doc_id :: pystr
  sp_doc_name :: pystr
  sp_doc_type :: pystr
  sp_equipment_tags :: pystr
  sp_chunks :: "chunk_snapshot list"
  sp_metadata :: "doc_metadata option"

record issue_finding =
  if_issue_type :: pystr
  if_severity :: pystr
  if_doc_id :: pystr
  if_title :: pystr
  if_summary :: pystr
  if_evidence :: json
  if_related_doc_id :: "pystr option"

definition VERSION_STATUSES :: "pystr list" where
  "VERSION_STATUSES = map asc [''draft'', ''active'', ''superseded'', ''withdrawn'']"

text \<open>What is hashed for the fingerprint of a finding: its type and its documents, sorted.\<close>

definition fingerprint_text :: "issue_finding \<Rightarrow> pystr" where
  "fingerprint_text f =
     (let ids = filter (\<lambda>d. d \<noteq> []) (if_doc_id f # (case if_related_doc_id f of None \<Rightarrow> [] | Some d \<Rightarrow> [d]))
      in py_join [124] (asc ''kg-v1'' # if_issue_type f # sort ids))"

section \<open>Life cycle\<close>

definition blank :: "pystr \<Rightarrow> bool" where
  "blank s \<longleftrightarrow> py_strip s = []"

definition missing_metadata_fields :: "doc_metadata option \<Rightarrow> pystr list" where
  "missing_metadata_fields meta =
     (case meta of
        None \<Rightarrow> map asc [''owner'', ''applicableRegion'', ''effectiveAt'', ''expiryPolicy'', ''reviewPolicy'', ''versionLabel'', ''versionStatus'']
      | Some m \<Rightarrow>
          (if blank (dm_owner m) then [asc ''owner''] else []) @
          (if blank (dm_applicable_region m) then [asc ''applicableRegion''] else []) @
          (if dm_effective_at m = None then [asc ''effectiveAt''] else []) @
          (if \<not> dm_is_permanent m \<and> dm_expires_at m = None then [asc ''expiryPolicy''] else []) @
          (if dm_review_interval_days m \<in> {None, Some 0} \<and> dm_next_review_at m = None then [asc ''reviewPolicy''] else []) @
          (if blank (dm_version_label m) then [asc ''versionLabel''] else []) @
          (if dm_version_status m \<notin> set VERSION_STATUSES then [asc ''versionStatus''] else []))"

definition effective_state :: "doc_metadata option \<Rightarrow> time \<Rightarrow> pystr" where
  "effective_state meta now =
     (case meta of
        None \<Rightarrow> asc ''metadata_incomplete''
      | Some m \<Rightarrow>
          if dm_version_status m \<in> {asc ''draft'', asc ''superseded'', asc ''withdrawn''} then dm_version_status m
          else (case dm_effective_at m of
              None \<Rightarrow> asc ''metadata_incomplete''
            | Some eff \<Rightarrow>
                if now < eff then asc ''not_yet_effective''
                else if \<not> dm_is_permanent m \<and> (\<exists>t \<in> set_option (dm_expires_at m). t < now) then asc ''expired''
                else asc ''active''))"

definition is_retrievable :: "doc_metadata option \<Rightarrow> time \<Rightarrow> bool" where
  "is_retrievable meta now \<longleftrightarrow>
     effective_state meta now \<notin> {asc ''superseded'', asc ''withdrawn'', asc ''not_yet_effective'', asc ''expired''}"

text \<open>\<open>(a - b).days\<close>, which rounds down.\<close>

definition days_between :: "time \<Rightarrow> time \<Rightarrow> int" where
  "days_between a b = (a - b) div seconds 86400"

definition lifecycle_finding :: "doc_snapshot \<Rightarrow> string \<Rightarrow> string \<Rightarrow> pystr \<Rightarrow> pystr \<Rightarrow> (pystr \<times> json) list \<Rightarrow> issue_finding" where
  "lifecycle_finding doc issue_type severity title summary evidence =
     \<lparr>if_issue_type = asc issue_type, if_severity = asc severity, if_doc_id = sp_doc_id doc, if_title = title @ sp_doc_name doc,
      if_summary = summary, if_evidence = JObj ((asc ''docName'', JStr (sp_doc_name doc)) # evidence), if_related_doc_id = None\<rparr>"

definition metadata_finding :: "doc_snapshot \<Rightarrow> issue_finding list" where
  "metadata_finding doc =
     (let missing = missing_metadata_fields (sp_metadata doc)
      in if missing = [] then []
         else [lifecycle_finding doc ''metadata_missing'' ''warning'' [0x6587, 0x6863, 0x6cbb, 0x7406, 0x5143, 0x6570, 0x636e, 0x4e0d, 0x5b8c, 0x6574, 0xff1a]
           (([0x7f3a, 0x5c11] @ asc '' '') @ dec_nat (length missing) @ (asc '' '' @ [0x9879, 0x6cbb, 0x7406, 0x5143, 0x6570, 0x636e, 0xff0c, 0x9700, 0x8d23, 0x4efb, 0x4eba, 0x8865, 0x5f55, 0x540e, 0x590d, 0x6838, 0x3002]))
           [(asc ''missingFields'', JList (map JStr missing)),
            (asc ''explanation'', JStr [0x7f3a, 0x5931, 0x5b57, 0x6bb5, 0x4f1a, 0x5f71, 0x54cd, 0x751f, 0x6548, 0x5224, 0x65ad, 0x3001, 0x5230, 0x671f, 0x63d0, 0x9192, 0x548c, 0x8d23, 0x4efb, 0x8ffd, 0x8e2a, 0x3002])]])"

definition effective_finding :: "time \<Rightarrow> doc_snapshot \<Rightarrow> doc_metadata \<Rightarrow> issue_finding list" where
  "effective_finding now doc m =
     (case dm_effective_at m of
        None \<Rightarrow> []
      | Some eff \<Rightarrow>
          if now < eff
          then [lifecycle_finding doc ''not_yet_effective'' ''info'' [0x6587, 0x6863, 0x5c1a, 0x672a, 0x751f, 0x6548, 0xff1a] (([0x8ba1, 0x5212, 0x4e8e] @ asc '' '') @ iso_seconds eff @ (asc '' '' @ [0x751f, 0x6548, 0x3002]))
            [(asc ''effectiveAt'', JStr (iso_seconds eff)), (asc ''scanTime'', JStr (iso_seconds now)),
             (asc ''explanation'', JStr [0x751f, 0x6548, 0x65f6, 0x95f4, 0x665a, 0x4e8e, 0x672c, 0x6b21, 0x626b, 0x63cf, 0x65f6, 0x95f4, 0x3002])]]
          else [])"

definition expiry_finding :: "time \<Rightarrow> int \<Rightarrow> doc_snapshot \<Rightarrow> doc_metadata \<Rightarrow> issue_finding list" where
  "expiry_finding now warning_days doc m =
     (case dm_expires_at m of
        None \<Rightarrow> []
      | Some ex \<Rightarrow>
          if dm_is_permanent m then []
          else if ex < now
          then [lifecycle_finding doc ''expired'' ''critical'' [0x6587, 0x6863, 0x5df2, 0x5931, 0x6548, 0xff1a] (([0x6587, 0x6863, 0x5df2, 0x4e8e] @ asc '' '') @ iso_seconds ex @ (asc '' '' @ [0x5931, 0x6548, 0xff0c, 0x5f15, 0x7528, 0x524d, 0x5fc5, 0x987b, 0x4eba, 0x5de5, 0x786e, 0x8ba4, 0x3002]))
            [(asc ''expiresAt'', JStr (iso_seconds ex)), (asc ''scanTime'', JStr (iso_seconds now)),
             (asc ''overdueDays'', JInt (max 0 (days_between now ex))), (asc ''explanation'', JStr [0x5931, 0x6548, 0x65f6, 0x95f4, 0x65e9, 0x4e8e, 0x672c, 0x6b21, 0x626b, 0x63cf, 0x65f6, 0x95f4, 0x3002])]]
          else if ex \<le> now + seconds (86400 * warning_days)
          then [lifecycle_finding doc ''expiring'' ''warning'' [0x6587, 0x6863, 0x5373, 0x5c06, 0x5931, 0x6548, 0xff1a]
            (([0x6587, 0x6863, 0x5c06, 0x5728] @ asc '' '') @ py_str_int (days_between ex now + 1) @ (asc '' '' @ [0x5929, 0x5185, 0x5931, 0x6548, 0x3002]))
            [(asc ''expiresAt'', JStr (iso_seconds ex)), (asc ''scanTime'', JStr (iso_seconds now)),
             (asc ''warningDays'', JInt warning_days), (asc ''explanation'', JStr [0x5931, 0x6548, 0x65f6, 0x95f4, 0x8fdb, 0x5165, 0x9884, 0x8b66, 0x7a97, 0x53e3, 0x3002])]]
          else [])"

definition review_finding :: "time \<Rightarrow> doc_snapshot \<Rightarrow> doc_metadata \<Rightarrow> issue_finding list" where
  "review_finding now doc m =
     (case dm_next_review_at m of
        None \<Rightarrow> []
      | Some t \<Rightarrow>
          if t \<le> now
          then [lifecycle_finding doc ''review_due'' ''warning'' [0x6587, 0x6863, 0x5230, 0x671f, 0x672a, 0x590d, 0x5ba1, 0xff1a] (([0x8ba1, 0x5212, 0x590d, 0x5ba1, 0x65f6, 0x95f4, 0x4e3a] @ asc '' '') @ iso_seconds t @ [0x3002])
            [(asc ''nextReviewAt'', JStr (iso_seconds t)), (asc ''scanTime'', JStr (iso_seconds now)),
             (asc ''overdueDays'', JInt (max 0 (days_between now t))), (asc ''explanation'', JStr [0x4e0b, 0x6b21, 0x590d, 0x5ba1, 0x65f6, 0x95f4, 0x4e0d, 0x665a, 0x4e8e, 0x672c, 0x6b21, 0x626b, 0x63cf, 0x65f6, 0x95f4, 0x3002])]]
          else [])"

definition build_lifecycle_findings :: "time \<Rightarrow> int \<Rightarrow> doc_snapshot \<Rightarrow> issue_finding list" where
  "build_lifecycle_findings now warning_days doc =
     metadata_finding doc @
     (case sp_metadata doc of
        None \<Rightarrow> []
      | Some m \<Rightarrow>
          if dm_version_status m \<in> {asc ''superseded'', asc ''withdrawn''} then []
          else effective_finding now doc m @ expiry_finding now warning_days doc m @ review_finding now doc m)"

section \<open>Sentences\<close>

definition NEGATIVE_MARKERS :: "pystr list" where
  "NEGATIVE_MARKERS = [[0x4e25, 0x7981], [0x7981, 0x6b62], [0x4e0d, 0x5f97], [0x4e0d, 0x5141, 0x8bb8], [0x4e0d, 0x53ef], [0x4e0d, 0x5e94], [0x4e0d, 0x9700, 0x8981], [0x65e0, 0x9700], [0x7981, 0x6b62, 0x6027]]"

definition POSITIVE_MARKERS :: "pystr list" where
  "POSITIVE_MARKERS = [[0x5fc5, 0x987b], [0x5e94, 0x5f53], [0x9700, 0x8981], [0x5141, 0x8bb8], [0x53ef, 0x4ee5], [0x5e94], [0x9700], [0x987b]]"

definition THRESHOLD_CUES :: "pystr list" where
  "THRESHOLD_CUES = [[0x4e0d, 0x5f97, 0x8d85, 0x8fc7], [0x4e0d, 0x8d85, 0x8fc7], [0x81f3, 0x5c11], [0x4e0d, 0x4f4e, 0x4e8e], [0x4e0d, 0x9ad8, 0x4e8e], [0x9ad8, 0x4e8e], [0x4f4e, 0x4e8e], [0x8d85, 0x8fc7], [0x8fbe, 0x5230], [0x9650, 0x503c], [0x8303, 0x56f4],
     [0x5e94, 0x4e3a], [0x5fc5, 0x987b], [0x5141, 0x8bb8, 0x503c], [0x989d, 0x5b9a, 0x503c], [0x2264], [0x2265], (asc ''<''), (asc ''>'')]"

definition THRESHOLD_UNITS :: "pystr list" where
  "THRESHOLD_UNITS = [[0x2103], ([0xb0] @ asc ''c''), ([0xb0] @ asc ''C''), (asc ''kV''), (asc ''KV''), (asc ''kv''), (asc ''mA''), (asc ''MA''), (asc ''MPa''), (asc ''Mpa''), (asc ''kPa''), (asc ''KPa''), (asc ''Pa''), (asc ''Hz''), (asc ''HZ''), (asc ''%''),
     (asc ''mm''), (asc ''cm''), [0x5206, 0x949f], (asc ''min''), [0x5c0f, 0x65f6], [0x5929], (asc ''V''), (asc ''A''), (asc ''m''), (asc ''h''), (asc ''d'')]"

definition EQUIPMENT_TERMS :: "pystr list" where
  "EQUIPMENT_TERMS = [[0x4e3b, 0x53d8, 0x538b, 0x5668], [0x53d8, 0x538b, 0x5668], [0x4e3b, 0x53d8], [0x65ad, 0x8def, 0x5668], [0x9694, 0x79bb, 0x5f00, 0x5173], [0x63a5, 0x5730, 0x5f00, 0x5173], [0x5f00, 0x5173, 0x67dc], [0x6bcd, 0x7ebf],
     [0x7535, 0x7f06], [0x7ee7, 0x7535, 0x4fdd, 0x62a4], [0x4fdd, 0x62a4, 0x88c5, 0x7f6e], [0x907f, 0x96f7, 0x5668], [0x7535, 0x538b, 0x4e92, 0x611f, 0x5668], [0x7535, 0x6d41, 0x4e92, 0x611f, 0x5668], [0x4e92, 0x611f, 0x5668],
     (asc ''GIS''), [0x7535, 0x5bb9, 0x5668], [0x7535, 0x6297, 0x5668], [0x84c4, 0x7535, 0x6c60], [0x76f4, 0x6d41, 0x7cfb, 0x7edf], [0x63a5, 0x5730, 0x7ebf], [0x8f93, 0x7535, 0x7ebf, 0x8def], [0x7ebf, 0x8def],
     [0x6cb9, 0x8272, 0x8c31], (asc ''SF6''), [0x5c40, 0x90e8, 0x653e, 0x7535], [0x5c40, 0x653e]]"

definition METRIC_TERMS :: "pystr list" where
  "METRIC_TERMS = [[0x6e29, 0x5ea6], [0x6cb9, 0x6e29], [0x7ed5, 0x7ec4, 0x6e29, 0x5ea6], [0x538b, 0x529b], [0x7535, 0x6d41], [0x7535, 0x538b], [0x9891, 0x7387], [0x6e7f, 0x5ea6], [0x7edd, 0x7f18, 0x7535, 0x963b],
     [0x6cb9, 0x4f4d], [0x5c40, 0x653e], [0x5c40, 0x90e8, 0x653e, 0x7535], [0x6d53, 0x5ea6], [0x542b, 0x91cf], [0x65f6, 0x95f4], [0x8ddd, 0x79bb]]"

definition GENERIC_SECTIONS :: "pystr list" where
  "GENERIC_SECTIONS = [[0x603b, 0x5219], [0x8303, 0x56f4], [0x6982, 0x8ff0], [0x524d, 0x8a00], [0x672f, 0x8bed], [0x5b9a, 0x4e49], [0x57fa, 0x672c, 0x8981, 0x6c42], [0x4e00, 0x822c, 0x8981, 0x6c42], [0x5b89, 0x5168, 0x8981, 0x6c42],
     [0x8fd0, 0x884c, 0x8981, 0x6c42], [0x6ce8, 0x610f, 0x4e8b, 0x9879], [0x9644, 0x5f55], [0x53c2, 0x8003, 0x6587, 0x732e], [0x89c4, 0x5b9a], [0x8981, 0x6c42]]"

definition split_sentences :: "pystr \<Rightarrow> pystr list" where
  "split_sentences s =
     filter (\<lambda>t. 6 \<le> length t \<and> length t \<le> 500)
       (map (\<lambda>t. py_strip (re_sub (plus SPACE) [32] t)) (split_any (10 # 13 # ([0x3002, 0xff01, 0xff1f, 0xff1b] @ asc '';'')) s))"

definition UNIT_ALIASES :: "(pystr \<times> pystr) list" where
  "UNIT_ALIASES = [((asc ''c''), [0x2103]), ((asc ''kv''), (asc ''kV'')), ((asc ''v''), (asc ''V'')), ((asc ''ma''), (asc ''mA'')), ((asc ''a''), (asc ''A'')), ((asc ''mpa''), (asc ''MPa'')), ((asc ''kpa''), (asc ''kPa'')),
     ((asc ''pa''), (asc ''Pa'')), ((asc ''hz''), (asc ''Hz'')), ([0x5206, 0x949f], (asc ''min'')), ([0x5c0f, 0x65f6], (asc ''h'')), ([0x5929], (asc ''d''))]"

definition normalize_unit :: "pystr \<Rightarrow> pystr" where
  "normalize_unit unit =
     (case map_of UNIT_ALIASES (py_lower (filter (\<lambda>c. c \<noteq> 0xB0) unit)) of Some u \<Rightarrow> u | None \<Rightarrow> unit)"

definition polarity :: "pystr \<Rightarrow> int" where
  "polarity s =
     (if list_ex (\<lambda>m. py_in m s) NEGATIVE_MARKERS then -1
      else if list_ex (\<lambda>m. py_in m s) POSITIVE_MARKERS then 1 else 0)"

text \<open>\<open>-?\d+(?:\.\d+)?\<close>\<close>

definition NUMBER_RE :: re where
  "NUMBER_RE = Cat (Opt (chr 45)) (Cat (plus DIGIT) (Opt (Cat (chr 46) (plus DIGIT))))"

definition is_cjk :: "nat \<Rightarrow> bool" where
  "is_cjk c \<longleftrightarrow> 0x4e00 \<le> c \<and> c \<le> 0x9fff"

definition token_char :: "nat \<Rightarrow> bool" where
  "token_char c \<longleftrightarrow> 97 \<le> c \<and> c \<le> 122 \<or> 48 \<le> c \<and> c \<le> 57 \<or> c = 35 \<or> is_cjk c"

text \<open>The markers, the longest first, equally long ones as they are listed.\<close>

definition markers_by_length :: "pystr list" where
  "markers_by_length = rev (sort_key length (rev (NEGATIVE_MARKERS @ POSITIVE_MARKERS)))"

definition run_tokens :: "pystr \<Rightarrow> pystr list" where
  "run_tokens part =
     (if is_cjk (hd part)
      then map (\<lambda>i. take 2 (drop i part)) [0..<length part - 1] @ (if length part = 1 then [part] else [])
      else [part])"

text \<open>The set of tokens, as the list of its elements.\<close>

definition normal_tokens :: "pystr \<Rightarrow> pystr list" where
  "normal_tokens s =
     (let t = fold (\<lambda>m t. py_replace (py_lower m) [] t) markers_by_length (py_lower s);
          u = filter token_char (re_sub NUMBER_RE [35] t)
      in fromkeys (concat (map run_tokens (runs_of is_cjk u))))"

definition text_similarity :: "pystr \<Rightarrow> pystr \<Rightarrow> dbl" where
  "text_similarity left right =
     (let a = normal_tokens left; b = normal_tokens right
      in if a = [] \<or> b = [] then (0, 0)
         else fdiv (length (filter (\<lambda>t. t \<in> set b) a)) (min (length a) (length b)))"

definition metric_keys :: "pystr \<Rightarrow> pystr list" where
  "metric_keys s = filter (\<lambda>t. py_in (py_lower t) (py_lower s)) METRIC_TERMS"

text \<open>The ways a number with a unit can start here, in the order of the engine: value, unit, rest.\<close>

definition values_here :: "pystr \<Rightarrow> (pystr \<times> pystr \<times> pystr) list" where
  "values_here s =
     concat (map (\<lambda>r. concat (map (\<lambda>t. map (\<lambda>u. (take (length s - length r) s, u, drop (length u) t))
         (filter (\<lambda>u. starts u t) THRESHOLD_UNITS)) (re_match spaces r))) (re_match NUMBER_RE s))"

function find_values :: "pystr \<Rightarrow> (pystr \<times> pystr) list" where
  "find_values [] = []"
| "find_values (c # cs) =
     (case values_here (c # cs) of
        (v, u, rest) # _ \<Rightarrow> if length rest \<le> length cs then (v, u) # find_values rest else find_values cs
      | [] \<Rightarrow> find_values cs)"
  by pat_completeness auto
termination
  by (relation "measure length") auto

definition threshold_values :: "pystr \<Rightarrow> (sdbl \<times> pystr) list" where
  "threshold_values s =
     (if list_ex (\<lambda>c. py_in c s) THRESHOLD_CUES
      then map (\<lambda>(v, u). (py_float v, normalize_unit u)) (find_values s) else [])"

section \<open>Scopes\<close>

definition SECTION_RE :: re where
  "SECTION_RE =
     Cat (plus (DIGIT @ map (\<lambda>c. (c, c)) [0x4e00, 0x4e8c, 0x4e09, 0x56db, 0x4e94, 0x516d, 0x4e03, 0x516b, 0x4e5d, 0x5341])) (Star (SPACE @ map (\<lambda>c. (c, c)) (45 # (asc ''.'' @ [0x3001, 0xff0e] @ asc '')'' @ [0xff09]))))"

definition section_scope :: "pystr \<Rightarrow> pystr option" where
  "section_scope s =
     (let t = re_drop SECTION_RE s;
          cleaned = py_strip_chars (asc ''#'' @ [0xff1a] @ asc '':'' @ [0x3002] @ asc ''.-'') (filter (\<lambda>c. \<not> in_class SPACE c) t)
      in if cleaned = [] \<or> cleaned \<in> set GENERIC_SECTIONS \<or> \<not> (2 \<le> length cleaned \<and> length cleaned \<le> 64) then None
         else Some (asc ''section:'' @ py_lower cleaned))"

text \<open>The set of scopes of a document, as the list of its elements.\<close>

definition scope_keys :: "doc_snapshot \<Rightarrow> pystr list" where
  "scope_keys doc =
     (let tags = filter (\<lambda>t. t \<noteq> []) (map (\<lambda>t. py_lower (py_strip t)) (split_any (asc '','' @ [0xff0c] @ asc '';'' @ [0xff1b]) (sp_equipment_tags doc)));
          chunks = take 80 (sp_chunks doc);
          sections = concat (map (\<lambda>c. case section_scope (cs_section c) of None \<Rightarrow> [] | Some x \<Rightarrow> [x]) chunks);
          sample = py_lower (py_join [10] (map (\<lambda>c. take 1000 (cs_content c)) chunks));
          topics = filter (\<lambda>t. py_in (py_lower t) sample) EQUIPMENT_TERMS
      in fromkeys (map (\<lambda>t. asc ''equipment:'' @ t) tags @ sections @ map (\<lambda>t. asc ''topic:'' @ py_lower t) topics))"

record sentence_record =
  sr_chunk_id :: pystr
  sr_section :: pystr
  sr_text :: pystr
  sr_polarity :: int
  sr_thresholds :: "(sdbl \<times> pystr) list"
  sr_metrics :: "pystr list"

definition sentence_of :: "chunk_snapshot \<Rightarrow> pystr \<Rightarrow> sentence_record" where
  "sentence_of c s = \<lparr>sr_chunk_id = cs_chunk_id c, sr_section = cs_section c, sr_text = s, sr_polarity = polarity s,
     sr_thresholds = threshold_values s, sr_metrics = metric_keys s\<rparr>"

definition sentence_records :: "doc_snapshot \<Rightarrow> sentence_record list" where
  "sentence_records doc = take 300 (concat (map (\<lambda>c. map (sentence_of c) (split_sentences (cs_content c))) (sp_chunks doc)))"

definition evidence_side :: "doc_snapshot \<Rightarrow> sentence_record \<Rightarrow> (pystr \<times> json) list" where
  "evidence_side doc s =
     [(asc ''docId'', JStr (sp_doc_id doc)), (asc ''docName'', JStr (sp_doc_name doc)), (asc ''chunkId'', JStr (sr_chunk_id s)),
      (asc ''section'', JStr (sr_section s)), (asc ''excerpt'', JStr (take 300 (sr_text s))),
      (asc ''polarity'', JStr (if sr_polarity s < 0 then asc ''negative'' else if 0 < sr_polarity s then asc ''positive'' else asc ''neutral''))]"

section \<open>Conflicts\<close>

definition MAX_PAIRS :: nat where "MAX_PAIRS = 3000"

definition MAX_EVIDENCE :: nat where "MAX_EVIDENCE = 5"

definition SIMILAR :: dbl where "SIMILAR = fdec 2 68"

definition eligible :: "doc_snapshot \<Rightarrow> bool" where
  "eligible doc \<longleftrightarrow>
     (\<forall>m \<in> set_option (sp_metadata doc). dm_version_status m \<notin> {asc ''superseded'', asc ''withdrawn''}) \<and> sp_chunks doc \<noteq> []"

text \<open>
  The documents of each scope, by their place; the order in which the scopes of a document are
  visited is that of a Python set, an argument.
\<close>

definition scope_docs :: "(pystr list \<Rightarrow> pystr list) \<Rightarrow> doc_snapshot list \<Rightarrow> (pystr \<times> nat list) list" where
  "scope_docs visit docs =
     fold (\<lambda>(i, doc). fold (\<lambda>scope tbl. AList.map_default scope [i] (\<lambda>is. is @ [i]) tbl) (visit (scope_keys doc)))
       (enumerate 0 docs) []"

fun pairs_of :: "nat list \<Rightarrow> (nat \<times> nat) list" where
  "pairs_of [] = []"
| "pairs_of (i # is) = map (\<lambda>j. (i, j)) is @ pairs_of is"

type_synonym pair_scopes = "((nat \<times> nat) \<times> pystr list) list"

text \<open>The pairs that share a scope; a full table takes no pair that is new.\<close>

fun add_pairs :: "pystr \<Rightarrow> (nat \<times> nat) list \<Rightarrow> pair_scopes \<Rightarrow> pair_scopes" where
  "add_pairs scope [] tbl = tbl"
| "add_pairs scope (p # ps) tbl =
     (if MAX_PAIRS \<le> length tbl \<and> p \<notin> fst ` set tbl then tbl
      else add_pairs scope ps (AList.map_default p [scope] (\<lambda>ss. if scope \<in> set ss then ss else ss @ [scope]) tbl))"

definition pair_scopes_of :: "(pystr \<times> nat list) list \<Rightarrow> pair_scopes" where
  "pair_scopes_of sds = fold (\<lambda>(scope, is). add_pairs scope (pairs_of (sort (fromkeys is)))) sds []"

definition negation_matches :: "doc_snapshot \<Rightarrow> doc_snapshot \<Rightarrow> sentence_record list \<Rightarrow> sentence_record list \<Rightarrow> json list" where
  "negation_matches left right lrs rrs =
     take MAX_EVIDENCE (concat (map (\<lambda>a. concat (map (\<lambda>b.
       let sim = text_similarity (sr_text a) (sr_text b)
       in if sr_polarity a = sr_polarity b \<or> fless sim SIMILAR then []
          else [JObj [(asc ''left'', JObj (evidence_side left a)), (asc ''right'', JObj (evidence_side right b)),
             (asc ''similarity'', JFloat (repr_dec 3 (fround 3 sim))),
             (asc ''explanation'', JStr [0x540c, 0x4e00, 0x8bbe, 0x5907, 0x6216, 0x4e3b, 0x9898, 0x4e0b, 0xff0c, 0x4e24, 0x6761, 0x9ad8, 0x5ea6, 0x76f8, 0x4f3c, 0x7684, 0x89c4, 0x8303, 0x6027, 0x8868, 0x8ff0, 0x5177, 0x6709, 0x76f8, 0x53cd, 0x6781, 0x6027, 0x3002])]])
       (filter (\<lambda>r. sr_polarity r \<noteq> 0) rrs))) (filter (\<lambda>r. sr_polarity r \<noteq> 0) lrs)))"

definition threshold_json :: "sdbl \<Rightarrow> pystr \<Rightarrow> json" where
  "threshold_json v unit = JObj [(asc ''value'', JFloat (repr_float v)), (asc ''unit'', JStr unit)]"

definition threshold_match ::
  "doc_snapshot \<Rightarrow> doc_snapshot \<Rightarrow> sentence_record \<Rightarrow> sentence_record \<Rightarrow> dbl \<Rightarrow> pystr list \<Rightarrow> sdbl \<Rightarrow> pystr \<Rightarrow> sdbl \<Rightarrow> pystr \<Rightarrow> json" where
  "threshold_match left right a b sim shared va ua vb ub =
     JObj [(asc ''left'', JObj (evidence_side left a @ [(asc ''threshold'', threshold_json va ua)])),
       (asc ''right'', JObj (evidence_side right b @ [(asc ''threshold'', threshold_json vb ub)])),
       (asc ''similarity'', JFloat (repr_dec 3 (fround 3 sim))), (asc ''sharedMetric'', JList (map JStr (sort shared))),
       (asc ''explanation'', JStr ([0x76f8, 0x4f3c, 0x89c4, 0x5219, 0x4e2d, 0x7684, 0x6570, 0x503c, 0x9608, 0x503c, 0x4e0d, 0x540c, 0xff08] @ g_text va @ ua @ (asc '' / '') @ g_text vb @ ub @ [0xff09, 0x3002]))]"

definition threshold_matches :: "doc_snapshot \<Rightarrow> doc_snapshot \<Rightarrow> sentence_record list \<Rightarrow> sentence_record list \<Rightarrow> json list" where
  "threshold_matches left right lrs rrs =
     take MAX_EVIDENCE (concat (map (\<lambda>a. concat (map (\<lambda>b.
       let shared = filter (\<lambda>m. m \<in> set (sr_metrics b)) (sr_metrics a);
           sim = text_similarity (sr_text a) (sr_text b)
       in if sr_metrics a \<noteq> [] \<and> sr_metrics b \<noteq> [] \<and> shared = [] \<or> fless sim SIMILAR then []
          else concat (map (\<lambda>(va, ua). concat (map (\<lambda>(vb, ub).
              if ua \<noteq> ub \<or> fless (fabs_diff va vb) (fdec 9 1) then [] else [threshold_match left right a b sim shared va ua vb ub])
              (sr_thresholds b))) (sr_thresholds a)))
       (filter (\<lambda>r. sr_thresholds r \<noteq> []) rrs))) (filter (\<lambda>r. sr_thresholds r \<noteq> []) lrs)))"

definition conflict_finding ::
  "string \<Rightarrow> string \<Rightarrow> doc_snapshot \<Rightarrow> doc_snapshot \<Rightarrow> pystr list \<Rightarrow> pystr \<Rightarrow> pystr \<Rightarrow> pystr \<Rightarrow> pystr \<Rightarrow> json list \<Rightarrow> issue_finding" where
  "conflict_finding issue_type match_type left right shared title s1 s2 disclaimer matches =
     \<lparr>if_issue_type = asc issue_type, if_severity = asc ''critical'', if_doc_id = sp_doc_id left,
      if_title = title @ sp_doc_name left @ (asc '' / '') @ sp_doc_name right,
      if_summary = s1 @ dec_nat (length matches) @ s2,
      if_evidence = JObj [(asc ''sharedScope'', JList (map JStr shared)), (asc ''matchType'', JStr (asc match_type)),
        (asc ''matches'', JList matches), (asc ''disclaimer'', JStr disclaimer)],
      if_related_doc_id = Some (sp_doc_id right)\<rparr>"

definition pair_findings :: "doc_snapshot \<Rightarrow> doc_snapshot \<Rightarrow> pystr list \<Rightarrow> issue_finding list" where
  "pair_findings d1 d2 scopes =
     (let (left, right) = (if sp_doc_id d2 < sp_doc_id d1 then (d2, d1) else (d1, d2));
          lrs = sentence_records left; rrs = sentence_records right;
          shared = take 10 (sort scopes);
          neg = negation_matches left right lrs rrs;
          thr = threshold_matches left right lrs rrs
      in (if neg = [] then [] else [conflict_finding ''conflict_negation'' ''normative_polarity'' left right shared
            [0x6f5c, 0x5728, 0x76f8, 0x53cd, 0x89c4, 0x5b9a, 0xff1a] ([0x53d1, 0x73b0] @ asc '' '') (asc '' '' @ [0x7ec4, 0x80af, 0x5b9a] @ asc ''/'' @ [0x7981, 0x6b62, 0x65b9, 0x5411, 0x76f8, 0x53cd, 0x7684, 0x5019, 0x9009, 0x8868, 0x8ff0, 0xff0c, 0x9700, 0x4eba, 0x5de5, 0x5224, 0x5b9a, 0x9002, 0x7528, 0x7248, 0x672c, 0x548c, 0x8303, 0x56f4, 0x3002])
            [0x89c4, 0x5219, 0x626b, 0x63cf, 0x7ed3, 0x679c, 0x4ec5, 0x4e3a, 0x6f5c, 0x5728, 0x51b2, 0x7a81, 0xff0c, 0x4e0d, 0x4ee3, 0x8868, 0x4efb, 0x4e00, 0x6587, 0x6863, 0x9519, 0x8bef, 0x3002] neg]) @
         (if thr = [] then [] else [conflict_finding ''conflict_threshold'' ''numeric_threshold'' left right shared
            [0x6f5c, 0x5728, 0x9608, 0x503c, 0x51b2, 0x7a81, 0xff1a] ([0x53d1, 0x73b0] @ asc '' '') (asc '' '' @ [0x7ec4, 0x76f8, 0x4f3c, 0x89c4, 0x5219, 0x91c7, 0x7528, 0x4e0d, 0x540c, 0x6570, 0x503c, 0x9608, 0x503c, 0xff0c, 0x9700, 0x7ed3, 0x5408, 0x7248, 0x672c, 0x3001, 0x533a, 0x57df, 0x548c, 0x8bbe, 0x5907, 0x578b, 0x53f7, 0x5ba1, 0x6838, 0x3002])
            [0x89c4, 0x5219, 0x626b, 0x63cf, 0x7ed3, 0x679c, 0x4ec5, 0x4e3a, 0x6f5c, 0x5728, 0x51b2, 0x7a81, 0xff0c, 0x4e0d, 0x81ea, 0x52a8, 0x9009, 0x62e9, 0x6216, 0x8986, 0x76d6, 0x9608, 0x503c, 0x3002] thr]))"

definition detect_potential_conflicts :: "(pystr list \<Rightarrow> pystr list) \<Rightarrow> doc_snapshot list \<Rightarrow> issue_finding list" where
  "detect_potential_conflicts visit documents =
     (let docs = filter eligible documents
      in concat (map (\<lambda>((i, j), scopes). pair_findings (docs ! i) (docs ! j) scopes) (pair_scopes_of (scope_docs visit docs))))"

end
