(* ===== verification/Governance.thy ===== *)
theory Governance
  imports GovRules Access TaskWorker Sha256 QualityEvents
begin

text \<open>
  Knowledge governance over the database (services/knowledge_governance_service.py,
  services/doc_quality_service.py, models/knowledge_governance.py): metadata of documents, scans
  that turn findings into issues, the review of issues, and the scan as a background task.
\<close>

section \<open>Tables\<close>

record kb_document = document +
  dc_doc_type :: pystr
  dc_equipment_tags :: pystr
  dc_created_at :: time

record kb_chunk =
  kc_id :: pystr
  kc_doc_id :: pystr
  kc_chunk_idx :: int
  kc_content :: pystr
  kc_section :: pystr

record gov_issue =
  gi_id :: pystr
  gi_tenant_id :: pystr
  gi_fingerprint :: pystr
  gi_issue_type :: pystr
  gi_severity :: pystr
  gi_status :: pystr
  gi_doc_id :: pystr
  gi_related_doc_id :: "pystr option"
  gi_title :: pystr
  gi_summary :: pystr
  gi_evidence_json :: pystr
  gi_occurrence_count :: nat
  gi_detected_at :: time
  gi_last_seen_at :: time
  gi_reviewer :: pystr
  gi_review_note :: pystr
  gi_reviewed_at :: "time option"
  gi_updated_at :: time

record gov_review =
  gr_id :: pystr
  gr_issue_id :: pystr
  gr_from_status :: pystr
  gr_to_status :: pystr
  gr_reviewer :: pystr
  gr_note :: pystr
  gr_created_at :: time

text \<open>Of the feedback of users, what the aggregation reads.\<close>

record feedback_row =
  fb_feedback :: pystr
  fb_retrieval_sources :: "pystr option"
  fb_tenant_id :: pystr
  fb_created_at :: time

record gov_db =
  gd_documents :: "kb_document list"
  gd_chunks :: "kb_chunk list"
  gd_metadata :: "doc_metadata list"
  gd_issues :: "gov_issue list"
  gd_reviews :: "gov_review list"
  gd_feedbacks :: "feedback_row list"

text \<open>
  What an operation meets: its clock, new ids, whether the quality bus is enabled, and the order in
  which a set of texts is visited. A blocked document is announced by its id, a reason and a tenant.
\<close>

record gov_env =
  ge_clock :: clock
  ge_uuid :: "nat \<Rightarrow> pystr"
  ge_bus_enable :: bool
  ge_visit :: "pystr list \<Rightarrow> pystr list"

type_synonym blocked_event = "pystr \<times> pystr \<times> pystr"

definition maybe_emit_doc_blocked :: "bool \<Rightarrow> pystr \<Rightarrow> pystr \<Rightarrow> pystr \<Rightarrow> blocked_event list" where
  "maybe_emit_doc_blocked enable doc_id reason tenant_id =
     (if \<not> enable \<or> reason = [] then [] else [(doc_id, reason, py_or tenant_id (asc ''default''))])"

section \<open>Metadata\<close>

definition blocked_document_ids :: "time \<Rightarrow> pystr list \<Rightarrow> pystr \<Rightarrow> gov_db \<Rightarrow> pystr list" where
  "blocked_document_ids now doc_ids tenant_id db =
     (let ids = filter (\<lambda>d. d \<noteq> []) (fromkeys doc_ids)
      in map dm_doc_id (filter (\<lambda>m. dm_doc_id m \<in> set ids \<and> (tenant_id \<noteq> [] \<longrightarrow> dm_tenant_id m = tenant_id)
           \<and> \<not> is_retrievable (Some m) now) (gd_metadata db)))"

definition tenant_document :: "gov_db \<Rightarrow> pystr \<Rightarrow> pystr \<Rightarrow> kb_document res" where
  "tenant_document db doc_id tenant_id =
     (case find (\<lambda>d. dc_id d = doc_id \<and> dc_tenant_id d = tenant_id) (gd_documents db) of
        None \<Rightarrow> Inl (BizError [0x6587, 0x6863, 0x4e0d, 0x5b58, 0x5728, 0x6216, 0x4e0d, 0x5c5e, 0x4e8e, 0x5f53, 0x524d, 0x79df, 0x6237] 404)
      | Some d \<Rightarrow> Inr d)"

definition metadata_of :: "gov_db \<Rightarrow> pystr \<Rightarrow> pystr \<Rightarrow> doc_metadata option" where
  "metadata_of db doc_id tenant_id =
     find (\<lambda>m. dm_doc_id m = doc_id \<and> dm_tenant_id m = tenant_id) (gd_metadata db)"

record metadata_view =
  mv_doc_id :: pystr
  mv_doc_name :: pystr
  mv_metadata :: "doc_metadata option"
  mv_effective_state :: pystr
  mv_missing_fields :: "pystr list"

definition view_of :: "time \<Rightarrow> kb_document \<Rightarrow> doc_metadata option \<Rightarrow> metadata_view" where
  "view_of now d meta = \<lparr>mv_doc_id = dc_id d, mv_doc_name = dc_doc_name d, mv_metadata = meta,
     mv_effective_state = effective_state meta now, mv_missing_fields = missing_metadata_fields meta\<rparr>"

definition get_metadata :: "clock \<Rightarrow> gov_db \<Rightarrow> pystr \<Rightarrow> pystr \<Rightarrow> metadata_view res" where
  "get_metadata c db doc_id tenant_id =
     map_sum id (\<lambda>d. view_of (utc c 0) d (metadata_of db doc_id tenant_id)) (tenant_document db doc_id tenant_id)"

text \<open>
  The values given: \<open>None\<close> when a field is not among them, \<open>Some None\<close> for an explicit null. The
  row in memory, between the assignments and the commit, may lack values that the table requires.
\<close>

record metadata_values =
  mw_owner :: "pystr option option"
  mw_applicable_region :: "pystr option option"
  mw_effective_at :: "time option option"
  mw_expires_at :: "time option option"
  mw_is_permanent :: "bool option option"
  mw_review_interval_days :: "nat option option"
  mw_next_review_at :: "time option option"
  mw_version_label :: "pystr option option"
  mw_version_status :: "pystr option option"

record metadata_draft =
  mt_owner :: "pystr option"
  mt_applicable_region :: "pystr option"
  mt_effective_at :: "time option"
  mt_expires_at :: "time option"
  mt_is_permanent :: "bool option"
  mt_review_interval_days :: "nat option"
  mt_next_review_at :: "time option"
  mt_version_label :: "pystr option"
  mt_version_status :: "pystr option"

definition blank_draft :: metadata_draft where
  "blank_draft = \<lparr>mt_owner = None, mt_applicable_region = None, mt_effective_at = None, mt_expires_at = None,
     mt_is_permanent = None, mt_review_interval_days = None, mt_next_review_at = None, mt_version_label = None,
     mt_version_status = None\<rparr>"

definition row_draft :: "doc_metadata \<Rightarrow> metadata_draft" where
  "row_draft m = \<lparr>mt_owner = Some (dm_owner m), mt_applicable_region = Some (dm_applicable_region m),
     mt_effective_at = dm_effective_at m, mt_expires_at = dm_expires_at m, mt_is_permanent = Some (dm_is_permanent m),
     mt_review_interval_days = dm_review_interval_days m, mt_next_review_at = dm_next_review_at m,
     mt_version_label = Some (dm_version_label m), mt_version_status = Some (dm_version_status m)\<rparr>"

definition assign :: "'a option option \<Rightarrow> 'a option \<Rightarrow> 'a option" where
  "assign v old = (case v of None \<Rightarrow> old | Some x \<Rightarrow> x)"

definition apply_values :: "metadata_values \<Rightarrow> metadata_draft \<Rightarrow> metadata_draft" where
  "apply_values v t = \<lparr>mt_owner = assign (mw_owner v) (mt_owner t),
     mt_applicable_region = assign (mw_applicable_region v) (mt_applicable_region t),
     mt_effective_at = assign (mw_effective_at v) (mt_effective_at t),
     mt_expires_at = (if mw_is_permanent v = Some (Some True) then None else assign (mw_expires_at v) (mt_expires_at t)),
     mt_is_permanent = assign (mw_is_permanent v) (mt_is_permanent t),
     mt_review_interval_days = assign (mw_review_interval_days v) (mt_review_interval_days t),
     mt_next_review_at = assign (mw_next_review_at v) (mt_next_review_at t),
     mt_version_label = assign (mw_version_label v) (mt_version_label t),
     mt_version_status = assign (mw_version_status v) (mt_version_status t)\<rparr>"

definition check_draft :: "metadata_draft \<Rightarrow> unit res" where
  "check_draft t =
     (if \<exists>s \<in> set_option (mt_version_status t). s \<noteq> [] \<and> s \<notin> set VERSION_STATUSES
      then Inl (BizError [0x65e0, 0x6548, 0x7684, 0x7248, 0x672c, 0x72b6, 0x6001] 400)
      else if mt_is_permanent t = Some True \<and> mt_expires_at t \<noteq> None
      then Inl (BizError [0x6c38, 0x4e45, 0x6709, 0x6548, 0x6587, 0x6863, 0x4e0d, 0x80fd, 0x540c, 0x65f6, 0x8bbe, 0x7f6e, 0x5931, 0x6548, 0x65f6, 0x95f4] 400)
      else if \<exists>a \<in> set_option (mt_effective_at t). \<exists>b \<in> set_option (mt_expires_at t). b < a
      then Inl (BizError [0x751f, 0x6548, 0x65f6, 0x95f4, 0x4e0d, 0x80fd, 0x665a, 0x4e8e, 0x5931, 0x6548, 0x65f6, 0x95f4] 400)
      else Inr ())"

text \<open>With an interval and no date given, the next review is counted from the effective date.\<close>

definition plan_review :: "time \<Rightarrow> metadata_values \<Rightarrow> metadata_draft \<Rightarrow> metadata_draft" where
  "plan_review now v t =
     (case mt_review_interval_days t of
        Some (Suc n) \<Rightarrow>
          if mw_next_review_at v = None
          then t\<lparr>mt_next_review_at := Some ((case mt_effective_at t of Some e \<Rightarrow> e | None \<Rightarrow> now) + seconds (86400 * int (Suc n)))\<rparr>
          else t
      | _ \<Rightarrow> t)"

text \<open>An insertion fills in the defaults of the columns, an update with a null is refused.\<close>

definition filled :: "bool \<Rightarrow> 'a \<Rightarrow> 'a option \<Rightarrow> 'a res" where
  "filled creating d v = (case v of Some x \<Rightarrow> Inr x | None \<Rightarrow> if creating then Inr d else Inl IntegrityError)"

definition write_metadata :: "clock \<Rightarrow> pystr \<Rightarrow> bool \<Rightarrow> doc_metadata \<Rightarrow> metadata_draft \<Rightarrow> doc_metadata res" where
  "write_metadata c operator creating m t =
     (case filled creating [] (mt_owner t) of Inl e \<Rightarrow> Inl e | Inr owner \<Rightarrow>
      case filled creating [] (mt_applicable_region t) of Inl e \<Rightarrow> Inl e | Inr region \<Rightarrow>
      case filled creating False (mt_is_permanent t) of Inl e \<Rightarrow> Inl e | Inr permanent \<Rightarrow>
      case filled creating [] (mt_version_label t) of Inl e \<Rightarrow> Inl e | Inr label \<Rightarrow>
      case filled creating (asc ''draft'') (mt_version_status t) of Inl e \<Rightarrow> Inl e | Inr status \<Rightarrow>
      Inr (m\<lparr>dm_owner := owner, dm_applicable_region := region, dm_effective_at := mt_effective_at t,
        dm_expires_at := mt_expires_at t, dm_is_permanent := permanent,
        dm_review_interval_days := mt_review_interval_days t, dm_next_review_at := mt_next_review_at t,
        dm_version_label := label, dm_version_status := status, dm_updated_by := operator, dm_updated_at := sqlnow c\<rparr>))"

definition fresh_metadata :: "clock \<Rightarrow> pystr \<Rightarrow> pystr \<Rightarrow> pystr \<Rightarrow> doc_metadata" where
  "fresh_metadata c doc_id tenant_id operator = \<lparr>dm_doc_id = doc_id, dm_tenant_id = tenant_id, dm_owner = [],
     dm_applicable_region = [], dm_effective_at = None, dm_expires_at = None, dm_is_permanent = False,
     dm_review_interval_days = None, dm_next_review_at = None, dm_version_label = [], dm_version_status = asc ''draft'',
     dm_created_by = operator, dm_updated_by = operator, dm_created_at = sqlnow c, dm_updated_at = sqlnow c\<rparr>"

definition updated_metadata ::
  "clock \<Rightarrow> pystr \<Rightarrow> pystr \<Rightarrow> metadata_values \<Rightarrow> pystr \<Rightarrow> doc_metadata option \<Rightarrow> doc_metadata res" where
  "updated_metadata c doc_id tenant_id v operator old =
     (let t = apply_values v (case old of None \<Rightarrow> blank_draft | Some m \<Rightarrow> row_draft m)
      in case check_draft t of
           Inl e \<Rightarrow> Inl e
         | Inr _ \<Rightarrow> write_metadata c operator (old = None)
             (case old of None \<Rightarrow> fresh_metadata c doc_id tenant_id operator | Some m \<Rightarrow> m) (plan_review (utc c 0) v t))"

definition BLOCKED_VERSION_STATUSES :: "pystr list" where
  "BLOCKED_VERSION_STATUSES = map asc [''withdrawn'', ''superseded'']"

text \<open>
  The view, whether the row is new, what is announced, and the tables. A row of the same document
  under another tenant violates the primary key.
\<close>

definition upsert_metadata ::
  "gov_env \<Rightarrow> pystr \<Rightarrow> pystr \<Rightarrow> metadata_values \<Rightarrow> pystr \<Rightarrow> gov_db \<Rightarrow>
   (metadata_view \<times> bool \<times> blocked_event list \<times> gov_db) res" where
  "upsert_metadata env doc_id tenant_id v operator db =
     (case tenant_document db doc_id tenant_id of
        Inl e \<Rightarrow> Inl e
      | Inr d \<Rightarrow>
          (let old = metadata_of db doc_id tenant_id in
           case updated_metadata (ge_clock env) doc_id tenant_id v operator old of
             Inl e \<Rightarrow> Inl e
           | Inr m \<Rightarrow>
               if old = None \<and> doc_id \<in> dm_doc_id ` set (gd_metadata db) then Inl IntegrityError
               else Inr (view_of (utc (ge_clock env) 1) d (Some m), old = None,
                 if dm_version_status m \<in> set BLOCKED_VERSION_STATUSES
                 then maybe_emit_doc_blocked (ge_bus_enable env) (dm_doc_id m) (dm_version_status m) tenant_id else [],
                 db\<lparr>gd_metadata := (if old = None then gd_metadata db @ [m] else put_row dm_doc_id m (gd_metadata db))\<rparr>)))"

definition list_documents_with_metadata ::
  "clock \<Rightarrow> (pystr \<Rightarrow> pystr \<Rightarrow> bool) \<Rightarrow> pystr \<Rightarrow> pystr \<Rightarrow> nat \<Rightarrow> nat \<Rightarrow> gov_db \<Rightarrow> nat \<times> metadata_view list" where
  "list_documents_with_metadata c like tenant_id keyword page psize db =
     (let rows = filter (\<lambda>d. dc_tenant_id d = tenant_id \<and> (keyword \<noteq> [] \<longrightarrow> like keyword (dc_doc_name d))) (gd_documents db)
      in (length rows, map (\<lambda>d. view_of (utc c 0) d (metadata_of db (dc_id d) tenant_id))
           (page_rows ((page - 1) * psize) psize (sort_key (\<lambda>d. - dc_created_at d) rows))))"

section \<open>Scans\<close>

record scan_options =
  so_expiry_warning_days :: int
  so_include_conflicts :: bool
  so_max_documents :: nat
  so_max_chunks_per_document :: nat
  so_document_ids :: "pystr list"

definition default_scan_options :: scan_options where
  "default_scan_options = \<lparr>so_expiry_warning_days = 30, so_include_conflicts = True, so_max_documents = 100,
     so_max_chunks_per_document = 80, so_document_ids = []\<rparr>"

definition snapshot_of :: "nat \<Rightarrow> pystr \<Rightarrow> gov_db \<Rightarrow> kb_document \<Rightarrow> doc_snapshot" where
  "snapshot_of max_chunks tenant_id db d = \<lparr>sp_doc_id = dc_id d, sp_doc_name = dc_doc_name d, sp_doc_type = dc_doc_type d,
     sp_equipment_tags = dc_equipment_tags d,
     sp_chunks = map (\<lambda>k. \<lparr>cs_chunk_id = kc_id k, cs_content = kc_content k, cs_section = kc_section k\<rparr>)
       (take max_chunks (sort_key kc_chunk_idx (filter (\<lambda>k. kc_doc_id k = dc_id d) (gd_chunks db)))),
     sp_metadata = metadata_of db (dc_id d) tenant_id\<rparr>"

definition load_snapshots :: "pystr \<Rightarrow> scan_options \<Rightarrow> gov_db \<Rightarrow> doc_snapshot list" where
  "load_snapshots tenant_id opts db =
     map (snapshot_of (so_max_chunks_per_document opts) tenant_id db)
       (take (so_max_documents opts) (sort_key (\<lambda>d. - dc_created_at d)
         (filter (\<lambda>d. dc_tenant_id d = tenant_id \<and> (so_document_ids opts \<noteq> [] \<longrightarrow> dc_id d \<in> set (so_document_ids opts)))
           (gd_documents db))))"

text \<open>\<open>json.dumps\<close> without spaces.\<close>

fun json_compact :: "json \<Rightarrow> pystr" and compact_items :: "(pystr \<times> json) list \<Rightarrow> pystr list" where
  "json_compact (JList js) = [91] @ py_join [44] (map json_compact js) @ [93]"
| "json_compact (JObj kvs) = [123] @ py_join [44] (compact_items kvs) @ [125]"
| "json_compact j = json_text j"
| "compact_items [] = []"
| "compact_items ((k, v) # kvs) = (json_string k @ [58] @ json_compact v) # compact_items kvs"

definition finding_fingerprint :: "issue_finding \<Rightarrow> pystr" where
  "finding_fingerprint f = sha256_hex (fingerprint_text f)"

definition new_issue :: "clock \<Rightarrow> pystr \<Rightarrow> pystr \<Rightarrow> time \<Rightarrow> pystr \<Rightarrow> issue_finding \<Rightarrow> gov_issue" where
  "new_issue c uuid tenant_id now fp f = \<lparr>gi_id = uuid, gi_tenant_id = tenant_id, gi_fingerprint = fp,
     gi_issue_type = if_issue_type f, gi_severity = if_severity f, gi_status = asc ''open'', gi_doc_id = if_doc_id f,
     gi_related_doc_id = if_related_doc_id f, gi_title = if_title f, gi_summary = if_summary f,
     gi_evidence_json = json_compact (if_evidence f), gi_occurrence_count = 1, gi_detected_at = now, gi_last_seen_at = now,
     gi_reviewer = [], gi_review_note = [], gi_reviewed_at = None, gi_updated_at = sqlnow c\<rparr>"

definition seen_again :: "clock \<Rightarrow> time \<Rightarrow> issue_finding \<Rightarrow> gov_issue \<Rightarrow> gov_issue" where
  "seen_again c now f r = r\<lparr>gi_severity := if_severity f, gi_title := if_title f, gi_summary := if_summary f,
     gi_evidence_json := json_compact (if_evidence f), gi_last_seen_at := now,
     gi_occurrence_count := Suc (gi_occurrence_count r), gi_updated_at := sqlnow c\<rparr>"

text \<open>The findings by fingerprint; of several with the same one the last counts, in the first one's place.\<close>

definition unique_findings :: "issue_finding list \<Rightarrow> (pystr \<times> issue_finding) list" where
  "unique_findings fs = fold (\<lambda>f tbl. AList.update (finding_fingerprint f) f tbl) fs []"

text \<open>One finding: whether an issue is new, and the issues. The index numbers the new ids.\<close>

definition persist_one ::
  "gov_env \<Rightarrow> pystr \<Rightarrow> time \<Rightarrow> pystr \<times> issue_finding \<Rightarrow> nat \<times> nat \<times> gov_issue list \<Rightarrow> nat \<times> nat \<times> gov_issue list" where
  "persist_one env tenant_id now x s =
     (let (created, updated, issues) = s; (fp, f) = x
      in case find (\<lambda>r. gi_tenant_id r = tenant_id \<and> gi_fingerprint r = fp) issues of
           None \<Rightarrow> (Suc created, updated, issues @ [new_issue (ge_clock env) (ge_uuid env created) tenant_id now fp f])
         | Some r \<Rightarrow> (created, Suc updated, put_row gi_id (seen_again (ge_clock env) now f r) issues))"

text \<open>The primary key of the issues and their unique constraint.\<close>

definition issue_keys_ok :: "gov_issue list \<Rightarrow> bool" where
  "issue_keys_ok issues \<longleftrightarrow> distinct (map gi_id issues) \<and> distinct (map (\<lambda>r. (gi_tenant_id r, gi_fingerprint r)) issues)"

definition persist_findings ::
  "gov_env \<Rightarrow> pystr \<Rightarrow> issue_finding list \<Rightarrow> time \<Rightarrow> gov_issue list \<Rightarrow> (nat \<times> nat \<times> gov_issue list) res" where
  "persist_findings env tenant_id findings now issues =
     (let s = fold (persist_one env tenant_id now) (unique_findings findings) (0, 0, issues)
      in if issue_keys_ok (snd (snd s)) then Inr s else Inl IntegrityError)"

text \<open>The share of the tenant's documents that are active and not expired, in thousandths.\<close>

definition freshness :: "time \<Rightarrow> pystr \<Rightarrow> gov_db \<Rightarrow> nat" where
  "freshness now tenant_id db =
     (let n_docs = length (filter (\<lambda>d. dc_tenant_id d = tenant_id) (gd_documents db));
          active = length (filter (\<lambda>m. dm_tenant_id m = tenant_id \<and> dm_version_status m = asc ''active'' \<and>
            (dm_is_permanent m \<or> (\<forall>t \<in> set_option (dm_expires_at m). now < t))) (gd_metadata db))
      in if n_docs = 0 then 0 else fround 3 (fdiv active n_docs))"

subsection \<open>Documents with bad feedback\<close>

text \<open>The settings DOC_QUALITY_ISSUE_ENABLE, _WINDOW_DAYS, _DISLIKE_THRESHOLD (in hundredths) and _MIN_COUNT.\<close>

record quality_settings =
  qy_enable :: bool
  qy_window_days :: int
  qy_threshold :: nat
  qy_min_count :: nat

definition split_sources :: "pystr \<Rightarrow> pystr list" where
  "split_sources raw = filter (\<lambda>s. s \<noteq> []) (map py_strip (py_split 44 (map (\<lambda>c. if c = 0xFF0C then 44 else c) raw)))"

definition recent_feedback :: "quality_settings \<Rightarrow> time \<Rightarrow> gov_db \<Rightarrow> feedback_row list" where
  "recent_feedback cfg now db =
     filter (\<lambda>r. now - seconds (86400 * qy_window_days cfg) \<le> fb_created_at r \<and> fb_retrieval_sources r \<notin> {None, Some []})
       (gd_feedbacks db)"

text \<open>For each document name how often it was disliked and how often it was cited.\<close>

definition count_source :: "bool \<Rightarrow> pystr \<Rightarrow> (pystr \<times> nat \<times> nat) list \<Rightarrow> (pystr \<times> nat \<times> nat) list" where
  "count_source disliked name tbl =
     AList.map_default name (if disliked then (1, 1) else (0, 1)) (\<lambda>(d, t). (if disliked then Suc d else d, Suc t)) tbl"

definition source_stats :: "feedback_row list \<Rightarrow> (pystr \<times> nat \<times> nat) list" where
  "source_stats rows =
     fold (\<lambda>r. fold (count_source (fb_feedback r = asc ''dislike'')) (split_sources (the (fb_retrieval_sources r)))) rows []"

text \<open>\<open>f"{x:.0%}"\<close>.\<close>

definition percent_text :: "dbl \<Rightarrow> pystr" where
  "percent_text x = dec_nat (fround 0 (fmul x (fnat 100))) @ [37]"

definition quality_finding :: "quality_settings \<Rightarrow> pystr \<Rightarrow> pystr \<Rightarrow> nat \<Rightarrow> nat \<Rightarrow> issue_finding" where
  "quality_finding cfg doc_id name dislike cited =
     (let rate = fdiv dislike cited
      in \<lparr>if_issue_type = asc ''quality_low'', if_severity = asc ''warning'', if_doc_id = doc_id,
          if_title = [0x6587, 0x6863, 0x9891, 0x7e41, 0x5dee, 0x8bc4, 0xff1a] @ name,
          if_summary = (asc ''dislike '' @ [0x7387] @ asc '' '') @ percent_text rate @ [0xff08] @ dec_nat dislike @ (asc ''/'') @ dec_nat cited @ ([0xff09, 0xff0c, 0x8d85, 0x8fc7, 0x9608, 0x503c] @ asc '' '')
            @ percent_text (fdec 2 (qy_threshold cfg)) @ [0x3002],
          if_evidence = JObj [(asc ''docName'', JStr name), (asc ''dislikeCount'', JInt (int dislike)),
            (asc ''totalCount'', JInt (int cited)), (asc ''rate'', JFloat (repr_dec 3 (fround 3 rate))),
            (asc ''windowDays'', JInt (qy_window_days cfg)),
            (asc ''explanation'', JStr (([0x8fd1] @ asc '' '') @ py_str_int (qy_window_days cfg) @ (asc '' '' @ [0x5929, 0x5185, 0x88ab, 0x5f15, 0x7528] @ asc '' '') @ dec_nat cited
              @ (asc '' '' @ [0x6b21, 0xff0c, 0x5176, 0x4e2d] @ asc '' dislike '') @ [32] @ dec_nat dislike @ (asc '' '' @ [0x6b21, 0xff08, 0x7387] @ asc '' '') @ percent_text rate @ [0xff09, 0xff0c, 0x9700, 0x4eba, 0x5de5, 0x590d, 0x6838, 0x5185, 0x5bb9, 0x8d28, 0x91cf, 0x3002]))],
          if_related_doc_id = None\<rparr>)"

definition name_to_id :: "pystr \<Rightarrow> gov_db \<Rightarrow> pystr \<Rightarrow> pystr option" where
  "name_to_id tenant db name =
     map_option dc_id (find (\<lambda>d. dc_tenant_id d = tenant \<and> dc_doc_name d = name) (rev (gd_documents db)))"

definition quality_one ::
  "gov_env \<Rightarrow> quality_settings \<Rightarrow> pystr \<Rightarrow> time \<Rightarrow> nat \<Rightarrow> gov_db \<Rightarrow> pystr \<times> nat \<times> nat \<Rightarrow> nat \<times> nat \<times> gov_issue list \<Rightarrow>
   nat \<times> nat \<times> gov_issue list" where
  "quality_one env cfg tenant now first_id db x s =
     (let (name, dislike, cited) = x; (generated, deduped, issues) = s
      in case name_to_id tenant db name of
           None \<Rightarrow> s
         | Some doc_id \<Rightarrow>
             if doc_id = [] \<or> cited = 0 \<or> dislike < qy_min_count cfg \<or> fless (fdiv dislike cited) (fdec 2 (qy_threshold cfg)) then s
             else let fp = asc ''quality_low:'' @ doc_id; f = quality_finding cfg doc_id name dislike cited
               in case find (\<lambda>r. gi_tenant_id r = tenant \<and> gi_fingerprint r = fp) issues of
                    None \<Rightarrow> (Suc generated, deduped,
                      issues @ [new_issue (ge_clock env) (ge_uuid env (first_id + generated)) tenant now fp f])
                  | Some r \<Rightarrow> (generated, Suc deduped, put_row gi_id (r\<lparr>gi_evidence_json := json_compact (if_evidence f),
                      gi_last_seen_at := now, gi_occurrence_count := Suc (gi_occurrence_count r),
                      gi_updated_at := sqlnow (ge_clock env)\<rparr>) issues))"

text \<open>
  Scanned, generated and refreshed; the first index of the new ids comes after those of the scan. A
  commit that fails is swallowed.
\<close>

definition aggregate_doc_quality ::
  "gov_env \<Rightarrow> quality_settings \<Rightarrow> pystr \<Rightarrow> nat \<Rightarrow> gov_db \<Rightarrow> (nat \<times> nat \<times> nat) \<times> gov_db" where
  "aggregate_doc_quality env cfg tenant first_id db =
     (if \<not> qy_enable cfg then ((0, 0, 0), db)
      else let rows = recent_feedback cfg (utc (ge_clock env) 2) db;
               (generated, deduped, issues) =
                 fold (quality_one env cfg tenant (utc (ge_clock env) 3) first_id db) (source_stats rows) (0, 0, gd_issues db)
           in ((length rows, generated, deduped), if issue_keys_ok issues then db\<lparr>gd_issues := issues\<rparr> else db))"

subsection \<open>The whole scan\<close>

record scan_result =
  sc_documents_scanned :: nat
  sc_findings :: nat
  sc_created :: nat
  sc_updated :: nat
  sc_by_type :: "(pystr \<times> nat) list"
  sc_freshness :: nat
  sc_doc_quality :: "nat \<times> nat \<times> nat"

definition scan_findings :: "gov_env \<Rightarrow> scan_options \<Rightarrow> doc_snapshot list \<Rightarrow> issue_finding list" where
  "scan_findings env opts snapshots =
     concat (map (build_lifecycle_findings (utc (ge_clock env) 0) (so_expiry_warning_days opts)) snapshots) @
     (if so_include_conflicts opts then detect_potential_conflicts (ge_visit env) snapshots else [])"

definition run_governance_scan ::
  "gov_env \<Rightarrow> quality_settings \<Rightarrow> pystr \<Rightarrow> scan_options \<Rightarrow> gov_db \<Rightarrow> (scan_result \<times> blocked_event list \<times> gov_db) res" where
  "run_governance_scan env cfg tenant_id opts db =
     (let now = utc (ge_clock env) 0;
          snapshots = load_snapshots tenant_id opts db;
          findings = scan_findings env opts snapshots
      in case persist_findings env tenant_id findings now (gd_issues db) of
           Inl e \<Rightarrow> Inl e
         | Inr (created, updated, issues) \<Rightarrow> Inr (
     let blocked = concat (map (\<lambda>f. if if_issue_type f = asc ''expired''
            then maybe_emit_doc_blocked (ge_bus_enable env) (if_doc_id f) (asc ''expired'') tenant_id else []) findings);
          types = map if_issue_type findings;
          db1 = db\<lparr>gd_issues := issues\<rparr>;
          (quality, db2) = aggregate_doc_quality env cfg tenant_id created db1
      in (\<lparr>sc_documents_scanned = length snapshots, sc_findings = length findings, sc_created = created, sc_updated = updated,
           sc_by_type = map (\<lambda>t. (t, count_list types t)) (sort (fromkeys types)),
           sc_freshness = freshness (utc (ge_clock env) 1) tenant_id db1, sc_doc_quality = quality\<rparr>, blocked, db2)))"

section \<open>Issues\<close>

record issue_filter =
  jf_status :: pystr
  jf_issue_type :: pystr
  jf_severity :: pystr
  jf_keyword :: pystr

definition list_issues ::
  "(pystr \<Rightarrow> pystr \<Rightarrow> bool) \<Rightarrow> pystr \<Rightarrow> issue_filter \<Rightarrow> nat \<Rightarrow> nat \<Rightarrow> gov_db \<Rightarrow> nat \<times> gov_issue list" where
  "list_issues like tenant_id f page psize db =
     (let rows = filter (\<lambda>r. gi_tenant_id r = tenant_id \<and>
            (jf_status f \<noteq> [] \<longrightarrow> gi_status r = jf_status f) \<and>
            (jf_issue_type f \<noteq> [] \<longrightarrow> gi_issue_type r = jf_issue_type f) \<and>
            (jf_severity f \<noteq> [] \<longrightarrow> gi_severity r = jf_severity f) \<and>
            (jf_keyword f \<noteq> [] \<longrightarrow> like (jf_keyword f) (gi_title r) \<or> like (jf_keyword f) (gi_summary r))) (gd_issues db)
      in (length rows, page_rows ((page - 1) * psize) psize (sort_key (\<lambda>r. - gi_last_seen_at r) rows)))"

definition find_issue :: "gov_db \<Rightarrow> pystr \<Rightarrow> pystr \<Rightarrow> gov_issue res" where
  "find_issue db issue_id tenant_id =
     (case find (\<lambda>r. gi_id r = issue_id \<and> gi_tenant_id r = tenant_id) (gd_issues db) of
        None \<Rightarrow> Inl (BizError [0x6cbb, 0x7406, 0x95ee, 0x9898, 0x4e0d, 0x5b58, 0x5728] 404)
      | Some r \<Rightarrow> Inr r)"

definition get_issue :: "gov_db \<Rightarrow> pystr \<Rightarrow> pystr \<Rightarrow> (gov_issue \<times> gov_review list) res" where
  "get_issue db issue_id tenant_id =
     map_sum id (\<lambda>r. (r, sort_key gr_created_at (filter (\<lambda>v. gr_issue_id v = issue_id) (gd_reviews db))))
       (find_issue db issue_id tenant_id)"

definition ISSUE_STATUSES :: "pystr list" where
  "ISSUE_STATUSES = map asc [''open'', ''confirmed'', ''resolved'', ''ignored'']"

definition STATUS_TRANSITIONS :: "(pystr \<times> pystr list) list" where
  "STATUS_TRANSITIONS = [
     (asc ''open'', ISSUE_STATUSES), (asc ''confirmed'', ISSUE_STATUSES),
     (asc ''resolved'', [asc ''open'', asc ''resolved'']), (asc ''ignored'', [asc ''open'', asc ''ignored''])]"

definition validate_status_transition :: "pystr \<Rightarrow> pystr \<Rightarrow> unit res" where
  "validate_status_transition current target =
     (if current \<notin> set ISSUE_STATUSES \<or> target \<notin> set ISSUE_STATUSES then Inl (BizError [0x65e0, 0x6548, 0x7684, 0x6cbb, 0x7406, 0x95ee, 0x9898, 0x72b6, 0x6001] 400)
      else if target \<notin> set (the (map_of STATUS_TRANSITIONS current))
      then Inl (BizError (([0x4e0d, 0x5141, 0x8bb8, 0x4ece] @ asc '' '') @ current @ (asc '' '' @ [0x53d8, 0x66f4, 0x4e3a] @ asc '' '') @ target) 400)
      else Inr ())"

definition reviewed :: "clock \<Rightarrow> pystr \<Rightarrow> pystr \<Rightarrow> pystr \<Rightarrow> gov_issue \<Rightarrow> gov_issue" where
  "reviewed c status note reviewer r = r\<lparr>gi_status := status, gi_reviewer := reviewer, gi_review_note := py_strip note,
     gi_reviewed_at := Some (utc c 0), gi_updated_at := sqlnow c\<rparr>"

definition review_issue ::
  "gov_env \<Rightarrow> pystr \<Rightarrow> pystr \<Rightarrow> pystr \<Rightarrow> pystr \<Rightarrow> pystr \<Rightarrow> gov_db \<Rightarrow> (gov_issue \<times> gov_db) res" where
  "review_issue env issue_id tenant_id status note reviewer db =
     (case find_issue db issue_id tenant_id of
        Inl e \<Rightarrow> Inl e
      | Inr r \<Rightarrow>
          (case validate_status_transition (gi_status r) status of
             Inl e \<Rightarrow> Inl e
           | Inr _ \<Rightarrow>
               if status \<in> {asc ''resolved'', asc ''ignored''} \<and> py_strip note = []
               then Inl (BizError [0x89e3, 0x51b3, 0x6216, 0x5ffd, 0x7565, 0x95ee, 0x9898, 0x65f6, 0x5fc5, 0x987b, 0x586b, 0x5199, 0x5ba1, 0x6838, 0x8bf4, 0x660e] 400)
               else if ge_uuid env 0 \<in> gr_id ` set (gd_reviews db) then Inl IntegrityError
               else let r' = reviewed (ge_clock env) status note reviewer r;
                        v = \<lparr>gr_id = ge_uuid env 0, gr_issue_id = gi_id r, gr_from_status = gi_status r, gr_to_status = status,
                          gr_reviewer = reviewer, gr_note = py_strip note, gr_created_at = utc (ge_clock env) 0\<rparr>
                 in Inr (r', db\<lparr>gd_issues := put_row gi_id r' (gd_issues db), gd_reviews := gd_reviews db @ [v]\<rparr>)))"

record gov_stats =
  gs_documents :: nat
  gs_governed_documents :: nat
  gs_metadata_coverage :: nat
  gs_by_status :: "(pystr \<times> nat) list"
  gs_by_type :: "(pystr \<times> nat) list"

definition group_by :: "('r \<Rightarrow> pystr) \<Rightarrow> 'r list \<Rightarrow> (pystr \<times> nat) list" where
  "group_by key rows = map (\<lambda>k. (k, length (filter (\<lambda>r. key r = k) rows))) (fromkeys (map key rows))"

definition get_stats :: "gov_db \<Rightarrow> pystr \<Rightarrow> gov_stats" where
  "get_stats db tenant_id =
     (let issues = filter (\<lambda>r. gi_tenant_id r = tenant_id) (gd_issues db);
          n_docs = length (filter (\<lambda>d. dc_tenant_id d = tenant_id) (gd_documents db));
          governed = length (filter (\<lambda>m. dm_tenant_id m = tenant_id) (gd_metadata db))
      in \<lparr>gs_documents = n_docs, gs_governed_documents = governed,
          gs_metadata_coverage = (if n_docs = 0 then 0 else fround 4 (fdiv governed n_docs)),
          gs_by_status = group_by gi_status issues, gs_by_type = group_by gi_issue_type issues\<rparr>)"

section \<open>The scan as a task\<close>

definition scan_payload :: "pystr \<Rightarrow> scan_options \<Rightarrow> (pystr \<times> json) list" where
  "scan_payload tenant_id opts =
     [(asc ''tenant_id'', JStr tenant_id), (asc ''expiry_warning_days'', JInt (so_expiry_warning_days opts)),
      (asc ''include_conflicts'', JBool (so_include_conflicts opts)), (asc ''max_documents'', JInt (int (so_max_documents opts))),
      (asc ''max_chunks_per_document'', JInt (int (so_max_chunks_per_document opts))),
      (asc ''document_ids'', JList (map JStr (so_document_ids opts)))]"

definition strftime_hour :: "time \<Rightarrow> pystr" where
  "strftime_hour t =
     (let (y, m, d) = civil_of_days (t div seconds 86400)
      in zero_pad 4 y @ zero_pad 2 m @ zero_pad 2 d @ zero_pad 2 (t mod seconds 86400 div seconds 3600))"

definition scan_key :: "pystr \<Rightarrow> time \<Rightarrow> scan_options \<Rightarrow> pystr" where
  "scan_key tenant_id now opts =
     asc ''knowledge.scan:'' @ tenant_id @ [58] @ strftime_hour now @ [58] @
     take 16 (sha256_hex (json_text (JObj (sort_key fst (scan_payload tenant_id opts)))))"

definition scan_task_args :: "pystr \<Rightarrow> time \<Rightarrow> scan_options \<Rightarrow> enqueue_args" where
  "scan_task_args tenant_id now opts =
     (default_enqueue_args (asc ''knowledge.scan''))\<lparr>ea_payload := Some (of_json (JObj (scan_payload tenant_id opts))),
       ea_idempotency_key := scan_key tenant_id now opts, ea_tenant_id := tenant_id\<rparr>"

text \<open>The id of the task and its key.\<close>

definition enqueue_governance_scan ::
  "clock \<Rightarrow> clock \<Rightarrow> pystr \<Rightarrow> pystr \<Rightarrow> scan_options \<Rightarrow> task_table \<Rightarrow> ((pystr \<times> pystr) \<times> task_table) res" where
  "enqueue_governance_scan c c' uuid tenant_id opts tbl =
     map_sum id (\<lambda>(i, tbl'). ((i, scan_key tenant_id (utc c 0) opts), tbl'))
       (enqueue_task c' uuid tbl tbl (scan_task_args tenant_id (utc c 0) opts) tbl)"

text \<open>The options in a payload; a value of another type makes the scan raise.\<close>

fun strings_of :: "json list \<Rightarrow> pystr list option" where
  "strings_of [] = Some []"
| "strings_of (JStr s # js) = map_option ((#) s) (strings_of js)"
| "strings_of _ = None"

definition int_option :: "(pystr \<times> json) list \<Rightarrow> string \<Rightarrow> int \<Rightarrow> int option" where
  "int_option payload k d = (case json_get payload (asc k) (JInt d) of JInt n \<Rightarrow> Some n | _ \<Rightarrow> None)"

definition options_of :: "(pystr \<times> json) list \<Rightarrow> scan_options res" where
  "options_of payload =
     (case (int_option payload ''expiry_warning_days'' 30, int_option payload ''max_documents'' 100,
            int_option payload ''max_chunks_per_document'' 80, json_get payload (asc ''document_ids'') JNull) of
        (Some w, Some md, Some mc, ids) \<Rightarrow>
          (let opts = \<lparr>so_expiry_warning_days = w, so_include_conflicts = truthy (json_get payload (asc ''include_conflicts'') (JBool True)),
                 so_max_documents = nat md, so_max_chunks_per_document = nat mc, so_document_ids = []\<rparr>
           in if \<not> truthy ids then Inr opts
              else case ids of
                JList js \<Rightarrow> (case strings_of js of Some ss \<Rightarrow> Inr (opts\<lparr>so_document_ids := ss\<rparr>) | None \<Rightarrow> Inl TypeError)
              | _ \<Rightarrow> Inl TypeError)
      | _ \<Rightarrow> Inl TypeError)"

definition scan_tenant :: "(pystr \<times> json) list \<Rightarrow> pystr \<Rightarrow> pystr res" where
  "scan_tenant payload context_tenant =
     (if context_tenant \<noteq> [] then Inr context_tenant
      else case json_get payload (asc ''tenant_id'') (json_get payload (asc ''tenantId'') (JStr (asc ''default''))) of
             JStr s \<Rightarrow> Inr s | _ \<Rightarrow> Inl TypeError)"

definition handle_knowledge_governance_scan ::
  "gov_env \<Rightarrow> quality_settings \<Rightarrow> (pystr \<times> json) list \<Rightarrow> pystr \<Rightarrow> gov_db \<Rightarrow> (scan_result \<times> blocked_event list \<times> gov_db) res" where
  "handle_knowledge_governance_scan env cfg payload context_tenant db =
     (case scan_tenant payload context_tenant of
        Inl e \<Rightarrow> Inl e
      | Inr tenant \<Rightarrow>
          (case options_of payload of Inl e \<Rightarrow> Inl e | Inr opts \<Rightarrow> run_governance_scan env cfg tenant opts db))"

end
