(* ===== verification/GovernanceClaims.thy ===== *)
theory GovernanceClaims
  imports Governance Growth TaskQueueProps
begin

text \<open>
  What the knowledge governance guarantees: the status of an issue is explained by its reviews and
  never changed by a scan, scans stay in their tenant, the findings on expired documents against what
  retrieval leaves out, and one scan per hour and set of options.
\<close>

section \<open>Decisions and scans\<close>

text \<open>What of an issue no scan changes.\<close>

definition issue_identity :: "gov_issue \<Rightarrow> pystr \<times> pystr \<times> pystr \<times> pystr \<times> pystr \<times> pystr option \<times> time" where
  "issue_identity r = (gi_id r, gi_tenant_id r, gi_fingerprint r, gi_issue_type r, gi_doc_id r, gi_related_doc_id r, gi_detected_at r)"

definition issue_decision :: "gov_issue \<Rightarrow> pystr \<times> pystr \<times> pystr \<times> time option" where
  "issue_decision r = (gi_status r, gi_reviewer r, gi_review_note r, gi_reviewed_at r)"

definition undecided :: "pystr \<times> pystr \<times> pystr \<times> time option" where
  "undecided = (asc ''open'', [], [], None)"

definition scanned :: "pystr \<Rightarrow> gov_issue \<Rightarrow> gov_issue \<Rightarrow> bool" where
  "scanned tenant r r' \<longleftrightarrow> issue_identity r' = issue_identity r \<and> issue_decision r' = issue_decision r \<and>
     gi_occurrence_count r \<le> gi_occurrence_count r' \<and> (gi_tenant_id r \<noteq> tenant \<longrightarrow> r' = r)"

lemma scanned_refl: "scanned t r r"
  by (simp add: scanned_def)

lemma scanned_id: "scanned t r r' \<Longrightarrow> gi_id r' = gi_id r"
  by (simp add: scanned_def issue_identity_def)

lemma scanned_trans: "scanned t r r' \<Longrightarrow> scanned t r' r'' \<Longrightarrow> scanned t r r''"
  by (auto simp: scanned_def issue_identity_def)

definition scan_moves :: "pystr \<Rightarrow> gov_issue list \<Rightarrow> gov_issue list \<Rightarrow> bool" where
  "scan_moves t xs ys \<longleftrightarrow> (\<exists>mid new. ys = mid @ new \<and> list_all2 (scanned t) xs mid \<and>
     (\<forall>r \<in> set new. gi_tenant_id r = t \<and> issue_decision r = undecided))"

lemma scan_moves_refl: "scan_moves t xs xs"
  unfolding scan_moves_def by (intro exI[of _ xs] exI[of _ "[]"]) (simp add: list.rel_refl scanned_refl)

lemma scan_moves_trans:
  assumes "scan_moves t xs ys" and "scan_moves t ys zs"
  shows "scan_moves t xs zs"
proof -
  from assms obtain m n m' n' where mn: "ys = m @ n" "list_all2 (scanned t) xs m" "zs = m' @ n'" "list_all2 (scanned t) ys m'"
      and new: "\<forall>r \<in> set n \<union> set n'. gi_tenant_id r = t \<and> issue_decision r = undecided"
    unfolding scan_moves_def by blast
  then obtain a b where ab: "m' = a @ b" "list_all2 (scanned t) m a" "list_all2 (scanned t) n b" by (auto simp: list_all2_append1)
  have "list_all2 (scanned t) xs a" by (rule list_all2_trans[OF scanned_trans mn(2) ab(2)])
  moreover have "\<forall>r \<in> set b. gi_tenant_id r = t \<and> issue_decision r = undecided"
    using moves_list_all[OF ab(3), of "\<lambda>r. gi_tenant_id r = t \<and> issue_decision r = undecided"] new
    by (auto simp: list_all_iff scanned_def issue_identity_def)
  ultimately show ?thesis using mn(3) ab(1) new
    unfolding scan_moves_def by (intro exI[of _ a] exI[of _ "b @ n'"]) auto
qed

text \<open>One write of a scan.\<close>

definition scan_write :: "pystr \<Rightarrow> gov_issue list \<Rightarrow> gov_issue list \<Rightarrow> bool" where
  "scan_write t xs ys \<longleftrightarrow> ys = xs \<or> (\<exists>n. ys = xs @ [n] \<and> gi_tenant_id n = t \<and> issue_decision n = undecided) \<or>
     (\<exists>r \<in> set xs. \<exists>r'. ys = put_row gi_id r' xs \<and> scanned t r r')"

lemma scan_write_moves:
  assumes "scan_write t xs ys" and "distinct (map gi_id ys)"
  shows "scan_moves t xs ys \<and> distinct (map gi_id xs)"
proof -
  have refl: "list_all2 (scanned t) xs xs" by (simp add: list.rel_refl scanned_refl)
  consider "ys = xs" | n where "ys = xs @ [n]" "gi_tenant_id n = t" "issue_decision n = undecided"
    | r r' where "r \<in> set xs" "ys = put_row gi_id r' xs" "scanned t r r'"
    using assms(1) unfolding scan_write_def by blast
  then show ?thesis
  proof cases
    case 1
    with assms(2) show ?thesis by (simp add: scan_moves_refl)
  next
    case (2 n)
    with assms(2) refl show ?thesis unfolding scan_moves_def
      by (intro conjI exI[of _ xs] exI[of _ "[n]"]) auto
  next
    case (3 r r')
    with assms(2) have d: "distinct (map gi_id xs)" by (simp add: table_simps)
    from get_row_distinct[OF d 3(1)] have "get_row gi_id (gi_id r') xs = Some r" by (simp add: scanned_id[OF 3(3)])
    from list_all2_put_row[OF scanned_refl d this 3(3)] d show ?thesis
      unfolding scan_moves_def 3(2) by (intro conjI exI[of _ "put_row gi_id r' xs"] exI[of _ "[]"]) auto
  qed
qed

lemma scan_writes_move:
  assumes "\<And>x s. scan_write t (snd (snd s)) (snd (snd (f x s)))" and "distinct (map gi_id (snd (snd (fold f xs s))))"
  shows "scan_moves t (snd (snd s)) (snd (snd (fold f xs s))) \<and> distinct (map gi_id (snd (snd s)))"
  using assms(2)
proof (induction xs arbitrary: s)
  case (Cons x xs)
  then have "scan_moves t (snd (snd (f x s))) (snd (snd (fold f xs (f x s)))) \<and> distinct (map gi_id (snd (snd (f x s))))"
    by simp
  with scan_write_moves[OF assms(1)] scan_moves_trans show ?case by fastforce
qed (simp add: scan_moves_refl)

lemma write_same: "scan_write t xs xs"
  by (simp add: scan_write_def)

lemma write_new: "scan_write t xs (xs @ [new_issue c i t now fp f])"
  by (simp add: scan_write_def new_issue_def issue_decision_def undecided_def)

lemma write_put: "r \<in> set xs \<Longrightarrow> scanned t r r' \<Longrightarrow> scan_write t xs (put_row gi_id r' xs)"
  by (auto simp: scan_write_def)

lemma scanned_seen: "gi_tenant_id r = t \<Longrightarrow> scanned t r (seen_again c now f r)"
  by (simp add: scanned_def issue_identity_def issue_decision_def seen_again_def)

lemma find_in: "find P xs = Some r \<Longrightarrow> r \<in> set xs \<and> P r"
  by (auto simp: find_Some_iff)

lemma persist_one_write: "scan_write t (snd (snd s)) (snd (snd (persist_one env t now x s)))"
proof (cases s; cases x)
  fix a b issues fp f
  assume s: "s = (a, b, issues)" and x: "x = (fp, f)"
  show ?thesis
  proof (cases "find (\<lambda>r. gi_tenant_id r = t \<and> gi_fingerprint r = fp) issues")
    case None
    then show ?thesis by (simp add: s x persist_one_def write_new)
  next
    case (Some r)
    with find_in[OF Some] write_put[OF _ scanned_seen] show ?thesis by (simp add: s x persist_one_def)
  qed
qed

lemma quality_one_write: "scan_write t (snd (snd s)) (snd (snd (quality_one env cfg t now k db x s)))"
proof (cases s; cases x)
  fix a b issues name dislike cited
  assume s: "s = (a, b, issues)" and x: "x = (name, dislike, cited)"
  let ?same = "\<lambda>doc_id r. gi_tenant_id r = t \<and> gi_fingerprint r = asc ''quality_low:'' @ doc_id"
  show ?thesis
  proof (cases "name_to_id t db name")
    case None
    then show ?thesis by (simp add: s x quality_one_def write_same)
  next
    case (Some doc_id)
    show ?thesis
    proof (cases "find (?same doc_id) issues")
      case None
      with Some show ?thesis by (simp add: s x quality_one_def write_same write_new Let_def)
    next
      case (Some r)
      let ?r = "\<lambda>e. r\<lparr>gi_evidence_json := e, gi_last_seen_at := now, gi_occurrence_count := Suc (gi_occurrence_count r),
        gi_updated_at := sqlnow (ge_clock env)\<rparr>"
      have "scanned t r (?r e)" for e using find_in[OF Some] by (simp add: scanned_def issue_identity_def issue_decision_def)
      with find_in[OF Some] have "scan_write t issues (put_row gi_id (?r e) issues)" for e by (blast intro: write_put)
      with Some \<open>name_to_id t db name = Some doc_id\<close> show ?thesis by (simp add: s x quality_one_def write_same Let_def)
    qed
  qed
qed

lemma persist_fold:
  assumes "fold (persist_one env t now) xs (a, b, issues) = (a', b', issues')" and "distinct (map gi_id issues')"
  shows "scan_moves t issues issues'"
  using scan_writes_move[of t "persist_one env t now" xs "(a, b, issues)", OF persist_one_write] assms by simp

lemma quality_fold:
  assumes "fold (quality_one env cfg t now k db) xs (a, b, issues) = (a', b', issues')" and "distinct (map gi_id issues')"
  shows "scan_moves t issues issues'"
  using scan_writes_move[of t "quality_one env cfg t now k db" xs "(a, b, issues)", OF quality_one_write] assms by simp

lemma persist_moves:
  assumes "persist_findings env t fs now issues = Inr (a, b, issues')"
  shows "scan_moves t issues issues' \<and> issue_keys_ok issues'"
proof -
  have r: "fold (persist_one env t now) (unique_findings fs) (0, 0, issues) = (a, b, issues') \<and> issue_keys_ok issues'"
    using assms by (auto simp: persist_findings_def Let_def split: if_splits)
  with persist_fold[of env t now "unique_findings fs" 0 0 issues a b issues'] show ?thesis
    by (simp add: issue_keys_ok_def)
qed

lemma quality_moves:
  assumes "aggregate_doc_quality env cfg t k db = (q, db')"
  shows "\<exists>issues. db' = db\<lparr>gd_issues := issues\<rparr> \<and> scan_moves t (gd_issues db) issues \<and> (issue_keys_ok (gd_issues db) \<longrightarrow> issue_keys_ok issues)"
proof (cases "qy_enable cfg")
  case False
  with assms show ?thesis by (intro exI[of _ "gd_issues db"]) (simp add: aggregate_doc_quality_def scan_moves_refl)
next
  case True
  let ?s = "fold (quality_one env cfg t (utc (ge_clock env) 3) k db) (source_stats (recent_feedback cfg (utc (ge_clock env) 2) db)) (0, 0, gd_issues db)"
  obtain g d issues where s: "?s = (g, d, issues)" by (cases ?s) auto
  have m: "issue_keys_ok issues \<Longrightarrow> scan_moves t (gd_issues db) issues"
    using quality_fold[OF s] by (simp add: issue_keys_ok_def)
  show ?thesis
  proof (cases "issue_keys_ok issues")
    case True
    with m assms s \<open>qy_enable cfg\<close> show ?thesis by (intro exI[of _ issues]) (simp add: aggregate_doc_quality_def)
  next
    case False
    with assms s \<open>qy_enable cfg\<close> show ?thesis
      by (intro exI[of _ "gd_issues db"]) (simp add: aggregate_doc_quality_def scan_moves_refl)
  qed
qed

lemma scan_db:
  assumes "run_governance_scan env cfg t opts db = Inr (res, ev, db')"
  shows "\<exists>issues. db' = db\<lparr>gd_issues := issues\<rparr> \<and> scan_moves t (gd_issues db) issues \<and> issue_keys_ok issues"
proof -
  let ?snaps = "load_snapshots t opts db"
  obtain a b issues where p: "persist_findings env t (scan_findings env opts ?snaps) (utc (ge_clock env) 0) (gd_issues db) = Inr (a, b, issues)"
    using assms by (auto simp: run_governance_scan_def Let_def split: sum.splits)
  obtain q db2 where q: "aggregate_doc_quality env cfg t a (db\<lparr>gd_issues := issues\<rparr>) = (q, db2)" by (cases "aggregate_doc_quality env cfg t a (db\<lparr>gd_issues := issues\<rparr>)")
  from quality_moves[OF q] persist_moves[OF p] obtain issues'
    where i: "db2 = db\<lparr>gd_issues := issues'\<rparr>" "scan_moves t issues issues'" "issue_keys_ok issues'" by auto
  have "db' = db2" using assms p q by (simp add: run_governance_scan_def Let_def)
  with i persist_moves[OF p] scan_moves_trans show ?thesis by blast
qed

section \<open>Reviews\<close>

text \<open>
  The reviews of an issue lead from open to its status by admitted changes, a decision that closes it
  has a note, and the last one is the decision the issue shows.
\<close>

definition review_ok :: "gov_review \<Rightarrow> bool" where
  "review_ok v \<longleftrightarrow> gr_to_status v \<in> set (the (map_of STATUS_TRANSITIONS (gr_from_status v))) \<and>
     (gr_to_status v \<in> {asc ''resolved'', asc ''ignored''} \<longrightarrow> gr_note v \<noteq> [])"

fun review_path :: "pystr \<Rightarrow> gov_review list \<Rightarrow> pystr \<Rightarrow> bool" where
  "review_path a [] b = (a = b)"
| "review_path a (v # vs) b = (gr_from_status v = a \<and> review_ok v \<and> review_path (gr_to_status v) vs b)"

lemma review_path_snoc: "review_path a (vs @ [v]) c \<longleftrightarrow> review_path a vs (gr_from_status v) \<and> review_ok v \<and> gr_to_status v = c"
  by (induction vs arbitrary: a) auto

definition explained :: "gov_review list \<Rightarrow> gov_issue \<Rightarrow> bool" where
  "explained vs r \<longleftrightarrow> review_path (asc ''open'') vs (gi_status r) \<and>
     issue_decision r = (if vs = [] then undecided
       else (gr_to_status (last vs), gr_reviewer (last vs), gr_note (last vs), Some (gr_created_at (last vs))))"

definition reviews_of :: "gov_db \<Rightarrow> pystr \<Rightarrow> gov_review list" where
  "reviews_of db i = filter (\<lambda>v. gr_issue_id v = i) (gd_reviews db)"

definition wf_gov :: "gov_db \<Rightarrow> bool" where
  "wf_gov db \<longleftrightarrow> issue_keys_ok (gd_issues db) \<and> gr_issue_id ` set (gd_reviews db) \<subseteq> gi_id ` set (gd_issues db) \<and>
     (\<forall>r \<in> set (gd_issues db). explained (reviews_of db (gi_id r)) r)"

datatype gov_op =
    EditMeta gov_env pystr pystr metadata_values pystr
  | ScanAll gov_env quality_settings "(pystr \<times> json) list" pystr
  | ReviewIssue gov_env pystr pystr pystr pystr pystr

fun gov_step :: "gov_op \<Rightarrow> gov_db \<Rightarrow> gov_db" where
  "gov_step (EditMeta env d t v who) db = (case upsert_metadata env d t v who db of Inl _ \<Rightarrow> db | Inr (_, _, _, db') \<Rightarrow> db')"
| "gov_step (ScanAll env cfg payload t) db =
     (case handle_knowledge_governance_scan env cfg payload t db of Inl _ \<Rightarrow> db | Inr (_, _, db') \<Rightarrow> db')"
| "gov_step (ReviewIssue env i t status memo who) db =
     (case review_issue env i t status memo who db of Inl _ \<Rightarrow> db | Inr (_, db') \<Rightarrow> db')"

definition same_issue :: "gov_issue \<Rightarrow> gov_issue \<Rightarrow> bool" where
  "same_issue r r' \<longleftrightarrow> issue_identity r' = issue_identity r \<and> gi_occurrence_count r \<le> gi_occurrence_count r'"

lemma same_issue_refl: "same_issue r r"
  by (simp add: same_issue_def)

lemma scan_moves_grows: "scan_moves t xs ys \<Longrightarrow> grows same_issue xs ys"
  unfolding scan_moves_def grows_def by (auto simp: scanned_def same_issue_def elim!: list_all2_mono)

definition gov_step_ok :: "gov_db \<Rightarrow> gov_db \<Rightarrow> bool" where
  "gov_step_ok db db' \<longleftrightarrow> wf_gov db' \<and> grows same_issue (gd_issues db) (gd_issues db') \<and> grows (=) (gd_reviews db) (gd_reviews db')"

lemma gov_step_same: "wf_gov db \<Longrightarrow> gd_issues db' = gd_issues db \<Longrightarrow> gd_reviews db' = gd_reviews db \<Longrightarrow> gov_step_ok db db'"
  by (simp add: gov_step_ok_def wf_gov_def reviews_of_def grows_refl same_issue_refl)

lemma scan_keeps_wf:
  assumes "wf_gov db" and "scan_moves t (gd_issues db) issues" and "issue_keys_ok issues"
  shows "gov_step_ok db (db\<lparr>gd_issues := issues\<rparr>)"
proof -
  obtain mid new where mn: "issues = mid @ new" "list_all2 (scanned t) (gd_issues db) mid"
      and new: "\<And>r. r \<in> set new \<Longrightarrow> issue_decision r = undecided"
    using assms(2) unfolding scan_moves_def by blast
  have ids: "map gi_id mid = map gi_id (gd_issues db)" by (rule moves_map[OF mn(2) scanned_id])
  have sub: "gr_issue_id ` set (gd_reviews db) \<subseteq> gi_id ` set mid"
    using assms(1) arg_cong[OF ids, of set] by (simp add: wf_gov_def)
  have "list_all (\<lambda>r. explained (reviews_of db (gi_id r)) r) mid"
    using assms(1) by (intro moves_list_all[OF mn(2)])
      (auto simp: scanned_def issue_identity_def issue_decision_def explained_def wf_gov_def list_all_iff)
  moreover have "explained (reviews_of db (gi_id r)) r" if "r \<in> set new" for r
  proof -
    have "gi_id r \<notin> gi_id ` set mid" using assms(3) that by (auto simp: mn(1) issue_keys_ok_def)
    with sub have "reviews_of db (gi_id r) = []" by (simp add: reviews_of_def filter_empty_conv image_subset_iff) metis
    with new[OF that] show ?thesis by (simp add: explained_def issue_decision_def undecided_def)
  qed
  ultimately have "\<forall>r \<in> set issues. explained (reviews_of (db\<lparr>gd_issues := issues\<rparr>) (gi_id r)) r"
    by (auto simp: mn(1) list_all_iff reviews_of_def)
  with sub assms(3) scan_moves_grows[OF assms(2)] show ?thesis
    by (auto simp: gov_step_ok_def wf_gov_def mn(1) intro: grows_refl)
qed

lemma transition_ok: "validate_status_transition a b = Inr u \<Longrightarrow> b \<in> set (the (map_of STATUS_TRANSITIONS a))"
  by (auto simp: validate_status_transition_def split: if_splits)

lemma review_keeps_wf:
  assumes "wf_gov db" and "review_issue env i t status memo who db = Inr (r', db')"
  shows "gov_step_ok db db'"
proof -
  obtain r u where r: "find (\<lambda>r. gi_id r = i \<and> gi_tenant_id r = t) (gd_issues db) = Some r"
      and v: "validate_status_transition (gi_status r) status = Inr u"
      and ok: "\<not> (status \<in> {asc ''resolved'', asc ''ignored''} \<and> py_strip memo = [])"
      and r': "r' = reviewed (ge_clock env) status memo who r"
    using assms(2) by (auto simp: review_issue_def find_issue_def Let_def split: option.splits sum.splits if_splits)
  let ?v = "\<lparr>gr_id = ge_uuid env 0, gr_issue_id = gi_id r, gr_from_status = gi_status r, gr_to_status = status,
    gr_reviewer = who, gr_note = py_strip memo, gr_created_at = utc (ge_clock env) 0\<rparr>"
  have db': "db' = db\<lparr>gd_issues := put_row gi_id r' (gd_issues db), gd_reviews := gd_reviews db @ [?v]\<rparr>"
    using assms(2) r v ok r' by (auto simp: review_issue_def find_issue_def Let_def split: if_splits)
  have rin: "r \<in> set (gd_issues db)" using find_in[OF r] by blast
  have d: "distinct (map gi_id (gd_issues db))" using assms(1) by (simp add: wf_gov_def issue_keys_ok_def)
  have same: "same_issue r r'" "gi_id r' = gi_id r" "(gi_tenant_id r', gi_fingerprint r') = (gi_tenant_id r, gi_fingerprint r)"
    by (simp_all add: r' reviewed_def same_issue_def issue_identity_def)
  have g: "get_row gi_id (gi_id r') (gd_issues db) = Some r" using get_row_distinct[OF d rin] same(2) by simp
  have keys: "map (\<lambda>r. (gi_tenant_id r, gi_fingerprint r)) (put_row gi_id r' (gd_issues db)) = map (\<lambda>r. (gi_tenant_id r, gi_fingerprint r)) (gd_issues db)"
    by (rule moves_map[OF list_all2_put_row[OF same_issue_refl d g same(1)]]) (auto simp: same_issue_def issue_identity_def)
  have rv: "reviews_of db' j = reviews_of db j @ (if j = gi_id r then [?v] else [])" for j
    by (simp add: db' reviews_of_def)
  have "explained (reviews_of db (gi_id r)) r" using assms(1) rin by (simp add: wf_gov_def)
  then have e1: "explained (reviews_of db (gi_id r) @ [?v]) r'"
    using transition_ok[OF v] ok by (auto simp: explained_def review_path_snoc review_ok_def r' reviewed_def issue_decision_def)
  have ex: "explained (reviews_of db' (gi_id x)) x" if "x \<in> set (gd_issues db')" for x
  proof -
    have "x = r' \<or> x \<in> set (gd_issues db) \<and> gi_id x \<noteq> gi_id r'"
      using put_row_set[of x gi_id r' "gd_issues db"] that by (simp add: db')
    then show ?thesis using e1 assms(1) unfolding rv by (auto simp: same(2) wf_gov_def)
  qed
  have sub: "gr_issue_id ` set (gd_reviews db') \<subseteq> gi_id ` set (gd_issues db')"
    using assms(1) rin arg_cong[OF map_key_put_row[of gi_id r' "gd_issues db"], of set] by (auto simp: db' wf_gov_def)
  have ok': "issue_keys_ok (gd_issues db')"
    using assms(1) keys by (simp add: db' wf_gov_def issue_keys_ok_def table_simps)
  have "grows same_issue (gd_issues db) (gd_issues db')"
    unfolding db' by (simp add: grows_put[OF same_issue_refl d g same(1)])
  moreover have "grows (=) (gd_reviews db) (gd_reviews db')" unfolding db' by (simp add: grows_append)
  ultimately show ?thesis using ex sub ok' by (simp add: gov_step_ok_def wf_gov_def)
qed

lemma upsert_db:
  "upsert_metadata env d t v who db = Inr (vw, nw, ev, db') \<Longrightarrow> gd_issues db' = gd_issues db \<and> gd_reviews db' = gd_reviews db"
  by (auto simp: upsert_metadata_def Let_def split: sum.splits if_splits)

lemma gov_step_wf:
  assumes "wf_gov db"
  shows "gov_step_ok db (gov_step op db)"
proof (cases op)
  case (EditMeta env d t v who)
  with assms show ?thesis by (auto dest!: upsert_db intro: gov_step_same split: sum.splits)
next
  case (ScanAll env cfg payload t)
  show ?thesis
  proof (cases "handle_knowledge_governance_scan env cfg payload t db")
    case (Inl e)
    with ScanAll assms show ?thesis by (simp add: gov_step_same)
  next
    case (Inr x)
    obtain res ev db' where x: "x = (res, ev, db')" by (cases x)
    with Inr obtain t' opts where "run_governance_scan env cfg t' opts db = Inr (res, ev, db')"
      by (auto simp: handle_knowledge_governance_scan_def split: sum.splits)
    from scan_db[OF this] scan_keeps_wf[OF assms] show ?thesis using ScanAll Inr x by auto
  qed
next
  case (ReviewIssue env i t status memo who)
  with assms review_keeps_wf[OF assms] show ?thesis by (auto intro: gov_step_same split: sum.splits)
qed

interpretation issues: growing_table gov_step wf_gov gd_issues gi_id same_issue
proof
  show "wf_gov db \<Longrightarrow> wf_gov (gov_step op db)" for op db using gov_step_wf[of db op] by (simp add: gov_step_ok_def)
  show "wf_gov db \<Longrightarrow> grows same_issue (gd_issues db) (gd_issues (gov_step op db))" for db op
    using gov_step_wf[of db op] by (simp add: gov_step_ok_def)
qed (auto simp: same_issue_def issue_identity_def)

interpretation reviews: growing_table gov_step wf_gov gd_reviews gr_id "(=)"
proof
  show "wf_gov db \<Longrightarrow> grows (=) (gd_reviews db) (gd_reviews (gov_step op db))" for db op
    using gov_step_wf[of db op] by (simp add: gov_step_ok_def)
qed simp_all

lemma grows_eq: "grows (=) xs ys \<longleftrightarrow> (\<exists>new. ys = xs @ new)"
  by (auto simp: grows_def list.rel_eq)

text \<open>C5: Through any run of metadata changes, scans and reviews, an issue keeps its document, its type
  and its fingerprint and is never counted less often. Its reviews are only added to: they lead from
  open to the status it has by admitted changes, each closing one with a note, and the last one is
  the decision the issue shows. So without a review of it, no scan reopens, resolves or reassigns it.
\<close>

theorem reviews_explain_the_status:
  assumes "wf_gov db" and "get_row gi_id i (gd_issues db) = Some r"
  shows "\<exists>r' new. get_row gi_id i (gd_issues (fold gov_step ops db)) = Some r' \<and>
    issue_identity r' = issue_identity r \<and> gi_occurrence_count r \<le> gi_occurrence_count r' \<and>
    reviews_of (fold gov_step ops db) i = reviews_of db i @ new \<and>
    explained (reviews_of db i @ new) r' \<and> (new = [] \<longrightarrow> issue_decision r' = issue_decision r)"
proof -
  let ?db = "fold gov_step ops db"
  from issues.row_persists[OF assms, of ops] obtain r' where r': "get_row gi_id i (gd_issues ?db) = Some r'" "same_issue r r'" by blast
  from reviews.run_grows[OF assms(1), of ops] obtain new where "gd_reviews ?db = gd_reviews db @ new"
    by (auto simp: grows_eq)
  then have rv: "reviews_of ?db i = reviews_of db i @ filter (\<lambda>v. gr_issue_id v = i) new" by (simp add: reviews_of_def)
  have ex: "explained (reviews_of ?db i) r'"
    using issues.run_inv[OF assms(1), of ops] get_row_in[OF r'(1)] get_row_key[OF r'(1)] by (auto simp: wf_gov_def)
  have "explained (reviews_of db i) r"
    using assms(1) get_row_in[OF assms(2)] get_row_key[OF assms(2)] by (auto simp: wf_gov_def)
  with ex rv r' show ?thesis
    by (intro exI[of _ r'] exI[of _ "filter (\<lambda>v. gr_issue_id v = i) new"]) (auto simp: explained_def same_issue_def)
qed

text \<open>An expired document of one tenant, with the issue an earlier scan opened, and an issue of another.\<close>

definition demo_gov_env :: "pystr \<Rightarrow> time \<Rightarrow> gov_env" where
  "demo_gov_env uuid t = \<lparr>ge_clock = at_time t, ge_uuid = (\<lambda>_. uuid), ge_bus_enable = True, ge_visit = id\<rparr>"

definition demo_meta :: doc_metadata where
  "demo_meta = (fresh_metadata (at_time 0) (asc ''d1'') (asc ''t1'') (asc ''ann''))\<lparr>dm_owner := asc ''ann'',
     dm_applicable_region := asc ''north'', dm_effective_at := Some 0, dm_expires_at := Some 10, dm_review_interval_days := Some 30,
     dm_version_label := asc ''v1'', dm_version_status := asc ''active''\<rparr>"

definition demo_doc :: kb_document where
  "demo_doc = \<lparr>dc_id = asc ''d1'', dc_doc_name = asc ''manual'', dc_file_size = 0, dc_status = [],
     dc_chunk_count = 0, dc_dept = [], dc_allowed_roles = [], dc_tenant_id = asc ''t1'', dc_doc_type = [],
     dc_equipment_tags = [], dc_created_at = 0\<rparr>"

definition other_issue :: gov_issue where
  "other_issue = \<lparr>gi_id = asc ''i2'', gi_tenant_id = asc ''t2'', gi_fingerprint = asc ''f2'', gi_issue_type = asc ''expired'',
     gi_severity = asc ''critical'', gi_status = asc ''open'', gi_doc_id = asc ''d2'', gi_related_doc_id = None, gi_title = [],
     gi_summary = [], gi_evidence_json = [], gi_occurrence_count = 1, gi_detected_at = 5, gi_last_seen_at = 5, gi_reviewer = [],
     gi_review_note = [], gi_reviewed_at = None, gi_updated_at = 5\<rparr>"

definition demo_gov :: gov_db where
  "demo_gov = \<lparr>gd_documents = [demo_doc], gd_chunks = [], gd_metadata = [demo_meta], gd_issues = [other_issue], gd_reviews = [],
     gd_feedbacks = []\<rparr>"

definition quality_off :: quality_settings where
  "quality_off = \<lparr>qy_enable = False, qy_window_days = 7, qy_threshold = 30, qy_min_count = 3\<rparr>"

definition demo_review :: "gov_op list" where
  "demo_review = [ScanAll (demo_gov_env (asc ''i1'') 20) quality_off [] (asc ''t2''),
     ReviewIssue (demo_gov_env (asc ''v1'') 30) (asc ''i2'') (asc ''t2'') (asc ''resolved'') (asc ''done'') (asc ''bob''),
     ScanAll (demo_gov_env (asc ''i3'') 40) quality_off [] (asc ''t1'')]"

lemma demo_gov_wf: "wf_gov demo_gov"
  by (simp add: wf_gov_def demo_gov_def issue_keys_ok_def reviews_of_def explained_def issue_decision_def undecided_def other_issue_def)

theorem reviews_explain_the_status_witness:
  "\<exists>r' new. get_row gi_id (asc ''i2'') (gd_issues (fold gov_step demo_review demo_gov)) = Some r' \<and>
     issue_identity r' = issue_identity other_issue \<and> reviews_of (fold gov_step demo_review demo_gov) (asc ''i2'') = new \<and> explained new r'"
proof -
  have g: "get_row gi_id (asc ''i2'') (gd_issues demo_gov) = Some other_issue" by (simp add: demo_gov_def other_issue_def)
  have "reviews_of demo_gov (asc ''i2'') = []" by (simp add: demo_gov_def reviews_of_def)
  with reviews_explain_the_status[OF demo_gov_wf g, of demo_review] show ?thesis by auto
qed

section \<open>Scans and tenants\<close>

lemma scan_moves_others: "scan_moves t xs ys \<Longrightarrow> filter (\<lambda>r. gi_tenant_id r \<noteq> t) ys = filter (\<lambda>r. gi_tenant_id r \<noteq> t) xs"
proof -
  assume "scan_moves t xs ys"
  then obtain mid new where mn: "ys = mid @ new" "list_all2 (scanned t) xs mid" "\<forall>r \<in> set new. gi_tenant_id r = t"
    unfolding scan_moves_def by blast
  have "filter (\<lambda>r. gi_tenant_id r \<noteq> t) mid = filter (\<lambda>r. gi_tenant_id r \<noteq> t) xs"
    using mn(2) by (induction rule: list_all2_induct) (auto simp: scanned_def issue_identity_def)
  with mn(1,3) show ?thesis by (simp add: filter_empty_conv)
qed

lemma scan_runs_for_context_tenant:
  assumes "handle_knowledge_governance_scan env cfg payload t db = Inr (res, ev, db')" and "t \<noteq> []"
  shows "\<exists>opts. options_of payload = Inr opts \<and> run_governance_scan env cfg t opts db = Inr (res, ev, db')"
  using assms by (auto simp: handle_knowledge_governance_scan_def scan_tenant_def split: sum.splits)

text \<open>C25: A scan that runs as a task of a tenant works for that tenant, whatever tenant its payload
  names: it changes nothing but issues, the issues of all other tenants stay as they are, and no
  issue disappears.
\<close>

theorem scans_stay_in_their_tenant:
  assumes "handle_knowledge_governance_scan env cfg payload t db = Inr (res, ev, db')" and "t \<noteq> []"
  shows "db' = db\<lparr>gd_issues := gd_issues db'\<rparr> \<and>
    filter (\<lambda>r. gi_tenant_id r \<noteq> t) (gd_issues db') = filter (\<lambda>r. gi_tenant_id r \<noteq> t) (gd_issues db) \<and>
    grows same_issue (gd_issues db) (gd_issues db')"
proof -
  from scan_runs_for_context_tenant[OF assms] scan_db obtain issues
    where "db' = db\<lparr>gd_issues := issues\<rparr>" "scan_moves t (gd_issues db) issues" by blast
  then show ?thesis using scan_moves_others scan_moves_grows by simp
qed

definition demo_payload :: "(pystr \<times> json) list" where
  "demo_payload = [(asc ''tenant_id'', JStr (asc ''t2'')), (asc ''include_conflicts'', JBool False)]"

text \<open>The payload names the other tenant; the scan opens an issue for the document of its own.\<close>

theorem scans_stay_in_their_tenant_witness:
  "\<exists>res ev db'. handle_knowledge_governance_scan (demo_gov_env (asc ''i1'') 20) quality_off demo_payload (asc ''t1'') demo_gov = Inr (res, ev, db') \<and>
     filter (\<lambda>r. gi_tenant_id r \<noteq> asc ''t1'') (gd_issues db') = [other_issue] \<and>
     map (\<lambda>r. (gi_tenant_id r, gi_doc_id r)) (gd_issues db') = [(asc ''t2'', asc ''d2''), (asc ''t1'', asc ''d1'')]"
proof -
  let ?env = "demo_gov_env (asc ''i1'') 20"
  have o1: "options_of demo_payload = Inr (default_scan_options\<lparr>so_include_conflicts := False\<rparr>)" (is "_ = Inr ?opts")
    by (simp add: options_of_def demo_payload_def int_option_def json_get_def default_scan_options_def)
  have l: "load_snapshots (asc ''t1'') ?opts demo_gov = [\<lparr>sp_doc_id = asc ''d1'', sp_doc_name = asc ''manual'', sp_doc_type = [],
      sp_equipment_tags = [], sp_chunks = [], sp_metadata = Some demo_meta\<rparr>]" (is "_ = [?snap]")
    by (simp add: load_snapshots_def default_scan_options_def demo_gov_def demo_doc_def snapshot_of_def metadata_of_def demo_meta_def fresh_metadata_def)
  obtain f where f: "scan_findings ?env ?opts [?snap] = [f]" "if_doc_id f = asc ''d1''"
    by (simp add: scan_findings_def default_scan_options_def build_lifecycle_findings_def metadata_finding_def missing_metadata_fields_def
        demo_meta_def fresh_metadata_def blank_def py_strip_def py_isspace_def asc_def VERSION_STATUSES_def effective_finding_def
        expiry_finding_def review_finding_def demo_gov_env_def lifecycle_finding_def)
  have p: "persist_findings ?env (asc ''t1'') [f] 20 [other_issue] =
      Inr (1, 0, [other_issue, new_issue (at_time 20) (asc ''i1'') (asc ''t1'') 20 (finding_fingerprint f) f])"
    by (simp add: persist_findings_def unique_findings_def persist_one_def other_issue_def demo_gov_env_def issue_keys_ok_def new_issue_def)
  obtain res ev db' where r: "handle_knowledge_governance_scan ?env quality_off demo_payload (asc ''t1'') demo_gov = Inr (res, ev, db')"
      "gd_issues db' = [other_issue, new_issue (at_time 20) (asc ''i1'') (asc ''t1'') 20 (finding_fingerprint f) f]"
    using p f l o1 by (simp add: handle_knowledge_governance_scan_def scan_tenant_def run_governance_scan_def Let_def
        aggregate_doc_quality_def quality_off_def demo_gov_env_def demo_gov_def)
  with scans_stay_in_their_tenant[OF r(1)] f(2) show ?thesis
    by (intro exI[of _ res] exI[of _ ev] exI[of _ db']) (simp add: demo_gov_def new_issue_def other_issue_def)
qed

section \<open>Expired documents\<close>

text \<open>A document whose scan reports that it has expired can still be retrieved in exactly one
  situation: its metadata give no effective date or it is a draft. For every other document a finding
  of this kind means that retrieval leaves it out at the same time.
\<close>

theorem expired_but_retrievable:
  assumes "sp_metadata doc = Some m"
  shows "(\<exists>f \<in> set (build_lifecycle_findings now days doc). if_issue_type f = asc ''expired'') \<and> is_retrievable (Some m) now \<longleftrightarrow>
    \<not> dm_is_permanent m \<and> (\<exists>t. dm_expires_at m = Some t \<and> t < now) \<and>
    (dm_version_status m = asc ''draft'' \<or>
     dm_version_status m \<notin> {asc ''superseded'', asc ''withdrawn''} \<and> dm_effective_at m = None)"
proof -
  let ?closed = "dm_version_status m \<in> {asc ''superseded'', asc ''withdrawn''}"
  have "if_issue_type f \<noteq> asc ''expired''" if "f \<in> set (metadata_finding doc) \<union> set (effective_finding now doc m) \<union> set (review_finding now doc m)" for f
    using that by (auto simp: metadata_finding_def effective_finding_def review_finding_def lifecycle_finding_def Let_def split: if_splits option.splits)
  moreover have "(\<exists>f \<in> set (expiry_finding now days doc m). if_issue_type f = asc ''expired'') \<longleftrightarrow>
      \<not> dm_is_permanent m \<and> (\<exists>t. dm_expires_at m = Some t \<and> t < now)"
    by (cases "dm_expires_at m") (simp_all add: expiry_finding_def lifecycle_finding_def)
  ultimately have "(\<exists>f \<in> set (build_lifecycle_findings now days doc). if_issue_type f = asc ''expired'') \<longleftrightarrow>
      \<not> ?closed \<and> \<not> dm_is_permanent m \<and> (\<exists>t. dm_expires_at m = Some t \<and> t < now)"
    by (simp add: build_lifecycle_findings_def assms bex_Un ball_Un)
  moreover have "is_retrievable (Some m) now \<longleftrightarrow> \<not> ?closed \<and> (dm_version_status m = asc ''draft'' \<or> dm_effective_at m = None \<or>
      (\<exists>e. dm_effective_at m = Some e \<and> e \<le> now) \<and> (dm_is_permanent m \<or> (\<forall>t. dm_expires_at m = Some t \<longrightarrow> now \<le> t)))"
    by (auto simp: is_retrievable_def effective_state_def split: option.splits)
  ultimately show ?thesis by fastforce
qed

theorem expired_but_retrievable_witness:
  "(\<exists>f \<in> set (build_lifecycle_findings 20 30 \<lparr>sp_doc_id = asc ''d1'', sp_doc_name = asc ''manual'', sp_doc_type = [],
      sp_equipment_tags = [], sp_chunks = [], sp_metadata = Some (demo_meta\<lparr>dm_version_status := asc ''draft''\<rparr>)\<rparr>). if_issue_type f = asc ''expired'') \<and>
   is_retrievable (Some (demo_meta\<lparr>dm_version_status := asc ''draft''\<rparr>)) 20"
  by (subst expired_but_retrievable[where m = "demo_meta\<lparr>dm_version_status := asc ''draft''\<rparr>"])
    (simp_all add: demo_meta_def fresh_metadata_def)

section \<open>One scan per hour\<close>

lemma task_by_key_unique:
  assumes "task_inv tbl" and "t \<in> set tbl" and "has_task_key tenant ty k t"
  shows "find (has_task_key tenant ty k) tbl = Some t"
proof -
  obtain u where u: "find (has_task_key tenant ty k) tbl = Some u"
    using assms(2,3) by (cases "find (has_task_key tenant ty k) tbl") (auto simp: find_None_iff)
  have "inj_on task_key (set (filter (\<lambda>t. pt_idempotency_key t \<noteq> None) tbl))"
    using assms(1) by (auto simp: task_inv_def task_keys_def filter_map comp_def task_key_def distinct_map case_prod_beta)
  with find_in[OF u] assms(2,3) have "u = t"
    by (auto simp: has_task_key_def task_key_def dest!: inj_onD[where x = u and y = t])
  with u show ?thesis by simp
qed

lemma strftime_same_hour: "t div seconds 3600 = t' div seconds 3600 \<Longrightarrow> strftime_hour t = strftime_hour t'"
proof -
  assume a: "t div seconds 3600 = t' div seconds 3600"
  have d: "x div seconds 86400 = x div seconds 3600 div 24" for x
    using zdiv_zmult2_eq[of 24 x "seconds 3600"] by (simp add: seconds_def)
  have m: "x mod seconds 86400 div seconds 3600 = x div seconds 3600 mod 24" for x
    using zmod_zmult2_eq[of 24 x "seconds 3600"] by (simp add: seconds_def)
  show ?thesis by (simp only: strftime_hour_def d m a)
qed

lemma py_strip_start: "s \<noteq> [] \<Longrightarrow> \<not> py_isspace (hd s) \<Longrightarrow> py_strip s \<noteq> []"
  using hd_dropWhile_rev_aux[of s py_isspace] by (cases s) (auto simp: py_strip_def)

lemma scan_key_stripped: "str_or_none (py_strip (scan_key t now opts)) = Some (py_strip (scan_key t now opts))"
proof -
  have "py_strip (scan_key t now opts) \<noteq> []" by (rule py_strip_start) (simp_all add: scan_key_def asc_def py_isspace_def)
  then show ?thesis by (simp add: str_or_none_def)
qed

lemma scan_type: "py_strip (asc ''knowledge.scan'') \<noteq> []"
  by (rule py_strip_start) (simp_all add: asc_def py_isspace_def)

lemma scan_request_key: "request_key (scan_task_args t now opts) =
   Some (norm_tenant t, py_strip (asc ''knowledge.scan''), py_strip (scan_key t now opts))"
  by (simp add: request_key_def scan_task_args_def default_enqueue_args_def scan_key_stripped)

lemma scan_task_type: "ea_task_type (scan_task_args t now opts) = asc ''knowledge.scan''"
  by (simp add: scan_task_args_def default_enqueue_args_def)

lemma scan_payload_wf: "wf_json (JObj (scan_payload t opts))"
  by (simp add: scan_payload_def list_all_iff)

lemma first_scan:
  "enqueue_governance_scan c c' uuid t opts [] =
     (let task = new_task c' uuid (JObj (scan_payload t opts)) (scan_task_args t (utc c 0) opts)
      in Inr ((uuid, scan_key t (utc c 0) opts), [task]))"
proof -
  have "json_safe (payload_or_empty (ea_payload (scan_task_args t (utc c 0) opts))) = Inr (JObj (scan_payload t opts))"
    using json_safe_of_json[OF scan_payload_wf[of t opts]] by (simp add: scan_task_args_def payload_or_empty_def)
  then show ?thesis
    by (simp add: enqueue_governance_scan_def enqueue_task_def enqueue_task_record_def Let_def scan_task_type scan_type
        insert_task_def new_task_def split: option.split)
qed

text \<open>When a tenant asks for a scan with the same options again within an hour, the request yields
  the task of the first one and adds none, whatever happened to the tasks in between: also when that
  scan has already finished or failed for good.
\<close>

theorem one_scan_per_hour:
  assumes "task_inv tbl" and "enqueue_governance_scan c c' uuid t opts tbl = Inr ((i, key), tbl')"
    and "utc c 0 div seconds 3600 = utc d 0 div seconds 3600"
  shows "enqueue_governance_scan d d' uuid' t opts (fold task_step ops tbl') = Inr ((i, key), fold task_step ops tbl')"
proof -
  let ?a = "scan_task_args t (utc c 0) opts"
  let ?k = "(norm_tenant t, py_strip (asc ''knowledge.scan''), py_strip (scan_key t (utc c 0) opts))"
  have same: "scan_key t (utc d 0) opts = scan_key t (utc c 0) opts"
    by (simp add: scan_key_def strftime_same_hour[OF assms(3)])
  then have args: "scan_task_args t (utc d 0) opts = ?a" by (simp add: scan_task_args_def)
  obtain task where e: "enqueue_now (c', uuid, ?a) tbl = Inr (task, tbl')" "pt_id task = i" "key = scan_key t (utc c 0) opts"
    using assms(2) by (auto simp: enqueue_governance_scan_def enqueue_task_def enqueue_now_def split: sum.splits)
  have inv: "task_inv tbl'"
    using task_step_inv[OF assms(1), of "Enqueue c' uuid tbl tbl ?a"] e(1) by (simp add: ok_db_def enqueue_now_def)
  from tq_idem.found[OF e(1), of ?k] have f: "find (has_task_key (fst ?k) (fst (snd ?k)) (snd (snd ?k))) tbl' = Some task"
    by (simp add: scan_request_key task_by_key_def)
  from run_row[OF inv get_row_distinct[of pt_id tbl' task], of ops] find_in[OF f] inv
  obtain task' where t': "get_row pt_id (pt_id task) (fold task_step ops tbl') = Some task'"
      "has_task_key (fst ?k) (fst (snd ?k)) (snd (snd ?k)) task'"
    by (auto simp: task_inv_def has_task_key_def)
  from task_by_key_unique[OF tq.run_inv[OF inv] get_row_in[OF t'(1)] t'(2)]
  have "enqueue_now (d', uuid', ?a) (fold task_step ops tbl') = Inr (task', fold task_step ops tbl')"
    by (intro tq_idem.hit[where k = ?k]) (simp_all add: scan_request_key task_by_key_def scan_task_type scan_type)
  then show ?thesis
    using get_row_key[OF t'(1)] e(2,3) same by (simp add: enqueue_governance_scan_def args enqueue_task_def enqueue_now_def)
qed

definition scan_run :: "task_op list" where
  "scan_run = [Claim (at_time 5) [] (asc ''default'') (asc ''w''), Complete (at_time 6) (asc ''u1'') (asc ''w'') (PDict [])]"

theorem one_scan_per_hour_witness:
  "\<exists>i key tbl'. enqueue_governance_scan (at_time 0) (at_time 0) (asc ''u1'') (asc ''t1'') default_scan_options [] = Inr ((i, key), tbl') \<and>
     length tbl' = 1 \<and>
     enqueue_governance_scan (at_time 9) (at_time 9) (asc ''u2'') (asc ''t1'') default_scan_options (fold task_step scan_run tbl') =
       Inr ((i, key), fold task_step scan_run tbl')"
proof -
  have inv: "task_inv []" by (simp add: task_inv_def task_keys_def)
  obtain i key tbl' where e: "enqueue_governance_scan (at_time 0) (at_time 0) (asc ''u1'') (asc ''t1'') default_scan_options [] = Inr ((i, key), tbl')"
      "length tbl' = 1" by (simp add: first_scan Let_def)
  from one_scan_per_hour[OF inv e(1), of "at_time 9" "at_time 9" "asc ''u2''" scan_run] e show ?thesis by (simp add: seconds_def)
qed

end
