(* ===== verification/ConflictClaims.thy ===== *)
theory ConflictClaims
  imports GovRules QueryRouting
begin

text \<open>
  The search for contradicting documents is sound and complete as long as the table of pairs does not
  fill up, which up to 77 documents it cannot.
\<close>

section \<open>Scopes and pairs\<close>

lemma map_of_map_default:
  "map_of (AList.map_default k v f al) k' = (if k' = k then Some (case map_of al k of None \<Rightarrow> v | Some x \<Rightarrow> f x) else map_of al k')"
  by (induction al) auto

lemma keys_map_default: "fst ` set (AList.map_default k v f al) = insert k (fst ` set al)"
  by (induction al) auto

lemma distinct_map_default: "distinct (map fst al) \<Longrightarrow> distinct (map fst (AList.map_default k v f al))"
  by (induction al) (auto simp: keys_map_default)

text \<open>The documents of a scope, as a set.\<close>

definition docs_in :: "(pystr \<times> nat list) list \<Rightarrow> pystr \<Rightarrow> nat set" where
  "docs_in tbl s = set (case map_of tbl s of None \<Rightarrow> [] | Some is \<Rightarrow> is)"

lemma docs_in_add: "docs_in (AList.map_default s [i] (\<lambda>is. is @ [i]) tbl) s' = docs_in tbl s' \<union> (if s' = s then {i} else {})"
  by (auto simp: docs_in_def map_of_map_default split: option.splits)

lemma docs_in_doc:
  "docs_in (fold (\<lambda>scope tbl. AList.map_default scope [i] (\<lambda>is. is @ [i]) tbl) ss tbl) s = docs_in tbl s \<union> (if s \<in> set ss then {i} else {})"
  by (induction ss arbitrary: tbl) (auto simp: docs_in_add)

lemma docs_in_docs:
  "docs_in (fold (\<lambda>(i, doc). fold (\<lambda>scope tbl. AList.map_default scope [i] (\<lambda>is. is @ [i]) tbl) (visit (scope_keys doc))) ids tbl) s =
     docs_in tbl s \<union> {i. \<exists>doc. (i, doc) \<in> set ids \<and> s \<in> set (visit (scope_keys doc))}"
  by (induction ids arbitrary: tbl) (auto simp: docs_in_doc split: if_splits)

lemma docs_of_scope:
  assumes "\<And>xs. set (visit xs) = set xs"
  shows "docs_in (scope_docs visit docs) s = {i. i < length docs \<and> s \<in> set (scope_keys (docs ! i))}"
  unfolding scope_docs_def docs_in_docs by (auto simp: docs_in_def[of "[]"] assms in_set_enumerate_eq)

lemma scope_docs_distinct: "distinct (map fst (scope_docs visit docs))"
proof -
  have 1: "distinct (map fst tbl) \<Longrightarrow> distinct (map fst (fold (\<lambda>scope tbl. AList.map_default scope [i] (\<lambda>is. is @ [i]) tbl) ss tbl))" for i :: nat and ss :: "pystr list" and tbl
    by (induction ss arbitrary: tbl) (auto simp: distinct_map_default)
  have "distinct (map fst tbl) \<Longrightarrow> distinct (map fst (fold (\<lambda>(i, doc). fold (\<lambda>scope tbl. AList.map_default scope [i] (\<lambda>is. is @ [i]) tbl) (visit (scope_keys doc))) ids tbl))" for ids :: "(nat \<times> doc_snapshot) list" and tbl
  proof (induction ids arbitrary: tbl)
    case (Cons x ids)
    from Cons.IH[OF 1[OF Cons.prems]] show ?case by (cases x) simp
  qed simp
  then show ?thesis by (simp add: scope_docs_def)
qed

lemma set_pairs_of: "sorted is \<Longrightarrow> distinct is \<Longrightarrow> set (pairs_of is) = {(i, j). i < j \<and> i \<in> set is \<and> j \<in> set is}"
  by (induction "is") (auto simp: order_less_le)

definition pair_has :: "pair_scopes \<Rightarrow> nat \<times> nat \<Rightarrow> pystr \<Rightarrow> bool" where
  "pair_has tbl p s \<longleftrightarrow> s \<in> set (case map_of tbl p of None \<Rightarrow> [] | Some ss \<Rightarrow> ss)"

lemma pair_has_Nil: "\<not> pair_has [] p s"
  by (simp add: pair_has_def)

text \<open>Room for every pair below a bound.\<close>

lemma pairs_fit:
  fixes tbl :: pair_scopes
  assumes "distinct (map fst tbl)" and "fst ` set tbl \<subseteq> {(i, j). i < j \<and> j < n}" and "n \<le> 77"
  shows "length tbl < MAX_PAIRS"
proof -
  let ?P = "{(i, j). i < j \<and> j < n}"
  have P: "?P \<subseteq> (\<lambda>(j, i). (i, j)) ` (SIGMA j:{..<n}. {..<j})" by force
  have fin: "finite (SIGMA j:{..<n}. {..<j})" by (rule finite_SigmaI) simp_all
  have "length tbl = card (fst ` set tbl)" using distinct_card[OF assms(1)] by simp
  also have "\<dots> \<le> card ?P" by (rule card_mono[OF finite_subset[OF P] assms(2)]) simp
  also have "\<dots> \<le> card (SIGMA j:{..<n}. {..<j})"
    using card_mono[OF finite_imageI[OF fin] P] card_image_le[OF fin] by (meson order_trans)
  also have "\<dots> = \<Sum>{..<n}" by (simp add: card_SigmaI)
  also have "\<dots> \<le> \<Sum>{..<77}" using assms(3) by (intro sum_mono2) auto
  also have "\<dots> < MAX_PAIRS" by code_simp
  finally show ?thesis .
qed

lemma pair_has_add:
  "pair_has (AList.map_default p [s] (\<lambda>ss. if s \<in> set ss then ss else ss @ [s]) tbl) q s' \<longleftrightarrow> pair_has tbl q s' \<or> (q = p \<and> s' = s)"
  by (auto simp: pair_has_def map_of_map_default split: option.splits)

lemma add_pairs_room:
  assumes "distinct (map fst tbl)" and "fst ` set tbl \<union> set ps \<subseteq> {(i, j). i < j \<and> j < n}" and "n \<le> 77"
  shows "distinct (map fst (add_pairs s ps tbl)) \<and> fst ` set (add_pairs s ps tbl) = fst ` set tbl \<union> set ps \<and>
    (\<forall>q s'. pair_has (add_pairs s ps tbl) q s' \<longleftrightarrow> pair_has tbl q s' \<or> (q \<in> set ps \<and> s' = s))"
  using assms(1,2)
proof (induction ps arbitrary: tbl)
  case (Cons p ps)
  have "length tbl < MAX_PAIRS" using Cons.prems by (intro pairs_fit[OF _ _ assms(3)]) auto
  moreover have "distinct (map fst (AList.map_default p [s] (\<lambda>ss. if s \<in> set ss then ss else ss @ [s]) tbl))"
    by (rule distinct_map_default[OF Cons.prems(1)])
  ultimately show ?case using Cons.prems(2) Cons.IH[of "AList.map_default p [s] (\<lambda>ss. if s \<in> set ss then ss else ss @ [s]) tbl"]
    by (auto simp: keys_map_default pair_has_add)
qed (auto simp: pair_has_def)

lemma pair_scopes_room:
  assumes "\<And>s is. (s, is) \<in> set sds \<Longrightarrow> set is \<subseteq> {..<n}" and "n \<le> 77"
    and "distinct (map fst tbl)" and "fst ` set tbl \<subseteq> {(i, j). i < j \<and> j < n}"
  shows "let tbl' = fold (\<lambda>(scope, is). add_pairs scope (pairs_of (sort (fromkeys is)))) sds tbl in
    distinct (map fst tbl') \<and> fst ` set tbl' \<subseteq> {(i, j). i < j \<and> j < n} \<and>
    (\<forall>i j s. pair_has tbl' (i, j) s \<longleftrightarrow> pair_has tbl (i, j) s \<or> (\<exists>is. (s, is) \<in> set sds \<and> i < j \<and> {i, j} \<subseteq> set is))"
  using assms(1,3,4)
proof (induction sds arbitrary: tbl)
  case (Cons x sds)
  obtain s "is" where x: "x = (s, is)" by (cases x)
  have ps: "set (pairs_of (sort (fromkeys is))) = {(i, j). i < j \<and> i \<in> set is \<and> j \<in> set is}" by (simp add: set_pairs_of)
  have sub: "set is \<subseteq> {..<n}" using Cons.prems(1) x by auto
  let ?t = "add_pairs s (pairs_of (sort (fromkeys is))) tbl"
  have "fst ` set tbl \<union> set (pairs_of (sort (fromkeys is))) \<subseteq> {(i, j). i < j \<and> j < n}" using Cons.prems(3) sub by (auto simp: ps)
  from add_pairs_room[OF Cons.prems(2) this assms(2), of s] have t: "distinct (map fst ?t)" "fst ` set ?t \<subseteq> {(i, j). i < j \<and> j < n}"
      "\<And>i j s'. pair_has ?t (i, j) s' \<longleftrightarrow> pair_has tbl (i, j) s' \<or> (i < j \<and> {i, j} \<subseteq> set is \<and> s' = s)"
    using Cons.prems(3) sub by (auto simp: ps)
  from Cons.IH[OF _ t(1,2)] Cons.prems(1) show ?case unfolding Let_def by (simp add: x t(3)) blast
qed simp

lemma map_default_nonempty:
  "\<forall>(k, v) \<in> set al. v \<noteq> [] \<Longrightarrow> \<forall>(k, v) \<in> set (AList.map_default p [s] (\<lambda>ss. if s \<in> set ss then ss else ss @ [s]) al). v \<noteq> []"
  by (induction al) auto

lemma add_pairs_nonempty: "\<forall>(k, v) \<in> set tbl. v \<noteq> [] \<Longrightarrow> \<forall>(k, v) \<in> set (add_pairs s ps tbl). v \<noteq> []"
  by (induction s ps tbl rule: add_pairs.induct) (simp_all add: map_default_nonempty)

lemma pair_scopes_nonempty:
  "\<forall>(k, v) \<in> set tbl. v \<noteq> [] \<Longrightarrow>
   \<forall>(k, v) \<in> set (fold (\<lambda>(scope, is). add_pairs scope (pairs_of (sort (fromkeys is)))) sds tbl). v \<noteq> []"
proof (induction sds arbitrary: tbl)
  case (Cons x sds)
  from Cons.IH[OF add_pairs_nonempty[OF Cons.prems]] show ?case by (cases x) simp
qed simp

text \<open>The pairs that are compared: those that share a scope.\<close>

definition share_scope :: "doc_snapshot \<Rightarrow> doc_snapshot \<Rightarrow> bool" where
  "share_scope a b \<longleftrightarrow> set (scope_keys a) \<inter> set (scope_keys b) \<noteq> {}"

lemma compared_pairs:
  assumes "\<And>xs. set (visit xs) = set xs" and "length docs \<le> 77"
  shows "(\<exists>scopes. ((i, j), scopes) \<in> set (pair_scopes_of (scope_docs visit docs))) \<longleftrightarrow>
    i < j \<and> j < length docs \<and> share_scope (docs ! i) (docs ! j)"
proof -
  let ?sds = "scope_docs visit docs"
  let ?tbl = "pair_scopes_of ?sds"
  have mem: "(s, is) \<in> set ?sds \<Longrightarrow> set is = {k. k < length docs \<and> s \<in> set (scope_keys (docs ! k))}" for s "is"
    using docs_of_scope[OF assms(1), of docs s] map_of_is_SomeI[OF scope_docs_distinct, of s "is" visit docs] by (simp add: docs_in_def)
  have some: "k < length docs \<Longrightarrow> s \<in> set (scope_keys (docs ! k)) \<Longrightarrow> \<exists>is. (s, is) \<in> set ?sds" for s k
    using docs_of_scope[OF assms(1), of docs s] by (cases "map_of ?sds s") (auto simp: docs_in_def dest: map_of_SomeD)
  have bounds: "\<And>s is. (s, is) \<in> set ?sds \<Longrightarrow> set is \<subseteq> {..<length docs}" using mem by auto
  have all: "distinct (map fst ?tbl) \<and> fst ` set ?tbl \<subseteq> {(i, j). i < j \<and> j < length docs} \<and>
      (\<forall>i j s. pair_has ?tbl (i, j) s \<longleftrightarrow> (\<exists>is. (s, is) \<in> set ?sds \<and> i < j \<and> {i, j} \<subseteq> set is))"
    using pair_scopes_room[of ?sds "length docs" "[]", OF bounds assms(2)]
    by (simp only: pair_scopes_of_def Let_def list.map distinct.simps pair_has_Nil simp_thms list.set image_empty empty_subsetI)
  then have d: "distinct (map fst ?tbl)" and h: "pair_has ?tbl (i, j) s \<longleftrightarrow> (\<exists>is. (s, is) \<in> set ?sds \<and> i < j \<and> {i, j} \<subseteq> set is)" for s
    by blast+
  have has: "pair_has ?tbl (i, j) s \<Longrightarrow> \<exists>scopes. ((i, j), scopes) \<in> set ?tbl" for s
    by (cases "map_of ?tbl (i, j)") (auto simp: pair_has_def dest: map_of_SomeD)
  have nonempty: "((i, j), scopes) \<in> set ?tbl \<Longrightarrow> \<exists>s. pair_has ?tbl (i, j) s" for scopes
    using pair_scopes_nonempty[of "[]" ?sds] map_of_is_SomeI[OF d, of "(i, j)" scopes]
    by (cases scopes) (auto simp: pair_scopes_of_def pair_has_def)
  have "(\<exists>scopes. ((i, j), scopes) \<in> set ?tbl) \<longleftrightarrow> (\<exists>s. pair_has ?tbl (i, j) s)"
    using nonempty has by blast
  also have "\<dots> \<longleftrightarrow> i < j \<and> j < length docs \<and> share_scope (docs ! i) (docs ! j)"
    using mem some unfolding h share_scope_def by fastforce
  finally show ?thesis .
qed


section \<open>Contradicting sentences\<close>

text \<open>Opposite directions, and similar enough.\<close>

definition contradict :: "sentence_record \<Rightarrow> sentence_record \<Rightarrow> bool" where
  "contradict a b \<longleftrightarrow> sr_polarity a \<noteq> 0 \<and> sr_polarity b \<noteq> 0 \<and> sr_polarity a \<noteq> sr_polarity b \<and>
     \<not> fless (text_similarity (sr_text a) (sr_text b)) SIMILAR"

lemma common_tokens: "length (filter (\<lambda>t. t \<in> set (normal_tokens b)) (normal_tokens a)) = card (set (normal_tokens a) \<inter> set (normal_tokens b))"
  by (simp add: distinct_length_filter normal_tokens_def Let_def Int_def conj_commute)

lemma text_similarity_sym: "text_similarity a b = text_similarity b a"
  by (simp add: text_similarity_def Let_def common_tokens Int_commute min.commute)

lemma contradict_sym: "contradict a b \<longleftrightarrow> contradict b a"
  by (auto simp: contradict_def text_similarity_sym[of "sr_text a"])

lemma negation_matches_iff:
  "negation_matches left right lrs rrs \<noteq> [] \<longleftrightarrow> (\<exists>a \<in> set lrs. \<exists>b \<in> set rrs. contradict a b)"
  by (auto simp: negation_matches_def MAX_EVIDENCE_def contradict_def Let_def)

text \<open>A finding of this kind on this pair of documents.\<close>

definition negation_on :: "pystr \<Rightarrow> pystr \<Rightarrow> issue_finding \<Rightarrow> bool" where
  "negation_on d e f \<longleftrightarrow> if_issue_type f = asc ''conflict_negation'' \<and>
     (if_doc_id f = d \<and> if_related_doc_id f = Some e \<or> if_doc_id f = e \<and> if_related_doc_id f = Some d)"

lemma finding_pair:
  "(\<exists>f \<in> set ((if neg = [] then [] else [conflict_finding ''conflict_negation'' m left right sh t s1 s2 dis neg]) @
     (if thr = [] then [] else [conflict_finding ''conflict_threshold'' m' left right sh' t' s1' s2' dis' thr])). negation_on d e f) \<longleftrightarrow>
   neg \<noteq> [] \<and> {d, e} = {sp_doc_id left, sp_doc_id right}"
  by (auto simp: conflict_finding_def negation_on_def doubleton_eq_iff)

lemma pair_findings_negation:
  "(\<exists>f \<in> set (pair_findings d1 d2 ss). negation_on d e f) \<longleftrightarrow>
     (\<exists>a \<in> set (sentence_records d1). \<exists>b \<in> set (sentence_records d2). contradict a b) \<and> {d, e} = {sp_doc_id d1, sp_doc_id d2}"
proof -
  have c: "(\<exists>a \<in> set (sentence_records d2). \<exists>b \<in> set (sentence_records d1). contradict a b) \<longleftrightarrow>
      (\<exists>a \<in> set (sentence_records d1). \<exists>b \<in> set (sentence_records d2). contradict a b)"
    using contradict_sym by blast
  show ?thesis
  proof (cases "sp_doc_id d2 < sp_doc_id d1")
    case True
    then show ?thesis
      by (simp only: pair_findings_def Let_def if_True prod.case finding_pair negation_matches_iff c insert_commute[of "sp_doc_id d2"])
  next
    case False
    then show ?thesis by (simp only: pair_findings_def Let_def if_False prod.case finding_pair negation_matches_iff)
  qed
qed

lemma detected:
  "(\<exists>f \<in> set (detect_potential_conflicts visit documents). P f) \<longleftrightarrow>
   (\<exists>i j ss. ((i, j), ss) \<in> set (pair_scopes_of (scope_docs visit (filter eligible documents))) \<and>
     (\<exists>f \<in> set (pair_findings (filter eligible documents ! i) (filter eligible documents ! j) ss). P f))"
  by (simp add: detect_potential_conflicts_def Let_def case_prod_beta) (metis fst_conv snd_conv surj_pair)

text \<open>C6: Among at most 77 documents that can be compared, the search reports a contradiction between two
  of them if and only if they share a scope and one of the first 300 sentences of the one demands
  what a similar one of the other forbids; the order in which the sets of scopes are visited does not
  matter. (From 78 documents on the table of 3000 pairs may be full and drop pairs.)
\<close>

theorem contradictions_are_found:
  assumes "\<And>xs. set (visit xs) = set xs" and "length (filter eligible documents) \<le> 77"
    and "distinct (map sp_doc_id documents)" and "d1 \<in> set documents" and "d2 \<in> set documents" and "d1 \<noteq> d2"
    and "eligible d1" and "eligible d2"
  shows "(\<exists>f \<in> set (detect_potential_conflicts visit documents). negation_on (sp_doc_id d1) (sp_doc_id d2) f) \<longleftrightarrow>
    share_scope d1 d2 \<and> (\<exists>a \<in> set (sentence_records d1). \<exists>b \<in> set (sentence_records d2). contradict a b)"
proof -
  let ?docs = "filter eligible documents"
  let ?c = "\<lambda>x y. \<exists>a \<in> set (sentence_records x). \<exists>b \<in> set (sentence_records y). contradict a b"
  have inj: "i < length ?docs \<Longrightarrow> j < length ?docs \<Longrightarrow> sp_doc_id (?docs ! i) = sp_doc_id (?docs ! j) \<Longrightarrow> i = j" for i j
    using distinct_map_filter[OF assms(3), of eligible] by (auto simp: distinct_conv_nth)
  obtain k l where kl: "k < length ?docs" "l < length ?docs" "?docs ! k = d1" "?docs ! l = d2"
    using assms(4,5,7,8) in_set_conv_nth[of d1 ?docs] in_set_conv_nth[of d2 ?docs] by auto
  have "(\<exists>f \<in> set (detect_potential_conflicts visit documents). negation_on (sp_doc_id d1) (sp_doc_id d2) f) \<longleftrightarrow>
      (\<exists>i j ss. ((i, j), ss) \<in> set (pair_scopes_of (scope_docs visit ?docs)) \<and> ?c (?docs ! i) (?docs ! j) \<and>
         {sp_doc_id d1, sp_doc_id d2} = {sp_doc_id (?docs ! i), sp_doc_id (?docs ! j)})"
    unfolding detected pair_findings_negation by blast
  also have "\<dots> \<longleftrightarrow> (\<exists>i j. i < j \<and> j < length ?docs \<and> share_scope (?docs ! i) (?docs ! j) \<and> ?c (?docs ! i) (?docs ! j) \<and>
         {sp_doc_id d1, sp_doc_id d2} = {sp_doc_id (?docs ! i), sp_doc_id (?docs ! j)})"
    using compared_pairs[OF assms(1,2)] by meson
  also have "\<dots> \<longleftrightarrow> share_scope d1 d2 \<and> ?c d1 d2"
  proof
    assume "\<exists>i j. i < j \<and> j < length ?docs \<and> share_scope (?docs ! i) (?docs ! j) \<and> ?c (?docs ! i) (?docs ! j) \<and>
         {sp_doc_id d1, sp_doc_id d2} = {sp_doc_id (?docs ! i), sp_doc_id (?docs ! j)}"
    then obtain i j where ij: "i < j" "j < length ?docs" "share_scope (?docs ! i) (?docs ! j)" "?c (?docs ! i) (?docs ! j)"
        "{sp_doc_id d1, sp_doc_id d2} = {sp_doc_id (?docs ! i), sp_doc_id (?docs ! j)}" by blast
    have "i < length ?docs" using ij(1,2) by simp
    with ij(2,5) kl(3,4) inj[OF kl(1)] inj[OF kl(2)] have "(i, j) = (k, l) \<or> (i, j) = (l, k)"
      unfolding doubleton_eq_iff by blast
    with ij(3,4) kl show "share_scope d1 d2 \<and> ?c d1 d2" using contradict_sym by (auto simp: share_scope_def Int_commute)
  next
    assume s: "share_scope d1 d2 \<and> ?c d1 d2"
    have "k \<noteq> l" using kl assms(6) by auto
    then show "\<exists>i j. i < j \<and> j < length ?docs \<and> share_scope (?docs ! i) (?docs ! j) \<and> ?c (?docs ! i) (?docs ! j) \<and>
         {sp_doc_id d1, sp_doc_id d2} = {sp_doc_id (?docs ! i), sp_doc_id (?docs ! j)}"
    proof (cases "k < l")
      case True
      with s kl show ?thesis by (intro exI[of _ k] exI[of _ l]) simp
    next
      case False
      with s kl \<open>k \<noteq> l\<close> contradict_sym show ?thesis
        by (intro exI[of _ l] exI[of _ k]) (auto simp: share_scope_def Int_commute insert_commute)
    qed
  qed
  finally show ?thesis .
qed

section \<open>An example\<close>

definition demo_snapshot :: "pystr \<Rightarrow> pystr \<Rightarrow> doc_snapshot" where
  "demo_snapshot i content = \<lparr>sp_doc_id = i, sp_doc_name = i, sp_doc_type = [], sp_equipment_tags = asc ''pump'',
     sp_chunks = [\<lparr>cs_chunk_id = asc ''c'', cs_content = content, cs_section = []\<rparr>], sp_metadata = None\<rparr>"

definition demo_documents :: "doc_snapshot list" where
  "demo_documents = [demo_snapshot (asc ''d1'') ([0x5fc5, 0x987b] @ asc ''open''), demo_snapshot (asc ''d2'') ([0x7981, 0x6b62] @ asc ''open'')]"

lemma re_sub_none: "(\<And>c cs. c \<in> set s \<Longrightarrow> re_match r (c # cs) = []) \<Longrightarrow> re_sub r new s = s"
  by (induction r new s rule: re_sub.induct) auto

lemma split_any_none: "\<forall>c \<in> set s. c \<notin> set seps \<Longrightarrow> split_any seps s = [s]"
  by (induction s) auto

lemma demo_scope: "asc ''equipment:pump'' \<in> set (scope_keys (demo_snapshot i s))"
proof -
  have "py_lower (py_strip (asc ''pump'')) = asc ''pump''"
    by (simp add: asc_def py_lower_def char_lower_def py_strip_def py_isspace_def)
  moreover have "split_any (asc '','' @ [0xff0c] @ asc '';'' @ [0xff1b]) (asc ''pump'') = [asc ''pump'']"
    by (rule split_any_none) (simp add: asc_def)
  ultimately show ?thesis by (simp add: scope_keys_def demo_snapshot_def Let_def) (simp add: asc_def)
qed

lemma demo_share: "share_scope (demo_snapshot i s) (demo_snapshot j t)"
  using demo_scope[of i s] demo_scope[of j t] by (auto simp: share_scope_def)

lemma demo_sentences:
  assumes "\<forall>c \<in> set s. \<not> in_class SPACE c \<and> c \<notin> set (10 # 13 # [0x3002, 0xff01, 0xff1f, 0xff1b] @ asc '';'')"
    and "py_strip s = s" and "6 \<le> length s" and "length s \<le> 500"
  shows "sentence_records (demo_snapshot i s) = [sentence_of (hd (sp_chunks (demo_snapshot i s))) s]"
proof -
  have "re_sub (plus SPACE) [32] s = s" by (rule re_sub_none) (use assms(1) in \<open>simp add: plus_def\<close>)
  moreover have "split_any (10 # 13 # [0x3002, 0xff01, 0xff1f, 0xff1b] @ asc '';'') s = [s]"
    by (rule split_any_none) (use assms(1) in blast)
  ultimately have "split_sentences s = [s]" using assms(2-4) by (simp add: split_sentences_def)
  then show ?thesis by (simp add: sentence_records_def demo_snapshot_def)
qed

lemma no_number: "0x39 < c \<Longrightarrow> c < 0x660 \<Longrightarrow> re_match NUMBER_RE (c # cs) = []"
proof -
  assume c: "0x39 < c" "c < 0x660"
  then have "\<not> in_class DIGIT c" by (simp add: in_class_def DIGIT_def)
  with c show ?thesis by (simp add: NUMBER_RE_def chr_def plus_def in_class_def)
qed

lemma tokens_of_word:
  assumes "fold (\<lambda>m t. py_replace (py_lower m) [] t) markers_by_length (py_lower s) = asc ''open''"
  shows "normal_tokens s = [asc ''open'']"
proof -
  have n: "re_sub NUMBER_RE [35] (asc ''open'') = asc ''open''"
    by (rule re_sub_none) (auto simp: no_number asc_def)
  have f: "filter token_char (asc ''open'') = asc ''open''" by (simp add: asc_def token_char_def)
  have r: "runs_of is_cjk (asc ''open'') = [asc ''open'']" by (simp add: asc_def is_cjk_def)
  have t: "run_tokens (asc ''open'') = [asc ''open'']" by (simp add: run_tokens_def asc_def is_cjk_def)
  show ?thesis by (simp add: normal_tokens_def assms n f r t)
qed

lemma demo_tokens: "normal_tokens ([0x5fc5, 0x987b] @ asc ''open'') = [asc ''open'']" "normal_tokens ([0x7981, 0x6b62] @ asc ''open'') = [asc ''open'']"
  by (rule tokens_of_word; simp add: markers_by_length_def NEGATIVE_MARKERS_def POSITIVE_MARKERS_def py_lower_def char_lower_def asc_def)+

lemma demo_polarity: "polarity ([0x5fc5, 0x987b] @ asc ''open'') = 1" "polarity ([0x7981, 0x6b62] @ asc ''open'') = -1"
  by (simp_all add: polarity_def NEGATIVE_MARKERS_def POSITIVE_MARKERS_def asc_def)

lemma demo_contradict:
  "\<exists>a \<in> set (sentence_records (hd demo_documents)). \<exists>b \<in> set (sentence_records (demo_documents ! 1)). contradict a b"
proof -
  have s: "sentence_records (demo_snapshot i s) = [sentence_of (hd (sp_chunks (demo_snapshot i s))) s]"
    if "s \<in> {[0x5fc5, 0x987b] @ asc ''open'', [0x7981, 0x6b62] @ asc ''open''}" for i s
    using that by (intro demo_sentences) (auto simp: asc_def SPACE_def in_class_def py_strip_def py_isspace_def)
  have "\<not> fless (fdiv 1 1) SIMILAR" by (simp add: SIMILAR_def float_eval)
  then show ?thesis
    by (simp add: demo_documents_def s sentence_of_def contradict_def text_similarity_def demo_tokens[simplified] demo_polarity[simplified])
qed

text \<open>One demands that something is open, the other forbids it.\<close>

theorem contradictions_are_found_witness:
  "\<exists>f \<in> set (detect_potential_conflicts rev demo_documents). negation_on (asc ''d1'') (asc ''d2'') f"
proof -
  have e: "eligible d" if "d \<in> set demo_documents" for d
    using that by (auto simp: demo_documents_def eligible_def demo_snapshot_def)
  have ids: "map sp_doc_id demo_documents = [asc ''d1'', asc ''d2'']" by (simp add: demo_documents_def demo_snapshot_def)
  have "share_scope (hd demo_documents) (demo_documents ! 1)" by (simp add: demo_documents_def demo_share)
  moreover have "hd demo_documents \<noteq> demo_documents ! 1" by (simp add: demo_documents_def demo_snapshot_def)
  moreover have "sp_doc_id (hd demo_documents) = asc ''d1'' \<and> sp_doc_id (demo_documents ! 1) = asc ''d2''"
    by (simp add: demo_documents_def demo_snapshot_def)
  moreover have "length (filter eligible demo_documents) \<le> 77"
    using length_filter_le[of eligible demo_documents] by (simp add: demo_documents_def)
  ultimately show ?thesis
    using contradictions_are_found[where visit = rev and documents = demo_documents and ?d1.0 = "hd demo_documents" and ?d2.0 = "demo_documents ! 1"]
      e demo_contradict ids by (simp add: demo_documents_def)
qed

end
