(* ===== verification/AnswerCache.thy ===== *)
theory AnswerCache
  imports ConfigStore PyNumber QualityEvents
begin

text \<open>
  The cache of answers: its keys with the version of the settings and of the governance (config.py),
  the table qa_cache behind the cache server (models/qa_cache.py, services/cache_persist.py), and
  what a blocked document removes from the stores (services/governance_propagate_service.py).
\<close>

section \<open>Keys\<close>

text \<open>The settings that occur in a key, those of the expiry, and the generation of the governance.\<close>

record cache_settings =
  cs_citation_verifier :: bool
  cs_structured_output :: bool
  cs_nli :: bool
  cs_crag_v3 :: bool
  cs_guard_strict :: bool
  cs_tiered_ttl :: bool
  cs_qa_cache_ttl :: int

definition flag_text :: "bool \<Rightarrow> pystr" where
  "flag_text b = (if b then [49] else [48])"

definition citation_cache_version :: "cache_settings \<Rightarrow> nat \<Rightarrow> pystr" where
  "citation_cache_version s generation =
     asc ''cv'' @ flag_text (cs_citation_verifier s) @ flag_text (cs_structured_output s) @ flag_text (cs_nli s) @
     dec_nat generation @ asc ''R'' @ flag_text (cs_crag_v3 s) @ asc ''S'' @ flag_text (cs_guard_strict s)"

definition qa_cache_key :: "cache_settings \<Rightarrow> nat \<Rightarrow> pystr \<Rightarrow> pystr option \<Rightarrow> pystr \<Rightarrow> pystr" where
  "qa_cache_key s generation tenant_id model_type query =
     asc ''qa:'' @ tenant_id @ [58] @ (case model_type of Some m \<Rightarrow> py_or m (asc ''default'') | None \<Rightarrow> asc ''default'') @
     [58] @ query @ [58] @ citation_cache_version s generation"

definition SHORT_KEYWORDS :: "pystr list" where
  "SHORT_KEYWORDS = [[0x5b9e, 0x65f6], [0x5f53, 0x524d], [0x73b0, 0x5728], [0x6700, 0x65b0], [0x4eca, 0x65e5], [0x4eca, 0x65e5, 0x6545, 0x969c], [0x5f53, 0x524d, 0x72b6, 0x6001]]"

definition LONG_KEYWORDS :: "pystr list" where
  "LONG_KEYWORDS = [[0x6b65, 0x9aa4], [0x89c4, 0x7a0b], [0x64cd, 0x4f5c], [0x6807, 0x51c6], [0x89c4, 0x8303], [0x624b, 0x518c], [0x5bfc, 0x5219], [0x89c4, 0x5b9a], [0x8981, 0x6c42], [0x6d41, 0x7a0b], [0x7a0b, 0x5e8f], [0x65b9, 0x6cd5]]"

definition ttl_for_query :: "pystr \<Rightarrow> int" where
  "ttl_for_query query =
     (let q = py_lower query
      in if list_ex (\<lambda>kw. py_in kw q) SHORT_KEYWORDS then 300
         else if list_ex (\<lambda>kw. py_in kw q) LONG_KEYWORDS then 604800
         else 259200)"

section \<open>The table\<close>

record qa_row =
  qr_id :: nat
  qr_tenant_id :: pystr
  qr_cache_key :: pystr
  qr_model_type :: pystr
  qr_query_hash :: pystr
  qr_query_normalized :: pystr
  qr_query_original :: pystr
  qr_answer :: pystr
  qr_retrieval_sources :: json
  qr_confidence :: json
  qr_hallucination_rate :: json
  qr_hit_count :: nat
  qr_ttl_seconds :: int
  qr_expires_at :: time
  qr_last_hit_at :: "time option"
  qr_created_at :: time
  qr_updated_at :: time
  qr_is_deleted :: bool

text \<open>The rows and the next number of the primary key.\<close>

record qa_table =
  qt_rows :: "qa_row list"
  qt_next :: nat

text \<open>
  What a call meets: the clock, the settings, the generation in the memory of the process, the
  digest \<open>hashlib.md5(...).hexdigest\<close>, and whether the database fails.
\<close>

record cache_call =
  cl_clock :: clock
  cl_settings :: cache_settings
  cl_generation :: nat
  cl_md5 :: "pystr \<Rightarrow> pystr"
  cl_db_fails :: bool

definition build_hash :: "cache_call \<Rightarrow> pystr option \<Rightarrow> pystr \<Rightarrow> pystr \<Rightarrow> pystr" where
  "build_hash env model_type query tenant_id =
     cl_md5 env (qa_cache_key (cl_settings env) (cl_generation env) (py_or tenant_id (asc ''default'')) model_type query)"

text \<open>
  A hit is counted, and the key and the answer are written back to the cache server in the
  background: they are returned beside the answer.
\<close>

definition cache_hit :: "clock \<Rightarrow> qa_row \<Rightarrow> qa_row" where
  "cache_hit c r = r\<lparr>qr_hit_count := qr_hit_count r + 1, qr_last_hit_at := Some (utc c 0), qr_updated_at := sqlnow c\<rparr>"

definition answers_now :: "cache_call \<Rightarrow> pystr \<Rightarrow> pystr \<Rightarrow> qa_row \<Rightarrow> bool" where
  "answers_now env tenant_id h r \<longleftrightarrow> qr_tenant_id r = tenant_id \<and> qr_query_hash r = h \<and>
     sqlnow (cl_clock env) < qr_expires_at r \<and> \<not> qr_is_deleted r"

definition cache_get_mysql ::
  "cache_call \<Rightarrow> pystr option \<Rightarrow> pystr \<Rightarrow> pystr \<Rightarrow> qa_table \<Rightarrow> json option \<times> (pystr \<times> json) option \<times> qa_table" where
  "cache_get_mysql env model_type query tenant_id tbl =
     (let tenant = py_or tenant_id (asc ''default''); h = build_hash env model_type query tenant
      in if cl_db_fails env then (None, None, tbl)
         else case filter (answers_now env tenant h) (qt_rows tbl) of
           [r] \<Rightarrow>
             (let v = json_loads (qr_answer r)
              in (v, map_option (Pair (qa_cache_key (cl_settings env) (cl_generation env) tenant model_type query)) v,
                  tbl\<lparr>qt_rows := put_row qr_id (cache_hit (cl_clock env) r) (qt_rows tbl)\<rparr>))
         | _ \<Rightarrow> (None, None, tbl))"

text \<open>The row that is inserted, and the update of one that exists. The result is a dict.\<close>

definition fresh_qa_row ::
  "cache_call \<Rightarrow> pystr option \<Rightarrow> pystr \<Rightarrow> pystr \<Rightarrow> fields \<Rightarrow> pystr \<Rightarrow> nat \<Rightarrow> int \<Rightarrow> qa_row" where
  "fresh_qa_row env model_type nq oq result tenant i ttl =
     (let now = utc (cl_clock env) 0
      in \<lparr>qr_id = i, qr_tenant_id = tenant,
          qr_cache_key = qa_cache_key (cl_settings env) (cl_generation env) tenant model_type nq,
          qr_model_type = (case model_type of Some m \<Rightarrow> py_or m (asc ''default'') | None \<Rightarrow> asc ''default''),
          qr_query_hash = build_hash env model_type nq tenant, qr_query_normalized = nq,
          qr_query_original = take 1024 oq, qr_answer = json_text (JObj result),
          qr_retrieval_sources = json_get result (asc ''retrievalSource'') (JList []),
          qr_confidence = json_get result (asc ''confidence'') (JStr (asc ''high'')),
          qr_hallucination_rate = json_get result (asc ''hallucinationRate'') (JFloat (asc ''0.0'')),
          qr_hit_count = 1, qr_ttl_seconds = ttl, qr_expires_at = now + seconds ttl, qr_last_hit_at = Some now,
          qr_created_at = now, qr_updated_at = now, qr_is_deleted = False\<rparr>)"

definition rewritten_qa_row :: "cache_call \<Rightarrow> fields \<Rightarrow> int \<Rightarrow> qa_row \<Rightarrow> qa_row" where
  "rewritten_qa_row env result ttl r =
     (let now = utc (cl_clock env) 0
      in r\<lparr>qr_answer := json_text (JObj result),
           qr_retrieval_sources := json_get result (asc ''retrievalSource'') (JList []),
           qr_confidence := json_get result (asc ''confidence'') (JStr (asc ''high'')),
           qr_hallucination_rate := json_get result (asc ''hallucinationRate'') (JFloat (asc ''0.0'')),
           qr_hit_count := qr_hit_count r + 1, qr_ttl_seconds := ttl, qr_expires_at := now + seconds ttl,
           qr_last_hit_at := Some now, qr_updated_at := now\<rparr>)"

definition cache_set_mysql ::
  "cache_call \<Rightarrow> pystr option \<Rightarrow> pystr \<Rightarrow> pystr \<Rightarrow> fields \<Rightarrow> pystr \<Rightarrow> qa_table \<Rightarrow> qa_table" where
  "cache_set_mysql env model_type nq oq result tenant_id tbl =
     (let tenant = py_or tenant_id (asc ''default'');
          h = build_hash env model_type nq tenant;
          ttl = (if cs_tiered_ttl (cl_settings env) then ttl_for_query nq else cs_qa_cache_ttl (cl_settings env))
      in if cl_db_fails env then tbl
         else case filter (\<lambda>r. qr_tenant_id r = tenant \<and> qr_query_hash r = h) (qt_rows tbl) of
           [] \<Rightarrow>
             if h \<in> qr_query_hash ` set (qt_rows tbl) then tbl
             else tbl\<lparr>qt_rows := qt_rows tbl @ [fresh_qa_row env model_type nq oq result tenant (qt_next tbl) ttl],
                 qt_next := qt_next tbl + 1\<rparr>
         | [r] \<Rightarrow> tbl\<lparr>qt_rows := put_row qr_id (rewritten_qa_row env result ttl r) (qt_rows tbl)\<rparr>
         | _ \<Rightarrow> tbl)"

section \<open>Clean-up\<close>

text \<open>\<open>DELETE ... WHERE p LIMIT n\<close> and \<open>UPDATE ... WHERE p LIMIT n\<close>, with the number of rows.\<close>

fun delete_first :: "nat \<Rightarrow> ('r \<Rightarrow> bool) \<Rightarrow> 'r list \<Rightarrow> nat \<times> 'r list" where
  "delete_first n p [] = (0, [])"
| "delete_first n p (r # rs) =
     (if p r \<and> 0 < n then (let (k, rs') = delete_first (n - 1) p rs in (Suc k, rs'))
      else (let (k, rs') = delete_first n p rs in (k, r # rs')))"

fun update_first :: "nat \<Rightarrow> ('r \<Rightarrow> bool) \<Rightarrow> ('r \<Rightarrow> 'r) \<Rightarrow> 'r list \<Rightarrow> nat \<times> 'r list" where
  "update_first n p f [] = (0, [])"
| "update_first n p f (r # rs) =
     (if p r \<and> 0 < n then (let (k, rs') = update_first (n - 1) p f rs in (Suc k, f r # rs'))
      else (let (k, rs') = update_first n p f rs in (k, r # rs')))"

definition expired_row :: "time \<Rightarrow> qa_row \<Rightarrow> bool" where
  "expired_row now r \<longleftrightarrow> qr_expires_at r < now"

definition cold_row :: "time \<Rightarrow> qa_row \<Rightarrow> bool" where
  "cold_row now r \<longleftrightarrow> qr_updated_at r < now - seconds (3 * 86400) \<and> \<not> qr_is_deleted r"

definition dropped_row :: "time \<Rightarrow> qa_row \<Rightarrow> bool" where
  "dropped_row now r \<longleftrightarrow> qr_is_deleted r \<and> qr_updated_at r < now - seconds (7 * 86400)"

definition cache_cleanup :: "clock \<Rightarrow> qa_table \<Rightarrow> nat \<times> qa_table" where
  "cache_cleanup c tbl =
     (let now = sqlnow c;
          (a, rows) = delete_first 5000 (expired_row now) (qt_rows tbl);
          (b, rows) = delete_first 5000 (cold_row now) rows;
          (d, rows) = delete_first 1000 (dropped_row now) rows
      in (a + b + d, tbl\<lparr>qt_rows := rows\<rparr>))"

definition cleanup_loop :: "clock list \<Rightarrow> qa_table \<Rightarrow> qa_table" where
  "cleanup_loop cs tbl = fold (\<lambda>c. snd \<circ> cache_cleanup c) cs tbl"

section \<open>Invalidation by document\<close>

text \<open>The pattern language of \<open>LIKE\<close> and \<open>JSON_SEARCH\<close>: percent sign, underscore, backslash.\<close>

fun sql_like :: "pystr \<Rightarrow> pystr \<Rightarrow> bool" where
  "sql_like [] s = (s = [])"
| "sql_like (p # ps) [] = (p = 37 \<and> sql_like ps [])"
| "sql_like (p # ps) (c # s) =
     (if p = 37 then sql_like ps (c # s) \<or> sql_like (p # ps) s
      else if p = 95 then sql_like ps s
      else if p = 92 then (case ps of [] \<Rightarrow> c = 92 \<and> s = [] | q # qs \<Rightarrow> c = q \<and> sql_like qs s)
      else c = p \<and> sql_like ps s)"

text \<open>\<open>JSON_SEARCH(v, 'one', pattern, NULL, '$[*].docId')\<close>\<close>

definition cites :: "pystr \<Rightarrow> json \<Rightarrow> bool" where
  "cites doc_id v =
     (case v of
        JList js \<Rightarrow> list_ex (\<lambda>j. case j of
            JObj kvs \<Rightarrow> (case map_of kvs (asc ''docId'') of Some (JStr s) \<Rightarrow> sql_like doc_id s | _ \<Rightarrow> False)
          | _ \<Rightarrow> False) js
      | _ \<Rightarrow> False)"

definition cache_invalidate_for_doc :: "bool \<Rightarrow> clock \<Rightarrow> pystr \<Rightarrow> qa_table \<Rightarrow> nat \<times> qa_table" where
  "cache_invalidate_for_doc db_fails c doc_id tbl =
     (if db_fails then (0, tbl)
      else let (n, rows) = update_first 1000 (\<lambda>r. \<not> qr_is_deleted r \<and> cites doc_id (qr_retrieval_sources r))
             (\<lambda>r. r\<lparr>qr_is_deleted := True, qr_updated_at := sqlnow c\<rparr>) (qt_rows tbl)
           in (n, tbl\<lparr>qt_rows := rows\<rparr>))"

section \<open>What a blocked document removes\<close>

record kg_triple =
  kt_id :: pystr
  kt_subject :: pystr
  kt_relation :: pystr
  kt_object :: pystr
  kt_doc_id :: pystr
  kt_doc_name :: pystr

text \<open>
  The stores: the table of the cache, the cache server with its counter, the triples, and the
  generation in the memory of the process.
\<close>

record stores =
  st_cache :: qa_table
  st_redis :: redis
  st_redis_generation :: nat
  st_triples :: "kg_triple list"
  st_generation :: nat

text \<open>
  Which of the stores answer: vector store, graph database, triples, scan of the cache table, single
  keys of the cache server, deletion from the cache table, counter; and what the first two count.
\<close>

record store_env =
  se_milvus_ok :: bool
  se_neo4j_ok :: bool
  se_triples_ok :: bool
  se_scan_ok :: bool
  se_key_ok :: "pystr \<Rightarrow> bool"
  se_delete_ok :: bool
  se_counter_ok :: bool
  se_milvus_counts :: "(pystr \<times> nat) list"
  se_neo4j_edges :: nat

definition mentions :: "pystr \<Rightarrow> qa_row \<Rightarrow> bool" where
  "mentions doc_id r =
     (let kw = [37, 34] @ doc_id @ [34, 37]
      in sql_like kw (qr_answer r) \<or> sql_like kw (json_text (qr_retrieval_sources r)))"

definition delete_keys :: "store_env \<Rightarrow> pystr list \<Rightarrow> redis \<Rightarrow> redis" where
  "delete_keys env ks st = (\<lambda>k. if k \<in> set ks \<and> se_key_ok env k then None else st k)"

definition invalidate_qa_cache_for_doc :: "store_env \<Rightarrow> pystr \<Rightarrow> stores \<Rightarrow> nat \<times> stores" where
  "invalidate_qa_cache_for_doc env doc_id s =
     (if \<not> se_scan_ok env then (0, s)
      else let rows = filter (mentions doc_id) (qt_rows (st_cache s)) in
        if rows = [] then (0, s)
        else let s1 = s\<lparr>st_redis := delete_keys env (map qr_cache_key rows) (st_redis s)\<rparr>;
                 ids = map qr_id rows
             in if \<not> se_delete_ok env then (0, s1)
                else (length ids, s1\<lparr>st_cache := (st_cache s)\<lparr>qt_rows :=
                        filter (\<lambda>r. qr_id r \<notin> set ids) (qt_rows (st_cache s))\<rparr>\<rparr>))"

text \<open>The graph database is asked after the triples are gone; what it answers is swallowed.\<close>

definition purge_neo4j_for_doc :: "store_env \<Rightarrow> pystr \<Rightarrow> stores \<Rightarrow> bool \<times> stores" where
  "purge_neo4j_for_doc env doc_id s =
     (if se_triples_ok env
      then (True, s\<lparr>st_triples := filter (\<lambda>t. kt_doc_id t \<noteq> doc_id) (st_triples s)\<rparr>) else (False, s))"

definition bump_gov_generation :: "store_env \<Rightarrow> stores \<Rightarrow> stores" where
  "bump_gov_generation env s = s\<lparr>st_generation := st_generation s + 1,
     st_redis_generation := (if se_counter_ok env then st_redis_generation s + 1 else st_redis_generation s)\<rparr>"

record executed =
  ex_milvus :: bool
  ex_neo4j :: bool
  ex_qa_cache_deleted :: nat
  ex_generation_bumped :: bool

definition execute_propagate :: "store_env \<Rightarrow> pystr \<Rightarrow> stores \<Rightarrow> executed \<times> stores" where
  "execute_propagate env doc_id s =
     (let (graph, s1) = purge_neo4j_for_doc env doc_id s;
          (n, s2) = invalidate_qa_cache_for_doc env doc_id s1
      in (\<lparr>ex_milvus = se_milvus_ok env, ex_neo4j = graph, ex_qa_cache_deleted = n, ex_generation_bumped = True\<rparr>,
          bump_gov_generation env s2))"

section \<open>The report of a dry run and the handler\<close>

record cleanup_candidates =
  ca_milvus :: "(pystr \<times> nat) list"
  ca_neo4j_edges :: nat
  ca_kg_triples :: nat
  ca_qa_cache_rows :: nat
  ca_key_preview :: "pystr list"
  ca_total_estimate :: nat

definition build_cleanup_candidates :: "store_env \<Rightarrow> pystr \<Rightarrow> stores \<Rightarrow> cleanup_candidates" where
  "build_cleanup_candidates env doc_id s =
     (let milvus = (if se_milvus_ok env then se_milvus_counts env else []);
          edges = (if se_neo4j_ok env then se_neo4j_edges env else 0);
          triples = (if se_triples_ok env then length (filter (\<lambda>t. kt_doc_id t = doc_id) (st_triples s)) else 0);
          rows = (if se_scan_ok env then filter (mentions doc_id) (qt_rows (st_cache s)) else [])
      in \<lparr>ca_milvus = milvus, ca_neo4j_edges = edges, ca_kg_triples = triples, ca_qa_cache_rows = length rows,
          ca_key_preview = map qr_cache_key (take 20 rows),
          ca_total_estimate = sum_list (map snd milvus) + edges + triples + length rows\<rparr>)"

definition candidates_json :: "cleanup_candidates \<Rightarrow> json" where
  "candidates_json ca =
     JObj [(asc ''milvus'', JObj (map (\<lambda>(k, n). (k, JInt (int n))) (ca_milvus ca))),
       (asc ''neo4jEdges'', JInt (int (ca_neo4j_edges ca))), (asc ''kgTriples'', JInt (int (ca_kg_triples ca))),
       (asc ''qaCacheRows'', JInt (int (ca_qa_cache_rows ca))),
       (asc ''cacheKeyPreview'', JList (map JStr (ca_key_preview ca))),
       (asc ''totalEstimate'', JInt (int (ca_total_estimate ca)))]"

definition MSG_DRY_RUN :: pystr where
  "MSG_DRY_RUN = ([0x5019, 0x9009, 0x6e05, 0x7406, 0x62a5, 0x544a, 0xff08] @ asc ''dry-run'' @ [0xff0c, 0x672a, 0x6267, 0x884c, 0xff09, 0x3002, 0x786e, 0x8ba4, 0x540e, 0x8c03] @ asc '' POST /system/governance-propagate/execute'')"

record propagate_settings =
  pg_enable :: bool
  pg_dry_run :: bool

text \<open>
  The subscriber of blocked documents. A payload without an id does nothing; a dry run only
  reports, by a quality event of its own.
\<close>

definition propagate_handler ::
  "propagate_settings \<Rightarrow> store_env \<Rightarrow> bus_env \<Rightarrow> 'h subscribers \<Rightarrow> fields \<Rightarrow> pystr \<Rightarrow>
   stores \<times> quality_event list \<Rightarrow> stores \<times> quality_event list" where
  "propagate_handler cfg env bus subs payload tenant s =
     (if \<not> pg_enable cfg then s
      else case json_get payload (asc ''doc_id'') JNull of
        JStr doc_id \<Rightarrow>
          if doc_id = [] then s
          else if pg_dry_run cfg
          then (fst s, snd (snd (emit_quality bus subs (asc ''governance'') (asc ''cleanup_dry_run'')
                 [(asc ''doc_id'', JStr doc_id), (asc ''reason'', json_get payload (asc ''reason'') (JStr (asc ''unknown''))),
                  (asc ''hint'', JStr MSG_DRY_RUN),
                  (asc ''candidates'', candidates_json (build_cleanup_candidates env doc_id (fst s)))]
                 (py_or tenant (asc ''default'')) (snd s))))
          else (snd (execute_propagate env doc_id (fst s)), snd s)
      | _ \<Rightarrow> s)"

text \<open>A new process counts generations from 0; the counter of the cache server is never read.\<close>

definition restart_process :: "stores \<Rightarrow> stores" where
  "restart_process s = s\<lparr>st_generation := 0\<rparr>"

end
