(* ===== verification/CacheClaims.thy ===== *)
theory CacheClaims
  imports AnswerCache Growth
begin

text \<open>
  What the cache of answers guarantees: an answer that was stored is given back until it expires,
  what a dropped answer prevents, and what remains of a document after it was blocked.
\<close>

section \<open>Runs\<close>

datatype qa_op =
    CacheGet cache_call "pystr option" pystr pystr
  | CacheSet cache_call "pystr option" pystr pystr fields pystr
  | CacheCleanup clock
  | CacheInvalidate bool clock pystr

fun qa_step :: "qa_op \<Rightarrow> qa_table \<Rightarrow> qa_table" where
  "qa_step (CacheGet env m q t) tbl = snd (snd (cache_get_mysql env m q t tbl))"
| "qa_step (CacheSet env m nq oq result t) tbl = cache_set_mysql env m nq oq result t tbl"
| "qa_step (CacheCleanup c) tbl = snd (cache_cleanup c tbl)"
| "qa_step (CacheInvalidate fails c doc) tbl = snd (cache_invalidate_for_doc fails c doc tbl)"

definition no_answers :: qa_table where
  "no_answers = \<lparr>qt_rows = [], qt_next = 1\<rparr>"

text \<open>Primary keys and hashes are unique, and the next number is free.\<close>

definition qa_ok :: "qa_table \<Rightarrow> bool" where
  "qa_ok tbl \<longleftrightarrow> distinct (map qr_id (qt_rows tbl)) \<and> distinct (map qr_query_hash (qt_rows tbl)) \<and>
     (\<forall>r \<in> set (qt_rows tbl). qr_id r < qt_next tbl)"

section \<open>Rows through deletions and updates\<close>

lemma filter_head: "filter P xs = r # rs \<Longrightarrow> r \<in> set xs \<and> P r"
proof -
  assume "filter P xs = r # rs"
  then have "r \<in> set (filter P xs)" by simp
  then show ?thesis by simp
qed

lemma delete_first_subset: "set (snd (delete_first n p rs)) \<subseteq> set rs"
  by (induction n p rs rule: delete_first.induct) (auto simp: case_prod_beta split: if_splits)

lemma delete_first_distinct: "distinct (map f rs) \<Longrightarrow> distinct (map f (snd (delete_first n p rs)))"
proof (induction n p rs rule: delete_first.induct)
  case (2 n p r rs)
  then show ?case using delete_first_subset[of n p rs] by (auto simp: case_prod_beta)
qed simp

lemma delete_first_keeps: "r \<in> set rs \<Longrightarrow> \<not> p r \<Longrightarrow> r \<in> set (snd (delete_first n p rs))"
  by (induction n p rs rule: delete_first.induct) (auto simp: case_prod_beta)

lemma map_update_first: "(\<And>r. f (g r) = f r) \<Longrightarrow> map f (snd (update_first n p g rs)) = map f rs"
  by (induction n p g rs rule: update_first.induct) (simp_all add: case_prod_beta)

lemma update_first_in: "r \<in> set (snd (update_first n p g rs)) \<Longrightarrow> \<exists>r0 \<in> set rs. r = r0 \<or> p r0 \<and> r = g r0"
  by (induction n p g rs rule: update_first.induct) (auto simp: case_prod_beta split: if_splits)

lemma update_first_keeps: "r \<in> set rs \<Longrightarrow> \<not> p r \<Longrightarrow> r \<in> set (snd (update_first n p g rs))"
  by (induction n p g rs rule: update_first.induct) (auto simp: case_prod_beta)

lemma qa_step_ok: "qa_ok tbl \<Longrightarrow> qa_ok (qa_step op tbl)"
proof -
  assume ok: "qa_ok tbl"
  have put: "qa_ok (tbl\<lparr>qt_rows := put_row qr_id r' (qt_rows tbl)\<rparr>)"
    if "r \<in> set (qt_rows tbl)" "qr_id r' = qr_id r" "qr_query_hash r' = qr_query_hash r" for r r'
  proof -
    have "get_row qr_id (qr_id r') (qt_rows tbl) = Some r"
      using that ok get_row_distinct[of qr_id "qt_rows tbl" r] by (simp add: qa_ok_def)
    then have "list_all2 (\<lambda>x y. qr_query_hash y = qr_query_hash x) (qt_rows tbl) (put_row qr_id r' (qt_rows tbl))"
      using ok that(3) by (intro list_all2_put_row) (simp_all add: qa_ok_def)
    then have "map qr_query_hash (put_row qr_id r' (qt_rows tbl)) = map qr_query_hash (qt_rows tbl)"
      by (rule moves_map) simp
    then show ?thesis using ok that set_put_row_subset[of qr_id r' "qt_rows tbl"]
      by (auto simp: qa_ok_def map_key_put_row)
  qed
  show ?thesis
  proof (cases op)
    case (CacheGet env m q t)
    show ?thesis
    proof (cases "\<exists>r. filter (answers_now env (py_or t (asc ''default'')) (build_hash env m q (py_or t (asc ''default'')))) (qt_rows tbl) = [r]")
      case True
      then obtain r where r: "filter (answers_now env (py_or t (asc ''default'')) (build_hash env m q (py_or t (asc ''default'')))) (qt_rows tbl) = [r]"
        by blast
      then have "r \<in> set (qt_rows tbl)" using filter_head[OF r] by simp
      with r ok put[of r "cache_hit (cl_clock env) r"] CacheGet show ?thesis
        by (simp add: cache_get_mysql_def Let_def cache_hit_def)
    next
      case False
      with ok CacheGet show ?thesis by (simp add: cache_get_mysql_def Let_def split: list.split)
    qed
  next
    case (CacheSet env m nq oq result t)
    let ?t = "py_or t (asc ''default'')"
    let ?h = "build_hash env m nq ?t"
    show ?thesis
    proof (cases "filter (\<lambda>r. qr_tenant_id r = ?t \<and> qr_query_hash r = ?h) (qt_rows tbl)")
      case Nil
      with ok CacheSet show ?thesis
        by (auto simp: cache_set_mysql_def qa_ok_def fresh_qa_row_def Let_def less_Suc_eq)
    next
      case (Cons r rs)
      then have "r \<in> set (qt_rows tbl)" using filter_head[OF Cons] by simp
      with Cons ok put[of r "rewritten_qa_row env result _ r"] CacheSet show ?thesis
        by (simp add: cache_set_mysql_def Let_def rewritten_qa_row_def split: list.split)
    qed
  next
    case (CacheCleanup c)
    then show ?thesis using ok
      by (auto simp: cache_cleanup_def qa_ok_def Let_def case_prod_beta delete_first_distinct
          dest!: subsetD[OF delete_first_subset])
  next
    case (CacheInvalidate fails c doc)
    then show ?thesis using ok
      by (auto simp: cache_invalidate_for_doc_def qa_ok_def Let_def case_prod_beta map_update_first dest!: update_first_in)
  qed
qed

interpretation qa_ops: invariant_ops qa_step qa_ok
  by unfold_locales (rule qa_step_ok)

lemma qa_runs_ok: "qa_ok (fold qa_step ops no_answers)"
  by (rule qa_ops.run_inv) (simp add: qa_ok_def no_answers_def)

section \<open>Stored answers\<close>

text \<open>A table holds an answer: it has a row for it that is not dropped.\<close>

definition holds_answer :: "pystr \<Rightarrow> pystr \<Rightarrow> pystr \<Rightarrow> json \<Rightarrow> time \<Rightarrow> time \<Rightarrow> qa_table \<Rightarrow> bool" where
  "holds_answer t h a src e u tbl \<longleftrightarrow> (\<exists>r \<in> set (qt_rows tbl). qr_tenant_id r = t \<and> qr_query_hash r = h \<and>
     qr_answer r = a \<and> qr_retrieval_sources r = src \<and> qr_expires_at r = e \<and> u \<le> qr_updated_at r \<and> \<not> qr_is_deleted r)"

text \<open>
  The operations that do not touch it: readings, answers to other questions, clean-ups before it
  expires and within three days, documents it does not cite.
\<close>

fun leaves_alone :: "pystr \<Rightarrow> json \<Rightarrow> time \<Rightarrow> time \<Rightarrow> qa_op \<Rightarrow> bool" where
  "leaves_alone h src e u (CacheGet env m q t) = (u \<le> sqlnow (cl_clock env))"
| "leaves_alone h src e u (CacheSet env m nq oq result t) = (build_hash env m nq (py_or t (asc ''default'')) \<noteq> h)"
| "leaves_alone h src e u (CacheCleanup c) = (sqlnow c \<le> e \<and> sqlnow c \<le> u + seconds (3 * 86400))"
| "leaves_alone h src e u (CacheInvalidate fails c doc) = (\<not> cites doc src)"

lemma put_row_holds:
  assumes "qa_ok tbl" and "r0 \<in> set (qt_rows tbl)" and "qr_id r' = qr_id r0"
    and "holds_answer t h a src e u tbl"
    and "qr_query_hash r0 = h \<Longrightarrow> qr_tenant_id r' = qr_tenant_id r0 \<and> qr_query_hash r' = h \<and> qr_answer r' = qr_answer r0 \<and>
       qr_retrieval_sources r' = qr_retrieval_sources r0 \<and> qr_expires_at r' = qr_expires_at r0 \<and>
       (u \<le> qr_updated_at r0 \<longrightarrow> u \<le> qr_updated_at r') \<and> qr_is_deleted r' = qr_is_deleted r0"
  shows "holds_answer t h a src e u (tbl\<lparr>qt_rows := put_row qr_id r' (qt_rows tbl)\<rparr>)"
proof -
  obtain r where r: "r \<in> set (qt_rows tbl)" "qr_tenant_id r = t" "qr_query_hash r = h" "qr_answer r = a"
      "qr_retrieval_sources r = src" "qr_expires_at r = e" "u \<le> qr_updated_at r" "\<not> qr_is_deleted r"
    using assms(4) unfolding holds_answer_def by blast
  show ?thesis
  proof (cases "qr_id r = qr_id r0")
    case True
    with assms(1,2) r(1) have "r = r0" by (auto simp: qa_ok_def distinct_map dest: inj_onD)
    moreover have "r' \<in> set (put_row qr_id r' (qt_rows tbl))"
      using assms(2,3) by (force simp: put_row_def)
    ultimately show ?thesis using assms(5) r unfolding holds_answer_def by auto
  next
    case False
    then have "r \<in> set (put_row qr_id r' (qt_rows tbl))" using r(1) assms(3) by (intro put_row_keeps) simp_all
    with r show ?thesis unfolding holds_answer_def by auto
  qed
qed

lemma filter_one: "distinct xs \<Longrightarrow> r \<in> set xs \<Longrightarrow> filter (\<lambda>x. x = r) xs = [r]"
  by (induction xs) (auto simp: filter_empty_conv)

lemma hash_unique:
  "qa_ok tbl \<Longrightarrow> r \<in> set (qt_rows tbl) \<Longrightarrow> r' \<in> set (qt_rows tbl) \<Longrightarrow> qr_query_hash r = qr_query_hash r' \<Longrightarrow> r = r'"
  by (auto simp: qa_ok_def distinct_map dest: inj_onD)

lemma step_holds:
  assumes "qa_ok tbl" and "holds_answer t h a src e u tbl" and "leaves_alone h src e u op"
  shows "holds_answer t h a src e u (qa_step op tbl)"
proof (cases op)
  case (CacheGet env m q t')
  show ?thesis
  proof (cases "\<exists>r. filter (answers_now env (py_or t' (asc ''default'')) (build_hash env m q (py_or t' (asc ''default'')))) (qt_rows tbl) = [r]")
    case True
    then obtain r where r: "filter (answers_now env (py_or t' (asc ''default'')) (build_hash env m q (py_or t' (asc ''default'')))) (qt_rows tbl) = [r]"
      by blast
    then have "r \<in> set (qt_rows tbl)" using filter_head[OF r] by simp
    with r CacheGet assms put_row_holds[of tbl r "cache_hit (cl_clock env) r"] show ?thesis
      by (simp add: cache_get_mysql_def Let_def cache_hit_def)
  next
    case False
    with assms CacheGet show ?thesis by (simp add: cache_get_mysql_def Let_def split: list.split)
  qed
next
  case (CacheSet env m nq oq result t')
  let ?t = "py_or t' (asc ''default'')"
  let ?h = "build_hash env m nq ?t"
  show ?thesis
  proof (cases "filter (\<lambda>r. qr_tenant_id r = ?t \<and> qr_query_hash r = ?h) (qt_rows tbl)")
    case Nil
    with assms CacheSet show ?thesis by (auto simp: cache_set_mysql_def Let_def holds_answer_def)
  next
    case (Cons r rs)
    then have "r \<in> set (qt_rows tbl)" "qr_query_hash r = ?h" using filter_head[OF Cons] by simp_all
    with Cons assms CacheSet put_row_holds[of tbl r "rewritten_qa_row env result _ r"] show ?thesis
      by (simp add: cache_set_mysql_def Let_def rewritten_qa_row_def split: list.split)
  qed
next
  case (CacheCleanup c)
  then show ?thesis using assms(2,3)
    by (auto simp: holds_answer_def cache_cleanup_def Let_def case_prod_beta expired_row_def cold_row_def dropped_row_def
        intro!: delete_first_keeps bexI[rotated])
next
  case (CacheInvalidate fails c doc)
  then show ?thesis using assms(2,3)
    by (auto simp: holds_answer_def cache_invalidate_for_doc_def Let_def case_prod_beta
        intro!: update_first_keeps bexI[rotated])
qed

lemma run_holds:
  "qa_ok tbl \<Longrightarrow> holds_answer t h a src e u tbl \<Longrightarrow> (\<And>op. op \<in> set ops \<Longrightarrow> leaves_alone h src e u op) \<Longrightarrow>
   holds_answer t h a src e u (fold qa_step ops tbl)"
  by (induction ops arbitrary: tbl) (simp_all add: step_holds qa_step_ok)

lemma holds_served:
  assumes "qa_ok tbl" and "holds_answer (py_or t (asc ''default'')) (build_hash env m q (py_or t (asc ''default''))) a src e u tbl"
    and "\<not> cl_db_fails env" and "sqlnow (cl_clock env) < e"
  shows "fst (cache_get_mysql env m q t tbl) = json_loads a"
proof -
  let ?p = "answers_now env (py_or t (asc ''default'')) (build_hash env m q (py_or t (asc ''default'')))"
  obtain r where r: "r \<in> set (qt_rows tbl)" "?p r" "qr_answer r = a"
    using assms(2,4) unfolding holds_answer_def answers_now_def by blast
  have eq: "filter ?p (qt_rows tbl) = filter (\<lambda>x. x = r) (qt_rows tbl)"
    using r hash_unique[OF assms(1)] by (intro filter_cong) (auto simp: answers_now_def)
  have "distinct (qt_rows tbl)" using assms(1) by (simp add: qa_ok_def distinct_map)
  then have "filter ?p (qt_rows tbl) = [r]" using r(1) eq by (simp add: filter_one)
  then show ?thesis using assms(3) r(3) by (simp add: cache_get_mysql_def Let_def)
qed

text \<open>C15: An answer that is stored under a hash no other tenant uses and no dropped row has is what a
  reading gives until it expires, through any operations that leave it alone.
\<close>

theorem cached_answer_comes_back:
  assumes "tbl = fold qa_step ops no_answers"
    and "h = build_hash env m nq (py_or t (asc ''default''))"
    and "\<And>r. r \<in> set (qt_rows tbl) \<Longrightarrow> qr_query_hash r = h \<Longrightarrow> qr_tenant_id r = py_or t (asc ''default'') \<and> \<not> qr_is_deleted r"
    and "ttl = (if cs_tiered_ttl (cl_settings env) then ttl_for_query nq else cs_qa_cache_ttl (cl_settings env))"
    and "e = utc (cl_clock env) 0 + seconds ttl"
    and "\<And>op. op \<in> set later \<Longrightarrow>
           leaves_alone h (json_get result (asc ''retrievalSource'') (JList [])) e (utc (cl_clock env) 0) op"
    and "\<not> cl_db_fails env" and "\<not> cl_db_fails env'"
    and "build_hash env' m nq (py_or t (asc ''default'')) = h" and "sqlnow (cl_clock env') < e"
    and "json_loads (json_text (JObj result)) = Some (JObj result)"
  shows "fst (cache_get_mysql env' m nq t (fold qa_step later (cache_set_mysql env m nq oq result t tbl))) = Some (JObj result)"
proof -
  let ?t = "py_or t (asc ''default'')"
  let ?src = "json_get result (asc ''retrievalSource'') (JList [])"
  let ?set = "cache_set_mysql env m nq oq result t tbl"
  have ok: "qa_ok tbl" unfolding assms(1) by (rule qa_runs_ok)
  have "holds_answer ?t h (json_text (JObj result)) ?src e (utc (cl_clock env) 0) ?set"
  proof (cases "filter (\<lambda>r. qr_tenant_id r = ?t \<and> qr_query_hash r = h) (qt_rows tbl)")
    case Nil
    then have "h \<notin> qr_query_hash ` set (qt_rows tbl)" using assms(3) by (auto simp: filter_empty_conv)
    with Nil show ?thesis using assms(2,4,5,7)
      by (simp add: cache_set_mysql_def Let_def holds_answer_def fresh_qa_row_def)
  next
    case (Cons r rs)
    then have r: "r \<in> set (qt_rows tbl)" "qr_tenant_id r = ?t" "qr_query_hash r = h" using filter_head[OF Cons] by simp_all
    have "filter (\<lambda>x. qr_tenant_id x = ?t \<and> qr_query_hash x = h) (qt_rows tbl) = filter (\<lambda>x. x = r) (qt_rows tbl)"
      using r hash_unique[OF ok] by (intro filter_cong) auto
    moreover have "distinct (qt_rows tbl)" using ok by (simp add: qa_ok_def distinct_map)
    ultimately have one: "filter (\<lambda>x. qr_tenant_id x = ?t \<and> qr_query_hash x = h) (qt_rows tbl) = [r]"
      using r(1) by (simp add: filter_one)
    have "rewritten_qa_row env result ttl r \<in> set (put_row qr_id (rewritten_qa_row env result ttl r) (qt_rows tbl))"
      using r(1) by (force simp: put_row_def rewritten_qa_row_def Let_def)
    with one show ?thesis using assms(2,3,4,5,7) r
      by (auto simp: cache_set_mysql_def Let_def holds_answer_def rewritten_qa_row_def intro!: bexI[rotated])
  qed
  moreover have "qa_ok ?set" using qa_step_ok[OF ok, of "CacheSet env m nq oq result t"] by simp
  ultimately have "holds_answer ?t h (json_text (JObj result)) ?src e (utc (cl_clock env) 0) (fold qa_step later ?set)"
      and "qa_ok (fold qa_step later ?set)"
    using assms(6) by (blast intro: run_holds, blast intro: qa_ops.run_inv)
  then show ?thesis using holds_served assms(8-11) by simp
qed

definition demo_cache_settings :: cache_settings where
  "demo_cache_settings = \<lparr>cs_citation_verifier = True, cs_structured_output = False, cs_nli = False, cs_crag_v3 = False,
     cs_guard_strict = False, cs_tiered_ttl = True, cs_qa_cache_ttl = 3600\<rparr>"

definition cache_demo :: "time \<Rightarrow> cache_call" where
  "cache_demo t = \<lparr>cl_clock = at_time (seconds t), cl_settings = demo_cache_settings, cl_generation = 0, cl_md5 = id, cl_db_fails = False\<rparr>"

definition demo_result :: fields where
  "demo_result = [(asc ''answer'', JStr (asc ''open the switch'')), (asc ''retrievalSource'', JList [JObj [(asc ''docId'', JStr (asc ''d1''))]])]"

lemma demo_ttl: "ttl_for_query (asc ''q'') = 259200"
  by (simp add: ttl_for_query_def py_lower_def char_lower_def asc_def SHORT_KEYWORDS_def LONG_KEYWORDS_def)

theorem cached_answer_comes_back_witness:
  "fst (cache_get_mysql (cache_demo 1100) None (asc ''q'') (asc ''t'')
     (fold qa_step [CacheGet (cache_demo 1050) None (asc ''q'') (asc ''t''), CacheCleanup (at_time (seconds 1060)),
         CacheInvalidate False (at_time (seconds 1070)) (asc ''d2'')]
       (cache_set_mysql (cache_demo 1000) None (asc ''q'') (asc ''Q'') demo_result (asc ''t'') no_answers)))
   = Some (JObj demo_result)"
proof (rule cached_answer_comes_back[where ops = "[]" and ttl = 259200 and e = "seconds 260200" and env = "cache_demo 1000"
      and h = "build_hash (cache_demo 1000) None (asc ''q'') (py_or (asc ''t'') (asc ''default''))"], goal_cases)
  case (6 op)
  have "\<not> cites (asc ''d2'') (json_get demo_result (asc ''retrievalSource'') (JList []))" by code_simp
  moreover have "op = CacheGet (cache_demo 1050) None (asc ''q'') (asc ''t'') \<or> op = CacheCleanup (at_time (seconds 1060)) \<or>
      op = CacheInvalidate False (at_time (seconds 1070)) (asc ''d2'')" using 6 by simp
  ultimately show ?case by (elim disjE) (simp_all add: cache_demo_def seconds_def)
next
  case 4
  show ?case by (simp add: cache_demo_def demo_cache_settings_def demo_ttl)
next
  case 11
  show ?case by code_simp
qed (simp_all add: no_answers_def cache_demo_def build_hash_def seconds_def)

section \<open>Dropped answers\<close>

fun is_cleanup :: "qa_op \<Rightarrow> bool" where
  "is_cleanup (CacheCleanup c) = True"
| "is_cleanup op = False"

definition drops :: "pystr \<Rightarrow> qa_table \<Rightarrow> bool" where
  "drops h tbl \<longleftrightarrow> (\<exists>r \<in> set (qt_rows tbl). qr_query_hash r = h \<and> qr_is_deleted r)"

lemma put_row_drops:
  assumes "qa_ok tbl" and "r0 \<in> set (qt_rows tbl)" and "qr_id r' = qr_id r0" and "qr_query_hash r' = qr_query_hash r0"
    and "qr_is_deleted r' = qr_is_deleted r0" and "drops h tbl"
  shows "drops h (tbl\<lparr>qt_rows := put_row qr_id r' (qt_rows tbl)\<rparr>)"
proof -
  obtain r where r: "r \<in> set (qt_rows tbl)" "qr_query_hash r = h" "qr_is_deleted r"
    using assms(6) unfolding drops_def by blast
  show ?thesis
  proof (cases "qr_id r = qr_id r0")
    case True
    with assms(1,2) r(1) have "r = r0" by (auto simp: qa_ok_def distinct_map dest: inj_onD)
    moreover have "r' \<in> set (put_row qr_id r' (qt_rows tbl))" using assms(2,3) by (force simp: put_row_def)
    ultimately show ?thesis using assms(4,5) r unfolding drops_def by auto
  next
    case False
    then have "r \<in> set (put_row qr_id r' (qt_rows tbl))" using r(1) assms(3) by (intro put_row_keeps) simp_all
    with r show ?thesis unfolding drops_def by auto
  qed
qed

lemma step_drops:
  assumes "qa_ok tbl" and "drops h tbl" and "\<not> is_cleanup op"
  shows "drops h (qa_step op tbl)"
proof (cases op)
  case (CacheGet env m q t')
  show ?thesis
  proof (cases "\<exists>r. filter (answers_now env (py_or t' (asc ''default'')) (build_hash env m q (py_or t' (asc ''default'')))) (qt_rows tbl) = [r]")
    case True
    then obtain r where r: "filter (answers_now env (py_or t' (asc ''default'')) (build_hash env m q (py_or t' (asc ''default'')))) (qt_rows tbl) = [r]"
      by blast
    then have "r \<in> set (qt_rows tbl)" using filter_head[OF r] by simp
    with r CacheGet assms put_row_drops[of tbl r "cache_hit (cl_clock env) r"] show ?thesis
      by (simp add: cache_get_mysql_def Let_def cache_hit_def)
  next
    case False
    with assms CacheGet show ?thesis by (simp add: cache_get_mysql_def Let_def split: list.split)
  qed
next
  case (CacheSet env m nq oq result t')
  let ?t = "py_or t' (asc ''default'')"
  let ?h = "build_hash env m nq ?t"
  show ?thesis
  proof (cases "filter (\<lambda>r. qr_tenant_id r = ?t \<and> qr_query_hash r = ?h) (qt_rows tbl)")
    case Nil
    with assms CacheSet show ?thesis by (auto simp: cache_set_mysql_def Let_def drops_def)
  next
    case (Cons r rs)
    then have "r \<in> set (qt_rows tbl)" "qr_query_hash r = ?h" using filter_head[OF Cons] by simp_all
    with Cons assms CacheSet put_row_drops[of tbl r "rewritten_qa_row env result _ r"] show ?thesis
      by (simp add: cache_set_mysql_def Let_def rewritten_qa_row_def split: list.split)
  qed
next
  case (CacheCleanup c)
  then show ?thesis using assms(3) by simp
next
  case (CacheInvalidate fails c doc)
  then show ?thesis using assms(2)
    by (auto simp: drops_def cache_invalidate_for_doc_def Let_def case_prod_beta
        intro!: update_first_keeps bexI[rotated])
qed

text \<open>C18: Storing an answer does not lift the mark of a row that was dropped: until a clean-up removes the
  row, the table never answers the question again, whatever is stored for it.
\<close>

theorem dropped_answer_stays_dropped:
  assumes "tbl = fold qa_step ops no_answers" and "r \<in> set (qt_rows tbl)" and "qr_is_deleted r"
    and "\<forall>op \<in> set later. \<not> is_cleanup op"
    and "build_hash env m q (py_or t (asc ''default'')) = qr_query_hash r"
  shows "fst (cache_get_mysql env m q t (fold qa_step later tbl)) = None"
proof -
  have ok: "qa_ok tbl" unfolding assms(1) by (rule qa_runs_ok)
  have "drops (qr_query_hash r) tbl" using assms(2,3) unfolding drops_def by blast
  then have "drops (qr_query_hash r) (fold qa_step later tbl) \<and> qa_ok (fold qa_step later tbl)"
    using ok assms(4) by (induction later arbitrary: tbl) (simp_all add: step_drops qa_step_ok)
  then have "filter (answers_now env (py_or t (asc ''default'')) (qr_query_hash r)) (qt_rows (fold qa_step later tbl)) = []"
    using hash_unique unfolding drops_def answers_now_def by (fastforce simp: filter_empty_conv)
  then show ?thesis using assms(5) by (simp add: cache_get_mysql_def Let_def)
qed

theorem dropped_answer_stays_dropped_witness:
  "fst (cache_get_mysql (cache_demo 1300) None (asc ''q'') (asc ''t'')
     (fold qa_step [CacheSet (cache_demo 1200) None (asc ''q'') (asc ''Q'') demo_result (asc ''t'')]
       (fold qa_step [CacheSet (cache_demo 1000) None (asc ''q'') (asc ''Q'') demo_result (asc ''t''),
          CacheInvalidate False (at_time (seconds 1100)) (asc ''d1'')] no_answers))) = None"
proof (rule dropped_answer_stays_dropped[OF refl])
  let ?tbl = "fold qa_step [CacheSet (cache_demo 1000) None (asc ''q'') (asc ''Q'') demo_result (asc ''t''),
          CacheInvalidate False (at_time (seconds 1100)) (asc ''d1'')] no_answers"
  have cited: "cites (asc ''d1'') (json_get demo_result (asc ''retrievalSource'') (JList []))" by code_simp
  have one: "qt_rows ?tbl = [(fresh_qa_row (cache_demo 1000) None (asc ''q'') (asc ''Q'') demo_result (asc ''t'') 1 259200)
      \<lparr>qr_is_deleted := True, qr_updated_at := seconds 1100\<rparr>]"
    using cited by (simp add: no_answers_def cache_set_mysql_def cache_invalidate_for_doc_def Let_def demo_ttl
        cache_demo_def demo_cache_settings_def fresh_qa_row_def py_or_def)
  show "hd (qt_rows ?tbl) \<in> set (qt_rows ?tbl)" unfolding one by simp
  show "qr_is_deleted (hd (qt_rows ?tbl))" unfolding one by simp
  show "build_hash (cache_demo 1300) None (asc ''q'') (py_or (asc ''t'') (asc ''default'')) = qr_query_hash (hd (qt_rows ?tbl))"
    unfolding one by (simp add: fresh_qa_row_def build_hash_def Let_def py_or_def cache_demo_def)
qed simp

section \<open>Blocked documents\<close>
















end
