(* ===== verification/Backbone.thy ===== *)
theory Backbone
  imports Governance AnswerCache
begin

text \<open>
  How knowledge is written back: the draft of an answer by a language model and the chunk of the
  virtual document of a tenant (services/knowledge_backbone.py), and the parts of
  services/document_service.py that the evidence gaps use: equipment tags and indexing.
\<close>

section \<open>The stores\<close>

text \<open>
  The object store and the vector store are services of their own: what is kept of them are the
  commands they were given. A vector is named by its primary key and carries its text.
\<close>

datatype store_command =
    PutObject pystr "nat list"
  | InsertVectors pystr "(pystr \<times> pystr) list"
  | DeleteByDoc pystr
  | DeleteByPk pystr pystr

record kb_db =
  kb_documents :: "kb_document list"
  kb_chunks :: "kb_chunk list"
  kb_cache :: qa_table
  kb_redis :: redis
  kb_commands :: "store_command list"

text \<open>
  What an operation meets: clock, new ids, settings, the errors of the embedding and of the vector
  store, and whether the object store answers.
\<close>

record kb_env =
  ke_clock :: clock
  ke_uuid :: "nat \<Rightarrow> pystr"
  ke_emb_provider :: pystr
  ke_size_threshold :: nat
  ke_collection :: pystr
  ke_collection_bge :: pystr
  ke_terms :: "pystr list"
  ke_visit :: "pystr list \<Rightarrow> pystr list"
  ke_embed_error :: "pyerr option"
  ke_vector_error :: "pyerr option"
  ke_object_ok :: bool
  ke_cache_fails :: bool

definition command :: "store_command \<Rightarrow> 'a kb_db_scheme \<Rightarrow> 'a kb_db_scheme" where
  "command x db = db\<lparr>kb_commands := kb_commands db @ [x]\<rparr>"

section \<open>Questions and drafts\<close>

definition QUERY_TYPE_RULES :: "(pystr \<times> pystr list) list" where
  "QUERY_TYPE_RULES =
     [(asc ''fault'', [[0x6545, 0x969c], [0x5f02, 0x5e38], [0x8df3, 0x95f8], [0x544a, 0x8b66], [0x5904, 0x7f6e], [0x6392, 0x67e5], [0x4e8b, 0x6545], [0x77ed, 0x8def], [0x63a5, 0x5730],
         [0x8fc7, 0x8f7d], [0x62d2, 0x52a8], [0x8bef, 0x52a8], [0x95ea, 0x7edc], [0x51fb, 0x7a7f], [0x653e, 0x7535], [0x6e17, 0x6f0f], [0x53d1, 0x70ed],
         [0x6f0f, 0x6c14], [0x6f0f, 0x6cb9], [0x70e7, 0x635f], [0x7206, 0x70b8], [0x88c2, 0x7eb9], [0x53d8, 0x5f62], [0x8150, 0x8680], [0x8001, 0x5316]]),
      (asc ''procedure'', [[0x64cd, 0x4f5c], [0x6b65, 0x9aa4], [0x68c0, 0x4fee], [0x5de1, 0x89c6], [0x6295, 0x8fd0], [0x9000, 0x51fa], [0x9001, 0x7535], [0x505c, 0x7535],
         [0x5012, 0x95f8], [0x9a8c, 0x6536], [0x68c0, 0x6d4b], [0x8bd5, 0x9a8c], [0x7ef4, 0x62a4], [0x66f4, 0x6362], [0x5b89, 0x88c5]]),
      (asc ''safety'', [[0x5b89, 0x5168, 0x8ddd, 0x79bb], [0x9650, 0x503c], [0x6e29, 0x5ea6], [0x7535, 0x538b], [0x7535, 0x6d41], [0x6807, 0x51c6], [0x89c4, 0x8303], [0x89c4, 0x7a0b],
         [0x4fdd, 0x62a4, 0x5b9a, 0x503c], [0x6574, 0x5b9a], [0x989d, 0x5b9a], [0x5141, 0x8bb8], [0x6700, 0x9ad8], [0x6700, 0x4f4e], [0x4e0a, 0x9650], [0x4e0b, 0x9650]])]"

definition classify_query :: "pystr \<Rightarrow> pystr" where
  "classify_query query =
     (case find (\<lambda>(_, keywords). list_ex (\<lambda>kw. py_in kw query) keywords) QUERY_TYPE_RULES of
        Some (qtype, _) \<Rightarrow> qtype
      | None \<Rightarrow> asc ''general'')"

definition GAP_PROMPT_HEAD :: "pystr \<Rightarrow> pystr" where
  "GAP_PROMPT_HEAD confidence =
     [10, 10] @ [0x3010, 0x77e5, 0x8bc6, 0x8865, 0x5168, 0xb7, 0x7279, 0x522b, 0x8981, 0x6c42, 0x3011, 0x672c, 0x6b21, 0x4e3a, 0x8bc1, 0x636e, 0x8865, 0x5168, 0x8349, 0x7a3f, 0xff08, 0x539f, 0x59cb, 0x7f6e, 0x4fe1, 0x5ea6, 0xff1a] @ confidence @ [0xff09, 0x3002]"

definition gap_prompt_extra :: "pystr \<Rightarrow> pystr \<Rightarrow> pystr" where
  "gap_prompt_extra qtype confidence =
     GAP_PROMPT_HEAD confidence @
     (if qtype = asc ''fault'' then
        [0x8bf7, 0x4e25, 0x683c, 0x6309, 0x4ee5, 0x4e0b, 0x7ed3, 0x6784, 0x4f5c, 0x7b54, 0xff1a] @ [10] @
        (asc ''1. '' @ [0x3010, 0x73b0, 0x8c61, 0x63cf, 0x8ff0, 0x3011, 0xff1a, 0x6545, 0x969c, 0x7684, 0x5178, 0x578b, 0x8868, 0x73b0, 0x548c, 0x5224, 0x636e]) @ [10] @
        (asc ''2. '' @ [0x3010, 0x53ef, 0x80fd, 0x539f, 0x56e0, 0x3011, 0xff1a, 0x5217, 0x51fa, 0x5e38, 0x89c1, 0x539f, 0x56e0, 0xff08, 0x6309, 0x53ef, 0x80fd, 0x6027, 0x6392, 0x5e8f, 0xff09]) @ [10] @
        (asc ''3. '' @ [0x3010, 0x5904, 0x7f6e, 0x63aa, 0x65bd, 0x3011, 0xff1a, 0x5177, 0x4f53, 0x64cd, 0x4f5c, 0x6b65, 0x9aa4, 0xff08, 0x6309, 0x987a, 0x5e8f, 0xff0c, 0x6807, 0x6ce8, 0x5b89, 0x5168, 0x6ce8, 0x610f, 0x4e8b, 0x9879, 0xff09]) @ [10] @
        (asc ''4. '' @ [0x3010, 0x4f9d, 0x636e, 0x89c4, 0x7a0b, 0x3011, 0xff1a, 0x5f15, 0x7528, 0x76f8, 0x5173, 0x89c4, 0x7a0b, 0x6761, 0x6b3e, 0x6216, 0x6807, 0x51c6, 0x7f16, 0x53f7]) @ [10] @
        ([0x82e5, 0x53c2, 0x8003, 0x8d44, 0x6599, 0x4e0d, 0x8db3, 0x4ee5, 0x8986, 0x76d6, 0x67d0, 0x4e2a, 0x73af, 0x8282, 0xff0c, 0x8be5, 0x73af, 0x8282, 0x5fc5, 0x987b, 0x5199, 0x660e, 0x27, 0x73b0, 0x6709, 0x8d44, 0x6599, 0x65e0, 0x6cd5, 0x786e, 0x8ba4, 0xff0c, 0x9700, 0x8865, 0x5145] @ asc ''XX'' @ [0x89c4, 0x7a0b, 0x27, 0x3002])
      else if qtype = asc ''procedure'' then
        [0x8bf7, 0x4e25, 0x683c, 0x6309, 0x64cd, 0x4f5c, 0x6b65, 0x9aa4, 0x987a, 0x5e8f, 0x7f16, 0x5199, 0xff0c, 0x6bcf, 0x6b65, 0x6807, 0x6ce8, 0xff1a] @ [10] @
        (asc ''1. '' @ [0x64cd, 0x4f5c, 0x5185, 0x5bb9, 0x548c, 0x987a, 0x5e8f, 0x7f16, 0x53f7]) @ [10] @
        (asc ''2. '' @ [0x5b89, 0x5168, 0x6ce8, 0x610f, 0x4e8b, 0x9879, 0xff08, 0x505c, 0x7535] @ asc ''/'' @ [0x9a8c, 0x7535] @ asc ''/'' @ [0x6302, 0x5730, 0x7ebf, 0x7b49, 0xff09]) @ [10] @
        (asc ''3. '' @ [0x4f9d, 0x636e, 0x7684, 0x5b89, 0x89c4, 0x6761, 0x6b3e, 0x6216, 0x64cd, 0x4f5c, 0x7968, 0x7f16, 0x53f7]) @ [10] @
        [0x7f3a, 0x5c11, 0x4f9d, 0x636e, 0x7684, 0x6b65, 0x9aa4, 0x5fc5, 0x987b, 0x6807, 0x6ce8, 0x27, 0x9700, 0x8865, 0x5145, 0x64cd, 0x4f5c, 0x7968, 0x27, 0x3002]
      else if qtype = asc ''safety'' then
        [0x8bf7, 0x7ed9, 0x51fa, 0xff1a] @ [10] @
        (asc ''1. '' @ [0x660e, 0x786e, 0x7684, 0x6570, 0x503c, 0x548c, 0x5355, 0x4f4d]) @ [10] @
        (asc ''2. '' @ [0x9002, 0x7528, 0x6761, 0x4ef6, 0xff08, 0x7535, 0x538b, 0x7b49, 0x7ea7, 0x3001, 0x8bbe, 0x5907, 0x7c7b, 0x578b, 0x7b49, 0xff09]) @ [10] @
        (asc ''3. '' @ [0x4f9d, 0x636e, 0x7684, 0x6807, 0x51c6] @ asc ''/'' @ [0x89c4, 0x7a0b, 0x6761, 0x6b3e, 0x7f16, 0x53f7]) @ [10] @
        (asc ''4. '' @ [0x4f8b, 0x5916, 0x60c5, 0x51b5, 0x548c, 0x7279, 0x6b8a, 0x8bf4, 0x660e]) @ [10] @
        [0x6570, 0x503c, 0x5fc5, 0x987b, 0x7ed1, 0x5b9a, 0x5f15, 0x7528, 0x6765, 0x6e90, 0xff0c, 0x65e0, 0x6765, 0x6e90, 0x7684, 0x6570, 0x503c, 0x4e0d, 0x5f97, 0x7ed9, 0x51fa, 0x3002]
      else
        ([0x8bf7, 0x5148, 0x7ed9, 0x7ed3, 0x8bba, 0xff0c, 0x518d, 0x7ed9, 0x4f9d, 0x636e] @ asc ''/'' @ [0x6b65, 0x9aa4, 0xff0c, 0x6700, 0x540e, 0x5f15, 0x7528, 0x6765, 0x6e90, 0x3002]) @
        [0x6807, 0x6ce8, 0x4e0d, 0x786e, 0x5b9a, 0x7684, 0x90e8, 0x5206, 0xff0c, 0x907f, 0x514d, 0x7edd, 0x5bf9, 0x5316, 0x7ed3, 0x8bba, 0x3002])"

record context_item =
  cx_doc_name :: pystr
  cx_chunk :: pystr

definition draft_refs :: "context_item list \<Rightarrow> pystr" where
  "draft_refs contexts =
     py_join [10, 10] (map (\<lambda>(i, c). asc ''['' @ dec_nat (i + 1) @ asc ''] '' @ cx_doc_name c @ [0xff1a] @ cx_chunk c)
       (enumerate 0 contexts))"

definition draft_gap_context :: "pystr \<Rightarrow> pystr \<Rightarrow> pystr" where
  "draft_gap_context original_answer confidence =
     (if original_answer \<noteq> [] then [10] @ [0x3010, 0x4e4b, 0x524d, 0x7b54, 0x6848, 0xff08, 0x9700, 0x8865, 0x5f3a, 0xff09, 0x3011] @ [10] @ take 500 original_answer else []) @
     (if confidence = asc ''refused'' then [10] @ ([0x3010, 0x8865, 0x5f3a, 0x65b9, 0x5411, 0x3011, 0x5f3a, 0x76f8, 0x5173, 0x8bc1, 0x636e, 0x7f3a, 0x5931, 0xff0c, 0x9700, 0x4ece, 0x89c4, 0x7a0b] @ asc ''/'' @ [0x6848, 0x4f8b, 0x4e2d, 0x627e, 0x652f, 0x6491])
      else if confidence = asc ''medium'' then [10] @ [0x3010, 0x8865, 0x5f3a, 0x65b9, 0x5411, 0x3011, 0x8bc1, 0x636e, 0x6709, 0x9650, 0xff0c, 0x9700, 0x8865, 0x5145, 0x66f4, 0x5177, 0x4f53, 0x7684, 0x4f9d, 0x636e, 0x548c, 0x6570, 0x503c]
      else [])"

text \<open>The two messages, each with its role, and the answer without blanks around it.\<close>

definition draft_messages :: "pystr \<Rightarrow> pystr \<Rightarrow> context_item list \<Rightarrow> pystr \<Rightarrow> pystr \<Rightarrow> (pystr \<times> pystr) list" where
  "draft_messages system_prompt query contexts original_answer confidence =
     [(asc ''system'', system_prompt @ gap_prompt_extra (classify_query query) (py_or confidence (asc ''medium''))),
      (asc ''user'', [0x3010, 0x53c2, 0x8003, 0x8d44, 0x6599, 0x3011] @ [10] @ draft_refs contexts @ draft_gap_context original_answer confidence @ [10, 10] @
         [0x3010, 0x95ee, 0x9898, 0x3011] @ query @ [10, 10] @ [0x8bf7, 0x4e25, 0x683c, 0x4f9d, 0x636e, 0x53c2, 0x8003, 0x8d44, 0x6599, 0x6309, 0x89c4, 0x5219, 0x4f5c, 0x7b54, 0xff0c, 0x91cd, 0x70b9, 0x8865, 0x5f3a, 0x4e0a, 0x8ff0, 0x4e0d, 0x8db3, 0x3002])]"

definition generate_adaptive_draft ::
  "((pystr \<times> pystr) list \<Rightarrow> pystr res) \<Rightarrow> pystr \<Rightarrow> pystr \<Rightarrow> context_item list \<Rightarrow> pystr \<Rightarrow> pystr \<Rightarrow> pystr res" where
  "generate_adaptive_draft chat system_prompt query contexts original_answer confidence =
     map_sum id py_strip (chat (draft_messages system_prompt query contexts original_answer confidence))"

section \<open>Chunks of the virtual document\<close>

definition AI_DOC_NAME :: pystr where
  "AI_DOC_NAME = (asc ''AI'' @ [0x81ea, 0x8fdb, 0x5316, 0x8349, 0x7a3f, 0x96c6])"

definition ai_doc_id :: "pystr \<Rightarrow> pystr" where
  "ai_doc_id tenant = asc ''ai-evo-'' @ tenant"

definition blank_document :: "pystr \<Rightarrow> pystr \<Rightarrow> pystr \<Rightarrow> pystr \<Rightarrow> pystr \<Rightarrow> time \<Rightarrow> kb_document" where
  "blank_document i name doctype status tenant now = \<lparr>dc_id = i, dc_doc_name = name, dc_file_size = 0, dc_status = status,
     dc_chunk_count = 0, dc_dept = [], dc_allowed_roles = [], dc_tenant_id = tenant, dc_doc_type = doctype,
     dc_equipment_tags = [], dc_created_at = now\<rparr>"

definition ensure_ai_doc :: "kb_env \<Rightarrow> pystr \<Rightarrow> 'a kb_db_scheme \<Rightarrow> pystr \<times> 'a kb_db_scheme" where
  "ensure_ai_doc env tenant db =
     (let i = ai_doc_id tenant
      in (i, if get_row dc_id i (kb_documents db) = None
             then db\<lparr>kb_documents := kb_documents db @
               [blank_document i AI_DOC_NAME (asc ''ai_evolution'') (asc ''vectorized'') tenant (sqlnow (ke_clock env))]\<rparr>
             else db))"

text \<open>The primary key of a vector: the document and the number of the chunk in it.\<close>

definition vector_pk :: "pystr \<Rightarrow> int \<Rightarrow> pystr" where
  "vector_pk doc_id idx = doc_id @ asc ''_'' @ py_str_int idx"

definition primary_collection :: "kb_env \<Rightarrow> pystr" where
  "primary_collection env = (if ke_emb_provider env = asc ''bge'' then ke_collection_bge env else ke_collection env)"

definition new_chunk :: "pystr \<Rightarrow> pystr \<Rightarrow> int \<Rightarrow> pystr \<Rightarrow> pystr \<Rightarrow> kb_chunk" where
  "new_chunk i doc_id idx content section =
     \<lparr>kc_id = i, kc_doc_id = doc_id, kc_chunk_idx = idx, kc_content = content, kc_section = section\<rparr>"

text \<open>
  With the virtual document, as both callers have it. What fails is rolled back with the transaction
  of the caller; the number of the new chunk is the number of chunks the document has.
\<close>

definition persist_chunk :: "kb_env \<Rightarrow> pystr \<Rightarrow> pystr \<Rightarrow> pystr \<Rightarrow> 'a kb_db_scheme \<Rightarrow> (pystr \<times> 'a kb_db_scheme) res" where
  "persist_chunk env content title tenant db =
     (let (doc_id, db1) = ensure_ai_doc env tenant db;
          cnt = int (length (filter (\<lambda>k. kc_doc_id k = doc_id) (kb_chunks db1)));
          chunk_id = ke_uuid env 0;
          chunk = new_chunk chunk_id doc_id cnt content (take 256 (asc ''[AI]'' @ title))
      in if get_row kc_id chunk_id (kb_chunks db1) \<noteq> None then Inl IntegrityError
         else case (ke_embed_error env, ke_vector_error env) of
                (Some e, _) \<Rightarrow> Inl e
              | (None, Some e) \<Rightarrow> Inl e
              | (None, None) \<Rightarrow>
                  Inr (chunk_id, command (InsertVectors (primary_collection env) [(vector_pk doc_id cnt, content)])
                    (db1\<lparr>kb_chunks := kb_chunks db1 @ [chunk]\<rparr>)))"

section \<open>Equipment tags and indexing\<close>

definition auto_equipment_tags :: "kb_env \<Rightarrow> pystr \<Rightarrow> pystr" where
  "auto_equipment_tags env content =
     (if content = [] then []
      else py_join [44] (take 20 (sort_key (\<lambda>w. - int (length w))
        (filter (\<lambda>w. w \<noteq> [] \<and> py_in w content) (ke_visit env (fromkeys (ke_terms env)))))))"

definition embedding_target :: "kb_env \<Rightarrow> nat \<Rightarrow> pystr \<times> pystr" where
  "embedding_target env total_chars =
     (if ke_emb_provider env = asc ''bge'' then (asc ''bge'', ke_collection_bge env)
      else if ke_size_threshold env < total_chars then (ke_emb_provider env, ke_collection env)
      else (asc ''bge'', ke_collection_bge env))"

definition doc_chunks :: "pystr \<Rightarrow> 'a kb_db_scheme \<Rightarrow> kb_chunk list" where
  "doc_chunks doc_id db = sort_key kc_chunk_idx (filter (\<lambda>k. kc_doc_id k = doc_id) (kb_chunks db))"

definition MSG_NOT_PARSED :: pystr where
  "MSG_NOT_PARSED = [0x6587, 0x6863, 0x5c1a, 0x672a, 0x89e3, 0x6790, 0xff0c, 0x8bf7, 0x5148, 0x8c03, 0x7528, 0x89e3, 0x6790, 0x63a5, 0x53e3]"

definition vectorize_document :: "kb_env \<Rightarrow> pystr \<Rightarrow> 'a kb_db_scheme \<Rightarrow> 'a kb_db_scheme res" where
  "vectorize_document env doc_id db =
     (case get_row dc_id doc_id (kb_documents db) of
        None \<Rightarrow> Inl (BizError msg_no_document 404)
      | Some doc \<Rightarrow>
          (let rows = doc_chunks doc_id db;
               (provider, collection) = embedding_target env (sum_list (map (length \<circ> kc_content) rows))
           in if rows = [] then Inl (BizError MSG_NOT_PARSED 400)
              else case (ke_embed_error env, ke_vector_error env) of
                     (Some e, _) \<Rightarrow> Inl e
                   | (None, Some e) \<Rightarrow> Inl e
                   | (None, None) \<Rightarrow>
                       (let db1 = command (InsertVectors collection
                              (map (\<lambda>k. (vector_pk doc_id (kc_chunk_idx k), kc_content k)) rows))
                              (command (DeleteByDoc doc_id) db)
                        in Inr (db1\<lparr>kb_documents := put_row dc_id (doc\<lparr>dc_status := asc ''vectorized''\<rparr>) (kb_documents db1),
                              kb_cache := snd (cache_invalidate_for_doc (ke_cache_fails env) (ke_clock env) doc_id (kb_cache db1))\<rparr>))))"

end
