(* ===== verification/EvidenceGap.thy ===== *)
theory EvidenceGap
  imports Backbone
begin

text \<open>
  Evidence gaps: questions the service could not answer well are collected, drafted by a language
  model or an agent, confirmed by a person and written back to the knowledge base
  (models/evidence_gap.py, services/evidence_gap_service.py, the end points of routers/system.py).
\<close>

section \<open>The table\<close>

record evidence_gap =
  eg_id :: nat
  eg_ts :: time
  eg_query :: pystr
  eg_original_answer :: pystr
  eg_confidence :: pystr
  eg_grade :: pystr
  eg_crag_action :: pystr
  eg_source :: pystr
  eg_status :: pystr
  eg_ai_draft :: pystr
  eg_final_answer :: pystr
  eg_synced_doc_id :: pystr
  eg_synced_cache :: nat
  eg_tenant :: pystr
  eg_operator :: pystr
  eg_handled_at :: "time option"
  eg_is_deleted :: bool

record gap_db = kb_db +
  gb_gaps :: "evidence_gap list"
  gb_next :: nat

record agent_reply =
  ar_answer :: json
  ar_steps :: "json list"
  ar_iterations :: nat
  ar_degraded :: bool

text \<open>
  What the operations meet beside the stores: the search, the language model with its system prompt,
  the agent (the steps it reports before it raises), the cache table and the cache server.
\<close>

record gap_env =
  gv_kb :: kb_env
  gv_search :: "pystr \<Rightarrow> nat \<Rightarrow> pystr \<Rightarrow> context_item list res"
  gv_chat :: "(pystr \<times> pystr) list \<Rightarrow> pystr res"
  gv_system_prompt :: pystr
  gv_agent :: "pystr \<Rightarrow> (json list \<times> pystr) + agent_reply"
  gv_topk_mult :: nat
  gv_faq_doctype :: pystr
  gv_call :: cache_call
  gv_redis :: cache_env

definition gap_row :: "nat \<Rightarrow> 'a gap_db_scheme \<Rightarrow> evidence_gap option" where
  "gap_row gap_id db = get_row eg_id gap_id (gb_gaps db)"

definition put_gap :: "evidence_gap \<Rightarrow> 'a gap_db_scheme \<Rightarrow> 'a gap_db_scheme" where
  "put_gap r db = db\<lparr>gb_gaps := put_row eg_id r (gb_gaps db)\<rparr>"

section \<open>Collection\<close>

record gap_args =
  ga_query :: pystr
  ga_answer :: pystr
  ga_confidence :: pystr
  ga_grade :: pystr
  ga_action :: pystr
  ga_source :: pystr
  ga_tenant :: pystr

definition new_gap :: "time \<Rightarrow> nat \<Rightarrow> gap_args \<Rightarrow> evidence_gap" where
  "new_gap now i a = \<lparr>eg_id = i, eg_ts = now, eg_query = ga_query a, eg_original_answer = take 2000 (ga_answer a),
     eg_confidence = ga_confidence a, eg_grade = ga_grade a, eg_crag_action = ga_action a, eg_source = ga_source a,
     eg_status = asc ''pending'', eg_ai_draft = [], eg_final_answer = [], eg_synced_doc_id = [], eg_synced_cache = 0,
     eg_tenant = ga_tenant a, eg_operator = [], eg_handled_at = None, eg_is_deleted = False\<rparr>"

text \<open>
  One pending row makes it return 0, and so do two: \<open>scalar_one_or_none\<close> raises and the exception
  is swallowed.
\<close>

definition collect :: "clock \<Rightarrow> gap_args \<Rightarrow> 'a gap_db_scheme \<Rightarrow> nat \<times> 'a gap_db_scheme" where
  "collect c a db =
     (if ga_query a = [] then (0, db)
      else case filter (\<lambda>r. eg_query r = ga_query a \<and> eg_status r = asc ''pending'') (gb_gaps db) of
             [] \<Rightarrow> (gb_next db, db\<lparr>gb_gaps := gb_gaps db @ [new_gap (sqlnow c) (gb_next db) a], gb_next := gb_next db + 1\<rparr>)
           | _ \<Rightarrow> (0, db))"

text \<open>The subscriber of dislikes, for payloads with texts.\<close>

definition payload_str :: "fields \<Rightarrow> pystr \<Rightarrow> pystr" where
  "payload_str payload k = (case json_get payload k (JStr []) of JStr s \<Rightarrow> s | _ \<Rightarrow> [])"

definition on_dislike_gap :: "clock \<Rightarrow> fields \<Rightarrow> pystr \<Rightarrow> 'a gap_db_scheme \<Rightarrow> 'a gap_db_scheme" where
  "on_dislike_gap c payload tenant db =
     snd (collect c \<lparr>ga_query = payload_str payload (asc ''query''), ga_answer = payload_str payload (asc ''answer''),
       ga_confidence = asc ''medium'', ga_grade = [], ga_action = asc ''dislike'', ga_source = asc ''feedback_dislike'',
       ga_tenant = tenant\<rparr> db)"

section \<open>Queries\<close>

definition list_gaps ::
  "pystr option \<Rightarrow> pystr option \<Rightarrow> int \<Rightarrow> int \<Rightarrow> 'a gap_db_scheme \<Rightarrow> nat \<times> evidence_gap list" where
  "list_gaps status source page sz db =
     (let sel = filter (\<lambda>r. \<not> eg_is_deleted r \<and> (\<forall>s \<in> set_option status. s \<noteq> [] \<longrightarrow> eg_status r = s) \<and>
            (\<forall>s \<in> set_option source. s \<noteq> [] \<longrightarrow> eg_source r = s)) (gb_gaps db)
      in if (page - 1) * sz < 0 \<or> sz < 0 then (0, [])
         else (length sel, page_rows (nat ((page - 1) * sz)) (nat sz) (sort_key (\<lambda>r. - eg_ts r) sel)))"

definition get_gap :: "nat \<Rightarrow> 'a gap_db_scheme \<Rightarrow> evidence_gap option" where
  "get_gap gap_id db = gap_row gap_id db"

section \<open>Drafts\<close>

definition drafted :: "pystr \<Rightarrow> evidence_gap \<Rightarrow> evidence_gap" where
  "drafted draft r = r\<lparr>eg_ai_draft := draft, eg_status := asc ''ai_drafted''\<rparr>"

definition ai_draft :: "gap_env \<Rightarrow> nat \<Rightarrow> 'a gap_db_scheme \<Rightarrow> pystr \<times> 'a gap_db_scheme" where
  "ai_draft env gap_id db =
     (case gap_row gap_id db of
        None \<Rightarrow> ([], db)
      | Some row \<Rightarrow>
          (case gv_search env (eg_query row) (5 * gv_topk_mult env) (eg_tenant row) of
             Inl _ \<Rightarrow> ([], db)
           | Inr contexts \<Rightarrow>
               (case generate_adaptive_draft (gv_chat env) (gv_system_prompt env) (eg_query row) contexts
                       (eg_original_answer row) (py_or (eg_confidence row) (asc ''medium'')) of
                  Inl _ \<Rightarrow> ([], db)
                | Inr draft \<Rightarrow> (draft, put_gap (drafted draft row) db))))"

definition deep_draft :: "gap_env \<Rightarrow> nat \<Rightarrow> 'a gap_db_scheme \<Rightarrow> pystr \<times> 'a gap_db_scheme" where
  "deep_draft env gap_id db =
     (case gap_row gap_id db of
        None \<Rightarrow> ([], db)
      | Some row \<Rightarrow>
          (case gv_agent env (eg_query row) of
             Inl _ \<Rightarrow> ([], db)
           | Inr res \<Rightarrow>
               (let draft = py_str (ar_answer res) in (draft, put_gap (drafted draft row) db))))"

text \<open>The stream of the same: what is sent, with the row saved between the text and the end.\<close>

datatype stream_event =
    SMeta pystr
  | SToolStep json
  | SToken pystr
  | SDone nat bool
  | SError pystr

definition MSG_NO_QUERY :: pystr where
  "MSG_NO_QUERY = ([0x8bb0, 0x5f55, 0x4e0d, 0x5b58, 0x5728, 0x6216] @ asc '' query '' @ [0x4e3a, 0x7a7a])"

definition deep_draft_stream :: "gap_env \<Rightarrow> nat \<Rightarrow> 'a gap_db_scheme \<Rightarrow> stream_event list \<times> 'a gap_db_scheme" where
  "deep_draft_stream env gap_id db =
     (let query = (case gap_row gap_id db of Some row \<Rightarrow> eg_query row | None \<Rightarrow> [])
      in if query = [] then ([SError MSG_NO_QUERY], db)
         else case gv_agent env query of
           Inl (steps, err) \<Rightarrow> (SMeta query # map SToolStep steps @ [SError err], db)
         | Inr res \<Rightarrow>
             (let draft = py_str (ar_answer res)
              in (SMeta query # map SToolStep (ar_steps res) @ [SToken draft, SDone (ar_iterations res) (ar_degraded res)],
                  case gap_row gap_id db of Some r \<Rightarrow> put_gap (drafted draft r) db | None \<Rightarrow> db)))"

section \<open>Corrections by hand\<close>

definition MSG_NO_RECORD :: pystr where
  "MSG_NO_RECORD = [0x8bb0, 0x5f55, 0x4e0d, 0x5b58, 0x5728]"

text \<open>Whether it was done, with the message if not.\<close>

type_synonym gap_outcome = "pystr option"

definition change_gap :: "(evidence_gap \<Rightarrow> evidence_gap) \<Rightarrow> nat \<Rightarrow> 'a gap_db_scheme \<Rightarrow> gap_outcome \<times> 'a gap_db_scheme" where
  "change_gap f gap_id db =
     (case gap_row gap_id db of None \<Rightarrow> (Some MSG_NO_RECORD, db) | Some row \<Rightarrow> (None, put_gap (f row) db))"

definition update_ai_draft :: "nat \<Rightarrow> pystr \<Rightarrow> 'a gap_db_scheme \<Rightarrow> gap_outcome \<times> 'a gap_db_scheme" where
  "update_ai_draft gap_id draft db = change_gap (drafted draft) gap_id db"

definition update_confidence :: "nat \<Rightarrow> pystr \<Rightarrow> 'a gap_db_scheme \<Rightarrow> gap_outcome \<times> 'a gap_db_scheme" where
  "update_confidence gap_id confidence db = change_gap (\<lambda>row. row\<lparr>eg_confidence := confidence\<rparr>) gap_id db"

definition edit_answer :: "nat \<Rightarrow> pystr \<Rightarrow> 'a gap_db_scheme \<Rightarrow> gap_outcome \<times> 'a gap_db_scheme" where
  "edit_answer gap_id final_answer db =
     change_gap (\<lambda>row. row\<lparr>eg_final_answer := final_answer, eg_status := asc ''confirmed''\<rparr>) gap_id db"

text \<open>The end points that write the table themselves.\<close>

definition evidence_gap_ignore :: "nat \<Rightarrow> 'a gap_db_scheme \<Rightarrow> 'a gap_db_scheme" where
  "evidence_gap_ignore gap_id db = snd (change_gap (\<lambda>row. row\<lparr>eg_status := asc ''ignored''\<rparr>) gap_id db)"

definition evidence_gap_delete :: "nat \<Rightarrow> 'a gap_db_scheme \<Rightarrow> 'a gap_db_scheme" where
  "evidence_gap_delete gap_id db = snd (change_gap (\<lambda>row. row\<lparr>eg_is_deleted := True\<rparr>) gap_id db)"

definition evidence_gap_batch_delete :: "nat list \<Rightarrow> 'a gap_db_scheme \<Rightarrow> 'a gap_db_scheme" where
  "evidence_gap_batch_delete ids db =
     db\<lparr>gb_gaps := map (\<lambda>r. if eg_id r \<in> set ids then r\<lparr>eg_is_deleted := True\<rparr> else r) (gb_gaps db)\<rparr>"

section \<open>Confirmation\<close>

text \<open>A text with a lone surrogate cannot be encoded.\<close>

definition encodable :: "pystr \<Rightarrow> bool" where
  "encodable s \<longleftrightarrow> list_all (\<lambda>c. \<not> (0xD800 \<le> c \<and> c \<le> 0xDFFF)) s"

definition MSG_EMPTY_ANSWER :: pystr where
  "MSG_EMPTY_ANSWER = asc ''final_answer '' @ [0x4e3a, 0x7a7a]"

definition faq_name :: "pystr \<Rightarrow> pystr" where
  "faq_name nq = asc ''FAQ:'' @ take 40 nq @ asc ''.md''"

definition faq_document :: "gap_env \<Rightarrow> pystr \<Rightarrow> evidence_gap \<Rightarrow> pystr \<Rightarrow> kb_document" where
  "faq_document env doc_id row final_answer =
     (blank_document doc_id (faq_name (eg_query row)) (gv_faq_doctype env) (asc ''parsed'') (eg_tenant row) (sqlnow (ke_clock (gv_kb env))))
       \<lparr>dc_file_size := int (length (utf8 final_answer)), dc_chunk_count := 1,
        dc_equipment_tags := auto_equipment_tags (gv_kb env) final_answer\<rparr>"

definition faq_result :: "gap_env \<Rightarrow> pystr \<Rightarrow> evidence_gap \<Rightarrow> pystr \<Rightarrow> fields" where
  "faq_result env doc_id row final_answer =
     [(asc ''answer'', JStr final_answer),
      (asc ''retrievalSource'', JList [JObj [(asc ''docId'', JStr doc_id), (asc ''docName'', JStr (faq_name (eg_query row))),
         (asc ''docType'', JStr (gv_faq_doctype env)), (asc ''chunkIdx'', JInt 0), (asc ''chunk'', JStr final_answer),
         (asc ''score'', JFloat (asc ''1.0'')), (asc ''sources'', JList [JStr (asc ''evidence_gap_faq'')])]]),
      (asc ''confidence'', JStr (asc ''high'')), (asc ''hallucinationRate'', JFloat (asc ''0.0'')),
      (asc ''cached'', JBool True), (asc ''cacheLayer'', JStr (asc ''redis''))]"

text \<open>
  The document and its chunk are committed first; the indexing, the two caches and the status of the
  gap follow in transactions of their own, and what was committed stays when a later one fails. The
  reply is the id of the document, or nothing.
\<close>

definition faq_stored :: "gap_env \<Rightarrow> evidence_gap \<Rightarrow> pystr \<Rightarrow> 'a gap_db_scheme \<Rightarrow> 'a gap_db_scheme" where
  "faq_stored env row final_answer db =
     (let doc_id = ke_uuid (gv_kb env) 0;
          db1 = (if ke_object_ok (gv_kb env)
                 then command (PutObject (asc ''faq/'' @ doc_id @ asc ''.md'') (utf8 final_answer)) db else db)
      in db1\<lparr>kb_documents := kb_documents db1 @ [faq_document env doc_id row final_answer],
           kb_chunks := kb_chunks db1 @ [new_chunk (ke_uuid (gv_kb env) 1) doc_id 0 final_answer []]\<rparr>)"

definition faq_cached :: "gap_env \<Rightarrow> pystr option \<Rightarrow> evidence_gap \<Rightarrow> pystr \<Rightarrow> 'a gap_db_scheme \<Rightarrow> 'a gap_db_scheme" where
  "faq_cached env model_type row final_answer db =
     (let nq = eg_query row
      in db\<lparr>kb_cache := cache_set_mysql (gv_call env) model_type nq nq
           (faq_result env (ke_uuid (gv_kb env) 0) row final_answer) (eg_tenant row) (kb_cache db)\<rparr>)"

definition synced :: "gap_env \<Rightarrow> pystr \<Rightarrow> pystr \<Rightarrow> evidence_gap \<Rightarrow> evidence_gap" where
  "synced env final_answer operator row =
     row\<lparr>eg_final_answer := final_answer, eg_synced_doc_id := ke_uuid (gv_kb env) 0, eg_synced_cache := 1,
       eg_status := asc ''synced'', eg_operator := operator, eg_handled_at := Some (utc (ke_clock (gv_kb env)) 0)\<rparr>"

definition confirm_and_sync ::
  "gap_env \<Rightarrow> nat \<Rightarrow> pystr \<Rightarrow> pystr \<Rightarrow> pystr option \<Rightarrow> 'a gap_db_scheme \<Rightarrow> pystr option \<times> 'a gap_db_scheme" where
  "confirm_and_sync env gap_id final_answer operator model_type db =
     (case gap_row gap_id db of
        None \<Rightarrow> (None, db)
      | Some row \<Rightarrow>
          if py_strip final_answer = [] \<or> \<not> encodable final_answer then (None, db)
          else
            (let doc_id = ke_uuid (gv_kb env) 0 in
             if get_row dc_id doc_id (kb_documents db) \<noteq> None \<or> get_row kc_id (ke_uuid (gv_kb env) 1) (kb_chunks db) \<noteq> None
             then (None, if ke_object_ok (gv_kb env)
                     then command (PutObject (asc ''faq/'' @ doc_id @ asc ''.md'') (utf8 final_answer)) db else db)
             else
               (let db1 = faq_stored env row final_answer db in
                case vectorize_document (gv_kb env) doc_id db1 of
                  Inl _ \<Rightarrow> (None, db1)
                | Inr db2 \<Rightarrow>
                    (let db3 = faq_cached env model_type row final_answer db2;
                         key = qa_cache_key (cl_settings (gv_call env)) (cl_generation (gv_call env))
                           (py_or (eg_tenant row) (asc ''default'')) model_type (eg_query row)
                     in case cache_set_json (gv_redis env) key (JObj (faq_result env doc_id row final_answer))
                            (cs_qa_cache_ttl (cl_settings (gv_call env))) (kb_redis db3) of
                          Inl _ \<Rightarrow> (None, db3)
                        | Inr st \<Rightarrow> (Some doc_id, put_gap (synced env final_answer operator row) (db3\<lparr>kb_redis := st\<rparr>))))))"

text \<open>The end point takes the edited answer, or the draft where there is none.\<close>

definition evidence_gap_confirm ::
  "gap_env \<Rightarrow> nat \<Rightarrow> pystr \<Rightarrow> 'a gap_db_scheme \<Rightarrow> pystr option \<times> 'a gap_db_scheme" where
  "evidence_gap_confirm env gap_id username db =
     (case get_gap gap_id db of
        None \<Rightarrow> (None, db)
      | Some g \<Rightarrow>
          (let final = py_or (py_strip (eg_final_answer g)) (py_strip (eg_ai_draft g))
           in if final = [] then (None, db) else confirm_and_sync env gap_id final username None db))"

definition retag_faq_equipment :: "gap_env \<Rightarrow> 'a gap_db_scheme \<Rightarrow> nat \<times> 'a gap_db_scheme" where
  "retag_faq_equipment env db =
     (let untagged = (\<lambda>d. dc_doc_type d = gv_faq_doctype env \<and> dc_equipment_tags d = [])
      in (length (filter untagged (kb_documents db)),
          db\<lparr>kb_documents := map (\<lambda>d. if untagged d
              then d\<lparr>dc_equipment_tags := auto_equipment_tags (gv_kb env) (py_join [10] (map kc_content (doc_chunks (dc_id d) db)))\<rparr>
              else d) (kb_documents db)\<rparr>))"

section \<open>The batch\<close>

record batch_stats =
  bs_scanned :: nat
  bs_drafted :: nat
  bs_synced :: nat
  bs_failed :: nat

definition batch_rows :: "pystr \<Rightarrow> nat \<Rightarrow> 'a gap_db_scheme \<Rightarrow> evidence_gap list" where
  "batch_rows tenant limit db =
     take limit (sort_key eg_ts (filter (\<lambda>r. eg_status r = asc ''pending'' \<and> \<not> eg_is_deleted r \<and> eg_tenant r = tenant) (gb_gaps db)))"

definition batch_one ::
  "pystr option \<Rightarrow> gap_env \<times> evidence_gap \<Rightarrow> batch_stats \<times> 'a gap_db_scheme \<Rightarrow> batch_stats \<times> 'a gap_db_scheme" where
  "batch_one model_type x s =
     (let (env, r) = x; (stats, db) = s; (draft, db1) = deep_draft env (eg_id r) db
      in if py_strip draft = [] then (stats\<lparr>bs_failed := bs_failed stats + 1\<rparr>, db1)
         else (let stats = stats\<lparr>bs_drafted := bs_drafted stats + 1\<rparr>;
                   (res, db2) = confirm_and_sync env (eg_id r) draft (asc ''auto-deep-sync'') model_type db1
               in (if res \<noteq> None then stats\<lparr>bs_synced := bs_synced stats + 1\<rparr> else stats\<lparr>bs_failed := bs_failed stats + 1\<rparr>, db2)))"

text \<open>Each row is handled in an environment of its own.\<close>

definition batch_deep_and_sync ::
  "(nat \<Rightarrow> gap_env) \<Rightarrow> pystr \<Rightarrow> nat \<Rightarrow> pystr option \<Rightarrow> 'a gap_db_scheme \<Rightarrow> batch_stats \<times> 'a gap_db_scheme" where
  "batch_deep_and_sync envs tenant limit model_type db =
     (let rows = batch_rows tenant limit db
      in fold (batch_one model_type) (map (\<lambda>(i, r). (envs i, r)) (enumerate 0 rows))
           (\<lparr>bs_scanned = length rows, bs_drafted = 0, bs_synced = 0, bs_failed = 0\<rparr>, db))"

text \<open>The loop, for the rounds it makes; an interval of 0 or less turns it off.\<close>

definition deep_cron_loop :: "int \<Rightarrow> nat \<Rightarrow> pystr \<Rightarrow> (nat \<Rightarrow> gap_env) list \<Rightarrow> 'a gap_db_scheme \<Rightarrow> 'a gap_db_scheme" where
  "deep_cron_loop interval limit tenant rounds db =
     (if interval \<le> 0 then db
      else fold (\<lambda>envs db. snd (batch_deep_and_sync envs tenant limit None db)) rounds db)"

end
