(* ===== verification/PyVector.thy ===== *)
theory PyVector
  imports PyNumber
begin

text \<open>
  Arithmetic of floats with a sign, \<open>math.sqrt\<close>, and the cosine and the mean of vectors
  (\<open>_cosine\<close> and \<open>_mean_vec\<close> of services/knowledge_evolution_service.py).
\<close>

section \<open>Signed arithmetic\<close>

definition sscaled :: "sdbl \<Rightarrow> nat \<Rightarrow> int" where
  "sscaled a k = (if fst a then - int (fst (snd a) * 2 ^ k) else int (fst (snd a) * 2 ^ k))"

text \<open>The float nearest to \<open>n / 2 ^ k\<close>.\<close>

definition sround :: "int \<Rightarrow> nat \<Rightarrow> sdbl" where
  "sround n k = (n < 0, fdiv (nat \<bar>n\<bar>) (2 ^ k))"

definition sadd :: "sdbl \<Rightarrow> sdbl \<Rightarrow> sdbl" where
  "sadd a b = sround (sscaled a (snd (snd b)) + sscaled b (snd (snd a))) (snd (snd a) + snd (snd b))"

definition smul :: "sdbl \<Rightarrow> sdbl \<Rightarrow> sdbl" where
  "smul a b = (fst a \<noteq> fst b, fmul (snd a) (snd b))"

definition sdiv :: "sdbl \<Rightarrow> sdbl \<Rightarrow> sdbl" where
  "sdiv a b = (let (s1, k1) = snd a; (s2, k2) = snd b in (fst a \<noteq> fst b, fdiv (s1 * 2 ^ k2) (s2 * 2 ^ k1)))"

definition sneg :: "sdbl \<Rightarrow> sdbl" where
  "sneg a = (\<not> fst a, snd a)"

definition sless :: "sdbl \<Rightarrow> sdbl \<Rightarrow> bool" where
  "sless a b \<longleftrightarrow> sscaled a (snd (snd b)) < sscaled b (snd (snd a))"

definition szero :: sdbl where
  "szero = (False, (0, 0))"

definition of_dbl :: "dbl \<Rightarrow> sdbl" where
  "of_dbl x = (False, x)"

text \<open>\<open>sum\<close> adds from the left, starting with 0.\<close>

definition ssum :: "sdbl list \<Rightarrow> sdbl" where
  "ssum xs = foldl sadd szero xs"

section \<open>Square roots\<close>

definition root_digit :: "nat \<Rightarrow> nat \<Rightarrow> nat" where
  "root_digit n q = (if (2 * q + 1) * (2 * q + 1) \<le> n then 2 * q + 1 else 2 * q)"

function isqrt :: "nat \<Rightarrow> nat" where
  "isqrt n = (if n = 0 then 0 else root_digit n (isqrt (n div 4)))"
  by pat_completeness auto
termination
  by (relation "measure id") auto

declare isqrt.simps [simp del]

lemma isqrt_bounds: "isqrt n * isqrt n \<le> n \<and> n < (isqrt n + 1) * (isqrt n + 1)"
proof (induction n rule: isqrt.induct)
  case (1 n)
  show ?case
  proof (cases "n = 0")
    case True
    then show ?thesis by (simp add: isqrt.simps)
  next
    case False
    define q where "q = isqrt (n div 4)"
    have ih: "q * q \<le> n div 4" "n div 4 < (q + 1) * (q + 1)" using 1[OF False] unfolding q_def by blast+
    have "n mod 4 < 4" and n: "n = 4 * (n div 4) + n mod 4" by simp_all
    then have "4 * (q * q) \<le> n" and "n < 4 * ((q + 1) * (q + 1))" using ih by linarith+
    then have low: "(2 * q) * (2 * q) \<le> n" and high: "n < (2 * q + 2) * (2 * q + 2)" by (simp_all add: algebra_simps)
    have step: "isqrt n = root_digit n q"
      using False by (subst isqrt.simps) (simp add: q_def)
    show ?thesis
    proof (cases "(2 * q + 1) * (2 * q + 1) \<le> n")
      case True
      with step have "isqrt n = 2 * q + 1" by (simp add: root_digit_def)
      with True high show ?thesis by simp
    next
      case False
      with step have "isqrt n = 2 * q" by (simp add: root_digit_def)
      with False low show ?thesis by simp
    qed
  qed
qed

text \<open>
  The float nearest to the root: 53 bits of the root of the number scaled to 105 or 106 bits; the
  root of an integer never lies half way between two integers.
\<close>

definition nearest_root :: "nat \<Rightarrow> nat \<Rightarrow> nat" where
  "nearest_root n r = (if r * r + r < n then r + 1 else r)"

definition root_scale :: "nat \<Rightarrow> nat \<Rightarrow> nat" where
  "root_scale s k = (106 + k - bit_len s) div 2"

definition isqrt_nearest :: "nat \<Rightarrow> nat" where
  "isqrt_nearest n = nearest_root n (isqrt n)"

fun fsqrt :: "dbl \<Rightarrow> dbl" where
  "fsqrt (s, k) =
     (if s = 0 then (0, 0) else (isqrt_nearest (s * 2 ^ (2 * root_scale s k - k)), root_scale s k))"

section \<open>Vectors\<close>

type_synonym vec = "sdbl list"

definition dot :: "vec \<Rightarrow> vec \<Rightarrow> sdbl" where
  "dot a b = ssum (map2 smul a b)"

definition norm_of :: "vec \<Rightarrow> sdbl" where
  "norm_of a = of_dbl (fsqrt (snd (ssum (map (\<lambda>x. smul x x) a))))"

definition cosine :: "vec \<Rightarrow> vec \<Rightarrow> sdbl" where
  "cosine a b =
     (let na = norm_of a; nb = norm_of b
      in if fst (snd na) = 0 \<or> fst (snd nb) = 0 then szero else sdiv (dot a b) (smul na nb))"

text \<open>None where a vector is shorter than the first one, which raises IndexError.\<close>

definition mean_vec :: "vec list \<Rightarrow> vec option" where
  "mean_vec vs =
     (let dim = length (hd vs)
      in if list_all (\<lambda>v. dim \<le> length v) vs
         then Some (map (\<lambda>i. sdiv (ssum (map (\<lambda>v. v ! i) vs)) (of_dbl (fnat (length vs)))) [0..<dim])
         else None)"

section \<open>The order\<close>

lemma sless_irrefl [simp]: "\<not> sless a a"
  by (simp add: sless_def)

lemma sscaled_zero: "sscaled a k = sscaled a 0 * 2 ^ k"
  by (simp add: sscaled_def)

lemma not_sless_trans:
  assumes "\<not> sless b a" and "\<not> sless c b"
  shows "\<not> sless c a"
proof -
  let ?A = "sscaled a 0" and ?B = "sscaled b 0" and ?C = "sscaled c 0"
  let ?a = "2 ^ snd (snd a) :: int" and ?b = "2 ^ snd (snd b) :: int" and ?c = "2 ^ snd (snd c) :: int"
  have ab: "?A * ?b \<le> ?B * ?a" and bc: "?B * ?c \<le> ?C * ?b"
    using assms sscaled_zero[of a "snd (snd b)"] sscaled_zero[of b "snd (snd a)"] sscaled_zero[of c "snd (snd b)"]
      sscaled_zero[of b "snd (snd c)"] by (simp_all add: sless_def)
  have "(?A * ?c) * ?b = (?A * ?b) * ?c" by simp
  also have "\<dots> \<le> (?B * ?a) * ?c" using ab by (rule mult_right_mono) simp
  also have "\<dots> = (?B * ?c) * ?a" by simp
  also have "\<dots> \<le> (?C * ?b) * ?a" using bc by (rule mult_right_mono) simp
  also have "\<dots> = (?C * ?a) * ?b" by simp
  finally have "?A * ?c \<le> ?C * ?a" by simp
  then show ?thesis using sscaled_zero[of a "snd (snd c)"] sscaled_zero[of c "snd (snd a)"] by (simp add: sless_def)
qed

lemma sless_total: "\<not> sless a b \<or> \<not> sless b a"
  by (auto simp: sless_def)

text \<open>\<open>max(xs, key=f)\<close>: the first of the largest.\<close>

fun max_by :: "('a \<Rightarrow> sdbl) \<Rightarrow> 'a \<Rightarrow> 'a list \<Rightarrow> 'a" where
  "max_by f m [] = m"
| "max_by f m (x # xs) = max_by f (if sless (f m) (f x) then x else m) xs"

lemma max_by_in: "max_by f m xs \<in> set (m # xs)"
  by (induction xs arbitrary: m) (auto split: if_splits)

lemma max_by_start: "\<not> sless (f (max_by f m xs)) (f m)"
proof (induction xs arbitrary: m)
  case (Cons x xs)
  show ?case
  proof (cases "sless (f m) (f x)")
    case True
    then have "\<not> sless (f x) (f m)" using sless_total by blast
    from not_sless_trans[OF this Cons[of x]] True show ?thesis by simp
  qed (use Cons[of m] in simp)
qed simp

lemma max_by_max: "y \<in> set (m # xs) \<Longrightarrow> \<not> sless (f (max_by f m xs)) (f y)"
proof (induction xs arbitrary: m)
  case (Cons x xs)
  let ?m = "if sless (f m) (f x) then x else m"
  show ?case
  proof (cases "y \<in> set xs")
    case True
    with Cons.IH[of ?m] show ?thesis by simp
  next
    case False
    with Cons.prems have "y = m \<or> y = x" by auto
    then have "\<not> sless (f ?m) (f y)" using sless_total[of "f m" "f x"] by auto
    from not_sless_trans[OF this max_by_start[of f ?m xs]] show ?thesis by simp
  qed
qed simp

end
