(* ===== verification/Evolution.thy ===== *)
theory Evolution
  imports EvidenceGap PyVector EventDispatch
begin

text \<open>
  Evolution of the knowledge base: questions that were answered badly are clustered, a cluster that
  retrieval does not cover becomes a draft, a reviewed draft is written to the knowledge base and can
  be withdrawn (models/knowledge_evolution.py, services/knowledge_evolution_service.py, its task and
  the end point that writes a draft back). JSON columns hold what the service puts there; they are
  modelled by the values they encode. Scores of the retrieval are not negative.
\<close>

section \<open>Rows\<close>

record llm_link =
  ll_run_id :: pystr
  ll_scenario_version_id :: pystr
  ll_event_id :: pystr
  ll_score :: json

record gap_evidence =
  ge_top1_score :: dbl
  ge_hit_doc_ids :: "pystr list"
  ge_confidence :: pystr
  ge_llm_user_links :: "llm_link list"
  ge_after_score :: "dbl option"
  ge_lift :: "int option"
  ge_retested_at :: "time option"

record evo_draft =
  kd_id :: pystr
  kd_tenant_id :: pystr
  kd_cluster_id :: pystr
  kd_representative_query :: pystr
  kd_member_queries :: "pystr list"
  kd_gap_evidence :: gap_evidence
  kd_source_doc_ids :: "pystr list"
  kd_draft_title :: pystr
  kd_draft_content :: pystr
  kd_status :: pystr
  kd_chunk_id :: pystr
  kd_quality_score :: dbl
  kd_model_type :: pystr
  kd_reviewer :: pystr
  kd_review_note :: pystr
  kd_reviewed_at :: "time option"
  kd_created_at :: time
  kd_indexed_at :: "time option"

text \<open>Of the feedback of users, the question as well.\<close>

record evo_feedback = feedback_row +
  fb_query :: pystr

record evo_db = gap_db +
  vd_drafts :: "evo_draft list"
  vd_feedbacks :: "evo_feedback list"
  vd_outbox :: event_db

definition put_draft :: "evo_draft \<Rightarrow> evo_db \<Rightarrow> evo_db" where
  "put_draft r db = db\<lparr>vd_drafts := put_row kd_id r (vd_drafts db)\<rparr>"

section \<open>Clusters\<close>

definition CLUSTER_THRESHOLD :: dbl where "CLUSTER_THRESHOLD = fdec 2 82"

definition CLUSTER_MIN_SIZE :: nat where "CLUSTER_MIN_SIZE = 2"

definition BLIND_TOP1_THRESHOLD :: dbl where "BLIND_TOP1_THRESHOLD = fdec 2 55"

definition AI_QUALITY_SCORE :: dbl where "AI_QUALITY_SCORE = fdec 1 6"

type_synonym item = "pystr \<times> vec"

record open_cluster =
  oc_id :: pystr
  oc_centroid :: vec
  oc_members :: "item list"

record question_cluster = open_cluster +
  qc_representative :: pystr

text \<open>An item joins the first cluster that is near enough; the mean may raise.\<close>

fun place :: "dbl \<Rightarrow> pystr \<Rightarrow> item \<Rightarrow> open_cluster list \<Rightarrow> open_cluster list option" where
  "place threshold i it [] = Some [\<lparr>oc_id = i, oc_centroid = snd it, oc_members = [it]\<rparr>]"
| "place threshold i it (c # cs) =
     (if \<not> sless (cosine (snd it) (oc_centroid c)) (of_dbl threshold)
      then map_option (\<lambda>m. c\<lparr>oc_members := oc_members c @ [it], oc_centroid := m\<rparr> # cs)
             (mean_vec (map snd (oc_members c @ [it])))
      else map_option ((#) c) (place threshold i it cs))"

fun place_all :: "dbl \<Rightarrow> (nat \<Rightarrow> pystr) \<Rightarrow> nat \<Rightarrow> item list \<Rightarrow> open_cluster list \<Rightarrow> open_cluster list option" where
  "place_all threshold uuid n [] cs = Some cs"
| "place_all threshold uuid n (it # its) cs =
     (case place threshold (uuid n) it cs of None \<Rightarrow> None | Some cs' \<Rightarrow> place_all threshold uuid (n + 1) its cs')"

definition representative :: "open_cluster \<Rightarrow> item" where
  "representative c = max_by (\<lambda>m. cosine (snd m) (oc_centroid c)) (hd (oc_members c)) (tl (oc_members c))"

definition close_cluster :: "open_cluster \<Rightarrow> question_cluster" where
  "close_cluster c = open_cluster.extend c \<lparr>qc_representative = fst (representative c)\<rparr>"

definition cluster_questions :: "dbl \<Rightarrow> nat \<Rightarrow> (nat \<Rightarrow> pystr) \<Rightarrow> item list \<Rightarrow> question_cluster list option" where
  "cluster_questions threshold min_size uuid items =
     map_option (\<lambda>cs. map close_cluster (filter (\<lambda>c. min_size \<le> length (oc_members c)) cs))
       (place_all threshold uuid 0 items [])"

section \<open>What the scan reads\<close>

text \<open>A hit of the retrieval: its score, and the id under either of its two names.\<close>

record hit =
  ht_score :: "dbl option"
  ht_doc_id :: pystr
  ht_doc_id2 :: pystr

text \<open>
  What a scan meets: clock, new ids, retrieval of the best hit, embedding, language model, settings.
\<close>

record evo_env =
  ee_kb :: kb_env
  ee_top1 :: "pystr \<Rightarrow> pystr \<Rightarrow> hit list res"
  ee_embed :: "pystr list \<Rightarrow> vec list res"
  ee_chat :: "pystr \<Rightarrow> pystr res"
  ee_cluster_uuid :: "nat \<Rightarrow> pystr"
  ee_draft_uuid :: "nat \<Rightarrow> pystr"
  ee_retest_enable :: bool
  ee_retest_after_days :: int
  ee_quota :: int

definition retrieve_top1 :: "evo_env \<Rightarrow> pystr \<Rightarrow> pystr \<Rightarrow> (dbl \<times> pystr) list res" where
  "retrieve_top1 env query tenant =
     map_sum id (map (\<lambda>h. (case ht_score h of Some s \<Rightarrow> s | None \<Rightarrow> (0, 0), py_or (ht_doc_id h) (ht_doc_id2 h))))
       (ee_top1 env query tenant)"

text \<open>A blank question is left out; a pending gap counts once, a disliked question as often as it was disliked.\<close>

definition strip_all :: "pystr list \<Rightarrow> pystr list" where
  "strip_all qs = filter (\<lambda>q. q \<noteq> []) (map py_strip qs)"

definition extract_dislike :: "clock \<Rightarrow> pystr \<Rightarrow> int \<Rightarrow> evo_db \<Rightarrow> pystr list" where
  "extract_dislike c tenant since_hours db =
     (let cutoff = utc c 1 - seconds (since_hours * 3600);
          queries = strip_all (map fb_query (filter (\<lambda>f. fb_feedback f = asc ''dislike'' \<and> cutoff \<le> fb_created_at f
            \<and> fb_tenant_id f = tenant) (vd_feedbacks db)));
          gaps = strip_all (map eg_query (filter (\<lambda>r. eg_status r = asc ''pending'' \<and> \<not> eg_is_deleted r
            \<and> eg_tenant r = tenant) (gb_gaps db)))
      in queries @ filter (\<lambda>q. q \<notin> set queries) (fromkeys gaps))"

definition identify_blind_spot :: "evo_env \<Rightarrow> pystr \<Rightarrow> pystr \<Rightarrow> gap_evidence option res" where
  "identify_blind_spot env query tenant =
     map_sum id (\<lambda>top.
       let evidence = (\<lambda>s ids conf. \<lparr>ge_top1_score = s, ge_hit_doc_ids = ids, ge_confidence = conf, ge_llm_user_links = [],
             ge_after_score = None, ge_lift = None, ge_retested_at = None\<rparr>)
       in case top of
            [] \<Rightarrow> Some (evidence (0, 0) [] (asc ''blind''))
          | (score, doc) # _ \<Rightarrow>
              if \<not> fless score BLIND_TOP1_THRESHOLD then None else Some (evidence score [doc] (asc ''medium'')))
       (retrieve_top1 env query tenant)"

section \<open>Drafts\<close>

definition recent_standards :: "pystr \<Rightarrow> evo_db \<Rightarrow> kb_document list" where
  "recent_standards tenant db =
     take 3 (take 15 (sort_key (\<lambda>d. - dc_created_at d) (filter (\<lambda>d. dc_tenant_id d = tenant) (kb_documents db))))"

text \<open>The text of the prompt with the two lists in it.\<close>

definition standards_repr :: "kb_document list \<Rightarrow> pystr" where
  "standards_repr docs =
     py_repr (JList (map (\<lambda>d. JObj [(asc ''doc_id'', JStr (dc_id d)), (asc ''name'', JStr (dc_doc_name d)),
       (asc ''snippet'', JStr (take 120 (dc_doc_name d)))]) docs))"

definition draft_prompt :: "pystr list \<Rightarrow> kb_document list \<Rightarrow> pystr" where
  "draft_prompt queries docs =
     [0x4f60, 0x662f, 0x7535, 0x7f51, 0x8fd0, 0x7ef4, 0x77e5, 0x8bc6, 0x5de5, 0x7a0b, 0x5e08, 0x3002, 0x57fa, 0x4e8e, 0x9ad8, 0x9891, 0x7528, 0x6237, 0x7591, 0x95ee, 0xff08, 0x7cfb, 0x7edf, 0x672a, 0x80fd, 0x5f88, 0x597d, 0x56de, 0x7b54, 0xff09, 0x548c, 0x53c2, 0x8003, 0x8d44, 0x6599, 0xff0c, 0x7f16, 0x5199, 0x4e00, 0x6761, 0x7ed3, 0x6784, 0x5316, 0x77e5, 0x8bc6, 0x6761, 0x76ee, 0x3002] @ [10] @
     ([0x5fc5, 0x987b, 0x4e25, 0x683c, 0x57fa, 0x4e8e, 0x53c2, 0x8003, 0x8d44, 0x6599, 0xff0c, 0x4e0d, 0x5f97, 0x7f16, 0x9020, 0xff0c, 0x6807, 0x6ce8, 0x6765, 0x6e90, 0x3002, 0x53ea, 0x8f93, 0x51fa] @ asc '' JSON'' @ [0x3002]) @ [10] @
     [0x3010, 0x7528, 0x6237, 0x7591, 0x95ee, 0x7c07, 0x3011] @ py_repr (JList (map JStr (take 10 queries))) @ [10] @
     [0x3010, 0x53c2, 0x8003, 0x8d44, 0x6599, 0x3011] @ standards_repr docs @ [10] @
     ([0x8f93, 0x51fa] @ asc '' JSON: {'' @ [0x22] @ asc ''title'' @ [0x22] @ asc '':'' @ [0x22, 0x7b80, 0x6d01, 0x6807, 0x9898, 0x22] @ asc '','' @ [0x22] @ asc ''content'' @ [0x22] @ asc '':'' @ [0x22, 0x73b0, 0x8c61] @ asc ''/'' @ [0x539f, 0x56e0] @ asc ''/'' @ [0x5904, 0x7f6e] @ asc ''/'' @ [0x4f9d, 0x636e, 0x7684, 0x7ed3, 0x6784, 0x5316, 0x6b63, 0x6587, 0x22] @ asc '','' @ [0x22] @ asc ''source_refs'' @ [0x22] @ asc '':['' @ [0x22] @ asc ''doc_id'' @ [0x22] @ asc '']}'')"

text \<open>Title, content and the ids of the references; an answer that is no object has no \<open>get\<close>.\<close>

definition generate_draft ::
  "evo_env \<Rightarrow> pystr list \<Rightarrow> pystr \<Rightarrow> pystr \<Rightarrow> evo_db \<Rightarrow> (pystr \<times> pystr \<times> pystr list) res" where
  "generate_draft env queries rep tenant db =
     (let docs = recent_standards tenant db in
      case ee_chat env (draft_prompt queries docs) of
        Inl e \<Rightarrow> Inl e
      | Inr raw \<Rightarrow>
          (let obj = (case json_loads raw of
                 Some j \<Rightarrow> j
               | None \<Rightarrow> JObj [(asc ''title'', JStr (take 64 rep)), (asc ''content'', JStr (take 2000 raw))])
           in case obj of
                JObj kvs \<Rightarrow>
                  Inr (take 256 (py_str (json_get kvs (asc ''title'') (JStr []))),
                       take 8000 (py_str (json_get kvs (asc ''content'') (JStr []))), map dc_id docs)
              | _ \<Rightarrow> Inl (HandlerError (asc ''AttributeError''))))"

text \<open>
  The runs of simulated users that asked one of the questions: at most 20 of the last 1000 events of
  30 days, one for each run and version of its scenario.
\<close>

fun new_links :: "pystr set \<Rightarrow> (pystr \<times> pystr) list \<Rightarrow> domain_event list \<Rightarrow> llm_link list" where
  "new_links normalized seen [] = []"
| "new_links normalized seen (e # es) =
     (let payload = (case de_payload e of JObj kvs \<Rightarrow> kvs | _ \<Rightarrow> []);
          run_id = py_str (json_get payload (asc ''runId'') (JStr []));
          version = py_str (json_get payload (asc ''scenarioVersionId'') (JStr []));
          scores = (case json_get payload (asc ''scores'') JNull of JObj kvs \<Rightarrow> kvs | _ \<Rightarrow> [])
      in if py_strip (py_str (json_get payload (asc ''query'') (JStr []))) \<notin> normalized
           \<or> run_id = [] \<or> version = [] \<or> (run_id, version) \<in> set seen
         then new_links normalized seen es
         else \<lparr>ll_run_id = run_id, ll_scenario_version_id = version, ll_event_id = de_id e,
                ll_score = json_get scores (asc ''outcome'') JNull\<rparr> # new_links normalized ((run_id, version) # seen) es)"

definition llm_user_links :: "clock \<Rightarrow> pystr \<Rightarrow> pystr list \<Rightarrow> evo_db \<Rightarrow> llm_link list" where
  "llm_user_links c tenant queries db =
     (let normalized = set (strip_all queries) in
      if normalized = {} then []
      else take 20 (new_links normalized [] (take 1000 (sort_key (\<lambda>e. - de_occurred_at e)
        (filter (\<lambda>e. de_tenant_id e = tenant \<and> de_event_type e = asc ''llm_user.eval.completed''
           \<and> utc c 2 - seconds (30 * 86400) \<le> de_occurred_at e) (events (vd_outbox db)))))))"

section \<open>Retests\<close>

definition after_score :: "evo_env \<Rightarrow> pystr \<Rightarrow> pystr list \<Rightarrow> dbl res" where
  "after_score env tenant queries =
     (let answers = map (\<lambda>q. retrieve_top1 env q tenant) queries in
      case find isl answers of
        Some (Inl e) \<Rightarrow> Inl e
      | _ \<Rightarrow>
          (let scores = concat (map (\<lambda>a. case a of
                 Inr ((s, doc) # _) \<Rightarrow> if doc = ai_doc_id tenant then [s] else []
               | _ \<Rightarrow> []) answers)
           in Inr (if scores = [] then (0, 0)
                   else fdec 3 (fround 3 (fquot (foldl fadd (0, 0) scores) (length scores))))))"

text \<open>\<open>round(after - before, 3)\<close> in thousandths.\<close>

definition lift_of :: "dbl \<Rightarrow> dbl \<Rightarrow> int" where
  "lift_of after before =
     (let d = sadd (of_dbl after) (sneg (of_dbl before)); n = int (fround 3 (snd d)) in if fst d then - n else n)"

definition lowered :: "dbl \<Rightarrow> dbl" where
  "lowered q = (let h = fdec 3 (fround 3 (fmul q (fdec 1 5))) in if fless h (fdec 2 5) then fdec 2 5 else h)"

definition retested :: "clock \<Rightarrow> dbl \<Rightarrow> evo_draft \<Rightarrow> evo_draft" where
  "retested c after r =
     (let evi = kd_gap_evidence r; lift = lift_of after (ge_top1_score evi)
      in r\<lparr>kd_gap_evidence := evi\<lparr>ge_after_score := Some after, ge_lift := Some lift, ge_retested_at := Some (utc c 0)\<rparr>,
           kd_quality_score := (if lift \<le> 0 \<and> fst after \<noteq> 0 then lowered (kd_quality_score r) else kd_quality_score r)\<rparr>)"

definition due_for_retest :: "evo_env \<Rightarrow> pystr \<Rightarrow> time \<Rightarrow> evo_draft \<Rightarrow> bool" where
  "due_for_retest env tenant now r \<longleftrightarrow> kd_tenant_id r = tenant \<and> kd_status r = asc ''indexed'' \<and>
     (\<exists>t \<in> set_option (kd_indexed_at r). t < now - seconds (ee_retest_after_days env * 86400))"

text \<open>A draft whose retrieval raises is left as it was; the others are written. The number of those retested.\<close>

definition retest_one :: "evo_env \<Rightarrow> pystr \<Rightarrow> evo_draft \<Rightarrow> nat \<times> evo_db \<Rightarrow> nat \<times> evo_db" where
  "retest_one env tenant r s =
     (if kd_member_queries r = [] then s
      else case after_score env tenant (kd_member_queries r) of
             Inl _ \<Rightarrow> s
           | Inr after \<Rightarrow> (fst s + 1, put_draft (retested (ke_clock (ee_kb env)) after r) (snd s)))"

definition retest_indexed_drafts :: "evo_env \<Rightarrow> pystr \<Rightarrow> evo_db \<Rightarrow> nat \<times> evo_db" where
  "retest_indexed_drafts env tenant db =
     (if \<not> ee_retest_enable env then (0, db)
      else fold (retest_one env tenant) (filter (due_for_retest env tenant (utc (ke_clock (ee_kb env)) 0)) (vd_drafts db)) (0, db))"

section \<open>The scan\<close>

definition new_draft ::
  "evo_env \<Rightarrow> pystr \<Rightarrow> pystr option \<Rightarrow> nat \<Rightarrow> question_cluster \<Rightarrow> gap_evidence \<Rightarrow> pystr \<times> pystr \<times> pystr list \<Rightarrow> evo_draft" where
  "new_draft env tenant model_type n c evidence d = \<lparr>kd_id = ee_draft_uuid env n, kd_tenant_id = tenant, kd_cluster_id = oc_id c,
     kd_representative_query = qc_representative c, kd_member_queries = map fst (oc_members c), kd_gap_evidence = evidence,
     kd_source_doc_ids = snd (snd d), kd_draft_title = fst d, kd_draft_content = fst (snd d), kd_status = asc ''draft'',
     kd_chunk_id = [], kd_quality_score = AI_QUALITY_SCORE,
     kd_model_type = (case model_type of Some m \<Rightarrow> m | None \<Rightarrow> []), kd_reviewer = [], kd_review_note = [],
     kd_reviewed_at = None, kd_created_at = sqlnow (ke_clock (ee_kb env)), kd_indexed_at = None\<rparr>"

text \<open>The drafts of the clusters no retrieval covers, to be inserted together.\<close>

fun scan_clusters ::
  "evo_env \<Rightarrow> pystr \<Rightarrow> pystr option \<Rightarrow> nat \<Rightarrow> question_cluster list \<Rightarrow> evo_db \<Rightarrow> evo_draft list res" where
  "scan_clusters env tenant model_type n [] db = Inr []"
| "scan_clusters env tenant model_type n (c # cs) db =
     (case identify_blind_spot env (qc_representative c) tenant of
        Inl e \<Rightarrow> Inl e
      | Inr None \<Rightarrow> scan_clusters env tenant model_type n cs db
      | Inr (Some evidence) \<Rightarrow>
          (case generate_draft env (map fst (oc_members c)) (qc_representative c) tenant db of
             Inl e \<Rightarrow> Inl e
           | Inr d \<Rightarrow>
               (let links = llm_user_links (ke_clock (ee_kb env)) tenant (map fst (oc_members c)) db
                in map_sum id ((#) (new_draft env tenant model_type n c (evidence\<lparr>ge_llm_user_links := links\<rparr>) d))
                     (scan_clusters env tenant model_type (n + 1) cs db))))"

text \<open>
  The numbers of clusters and drafts. The retests are committed first and stay when a later step raises.
\<close>

definition run_scan ::
  "evo_env \<Rightarrow> pystr \<Rightarrow> int \<Rightarrow> pystr option \<Rightarrow> evo_db \<Rightarrow> (nat \<times> nat) res \<times> evo_db" where
  "run_scan env tenant since_hours model_type db =
     (let db1 = snd (retest_indexed_drafts env tenant db);
          queries = extract_dislike (ke_clock (ee_kb env)) tenant since_hours db1
      in if queries = [] then (Inr (0, 0), db1)
         else case ee_embed env queries of
           Inl e \<Rightarrow> (Inl e, db1)
         | Inr vecs \<Rightarrow>
             (case cluster_questions CLUSTER_THRESHOLD CLUSTER_MIN_SIZE (ee_cluster_uuid env) (zip queries vecs) of
                None \<Rightarrow> (Inl (HandlerError (asc ''IndexError'')), db1)
              | Some clusters \<Rightarrow>
                  (case scan_clusters env tenant model_type 0 clusters db1 of
                     Inl e \<Rightarrow> (Inl e, db1)
                   | Inr drafts \<Rightarrow>
                       if distinct (map kd_id (vd_drafts db1 @ drafts))
                       then (Inr (length clusters, length drafts), db1\<lparr>vd_drafts := vd_drafts db1 @ drafts\<rparr>)
                       else (Inl IntegrityError, db1))))"

definition evolution_payload :: "int \<Rightarrow> pystr option \<Rightarrow> (pystr \<times> json) list" where
  "evolution_payload since_hours model_type =
     [(asc ''since_hours'', JInt since_hours), (asc ''model_type'', (case model_type of Some m \<Rightarrow> JStr m | None \<Rightarrow> JNull))]"

definition evolution_task_args :: "pystr \<Rightarrow> time \<Rightarrow> int \<Rightarrow> pystr option \<Rightarrow> enqueue_args" where
  "evolution_task_args tenant now since_hours model_type =
     (default_enqueue_args (asc ''knowledge_evolution.scan''))\<lparr>
       ea_payload := Some (of_json (JObj (evolution_payload since_hours model_type))),
       ea_idempotency_key := asc ''evo:'' @ tenant @ [58] @ py_str_int (now div seconds 300),
       ea_tenant_id := tenant, ea_max_attempts := 2\<rparr>"

definition enqueue_evolution_scan ::
  "clock \<Rightarrow> clock \<Rightarrow> pystr \<Rightarrow> pystr \<Rightarrow> int \<Rightarrow> pystr option \<Rightarrow> task_table \<Rightarrow> (ptask \<times> task_table) res" where
  "enqueue_evolution_scan c c' uuid tenant since_hours model_type tbl =
     enqueue_task_record c' uuid tbl tbl (evolution_task_args tenant (utc c 0) since_hours model_type) tbl"

text \<open>The cron loop, for the rounds it makes: one more task each, unless the insertion fails.\<close>

definition evolution_cron_loop ::
  "int \<Rightarrow> pystr \<Rightarrow> (clock \<times> clock \<times> pystr) list \<Rightarrow> task_table \<Rightarrow> task_table" where
  "evolution_cron_loop interval_hours tenant rounds tbl =
     (if interval_hours \<le> 0 then tbl
      else fold (\<lambda>(c, c', uuid) tbl. case enqueue_evolution_scan c c' uuid tenant 168 None tbl of
             Inl _ \<Rightarrow> tbl | Inr (_, tbl') \<Rightarrow> tbl') rounds tbl)"

text \<open>The task: its tenant is that of the task's row.\<close>

definition knowledge_evolution_scan ::
  "evo_env \<Rightarrow> (pystr \<times> json) list \<Rightarrow> pystr \<Rightarrow> evo_db \<Rightarrow> (nat \<times> nat) res \<times> evo_db" where
  "knowledge_evolution_scan env payload context_tenant db =
     (case json_get payload (asc ''since_hours'') (JInt 168) of
        JInt h \<Rightarrow> run_scan env context_tenant h
          (case json_get payload (asc ''model_type'') JNull of JStr m \<Rightarrow> Some m | _ \<Rightarrow> None) db
      | _ \<Rightarrow> (Inl TypeError, db))"

section \<open>Queries and the review\<close>

definition list_drafts :: "pystr \<Rightarrow> pystr \<Rightarrow> nat \<Rightarrow> nat \<Rightarrow> evo_db \<Rightarrow> nat \<times> evo_draft list" where
  "list_drafts tenant status page sz db =
     (let rows = page_rows ((page - 1) * sz) sz (sort_key (\<lambda>r. - kd_created_at r)
            (filter (\<lambda>r. kd_tenant_id r = tenant \<and> (status \<noteq> [] \<longrightarrow> kd_status r = status)) (vd_drafts db)))
      in (length rows, rows))"

definition tenant_draft :: "pystr \<Rightarrow> pystr \<Rightarrow> evo_db \<Rightarrow> evo_draft option" where
  "tenant_draft draft_id tenant db = find (\<lambda>r. kd_id r = draft_id \<and> kd_tenant_id r = tenant) (vd_drafts db)"

definition get_draft :: "pystr \<Rightarrow> pystr \<Rightarrow> evo_db \<Rightarrow> evo_draft option" where
  "get_draft draft_id tenant db = tenant_draft draft_id tenant db"

definition draft_stats :: "pystr \<Rightarrow> evo_db \<Rightarrow> (pystr \<times> nat) list \<times> nat" where
  "draft_stats tenant db =
     (let ss = map kd_status (filter (\<lambda>r. kd_tenant_id r = tenant) (vd_drafts db))
      in (map (\<lambda>s. (s, count_list ss s)) (fromkeys ss), length ss))"

definition MSG_NO_DRAFT :: pystr where "MSG_NO_DRAFT = [0x8349, 0x7a3f, 0x4e0d, 0x5b58, 0x5728]"

definition reviewed_draft :: "clock \<Rightarrow> pystr \<Rightarrow> pystr \<Rightarrow> pystr \<Rightarrow> evo_draft \<Rightarrow> evo_draft" where
  "reviewed_draft c action remark reviewer r =
     r\<lparr>kd_status := (if action = asc ''approve'' then asc ''approved'' else asc ''rejected''), kd_reviewer := take 64 reviewer,
       kd_review_note := take 500 remark, kd_reviewed_at := Some (utc c 0)\<rparr>"

definition review_draft ::
  "clock \<Rightarrow> pystr \<Rightarrow> pystr \<Rightarrow> pystr \<Rightarrow> pystr \<Rightarrow> pystr \<Rightarrow> evo_db \<Rightarrow> evo_db res" where
  "review_draft c draft_id tenant action remark reviewer db =
     (case tenant_draft draft_id tenant db of
        None \<Rightarrow> Inl (ValueError MSG_NO_DRAFT)
      | Some r \<Rightarrow>
          if kd_status r \<noteq> asc ''draft'' then Inl (ValueError (([0x5f53, 0x524d, 0x72b6, 0x6001] @ asc '' '') @ kd_status r @ (asc '' '' @ [0x4e0d, 0x53ef, 0x5ba1, 0x6838])))
          else Inr (put_draft (reviewed_draft c action remark reviewer r) db))"

section \<open>Writing back and withdrawing\<close>

definition weekly_indexed_count :: "time \<Rightarrow> pystr \<Rightarrow> evo_db \<Rightarrow> nat" where
  "weekly_indexed_count now tenant db =
     length (filter (\<lambda>r. kd_tenant_id r = tenant \<and> kd_status r = asc ''indexed'' \<and>
       (\<exists>t \<in> set_option (kd_indexed_at r). now - seconds (7 * 86400) \<le> t)) (vd_drafts db))"

definition retest_event :: "evo_draft \<Rightarrow> llm_link \<Rightarrow> publish_args" where
  "retest_event r link = \<lparr>pa_event_type = asc ''knowledge_evolution.draft.indexed'',
     pa_payload = of_json (JObj [(asc ''draftId'', JStr (kd_id r)), (asc ''runId'', JStr (ll_run_id link)),
       (asc ''scenarioVersionId'', JStr (ll_scenario_version_id link)), (asc ''tenantId'', JStr (kd_tenant_id r)),
       (asc ''indexedAt'', iso_option (kd_indexed_at r))]),
     pa_source = asc ''knowledge-evolution'', pa_aggregate_type = asc ''knowledge_evolution_draft'', pa_aggregate_id = kd_id r,
     pa_tenant_id = kd_tenant_id r, pa_idempotency_key = asc ''llm-user-retest:'' @ kd_id r @ [58] @ ll_run_id link,
     pa_headers = None, pa_correlation_id = ll_run_id link, pa_causation_id = [], pa_schema_version = 1, pa_max_attempts = 5,
     pa_available_at = None\<rparr>"

text \<open>Each publication is a transaction; the first that raises ends the loop.\<close>

fun publish_retests ::
  "(nat \<Rightarrow> clock \<times> pystr) \<Rightarrow> nat \<Rightarrow> evo_draft \<Rightarrow> llm_link list \<Rightarrow> event_db \<Rightarrow> pyerr option \<times> event_db" where
  "publish_retests calls n r [] box = (None, box)"
| "publish_retests calls n r (link # links) box =
     (case publish_event (fst (calls n)) (snd (calls n)) (events box) (events box) (retest_event r link) box of
        Inl e \<Rightarrow> (Some e, box)
      | Inr (_, box') \<Rightarrow> publish_retests calls (n + 1) r links box')"

definition publish_llm_user_retests :: "(nat \<Rightarrow> clock \<times> pystr) \<Rightarrow> evo_draft \<Rightarrow> evo_db \<Rightarrow> pyerr option \<times> evo_db" where
  "publish_llm_user_retests calls r db =
     (let (err, box) = publish_retests calls 0 r (take 20 (ge_llm_user_links (kd_gap_evidence r))) (vd_outbox db)
      in (err, db\<lparr>vd_outbox := box\<rparr>))"

definition MSG_ONLY_APPROVED :: pystr where "MSG_ONLY_APPROVED = ([0x4ec5] @ asc '' approved '' @ [0x53ef, 0x56de, 0x6d41])"

definition msg_quota :: "nat \<Rightarrow> int \<Rightarrow> pystr" where
  "msg_quota weekly quota = ([0x672c, 0x5468, 0x56de, 0x6d41, 0x914d, 0x989d, 0x5df2, 0x6ee1] @ asc ''('') @ dec_nat weekly @ asc ''/'' @ py_str_int quota @ asc '')''"

definition indexed_draft :: "clock \<Rightarrow> pystr \<Rightarrow> evo_draft \<Rightarrow> evo_draft" where
  "indexed_draft c chunk_id r = r\<lparr>kd_chunk_id := chunk_id, kd_status := asc ''indexed'', kd_indexed_at := Some (utc c 1)\<rparr>"

text \<open>
  The draft is the row as the caller read it. The reply is the id of the chunk, or what was raised; an
  event that cannot be published raises after the draft was indexed.
\<close>

definition reflow_to_kb ::
  "evo_env \<Rightarrow> (nat \<Rightarrow> clock \<times> pystr) \<Rightarrow> evo_draft \<Rightarrow> evo_db \<Rightarrow> pystr res \<times> evo_db" where
  "reflow_to_kb env calls r db =
     (let c = ke_clock (ee_kb env);
          finish = (\<lambda>r db. case publish_llm_user_retests calls r db of
            (Some e, db') \<Rightarrow> (Inl e, db') | (None, db') \<Rightarrow> (Inr (kd_chunk_id r), db'))
      in if kd_status r = asc ''indexed'' then finish r db
         else if kd_status r \<noteq> asc ''approved'' then (Inl (ValueError MSG_ONLY_APPROVED), db)
         else
           (let weekly = weekly_indexed_count (utc c 0) (kd_tenant_id r) db in
            if 0 < ee_quota env \<and> ee_quota env \<le> int weekly then (Inl (ValueError (msg_quota weekly (ee_quota env))), db)
            else case persist_chunk (ee_kb env) (kd_draft_content r) (kd_draft_title r) (kd_tenant_id r) db of
                   Inl e \<Rightarrow> (Inl e, db)
                 | Inr (chunk_id, db1) \<Rightarrow>
                     (let r' = indexed_draft c chunk_id r in finish r' (put_draft r' db1))))"

definition draft_reflow ::
  "evo_env \<Rightarrow> (nat \<Rightarrow> clock \<times> pystr) \<Rightarrow> pystr \<Rightarrow> pystr \<Rightarrow> evo_db \<Rightarrow> pystr res \<times> evo_db" where
  "draft_reflow env calls draft_id tenant db =
     (case tenant_draft draft_id tenant db of
        None \<Rightarrow> (Inl (BizError MSG_NO_DRAFT 404), db)
      | Some r \<Rightarrow>
          (case reflow_to_kb env calls r db of
             (Inl (ValueError m), db') \<Rightarrow> (Inl (BizError m 400), db')
           | x \<Rightarrow> x))"

definition MSG_ONLY_INDEXED :: pystr where "MSG_ONLY_INDEXED = ([0x4ec5] @ asc '' indexed '' @ [0x53ef, 0x64a4, 0x56de])"

text \<open>The deletion from the vector store is best effort: \<open>ke_vector_error\<close> only keeps it from happening.\<close>

definition withdraw_draft :: "evo_env \<Rightarrow> pystr \<Rightarrow> pystr \<Rightarrow> evo_db \<Rightarrow> evo_db res" where
  "withdraw_draft env draft_id tenant db =
     (case tenant_draft draft_id tenant db of
        None \<Rightarrow> Inl (ValueError MSG_NO_DRAFT)
      | Some r \<Rightarrow>
          if kd_status r \<noteq> asc ''indexed'' then Inl (ValueError MSG_ONLY_INDEXED)
          else
            (let db1 = (case get_row kc_id (kd_chunk_id r) (kb_chunks db) of
                   None \<Rightarrow> db
                 | Some k \<Rightarrow>
                     (let db0 = (if ke_vector_error (ee_kb env) = None
                            then command (DeleteByPk (primary_collection (ee_kb env)) (vector_pk (kc_doc_id k) (kc_chunk_idx k))) db
                            else db)
                      in db0\<lparr>kb_chunks := filter (\<lambda>x. kc_id x \<noteq> kd_chunk_id r) (kb_chunks db0)\<rparr>))
             in Inr (put_draft (r\<lparr>kd_status := asc ''withdrawn''\<rparr>) db1)))"

end
