(* ===== verification/GapClaims.thy ===== *)
theory GapClaims
  imports EvidenceGap Growth
begin

text \<open>
  What holds of evidence gaps through any run: a question has one pending gap, a gap that left the
  pending state never comes back to it, a synced gap has its answer in the knowledge base, and what
  that means for a sync that failed.
\<close>

section \<open>Runs\<close>

datatype gap_op =
    Collect clock gap_args
  | OnDislike clock fields pystr
  | AiDraft gap_env nat
  | DeepDraft gap_env nat
  | StreamDraft gap_env nat
  | UpdateDraft nat pystr
  | UpdateConfidence nat pystr
  | EditAnswer nat pystr
  | IgnoreGap nat
  | DeleteGap nat
  | DeleteGaps "nat list"
  | Confirm gap_env nat pystr pystr "pystr option"
  | ConfirmApi gap_env nat pystr
  | Retag gap_env
  | Batch "nat \<Rightarrow> gap_env" pystr nat "pystr option"

fun gap_step :: "gap_op \<Rightarrow> gap_db \<Rightarrow> gap_db" where
  "gap_step (Collect c a) db = snd (collect c a db)"
| "gap_step (OnDislike c payload tenant) db = on_dislike_gap c payload tenant db"
| "gap_step (AiDraft env i) db = snd (ai_draft env i db)"
| "gap_step (DeepDraft env i) db = snd (deep_draft env i db)"
| "gap_step (StreamDraft env i) db = snd (deep_draft_stream env i db)"
| "gap_step (UpdateDraft i d) db = snd (update_ai_draft i d db)"
| "gap_step (UpdateConfidence i c) db = snd (update_confidence i c db)"
| "gap_step (EditAnswer i a) db = snd (edit_answer i a db)"
| "gap_step (IgnoreGap i) db = evidence_gap_ignore i db"
| "gap_step (DeleteGap i) db = evidence_gap_delete i db"
| "gap_step (DeleteGaps is) db = evidence_gap_batch_delete is db"
| "gap_step (Confirm env i a operator m) db = snd (confirm_and_sync env i a operator m db)"
| "gap_step (ConfirmApi env i user) db = snd (evidence_gap_confirm env i user db)"
| "gap_step (Retag env) db = snd (retag_faq_equipment env db)"
| "gap_step (Batch envs tenant limit m) db = snd (batch_deep_and_sync envs tenant limit m db)"

section \<open>What an operation may do\<close>

definition PENDING :: pystr where "PENDING = asc ''pending''"

definition gap_identity :: "evidence_gap \<Rightarrow> nat \<times> time \<times> pystr \<times> pystr \<times> pystr \<times> pystr \<times> pystr \<times> pystr" where
  "gap_identity r = (eg_id r, eg_ts r, eg_query r, eg_original_answer r, eg_grade r, eg_crag_action r, eg_source r, eg_tenant r)"

definition gap_later :: "evidence_gap \<Rightarrow> evidence_gap \<Rightarrow> bool" where
  "gap_later r r' \<longleftrightarrow> gap_identity r' = gap_identity r \<and> (eg_status r' = PENDING \<longrightarrow> eg_status r = PENDING) \<and>
     (eg_is_deleted r \<longrightarrow> eg_is_deleted r')"

definition doc_later :: "kb_document \<Rightarrow> kb_document \<Rightarrow> bool" where
  "doc_later d d' \<longleftrightarrow> dc_id d' = dc_id d \<and> dc_tenant_id d' = dc_tenant_id d \<and> dc_doc_name d' = dc_doc_name d"

text \<open>The answer of a gap is the only chunk text of the document it names, in its tenant.\<close>

definition in_knowledge_base :: "kb_document list \<Rightarrow> kb_chunk list \<Rightarrow> evidence_gap \<Rightarrow> bool" where
  "in_knowledge_base docs chunks r \<longleftrightarrow>
     (\<exists>d \<in> set docs. dc_id d = eg_synced_doc_id r \<and> dc_tenant_id d = eg_tenant r \<and> dc_doc_name d = faq_name (eg_query r)) \<and>
     (\<exists>k \<in> set chunks. kc_doc_id k = eg_synced_doc_id r \<and> kc_content k = eg_final_answer r)"

definition wf_gaps :: "gap_db \<Rightarrow> bool" where
  "wf_gaps db \<longleftrightarrow> distinct (map eg_id (gb_gaps db)) \<and> (\<forall>r \<in> set (gb_gaps db). eg_id r < gb_next db) \<and>
     distinct (map eg_query (filter (\<lambda>r. eg_status r = PENDING) (gb_gaps db))) \<and>
     distinct (map dc_id (kb_documents db)) \<and>
     (\<forall>r \<in> set (gb_gaps db). eg_status r = asc ''synced'' \<longrightarrow> in_knowledge_base (kb_documents db) (kb_chunks db) r)"

definition gap_move :: "gap_db \<Rightarrow> gap_db \<Rightarrow> bool" where
  "gap_move db db' \<longleftrightarrow> (wf_gaps db \<longrightarrow> wf_gaps db' \<and> grows gap_later (gb_gaps db) (gb_gaps db') \<and>
     grows doc_later (kb_documents db) (kb_documents db') \<and> grows (=) (kb_chunks db) (kb_chunks db'))"

lemma gap_later_refl: "gap_later r r"
  by (simp add: gap_later_def)

lemma gap_later_trans: "gap_later r r' \<Longrightarrow> gap_later r' r'' \<Longrightarrow> gap_later r r''"
  by (auto simp: gap_later_def)

lemma gap_later_id: "gap_later r r' \<Longrightarrow> eg_id r' = eg_id r"
  by (simp add: gap_later_def gap_identity_def)

lemma doc_later_refl: "doc_later d d"
  by (simp add: doc_later_def)

lemma doc_later_trans: "doc_later d d' \<Longrightarrow> doc_later d' d'' \<Longrightarrow> doc_later d d''"
  by (simp add: doc_later_def)

lemma gap_move_refl [simp]: "gap_move db db"
  by (simp add: gap_move_def grows_refl gap_later_refl doc_later_refl)

lemma gap_move_trans:
  assumes "gap_move db db'" and "gap_move db' db''"
  shows "gap_move db db''"
proof -
  have g: "grows gap_later xs ys \<Longrightarrow> grows gap_later ys zs \<Longrightarrow> grows gap_later xs zs" for xs ys zs
    by (rule grows_trans[where R = gap_later]) (auto intro: gap_later_trans)
  have d: "grows doc_later xs ys \<Longrightarrow> grows doc_later ys zs \<Longrightarrow> grows doc_later xs zs" for xs ys zs
    by (rule grows_trans[where R = doc_later]) (auto intro: doc_later_trans)
  have k: "grows (=) xs ys \<Longrightarrow> grows (=) ys zs \<Longrightarrow> grows (=) xs zs" for xs ys zs :: "kb_chunk list"
    by (rule grows_trans[where R = "(=)"]) auto
  from assms show ?thesis unfolding gap_move_def using g d k by blast
qed

lemma gap_move_same:
  "gb_gaps db' = gb_gaps db \<Longrightarrow> gb_next db' = gb_next db \<Longrightarrow> kb_documents db' = kb_documents db \<Longrightarrow>
   kb_chunks db' = kb_chunks db \<Longrightarrow> gap_move db db'"
  by (simp add: gap_move_def wf_gaps_def grows_refl gap_later_refl doc_later_refl)

lemma in_kb_grows:
  assumes "in_knowledge_base docs chunks r" and "grows doc_later docs docs'" and "grows (=) chunks chunks'"
  shows "in_knowledge_base docs' chunks' r"
proof -
  obtain mid new where docs': "docs' = mid @ new" "list_all2 doc_later docs mid" using assms(2) unfolding grows_def by blast
  have "set chunks \<subseteq> set chunks'" using assms(3) by (auto simp: grows_def list_all2_eq[symmetric])
  moreover have "\<exists>d' \<in> set docs'. doc_later d d'" if "d \<in> set docs" for d
    using that docs' unfolding docs'(1) by (auto simp: list_all2_conv_all_nth in_set_conv_nth intro!: bexI[rotated, OF UnI1[OF nth_mem]])
  ultimately show ?thesis using assms(1) unfolding in_knowledge_base_def doc_later_def by (metis subsetD)
qed

text \<open>One row of the table is changed.\<close>

lemma pending_put:
  assumes "distinct (map eg_id gaps)" and "get_row eg_id (eg_id r') gaps = Some r" and "gap_later r r'"
    and "distinct (map eg_query (filter (\<lambda>r. eg_status r = PENDING) gaps))"
  shows "distinct (map eg_query (filter (\<lambda>r. eg_status r = PENDING) (put_row eg_id r' gaps)))"
  using assms
proof (induction gaps)
  case (Cons a gaps)
  show ?case
  proof (cases "eg_id a = eg_id r'")
    case True
    with Cons.prems have "put_row eg_id r' gaps = gaps" and "a = r" by (auto simp: put_row_absent)
    with Cons.prems True show ?thesis by (auto simp: gap_later_def gap_identity_def split: if_splits)
  next
    case False
    have eq: "eg_query x \<in> eg_query ` set gaps" if "x \<in> set (put_row eg_id r' gaps)" for x
      using that False Cons.prems(2,3) put_row_set[OF that] get_row_SomeD[of eg_id "eg_id r'" gaps r]
      by (auto simp: gap_later_def gap_identity_def)
    have "eg_query a \<notin> eg_query ` {x \<in> set (put_row eg_id r' gaps). eg_status x = PENDING}" if "eg_status a = PENDING"
    proof
      assume "eg_query a \<in> eg_query ` {x \<in> set (put_row eg_id r' gaps). eg_status x = PENDING}"
      then obtain x where x: "x \<in> set (put_row eg_id r' gaps)" "eg_status x = PENDING" "eg_query x = eg_query a" by auto
      then have "\<exists>y \<in> set gaps. eg_status y = PENDING \<and> eg_query y = eg_query x"
        using put_row_set[OF x(1)] get_row_SomeD[of eg_id "eg_id r'" gaps r] Cons.prems(2,3) False
        by (auto simp: gap_later_def gap_identity_def)
      then show False using Cons.prems(4) that x(3) by (auto simp: image_iff)
    qed
    with False Cons show ?thesis by (auto split: if_splits)
  qed
qed simp

lemma move_put:
  assumes "gap_row i db = Some r" and "gap_later r r'"
    and "wf_gaps db \<Longrightarrow> eg_status r' = asc ''synced'' \<Longrightarrow> in_knowledge_base (kb_documents db) (kb_chunks db) r'"
  shows "gap_move db (put_gap r' db)"
  unfolding gap_move_def
proof
  assume wf: "wf_gaps db"
  have key: "eg_id r' = i" using assms(1,2) get_row_key by (fastforce simp: gap_row_def gap_later_id)
  then have row: "get_row eg_id (eg_id r') (gb_gaps db) = Some r" using assms(1) by (simp add: gap_row_def)
  have "grows gap_later (gb_gaps db) (put_row eg_id r' (gb_gaps db))"
    using wf by (intro grows_put[OF gap_later_refl _ row assms(2)]) (simp add: wf_gaps_def)
  moreover have "eg_id r < gb_next db" using wf get_row_in[OF row] by (auto simp: wf_gaps_def)
  moreover have "eg_id r' = eg_id r" by (rule gap_later_id[OF assms(2)])
  ultimately show "wf_gaps (put_gap r' db) \<and> grows gap_later (gb_gaps db) (gb_gaps (put_gap r' db)) \<and>
      grows doc_later (kb_documents db) (kb_documents (put_gap r' db)) \<and> grows (=) (kb_chunks db) (kb_chunks (put_gap r' db))"
    using wf pending_put[OF _ row assms(2)] assms(3)[OF wf]
    by (auto simp: wf_gaps_def put_gap_def map_key_put_row grows_refl doc_later_refl dest!: put_row_set)
qed

lemma move_change:
  assumes "\<And>r. gap_later r (f r)"
    and "\<And>r. eg_status (f r) = asc ''synced'' \<Longrightarrow>
           eg_status r = asc ''synced'' \<and> eg_synced_doc_id (f r) = eg_synced_doc_id r \<and> eg_final_answer (f r) = eg_final_answer r"
  shows "gap_move db (snd (change_gap f i db))"
proof (cases "gap_row i db")
  case None
  then show ?thesis by (simp add: change_gap_def)
next
  case (Some r)
  have "eg_status (f r) = asc ''synced'' \<Longrightarrow> wf_gaps db \<Longrightarrow> in_knowledge_base (kb_documents db) (kb_chunks db) (f r)"
    using assms(2)[of r] assms(1)[of r] get_row_in[OF Some[unfolded gap_row_def]]
    by (auto simp: wf_gaps_def in_knowledge_base_def gap_later_def gap_identity_def)
  then show ?thesis using Some move_put[OF Some assms(1)] by (simp add: change_gap_def)
qed

section \<open>Every operation moves the gaps\<close>

lemma status_simps:
  "PENDING \<noteq> asc ''synced''" "asc ''ai_drafted'' \<noteq> PENDING" "asc ''confirmed'' \<noteq> PENDING" "asc ''ignored'' \<noteq> PENDING"
  "asc ''synced'' \<noteq> PENDING"
  by (simp_all add: PENDING_def)

lemma later_drafted: "gap_later r (drafted d r)" "eg_status (drafted d r) \<noteq> asc ''synced''"
  by (simp_all add: drafted_def gap_later_def gap_identity_def status_simps)

lemma move_drafted: "gap_row i db = Some r \<Longrightarrow> gap_move db (put_gap (drafted d r) db)"
  by (rule move_put[of i db r]) (simp_all add: later_drafted)

lemma move_collect: "gap_move db (snd (collect c a db))"
proof (cases "ga_query a \<noteq> [] \<and> filter (\<lambda>r. eg_query r = ga_query a \<and> eg_status r = PENDING) (gb_gaps db) = []")
  case True
  then have "grows gap_later (gb_gaps db) (gb_gaps (snd (collect c a db)))"
    by (simp add: collect_def PENDING_def grows_append gap_later_refl)
  moreover have "ga_query a \<notin> eg_query ` {r \<in> set (gb_gaps db). eg_status r = PENDING}"
    using True by (auto simp: filter_empty_conv)
  ultimately show ?thesis using True
    by (auto simp: gap_move_def wf_gaps_def collect_def new_gap_def PENDING_def grows_refl doc_later_refl less_Suc_eq in_knowledge_base_def)
next
  case False
  then show ?thesis by (auto simp: collect_def PENDING_def split: list.split)
qed

lemma move_ai_draft: "gap_move db (snd (ai_draft env i db))"
  by (cases "gap_row i db") (simp_all add: ai_draft_def move_drafted split: sum.split)

lemma move_deep_draft: "gap_move db (snd (deep_draft env i db))"
  by (cases "gap_row i db") (simp_all add: deep_draft_def move_drafted Let_def split: sum.split)

lemma move_stream: "gap_move db (snd (deep_draft_stream env i db))"
  by (cases "gap_row i db") (simp_all add: deep_draft_stream_def move_drafted Let_def split: sum.split)

lemma move_delete_many: "gap_move db (evidence_gap_batch_delete is db)"
proof -
  define f where "f = (\<lambda>r :: evidence_gap. if eg_id r \<in> set is then r\<lparr>eg_is_deleted := True\<rparr> else r)"
  have same: "eg_id (f r) = eg_id r" "eg_query (f r) = eg_query r" "eg_status (f r) = eg_status r" "gap_later r (f r)"
      "in_knowledge_base D K (f r) = in_knowledge_base D K r" for r D K
    by (simp_all add: f_def gap_later_def gap_identity_def in_knowledge_base_def)
  have "map eg_query (filter (\<lambda>r. eg_status r = PENDING) (map f xs)) = map eg_query (filter (\<lambda>r. eg_status r = PENDING) xs)" for xs
    by (induction xs) (auto simp: same)
  moreover have "map eg_id (map f xs) = map eg_id xs" for xs by (simp add: same)
  moreover have "grows gap_later xs (map f xs)" for xs by (rule grows_map) (rule same)
  moreover have "evidence_gap_batch_delete is db = db\<lparr>gb_gaps := map f (gb_gaps db)\<rparr>"
    by (simp add: evidence_gap_batch_delete_def f_def)
  ultimately show ?thesis
    by (simp add: gap_move_def wf_gaps_def grows_refl doc_later_refl same del: map_map)
qed

lemma move_retag: "gap_move db (snd (retag_faq_equipment env db))"
proof -
  define f where "f = (\<lambda>d :: kb_document. if dc_doc_type d = gv_faq_doctype env \<and> dc_equipment_tags d = []
      then d\<lparr>dc_equipment_tags := auto_equipment_tags (gv_kb env) (py_join [10] (map kc_content (doc_chunks (dc_id d) db)))\<rparr> else d)"
  have eq: "snd (retag_faq_equipment env db) = db\<lparr>kb_documents := map f (kb_documents db)\<rparr>"
    by (simp add: retag_faq_equipment_def f_def Let_def)
  have same: "dc_id (f d) = dc_id d" "doc_later d (f d)" for d by (simp_all add: f_def doc_later_def)
  have docs: "grows doc_later (kb_documents db) (map f (kb_documents db))" by (rule grows_map) (rule same)
  have chunks: "grows (=) (kb_chunks db) (kb_chunks db)" by (rule grows_refl) simp
  have "map dc_id (map f (kb_documents db)) = map dc_id (kb_documents db)" by (simp add: same)
  then show ?thesis unfolding eq using docs chunks in_kb_grows[OF _ docs chunks]
    by (simp add: gap_move_def wf_gaps_def grows_refl gap_later_refl del: map_map)
qed

text \<open>The steps of a confirmation.\<close>

lemma faq_stored_simps [simp]:
  "gb_gaps (faq_stored env r a db) = gb_gaps db" "gb_next (faq_stored env r a db) = gb_next db"
  "kb_documents (faq_stored env r a db) = kb_documents db @ [faq_document env (ke_uuid (gv_kb env) 0) r a]"
  "kb_chunks (faq_stored env r a db) = kb_chunks db @ [new_chunk (ke_uuid (gv_kb env) 1) (ke_uuid (gv_kb env) 0) 0 a []]"
  by (simp_all add: faq_stored_def Let_def command_def)

lemma vectorized:
  fixes db :: gap_db
  assumes "vectorize_document env i db = Inr db'"
  shows "gb_gaps db' = gb_gaps db \<and> gb_next db' = gb_next db \<and> kb_chunks db' = kb_chunks db \<and>
     (\<exists>d. get_row dc_id i (kb_documents db) = Some d \<and> kb_documents db' = put_row dc_id (d\<lparr>dc_status := asc ''vectorized''\<rparr>) (kb_documents db))"
  using assms by (auto simp: vectorize_document_def command_def Let_def case_prod_beta split: option.splits if_splits)

lemma move_vectorized:
  assumes "vectorize_document env i db = Inr db'"
  shows "gap_move db db'"
proof -
  obtain d where d: "get_row dc_id i (kb_documents db) = Some d"
      "kb_documents db' = put_row dc_id (d\<lparr>dc_status := asc ''vectorized''\<rparr>) (kb_documents db)"
    using vectorized[OF assms] by blast
  have key: "dc_id d = i" using d(1) by (rule get_row_key)
  have "grows doc_later (kb_documents db) (kb_documents db')" if "distinct (map dc_id (kb_documents db))"
    unfolding d(2) using that d(1) key by (intro grows_put[OF doc_later_refl, where t = d]) (simp_all add: doc_later_def)
  then show ?thesis using vectorized[OF assms] in_kb_grows[of _ _ _ "kb_documents db'" "kb_chunks db"]
    by (auto simp: gap_move_def wf_gaps_def d(2) map_key_put_row grows_refl gap_later_refl)
qed

lemma move_stored:
  assumes "get_row dc_id (ke_uuid (gv_kb env) 0) (kb_documents db) = None"
  shows "gap_move db (faq_stored env r a db)"
proof -
  have docs: "grows doc_later (kb_documents db) (kb_documents (faq_stored env r a db))"
    by (simp add: grows_append doc_later_refl)
  have chunks: "grows (=) (kb_chunks db) (kb_chunks (faq_stored env r a db))" by (simp add: grows_append)
  have "dc_id (faq_document env (ke_uuid (gv_kb env) 0) r a) = ke_uuid (gv_kb env) 0"
    by (simp add: faq_document_def blank_document_def)
  then show ?thesis using assms docs chunks in_kb_grows[OF _ docs chunks]
    by (auto simp: gap_move_def wf_gaps_def grows_refl gap_later_refl get_row_None_iff)
qed

lemma move_confirm: "gap_move db (snd (confirm_and_sync env i a operator m db))"
proof (cases "gap_row i db")
  case None
  then show ?thesis by (simp add: confirm_and_sync_def)
next
  case (Some row)
  let ?d = "ke_uuid (gv_kb env) 0"
  let ?key = "qa_cache_key (cl_settings (gv_call env)) (cl_generation (gv_call env)) (py_or (eg_tenant row) (asc ''default'')) m (eg_query row)"
  consider "py_strip a = [] \<or> \<not> encodable a"
    | "\<not> (py_strip a = [] \<or> \<not> encodable a)" "get_row dc_id ?d (kb_documents db) \<noteq> None \<or> get_row kc_id (ke_uuid (gv_kb env) 1) (kb_chunks db) \<noteq> None"
    | "\<not> (py_strip a = [] \<or> \<not> encodable a)" "get_row dc_id ?d (kb_documents db) = None" "get_row kc_id (ke_uuid (gv_kb env) 1) (kb_chunks db) = None"
    by blast
  then show ?thesis
  proof cases
    case 1
    with Some show ?thesis by (simp add: confirm_and_sync_def)
  next
    case 2
    with Some show ?thesis by (auto simp: confirm_and_sync_def Let_def command_def intro!: gap_move_same)
  next
    case 3
    let ?db1 = "faq_stored env row a db"
    have stored: "gap_move db ?db1" by (rule move_stored[OF 3(2)])
    show ?thesis
    proof (cases "vectorize_document (gv_kb env) ?d ?db1")
      case (Inl e)
      with 3 Some stored show ?thesis by (simp add: confirm_and_sync_def Let_def)
    next
      case (Inr db2)
      have v: "gap_move db ?db1" "gap_move ?db1 db2" using stored move_vectorized[OF Inr] by simp_all
      let ?db3 = "faq_cached env m row a db2"
      have cached: "gap_move db2 ?db3" by (rule gap_move_same) (simp_all add: faq_cached_def Let_def)
      have to3: "gap_move db ?db3" using gap_move_trans[OF gap_move_trans[OF v] cached] .
      show ?thesis
      proof (cases "cache_set_json (gv_redis env) ?key (JObj (faq_result env ?d row a)) (cs_qa_cache_ttl (cl_settings (gv_call env))) (kb_redis ?db3)")
        case (Inl e)
        with 3 Some Inr to3 show ?thesis by (simp add: confirm_and_sync_def Let_def)
      next
        case set: (Inr st)
        let ?db4 = "?db3\<lparr>kb_redis := st\<rparr>"
        have gaps: "gb_gaps ?db4 = gb_gaps db" "kb_documents ?db4 = kb_documents db2" "kb_chunks ?db4 = kb_chunks ?db1"
          using vectorized[OF Inr] by (simp_all add: faq_cached_def Let_def)
        obtain d where d: "get_row dc_id ?d (kb_documents ?db1) = Some d"
            "kb_documents db2 = put_row dc_id (d\<lparr>dc_status := asc ''vectorized''\<rparr>) (kb_documents ?db1)"
          using vectorized[OF Inr] by blast
        have "d = faq_document env ?d row a"
          using d(1) 3(2) by (simp add: get_row_def find_append faq_document_def blank_document_def)
        then have "in_knowledge_base (kb_documents ?db4) (kb_chunks ?db4) (synced env a operator row)"
          unfolding gaps d(2) in_knowledge_base_def
          by (auto simp: put_row_def faq_document_def blank_document_def synced_def new_chunk_def)
        then have "gap_move ?db4 (put_gap (synced env a operator row) ?db4)"
          using Some by (intro move_put[of i ?db4 row])
            (simp_all add: gap_row_def gaps gap_later_def gap_identity_def synced_def status_simps)
        moreover have "gap_move ?db3 ?db4" by (rule gap_move_same) simp_all
        ultimately have "gap_move db (put_gap (synced env a operator row) ?db4)"
          using to3 by (blast intro: gap_move_trans)
        with 3 Some Inr set show ?thesis by (simp add: confirm_and_sync_def Let_def)
      qed
    qed
  qed
qed

lemma move_batch_one: "gap_move (snd s) (snd (batch_one m x s))"
proof -
  obtain env r where x: "x = (env, r)" by (cases x)
  obtain st db where s: "s = (st, db)" by (cases s)
  have "gap_move db (snd (deep_draft env (eg_id r) db))" by (rule move_deep_draft)
  then show ?thesis unfolding x s
    by (auto simp: batch_one_def Let_def case_prod_beta intro: gap_move_trans[OF _ move_confirm])
qed

lemma move_batch: "gap_move db (snd (batch_deep_and_sync envs t n m db))"
proof -
  have "gap_move (snd s) (snd (fold (batch_one m) xs s))" for xs s
  proof (induction xs arbitrary: s)
    case (Cons x xs)
    from gap_move_trans[OF move_batch_one Cons[of "batch_one m x s"]] show ?case by simp
  qed simp
  from this[of "(_, db)"] show ?thesis by (simp add: batch_deep_and_sync_def Let_def)
qed

lemma move_by_hand:
  "gap_move db (snd (update_ai_draft i d db))" "gap_move db (snd (update_confidence i d db))"
  "gap_move db (snd (edit_answer i d db))" "gap_move db (evidence_gap_ignore i db)" "gap_move db (evidence_gap_delete i db)"
  unfolding update_ai_draft_def update_confidence_def edit_answer_def evidence_gap_ignore_def evidence_gap_delete_def
  by (rule move_change; simp add: drafted_def gap_later_def gap_identity_def status_simps)+

lemma gap_step_move: "gap_move db (gap_step op db)"
proof (cases op)
  case (ConfirmApi env i user)
  then show ?thesis by (simp add: evidence_gap_confirm_def Let_def move_confirm split: option.split)
qed (simp_all add: move_collect on_dislike_gap_def move_ai_draft move_deep_draft move_stream move_by_hand
    move_delete_many move_confirm move_retag move_batch)

interpretation gap_table: growing_table gap_step wf_gaps gb_gaps eg_id gap_later
  by unfold_locales (use gap_step_move gap_later_trans in \<open>auto simp: gap_move_def gap_later_refl gap_later_id\<close>)

section \<open>Properties\<close>

definition no_gaps :: "gap_db \<Rightarrow> bool" where
  "no_gaps db \<longleftrightarrow> gb_gaps db = [] \<and> distinct (map dc_id (kb_documents db))"

lemma reached_wf: "no_gaps db0 \<Longrightarrow> wf_gaps (fold gap_step ops db0)"
  by (rule gap_table.run_inv) (simp add: no_gaps_def wf_gaps_def)

text \<open>C13: In any run, whatever the tenants: a question has at most one pending gap; gaps persist with their
  question, tenant and source; and a gap that is no longer pending never is again.
\<close>

theorem gaps_leave_pending_for_good:
  assumes "no_gaps db0" and "db = fold gap_step ops db0"
  shows "distinct (map eg_query (filter (\<lambda>r. eg_status r = PENDING) (gb_gaps db)))
    \<and> (\<forall>i r. gap_row i db = Some r \<longrightarrow> (\<exists>r'. gap_row i (fold gap_step later db) = Some r' \<and>
         gap_identity r' = gap_identity r \<and> (eg_status r \<noteq> PENDING \<longrightarrow> eg_status r' \<noteq> PENDING)))"
proof -
  have wf: "wf_gaps db" unfolding assms(2) by (rule reached_wf[OF assms(1)])
  have "\<exists>r'. gap_row i (fold gap_step later db) = Some r' \<and> gap_identity r' = gap_identity r \<and> (eg_status r \<noteq> PENDING \<longrightarrow> eg_status r' \<noteq> PENDING)"
    if "gap_row i db = Some r" for i r
    using gap_table.row_persists[OF wf, of i r later] that unfolding gap_row_def gap_later_def by blast
  then show ?thesis using wf by (simp add: wf_gaps_def)
qed

definition demo_agent :: "pystr \<Rightarrow> (json list \<times> pystr) + agent_reply" where
  "demo_agent q = Inr \<lparr>ar_answer = JStr (asc ''draft''), ar_steps = [], ar_iterations = 1, ar_degraded = False\<rparr>"

definition demo_kb_env :: "pyerr option \<Rightarrow> kb_env" where
  "demo_kb_env err = \<lparr>ke_clock = at_time 0, ke_uuid = (\<lambda>i. asc ''u'' @ dec_nat i), ke_emb_provider = asc ''qwen'', ke_size_threshold = 5000,
     ke_collection = asc ''c'', ke_collection_bge = asc ''b'', ke_terms = [], ke_visit = id, ke_embed_error = err,
     ke_vector_error = None, ke_object_ok = True, ke_cache_fails = False\<rparr>"

definition demo_gap_env :: "pyerr option \<Rightarrow> gap_env" where
  "demo_gap_env err = \<lparr>gv_kb = demo_kb_env err, gv_search = (\<lambda>_ _ _. Inr []), gv_chat = (\<lambda>_. Inr []), gv_system_prompt = [],
     gv_agent = demo_agent, gv_topk_mult = 2, gv_faq_doctype = asc ''faq'',
     gv_call = \<lparr>cl_clock = at_time 0, cl_settings = \<lparr>cs_citation_verifier = True, cs_structured_output = False, cs_nli = False,
         cs_crag_v3 = False, cs_guard_strict = False, cs_tiered_ttl = False, cs_qa_cache_ttl = 3600\<rparr>,
         cl_generation = 0, cl_md5 = id, cl_db_fails = False\<rparr>,
     gv_redis = \<lparr>ce_now = 0, ce_fault = None, ce_expire_fails = False, ce_slide = False, ce_ttl = 3600\<rparr>\<rparr>"

definition demo_gaps :: gap_db where
  "demo_gaps = \<lparr>kb_documents = [], kb_chunks = [], kb_cache = \<lparr>qt_rows = [], qt_next = 1\<rparr>, kb_redis = (\<lambda>_. None), kb_commands = [],
     gb_gaps = [], gb_next = 1\<rparr>"

definition demo_gap :: gap_args where
  "demo_gap = \<lparr>ga_query = asc ''q'', ga_answer = asc ''a'', ga_confidence = asc ''medium'', ga_grade = [], ga_action = [],
     ga_source = asc ''auto'', ga_tenant = asc ''t''\<rparr>"

lemma demo_no_gaps: "no_gaps demo_gaps"
  by (simp add: no_gaps_def demo_gaps_def)

lemma demo_collected:
  "fold gap_step [Collect (at_time 0) demo_gap] demo_gaps = demo_gaps\<lparr>gb_gaps := [new_gap 0 1 demo_gap], gb_next := 2\<rparr>"
  by (simp add: collect_def demo_gaps_def demo_gap_def new_gap_def)

theorem gaps_leave_pending_for_good_witness:
  "let db = fold gap_step [Collect (at_time 0) demo_gap, DeepDraft (demo_gap_env None) 1] demo_gaps
   in distinct (map eg_query (filter (\<lambda>r. eg_status r = PENDING) (gb_gaps db)))
    \<and> (\<forall>i r. gap_row i db = Some r \<longrightarrow> (\<exists>r'. gap_row i (fold gap_step [IgnoreGap 1] db) = Some r' \<and>
         gap_identity r' = gap_identity r \<and> (eg_status r \<noteq> PENDING \<longrightarrow> eg_status r' \<noteq> PENDING)))"
  unfolding Let_def by (rule gaps_leave_pending_for_good[OF demo_no_gaps refl])


text \<open>C19: A gap whose draft succeeds and whose indexing fails counts as failed, and no later batch of any
  tenant picks it up again.
\<close>

theorem failed_sync_is_not_retried:
  assumes "no_gaps db0" and "db = fold gap_step ops db0" and "gap_row i db = Some r"
    and "gv_agent env (eg_query r) = Inr res" and "py_strip (py_str (ar_answer res)) \<noteq> []"
    and "ke_embed_error (gv_kb env) = Some e"
    and "(stats', db') = batch_one m (env, r) (stats, db)"
  shows "bs_failed stats' = bs_failed stats + 1 \<and> bs_synced stats' = bs_synced stats \<and>
     i \<notin> eg_id ` set (batch_rows t n (fold gap_step later db'))"
proof -
  let ?draft = "py_str (ar_answer res)"
  let ?db1 = "put_gap (drafted ?draft r) db"
  have id: "eg_id r = i" using assms(3) unfolding gap_row_def by (rule get_row_key)
  have deep: "deep_draft env i db = (?draft, ?db1)"
    using assms(3,4) by (simp add: deep_draft_def id Let_def)
  have wf: "wf_gaps db" unfolding assms(2) by (rule reached_wf[OF assms(1)])
  have wf1: "wf_gaps ?db1" using move_drafted[OF assms(3)] wf by (simp add: gap_move_def)
  have row1: "gap_row i ?db1 = Some (drafted ?draft r)"
    using assms(3) by (simp add: gap_row_def put_gap_def get_row_put_row drafted_def id)
  have none: "fst (confirm_and_sync env i ?draft op m ?db1) = None" for op
    using row1 assms(6) by (auto simp: confirm_and_sync_def Let_def vectorize_document_def case_prod_beta split: option.split)
  obtain db2 where conf: "confirm_and_sync env i ?draft (asc ''auto-deep-sync'') m ?db1 = (None, db2)"
    using none by (metis prod.collapse)
  have one: "batch_one m (env, r) (stats, db) = (stats\<lparr>bs_drafted := bs_drafted stats + 1, bs_failed := bs_failed stats + 1\<rparr>, db2)"
    using assms(5) by (simp add: batch_one_def id deep conf Let_def)
  have db': "db' = snd (confirm_and_sync env i ?draft (asc ''auto-deep-sync'') m ?db1)"
    and st: "bs_failed stats' = bs_failed stats + 1" "bs_synced stats' = bs_synced stats"
    using assms(7) unfolding one conf by simp_all
  have wf': "wf_gaps (fold gap_step (Confirm env i ?draft (asc ''auto-deep-sync'') m # later) ?db1)"
    using wf1 by (rule gap_table.run_inv)
  obtain r' where r': "gap_row i (fold gap_step (Confirm env i ?draft (asc ''auto-deep-sync'') m # later) ?db1) = Some r'"
      "gap_later (drafted ?draft r) r'"
    using gap_table.row_persists[OF wf1 row1[unfolded gap_row_def]] unfolding gap_row_def by blast
  have "eg_status r' \<noteq> PENDING" using r'(2) by (auto simp: gap_later_def drafted_def status_simps)
  moreover have "x = r'" if "x \<in> set (gb_gaps (fold gap_step later db'))" "eg_id x = i" for x
    using that wf' r'(1) get_row_distinct[of eg_id "gb_gaps (fold gap_step later db')" x]
    by (simp add: gap_row_def wf_gaps_def db')
  ultimately have "i \<notin> eg_id ` set (batch_rows t n (fold gap_step later db'))"
    by (auto simp: batch_rows_def PENDING_def dest!: in_set_takeD)
  with st show ?thesis by simp
qed



theorem failed_sync_is_not_retried_witness:
  "let db = fold gap_step [Collect (at_time 0) demo_gap] demo_gaps;
       s' = batch_one None (demo_gap_env (Some TypeError), new_gap 0 1 demo_gap) (\<lparr>bs_scanned = 1, bs_drafted = 0, bs_synced = 0, bs_failed = 0\<rparr>, db)
   in bs_failed (fst s') = 1 \<and> 1 \<notin> eg_id ` set (batch_rows (asc ''t'') 5 (fold gap_step [UpdateConfidence 1 (asc ''refused'')] (snd s')))"
proof -
  let ?db = "fold gap_step [Collect (at_time 0) demo_gap] demo_gaps"
  let ?stats = "\<lparr>bs_scanned = 1, bs_drafted = 0, bs_synced = 0, bs_failed = 0\<rparr>"
  let ?env = "demo_gap_env (Some TypeError)"
  have row: "gap_row 1 ?db = Some (new_gap 0 1 demo_gap)"
    unfolding demo_collected by (simp add: gap_row_def new_gap_def)
  have strip: "py_strip (asc ''draft'') \<noteq> []" by (simp add: py_strip_def py_isspace_def asc_def)
  have "bs_failed (fst (batch_one None (?env, new_gap 0 1 demo_gap) (?stats, ?db))) = bs_failed ?stats + 1 \<and>
      bs_synced (fst (batch_one None (?env, new_gap 0 1 demo_gap) (?stats, ?db))) = bs_synced ?stats \<and>
      1 \<notin> eg_id ` set (batch_rows (asc ''t'') 5 (fold gap_step [UpdateConfidence 1 (asc ''refused'')]
        (snd (batch_one None (?env, new_gap 0 1 demo_gap) (?stats, ?db)))))"
  proof (rule failed_sync_is_not_retried[OF demo_no_gaps refl row])
    show "gv_agent ?env (eg_query (new_gap 0 1 demo_gap)) =
        Inr \<lparr>ar_answer = JStr (asc ''draft''), ar_steps = [], ar_iterations = 1, ar_degraded = False\<rparr>"
      by (simp add: demo_gap_env_def demo_agent_def)
    show "ke_embed_error (gv_kb ?env) = Some TypeError" by (simp add: demo_gap_env_def demo_kb_env_def)
  qed (simp_all add: strip py_str_def del: fold.simps)
  then show ?thesis by (simp add: Let_def)
qed

end
