(* ===== verification/EvolutionClaims.thy ===== *)
theory EvolutionClaims
  imports Evolution GapClaims QueryRouting "HOL-Library.Multiset"
begin

text \<open>
  What holds of the drafts of the knowledge base: how they move, what of them is in the knowledge
  base, how many are written back in a week, what a retest does to their score, and what the clusters
  behind them are.
\<close>

section \<open>Clusters\<close>

definition open_ok :: "open_cluster \<Rightarrow> bool" where
  "open_ok c \<longleftrightarrow> oc_members c \<noteq> []"

definition members_of :: "open_cluster list \<Rightarrow> item multiset" where
  "members_of cs = mset (concat (map oc_members cs))"

lemma place_members:
  assumes "place th i it cs = Some cs'" and "\<forall>c \<in> set cs. open_ok c"
  shows "members_of cs' = add_mset it (members_of cs) \<and> (\<forall>c \<in> set cs'. open_ok c)"
  using assms
proof (induction cs arbitrary: cs')
  case (Cons c cs)
  show ?case
  proof (cases "\<not> sless (cosine (snd it) (oc_centroid c)) (of_dbl th)")
    case True
    then show ?thesis using Cons.prems by (auto simp: members_of_def open_ok_def)
  next
    case False
    then obtain cs1 where cs1: "place th i it cs = Some cs1" "cs' = c # cs1" using Cons.prems by auto
    with Cons.IH[OF cs1(1)] Cons.prems show ?thesis by (simp add: members_of_def)
  qed
qed (auto simp: members_of_def open_ok_def)

lemma place_all_members:
  assumes "place_all th uuid n its cs = Some cs'" and "\<forall>c \<in> set cs. open_ok c"
  shows "members_of cs' = mset its + members_of cs \<and> (\<forall>c \<in> set cs'. open_ok c)"
  using assms
proof (induction its arbitrary: n cs)
  case (Cons it its)
  then obtain cs1 where cs1: "place th (uuid n) it cs = Some cs1" "place_all th uuid (n + 1) its cs1 = Some cs'"
    by (auto split: option.splits)
  have ok: "\<forall>c \<in> set cs1. open_ok c" and m: "members_of cs1 = add_mset it (members_of cs)"
    using place_members[OF cs1(1) Cons.prems(2)] by blast+
  show ?case using Cons.IH[OF cs1(2) ok] m by simp
qed (simp add: members_of_def)

lemma close_cluster_simps [simp]:
  "oc_members (close_cluster c) = oc_members c" "oc_centroid (close_cluster c) = oc_centroid c"
  "qc_representative (close_cluster c) = fst (representative c)"
  by (simp_all add: close_cluster_def open_cluster.defs)

lemma members_split:
  "mset (concat (map oc_members cs)) = mset (concat (map oc_members (filter P cs))) + mset (concat (map oc_members (filter (\<lambda>c. \<not> P c) cs)))"
  by (induction cs) auto

text \<open>C14: Every question is in exactly one cluster, or in one that is too small; a cluster has at least
  the minimal size and is represented by the member nearest to its centre.
\<close>

theorem clusters_partition_the_questions:
  assumes "cluster_questions th n uuid items = Some out"
  shows "\<exists>small. mset items = mset (concat (map oc_members out)) + mset (concat small) \<and> (\<forall>ms \<in> set small. length ms < n)
    \<and> (\<forall>c \<in> set out. n \<le> length (oc_members c) \<and> (\<exists>m \<in> set (oc_members c). qc_representative c = fst m \<and>
         (\<forall>x \<in> set (oc_members c). \<not> sless (cosine (snd m) (oc_centroid c)) (cosine (snd x) (oc_centroid c)))))"
proof -
  obtain cs where cs: "place_all th uuid 0 items [] = Some cs"
      and out: "out = map close_cluster (filter (\<lambda>c. n \<le> length (oc_members c)) cs)"
    using assms unfolding cluster_questions_def by blast
  have all: "members_of cs = mset items" and ok: "\<forall>c \<in> set cs. open_ok c"
    using place_all_members[OF cs] by (simp_all add: members_of_def)
  let ?small = "map oc_members (filter (\<lambda>c. \<not> n \<le> length (oc_members c)) cs)"
  have "mset items = mset (concat (map oc_members out)) + mset (concat ?small)"
    using all members_split[of cs "\<lambda>c. n \<le> length (oc_members c)"] by (simp add: members_of_def out o_def)
  moreover have "\<exists>m \<in> set (oc_members c). fst (representative c) = fst m \<and>
      (\<forall>x \<in> set (oc_members c). \<not> sless (cosine (snd m) (oc_centroid c)) (cosine (snd x) (oc_centroid c)))"
    if c: "c \<in> set cs" for c
  proof (intro bexI[of _ "representative c"] conjI refl ballI)
    have list: "oc_members c = hd (oc_members c) # tl (oc_members c)" using ok c by (simp add: open_ok_def)
    show "representative c \<in> set (oc_members c)"
      using max_by_in[of "\<lambda>m. cosine (snd m) (oc_centroid c)" "hd (oc_members c)" "tl (oc_members c)"]
      unfolding list[symmetric] representative_def .
    show "\<not> sless (cosine (snd (representative c)) (oc_centroid c)) (cosine (snd x) (oc_centroid c))"
      if "x \<in> set (oc_members c)" for x
      using max_by_max[of x "hd (oc_members c)" "tl (oc_members c)" "\<lambda>m. cosine (snd m) (oc_centroid c)"] that
      unfolding list[symmetric] representative_def .
  qed
  ultimately show ?thesis by (intro exI[of _ ?small]) (auto simp: out)
qed

section \<open>Scores\<close>

definition SCORES :: "dbl list" where
  "SCORES = [fdec 1 6, fdec 3 300, fdec 3 150, fdec 3 75, fdec 2 5]"

lemma lowered_scores:
  "lowered (fdec 1 6) = fdec 3 300" "lowered (fdec 3 300) = fdec 3 150" "lowered (fdec 3 150) = fdec 3 75"
  "lowered (fdec 3 75) = fdec 2 5" "lowered (fdec 2 5) = fdec 2 5"
  by (simp_all add: lowered_def float_eval)

section \<open>Drafts and their chunks\<close>

definition draft_identity :: "evo_draft \<Rightarrow> pystr \<times> pystr \<times> pystr \<times> pystr \<times> pystr list \<times> pystr list \<times> pystr \<times> pystr \<times> time" where
  "draft_identity r = (kd_id r, kd_tenant_id r, kd_cluster_id r, kd_representative_query r, kd_member_queries r,
     kd_source_doc_ids r, kd_draft_title r, kd_draft_content r, kd_created_at r)"

definition draft_review :: "evo_draft \<Rightarrow> pystr \<times> pystr \<times> time option" where
  "draft_review r = (kd_reviewer r, kd_review_note r, kd_reviewed_at r)"

fun evo_path :: "pystr \<Rightarrow> pystr \<Rightarrow> bool" where
  "evo_path s s' \<longleftrightarrow> s' = s \<or> s = asc ''draft'' \<and> s' \<in> set (map asc [''approved'', ''rejected'', ''indexed'', ''withdrawn'']) \<or>
     s = asc ''approved'' \<and> s' \<in> set (map asc [''indexed'', ''withdrawn'']) \<or> s = asc ''indexed'' \<and> s' = asc ''withdrawn''"

definition draft_later :: "evo_draft \<Rightarrow> evo_draft \<Rightarrow> bool" where
  "draft_later r r' \<longleftrightarrow> draft_identity r' = draft_identity r \<and> evo_path (kd_status r) (kd_status r') \<and>
     (kd_status r \<noteq> asc ''draft'' \<longrightarrow> draft_review r' = draft_review r)"

definition draft_ok :: "evo_draft \<Rightarrow> bool" where
  "draft_ok r \<longleftrightarrow> kd_status r \<in> set (map asc [''draft'', ''approved'', ''indexed'', ''rejected'', ''withdrawn'']) \<and>
     (kd_status r \<noteq> asc ''draft'' \<longrightarrow> kd_reviewed_at r \<noteq> None) \<and> kd_quality_score r \<in> set SCORES"

text \<open>The chunk a draft stands for while it is indexed, and the chunks of the virtual documents.\<close>

type_synonym kb_entry = "pystr \<times> pystr \<times> pystr"

definition draft_entry :: "evo_draft \<Rightarrow> kb_entry" where
  "draft_entry r = (kd_chunk_id r, ai_doc_id (kd_tenant_id r), kd_draft_content r)"

definition chunk_entry :: "kb_chunk \<Rightarrow> kb_entry" where
  "chunk_entry k = (kc_id k, kc_doc_id k, kc_content k)"

definition is_indexed :: "evo_draft \<Rightarrow> bool" where
  "is_indexed r \<longleftrightarrow> kd_status r = asc ''indexed''"

definition is_ai_chunk :: "kb_chunk \<Rightarrow> bool" where
  "is_ai_chunk k \<longleftrightarrow> take 7 (kc_doc_id k) = asc ''ai-evo-''"

definition entries :: "('r \<Rightarrow> bool) \<Rightarrow> ('r \<Rightarrow> kb_entry) \<Rightarrow> 'r list \<Rightarrow> kb_entry multiset" where
  "entries P f rs = sum_list (map (\<lambda>r. if P r then {#f r#} else {#}) rs)"

lemma entries_mset: "entries P f rs = mset (map f (filter P rs))"
  by (induction rs) (simp_all add: entries_def)

lemma entries_append: "entries P f (xs @ ys) = entries P f xs + entries P f ys"
  by (simp add: entries_def)

lemma entries_put_row:
  assumes "distinct (map key tbl)" and "get_row key (key r) tbl = Some old"
  shows "entries P f (put_row key r tbl) + (if P old then {#f old#} else {#}) = entries P f tbl + (if P r then {#f r#} else {#})"
  using assms
proof (induction tbl)
  case (Cons a tbl)
  show ?case
  proof (cases "key a = key r")
    case True
    with Cons.prems have "key r \<notin> key ` set tbl" and "a = old" by auto
    with True show ?thesis by (simp add: put_row_absent entries_def)
  next
    case False
    with Cons show ?thesis by (simp add: entries_def add.assoc)
  qed
qed simp

lemma entries_removed:
  assumes "distinct (map key tbl)" and "get_row key i tbl = Some k"
  shows "entries P f (filter (\<lambda>x. key x \<noteq> i) tbl) + (if P k then {#f k#} else {#}) = entries P f tbl"
  using assms
proof (induction tbl)
  case (Cons a tbl)
  show ?case
  proof (cases "key a = i")
    case True
    with Cons.prems have "i \<notin> key ` set tbl" and "a = k" by auto
    moreover from this have "filter (\<lambda>x. key x \<noteq> i) tbl = tbl" by (auto simp: filter_id_conv)
    ultimately show ?thesis using True by (simp add: entries_def)
  next
    case False
    with Cons show ?thesis by (simp add: entries_def add.assoc)
  qed
qed simp

definition wf_evo :: "evo_db \<Rightarrow> bool" where
  "wf_evo db \<longleftrightarrow> distinct (map kd_id (vd_drafts db)) \<and> distinct (map kc_id (kb_chunks db)) \<and>
     (\<forall>r \<in> set (vd_drafts db). draft_ok r) \<and>
     entries is_ai_chunk chunk_entry (kb_chunks db) = entries is_indexed draft_entry (vd_drafts db)"

definition evo_move :: "evo_db \<Rightarrow> evo_db \<Rightarrow> bool" where
  "evo_move db db' \<longleftrightarrow> (wf_evo db \<longrightarrow> wf_evo db' \<and> grows draft_later (vd_drafts db) (vd_drafts db'))"

lemma draft_later_refl: "draft_later r r"
  by (simp add: draft_later_def)

lemma draft_later_trans: "draft_later r r' \<Longrightarrow> draft_later r' r'' \<Longrightarrow> draft_later r r''"
  unfolding draft_later_def by (auto split: if_splits)

lemma draft_later_id: "draft_later r r' \<Longrightarrow> kd_id r' = kd_id r"
  by (simp add: draft_later_def draft_identity_def)

lemma evo_move_refl [simp]: "evo_move db db"
  by (simp add: evo_move_def grows_refl draft_later_refl)

lemma evo_move_trans: "evo_move db db' \<Longrightarrow> evo_move db' db'' \<Longrightarrow> evo_move db db''"
  using grows_trans[of draft_later "vd_drafts db" "vd_drafts db'" "vd_drafts db''"] draft_later_trans
  unfolding evo_move_def by blast

lemma evo_move_same: "vd_drafts db' = vd_drafts db \<Longrightarrow> kb_chunks db' = kb_chunks db \<Longrightarrow> evo_move db db'"
  by (simp add: evo_move_def wf_evo_def grows_refl draft_later_refl)

text \<open>One draft is written, with the chunks changed by what it stands for.\<close>

lemma evo_move_put:
  assumes "get_row kd_id (kd_id r) (vd_drafts db) = Some r" and "draft_later r r'" and "draft_ok r \<Longrightarrow> draft_ok r'"
    and "vd_drafts db1 = vd_drafts db"
    and "wf_evo db \<Longrightarrow> distinct (map kc_id (kb_chunks db1)) \<and>
           entries is_ai_chunk chunk_entry (kb_chunks db1) + (if is_indexed r then {#draft_entry r#} else {#}) =
           entries is_ai_chunk chunk_entry (kb_chunks db) + (if is_indexed r' then {#draft_entry r'#} else {#})"
  shows "evo_move db (put_draft r' db1)"
  unfolding evo_move_def
proof
  assume wf: "wf_evo db"
  have key: "kd_id r' = kd_id r" by (rule draft_later_id[OF assms(2)])
  have row: "get_row kd_id (kd_id r') (vd_drafts db) = Some r" using assms(1) key by simp
  have dist: "distinct (map kd_id (vd_drafts db))" using wf by (simp add: wf_evo_def)
  have "grows draft_later (vd_drafts db) (put_row kd_id r' (vd_drafts db))"
    by (rule grows_put[OF draft_later_refl dist row assms(2)])
  moreover have "draft_ok r'" using assms(3) wf get_row_in[OF row] by (simp add: wf_evo_def)
  moreover have "entries is_ai_chunk chunk_entry (kb_chunks db1) = entries is_indexed draft_entry (put_row kd_id r' (vd_drafts db))"
  proof -
    have "entries is_ai_chunk chunk_entry (kb_chunks db1) + (if is_indexed r then {#draft_entry r#} else {#}) =
        entries is_indexed draft_entry (put_row kd_id r' (vd_drafts db)) + (if is_indexed r then {#draft_entry r#} else {#})"
      using assms(5)[OF wf] entries_put_row[OF dist row, of is_indexed draft_entry] wf by (simp add: wf_evo_def)
    then show ?thesis by simp
  qed
  ultimately show "wf_evo (put_draft r' db1) \<and> grows draft_later (vd_drafts db) (vd_drafts (put_draft r' db1))"
    using wf assms(4,5) by (auto simp: wf_evo_def put_draft_def map_key_put_row dest!: put_row_set)
qed

section \<open>Runs\<close>

datatype evo_op =
    Scan evo_env pystr int "pystr option"
  | Review clock pystr pystr pystr pystr pystr
  | Reflow evo_env "nat \<Rightarrow> clock \<times> pystr" pystr pystr
  | Withdraw evo_env pystr pystr

fun evo_step :: "evo_op \<Rightarrow> evo_db \<Rightarrow> evo_db" where
  "evo_step (Scan env t h m) db = snd (run_scan env t h m db)"
| "evo_step (Review c i t action remark reviewer) db =
     (case review_draft c i t action remark reviewer db of Inl _ \<Rightarrow> db | Inr db' \<Rightarrow> db')"
| "evo_step (Reflow env calls i t) db = snd (draft_reflow env calls i t db)"
| "evo_step (Withdraw env i t) db = (case withdraw_draft env i t db of Inl _ \<Rightarrow> db | Inr db' \<Rightarrow> db')"

lemma tenant_draft_row:
  assumes "distinct (map kd_id (vd_drafts db))" and "tenant_draft i t db = Some r"
  shows "get_row kd_id (kd_id r) (vd_drafts db) = Some r \<and> kd_id r = i \<and> kd_tenant_id r = t"
proof -
  have "r \<in> set (vd_drafts db) \<and> kd_id r = i \<and> kd_tenant_id r = t"
    using assms(2) unfolding tenant_draft_def find_Some_iff by auto
  then show ?thesis using get_row_distinct[OF assms(1)] by blast
qed

lemma move_if_row:
  assumes "\<And>r. distinct (map kd_id (vd_drafts db)) \<Longrightarrow> tenant_draft i t db = Some r \<Longrightarrow>
      get_row kd_id (kd_id r) (vd_drafts db) = Some r \<Longrightarrow> evo_move db db'"
    and "tenant_draft i t db = None \<Longrightarrow> db' = db"
  shows "evo_move db db'"
proof (cases "tenant_draft i t db")
  case None
  with assms(2) show ?thesis by simp
next
  case (Some r)
  show ?thesis
  proof (cases "distinct (map kd_id (vd_drafts db))")
    case True
    show ?thesis by (rule assms(1)[OF True Some]) (use tenant_draft_row[OF True Some] in blast)
  next
    case False
    then show ?thesis by (simp add: evo_move_def wf_evo_def)
  qed
qed

lemma move_review: "evo_move db (evo_step (Review c i t action remark reviewer) db)"
proof (rule move_if_row)
  fix r
  assume r: "tenant_draft i t db = Some r" "get_row kd_id (kd_id r) (vd_drafts db) = Some r"
  show "evo_move db (evo_step (Review c i t action remark reviewer) db)"
  proof (cases "kd_status r = asc ''draft''")
    case True
    have "evo_move db (put_draft (reviewed_draft c action remark reviewer r) db)"
      using True by (intro evo_move_put[OF r(2)])
        (auto simp: reviewed_draft_def draft_later_def draft_identity_def draft_ok_def is_indexed_def wf_evo_def)
    then show ?thesis using r True by (simp add: review_draft_def)
  next
    case False
    with r show ?thesis by (simp add: review_draft_def)
  qed
qed (simp add: review_draft_def)

text \<open>A written back draft and its chunk.\<close>

lemma ai_doc_prefix: "take 7 (ai_doc_id t) = asc ''ai-evo-''"
  by (simp add: ai_doc_id_def asc_def)

lemma persisted:
  fixes db :: evo_db
  assumes "persist_chunk env content title t db = Inr (i, db')"
  shows "vd_drafts db' = vd_drafts db \<and> vd_outbox db' = vd_outbox db \<and> i \<notin> kc_id ` set (kb_chunks db) \<and>
    (\<exists>k. kb_chunks db' = kb_chunks db @ [k] \<and> kc_id k = i \<and> kc_doc_id k = ai_doc_id t \<and> kc_content k = content \<and>
       kc_chunk_idx k = int (length (filter (\<lambda>k. kc_doc_id k = ai_doc_id t) (kb_chunks db))))"
  using assms
  by (auto simp: persist_chunk_def ensure_ai_doc_def command_def new_chunk_def Let_def get_row_None_iff
      split: option.splits if_splits)

lemma publish_keeps: "vd_drafts (snd (publish_llm_user_retests calls r db)) = vd_drafts db"
    "kb_chunks (snd (publish_llm_user_retests calls r db)) = kb_chunks db"
  by (simp_all add: publish_llm_user_retests_def case_prod_beta)

text \<open>What a reflow does to drafts and chunks: nothing, or one draft is indexed with a new chunk.\<close>

lemma reflow_cases:
  fixes db :: evo_db
  shows "(vd_drafts (snd (reflow_to_kb env calls r db)) = vd_drafts db \<and> kb_chunks (snd (reflow_to_kb env calls r db)) = kb_chunks db) \<or>
     kd_status r = asc ''approved'' \<and> \<not> (0 < ee_quota env \<and> ee_quota env \<le> int (weekly_indexed_count (utc (ke_clock (ee_kb env)) 0) (kd_tenant_id r) db)) \<and>
     (\<exists>i db1. persist_chunk (ee_kb env) (kd_draft_content r) (kd_draft_title r) (kd_tenant_id r) db = Inr (i, db1) \<and>
        vd_drafts (snd (reflow_to_kb env calls r db)) = vd_drafts (put_draft (indexed_draft (ke_clock (ee_kb env)) i r) db1) \<and>
        kb_chunks (snd (reflow_to_kb env calls r db)) = kb_chunks db1)"
proof -
  have fin: "vd_drafts (snd (case publish_llm_user_retests calls x d of (None, d') \<Rightarrow> (Inr (kd_chunk_id x), d') | (Some e, d') \<Rightarrow> (Inl e, d'))) = vd_drafts d"
      "kb_chunks (snd (case publish_llm_user_retests calls x d of (None, d') \<Rightarrow> (Inr (kd_chunk_id x), d') | (Some e, d') \<Rightarrow> (Inl e, d'))) = kb_chunks d"
    for x and d :: evo_db
    using publish_keeps[of calls x d] by (auto split: prod.split option.split)
  consider "kd_status r = asc ''indexed''" | "kd_status r \<noteq> asc ''indexed''" "kd_status r \<noteq> asc ''approved''"
    | "kd_status r = asc ''approved''" by blast
  then show ?thesis
  proof cases
    case 3
    show ?thesis
    proof (cases "persist_chunk (ee_kb env) (kd_draft_content r) (kd_draft_title r) (kd_tenant_id r) db")
      case (Inl e)
      with 3 show ?thesis by (simp add: reflow_to_kb_def Let_def)
    next
      case (Inr x)
      obtain i db1 where x: "x = (i, db1)" by (cases x)
      with 3 Inr fin show ?thesis by (simp add: reflow_to_kb_def Let_def put_draft_def)
    qed
  qed (simp_all add: reflow_to_kb_def Let_def fin)
qed

lemma draft_reflow_snd: "snd (draft_reflow env calls i t db) =
    (case tenant_draft i t db of None \<Rightarrow> db | Some r \<Rightarrow> snd (reflow_to_kb env calls r db))"
  by (auto simp: draft_reflow_def split: option.split prod.split sum.split pyerr.split)

lemma move_reflow: "evo_move db (evo_step (Reflow env calls i t) db)"
proof (rule move_if_row)
  fix r
  assume r: "tenant_draft i t db = Some r" "get_row kd_id (kd_id r) (vd_drafts db) = Some r"
  let ?db' = "snd (reflow_to_kb env calls r db)"
  have eq: "evo_step (Reflow env calls i t) db = ?db'" using r(1) by (simp add: draft_reflow_snd)
  from reflow_cases[of env calls r db] show "evo_move db (evo_step (Reflow env calls i t) db)"
  proof (elim disjE conjE exE)
    fix j db1
    let ?r' = "indexed_draft (ke_clock (ee_kb env)) j r"
    assume st: "kd_status r = asc ''approved''" and p: "persist_chunk (ee_kb env) (kd_draft_content r) (kd_draft_title r) (kd_tenant_id r) db = Inr (j, db1)"
      and to: "vd_drafts ?db' = vd_drafts (put_draft ?r' db1)" "kb_chunks ?db' = kb_chunks db1"
    obtain k where k: "kb_chunks db1 = kb_chunks db @ [k]" "kc_id k = j" "kc_doc_id k = ai_doc_id (kd_tenant_id r)"
        "kc_content k = kd_draft_content r" and new: "j \<notin> kc_id ` set (kb_chunks db)" and same: "vd_drafts db1 = vd_drafts db"
      using persisted[OF p] by blast
    have "evo_move db (put_draft ?r' db1)"
    proof (rule evo_move_put[OF r(2) _ _ same])
      show "draft_later r ?r'" using st by (simp add: draft_later_def draft_identity_def indexed_draft_def draft_review_def)
      show "draft_ok r \<Longrightarrow> draft_ok ?r'" using st by (simp add: draft_ok_def indexed_draft_def)
      show "distinct (map kc_id (kb_chunks db1)) \<and>
           entries is_ai_chunk chunk_entry (kb_chunks db1) + (if is_indexed r then {#draft_entry r#} else {#}) =
           entries is_ai_chunk chunk_entry (kb_chunks db) + (if is_indexed ?r' then {#draft_entry ?r'#} else {#})"
        if "wf_evo db"
        using that st k new ai_doc_prefix
        by (auto simp: entries_append wf_evo_def is_indexed_def indexed_draft_def entries_def is_ai_chunk_def chunk_entry_def draft_entry_def)
    qed
    moreover have "evo_move (put_draft ?r' db1) ?db'" by (rule evo_move_same) (use to in \<open>simp_all add: put_draft_def\<close>)
    ultimately show ?thesis unfolding eq by (rule evo_move_trans)
  qed (simp only: eq, rule evo_move_same)
qed (simp add: draft_reflow_def)

lemma move_withdraw: "evo_move db (evo_step (Withdraw env i t) db)"
proof (rule move_if_row)
  fix r
  assume r: "tenant_draft i t db = Some r" "get_row kd_id (kd_id r) (vd_drafts db) = Some r"
  show "evo_move db (evo_step (Withdraw env i t) db)"
  proof (cases "wf_evo db \<and> kd_status r = asc ''indexed''")
    case True
    then have wf: "wf_evo db" and st: "kd_status r = asc ''indexed''" by auto
    have "draft_entry r \<in># entries is_indexed draft_entry (vd_drafts db)"
      using get_row_in[OF r(2)] st by (auto simp: entries_mset is_indexed_def)
    then have "draft_entry r \<in># entries is_ai_chunk chunk_entry (kb_chunks db)" using wf by (simp add: wf_evo_def)
    then obtain k where k: "k \<in> set (kb_chunks db)" "is_ai_chunk k" "chunk_entry k = draft_entry r"
      by (auto simp: entries_mset)
    have kid: "kc_id k = kd_chunk_id r" using k(3) by (simp add: chunk_entry_def draft_entry_def)
    have dist: "distinct (map kc_id (kb_chunks db))" using wf by (simp add: wf_evo_def)
    have row: "get_row kc_id (kd_chunk_id r) (kb_chunks db) = Some k"
      using get_row_distinct[OF dist k(1)] kid by simp
    let ?db0 = "if ke_vector_error (ee_kb env) = None
        then command (DeleteByPk (primary_collection (ee_kb env)) (vector_pk (kc_doc_id k) (kc_chunk_idx k))) db else db"
    let ?db1 = "?db0\<lparr>kb_chunks := filter (\<lambda>x. kc_id x \<noteq> kd_chunk_id r) (kb_chunks ?db0)\<rparr>"
    have same: "vd_drafts ?db1 = vd_drafts db" "kb_chunks ?db0 = kb_chunks db" by (simp_all add: command_def)
    have "evo_move db (put_draft (r\<lparr>kd_status := asc ''withdrawn''\<rparr>) ?db1)"
    proof (rule evo_move_put[OF r(2) _ _ same(1)])
      show "draft_later r (r\<lparr>kd_status := asc ''withdrawn''\<rparr>)"
        using st by (simp add: draft_later_def draft_identity_def draft_review_def)
      show "draft_ok r \<Longrightarrow> draft_ok (r\<lparr>kd_status := asc ''withdrawn''\<rparr>)" using st by (simp add: draft_ok_def)
      have "entries is_ai_chunk chunk_entry (filter (\<lambda>x. kc_id x \<noteq> kd_chunk_id r) (kb_chunks db)) + {#draft_entry r#} =
          entries is_ai_chunk chunk_entry (kb_chunks db)"
        using entries_removed[OF dist row, of is_ai_chunk chunk_entry] k(2,3) by simp
      then show "distinct (map kc_id (kb_chunks ?db1)) \<and>
           entries is_ai_chunk chunk_entry (kb_chunks ?db1) + (if is_indexed r then {#draft_entry r#} else {#}) =
           entries is_ai_chunk chunk_entry (kb_chunks db) +
             (if is_indexed (r\<lparr>kd_status := asc ''withdrawn''\<rparr>) then {#draft_entry (r\<lparr>kd_status := asc ''withdrawn''\<rparr>)#} else {#})"
        using dist st by (simp add: same(2) is_indexed_def distinct_map_filter)
    qed
    then show ?thesis using r st row by (simp add: withdraw_draft_def Let_def)
  next
    case False
    with r show ?thesis by (auto simp: withdraw_draft_def evo_move_def grows_refl draft_later_refl)
  qed
qed (simp add: withdraw_draft_def)

text \<open>How many drafts of a tenant were indexed in a week and still are.\<close>

definition week :: time where "week = seconds (7 * 86400)"

definition indexed_within :: "pystr \<Rightarrow> time \<Rightarrow> evo_draft \<Rightarrow> bool" where
  "indexed_within t a r \<longleftrightarrow> kd_tenant_id r = t \<and> kd_status r = asc ''indexed'' \<and>
     (\<exists>x \<in> set_option (kd_indexed_at r). a \<le> x \<and> x \<le> a + week)"

definition indexed_in_week :: "pystr \<Rightarrow> time \<Rightarrow> evo_db \<Rightarrow> nat" where
  "indexed_in_week t a db = length (filter (indexed_within t a) (vd_drafts db))"

lemma count_put_row:
  assumes "distinct (map key tbl)" and "get_row key (key r) tbl = Some old"
  shows "length (filter P (put_row key r tbl)) + (if P old then 1 else 0) = length (filter P tbl) + (if P r then 1 else 0)"
proof -
  have "length (filter P xs) = sum_list (map (\<lambda>x. if P x then 1 else 0) xs)" for xs by (induction xs) auto
  then show ?thesis using sum_put_row[OF assms, of "\<lambda>x. if P x then 1 else 0"] by simp
qed

lemma week_put:
  assumes "wf_evo db" and "get_row kd_id (kd_id r) (vd_drafts db) = Some r" and "kd_id r' = kd_id r" and "vd_drafts db1 = vd_drafts db"
  shows "indexed_in_week t a (put_draft r' db1) + (if indexed_within t a r then 1 else 0) =
    indexed_in_week t a db + (if indexed_within t a r' then 1 else 0)"
  using count_put_row[of kd_id "vd_drafts db" r' r "indexed_within t a"] assms
  by (simp add: indexed_in_week_def put_draft_def wf_evo_def)

text \<open>Everything but a reflow indexes nothing.\<close>

definition quiet :: "evo_db \<Rightarrow> evo_db \<Rightarrow> bool" where
  "quiet db db' \<longleftrightarrow> evo_move db db' \<and> (wf_evo db \<longrightarrow> (\<forall>t a. indexed_in_week t a db' \<le> indexed_in_week t a db))"

lemma quiet_refl [simp]: "quiet db db"
  by (simp add: quiet_def)

lemma quiet_trans: "quiet db db' \<Longrightarrow> quiet db' db'' \<Longrightarrow> quiet db db''"
  unfolding quiet_def using evo_move_trans[of db db' db''] by (meson evo_move_def order_trans)

lemma quiet_put:
  assumes "get_row kd_id (kd_id r) (vd_drafts db) = Some r" and "kd_id r' = kd_id r" and "vd_drafts db1 = vd_drafts db"
    and "\<And>t a. indexed_within t a r' \<Longrightarrow> indexed_within t a r" and "evo_move db (put_draft r' db1)"
  shows "quiet db (put_draft r' db1)"
proof -
  have "indexed_in_week t a (put_draft r' db1) \<le> indexed_in_week t a db" if "wf_evo db" for t a
    using week_put[OF that assms(1-3), of t a] assms(4)[of t a] by (simp split: if_splits)
  with assms(5) show ?thesis by (simp add: quiet_def)
qed

text \<open>A scan: rows are retested, each from the row the query read, and drafts are added.\<close>

lemma move_retest_one:
  assumes "r \<in> set (vd_drafts (snd s))"
  shows "evo_move (snd s) (snd (retest_one env t r s))"
proof (cases "wf_evo (snd s)")
  case True
  have row: "get_row kd_id (kd_id r) (vd_drafts (snd s)) = Some r"
    using True get_row_distinct[of kd_id, OF _ assms] by (simp add: wf_evo_def)
  have "evo_move (snd s) (put_draft (retested c after r) (snd s))" for c after
  proof (rule evo_move_put[OF row])
    show "draft_later r (retested c after r)" by (simp add: retested_def draft_later_def draft_identity_def draft_review_def Let_def)
    show "draft_ok r \<Longrightarrow> draft_ok (retested c after r)"
      using lowered_scores by (auto simp: retested_def draft_ok_def SCORES_def Let_def)
  qed (auto simp: retested_def is_indexed_def draft_entry_def wf_evo_def Let_def)
  then show ?thesis by (simp add: retest_one_def split: sum.split)
qed (simp add: evo_move_def)

lemma retest_one_others:
  "x \<in> set (vd_drafts (snd s)) \<Longrightarrow> kd_id x \<noteq> kd_id r \<Longrightarrow> x \<in> set (vd_drafts (snd (retest_one env t r s)))"
  by (auto simp: retest_one_def put_draft_def retested_def Let_def intro!: put_row_keeps split: sum.split)

lemma quiet_retest_one:
  assumes "r \<in> set (vd_drafts (snd s))"
  shows "quiet (snd s) (snd (retest_one env t r s))"
proof (cases "wf_evo (snd s)")
  case True
  have row: "get_row kd_id (kd_id r) (vd_drafts (snd s)) = Some r"
    using True get_row_distinct[of kd_id, OF _ assms] by (simp add: wf_evo_def)
  have same: "indexed_within t' a (retested c after r) = indexed_within t' a r" "kd_id (retested c after r) = kd_id r" for t' a c after
    by (simp_all add: retested_def indexed_within_def Let_def)
  show ?thesis
  proof (cases "kd_member_queries r = [] \<or> isl (after_score env t (kd_member_queries r))")
    case True
    then show ?thesis by (auto simp: retest_one_def split: sum.split)
  next
    case False
    then obtain after where after: "after_score env t (kd_member_queries r) = Inr after"
      by (cases "after_score env t (kd_member_queries r)") auto
    have eq: "snd (retest_one env t r s) = put_draft (retested (ke_clock (ee_kb env)) after r) (snd s)"
      using False after by (simp add: retest_one_def)
    show ?thesis unfolding eq
      by (rule quiet_put[OF row same(2) refl]) (use move_retest_one[OF assms, of env t] in \<open>simp_all add: same eq\<close>)
  qed
qed (simp add: quiet_def evo_move_def)

lemma quiet_retests:
  "distinct (map kd_id rs) \<Longrightarrow> set rs \<subseteq> set (vd_drafts (snd s)) \<Longrightarrow> quiet (snd s) (snd (fold (retest_one env t) rs s))"
proof (induction rs arbitrary: s)
  case (Cons r rs)
  have "x \<in> set (vd_drafts (snd (retest_one env t r s)))" if x: "x \<in> set rs" for x
  proof (rule retest_one_others)
    show "x \<in> set (vd_drafts (snd s))" using Cons.prems(2) x by auto
    show "kd_id x \<noteq> kd_id r" using Cons.prems(1) imageI[OF x, of kd_id] by auto
  qed
  then have "set rs \<subseteq> set (vd_drafts (snd (retest_one env t r s)))" by blast
  with Cons.IH[of "retest_one env t r s"] Cons.prems have "quiet (snd (retest_one env t r s)) (snd (fold (retest_one env t) (r # rs) s))"
    by simp
  moreover have "quiet (snd s) (snd (retest_one env t r s))" using Cons.prems by (intro quiet_retest_one) simp
  ultimately show ?case by (blast intro: quiet_trans)
qed simp

lemma quiet_retest_all: "quiet db (snd (retest_indexed_drafts env t db))"
proof (cases "wf_evo db \<and> ee_retest_enable env")
  case True
  then have "distinct (map kd_id (filter (due_for_retest env t (utc (ke_clock (ee_kb env)) 0)) (vd_drafts db)))"
    by (simp add: wf_evo_def distinct_map_filter)
  from quiet_retests[OF this, of "(0, db)" env t] True show ?thesis by (auto simp: retest_indexed_drafts_def)
qed (auto simp: retest_indexed_drafts_def quiet_def evo_move_def grows_refl draft_later_refl)

lemma move_retest_all: "evo_move db (snd (retest_indexed_drafts env t db))"
  using quiet_retest_all[of db env t] by (simp add: quiet_def)

lemma scanned_drafts:
  "scan_clusters env t m n cs db = Inr drafts \<Longrightarrow> r \<in> set drafts \<Longrightarrow> draft_ok r \<and> kd_status r = asc ''draft'' \<and> kd_tenant_id r = t"
proof (induction cs arbitrary: n drafts)
  case (Cons c cs)
  have new: "draft_ok (new_draft env t m n c e d) \<and> kd_status (new_draft env t m n c e d) = asc ''draft'' \<and>
      kd_tenant_id (new_draft env t m n c e d) = t" for e d
    by (simp add: new_draft_def draft_ok_def SCORES_def AI_QUALITY_SCORE_def)
  show ?case
  proof (cases "identify_blind_spot env (qc_representative c) t")
    case (Inl e)
    with Cons.prems show ?thesis by simp
  next
    case blind: (Inr x)
    show ?thesis
    proof (cases x)
      case None
      with blind Cons show ?thesis by simp
    next
      case evidence: (Some ev)
      show ?thesis
      proof (cases "generate_draft env (map fst (oc_members c)) (qc_representative c) t db")
        case (Inl e)
        with blind evidence Cons.prems show ?thesis by simp
      next
        case (Inr d)
        then obtain ds where ds: "scan_clusters env t m (n + 1) cs db = Inr ds"
            "drafts = new_draft env t m n c (ev\<lparr>ge_llm_user_links := llm_user_links (ke_clock (ee_kb env)) t (map fst (oc_members c)) db\<rparr>) d # ds"
          using blind evidence Cons.prems(1) by (cases "scan_clusters env t m (n + 1) cs db") (simp_all add: Let_def)
        show ?thesis
        proof (cases "r \<in> set ds")
          case True
          with Cons.IH[OF ds(1)] show ?thesis by blast
        next
          case False
          with Cons.prems(2) have r: "r = new_draft env t m n c
              (ev\<lparr>ge_llm_user_links := llm_user_links (ke_clock (ee_kb env)) t (map fst (oc_members c)) db\<rparr>) d"
            unfolding ds(2) by simp
          show ?thesis unfolding r by (rule new)
        qed
      qed
    qed
  qed
qed simp

lemma run_scan_cases:
  "snd (run_scan env t h m db) = snd (retest_indexed_drafts env t db) \<or>
   (\<exists>drafts. snd (run_scan env t h m db) = (snd (retest_indexed_drafts env t db))\<lparr>vd_drafts := vd_drafts (snd (retest_indexed_drafts env t db)) @ drafts\<rparr> \<and>
     distinct (map kd_id (vd_drafts (snd (retest_indexed_drafts env t db)) @ drafts)) \<and>
     (\<forall>r \<in> set drafts. draft_ok r \<and> kd_status r = asc ''draft'' \<and> kd_tenant_id r = t))"
  using scanned_drafts[of env t m 0]
  by (auto simp: run_scan_def Let_def split: sum.split option.split)

lemma move_scan: "evo_move db (evo_step (Scan env t h m) db)"
proof -
  let ?db1 = "snd (retest_indexed_drafts env t db)"
  have first: "evo_move db ?db1" by (rule move_retest_all)
  from run_scan_cases[of env t h m db] show ?thesis
  proof (elim disjE exE conjE)
    fix drafts
    assume eq: "snd (run_scan env t h m db) = ?db1\<lparr>vd_drafts := vd_drafts ?db1 @ drafts\<rparr>"
      and new: "distinct (map kd_id (vd_drafts ?db1 @ drafts))" "\<forall>r \<in> set drafts. draft_ok r \<and> kd_status r = asc ''draft'' \<and> kd_tenant_id r = t"
    have "entries is_indexed draft_entry drafts = {#}"
      using new(2) by (induction drafts) (auto simp: entries_def is_indexed_def)
    then have "evo_move ?db1 (?db1\<lparr>vd_drafts := vd_drafts ?db1 @ drafts\<rparr>)"
      using new by (auto simp: evo_move_def wf_evo_def entries_append grows_append draft_later_refl)
    with first show ?thesis unfolding evo_step.simps eq by (rule evo_move_trans)
  qed (use first in simp)
qed

lemma evo_step_move: "evo_move db (evo_step op db)"
  by (cases op) (simp_all only: move_scan move_review move_reflow move_withdraw)

interpretation evo_table: growing_table evo_step wf_evo vd_drafts kd_id draft_later
  by unfold_locales (use evo_step_move draft_later_trans in \<open>auto simp: evo_move_def draft_later_refl draft_later_id\<close>)

definition no_drafts :: "evo_db \<Rightarrow> bool" where
  "no_drafts db \<longleftrightarrow> vd_drafts db = [] \<and> distinct (map kc_id (kb_chunks db)) \<and> (\<forall>k \<in> set (kb_chunks db). \<not> is_ai_chunk k)"

lemma evo_reached: "no_drafts db0 \<Longrightarrow> wf_evo (fold evo_step ops db0)"
proof (rule evo_table.run_inv)
  assume "no_drafts db0"
  then show "wf_evo db0" by (auto simp: no_drafts_def wf_evo_def entries_mset filter_empty_conv)
qed

text \<open>C10: Drafts persist with their title, content and sources; they move from draft to approved or rejected,
  from approved to indexed, from indexed to withdrawn, and in no other way; whatever is no longer a
  draft was reviewed, and the review stays; the score only takes five values.
\<close>

theorem drafts_follow_their_review:
  assumes "no_drafts db0" and "db = fold evo_step ops db0" and "get_row kd_id i (vd_drafts db) = Some r"
  shows "kd_quality_score r \<in> set SCORES \<and> (kd_status r \<noteq> asc ''draft'' \<longrightarrow> kd_reviewed_at r \<noteq> None)
    \<and> (\<exists>r'. get_row kd_id i (vd_drafts (fold evo_step later db)) = Some r' \<and> draft_identity r' = draft_identity r \<and>
         evo_path (kd_status r) (kd_status r') \<and> (kd_status r \<noteq> asc ''draft'' \<longrightarrow> draft_review r' = draft_review r))"
proof -
  have wf: "wf_evo db" unfolding assms(2) by (rule evo_reached[OF assms(1)])
  then have "draft_ok r" using get_row_in[OF assms(3)] by (simp add: wf_evo_def)
  moreover obtain r' where "get_row kd_id i (vd_drafts (fold evo_step later db)) = Some r'" "draft_later r r'"
    using evo_table.row_persists[OF wf assms(3)] by blast
  ultimately show ?thesis unfolding draft_ok_def draft_later_def by blast
qed


section \<open>The weekly quota\<close>

fun under_quota :: "nat \<Rightarrow> evo_op \<Rightarrow> bool" where
  "under_quota q (Reflow env calls i t) \<longleftrightarrow> ee_quota env = int q \<and> utc (ke_clock (ee_kb env)) 0 \<le> utc (ke_clock (ee_kb env)) 1"
| "under_quota q _ \<longleftrightarrow> True"

lemma quiet_scan: "quiet db (evo_step (Scan env t h m) db)"
proof -
  let ?db1 = "snd (retest_indexed_drafts env t db)"
  have first: "quiet db ?db1" by (rule quiet_retest_all)
  from run_scan_cases[of env t h m db] show ?thesis
  proof (elim disjE exE conjE)
    fix drafts
    assume eq: "snd (run_scan env t h m db) = ?db1\<lparr>vd_drafts := vd_drafts ?db1 @ drafts\<rparr>"
      and new: "\<forall>r \<in> set drafts. draft_ok r \<and> kd_status r = asc ''draft'' \<and> kd_tenant_id r = t"
    have "filter (indexed_within t' a) drafts = []" for t' a
      using new by (auto simp: filter_empty_conv indexed_within_def)
    then have "indexed_in_week t' a (?db1\<lparr>vd_drafts := vd_drafts ?db1 @ drafts\<rparr>) = indexed_in_week t' a ?db1" for t' a
      by (simp add: indexed_in_week_def)
    then show ?thesis using first move_scan[of db env t h m] unfolding quiet_def evo_step.simps eq by simp
  qed (use first in simp)
qed

lemma quiet_if_row:
  assumes "\<And>r. wf_evo db \<Longrightarrow> tenant_draft i t db = Some r \<Longrightarrow> get_row kd_id (kd_id r) (vd_drafts db) = Some r \<Longrightarrow> quiet db db'"
    and "tenant_draft i t db = None \<Longrightarrow> db' = db"
  shows "quiet db db'"
proof (cases "tenant_draft i t db")
  case None
  with assms(2) show ?thesis by simp
next
  case (Some r)
  show ?thesis
  proof (cases "wf_evo db")
    case True
    then have "distinct (map kd_id (vd_drafts db))" by (simp add: wf_evo_def)
    from assms(1)[OF True Some] tenant_draft_row[OF this Some] show ?thesis by blast
  next
    case False
    then show ?thesis by (simp add: quiet_def evo_move_def)
  qed
qed

lemma quiet_review: "quiet db (evo_step (Review c i t action remark reviewer) db)"
proof (rule quiet_if_row)
  fix r
  assume r: "tenant_draft i t db = Some r" "get_row kd_id (kd_id r) (vd_drafts db) = Some r"
  show "quiet db (evo_step (Review c i t action remark reviewer) db)"
  proof (cases "kd_status r = asc ''draft''")
    case True
    have eq: "evo_step (Review c i t action remark reviewer) db = put_draft (reviewed_draft c action remark reviewer r) db"
      using r True by (simp add: review_draft_def)
    have "\<not> indexed_within t' a (reviewed_draft c action remark reviewer r)" for t' a
      by (simp add: reviewed_draft_def indexed_within_def)
    moreover have "evo_move db (put_draft (reviewed_draft c action remark reviewer r) db)"
      using move_review[of db c i t action remark reviewer] unfolding eq .
    ultimately show ?thesis unfolding eq
      by (intro quiet_put[OF r(2) _ refl]) (simp_all add: reviewed_draft_def)
  next
    case False
    with r show ?thesis by (simp add: review_draft_def)
  qed
qed (simp add: review_draft_def)

lemma withdrawn_row:
  assumes "withdraw_draft env i t db = Inr db'" and "tenant_draft i t db = Some r"
  shows "\<exists>db1. db' = put_draft (r\<lparr>kd_status := asc ''withdrawn''\<rparr>) db1 \<and> vd_drafts db1 = vd_drafts db"
  using assms by (auto simp: withdraw_draft_def command_def Let_def split: if_splits option.splits)

lemma quiet_withdraw: "quiet db (evo_step (Withdraw env i t) db)"
proof (rule quiet_if_row)
  fix r
  assume r: "tenant_draft i t db = Some r" "get_row kd_id (kd_id r) (vd_drafts db) = Some r"
  show "quiet db (evo_step (Withdraw env i t) db)"
  proof (cases "withdraw_draft env i t db")
    case (Inr db')
    then obtain db1 where db1: "db' = put_draft (r\<lparr>kd_status := asc ''withdrawn''\<rparr>) db1" "vd_drafts db1 = vd_drafts db"
      using withdrawn_row[OF Inr r(1)] by blast
    have eq: "evo_step (Withdraw env i t) db = put_draft (r\<lparr>kd_status := asc ''withdrawn''\<rparr>) db1" using Inr db1(1) by simp
    show ?thesis unfolding eq
      by (rule quiet_put[OF r(2) _ db1(2)]) (use move_withdraw[of db env i t] in \<open>simp_all add: indexed_within_def eq del: evo_step.simps\<close>)
  qed simp
qed (simp add: withdraw_draft_def)

lemma length_filter_mono: "(\<And>x. P x \<Longrightarrow> Q x) \<Longrightarrow> length (filter P xs) \<le> length (filter Q xs)"
  by (induction xs) auto

lemma reflow_within_quota:
  assumes "wf_evo db" and "\<forall>a. indexed_in_week t a db \<le> q" and "under_quota q (Reflow env calls i t')" and "0 < q"
  shows "indexed_in_week t a (evo_step (Reflow env calls i t') db) \<le> q"
proof (cases "tenant_draft i t' db")
  case None
  then show ?thesis using assms(2) by (simp add: draft_reflow_def)
next
  case (Some r)
  let ?c = "ke_clock (ee_kb env)"
  let ?db' = "snd (reflow_to_kb env calls r db)"
  have eq: "evo_step (Reflow env calls i t') db = ?db'" using Some by (simp add: draft_reflow_snd)
  have dist: "distinct (map kd_id (vd_drafts db))" using assms(1) by (simp add: wf_evo_def)
  have row: "get_row kd_id (kd_id r) (vd_drafts db) = Some r" using tenant_draft_row[OF dist Some] by blast
  from reflow_cases[of env calls r db] show ?thesis unfolding eq
  proof (elim disjE exE conjE)
    assume "vd_drafts ?db' = vd_drafts db"
    then show "indexed_in_week t a ?db' \<le> q" using assms(2) by (simp add: indexed_in_week_def)
  next
    fix j db1
    assume free: "\<not> (0 < ee_quota env \<and> ee_quota env \<le> int (weekly_indexed_count (utc ?c 0) (kd_tenant_id r) db))"
      and p: "persist_chunk (ee_kb env) (kd_draft_content r) (kd_draft_title r) (kd_tenant_id r) db = Inr (j, db1)"
      and to: "vd_drafts ?db' = vd_drafts (put_draft (indexed_draft ?c j r) db1)"
    have less: "weekly_indexed_count (utc ?c 0) (kd_tenant_id r) db < q" using free assms(3,4) by simp
    have same: "vd_drafts db1 = vd_drafts db" using persisted[OF p] by blast
    have sum: "indexed_in_week t a ?db' + (if indexed_within t a r then 1 else 0) =
        indexed_in_week t a db + (if indexed_within t a (indexed_draft ?c j r) then 1 else 0)"
      using week_put[OF assms(1) row _ same, of "indexed_draft ?c j r" t a] to by (simp add: indexed_in_week_def indexed_draft_def)
    show "indexed_in_week t a ?db' \<le> q"
    proof (cases "indexed_within t a (indexed_draft ?c j r)")
      case True
      then have t: "kd_tenant_id r = t" and a: "a \<le> utc ?c 1" "utc ?c 1 \<le> a + week"
        by (simp_all add: indexed_within_def indexed_draft_def)
      have "indexed_in_week t a db \<le> weekly_indexed_count (utc ?c 0) t db"
        unfolding indexed_in_week_def weekly_indexed_count_def
        by (rule length_filter_mono) (use a assms(3) in \<open>auto simp: indexed_within_def week_def\<close>)
      with less t sum show ?thesis by (simp split: if_splits)
    next
      case False
      with sum have "indexed_in_week t a ?db' \<le> indexed_in_week t a db" by simp
      also have "\<dots> \<le> q" using assms(2) by blast
      finally show ?thesis .
    qed
  qed
qed

text \<open>C11: With a quota in force, no week, wherever it begins, contains more drafts of a tenant that were indexed
  in it and still are than the quota allows: the count the code makes of the last seven days bounds
  every window.
\<close>

theorem weekly_quota_holds:
  assumes "no_drafts db0" and "0 < q" and "\<forall>op \<in> set ops. under_quota q op"
  shows "length (filter (\<lambda>r. kd_tenant_id r = t \<and> kd_status r = asc ''indexed'' \<and>
      (\<exists>x \<in> set_option (kd_indexed_at r). a \<le> x \<and> x \<le> a + seconds (7 * 86400))) (vd_drafts (fold evo_step ops db0))) \<le> q"
proof -
  have run: "\<forall>a. indexed_in_week t a (fold evo_step ops db) \<le> q"
    if "wf_evo db" "\<forall>a. indexed_in_week t a db \<le> q" "\<forall>op \<in> set ops. under_quota q op" for db
    using that
  proof (induction ops arbitrary: db)
    case (Cons op ops)
    have wf: "wf_evo (evo_step op db)" by (rule evo_table.step_inv[OF Cons.prems(1)])
    have quiet: "\<forall>a. indexed_in_week t a db' \<le> q" if "quiet db db'" for db'
      using that Cons.prems(1,2) unfolding quiet_def by (meson order_trans)
    have "\<forall>a. indexed_in_week t a (evo_step op db) \<le> q"
    proof (cases op)
      case (Reflow env calls i t')
      then show ?thesis using reflow_within_quota[OF Cons.prems(1,2)] Cons.prems(3) assms(2) by (simp del: evo_step.simps)
    qed (simp_all add: quiet quiet_scan quiet_review quiet_withdraw del: evo_step.simps)
    with Cons.IH[OF wf] Cons.prems(3) show ?case by simp
  qed simp
  have "wf_evo db0" using evo_reached[OF assms(1), of "[]"] by simp
  moreover have "\<forall>a. indexed_in_week t a db0 \<le> q" using assms(1) by (simp add: no_drafts_def indexed_in_week_def)
  ultimately have "indexed_in_week t a (fold evo_step ops db0) \<le> q" using run assms(3) by blast
  then show ?thesis by (simp add: indexed_in_week_def indexed_within_def[abs_def] week_def)
qed

section \<open>Examples\<close>

definition ONE :: sdbl where "ONE = (False, (4503599627370496, 52))"

lemma one_float:
  "fdiv 4503599627370496 4503599627370496 = (4503599627370496, 52)"
  "fdiv 40564819207303340847894502572032 20282409603651670423947251286016 = (4503599627370496, 51)"
  "fdiv 20282409603651670423947251286016 20282409603651670423947251286016 = (4503599627370496, 52)"
  "fdiv 10141204801825835211973625643008 10141204801825835211973625643008 = (4503599627370496, 52)"
  by (simp_all add: float_eval)

lemma one_simps:
  "smul ONE ONE = ONE" "sadd szero ONE = ONE" "sadd ONE ONE = (False, (4503599627370496, 51))" "sdiv ONE ONE = ONE"
  "sdiv (False, (4503599627370496, 51)) (False, (4503599627370496, 51)) = ONE"
  "of_dbl (fsqrt (snd ONE)) = ONE"
  "fst (snd ONE) \<noteq> 0" "fnat (Suc (Suc 0)) = (4503599627370496, 51)"
       apply (simp_all add: smul_def sadd_def sdiv_def ONE_def szero_def sround_def sscaled_def of_dbl_def one_float)
   apply (simp add: root_scale_def bit_len.simps isqrt_nearest_def nearest_root_def isqrt.simps root_digit_def)
  apply (simp add: float_eval)
  done

lemma demo_cosine: "cosine [ONE] [ONE] = ONE"
  by (simp add: cosine_def norm_of_def dot_def ssum_def one_simps Let_def)

lemma demo_near: "\<not> sless ONE (of_dbl CLUSTER_THRESHOLD)"
  by (simp add: sless_def sscaled_def of_dbl_def CLUSTER_THRESHOLD_def ONE_def float_eval)

lemma demo_mean: "mean_vec [[ONE], [ONE]] = Some [ONE]"
  by (simp add: mean_vec_def ssum_def of_dbl_def one_simps)

definition dislike_items :: "item list" where
  "dislike_items = [(asc ''how'', [ONE]), (asc ''why'', [ONE])]"

lemma demo_cluster: "cluster_questions CLUSTER_THRESHOLD 2 uuid dislike_items =
   Some [\<lparr>oc_id = uuid 0, oc_centroid = [ONE], oc_members = dislike_items, qc_representative = asc ''how''\<rparr>]"
  by (simp add: cluster_questions_def dislike_items_def demo_cosine demo_near demo_mean close_cluster_def representative_def open_cluster.defs)

theorem clusters_partition_the_questions_witness:
  "\<exists>out small. cluster_questions CLUSTER_THRESHOLD 2 dec_nat dislike_items = Some out \<and> length out = 1 \<and>
     mset dislike_items = mset (concat (map oc_members out)) + mset (concat small) \<and> (\<forall>ms \<in> set small. length ms < 2)"
  using clusters_partition_the_questions[OF demo_cluster[of dec_nat]] demo_cluster[of dec_nat]
  by (metis One_nat_def length_Cons list.size(3))

definition demo_feedback :: "pystr \<Rightarrow> evo_feedback" where
  "demo_feedback q = \<lparr>fb_feedback = asc ''dislike'', fb_retrieval_sources = None, fb_tenant_id = asc ''t'', fb_created_at = 0, fb_query = q\<rparr>"

definition demo_evo :: evo_db where
  "demo_evo = \<lparr>kb_documents = [], kb_chunks = [], kb_cache = \<lparr>qt_rows = [], qt_next = 1\<rparr>, kb_redis = (\<lambda>_. None), kb_commands = [],
     gb_gaps = [], gb_next = 1, vd_drafts = [], vd_feedbacks = [demo_feedback (asc ''how''), demo_feedback (asc ''why'')],
     vd_outbox = \<lparr>events = [], deliveries = []\<rparr>\<rparr>"

definition demo_evo_env :: "nat \<Rightarrow> evo_env" where
  "demo_evo_env n = \<lparr>ee_kb = (demo_kb_env None)\<lparr>ke_uuid := (\<lambda>i. [n, i])\<rparr>, ee_top1 = (\<lambda>_ _. Inr []), ee_embed = (\<lambda>qs. Inr (map (\<lambda>_. [ONE]) qs)),
     ee_chat = (\<lambda>_. Inr (asc ''{}'')), ee_cluster_uuid = (\<lambda>i. [i]), ee_draft_uuid = (\<lambda>i. [n, i]), ee_retest_enable = True,
     ee_retest_after_days = 7, ee_quota = 1\<rparr>"


lemma demo_strip: "py_strip (asc ''how'') = asc ''how''" "py_strip (asc ''why'') = asc ''why''"
  by (simp_all add: py_strip_def py_isspace_def asc_def)

lemma demo_json: "json_loads (asc ''{}'') = Some (JObj [])" by code_simp

lemma demo_extract: "extract_dislike (at_time 0) (asc ''t'') 168 demo_evo = [asc ''how'', asc ''why'']"
  by (simp add: extract_dislike_def strip_all_def demo_evo_def demo_feedback_def seconds_def demo_strip)

definition blind_draft :: evo_draft where
  "blind_draft = new_draft (demo_evo_env 7) (asc ''t'') None 0
     \<lparr>oc_id = [0], oc_centroid = [ONE], oc_members = dislike_items, qc_representative = asc ''how''\<rparr>
     \<lparr>ge_top1_score = (0, 0), ge_hit_doc_ids = [], ge_confidence = asc ''blind'', ge_llm_user_links = [],
       ge_after_score = None, ge_lift = None, ge_retested_at = None\<rparr> ([], [], [])"

lemma demo_scan: "snd (run_scan (demo_evo_env 7) (asc ''t'') 168 None demo_evo) = demo_evo\<lparr>vd_drafts := [blind_draft]\<rparr>"
proof -
  have env: "ke_clock (ee_kb (demo_evo_env n)) = at_time 0" "ee_embed (demo_evo_env n) = (\<lambda>qs. Inr (map (\<lambda>_. [ONE]) qs))"
    "ee_cluster_uuid (demo_evo_env n) = (\<lambda>i. [i])" "ee_top1 (demo_evo_env n) = (\<lambda>_ _. Inr [])" "ee_chat (demo_evo_env n) = (\<lambda>_. Inr (asc ''{}''))" for n
    by (simp_all add: demo_evo_env_def demo_kb_env_def)
  have none: "retest_indexed_drafts (demo_evo_env 7) (asc ''t'') demo_evo = (0, demo_evo)"
    by (simp add: retest_indexed_drafts_def demo_evo_def)
  have zip: "zip [asc ''how'', asc ''why''] (map (\<lambda>_. [ONE]) [asc ''how'', asc ''why'']) = dislike_items" by (simp add: dislike_items_def)
  have links: "llm_user_links (at_time 0) (asc ''t'') qs demo_evo = []" for qs
    by (simp add: llm_user_links_def demo_evo_def)
  have gen: "generate_draft (demo_evo_env 7) qs rep (asc ''t'') demo_evo = Inr ([], [], [])" for qs rep
    by (simp add: generate_draft_def env demo_json recent_standards_def demo_evo_def json_get_def py_str_def)
  have blind: "identify_blind_spot (demo_evo_env 7) q (asc ''t'') = Inr (Some \<lparr>ge_top1_score = (0, 0), ge_hit_doc_ids = [], ge_confidence = asc ''blind'',
      ge_llm_user_links = [], ge_after_score = None, ge_lift = None, ge_retested_at = None\<rparr>)" for q
    by (simp add: identify_blind_spot_def retrieve_top1_def env Let_def)
  show ?thesis
    unfolding run_scan_def none snd_conv Let_def env demo_extract
    by (simp add: zip[simplified] CLUSTER_MIN_SIZE_def demo_cluster blind gen links env blind_draft_def) (simp add: demo_evo_def new_draft_def)
qed

definition demo_calls :: "nat \<Rightarrow> clock \<times> pystr" where
  "demo_calls i = (at_time 0, [i])"

definition demo_ops :: "evo_op list" where
  "demo_ops = [Scan (demo_evo_env 7) (asc ''t'') 168 None, Review (at_time 0) [7, 0] (asc ''t'') (asc ''approve'') [] (asc ''ann''),
     Reflow (demo_evo_env 8) demo_calls [7, 0] (asc ''t'')]"

lemma demo_no_drafts: "no_drafts demo_evo"
  by (simp add: no_drafts_def demo_evo_def)

lemma demo_first: "fold evo_step [Scan (demo_evo_env 7) (asc ''t'') 168 None] demo_evo = demo_evo\<lparr>vd_drafts := [blind_draft]\<rparr>"
  by (simp add: demo_scan)

theorem drafts_follow_their_review_witness:
  "\<exists>r'. get_row kd_id [7, 0] (vd_drafts (fold evo_step [Review (at_time 0) [7, 0] (asc ''t'') (asc ''approve'') [] (asc ''ann'')]
         (fold evo_step [Scan (demo_evo_env 7) (asc ''t'') 168 None] demo_evo))) = Some r' \<and>
     draft_identity r' = draft_identity blind_draft \<and> evo_path (kd_status blind_draft) (kd_status r')"
proof -
  have "get_row kd_id [7, 0] (vd_drafts (fold evo_step [Scan (demo_evo_env 7) (asc ''t'') 168 None] demo_evo)) = Some blind_draft"
    unfolding demo_first by (simp add: blind_draft_def new_draft_def demo_evo_env_def)
  from drafts_follow_their_review[OF demo_no_drafts refl this] show ?thesis by blast
qed



theorem weekly_quota_holds_witness:
  "length (filter (\<lambda>r. kd_tenant_id r = asc ''t'' \<and> kd_status r = asc ''indexed'' \<and>
      (\<exists>x \<in> set_option (kd_indexed_at r). 0 \<le> x \<and> x \<le> 0 + seconds (7 * 86400))) (vd_drafts (fold evo_step demo_ops demo_evo))) \<le> 1"
  by (rule weekly_quota_holds[OF demo_no_drafts]) (simp_all add: demo_ops_def demo_evo_env_def demo_kb_env_def)

end
