(* ===== verification/WithdrawClaims.thy ===== *)
theory WithdrawClaims
  imports EvolutionClaims
begin

text \<open>
  The numbers of the chunks of a virtual document, which name the vectors: what a withdrawal does to them.
\<close>

lemma tenant_draft_iff:
  assumes "distinct (map kd_id (vd_drafts db))"
  shows "tenant_draft i t db = Some r \<longleftrightarrow> get_row kd_id i (vd_drafts db) = Some r \<and> kd_tenant_id r = t"
proof
  assume "tenant_draft i t db = Some r"
  then show "get_row kd_id i (vd_drafts db) = Some r \<and> kd_tenant_id r = t" using tenant_draft_row[OF assms] by blast
next
  assume r: "get_row kd_id i (vd_drafts db) = Some r \<and> kd_tenant_id r = t"
  then have "r \<in> set (vd_drafts db)" and key: "kd_id r = i" using get_row_SomeD[of kd_id i "vd_drafts db" r] by blast+
  then obtain x where x: "tenant_draft i t db = Some x"
    using r unfolding tenant_draft_def by (metis (mono_tags, lifting) find_None_iff not_None_eq)
  then show "tenant_draft i t db = Some r" using tenant_draft_row[OF assms x] r by (metis option.inject)
qed

text \<open>A reflow that returns: the draft, the chunk and its number.\<close>

lemma reflowed:
  assumes "draft_reflow env calls i t db = (Inr c, db')" and "tenant_draft i t db = Some r" and "kd_status r = asc ''approved''"
    and t: "t' = kd_tenant_id r"
  shows "\<exists>k r'. kb_chunks db' = kb_chunks db @ [k] \<and> kc_id k = c \<and> kc_doc_id k = ai_doc_id t' \<and>
     kc_chunk_idx k = int (length (filter (\<lambda>k. kc_doc_id k = ai_doc_id t') (kb_chunks db))) \<and>
     vd_drafts db' = put_row kd_id r' (vd_drafts db) \<and> kd_id r' = kd_id r \<and> kd_tenant_id r' = kd_tenant_id r \<and>
     kd_status r' = asc ''indexed'' \<and> kd_chunk_id r' = c"
proof -
  have r: "reflow_to_kb env calls r db = (Inr c, db')"
    using assms(1,2) by (auto simp: draft_reflow_def split: prod.splits sum.splits pyerr.splits)
  show ?thesis
  proof (cases "persist_chunk (ee_kb env) (kd_draft_content r) (kd_draft_title r) (kd_tenant_id r) db")
    case (Inl e)
    with r assms(3) show ?thesis by (simp add: reflow_to_kb_def Let_def split: if_splits)
  next
    case (Inr x)
    obtain j db1 where x: "x = (j, db1)" by (cases x)
    let ?r' = "indexed_draft (ke_clock (ee_kb env)) j r"
    let ?pub = "publish_llm_user_retests calls ?r' (put_draft ?r' db1)"
    have "db' = snd ?pub \<and> c = j"
      using r assms(3) Inr x
      by (auto simp: reflow_to_kb_def Let_def indexed_draft_def split: if_splits prod.splits option.splits)
    then have db': "vd_drafts db' = put_row kd_id ?r' (vd_drafts db1)" "kb_chunks db' = kb_chunks db1" and c: "c = j"
      using publish_keeps[of calls ?r' "put_draft ?r' db1"] by (simp_all add: put_draft_def)
    show ?thesis using persisted[OF Inr[unfolded x]] db' c t
      by (auto simp: indexed_draft_def intro!: exI[of _ ?r'])
  qed
qed

lemma reflow_wf: "draft_reflow env calls i t db = (x, db') \<Longrightarrow> wf_evo db \<Longrightarrow> wf_evo db'"
  using move_reflow[of db env calls i t] by (simp add: evo_move_def)

text \<open>C17: Two drafts are written back, the first is withdrawn, a third is written back: its vector gets the key
  of the second one's, although both chunks are there, and withdrawing the third deletes by that key.
\<close>

theorem withdrawal_reuses_a_number:
  assumes "wf_evo db" and "\<forall>k \<in> set (kb_chunks db). kc_doc_id k \<noteq> ai_doc_id t"
    and "tenant_draft i t db = Some r1" and "kd_status r1 = asc ''approved''" and "draft_reflow e1 p1 i t db = (Inr c1, db1)"
    and "tenant_draft j t db1 = Some r2" and "kd_status r2 = asc ''approved''" and "draft_reflow e2 p2 j t db1 = (Inr c2, db2)"
    and "withdraw_draft e3 i t db2 = Inr db3"
    and "tenant_draft l t db3 = Some r3" and "kd_status r3 = asc ''approved''" and "draft_reflow e4 p4 l t db3 = (Inr c3, db4)"
    and "ke_vector_error (ee_kb e5) = None"
  shows "\<exists>k2 k3 db5. {k2, k3} \<subseteq> set (kb_chunks db4) \<and> kc_id k2 = c2 \<and> kc_id k3 = c3 \<and> c2 \<noteq> c3 \<and>
     vector_pk (kc_doc_id k3) (kc_chunk_idx k3) = vector_pk (kc_doc_id k2) (kc_chunk_idx k2) \<and>
     withdraw_draft e5 l t db4 = Inr db5 \<and> k2 \<in> set (kb_chunks db5) \<and>
     last (kb_commands db5) = DeleteByPk (primary_collection (ee_kb e5)) (vector_pk (kc_doc_id k2) (kc_chunk_idx k2))"
proof -
  have wf1: "wf_evo db1" by (rule reflow_wf[OF assms(5,1)])
  have wf2: "wf_evo db2" by (rule reflow_wf[OF assms(8) wf1])
  have wf3: "wf_evo db3" using move_withdraw[of db2 e3 i t] wf2 assms(9) by (simp add: evo_move_def)
  have wf4: "wf_evo db4" by (rule reflow_wf[OF assms(12) wf3])
  have dist: "distinct (map kd_id (vd_drafts d))" "distinct (map kc_id (kb_chunks d))" if "wf_evo d" for d
    using that by (simp_all add: wf_evo_def)
  have row1: "get_row kd_id i (vd_drafts db) = Some r1 \<and> kd_tenant_id r1 = t" using assms(3) tenant_draft_iff[OF dist(1)[OF assms(1)]] by simp
  have row2: "get_row kd_id j (vd_drafts db1) = Some r2 \<and> kd_tenant_id r2 = t" using assms(6) tenant_draft_iff[OF dist(1)[OF wf1]] by simp
  have row3: "get_row kd_id l (vd_drafts db3) = Some r3 \<and> kd_tenant_id r3 = t" using assms(10) tenant_draft_iff[OF dist(1)[OF wf3]] by simp
  obtain k1 r1' where k1: "kb_chunks db1 = kb_chunks db @ [k1]" "kc_id k1 = c1" "kc_doc_id k1 = ai_doc_id t"
      "vd_drafts db1 = put_row kd_id r1' (vd_drafts db)" "kd_id r1' = i" "kd_tenant_id r1' = t" "kd_status r1' = asc ''indexed''" "kd_chunk_id r1' = c1"
    using reflowed[OF assms(5,3,4) refl] row1 get_row_key[of kd_id i "vd_drafts db" r1] by auto
  have none: "filter (\<lambda>k. kc_doc_id k = ai_doc_id t) (kb_chunks db) = []" using assms(2) by (simp add: filter_empty_conv)
  obtain k2 r2' where k2: "kb_chunks db2 = kb_chunks db1 @ [k2]" "kc_id k2 = c2" "kc_doc_id k2 = ai_doc_id t" "kc_chunk_idx k2 = 1"
      "vd_drafts db2 = put_row kd_id r2' (vd_drafts db1)" "kd_id r2' = j" "kd_status r2' = asc ''indexed''"
    using reflowed[OF assms(8,6,7) refl] row2 get_row_key[of kd_id j "vd_drafts db1" r2] by (auto simp: k1 none)
  have "j \<noteq> i"
    using row2 row1 k1(4,5,7) assms(7) get_row_key[of kd_id i "vd_drafts db" r1] by (auto simp: get_row_put_row)
  then have "get_row kd_id i (vd_drafts db2) = Some r1'"
    using row1 k1(5) k2(6) by (simp add: k2(5) k1(4) get_row_put_row)
  then have td: "tenant_draft i t db2 = Some r1'" using tenant_draft_iff[OF dist(1)[OF wf2]] k1(6) by simp
  have ids: "distinct (map kc_id (kb_chunks db @ [k1, k2]))" using dist(2)[OF wf2] by (simp add: k2(1) k1(1))
  have g1: "get_row kc_id c1 (kb_chunks db2) = Some k1"
    using get_row_distinct[OF dist(2)[OF wf2], of k1] k1(2) by (simp add: k2(1) k1(1))
  have chunks3: "kb_chunks db3 = kb_chunks db @ [k2]"
  proof -
    have "kb_chunks db3 = filter (\<lambda>x. kc_id x \<noteq> c1) (kb_chunks db2)"
      using assms(9) td g1 k1(7,8) by (auto simp: withdraw_draft_def Let_def put_draft_def command_def)
    moreover have "c1 \<notin> kc_id ` set (kb_chunks db)" using ids k1(2) by auto
    then have "filter (\<lambda>x. kc_id x \<noteq> c1) (kb_chunks db) = kb_chunks db" by (intro filter_True) (metis imageI)
    ultimately show ?thesis using ids k1(2) by (auto simp: k2(1) k1(1))
  qed
  obtain k3 r3' where k3: "kb_chunks db4 = kb_chunks db3 @ [k3]" "kc_id k3 = c3" "kc_doc_id k3 = ai_doc_id t" "kc_chunk_idx k3 = 1"
      "vd_drafts db4 = put_row kd_id r3' (vd_drafts db3)" "kd_id r3' = l" "kd_tenant_id r3' = t" "kd_status r3' = asc ''indexed''" "kd_chunk_id r3' = c3"
    using reflowed[OF assms(12,10,11) refl] row3 get_row_key[of kd_id l "vd_drafts db3" r3] by (auto simp: chunks3 none k2(3))
  have ne: "c2 \<noteq> c3" using dist(2)[OF wf4] k2(2) k3(2) by (auto simp: k3(1) chunks3)
  have "get_row kd_id l (vd_drafts db4) = Some r3'" using row3 k3(6) by (simp add: k3(5) get_row_put_row)
  then have td3: "tenant_draft l t db4 = Some r3'" using tenant_draft_iff[OF dist(1)[OF wf4]] k3(7) by simp
  have g3: "get_row kc_id c3 (kb_chunks db4) = Some k3"
    using get_row_distinct[OF dist(2)[OF wf4], of k3] k3(2) by (simp add: k3(1))
  obtain db5 where db5: "withdraw_draft e5 l t db4 = Inr db5" "kb_chunks db5 = filter (\<lambda>x. kc_id x \<noteq> c3) (kb_chunks db4)"
      "last (kb_commands db5) = DeleteByPk (primary_collection (ee_kb e5)) (vector_pk (ai_doc_id t) 1)"
    using td3 g3 k3(3,4,8,9) assms(13) by (simp add: withdraw_draft_def Let_def put_draft_def command_def)
  show ?thesis
    using db5 ne k2(2-4) k3(2-4) by (intro exI[of _ k2] exI[of _ k3] exI[of _ db5]) (simp add: k3(1) chunks3)
qed

definition three_drafts :: evo_db where
  "three_drafts = demo_evo\<lparr>vd_drafts := map (\<lambda>i. blind_draft\<lparr>kd_id := i, kd_status := asc ''approved'', kd_reviewed_at := Some 0\<rparr>) [[2], [3], [4]]\<rparr>"

definition reflows :: "nat \<Rightarrow> evo_env" where
  "reflows n = (demo_evo_env n)\<lparr>ee_quota := 0\<rparr>"

definition first_back :: evo_db where
  "first_back = snd (draft_reflow (reflows 5) demo_calls [2] (asc ''t'') three_drafts)"

definition second_back :: evo_db where
  "second_back = snd (draft_reflow (reflows 6) demo_calls [3] (asc ''t'') first_back)"

definition first_gone :: evo_db where
  "first_gone = projr (withdraw_draft (reflows 7) [2] (asc ''t'') second_back)"

definition third_back :: evo_db where
  "third_back = snd (draft_reflow (reflows 8) demo_calls [4] (asc ''t'') first_gone)"

lemma stored:
  fixes db :: evo_db
  assumes "get_row kc_id [n, 0] (kb_chunks db) = None"
  shows "\<exists>db1. persist_chunk (ee_kb (reflows n)) content title t db = Inr ([n, 0], db1)"
  by (simp add: persist_chunk_def ensure_ai_doc_def Let_def assms reflows_def demo_evo_env_def demo_kb_env_def)

lemma approved_is_reflowed:
  assumes "tenant_draft i t db = Some r" and "kd_status r = asc ''approved''" and "ge_llm_user_links (kd_gap_evidence r) = []"
    and "get_row kc_id [n, 0] (kb_chunks db) = None"
  shows "\<exists>db'. draft_reflow (reflows n) calls i t db = (Inr [n, 0], db')"
proof -
  obtain db1 where db1: "persist_chunk (ee_kb (reflows n)) (kd_draft_content r) (kd_draft_title r) (kd_tenant_id r) db = Inr ([n, 0], db1)"
    using stored[OF assms(4)] by blast
  have quota: "ee_quota (reflows n) = 0" by (simp add: reflows_def)
  have "asc ''approved'' \<noteq> asc ''indexed''" by (simp add: asc_def)
  then show ?thesis
    by (simp add: draft_reflow_def assms(1) reflow_to_kb_def Let_def assms(2,3) quota db1 publish_llm_user_retests_def indexed_draft_def)
qed

definition waiting :: "pystr \<Rightarrow> evo_draft" where
  "waiting i = blind_draft\<lparr>kd_id := i, kd_status := asc ''approved'', kd_reviewed_at := Some 0\<rparr>"

lemma waiting_simps [simp]:
  "kd_id (waiting i) = i" "kd_tenant_id (waiting i) = asc ''t''" "kd_status (waiting i) = asc ''approved''"
  "ge_llm_user_links (kd_gap_evidence (waiting i)) = []"
  "kd_reviewed_at (waiting i) = Some 0" "kd_quality_score (waiting i) = AI_QUALITY_SCORE"
  by (simp_all add: waiting_def blind_draft_def new_draft_def)

lemma three_drafts_rows: "vd_drafts three_drafts = [waiting [2], waiting [3], waiting [4]]" "kb_chunks three_drafts = []"
  by (simp_all add: three_drafts_def waiting_def demo_evo_def)

lemma one_after_the_other:
  "\<exists>a b k1 k2. draft_reflow (reflows 5) demo_calls [2] (asc ''t'') three_drafts = (Inr [5, 0], first_back) \<and>
     draft_reflow (reflows 6) demo_calls [3] (asc ''t'') first_back = (Inr [6, 0], second_back) \<and>
     vd_drafts first_back = [a, waiting [3], waiting [4]] \<and> vd_drafts second_back = [a, b, waiting [4]] \<and>
     kd_id a = [2] \<and> kd_tenant_id a = asc ''t'' \<and> kd_status a = asc ''indexed'' \<and> kd_chunk_id a = [5, 0] \<and> kd_id b = [3] \<and>
     kb_chunks second_back = [k1, k2] \<and> kc_id k1 = [5, 0] \<and> kc_id k2 = [6, 0]"
proof -
  have t1: "tenant_draft [2] (asc ''t'') three_drafts = Some (waiting [2])" by (simp add: tenant_draft_def three_drafts_rows)
  have s1: "draft_reflow (reflows 5) demo_calls [2] (asc ''t'') three_drafts = (Inr [5, 0], first_back)"
    using approved_is_reflowed[OF t1, of 5 demo_calls] by (auto simp: three_drafts_rows first_back_def get_row_def)
  obtain k1 a where a: "vd_drafts first_back = [a, waiting [3], waiting [4]]" "kd_id a = [2]" "kd_tenant_id a = asc ''t''"
      "kd_status a = asc ''indexed''" "kd_chunk_id a = [5, 0]" "kb_chunks first_back = [k1]" "kc_id k1 = [5, 0]"
    using reflowed[OF s1 t1 _ refl] by (auto simp: three_drafts_rows put_row_def)
  have t2: "tenant_draft [3] (asc ''t'') first_back = Some (waiting [3])" by (simp add: tenant_draft_def a)
  have s2: "draft_reflow (reflows 6) demo_calls [3] (asc ''t'') first_back = (Inr [6, 0], second_back)"
    using approved_is_reflowed[OF t2, of 6 demo_calls] by (auto simp: a second_back_def get_row_def)
  obtain k2 b where "vd_drafts second_back = [a, b, waiting [4]]" "kd_id b = [3]" "kb_chunks second_back = [k1, k2]" "kc_id k2 = [6, 0]"
    using reflowed[OF s2 t2 _ refl] by (auto simp: a put_row_def)
  then show ?thesis using a s1 s2 by blast
qed

theorem withdrawal_reuses_a_number_witness:
  "\<exists>k2 k3 db5. {k2, k3} \<subseteq> set (kb_chunks third_back) \<and> kc_id k2 = [6, 0] \<and> kc_id k3 = [8, 0] \<and> [6, 0] \<noteq> ([8, 0] :: pystr) \<and>
     vector_pk (kc_doc_id k3) (kc_chunk_idx k3) = vector_pk (kc_doc_id k2) (kc_chunk_idx k2) \<and>
     withdraw_draft (reflows 9) [4] (asc ''t'') third_back = Inr db5 \<and> k2 \<in> set (kb_chunks db5) \<and>
     last (kb_commands db5) = DeleteByPk (primary_collection (ee_kb (reflows 9))) (vector_pk (kc_doc_id k2) (kc_chunk_idx k2))"
proof -
  obtain a b k1 k2 where two: "draft_reflow (reflows 5) demo_calls [2] (asc ''t'') three_drafts = (Inr [5, 0], first_back)"
      "draft_reflow (reflows 6) demo_calls [3] (asc ''t'') first_back = (Inr [6, 0], second_back)"
      "vd_drafts first_back = [a, waiting [3], waiting [4]]" "vd_drafts second_back = [a, b, waiting [4]]"
      "kd_id a = [2]" "kd_tenant_id a = asc ''t''" "kd_status a = asc ''indexed''" "kd_chunk_id a = [5, 0]" "kd_id b = [3]"
      "kb_chunks second_back = [k1, k2]" "kc_id k1 = [5, 0]" "kc_id k2 = [6, 0]"
    using one_after_the_other by blast
  have t1: "tenant_draft [2] (asc ''t'') three_drafts = Some (waiting [2])" by (simp add: tenant_draft_def three_drafts_rows)
  have t2: "tenant_draft [3] (asc ''t'') first_back = Some (waiting [3])" by (simp add: tenant_draft_def two(3,5))
  have ta: "tenant_draft [2] (asc ''t'') second_back = Some a" by (simp add: tenant_draft_def two(4-6))
  have k: "get_row kc_id [5, 0] (kb_chunks second_back) = Some k1" by (simp add: two(10-12) get_row_def)
  have w: "withdraw_draft (reflows 7) [2] (asc ''t'') second_back = Inr first_gone"
    "vd_drafts first_gone = [a\<lparr>kd_status := asc ''withdrawn''\<rparr>, b, waiting [4]]" "kb_chunks first_gone = [k2]"
    by (simp_all add: first_gone_def withdraw_draft_def ta two(4,5,7-12) k Let_def put_draft_def put_row_def command_def)
  have t3: "tenant_draft [4] (asc ''t'') first_gone = Some (waiting [4])" by (simp add: tenant_draft_def w(2) two(5,9))
  have s3: "draft_reflow (reflows 8) demo_calls [4] (asc ''t'') first_gone = (Inr [8, 0], third_back)"
    using approved_is_reflowed[OF t3, of 8 demo_calls] by (auto simp: w(3) two(12) third_back_def get_row_def)
  have wf: "wf_evo three_drafts" by (simp add: wf_evo_def three_drafts_rows draft_ok_def entries_def is_indexed_def SCORES_def AI_QUALITY_SCORE_def)
  have up: "ke_vector_error (ee_kb (reflows 9)) = None" by (simp add: reflows_def demo_evo_env_def demo_kb_env_def)
  show ?thesis
    by (rule withdrawal_reuses_a_number[OF wf _ t1 _ two(1) t2 _ two(2) w(1) t3 _ s3 up]) (simp_all add: three_drafts_rows)
qed

end
