(* ===== verification/Spec2Isabelle.thy ===== *)
theory Spec2Isabelle
  imports TaskRuns EventClaims WorkflowClaims TicketClaims AgentClaims WorkflowServiceClaims
    Notifications SignoffClaims AlertClaims Sha256Test DrillClaims LlmClaims QueryRouting QualityClaims
    GovernanceClaims ConflictClaims CacheClaims WithdrawClaims
begin

text \<open>
  \<^bold>\<open>grid-qa backend: the verified model\<close>

  grid-qa answers questions of power grid operators from documents and a knowledge graph. Around
  the language models its backend (\<open>src/backend/app\<close>) runs a set of stateful services on a
  relational database, and those are what this development models: the persistent task queue and
  its workers, the outbox of domain events, the engine of stored workflows, the agents and their
  tools, the work tickets, the electronic sign-off of documents, the disposal of alerts, the
  notifications, the fault drills, the routing of requests to language models, the routing of
  questions, the governance of the knowledge base, the quality events, the cache of answers and what a
  blocked document removes, the evidence gaps and the evolution of the knowledge base. The
  definitions are translated from the Python sources; the theorems say what the services guarantee
  over whole runs, for any interleaving of their operations.

  \<^bold>\<open>How the program is modelled.\<close> A table of the database is the list of its rows in the order of
  insertion (\<^theory_text>\<open>Tables\<close>), a row is a record with the columns of the SQLAlchemy model,
  a status column an enumeration. An operation of a service takes the tables and gives the new
  ones; where it raises, the result is \<open>Inl\<close> of the exception and the tables are as before, for
  the session is rolled back. What an operation reads from outside is an argument: the clock (a
  record of the readings \<open>utc c 0\<close>, \<open>utc c 1\<close>, ... that the code makes one after the other, and
  the time \<open>sqlnow c\<close> of the database), the fresh uuid, the rows a pre-check saw in an earlier
  snapshot, the rows other sessions hold locked. A concurrent run is a list of operations, each
  with its own arguments, folded over the tables. Texts are lists of code points; words in Chinese
  are written as lists of numbers. JSON is a datatype, with the printer and the parser of Python's
  json module (\<^theory_text>\<open>PyText\<close>, \<^theory_text>\<open>PyJson\<close>) and the round trip between them.
  Python's floats are modelled by the rounded operations of binary64 on the numbers that occur, its
  Counter, round and integer parsing by their documented results. The language models, the search
  services, password verification, MD5 and the files of rules are arguments of the definitions
  that call them, arbitrary unless a hypothesis says more.

  \<^bold>\<open>The theories.\<close>
  \<^item> \<open>Prelude\<close>, \<open>Tables\<close>, \<open>Json\<close>, \<open>PyStd\<close>, \<open>PyText\<close>, \<open>PyJson\<close>, \<open>PyRe\<close>, \<open>PyNumber\<close>, \<open>PyFloat\<close>: Python texts,
    times, exceptions, tables and their queries, JSON, \<open>datetime.isoformat\<close>, \<open>fnmatch\<close>, regular
    expressions, numbers as texts, floating point numbers. \<open>Growth\<close>: tables whose rows are never
    deleted, and what a relation between a row and its later states says of whole runs.
  \<^item> \<open>Interfaces\<close>: the contracts shared by the components, as locales: operations that keep an
    invariant, operations with a bounded budget, fenced leases, claims that take the best row,
    idempotent insertion, status machines. Each component proves the laws of its own definitions
    by interpreting the locale and reads its properties off the lemmas proved once inside it.
  \<^item> \<open>TaskQueue\<close> (\<open>models/persistent_task.py\<close>, \<open>services/task_queue_service.py\<close>), \<open>TaskWorker\<close>
    (\<open>tasks/registry.py\<close>, \<open>tasks/worker.py\<close>, \<open>tasks/lifecycle.py\<close>); \<open>TaskQueueInv\<close>, \<open>TaskQueueProps\<close>,
    \<open>TaskQueueClaims\<close>, \<open>TaskRuns\<close> hold the transition relation of the rows, the invariant and
    the properties: leases are fenced, claims take the best due task, attempts are bounded,
    enqueueing is idempotent, a worker settles its task.
  \<^item> \<open>EventCenter\<close> (\<open>models/domain_event.py\<close>, \<open>services/event_center_service.py\<close>), \<open>EventDispatch\<close>
    (\<open>events/registry.py\<close>, \<open>events/worker.py\<close>), \<open>EventInv\<close>, \<open>EventClaims\<close>: the outbox, at-least-once
    delivery per subscriber, what a stale dispatcher can do.
  \<^item> \<open>Workflow\<close>, \<open>WorkflowEngine\<close> (\<open>services/workflow_engine.py\<close>), \<open>WorkflowGraph\<close>, \<open>WorkflowRun\<close>,
    \<open>WorkflowClaims\<close>: validation of a graph is exact, the topological order, what a run of a valid
    graph does; \<open>WorkflowService\<close> (\<open>models/workflow.py\<close>, \<open>services/workflow_service.py\<close>,
    \<open>run_workflow_api\<close> of \<open>routers/workflow.py\<close>, \<open>execute_run\<close>) and \<open>WorkflowServiceClaims\<close>.
  \<^item> \<open>TicketAudit\<close> (\<open>services/ticket_audit_service.py\<close>), \<open>Tickets\<close> (\<open>models/ticket.py\<close>,
    \<open>services/ticket_lifecycle_service.py\<close>), \<open>TicketLaws\<close>, \<open>TicketReview\<close>, \<open>TicketClaims\<close>: the
    service refines an abstract life cycle; why the automatic review never passes.
  \<^item> \<open>AgentRuntime\<close> (\<open>services/capability_context.py\<close>, \<open>services/agent_runtime.py\<close>),
    \<open>PersonaStore\<close> (\<open>services/agent_personas.py\<close>, \<open>services/persona_store.py\<close>), \<open>AgentTools\<close>
    (\<open>services/agent_tools.py\<close>), \<open>AgentClaims\<close>: rights of the caller, bounds of the loop, and the
    agents together with the ticket service.
  \<^item> \<open>Access\<close> (\<open>core/permissions.py\<close>, the access check of \<open>services/document_service.py\<close>),
    \<open>Notifications\<close> (\<open>services/notification_service.py\<close>), \<open>Sha256\<close> (hashlib's SHA-256 and UTF-8,
    computed in the logic; \<open>Sha256Test\<close> is a test vector), \<open>Signoff\<close>
    (\<open>services/doc_signoff_service.py\<close>), \<open>SignoffLaws\<close>, \<open>SignoffClaims\<close>: sequential sign-off with a
    hash chain, what the chain protects and what it does not.
  \<^item> \<open>AlertDisposal\<close> (\<open>services/alert_disposal_service.py\<close>), \<open>AlertClaims\<close>: alerts over the task
    queue, the agents and the tickets.
  \<^item> \<open>Drill\<close> (\<open>models/drill.py\<close>, \<open>services/drill_service.py\<close>), \<open>DrillClaims\<close>: scenarios, runs, the
    matching of actions with the checklist and its score; ended runs are final, and the greedy
    score is at least half of the best one.
  \<^item> \<open>ConfigStore\<close> (\<open>clients/redis_client.py\<close>, \<open>services/config_service.py\<close>), \<open>LlmRouter\<close>
    (\<open>providers/llm_router.py\<close>, \<open>providers/factory.py\<close>), \<open>LlmClaims\<close>: the cache with expiry, the
    configuration kept in it, the circuit breaker and the chain of providers: who answers, when a
    provider is out of use, what a restart loses.
  \<^item> \<open>QueryRouting\<close> (\<open>routing/query_classifier.py\<close>, \<open>routing/routing_service.py\<close>, \<open>routing/config.py\<close>): the
    features of a question, the decision tree, the A/B test.
  \<^item> \<open>GovRules\<close>, \<open>Governance\<close> (\<open>models/knowledge_governance.py\<close>,
    \<open>services/knowledge_governance_service.py\<close>, \<open>services/doc_quality_service.py\<close>): the pure rules
    (sentences, polarity, numbers with units, life cycle of documents) and the operations on
    metadata, issues and reviews; \<open>GovernanceClaims\<close>: reviews explain the status of an issue, scans
    stay in their tenant; \<open>ConflictClaims\<close>: the search for contradictions is sound and complete.
  \<^item> \<open>QualityEvents\<close> (the bus, service and policy of quality events), \<open>QualityClaims\<close>: the history of an
    event is a chain of admitted changes.
  \<^item> \<open>AnswerCache\<close> (\<open>citation_cache_version\<close> of \<open>config.py\<close>, \<open>models/qa_cache.py\<close>, \<open>services/cache_persist.py\<close>,
    \<open>services/governance_propagate_service.py\<close>), \<open>CacheClaims\<close>: keys, expiry, the table behind the
    cache server; what is stored is read again, what was dropped is not, and what a blocked document
    removes.
  \<^item> \<open>Backbone\<close> (\<open>services/knowledge_backbone.py\<close>, \<open>vectorize_document\<close> of
    \<open>services/document_service.py\<close>): chunks and vectors, drafts by a language model.
    \<open>EvidenceGap\<close> (\<open>models/evidence_gap.py\<close>, \<open>services/evidence_gap_service.py\<close>, the end points of
    \<open>routers/system.py\<close>), \<open>GapClaims\<close>: gaps leave the pending state for good, a synced gap is in the
    knowledge base, a failed one is not retried.
  \<^item> \<open>PyVector\<close> (signed floats, square roots, \<open>_cosine\<close> and \<open>_mean_vec\<close>), \<open>Evolution\<close>
    (\<open>models/knowledge_evolution.py\<close>, \<open>services/knowledge_evolution_service.py\<close>, the task of
    \<open>tasks/builtin.py\<close>, the reflow of \<open>routers/knowledge_evolution.py\<close>), \<open>EvolutionClaims\<close>: clusters
    partition the questions, drafts follow their review, the chunks of the virtual documents are
    exactly the indexed drafts, the weekly quota holds in every window; \<open>WithdrawClaims\<close>: a
    withdrawal lets two chunks share the key of a vector.

  \<^bold>\<open>Interaction.\<close> The alert service enqueues a task in the transaction of the alert, the worker runs
  its handler, the handler runs an agent, the agent's tools create and submit tickets, and a
  confirmed alert becomes a ticket; \<open>AlertDisposal\<close> has the three tables in one state. A governance
  scan is enqueued with the task queue's own operation and runs as one of its handlers; so does a scan
  of the evolution, whose retests are published to the event outbox. A disliked answer emits a
  quality event that opens an evidence gap; confirmed gaps and approved drafts write documents,
  chunks, vectors and the cache of answers, and \<open>evo_db\<close> extends \<open>gap_db\<close> extends \<open>kb_db\<close> as one state.
  A document blocked by the governance emits the event whose subscriber empties the caches. Workflow
  nodes call retrieval, the graph, the language model or an agent through arguments. Every
  service that changes state for a user checks tenant and status in the row, and the theorems
  quantify over the operations of all sessions.

  \<^bold>\<open>Bounds and fuel.\<close> The agent loop recurses over the iterations its persona allows, the search of a
  workflow's validator over the number of nodes, Kahn's algorithm over the nodes left; the
  regular expression matcher iterates a star at most as often as the text has characters; the
  worker loop and the dispatcher loop take the list of their rounds. Each bound is the code's own
  or is proved to be enough where it is used.

  \<^bold>\<open>Not modelled.\<close> The retrieval pipeline and question answering (glue between language models, the
  vector store and rerankers, whose outcome is theirs), real-time events and proactive runs, the
  memory of conversations, comments on documents, the knowledge graph, the clients of third-party
  services, parsing of documents, metrics and logging, evaluation scripts. Formatting of rows for
  the API is modelled where a property needs it.
\<close>

end
